(* ===== verification/Prelude.thy ===== *)
theory Prelude
  imports Main "HOL-Library.List_Lexorder" "HOL-Library.Char_ord"
begin

text \<open>
  What every component shares: the errors a service call returns, the state-and-error
  computations the handlers are written in, frame reasoning over them, and the byte-string
  routines of the Go standard library that the code calls (\<open>strings.TrimSpace\<close>,
  \<open>strings.ToLower\<close>, \<open>strings.Fields\<close>, \<open>strings.Join\<close>, decimal printing).
  Strings are byte strings; the space and letter tables are the ASCII ones.
\<close>

named_theorems act_simps \<open>unfolding rules of state-and-error computations\<close>
named_theorems frame_intros \<open>introduction rules that follow the shape of a computation\<close>


section \<open>Errors and computations\<close>

text \<open>
  The sentinel errors of internal/service that callers test with \<open>errors.Is\<close>. The message
  text is not modelled. \<open>ErrNoRows\<close> is \<open>sql.ErrNoRows\<close>, which \<open>mapErr\<close> turns into
  \<open>ErrNotFound\<close>; \<open>ErrConstraint\<close> is a statement SQLite refuses (UNIQUE, CHECK or
  foreign key); \<open>ErrOther\<close> is an error without a sentinel. Of internal/integration they are the
  missing token or connection, incomplete settings, and what the desktop side of the broker protocol
  and the refreshing of a token can run into. \<open>Diverges\<close> is not an error value: it
  is the outcome of a call that never returns, whose open transaction is never committed.
\<close>

datatype go_error =
    ErrNoRows
  | ErrNotFound
  | ErrInvalidInput
  | ErrFailedPrecondition
  | ErrCategoryInUse
  | ErrProjectInUse
  | ErrExportTemplateBuiltin
  | ErrCalendarSyncNotConfigured
  | ErrNoConnectedAccounts
  | ErrNeedsReauth
  | ErrConstraint
  | ErrTokenNotFound
  | ErrConnectionNotFound
  | ErrBrokerConfig
  | ErrLocalCredentials
  | ErrBrokerUnavailable
  | ErrBrokerRejected
  | ErrHandoffReplay
  | ErrHandoffExpired
  | ErrHandoffStateMismatch
  | ErrHandoffVerifier
  | ErrInvalidRefreshToken
  | ErrOther
  | Diverges

text \<open>
  A handler reads and writes a state and returns an error or a value. The state an error leaves
  behind is part of the result: a handler that calls the database outside a transaction keeps
  the writes it made before it failed. \<open>in_tx\<close> is the begin/rollback/commit bracket, which
  keeps none of them.
\<close>

type_synonym ('s, 'a) act = "'s \<Rightarrow> (go_error + 'a) \<times> 's"

definition act_ret :: "'a \<Rightarrow> ('s, 'a) act" where
  "act_ret x = (\<lambda>s. (Inr x, s))"

definition act_throw :: "go_error \<Rightarrow> ('s, 'a) act" where
  "act_throw e = (\<lambda>s. (Inl e, s))"

definition act_gets :: "('s \<Rightarrow> 'a) \<Rightarrow> ('s, 'a) act" where
  "act_gets f = (\<lambda>s. (Inr (f s), s))"

definition act_modify :: "('s \<Rightarrow> 's) \<Rightarrow> ('s, unit) act" where
  "act_modify f = (\<lambda>s. (Inr (), f s))"

definition act_bind :: "('s, 'a) act \<Rightarrow> ('a \<Rightarrow> ('s, 'b) act) \<Rightarrow> ('s, 'b) act" where
  "act_bind m k = (\<lambda>s. case m s of (Inl e, t) \<Rightarrow> (Inl e, t) | (Inr x, t) \<Rightarrow> k x t)"

definition act_seq :: "('s, 'a) act \<Rightarrow> ('s, 'b) act \<Rightarrow> ('s, 'b) act" where
  "act_seq m n = act_bind m (\<lambda>_. n)"

definition act_lift :: "(go_error + 'a) \<Rightarrow> ('s, 'a) act" where
  "act_lift r = (\<lambda>s. (r, s))"

text \<open>Row lookups: a missing row is the given error.\<close>

definition act_the :: "go_error \<Rightarrow> 'a option \<Rightarrow> ('s, 'a) act" where
  "act_the e r = (case r of None \<Rightarrow> act_throw e | Some x \<Rightarrow> act_ret x)"

definition in_tx :: "('s, 'a) act \<Rightarrow> ('s, 'a) act" where
  "in_tx m = (\<lambda>s. case m s of (Inl e, t) \<Rightarrow> (Inl e, s) | (Inr x, t) \<Rightarrow> (Inr x, t))"

text \<open>Loops: a body for every element, and one that threads an accumulator.\<close>

primrec for_each :: "('a \<Rightarrow> ('s, 'b) act) \<Rightarrow> 'a list \<Rightarrow> ('s, 'b list) act" where
  "for_each f [] = act_ret []"
| "for_each f (x # xs) =
     act_bind (f x) (\<lambda>y. act_bind (for_each f xs) (\<lambda>ys. act_ret (y # ys)))"

primrec fold_each :: "('a \<Rightarrow> 'b \<Rightarrow> ('s, 'b) act) \<Rightarrow> 'a list \<Rightarrow> 'b \<Rightarrow> ('s, 'b) act" where
  "fold_each f [] acc = act_ret acc"
| "fold_each f (x # xs) acc = act_bind (f x acc) (fold_each f xs)"

text \<open>Calls that only read: a function of the state with an error or a value.\<close>

definition act_reads :: "('s \<Rightarrow> go_error + 'a) \<Rightarrow> ('s, 'a) act" where
  "act_reads f = (\<lambda>s. (f s, s))"

definition res_bind :: "go_error + 'a \<Rightarrow> ('a \<Rightarrow> go_error + 'b) \<Rightarrow> go_error + 'b" where
  "res_bind r k = (case r of Inl e \<Rightarrow> Inl e | Inr x \<Rightarrow> k x)"

definition res_the :: "go_error \<Rightarrow> 'a option \<Rightarrow> go_error + 'a" where
  "res_the e r = (case r of None \<Rightarrow> Inl e | Some x \<Rightarrow> Inr x)"

primrec res_each :: "('a \<Rightarrow> go_error + 'b) \<Rightarrow> 'a list \<Rightarrow> go_error + 'b list" where
  "res_each f [] = Inr []"
| "res_each f (x # xs) = res_bind (f x) (\<lambda>y. res_bind (res_each f xs) (\<lambda>ys. Inr (y # ys)))"

abbreviation result_of :: "(go_error + 'a) \<times> 's \<Rightarrow> go_error + 'a" where
  "result_of \<equiv> fst"

abbreviation state_of :: "(go_error + 'a) \<times> 's \<Rightarrow> 's" where
  "state_of \<equiv> snd"

lemma act_ret_app [act_simps, simp]: "act_ret x s = (Inr x, s)"
  by (simp add: act_ret_def)

lemma act_throw_app [act_simps, simp]: "act_throw e s = (Inl e, s)"
  by (simp add: act_throw_def)

lemma act_gets_app [act_simps, simp]: "act_gets f s = (Inr (f s), s)"
  by (simp add: act_gets_def)

lemma act_modify_app [act_simps, simp]: "act_modify f s = (Inr (), f s)"
  by (simp add: act_modify_def)

lemma act_lift_app [act_simps, simp]: "act_lift r s = (r, s)"
  by (simp add: act_lift_def)

lemma act_the_None [act_simps, simp]: "act_the e None = act_throw e"
  by (simp add: act_the_def)

lemma act_the_Some [act_simps, simp]: "act_the e (Some x) = act_ret x"
  by (simp add: act_the_def)

lemma act_reads_app [act_simps, simp]: "act_reads f s = (f s, s)"
  by (simp add: act_reads_def)

lemma act_bind_reads: "act_bind (act_reads f) k s = (case f s of Inl e \<Rightarrow> (Inl e, s) | Inr x \<Rightarrow> k x s)"
  by (simp add: act_bind_def act_reads_def)

lemma res_bind_simps [simp]: "res_bind (Inl e) k = Inl e" "res_bind (Inr x) k = k x"
  by (simp_all add: res_bind_def)

lemma res_bind_eq_Inr [simp]: "res_bind r k = Inr y \<longleftrightarrow> (\<exists>x. r = Inr x \<and> k x = Inr y)"
  by (cases r) auto

lemma res_the_simps [simp]: "res_the e None = Inl e" "res_the e (Some x) = Inr x"
  by (simp_all add: res_the_def)

lemma res_the_eq_Inr [simp]: "res_the e r = Inr x \<longleftrightarrow> r = Some x"
  by (cases r) auto

lemma res_each_Inr:
  "res_each f xs = Inr ys \<longleftrightarrow> list_all2 (\<lambda>x y. f x = Inr y) xs ys"
  by (induction xs arbitrary: ys) (auto simp: list_all2_Cons1)

lemma res_each_total: "(\<And>x. x \<in> set xs \<Longrightarrow> f x = Inr (g x)) \<Longrightarrow> res_each f xs = Inr (map g xs)"
  by (induction xs) auto

lemma act_bind_Inl: "m s = (Inl e, t) \<Longrightarrow> act_bind m k s = (Inl e, t)"
  by (simp add: act_bind_def)

lemma act_bind_Inr: "m s = (Inr x, t) \<Longrightarrow> act_bind m k s = k x t"
  by (simp add: act_bind_def)

lemma act_bind_ret [act_simps, simp]: "act_bind (act_ret x) k = k x"
  by (simp add: act_bind_def)

lemma act_bind_throw [act_simps, simp]: "act_bind (act_throw e) k = act_throw e"
  by (simp add: act_bind_def act_throw_def)

lemma act_bind_gets [act_simps, simp]: "act_bind (act_gets f) k s = k (f s) s"
  by (simp add: act_bind_def)

lemma act_bind_modify [act_simps, simp]: "act_bind (act_modify f) k s = k () (f s)"
  by (simp add: act_bind_def)

lemma act_bind_lift_Inl [act_simps, simp]: "act_bind (act_lift (Inl e)) k = act_throw e"
  by (simp add: act_bind_def act_throw_def)

lemma act_bind_lift_Inr [act_simps, simp]: "act_bind (act_lift (Inr x)) k = k x"
  by (simp add: act_bind_def)

lemma act_bind_assoc [act_simps]: "act_bind (act_bind m k) h = act_bind m (\<lambda>x. act_bind (k x) h)"
  by (rule ext) (simp add: act_bind_def split: prod.splits sum.splits)

lemma act_bind_eq_Inr_iff:
  "act_bind m k s = (Inr y, u) \<longleftrightarrow> (\<exists>x t. m s = (Inr x, t) \<and> k x t = (Inr y, u))"
  by (auto simp: act_bind_def split: prod.splits sum.splits)

lemma act_bind_eq_Inl_iff:
  "act_bind m k s = (Inl e, u) \<longleftrightarrow>
     m s = (Inl e, u) \<or> (\<exists>x t. m s = (Inr x, t) \<and> k x t = (Inl e, u))"
  by (auto simp: act_bind_def split: prod.splits sum.splits)

lemma act_seq_eq_Inr_iff:
  "act_seq m n s = (Inr y, u) \<longleftrightarrow> (\<exists>x t. m s = (Inr x, t) \<and> n t = (Inr y, u))"
  by (simp add: act_seq_def act_bind_eq_Inr_iff)

lemma act_the_eq_Inr_iff [simp]: "act_the e r s = (Inr x, t) \<longleftrightarrow> r = Some x \<and> t = s"
  by (cases r) auto

lemma in_tx_Inl: "in_tx m s = (Inl e, t) \<longleftrightarrow> t = s \<and> fst (m s) = Inl e"
  by (auto simp: in_tx_def split: prod.splits sum.splits)

lemma in_tx_Inr [simp]: "in_tx m s = (Inr x, t) \<longleftrightarrow> m s = (Inr x, t)"
  by (auto simp: in_tx_def split: prod.splits sum.splits)

lemma in_tx_rollback: "fst (in_tx m s) = Inl e \<Longrightarrow> snd (in_tx m s) = s"
  by (auto simp: in_tx_def split: prod.splits sum.splits)

lemma for_each_length: "for_each f xs s = (Inr ys, t) \<Longrightarrow> length ys = length xs"
  by (induction xs arbitrary: s ys) (auto simp: act_bind_eq_Inr_iff)


section \<open>Frames: what a computation leaves alone\<close>

text \<open>
  \<open>moves R m\<close>: whatever happens, error or not, the state \<open>m\<close> leaves is related by \<open>R\<close> to
  the one it was given. For a preorder \<open>R\<close> the property follows the shape of the computation,
  so a handler's frame follows from the frames of its statements. The locale states what \<open>R\<close>
  must satisfy; each component interprets it for the relations it needs.
\<close>

definition moves :: "('s \<Rightarrow> 's \<Rightarrow> bool) \<Rightarrow> ('s, 'a) act \<Rightarrow> bool" where
  "moves R m \<longleftrightarrow> (\<forall>s. R s (snd (m s)))"

lemma movesD: "moves R m \<Longrightarrow> R s (snd (m s))"
  by (simp add: moves_def)

lemma moves_result: "moves R m \<Longrightarrow> m s = (r, t) \<Longrightarrow> R s t"
  by (metis movesD snd_conv)

locale frame_relation =
  fixes R :: "'s \<Rightarrow> 's \<Rightarrow> bool"
  assumes frame_refl: "R s s"
    and frame_trans: "R s t \<Longrightarrow> R t u \<Longrightarrow> R s u"
begin

lemma moves_ret: "moves R (act_ret x)"
  by (simp add: moves_def frame_refl)

lemma moves_throw: "moves R (act_throw e)"
  by (simp add: moves_def frame_refl)

lemma moves_gets: "moves R (act_gets f)"
  by (simp add: moves_def frame_refl)

lemma moves_lift: "moves R (act_lift r)"
  by (simp add: moves_def frame_refl)

lemma moves_reads: "moves R (act_reads f)"
  by (simp add: moves_def frame_refl)

lemma moves_the: "moves R (act_the e r)"
  by (cases r) (simp_all add: moves_ret moves_throw)

lemma moves_bind: "moves R m \<Longrightarrow> (\<And>x. moves R (k x)) \<Longrightarrow> moves R (act_bind m k)"
  unfolding moves_def act_bind_def
  by (auto split: prod.splits sum.splits intro: frame_trans) (metis frame_trans snd_conv)+

text \<open>Binds that remember what was read.\<close>

lemma moves_bind_reads: "(\<And>s x. f s = Inr x \<Longrightarrow> moves R (k x)) \<Longrightarrow> moves R (act_bind (act_reads f) k)"
  unfolding moves_def by (auto simp: act_bind_reads frame_refl split: sum.splits)

lemma moves_bind_gets: "(\<And>s. moves R (k (f s))) \<Longrightarrow> moves R (act_bind (act_gets f) k)"
  unfolding moves_def by simp

lemma moves_bind_lift: "(\<And>x. r = Inr x \<Longrightarrow> moves R (k x)) \<Longrightarrow> moves R (act_bind (act_lift r) k)"
  by (cases r) (simp_all add: moves_throw)

lemma moves_seq: "moves R m \<Longrightarrow> moves R n \<Longrightarrow> moves R (act_seq m n)"
  by (simp add: act_seq_def moves_bind)

lemma moves_in_tx: "moves R m \<Longrightarrow> moves R (in_tx m)"
  unfolding moves_def in_tx_def
  by (auto split: prod.splits sum.splits simp: frame_refl) (metis snd_conv)

lemma moves_for_each: "(\<And>x. x \<in> set xs \<Longrightarrow> moves R (f x)) \<Longrightarrow> moves R (for_each f xs)"
  by (induction xs) (simp_all add: moves_ret moves_bind)

lemma moves_fold_each:
  "(\<And>x acc. x \<in> set xs \<Longrightarrow> moves R (f x acc)) \<Longrightarrow> moves R (fold_each f xs acc)"
  by (induction xs arbitrary: acc) (simp_all add: moves_ret moves_bind)

lemma moves_if: "(b \<Longrightarrow> moves R m) \<Longrightarrow> (\<not> b \<Longrightarrow> moves R n) \<Longrightarrow> moves R (if b then m else n)"
  by simp

lemma moves_option:
  "(x = None \<Longrightarrow> moves R m) \<Longrightarrow> (\<And>y. x = Some y \<Longrightarrow> moves R (k y)) \<Longrightarrow>
     moves R (case x of None \<Rightarrow> m | Some y \<Rightarrow> k y)"
  by (cases x) simp_all

lemma moves_prod: "(\<And>a b. p = (a, b) \<Longrightarrow> moves R (k a b)) \<Longrightarrow> moves R (case p of (a, b) \<Rightarrow> k a b)"
  by (cases p) simp

lemmas frame_rules = moves_ret moves_throw moves_gets moves_lift moves_reads moves_the moves_bind moves_seq
  moves_in_tx moves_for_each moves_fold_each moves_if moves_option moves_prod

end


section \<open>Calls that change nothing when they fail\<close>

definition readonly :: "('s, 'a) act \<Rightarrow> bool" where
  "readonly m \<longleftrightarrow> (\<forall>s. snd (m s) = s)"

definition atomic :: "('s, 'a) act \<Rightarrow> bool" where
  "atomic m \<longleftrightarrow> (\<forall>s e t. m s = (Inl e, t) \<longrightarrow> t = s)"

definition never_fails :: "('s, 'a) act \<Rightarrow> bool" where
  "never_fails m \<longleftrightarrow> (\<forall>s. \<exists>x t. m s = (Inr x, t))"

lemma atomicD: "atomic m \<Longrightarrow> m s = (Inl e, t) \<Longrightarrow> t = s"
  by (simp add: atomic_def)

lemma readonly_simps [simp]:
  "readonly (act_ret x)" "readonly (act_throw e)" "readonly (act_gets f)" "readonly (act_reads g)"
  "readonly (act_lift r)"
  by (simp_all add: readonly_def)

lemma readonly_the [simp]: "readonly (act_the e r)"
  by (cases r) simp_all

lemma readonly_bind: "readonly m \<Longrightarrow> (\<And>x. readonly (k x)) \<Longrightarrow> readonly (act_bind m k)"
  unfolding readonly_def act_bind_def by (auto split: prod.splits sum.splits) (metis snd_conv)+

lemma never_fails_ret [simp]: "never_fails (act_ret x)"
  by (simp add: never_fails_def)

lemma atomic_readonly: "readonly m \<Longrightarrow> atomic m"
  unfolding readonly_def atomic_def by (metis snd_conv)

lemma atomic_in_tx: "atomic (in_tx m)"
  by (auto simp: atomic_def in_tx_Inl)

lemma atomic_bind_readonly:
  assumes "readonly m" "\<And>x. atomic (k x)"
  shows "atomic (act_bind m k)"
proof -
  have "t = s" if "act_bind m k s = (Inl e, t)" for s e t
  proof (cases "m s")
    case (Pair r u)
    then have "u = s" using assms(1) by (metis readonly_def snd_conv)
    with Pair that assms(2) show ?thesis by (cases r) (auto simp: act_bind_def dest: atomicD)
  qed
  then show ?thesis by (simp add: atomic_def)
qed

lemma atomic_bind_never_fails:
  assumes "atomic m" "\<And>x. never_fails (k x)"
  shows "atomic (act_bind m k)"
  unfolding atomic_def
proof (intro allI impI)
  fix s e t assume "act_bind m k s = (Inl e, t)"
  then consider "m s = (Inl e, t)" | x u where "k x u = (Inl e, t)"
    by (auto simp: act_bind_eq_Inl_iff)
  then show "t = s"
  proof cases
    case 1
    then show ?thesis by (rule atomicD [OF assms(1)])
  next
    case 2
    then show ?thesis using assms(2) [of x] unfolding never_fails_def by (metis Pair_inject sum.distinct(1))
  qed
qed

lemma atomic_seq_ret: "atomic m \<Longrightarrow> atomic (act_seq m (act_ret x))"
  unfolding act_seq_def by (rule atomic_bind_never_fails) simp_all

lemma atomic_if: "(b \<Longrightarrow> atomic m) \<Longrightarrow> (\<not> b \<Longrightarrow> atomic n) \<Longrightarrow> atomic (if b then m else n)"
  by simp

lemma atomic_prod: "(\<And>a b. p = (a, b) \<Longrightarrow> atomic (k a b)) \<Longrightarrow> atomic (case p of (a, b) \<Rightarrow> k a b)"
  by (cases p) simp

lemma atomic_option:
  "(x = None \<Longrightarrow> atomic m) \<Longrightarrow> (\<And>y. x = Some y \<Longrightarrow> atomic (k y)) \<Longrightarrow>
     atomic (case x of None \<Rightarrow> m | Some y \<Rightarrow> k y)"
  by (cases x) simp_all

lemmas atomic_rules = atomic_in_tx atomic_bind_readonly atomic_seq_ret atomic_if atomic_prod
  atomic_option readonly_simps readonly_the readonly_simps [THEN atomic_readonly]

section \<open>Byte strings\<close>

definition is_space :: "char \<Rightarrow> bool" where
  "is_space c \<longleftrightarrow> c \<in> {CHR 0x09, CHR 0x0A, CHR 0x0B, CHR 0x0C, CHR 0x0D, CHR '' ''}"

text \<open>\<open>strings.TrimSpace\<close>.\<close>

definition trim_space :: "string \<Rightarrow> string" where
  "trim_space s = rev (dropWhile is_space (rev (dropWhile is_space s)))"

text \<open>\<open>strings.ToLower\<close> and \<open>strings.ToUpper\<close>.\<close>

definition lower_char :: "char \<Rightarrow> char" where
  "lower_char c = (let n = (of_char c :: nat) in if 65 \<le> n \<and> n \<le> 90 then char_of (n + 32) else c)"

definition upper_char :: "char \<Rightarrow> char" where
  "upper_char c = (let n = (of_char c :: nat) in if 97 \<le> n \<and> n \<le> 122 then char_of (n - 32) else c)"

definition to_lower :: "string \<Rightarrow> string" where
  "to_lower s = map lower_char s"

definition to_upper :: "string \<Rightarrow> string" where
  "to_upper s = map upper_char s"

text \<open>\<open>strings.Join\<close>, \<open>strings.Contains\<close> and \<open>strings.Fields\<close> (the maximal runs without spaces).\<close>

fun join_with :: "string \<Rightarrow> string list \<Rightarrow> string" where
  "join_with sep [] = []"
| "join_with sep [x] = x"
| "join_with sep (x # y # ys) = x @ sep @ join_with sep (y # ys)"

fun contains :: "string \<Rightarrow> string \<Rightarrow> bool" where
  "contains t [] \<longleftrightarrow> t = []"
| "contains t (c # cs) \<longleftrightarrow> take (length t) (c # cs) = t \<or> contains t cs"

text \<open>\<open>strings.HasPrefix\<close> and \<open>strings.HasSuffix\<close>.\<close>

definition has_prefix :: "string \<Rightarrow> string \<Rightarrow> bool" where
  "has_prefix p s \<longleftrightarrow> take (length p) s = p"

definition has_suffix :: "string \<Rightarrow> string \<Rightarrow> bool" where
  "has_suffix p s \<longleftrightarrow> has_prefix (rev p) (rev s)"

fun split_fields :: "string \<Rightarrow> string \<Rightarrow> string list" where
  "split_fields acc [] = (if acc = [] then [] else [rev acc])"
| "split_fields acc (c # cs) =
     (if is_space c then (if acc = [] then split_fields [] cs else rev acc # split_fields [] cs)
      else split_fields (c # acc) cs)"

definition fields_of :: "string \<Rightarrow> string list" where
  "fields_of s = split_fields [] s"

text \<open>Decimal digits and \<open>fmt.Sprint\<close> of an integer.\<close>

definition digit_char :: "nat \<Rightarrow> char" where
  "digit_char n = char_of (48 + n)"

definition digit_val :: "char \<Rightarrow> nat" where
  "digit_val c = of_char c - 48"

definition is_digit :: "char \<Rightarrow> bool" where
  "is_digit c \<longleftrightarrow> 48 \<le> (of_char c :: nat) \<and> (of_char c :: nat) \<le> 57"

fun show_nat :: "nat \<Rightarrow> string" where
  "show_nat n = (if n < 10 then [digit_char n] else show_nat (n div 10) @ [digit_char (n mod 10)])"

declare show_nat.simps [simp del]

definition show_int :: "int \<Rightarrow> string" where
  "show_int i = (if i < 0 then CHR ''-'' # show_nat (nat (- i)) else show_nat (nat i))"

definition digits_val :: "string \<Rightarrow> nat" where
  "digits_val s = foldl (\<lambda>acc c. 10 * acc + digit_val c) 0 s"

lemma digit_val_char [simp]: "n < 10 \<Longrightarrow> digit_val (digit_char n) = n"
  by (simp add: digit_val_def digit_char_def)

lemma is_digit_char [simp]: "n < 10 \<Longrightarrow> is_digit (digit_char n)"
  by (simp add: is_digit_def digit_char_def)

lemma digits_val_Nil [simp]: "digits_val [] = 0"
  by (simp add: digits_val_def)

lemma digits_val_snoc [simp]: "digits_val (s @ [c]) = 10 * digits_val s + digit_val c"
  by (simp add: digits_val_def)

lemma show_nat_all_digits: "list_all is_digit (show_nat n)"
  by (induction n rule: show_nat.induct) (subst show_nat.simps, simp)

lemma show_nat_not_Nil [simp]: "show_nat n \<noteq> []"
  by (subst show_nat.simps) simp

text \<open>Printing and reading a number are inverse, so two numbers never print alike.\<close>

lemma digits_val_show_nat [simp]: "digits_val (show_nat n) = n"
proof (induction n rule: show_nat.induct)
  case (1 n)
  show ?case
  proof (cases "n < 10")
    case True
    then show ?thesis
      by (subst show_nat.simps) (simp add: digits_val_def)
  next
    case False
    with "1.IH" have "digits_val (show_nat (n div 10)) = n div 10" by simp
    with False show ?thesis
      by (subst show_nat.simps) simp
  qed
qed

lemma show_nat_inject [simp]: "show_nat m = show_nat n \<longleftrightarrow> m = n"
  by (metis digits_val_show_nat)

lemma show_nat_no_sign: "CHR ''-'' \<notin> set (show_nat n)"
proof
  assume "CHR ''-'' \<in> set (show_nat n)"
  with show_nat_all_digits [of n] have "is_digit CHR ''-''"
    by (auto simp: list_all_iff)
  then show False by (simp add: is_digit_def)
qed

lemma show_int_inject [simp]: "show_int i = show_int j \<longleftrightarrow> i = j"
proof -
  have "show_nat n \<noteq> CHR ''-'' # s" for n s
    using show_nat_no_sign [of n] by auto
  then show ?thesis
    by (auto simp: show_int_def) (metis)+
qed

lemma digit_char_less_iff: "m < 10 \<Longrightarrow> n < 10 \<Longrightarrow> digit_char m < digit_char n \<longleftrightarrow> m < n"
  by (simp add: digit_char_def less_char_def)

lemma digit_char_eq_iff [simp]: "m < 10 \<Longrightarrow> n < 10 \<Longrightarrow> digit_char m = digit_char n \<longleftrightarrow> m = n"
  by (metis digit_val_char)


section \<open>Sorting and searching\<close>

lemma map_insort_key: "map g (insort_key (\<lambda>y. f (g y)) x xs) = insort_key f (g x) (map g xs)"
  by (induction xs) auto

lemma map_sort_key: "map g (sort_key (\<lambda>y. f (g y)) xs) = sort_key f (map g xs)"
  by (induction xs) (simp_all add: map_insort_key)

lemma find_SomeD: "find P xs = Some x \<Longrightarrow> x \<in> set xs \<and> P x"
  by (auto simp: find_Some_iff)

lemma find_single:
  assumes "x \<in> set xs" "P x" "\<And>y. y \<in> set xs \<Longrightarrow> P y \<Longrightarrow> y = x"
  shows "find P xs = Some x"
proof -
  obtain y where y: "find P xs = Some y"
    using assms(1,2) by (cases "find P xs") (auto simp: find_None_iff)
  then have "y \<in> set xs" "P y" by (auto simp: find_Some_iff)
  with assms(3) y show ?thesis by auto
qed

lemma find_append:
  "find P (xs @ ys) = (case find P xs of None \<Rightarrow> find P ys | Some x \<Rightarrow> Some x)"
  by (induction xs) auto

lemma find_map: "find P (map f xs) = map_option f (find (P \<circ> f) xs)"
  by (induction xs) auto

lemma find_cong_set: "(\<And>x. x \<in> set xs \<Longrightarrow> P x = Q x) \<Longrightarrow> find P xs = find Q xs"
  by (induction xs) auto


text \<open>Cutting at both ends, for any characters.\<close>

lemma cut_shape:
  assumes "u = rev (dropWhile P (rev (dropWhile P s)))"
  shows "u = [] \<or> \<not> P (hd u) \<and> \<not> P (last u)" "set u \<subseteq> set s" "length u \<le> length s"
proof -
  let ?w = "dropWhile P s"
  have "rev (rev ?w) = rev (takeWhile P (rev ?w) @ dropWhile P (rev ?w))" by simp
  then obtain v where w: "?w = u @ v" unfolding rev_append assms by simp
  have r: "dropWhile P (rev ?w) = rev u" unfolding assms by simp
  show "u = [] \<or> \<not> P (hd u) \<and> \<not> P (last u)"
  proof (cases "u = []")
    case False
    then have "?w \<noteq> []" "rev u \<noteq> []" using w by simp_all
    then have "\<not> P (hd ?w)" "\<not> P (hd (rev u))" using hd_dropWhile [of P s] hd_dropWhile [of P "rev ?w"] r by simp_all
    then show ?thesis unfolding w hd_rev using False by simp
  qed simp
  show "set u \<subseteq> set s" using set_dropWhileD [of _ P s] unfolding w by auto
  show "length u \<le> length s" using length_dropWhile_le [of P s] unfolding w by simp
qed

lemma cut_id: "s = [] \<or> \<not> P (hd s) \<and> \<not> P (last s) \<Longrightarrow> rev (dropWhile P (rev (dropWhile P s))) = s"
proof -
  assume "s = [] \<or> \<not> P (hd s) \<and> \<not> P (last s)"
  then have "dropWhile P s = s" "dropWhile P (rev s) = rev s" by (auto simp: dropWhile_eq_self_iff hd_rev)
  then show ?thesis by simp
qed

lemma trim_trim [simp]: "trim_space (trim_space s) = trim_space s"
proof -
  have "trim_space s = [] \<or> \<not> is_space (hd (trim_space s)) \<and> \<not> is_space (last (trim_space s))"
    by (rule cut_shape(1) [OF trim_space_def])
  then show ?thesis using cut_id [of "trim_space s" is_space] by (simp add: trim_space_def)
qed

end
