(* ===== verification/Json.thy ===== *)
theory Json
  imports Prelude
begin

text \<open>JSON values, and what encoding/json does with them when it fills a struct.\<close>

text \<open>A decoded value; \<open>JText\<close> is text that is not JSON.\<close>

datatype json =
    JNull
  | JBool bool
  | JInt int
  | JStr string
  | JList "json list"
  | JObj "(string \<times> json) list"
  | JText string

text \<open>
  \<open>json.Unmarshal\<close> into the struct: keys match fields whatever their case, a later key wins, null
  leaves a field as it is, an unknown key is skipped and a value of another type is an error.
\<close>

definition read_text :: "json \<Rightarrow> string \<Rightarrow> string option" where
  "read_text j old = (case j of JStr s \<Rightarrow> Some s | JNull \<Rightarrow> Some old | _ \<Rightarrow> None)"

primrec read_each :: "('a \<Rightarrow> 's \<Rightarrow> 's option) \<Rightarrow> 'a list \<Rightarrow> 's \<Rightarrow> 's option" where
  "read_each f [] s = Some s"
| "read_each f (x # xs) s = (case f x s of None \<Rightarrow> None | Some t \<Rightarrow> read_each f xs t)"

definition read_flag :: "json \<Rightarrow> bool \<Rightarrow> bool option" where
  "read_flag j old = (case j of JBool b \<Rightarrow> Some b | JNull \<Rightarrow> Some old | _ \<Rightarrow> None)"

definition read_int64 :: "json \<Rightarrow> int \<Rightarrow> int option" where
  "read_int64 j old = (case j of
     JInt n \<Rightarrow> if - (2 ^ 63) \<le> n \<and> n < 2 ^ 63 then Some n else None | JNull \<Rightarrow> Some old | _ \<Rightarrow> None)"

text \<open>A member of a \<open>map[string]any\<close>: the key is compared as it is, and the last one wins.\<close>

definition obj_get :: "string \<Rightarrow> json \<Rightarrow> json option" where
  "obj_get k j = (case j of JObj kvs \<Rightarrow> map_of (rev kvs) k | _ \<Rightarrow> None)"

end
