(* ===== verification/GoTime.thy ===== *)
theory GoTime
  imports Prelude
begin

text \<open>
  The part of Go's \<open>time\<close> package the code uses. An instant is an \<open>int\<close> of nanoseconds since
  the Unix epoch, a calendar day an \<open>int\<close> of days since 1970-01-01. The proleptic Gregorian
  calendar, the layouts \<open>2006-01-02\<close> and \<open>time.RFC3339\<close> (in UTC, as the code always formats)
  and \<open>time.Date\<close> / \<open>Time.In\<close> for a location are defined here. A location is the function
  from Unix seconds to the UTC offset in force: the time-zone database itself is a parameter of
  the definitions that load locations. The lemmas give the round trips of dates and instants
  through their texts and show that date texts are ordered as the days they name.
\<close>

named_theorems calendar_simps \<open>calendar arithmetic\<close>


section \<open>The Gregorian calendar\<close>

definition leap_year :: "int \<Rightarrow> bool" where
  "leap_year y \<longleftrightarrow> y mod 4 = 0 \<and> (y mod 100 \<noteq> 0 \<or> y mod 400 = 0)"

definition days_in_month :: "int \<Rightarrow> int \<Rightarrow> int" where
  "days_in_month y m =
     (if m = 2 then (if leap_year y then 29 else 28)
      else if m = 4 \<or> m = 6 \<or> m = 9 \<or> m = 11 then 30 else 31)"

text \<open>Days from 0000-01-01 to the first of January of year \<open>y\<close>, and to the first of a month.\<close>

definition days_before_year :: "int \<Rightarrow> int" where
  "days_before_year y = 365 * y + (y + 3) div 4 - (y + 99) div 100 + (y + 399) div 400"

definition days_before_month :: "int \<Rightarrow> int \<Rightarrow> int" where
  "days_before_month y m =
     (let l = (if leap_year y then 1 else 0) in
      if m \<le> 1 then 0 else if m = 2 then 31 else if m = 3 then 59 + l else if m = 4 then 90 + l
      else if m = 5 then 120 + l else if m = 6 then 151 + l else if m = 7 then 181 + l
      else if m = 8 then 212 + l else if m = 9 then 243 + l else if m = 10 then 273 + l
      else if m = 11 then 304 + l else if m = 12 then 334 + l else 365 + l)"

definition unix_epoch_day :: int where
  "unix_epoch_day = 719528"

text \<open>The day \<open>time.Date\<close> denotes: month and day are normalised as the package documents.\<close>

definition day_of_civil :: "int \<Rightarrow> int \<Rightarrow> int \<Rightarrow> int" where
  "day_of_civil y m d =
     (let y' = y + (m - 1) div 12; m' = (m - 1) mod 12 + 1
      in days_before_year y' + days_before_month y' m' + d - 1 - unix_epoch_day)"

definition year_of_day :: "int \<Rightarrow> int" where
  "year_of_day n =
     (let k = n + unix_epoch_day; y = (400 * k) div 146097
      in if k < days_before_year y then y - 1
         else if days_before_year (y + 1) \<le> k then y + 1 else y)"

definition month_of_yday :: "int \<Rightarrow> int \<Rightarrow> int" where
  "month_of_yday y r =
     (if r < days_before_month y 2 then 1 else if r < days_before_month y 3 then 2
      else if r < days_before_month y 4 then 3 else if r < days_before_month y 5 then 4
      else if r < days_before_month y 6 then 5 else if r < days_before_month y 7 then 6
      else if r < days_before_month y 8 then 7 else if r < days_before_month y 9 then 8
      else if r < days_before_month y 10 then 9 else if r < days_before_month y 11 then 10
      else if r < days_before_month y 12 then 11 else 12)"

text \<open>\<open>Time.Date\<close>: year, month and day of a day number.\<close>

definition civil_of_day :: "int \<Rightarrow> int \<times> int \<times> int" where
  "civil_of_day n =
     (let y = year_of_day n; r = n + unix_epoch_day - days_before_year y; m = month_of_yday y r
      in (y, m, r - days_before_month y m + 1))"

definition valid_civil :: "int \<Rightarrow> int \<Rightarrow> int \<Rightarrow> bool" where
  "valid_civil y m d \<longleftrightarrow> 1 \<le> m \<and> m \<le> 12 \<and> 1 \<le> d \<and> d \<le> days_in_month y m"

text \<open>\<open>Time.Weekday\<close>, numbered from Sunday.\<close>

definition weekday_of_day :: "int \<Rightarrow> int" where
  "weekday_of_day n = (n + 4) mod 7"

lemma div_step:
  fixes y c k :: int
  assumes c: "0 < c" "c = k + 1"
  shows "(y + 1 + k) div c = (y + k) div c + (if y mod c = 0 then 1 else 0)"
proof -
  define q r where "q = y div c" and "r = y mod c"
  have y: "y = c * q + r" and r: "0 \<le> r" "r < c"
    using c(1) by (simp_all add: q_def r_def)
  have "(y + 1 + k) div c = q + 1"
    using r c by (intro int_div_pos_eq [where r = r]) (simp_all add: y algebra_simps)
  moreover have "(y + k) div c = (if r = 0 then q else q + 1)"
  proof (cases "r = 0")
    case True
    then have "(y + k) div c = q"
      using c by (intro int_div_pos_eq [where r = k]) (simp_all add: y)
    with True show ?thesis by simp
  next
    case False
    then have "(y + k) div c = q + 1"
      using r c by (intro int_div_pos_eq [where r = "r - 1"]) (simp_all add: y algebra_simps)
    with False show ?thesis by simp
  qed
  ultimately show ?thesis by (simp add: r_def)
qed

lemma days_before_year_step:
  "days_before_year (y + 1) = days_before_year y + (if leap_year y then 366 else 365)"
proof -
  have m: "y mod 400 = 0 \<Longrightarrow> y mod 100 = 0" "y mod 100 = 0 \<Longrightarrow> y mod 4 = 0"
    using mod_mod_cancel [of 100 400 y] mod_mod_cancel [of 4 100 y] by simp_all
  have d4: "(y + 1 + 3) div 4 = (y + 3) div 4 + (if y mod 4 = 0 then 1 else 0)"
    by (rule div_step) simp_all
  have d100: "(y + 1 + 99) div 100 = (y + 99) div 100 + (if y mod 100 = 0 then 1 else 0)"
    by (rule div_step) simp_all
  have d400: "(y + 1 + 399) div 400 = (y + 399) div 400 + (if y mod 400 = 0 then 1 else 0)"
    by (rule div_step) simp_all
  define a b c where "a = (y + 3) div 4" and "b = (y + 99) div 100" and "c = (y + 399) div 400"
  show ?thesis
    unfolding days_before_year_def leap_year_def d4 d100 d400 a_def [symmetric] b_def [symmetric]
      c_def [symmetric]
    using m by (cases "y mod 4 = 0"; cases "y mod 100 = 0"; cases "y mod 400 = 0") simp_all
qed

lemma div_bounds:
  fixes x c :: int
  shows "0 < c \<Longrightarrow> c * (x div c) \<le> x \<and> x < c * (x div c) + c"
  using mult_div_mod_eq [of c x] pos_mod_bound [of c x] pos_mod_sign [of c x] by linarith

lemma days_before_year_bounds:
  "146097 * y \<le> 400 * days_before_year y + 400 \<and> 400 * days_before_year y \<le> 146097 * y + 800"
proof -
  define a b c where abc: "a = (y + 3) div 4" "b = (y + 99) div 100" "c = (y + 399) div 400"
  have "4 * a \<le> y + 3 \<and> y + 3 < 4 * a + 4" "100 * b \<le> y + 99 \<and> y + 99 < 100 * b + 100"
    "400 * c \<le> y + 399 \<and> y + 399 < 400 * c + 400"
    unfolding abc by (rule div_bounds, simp)+
  then show ?thesis
    unfolding days_before_year_def abc [symmetric] by simp
qed

lemma year_of_day_bounds:
  "days_before_year (year_of_day n) \<le> n + unix_epoch_day
   \<and> n + unix_epoch_day < days_before_year (year_of_day n + 1)"
proof -
  define k where "k = n + unix_epoch_day"
  define y where "y = (400 * k) div 146097"
  have y: "146097 * y \<le> 400 * k" "400 * k < 146097 * y + 146097"
    using div_bounds [of 146097 "400 * k"] unfolding y_def by simp_all
  have lo: "days_before_year (y - 1) \<le> k"
    using days_before_year_bounds [of "y - 1"] y(1) by simp
  have hi: "k < days_before_year (y + 2)"
    using days_before_year_bounds [of "y + 2"] y(2) by simp
  show ?thesis
    using lo hi unfolding year_of_day_def Let_def
    by (auto simp flip: k_def y_def simp: add.assoc)
qed

lemma days_before_year_strict: "y < z \<Longrightarrow> days_before_year y < days_before_year z"
proof -
  have step: "days_before_year y < days_before_year (y + 1 + int n)" for n
  proof (induction n)
    case 0
    then show ?case by (simp add: days_before_year_step)
  next
    case (Suc n)
    then show ?case
      using days_before_year_step [of "y + 1 + int n"] by (simp add: ac_simps split: if_splits)
  qed
  assume "y < z"
  then show ?thesis
    using step [of "nat (z - y - 1)"] by simp
qed

lemma year_of_day_unique:
  assumes "days_before_year y \<le> n + unix_epoch_day" and "n + unix_epoch_day < days_before_year (y + 1)"
  shows "year_of_day n = y"
proof (rule ccontr)
  assume neq: "year_of_day n \<noteq> y"
  have b: "days_before_year (year_of_day n) \<le> n + unix_epoch_day"
    "n + unix_epoch_day < days_before_year (year_of_day n + 1)"
    using year_of_day_bounds by blast+
  show False
  proof (cases "year_of_day n < y")
    case True
    then have "days_before_year (year_of_day n + 1) \<le> days_before_year y"
      using days_before_year_strict [of "year_of_day n + 1" y] by (cases "year_of_day n + 1 = y") auto
    with assms(1) b(2) show False by simp
  next
    case False
    with neq have "days_before_year (y + 1) \<le> days_before_year (year_of_day n)"
      using days_before_year_strict [of "y + 1" "year_of_day n"] by (cases "y + 1 = year_of_day n") auto
    with assms(2) b(1) show False by simp
  qed
qed

lemma month_cases:
  fixes m :: int
  assumes "1 \<le> m" and "m \<le> 12"
  obtains "m = 1" | "m = 2" | "m = 3" | "m = 4" | "m = 5" | "m = 6" | "m = 7" | "m = 8"
    | "m = 9" | "m = 10" | "m = 11" | "m = 12"
proof -
  from assms have "m = 1 \<or> m = 2 \<or> m = 3 \<or> m = 4 \<or> m = 5 \<or> m = 6 \<or> m = 7 \<or> m = 8 \<or> m = 9
      \<or> m = 10 \<or> m = 11 \<or> m = 12" by presburger
  then show ?thesis using that by blast
qed

lemma month_of_yday_month:
  assumes "1 \<le> m" and "m \<le> 12" and "1 \<le> d" and "d \<le> days_in_month y m"
  shows "month_of_yday y (days_before_month y m + d - 1) = m"
    and "days_before_month y m + d - 1 < (if leap_year y then 366 else 365)"
  using assms
  by (cases m rule: month_cases;
      auto simp: month_of_yday_def days_before_month_def days_in_month_def Let_def split: if_splits)+

lemma month_of_yday_cases:
  obtains "month_of_yday y r = 1" "r < days_before_month y 2"
  | m where "m \<in> {2, 3, 4, 5, 6, 7, 8, 9, 10, 11}" "month_of_yday y r = m"
      "days_before_month y m \<le> r" "r < days_before_month y (m + 1)"
  | "month_of_yday y r = 12" "days_before_month y 12 \<le> r"
proof (cases "r < days_before_month y 2")
  case True
  then show ?thesis using that(1) by (simp add: month_of_yday_def)
next
  case False
  show ?thesis
  proof (cases "days_before_month y 12 \<le> r")
    case True
    then have "\<not> r < days_before_month y m" if "m \<in> {2, 3, 4, 5, 6, 7, 8, 9, 10, 11, 12}" for m
      using that by (auto simp: days_before_month_def Let_def)
    then show ?thesis using that(3) True by (simp add: month_of_yday_def)
  next
    case no12: False
    show ?thesis
      using that(2) [of "month_of_yday y r"] False no12
      by (simp add: month_of_yday_def not_less split: if_splits)
  qed
qed

lemma days_before_month_step:
  "1 \<le> m \<Longrightarrow> m \<le> 12 \<Longrightarrow> days_before_month y (m + 1) = days_before_month y m + days_in_month y m"
  by (cases m rule: month_cases) (simp_all add: days_before_month_def days_in_month_def)

lemma month_of_yday_bounds:
  assumes "0 \<le> r" and "r < (if leap_year y then 366 else 365)"
  shows "1 \<le> month_of_yday y r \<and> month_of_yday y r \<le> 12
     \<and> 1 \<le> r - days_before_month y (month_of_yday y r) + 1
     \<and> r - days_before_month y (month_of_yday y r) + 1 \<le> days_in_month y (month_of_yday y r)"
proof (cases rule: month_of_yday_cases [of y r])
  case 1
  then show ?thesis
    using assms(1) by (simp add: days_before_month_def days_in_month_def)
next
  case (2 m)
  then have "1 \<le> m" "m \<le> 12" by auto
  with 2 show ?thesis
    using days_before_month_step [of m y] by simp
next
  case 3
  then show ?thesis
    using assms(2) by (simp add: days_before_month_def days_in_month_def Let_def split: if_splits)
qed

lemma days_before_month_nonneg: "0 \<le> days_before_month y m"
  by (simp add: days_before_month_def Let_def)

lemma valid_month_normal: "1 \<le> m \<Longrightarrow> m \<le> 12 \<Longrightarrow> (m - 1) div 12 = 0 \<and> (m - 1) mod 12 + 1 = (m::int)"
  by simp

text \<open>Day numbers and civil dates determine each other.\<close>

lemma civil_of_day_of_civil:
  assumes "valid_civil y m d"
  shows "civil_of_day (day_of_civil y m d) = (y, m, d)"
proof -
  have m: "1 \<le> m" "m \<le> 12" "1 \<le> d" "d \<le> days_in_month y m"
    using assms by (auto simp: valid_civil_def)
  define r where "r = days_before_month y m + d - 1"
  have n: "day_of_civil y m d + unix_epoch_day = days_before_year y + r"
    using valid_month_normal [OF m(1,2)] by (simp add: day_of_civil_def Let_def r_def)
  have r: "0 \<le> r" "r < (if leap_year y then 366 else 365)"
    using month_of_yday_month(2) [OF m] days_before_month_nonneg [of y m] m(3)
    by (auto simp: r_def)
  have y: "year_of_day (day_of_civil y m d) = y"
    using r by (intro year_of_day_unique) (auto simp: n days_before_year_step)
  have "month_of_yday y r = m"
    using month_of_yday_month(1) [OF m] by (simp add: r_def)
  then show ?thesis
    using n by (simp add: civil_of_day_def Let_def y r_def)
qed

lemma valid_civil_of_day:
  assumes "civil_of_day n = (y, m, d)"
  shows "valid_civil y m d" and "day_of_civil y m d = n"
proof -
  define r where "r = n + unix_epoch_day - days_before_year (year_of_day n)"
  have ymd: "y = year_of_day n" "m = month_of_yday y r" "d = r - days_before_month y m + 1"
    using assms by (auto simp: civil_of_day_def Let_def r_def)
  have r: "0 \<le> r" "r < (if leap_year y then 366 else 365)"
    using year_of_day_bounds [of n] by (auto simp: r_def ymd(1) days_before_year_step split: if_splits)
  show "valid_civil y m d"
    using month_of_yday_bounds [OF r] by (auto simp: valid_civil_def ymd(2,3))
  then show "day_of_civil y m d = n"
    using valid_month_normal [of m]
    by (auto simp: valid_civil_def day_of_civil_def Let_def ymd(3)) (simp add: r_def ymd(1))
qed


section \<open>Date texts\<close>

text \<open>
  \<open>appendInt\<close> of package \<open>time\<close>: two digits for a month, a day or a clock field, at least
  four for a year.
\<close>

definition pad2 :: "nat \<Rightarrow> string" where
  "pad2 n = (if n < 100 then [digit_char (n div 10), digit_char (n mod 10)] else show_nat n)"

definition pad_year :: "int \<Rightarrow> string" where
  "pad_year y =
     (let n = nat \<bar>y\<bar>; s = (if n < 10000 then pad2 (n div 100) @ pad2 (n mod 100) else show_nat n)
      in if y < 0 then CHR ''-'' # s else s)"

definition format_date :: "int \<Rightarrow> string" where
  "format_date n =
     (case civil_of_day n of (y, m, d) \<Rightarrow> pad_year y @ ''-'' @ pad2 (nat m) @ ''-'' @ pad2 (nat d))"

definition parse_uint :: "string \<Rightarrow> nat \<Rightarrow> nat \<Rightarrow> nat option" where
  "parse_uint s lo hi =
     (let n = digits_val s in if list_all is_digit s \<and> lo \<le> n \<and> n \<le> hi then Some n else None)"

text \<open>\<open>time.Parse("2006-01-02", s)\<close>: the day named by a date text.\<close>

definition parse_date :: "string \<Rightarrow> int option" where
  "parse_date s =
     (if length s = 10 \<and> s ! 4 = CHR ''-'' \<and> s ! 7 = CHR ''-'' then
        (case parse_uint (take 4 s) 0 9999 of None \<Rightarrow> None | Some y \<Rightarrow>
         (case parse_uint (take 2 (drop 5 s)) 1 12 of None \<Rightarrow> None | Some m \<Rightarrow>
          (case parse_uint (take 2 (drop 8 s)) 1 (nat (days_in_month (int y) (int m))) of
             None \<Rightarrow> None
           | Some d \<Rightarrow> Some (day_of_civil (int y) (int m) (int d)))))
      else None)"

text \<open>The days of the years 0 to 9999, the ones a date text of this layout can name.\<close>

definition printable_day :: "int \<Rightarrow> bool" where
  "printable_day n \<longleftrightarrow> - 719528 \<le> n \<and> n \<le> 2932896"

lemma days_before_year_mono: "y \<le> z \<Longrightarrow> days_before_year y \<le> days_before_year z"
  using days_before_year_strict [of y z] by (cases "y = z") auto

lemma year_of_day_less_iff: "year_of_day n < y \<longleftrightarrow> n + unix_epoch_day < days_before_year y"
  using year_of_day_bounds [of n] days_before_year_mono [of "year_of_day n + 1" y]
    days_before_year_mono [of y "year_of_day n"]
  by (cases "year_of_day n < y") auto

lemma printable_day_year: "printable_day n \<longleftrightarrow> 0 \<le> year_of_day n \<and> year_of_day n \<le> 9999"
  using year_of_day_less_iff [of n 0] year_of_day_less_iff [of n 10000]
  by (auto simp: printable_day_def days_before_year_def unix_epoch_day_def)

lemma length_pad2 [simp]: "n < 100 \<Longrightarrow> length (pad2 n) = 2"
  by (simp add: pad2_def)

lemma digits_val_pad2 [simp]: "n < 100 \<Longrightarrow> digits_val (pad2 n) = n"
  by (simp add: pad2_def digits_val_def)

lemma all_digits_pad2 [simp]: "n < 100 \<Longrightarrow> list_all is_digit (pad2 n)"
  by (simp add: pad2_def)

lemma digits_val_append: "digits_val (s @ t) = digits_val s * 10 ^ length t + digits_val t"
  by (induction t rule: rev_induct) (simp_all add: algebra_simps flip: append_assoc)

lemma length_pad_year [simp]: "0 \<le> y \<Longrightarrow> y \<le> 9999 \<Longrightarrow> length (pad_year y) = 4"
  by (simp add: pad_year_def Let_def nat_less_iff)

lemma digits_val_pad_year [simp]: "0 \<le> y \<Longrightarrow> y \<le> 9999 \<Longrightarrow> digits_val (pad_year y) = nat y"
  by (simp add: pad_year_def Let_def digits_val_append nat_less_iff)

lemma all_digits_pad_year [simp]: "0 \<le> y \<Longrightarrow> y \<le> 9999 \<Longrightarrow> list_all is_digit (pad_year y)"
  by (simp add: pad_year_def Let_def nat_less_iff)

text \<open>The fields of a printable day, as the texts see them.\<close>

lemma printable_civil:
  assumes "printable_day n"
  obtains y m d where "civil_of_day n = (y, m, d)" "0 \<le> y" "y \<le> 9999" "valid_civil y m d"
    "1 \<le> m" "m \<le> 12" "1 \<le> d" "d \<le> days_in_month y m" "d \<le> 31" "day_of_civil y m d = n"
proof -
  obtain y m d where c: "civil_of_day n = (y, m, d)" by (cases "civil_of_day n") auto
  have "y = year_of_day n" using c by (simp add: civil_of_day_def Let_def)
  then show ?thesis
    using that [OF c] assms valid_civil_of_day [OF c]
    by (auto simp: printable_day_year valid_civil_def days_in_month_def split: if_splits)
qed

lemma length_format_date [simp]: "printable_day n \<Longrightarrow> length (format_date n) = 10"
  by (erule printable_civil) (simp add: format_date_def)

text \<open>Date round trip: a printed day reads back as itself.\<close>

lemma parse_format_date [simp]:
  assumes "printable_day n"
  shows "parse_date (format_date n) = Some n"
proof -
  obtain y m d where c: "civil_of_day n = (y, m, d)" and y: "0 \<le> y" "y \<le> 9999"
    and m: "1 \<le> m" "m \<le> 12" and d: "1 \<le> d" "d \<le> days_in_month y m" "d \<le> 31"
    and n: "day_of_civil y m d = n"
    using assms by (rule printable_civil)
  define Y M D where "Y = pad_year y" and "M = pad2 (nat m)" and "D = pad2 (nat d)"
  have len: "length Y = 4" "length M = 2" "length D = 2"
    using y m d by (simp_all add: Y_def M_def D_def)
  have f: "format_date n = Y @ CHR ''-'' # M @ CHR ''-'' # D"
    by (simp add: format_date_def c Y_def M_def D_def)
  have "parse_uint Y 0 9999 = Some (nat y)" "parse_uint M 1 12 = Some (nat m)"
    "parse_uint D 1 (nat (days_in_month y m)) = Some (nat d)"
    using y m d by (auto simp: parse_uint_def Let_def Y_def M_def D_def)
  then show ?thesis
    using y m d n unfolding parse_date_def f by (simp add: len nth_append nth_Cons')
qed

lemma parse_uint_Some: "parse_uint s lo hi = Some n \<Longrightarrow> list_all is_digit s \<and> digits_val s = n \<and> lo \<le> n \<and> n \<le> hi"
  by (auto simp: parse_uint_def Let_def split: if_splits)

lemma digit_char_val [simp]: "is_digit c \<Longrightarrow> digit_char (digit_val c) = c"
  by (simp add: is_digit_def digit_char_def digit_val_def)

lemma digit_val_less [simp]: "is_digit c \<Longrightarrow> digit_val c < 10"
  by (auto simp: is_digit_def digit_val_def)

lemma pad2_digits_val: "length s = 2 \<Longrightarrow> list_all is_digit s \<Longrightarrow> pad2 (digits_val s) = s \<and> digits_val s < 100"
proof -
  assume "length s = 2" "list_all is_digit s"
  then obtain a b where s: "s = [a, b]" and ab: "is_digit a" "is_digit b"
    by (auto simp: length_Suc_conv numeral_2_eq_2)
  have "digits_val s = 10 * digit_val a + digit_val b" by (simp add: s digits_val_def)
  moreover have "10 * digit_val a + digit_val b < 100"
    using digit_val_less [OF ab(1)] digit_val_less [OF ab(2)] by linarith
  ultimately show ?thesis using ab by (simp add: s pad2_def)
qed

text \<open>The converse: a text that parses as a date is the one \<open>Format\<close> prints for it.\<close>

lemma format_parse_date:
  assumes "parse_date s = Some n"
  shows "format_date n = s" and "printable_day n"
proof -
  obtain y m d where len: "length s = 10" and sep: "s ! 4 = CHR ''-''" "s ! 7 = CHR ''-''"
    and y: "parse_uint (take 4 s) 0 9999 = Some y"
    and m: "parse_uint (take 2 (drop 5 s)) 1 12 = Some m"
    and d: "parse_uint (take 2 (drop 8 s)) 1 (nat (days_in_month (int y) (int m))) = Some d"
    and n: "n = day_of_civil (int y) (int m) (int d)"
    using assms by (auto simp: parse_date_def split: if_splits option.splits)
  note b = parse_uint_Some [OF y] parse_uint_Some [OF m] parse_uint_Some [OF d]
  have v: "valid_civil (int y) (int m) (int d)"
    using b by (auto simp: valid_civil_def)
  then have c: "civil_of_day n = (int y, int m, int d)"
    by (simp add: n civil_of_day_of_civil)
  have "year_of_day n = int y"
    using c by (simp add: civil_of_day_def Let_def)
  then show "printable_day n" using b by (simp add: printable_day_year)
  have split: "s = take 4 s @ s ! 4 # take 2 (drop 5 s) @ s ! 7 # take 2 (drop 8 s)"
    using len by (auto simp: list_eq_iff_nth_eq nth_append nth_Cons' less_Suc_eq numeral_eq_Suc)
  have Y: "take 4 s = take 2 s @ take 2 (drop 2 s)"
    by (metis add_2_eq_Suc' numeral_eq_Suc take_add pred_numeral_simps(2) semiring_norm(26) Suc_numeral
      numeral_Bit0 one_add_one add_Suc)
  have "pad_year (int y) = take 4 s"
  proof -
    have "list_all is_digit (take 2 s)" "list_all is_digit (take 2 (drop 2 s))"
      using b(1) by (auto simp: Y)
    then have p: "pad2 (digits_val (take 2 s)) = take 2 s \<and> digits_val (take 2 s) < 100"
      "pad2 (digits_val (take 2 (drop 2 s))) = take 2 (drop 2 s) \<and> digits_val (take 2 (drop 2 s)) < 100"
      using len by (simp_all add: pad2_digits_val)
    have "y = digits_val (take 2 s) * 100 + digits_val (take 2 (drop 2 s))"
      using b(1) len by (auto simp: Y digits_val_append)
    with p have "y div 100 = digits_val (take 2 s)" "y mod 100 = digits_val (take 2 (drop 2 s))" "y < 10000"
      by auto
    with p show ?thesis by (simp add: pad_year_def Let_def Y)
  qed
  moreover have "pad2 m = take 2 (drop 5 s)" "pad2 d = take 2 (drop 8 s)"
    using pad2_digits_val [of "take 2 (drop 5 s)"] pad2_digits_val [of "take 2 (drop 8 s)"] b len by auto
  ultimately show "format_date n = s"
    using sep by (subst split) (simp add: format_date_def c)
qed


section \<open>Date texts are ordered as days\<close>

lemma div_mod_less_iff:
  fixes m n c :: nat
  shows "m < n \<longleftrightarrow> m div c < n div c \<or> m div c = n div c \<and> m mod c < n mod c"
proof (cases "m div c" "n div c" rule: linorder_cases)
  case less
  then have "m < n" by (metis div_le_mono not_le)
  with less show ?thesis by simp
next
  case equal
  then show ?thesis
    using mult_div_mod_eq [of c m] mult_div_mod_eq [of c n] by (metis add_less_cancel_left less_irrefl)
next
  case greater
  then have "n < m" by (metis div_le_mono not_le)
  with greater show ?thesis by simp
qed

lemma div_mod_eq_iff:
  fixes m n c :: nat
  shows "m = n \<longleftrightarrow> m div c = n div c \<and> m mod c = n mod c"
  by (metis mult_div_mod_eq)

lemma pad2_le_iff:
  assumes "m < 100" and "n < 100"
  shows "pad2 m @ s \<le> pad2 n @ t \<longleftrightarrow> m < n \<or> m = n \<and> s \<le> t"
proof -
  have d: "digit_char (m div 10) < digit_char (n div 10) \<longleftrightarrow> m div 10 < n div 10"
    "digit_char (m mod 10) < digit_char (n mod 10) \<longleftrightarrow> m mod 10 < n mod 10"
    "digit_char (m div 10) = digit_char (n div 10) \<longleftrightarrow> m div 10 = n div 10"
    "digit_char (m mod 10) = digit_char (n mod 10) \<longleftrightarrow> m mod 10 = n mod 10"
    using assms by (auto simp: digit_char_less_iff)
  show ?thesis
    unfolding div_mod_less_iff [of m n 10] div_mod_eq_iff [of m n 10]
    using assms d by (auto simp: pad2_def)
qed

lemma pad_year_le_iff:
  assumes "0 \<le> y" "y \<le> 9999" "0 \<le> z" "z \<le> 9999"
  shows "pad_year y @ s \<le> pad_year z @ t \<longleftrightarrow> y < z \<or> y = z \<and> s \<le> t"
proof -
  have p: "pad_year x = pad2 (nat x div 100) @ pad2 (nat x mod 100)" if "0 \<le> x" "x \<le> 9999" for x
    using that by (simp add: pad_year_def Let_def nat_less_iff)
  have b: "nat y div 100 < 100" "nat z div 100 < 100" "nat y mod 100 < 100" "nat z mod 100 < 100"
    using assms by auto
  have "y < z \<longleftrightarrow> nat y < nat z" "y = z \<longleftrightarrow> nat y = nat z"
    using assms by auto
  then show ?thesis
    unfolding div_mod_less_iff [of "nat y" "nat z" 100] div_mod_eq_iff [of "nat y" "nat z" 100]
    using assms b by (auto simp: p pad2_le_iff)
qed

lemma days_before_month_mono:
  assumes "1 \<le> m" "m \<le> k" "k \<le> 13"
  shows "days_before_month y m \<le> days_before_month y k"
proof -
  have "days_before_month y m \<le> days_before_month y (m + int n)" if "m + int n \<le> 13" for n
    using that
  proof (induction n)
    case 0
    then show ?case by simp
  next
    case (Suc n)
    have "0 \<le> days_in_month y (m + int n)" by (simp add: days_in_month_def)
    with Suc assms(1) days_before_month_step [of "m + int n" y] show ?case
      by (simp add: ac_simps)
  qed
  from this [of "nat (k - m)"] assms show ?thesis by simp
qed

lemma civil_of_day_less:
  assumes "i < j" and i: "civil_of_day i = (y, m, d)" and j: "civil_of_day j = (y', m', d')"
  shows "y < y' \<or> y = y' \<and> (m < m' \<or> m = m' \<and> d < d')"
proof -
  have yi: "y = year_of_day i" and yj: "y' = year_of_day j"
    using i j by (auto simp: civil_of_day_def Let_def)
  have v: "valid_civil y m d" "valid_civil y' m' d'"
    using valid_civil_of_day i j by blast+
  have eq: "day_of_civil y m d = i" "day_of_civil y' m' d' = j"
    using valid_civil_of_day i j by blast+
  have "y \<le> y'"
    using year_of_day_less_iff [of j y] year_of_day_bounds [of i] \<open>i < j\<close>
    by (cases "y' < y") (auto simp: yi yj)
  moreover have "m \<le> m'" if "y = y'"
  proof (rule ccontr)
    assume "\<not> m \<le> m'"
    then have "days_before_month y (m' + 1) \<le> days_before_month y m"
      using v by (intro days_before_month_mono) (auto simp: valid_civil_def)
    moreover have "days_before_month y (m' + 1) = days_before_month y m' + days_in_month y m'"
      using v by (intro days_before_month_step) (auto simp: valid_civil_def)
    ultimately have "day_of_civil y' m' d' < day_of_civil y m d"
      using v that by (auto simp: day_of_civil_def Let_def valid_civil_def)
    with eq \<open>i < j\<close> show False by simp
  qed
  moreover have "d < d'" if "y = y'" "m = m'"
    using eq that \<open>i < j\<close> by (auto simp: day_of_civil_def Let_def)
  ultimately show ?thesis by linarith
qed

lemma format_date_less:
  assumes "printable_day i" "printable_day j" "i < j"
  shows "\<not> format_date j \<le> format_date i" and "format_date i \<le> format_date j"
proof -
  obtain y m d where i: "civil_of_day i = (y, m, d)" "0 \<le> y" "y \<le> 9999" "1 \<le> m" "m \<le> 12" "1 \<le> d" "d \<le> 31"
    using assms(1) by (rule printable_civil)
  obtain y' m' d' where j: "civil_of_day j = (y', m', d')" "0 \<le> y'" "y' \<le> 9999" "1 \<le> m'" "m' \<le> 12" "1 \<le> d'" "d' \<le> 31"
    using assms(2) by (rule printable_civil)
  have lt: "y < y' \<or> y = y' \<and> (m < m' \<or> m = m' \<and> d < d')"
    by (rule civil_of_day_less [OF assms(3) i(1) j(1)])
  have cmp: "format_date a \<le> format_date b \<longleftrightarrow> u < u' \<or> u = u' \<and> (v < v' \<or> v = v' \<and> w \<le> w')"
    if "civil_of_day a = (u, v, w)" "0 \<le> u" "u \<le> 9999" "1 \<le> v" "v \<le> 12" "1 \<le> w" "w \<le> 31"
      "civil_of_day b = (u', v', w')" "0 \<le> u'" "u' \<le> 9999" "1 \<le> v'" "v' \<le> 12" "1 \<le> w'" "w' \<le> 31"
    for a b u v w u' v' w'
  proof -
    have "pad2 (nat w) \<le> pad2 (nat w') \<longleftrightarrow> w \<le> w'"
      using pad2_le_iff [of "nat w" "nat w'" "[]" "[]"] that by auto
    then show ?thesis
      using that by (auto simp: format_date_def pad_year_le_iff pad2_le_iff)
  qed
  show "\<not> format_date j \<le> format_date i" and "format_date i \<le> format_date j"
    unfolding cmp [OF j i] cmp [OF i j] using lt by auto
qed

text \<open>Comparing two date texts as strings is comparing the days they name.\<close>

lemma format_date_le_iff [simp]:
  assumes "printable_day i" "printable_day j"
  shows "format_date i \<le> format_date j \<longleftrightarrow> i \<le> j"
  using format_date_less [of i j] format_date_less [of j i] assms by (cases i j rule: linorder_cases) auto

lemma format_date_inject:
  "printable_day i \<Longrightarrow> printable_day j \<Longrightarrow> format_date i = format_date j \<longleftrightarrow> i = j"
  by (metis order_antisym order_refl format_date_le_iff)


text \<open>A date text has no blanks to trim.\<close>

lemma dropWhile_none: "list_all (\<lambda>c. \<not> P c) s \<Longrightarrow> dropWhile P s = s"
  by (cases s) simp_all

lemma trim_space_id: "list_all (\<lambda>c. \<not> is_space c) s \<Longrightarrow> trim_space s = s"
  by (simp add: trim_space_def dropWhile_none)

lemma digit_not_space: "is_digit c \<Longrightarrow> \<not> is_space c"
  by (auto simp: is_digit_def is_space_def)

lemma trim_format_date: "printable_day n \<Longrightarrow> trim_space (format_date n) = format_date n"
proof -
  assume "printable_day n"
  then have "list_all (\<lambda>c. is_digit c \<or> c = CHR ''-'') (format_date n)"
  proof (rule printable_civil)
    fix y m d :: int
    assume c: "civil_of_day n = (y, m, d)" "0 \<le> y" "y \<le> 9999" "1 \<le> m" "m \<le> 12" "1 \<le> d" "d \<le> 31"
    then have "list_all is_digit (pad_year y)" "list_all is_digit (pad2 (nat m))" "list_all is_digit (pad2 (nat d))"
      by simp_all
    then show ?thesis by (auto simp: format_date_def c list_all_iff)
  qed
  then have "\<not> is_space c" if "c \<in> set (format_date n)" for c
    using that digit_not_space [of c] by (cases "c = CHR ''-''") (auto simp: list_all_iff is_space_def)
  then show ?thesis by (intro trim_space_id) (simp add: list_all_iff)
qed

lemma trim_parsed_date [simp]: "parse_date s = Some n \<Longrightarrow> trim_space s = s"
  using format_parse_date [of s n] trim_format_date [of n] by simp


section \<open>Instants\<close>

type_synonym instant = int
type_synonym location = "int \<Rightarrow> int"

text \<open>The time-zone database behind \<open>time.LoadLocation\<close> is a parameter.\<close>

type_synonym tzdb = "string \<Rightarrow> location option"

definition second :: int where
  "second = 1000000000"

definition minute :: int where
  "minute = 60 * second"

definition hour :: int where
  "hour = 60 * minute"

text \<open>\<open>time.Time{}\<close>, the instant for which \<open>IsZero\<close> holds.\<close>

definition zero_time :: instant where
  "zero_time = - 62135596800 * second"

definition unix_seconds :: "instant \<Rightarrow> int" where
  "unix_seconds t = t div second"

text \<open>\<open>t.UTC().Format(time.RFC3339)\<close>: whole seconds, with the suffix Z.\<close>

definition format_rfc3339 :: "instant \<Rightarrow> string" where
  "format_rfc3339 t =
     (let s = unix_seconds t; r = s mod 86400
      in format_date (s div 86400) @ ''T'' @ pad2 (nat (r div 3600)) @ '':'' @ pad2 (nat (r mod 3600 div 60))
         @ '':'' @ pad2 (nat (r mod 60)) @ ''Z'')"

text \<open>
  \<open>time.Parse(time.RFC3339, s)\<close> on the texts of RFC 3339: date, time, an optional fraction and
  Z or a numeric offset. The package's fallback for texts outside the standard (one-digit hours,
  a comma before the fraction) is not modelled: no writer of this program produces one.
\<close>

definition parse_fraction :: "string \<Rightarrow> int \<times> string" where
  "parse_fraction s =
     (if 2 \<le> length s \<and> s ! 0 = CHR ''.'' \<and> is_digit (s ! 1) then
        (let ds = takeWhile is_digit (tl s); k = min 9 (length ds)
         in (int (digits_val (take 9 ds)) * 10 ^ (9 - k), drop (length ds) (tl s)))
      else (0, s))"

definition parse_zone :: "string \<Rightarrow> int option" where
  "parse_zone s =
     (if s = ''Z'' then Some 0
      else if length s = 6 \<and> (s ! 0 = CHR ''-'' \<or> s ! 0 = CHR ''+'') \<and> s ! 3 = CHR '':'' then
        (case parse_uint (take 2 (drop 1 s)) 0 23 of None \<Rightarrow> None | Some h \<Rightarrow>
         (case parse_uint (take 2 (drop 4 s)) 0 59 of None \<Rightarrow> None | Some mi \<Rightarrow>
            Some ((if s ! 0 = CHR ''-'' then - 1 else 1) * (int h * 3600 + int mi * 60))))
      else None)"

definition parse_clock :: "string \<Rightarrow> int option" where
  "parse_clock s =
     (if s ! 0 = CHR ''T'' \<and> s ! 3 = CHR '':'' \<and> s ! 6 = CHR '':'' then
        (case parse_uint (take 2 (drop 1 s)) 0 23 of None \<Rightarrow> None | Some h \<Rightarrow>
         (case parse_uint (take 2 (drop 4 s)) 0 59 of None \<Rightarrow> None | Some mi \<Rightarrow>
          (case parse_uint (take 2 (drop 7 s)) 0 59 of None \<Rightarrow> None | Some sec \<Rightarrow>
             Some (int h * 3600 + int mi * 60 + int sec))))
      else None)"

definition parse_rfc3339 :: "string \<Rightarrow> instant option" where
  "parse_rfc3339 s =
     (if length s < 19 then None else
      (case parse_date (take 10 s) of None \<Rightarrow> None | Some d \<Rightarrow>
       (case parse_clock (take 9 (drop 10 s)) of None \<Rightarrow> None | Some c \<Rightarrow>
        (case parse_fraction (drop 19 s) of (ns, rest) \<Rightarrow>
         (case parse_zone rest of None \<Rightarrow> None | Some z \<Rightarrow>
            Some ((d * 86400 + c - z) * second + ns))))))"

text \<open>\<open>t.Sub(u)\<close>: a 64-bit count of nanoseconds that saturates at both ends.\<close>

definition time_sub :: "instant \<Rightarrow> instant \<Rightarrow> int" where
  "time_sub t u = max (- (2 ^ 63)) (min (2 ^ 63 - 1) (t - u))"

text \<open>Go's integer division and remainder truncate towards zero.\<close>

definition go_div :: "int \<Rightarrow> int \<Rightarrow> int" where
  "go_div a b = sgn a * sgn b * (\<bar>a\<bar> div \<bar>b\<bar>)"

definition go_mod :: "int \<Rightarrow> int \<Rightarrow> int" where
  "go_mod a b = a - b * go_div a b"

text \<open>
  \<open>time.Date(y, m, d, 0, minutes, 0, 0, loc)\<close> for the calendar day \<open>d\<close>: the package takes the
  civil time as if it were UTC, looks up the offset there, and looks it up again at the corrected
  instant. (Its test whether the corrected instant is still inside the first zone only saves the
  second lookup.)
\<close>

definition date_in :: "location \<Rightarrow> int \<Rightarrow> int \<Rightarrow> instant" where
  "date_in loc day minutes =
     (let u = day * 86400 + minutes * 60; off = loc u
      in (if off = 0 then u else u - loc (u - off)) * second)"

text \<open>The wall clock of \<open>t.In(loc)\<close>: its date and its minute of the day.\<close>

definition wall_seconds :: "location \<Rightarrow> instant \<Rightarrow> int" where
  "wall_seconds loc t = unix_seconds t + loc (unix_seconds t)"

definition local_day :: "location \<Rightarrow> instant \<Rightarrow> int" where
  "local_day loc t = wall_seconds loc t div 86400"

definition local_minutes :: "location \<Rightarrow> instant \<Rightarrow> int" where
  "local_minutes loc t = wall_seconds loc t mod 86400 div 60"

definition utc_location :: location where
  "utc_location = (\<lambda>_. 0)"

definition fixed_location :: "int \<Rightarrow> location" where
  "fixed_location c = (\<lambda>_. c)"

text \<open>Instants whose UTC date has a four-digit year.\<close>

definition printable :: "instant \<Rightarrow> bool" where
  "printable t \<longleftrightarrow> printable_day (unix_seconds t div 86400)"

lemma parse_clock_pad:
  assumes "h < 24" "mi < 60" "s < 60"
  shows "parse_clock (''T'' @ pad2 h @ '':'' @ pad2 mi @ '':'' @ pad2 s)
     = Some (int h * 3600 + int mi * 60 + int s)"
proof -
  have "parse_uint (pad2 h) 0 23 = Some h" "parse_uint (pad2 mi) 0 59 = Some mi"
    "parse_uint (pad2 s) 0 59 = Some s"
    using assms by (auto simp: parse_uint_def Let_def)
  then show ?thesis
    using assms unfolding parse_clock_def by (simp add: nth_append nth_Cons')
qed

text \<open>Instant round trip: what the code stores reads back as the same second.\<close>

lemma parse_format_rfc3339 [simp]:
  assumes "printable t"
  shows "parse_rfc3339 (format_rfc3339 t) = Some (unix_seconds t * second)"
proof -
  define s r where "s = unix_seconds t" and "r = nat (s mod 86400)"
  define D C where "D = format_date (s div 86400)"
    and "C = ''T'' @ pad2 (r div 3600) @ '':'' @ pad2 (r mod 3600 div 60) @ '':'' @ pad2 (r mod 60)"
  have r: "r < 86400" "int r = s mod 86400" by (auto simp: r_def nat_less_iff)
  have h: "r div 3600 < 24" "r mod 3600 div 60 < 60" "r mod 60 < 60" using r(1) by auto
  have D: "length D = 10" "parse_date D = Some (s div 86400)"
    using assms by (simp_all add: D_def s_def printable_def)
  have "r mod 3600 mod 60 = r mod 60" by (simp add: mod_mod_cancel)
  then have "r div 3600 * 3600 + r mod 3600 div 60 * 60 + r mod 60 = r"
    using div_mult_mod_eq [of r 3600] div_mult_mod_eq [of "r mod 3600" 60] by linarith
  moreover have C: "length C = 9" "parse_clock C
     = Some (int (r div 3600) * 3600 + int (r mod 3600 div 60) * 60 + int (r mod 60))"
    unfolding C_def using h by (simp, intro parse_clock_pad)
  ultimately have C': "parse_clock C = Some (s mod 86400)"
    by (metis (no_types, lifting) of_nat_add of_nat_mult of_nat_numeral r(2))
  have f: "format_rfc3339 t = D @ C @ ''Z''"
    by (simp add: format_rfc3339_def Let_def s_def r_def D_def C_def nat_div_distrib nat_mod_distrib)
  have "parse_zone ''Z'' = Some 0" "parse_fraction ''Z'' = (0, ''Z'')"
    by (simp_all add: parse_zone_def parse_fraction_def)
  with C(1) D C' show ?thesis
    by (simp add: f parse_rfc3339_def s_def [symmetric])
qed


lemma unix_seconds_whole [simp]: "unix_seconds (k * second) = k"
  by (simp add: unix_seconds_def second_def)

lemma second_pos [simp]: "0 < second"
  by (simp add: second_def)

text \<open>A whole-second instant is what its text reads back as.\<close>

lemma parse_format_whole:
  "printable (k * second) \<Longrightarrow> parse_rfc3339 (format_rfc3339 (k * second)) = Some (k * second)"
  by simp

lemma date_in_whole: "\<exists>k. date_in loc day m = k * second"
  by (auto simp: date_in_def Let_def)

lemma parse_format_date_in:
  "printable (date_in loc day m) \<Longrightarrow>
     parse_rfc3339 (format_rfc3339 (date_in loc day m)) = Some (date_in loc day m)"
  using date_in_whole [of loc day m] by auto

text \<open>In a zone without transitions the civil time is the offset away from UTC.\<close>

lemma date_in_fixed: "date_in (fixed_location c) day m = (day * 86400 + m * 60 - c) * second"
  by (simp add: date_in_def fixed_location_def Let_def)

lemma local_day_date_in_fixed:
  "0 \<le> m \<Longrightarrow> m < 1440 \<Longrightarrow> local_day (fixed_location c) (date_in (fixed_location c) day m) = day"
  by (simp add: local_day_def wall_seconds_def date_in_fixed) (simp add: fixed_location_def)

lemma local_minutes_date_in_fixed:
  "0 \<le> m \<Longrightarrow> m < 1440 \<Longrightarrow> local_minutes (fixed_location c) (date_in (fixed_location c) day m) = m"
  by (simp add: local_minutes_def wall_seconds_def date_in_fixed) (simp add: fixed_location_def)

lemma go_div_nonneg [simp]: "0 \<le> a \<Longrightarrow> 0 < b \<Longrightarrow> go_div a b = a div b"
  by (cases "a = 0") (simp_all add: go_div_def)

lemma go_mod_nonneg [simp]: "0 \<le> a \<Longrightarrow> 0 < b \<Longrightarrow> go_mod a b = a mod b"
  by (simp add: go_mod_def minus_mult_div_eq_mod)

lemma time_sub_exact: "\<bar>t - u\<bar> < 2 ^ 63 \<Longrightarrow> time_sub t u = t - u"
  by (simp add: time_sub_def)

end
