(* ===== verification/Intervals.thy ===== *)
theory Intervals
  imports GoTime "HOL-Library.Multiset"
begin

text \<open>
  The interval algebra of internal/service: clip, clipAll, union, subtract and totalHours of
  gaps.go, splitAround of review_policy.go and subtractInterval of time_entry_confirm.go. Each is
  specified by the set of instants it covers. The locale \<open>span_cutter\<close> is the contract of an
  operation that removes one span from another; the three cutting routines of the code are its
  instances.
\<close>

named_theorems cover_simps \<open>the instants covered by interval expressions\<close>

text \<open>\<open>Interval\<close> (gaps.go) and \<open>localSpan\<close> (time_entry_confirm.go): half-open spans.\<close>

record interval =
  iv_start :: instant
  iv_end :: instant

abbreviation mk_iv :: "instant \<Rightarrow> instant \<Rightarrow> interval" where
  "mk_iv s e \<equiv> \<lparr>iv_start = s, iv_end = e\<rparr>"

definition covered :: "interval \<Rightarrow> instant set" where
  "covered iv = {iv_start iv..<iv_end iv}"

definition cover :: "interval list \<Rightarrow> instant set" where
  "cover ivs = (\<Union>iv \<in> set ivs. covered iv)"

definition nonempty :: "interval \<Rightarrow> bool" where
  "nonempty iv \<longleftrightarrow> iv_start iv < iv_end iv"

text \<open>Spans in order, with uncovered time between any two.\<close>

definition separated :: "interval list \<Rightarrow> bool" where
  "separated ivs \<longleftrightarrow> sorted_wrt (\<lambda>a b. iv_end a < iv_start b) ivs"

definition in_order :: "interval list \<Rightarrow> bool" where
  "in_order ivs \<longleftrightarrow> sorted_wrt (\<lambda>a b. iv_end a \<le> iv_start b) ivs"


section \<open>Operations\<close>

definition clip :: "interval \<Rightarrow> instant \<Rightarrow> instant \<Rightarrow> interval option" where
  "clip iv lo hi =
     (let s = (if iv_start iv < lo then lo else iv_start iv);
          e = (if hi < iv_end iv then hi else iv_end iv)
      in if \<not> s < e then None else Some (mk_iv s e))"

fun clipAll :: "interval list \<Rightarrow> interval \<Rightarrow> interval list" where
  "clipAll [] win = []"
| "clipAll (iv # ivs) win =
     (case clip iv (iv_start win) (iv_end win) of
        None \<Rightarrow> clipAll ivs win
      | Some c \<Rightarrow> c # clipAll ivs win)"

text \<open>The loop of \<open>union\<close>: \<open>cur\<close> is the last span written to the output.\<close>

fun merge_from :: "interval \<Rightarrow> interval list \<Rightarrow> interval list" where
  "merge_from cur [] = [cur]"
| "merge_from cur (iv # ivs) =
     (if iv_start iv \<le> iv_end cur
      then merge_from (if iv_end cur < iv_end iv then cur\<lparr>iv_end := iv_end iv\<rparr> else cur) ivs
      else cur # merge_from iv ivs)"

definition union_ivs :: "interval list \<Rightarrow> interval list" where
  "union_ivs ivs = (case sort_key iv_start ivs of [] \<Rightarrow> [] | iv # rest \<Rightarrow> merge_from iv rest)"

fun subtract_from :: "interval \<Rightarrow> instant \<Rightarrow> interval list \<Rightarrow> interval list" where
  "subtract_from win cursor [] =
     (if cursor < iv_end win then [mk_iv cursor (iv_end win)] else [])"
| "subtract_from win cursor (occ # occs) =
     (if iv_end occ < iv_start win \<or> iv_end win < iv_start occ then subtract_from win cursor occs
      else (if cursor < iv_start occ then [mk_iv cursor (iv_start occ)] else [])
           @ subtract_from win (if cursor < iv_end occ then iv_end occ else cursor) occs)"

definition subtract_ivs :: "interval \<Rightarrow> interval list \<Rightarrow> interval list" where
  "subtract_ivs win occupied = subtract_from win (iv_start win) occupied"

text \<open>\<open>totalHours\<close> before its last step, which turns the duration into a float of hours.\<close>

definition total_duration :: "interval list \<Rightarrow> int" where
  "total_duration ivs = foldl (\<lambda>d iv. d + time_sub (iv_end iv) (iv_start iv)) 0 ivs"

text \<open>\<open>splitAround\<close>: the portions of \<open>gap\<close> before, inside and after \<open>event\<close>.\<close>

definition splitAround ::
    "interval \<Rightarrow> interval \<Rightarrow> interval option \<times> interval option \<times> interval option" where
  "splitAround gap event =
     (if \<not> iv_start gap < iv_end gap then (None, None, None)
      else if iv_end gap < iv_start event \<or> \<not> iv_start gap < iv_end event then (Some gap, None, None)
      else if \<not> iv_start gap < iv_start event then
        (if \<not> iv_end event < iv_end gap then (None, Some gap, None)
         else (None, Some (mk_iv (iv_start gap) (iv_end event)),
               Some (mk_iv (iv_end event) (iv_end gap))))
      else if \<not> iv_end event < iv_end gap then
        (Some (mk_iv (iv_start gap) (iv_start event)),
         Some (mk_iv (iv_start event) (iv_end gap)), None)
      else (Some (mk_iv (iv_start gap) (iv_start event)),
            Some (mk_iv (iv_start event) (iv_end event)),
            Some (mk_iv (iv_end event) (iv_end gap))))"

text \<open>\<open>subtractInterval\<close>: what is left of each span outside \<open>[cut_start, cut_end)\<close>.\<close>

fun subtractInterval :: "interval list \<Rightarrow> instant \<Rightarrow> instant \<Rightarrow> interval list" where
  "subtractInterval [] cut_start cut_end = []"
| "subtractInterval (sp # sps) cut_start cut_end =
     (if \<not> cut_start < iv_end sp \<or> \<not> iv_start sp < cut_end
      then sp # subtractInterval sps cut_start cut_end
      else (if iv_start sp < cut_start then [mk_iv (iv_start sp) cut_start] else [])
           @ (if cut_end < iv_end sp then [mk_iv cut_end (iv_end sp)] else [])
           @ subtractInterval sps cut_start cut_end)"


section \<open>Coverage\<close>

lemma covered_mk_iv [cover_simps, simp]: "covered (mk_iv s e) = {s..<e}"
  by (simp add: covered_def)

lemma cover_Nil [cover_simps, simp]: "cover [] = {}"
  by (simp add: cover_def)

lemma cover_Cons [cover_simps, simp]: "cover (iv # ivs) = covered iv \<union> cover ivs"
  by (simp add: cover_def)

lemma cover_append [cover_simps, simp]: "cover (xs @ ys) = cover xs \<union> cover ys"
  by (simp add: cover_def)

lemma cover_concat [cover_simps]: "cover (concat xss) = (\<Union>xs \<in> set xss. cover xs)"
  by (induction xss) auto

lemma cover_mset: "mset xs = mset ys \<Longrightarrow> cover xs = cover ys"
  unfolding cover_def by (metis set_mset_mset)

lemma finite_cover [simp]: "finite (cover ivs)"
  by (simp add: cover_def covered_def)

lemma nonempty_covered: "nonempty iv \<longleftrightarrow> covered iv \<noteq> {}"
  by (simp add: nonempty_def covered_def)

lemma clip_Some:
  "clip iv lo hi = Some c \<longleftrightarrow> nonempty c \<and> iv_start c = max lo (iv_start iv) \<and> iv_end c = min hi (iv_end iv)"
  by (cases c) (auto simp: clip_def Let_def nonempty_def)

lemma clip_None: "clip iv lo hi = None \<longleftrightarrow> covered iv \<inter> {lo..<hi} = {}"
  by (auto simp: clip_def Let_def covered_def split: if_splits)

lemma covered_clip: "clip iv lo hi = Some c \<Longrightarrow> covered c = covered iv \<inter> {lo..<hi}"
  by (auto simp: clip_Some covered_def)

lemma cover_clipAll [cover_simps]: "cover (clipAll ivs win) = cover ivs \<inter> covered win"
proof (induction ivs)
  case (Cons iv ivs)
  have win: "covered win = {iv_start win..<iv_end win}" by (simp add: covered_def)
  show ?case
  proof (cases "clip iv (iv_start win) (iv_end win)")
    case None
    then have "covered iv \<inter> covered win = {}" unfolding win by (simp only: clip_None)
    then show ?thesis using Cons None by (simp add: Int_Un_distrib2)
  next
    case (Some c)
    then have "covered c = covered iv \<inter> covered win" unfolding win by (rule covered_clip)
    then show ?thesis using Cons Some by (simp add: Int_Un_distrib2)
  qed
qed simp

lemma clipAll_nonempty: "list_all nonempty (clipAll ivs win)"
  by (induction ivs) (auto simp: clip_Some split: option.splits)


section \<open>Union: a canonical form\<close>

lemma cover_merge_from:
  "sorted (iv_start cur # map iv_start ivs) \<Longrightarrow> cover (merge_from cur ivs) = covered cur \<union> cover ivs"
proof (induction cur ivs rule: merge_from.induct)
  case (2 cur iv ivs)
  show ?case
  proof (cases "iv_start iv \<le> iv_end cur")
    case True
    define l where "l = (if iv_end cur < iv_end iv then cur\<lparr>iv_end := iv_end iv\<rparr> else cur)"
    have "cover (merge_from l ivs) = covered l \<union> cover ivs"
      using "2.IH"(1) True "2.prems" by (simp add: l_def)
    moreover have "covered l = covered cur \<union> covered iv"
      using True "2.prems" by (auto simp: l_def covered_def)
    ultimately show ?thesis using True by (simp add: l_def Un_assoc)
  next
    case False
    then show ?thesis using "2.IH"(2) "2.prems" by simp
  qed
qed simp

lemma merge_from_starts:
  "sorted (iv_start cur # map iv_start ivs) \<Longrightarrow> iv \<in> set (merge_from cur ivs) \<Longrightarrow> iv_start cur \<le> iv_start iv"
  by (induction cur ivs rule: merge_from.induct) (fastforce split: if_splits)+

lemma separated_Nil: "separated []"
  by (simp add: separated_def)

lemma separated_Cons: "separated (iv # ivs) \<longleftrightarrow> (\<forall>x \<in> set ivs. iv_end iv < iv_start x) \<and> separated ivs"
  by (simp add: separated_def)

lemma separated_merge_from:
  "sorted (iv_start cur # map iv_start ivs) \<Longrightarrow> separated (merge_from cur ivs)"
proof (induction cur ivs rule: merge_from.induct)
  case (1 cur)
  then show ?case by (simp add: separated_def)
next
  case (2 cur iv ivs)
  then show ?case
    by (cases "iv_start iv \<le> iv_end cur")
      (auto simp: separated_Cons dest!: merge_from_starts [rotated])
qed

lemma merge_from_nonempty:
  "nonempty cur \<Longrightarrow> list_all nonempty ivs \<Longrightarrow> list_all nonempty (merge_from cur ivs)"
  by (induction cur ivs rule: merge_from.induct) (auto simp: nonempty_def)

lemma sort_key_starts: "sort_key iv_start ivs = x # xs \<Longrightarrow> sorted (iv_start x # map iv_start xs)"
  by (metis list.map(2) sorted_sort_key)

text \<open>Union covers exactly what its inputs cover, in separated spans.\<close>

lemma cover_union_ivs [cover_simps]: "cover (union_ivs ivs) = cover ivs"
proof (cases "sort_key iv_start ivs")
  case Nil
  then show ?thesis by (metis cover_Nil cover_mset list.simps(4) mset_sort union_ivs_def)
next
  case (Cons x xs)
  then have "cover (union_ivs ivs) = cover (x # xs)"
    using cover_merge_from [OF sort_key_starts [OF Cons]] by (simp add: union_ivs_def)
  also have "\<dots> = cover ivs"
    by (metis Cons cover_mset mset_sort)
  finally show ?thesis .
qed

lemma separated_union_ivs: "separated (union_ivs ivs)"
proof (cases "sort_key iv_start ivs")
  case Nil
  then show ?thesis by (simp add: union_ivs_def separated_def)
next
  case (Cons x xs)
  then show ?thesis
    using separated_merge_from [OF sort_key_starts [OF Cons]] by (simp add: union_ivs_def)
qed

lemma union_ivs_nonempty:
  assumes "list_all nonempty ivs"
  shows "list_all nonempty (union_ivs ivs)"
proof (cases "sort_key iv_start ivs")
  case (Cons x xs)
  have "list_all nonempty (x # xs)"
    using assms by (simp add: list_all_iff flip: Cons)
  then show ?thesis
    using Cons by (simp add: union_ivs_def merge_from_nonempty)
qed (simp add: union_ivs_def)

text \<open>
  Separated spans are determined by what they cover. So the order in which Go's unstable sort
  leaves spans with equal starts cannot be seen in the result of \<open>union\<close>.
\<close>

lemma separated_head:
  assumes "separated (a # xs)" "list_all nonempty (a # xs)"
  shows "iv_start a \<in> cover (a # xs)" and "\<And>t. t \<in> cover (a # xs) \<Longrightarrow> iv_start a \<le> t"
    and "iv_end a \<notin> cover (a # xs)" and "cover xs = cover (a # xs) - covered a"
proof -
  have a: "iv_start a < iv_end a" using assms(2) by (simp add: nonempty_def)
  have later: "iv_end a < t" if "t \<in> cover xs" for t
    using that assms(1) by (fastforce simp: separated_Cons cover_def covered_def)
  show "iv_start a \<in> cover (a # xs)" using a by (simp add: covered_def)
  show "iv_start a \<le> t" if "t \<in> cover (a # xs)" for t
    using that later a by (fastforce simp: covered_def)
  show "iv_end a \<notin> cover (a # xs)" using later by (auto simp: covered_def)
  show "cover xs = cover (a # xs) - covered a" using later by (fastforce simp: covered_def)
qed

lemma separated_unique:
  assumes "separated xs" "separated ys" "list_all nonempty xs" "list_all nonempty ys"
    and "cover xs = cover ys"
  shows "xs = ys"
  using assms
proof (induction xs arbitrary: ys)
  case Nil
  then show ?case
    by (cases ys) (auto simp: nonempty_covered)
next
  case (Cons a xs)
  show ?case
  proof (cases ys)
    case Nil
    with Cons.prems show ?thesis by (auto simp: nonempty_covered)
  next
    case (Cons b ys')
    note A = separated_head [OF Cons.prems(1,3)]
    note B = separated_head [OF Cons.prems(2,4) [unfolded Cons]]
    have eq: "cover (a # xs) = cover (b # ys')" using Cons.prems(5) Cons by simp
    have ne: "iv_start a < iv_end a" "iv_start b < iv_end b"
      using Cons.prems(3,4) Cons by (simp_all add: nonempty_def)
    have start: "iv_start a = iv_start b"
      using A(2) [OF B(1) [folded eq]] B(2) [OF A(1) [unfolded eq]] by (rule order_antisym)
    have "\<not> iv_end a < iv_end b"
      using A(3) ne start unfolding eq by (simp add: covered_def)
    moreover have "\<not> iv_end b < iv_end a"
      using B(3) ne start unfolding eq [symmetric] by (simp add: covered_def)
    ultimately have ab: "a = b" using start by simp
    have "cover xs = cover ys'"
      using A(4) B(4) eq ab by simp
    then have "xs = ys'"
      using Cons.prems Cons by (intro Cons.IH) (auto simp: separated_Cons)
    then show ?thesis using Cons ab by simp
  qed
qed

lemma union_ivs_cong:
  assumes "list_all nonempty xs" "list_all nonempty ys" "cover xs = cover ys"
  shows "union_ivs xs = union_ivs ys"
  using assms
  by (intro separated_unique) (simp_all add: separated_union_ivs union_ivs_nonempty cover_union_ivs)

lemma union_ivs_perm:
  "list_all nonempty xs \<Longrightarrow> mset xs = mset ys \<Longrightarrow> union_ivs xs = union_ivs ys"
  by (metis union_ivs_cong cover_mset list.pred_set mset_eq_setD)


section \<open>Subtraction\<close>

lemma cover_subtract_from:
  assumes "iv_start win \<le> cursor" and "sorted (map iv_start occs)"
  shows "cover (subtract_from win cursor occs) = {cursor..<iv_end win} - cover occs"
  using assms
proof (induction win cursor occs rule: subtract_from.induct)
  case (2 win cursor occ occs)
  have later: "\<And>t. t \<in> cover occs \<Longrightarrow> iv_start occ \<le> t"
    using "2.prems"(2) by (fastforce simp: cover_def covered_def)
  show ?case
  proof (cases "iv_end occ < iv_start win \<or> iv_end win < iv_start occ")
    case True
    then have "covered occ \<inter> {cursor..<iv_end win} = {}"
      using "2.prems"(1) by (auto simp: covered_def)
    with True "2" show ?thesis by auto
  next
    case False
    define c where "c = (if cursor < iv_end occ then iv_end occ else cursor)"
    have "cover (subtract_from win c occs) = {c..<iv_end win} - cover occs"
      using "2.IH"(2) False "2.prems" by (simp add: c_def)
    with False have "cover (subtract_from win cursor (occ # occs)) =
        {cursor..<iv_start occ} \<union> ({c..<iv_end win} - cover occs)"
      by (auto simp: c_def [symmetric])
    also have "\<dots> = {cursor..<iv_end win} - cover (occ # occs)"
      using False by (auto simp: c_def covered_def dest: later split: if_splits)
    finally show ?thesis .
  qed
qed auto

lemma subtract_from_within:
  "iv_start win \<le> cursor \<Longrightarrow> iv \<in> set (subtract_from win cursor occs) \<Longrightarrow>
     nonempty iv \<and> cursor \<le> iv_start iv \<and> iv_end iv \<le> iv_end win"
proof (induction win cursor occs rule: subtract_from.induct)
  case (2 win cursor occ occs)
  show ?case
  proof (cases "iv_end occ < iv_start win \<or> iv_end win < iv_start occ")
    case True
    with 2 show ?thesis by simp
  next
    case False
    with 2 show ?thesis by (fastforce simp: nonempty_def split: if_splits)
  qed
qed (auto simp: nonempty_def split: if_splits)

lemma in_order_append:
  "in_order (xs @ ys) \<longleftrightarrow> in_order xs \<and> in_order ys \<and> (\<forall>x \<in> set xs. \<forall>y \<in> set ys. iv_end x \<le> iv_start y)"
  by (simp add: in_order_def sorted_wrt_append)

lemma subtract_from_in_order:
  "iv_start win \<le> cursor \<Longrightarrow> \<forall>occ \<in> set occs. iv_start occ \<le> iv_end occ \<Longrightarrow> in_order (subtract_from win cursor occs)"
proof (induction win cursor occs rule: subtract_from.induct)
  case (1 win cursor)
  then show ?case by (simp add: in_order_def)
next
  case (2 win cursor occ occs)
  show ?case
  proof (cases "iv_end occ < iv_start win \<or> iv_end win < iv_start occ")
    case True
    with 2 show ?thesis by simp
  next
    case False
    define c where "c = (if cursor < iv_end occ then iv_end occ else cursor)"
    have c: "iv_start win \<le> c" "iv_start occ \<le> c \<or> \<not> cursor < iv_start occ"
      using "2.prems" by (auto simp: c_def)
    have rest: "in_order (subtract_from win c occs)"
      using "2.IH"(2) False "2.prems" by (simp add: c_def)
    have "iv_start occ \<le> iv_start y" if "cursor < iv_start occ" "y \<in> set (subtract_from win c occs)" for y
      using c that subtract_from_within [OF c(1) that(2)] by auto
    with False rest show ?thesis
      by (auto simp: c_def [symmetric] in_order_def)
  qed
qed

lemma separated_sorted: "separated ivs \<Longrightarrow> list_all nonempty ivs \<Longrightarrow> sorted (map iv_start ivs)"
  by (induction ivs) (fastforce simp: separated_Cons nonempty_def)+

text \<open>What is left of a window is the window without the occupied time.\<close>

lemma cover_subtract_ivs [cover_simps]:
  "separated occ \<Longrightarrow> list_all nonempty occ \<Longrightarrow> cover (subtract_ivs win occ) = covered win - cover occ"
  by (simp add: subtract_ivs_def cover_subtract_from separated_sorted covered_def)

lemma subtract_ivs_nonempty: "list_all nonempty (subtract_ivs win occ)"
  by (auto simp: subtract_ivs_def list_all_iff dest: subtract_from_within [OF order_refl])


section \<open>Durations are cardinalities\<close>

lemma total_duration_fold: "foldl (\<lambda>d iv. d + f iv) d ivs = (d :: int) + sum_list (map f ivs)"
  by (induction ivs arbitrary: d) auto

lemma total_duration_Cons:
  "total_duration (iv # ivs) = time_sub (iv_end iv) (iv_start iv) + total_duration ivs"
  by (simp add: total_duration_def total_duration_fold)

lemma total_duration_Nil [simp]: "total_duration [] = 0"
  by (simp add: total_duration_def)

text \<open>Spans short enough that \<open>Sub\<close> does not saturate (under 292 years).\<close>

definition short :: "interval \<Rightarrow> bool" where
  "short iv \<longleftrightarrow> iv_end iv - iv_start iv < 2 ^ 63"

lemma total_duration_card:
  assumes "in_order ivs" "list_all nonempty ivs" "list_all short ivs"
  shows "total_duration ivs = int (card (cover ivs))"
  using assms
proof (induction ivs)
  case (Cons iv ivs)
  have disj: "covered iv \<inter> cover ivs = {}"
    using Cons.prems by (auto simp: in_order_def cover_def covered_def)
  have "int (card (covered iv)) = iv_end iv - iv_start iv"
    using Cons.prems by (simp add: covered_def nonempty_def)
  moreover have "time_sub (iv_end iv) (iv_start iv) = iv_end iv - iv_start iv"
    using Cons.prems by (intro time_sub_exact) (auto simp: short_def nonempty_def)
  moreover have "card (cover (iv # ivs)) = card (covered iv) + card (cover ivs)"
    using disj by (simp add: card_Un_disjoint covered_def)
  moreover have "total_duration ivs = int (card (cover ivs))"
    using Cons by (simp add: in_order_def)
  ultimately show ?case by (simp add: total_duration_Cons)
qed simp

lemma separated_in_order: "separated ivs \<Longrightarrow> in_order ivs"
  unfolding separated_def in_order_def by (erule sorted_wrt_mono_rel [rotated]) auto


section \<open>Cutting one span out of another\<close>

text \<open>
  The contract: for a span \<open>e\<close> that does not run backwards, the pieces cover what \<open>g\<close> covers
  outside \<open>e\<close>, and no piece is empty unless \<open>g\<close> was.
\<close>

locale span_cutter =
  fixes cut :: "interval \<Rightarrow> interval \<Rightarrow> interval list"
  assumes cut_cover: "iv_start e \<le> iv_end e \<Longrightarrow> cover (cut g e) = covered g - covered e"
    and cut_nonempty: "nonempty g \<Longrightarrow> piece \<in> set (cut g e) \<Longrightarrow> nonempty piece"
begin

lemma cut_disjoint: "iv_start e \<le> iv_end e \<Longrightarrow> piece \<in> set (cut g e) \<Longrightarrow> covered piece \<inter> covered e = {}"
  using cut_cover [of e g] by (auto simp: cover_def)

lemma cut_within: "iv_start e \<le> iv_end e \<Longrightarrow> piece \<in> set (cut g e) \<Longrightarrow> covered piece \<subseteq> covered g"
  using cut_cover [of e g] by (auto simp: cover_def)

lemma cut_all_cover:
  "iv_start e \<le> iv_end e \<Longrightarrow> cover (concat (map (\<lambda>g. cut g e) gs)) = cover gs - covered e"
  by (induction gs) (auto simp: cut_cover)

lemma cut_all_nonempty:
  "list_all nonempty gs \<Longrightarrow> list_all nonempty (concat (map (\<lambda>g. cut g e) gs))"
  by (auto simp: list_all_iff dest: cut_nonempty)

text \<open>Cutting a list of spans out, one after the other, leaves what none of them covers.\<close>

lemma cut_fold_cover:
  "\<forall>e \<in> set es. iv_start e \<le> iv_end e \<Longrightarrow>
     cover (fold (\<lambda>e gs. concat (map (\<lambda>g. cut g e) gs)) es gs) = cover gs - cover es"
  by (induction es arbitrary: gs) (auto simp: cut_all_cover)

lemma cut_fold_nonempty:
  "list_all nonempty gs \<Longrightarrow>
     list_all nonempty (fold (\<lambda>e gs. concat (map (\<lambda>g. cut g e) gs)) es gs)"
  by (induction es arbitrary: gs) (simp_all add: cut_all_nonempty)

end

definition around_pieces :: "interval \<Rightarrow> interval \<Rightarrow> interval list" where
  "around_pieces gap event =
     (case splitAround gap event of (before, overlap, after) \<Rightarrow>
        (case before of None \<Rightarrow> [] | Some b \<Rightarrow> [b]) @ (case after of None \<Rightarrow> [] | Some a \<Rightarrow> [a]))"

interpretation around: span_cutter around_pieces
proof unfold_locales
  fix g e :: interval
  assume "iv_start e \<le> iv_end e"
  then show "cover (around_pieces g e) = covered g - covered e"
    by (auto simp: around_pieces_def splitAround_def covered_def)
next
  fix g e piece :: interval
  assume "nonempty g" "piece \<in> set (around_pieces g e)"
  then show "nonempty piece"
    by (auto simp: around_pieces_def splitAround_def nonempty_def split: if_splits)
qed

interpretation remainder: span_cutter "\<lambda>g e. subtractInterval [g] (iv_start e) (iv_end e)"
proof unfold_locales
  fix g e :: interval
  assume "iv_start e \<le> iv_end e"
  then show "cover (subtractInterval [g] (iv_start e) (iv_end e)) = covered g - covered e"
    by (auto simp: covered_def)
next
  fix g e piece :: interval
  assume "nonempty g" "piece \<in> set (subtractInterval [g] (iv_start e) (iv_end e))"
  then show "nonempty piece"
    by (auto simp: nonempty_def split: if_splits)
qed

interpretation window: span_cutter "\<lambda>g e. subtract_ivs g [e]"
proof unfold_locales
  fix g e :: interval
  assume "iv_start e \<le> iv_end e"
  then show "cover (subtract_ivs g [e]) = covered g - covered e"
    using cover_subtract_from [of g "iv_start g" "[e]"] by (simp add: subtract_ivs_def covered_def)
next
  fix g e piece :: interval
  assume "nonempty g" "piece \<in> set (subtract_ivs g [e])"
  then show "nonempty piece"
    using subtract_ivs_nonempty by (auto simp: list_all_iff)
qed

lemma subtractInterval_concat:
  "subtractInterval sps s e = concat (map (\<lambda>g. subtractInterval [g] s e) sps)"
  by (induction sps) auto

text \<open>The middle portion of a split is what the gap and the event share.\<close>

lemma splitAround_overlap:
  "iv_start e \<le> iv_end e \<Longrightarrow> splitAround g e = (b, o', a) \<Longrightarrow>
     (case o' of None \<Rightarrow> {} | Some x \<Rightarrow> covered x) = covered g \<inter> covered e"
  by (auto simp: splitAround_def covered_def split: if_splits)

lemma splitAround_before_after:
  assumes "splitAround g e = (b, o', a)" "iv_start e \<le> iv_end e" "nonempty g"
  shows "b = Some x \<Longrightarrow> nonempty x \<and> iv_start x = iv_start g \<and> iv_end x \<le> iv_end g"
    and "a = Some x \<Longrightarrow> nonempty x \<and> iv_start g \<le> iv_start x \<and> iv_end x = iv_end g"
  using assms by (auto simp: splitAround_def nonempty_def split: if_splits)

end
