(* ===== verification/Store.thy ===== *)
theory Store
  imports Json Intervals "HOL-Library.Option_ord" "HOL-Library.Product_Lexorder"
begin

text \<open>
  The SQLite store of internal/db: one record per table of internal/db/sqlc/models.go, and the
  statements INSERT, UPDATE, DELETE as operations on a table inside the database, with the
  constraints of internal/db/migrations. The locale \<open>table_in\<close> is the contract of a table in the
  database: what a lookup returns after a statement, and that ids stay distinct. It is
  interpreted for every table of the model. \<open>created_at\<close> and \<open>updated_at\<close> columns are left out,
  AUTOINCREMENT keys are the counter of the table, and a row with NULL in a column has \<open>None\<close>.
\<close>


section \<open>Rows\<close>

record time_entry =
  te_id :: int
  te_period :: int
  te_start :: string
  te_end :: string
  te_duration :: int
  te_day :: string
  te_category :: "int option"
  te_description :: string
  te_attestation :: string
  te_source_kind :: "string option"
  te_source_id :: "string option"
  te_source_revision :: "string option"
  te_method :: "string option"
  te_work_type :: string
  te_project :: "int option"
  te_billable :: string

record event =
  ev_id :: int
  ev_period :: int
  ev_calendar :: int
  ev_provider :: string
  ev_external :: string
  ev_instance :: string
  ev_recurring :: string
  ev_ical :: string
  ev_title :: string
  ev_description :: string
  ev_location :: string
  ev_organizer :: string
  ev_attendees :: string
  ev_status :: string
  ev_all_day :: bool
  ev_start_utc :: "string option"
  ev_end_utc :: "string option"
  ev_start_date :: "string option"
  ev_end_date :: "string option"
  ev_tz :: string
  ev_active :: bool
  ev_hash :: string

record overlay =
  ov_id :: int
  ov_period :: int
  ov_provider :: string
  ov_external :: string
  ov_instance :: string
  ov_category :: "int option"
  ov_resolved_overlap :: "json option"
  ov_note :: string
  ov_kind :: string

record review_item =
  rv_id :: int
  rv_period :: int
  rv_kind :: string
  rv_event :: "int option"
  rv_payload :: json
  rv_status :: string
  rv_conflict_key :: string
  rv_action :: string
  rv_decision :: json

record period =
  pd_id :: int
  pd_start :: string
  pd_end :: string
  pd_cadence :: string
  pd_anchor :: string
  pd_synced :: "string option"

record tz_segment =
  sg_id :: int
  sg_period :: int
  sg_from :: string
  sg_tz :: string

record memory =
  me_key :: string
  me_category :: int
  me_hits :: int

record category =
  ct_id :: int
  ct_name :: string
  ct_default_gap :: bool
  ct_description :: string
  ct_key :: string
  ct_color :: string
  ct_archived :: "string option"

record project =
  pj_id :: int
  pj_name :: string
  pj_key :: string
  pj_color :: "string option"
  pj_archived :: "string option"

record calendar =
  cl_id :: int
  cl_provider :: string
  cl_external :: string
  cl_name :: string
  cl_primary :: bool
  cl_selected :: bool
  cl_category :: "int option"

record work_schedule =
  ws_id :: int
  ws_timezone :: string
  ws_workweek_start :: string
  ws_from :: string
  ws_to :: "string option"

record work_schedule_day =
  wd_id :: int
  wd_schedule :: int
  wd_weekday :: string
  wd_expected :: int

text \<open>\<open>WorkScheduleWindow\<close> and \<open>ScheduleExceptionWindow\<close> have the same columns.\<close>

record window_row =
  ww_id :: int
  ww_owner :: int
  ww_start :: int
  ww_end :: int

record schedule_exception =
  sx_id :: int
  sx_date :: string
  sx_kind :: string
  sx_expected :: int

text \<open>
  The body of an export template is a text, read as JSON where the format is tabular:
  \<open>bd_json\<close> is what \<open>json.Unmarshal\<close> decodes the trimmed text to, \<open>None\<close> if it is not JSON.
\<close>

record template_body =
  bd_raw :: string
  bd_json :: "json option"

record export_template =
  xt_id :: int
  xt_key :: string
  xt_name :: string
  xt_description :: string
  xt_format :: string
  xt_builtin :: bool
  xt_body :: template_body


section \<open>Tables and the database\<close>

record 'r table =
  tbl_rows :: "'r list"
  tbl_seq :: int

record db =
  db_entries :: "time_entry table"
  db_events :: "event table"
  db_overlays :: "overlay table"
  db_reviews :: "review_item table"
  db_periods :: "period table"
  db_segments :: "tz_segment table"
  db_memory :: "memory list"
  db_categories :: "category table"
  db_projects :: "project table"
  db_calendars :: "calendar table"
  db_schedules :: "work_schedule table"
  db_schedule_days :: "work_schedule_day table"
  db_schedule_windows :: "window_row table"
  db_exceptions :: "schedule_exception table"
  db_exception_windows :: "window_row table"
  db_settings :: "(string \<times> json) list"
  db_templates :: "export_template table"

definition empty_table :: "'r table" where
  "empty_table = \<lparr>tbl_rows = [], tbl_seq = 0\<rparr>"

definition empty_db :: db where
  "empty_db = \<lparr>db_entries = empty_table, db_events = empty_table, db_overlays = empty_table,
     db_reviews = empty_table, db_periods = empty_table, db_segments = empty_table, db_memory = [],
     db_categories = empty_table, db_projects = empty_table, db_calendars = empty_table,
     db_schedules = empty_table, db_schedule_days = empty_table, db_schedule_windows = empty_table,
     db_exceptions = empty_table, db_exception_windows = empty_table, db_settings = [],
     db_templates = empty_table\<rparr>"

text \<open>\<open>SELECT ... WHERE\<close> of one row and of many, in insertion order.\<close>

definition find_row :: "('r \<Rightarrow> bool) \<Rightarrow> 'r table \<Rightarrow> 'r option" where
  "find_row P t = find P (tbl_rows t)"

definition select_rows :: "('r \<Rightarrow> bool) \<Rightarrow> 'r table \<Rightarrow> 'r list" where
  "select_rows P t = filter P (tbl_rows t)"

text \<open>
  A statement on the table that \<open>get\<close> reads and \<open>put\<close> writes. \<open>ok d r\<close> are the constraints of
  row \<open>r\<close> in the database \<open>d\<close>: a statement that breaks one is refused as a whole.
\<close>

definition insert_into ::
    "('d \<Rightarrow> 'r table) \<Rightarrow> ('r table \<Rightarrow> 'd \<Rightarrow> 'd) \<Rightarrow> ('d \<Rightarrow> 'r \<Rightarrow> bool) \<Rightarrow> (int \<Rightarrow> 'r) \<Rightarrow> ('d, 'r) act" where
  "insert_into get put ok mk = (\<lambda>d.
     let t = get d; r = mk (tbl_seq t + 1)
     in if ok d r then (Inr r, put (t\<lparr>tbl_rows := tbl_rows t @ [r], tbl_seq := tbl_seq t + 1\<rparr>) d)
        else (Inl ErrConstraint, d))"

definition update_where ::
    "('d \<Rightarrow> 'r table) \<Rightarrow> ('r table \<Rightarrow> 'd \<Rightarrow> 'd) \<Rightarrow> ('d \<Rightarrow> 'r \<Rightarrow> bool) \<Rightarrow> ('r \<Rightarrow> bool) \<Rightarrow> ('r \<Rightarrow> 'r) \<Rightarrow>
       ('d, 'r list) act" where
  "update_where get put ok P f = (\<lambda>d.
     let t = get d;
         d' = put (t\<lparr>tbl_rows := map (\<lambda>r. if P r then f r else r) (tbl_rows t)\<rparr>) d
     in if list_all (\<lambda>r. ok d' (f r)) (filter P (tbl_rows t))
        then (Inr (map f (filter P (tbl_rows t))), d')
        else (Inl ErrConstraint, d))"

definition delete_where ::
    "('d \<Rightarrow> 'r table) \<Rightarrow> ('r table \<Rightarrow> 'd \<Rightarrow> 'd) \<Rightarrow> ('r \<Rightarrow> bool) \<Rightarrow> ('d, int) act" where
  "delete_where get put P = (\<lambda>d.
     let t = get d
     in (Inr (int (length (filter P (tbl_rows t)))),
         put (t\<lparr>tbl_rows := filter (\<lambda>r. \<not> P r) (tbl_rows t)\<rparr>) d))"

text \<open>A \<open>:one\<close> statement scans the first row it returns.\<close>

definition scan_one :: "('d, 'r list) act \<Rightarrow> ('d, 'r) act" where
  "scan_one m = act_bind m (\<lambda>rs. case rs of [] \<Rightarrow> act_throw ErrNoRows | r # _ \<Rightarrow> act_ret r)"

text \<open>A query that returns one row: no row is \<open>sql.ErrNoRows\<close>.\<close>

definition get_one :: "('d \<Rightarrow> 'r option) \<Rightarrow> ('d, 'r) act" where
  "get_one f = (\<lambda>d. case f d of None \<Rightarrow> (Inl ErrNoRows, d) | Some r \<Rightarrow> (Inr r, d))"

text \<open>\<open>INSERT ... ON CONFLICT DO UPDATE\<close>: \<open>same\<close> recognises the row in conflict.\<close>

definition upsert_into ::
    "('d \<Rightarrow> 'r table) \<Rightarrow> ('r table \<Rightarrow> 'd \<Rightarrow> 'd) \<Rightarrow> ('d \<Rightarrow> 'r \<Rightarrow> bool) \<Rightarrow> ('r \<Rightarrow> bool) \<Rightarrow> ('r \<Rightarrow> 'r) \<Rightarrow>
       (int \<Rightarrow> 'r) \<Rightarrow> ('d, 'r) act" where
  "upsert_into get put ok same upd mk = (\<lambda>d.
     if list_ex same (tbl_rows (get d)) then scan_one (update_where get put ok same upd) d
     else insert_into get put ok mk d)"

text \<open>\<open>mapErr\<close> (service.go): a missing row becomes \<open>ErrNotFound\<close>, any other error is passed on.\<close>

definition mapErr :: "('s, 'a) act \<Rightarrow> ('s, 'a) act" where
  "mapErr m = (\<lambda>s. case m s of
      (Inl e, t) \<Rightarrow> (Inl (if e = ErrNoRows then ErrNotFound else e), t)
    | (Inr x, t) \<Rightarrow> (Inr x, t))"

lemma mapErr_Inr [simp]: "mapErr m s = (Inr x, t) \<longleftrightarrow> m s = (Inr x, t)"
  by (auto simp: mapErr_def split: prod.splits sum.splits)

lemma mapErr_ret [act_simps, simp]: "mapErr (act_ret x) = act_ret x"
  by (rule ext) (simp add: mapErr_def)

lemma mapErr_state: "snd (mapErr m s) = snd (m s)"
  by (auto simp: mapErr_def split: prod.splits sum.splits)

lemma mapErr_not_no_rows: "fst (mapErr m s) \<noteq> Inl ErrNoRows"
  by (auto simp: mapErr_def split: prod.splits sum.splits)

lemma moves_mapErr: "moves R m \<Longrightarrow> moves R (mapErr m)"
  by (simp add: moves_def mapErr_state)

lemma get_one_Inr [simp]: "get_one f d = (Inr r, d') \<longleftrightarrow> f d = Some r \<and> d' = d"
  by (auto simp: get_one_def split: option.splits)

lemma get_one_state [simp]: "snd (get_one f d) = d"
  by (simp add: get_one_def split: option.splits)

lemma mapErr_get_one: "mapErr (get_one f) d = (case f d of None \<Rightarrow> (Inl ErrNotFound, d) | Some r \<Rightarrow> (Inr r, d))"
  by (simp add: mapErr_def get_one_def split: option.splits)

lemma readonly_get_one [simp]: "readonly (get_one f)"
  by (simp add: readonly_def)

lemma readonly_mapErr [simp]: "readonly m \<Longrightarrow> readonly (mapErr m)"
  by (simp add: readonly_def mapErr_state)

lemma atomic_mapErr: "atomic m \<Longrightarrow> atomic (mapErr m)"
  by (auto simp: atomic_def mapErr_def split: prod.splits sum.splits)

lemma moves_bind_one:
  assumes "frame_relation R" "\<And>d x. f d = Some x \<Longrightarrow> moves R (k x)"
  shows "moves R (act_bind (mapErr (get_one f)) k)"
  unfolding moves_def
proof
  fix d
  show "R d (snd (act_bind (mapErr (get_one f)) k d))"
    using assms(2) [of d] frame_relation.frame_refl [OF assms(1)]
    by (cases "f d") (auto simp: act_bind_def mapErr_get_one moves_def)
qed

lemma scan_one_state: "snd (scan_one m s) = snd (m s)"
  by (auto simp: scan_one_def act_bind_def split: prod.splits sum.splits list.splits)

lemma moves_scan_one: "moves R m \<Longrightarrow> moves R (scan_one m)"
  by (simp add: moves_def scan_one_state)

lemma scan_one_Inr: "scan_one m s = (Inr x, t) \<longleftrightarrow> (\<exists>xs. m s = (Inr (x # xs), t))"
proof
  assume "scan_one m s = (Inr x, t)"
  then obtain rs u where rs: "m s = (Inr rs, u)"
      "(case rs of [] \<Rightarrow> act_throw ErrNoRows | r # _ \<Rightarrow> act_ret r) u = (Inr x, t)"
    by (auto simp: scan_one_def act_bind_eq_Inr_iff)
  then show "\<exists>xs. m s = (Inr (x # xs), t)" by (cases rs) auto
qed (auto simp: scan_one_def act_bind_eq_Inr_iff)


section \<open>The contract of a table\<close>

definition ids_ok :: "('r \<Rightarrow> int) \<Rightarrow> 'r table \<Rightarrow> bool" where
  "ids_ok key t \<longleftrightarrow> distinct (map key (tbl_rows t)) \<and> (\<forall>r \<in> set (tbl_rows t). 0 < key r \<and> key r \<le> tbl_seq t)
     \<and> 0 \<le> tbl_seq t"

lemma ids_ok_empty [simp]: "ids_ok key empty_table"
  by (simp add: ids_ok_def empty_table_def)

lemma find_key:
  "distinct (map key rs) \<Longrightarrow> r \<in> set rs \<Longrightarrow> find (\<lambda>x. key x = key r) rs = Some r"
  by (induction rs) auto

lemma find_map_update:
  "(\<And>r. P r \<Longrightarrow> key (f r) = key r) \<Longrightarrow>
     find (\<lambda>x. key x = i) (map (\<lambda>r. if P r then f r else r) rs) =
       map_option (\<lambda>r. if P r then f r else r) (find (\<lambda>x. key x = i) rs)"
  by (induction rs) auto

lemma find_key_Some: "find (\<lambda>x. key x = i) rs = Some r \<Longrightarrow> r \<in> set rs \<and> key r = i"
  by (auto simp: find_Some_iff)

lemma find_key_fresh: "i \<notin> key ` set rs \<Longrightarrow> find (\<lambda>x. key x = i) rs = None"
  by (auto simp: find_None_iff)

lemma find_filter_key:
  "distinct (map key rs) \<Longrightarrow>
     find (\<lambda>x. key x = i) (filter Q rs) =
       (case find (\<lambda>x. key x = i) rs of None \<Rightarrow> None | Some r \<Rightarrow> if Q r then Some r else None)"
proof (induction rs)
  case (Cons a rs)
  then have "find (\<lambda>x. key x = key a) (filter Q rs) = None" by (intro find_key_fresh) auto
  with Cons show ?case by auto
qed simp

lemma filter_key_find:
  "distinct (map key rs) \<Longrightarrow>
     filter (\<lambda>x. key x = i) rs = (case find (\<lambda>x. key x = i) rs of None \<Rightarrow> [] | Some r \<Rightarrow> [r])"
proof (induction rs)
  case (Cons a rs)
  have "key x \<noteq> key a" if "x \<in> set rs" for x
    using Cons.prems that by (metis distinct.simps(2) image_eqI list.set_map list.simps(9))
  then have "filter (\<lambda>x. key x = key a) rs = []" by (simp add: filter_empty_conv)
  with Cons show ?case by auto
qed simp

lemma find_snoc:
  "find P (xs @ [r]) = (case find P xs of None \<Rightarrow> if P r then Some r else None | Some x \<Rightarrow> Some x)"
  by (induction xs) auto

locale table_in =
  fixes get :: "'d \<Rightarrow> 'r table" and put :: "'r table \<Rightarrow> 'd \<Rightarrow> 'd" and key :: "'r \<Rightarrow> int"
  assumes get_put [simp]: "get (put t d) = t"
    and put_put [simp]: "put t (put u d) = put t d"
    and put_get [simp]: "put (get d) d = d"
begin

definition lookup :: "int \<Rightarrow> 'd \<Rightarrow> 'r option" where
  "lookup i d = find_row (\<lambda>r. key r = i) (get d)"

lemma insert_Inr:
  "insert_into get put ok mk d = (Inr r, d') \<longleftrightarrow>
     r = mk (tbl_seq (get d) + 1) \<and> ok d r \<and>
     d' = put ((get d)\<lparr>tbl_rows := tbl_rows (get d) @ [r], tbl_seq := tbl_seq (get d) + 1\<rparr>) d"
  by (auto simp: insert_into_def Let_def)

lemma insert_Inl: "insert_into get put ok mk d = (Inl e, d') \<Longrightarrow> d' = d \<and> e = ErrConstraint"
  by (auto simp: insert_into_def Let_def split: if_splits)

lemma update_Inl: "update_where get put ok P f d = (Inl e, d') \<Longrightarrow> d' = d \<and> e = ErrConstraint"
  by (auto simp: update_where_def Let_def split: if_splits)

lemma insert_rows:
  "insert_into get put ok mk d = (Inr r, d') \<Longrightarrow> tbl_rows (get d') = tbl_rows (get d) @ [r]"
  by (simp add: insert_Inr)

lemma insert_keeps_ids:
  assumes "insert_into get put ok mk d = (Inr r, d')" "ids_ok key (get d)" "\<And>i. key (mk i) = i"
  shows "ids_ok key (get d')"
  using assms by (fastforce simp: insert_Inr ids_ok_def)

lemma insert_lookup:
  assumes "insert_into get put ok mk d = (Inr r, d')" "ids_ok key (get d)" "\<And>i. key (mk i) = i"
  shows "lookup i d' = (if i = key r then Some r else lookup i d)"
proof -
  have fresh: "key r \<notin> key ` set (tbl_rows (get d))"
    using assms by (auto simp: insert_Inr ids_ok_def)
  show ?thesis
  proof (cases "i = key r")
    case True
    then show ?thesis
      using find_key_fresh [OF fresh] insert_rows [OF assms(1)]
      by (simp add: lookup_def find_row_def find_snoc)
  next
    case False
    then show ?thesis
      using insert_rows [OF assms(1)]
      by (auto simp: lookup_def find_row_def find_snoc split: option.splits)
  qed
qed

lemma update_rows:
  "update_where get put ok P f d = (Inr rs, d') \<Longrightarrow>
     tbl_rows (get d') = map (\<lambda>r. if P r then f r else r) (tbl_rows (get d)) \<and>
     tbl_seq (get d') = tbl_seq (get d) \<and> rs = map f (filter P (tbl_rows (get d)))"
  by (auto simp: update_where_def Let_def split: if_splits)

lemma update_keeps_ids:
  assumes "update_where get put ok P f d = (Inr rs, d')" "ids_ok key (get d)"
    and "\<And>r. P r \<Longrightarrow> key (f r) = key r"
  shows "ids_ok key (get d')"
proof -
  have keys: "map key (tbl_rows (get d')) = map key (tbl_rows (get d))"
    using assms(3) update_rows [OF assms(1)] by simp
  have "0 < key r \<and> key r \<le> tbl_seq (get d)" if "r \<in> set (tbl_rows (get d'))" for r
  proof -
    have "key r \<in> key ` set (tbl_rows (get d))"
      using that keys by (metis image_eqI list.set_map)
    then show ?thesis using assms(2) by (auto simp: ids_ok_def)
  qed
  then show ?thesis
    using assms(2) update_rows [OF assms(1)] unfolding ids_ok_def keys by simp
qed

lemma update_lookup:
  assumes "update_where get put ok P f d = (Inr rs, d')" "\<And>r. P r \<Longrightarrow> key (f r) = key r"
  shows "lookup i d' = map_option (\<lambda>r. if P r then f r else r) (lookup i d)"
  using update_rows [OF assms(1)] assms(2) by (simp add: lookup_def find_row_def find_map_update)

lemma delete_rows:
  "delete_where get put P d = (Inr n, d') \<Longrightarrow>
     tbl_rows (get d') = filter (\<lambda>r. \<not> P r) (tbl_rows (get d)) \<and> tbl_seq (get d') = tbl_seq (get d)"
  by (auto simp: delete_where_def Let_def)

lemma delete_keeps_ids:
  "delete_where get put P d = (Inr n, d') \<Longrightarrow> ids_ok key (get d) \<Longrightarrow> ids_ok key (get d')"
  using delete_rows [of P d n d'] by (auto simp: ids_ok_def distinct_map_filter)

lemma lookup_Some_in: "lookup i d = Some r \<Longrightarrow> r \<in> set (tbl_rows (get d)) \<and> key r = i"
  by (auto simp: lookup_def find_row_def find_Some_iff)

lemma lookup_row: "ids_ok key (get d) \<Longrightarrow> r \<in> set (tbl_rows (get d)) \<Longrightarrow> lookup (key r) d = Some r"
  by (simp add: lookup_def find_row_def ids_ok_def find_key)

text \<open>A statement that fails leaves the table alone; so does an update that finds no row.\<close>

lemma atomic_insert: "atomic (insert_into get put ok mk)"
  by (auto simp: atomic_def dest: insert_Inl)

lemma atomic_update: "atomic (update_where get put ok P f)"
  by (auto simp: atomic_def dest: update_Inl)

lemma atomic_delete: "atomic (delete_where get put P)"
  by (auto simp: atomic_def delete_where_def Let_def)

lemma update_none:
  assumes "update_where get put ok P f d = (Inr [], d')"
  shows "d' = d"
proof -
  have none: "\<not> P r" if "r \<in> set (tbl_rows (get d))" for r
    using assms that by (auto simp: update_where_def Let_def filter_empty_conv split: if_splits)
  then have "map (\<lambda>r. if P r then f r else r) (tbl_rows (get d)) = tbl_rows (get d)"
    by (intro map_idI) auto
  then show ?thesis using assms by (auto simp: update_where_def Let_def split: if_splits)
qed

lemma atomic_scan_update: "atomic (scan_one (update_where get put ok P f))"
  unfolding atomic_def
proof (intro allI impI)
  fix d e d' assume a: "scan_one (update_where get put ok P f) d = (Inl e, d')"
  show "d' = d"
  proof (cases "update_where get put ok P f d")
    case (Pair r u)
    show ?thesis
    proof (cases r)
      case (Inl e')
      then show ?thesis using a Pair update_Inl by (auto simp: scan_one_def act_bind_def)
    next
      case (Inr rs)
      then show ?thesis using a Pair update_none
        by (cases rs) (auto simp: scan_one_def act_bind_def)
    qed
  qed
qed

text \<open>Frames: a relation that holds of every write of the table holds of the statements.\<close>

lemma moves_insert:
  "(\<And>d. R d d) \<Longrightarrow>
   (\<And>d r. r = mk (tbl_seq (get d) + 1) \<Longrightarrow>
      R d (put ((get d)\<lparr>tbl_rows := tbl_rows (get d) @ [r], tbl_seq := tbl_seq (get d) + 1\<rparr>) d)) \<Longrightarrow>
   moves R (insert_into get put ok mk)"
  by (simp add: moves_def insert_into_def Let_def)

lemma moves_update:
  "(\<And>d. R d d) \<Longrightarrow>
   (\<And>d. R d (put ((get d)\<lparr>tbl_rows := map (\<lambda>r. if P r then f r else r) (tbl_rows (get d))\<rparr>) d)) \<Longrightarrow>
   moves R (update_where get put ok P f)"
  by (simp add: moves_def update_where_def Let_def)

lemma moves_upsert:
  "moves R (insert_into get put ok mk) \<Longrightarrow> moves R (update_where get put ok same upd) \<Longrightarrow>
   moves R (upsert_into get put ok same upd mk)"
  by (simp add: moves_def upsert_into_def scan_one_state)

lemma moves_delete:
  "(\<And>d. R d (put ((get d)\<lparr>tbl_rows := filter (\<lambda>r. \<not> P r) (tbl_rows (get d))\<rparr>) d)) \<Longrightarrow>
   moves R (delete_where get put P)"
  by (simp add: moves_def delete_where_def Let_def)

end

end
