(* ===== verification/Queries.thy ===== *)
theory Queries
  imports Store
begin

text \<open>
  The statements of internal/db/sqlc: \<open>q_<Name>\<close> is the query \<open>Name\<close>. Reads are functions of the
  database; an ORDER BY is a stable sort of the rows in insertion order. Writes are computations:
  their constraints are the CHECK, UNIQUE and foreign-key clauses and the triggers of
  internal/db/migrations, and a deletion carries out the ON DELETE action of every column that
  refers to the deleted row. The parameter struct of an insert or update is the row itself, whose
  id the insert ignores.
\<close>


section \<open>Constraints\<close>

definition has_id :: "('r \<Rightarrow> int) \<Rightarrow> 'r table \<Rightarrow> int \<Rightarrow> bool" where
  "has_id key t i = list_ex (\<lambda>r. key r = i) (tbl_rows t)"

definition ref_ok :: "('r \<Rightarrow> int) \<Rightarrow> 'r table \<Rightarrow> int option \<Rightarrow> bool" where
  "ref_ok key t r = (case r of None \<Rightarrow> True | Some i \<Rightarrow> has_id key t i)"

text \<open>No other row has the same unique key.\<close>

definition alone :: "('r \<Rightarrow> int) \<Rightarrow> ('r \<Rightarrow> 'k) \<Rightarrow> 'r table \<Rightarrow> 'r \<Rightarrow> bool" where
  "alone key uk t r = list_all (\<lambda>x. key x = key r \<or> uk x \<noteq> uk r) (tbl_rows t)"

definition attestations :: "string list" where
  "attestations = [''draft'', ''confirmed'', ''dismissed'']"

definition work_types :: "string list" where
  "work_types = [''worked'', ''paid_leave'', ''unpaid_leave'', ''holiday'', ''break'', ''adjustment'']"

definition billable_statuses :: "string list" where
  "billable_statuses = [''unset'', ''billable'', ''non_billable'']"

definition weekdays :: "string list" where
  "weekdays = [''monday'', ''tuesday'', ''wednesday'', ''thursday'', ''friday'', ''saturday'', ''sunday'']"

definition te_ok :: "db \<Rightarrow> time_entry \<Rightarrow> bool" where
  "te_ok d r \<longleftrightarrow> has_id pd_id (db_periods d) (te_period r) \<and>
     ref_ok ct_id (db_categories d) (te_category r) \<and> ref_ok pj_id (db_projects d) (te_project r) \<and>
     te_attestation r \<in> set attestations \<and> te_work_type r \<in> set work_types \<and>
     te_billable r \<in> set billable_statuses"

definition ev_ok :: "db \<Rightarrow> event \<Rightarrow> bool" where
  "ev_ok d r \<longleftrightarrow> has_id pd_id (db_periods d) (ev_period r) \<and>
     has_id cl_id (db_calendars d) (ev_calendar r) \<and>
     alone ev_id (\<lambda>x. (ev_period x, ev_calendar x, ev_external x, ev_instance x)) (db_events d) r"

definition ov_ok :: "db \<Rightarrow> overlay \<Rightarrow> bool" where
  "ov_ok d r \<longleftrightarrow> has_id pd_id (db_periods d) (ov_period r) \<and>
     ref_ok ct_id (db_categories d) (ov_category r) \<and>
     ov_kind r \<in> {''category'', ''overlap'', ''status''} \<and>
     alone ov_id (\<lambda>x. (ov_period x, ov_provider x, ov_external x, ov_instance x, ov_kind x))
       (db_overlays d) r"

definition review_kinds :: "string list" where
  "review_kinds = [''new_in_gap'', ''title_changed'', ''deleted_categorized'', ''dedup_ambiguous'',
     ''overlap'', ''tentative'', ''all_day'', ''source_drift'']"

definition rv_ok :: "db \<Rightarrow> review_item \<Rightarrow> bool" where
  "rv_ok d r \<longleftrightarrow> has_id pd_id (db_periods d) (rv_period r) \<and>
     ref_ok ev_id (db_events d) (rv_event r) \<and>
     rv_kind r \<in> set review_kinds \<and> rv_status r \<in> {''open'', ''resolved'', ''dismissed''} \<and>
     (rv_conflict_key r \<noteq> '''' \<longrightarrow>
        alone rv_id (\<lambda>x. (rv_period x, rv_kind x, rv_conflict_key x)) (db_reviews d) r)"

definition pd_ok :: "db \<Rightarrow> period \<Rightarrow> bool" where
  "pd_ok d r \<longleftrightarrow> pd_cadence r \<in> {''weekly'', ''bi-weekly'', ''semi-monthly'', ''monthly''} \<and>
     alone pd_id (\<lambda>x. (pd_start x, pd_end x)) (db_periods d) r"

definition sg_ok :: "db \<Rightarrow> tz_segment \<Rightarrow> bool" where
  "sg_ok d r \<longleftrightarrow> has_id pd_id (db_periods d) (sg_period r) \<and>
     alone sg_id (\<lambda>x. (sg_period x, sg_from x)) (db_segments d) r"

definition ct_ok :: "db \<Rightarrow> category \<Rightarrow> bool" where
  "ct_ok d r \<longleftrightarrow> alone ct_id ct_name (db_categories d) r \<and> alone ct_id ct_key (db_categories d) r \<and>
     (ct_default_gap r \<longrightarrow> alone ct_id ct_default_gap (db_categories d) r)"

definition pj_ok :: "db \<Rightarrow> project \<Rightarrow> bool" where
  "pj_ok d r \<longleftrightarrow> alone pj_id pj_name (db_projects d) r \<and> alone pj_id pj_key (db_projects d) r"

definition cl_ok :: "db \<Rightarrow> calendar \<Rightarrow> bool" where
  "cl_ok d r \<longleftrightarrow> ref_ok ct_id (db_categories d) (cl_category r) \<and>
     alone cl_id (\<lambda>x. (cl_provider x, cl_external x)) (db_calendars d) r"

text \<open>The CHECK of work_schedule and its two triggers: effective ranges do not overlap.\<close>

definition ranges_overlap :: "work_schedule \<Rightarrow> work_schedule \<Rightarrow> bool" where
  "ranges_overlap x y \<longleftrightarrow>
     (case ws_to x of None \<Rightarrow> True | Some t \<Rightarrow> ws_from y < t) \<and>
     (case ws_to y of None \<Rightarrow> True | Some t \<Rightarrow> ws_from x < t)"

definition ws_ok :: "db \<Rightarrow> work_schedule \<Rightarrow> bool" where
  "ws_ok d r \<longleftrightarrow> ws_workweek_start r \<in> set weekdays \<and>
     (case ws_to r of None \<Rightarrow> True | Some t \<Rightarrow> ws_from r < t) \<and>
     list_all (\<lambda>x. ws_id x = ws_id r \<or> \<not> ranges_overlap x r) (tbl_rows (db_schedules d))"

definition wd_ok :: "db \<Rightarrow> work_schedule_day \<Rightarrow> bool" where
  "wd_ok d r \<longleftrightarrow> has_id ws_id (db_schedules d) (wd_schedule r) \<and> wd_weekday r \<in> set weekdays \<and>
     0 \<le> wd_expected r \<and> alone wd_id (\<lambda>x. (wd_schedule x, wd_weekday x)) (db_schedule_days d) r"

definition window_ok :: "window_row \<Rightarrow> bool" where
  "window_ok r \<longleftrightarrow> 0 \<le> ww_start r \<and> ww_start r < 1440 \<and> 0 < ww_end r \<and> ww_end r \<le> 1440 \<and>
     ww_start r < ww_end r"

definition sx_ok :: "db \<Rightarrow> schedule_exception \<Rightarrow> bool" where
  "sx_ok d r \<longleftrightarrow> sx_kind r \<in> {''holiday'', ''leave'', ''changed_hours''} \<and> 0 \<le> sx_expected r \<and>
     alone sx_id sx_date (db_exceptions d) r"

definition xt_ok :: "db \<Rightarrow> export_template \<Rightarrow> bool" where
  "xt_ok d r \<longleftrightarrow> xt_format r \<in> {''csv'', ''tsv'', ''text''} \<and> alone xt_id xt_key (db_templates d) r"


section \<open>The tables of the database\<close>

abbreviation put_entries :: "time_entry table \<Rightarrow> db \<Rightarrow> db" where "put_entries t d \<equiv> d\<lparr>db_entries := t\<rparr>"
abbreviation put_events :: "event table \<Rightarrow> db \<Rightarrow> db" where "put_events t d \<equiv> d\<lparr>db_events := t\<rparr>"
abbreviation put_overlays :: "overlay table \<Rightarrow> db \<Rightarrow> db" where "put_overlays t d \<equiv> d\<lparr>db_overlays := t\<rparr>"
abbreviation put_reviews :: "review_item table \<Rightarrow> db \<Rightarrow> db" where "put_reviews t d \<equiv> d\<lparr>db_reviews := t\<rparr>"
abbreviation put_periods :: "period table \<Rightarrow> db \<Rightarrow> db" where "put_periods t d \<equiv> d\<lparr>db_periods := t\<rparr>"
abbreviation put_segments :: "tz_segment table \<Rightarrow> db \<Rightarrow> db" where "put_segments t d \<equiv> d\<lparr>db_segments := t\<rparr>"
abbreviation put_categories :: "category table \<Rightarrow> db \<Rightarrow> db" where "put_categories t d \<equiv> d\<lparr>db_categories := t\<rparr>"
abbreviation put_projects :: "project table \<Rightarrow> db \<Rightarrow> db" where "put_projects t d \<equiv> d\<lparr>db_projects := t\<rparr>"
abbreviation put_calendars :: "calendar table \<Rightarrow> db \<Rightarrow> db" where "put_calendars t d \<equiv> d\<lparr>db_calendars := t\<rparr>"
abbreviation put_schedules :: "work_schedule table \<Rightarrow> db \<Rightarrow> db" where "put_schedules t d \<equiv> d\<lparr>db_schedules := t\<rparr>"
abbreviation put_schedule_days :: "work_schedule_day table \<Rightarrow> db \<Rightarrow> db" where
  "put_schedule_days t d \<equiv> d\<lparr>db_schedule_days := t\<rparr>"
abbreviation put_schedule_windows :: "window_row table \<Rightarrow> db \<Rightarrow> db" where
  "put_schedule_windows t d \<equiv> d\<lparr>db_schedule_windows := t\<rparr>"
abbreviation put_exceptions :: "schedule_exception table \<Rightarrow> db \<Rightarrow> db" where
  "put_exceptions t d \<equiv> d\<lparr>db_exceptions := t\<rparr>"
abbreviation put_exception_windows :: "window_row table \<Rightarrow> db \<Rightarrow> db" where
  "put_exception_windows t d \<equiv> d\<lparr>db_exception_windows := t\<rparr>"
abbreviation put_templates :: "export_template table \<Rightarrow> db \<Rightarrow> db" where
  "put_templates t d \<equiv> d\<lparr>db_templates := t\<rparr>"

interpretation entries: table_in db_entries put_entries te_id by unfold_locales simp_all
interpretation events: table_in db_events put_events ev_id by unfold_locales simp_all
interpretation overlays: table_in db_overlays put_overlays ov_id by unfold_locales simp_all
interpretation reviews: table_in db_reviews put_reviews rv_id by unfold_locales simp_all
interpretation periods: table_in db_periods put_periods pd_id by unfold_locales simp_all
interpretation segments: table_in db_segments put_segments sg_id by unfold_locales simp_all
interpretation categories: table_in db_categories put_categories ct_id by unfold_locales simp_all
interpretation projects: table_in db_projects put_projects pj_id by unfold_locales simp_all
interpretation calendars: table_in db_calendars put_calendars cl_id by unfold_locales simp_all
interpretation schedules: table_in db_schedules put_schedules ws_id by unfold_locales simp_all
interpretation schedule_days: table_in db_schedule_days put_schedule_days wd_id by unfold_locales simp_all
interpretation schedule_windows: table_in db_schedule_windows put_schedule_windows ww_id
  by unfold_locales simp_all
interpretation exceptions: table_in db_exceptions put_exceptions sx_id by unfold_locales simp_all
interpretation exception_windows: table_in db_exception_windows put_exception_windows ww_id
  by unfold_locales simp_all
interpretation templates: table_in db_templates put_templates xt_id by unfold_locales simp_all

text \<open>A stable descending sort, for \<open>ORDER BY ... DESC\<close>.\<close>

definition sort_desc :: "('r \<Rightarrow> 'k::linorder) \<Rightarrow> 'r list \<Rightarrow> 'r list" where
  "sort_desc f rs = rev (sort_key f (rev rs))"


section \<open>time_entry.sql.go\<close>

definition q_ListTimeEntriesForPeriod :: "int \<Rightarrow> db \<Rightarrow> time_entry list" where
  "q_ListTimeEntriesForPeriod p d =
     sort_key (\<lambda>r. (te_day r, te_start r)) (select_rows (\<lambda>r. te_period r = p) (db_entries d))"

definition q_GetTimeEntry :: "int \<Rightarrow> int \<Rightarrow> db \<Rightarrow> time_entry option" where
  "q_GetTimeEntry i p d = find_row (\<lambda>r. te_id r = i \<and> te_period r = p) (db_entries d)"

definition q_CreateTimeEntry :: "time_entry \<Rightarrow> (db, time_entry) act" where
  "q_CreateTimeEntry arg = insert_into db_entries put_entries te_ok (\<lambda>i. arg\<lparr>te_id := i\<rparr>)"

definition update_entry ::
    "int \<Rightarrow> int \<Rightarrow> (time_entry \<Rightarrow> bool) \<Rightarrow> (time_entry \<Rightarrow> time_entry) \<Rightarrow> (db, time_entry list) act" where
  "update_entry i p Q f =
     update_where db_entries put_entries te_ok (\<lambda>r. te_id r = i \<and> te_period r = p \<and> Q r) f"

definition q_UpdateTimeEntry :: "time_entry \<Rightarrow> (db, time_entry) act" where
  "q_UpdateTimeEntry arg = scan_one (update_entry (te_id arg) (te_period arg) (\<lambda>r. True)
     (\<lambda>r. r\<lparr>te_start := te_start arg, te_end := te_end arg, te_duration := te_duration arg,
        te_day := te_day arg, te_category := te_category arg, te_description := te_description arg,
        te_work_type := te_work_type arg, te_project := te_project arg,
        te_billable := te_billable arg\<rparr>))"

definition q_UpdateTimeEntrySpan ::
    "string \<Rightarrow> string \<Rightarrow> int \<Rightarrow> string \<Rightarrow> int \<Rightarrow> int \<Rightarrow> (db, time_entry) act" where
  "q_UpdateTimeEntrySpan s e dur day i p = scan_one (update_entry i p (\<lambda>r. True)
     (\<lambda>r. r\<lparr>te_start := s, te_end := e, te_duration := dur, te_day := day\<rparr>))"

definition q_UpdateTimeEntryAttestation :: "string \<Rightarrow> int \<Rightarrow> int \<Rightarrow> (db, time_entry) act" where
  "q_UpdateTimeEntryAttestation a i p =
     scan_one (update_entry i p (\<lambda>r. True) (\<lambda>r. r\<lparr>te_attestation := a\<rparr>))"

definition q_UpdateTimeEntryCalendarDraft :: "time_entry \<Rightarrow> (db, time_entry) act" where
  "q_UpdateTimeEntryCalendarDraft arg =
     scan_one (update_entry (te_id arg) (te_period arg) (\<lambda>r. te_attestation r = ''draft'')
       (\<lambda>r. r\<lparr>te_start := te_start arg, te_end := te_end arg, te_duration := te_duration arg,
          te_day := te_day arg, te_description := te_description arg,
          te_source_revision := te_source_revision arg, te_category := te_category arg\<rparr>))"

definition q_UpdateTimeEntrySourceRevision :: "string option \<Rightarrow> int \<Rightarrow> int \<Rightarrow> (db, unit) act" where
  "q_UpdateTimeEntrySourceRevision v i p =
     act_seq (update_entry i p (\<lambda>r. True) (\<lambda>r. r\<lparr>te_source_revision := v\<rparr>)) (act_ret ())"

definition q_DeleteTimeEntry :: "int \<Rightarrow> int \<Rightarrow> (db, int) act" where
  "q_DeleteTimeEntry i p = delete_where db_entries put_entries (\<lambda>r. te_id r = i \<and> te_period r = p)"


section \<open>event.sql.go\<close>

definition excluded_by_status :: "db \<Rightarrow> event \<Rightarrow> bool" where
  "excluded_by_status d e = list_ex (\<lambda>ov. ov_period ov = ev_period e \<and> ov_provider ov = ev_provider e \<and>
     ov_external ov = ev_external e \<and> ov_instance ov = ev_instance e \<and> ov_kind ov = ''status'' \<and>
     ov_note ov = ''excluded'') (tbl_rows (db_overlays d))"

definition event_order :: "event \<Rightarrow> string option \<times> string option" where
  "event_order e = (ev_start_utc e, ev_start_date e)"

definition q_ListEventsForPeriod :: "int \<Rightarrow> db \<Rightarrow> event list" where
  "q_ListEventsForPeriod p d = sort_key event_order
     (select_rows (\<lambda>e. ev_period e = p \<and> ev_active e \<and> \<not> excluded_by_status d e) (db_events d))"

definition q_ListAllEventsForPeriod :: "int \<Rightarrow> db \<Rightarrow> event list" where
  "q_ListAllEventsForPeriod p d =
     sort_key event_order (select_rows (\<lambda>e. ev_period e = p) (db_events d))"

definition q_GetEvent :: "int \<Rightarrow> db \<Rightarrow> event option" where
  "q_GetEvent i d = find_row (\<lambda>e. ev_id e = i) (db_events d)"

text \<open>A new event is active; an update of a known one keeps its id, its period, its calendar and \<open>active\<close>.\<close>

definition q_UpsertEvent :: "event \<Rightarrow> (db, event) act" where
  "q_UpsertEvent arg = upsert_into db_events put_events ev_ok
     (\<lambda>r. ev_period r = ev_period arg \<and> ev_calendar r = ev_calendar arg \<and>
        ev_external r = ev_external arg \<and> ev_instance r = ev_instance arg)
     (\<lambda>r. arg\<lparr>ev_id := ev_id r, ev_active := ev_active r\<rparr>)
     (\<lambda>i. arg\<lparr>ev_id := i, ev_active := True\<rparr>)"

definition q_SetEventActiveByCalendar :: "bool \<Rightarrow> int \<Rightarrow> (db, unit) act" where
  "q_SetEventActiveByCalendar b c = act_seq
     (update_where db_events put_events ev_ok (\<lambda>r. ev_calendar r = c) (\<lambda>r. r\<lparr>ev_active := b\<rparr>))
     (act_ret ())"

definition q_DeleteEvent :: "int \<Rightarrow> (db, unit) act" where
  "q_DeleteEvent i =
     act_seq (delete_where db_reviews put_reviews (\<lambda>r. rv_event r = Some i))
       (act_seq (delete_where db_events put_events (\<lambda>e. ev_id e = i)) (act_ret ()))"


section \<open>overlay.sql.go\<close>

definition q_ListOverlaysForPeriod :: "int \<Rightarrow> db \<Rightarrow> overlay list" where
  "q_ListOverlaysForPeriod p d = select_rows (\<lambda>ov. ov_period ov = p) (db_overlays d)"

definition same_overlay :: "int \<Rightarrow> string \<Rightarrow> string \<Rightarrow> string \<Rightarrow> string \<Rightarrow> overlay \<Rightarrow> bool" where
  "same_overlay p prov ext inst kind ov \<longleftrightarrow> ov_period ov = p \<and> ov_provider ov = prov \<and>
     ov_external ov = ext \<and> ov_instance ov = inst \<and> ov_kind ov = kind"

definition q_GetOverlay :: "int \<Rightarrow> string \<Rightarrow> string \<Rightarrow> string \<Rightarrow> string \<Rightarrow> db \<Rightarrow> overlay option" where
  "q_GetOverlay p prov ext inst kind d = find_row (same_overlay p prov ext inst kind) (db_overlays d)"

definition q_UpsertOverlay :: "overlay \<Rightarrow> (db, overlay) act" where
  "q_UpsertOverlay arg = upsert_into db_overlays put_overlays ov_ok
     (same_overlay (ov_period arg) (ov_provider arg) (ov_external arg) (ov_instance arg) (ov_kind arg))
     (\<lambda>r. r\<lparr>ov_category := ov_category arg, ov_resolved_overlap := ov_resolved_overlap arg,
        ov_note := ov_note arg\<rparr>)
     (\<lambda>i. arg\<lparr>ov_id := i\<rparr>)"

definition q_DeleteOverlay :: "int \<Rightarrow> (db, unit) act" where
  "q_DeleteOverlay i =
     act_seq (delete_where db_overlays put_overlays (\<lambda>ov. ov_id ov = i)) (act_ret ())"


section \<open>review_item.sql.go\<close>

definition q_GetReviewItem :: "int \<Rightarrow> db \<Rightarrow> review_item option" where
  "q_GetReviewItem i d = find_row (\<lambda>r. rv_id r = i) (db_reviews d)"

text \<open>Open rows first, then the newest.\<close>

definition q_GetReviewItemByConflictKey :: "int \<Rightarrow> string \<Rightarrow> string \<Rightarrow> db \<Rightarrow> review_item option" where
  "q_GetReviewItemByConflictKey p kind k d =
     (case sort_key (\<lambda>r. rv_status r \<noteq> ''open'')
        (rev (select_rows (\<lambda>r. rv_period r = p \<and> rv_kind r = kind \<and> rv_conflict_key r = k) (db_reviews d)))
      of [] \<Rightarrow> None | r # _ \<Rightarrow> Some r)"

definition q_ListOpenReviewItems :: "int \<Rightarrow> db \<Rightarrow> review_item list" where
  "q_ListOpenReviewItems p d =
     select_rows (\<lambda>r. rv_period r = p \<and> rv_status r = ''open'') (db_reviews d)"

definition q_CreateReviewItem ::
    "int \<Rightarrow> string \<Rightarrow> int option \<Rightarrow> json \<Rightarrow> string \<Rightarrow> (db, review_item) act" where
  "q_CreateReviewItem p kind e payload k = insert_into db_reviews put_reviews rv_ok
     (\<lambda>i. \<lparr>rv_id = i, rv_period = p, rv_kind = kind, rv_event = e, rv_payload = payload,
        rv_status = ''open'', rv_conflict_key = k, rv_action = '''', rv_decision = JObj []\<rparr>)"

definition update_review ::
    "int \<Rightarrow> (review_item \<Rightarrow> bool) \<Rightarrow> (review_item \<Rightarrow> review_item) \<Rightarrow> (db, review_item list) act" where
  "update_review i Q f = update_where db_reviews put_reviews rv_ok (\<lambda>r. rv_id r = i \<and> Q r) f"

definition q_UpdateOpenReviewItemPayload :: "json \<Rightarrow> int \<Rightarrow> (db, int) act" where
  "q_UpdateOpenReviewItemPayload payload i = act_bind
     (update_review i (\<lambda>r. rv_status r = ''open'') (\<lambda>r. r\<lparr>rv_payload := payload\<rparr>))
     (\<lambda>rs. act_ret (int (length rs)))"

definition q_ReopenReviewItem :: "json \<Rightarrow> int option \<Rightarrow> int \<Rightarrow> (db, int) act" where
  "q_ReopenReviewItem payload e i = act_bind
     (update_review i (\<lambda>r. rv_status r \<in> {''resolved'', ''dismissed''})
        (\<lambda>r. r\<lparr>rv_status := ''open'', rv_payload := payload, rv_event := e, rv_action := '''',
           rv_decision := JObj []\<rparr>))
     (\<lambda>rs. act_ret (int (length rs)))"

definition q_ResolveReviewItem :: "string \<Rightarrow> string \<Rightarrow> json \<Rightarrow> int \<Rightarrow> (db, unit) act" where
  "q_ResolveReviewItem status action payload i = act_seq
     (update_review i (\<lambda>r. True)
        (\<lambda>r. r\<lparr>rv_status := status, rv_action := action, rv_decision := payload\<rparr>))
     (act_ret ())"


section \<open>period.sql.go\<close>

definition q_GetPeriod :: "int \<Rightarrow> db \<Rightarrow> period option" where
  "q_GetPeriod i d = find_row (\<lambda>p. pd_id p = i) (db_periods d)"

definition q_GetPeriodByRange :: "string \<Rightarrow> string \<Rightarrow> db \<Rightarrow> period option" where
  "q_GetPeriodByRange s e d = find_row (\<lambda>p. pd_start p = s \<and> pd_end p = e) (db_periods d)"

definition q_ListPeriods :: "db \<Rightarrow> period list" where
  "q_ListPeriods d = sort_desc pd_start (tbl_rows (db_periods d))"

definition q_CreatePeriod :: "string \<Rightarrow> string \<Rightarrow> string \<Rightarrow> string \<Rightarrow> (db, period) act" where
  "q_CreatePeriod s e cadence anchor = insert_into db_periods put_periods pd_ok
     (\<lambda>i. \<lparr>pd_id = i, pd_start = s, pd_end = e, pd_cadence = cadence, pd_anchor = anchor,
        pd_synced = None\<rparr>)"

definition q_TouchPeriodSynced :: "string option \<Rightarrow> int \<Rightarrow> (db, unit) act" where
  "q_TouchPeriodSynced at i = act_seq
     (update_where db_periods put_periods pd_ok (\<lambda>p. pd_id p = i) (\<lambda>p. p\<lparr>pd_synced := at\<rparr>)) (act_ret ())"

definition q_ListTzSegments :: "int \<Rightarrow> db \<Rightarrow> tz_segment list" where
  "q_ListTzSegments p d = sort_key sg_from (select_rows (\<lambda>s. sg_period s = p) (db_segments d))"

definition q_UpsertTzSegment :: "int \<Rightarrow> string \<Rightarrow> string \<Rightarrow> (db, tz_segment) act" where
  "q_UpsertTzSegment p from tz = upsert_into db_segments put_segments sg_ok
     (\<lambda>s. sg_period s = p \<and> sg_from s = from) (\<lambda>s. s\<lparr>sg_tz := tz\<rparr>)
     (\<lambda>i. \<lparr>sg_id = i, sg_period = p, sg_from = from, sg_tz = tz\<rparr>)"


section \<open>memory.sql.go and app_setting.sql.go\<close>

definition q_GetMemory :: "string \<Rightarrow> db \<Rightarrow> memory option" where
  "q_GetMemory k d = find (\<lambda>m. me_key m = k) (db_memory d)"

definition q_GetSetting :: "string \<Rightarrow> db \<Rightarrow> json option" where
  "q_GetSetting k d = map_of (db_settings d) k"

definition q_SetSetting :: "string \<Rightarrow> json \<Rightarrow> (db, unit) act" where
  "q_SetSetting k v = act_modify (\<lambda>d. d\<lparr>db_settings :=
     (if k \<in> fst ` set (db_settings d)
      then map (\<lambda>(k', v'). if k' = k then (k, v) else (k', v')) (db_settings d)
      else db_settings d @ [(k, v)])\<rparr>)"


section \<open>category.sql.go\<close>

definition q_ListCategories :: "db \<Rightarrow> category list" where
  "q_ListCategories d = sort_key ct_name (select_rows (\<lambda>c. ct_archived c = None) (db_categories d))"

definition q_ListAllCategories :: "db \<Rightarrow> category list" where
  "q_ListAllCategories d = sort_key ct_name (tbl_rows (db_categories d))"

definition q_GetCategory :: "int \<Rightarrow> db \<Rightarrow> category option" where
  "q_GetCategory i d = find_row (\<lambda>c. ct_id c = i) (db_categories d)"

definition q_CreateCategory ::
    "string \<Rightarrow> string \<Rightarrow> string \<Rightarrow> bool \<Rightarrow> string \<Rightarrow> (db, category) act" where
  "q_CreateCategory name desc key gap color = insert_into db_categories put_categories ct_ok
     (\<lambda>i. \<lparr>ct_id = i, ct_name = name, ct_default_gap = gap, ct_description = desc, ct_key = key,
        ct_color = color, ct_archived = None\<rparr>)"

definition update_category :: "(category \<Rightarrow> bool) \<Rightarrow> (category \<Rightarrow> category) \<Rightarrow> (db, category list) act" where
  "update_category P f = update_where db_categories put_categories ct_ok P f"

definition q_UpdateCategory :: "string \<Rightarrow> string \<Rightarrow> string \<Rightarrow> string \<Rightarrow> int \<Rightarrow> (db, unit) act" where
  "q_UpdateCategory name desc key color i = act_seq
     (update_category (\<lambda>c. ct_id c = i)
        (\<lambda>c. c\<lparr>ct_name := name, ct_description := desc, ct_key := key, ct_color := color\<rparr>))
     (act_ret ())"

definition q_ClearDefaultGap :: "(db, unit) act" where
  "q_ClearDefaultGap = act_seq (update_category ct_default_gap (\<lambda>c. c\<lparr>ct_default_gap := False\<rparr>)) (act_ret ())"

definition q_SetDefaultGap :: "int \<Rightarrow> (db, unit) act" where
  "q_SetDefaultGap i = act_seq
     (update_category (\<lambda>c. ct_id c = i) (\<lambda>c. c\<lparr>ct_default_gap := True\<rparr>)) (act_ret ())"

definition q_ArchiveCategory :: "string option \<Rightarrow> int \<Rightarrow> (db, category) act" where
  "q_ArchiveCategory at i = scan_one
     (update_category (\<lambda>c. ct_id c = i) (\<lambda>c. c\<lparr>ct_archived := at, ct_default_gap := False\<rparr>))"

definition clear_ref :: "int \<Rightarrow> int option \<Rightarrow> int option" where
  "clear_ref i r = (if r = Some i then None else r)"

definition map_table :: "('r \<Rightarrow> 'r) \<Rightarrow> 'r table \<Rightarrow> 'r table" where
  "map_table f t = t\<lparr>tbl_rows := map f (tbl_rows t)\<rparr>"

text \<open>ON DELETE SET NULL in overlay, time_entry and calendar, ON DELETE CASCADE in memory.\<close>

definition q_DeleteCategory :: "int \<Rightarrow> (db, unit) act" where
  "q_DeleteCategory i = act_seq
     (delete_where db_categories put_categories (\<lambda>c. ct_id c = i))
     (act_modify (\<lambda>d. d\<lparr>
        db_overlays := map_table (\<lambda>r. r\<lparr>ov_category := clear_ref i (ov_category r)\<rparr>) (db_overlays d),
        db_entries := map_table (\<lambda>r. r\<lparr>te_category := clear_ref i (te_category r)\<rparr>) (db_entries d),
        db_calendars := map_table (\<lambda>r. r\<lparr>cl_category := clear_ref i (cl_category r)\<rparr>) (db_calendars d),
        db_memory := filter (\<lambda>m. me_category m \<noteq> i) (db_memory d)\<rparr>))"

definition count_rows :: "('r \<Rightarrow> bool) \<Rightarrow> 'r list \<Rightarrow> int" where
  "count_rows P rs = int (length (filter P rs))"

definition q_CountOverlayReferencesToCategory :: "int \<Rightarrow> db \<Rightarrow> int" where
  "q_CountOverlayReferencesToCategory i d =
     count_rows (\<lambda>r. ov_category r = Some i) (tbl_rows (db_overlays d))"

definition q_CountMemoryReferencesToCategory :: "int \<Rightarrow> db \<Rightarrow> int" where
  "q_CountMemoryReferencesToCategory i d = count_rows (\<lambda>m. me_category m = i) (db_memory d)"

definition q_CountCalendarReferencesToCategory :: "int \<Rightarrow> db \<Rightarrow> int" where
  "q_CountCalendarReferencesToCategory i d =
     count_rows (\<lambda>c. cl_category c = Some i) (tbl_rows (db_calendars d))"

definition q_CountTimeEntryReferencesToCategory :: "int \<Rightarrow> db \<Rightarrow> int" where
  "q_CountTimeEntryReferencesToCategory i d =
     count_rows (\<lambda>r. te_category r = Some i) (tbl_rows (db_entries d))"


section \<open>project.sql.go\<close>

definition q_ListProjects :: "db \<Rightarrow> project list" where
  "q_ListProjects d = sort_key pj_name (select_rows (\<lambda>p. pj_archived p = None) (db_projects d))"

definition q_ListAllProjects :: "db \<Rightarrow> project list" where
  "q_ListAllProjects d = sort_key pj_name (tbl_rows (db_projects d))"

definition q_GetProject :: "int \<Rightarrow> db \<Rightarrow> project option" where
  "q_GetProject i d = find_row (\<lambda>p. pj_id p = i) (db_projects d)"

definition q_CreateProject :: "string \<Rightarrow> string \<Rightarrow> string option \<Rightarrow> (db, project) act" where
  "q_CreateProject name key color = insert_into db_projects put_projects pj_ok
     (\<lambda>i. \<lparr>pj_id = i, pj_name = name, pj_key = key, pj_color = color, pj_archived = None\<rparr>)"

definition update_project :: "int \<Rightarrow> (project \<Rightarrow> project) \<Rightarrow> (db, project) act" where
  "update_project i f = scan_one (update_where db_projects put_projects pj_ok (\<lambda>p. pj_id p = i) f)"

definition q_UpdateProject :: "string \<Rightarrow> string \<Rightarrow> string option \<Rightarrow> int \<Rightarrow> (db, project) act" where
  "q_UpdateProject name key color i =
     update_project i (\<lambda>p. p\<lparr>pj_name := name, pj_key := key, pj_color := color\<rparr>)"

definition q_ArchiveProject :: "string option \<Rightarrow> int \<Rightarrow> (db, project) act" where
  "q_ArchiveProject at i = update_project i (\<lambda>p. p\<lparr>pj_archived := at\<rparr>)"

definition q_DeleteProject :: "int \<Rightarrow> (db, unit) act" where
  "q_DeleteProject i = act_seq
     (delete_where db_projects put_projects (\<lambda>p. pj_id p = i))
     (act_modify (\<lambda>d. d\<lparr>db_entries :=
        map_table (\<lambda>r. r\<lparr>te_project := clear_ref i (te_project r)\<rparr>) (db_entries d)\<rparr>))"

definition q_CountTimeEntryReferencesToProject :: "int \<Rightarrow> db \<Rightarrow> int" where
  "q_CountTimeEntryReferencesToProject i d =
     count_rows (\<lambda>r. te_project r = Some i) (tbl_rows (db_entries d))"


section \<open>calendar.sql.go\<close>

definition calendar_order :: "calendar \<Rightarrow> bool \<times> string" where
  "calendar_order c = (\<not> cl_primary c, cl_name c)"

definition q_ListCalendars :: "db \<Rightarrow> calendar list" where
  "q_ListCalendars d = sort_key calendar_order (tbl_rows (db_calendars d))"

definition q_ListSelectedCalendars :: "db \<Rightarrow> calendar list" where
  "q_ListSelectedCalendars d = sort_key calendar_order (select_rows cl_selected (db_calendars d))"

definition q_GetCalendar :: "int \<Rightarrow> db \<Rightarrow> calendar option" where
  "q_GetCalendar i d = find_row (\<lambda>c. cl_id c = i) (db_calendars d)"

definition update_calendar :: "int \<Rightarrow> (calendar \<Rightarrow> calendar) \<Rightarrow> (db, unit) act" where
  "update_calendar i f =
     act_seq (update_where db_calendars put_calendars cl_ok (\<lambda>c. cl_id c = i) f) (act_ret ())"

definition q_SetCalendarSelected :: "bool \<Rightarrow> int \<Rightarrow> (db, unit) act" where
  "q_SetCalendarSelected b i = update_calendar i (\<lambda>c. c\<lparr>cl_selected := b\<rparr>)"

definition q_SetCalendarDefaultCategory :: "int option \<Rightarrow> int \<Rightarrow> (db, unit) act" where
  "q_SetCalendarDefaultCategory k i = update_calendar i (\<lambda>c. c\<lparr>cl_category := k\<rparr>)"


section \<open>work_schedule.sql.go\<close>

definition q_CreateWorkSchedule :: "string \<Rightarrow> string \<Rightarrow> string \<Rightarrow> string option \<Rightarrow> (db, work_schedule) act" where
  "q_CreateWorkSchedule tz ww from to = insert_into db_schedules put_schedules ws_ok
     (\<lambda>i. \<lparr>ws_id = i, ws_timezone = tz, ws_workweek_start = ww, ws_from = from, ws_to = to\<rparr>)"

definition q_ListWorkSchedules :: "db \<Rightarrow> work_schedule list" where
  "q_ListWorkSchedules d = sort_key ws_from (tbl_rows (db_schedules d))"

definition q_GetWorkSchedule :: "int \<Rightarrow> db \<Rightarrow> work_schedule option" where
  "q_GetWorkSchedule i d = find_row (\<lambda>w. ws_id w = i) (db_schedules d)"

definition in_effect :: "string \<Rightarrow> work_schedule \<Rightarrow> bool" where
  "in_effect date w \<longleftrightarrow> ws_from w \<le> date \<and> (case ws_to w of None \<Rightarrow> True | Some t \<Rightarrow> date < t)"

definition q_GetWorkScheduleForDate :: "string \<Rightarrow> db \<Rightarrow> work_schedule option" where
  "q_GetWorkScheduleForDate date d = find_row (in_effect date) (db_schedules d)"

definition q_UpdateWorkScheduleEffectiveTo :: "string option \<Rightarrow> int \<Rightarrow> (db, work_schedule) act" where
  "q_UpdateWorkScheduleEffectiveTo to i = scan_one
     (update_where db_schedules put_schedules ws_ok (\<lambda>w. ws_id w = i) (\<lambda>w. w\<lparr>ws_to := to\<rparr>))"

definition q_CreateWorkScheduleDay :: "int \<Rightarrow> string \<Rightarrow> int \<Rightarrow> (db, work_schedule_day) act" where
  "q_CreateWorkScheduleDay s wd m = insert_into db_schedule_days put_schedule_days wd_ok
     (\<lambda>i. \<lparr>wd_id = i, wd_schedule = s, wd_weekday = wd, wd_expected = m\<rparr>)"

definition weekday_rank :: "string \<Rightarrow> nat" where
  "weekday_rank w = length (takeWhile (\<lambda>x. x \<noteq> w) weekdays) + 1"

definition q_ListWorkScheduleDays :: "int \<Rightarrow> db \<Rightarrow> work_schedule_day list" where
  "q_ListWorkScheduleDays s d = sort_key (\<lambda>r. weekday_rank (wd_weekday r))
     (select_rows (\<lambda>r. wd_schedule r = s) (db_schedule_days d))"

definition q_CreateWorkScheduleWindow :: "int \<Rightarrow> int \<Rightarrow> int \<Rightarrow> (db, window_row) act" where
  "q_CreateWorkScheduleWindow day s e = insert_into db_schedule_windows put_schedule_windows
     (\<lambda>d r. has_id wd_id (db_schedule_days d) (ww_owner r) \<and> window_ok r)
     (\<lambda>i. \<lparr>ww_id = i, ww_owner = day, ww_start = s, ww_end = e\<rparr>)"

definition q_ListWorkScheduleWindows :: "int \<Rightarrow> db \<Rightarrow> window_row list" where
  "q_ListWorkScheduleWindows day d =
     sort_key ww_start (select_rows (\<lambda>w. ww_owner w = day) (db_schedule_windows d))"

definition q_CreateScheduleException :: "string \<Rightarrow> string \<Rightarrow> int \<Rightarrow> (db, schedule_exception) act" where
  "q_CreateScheduleException date kind m = insert_into db_exceptions put_exceptions sx_ok
     (\<lambda>i. \<lparr>sx_id = i, sx_date = date, sx_kind = kind, sx_expected = m\<rparr>)"

definition q_GetScheduleExceptionByDate :: "string \<Rightarrow> db \<Rightarrow> schedule_exception option" where
  "q_GetScheduleExceptionByDate date d = find_row (\<lambda>x. sx_date x = date) (db_exceptions d)"

definition q_ListScheduleExceptions :: "db \<Rightarrow> schedule_exception list" where
  "q_ListScheduleExceptions d = sort_key sx_date (tbl_rows (db_exceptions d))"

definition q_UpdateScheduleException :: "string \<Rightarrow> int \<Rightarrow> int \<Rightarrow> (db, schedule_exception) act" where
  "q_UpdateScheduleException kind m i = scan_one
     (update_where db_exceptions put_exceptions sx_ok (\<lambda>x. sx_id x = i)
        (\<lambda>x. x\<lparr>sx_kind := kind, sx_expected := m\<rparr>))"

text \<open>ON DELETE CASCADE to the windows of the exception.\<close>

definition q_DeleteScheduleException :: "int \<Rightarrow> (db, unit) act" where
  "q_DeleteScheduleException i =
     act_seq (delete_where db_exceptions put_exceptions (\<lambda>x. sx_id x = i))
       (act_seq (delete_where db_exception_windows put_exception_windows (\<lambda>w. ww_owner w = i)) (act_ret ()))"

definition q_DeleteScheduleExceptionWindows :: "int \<Rightarrow> (db, unit) act" where
  "q_DeleteScheduleExceptionWindows i = act_seq
     (delete_where db_exception_windows put_exception_windows (\<lambda>w. ww_owner w = i)) (act_ret ())"

definition q_CreateScheduleExceptionWindow :: "int \<Rightarrow> int \<Rightarrow> int \<Rightarrow> (db, window_row) act" where
  "q_CreateScheduleExceptionWindow x s e = insert_into db_exception_windows put_exception_windows
     (\<lambda>d r. has_id sx_id (db_exceptions d) (ww_owner r) \<and> window_ok r)
     (\<lambda>i. \<lparr>ww_id = i, ww_owner = x, ww_start = s, ww_end = e\<rparr>)"

definition q_ListScheduleExceptionWindows :: "int \<Rightarrow> db \<Rightarrow> window_row list" where
  "q_ListScheduleExceptionWindows x d =
     sort_key ww_start (select_rows (\<lambda>w. ww_owner w = x) (db_exception_windows d))"


section \<open>export_template.sql.go\<close>

definition q_ListExportTemplates :: "db \<Rightarrow> export_template list" where
  "q_ListExportTemplates d = sort_key (\<lambda>x. (\<not> xt_builtin x, xt_name x)) (tbl_rows (db_templates d))"

definition q_GetExportTemplateByKey :: "string \<Rightarrow> db \<Rightarrow> export_template option" where
  "q_GetExportTemplateByKey k d = find_row (\<lambda>x. xt_key x = k) (db_templates d)"

definition q_GetExportTemplate :: "int \<Rightarrow> db \<Rightarrow> export_template option" where
  "q_GetExportTemplate i d = find_row (\<lambda>x. xt_id x = i) (db_templates d)"

definition q_CreateExportTemplate ::
    "string \<Rightarrow> string \<Rightarrow> string \<Rightarrow> string \<Rightarrow> bool \<Rightarrow> template_body \<Rightarrow> (db, export_template) act" where
  "q_CreateExportTemplate k name desc fmt b body = insert_into db_templates put_templates xt_ok
     (\<lambda>i. \<lparr>xt_id = i, xt_key = k, xt_name = name, xt_description = desc, xt_format = fmt,
        xt_builtin = b, xt_body = body\<rparr>)"

definition q_UpdateExportTemplate ::
    "string \<Rightarrow> string \<Rightarrow> string \<Rightarrow> template_body \<Rightarrow> int \<Rightarrow> (db, export_template) act" where
  "q_UpdateExportTemplate name desc fmt body i = scan_one
     (update_where db_templates put_templates xt_ok (\<lambda>x. xt_id x = i \<and> \<not> xt_builtin x)
        (\<lambda>x. x\<lparr>xt_name := name, xt_description := desc, xt_format := fmt, xt_body := body\<rparr>))"

definition q_DeleteExportTemplate :: "int \<Rightarrow> (db, int) act" where
  "q_DeleteExportTemplate i =
     delete_where db_templates put_templates (\<lambda>x. xt_id x = i \<and> \<not> xt_builtin x)"

definition q_ExportTemplateKeyExists :: "string \<Rightarrow> db \<Rightarrow> int" where
  "q_ExportTemplateKeyExists k d = count_rows (\<lambda>x. xt_key x = k) (tbl_rows (db_templates d))"

end
