(* ===== verification/Schedule.thy ===== *)
theory Schedule
  imports Queries
begin

text \<open>
  Work schedules: internal/service/expected_time.go (what is expected on a date) and
  internal/service/work_schedule.go (effective-dated weekday templates and dated exceptions).
  Read-only calls are functions of the database; the others are computations on it. The
  time-zone database is the parameter \<open>tz\<close>.
\<close>


section \<open>Data\<close>

text \<open>\<open>WorkingWindow\<close>, \<open>ExpectedTime\<close>.\<close>

record working_window =
  wn_start :: int
  wn_end :: int

record expected_time =
  et_date :: string
  et_minutes :: int
  et_windows :: "working_window list"
  et_source :: string
  et_exception_kind :: string
  et_timezone :: string
  et_workweek_start :: string

text \<open>\<open>WorkScheduleDay\<close> and \<open>WorkScheduleDayInput\<close> have the same fields.\<close>

record schedule_day =
  sd_weekday :: string
  sd_expected :: int
  sd_windows :: "working_window list"

record schedule_detail =
  sv_id :: int
  sv_timezone :: string
  sv_workweek_start :: string
  sv_from :: string
  sv_to :: string
  sv_days :: "schedule_day list"

record schedule_input =
  si_timezone :: string
  si_workweek_start :: string
  si_from :: string
  si_days :: "schedule_day list"

record exception_detail =
  xd_id :: int
  xd_date :: string
  xd_kind :: string
  xd_expected :: int
  xd_windows :: "working_window list"

record exception_input =
  xi_date :: string
  xi_kind :: string
  xi_expected :: int
  xi_windows :: "working_window list"


section \<open>expected_time.go\<close>

definition weekday_of :: "int \<Rightarrow> string" where
  "weekday_of day = [''sunday'', ''monday'', ''tuesday'', ''wednesday'', ''thursday'', ''friday'',
     ''saturday''] ! nat (weekday_of_day day)"

definition weekdayName :: "string \<Rightarrow> go_error + string" where
  "weekdayName date = res_bind (res_the ErrOther (parse_date date)) (\<lambda>day. Inr (weekday_of day))"

definition windows_of :: "window_row list \<Rightarrow> working_window list" where
  "windows_of rows = map (\<lambda>r. \<lparr>wn_start = ww_start r, wn_end = ww_end r\<rparr>) rows"

definition listScheduleDayWindows :: "int \<Rightarrow> db \<Rightarrow> working_window list" where
  "listScheduleDayWindows day d = windows_of (q_ListWorkScheduleWindows day d)"

definition listExceptionWindows :: "int \<Rightarrow> db \<Rightarrow> working_window list" where
  "listExceptionWindows x d = windows_of (q_ListScheduleExceptionWindows x d)"

definition ExpectedTimeForDate :: "string \<Rightarrow> db \<Rightarrow> go_error + expected_time" where
  "ExpectedTimeForDate raw d =
     (let date = trim_space raw;
          empty = \<lparr>et_date = date, et_minutes = 0, et_windows = [], et_source = ''weekday'',
                   et_exception_kind = '''', et_timezone = '''', et_workweek_start = ''''\<rparr>
      in if parse_date date = None then Inl ErrOther
         else case q_GetWorkScheduleForDate date d of
           None \<Rightarrow> Inr empty
         | Some sched \<Rightarrow>
             (let empty = empty\<lparr>et_timezone := ws_timezone sched,
                                et_workweek_start := ws_workweek_start sched\<rparr>
              in case q_GetScheduleExceptionByDate date d of
                Some x \<Rightarrow> Inr (empty\<lparr>et_minutes := sx_expected x,
                   et_windows := listExceptionWindows (sx_id x) d, et_source := ''exception'',
                   et_exception_kind := sx_kind x\<rparr>)
              | None \<Rightarrow> res_bind (weekdayName date) (\<lambda>weekday.
                  (case find (\<lambda>r. wd_weekday r = weekday) (q_ListWorkScheduleDays (ws_id sched) d) of
                     None \<Rightarrow> Inr empty
                   | Some day \<Rightarrow> Inr (empty\<lparr>et_minutes := wd_expected day,
                       et_windows := listScheduleDayWindows (wd_id day) d\<rparr>)))))"

definition ExpectedTimeForRange :: "string \<Rightarrow> string \<Rightarrow> db \<Rightarrow> go_error + expected_time list" where
  "ExpectedTimeForRange start end' d =
     res_bind (res_the ErrOther (parse_date (trim_space start))) (\<lambda>a.
     res_bind (res_the ErrOther (parse_date (trim_space end'))) (\<lambda>b.
       if b < a then Inl ErrOther
       else res_each (\<lambda>day. ExpectedTimeForDate (format_date day) d) [a..b]))"


section \<open>work_schedule.go\<close>

definition loadWorkSchedule :: "work_schedule \<Rightarrow> db \<Rightarrow> schedule_detail" where
  "loadWorkSchedule row d =
     \<lparr>sv_id = ws_id row, sv_timezone = ws_timezone row, sv_workweek_start = ws_workweek_start row,
      sv_from = ws_from row, sv_to = (case ws_to row of None \<Rightarrow> '''' | Some t \<Rightarrow> t),
      sv_days = map (\<lambda>r. \<lparr>sd_weekday = wd_weekday r, sd_expected = wd_expected r,
                          sd_windows = listScheduleDayWindows (wd_id r) d\<rparr>)
                  (q_ListWorkScheduleDays (ws_id row) d)\<rparr>"

definition ListWorkSchedules :: "db \<Rightarrow> schedule_detail list" where
  "ListWorkSchedules d = map (\<lambda>r. loadWorkSchedule r d) (q_ListWorkSchedules d)"

definition GetWorkSchedule :: "int \<Rightarrow> (db, schedule_detail) act" where
  "GetWorkSchedule i = act_bind (mapErr (get_one (q_GetWorkSchedule i)))
     (\<lambda>row. act_gets (loadWorkSchedule row))"

fun validateWindows :: "working_window list \<Rightarrow> go_error + unit" where
  "validateWindows [] = Inr ()"
| "validateWindows (w # ws) =
     (if wn_start w < 0 \<or> 1440 \<le> wn_start w then Inl ErrOther
      else if wn_end w \<le> 0 \<or> 1440 < wn_end w then Inl ErrOther
      else if wn_end w \<le> wn_start w then Inl ErrOther
      else validateWindows ws)"

text \<open>The assignment to the loop copy at the end of the Go loop has no effect.\<close>

fun validate_days_from :: "string list \<Rightarrow> schedule_day list \<Rightarrow> go_error + unit" where
  "validate_days_from seen [] = Inr ()"
| "validate_days_from seen (x # xs) =
     (let wd = to_lower (trim_space (sd_weekday x))
      in if wd \<notin> set weekdays then Inl ErrOther
         else if wd \<in> set seen then Inl ErrOther
         else if sd_expected x < 0 then Inl ErrOther
         else res_bind (validateWindows (sd_windows x)) (\<lambda>_. validate_days_from (wd # seen) xs))"

definition validateScheduleDays :: "schedule_day list \<Rightarrow> go_error + unit" where
  "validateScheduleDays days =
     (if length days \<noteq> 7 then Inl ErrOther else validate_days_from [] days)"

definition insertScheduleDays :: "int \<Rightarrow> schedule_day list \<Rightarrow> (db, unit) act" where
  "insertScheduleDays sched days = act_seq
     (for_each (\<lambda>x.
        act_bind (mapErr (q_CreateWorkScheduleDay sched (sd_weekday x) (sd_expected x))) (\<lambda>row.
        for_each (\<lambda>w. mapErr (q_CreateWorkScheduleWindow (wd_id row) (wn_start w) (wn_end w)))
          (sd_windows x))) days)
     (act_ret ())"

text \<open>The loop that closes the schedules that reach past the new start.\<close>

definition close_schedules :: "string \<Rightarrow> work_schedule list \<Rightarrow> (db, unit) act" where
  "close_schedules from rows = act_seq
     (for_each (\<lambda>row.
        if ws_to row = None \<or> from < the (ws_to row)
        then (if from \<le> ws_from row then act_throw ErrOther
              else act_seq (mapErr (q_UpdateWorkScheduleEffectiveTo (Some from) (ws_id row))) (act_ret ()))
        else act_ret ()) rows)
     (act_ret ())"

definition normal_weekday :: "schedule_day \<Rightarrow> schedule_day" where
  "normal_weekday x = x\<lparr>sd_weekday := to_lower (trim_space (sd_weekday x))\<rparr>"

definition ReplaceActiveWorkSchedule :: "tzdb \<Rightarrow> schedule_input \<Rightarrow> (db, schedule_detail) act" where
  "ReplaceActiveWorkSchedule tz input =
     (let zone = trim_space (si_timezone input);
          ww = to_lower (trim_space (si_workweek_start input));
          from = trim_space (si_from input)
      in if zone = '''' then act_throw ErrOther
         else if tz zone = None then act_throw ErrOther
         else if ww \<notin> set weekdays then act_throw ErrOther
         else if parse_date from = None then act_throw ErrOther
         else act_bind (act_lift (validateScheduleDays (si_days input))) (\<lambda>_.
           let days = map normal_weekday (si_days input) in
           act_bind (in_tx
             (act_bind (act_gets q_ListWorkSchedules) (\<lambda>existing.
              act_seq (close_schedules from existing)
                (act_bind (mapErr (q_CreateWorkSchedule zone ww from None)) (\<lambda>created.
                 act_seq (insertScheduleDays (ws_id created) days) (act_ret created))))))
           (\<lambda>created. GetWorkSchedule (ws_id created))))"

definition loadScheduleException :: "schedule_exception \<Rightarrow> db \<Rightarrow> exception_detail" where
  "loadScheduleException row d =
     \<lparr>xd_id = sx_id row, xd_date = sx_date row, xd_kind = sx_kind row, xd_expected = sx_expected row,
      xd_windows = listExceptionWindows (sx_id row) d\<rparr>"

definition ListScheduleExceptions :: "db \<Rightarrow> exception_detail list" where
  "ListScheduleExceptions d = map (\<lambda>r. loadScheduleException r d) (q_ListScheduleExceptions d)"

definition GetScheduleExceptionByDate :: "string \<Rightarrow> (db, exception_detail) act" where
  "GetScheduleExceptionByDate date =
     act_bind (mapErr (get_one (q_GetScheduleExceptionByDate (trim_space date))))
       (\<lambda>row. act_gets (loadScheduleException row))"

definition UpsertScheduleException :: "exception_input \<Rightarrow> (db, exception_detail) act" where
  "UpsertScheduleException input =
     (let date = trim_space (xi_date input);
          kind = to_lower (trim_space (xi_kind input))
      in if parse_date date = None then act_throw ErrOther
         else if kind \<notin> {''holiday'', ''leave'', ''changed_hours''} then act_throw ErrOther
         else if xi_expected input < 0 then act_throw ErrOther
         else if kind \<noteq> ''changed_hours'' \<and> xi_windows input \<noteq> [] then act_throw ErrOther
         else act_bind (act_lift (validateWindows (xi_windows input))) (\<lambda>_.
           act_seq (in_tx
             (act_bind (act_gets (q_GetScheduleExceptionByDate date)) (\<lambda>existing.
              act_bind
                (case existing of
                   None \<Rightarrow> act_bind (mapErr (q_CreateScheduleException date kind (xi_expected input)))
                             (\<lambda>row. act_ret (sx_id row))
                 | Some x \<Rightarrow>
                     act_seq (mapErr (q_UpdateScheduleException kind (xi_expected input) (sx_id x)))
                       (act_seq (mapErr (q_DeleteScheduleExceptionWindows (sx_id x)))
                         (act_ret (sx_id x))))
                (\<lambda>i. for_each (\<lambda>w. mapErr (q_CreateScheduleExceptionWindow i (wn_start w) (wn_end w)))
                       (xi_windows input)))))
           (GetScheduleExceptionByDate date)))"

definition DeleteScheduleException :: "string \<Rightarrow> (db, unit) act" where
  "DeleteScheduleException date =
     act_bind (mapErr (get_one (q_GetScheduleExceptionByDate (trim_space date))))
       (\<lambda>row. mapErr (q_DeleteScheduleException (sx_id row)))"

end
