(* ===== verification/Schedule_Laws.thy ===== *)
theory Schedule_Laws
  imports Schedule
begin

text \<open>
  Correctness of the work schedules. \<open>schedules_wf\<close> is the invariant of the three schedule tables:
  ids are distinct, days and windows refer to rows that exist, and no two schedules are in effect
  on one date. The final state of a replacement is written out (\<open>replaced\<close>), and what a date
  resolves to before and after follows from it.
\<close>


section \<open>Statements\<close>

lemma update_effective_Inr:
  "q_UpdateWorkScheduleEffectiveTo to i d = (Inr w, d') \<Longrightarrow>
     d' = d\<lparr>db_schedules := (db_schedules d)\<lparr>tbl_rows :=
       map (\<lambda>r. if ws_id r = i then r\<lparr>ws_to := to\<rparr> else r) (tbl_rows (db_schedules d))\<rparr>\<rparr>"
  by (auto simp: q_UpdateWorkScheduleEffectiveTo_def scan_one_Inr update_where_def Let_def split: if_splits)

lemma create_schedule_Inr:
  "q_CreateWorkSchedule tz ww from to d = (Inr w, d') \<longleftrightarrow>
     w = \<lparr>ws_id = tbl_seq (db_schedules d) + 1, ws_timezone = tz, ws_workweek_start = ww,
          ws_from = from, ws_to = to\<rparr> \<and> ws_ok d w \<and>
     d' = d\<lparr>db_schedules := \<lparr>tbl_rows = tbl_rows (db_schedules d) @ [w],
                             tbl_seq = tbl_seq (db_schedules d) + 1\<rparr>\<rparr>"
  by (auto simp: q_CreateWorkSchedule_def insert_into_def Let_def)

lemma create_day_Inr:
  "q_CreateWorkScheduleDay s wd m d = (Inr r, d') \<longleftrightarrow>
     r = \<lparr>wd_id = tbl_seq (db_schedule_days d) + 1, wd_schedule = s, wd_weekday = wd, wd_expected = m\<rparr> \<and>
     wd_ok d r \<and>
     d' = d\<lparr>db_schedule_days := \<lparr>tbl_rows = tbl_rows (db_schedule_days d) @ [r],
                                 tbl_seq = tbl_seq (db_schedule_days d) + 1\<rparr>\<rparr>"
  by (auto simp: q_CreateWorkScheduleDay_def insert_into_def Let_def)

lemma create_window_Inr:
  "q_CreateWorkScheduleWindow day s e d = (Inr r, d') \<longleftrightarrow>
     r = \<lparr>ww_id = tbl_seq (db_schedule_windows d) + 1, ww_owner = day, ww_start = s, ww_end = e\<rparr> \<and>
     has_id wd_id (db_schedule_days d) day \<and> window_ok r \<and>
     d' = d\<lparr>db_schedule_windows := \<lparr>tbl_rows = tbl_rows (db_schedule_windows d) @ [r],
                                    tbl_seq = tbl_seq (db_schedule_windows d) + 1\<rparr>\<rparr>"
  by (auto simp: q_CreateWorkScheduleWindow_def insert_into_def Let_def)

lemma has_id_append [simp]: "has_id key (t\<lparr>tbl_rows := xs @ ys\<rparr>) i \<longleftrightarrow> (\<exists>r \<in> set xs \<union> set ys. key r = i)"
  by (auto simp: has_id_def list_ex_iff)


section \<open>The rows a replacement writes\<close>

primrec new_days :: "int \<Rightarrow> int \<Rightarrow> schedule_day list \<Rightarrow> work_schedule_day list" where
  "new_days sched k [] = []"
| "new_days sched k (x # xs) =
     \<lparr>wd_id = k + 1, wd_schedule = sched, wd_weekday = sd_weekday x, wd_expected = sd_expected x\<rparr>
     # new_days sched (k + 1) xs"

primrec new_windows :: "int \<Rightarrow> int \<Rightarrow> working_window list \<Rightarrow> window_row list" where
  "new_windows day k [] = []"
| "new_windows day k (w # ws) =
     \<lparr>ww_id = k + 1, ww_owner = day, ww_start = wn_start w, ww_end = wn_end w\<rparr>
     # new_windows day (k + 1) ws"

primrec all_windows :: "int \<Rightarrow> int \<Rightarrow> schedule_day list \<Rightarrow> window_row list" where
  "all_windows day k [] = []"
| "all_windows day k (x # xs) = new_windows (day + 1) k (sd_windows x)
     @ all_windows (day + 1) (k + int (length (sd_windows x))) xs"

definition add_rows :: "'r list \<Rightarrow> 'r table \<Rightarrow> 'r table" where
  "add_rows rs t = \<lparr>tbl_rows = tbl_rows t @ rs, tbl_seq = tbl_seq t + int (length rs)\<rparr>"

lemma add_rows_simps [simp]:
  "tbl_rows (add_rows rs t) = tbl_rows t @ rs" "tbl_seq (add_rows rs t) = tbl_seq t + int (length rs)"
  "add_rows ss (add_rows rs t) = add_rows (rs @ ss) t" "add_rows [] t = t"
  by (simp_all add: add_rows_def)

lemma length_new [simp]:
  "length (new_windows day k ws) = length ws" "length (new_days s k xs) = length xs"
  by (induction ws arbitrary: k, simp_all) (induction xs arbitrary: k, simp_all)

lemma insert_windows_Inr:
  "for_each (\<lambda>w. mapErr (q_CreateWorkScheduleWindow day (wn_start w) (wn_end w))) ws d = (Inr rs, d') \<Longrightarrow>
     d' = d\<lparr>db_schedule_windows :=
       add_rows (new_windows day (tbl_seq (db_schedule_windows d)) ws) (db_schedule_windows d)\<rparr>"
proof (induction ws arbitrary: d rs)
  case Nil
  then show ?case by simp
next
  case (Cons w ws)
  then show ?case
    by (fastforce simp: act_bind_eq_Inr_iff create_window_Inr add_rows_def)
qed

lemma insert_days_Inr:
  "for_each (\<lambda>x.
        act_bind (mapErr (q_CreateWorkScheduleDay sched (sd_weekday x) (sd_expected x))) (\<lambda>row.
        for_each (\<lambda>w. mapErr (q_CreateWorkScheduleWindow (wd_id row) (wn_start w) (wn_end w)))
          (sd_windows x))) days d = (Inr rs, d') \<Longrightarrow>
     d' = d\<lparr>db_schedule_days :=
              add_rows (new_days sched (tbl_seq (db_schedule_days d)) days) (db_schedule_days d),
            db_schedule_windows :=
              add_rows (all_windows (tbl_seq (db_schedule_days d)) (tbl_seq (db_schedule_windows d)) days)
                (db_schedule_windows d)\<rparr>"
proof (induction days arbitrary: d rs)
  case Nil
  then show ?case by simp
next
  case (Cons x days)
  from Cons.prems obtain row d1 ws1 d2 rs' where
    row: "q_CreateWorkScheduleDay sched (sd_weekday x) (sd_expected x) d = (Inr row, d1)"
    and ws: "for_each (\<lambda>w. mapErr (q_CreateWorkScheduleWindow (wd_id row) (wn_start w) (wn_end w)))
               (sd_windows x) d1 = (Inr ws1, d2)"
    and rest: "for_each (\<lambda>x.
        act_bind (mapErr (q_CreateWorkScheduleDay sched (sd_weekday x) (sd_expected x))) (\<lambda>row.
        for_each (\<lambda>w. mapErr (q_CreateWorkScheduleWindow (wd_id row) (wn_start w) (wn_end w)))
          (sd_windows x))) days d2 = (Inr rs', d')"
    by (auto simp: act_bind_eq_Inr_iff)
  show ?case
    using Cons.IH [OF rest] insert_windows_Inr [OF ws] row
    by (simp add: create_day_Inr add_rows_def add.commute add.left_commute)
qed

definition close_at :: "string \<Rightarrow> work_schedule \<Rightarrow> work_schedule" where
  "close_at from r = (if ws_to r = None \<or> from < the (ws_to r) then r\<lparr>ws_to := Some from\<rparr> else r)"

lemma close_at_simps [simp]:
  "ws_id (close_at from r) = ws_id r" "ws_from (close_at from r) = ws_from r"
  "ws_timezone (close_at from r) = ws_timezone r"
  "ws_workweek_start (close_at from r) = ws_workweek_start r"
  by (simp_all add: close_at_def)

lemma close_schedules_Inr:
  assumes "close_schedules from rows d = (Inr (), d')" and "distinct (map ws_id rows)"
    and "\<forall>r \<in> set rows. \<forall>x \<in> set (tbl_rows (db_schedules d)). ws_id x = ws_id r \<longrightarrow> x = r"
  shows "d' = d\<lparr>db_schedules := (db_schedules d)\<lparr>tbl_rows :=
           map (\<lambda>x. if x \<in> set rows then close_at from x else x) (tbl_rows (db_schedules d))\<rparr>\<rparr> \<and>
         (\<forall>r \<in> set rows. ws_to r = None \<or> from < the (ws_to r) \<longrightarrow> ws_from r < from)"
  using assms
proof (induction rows arbitrary: d)
  case Nil
  then show ?case by (simp add: close_schedules_def act_seq_def)
next
  case (Cons r rows)
  let ?upd = "\<lambda>d::db. d\<lparr>db_schedules := (db_schedules d)\<lparr>tbl_rows :=
    map (\<lambda>x. if ws_id x = ws_id r then close_at from x else x) (tbl_rows (db_schedules d))\<rparr>\<rparr>"
  have first: "close_schedules from rows (?upd d) = (Inr (), d') \<and>
      (ws_to r = None \<or> from < the (ws_to r) \<longrightarrow> ws_from r < from)"
  proof (cases "ws_to r = None \<or> from < the (ws_to r)")
    case True
    then have "close_at from x = x\<lparr>ws_to := Some from\<rparr>"
      if "x \<in> set (tbl_rows (db_schedules d))" "ws_id x = ws_id r" for x
      using Cons.prems(3) that by (auto simp: close_at_def)
    then have "map (\<lambda>x. if ws_id x = ws_id r then close_at from x else x) (tbl_rows (db_schedules d)) =
        map (\<lambda>x. if ws_id x = ws_id r then x\<lparr>ws_to := Some from\<rparr> else x) (tbl_rows (db_schedules d))"
      by auto
    then have upd: "?upd d = d\<lparr>db_schedules := (db_schedules d)\<lparr>tbl_rows :=
        map (\<lambda>x. if ws_id x = ws_id r then x\<lparr>ws_to := Some from\<rparr> else x) (tbl_rows (db_schedules d))\<rparr>\<rparr>"
      by (simp only:)
    show ?thesis
      unfolding upd using Cons.prems(1) True
      by (auto simp: close_schedules_def act_seq_def act_bind_eq_Inr_iff split: if_splits
          dest!: update_effective_Inr)
  next
    case False
    then have "close_at from x = x"
      if "x \<in> set (tbl_rows (db_schedules d))" "ws_id x = ws_id r" for x
      using Cons.prems(3) that by (auto simp: close_at_def)
    then have "map (\<lambda>x. if ws_id x = ws_id r then close_at from x else x) (tbl_rows (db_schedules d)) =
        tbl_rows (db_schedules d)"
      by (simp add: map_idI)
    then show ?thesis
      using Cons.prems(1) False
      by (auto simp: close_schedules_def act_seq_def act_bind_eq_Inr_iff)
  qed
  have agree: "\<forall>q \<in> set rows. \<forall>x \<in> set (tbl_rows (db_schedules (?upd d))). ws_id x = ws_id q \<longrightarrow> x = q"
    using Cons.prems(2,3) by (auto split: if_splits)
  have "map (\<lambda>x. if x \<in> set rows then close_at from x else x)
          (map (\<lambda>x. if ws_id x = ws_id r then close_at from x else x) (tbl_rows (db_schedules d))) =
        map (\<lambda>x. if x \<in> set (r # rows) then close_at from x else x) (tbl_rows (db_schedules d))"
  proof -
    have "(if (if ws_id x = ws_id r then close_at from x else x) \<in> set rows
           then close_at from (if ws_id x = ws_id r then close_at from x else x)
           else (if ws_id x = ws_id r then close_at from x else x)) =
          (if x \<in> set (r # rows) then close_at from x else x)"
      if "x \<in> set (tbl_rows (db_schedules d))" for x
      using Cons.prems(2,3) that by auto (metis close_at_simps(1) image_eqI)+
    then show ?thesis by simp
  qed
  then show ?case
    using Cons.IH [OF first [THEN conjunct1] _ agree] Cons.prems(2) first by simp
qed


section \<open>The state after a replacement\<close>

definition new_schedule :: "schedule_input \<Rightarrow> db \<Rightarrow> work_schedule" where
  "new_schedule input d = \<lparr>ws_id = tbl_seq (db_schedules d) + 1,
     ws_timezone = trim_space (si_timezone input),
     ws_workweek_start = to_lower (trim_space (si_workweek_start input)),
     ws_from = trim_space (si_from input), ws_to = None\<rparr>"

definition replaced :: "schedule_input \<Rightarrow> db \<Rightarrow> db" where
  "replaced input d =
     (let sched = new_schedule input d; days = map normal_weekday (si_days input)
      in d\<lparr>db_schedules := \<lparr>tbl_rows = map (close_at (ws_from sched)) (tbl_rows (db_schedules d)) @ [sched],
                            tbl_seq = ws_id sched\<rparr>,
           db_schedule_days :=
             add_rows (new_days (ws_id sched) (tbl_seq (db_schedule_days d)) days) (db_schedule_days d),
           db_schedule_windows :=
             add_rows (all_windows (tbl_seq (db_schedule_days d)) (tbl_seq (db_schedule_windows d)) days)
               (db_schedule_windows d)\<rparr>)"

lemma close_all:
  assumes "close_schedules from (q_ListWorkSchedules d) d = (Inr (), d')" "ids_ok ws_id (db_schedules d)"
  shows "d' = d\<lparr>db_schedules := (db_schedules d)\<lparr>tbl_rows := map (close_at from) (tbl_rows (db_schedules d))\<rparr>\<rparr>
    \<and> (\<forall>r \<in> set (tbl_rows (db_schedules d)). ws_to r = None \<or> from < the (ws_to r) \<longrightarrow> ws_from r < from)"
proof -
  have dist: "distinct (map ws_id (tbl_rows (db_schedules d)))"
    using assms(2) by (simp add: ids_ok_def)
  have perm: "mset (q_ListWorkSchedules d) = mset (tbl_rows (db_schedules d))"
    by (simp add: q_ListWorkSchedules_def)
  then have same: "set (q_ListWorkSchedules d) = set (tbl_rows (db_schedules d))"
    by (rule mset_eq_setD)
  have "distinct (map ws_id (q_ListWorkSchedules d))"
    by (metis dist mset_eq_imp_distinct_iff mset_map perm)
  moreover have "\<forall>r \<in> set (tbl_rows (db_schedules d)). \<forall>x \<in> set (tbl_rows (db_schedules d)).
      ws_id x = ws_id r \<longrightarrow> x = r"
    using dist by (auto simp: distinct_map inj_on_def)
  moreover have "map (\<lambda>x. if x \<in> set (tbl_rows (db_schedules d)) then close_at from x else x)
      (tbl_rows (db_schedules d)) = map (close_at from) (tbl_rows (db_schedules d))"
    by simp
  ultimately show ?thesis
    using close_schedules_Inr [OF assms(1)] unfolding same by simp
qed

lemma replace_Inr:
  assumes "ReplaceActiveWorkSchedule tz input d = (Inr v, d')" "ids_ok ws_id (db_schedules d)"
  shows "d' = replaced input d"
    and "v = loadWorkSchedule (new_schedule input d) d'"
    and "validateScheduleDays (si_days input) = Inr ()"
    and "parse_date (trim_space (si_from input)) \<noteq> None"
    and "\<forall>r \<in> set (tbl_rows (db_schedules d)). ws_to r = None \<or> trim_space (si_from input) < the (ws_to r)
           \<longrightarrow> ws_from r < trim_space (si_from input)"
    and "ws_ok (d\<lparr>db_schedules := (db_schedules d)\<lparr>tbl_rows :=
           map (close_at (trim_space (si_from input))) (tbl_rows (db_schedules d))\<rparr>\<rparr>) (new_schedule input d)"
proof -
  let ?from = "trim_space (si_from input)"
  let ?days = "map normal_weekday (si_days input)"
  show valid: "validateScheduleDays (si_days input) = Inr ()"
    and "parse_date ?from \<noteq> None"
    using assms(1)
    by (cases "validateScheduleDays (si_days input)";
        auto simp: ReplaceActiveWorkSchedule_def Let_def split: if_splits)+
  obtain d1 d2 created d3 v2 where
    close: "close_schedules ?from (q_ListWorkSchedules d) d = (Inr (), d1)"
    and create: "q_CreateWorkSchedule (trim_space (si_timezone input))
        (to_lower (trim_space (si_workweek_start input))) ?from None d1 = (Inr created, d2)"
    and ins: "insertScheduleDays (ws_id created) ?days d2 = (Inr v2, d3)"
    and last: "GetWorkSchedule (ws_id created) d3 = (Inr v, d')"
    using assms(1) valid
    by (auto simp: ReplaceActiveWorkSchedule_def Let_def act_bind_eq_Inr_iff act_seq_eq_Inr_iff
        split: if_splits)
  note closed = close_all [OF close assms(2)]
  show "\<forall>r \<in> set (tbl_rows (db_schedules d)). ws_to r = None \<or> ?from < the (ws_to r)
      \<longrightarrow> ws_from r < ?from"
    using closed by simp
  have created: "created = new_schedule input d"
    using create closed by (simp add: create_schedule_Inr new_schedule_def)
  show "ws_ok (d\<lparr>db_schedules := (db_schedules d)\<lparr>tbl_rows :=
      map (close_at ?from) (tbl_rows (db_schedules d))\<rparr>\<rparr>) (new_schedule input d)"
    using create closed unfolding created [symmetric] by (auto simp: create_schedule_Inr)
  obtain rs where rs: "for_each (\<lambda>x.
        act_bind (mapErr (q_CreateWorkScheduleDay (ws_id created) (sd_weekday x) (sd_expected x))) (\<lambda>row.
        for_each (\<lambda>w. mapErr (q_CreateWorkScheduleWindow (wd_id row) (wn_start w) (wn_end w)))
          (sd_windows x))) ?days d2 = (Inr rs, d3)"
    using ins by (auto simp: insertScheduleDays_def act_seq_eq_Inr_iff)
  have d3: "d3 = replaced input d"
    using insert_days_Inr [OF rs] create closed
    by (simp add: create_schedule_Inr replaced_def created new_schedule_def Let_def)
  have "d' = d3" and row: "\<exists>row. q_GetWorkSchedule (ws_id created) d3 = Some row \<and> v = loadWorkSchedule row d3"
    using last by (auto simp: GetWorkSchedule_def act_bind_eq_Inr_iff)
  then show d': "d' = replaced input d" using d3 by simp
  have "q_GetWorkSchedule (ws_id created) d3 = Some created"
  proof -
    have "ws_id created \<notin> ws_id ` set (map (close_at ?from) (tbl_rows (db_schedules d)))"
      using assms(2) by (auto simp: created new_schedule_def ids_ok_def)
    from find_key_fresh [OF this] show ?thesis
      by (simp add: d3 replaced_def created q_GetWorkSchedule_def find_row_def find_append Let_def
          new_schedule_def)
  qed
  then show "v = loadWorkSchedule (new_schedule input d) d'"
    using row created d3 d' by simp
qed


section \<open>The invariant\<close>

definition schedules_wf :: "db \<Rightarrow> bool" where
  "schedules_wf d \<longleftrightarrow>
     ids_ok ws_id (db_schedules d) \<and> ids_ok wd_id (db_schedule_days d) \<and>
     (\<forall>r \<in> set (tbl_rows (db_schedule_days d)). wd_schedule r \<le> tbl_seq (db_schedules d)) \<and>
     (\<forall>w \<in> set (tbl_rows (db_schedule_windows d)). ww_owner w \<le> tbl_seq (db_schedule_days d)) \<and>
     (\<forall>x \<in> set (tbl_rows (db_schedules d)). \<forall>t. ws_to x = Some t \<longrightarrow> ws_from x < t) \<and>
     (\<forall>x \<in> set (tbl_rows (db_schedules d)). ws_workweek_start x \<in> set weekdays) \<and>
     (\<forall>x \<in> set (tbl_rows (db_schedules d)). \<forall>y \<in> set (tbl_rows (db_schedules d)).
        ws_id x \<noteq> ws_id y \<longrightarrow> \<not> ranges_overlap x y)"

lemma ranges_overlap_common:
  "in_effect date x \<Longrightarrow> in_effect date y \<Longrightarrow> ranges_overlap x y"
  by (auto simp: in_effect_def ranges_overlap_def split: option.splits intro: order.strict_trans1)

lemma in_effect_unique:
  assumes "schedules_wf d" "x \<in> set (tbl_rows (db_schedules d))" "y \<in> set (tbl_rows (db_schedules d))"
    and "in_effect date x" "in_effect date y"
  shows "x = y"
proof -
  have "ws_id x = ws_id y"
    using assms ranges_overlap_common [OF assms(4,5)] unfolding schedules_wf_def by blast
  then show ?thesis
    using assms(1-3) by (auto simp: schedules_wf_def ids_ok_def distinct_map inj_on_def)
qed

lemma schedule_for_date:
  assumes "schedules_wf d" "x \<in> set (tbl_rows (db_schedules d))" "in_effect date x"
  shows "q_GetWorkScheduleForDate date d = Some x"
  unfolding q_GetWorkScheduleForDate_def find_row_def
  using assms in_effect_unique by (intro find_single) auto

lemma new_days_ids: "map wd_id (new_days s k xs) = [k + 1..k + int (length xs)]"
  by (induction xs arbitrary: k) (simp_all add: upto_rec1 add.assoc)

lemma new_days_schedule: "r \<in> set (new_days s k xs) \<Longrightarrow> wd_schedule r = s \<and> k < wd_id r \<and> wd_id r \<le> k + int (length xs)"
  by (induction xs arbitrary: k) fastforce+

lemma new_windows_owner: "w \<in> set (new_windows day k ws) \<Longrightarrow> ww_owner w = day"
  by (induction ws arbitrary: k) auto

lemma all_windows_owner:
  "w \<in> set (all_windows day k xs) \<Longrightarrow> day < ww_owner w \<and> ww_owner w \<le> day + int (length xs)"
  by (induction xs arbitrary: day k) (fastforce dest: new_windows_owner)+

lemma ids_ok_add_days:
  assumes "ids_ok wd_id t"
  shows "ids_ok wd_id (add_rows (new_days s (tbl_seq t) xs) t)"
proof -
  have "distinct (map wd_id (new_days s (tbl_seq t) xs))"
    by (simp add: new_days_ids)
  moreover have "wd_id ` set (tbl_rows t) \<inter> wd_id ` set (new_days s (tbl_seq t) xs) = {}"
    using assms by (force simp: ids_ok_def dest: new_days_schedule)
  ultimately show ?thesis
    using assms by (fastforce simp: ids_ok_def dest: new_days_schedule)
qed

lemma close_at_in_effect: "date < from \<Longrightarrow> in_effect date (close_at from r) \<longleftrightarrow> in_effect date r"
  by (auto simp: in_effect_def close_at_def split: option.splits)

lemma close_at_not_after: "from \<le> date \<Longrightarrow> \<not> in_effect date (close_at from r)"
  by (auto simp: in_effect_def close_at_def split: option.splits)

lemma close_at_overlap: "ranges_overlap (close_at from x) (close_at from y) \<Longrightarrow> ranges_overlap x y"
  by (auto simp: ranges_overlap_def close_at_def split: option.splits if_splits)

text \<open>A successful replacement keeps the invariant.\<close>

lemma replaced_wf:
  assumes wf: "schedules_wf d"
    and starts: "\<forall>r \<in> set (tbl_rows (db_schedules d)). ws_to r = None \<or> ws_from (new_schedule input d) < the (ws_to r)
       \<longrightarrow> ws_from r < ws_from (new_schedule input d)"
    and week: "ws_workweek_start (new_schedule input d) \<in> set weekdays"
  shows "schedules_wf (replaced input d)"
proof -
  let ?new = "new_schedule input d"
  let ?rows = "map (close_at (ws_from ?new)) (tbl_rows (db_schedules d))"
  have new: "ws_id ?new = tbl_seq (db_schedules d) + 1" "ws_to ?new = None"
    by (simp_all add: new_schedule_def)
  have ids: "ids_ok ws_id (db_schedules d)" and dids: "ids_ok wd_id (db_schedule_days d)"
    using wf by (simp_all add: schedules_wf_def)
  have 1: "ids_ok ws_id \<lparr>tbl_rows = ?rows @ [?new], tbl_seq = ws_id ?new\<rparr>"
    using ids new by (fastforce simp: ids_ok_def comp_def)
  have 2: "\<forall>x \<in> set (?rows @ [?new]). \<forall>t. ws_to x = Some t \<longrightarrow> ws_from x < t"
    using wf starts new by (auto simp: schedules_wf_def close_at_def)
  have apart: "\<not> ranges_overlap (close_at (ws_from ?new) x) ?new"
    "\<not> ranges_overlap ?new (close_at (ws_from ?new) x)" for x
    by (auto simp: ranges_overlap_def close_at_def new split: option.splits)
  have 3: "\<forall>x \<in> set (?rows @ [?new]). \<forall>y \<in> set (?rows @ [?new]). ws_id x \<noteq> ws_id y \<longrightarrow> \<not> ranges_overlap x y"
    using wf apart by (auto simp: schedules_wf_def dest!: close_at_overlap)
  show ?thesis
    using wf 1 2 3 ids_ok_add_days [OF dids] new week
    unfolding schedules_wf_def replaced_def Let_def
    by (auto dest: new_days_schedule all_windows_owner)
qed


section \<open>What a date resolves to after a replacement\<close>

lemma replaced_tables:
  "tbl_rows (db_schedules (replaced input d)) =
     map (close_at (ws_from (new_schedule input d))) (tbl_rows (db_schedules d)) @ [new_schedule input d]"
  "db_schedule_days (replaced input d) =
     add_rows (new_days (ws_id (new_schedule input d)) (tbl_seq (db_schedule_days d))
       (map normal_weekday (si_days input))) (db_schedule_days d)"
  "db_schedule_windows (replaced input d) =
     add_rows (all_windows (tbl_seq (db_schedule_days d)) (tbl_seq (db_schedule_windows d))
       (map normal_weekday (si_days input))) (db_schedule_windows d)"
  "db_exceptions (replaced input d) = db_exceptions d"
  "db_exception_windows (replaced input d) = db_exception_windows d"
  by (simp_all add: replaced_def Let_def)

lemma days_kept:
  "i \<le> tbl_seq (db_schedules d) \<Longrightarrow> q_ListWorkScheduleDays i (replaced input d) = q_ListWorkScheduleDays i d"
proof -
  assume "i \<le> tbl_seq (db_schedules d)"
  then have "filter (\<lambda>r. wd_schedule r = i) (new_days (ws_id (new_schedule input d)) k xs) = []" for k xs
    by (auto simp: filter_empty_conv new_schedule_def dest: new_days_schedule)
  then show ?thesis
    by (simp add: q_ListWorkScheduleDays_def select_rows_def replaced_tables)
qed

lemma windows_kept:
  "i \<le> tbl_seq (db_schedule_days d) \<Longrightarrow> listScheduleDayWindows i (replaced input d) = listScheduleDayWindows i d"
proof -
  assume "i \<le> tbl_seq (db_schedule_days d)"
  then have "filter (\<lambda>w. ww_owner w = i) (all_windows (tbl_seq (db_schedule_days d)) k xs) = []" for k xs
    by (auto simp: filter_empty_conv dest: all_windows_owner)
  then show ?thesis
    by (simp add: listScheduleDayWindows_def q_ListWorkScheduleWindows_def select_rows_def replaced_tables)
qed

lemma exceptions_kept:
  "q_GetScheduleExceptionByDate date (replaced input d) = q_GetScheduleExceptionByDate date d"
  "listExceptionWindows i (replaced input d) = listExceptionWindows i d"
  by (simp_all add: q_GetScheduleExceptionByDate_def listExceptionWindows_def
      q_ListScheduleExceptionWindows_def replaced_tables)

lemma find_closed:
  "date < from \<Longrightarrow> find (in_effect date) (map (close_at from) rows) = map_option (close_at from) (find (in_effect date) rows)"
  by (simp add: find_map comp_def close_at_in_effect)

lemma schedule_before:
  "date < trim_space (si_from input) \<Longrightarrow>
     q_GetWorkScheduleForDate date (replaced input d) =
       map_option (close_at (trim_space (si_from input))) (q_GetWorkScheduleForDate date d)"
  by (auto simp: q_GetWorkScheduleForDate_def find_row_def replaced_tables find_append find_closed
      new_schedule_def in_effect_def split: option.splits)

lemma schedule_from:
  "trim_space (si_from input) \<le> date \<Longrightarrow>
     q_GetWorkScheduleForDate date (replaced input d) = Some (new_schedule input d)"
proof -
  assume le: "trim_space (si_from input) \<le> date"
  then have "find (in_effect date) (map (close_at (trim_space (si_from input))) rows) = None" for rows
    by (auto simp: find_None_iff dest: close_at_not_after)
  with le show ?thesis
    by (simp add: q_GetWorkScheduleForDate_def find_row_def replaced_tables find_append
        new_schedule_def in_effect_def)
qed

lemma found_day_id:
  assumes "schedules_wf d" "find P (q_ListWorkScheduleDays i d) = Some r"
  shows "wd_id r \<le> tbl_seq (db_schedule_days d)"
proof -
  have "r \<in> set (q_ListWorkScheduleDays i d)"
    using assms(2) by (auto simp: find_Some_iff)
  then have "r \<in> set (tbl_rows (db_schedule_days d))"
    by (simp add: q_ListWorkScheduleDays_def select_rows_def)
  then show ?thesis using assms(1) by (auto simp: schedules_wf_def ids_ok_def)
qed

lemma replaced_history:
  assumes "schedules_wf d" "trim_space date < trim_space (si_from input)"
  shows "ExpectedTimeForDate date (replaced input d) = ExpectedTimeForDate date d"
proof -
  have seq: "ws_id r \<le> tbl_seq (db_schedules d)" if "q_GetWorkScheduleForDate (trim_space date) d = Some r" for r
    using that assms(1)
    by (auto simp: q_GetWorkScheduleForDate_def find_row_def find_Some_iff schedules_wf_def ids_ok_def)
  show ?thesis
    unfolding ExpectedTimeForDate_def Let_def schedule_before [OF assms(2)] exceptions_kept
    by (auto simp: seq days_kept windows_kept found_day_id [OF assms(1)] res_bind_def
        split: option.splits sum.splits)
qed

lemma new_days_from:
  "r \<in> set (new_days s k xs) \<Longrightarrow>
     \<exists>x \<in> set xs. wd_weekday r = sd_weekday x \<and> wd_expected r = sd_expected x \<and>
       windows_of (filter (\<lambda>w. ww_owner w = wd_id r) (all_windows k kk xs)) = sd_windows x"
proof (induction xs arbitrary: k kk)
  case (Cons x xs)
  have own: "filter (\<lambda>w. ww_owner w = k + 1) (new_windows (k + 1) kk (sd_windows x)) =
      new_windows (k + 1) kk (sd_windows x)"
    by (auto simp: filter_id_conv dest: new_windows_owner)
  have wins: "windows_of (new_windows day k' ws) = ws" for day k' ws
    by (induction ws arbitrary: k') (simp_all add: windows_of_def)
  have none: "filter (\<lambda>w. ww_owner w = k + 1) (all_windows (k + 1) kk' xs) = []" for kk'
    by (auto simp: filter_empty_conv dest: all_windows_owner)
  show ?case
  proof (cases "r \<in> set (new_days s (k + 1) xs)")
    case True
    then have "wd_id r \<noteq> k + 1" by (auto dest: new_days_schedule)
    then have "filter (\<lambda>w. ww_owner w = wd_id r) (new_windows (k + 1) kk (sd_windows x)) = []"
      by (auto simp: filter_empty_conv dest: new_windows_owner)
    with Cons.IH [OF True, of "kk + int (length (sd_windows x))"] show ?thesis
      by auto
  next
    case False
    with Cons.prems have "wd_id r = k + 1" "wd_weekday r = sd_weekday x" "wd_expected r = sd_expected x"
      by auto
    then show ?thesis using own none wins by auto
  qed
qed simp

lemma new_days_weekdays: "map wd_weekday (new_days s k xs) = map sd_weekday xs"
  by (induction xs arbitrary: k) auto

lemma valid_days_from:
  "validate_days_from seen xs = Inr () \<Longrightarrow>
     distinct (map (sd_weekday \<circ> normal_weekday) xs) \<and>
     set (map (sd_weekday \<circ> normal_weekday) xs) \<subseteq> set weekdays \<and>
     set (map (sd_weekday \<circ> normal_weekday) xs) \<inter> set seen = {} \<and>
     (\<forall>x \<in> set xs. 0 \<le> sd_expected x \<and> validateWindows (sd_windows x) = Inr ())"
proof (induction seen xs rule: validate_days_from.induct)
  case (2 seen x xs)
  then show ?case by (auto simp: Let_def normal_weekday_def split: if_splits)
qed simp

lemma valid_days:
  assumes "validateScheduleDays xs = Inr ()"
  shows "distinct (map sd_weekday (map normal_weekday xs))"
    and "set (map sd_weekday (map normal_weekday xs)) = set weekdays"
proof -
  have len: "length xs = 7" and v: "validate_days_from [] xs = Inr ()"
    using assms by (auto simp: validateScheduleDays_def split: if_splits)
  show dist: "distinct (map sd_weekday (map normal_weekday xs))"
    using valid_days_from [OF v] by (simp add: comp_def)
  have "card (set (map sd_weekday (map normal_weekday xs))) = 7"
    using distinct_card [OF dist] len by simp
  moreover have "card (set weekdays) = 7" by (simp add: weekdays_def)
  moreover have "set (map sd_weekday (map normal_weekday xs)) \<subseteq> set weekdays"
    using valid_days_from [OF v] by (simp add: comp_def)
  ultimately show "set (map sd_weekday (map normal_weekday xs)) = set weekdays"
    by (intro card_subset_eq) auto
qed

lemma weekday_of_in: "weekday_of day \<in> set weekdays"
proof -
  have "weekday_of_day day \<in> {0..6}" by (auto simp: weekday_of_day_def)
  then have "weekday_of_day day \<in> set [0..6]" by simp
  then show ?thesis
    by (auto simp: weekday_of_def weekdays_def upto_rec1)
qed

text \<open>The template row and the sorted windows that a date of the new schedule resolves to.\<close>

lemma replaced_resolves:
  assumes wf: "schedules_wf d" and valid: "validateScheduleDays (si_days input) = Inr ()"
    and date: "parse_date date = Some day" and since: "trim_space (si_from input) \<le> date"
    and no_exc: "q_GetScheduleExceptionByDate date d = None"
  shows "\<exists>x \<in> set (si_days input).
    to_lower (trim_space (sd_weekday x)) = weekday_of day \<and>
    ExpectedTimeForDate date (replaced input d) = Inr
      \<lparr>et_date = date, et_minutes = sd_expected x, et_windows = sort_key wn_start (sd_windows x),
       et_source = ''weekday'', et_exception_kind = '''', et_timezone = trim_space (si_timezone input),
       et_workweek_start = to_lower (trim_space (si_workweek_start input))\<rparr>"
proof -
  let ?days = "map normal_weekday (si_days input)"
  let ?s = "ws_id (new_schedule input d)"
  let ?k = "tbl_seq (db_schedule_days d)"
  let ?new = "new_days ?s ?k ?days"
  have "filter (\<lambda>r. wd_schedule r = ?s) (tbl_rows (db_schedule_days d)) = []"
    using wf by (force simp: schedules_wf_def filter_empty_conv new_schedule_def)
  moreover have "filter (\<lambda>r. wd_schedule r = ?s) ?new = ?new"
    by (auto simp: filter_id_conv dest: new_days_schedule)
  ultimately have listed: "q_ListWorkScheduleDays ?s (replaced input d) = sort_key (\<lambda>r. weekday_rank (wd_weekday r)) ?new"
    by (simp add: q_ListWorkScheduleDays_def select_rows_def replaced_tables)
  have "weekday_of day \<in> set (map wd_weekday ?new)"
    using valid_days(2) [OF valid] weekday_of_in by (simp add: new_days_weekdays)
  then obtain r where r: "r \<in> set ?new" "wd_weekday r = weekday_of day" by auto
  have dist: "distinct (map wd_weekday ?new)"
    using valid_days(1) [OF valid] by (simp add: new_days_weekdays)
  have found: "find (\<lambda>r. wd_weekday r = weekday_of day) (q_ListWorkScheduleDays ?s (replaced input d)) = Some r"
    unfolding listed
  proof (rule find_single)
    show "y = r" if "y \<in> set (sort_key (\<lambda>r. weekday_rank (wd_weekday r)) ?new)" "wd_weekday y = weekday_of day" for y
      using that r dist unfolding set_sort distinct_map by (auto simp: inj_on_def)
  qed (use r in simp_all)
  obtain x where x: "x \<in> set (si_days input)" "wd_weekday r = sd_weekday (normal_weekday x)"
    "wd_expected r = sd_expected x"
    "windows_of (filter (\<lambda>w. ww_owner w = wd_id r)
       (all_windows ?k (tbl_seq (db_schedule_windows d)) ?days)) = sd_windows x"
    using new_days_from [OF r(1), of "tbl_seq (db_schedule_windows d)"] by (auto simp: normal_weekday_def)
  have "?k < wd_id r" using new_days_schedule [OF r(1)] by simp
  then have "filter (\<lambda>w. ww_owner w = wd_id r) (tbl_rows (db_schedule_windows d)) = []"
    using wf by (force simp: schedules_wf_def filter_empty_conv)
  then have "listScheduleDayWindows (wd_id r) (replaced input d) =
      windows_of (sort_key ww_start (filter (\<lambda>w. ww_owner w = wd_id r)
        (all_windows ?k (tbl_seq (db_schedule_windows d)) ?days)))"
    by (simp add: listScheduleDayWindows_def q_ListWorkScheduleWindows_def select_rows_def replaced_tables)
  also have "\<dots> = sort_key wn_start (sd_windows x)"
    unfolding x(4) [symmetric] windows_of_def by (subst map_sort_key [symmetric]) simp
  finally have wins: "listScheduleDayWindows (wd_id r) (replaced input d) = sort_key wn_start (sd_windows x)" .
  show ?thesis
  proof (rule bexI [OF _ x(1)], intro conjI)
    show "to_lower (trim_space (sd_weekday x)) = weekday_of day"
      using x(2) r(2) by (simp add: normal_weekday_def)
    show "ExpectedTimeForDate date (replaced input d) = Inr
      \<lparr>et_date = date, et_minutes = sd_expected x, et_windows = sort_key wn_start (sd_windows x),
       et_source = ''weekday'', et_exception_kind = '''', et_timezone = trim_space (si_timezone input),
       et_workweek_start = to_lower (trim_space (si_workweek_start input))\<rparr>"
      using date schedule_from [OF since] no_exc found wins x(3)
      by (simp add: ExpectedTimeForDate_def Let_def exceptions_kept weekdayName_def new_schedule_def)
  qed
qed


section \<open>Replacement succeeds\<close>

lemma update_effective_run:
  assumes "r \<in> set (tbl_rows (db_schedules d))" "distinct (map ws_id (tbl_rows (db_schedules d)))"
    and "d1 = d\<lparr>db_schedules := (db_schedules d)\<lparr>tbl_rows :=
       map (\<lambda>x. if ws_id x = ws_id r then x\<lparr>ws_to := to\<rparr> else x) (tbl_rows (db_schedules d))\<rparr>\<rparr>"
    and "ws_ok d1 (r\<lparr>ws_to := to\<rparr>)"
  shows "q_UpdateWorkScheduleEffectiveTo to (ws_id r) d = (Inr (r\<lparr>ws_to := to\<rparr>), d1)"
proof -
  have "filter (\<lambda>x. ws_id x = ws_id r) (tbl_rows (db_schedules d)) = [r]"
    by (simp add: filter_key_find [OF assms(2)] find_key [OF assms(2,1)])
  then show ?thesis
    using assms(3,4)
    by (simp add: q_UpdateWorkScheduleEffectiveTo_def scan_one_def act_bind_def update_where_def Let_def)
qed

definition close_some :: "string \<Rightarrow> int set \<Rightarrow> db \<Rightarrow> db" where
  "close_some from I d = d\<lparr>db_schedules := (db_schedules d)\<lparr>tbl_rows :=
     map (\<lambda>x. if ws_id x \<in> I then close_at from x else x) (tbl_rows (db_schedules d))\<rparr>\<rparr>"

definition closable :: "string \<Rightarrow> db \<Rightarrow> bool" where
  "closable from d \<longleftrightarrow> distinct (map ws_id (tbl_rows (db_schedules d))) \<and>
     (\<forall>x \<in> set (tbl_rows (db_schedules d)). ws_workweek_start x \<in> set weekdays \<and>
        (ws_to x = None \<or> from < the (ws_to x) \<longrightarrow> ws_from x < from) \<and>
        (\<forall>y \<in> set (tbl_rows (db_schedules d)). ws_id x \<noteq> ws_id y \<longrightarrow> \<not> ranges_overlap x y))"

lemma ranges_overlap_sym: "ranges_overlap x y \<longleftrightarrow> ranges_overlap y x"
  by (auto simp: ranges_overlap_def)

lemma close_some_overlap:
  "ranges_overlap (if P then close_at from x else x) (if Q then close_at from y else y) \<Longrightarrow> ranges_overlap x y"
  by (auto simp: ranges_overlap_def close_at_def split: option.splits if_splits)

lemma close_some_rows:
  "set (tbl_rows (db_schedules (close_some from I d))) =
     (\<lambda>x. if ws_id x \<in> I then close_at from x else x) ` set (tbl_rows (db_schedules d))"
  by (simp add: close_some_def)

lemma closable_close_some: "closable from d \<Longrightarrow> closable from (close_some from I d)"
proof -
  assume c: "closable from d"
  have "map ws_id (tbl_rows (db_schedules (close_some from I d))) = map ws_id (tbl_rows (db_schedules d))"
    by (simp add: close_some_def)
  moreover have "ws_workweek_start x \<in> set weekdays \<and> (ws_to x = None \<or> from < the (ws_to x) \<longrightarrow> ws_from x < from) \<and>
      (\<forall>y \<in> set (tbl_rows (db_schedules (close_some from I d))). ws_id x \<noteq> ws_id y \<longrightarrow> \<not> ranges_overlap x y)"
    if "x \<in> set (tbl_rows (db_schedules (close_some from I d)))" for x
  proof -
    obtain x0 where x0: "x0 \<in> set (tbl_rows (db_schedules d))" "x = (if ws_id x0 \<in> I then close_at from x0 else x0)"
      using \<open>x \<in> set (tbl_rows (db_schedules (close_some from I d)))\<close> unfolding close_some_rows by blast
    have "\<not> ranges_overlap x y"
      if y: "y \<in> set (tbl_rows (db_schedules (close_some from I d)))" and ne: "ws_id x \<noteq> ws_id y" for y
    proof -
      obtain y0 where y0: "y0 \<in> set (tbl_rows (db_schedules d))" "y = (if ws_id y0 \<in> I then close_at from y0 else y0)"
        using y unfolding close_some_rows by blast
      then have "ws_id x0 \<noteq> ws_id y0" using ne x0 by (auto split: if_splits)
      then have "\<not> ranges_overlap x0 y0" using c x0(1) y0(1) by (auto simp: closable_def)
      then show ?thesis unfolding x0(2) y0(2) using close_some_overlap by blast
    qed
    then show ?thesis
      using c x0 by (auto simp: closable_def close_at_def split: if_splits)
  qed
  ultimately show ?thesis using c by (simp add: closable_def)
qed

lemma close_some_close_some:
  "close_some from I (close_some from J d) = close_some from (I \<union> J) d"
  by (auto simp: close_some_def close_at_def)

lemma close_schedules_run:
  assumes "closable from d" "distinct (map ws_id rows)" "ws_id ` set rows \<inter> J = {}"
    and "set rows \<subseteq> set (tbl_rows (db_schedules d))"
  shows "close_schedules from rows (close_some from J d) = (Inr (), close_some from (J \<union> ws_id ` set rows) d)"
  using assms
proof (induction rows arbitrary: J)
  case Nil
  then show ?case by (simp add: close_schedules_def act_seq_def)
next
  case (Cons r rows)
  let ?d = "close_some from J d"
  let ?d1 = "close_some from (insert (ws_id r) J) d"
  have r: "r \<in> set (tbl_rows (db_schedules d))" "ws_id r \<notin> J" using Cons.prems by auto
  have dist: "distinct (map ws_id (tbl_rows (db_schedules ?d)))"
    using closable_close_some [OF Cons.prems(1)] by (simp add: closable_def)
  have same: "x = r" if "x \<in> set (tbl_rows (db_schedules d))" "ws_id x = ws_id r" for x
    using that r Cons.prems(1) by (auto simp: closable_def distinct_map inj_on_def)
  have rin: "r \<in> set (tbl_rows (db_schedules ?d))"
    using r by (force simp: close_some_def)
  have IH: "close_schedules from rows ?d1 = (Inr (), close_some from (insert (ws_id r) J \<union> ws_id ` set rows) d)"
    using Cons by (intro Cons.IH) auto
  have step: "(if ws_to r = None \<or> from < the (ws_to r)
        then (if from \<le> ws_from r then act_throw ErrOther
              else act_seq (mapErr (q_UpdateWorkScheduleEffectiveTo (Some from) (ws_id r))) (act_ret ()))
        else act_ret ()) ?d = (Inr (), ?d1)"
  proof (cases "ws_to r = None \<or> from < the (ws_to r)")
    case True
    have early: "ws_from r < from" using True r Cons.prems(1) by (auto simp: closable_def)
    have close_r: "close_at from r = r\<lparr>ws_to := Some from\<rparr>" using True by (simp add: close_at_def)
    have d1: "?d1 = ?d\<lparr>db_schedules := (db_schedules ?d)\<lparr>tbl_rows :=
       map (\<lambda>x. if ws_id x = ws_id r then x\<lparr>ws_to := Some from\<rparr> else x) (tbl_rows (db_schedules ?d))\<rparr>\<rparr>"
    proof -
      have "(if ws_id x \<in> insert (ws_id r) J then close_at from x else x) =
          (let y = (if ws_id x \<in> J then close_at from x else x)
           in if ws_id y = ws_id r then y\<lparr>ws_to := Some from\<rparr> else y)"
        if "x \<in> set (tbl_rows (db_schedules d))" for x
        using same [OF that] close_r r(2) by (cases "ws_id x = ws_id r") (auto simp: Let_def)
      then show ?thesis by (simp add: close_some_def comp_def Let_def)
    qed
    have rows1: "close_at from r \<in> set (tbl_rows (db_schedules ?d1))"
      using r by (force simp: close_some_def)
    have c1: "closable from ?d1" by (rule closable_close_some [OF Cons.prems(1)])
    have "ws_ok ?d1 (r\<lparr>ws_to := Some from\<rparr>)"
      using c1 rows1 early unfolding close_r ws_ok_def closable_def list_all_iff
      by (metis (no_types, lifting) close_at_simps(1,2) close_r option.simps(5) work_schedule.select_convs(5)
          work_schedule.surjective work_schedule.update_convs(5) ranges_overlap_sym)
    then have "q_UpdateWorkScheduleEffectiveTo (Some from) (ws_id r) ?d = (Inr (r\<lparr>ws_to := Some from\<rparr>), ?d1)"
      by (rule update_effective_run [OF rin dist d1])
    then show ?thesis
      using True early by (simp add: act_seq_def act_bind_def mapErr_def)
  next
    case False
    then have "close_at from r = r" by (simp add: close_at_def)
    then have "(if ws_id x = ws_id r \<or> ws_id x \<in> J then close_at from x else x) =
        (if ws_id x \<in> J then close_at from x else x)"
      if "x \<in> set (tbl_rows (db_schedules d))" for x
      using same [OF that] by auto
    then have "?d1 = ?d" by (simp add: close_some_def cong: map_cong)
    then show ?thesis using False by auto
  qed
  show ?case
    using step IH unfolding close_schedules_def
    by (simp add: act_seq_def act_bind_def split: prod.splits sum.splits)
qed

lemma create_window_run:
  assumes "has_id wd_id (db_schedule_days d) day" "0 \<le> s" "s < e" "s < 1440" "e \<le> 1440"
  shows "q_CreateWorkScheduleWindow day s e d =
    (let r = \<lparr>ww_id = tbl_seq (db_schedule_windows d) + 1, ww_owner = day, ww_start = s, ww_end = e\<rparr>
     in (Inr r, d\<lparr>db_schedule_windows := add_rows [r] (db_schedule_windows d)\<rparr>))"
  using assms by (simp add: q_CreateWorkScheduleWindow_def insert_into_def window_ok_def Let_def add_rows_def)

lemma insert_windows_run:
  assumes "has_id wd_id (db_schedule_days d) day" "validateWindows ws = Inr ()"
  shows "for_each (\<lambda>w. mapErr (q_CreateWorkScheduleWindow day (wn_start w) (wn_end w))) ws d =
    (Inr (new_windows day (tbl_seq (db_schedule_windows d)) ws),
     d\<lparr>db_schedule_windows :=
       add_rows (new_windows day (tbl_seq (db_schedule_windows d)) ws) (db_schedule_windows d)\<rparr>)"
  using assms
proof (induction ws arbitrary: d)
  case (Cons w ws)
  let ?r = "\<lparr>ww_id = tbl_seq (db_schedule_windows d) + 1, ww_owner = day, ww_start = wn_start w, ww_end = wn_end w\<rparr>"
  let ?d1 = "d\<lparr>db_schedule_windows := add_rows [?r] (db_schedule_windows d)\<rparr>"
  have "q_CreateWorkScheduleWindow day (wn_start w) (wn_end w) d = (Inr ?r, ?d1)"
    using Cons.prems by (simp add: create_window_run Let_def split: if_splits)
  moreover have "for_each (\<lambda>w. mapErr (q_CreateWorkScheduleWindow day (wn_start w) (wn_end w))) ws ?d1 =
      (Inr (new_windows day (tbl_seq (db_schedule_windows ?d1)) ws),
       ?d1\<lparr>db_schedule_windows :=
         add_rows (new_windows day (tbl_seq (db_schedule_windows ?d1)) ws) (db_schedule_windows ?d1)\<rparr>)"
    using Cons.prems by (intro Cons.IH) (simp_all split: if_splits)
  ultimately show ?case
    by (simp add: act_bind_def mapErr_def)
qed simp

definition insert_day :: "int \<Rightarrow> schedule_day \<Rightarrow> (db, window_row list) act" where
  "insert_day sched x =
     act_bind (mapErr (q_CreateWorkScheduleDay sched (sd_weekday x) (sd_expected x))) (\<lambda>row.
     for_each (\<lambda>w. mapErr (q_CreateWorkScheduleWindow (wd_id row) (wn_start w) (wn_end w)))
       (sd_windows x))"

lemma insert_days_run:
  assumes "has_id ws_id (db_schedules d) sched" "distinct (map sd_weekday days)"
    and "\<forall>x \<in> set days. sd_weekday x \<in> set weekdays \<and> 0 \<le> sd_expected x \<and> validateWindows (sd_windows x) = Inr ()"
    and "\<forall>r \<in> set (tbl_rows (db_schedule_days d)). wd_schedule r = sched \<longrightarrow> wd_weekday r \<notin> sd_weekday ` set days"
  shows "\<exists>ws. for_each (insert_day sched) days d =
    (Inr ws, d\<lparr>db_schedule_days :=
              add_rows (new_days sched (tbl_seq (db_schedule_days d)) days) (db_schedule_days d),
            db_schedule_windows :=
              add_rows (all_windows (tbl_seq (db_schedule_days d)) (tbl_seq (db_schedule_windows d)) days)
                (db_schedule_windows d)\<rparr>)"
  using assms
proof (induction days arbitrary: d)
  case (Cons x days)
  let ?r = "\<lparr>wd_id = tbl_seq (db_schedule_days d) + 1, wd_schedule = sched, wd_weekday = sd_weekday x,
             wd_expected = sd_expected x\<rparr>"
  let ?d1 = "d\<lparr>db_schedule_days := add_rows [?r] (db_schedule_days d)\<rparr>"
  let ?w = "new_windows (wd_id ?r) (tbl_seq (db_schedule_windows ?d1)) (sd_windows x)"
  let ?d2 = "?d1\<lparr>db_schedule_windows := add_rows ?w (db_schedule_windows ?d1)\<rparr>"
  have create: "q_CreateWorkScheduleDay sched (sd_weekday x) (sd_expected x) d = (Inr ?r, ?d1)"
    using Cons.prems
    by (auto simp: q_CreateWorkScheduleDay_def insert_into_def Let_def wd_ok_def alone_def list_all_iff add_rows_def)
  have windows: "for_each (\<lambda>w. mapErr (q_CreateWorkScheduleWindow (wd_id ?r) (wn_start w) (wn_end w)))
      (sd_windows x) ?d1 = (Inr ?w, ?d2)"
    using Cons.prems by (intro insert_windows_run) (simp_all add: has_id_def)
  have "\<exists>ws. for_each (insert_day sched) days ?d2 =
    (Inr ws, ?d2\<lparr>db_schedule_days :=
              add_rows (new_days sched (tbl_seq (db_schedule_days ?d2)) days) (db_schedule_days ?d2),
            db_schedule_windows :=
              add_rows (all_windows (tbl_seq (db_schedule_days ?d2)) (tbl_seq (db_schedule_windows ?d2)) days)
                (db_schedule_windows ?d2)\<rparr>)"
    using Cons.prems by (intro Cons.IH) auto
  then obtain ws where rest: "for_each (insert_day sched) days ?d2 =
    (Inr ws, ?d2\<lparr>db_schedule_days :=
              add_rows (new_days sched (tbl_seq (db_schedule_days ?d2)) days) (db_schedule_days ?d2),
            db_schedule_windows :=
              add_rows (all_windows (tbl_seq (db_schedule_days ?d2)) (tbl_seq (db_schedule_windows ?d2)) days)
                (db_schedule_windows ?d2)\<rparr>)" by blast
  have "insert_day sched x d = (Inr ?w, ?d2)"
    using create windows by (simp add: insert_day_def act_bind_def mapErr_def)
  then show ?case
    using rest by (simp add: act_bind_def)
qed simp

text \<open>
  When the input is valid, the time zone exists and no schedule in force starts on or after the
  new date, the call succeeds: neither a trigger nor a constraint of the schema can stop it.
\<close>

lemma replace_run:
  assumes wf: "schedules_wf d"
    and zone: "trim_space (si_timezone input) \<noteq> ''''" "tz (trim_space (si_timezone input)) \<noteq> None"
    and week: "to_lower (trim_space (si_workweek_start input)) \<in> set weekdays"
    and since: "parse_date (trim_space (si_from input)) \<noteq> None"
    and valid: "validateScheduleDays (si_days input) = Inr ()"
    and starts: "\<forall>r \<in> set (tbl_rows (db_schedules d)). ws_to r = None \<or> trim_space (si_from input) < the (ws_to r)
       \<longrightarrow> ws_from r < trim_space (si_from input)"
  shows "\<exists>v. ReplaceActiveWorkSchedule tz input d = (Inr v, replaced input d)"
proof -
  let ?from = "trim_space (si_from input)"
  let ?new = "new_schedule input d"
  let ?days = "map normal_weekday (si_days input)"
  let ?rows = "tbl_rows (db_schedules d)"
  let ?d1 = "close_some ?from (ws_id ` set ?rows) d"
  let ?d2 = "?d1\<lparr>db_schedules := add_rows [?new] (db_schedules ?d1)\<rparr>"
  have ids: "ids_ok ws_id (db_schedules d)" using wf by (simp add: schedules_wf_def)
  have c: "closable ?from d"
    using wf starts by (auto simp: closable_def schedules_wf_def ids_ok_def)
  have perm: "mset (q_ListWorkSchedules d) = mset ?rows" by (simp add: q_ListWorkSchedules_def)
  then have same: "set (q_ListWorkSchedules d) = set ?rows" by (rule mset_eq_setD)
  have "distinct (map ws_id (q_ListWorkSchedules d))"
    using ids perm by (metis ids_ok_def mset_eq_imp_distinct_iff mset_map)
  then have "close_schedules ?from (q_ListWorkSchedules d) (close_some ?from {} d) = (Inr (), ?d1)"
    using close_schedules_run [OF c, of "q_ListWorkSchedules d" "{}"] same by simp
  then have close: "close_schedules ?from (q_ListWorkSchedules d) d = (Inr (), ?d1)"
    by (simp add: close_some_def)
  have apart: "\<not> ranges_overlap (close_at ?from x) ?new" for x
    by (auto simp: ranges_overlap_def close_at_def new_schedule_def split: option.splits)
  have rows1: "tbl_rows (db_schedules ?d1) = map (close_at ?from) ?rows"
    by (simp add: close_some_def)
  have "ws_ok ?d1 ?new"
    unfolding ws_ok_def rows1 using week apart by (simp add: list_all_iff) (simp add: new_schedule_def)
  then have create: "q_CreateWorkSchedule (trim_space (si_timezone input))
      (to_lower (trim_space (si_workweek_start input))) ?from None ?d1 = (Inr ?new, ?d2)"
    by (simp add: create_schedule_Inr) (simp add: new_schedule_def close_some_def add_rows_def)
  have "\<exists>ws. for_each (insert_day (ws_id ?new)) ?days ?d2 =
    (Inr ws, ?d2\<lparr>db_schedule_days :=
              add_rows (new_days (ws_id ?new) (tbl_seq (db_schedule_days ?d2)) ?days) (db_schedule_days ?d2),
            db_schedule_windows :=
              add_rows (all_windows (tbl_seq (db_schedule_days ?d2)) (tbl_seq (db_schedule_windows ?d2)) ?days)
                (db_schedule_windows ?d2)\<rparr>)"
  proof (rule insert_days_run)
    show "has_id ws_id (db_schedules ?d2) (ws_id ?new)" by (simp add: has_id_def)
    show "distinct (map sd_weekday ?days)" by (rule valid_days(1) [OF valid])
    have "validate_days_from [] (si_days input) = Inr ()"
      using valid by (auto simp: validateScheduleDays_def split: if_splits)
    then show "\<forall>x \<in> set ?days. sd_weekday x \<in> set weekdays \<and> 0 \<le> sd_expected x \<and> validateWindows (sd_windows x) = Inr ()"
      using valid_days_from by (fastforce simp: normal_weekday_def)
    show "\<forall>r \<in> set (tbl_rows (db_schedule_days ?d2)). wd_schedule r = ws_id ?new \<longrightarrow> wd_weekday r \<notin> sd_weekday ` set ?days"
      using wf by (force simp: schedules_wf_def new_schedule_def close_some_def)
  qed
  moreover have "?d2\<lparr>db_schedule_days :=
              add_rows (new_days (ws_id ?new) (tbl_seq (db_schedule_days ?d2)) ?days) (db_schedule_days ?d2),
            db_schedule_windows :=
              add_rows (all_windows (tbl_seq (db_schedule_days ?d2)) (tbl_seq (db_schedule_windows ?d2)) ?days)
                (db_schedule_windows ?d2)\<rparr> = replaced input d"
    by (simp add: replaced_def Let_def close_some_def add_rows_def) (simp add: new_schedule_def)
  ultimately obtain ws where ins: "for_each (insert_day (ws_id ?new)) ?days ?d2 = (Inr ws, replaced input d)"
    by auto
  have insert: "insertScheduleDays (ws_id ?new) ?days ?d2 = (Inr (), replaced input d)"
    using ins by (simp add: insertScheduleDays_def act_seq_def act_bind_def insert_day_def [abs_def])
  have "\<exists>row. q_GetWorkSchedule (ws_id ?new) (replaced input d) = Some row"
  proof -
    have "?new \<in> set (tbl_rows (db_schedules (replaced input d)))" by (simp add: replaced_tables)
    then show ?thesis
      by (cases "q_GetWorkSchedule (ws_id ?new) (replaced input d)")
        (auto simp: q_GetWorkSchedule_def find_row_def find_None_iff)
  qed
  then obtain row where row: "q_GetWorkSchedule (ws_id ?new) (replaced input d) = Some row" by blast
  have tx: "in_tx (act_bind (act_gets q_ListWorkSchedules) (\<lambda>existing.
      act_seq (close_schedules ?from existing)
        (act_bind (mapErr (q_CreateWorkSchedule (trim_space (si_timezone input))
             (to_lower (trim_space (si_workweek_start input))) ?from None)) (\<lambda>created.
         act_seq (insertScheduleDays (ws_id created) ?days) (act_ret created))))) d =
      (Inr ?new, replaced input d)"
    (is "in_tx ?body d = _")
    using close create insert
    by (simp add: act_seq_def act_bind_def mapErr_def)
  then have bound: "act_bind (in_tx ?body) k d = k ?new (replaced input d)" for k :: "work_schedule \<Rightarrow> (db, schedule_detail) act"
    by (simp only: act_bind_def prod.case sum.case)
  have got: "\<exists>v. GetWorkSchedule (ws_id ?new) (replaced input d) = (Inr v, replaced input d)"
    using row by (simp add: GetWorkSchedule_def act_bind_def mapErr_get_one)
  show ?thesis
    using zone week since valid bound got
    by (simp add: ReplaceActiveWorkSchedule_def Let_def)
qed


section \<open>Exceptions\<close>

definition exceptions_wf :: "db \<Rightarrow> bool" where
  "exceptions_wf d \<longleftrightarrow> ids_ok sx_id (db_exceptions d) \<and> distinct (map sx_date (tbl_rows (db_exceptions d))) \<and>
     (\<forall>w \<in> set (tbl_rows (db_exception_windows d)). ww_owner w \<le> tbl_seq (db_exceptions d))"

lemma insert_exception_windows_Inr:
  "for_each (\<lambda>w. mapErr (q_CreateScheduleExceptionWindow i (wn_start w) (wn_end w))) ws d = (Inr rs, d') \<Longrightarrow>
     d' = d\<lparr>db_exception_windows :=
       add_rows (new_windows i (tbl_seq (db_exception_windows d)) ws) (db_exception_windows d)\<rparr>"
proof (induction ws arbitrary: d rs)
  case (Cons w ws)
  then show ?case
    by (fastforce simp: act_bind_eq_Inr_iff q_CreateScheduleExceptionWindow_def insert_into_def Let_def
        add_rows_def split: if_splits)
qed simp

definition exception_row :: "exception_input \<Rightarrow> int \<Rightarrow> schedule_exception" where
  "exception_row input i = \<lparr>sx_id = i, sx_date = trim_space (xi_date input),
     sx_kind = to_lower (trim_space (xi_kind input)), sx_expected = xi_expected input\<rparr>"

text \<open>Either a new row with its windows, or the row of the date with its windows replaced.\<close>

lemma upsert_exception_Inr:
  assumes "UpsertScheduleException input d = (Inr v, d')" "exceptions_wf d"
  obtains (created)
      "q_GetScheduleExceptionByDate (trim_space (xi_date input)) d = None"
      "d' = d\<lparr>db_exceptions := add_rows [exception_row input (tbl_seq (db_exceptions d) + 1)] (db_exceptions d),
              db_exception_windows := add_rows (new_windows (tbl_seq (db_exceptions d) + 1)
                (tbl_seq (db_exception_windows d)) (xi_windows input)) (db_exception_windows d)\<rparr>"
    | (changed) x where
      "q_GetScheduleExceptionByDate (trim_space (xi_date input)) d = Some x"
      "d' = d\<lparr>db_exceptions := (db_exceptions d)\<lparr>tbl_rows :=
                map (\<lambda>r. if sx_id r = sx_id x then exception_row input (sx_id x) else r) (tbl_rows (db_exceptions d))\<rparr>,
              db_exception_windows := add_rows (new_windows (sx_id x)
                (tbl_seq (db_exception_windows d)) (xi_windows input))
                ((db_exception_windows d)\<lparr>tbl_rows :=
                   filter (\<lambda>w. ww_owner w \<noteq> sx_id x) (tbl_rows (db_exception_windows d))\<rparr>)\<rparr>"
proof -
  let ?date = "trim_space (xi_date input)" and ?kind = "to_lower (trim_space (xi_kind input))"
  let ?ins = "\<lambda>i. for_each (\<lambda>w. mapErr (q_CreateScheduleExceptionWindow i (wn_start w) (wn_end w))) (xi_windows input)"
  consider (new) row d1 rs where "q_GetScheduleExceptionByDate ?date d = None"
      "q_CreateScheduleException ?date ?kind (xi_expected input) d = (Inr row, d1)"
      "?ins (sx_id row) d1 = (Inr rs, d')"
    | (old) x r d1 d2 rs where "q_GetScheduleExceptionByDate ?date d = Some x"
      "q_UpdateScheduleException ?kind (xi_expected input) (sx_id x) d = (Inr r, d1)"
      "q_DeleteScheduleExceptionWindows (sx_id x) d1 = (Inr (), d2)"
      "?ins (sx_id x) d2 = (Inr rs, d')"
  proof -
    obtain i d1 d2 rs where pick: "(case q_GetScheduleExceptionByDate ?date d of
                   None \<Rightarrow> act_bind (mapErr (q_CreateScheduleException ?date ?kind (xi_expected input)))
                             (\<lambda>row. act_ret (sx_id row))
                 | Some x \<Rightarrow>
                     act_seq (mapErr (q_UpdateScheduleException ?kind (xi_expected input) (sx_id x)))
                       (act_seq (mapErr (q_DeleteScheduleExceptionWindows (sx_id x)))
                         (act_ret (sx_id x)))) d = (Inr i, d1)"
      and ins: "?ins i d1 = (Inr rs, d2)" and last: "GetScheduleExceptionByDate ?date d2 = (Inr v, d')"
      using assms(1)
      by (auto simp: UpsertScheduleException_def Let_def act_bind_eq_Inr_iff act_seq_eq_Inr_iff split: if_splits)
    have "d' = d2" using last by (auto simp: GetScheduleExceptionByDate_def act_bind_eq_Inr_iff)
    with pick ins show ?thesis
      by (cases "q_GetScheduleExceptionByDate ?date d")
        (auto simp: act_bind_eq_Inr_iff act_seq_eq_Inr_iff intro: that)
  qed
  then show ?thesis
  proof cases
    case new
    have "row = exception_row input (tbl_seq (db_exceptions d) + 1)" "d1 = d\<lparr>db_exceptions := add_rows [row] (db_exceptions d)\<rparr>"
      using new(2) by (auto simp: q_CreateScheduleException_def insert_into_def Let_def exception_row_def
          add_rows_def split: if_splits)
    then show ?thesis
      using insert_exception_windows_Inr [OF new(3)] new(1) created by (simp add: exception_row_def)
  next
    case old
    have x: "x \<in> set (tbl_rows (db_exceptions d))" "sx_date x = ?date"
      using old(1) by (auto simp: q_GetScheduleExceptionByDate_def find_row_def find_Some_iff)
    have "r\<lparr>sx_kind := ?kind, sx_expected := xi_expected input\<rparr> = exception_row input (sx_id x)"
      if "r \<in> set (tbl_rows (db_exceptions d))" "sx_id r = sx_id x" for r
    proof -
      have "r = x" using that x assms(2) by (auto simp: exceptions_wf_def ids_ok_def distinct_map inj_on_def)
      then show ?thesis using x by (simp add: exception_row_def)
    qed
    then have "map (\<lambda>r. if sx_id r = sx_id x then r\<lparr>sx_kind := ?kind, sx_expected := xi_expected input\<rparr> else r)
        (tbl_rows (db_exceptions d)) =
      map (\<lambda>r. if sx_id r = sx_id x then exception_row input (sx_id x) else r) (tbl_rows (db_exceptions d))"
      by simp
    moreover have "d1 = d\<lparr>db_exceptions := (db_exceptions d)\<lparr>tbl_rows :=
        map (\<lambda>r. if sx_id r = sx_id x then r\<lparr>sx_kind := ?kind, sx_expected := xi_expected input\<rparr> else r)
          (tbl_rows (db_exceptions d))\<rparr>\<rparr>"
      using old(2) by (auto simp: q_UpdateScheduleException_def scan_one_Inr update_where_def Let_def split: if_splits)
    ultimately have "d1 = d\<lparr>db_exceptions := (db_exceptions d)\<lparr>tbl_rows :=
        map (\<lambda>r. if sx_id r = sx_id x then exception_row input (sx_id x) else r) (tbl_rows (db_exceptions d))\<rparr>\<rparr>"
      by (simp only:)
    then show ?thesis
      using insert_exception_windows_Inr [OF old(4)] old(1,3) changed
      by (auto simp: q_DeleteScheduleExceptionWindows_def act_seq_def act_bind_def delete_where_def Let_def)
  qed
qed

lemma windows_of_new: "windows_of (new_windows i k ws) = ws"
  by (induction ws arbitrary: k) (simp_all add: windows_of_def)

lemma filter_new_windows: "filter (\<lambda>w. ww_owner w = i) (new_windows i k ws) = new_windows i k ws"
  by (auto simp: filter_id_conv dest: new_windows_owner)

lemma windows_of_sort: "windows_of (sort_key ww_start rs) = sort_key wn_start (windows_of rs)"
  unfolding windows_of_def by (subst map_sort_key [symmetric]) simp

lemma upsert_exception_state:
  assumes "UpsertScheduleException input d = (Inr v, d')" "exceptions_wf d"
  obtains i where
    "q_GetScheduleExceptionByDate (trim_space (xi_date input)) d' = Some (exception_row input i)"
    "listExceptionWindows i d' = sort_key wn_start (xi_windows input)"
    "db_schedules d' = db_schedules d" "exceptions_wf d'"
proof (cases rule: upsert_exception_Inr [OF assms, case_names created changed])
  case created
  let ?i = "tbl_seq (db_exceptions d) + 1"
  have "filter (\<lambda>w. ww_owner w = ?i) (tbl_rows (db_exception_windows d)) = []"
    using assms(2) by (force simp: exceptions_wf_def filter_empty_conv)
  moreover have "exceptions_wf d'"
    using assms(2) created
    by (auto simp: exceptions_wf_def ids_ok_def exception_row_def q_GetScheduleExceptionByDate_def find_row_def
        find_None_iff dest!: new_windows_owner)
  ultimately show ?thesis
    using created
    by (intro that [of ?i])
      (simp_all add: q_GetScheduleExceptionByDate_def find_row_def find_append exception_row_def
        listExceptionWindows_def q_ListScheduleExceptionWindows_def select_rows_def filter_new_windows
        windows_of_sort windows_of_new)
next
  case (changed x)
  have x: "x \<in> set (tbl_rows (db_exceptions d))" "sx_date x = trim_space (xi_date input)"
    using changed(1) by (auto simp: q_GetScheduleExceptionByDate_def find_row_def find_Some_iff)
  have only: "r = x" if "r \<in> set (tbl_rows (db_exceptions d))" "sx_id r = sx_id x" for r
    using that x assms(2) by (auto simp: exceptions_wf_def ids_ok_def distinct_map inj_on_def)
  let ?upd = "\<lambda>r. if sx_id r = sx_id x then exception_row input (sx_id x) else r"
  have keys: "map sx_id (map ?upd rs) = map sx_id rs" for rs
    by (simp add: exception_row_def)
  have "sx_date (?upd r) = sx_date r" if "r \<in> set (tbl_rows (db_exceptions d))" for r
    using only [OF that] x(2) by (auto simp: exception_row_def)
  then have dates: "map sx_date (map ?upd (tbl_rows (db_exceptions d))) = map sx_date (tbl_rows (db_exceptions d))"
    by simp
  have found: "find (\<lambda>r. sx_date r = trim_space (xi_date input)) (map ?upd (tbl_rows (db_exceptions d))) =
      Some (exception_row input (sx_id x))"
  proof -
    have "find ((\<lambda>r. sx_date r = trim_space (xi_date input)) \<circ> ?upd) (tbl_rows (db_exceptions d)) =
        find (\<lambda>r. sx_date r = trim_space (xi_date input)) (tbl_rows (db_exceptions d))"
      using only x by (intro find_cong_set) (auto simp: exception_row_def)
    then show ?thesis
      using changed(1) by (simp add: find_map q_GetScheduleExceptionByDate_def find_row_def)
  qed
  have wf: "exceptions_wf d'"
  proof -
    have range: "0 < sx_id r \<and> sx_id r \<le> tbl_seq (db_exceptions d)" if "r \<in> set (tbl_rows (db_exceptions d))" for r
      using that assms(2) by (auto simp: exceptions_wf_def ids_ok_def)
    have ids': "ids_ok sx_id (db_exceptions d')"
      using assms(2) range x keys [of "tbl_rows (db_exceptions d)"] unfolding changed(2) exceptions_wf_def ids_ok_def
      by (auto simp: exception_row_def simp del: map_map)
    have "distinct (map sx_date (tbl_rows (db_exceptions d')))"
      using assms(2) dates by (simp add: changed(2) exceptions_wf_def del: map_map)
    moreover have "\<forall>w \<in> set (tbl_rows (db_exception_windows d')). ww_owner w \<le> tbl_seq (db_exceptions d')"
      using assms(2) range [OF x(1)] by (auto simp: changed(2) exceptions_wf_def dest!: new_windows_owner)
    ultimately show ?thesis using ids' by (simp add: exceptions_wf_def)
  qed
  show ?thesis
    using found wf changed(2)
    by (intro that [of "sx_id x"])
      (simp_all add: q_GetScheduleExceptionByDate_def find_row_def listExceptionWindows_def
        q_ListScheduleExceptionWindows_def select_rows_def filter_new_windows windows_of_sort windows_of_new)
qed

text \<open>An upserted exception is what its date resolves to, whatever the weekday template says.\<close>

lemma upsert_exception_resolves:
  assumes "UpsertScheduleException input d = (Inr v, d')" "exceptions_wf d"
    and "q_GetWorkScheduleForDate (trim_space (xi_date input)) d = Some sched"
  shows "ExpectedTimeForDate (xi_date input) d' = Inr
    \<lparr>et_date = trim_space (xi_date input), et_minutes = xi_expected input,
     et_windows = sort_key wn_start (xi_windows input), et_source = ''exception'',
     et_exception_kind = to_lower (trim_space (xi_kind input)), et_timezone = ws_timezone sched,
     et_workweek_start = ws_workweek_start sched\<rparr>"
proof -
  have date: "parse_date (trim_space (xi_date input)) \<noteq> None"
    using assms(1) by (auto simp: UpsertScheduleException_def Let_def split: if_splits)
  obtain i where i: "q_GetScheduleExceptionByDate (trim_space (xi_date input)) d' = Some (exception_row input i)"
    "listExceptionWindows i d' = sort_key wn_start (xi_windows input)" "db_schedules d' = db_schedules d"
    using upsert_exception_state [OF assms(1,2)] by blast
  show ?thesis
    using date i assms(3)
    by (simp add: ExpectedTimeForDate_def Let_def q_GetWorkScheduleForDate_def exception_row_def)
qed


section \<open>Ranges of dates\<close>

lemma expected_time_date: "ExpectedTimeForDate date d = Inr e \<Longrightarrow> et_date e = trim_space date"
  by (auto simp: ExpectedTimeForDate_def Let_def split: if_splits option.splits)

lemma expected_time_total: "parse_date (trim_space date) \<noteq> None \<Longrightarrow> \<exists>e. ExpectedTimeForDate date d = Inr e"
  by (auto simp: ExpectedTimeForDate_def Let_def weekdayName_def simp del: res_bind_eq_Inr split: option.splits)

text \<open>A range resolves each of its dates, in order, and fails only on a bad or inverted range.\<close>

lemma expected_range:
  assumes "parse_date (trim_space s) = Some a" "parse_date (trim_space e) = Some b" "a \<le> b"
  shows "\<exists>xs. ExpectedTimeForRange s e d = Inr xs \<and>
     map et_date xs = map format_date [a..b] \<and>
     list_all2 (\<lambda>day x. ExpectedTimeForDate (format_date day) d = Inr x) [a..b] xs"
proof -
  have ok: "printable_day day" if "day \<in> set [a..b]" for day
    using that format_parse_date(2) [OF assms(1)] format_parse_date(2) [OF assms(2)]
    by (simp add: printable_day_def)
  have ex: "\<exists>x. ExpectedTimeForDate (format_date day) d = Inr x" if "day \<in> set [a..b]" for day
    using ok [OF that] by (intro expected_time_total) (simp add: trim_format_date)
  define g where "g = (\<lambda>day. SOME x. ExpectedTimeForDate (format_date day) d = Inr x)"
  have g: "ExpectedTimeForDate (format_date day) d = Inr (g day)" if "day \<in> set [a..b]" for day
    unfolding g_def using ex [OF that] by (rule someI_ex)
  have "res_each (\<lambda>day. ExpectedTimeForDate (format_date day) d) [a..b] = Inr (map g [a..b])"
    by (rule res_each_total) (rule g)
  moreover have "map et_date (map g [a..b]) = map format_date [a..b]"
    using expected_time_date [OF g] ok by (simp add: trim_format_date)
  moreover have "list_all2 (\<lambda>day x. ExpectedTimeForDate (format_date day) d = Inr x) [a..b] (map g [a..b])"
    by (simp add: list_all2_conv_all_nth g)
  ultimately show ?thesis
    using assms by (auto simp: ExpectedTimeForRange_def)
qed

lemma expected_range_each:
  assumes "ExpectedTimeForRange s e d = Inr xs" "x \<in> set xs"
  shows "\<exists>day. ExpectedTimeForDate day d = Inr x"
proof -
  obtain a b where "list_all2 (\<lambda>day x. ExpectedTimeForDate (format_date day) d = Inr x) [a..b] xs"
    using assms(1) by (auto simp: ExpectedTimeForRange_def res_each_Inr split: if_splits)
  then show ?thesis using assms(2) by (induction rule: list_all2_induct) auto
qed

end
