(* ===== verification/Periods.thy ===== *)
theory Periods
  imports Queries
begin

text \<open>
  Pay periods: internal/service/period.go and the period reads of service.go. A date is the text
  YYYY-MM-DD, compared as text; \<open>today\<close> is the caller's local date.
\<close>

definition parseDate :: "string \<Rightarrow> go_error + int" where
  "parseDate s = res_the ErrOther (parse_date s)"

definition ListPeriods :: "db \<Rightarrow> period list" where
  "ListPeriods d = q_ListPeriods d"

definition GetPeriod :: "int \<Rightarrow> (db, period) act" where
  "GetPeriod i = mapErr (get_one (q_GetPeriod i))"

definition GetPeriodByRange :: "string \<Rightarrow> string \<Rightarrow> (db, period) act" where
  "GetPeriodByRange s e = mapErr (get_one (q_GetPeriodByRange s e))"

definition ListTzSegments :: "int \<Rightarrow> db \<Rightarrow> tz_segment list" where
  "ListTzSegments p d = q_ListTzSegments p d"

definition periodContains :: "period \<Rightarrow> string \<Rightarrow> bool" where
  "periodContains p day \<longleftrightarrow> pd_start p \<le> day \<and> day \<le> pd_end p"

definition ensurePeriodTzSegment :: "int \<Rightarrow> string \<Rightarrow> string \<Rightarrow> (db, unit) act" where
  "ensurePeriodTzSegment p start iana =
     act_bind (act_gets (ListTzSegments p)) (\<lambda>segs.
       if segs \<noteq> [] then act_ret ()
       else act_seq (mapErr (q_UpsertTzSegment p start iana)) (act_ret ()))"

definition periodCadence :: "period list \<Rightarrow> db \<Rightarrow> string" where
  "periodCadence periods d =
     (if periods \<noteq> [] \<and> pd_cadence (hd periods) \<noteq> '''' then pd_cadence (hd periods)
      else case q_GetSetting ''period.cadence'' d of
        Some (JStr c) \<Rightarrow> if c = '''' then ''bi-weekly'' else c
      | _ \<Rightarrow> ''bi-weekly'')"

definition periodAnchor :: "period list \<Rightarrow> string \<Rightarrow> string" where
  "periodAnchor periods today =
     (if periods = [] \<or> pd_anchor (hd periods) = '''' then today else pd_anchor (hd periods))"

definition dateKey :: "int \<Rightarrow> int \<Rightarrow> int \<Rightarrow> string" where
  "dateKey y m dm = format_date (day_of_civil y m dm)"

text \<open>\<open>today.Sub(anchor).Hours() / 24\<close> of two midnights is a whole number of days.\<close>

definition days_since :: "int \<Rightarrow> int \<Rightarrow> int" where
  "days_since today anchor =
     go_div (time_sub (today * (24 * hour)) (anchor * (24 * hour))) (24 * hour)"

definition fixedDayPeriodRange :: "int \<Rightarrow> string \<Rightarrow> int \<Rightarrow> string \<times> string" where
  "fixedDayPeriodRange today anchorDate n =
     (let anchor = (case parse_date anchorDate of None \<Rightarrow> today | Some a \<Rightarrow> a);
          offset = go_mod (days_since today anchor) n;
          offset = (if offset < 0 then offset + n else offset);
          start = today - offset
      in (format_date start, format_date (start + n - 1)))"

definition currentPeriodRange :: "int \<Rightarrow> string \<Rightarrow> string \<Rightarrow> string \<times> string" where
  "currentPeriodRange today anchorDate cadence =
     (case civil_of_day today of (y, m, dm) \<Rightarrow>
        if cadence = ''weekly'' then fixedDayPeriodRange today anchorDate 7
        else if cadence = ''bi-weekly'' then fixedDayPeriodRange today anchorDate 14
        else if cadence = ''semi-monthly'' then
          (if dm \<le> 15 then (dateKey y m 1, dateKey y m 15)
           else (dateKey y m 16, dateKey y m (days_in_month y m)))
        else if cadence = ''monthly'' then (dateKey y m 1, dateKey y m (days_in_month y m))
        else fixedDayPeriodRange today anchorDate 14)"

definition EnsureCurrentPeriod :: "string \<Rightarrow> string \<Rightarrow> (db, period) act" where
  "EnsureCurrentPeriod today iana =
     (if today = '''' then act_throw ErrOther
      else let iana = (if iana = '''' then ''UTC'' else iana) in
        act_bind (act_lift (parseDate today)) (\<lambda>todayDate.
        act_bind (act_gets ListPeriods) (\<lambda>periods.
          case find (\<lambda>p. periodContains p today) periods of
            Some p \<Rightarrow> act_seq (ensurePeriodTzSegment (pd_id p) (pd_start p) iana) (act_ret p)
          | None \<Rightarrow>
              act_bind (act_gets (periodCadence periods)) (\<lambda>cadence.
                let anchor = periodAnchor periods today in
                case currentPeriodRange todayDate anchor cadence of (start, end') \<Rightarrow>
                act_bind (act_gets (q_GetPeriodByRange start end')) (\<lambda>known.
                  case known of
                    Some p \<Rightarrow> act_seq (ensurePeriodTzSegment (pd_id p) (pd_start p) iana) (act_ret p)
                  | None \<Rightarrow>
                      act_bind (mapErr (q_CreatePeriod start end' cadence anchor)) (\<lambda>p.
                        act_seq (ensurePeriodTzSegment (pd_id p) (pd_start p) iana) (act_ret p)))))))"


section \<open>The range of a day\<close>

lemma days_since_exact: "\<bar>today - anchor\<bar> < 106751 \<Longrightarrow> days_since today anchor = today - anchor"
proof -
  assume less: "\<bar>today - anchor\<bar> < 106751"
  have "\<bar>today * (24 * hour) - anchor * (24 * hour)\<bar> < 2 ^ 63"
  proof -
    have "today * (24 * hour) - anchor * (24 * hour) = (today - anchor) * (24 * hour)"
      by (simp add: algebra_simps)
    then show ?thesis using less by (auto simp: hour_def minute_def second_def abs_if split: if_splits)
  qed
  then have "time_sub (today * (24 * hour)) (anchor * (24 * hour)) = (today - anchor) * (24 * hour)"
    by (simp add: time_sub_exact algebra_simps)
  moreover have "go_div (k * (24 * hour)) (24 * hour) = k" for k
    by (auto simp: go_div_def hour_def minute_def second_def abs_mult sgn_if)
  ultimately show ?thesis by (simp add: days_since_def)
qed

lemma go_mod_fixed:
  "0 < n \<Longrightarrow> (if go_mod k n < 0 then go_mod k n + n else go_mod k n) = k mod (n :: int)"
proof -
  assume n: "0 < n"
  show ?thesis
  proof (cases "0 \<le> k")
    case True
    then show ?thesis using n by (simp add: go_mod_nonneg not_less)
  next
    case False
    then have eq: "go_mod k n = - ((- k) mod n)"
      using n by (auto simp: go_mod_def go_div_def sgn_if minus_mult_div_eq_mod [symmetric] algebra_simps)
    show ?thesis
    proof (cases "(- k) mod n = 0")
      case True
      then show ?thesis using zmod_zminus1_eq_if [of "- k" n] by (simp add: eq)
    next
      case nz: False
      then have "0 < (- k) mod n" using pos_mod_sign [OF n, of "- k"] by linarith
      moreover have "k mod n = n - (- k) mod n"
        using zmod_zminus1_eq_if [of "- k" n] nz by simp
      ultimately show ?thesis by (simp add: eq)
    qed
  qed
qed

lemma fixed_range:
  assumes "0 < n"
  shows "fixedDayPeriodRange today anchorDate n =
    (let k = days_since today (case parse_date anchorDate of None \<Rightarrow> today | Some a \<Rightarrow> a)
     in (format_date (today - k mod n), format_date (today - k mod n + (n - 1))))"
  unfolding fixedDayPeriodRange_def Let_def go_mod_fixed [OF assms] by (simp add: algebra_simps)

lemma valid_dates:
  assumes "civil_of_day n = (y, m, dm)" "1 \<le> d'" "d' \<le> days_in_month y m"
  shows "civil_of_day (day_of_civil y m d') = (y, m, d')"
    and "day_of_civil y m d' = n + d' - dm"
proof -
  have v: "valid_civil y m dm" "day_of_civil y m dm = n"
    using valid_civil_of_day [OF assms(1)] by simp_all
  then show "civil_of_day (day_of_civil y m d') = (y, m, d')"
    using assms(2,3) by (intro civil_of_day_of_civil) (simp add: valid_civil_def)
  show "day_of_civil y m d' = n + d' - dm"
    unfolding v(2) [symmetric] by (simp add: day_of_civil_def Let_def)
qed

lemma month_days: "28 \<le> days_in_month y m \<and> days_in_month y m \<le> 31"
  by (simp add: days_in_month_def)

text \<open>The first and last day of the range, as days.\<close>

definition range_days :: "int \<Rightarrow> string \<Rightarrow> string \<Rightarrow> int \<times> int" where
  "range_days today anchorDate cadence =
     (case civil_of_day today of (y, m, dm) \<Rightarrow>
        let k = days_since today (case parse_date anchorDate of None \<Rightarrow> today | Some a \<Rightarrow> a)
        in if cadence = ''weekly'' then (today - k mod 7, today - k mod 7 + 6)
           else if cadence = ''semi-monthly'' then
             (if dm \<le> 15 then (today + 1 - dm, today + 15 - dm)
              else (today + 16 - dm, today + days_in_month y m - dm))
           else if cadence = ''monthly'' then (today + 1 - dm, today + days_in_month y m - dm)
           else (today - k mod 14, today - k mod 14 + 13))"

lemma current_range:
  "currentPeriodRange today anchorDate cadence =
     (format_date (fst (range_days today anchorDate cadence)),
      format_date (snd (range_days today anchorDate cadence)))"
proof -
  obtain y m dm where c: "civil_of_day today = (y, m, dm)" by (cases "civil_of_day today") auto
  have dm: "1 \<le> dm \<and> dm \<le> days_in_month y m"
    using valid_civil_of_day [OF c] by (simp add: valid_civil_def)
  show ?thesis
    using valid_dates(2) [OF c] month_days [of y m] dm
    by (simp add: currentPeriodRange_def range_days_def c fixed_range Let_def dateKey_def)
qed

lemma range_days_contains:
  "fst (range_days today a c) \<le> today \<and> today \<le> snd (range_days today a c) \<and>
   today - 30 \<le> fst (range_days today a c) \<and> snd (range_days today a c) \<le> today + 30"
proof -
  obtain y m dm where c: "civil_of_day today = (y, m, dm)" by (cases "civil_of_day today") auto
  have dm: "1 \<le> dm \<and> dm \<le> days_in_month y m"
    using valid_civil_of_day [OF c] by (simp add: valid_civil_def)
  have "0 \<le> k mod 7 \<and> k mod 7 \<le> 6" "0 \<le> k mod 14 \<and> k mod 14 \<le> 13" for k :: int
    using pos_mod_bound [of 7 k] pos_mod_bound [of 14 k] by simp_all
  then show ?thesis
    using dm month_days [of y m] by (auto simp: range_days_def c Let_def)
qed

text \<open>Every day of a range has that range: the periods of one anchor and cadence do not overlap.\<close>

lemma mod_step:
  assumes "0 < (n :: int)" "k - k mod n \<le> j" "j \<le> k - k mod n + n - 1"
  shows "j - j mod n = k - k mod n"
proof -
  have "j div n = k div n"
    using assms by (intro int_div_pos_eq [where r = "j - n * (k div n)"]) (simp_all add: minus_mod_eq_mult_div)
  then show ?thesis by (simp add: minus_mod_eq_mult_div)
qed

lemma range_days_same:
  assumes "parse_date anchor = Some a" "\<bar>today - a\<bar> < 106720"
    and j: "fst (range_days today anchor c) \<le> j" "j \<le> snd (range_days today anchor c)"
  shows "range_days j anchor c = range_days today anchor c"
proof -
  obtain y m dm where civil: "civil_of_day today = (y, m, dm)" by (cases "civil_of_day today") auto
  have dm: "1 \<le> dm \<and> dm \<le> days_in_month y m"
    using valid_civil_of_day [OF civil] by (simp add: valid_civil_def)
  have near: "\<bar>j - today\<bar> \<le> 30" using range_days_contains [of today anchor c] j by auto
  have since: "days_since today (case parse_date anchor of None \<Rightarrow> today | Some a \<Rightarrow> a) = today - a"
    "days_since j (case parse_date anchor of None \<Rightarrow> j | Some a \<Rightarrow> a) = j - a"
    using assms(1,2) near by (simp_all add: days_since_exact)
  consider "c = ''weekly''" | "c = ''semi-monthly''" | "c = ''monthly''"
    | "c \<noteq> ''weekly''" "c \<noteq> ''semi-monthly''" "c \<noteq> ''monthly''" by blast
  then show ?thesis
  proof cases
    case 1
    then have "j - (j - a) mod 7 = today - (today - a) mod 7"
      using mod_step [of 7 "today - a" "j - a"] j since by (simp add: range_days_def civil Let_def)
    then show ?thesis using 1 since by (simp add: range_days_def Let_def split: prod.split)
  next
    case 4
    then have "j - (j - a) mod 14 = today - (today - a) mod 14"
      using mod_step [of 14 "today - a" "j - a"] j since by (simp add: range_days_def civil Let_def)
    then show ?thesis using 4 since by (simp add: range_days_def Let_def split: prod.split)
  next
    case 2
    then have "1 \<le> dm + (j - today)" "dm + (j - today) \<le> days_in_month y m"
      using j dm month_days [of y m] by (auto simp: range_days_def civil Let_def split: if_splits)
    then have "civil_of_day j = (y, m, dm + (j - today))"
      using valid_dates [OF civil, of "dm + (j - today)"] by simp
    then show ?thesis
      using 2 j by (auto simp: range_days_def civil Let_def split: if_splits)
  next
    case 3
    then have "1 \<le> dm + (j - today)" "dm + (j - today) \<le> days_in_month y m"
      using j dm by (auto simp: range_days_def civil Let_def)
    then have "civil_of_day j = (y, m, dm + (j - today))"
      using valid_dates [OF civil, of "dm + (j - today)"] by simp
    then show ?thesis
      using 3 by (simp add: range_days_def civil Let_def)
  qed
qed

text \<open>
  The shape of a range: a whole number of weeks from the anchor on, half a calendar month or a
  calendar month.
\<close>

definition range_shape :: "string \<Rightarrow> int \<Rightarrow> int \<Rightarrow> int \<Rightarrow> bool" where
  "range_shape cadence a s e =
     (if cadence = ''weekly'' then e = s + 6 \<and> 7 dvd s - a
      else if cadence = ''semi-monthly'' then
        (case civil_of_day s of (y, m, dm) \<Rightarrow>
           dm = 1 \<and> civil_of_day e = (y, m, 15) \<or>
           dm = 16 \<and> civil_of_day e = (y, m, days_in_month y m))
      else if cadence = ''monthly'' then
        (case civil_of_day s of (y, m, dm) \<Rightarrow> dm = 1 \<and> civil_of_day e = (y, m, days_in_month y m))
      else e = s + 13 \<and> 14 dvd s - a)"

lemma range_days_shape:
  assumes "parse_date anchor = Some a" "\<bar>today - a\<bar> < 106720" "range_days today anchor c = (s, e)"
  shows "range_shape c a s e"
proof -
  obtain y m dm where civil: "civil_of_day today = (y, m, dm)" by (cases "civil_of_day today") auto
  have dm: "1 \<le> dm \<and> dm \<le> days_in_month y m"
    using valid_civil_of_day [OF civil] by (simp add: valid_civil_def)
  have since: "days_since today (case parse_date anchor of None \<Rightarrow> today | Some a \<Rightarrow> a) = today - a"
    using assms(1,2) by (simp add: days_since_exact)
  have day: "civil_of_day (today + j - dm) = (y, m, j)" if "1 \<le> j" "j \<le> days_in_month y m" for j
    using valid_dates [OF civil that] by simp
  have whole: "n dvd today - (today - a) mod n - a" for n :: int
    using dvd_minus_mod [of n "today - a"] by (simp add: algebra_simps)
  consider "c = ''weekly''" | "c = ''semi-monthly''" "dm \<le> 15" | "c = ''semi-monthly''" "\<not> dm \<le> 15"
    | "c = ''monthly''" | "c \<noteq> ''weekly''" "c \<noteq> ''semi-monthly''" "c \<noteq> ''monthly''" by blast
  then show ?thesis
  proof cases
    case 1
    then show ?thesis using assms(3) whole [of 7] by (auto simp: range_days_def range_shape_def civil since Let_def)
  next
    case 2
    then have "s = today + 1 - dm" "e = today + 15 - dm"
      using assms(3) by (simp_all add: range_days_def civil Let_def)
    then show ?thesis using 2 month_days [of y m] by (simp add: range_shape_def day)
  next
    case 3
    then have "s = today + 16 - dm" "e = today + days_in_month y m - dm"
      using assms(3) by (simp_all add: range_days_def civil Let_def)
    then show ?thesis using 3 month_days [of y m] by (simp add: range_shape_def day)
  next
    case 4
    then have "s = today + 1 - dm" "e = today + days_in_month y m - dm"
      using assms(3) by (simp_all add: range_days_def civil Let_def)
    then show ?thesis using 4 month_days [of y m] by (simp add: range_shape_def day)
  next
    case 5
    then show ?thesis using assms(3) whole [of 14] by (auto simp: range_days_def range_shape_def civil since Let_def)
  qed
qed

text \<open>The range of the day after a range starts with that day: no day is left out.\<close>

lemma range_days_next:
  assumes "parse_date anchor = Some a" "\<bar>today - a\<bar> < 106600" "range_days today anchor c = (s, e)"
  shows "fst (range_days (e + 1) anchor c) = e + 1" and "snd (range_days (s - 1) anchor c) = s - 1"
proof -
  have near: "s \<le> today \<and> today \<le> e \<and> today - 30 \<le> s \<and> e \<le> today + 30"
    using range_days_contains [of today anchor c] assms(3) by simp
  obtain s1 e1 where after: "range_days (e + 1) anchor c = (s1, e1)"
    by (cases "range_days (e + 1) anchor c") auto
  obtain s0 e0 where before: "range_days (s - 1) anchor c = (s0, e0)"
    by (cases "range_days (s - 1) anchor c") auto
  have bounds: "s1 \<le> e + 1" "e + 1 \<le> e1" "s0 \<le> s - 1" "s - 1 \<le> e0"
    using range_days_contains [of "e + 1" anchor c] range_days_contains [of "s - 1" anchor c] after before
    by simp_all
  have own: "range_days s anchor c = (s, e)" "range_days e anchor c = (s, e)"
    using range_days_same [OF assms(1), of today c] assms(2,3) near by simp_all
  have "\<bar>e + 1 - a\<bar> < 106720" "\<bar>s - 1 - a\<bar> < 106720" using near assms(2) by auto
  then have same: "s1 \<le> j \<Longrightarrow> j \<le> e1 \<Longrightarrow> range_days j anchor c = (s1, e1)"
    "s0 \<le> j \<Longrightarrow> j \<le> e0 \<Longrightarrow> range_days j anchor c = (s0, e0)" for j
    using range_days_same [OF assms(1), of "e + 1" c j] range_days_same [OF assms(1), of "s - 1" c j]
      after before by simp_all
  have "s1 = e + 1"
  proof (rule ccontr)
    assume "s1 \<noteq> e + 1"
    then have "range_days e anchor c = (s1, e1)" using bounds by (intro same(1)) simp_all
    then show False using own(2) bounds by simp
  qed
  then show "fst (range_days (e + 1) anchor c) = e + 1" using after by simp
  have "e0 = s - 1"
  proof (rule ccontr)
    assume "e0 \<noteq> s - 1"
    then have "range_days s anchor c = (s0, e0)" using bounds by (intro same(2)) simp_all
    then show False using own(1) bounds by simp
  qed
  then show "snd (range_days (s - 1) anchor c) = s - 1" using before by simp
qed


section \<open>The current period\<close>

lemma ensure_segment:
  assumes "p \<in> set (tbl_rows (db_periods d))"
  shows "\<exists>d'. ensurePeriodTzSegment (pd_id p) start iana d = (Inr (), d') \<and> db_periods d' = db_periods d \<and>
     db_settings d' = db_settings d \<and> ListTzSegments (pd_id p) d' \<noteq> []"
proof (cases "ListTzSegments (pd_id p) d = []")
  case False
  then show ?thesis by (simp add: ensurePeriodTzSegment_def)
next
  case True
  then have none: "filter (\<lambda>s. sg_period s = pd_id p) (tbl_rows (db_segments d)) = []"
    by (simp add: ListTzSegments_def q_ListTzSegments_def select_rows_def) (metis length_0_conv length_sort)
  then have fresh: "sg_period s \<noteq> pd_id p" if "s \<in> set (tbl_rows (db_segments d))" for s
    using that by (auto simp: filter_empty_conv)
  let ?new = "\<lparr>sg_id = tbl_seq (db_segments d) + 1, sg_period = pd_id p, sg_from = start, sg_tz = iana\<rparr>"
  let ?d' = "d\<lparr>db_segments := \<lparr>tbl_rows = tbl_rows (db_segments d) @ [?new], tbl_seq = tbl_seq (db_segments d) + 1\<rparr>\<rparr>"
  have "q_UpsertTzSegment (pd_id p) start iana d = (Inr ?new, ?d')"
    using assms fresh
    by (auto simp: q_UpsertTzSegment_def upsert_into_def insert_into_def list_ex_iff Let_def sg_ok_def
        has_id_def alone_def list_all_iff)
  then show ?thesis
    using True none
    by (auto simp: ensurePeriodTzSegment_def act_seq_def act_bind_def mapErr_def ListTzSegments_def
        q_ListTzSegments_def select_rows_def)
qed

lemma list_periods_set [simp]: "set (ListPeriods d) = set (tbl_rows (db_periods d))"
  by (simp add: ListPeriods_def q_ListPeriods_def sort_desc_def)

lemma list_periods_cong: "db_periods d' = db_periods d \<Longrightarrow> ListPeriods d' = ListPeriods d"
  by (simp add: ListPeriods_def q_ListPeriods_def)

lemma ensure_found:
  assumes "parse_date today \<noteq> None" "find (\<lambda>p. periodContains p today) (ListPeriods d) = Some p"
    and "ListTzSegments (pd_id p) d \<noteq> []"
  shows "EnsureCurrentPeriod today iana d = (Inr p, d)"
proof -
  have "today \<noteq> ''''" using assms(1) by (auto simp: parse_date_def)
  then show ?thesis
    using assms
    by (auto simp: EnsureCurrentPeriod_def Let_def parseDate_def act_seq_def ensurePeriodTzSegment_def act_bind_assoc)
qed

lemma ensure_period:
  assumes today: "parse_date today = Some n" and near: "- 719498 \<le> n" "n \<le> 2932866"
    and cadence: "periodCadence (ListPeriods d) d \<in> {''weekly'', ''bi-weekly'', ''semi-monthly'', ''monthly''}"
  shows "\<exists>p d'. EnsureCurrentPeriod today iana d = (Inr p, d') \<and> periodContains p today \<and>
     p \<in> set (tbl_rows (db_periods d')) \<and> ListTzSegments (pd_id p) d' \<noteq> [] \<and>
     EnsureCurrentPeriod today iana' d' = (Inr p, d')"
proof -
  have nonempty: "today \<noteq> ''''" using today by (auto simp: parse_date_def)
  let ?iana = "if iana = '''' then ''UTC'' else iana"
  let ?c = "periodCadence (ListPeriods d) d" and ?anchor = "periodAnchor (ListPeriods d) today"
  show ?thesis
  proof (cases "find (\<lambda>p. periodContains p today) (ListPeriods d)")
    case (Some p)
    then have p: "p \<in> set (tbl_rows (db_periods d))" "periodContains p today"
      by (auto simp: find_Some_iff simp flip: list_periods_set)
    obtain d' where d': "ensurePeriodTzSegment (pd_id p) (pd_start p) ?iana d = (Inr (), d')"
      "db_periods d' = db_periods d" "ListTzSegments (pd_id p) d' \<noteq> []"
      using ensure_segment [OF p(1)] by blast
    have "EnsureCurrentPeriod today iana d = (Inr p, d')"
      using nonempty today Some d'(1)
      by (simp add: EnsureCurrentPeriod_def Let_def parseDate_def act_seq_def act_bind_def)
    moreover have "EnsureCurrentPeriod today iana' d' = (Inr p, d')"
      using today Some d' list_periods_cong [OF d'(2)] by (intro ensure_found) simp_all
    ultimately show ?thesis using p d' by auto
  next
    case None
    obtain s e where range: "currentPeriodRange n ?anchor ?c = (s, e)"
      by (cases "currentPeriodRange n ?anchor ?c") auto
    have contains: "s \<le> today \<and> today \<le> e"
    proof -
      note r = range_days_contains [of n ?anchor ?c]
      have "printable_day n" "printable_day (fst (range_days n ?anchor ?c))" "printable_day (snd (range_days n ?anchor ?c))"
        using r near by (auto simp: printable_day_def)
      then show ?thesis
        using r range format_parse_date(1) [OF today] by (auto simp: current_range)
    qed
    have unknown: "q_GetPeriodByRange s e d = None"
    proof (rule ccontr)
      assume "q_GetPeriodByRange s e d \<noteq> None"
      then obtain q where "q \<in> set (ListPeriods d)" "pd_start q = s" "pd_end q = e"
        by (auto simp: q_GetPeriodByRange_def find_row_def dest: find_SomeD)
      with None contains show False by (auto simp: find_None_iff periodContains_def)
    qed
    let ?p = "\<lparr>pd_id = tbl_seq (db_periods d) + 1, pd_start = s, pd_end = e, pd_cadence = ?c,
               pd_anchor = ?anchor, pd_synced = None\<rparr>"
    let ?d1 = "d\<lparr>db_periods := \<lparr>tbl_rows = tbl_rows (db_periods d) @ [?p], tbl_seq = tbl_seq (db_periods d) + 1\<rparr>\<rparr>"
    have "pd_ok d ?p"
      using cadence unknown
      by (auto simp: pd_ok_def alone_def list_all_iff q_GetPeriodByRange_def find_row_def find_None_iff)
    then have create: "q_CreatePeriod s e ?c ?anchor d = (Inr ?p, ?d1)"
      by (simp add: q_CreatePeriod_def insert_into_def Let_def)
    obtain d' where d': "ensurePeriodTzSegment (pd_id ?p) (pd_start ?p) ?iana ?d1 = (Inr (), d')"
      "db_periods d' = db_periods ?d1" "ListTzSegments (pd_id ?p) d' \<noteq> []"
      using ensure_segment [of ?p ?d1] by auto
    have run: "EnsureCurrentPeriod today iana d = (Inr ?p, d')"
      using nonempty today None range unknown create d'(1)
      by (simp add: EnsureCurrentPeriod_def Let_def parseDate_def act_seq_def act_bind_def mapErr_def)
    have in_p: "?p \<in> set (tbl_rows (db_periods d'))" using d'(2) by simp
    have contains_p: "periodContains ?p today" using contains by (simp add: periodContains_def)
    have "find (\<lambda>p. periodContains p today) (ListPeriods d') = Some ?p"
    proof (rule find_single)
      show "?p \<in> set (ListPeriods d')" using in_p by simp
      show "y = ?p" if "y \<in> set (ListPeriods d')" "periodContains y today" for y
        using that None d'(2) by (auto simp: find_None_iff)
    qed (rule contains_p)
    then have "EnsureCurrentPeriod today iana' d' = (Inr ?p, d')"
      using today d'(3) by (intro ensure_found) simp_all
    with run in_p contains_p d'(3) show ?thesis by blast
  qed
qed

end
