(* ===== verification/Gaps.thy ===== *)
theory Gaps
  imports Schedule_Laws Periods
begin

text \<open>
  The day timelines of internal/service/gaps.go: the working windows of a date in UTC, what
  occupies them, and what is left uncovered. Hours are kept as durations in nanoseconds, before
  the division that makes them a float.
\<close>


section \<open>Stored times\<close>

text \<open>\<open>parseTime\<close> and \<open>parseTimePtr\<close> of types.go.\<close>

definition parseTime :: "string \<Rightarrow> instant" where
  "parseTime s = (case parse_rfc3339 s of None \<Rightarrow> zero_time | Some t \<Rightarrow> t)"

definition parseTimePtr :: "string option \<Rightarrow> instant option" where
  "parseTimePtr s = (case s of None \<Rightarrow> None | Some t \<Rightarrow> if t = '''' then None else parse_rfc3339 t)"


section \<open>Time zones of a period\<close>

fun active_after :: "tz_segment \<Rightarrow> tz_segment list \<Rightarrow> string \<Rightarrow> tz_segment" where
  "active_after act [] date = act"
| "active_after act (s # segs) date = (if sg_from s \<le> date then active_after s segs date else act)"

text \<open>\<open>activeSegment\<close>; the callers check that there is a segment.\<close>

definition activeSegment :: "tz_segment list \<Rightarrow> string \<Rightarrow> tz_segment" where
  "activeSegment segs date = active_after (hd segs) segs date"

text \<open>\<open>loadLoc\<close>; its cache cannot be observed.\<close>

definition loadLoc :: "tzdb \<Rightarrow> string \<Rightarrow> go_error + location" where
  "loadLoc tz iana = res_the ErrOther (tz iana)"


section \<open>Working windows\<close>

definition workingWindowsUTC :: "tzdb \<Rightarrow> expected_time \<Rightarrow> go_error + interval list" where
  "workingWindowsUTC tz et =
     (if et_minutes et \<le> 0 then Inr []
      else let windows = (if et_windows et = []
                          then [\<lparr>wn_start = 9 * 60, wn_end = 9 * 60 + et_minutes et\<rparr>]
                          else et_windows et)
      in if et_timezone et = '''' then Inl ErrOther
         else res_bind (loadLoc tz (et_timezone et)) (\<lambda>loc.
              res_bind (res_the ErrOther (parse_date (et_date et))) (\<lambda>date.
                let day = local_day loc (date_in loc date 0)
                in Inr (union_ivs (map (\<lambda>w. mk_iv (date_in loc day (wn_start w)) (date_in loc day (wn_end w)))
                     (filter (\<lambda>w. wn_start w < wn_end w) windows))))))"


section \<open>ComputeGaps\<close>

record day_timeline =
  dt_date :: string
  dt_tz :: string
  dt_window_start :: instant
  dt_window_end :: instant
  dt_events :: "interval list"
  dt_filled :: "interval list"
  dt_gaps :: "interval list"
  dt_covered :: int
  dt_gap :: int

definition event_span :: "event \<Rightarrow> interval option" where
  "event_span e =
     (if ev_all_day e \<or> ev_status e = ''declined'' then None
      else case (parseTimePtr (ev_start_utc e), parseTimePtr (ev_end_utc e)) of
        (Some s, Some t) \<Rightarrow> Some (mk_iv s t)
      | _ \<Rightarrow> None)"

definition entry_span :: "time_entry \<Rightarrow> interval" where
  "entry_span r = mk_iv (parseTime (te_start r)) (parseTime (te_end r))"

definition day_timeline_of ::
    "string \<Rightarrow> string \<Rightarrow> interval list \<Rightarrow> interval list \<Rightarrow> interval list \<Rightarrow> day_timeline" where
  "day_timeline_of date zone working eventSpans fillSpans =
     (if working = [] then
        \<lparr>dt_date = date, dt_tz = zone, dt_window_start = zero_time, dt_window_end = zero_time,
         dt_events = [], dt_filled = [], dt_gaps = [], dt_covered = 0, dt_gap = 0\<rparr>
      else let dayEvents = concat (map (clipAll eventSpans) working);
               dayFills = concat (map (clipAll fillSpans) working);
               occupied = union_ivs (dayEvents @ dayFills);
               gaps = concat (map (\<lambda>win. subtract_ivs win occupied) working)
           in \<lparr>dt_date = date, dt_tz = zone, dt_window_start = iv_start (hd working),
               dt_window_end = iv_end (last working), dt_events = dayEvents, dt_filled = dayFills,
               dt_gaps = gaps, dt_covered = total_duration occupied, dt_gap = total_duration gaps\<rparr>)"

definition ComputeGaps :: "tzdb \<Rightarrow> int \<Rightarrow> db \<Rightarrow> go_error + day_timeline list" where
  "ComputeGaps tz p d =
     res_bind (res_the ErrNotFound (q_GetPeriod p d)) (\<lambda>period.
       let segs = ListTzSegments p d;
           events = q_ListEventsForPeriod p d;
           fills = q_ListTimeEntriesForPeriod p d
       in if segs = [] then Inl ErrOther
          else res_bind (ExpectedTimeForRange (pd_start period) (pd_end period) d) (\<lambda>expected.
            let eventSpans = List.map_filter event_span events;
                fillSpans = map entry_span fills
            in res_each (\<lambda>et.
                 res_bind (workingWindowsUTC tz et) (\<lambda>working.
                   Inr (day_timeline_of (et_date et) (sg_tz (activeSegment segs (et_date et)))
                     working eventSpans fillSpans))) expected))"


section \<open>The timeline of a day is a partition of its working time\<close>

lemma concat_clip_nonempty: "list_all nonempty (concat (map (clipAll ivs) working))"
  using clipAll_nonempty by (simp add: list_all_iff)

lemma cover_concat_clip: "cover (concat (map (clipAll ivs) working)) = cover ivs \<inter> cover working"
  by (induction working) (auto simp: cover_clipAll)

lemma cover_concat_subtract:
  "separated occ \<Longrightarrow> list_all nonempty occ \<Longrightarrow>
     cover (concat (map (\<lambda>win. subtract_ivs win occ) working)) = cover working - cover occ"
  by (induction working) (auto simp: cover_subtract_ivs)

lemma timeline_partition:
  fixes working es fs :: "interval list" and date zone :: string
  defines "t \<equiv> day_timeline_of date zone working es fs"
  shows "cover (dt_gaps t) = cover working - (cover es \<union> cover fs)"
    and "cover (dt_events t) = cover es \<inter> cover working"
    and "cover (dt_filled t) = cover fs \<inter> cover working"
proof -
  let ?E = "concat (map (clipAll es) working)" and ?F = "concat (map (clipAll fs) working)"
  have ne: "list_all nonempty (?E @ ?F)" using concat_clip_nonempty by simp
  have "cover (concat (map (\<lambda>win. subtract_ivs win (union_ivs (?E @ ?F))) working)) =
      cover working - (cover es \<union> cover fs)"
    by (auto simp: cover_concat_subtract separated_union_ivs union_ivs_nonempty [OF ne] cover_union_ivs
        cover_concat_clip)
  then show "cover (dt_gaps t) = cover working - (cover es \<union> cover fs)"
    by (cases "working = []") (simp_all add: t_def day_timeline_of_def Let_def)
  show "cover (dt_events t) = cover es \<inter> cover working" "cover (dt_filled t) = cover fs \<inter> cover working"
    by (cases "working = []", simp_all add: t_def day_timeline_of_def Let_def cover_concat_clip)+
qed

lemma subtract_ivs_within:
  "iv \<in> set (subtract_ivs win occ) \<Longrightarrow> nonempty iv \<and> iv_start win \<le> iv_start iv \<and> iv_end iv \<le> iv_end win"
  by (auto simp: subtract_ivs_def dest: subtract_from_within [OF order_refl])

lemma gaps_in_order:
  assumes "in_order working" "list_all nonempty occ"
  shows "in_order (concat (map (\<lambda>win. subtract_ivs win occ) working))"
  using assms(1)
proof (induction working)
  case Nil
  then show ?case by (simp add: in_order_def)
next
  case (Cons w working)
  have "in_order (subtract_ivs w occ)"
    using assms(2) unfolding subtract_ivs_def
    by (intro subtract_from_in_order) (auto simp: list_all_iff nonempty_def dest: less_imp_le)
  moreover have "iv_end x \<le> iv_start y"
    if x: "x \<in> set (subtract_ivs w occ)" and y: "y \<in> set (concat (map (\<lambda>win. subtract_ivs win occ) working))" for x y
  proof -
    obtain v where v: "v \<in> set working" "y \<in> set (subtract_ivs v occ)" using y by auto
    then have "iv_end w \<le> iv_start v" using Cons.prems by (simp add: in_order_def)
    then show ?thesis using subtract_ivs_within [OF x] subtract_ivs_within [OF v(2)] by simp
  qed
  moreover have "in_order (concat (map (\<lambda>win. subtract_ivs win occ) working))"
    using Cons by (simp add: in_order_def)
  ultimately show ?case by (simp add: in_order_append)
qed

lemma short_within: "short w \<Longrightarrow> iv_start w \<le> iv_start x \<Longrightarrow> iv_end x \<le> iv_end w \<Longrightarrow> short x"
  by (simp add: short_def)

text \<open>The covered and the uncovered duration add up to the duration of the windows.\<close>

lemma timeline_durations:
  assumes order: "separated working" "list_all nonempty working"
    and total: "\<forall>x \<in> set working. \<forall>y \<in> set working. iv_end y - iv_start x < 2 ^ 63"
  shows "dt_covered (day_timeline_of date zone working es fs) + dt_gap (day_timeline_of date zone working es fs) =
    total_duration working"
proof (cases "working = []")
  case False
  let ?E = "concat (map (clipAll es) working)" and ?F = "concat (map (clipAll fs) working)"
  let ?occ = "union_ivs (?E @ ?F)"
  let ?gaps = "concat (map (\<lambda>win. subtract_ivs win ?occ) working)"
  have ne: "list_all nonempty (?E @ ?F)" using concat_clip_nonempty by simp
  have occ: "separated ?occ" "list_all nonempty ?occ" "cover ?occ = (cover es \<union> cover fs) \<inter> cover working"
    using separated_union_ivs union_ivs_nonempty [OF ne] by (auto simp: cover_union_ivs cover_concat_clip)
  have gaps: "cover ?gaps = cover working - cover ?occ"
    using occ by (simp add: cover_concat_subtract)
  have w: "in_order working" by (rule separated_in_order [OF order(1)])
  have short_if: "list_all short ivs" if sub: "cover ivs \<subseteq> cover working" and n: "list_all nonempty ivs" for ivs
    unfolding list_all_iff
  proof
    fix iv assume iv: "iv \<in> set ivs"
    have lt: "iv_start iv < iv_end iv" using iv n by (simp add: list_all_iff nonempty_def)
    then have "iv_start iv \<in> cover ivs" "iv_end iv - 1 \<in> cover ivs"
      using iv by (auto simp: cover_def covered_def)
    then have "iv_start iv \<in> cover working" "iv_end iv - 1 \<in> cover working" using sub by auto
    then obtain x y where "x \<in> set working" "iv_start x \<le> iv_start iv" "y \<in> set working" "iv_end iv \<le> iv_end y"
      by (auto simp: cover_def covered_def)
    then show "short iv" using total lt unfolding short_def by (smt (verit))
  qed
  have "total_duration ?occ = int (card (cover ?occ))"
    using occ by (intro total_duration_card separated_in_order short_if) auto
  moreover have "total_duration ?gaps = int (card (cover ?gaps))"
    using gaps_in_order [OF w occ(2)] gaps subtract_ivs_nonempty
    by (intro total_duration_card short_if) (auto simp: list_all_iff)
  moreover have "total_duration working = int (card (cover working))"
    using w order(2) by (intro total_duration_card short_if) auto
  moreover have "card (cover working) = card (cover ?occ) + card (cover ?gaps)"
  proof -
    have "cover working = cover ?occ \<union> cover ?gaps" "cover ?occ \<inter> cover ?gaps = {}"
      using gaps occ(3) by auto
    then show ?thesis by (metis card_Un_disjoint finite_cover)
  qed
  ultimately show ?thesis using False by (simp add: day_timeline_of_def Let_def)
qed (simp add: day_timeline_of_def)

text \<open>What \<open>ComputeGaps\<close> returns: one timeline for each date of the period.\<close>

lemma compute_gaps_Inr:
  assumes "ComputeGaps tz p d = Inr ts"
  obtains period expected where "q_GetPeriod p d = Some period" "ListTzSegments p d \<noteq> []"
    "ExpectedTimeForRange (pd_start period) (pd_end period) d = Inr expected"
    "list_all2 (\<lambda>et t. \<exists>working. workingWindowsUTC tz et = Inr working \<and>
       t = day_timeline_of (et_date et) (sg_tz (activeSegment (ListTzSegments p d) (et_date et))) working
         (List.map_filter event_span (q_ListEventsForPeriod p d))
         (map entry_span (q_ListTimeEntriesForPeriod p d))) expected ts"
  using assms by (auto simp: ComputeGaps_def Let_def res_each_Inr split: if_splits
      intro: that elim!: list_all2_mono)

lemma working_windows_separated: "workingWindowsUTC tz et = Inr working \<Longrightarrow> separated working"
  by (auto simp: workingWindowsUTC_def Let_def separated_union_ivs separated_Nil split: if_splits)


section \<open>Active segments\<close>

lemma active_after_in: "active_after a segs date \<in> set (a # segs)"
  by (induction a segs date rule: active_after.induct) auto

text \<open>The latest segment that starts by the date; the first one for an earlier date.\<close>

lemma active_segment_latest:
  assumes "sorted (map sg_from segs)" "s \<in> set segs" "sg_from s \<le> date"
  shows "sg_from (activeSegment segs date) \<le> date \<and> sg_from s \<le> sg_from (activeSegment segs date)"
proof -
  have "sg_from (active_after a segs date) \<le> date \<and> (\<forall>s \<in> set segs. sg_from s \<le> date \<longrightarrow> sg_from s \<le> sg_from (active_after a segs date))"
    if "sorted (map sg_from segs)" "sg_from a \<le> date" for a
    using that
  proof (induction a segs date rule: active_after.induct)
    case (2 a s segs date)
    then show ?case
      by (cases "sg_from s \<le> date")
        (use active_after_in [of s segs date] in \<open>auto dest: order_trans\<close>)
  qed simp
  moreover obtain x xs where "segs = x # xs" using assms(2) by (cases segs) auto
  ultimately show ?thesis
    using assms by (auto simp: activeSegment_def)
qed

lemma workingWindowsUTC_total:
  assumes "0 < et_minutes et \<longrightarrow> et_timezone et \<noteq> '''' \<and> tz (et_timezone et) \<noteq> None"
    and "parse_date (et_date et) \<noteq> None"
  shows "\<exists>working. workingWindowsUTC tz et = Inr working"
  using assms by (auto simp: workingWindowsUTC_def loadLoc_def Let_def)

lemma compute_gaps_total:
  assumes "q_GetPeriod p d = Some period" "ListTzSegments p d \<noteq> []"
    and ab: "parse_date (pd_start period) = Some a" "parse_date (pd_end period) = Some b" "a \<le> b"
    and zones: "\<And>day et. \<lbrakk>a \<le> day; day \<le> b; ExpectedTimeForDate (format_date day) d = Inr et; 0 < et_minutes et\<rbrakk>
       \<Longrightarrow> et_timezone et \<noteq> '''' \<and> tz (et_timezone et) \<noteq> None"
  shows "\<exists>ts. ComputeGaps tz p d = Inr ts \<and> length ts = length [a..b]"
proof -
  have "parse_date (trim_space (pd_start period)) = Some a" "parse_date (trim_space (pd_end period)) = Some b"
    using ab by simp_all
  from expected_range [OF this ab(3)] obtain xs where xs: "ExpectedTimeForRange (pd_start period) (pd_end period) d = Inr xs"
    "map et_date xs = map format_date [a..b]"
    "list_all2 (\<lambda>day x. ExpectedTimeForDate (format_date day) d = Inr x) [a..b] xs"
    by blast
  have "\<exists>working. workingWindowsUTC tz et = Inr working" if et: "et \<in> set xs" for et
  proof (rule workingWindowsUTC_total)
    obtain i where i: "i < length xs" "xs ! i = et" using et by (auto simp: in_set_conv_nth)
    then have "[a..b] ! i \<in> set [a..b]" and at: "ExpectedTimeForDate (format_date ([a..b] ! i)) d = Inr et"
      using xs(3) list_all2_lengthD [OF xs(3)] nth_mem [of i "[a..b]"]
      by (auto simp: list_all2_conv_all_nth simp del: set_upto)
    then have day: "a \<le> [a..b] ! i" "[a..b] ! i \<le> b" by simp_all
    show "0 < et_minutes et \<longrightarrow> et_timezone et \<noteq> '''' \<and> tz (et_timezone et) \<noteq> None"
      using zones [OF day at] by blast
    have "printable_day ([a..b] ! i)"
      using day format_parse_date(2) [OF ab(1)] format_parse_date(2) [OF ab(2)] by (simp add: printable_day_def)
    moreover have "et_date et = format_date ([a..b] ! i)"
      using i list_all2_lengthD [OF xs(3)] arg_cong [OF xs(2), of "\<lambda>ds. ds ! i"] by simp
    ultimately show "parse_date (et_date et) \<noteq> None" by simp
  qed
  then obtain w where "\<And>et. et \<in> set xs \<Longrightarrow> workingWindowsUTC tz et = Inr (w et)" by metis
  then have "ComputeGaps tz p d = Inr (map (\<lambda>et. day_timeline_of (et_date et) (sg_tz (activeSegment (ListTzSegments p d) (et_date et)))
      (w et) (List.map_filter event_span (q_ListEventsForPeriod p d)) (map entry_span (q_ListTimeEntriesForPeriod p d))) xs)"
    using assms(1,2) xs(1) by (simp add: ComputeGaps_def Let_def res_each_total)
  then show ?thesis using list_all2_lengthD [OF xs(3)] by simp
qed

end
