(* ===== verification/Ledger.thy ===== *)
theory Ledger
  imports Gaps
begin

text \<open>
  The time ledger: internal/service/time_entry.go (entries the user writes) and
  internal/service/time_entry_confirm.go (confirming, rejecting, adjusting and splitting drafts).
  An entry is a row of the table time_entry; its instants are RFC 3339 texts in UTC.
\<close>


section \<open>Inputs\<close>

record entry_input =
  ti_period :: int
  ti_day :: string
  ti_start :: int
  ti_end :: int
  ti_category :: "int option"
  ti_description :: string
  ti_work_type :: string
  ti_project :: "int option"
  ti_billable :: string

text \<open>\<open>ConfirmTimeEntryInput\<close>.\<close>

record confirm_input =
  cf_id :: int
  cf_period :: int
  cf_overnight :: string
  cf_overlap :: string

abbreviation OvernightAttributeToStart :: string where "OvernightAttributeToStart \<equiv> ''attribute_to_start''"
abbreviation OvernightSplitAtMidnight :: string where "OvernightSplitAtMidnight \<equiv> ''split_at_midnight''"
abbreviation OverlapAllowParallel :: string where "OverlapAllowParallel \<equiv> ''allow_parallel''"
abbreviation OverlapKeepTheirs :: string where "OverlapKeepTheirs \<equiv> ''keep_theirs''"
abbreviation OverlapKeepMine :: string where "OverlapKeepMine \<equiv> ''keep_mine''"
abbreviation OverlapSplit :: string where "OverlapSplit \<equiv> ''split''"


section \<open>time_entry.go\<close>

definition timeEntrySpan :: "tzdb \<Rightarrow> entry_input \<Rightarrow> db \<Rightarrow> go_error + instant \<times> instant" where
  "timeEntrySpan tz input d =
     (if ti_period input \<le> 0 then Inl ErrInvalidInput
      else if ti_start input < 0 \<or> 24 * 60 \<le> ti_start input then Inl ErrInvalidInput
      else if ti_end input \<le> ti_start input \<or> 24 * 60 < ti_end input then Inl ErrInvalidInput
      else res_bind (res_the ErrNotFound (q_GetPeriod (ti_period input) d)) (\<lambda>period.
           res_bind (res_the ErrInvalidInput (parse_date (ti_day input))) (\<lambda>day.
           res_bind (parseDate (pd_start period)) (\<lambda>startDay.
           res_bind (parseDate (pd_end period)) (\<lambda>endDay.
             if day < startDay \<or> endDay < day then Inl ErrInvalidInput
             else let segs = ListTzSegments (ti_period input) d in
               if segs = [] then Inl ErrFailedPrecondition
               else res_bind (loadLoc tz (sg_tz (activeSegment segs (ti_day input)))) (\<lambda>loc.
                 Inr (date_in loc day (ti_start input), date_in loc day (ti_end input))))))))"

definition durationMinutes :: "instant \<Rightarrow> instant \<Rightarrow> int" where
  "durationMinutes s e = go_div (time_sub e s) minute"

definition normalizeTimeEntryAllocation :: "string \<Rightarrow> string \<Rightarrow> go_error + string \<times> string" where
  "normalizeTimeEntryAllocation workType billable =
     (let wt = trim_space workType; wt = (if wt = '''' then ''worked'' else wt);
          bs = trim_space billable; bs = (if bs = '''' then ''unset'' else bs)
      in if wt \<notin> set work_types then Inl ErrInvalidInput
         else if bs \<notin> set billable_statuses then Inl ErrInvalidInput
         else Inr (wt, bs))"

text \<open>The columns a create and an update take from the input.\<close>

definition input_row :: "entry_input \<Rightarrow> instant \<Rightarrow> instant \<Rightarrow> string \<Rightarrow> string \<Rightarrow> time_entry" where
  "input_row input s e wt bs =
     \<lparr>te_id = 0, te_period = ti_period input, te_start = format_rfc3339 s, te_end = format_rfc3339 e,
      te_duration = durationMinutes s e, te_day = ti_day input, te_category = ti_category input,
      te_description = trim_space (ti_description input), te_attestation = ''confirmed'',
      te_source_kind = None, te_source_id = None, te_source_revision = None, te_method = None,
      te_work_type = wt, te_project = ti_project input, te_billable = bs\<rparr>"

definition createTimeEntry :: "tzdb \<Rightarrow> entry_input \<Rightarrow> bool \<Rightarrow> (db, time_entry) act" where
  "createTimeEntry tz input gapOrigin =
     act_bind (act_reads (timeEntrySpan tz input)) (\<lambda>(s, e).
     act_bind (act_lift (normalizeTimeEntryAllocation (ti_work_type input) (ti_billable input))) (\<lambda>(wt, bs).
       let params = input_row input s e wt bs;
           params = (if gapOrigin then params\<lparr>te_method := Some ''gap_fill''\<rparr> else params)
       in mapErr (q_CreateTimeEntry params)))"

definition CreateTimeEntry :: "tzdb \<Rightarrow> entry_input \<Rightarrow> (db, time_entry) act" where
  "CreateTimeEntry tz input = createTimeEntry tz input False"

definition CreateGapTimeEntry :: "tzdb \<Rightarrow> entry_input \<Rightarrow> (db, time_entry) act" where
  "CreateGapTimeEntry tz input = createTimeEntry tz input True"

definition UpdateTimeEntry :: "tzdb \<Rightarrow> int \<Rightarrow> entry_input \<Rightarrow> (db, time_entry) act" where
  "UpdateTimeEntry tz i input =
     (if i \<le> 0 then act_throw ErrOther
      else act_bind (act_reads (timeEntrySpan tz input)) (\<lambda>(s, e).
           act_bind (act_lift (normalizeTimeEntryAllocation (ti_work_type input) (ti_billable input))) (\<lambda>(wt, bs).
             mapErr (q_UpdateTimeEntry ((input_row input s e wt bs)\<lparr>te_id := i\<rparr>)))))"

definition DeleteTimeEntry :: "int \<Rightarrow> int \<Rightarrow> (db, unit) act" where
  "DeleteTimeEntry i p =
     (if i \<le> 0 then act_throw ErrOther
      else if p \<le> 0 then act_throw ErrOther
      else act_bind (mapErr (q_DeleteTimeEntry i p)) (\<lambda>rows.
        if rows = 0 then act_throw ErrNotFound else act_ret ()))"


section \<open>time_entry_confirm.go\<close>

definition overlappingConfirmed :: "int \<Rightarrow> int \<Rightarrow> instant \<Rightarrow> instant \<Rightarrow> db \<Rightarrow> time_entry list" where
  "overlappingConfirmed p excl s e d =
     filter (\<lambda>r. te_id r \<noteq> excl \<and> te_attestation r = ''confirmed'' \<and>
       (case (parse_rfc3339 (te_start r), parse_rfc3339 (te_end r)) of
          (Some os, Some oe) \<Rightarrow> os < e \<and> s < oe
        | _ \<Rightarrow> False)) (q_ListTimeEntriesForPeriod p d)"

definition timeEntryLocalSpan :: "tzdb \<Rightarrow> time_entry \<Rightarrow> db \<Rightarrow> go_error + instant \<times> instant \<times> location" where
  "timeEntryLocalSpan tz row d =
     res_bind (res_the ErrFailedPrecondition (parse_rfc3339 (te_start row))) (\<lambda>s.
     res_bind (res_the ErrFailedPrecondition (parse_rfc3339 (te_end row))) (\<lambda>e.
       let segs = ListTzSegments (te_period row) d in
       if segs = [] then Inl ErrFailedPrecondition
       else res_bind (loadLoc tz (sg_tz (activeSegment segs (te_day row)))) (\<lambda>loc. Inr (s, e, loc))))"

definition crossesLocalMidnight :: "location \<Rightarrow> instant \<Rightarrow> instant \<Rightarrow> bool" where
  "crossesLocalMidnight loc s e \<longleftrightarrow> local_day loc s \<noteq> local_day loc e"

definition nextMidnight :: "location \<Rightarrow> instant \<Rightarrow> instant" where
  "nextMidnight loc t = date_in loc (local_day loc t + 1) 0"

text \<open>The loop has no bound of its own: \<open>None\<close> is a call that does not return.\<close>

partial_function (option) split_from :: "location \<Rightarrow> instant \<Rightarrow> instant \<Rightarrow> interval list option" where
  "split_from loc cur e =
     (if \<not> cur < e then Some []
      else let segEnd = (if e < nextMidnight loc cur then e else nextMidnight loc cur)
           in Option.bind (split_from loc segEnd e) (\<lambda>rest.
                Some ((if cur < segEnd then [mk_iv cur segEnd] else []) @ rest)))"

definition splitAtLocalMidnights :: "location \<Rightarrow> instant \<Rightarrow> instant \<Rightarrow> interval list option" where
  "splitAtLocalMidnights loc s e = split_from loc s e"

text \<open>A segment of \<open>row\<close> with its own span and attestation.\<close>

definition piece_row :: "time_entry \<Rightarrow> string \<Rightarrow> location \<Rightarrow> interval \<Rightarrow> time_entry" where
  "piece_row row att loc iv = row\<lparr>te_start := format_rfc3339 (iv_start iv), te_end := format_rfc3339 (iv_end iv),
     te_duration := durationMinutes (iv_start iv) (iv_end iv),
     te_day := format_date (local_day loc (iv_start iv)), te_attestation := att\<rparr>"

definition create_pieces :: "time_entry \<Rightarrow> string \<Rightarrow> location \<Rightarrow> interval list \<Rightarrow> (db, time_entry list) act" where
  "create_pieces row att loc ivs = for_each (\<lambda>iv. mapErr (q_CreateTimeEntry (piece_row row att loc iv))) ivs"

definition dismiss :: "time_entry \<Rightarrow> (db, time_entry) act" where
  "dismiss row = mapErr (q_UpdateTimeEntryAttestation ''dismissed'' (te_id row) (te_period row))"

definition confirmInPlace :: "confirm_input \<Rightarrow> (db, time_entry list) act" where
  "confirmInPlace input =
     act_bind (mapErr (q_UpdateTimeEntryAttestation ''confirmed'' (cf_id input) (cf_period input)))
       (\<lambda>r. act_ret [r])"

definition confirmSplitAtMidnight ::
    "time_entry \<Rightarrow> instant \<Rightarrow> instant \<Rightarrow> location \<Rightarrow> (db, time_entry list) act" where
  "confirmSplitAtMidnight row s e loc =
     act_bind (act_the Diverges (splitAtLocalMidnights loc s e)) (\<lambda>segments.
       if length segments < 2 then act_throw ErrFailedPrecondition
       else in_tx (act_bind (create_pieces row ''confirmed'' loc segments) (\<lambda>out.
                   act_seq (dismiss row) (act_ret out))))"

definition cut_overlaps :: "interval list \<Rightarrow> time_entry list \<Rightarrow> go_error + interval list" where
  "cut_overlaps rem others =
     foldl (\<lambda>acc r. res_bind acc (\<lambda>rem.
       res_bind (res_the ErrFailedPrecondition (parse_rfc3339 (te_start r))) (\<lambda>os.
       res_bind (res_the ErrFailedPrecondition (parse_rfc3339 (te_end r))) (\<lambda>oe.
         Inr (subtractInterval rem os oe))))) (Inr rem) others"

definition remainder_pieces :: "location \<Rightarrow> string \<Rightarrow> interval \<Rightarrow> interval list option" where
  "remainder_pieces loc policy rem =
     (if policy = OvernightSplitAtMidnight \<and> crossesLocalMidnight loc (iv_start rem) (iv_end rem)
      then splitAtLocalMidnights loc (iv_start rem) (iv_end rem) else Some [rem])"

definition confirmDraftAroundOverlaps ::
    "time_entry \<Rightarrow> instant \<Rightarrow> instant \<Rightarrow> time_entry list \<Rightarrow> location \<Rightarrow> string \<Rightarrow> (db, time_entry list) act" where
  "confirmDraftAroundOverlaps row s e overlaps loc policy =
     act_bind (act_lift (cut_overlaps [mk_iv s e] overlaps)) (\<lambda>remainders.
       if remainders = [] then act_seq (dismiss row) (act_ret [])
       else if list_ex (\<lambda>rem. crossesLocalMidnight loc (iv_start rem) (iv_end rem) \<and> policy = '''') remainders
       then act_throw ErrInvalidInput
       else in_tx (act_bind
              (for_each (\<lambda>rem. act_bind (act_the Diverges (remainder_pieces loc policy rem))
                           (create_pieces row ''confirmed'' loc)) remainders)
              (\<lambda>out. act_seq (dismiss row) (act_ret (concat out)))))"

definition confirm_resolved :: "confirm_input \<Rightarrow> time_entry \<Rightarrow> instant \<Rightarrow> instant \<Rightarrow> location \<Rightarrow> (db, time_entry list) act" where
  "confirm_resolved input row s e loc =
     (if crossesLocalMidnight loc s e then
        (if cf_overnight input = OvernightAttributeToStart then confirmInPlace input
         else if cf_overnight input = OvernightSplitAtMidnight then confirmSplitAtMidnight row s e loc
         else act_throw ErrInvalidInput)
      else if cf_overnight input \<noteq> '''' then act_throw ErrInvalidInput
      else confirmInPlace input)"

definition ConfirmTimeEntry :: "tzdb \<Rightarrow> confirm_input \<Rightarrow> (db, time_entry list) act" where
  "ConfirmTimeEntry tz input =
     (if cf_id input \<le> 0 then act_throw ErrInvalidInput
      else if cf_period input \<le> 0 then act_throw ErrInvalidInput
      else act_bind (mapErr (get_one (q_GetTimeEntry (cf_id input) (cf_period input)))) (\<lambda>row.
        if te_attestation row \<noteq> ''draft'' then act_throw ErrFailedPrecondition
        else act_bind (act_reads (timeEntryLocalSpan tz row)) (\<lambda>(s, e, loc).
          act_bind (act_gets (overlappingConfirmed (te_period row) (te_id row) s e)) (\<lambda>overlaps.
            if overlaps \<noteq> [] then
              (if cf_overlap input = OverlapAllowParallel then confirm_resolved input row s e loc
               else if cf_overlap input = OverlapKeepTheirs then act_seq (dismiss row) (act_ret [])
               else if cf_overlap input = OverlapKeepMine then
                 act_seq (for_each (\<lambda>r. mapErr (q_DeleteTimeEntry (te_id r) (te_period r))) overlaps)
                   (confirm_resolved input row s e loc)
               else if cf_overlap input = OverlapSplit then
                 confirmDraftAroundOverlaps row s e overlaps loc (cf_overnight input)
               else if cf_overlap input = '''' then act_throw ErrFailedPrecondition
               else act_throw ErrInvalidInput)
            else if cf_overlap input \<noteq> '''' then act_throw ErrInvalidInput
            else confirm_resolved input row s e loc))))"

definition get_draft :: "int \<Rightarrow> int \<Rightarrow> (db, time_entry) act" where
  "get_draft i p = act_bind (mapErr (get_one (q_GetTimeEntry i p))) (\<lambda>row.
     if te_attestation row \<noteq> ''draft'' then act_throw ErrFailedPrecondition else act_ret row)"

definition RejectTimeEntry :: "int \<Rightarrow> int \<Rightarrow> (db, time_entry) act" where
  "RejectTimeEntry i p =
     (if i \<le> 0 then act_throw ErrInvalidInput
      else if p \<le> 0 then act_throw ErrInvalidInput
      else act_bind (get_draft i p) (\<lambda>_. mapErr (q_UpdateTimeEntryAttestation ''dismissed'' i p)))"

definition AdjustDraftTimeEntry :: "tzdb \<Rightarrow> int \<Rightarrow> entry_input \<Rightarrow> (db, time_entry) act" where
  "AdjustDraftTimeEntry tz i input =
     (if i \<le> 0 then act_throw ErrInvalidInput
      else act_bind (get_draft i (ti_period input)) (\<lambda>_. UpdateTimeEntry tz i input))"

text \<open>The loop over the cut points: each must lie after the one before it and before the end.\<close>

fun parse_cuts :: "instant \<Rightarrow> instant \<Rightarrow> string list \<Rightarrow> go_error + instant list" where
  "parse_cuts prev e [] = Inr []"
| "parse_cuts prev e (raw # raws) =
     res_bind (res_the ErrInvalidInput (parse_rfc3339 raw)) (\<lambda>cut.
       if \<not> prev < cut \<or> \<not> cut < e then Inl ErrInvalidInput
       else res_bind (parse_cuts cut e raws) (\<lambda>cuts. Inr (cut # cuts)))"

fun segments_between :: "instant list \<Rightarrow> interval list" where
  "segments_between (a # b # bs) = mk_iv a b # segments_between (b # bs)"
| "segments_between _ = []"

definition SplitTimeEntry :: "tzdb \<Rightarrow> int \<Rightarrow> int \<Rightarrow> string list \<Rightarrow> (db, time_entry list) act" where
  "SplitTimeEntry tz i p cutPoints =
     (if i \<le> 0 then act_throw ErrInvalidInput
      else if p \<le> 0 then act_throw ErrInvalidInput
      else if cutPoints = [] then act_throw ErrInvalidInput
      else act_bind (get_draft i p) (\<lambda>row.
           act_bind (act_reads (timeEntryLocalSpan tz row)) (\<lambda>(s, e, loc).
           act_bind (act_lift (parse_cuts s e cutPoints)) (\<lambda>cuts.
             in_tx (act_bind (create_pieces row ''draft'' loc (segments_between (s # cuts @ [e]))) (\<lambda>out.
                    act_seq (dismiss row) (act_ret out)))))))"

end
