(* ===== verification/Ledger_Laws.thy ===== *)
theory Ledger_Laws
  imports Ledger
begin

text \<open>
  Correctness of the ledger: what a handler leaves alone (the frame \<open>kept\<close>), which rows it
  writes, and the spans of the rows a draft is split into, which follow one another from the
  start of the draft to its end (\<open>contiguous\<close>).
\<close>


section \<open>Frames\<close>

text \<open>Only the ledger changes, and the rows with ids outside \<open>I\<close> stay as they are.\<close>

definition kept :: "int set \<Rightarrow> db \<Rightarrow> db \<Rightarrow> bool" where
  "kept I d d' \<longleftrightarrow> d' = d\<lparr>db_entries := db_entries d'\<rparr> \<and>
     tbl_seq (db_entries d) \<le> tbl_seq (db_entries d') \<and>
     (\<forall>r \<in> set (tbl_rows (db_entries d)). te_id r \<notin> I \<longrightarrow> r \<in> set (tbl_rows (db_entries d')))"

lemma kept_trans:
  assumes "kept I d d'" "kept I d' d''"
  shows "kept I d d''"
proof -
  have "d'' = d'\<lparr>db_entries := db_entries d''\<rparr>" "d' = d\<lparr>db_entries := db_entries d'\<rparr>"
    using assms by (simp_all add: kept_def)
  then have "d'' = d\<lparr>db_entries := db_entries d''\<rparr>"
    by (metis db.update_convs(1) db.surjective entries.put_put)
  then show ?thesis using assms unfolding kept_def by (meson order_trans)
qed

interpretation kept: frame_relation "kept I" for I
  by unfold_locales (simp add: kept_def, rule kept_trans)

lemma kept_create [frame_intros]: "moves (kept I) (q_CreateTimeEntry r)"
  unfolding q_CreateTimeEntry_def
  by (rule entries.moves_insert) (auto simp: kept_def)

lemma kept_update [frame_intros]: "i \<in> I \<Longrightarrow> moves (kept I) (update_entry i p Q f)"
  unfolding update_entry_def
  by (rule entries.moves_update) (auto simp: kept_def image_iff)

lemma kept_attest [frame_intros]: "i \<in> I \<Longrightarrow> moves (kept I) (q_UpdateTimeEntryAttestation a i p)"
  unfolding q_UpdateTimeEntryAttestation_def by (intro moves_scan_one kept_update)

lemma kept_edit [frame_intros]: "te_id r \<in> I \<Longrightarrow> moves (kept I) (q_UpdateTimeEntry r)"
  unfolding q_UpdateTimeEntry_def by (intro moves_scan_one kept_update)

lemma kept_delete [frame_intros]: "i \<in> I \<Longrightarrow> moves (kept I) (q_DeleteTimeEntry i p)"
  unfolding q_DeleteTimeEntry_def
  by (rule entries.moves_delete) (auto simp: kept_def)

lemma kept_dismiss [frame_intros]: "te_id r \<in> I \<Longrightarrow> moves (kept I) (dismiss r)"
  unfolding dismiss_def by (intro moves_mapErr kept_attest)

lemma kept_pieces [frame_intros]: "moves (kept I) (create_pieces row att loc ivs)"
  unfolding create_pieces_def by (intro kept.frame_rules moves_mapErr kept_create)

lemma got_entry: "q_GetTimeEntry i p d = Some row \<Longrightarrow>
    row \<in> set (tbl_rows (db_entries d)) \<and> te_id row = i \<and> te_period row = p"
  by (auto simp: q_GetTimeEntry_def find_row_def dest: find_SomeD)

lemma kept_in_place: "cf_id input \<in> I \<Longrightarrow> moves (kept I) (confirmInPlace input)"
  unfolding confirmInPlace_def by (intro kept.frame_rules moves_mapErr kept_attest)

lemma kept_split: "te_id row \<in> I \<Longrightarrow> moves (kept I) (confirmSplitAtMidnight row s e loc)"
  unfolding confirmSplitAtMidnight_def by (intro kept.frame_rules kept_pieces kept_dismiss)

lemma kept_around: "te_id row \<in> I \<Longrightarrow> moves (kept I) (confirmDraftAroundOverlaps row s e overlaps loc policy)"
  unfolding confirmDraftAroundOverlaps_def
  by (intro kept.frame_rules kept.moves_bind_lift kept_pieces kept_dismiss)

lemma kept_resolved:
  "te_id row \<in> I \<Longrightarrow> cf_id input \<in> I \<Longrightarrow> moves (kept I) (confirm_resolved input row s e loc)"
  unfolding confirm_resolved_def by (intro kept.frame_rules kept_split kept_in_place)

lemma kept_confirm:
  assumes "cf_overlap input \<noteq> OverlapKeepMine"
  shows "moves (kept {cf_id input}) (ConfirmTimeEntry tz input)"
  unfolding ConfirmTimeEntry_def
  by (intro kept.moves_if kept.moves_throw moves_bind_one kept.frame_relation_axioms kept.moves_bind_reads
      kept.moves_bind_gets kept.moves_prod kept_resolved kept_around kept.moves_seq kept_dismiss kept.moves_ret)
    (use assms in \<open>auto dest: got_entry\<close>)

lemma kept_get_draft: "(\<And>row. te_id row = i \<Longrightarrow> te_period row = p \<Longrightarrow> moves (kept I) (k row)) \<Longrightarrow>
    moves (kept I) (act_bind (get_draft i p) k)"
  unfolding get_draft_def act_bind_assoc
  by (rule moves_bind_one) (auto intro!: kept.frame_relation_axioms kept.moves_throw dest: got_entry)

lemma kept_reject: "moves (kept {i}) (RejectTimeEntry i p)"
  unfolding RejectTimeEntry_def
  by (intro kept.moves_if kept.moves_throw kept_get_draft moves_mapErr kept_attest) simp

lemma kept_user_update: "i \<in> I \<Longrightarrow> moves (kept I) (UpdateTimeEntry tz i input)"
  unfolding UpdateTimeEntry_def
  by (intro kept.frame_rules moves_mapErr kept_edit) simp

lemma kept_adjust: "moves (kept {i}) (AdjustDraftTimeEntry tz i input)"
  unfolding AdjustDraftTimeEntry_def
  by (intro kept.moves_if kept.moves_throw kept_get_draft kept_user_update) simp

lemma kept_user_split: "moves (kept {i}) (SplitTimeEntry tz i p cuts)"
  unfolding SplitTimeEntry_def
  by (intro kept.moves_if kept.moves_throw kept_get_draft kept.moves_bind_reads kept.moves_prod
      kept.moves_bind_lift kept.moves_in_tx kept.moves_bind kept_pieces kept.moves_seq kept_dismiss kept.moves_ret)
    simp

text \<open>A draft's id is no confirmed row's id, so a frame around the draft keeps every confirmed row.\<close>

lemma confirmed_kept:
  assumes "kept {i} d d'" "ids_ok te_id (db_entries d)" "q_GetTimeEntry i p d = Some row"
    and "te_attestation row \<noteq> ''confirmed''" "r \<in> set (tbl_rows (db_entries d))"
    and "te_attestation r = ''confirmed''"
  shows "r \<in> set (tbl_rows (db_entries d'))"
proof -
  have "te_id r \<noteq> i"
    using assms(2-6) got_entry [OF assms(3)] by (auto simp: ids_ok_def distinct_map inj_on_def)
  then show ?thesis using assms(1,5) by (auto simp: kept_def)
qed


section \<open>Spans that follow one another\<close>

fun contiguous :: "instant \<Rightarrow> interval list \<Rightarrow> instant \<Rightarrow> bool" where
  "contiguous s [] e \<longleftrightarrow> s = e"
| "contiguous s (iv # ivs) e \<longleftrightarrow> iv_start iv = s \<and> nonempty iv \<and> contiguous (iv_end iv) ivs e"

lemma contiguous_le: "contiguous s ivs e \<Longrightarrow> s \<le> e"
  by (induction ivs arbitrary: s) (auto simp: nonempty_def dest!: meta_spec intro: order_trans less_imp_le)

lemma contiguous_cover: "contiguous s ivs e \<Longrightarrow> cover ivs = {s..<e}"
proof (induction ivs arbitrary: s)
  case (Cons iv ivs)
  then show ?case
    using contiguous_le [of "iv_end iv" ivs e] by (auto simp: covered_def nonempty_def)
qed simp

lemma contiguous_nonempty: "contiguous s ivs e \<Longrightarrow> list_all nonempty ivs"
  by (induction ivs arbitrary: s) auto

lemma contiguous_starts: "contiguous s ivs e \<Longrightarrow> iv \<in> set ivs \<Longrightarrow> s \<le> iv_start iv \<and> iv_end iv \<le> e"
proof (induction ivs arbitrary: s)
  case (Cons x ivs)
  then show ?case
    using contiguous_le [of "iv_end x" ivs e] by (fastforce simp: nonempty_def)
qed simp

lemma contiguous_in_order: "contiguous s ivs e \<Longrightarrow> in_order ivs"
proof (induction ivs arbitrary: s)
  case (Cons x ivs)
  then show ?case using contiguous_starts by (fastforce simp: in_order_def)
qed (simp add: in_order_def)

text \<open>On whole minutes nothing is lost: the durations of the pieces add up.\<close>

definition minute_aligned :: "instant \<Rightarrow> bool" where
  "minute_aligned t \<longleftrightarrow> t mod minute = 0"

lemma minute_pos [simp]: "0 < minute" "0 \<le> minute" "minute \<noteq> 0"
  by (simp_all add: minute_def second_def)

lemma durationMinutes_exact:
  assumes "s \<le> e" "e - s < 2 ^ 63"
  shows "durationMinutes s e = (e - s) div minute"
  using assms by (simp add: durationMinutes_def time_sub_exact go_div_nonneg)

lemma contiguous_minutes:
  assumes "contiguous s ivs e" "e - s < 2 ^ 63" "minute_aligned s" "\<forall>iv \<in> set ivs. minute_aligned (iv_end iv)"
  shows "(\<Sum>iv \<leftarrow> ivs. durationMinutes (iv_start iv) (iv_end iv)) = durationMinutes s e"
  using assms
proof (induction ivs arbitrary: s)
  case Nil
  then show ?case by (simp add: durationMinutes_exact)
next
  case (Cons iv ivs)
  have iv: "iv_start iv = s" "s < iv_end iv" "contiguous (iv_end iv) ivs e" "iv_end iv \<le> e"
    using Cons.prems(1) contiguous_le [of "iv_end iv" ivs e] by (auto simp: nonempty_def)
  have "(\<Sum>iv \<leftarrow> ivs. durationMinutes (iv_start iv) (iv_end iv)) = durationMinutes (iv_end iv) e"
    using Cons.prems iv by (intro Cons.IH) auto
  moreover have "(iv_end iv - s) mod minute = 0"
    using Cons.prems(3,4) by (simp add: minute_aligned_def mod_diff_eq [symmetric])
  then have "(e - s) div minute = (iv_end iv - s) div minute + (e - iv_end iv) div minute"
    by (metis add.commute diff_add_eq diff_add_cancel div_plus_div_distrib_dvd_left mod_0_imp_dvd
        add_diff_eq)
  ultimately show ?case
    using iv Cons.prems(2) by (simp add: durationMinutes_exact)
qed


section \<open>Splitting at midnight\<close>

text \<open>
  \<open>forward loc s e\<close>: from any instant of the span the next local midnight lies ahead. It holds
  in every zone of a fixed offset; a zone that skips a midnight can break it.
\<close>

definition forward :: "location \<Rightarrow> instant \<Rightarrow> instant \<Rightarrow> bool" where
  "forward loc s e \<longleftrightarrow> (\<forall>t. s \<le> t \<and> t < e \<longrightarrow> t < nextMidnight loc t)"

lemma split_forward:
  "forward loc s e \<Longrightarrow> s \<le> e \<Longrightarrow>
     \<exists>ivs. split_from loc s e = Some ivs \<and> contiguous s ivs e \<and>
       (\<forall>iv \<in> set ivs. iv_end iv = (if e < nextMidnight loc (iv_start iv) then e else nextMidnight loc (iv_start iv)))"
proof (induction "nat (e - s)" arbitrary: s rule: less_induct)
  case less
  show ?case
  proof (cases "s < e")
    case False
    then have "s = e" using less.prems by simp
    then show ?thesis by (subst split_from.simps) simp
  next
    case True
    define m where "m = (if e < nextMidnight loc s then e else nextMidnight loc s)"
    have m: "s < m" "m \<le> e"
      using less.prems True by (auto simp: m_def forward_def)
    have "forward loc m e" using less.prems(1) m by (auto simp: forward_def)
    then obtain ivs where ivs: "split_from loc m e = Some ivs" "contiguous m ivs e"
      "\<forall>iv \<in> set ivs. iv_end iv = (if e < nextMidnight loc (iv_start iv) then e else nextMidnight loc (iv_start iv))"
      using less.hyps [of m] m True by fastforce
    have "split_from loc s e = Some (mk_iv s m # ivs)"
      using True ivs(1) m by (subst split_from.simps) (simp add: m_def [symmetric] Let_def)
    then show ?thesis
      using ivs m by (auto simp: nonempty_def m_def)
  qed
qed

lemma next_midnight_fixed:
  "nextMidnight (fixed_location c) t = ((unix_seconds t + c) div 86400 * 86400 + 86400 - c) * second"
  unfolding nextMidnight_def date_in_fixed local_day_def wall_seconds_def
  by (simp add: fixed_location_def algebra_simps)

lemma unix_seconds_less: "t < (unix_seconds t + 1) * second"
proof -
  have "t = second * (t div second) + t mod second" by simp
  moreover have "t mod second < second" by (rule pos_mod_bound) simp
  moreover have "(unix_seconds t + 1) * second = second * (t div second) + second"
    by (simp add: unix_seconds_def algebra_simps)
  ultimately show ?thesis by linarith
qed

lemma second_nonneg [simp]: "0 \<le> second"
  using second_pos by linarith

lemma forward_fixed: "forward (fixed_location c) s e"
  unfolding forward_def
proof (intro allI impI)
  fix t
  let ?w = "unix_seconds t + c"
  have "?w mod 86400 < 86400" by simp
  moreover have "?w = ?w div 86400 * 86400 + ?w mod 86400" by simp
  ultimately have "unix_seconds t + 1 \<le> ?w div 86400 * 86400 + 86400 - c" by linarith
  then have "(unix_seconds t + 1) * second \<le> nextMidnight (fixed_location c) t"
    unfolding next_midnight_fixed by (intro mult_right_mono) simp_all
  then show "t < nextMidnight (fixed_location c) t"
    using unix_seconds_less [of t] by linarith
qed

lemma before_midnight_fixed:
  assumes "s \<le> t" "t < nextMidnight (fixed_location c) s"
  shows "local_day (fixed_location c) t = local_day (fixed_location c) s"
proof -
  let ?w = "unix_seconds s + c" and ?v = "unix_seconds t + c"
  have "?w \<le> ?v" using assms(1) by (simp add: unix_seconds_def zdiv_mono1)
  have "unix_seconds t < ?w div 86400 * 86400 + 86400 - c"
  proof (rule ccontr)
    assume "\<not> ?thesis"
    then have "(?w div 86400 * 86400 + 86400 - c) * second \<le> unix_seconds t * second"
      by (intro mult_right_mono) simp_all
    also have "\<dots> \<le> t"
    proof -
      have "t = t div second * second + t mod second" by simp
      moreover have "0 \<le> t mod second" by (rule pos_mod_sign) simp
      ultimately show ?thesis unfolding unix_seconds_def by linarith
    qed
    finally show False using assms(2) by (simp add: next_midnight_fixed)
  qed
  then have "?v div 86400 = ?w div 86400"
    using \<open>?w \<le> ?v\<close> zdiv_mono1 [of ?w ?v 86400] by linarith
  then show ?thesis by (simp add: local_day_def wall_seconds_def fixed_location_def)
qed

text \<open>
  In any zone in which, from every instant of the span, the next local midnight lies ahead and the
  local day lasts until it, the loop returns and cuts the span into its local days. A zone whose
  clocks do not change around midnight during the span is such a zone.
\<close>

lemma split_regular:
  assumes "s \<le> e" "forward loc s e"
    and "\<And>t u. s \<le> t \<Longrightarrow> t \<le> u \<Longrightarrow> u < e \<Longrightarrow> u < nextMidnight loc t \<Longrightarrow> local_day loc u = local_day loc t"
  obtains ivs where "splitAtLocalMidnights loc s e = Some ivs" "contiguous s ivs e"
    "\<forall>iv \<in> set ivs. \<forall>t \<in> covered iv. local_day loc t = local_day loc (iv_start iv)"
proof -
  obtain ivs where ivs: "split_from loc s e = Some ivs" "contiguous s ivs e"
    "\<forall>iv \<in> set ivs. iv_end iv = (if e < nextMidnight loc (iv_start iv) then e else nextMidnight loc (iv_start iv))"
    using split_forward [OF assms(2,1)] by blast
  have "local_day loc t = local_day loc (iv_start iv)" if iv: "iv \<in> set ivs" and t: "t \<in> covered iv" for iv t
  proof (rule assms(3))
    have "covered iv \<subseteq> {s..<e}" using contiguous_cover [OF ivs(2)] iv by (auto simp: cover_def)
    then show "s \<le> iv_start iv" "t < e" using t by (auto simp: covered_def)
    show "iv_start iv \<le> t" using t by (simp add: covered_def)
    show "t < nextMidnight loc (iv_start iv)"
      using ivs(3) iv t by (auto simp: covered_def split: if_splits)
  qed
  with ivs that show ?thesis unfolding splitAtLocalMidnights_def by blast
qed

lemma split_fixed:
  assumes "s \<le> e"
  obtains ivs where "splitAtLocalMidnights (fixed_location c) s e = Some ivs" "contiguous s ivs e"
    "\<forall>iv \<in> set ivs. \<forall>t \<in> covered iv. local_day (fixed_location c) t = local_day (fixed_location c) (iv_start iv)"
proof (rule split_regular [OF assms forward_fixed])
  show "local_day (fixed_location c) u = local_day (fixed_location c) t"
    if "t \<le> u" "u < nextMidnight (fixed_location c) t" for t u
    using that by (rule before_midnight_fixed)
qed (rule that)

text \<open>A span that crosses midnight is cut at least once.\<close>

lemma split_crossing:
  assumes "contiguous s ivs e" "s < e" "local_day loc s \<noteq> local_day loc (e - 1)"
    and "\<forall>iv \<in> set ivs. \<forall>t \<in> covered iv. local_day loc t = local_day loc (iv_start iv)"
  shows "2 \<le> length ivs"
proof (rule ccontr)
  assume short: "\<not> 2 \<le> length ivs"
  obtain iv rest where ivs: "ivs = iv # rest"
    using assms(1,2) by (cases ivs) auto
  have "rest = []" using short ivs by (cases rest) auto
  then have iv: "iv_start iv = s" "iv_end iv = e" using assms(1) ivs by auto
  then have "e - 1 \<in> covered iv" using assms(2) by (simp add: covered_def)
  then have "local_day loc (e - 1) = local_day loc s"
    using assms(4) ivs iv(1) by auto
  with assms(3) show False by simp
qed


section \<open>The rows a split writes\<close>

primrec piece_rows :: "int \<Rightarrow> time_entry \<Rightarrow> string \<Rightarrow> location \<Rightarrow> interval list \<Rightarrow> time_entry list" where
  "piece_rows k row att loc [] = []"
| "piece_rows k row att loc (iv # ivs) =
     (piece_row row att loc iv)\<lparr>te_id := k + 1\<rparr> # piece_rows (k + 1) row att loc ivs"

lemma length_piece_rows [simp]: "length (piece_rows k row att loc ivs) = length ivs"
  by (induction ivs arbitrary: k) simp_all

lemma piece_rows_ids: "r \<in> set (piece_rows k row att loc ivs) \<Longrightarrow> k < te_id r \<and> te_id r \<le> k + int (length ivs)"
  by (induction ivs arbitrary: k) fastforce+

lemma piece_rows_distinct: "distinct (map te_id (piece_rows k row att loc ivs))"
  by (induction ivs arbitrary: k) (fastforce dest: piece_rows_ids)+

lemma piece_rows_from: "r \<in> set (piece_rows k row att loc ivs) \<Longrightarrow>
    \<exists>iv \<in> set ivs. r = (piece_row row att loc iv)\<lparr>te_id := te_id r\<rparr>"
  by (induction ivs arbitrary: k) fastforce+

lemma create_entry_Inr:
  "q_CreateTimeEntry row d = (Inr r, d') \<longleftrightarrow>
     r = row\<lparr>te_id := tbl_seq (db_entries d) + 1\<rparr> \<and> te_ok d r \<and>
     d' = d\<lparr>db_entries := add_rows [r] (db_entries d)\<rparr>"
  by (auto simp: q_CreateTimeEntry_def insert_into_def Let_def add_rows_def)

lemma create_pieces_Inr:
  "create_pieces row att loc ivs d = (Inr out, d') \<Longrightarrow>
     out = piece_rows (tbl_seq (db_entries d)) row att loc ivs \<and>
     d' = d\<lparr>db_entries := add_rows out (db_entries d)\<rparr>"
  unfolding create_pieces_def
proof (induction ivs arbitrary: d out)
  case Nil
  then show ?case by simp
next
  case (Cons iv ivs)
  then obtain r d1 rs where "q_CreateTimeEntry (piece_row row att loc iv) d = (Inr r, d1)"
    and rest: "for_each (\<lambda>iv. mapErr (q_CreateTimeEntry (piece_row row att loc iv))) ivs d1 = (Inr rs, d')"
    and "out = r # rs"
    by (auto simp: act_bind_eq_Inr_iff)
  then show ?case
    using Cons.IH [OF rest] by (simp add: create_entry_Inr add_rows_def)
qed

text \<open>Constraints look at the allocation of a row only, so the pieces of a legal row are legal.\<close>

lemma te_ok_piece: "te_ok d row \<Longrightarrow> att \<in> set attestations \<Longrightarrow> te_ok d ((piece_row row att loc iv)\<lparr>te_id := k\<rparr>)"
  by (simp add: te_ok_def piece_row_def)

lemma te_ok_entries [simp]: "te_ok (d\<lparr>db_entries := t\<rparr>) r = te_ok d r"
  by (simp add: te_ok_def)

lemma create_pieces_run:
  "te_ok d row \<Longrightarrow> att \<in> set attestations \<Longrightarrow>
     create_pieces row att loc ivs d =
       (Inr (piece_rows (tbl_seq (db_entries d)) row att loc ivs),
        d\<lparr>db_entries := add_rows (piece_rows (tbl_seq (db_entries d)) row att loc ivs) (db_entries d)\<rparr>)"
  unfolding create_pieces_def
proof (induction ivs arbitrary: d)
  case (Cons iv ivs)
  let ?r = "(piece_row row att loc iv)\<lparr>te_id := tbl_seq (db_entries d) + 1\<rparr>"
  have "q_CreateTimeEntry (piece_row row att loc iv) d = (Inr ?r, d\<lparr>db_entries := add_rows [?r] (db_entries d)\<rparr>)"
    using Cons.prems by (simp add: create_entry_Inr te_ok_piece)
  then show ?case
    using Cons.IH [of "d\<lparr>db_entries := add_rows [?r] (db_entries d)\<rparr>"] Cons.prems
    by (simp add: act_bind_def mapErr_def add_rows_def)
qed simp

definition with_attestation :: "string \<Rightarrow> int \<Rightarrow> time_entry list \<Rightarrow> time_entry list" where
  "with_attestation a i rs = map (\<lambda>r. if te_id r = i then r\<lparr>te_attestation := a\<rparr> else r) rs"

lemma attest_run:
  assumes "ids_ok te_id (db_entries d)" "q_GetTimeEntry i p d = Some row" "te_ok d (row\<lparr>te_attestation := a\<rparr>)"
  shows "q_UpdateTimeEntryAttestation a i p d =
    (Inr (row\<lparr>te_attestation := a\<rparr>),
     d\<lparr>db_entries := (db_entries d)\<lparr>tbl_rows := with_attestation a i (tbl_rows (db_entries d))\<rparr>\<rparr>)"
proof -
  note row = got_entry [OF assms(2)]
  have only: "r = row" if "r \<in> set (tbl_rows (db_entries d))" "te_id r = i" for r
    using that row assms(1) by (auto simp: ids_ok_def distinct_map inj_on_def)
  have "filter (\<lambda>r. te_id r = i \<and> te_period r = p) (tbl_rows (db_entries d)) = filter (\<lambda>r. te_id r = i) (tbl_rows (db_entries d))"
    using only row by (intro filter_cong) auto
  also have "\<dots> = [row]"
    using assms(1) row find_key [of te_id "tbl_rows (db_entries d)" row]
    by (simp add: ids_ok_def filter_key_find)
  finally have f: "filter (\<lambda>r. te_id r = i \<and> te_period r = p) (tbl_rows (db_entries d)) = [row]" .
  have m: "map (\<lambda>r. if te_id r = i \<and> te_period r = p then r\<lparr>te_attestation := a\<rparr> else r) (tbl_rows (db_entries d)) =
      with_attestation a i (tbl_rows (db_entries d))"
    unfolding with_attestation_def using only row by (intro map_cong) auto
  show ?thesis
    using assms(3) f m
    by (simp add: q_UpdateTimeEntryAttestation_def update_entry_def scan_one_def act_bind_def update_where_def Let_def)
qed

lemma got_after_add:
  "q_GetTimeEntry i p d = Some row \<Longrightarrow> q_GetTimeEntry i p (d\<lparr>db_entries := add_rows rs (db_entries d)\<rparr>) = Some row"
  by (simp add: q_GetTimeEntry_def find_row_def find_append)

lemma ids_ok_add_pieces:
  assumes "ids_ok te_id t"
  shows "ids_ok te_id (add_rows (piece_rows (tbl_seq t) row att loc ivs) t)"
proof -
  have "te_id ` set (tbl_rows t) \<inter> te_id ` set (piece_rows (tbl_seq t) row att loc ivs) = {}"
    using assms by (force simp: ids_ok_def dest: piece_rows_ids)
  then show ?thesis
    using assms piece_rows_distinct by (fastforce simp: ids_ok_def dest: piece_rows_ids)
qed

text \<open>
  The shape that confirming at midnight and splitting a draft share: the pieces are written, the
  draft is dismissed, and every other row stays.
\<close>

definition replace_with_pieces :: "time_entry \<Rightarrow> string \<Rightarrow> location \<Rightarrow> interval list \<Rightarrow> db \<Rightarrow> db" where
  "replace_with_pieces row att loc ivs d =
     d\<lparr>db_entries := \<lparr>tbl_rows = with_attestation ''dismissed'' (te_id row) (tbl_rows (db_entries d))
                                @ piece_rows (tbl_seq (db_entries d)) row att loc ivs,
                     tbl_seq = tbl_seq (db_entries d) + int (length ivs)\<rparr>\<rparr>"

lemma with_attestation_other: "i \<notin> te_id ` set rs \<Longrightarrow> with_attestation a i rs = rs"
  unfolding with_attestation_def by (rule map_idI) auto

lemma write_pieces:
  assumes ids: "ids_ok te_id (db_entries d)" and row: "q_GetTimeEntry i p d = Some row"
    and ok: "te_ok d row" and att: "att \<in> set attestations"
  shows "in_tx (act_bind (create_pieces row att loc ivs) (\<lambda>out. act_seq (dismiss row) (act_ret out))) d =
    (Inr (piece_rows (tbl_seq (db_entries d)) row att loc ivs), replace_with_pieces row att loc ivs d)"
proof -
  let ?out = "piece_rows (tbl_seq (db_entries d)) row att loc ivs"
  let ?d1 = "d\<lparr>db_entries := add_rows ?out (db_entries d)\<rparr>"
  note r = got_entry [OF row]
  have got: "q_GetTimeEntry (te_id row) (te_period row) ?d1 = Some row"
    using got_after_add [OF row] r by simp
  have ids1: "ids_ok te_id (db_entries ?d1)" using ids_ok_add_pieces [OF ids] by simp
  have "te_ok ?d1 (row\<lparr>te_attestation := ''dismissed''\<rparr>)"
    using ok by (simp add: te_ok_def attestations_def)
  then have dis: "dismiss row ?d1 = (Inr (row\<lparr>te_attestation := ''dismissed''\<rparr>),
      ?d1\<lparr>db_entries := (db_entries ?d1)\<lparr>tbl_rows :=
        with_attestation ''dismissed'' (te_id row) (tbl_rows (db_entries ?d1))\<rparr>\<rparr>)"
    using attest_run [OF ids1 got] by (simp add: dismiss_def mapErr_def)
  have fresh: "with_attestation ''dismissed'' (te_id row) ?out = ?out"
    using r ids by (intro with_attestation_other) (fastforce simp: ids_ok_def dest: piece_rows_ids)
  have "with_attestation ''dismissed'' (te_id row) (tbl_rows (db_entries d) @ ?out) =
      with_attestation ''dismissed'' (te_id row) (tbl_rows (db_entries d)) @ ?out"
    using fresh by (simp add: with_attestation_def)
  then show ?thesis
    using create_pieces_run [OF ok att, of loc ivs] dis
    by (simp add: act_seq_def act_bind_def replace_with_pieces_def add_rows_def)
qed

lemma with_attestation_in:
  assumes "ids_ok te_id (db_entries d)" "q_GetTimeEntry i p d = Some row"
  shows "set (with_attestation a (te_id row) (tbl_rows (db_entries d))) =
    insert (row\<lparr>te_attestation := a\<rparr>) {r \<in> set (tbl_rows (db_entries d)). te_id r \<noteq> te_id row}"
proof -
  have "r = row" if "r \<in> set (tbl_rows (db_entries d))" "te_id r = te_id row" for r
    using that got_entry [OF assms(2)] assms(1) by (auto simp: ids_ok_def distinct_map inj_on_def)
  then show ?thesis
    using got_entry [OF assms(2)] by (auto simp: with_attestation_def image_iff split: if_splits)
qed


section \<open>A call that fails\<close>

lemma atomic_entries:
  "atomic (q_CreateTimeEntry r)" "atomic (q_UpdateTimeEntryAttestation a i p)" "atomic (q_UpdateTimeEntry r)"
  "atomic (q_DeleteTimeEntry i p)" "atomic (dismiss row)"
  unfolding q_CreateTimeEntry_def q_UpdateTimeEntryAttestation_def q_UpdateTimeEntry_def q_DeleteTimeEntry_def
    update_entry_def dismiss_def
  by (rule entries.atomic_insert entries.atomic_scan_update entries.atomic_delete atomic_mapErr)+

lemma atomic_in_place: "atomic (confirmInPlace input)"
  unfolding confirmInPlace_def by (intro atomic_bind_never_fails atomic_mapErr atomic_entries never_fails_ret)

lemma atomic_resolved: "atomic (confirm_resolved input row s e loc)"
  unfolding confirm_resolved_def confirmSplitAtMidnight_def
  by (intro atomic_rules atomic_in_place)

lemma atomic_around: "atomic (confirmDraftAroundOverlaps row s e overlaps loc policy)"
  unfolding confirmDraftAroundOverlaps_def by (intro atomic_rules atomic_entries)

lemma readonly_one: "readonly (mapErr (get_one f))"
  by simp

lemma atomic_confirm: "cf_overlap input \<noteq> OverlapKeepMine \<Longrightarrow> atomic (ConfirmTimeEntry tz input)"
  unfolding ConfirmTimeEntry_def
  by (intro atomic_rules readonly_one atomic_resolved atomic_around atomic_entries) simp_all

lemma readonly_get_draft: "readonly (get_draft i p)"
  unfolding get_draft_def by (intro readonly_bind readonly_one) simp

lemma atomic_split: "atomic (SplitTimeEntry tz i p cuts)"
  unfolding SplitTimeEntry_def by (intro atomic_rules readonly_get_draft)

lemma atomic_reject: "atomic (RejectTimeEntry i p)"
  unfolding RejectTimeEntry_def by (intro atomic_rules readonly_get_draft atomic_mapErr atomic_entries)

lemma atomic_user_update: "atomic (UpdateTimeEntry tz i input)"
  unfolding UpdateTimeEntry_def Let_def by (intro atomic_rules atomic_mapErr atomic_entries)

lemma atomic_adjust: "atomic (AdjustDraftTimeEntry tz i input)"
  unfolding AdjustDraftTimeEntry_def by (intro atomic_rules readonly_get_draft atomic_user_update)

lemma atomic_create: "atomic (createTimeEntry tz input g)"
  unfolding createTimeEntry_def Let_def by (intro atomic_rules atomic_mapErr atomic_entries)


section \<open>Splitting a draft\<close>

lemma parse_cuts_contiguous:
  "parse_cuts s e raws = Inr cuts \<Longrightarrow> s < e \<Longrightarrow> contiguous s (segments_between (s # cuts @ [e])) e"
proof (induction s e raws arbitrary: cuts rule: parse_cuts.induct)
  case (1 prev e)
  then show ?case by (simp add: nonempty_def)
next
  case (2 prev e raw raws)
  then obtain cut cs where cut: "parse_rfc3339 raw = Some cut" "prev < cut" "cut < e"
    "parse_cuts cut e raws = Inr cs" "cuts = cut # cs"
    by (auto split: if_splits)
  then have "contiguous cut (segments_between (cut # cs @ [e])) e"
    using "2.IH" [of cut] by simp
  then show ?case using cut by (simp add: nonempty_def)
qed

lemma parse_cuts_inside: "parse_cuts s e (raw # raws) = Inr cuts \<Longrightarrow> s < e"
  by (auto split: if_splits)

text \<open>A successful split: what it required, and the rows it leaves.\<close>

lemma split_entry_Inr:
  assumes "SplitTimeEntry tz i p raws d = (Inr out, d')" "ids_ok te_id (db_entries d)"
    and "list_all (te_ok d) (tbl_rows (db_entries d))"
  obtains row s e loc ivs where
    "q_GetTimeEntry i p d = Some row" "te_attestation row = ''draft''"
    "parse_rfc3339 (te_start row) = Some s" "parse_rfc3339 (te_end row) = Some e"
    "contiguous s ivs e" "length ivs = length raws + 1"
    "out = piece_rows (tbl_seq (db_entries d)) row ''draft'' loc ivs"
    "d' = replace_with_pieces row ''draft'' loc ivs d"
proof -
  obtain row s e loc cuts where row: "q_GetTimeEntry i p d = Some row" "te_attestation row = ''draft''"
    and span: "timeEntryLocalSpan tz row d = Inr (s, e, loc)"
    and raws: "raws \<noteq> []" and cuts: "parse_cuts s e raws = Inr cuts"
    and tx: "in_tx (act_bind (create_pieces row ''draft'' loc (segments_between (s # cuts @ [e]))) (\<lambda>out.
      act_seq (dismiss row) (act_ret out))) d = (Inr out, d')"
    using assms(1)
    by (auto simp: SplitTimeEntry_def act_bind_eq_Inr_iff get_draft_def split: if_splits)
  have ok: "te_ok d row"
    using got_entry [OF row(1)] assms(3) by (auto simp: list_all_iff)
  have "s < e" using cuts raws by (cases raws) (auto dest: parse_cuts_inside simp del: parse_cuts.simps)
  note contig = parse_cuts_contiguous [OF cuts this]
  have len: "length cuts = length raws"
    using cuts by (induction s e raws arbitrary: cuts rule: parse_cuts.induct) (auto split: if_splits)
  have "length (segments_between (x # xs @ [y])) = length xs + 1" for x xs and y :: instant
    by (induction xs arbitrary: x) auto
  moreover have "parse_rfc3339 (te_start row) = Some s" "parse_rfc3339 (te_end row) = Some e"
    using span by (auto simp: timeEntryLocalSpan_def Let_def split: if_splits)
  ultimately show ?thesis
    using that row contig len tx write_pieces [OF assms(2) row(1) ok, of "''draft''" loc]
    by (auto simp: attestations_def)
qed


section \<open>Confirming at midnight\<close>

lemma confirm_split_run:
  assumes "crossesLocalMidnight loc s e" "cf_overnight input = OvernightSplitAtMidnight"
    and "splitAtLocalMidnights loc s e = Some ivs" "2 \<le> length ivs"
    and "ids_ok te_id (db_entries d)" "q_GetTimeEntry i p d = Some row" "te_ok d row"
  shows "confirm_resolved input row s e loc d =
    (Inr (piece_rows (tbl_seq (db_entries d)) row ''confirmed'' loc ivs),
     replace_with_pieces row ''confirmed'' loc ivs d)"
  using assms write_pieces [OF assms(5-7), of "''confirmed''" loc ivs]
  by (simp add: confirm_resolved_def confirmSplitAtMidnight_def attestations_def)

lemma confirm_in_place_run:
  assumes "ids_ok te_id (db_entries d)" "q_GetTimeEntry (cf_id input) (cf_period input) d = Some row" "te_ok d row"
    and "crossesLocalMidnight loc s e \<Longrightarrow> cf_overnight input = OvernightAttributeToStart"
    and "\<not> crossesLocalMidnight loc s e \<Longrightarrow> cf_overnight input = ''''"
  shows "confirm_resolved input row s e loc d =
    (Inr [row\<lparr>te_attestation := ''confirmed''\<rparr>],
     d\<lparr>db_entries := (db_entries d)\<lparr>tbl_rows :=
       with_attestation ''confirmed'' (cf_id input) (tbl_rows (db_entries d))\<rparr>\<rparr>)"
proof -
  have "te_ok d (row\<lparr>te_attestation := ''confirmed''\<rparr>)"
    using assms(3) by (simp add: te_ok_def attestations_def)
  from attest_run [OF assms(1,2) this] show ?thesis
    using assms(4,5)
    by (cases "crossesLocalMidnight loc s e") (simp_all add: confirm_resolved_def confirmInPlace_def
        act_bind_def mapErr_def)
qed

text \<open>The guards of a confirmation, once the draft and its span are known.\<close>

lemma confirm_guards:
  assumes "0 < cf_id input" "0 < cf_period input" "q_GetTimeEntry (cf_id input) (cf_period input) d = Some row"
    and "te_attestation row = ''draft''" "timeEntryLocalSpan tz row d = Inr (s, e, loc)"
  shows "overlappingConfirmed (te_period row) (te_id row) s e d = [] \<Longrightarrow> cf_overlap input = '''' \<Longrightarrow>
      ConfirmTimeEntry tz input d = confirm_resolved input row s e loc d"
    and "overlappingConfirmed (te_period row) (te_id row) s e d \<noteq> [] \<Longrightarrow> cf_overlap input = OverlapAllowParallel \<Longrightarrow>
      ConfirmTimeEntry tz input d = confirm_resolved input row s e loc d"
    and "overlappingConfirmed (te_period row) (te_id row) s e d \<noteq> [] \<Longrightarrow> cf_overlap input = OverlapSplit \<Longrightarrow>
      ConfirmTimeEntry tz input d = confirmDraftAroundOverlaps row s e
        (overlappingConfirmed (te_period row) (te_id row) s e d) loc (cf_overnight input) d"
    and "overlappingConfirmed (te_period row) (te_id row) s e d \<noteq> [] \<Longrightarrow> cf_overlap input = OverlapKeepMine \<Longrightarrow>
      ConfirmTimeEntry tz input d = act_seq (for_each (\<lambda>r. mapErr (q_DeleteTimeEntry (te_id r) (te_period r)))
        (overlappingConfirmed (te_period row) (te_id row) s e d)) (confirm_resolved input row s e loc) d"
    and "overlappingConfirmed (te_period row) (te_id row) s e d \<noteq> [] \<Longrightarrow> cf_overlap input = '''' \<Longrightarrow>
      ConfirmTimeEntry tz input d = (Inl ErrFailedPrecondition, d)"
  using assms by (simp_all add: ConfirmTimeEntry_def act_bind_def mapErr_get_one)

lemma confirm_not_draft:
  assumes "0 < cf_id input" "0 < cf_period input" "q_GetTimeEntry (cf_id input) (cf_period input) d = Some row"
    and "te_attestation row \<noteq> ''draft''"
  shows "ConfirmTimeEntry tz input d = (Inl ErrFailedPrecondition, d)"
  using assms by (simp add: ConfirmTimeEntry_def act_bind_def mapErr_get_one)


section \<open>Deleting the entries in the way\<close>

definition without :: "(int \<times> int) set \<Rightarrow> db \<Rightarrow> db" where
  "without K d = d\<lparr>db_entries := (db_entries d)\<lparr>tbl_rows :=
     filter (\<lambda>r. (te_id r, te_period r) \<notin> K) (tbl_rows (db_entries d))\<rparr>\<rparr>"

lemma delete_all_run:
  "\<exists>ns. for_each (\<lambda>r. mapErr (q_DeleteTimeEntry (te_id r) (te_period r))) rs d =
     (Inr ns, without ((\<lambda>r. (te_id r, te_period r)) ` set rs) d)"
proof (induction rs arbitrary: d)
  case Nil
  then show ?case by (simp add: without_def)
next
  case (Cons r rs)
  have one: "\<exists>n. mapErr (q_DeleteTimeEntry (te_id r) (te_period r)) d = (Inr n, without {(te_id r, te_period r)} d)"
    by (simp add: q_DeleteTimeEntry_def delete_where_def Let_def mapErr_def without_def)
  have "without K (without L d) = without (L \<union> K) d" for K L
    by (auto simp: without_def intro: filter_cong)
  with one Cons.IH [of "without {(te_id r, te_period r)} d"] show ?case
    by (auto simp: act_bind_def mapErr_def)
qed

lemma keep_mine_deletes:
  assumes "0 < cf_id input" "0 < cf_period input" "q_GetTimeEntry (cf_id input) (cf_period input) d = Some row"
    and "te_attestation row = ''draft''" "timeEntryLocalSpan tz row d = Inr (s, e, loc)"
    and "overlappingConfirmed (te_period row) (te_id row) s e d \<noteq> []" "cf_overlap input = OverlapKeepMine"
  shows "ConfirmTimeEntry tz input d = confirm_resolved input row s e loc
    (without ((\<lambda>r. (te_id r, te_period r)) ` set (overlappingConfirmed (te_period row) (te_id row) s e d)) d)"
proof -
  obtain ns where "for_each (\<lambda>r. mapErr (q_DeleteTimeEntry (te_id r) (te_period r)))
      (overlappingConfirmed (te_period row) (te_id row) s e d) d =
    (Inr ns, without ((\<lambda>r. (te_id r, te_period r)) ` set (overlappingConfirmed (te_period row) (te_id row) s e d)) d)"
    using delete_all_run by blast
  then show ?thesis
    by (simp add: confirm_guards(4) [OF assms(1-5,6,7)] act_seq_def act_bind_def)
qed


section \<open>Confirming around other entries\<close>

definition stored_span :: "time_entry \<Rightarrow> interval option" where
  "stored_span r = (case (parse_rfc3339 (te_start r), parse_rfc3339 (te_end r)) of
     (Some s, Some e) \<Rightarrow> Some (mk_iv s e) | _ \<Rightarrow> None)"

lemma overlapping_member:
  "r \<in> set (overlappingConfirmed p x s e d) \<longleftrightarrow>
     r \<in> set (tbl_rows (db_entries d)) \<and> te_period r = p \<and> te_id r \<noteq> x \<and> te_attestation r = ''confirmed'' \<and>
     (\<exists>iv. stored_span r = Some iv \<and> iv_start iv < e \<and> s < iv_end iv)"
  by (auto simp: overlappingConfirmed_def q_ListTimeEntriesForPeriod_def select_rows_def stored_span_def
      split: option.splits)

definition cut_each :: "interval list \<Rightarrow> interval list \<Rightarrow> interval list" where
  "cut_each es gs = fold (\<lambda>e gs. concat (map (\<lambda>g. subtractInterval [g] (iv_start e) (iv_end e)) gs)) es gs"

lemma cut_each_Cons: "cut_each (e # es) gs = cut_each es (subtractInterval gs (iv_start e) (iv_end e))"
  unfolding cut_each_def by (subst (2) subtractInterval_concat) (simp only: fold_simps)

lemma cut_overlaps_Inr:
  assumes "\<forall>r \<in> set others. stored_span r \<noteq> None"
  shows "cut_overlaps rem others = Inr (cut_each (map (\<lambda>r. the (stored_span r)) others) rem)"
  using assms
proof (induction others arbitrary: rem)
  case Nil
  then show ?case by (simp add: cut_overlaps_def cut_each_def)
next
  case (Cons r others)
  then obtain s e where r: "parse_rfc3339 (te_start r) = Some s" "parse_rfc3339 (te_end r) = Some e"
    by (auto simp: stored_span_def split: option.splits)
  have "cut_overlaps rem (r # others) = cut_overlaps (subtractInterval rem s e) others"
    using r by (simp add: cut_overlaps_def)
  also have "\<dots> = Inr (cut_each (map (\<lambda>r. the (stored_span r)) others) (subtractInterval rem s e))"
    using Cons by simp
  finally show ?case
    using r by (simp add: stored_span_def cut_each_Cons)
qed

text \<open>What is left of the draft is the draft without the confirmed time in its way.\<close>

lemma cut_overlaps_cover:
  assumes "\<forall>r \<in> set others. \<exists>iv. stored_span r = Some iv \<and> iv_start iv \<le> iv_end iv" "s < e"
  obtains rem where "cut_overlaps [mk_iv s e] others = Inr rem" "list_all nonempty rem"
    "cover rem = {s..<e} - (\<Union>r \<in> set others. covered (the (stored_span r)))"
proof -
  let ?ivs = "map (\<lambda>r. the (stored_span r)) others"
  have le: "\<forall>iv \<in> set ?ivs. iv_start iv \<le> iv_end iv" using assms(1) by auto
  have one: "list_all nonempty [mk_iv s e]" using assms(2) by (simp add: nonempty_def)
  have "cover ?ivs = (\<Union>r \<in> set others. covered (the (stored_span r)))"
    by (simp add: cover_def)
  then show ?thesis
    using that cut_overlaps_Inr [of others "[mk_iv s e]"] assms(1)
      remainder.cut_fold_cover [OF le, of "[mk_iv s e]", folded cut_each_def]
      remainder.cut_fold_nonempty [OF one, of ?ivs, folded cut_each_def] by force
qed

lemma piece_rows_append:
  "piece_rows k row att loc (xs @ ys) = piece_rows k row att loc xs @ piece_rows (k + int (length xs)) row att loc ys"
  by (induction xs arbitrary: k) (simp_all add: add.assoc)

lemma create_each_run:
  assumes "te_ok d row" "list_all2 (\<lambda>r ps. remainder_pieces loc policy r = Some ps) rems pss"
  shows "\<exists>outs. for_each (\<lambda>r. act_bind (act_the Diverges (remainder_pieces loc policy r))
      (create_pieces row ''confirmed'' loc)) rems d =
    (Inr outs, d\<lparr>db_entries := add_rows (concat outs) (db_entries d)\<rparr>) \<and>
    concat outs = piece_rows (tbl_seq (db_entries d)) row ''confirmed'' loc (concat pss)"
  using assms(2,1)
proof (induction rems pss arbitrary: d rule: list_all2_induct)
  case Nil
  then show ?case by simp
next
  case (Cons r rems ps pss)
  let ?out = "piece_rows (tbl_seq (db_entries d)) row ''confirmed'' loc ps"
  let ?d1 = "d\<lparr>db_entries := add_rows ?out (db_entries d)\<rparr>"
  have first: "create_pieces row ''confirmed'' loc ps d = (Inr ?out, ?d1)"
    using Cons.prems by (intro create_pieces_run) (simp_all add: attestations_def)
  obtain outs where rest: "for_each (\<lambda>r. act_bind (act_the Diverges (remainder_pieces loc policy r))
      (create_pieces row ''confirmed'' loc)) rems ?d1 =
    (Inr outs, ?d1\<lparr>db_entries := add_rows (concat outs) (db_entries ?d1)\<rparr>)"
    "concat outs = piece_rows (tbl_seq (db_entries ?d1)) row ''confirmed'' loc (concat pss)"
    using Cons.IH [of ?d1] Cons.prems by auto
  show ?case
    using first rest Cons.hyps(1)
    by (intro exI [of _ "?out # outs"]) (simp add: act_bind_def piece_rows_append)
qed

lemma around_run:
  assumes "cut_overlaps [mk_iv s e] overlaps = Inr rems" "rems \<noteq> []"
    and "policy \<noteq> '''' \<or> (\<forall>r \<in> set rems. \<not> crossesLocalMidnight loc (iv_start r) (iv_end r))"
    and "list_all2 (\<lambda>r ps. remainder_pieces loc policy r = Some ps) rems pss"
    and ids: "ids_ok te_id (db_entries d)" and row: "q_GetTimeEntry i p d = Some row" and ok: "te_ok d row"
  shows "confirmDraftAroundOverlaps row s e overlaps loc policy d =
    (Inr (piece_rows (tbl_seq (db_entries d)) row ''confirmed'' loc (concat pss)),
     replace_with_pieces row ''confirmed'' loc (concat pss) d)"
proof -
  obtain outs where each: "for_each (\<lambda>r. act_bind (act_the Diverges (remainder_pieces loc policy r))
      (create_pieces row ''confirmed'' loc)) rems d =
    (Inr outs, d\<lparr>db_entries := add_rows (concat outs) (db_entries d)\<rparr>)"
    and outs: "concat outs = piece_rows (tbl_seq (db_entries d)) row ''confirmed'' loc (concat pss)"
    using create_each_run [OF ok assms(4)] by blast
  have conf: "''confirmed'' \<in> set attestations" by (simp add: attestations_def)
  have "act_seq (dismiss row) (act_ret (concat outs)) (d\<lparr>db_entries := add_rows (concat outs) (db_entries d)\<rparr>) =
      (Inr (concat outs), replace_with_pieces row ''confirmed'' loc (concat pss) d)"
    using write_pieces [OF ids row ok conf, of loc "concat pss"] create_pieces_run [OF ok conf, of loc "concat pss"]
    by (simp add: outs act_bind_def)
  then have "in_tx (act_bind
      (for_each (\<lambda>rem. act_bind (act_the Diverges (remainder_pieces loc policy rem))
         (create_pieces row ''confirmed'' loc)) rems)
      (\<lambda>out. act_seq (dismiss row) (act_ret (concat out)))) d =
    (Inr (concat outs), replace_with_pieces row ''confirmed'' loc (concat pss) d)"
    using each by (simp add: act_bind_def)
  then show ?thesis
    using assms(1-3) outs by (auto simp: confirmDraftAroundOverlaps_def list_ex_iff)
qed

lemma remainder_pieces_forward:
  assumes "nonempty r" "forward loc (iv_start r) (iv_end r)"
  shows "\<exists>ps. remainder_pieces loc policy r = Some ps \<and> cover ps = covered r \<and> list_all nonempty ps"
proof (cases "policy = OvernightSplitAtMidnight \<and> crossesLocalMidnight loc (iv_start r) (iv_end r)")
  case True
  have "iv_start r \<le> iv_end r" using assms(1) by (simp add: nonempty_def)
  from split_forward [OF assms(2) this] obtain ivs where
    "splitAtLocalMidnights loc (iv_start r) (iv_end r) = Some ivs" "contiguous (iv_start r) ivs (iv_end r)"
    by (auto simp: splitAtLocalMidnights_def)
  then show ?thesis
    using True contiguous_cover contiguous_nonempty
    by (intro exI [of _ ivs]) (simp add: remainder_pieces_def covered_def)
next
  case False
  then show ?thesis using assms by (auto simp: remainder_pieces_def)
qed

lemma all_remainder_pieces_forward:
  "list_all nonempty rems \<Longrightarrow> \<forall>r \<in> set rems. forward loc (iv_start r) (iv_end r) \<Longrightarrow>
     \<exists>pss. list_all2 (\<lambda>r ps. remainder_pieces loc policy r = Some ps) rems pss \<and>
       cover (concat pss) = cover rems \<and> list_all nonempty (concat pss)"
proof (induction rems)
  case Nil
  then show ?case by (intro exI [of _ "[]"]) simp
next
  case (Cons r rems)
  then obtain pss where "list_all2 (\<lambda>r ps. remainder_pieces loc policy r = Some ps) rems pss"
    "cover (concat pss) = cover rems" "list_all nonempty (concat pss)" by auto
  moreover obtain ps where "remainder_pieces loc policy r = Some ps" "cover ps = covered r"
    "list_all nonempty ps"
    using remainder_pieces_forward [of r loc policy] Cons.prems by auto
  ultimately show ?case by (intro exI [of _ "ps # pss"]) simp
qed

text \<open>
  Confirming around overlaps, in a zone whose next local midnight always lies ahead: the confirmed
  pieces cover the draft without the confirmed time in its way; where nothing of it is left, the
  draft is only dismissed.
\<close>

lemma confirm_around:
  assumes input: "0 < cf_id input" "0 < cf_period input" "q_GetTimeEntry (cf_id input) (cf_period input) d = Some row"
    "te_attestation row = ''draft''" "timeEntryLocalSpan tz row d = Inr (s, e, loc)"
    and split: "cf_overlap input = OverlapSplit" "s < e" "forward loc s e"
    and policy: "cf_overnight input = '''' \<Longrightarrow> \<forall>t. s \<le> t \<and> t \<le> e \<longrightarrow> local_day loc t = local_day loc s"
    and overlaps: "overlappingConfirmed (te_period row) (te_id row) s e d = overlaps" "overlaps \<noteq> []"
    "\<forall>r \<in> set overlaps. iv_start (the (stored_span r)) \<le> iv_end (the (stored_span r))"
    and db: "ids_ok te_id (db_entries d)" "te_ok d row"
  shows "\<exists>ivs. ConfirmTimeEntry tz input d =
      (Inr (piece_rows (tbl_seq (db_entries d)) row ''confirmed'' loc ivs),
       replace_with_pieces row ''confirmed'' loc ivs d) \<and>
    cover ivs = {s..<e} - (\<Union>r \<in> set overlaps. covered (the (stored_span r))) \<and> list_all nonempty ivs"
proof -
  have spans: "\<forall>r \<in> set overlaps. \<exists>iv. stored_span r = Some iv \<and> iv_start iv \<le> iv_end iv"
    using overlaps overlapping_member by fastforce
  obtain rems where rems: "cut_overlaps [mk_iv s e] overlaps = Inr rems" "list_all nonempty rems"
    "cover rems = {s..<e} - (\<Union>r \<in> set overlaps. covered (the (stored_span r)))"
    using cut_overlaps_cover [OF spans split(2)] by blast
  have inside: "s \<le> iv_start r \<and> iv_end r \<le> e" if "r \<in> set rems" for r
  proof -
    have "covered r \<subseteq> {s..<e}" using that rems(3) by (auto simp: cover_def)
    moreover have "iv_start r \<in> covered r" "iv_end r - 1 \<in> covered r"
      using that rems(2) by (auto simp: list_all_iff nonempty_def covered_def)
    ultimately have "iv_start r \<in> {s..<e}" "iv_end r - 1 \<in> {s..<e}" by blast+
    then show ?thesis by simp
  qed
  have "\<forall>r \<in> set rems. forward loc (iv_start r) (iv_end r)"
    using inside split(3) unfolding forward_def by fastforce
  from all_remainder_pieces_forward [OF rems(2) this]
  obtain pss where pss: "list_all2 (\<lambda>r ps. remainder_pieces loc (cf_overnight input) r = Some ps) rems pss"
    "cover (concat pss) = cover rems" "list_all nonempty (concat pss)" by blast
  have day: "\<not> crossesLocalMidnight loc (iv_start r) (iv_end r)" if "r \<in> set rems" "cf_overnight input = ''''" for r
  proof -
    have "nonempty r" using rems(2) that(1) by (simp add: list_all_iff)
    then have "s \<le> iv_start r \<and> iv_start r \<le> e" "s \<le> iv_end r \<and> iv_end r \<le> e"
      using inside [OF that(1)] by (simp_all add: nonempty_def)
    then have "local_day loc (iv_start r) = local_day loc s" "local_day loc (iv_end r) = local_day loc s"
      using policy [OF that(2)] by blast+
    then show ?thesis by (simp add: crossesLocalMidnight_def)
  qed
  have "confirmDraftAroundOverlaps row s e overlaps loc (cf_overnight input) d =
    (Inr (piece_rows (tbl_seq (db_entries d)) row ''confirmed'' loc (concat pss)),
     replace_with_pieces row ''confirmed'' loc (concat pss) d)"
  proof (cases "rems = []")
    case True
    then have "pss = []" using pss(1) by simp
    with True show ?thesis
      using rems(1) write_pieces [OF db(1) input(3) db(2), of "''confirmed''" loc "[]"]
      by (simp add: confirmDraftAroundOverlaps_def create_pieces_def attestations_def act_seq_def act_bind_def
          in_tx_def split: prod.splits sum.splits)
  next
    case False
    then show ?thesis
      using day by (intro around_run [OF rems(1) _ _ pss(1) db(1) input(3) db(2)]) auto
  qed
  moreover have "ConfirmTimeEntry tz input d =
      confirmDraftAroundOverlaps row s e overlaps loc (cf_overnight input) d"
    using confirm_guards(3) [OF input _ split(1)] overlaps(2) unfolding overlaps(1) by blast
  ultimately show ?thesis
    using pss(2,3) rems(3) by (intro exI [of _ "concat pss"]) simp
qed


section \<open>What a created entry stores\<close>

lemma create_entry_run:
  assumes "createTimeEntry tz input g d = (Inr r, d')"
  obtains s e wt bs where "timeEntrySpan tz input d = Inr (s, e)"
    "normalizeTimeEntryAllocation (ti_work_type input) (ti_billable input) = Inr (wt, bs)"
    "r = (input_row input s e wt bs)\<lparr>te_id := tbl_seq (db_entries d) + 1,
            te_method := (if g then Some ''gap_fill'' else None)\<rparr>"
    "d' = d\<lparr>db_entries := add_rows [r] (db_entries d)\<rparr>"
  using assms
  by (auto simp: createTimeEntry_def act_bind_eq_Inr_iff create_entry_Inr Let_def input_row_def
      split: if_splits intro: that)

lemma timeEntrySpan_Inr:
  assumes "timeEntrySpan tz input d = Inr (s, e)"
  obtains day loc period where "parse_date (ti_day input) = Some day"
    "tz (sg_tz (activeSegment (ListTzSegments (ti_period input) d) (ti_day input))) = Some loc"
    "s = date_in loc day (ti_start input)" "e = date_in loc day (ti_end input)"
    "0 \<le> ti_start input" "ti_start input < ti_end input" "ti_end input \<le> 1440" "0 < ti_period input"
    "q_GetPeriod (ti_period input) d = Some period"
    "pd_start period \<le> ti_day input" "ti_day input \<le> pd_end period"
proof -
  have "format_date x \<le> format_date y" if "parse_date a = Some x" "parse_date b = Some y" "x \<le> y" for a b x y
    using that format_parse_date(2) by simp
  then have le: "a \<le> b" if "parse_date a = Some x" "parse_date b = Some y" "x \<le> y" for a b x y
    using that format_parse_date(1) by metis
  show ?thesis
    using assms
    by (auto simp: timeEntrySpan_def Let_def loadLoc_def parseDate_def split: if_splits intro!: that dest: le)
qed

text \<open>In a zone of fixed offset an entry lasts as long as its wall-clock minutes say.\<close>

lemma fixed_duration:
  assumes "a \<le> b" "b \<le> 1440 + a"
  shows "durationMinutes (date_in (fixed_location c) day a) (date_in (fixed_location c) day b) = b - a"
proof -
  let ?s = "date_in (fixed_location c) day a" and ?e = "date_in (fixed_location c) day b"
  have diff: "?e - ?s = (b - a) * minute"
    unfolding date_in_fixed minute_def by (simp add: algebra_simps)
  have "(b - a) * minute \<le> 1440 * minute" using assms by (intro mult_right_mono) simp_all
  then have "?e - ?s < 2 ^ 63" unfolding diff by (simp add: minute_def second_def)
  moreover have "?s \<le> ?e" using diff assms(1) minute_pos by (smt (verit) mult_nonneg_nonneg)
  ultimately show ?thesis
    using diff by (simp add: durationMinutes_exact)
qed

lemma split_stuck: "nextMidnight loc s = s \<Longrightarrow> s < e \<Longrightarrow> split_from loc s e = None"
proof -
  have "\<not> (nextMidnight loc s = s \<and> s < e)" if "split_from loc s e = Some ivs" for ivs
  proof (rule split_from.raw_induct [of "\<lambda>loc s e ivs. \<not> (nextMidnight loc s = s \<and> s < e)", OF _ that])
    fix f loc cur e ys
    assume IH: "\<And>loc s e ivs. f loc s e = Some ivs \<Longrightarrow> \<not> (nextMidnight loc s = s \<and> s < e)"
      and body: "(if \<not> cur < e then Some []
        else let segEnd = if e < nextMidnight loc cur then e else nextMidnight loc cur
             in Option.bind (f loc segEnd e) (\<lambda>rest. Some ((if cur < segEnd then [mk_iv cur segEnd] else []) @ rest))) =
          Some ys"
    show "\<not> (nextMidnight loc cur = cur \<and> cur < e)"
    proof
      assume now: "nextMidnight loc cur = cur \<and> cur < e"
      with body obtain rest where "f loc cur e = Some rest"
        by (auto simp: bind_eq_Some_conv)
      from IH [OF this] now show False by simp
    qed
  qed
  then show "nextMidnight loc s = s \<Longrightarrow> s < e \<Longrightarrow> split_from loc s e = None"
    by fastforce
qed

lemma split_stuck_later:
  assumes "nextMidnight loc s = m" "nextMidnight loc m = m" "s < m" "m < e"
  shows "split_from loc s e = None"
  using split_stuck [OF assms(2,4)] assms by (subst split_from.simps) (simp add: Let_def)

lemma local_day_mono: "s \<le> t \<Longrightarrow> local_day (fixed_location c) s \<le> local_day (fixed_location c) t"
  by (simp add: local_day_def wall_seconds_def fixed_location_def unix_seconds_def zdiv_mono1)

lemma split_entry_run:
  assumes "0 < i" "0 < p" "raws \<noteq> []" "q_GetTimeEntry i p d = Some row" "te_attestation row = ''draft''"
    and "timeEntryLocalSpan tz row d = Inr (s, e, loc)" "parse_cuts s e raws = Inr cuts"
    and "ids_ok te_id (db_entries d)" "te_ok d row"
  shows "\<exists>out. SplitTimeEntry tz i p raws d =
    (Inr out, replace_with_pieces row ''draft'' loc (segments_between (s # cuts @ [e])) d)"
  using assms write_pieces [OF assms(8,4,9), of "''draft''" loc "segments_between (s # cuts @ [e])"]
  by (simp add: SplitTimeEntry_def get_draft_def act_bind_def mapErr_get_one attestations_def)

end
