(* ===== verification/Samples.thy ===== *)
theory Samples
  imports Ledger_Laws
begin

text \<open>
  Concrete databases, inputs and time zones on which the properties are instantiated.
\<close>

text \<open>
  Eastern Standard Time; New York around the spring transition of 10 March 2024 (07:00 UTC, 02:00
  local time); and Havana around the one of the same day (05:00 UTC), which skips local midnight.
\<close>

definition est :: location where
  "est = fixed_location (- 18000)"

definition new_york :: location where
  "new_york = (\<lambda>t. if 1710054000 \<le> t then - 14400 else - 18000)"

definition havana :: location where
  "havana = (\<lambda>t. if 1710046800 \<le> t then - 14400 else - 18000)"

definition sample_tz :: tzdb where
  "sample_tz name = (if name = ''EST'' then Some est
     else if name = ''America/New_York'' then Some new_york
     else if name = ''America/Havana'' then Some havana else None)"

definition office_day :: "string \<Rightarrow> schedule_day" where
  "office_day w = \<lparr>sd_weekday = w, sd_expected = 480,
     sd_windows = [\<lparr>wn_start = 780, wn_end = 1020\<rparr>, \<lparr>wn_start = 480, wn_end = 720\<rparr>]\<rparr>"

definition free_day :: "string \<Rightarrow> schedule_day" where
  "free_day w = \<lparr>sd_weekday = w, sd_expected = 0, sd_windows = []\<rparr>"

definition sample_schedule :: schedule_input where
  "sample_schedule = \<lparr>si_timezone = ''EST'', si_workweek_start = ''Monday'', si_from = ''2024-03-04'',
     si_days = [office_day '' Monday'', office_day ''tuesday'', office_day ''wednesday'',
       office_day ''thursday'', office_day ''Friday'', free_day ''saturday'', free_day ''sunday'']\<rparr>"

definition sample_holiday :: exception_input where
  "sample_holiday = \<lparr>xi_date = ''2024-03-05'', xi_kind = '' Holiday'', xi_expected = 0, xi_windows = []\<rparr>"

definition sample_period :: period where
  "sample_period = \<lparr>pd_id = 1, pd_start = ''2024-03-04'', pd_end = ''2024-03-17'',
     pd_cadence = ''bi-weekly'', pd_anchor = ''2024-03-04'', pd_synced = None\<rparr>"

text \<open>A period in the given zone and these ledger rows.\<close>

definition sample_db :: "string \<Rightarrow> time_entry list \<Rightarrow> db" where
  "sample_db zone rows = empty_db\<lparr>
     db_periods := \<lparr>tbl_rows = [sample_period], tbl_seq = 1\<rparr>,
     db_segments := \<lparr>tbl_rows = [\<lparr>sg_id = 1, sg_period = 1, sg_from = ''2024-03-04'', sg_tz = zone\<rparr>], tbl_seq = 1\<rparr>,
     db_entries := \<lparr>tbl_rows = rows, tbl_seq = int (length rows)\<rparr>\<rparr>"

definition sample_entry :: "int \<Rightarrow> instant \<Rightarrow> instant \<Rightarrow> string \<Rightarrow> time_entry" where
  "sample_entry i s e att = \<lparr>te_id = i, te_period = 1, te_start = format_rfc3339 s, te_end = format_rfc3339 e,
     te_duration = durationMinutes s e, te_day = ''2024-03-05'', te_category = None, te_description = ''work'',
     te_attestation = att, te_source_kind = None, te_source_id = None, te_source_revision = None,
     te_method = None, te_work_type = ''worked'', te_project = None, te_billable = ''unset''\<rparr>"

text \<open>5 March 2024 at the given minute, in UTC.\<close>

definition at_minute :: "int \<Rightarrow> instant" where
  "at_minute m = 19787 * (24 * hour) + m * minute"

lemma empty_schedules_wf: "schedules_wf empty_db"
  by (simp add: schedules_wf_def empty_db_def empty_table_def ids_ok_def)

lemma empty_exceptions_wf: "exceptions_wf empty_db"
  by (simp add: exceptions_wf_def empty_db_def empty_table_def ids_ok_def)

lemma sample_schedule_valid: "validateScheduleDays (si_days sample_schedule) = Inr ()"
  by code_simp

lemma sample_schedule_fields:
  "trim_space (si_timezone sample_schedule) = ''EST''"
  "to_lower (trim_space (si_workweek_start sample_schedule)) = ''monday''"
  "trim_space (si_from sample_schedule) = ''2024-03-04''"
  by code_simp+

lemma sample_dates:
  "parse_date ''2024-03-04'' = Some 19786" "parse_date ''2024-03-05'' = Some 19787"
  "parse_date ''2024-03-17'' = Some 19799" "parse_date ''2024-03-10'' = Some 19792"
  by code_simp+

lemma sample_replace:
  "\<exists>v. ReplaceActiveWorkSchedule sample_tz sample_schedule empty_db = (Inr v, replaced sample_schedule empty_db)"
  by (rule replace_run [OF empty_schedules_wf])
    (simp_all add: sample_schedule_fields sample_schedule_valid sample_dates sample_tz_def weekdays_def
      empty_db_def empty_table_def)

lemma sample_exceptions_wf: "exceptions_wf (replaced sample_schedule empty_db)"
  using empty_exceptions_wf by (simp add: exceptions_wf_def replaced_def Let_def)

lemma sample_holiday_fields:
  "trim_space (xi_date sample_holiday) = ''2024-03-05''"
  "to_lower (trim_space (xi_kind sample_holiday)) = ''holiday''"
  "validateWindows (xi_windows sample_holiday) = Inr ()" "xi_date sample_holiday = ''2024-03-05''"
  "xi_expected sample_holiday = 0" "xi_windows sample_holiday = []"
  by code_simp+

lemma sample_holiday_run:
  "\<exists>v d'. UpsertScheduleException sample_holiday (replaced sample_schedule empty_db) = (Inr v, d')"
  using sample_holiday_fields
  by (simp add: UpsertScheduleException_def Let_def sample_dates act_bind_def act_seq_def mapErr_def in_tx_def
        q_GetScheduleExceptionByDate_def find_row_def q_CreateScheduleException_def insert_into_def
        replaced_def sx_ok_def alone_def GetScheduleExceptionByDate_def get_one_def
        empty_db_def empty_table_def)

definition one_day_db :: db where
  "one_day_db = (sample_db ''EST'' [sample_entry 1 (at_minute 840) (at_minute 900) ''confirmed''])
     \<lparr>db_periods := \<lparr>tbl_rows = [sample_period\<lparr>pd_start := ''2024-03-05'', pd_end := ''2024-03-05''\<rparr>], tbl_seq = 1\<rparr>\<rparr>"

lemma one_day_schedules_wf: "schedules_wf one_day_db"
  by (simp add: schedules_wf_def one_day_db_def sample_db_def empty_db_def empty_table_def ids_ok_def)

lemma sample_weekday:
  "schedules_wf d \<Longrightarrow> db_exceptions d = empty_table \<Longrightarrow>
     \<exists>e. ExpectedTimeForDate ''2024-03-05'' (replaced sample_schedule d) = Inr e \<and> et_timezone e = ''EST''"
  using replaced_resolves [OF _ sample_schedule_valid sample_dates(2), of d]
  by (auto simp: sample_schedule_fields q_GetScheduleExceptionByDate_def find_row_def empty_table_def)

lemma worked_gaps: "\<exists>ts. ComputeGaps sample_tz 1 (replaced sample_schedule one_day_db) = Inr ts \<and> length ts = 1"
proof -
  let ?d = "replaced sample_schedule one_day_db"
  obtain e where zone: "ExpectedTimeForDate ''2024-03-05'' ?d = Inr e" "et_timezone e = ''EST''"
    using sample_weekday [OF one_day_schedules_wf]
    by (auto simp: one_day_db_def sample_db_def empty_db_def)
  have date: "format_date 19787 = ''2024-03-05''" by (rule format_parse_date(1) [OF sample_dates(2)])
  have period: "q_GetPeriod 1 ?d = Some (sample_period\<lparr>pd_start := ''2024-03-05'', pd_end := ''2024-03-05''\<rparr>)"
    by (simp add: q_GetPeriod_def find_row_def one_day_db_def sample_period_def replaced_def Let_def)
  have "\<exists>ts. ComputeGaps sample_tz 1 ?d = Inr ts \<and> length ts = length [19787..19787]"
  proof (rule compute_gaps_total [OF period])
    show "ListTzSegments 1 ?d \<noteq> []"
      by (simp add: ListTzSegments_def q_ListTzSegments_def select_rows_def one_day_db_def sample_db_def
          replaced_def Let_def)
    fix day et assume "19787 \<le> day" "day \<le> (19787 :: int)" "ExpectedTimeForDate (format_date day) ?d = Inr et"
    then show "et_timezone et \<noteq> '''' \<and> sample_tz (et_timezone et) \<noteq> None"
      using zone date by (simp add: sample_tz_def)
  qed (simp_all add: sample_dates)
  then show ?thesis by simp
qed

lemma havana_midnight:
  "nextMidnight havana (19792 * (24 * hour) + 3 * hour) = 19792 * (24 * hour) + 4 * hour"
  "nextMidnight havana (19792 * (24 * hour) + 4 * hour) = 19792 * (24 * hour) + 4 * hour"
  by (simp_all add: nextMidnight_def local_day_def wall_seconds_def unix_seconds_def havana_def date_in_def
      hour_def minute_def second_def)

lemma at_minute_whole: "at_minute m = (19787 * 86400 + m * 60) * second"
  by (simp add: at_minute_def hour_def minute_def algebra_simps)

lemma at_minute_less [simp]: "at_minute a < at_minute b \<longleftrightarrow> a < b"
  by (simp add: at_minute_whole)

lemma at_minute_le [simp]: "at_minute a \<le> at_minute b \<longleftrightarrow> a \<le> b"
  by (simp add: at_minute_whole)

lemma at_minute_text:
  assumes "0 \<le> m" "m < 10000"
  shows "parse_rfc3339 (format_rfc3339 (at_minute m)) = Some (at_minute m)"
proof -
  let ?s = "19787 * 86400 + m * 60"
  have "0 div 86400 \<le> ?s div 86400" "?s div 86400 \<le> 2000000000 div 86400"
    using assms by (intro zdiv_mono1; simp)+
  then have "printable (?s * second)" by (simp add: printable_def printable_day_def)
  then show ?thesis unfolding at_minute_whole by (rule parse_format_whole)
qed

lemma sample_span:
  assumes "0 \<le> a" "a < 10000" "0 \<le> b" "b < 10000"
  shows "timeEntryLocalSpan sample_tz (sample_entry i (at_minute a) (at_minute b) att) (sample_db ''EST'' rows) =
    Inr (at_minute a, at_minute b, est)"
  using assms
  by (simp add: timeEntryLocalSpan_def sample_entry_def at_minute_text sample_db_def ListTzSegments_def
      q_ListTzSegments_def select_rows_def activeSegment_def loadLoc_def sample_tz_def)

lemma sample_stored:
  assumes "0 \<le> a" "a < 10000" "0 \<le> b" "b < 10000"
  shows "stored_span (sample_entry i (at_minute a) (at_minute b) att) = Some (mk_iv (at_minute a) (at_minute b))"
  using assms by (simp add: stored_span_def sample_entry_def at_minute_text)

lemma sample_te_ok: "att \<in> set attestations \<Longrightarrow> te_ok (sample_db z rows) (sample_entry i s e att)"
  by (simp add: te_ok_def sample_entry_def work_types_def billable_statuses_def sample_db_def has_id_def sample_period_def
      ref_ok_def)

lemma sample_simps [simp]:
  "te_id (sample_entry i s e att) = i" "te_period (sample_entry i s e att) = 1"
  "te_attestation (sample_entry i s e att) = att" "tbl_rows (db_entries (sample_db z rows)) = rows"
  "tbl_seq (db_entries (sample_db z rows)) = int (length rows)"
  by (simp_all add: sample_entry_def sample_db_def)

text \<open>A draft from 23:00 to 01:00 local time, and a confirmed hour in the middle of it.\<close>

abbreviation night_draft :: time_entry where
  "night_draft \<equiv> sample_entry 1 (at_minute 1680) (at_minute 1800) ''draft''"

abbreviation night_entry :: time_entry where
  "night_entry \<equiv> sample_entry 2 (at_minute 1710) (at_minute 1720) ''confirmed''"

abbreviation night_db :: "time_entry list \<Rightarrow> db" where
  "night_db rest \<equiv> sample_db ''EST'' (night_draft # rest)"

definition confirm_with :: "string \<Rightarrow> string \<Rightarrow> confirm_input" where
  "confirm_with overnight overlap = \<lparr>cf_id = 1, cf_period = 1, cf_overnight = overnight, cf_overlap = overlap\<rparr>"

lemma confirm_with_simps [simp]:
  "cf_id (confirm_with a b) = 1" "cf_period (confirm_with a b) = 1"
  "cf_overnight (confirm_with a b) = a" "cf_overlap (confirm_with a b) = b"
  by (simp_all add: confirm_with_def)

lemma night_ids: "ids_ok te_id (db_entries (night_db []))" "ids_ok te_id (db_entries (night_db [night_entry]))"
  by (simp_all add: ids_ok_def)

lemma night_get: "q_GetTimeEntry 1 1 (night_db rest) = Some night_draft"
  by (simp add: q_GetTimeEntry_def find_row_def)

lemma night_overlaps:
  "overlappingConfirmed 1 1 (at_minute 1680) (at_minute 1800) (night_db []) = []"
  "overlappingConfirmed 1 1 (at_minute 1680) (at_minute 1800) (night_db [night_entry]) = [night_entry]"
proof -
  show "overlappingConfirmed 1 1 (at_minute 1680) (at_minute 1800) (night_db []) = []"
    by (simp add: overlappingConfirmed_def q_ListTimeEntriesForPeriod_def select_rows_def)
  show "overlappingConfirmed 1 1 (at_minute 1680) (at_minute 1800) (night_db [night_entry]) = [night_entry]"
    by (simp add: overlappingConfirmed_def q_ListTimeEntriesForPeriod_def select_rows_def insort_key.simps
        sample_entry_def at_minute_text)
qed

lemma night_days:
  "local_day est (at_minute 1680) = 19787" "local_day est (at_minute 1800 - 1) = 19788"
  by (simp_all add: local_day_def wall_seconds_def est_def fixed_location_def unix_seconds_def at_minute_whole second_def)

definition sample_input :: "string \<Rightarrow> int \<Rightarrow> int \<Rightarrow> entry_input" where
  "sample_input day a b = \<lparr>ti_period = 1, ti_day = day, ti_start = a, ti_end = b, ti_category = None,
     ti_description = '' work '', ti_work_type = '''', ti_project = None, ti_billable = ''''\<rparr>"

lemma sample_timeEntrySpan:
  assumes "0 \<le> a" "a < b" "b \<le> 1440" "sample_tz z = Some loc" "parse_date day = Some n" "19786 \<le> n" "n \<le> 19799"
  shows "timeEntrySpan sample_tz (sample_input day a b) (sample_db z rows) = Inr (date_in loc n a, date_in loc n b)"
  using assms
  by (simp add: timeEntrySpan_def sample_input_def sample_db_def q_GetPeriod_def find_row_def parseDate_def
      sample_period_def sample_dates ListTzSegments_def q_ListTzSegments_def select_rows_def activeSegment_def loadLoc_def Let_def)

end
