(* ===== verification/Core_Properties.thy ===== *)
theory Core_Properties
  imports Samples
begin

text \<open>
  The properties of work schedules, pay periods, gaps and the ledger, each with a witness that
  applies it to a concrete input of \<open>Samples\<close>.
\<close>


section \<open>Work schedules\<close>

text \<open>
  C1. After a work schedule was replaced, a date from its first day on that has no exception
  resolves to the weekday of the new template: its minutes, its windows in the order of their
  starts, its zone and its first weekday.
\<close>

theorem replace_schedule_resolves:
  assumes "schedules_wf d" "ReplaceActiveWorkSchedule tz input d = (Inr v, d')"
    and "parse_date date = Some day" "trim_space (si_from input) \<le> date"
    and "q_GetScheduleExceptionByDate date d = None"
  shows "\<exists>x \<in> set (si_days input).
    to_lower (trim_space (sd_weekday x)) = weekday_of day \<and>
    ExpectedTimeForDate date d' = Inr
      \<lparr>et_date = date, et_minutes = sd_expected x, et_windows = sort_key wn_start (sd_windows x),
       et_source = ''weekday'', et_exception_kind = '''', et_timezone = trim_space (si_timezone input),
       et_workweek_start = to_lower (trim_space (si_workweek_start input))\<rparr>"
proof -
  have ids: "ids_ok ws_id (db_schedules d)" using assms(1) by (simp add: schedules_wf_def)
  show ?thesis
    unfolding replace_Inr(1) [OF assms(2) ids]
    by (rule replaced_resolves [OF assms(1) replace_Inr(3) [OF assms(2) ids] assms(3-5)])
qed

theorem replace_schedule_resolves_witness:
  "\<exists>x \<in> set (si_days sample_schedule).
    to_lower (trim_space (sd_weekday x)) = weekday_of 19787 \<and>
    ExpectedTimeForDate ''2024-03-05'' (replaced sample_schedule empty_db) = Inr
      \<lparr>et_date = ''2024-03-05'', et_minutes = sd_expected x, et_windows = sort_key wn_start (sd_windows x),
       et_source = ''weekday'', et_exception_kind = '''', et_timezone = trim_space (si_timezone sample_schedule),
       et_workweek_start = to_lower (trim_space (si_workweek_start sample_schedule))\<rparr>"
proof -
  obtain v where run: "ReplaceActiveWorkSchedule sample_tz sample_schedule empty_db =
      (Inr v, replaced sample_schedule empty_db)"
    using sample_replace by blast
  have since: "trim_space (si_from sample_schedule) \<le> ''2024-03-05''"
    unfolding sample_schedule_fields by code_simp
  have none: "q_GetScheduleExceptionByDate ''2024-03-05'' empty_db = None"
    by (simp add: q_GetScheduleExceptionByDate_def find_row_def empty_db_def empty_table_def)
  show ?thesis
    by (rule replace_schedule_resolves [OF empty_schedules_wf run sample_dates(2) since none])
qed

text \<open>
  C2. Replacing a work schedule leaves history alone: every date before the first day of the new
  one resolves to what it resolved to before.
\<close>

theorem replace_schedule_keeps_history:
  assumes "schedules_wf d" "ReplaceActiveWorkSchedule tz input d = (Inr v, d')"
    and "trim_space date < trim_space (si_from input)"
  shows "ExpectedTimeForDate date d' = ExpectedTimeForDate date d"
proof -
  have ids: "ids_ok ws_id (db_schedules d)" using assms(1) by (simp add: schedules_wf_def)
  show ?thesis
    unfolding replace_Inr(1) [OF assms(2) ids] by (rule replaced_history [OF assms(1,3)])
qed

theorem replace_schedule_keeps_history_witness:
  "ExpectedTimeForDate ''2024-03-01'' (replaced sample_schedule empty_db) =
   ExpectedTimeForDate ''2024-03-01'' empty_db"
proof -
  obtain v where run: "ReplaceActiveWorkSchedule sample_tz sample_schedule empty_db =
      (Inr v, replaced sample_schedule empty_db)"
    using sample_replace by blast
  have before: "trim_space ''2024-03-01'' < trim_space (si_from sample_schedule)"
    unfolding sample_schedule_fields by code_simp
  show ?thesis
    by (rule replace_schedule_keeps_history [OF empty_schedules_wf run before])
qed

text \<open>
  Replacing keeps the tables well formed, so that at any date at most one schedule is in
  effect, and the lookup of a date finds it.
\<close>

theorem replace_schedule_keeps_invariant:
  assumes "schedules_wf d" "ReplaceActiveWorkSchedule tz input d = (Inr v, d')"
  shows "schedules_wf d' \<and>
    (\<forall>x \<in> set (tbl_rows (db_schedules d')). \<forall>date.
       in_effect date x \<longrightarrow> q_GetWorkScheduleForDate date d' = Some x)"
proof -
  have ids: "ids_ok ws_id (db_schedules d)" using assms(1) by (simp add: schedules_wf_def)
  note run = replace_Inr [OF assms(2) ids]
  have wf: "schedules_wf d'"
    unfolding run(1)
    by (rule replaced_wf [OF assms(1)]) (use run(5,6) in \<open>simp_all add: new_schedule_def ws_ok_def\<close>)
  then show ?thesis using schedule_for_date by blast
qed

theorem replace_schedule_keeps_invariant_witness:
  "schedules_wf (replaced sample_schedule empty_db)"
proof -
  obtain v where run: "ReplaceActiveWorkSchedule sample_tz sample_schedule empty_db =
      (Inr v, replaced sample_schedule empty_db)"
    using sample_replace by blast
  show ?thesis
    using replace_schedule_keeps_invariant [OF empty_schedules_wf run] by blast
qed

text \<open>
  A replacement with a known zone, a weekday to start the week, a date and one valid template
  for each weekday succeeds, unless a schedule still in effect starts on that date or later.
\<close>

theorem replace_schedule_succeeds:
  assumes "schedules_wf d"
    and "trim_space (si_timezone input) \<noteq> ''''" "tz (trim_space (si_timezone input)) \<noteq> None"
    and "to_lower (trim_space (si_workweek_start input)) \<in> set weekdays"
    and "parse_date (trim_space (si_from input)) \<noteq> None"
    and "validateScheduleDays (si_days input) = Inr ()"
    and "\<forall>r \<in> set (tbl_rows (db_schedules d)).
       ws_to r = None \<or> trim_space (si_from input) < the (ws_to r) \<longrightarrow> ws_from r < trim_space (si_from input)"
  shows "\<exists>v d'. ReplaceActiveWorkSchedule tz input d = (Inr v, d')"
proof -
  obtain v where "ReplaceActiveWorkSchedule tz input d = (Inr v, replaced input d)"
    using replace_run [of d input tz] assms by blast
  then show ?thesis by blast
qed

theorem replace_schedule_succeeds_witness:
  "\<exists>v d'. ReplaceActiveWorkSchedule sample_tz sample_schedule empty_db = (Inr v, d')"
  by (rule replace_schedule_succeeds [OF empty_schedules_wf])
    (simp_all add: sample_schedule_fields sample_schedule_valid sample_dates sample_tz_def weekdays_def
      empty_db_def empty_table_def)

text \<open>
  An exception that was written is what its date resolves to, whatever the weekday template
  says, and the table of exceptions stays well formed: one row per date.
\<close>

theorem exception_resolves:
  assumes "exceptions_wf d" "UpsertScheduleException input d = (Inr v, d')"
    and "q_GetWorkScheduleForDate (trim_space (xi_date input)) d = Some sched"
  shows "exceptions_wf d' \<and> ExpectedTimeForDate (xi_date input) d' = Inr
    \<lparr>et_date = trim_space (xi_date input), et_minutes = xi_expected input,
     et_windows = sort_key wn_start (xi_windows input), et_source = ''exception'',
     et_exception_kind = to_lower (trim_space (xi_kind input)), et_timezone = ws_timezone sched,
     et_workweek_start = ws_workweek_start sched\<rparr>"
proof -
  obtain i where "exceptions_wf d'" using upsert_exception_state [OF assms(2,1)] by blast
  then show ?thesis using upsert_exception_resolves [OF assms(2,1,3)] by simp
qed

theorem exception_resolves_witness:
  "\<exists>d'. ExpectedTimeForDate ''2024-03-05'' d' = Inr
    \<lparr>et_date = ''2024-03-05'', et_minutes = 0, et_windows = [], et_source = ''exception'',
     et_exception_kind = ''holiday'', et_timezone = ''EST'', et_workweek_start = ''monday''\<rparr>"
proof -
  obtain v d' where run: "UpsertScheduleException sample_holiday (replaced sample_schedule empty_db) = (Inr v, d')"
    using sample_holiday_run by blast
  have le: "''2024-03-04'' \<le> ''2024-03-05''" by code_simp
  have "q_GetWorkScheduleForDate (trim_space (xi_date sample_holiday)) (replaced sample_schedule empty_db) =
      Some (new_schedule sample_schedule empty_db)"
    unfolding sample_holiday_fields(1) q_GetWorkScheduleForDate_def find_row_def
    by (simp add: replaced_def Let_def empty_db_def empty_table_def in_effect_def new_schedule_def sample_schedule_fields le)
  from exception_resolves [OF sample_exceptions_wf run this] show ?thesis
    unfolding sample_holiday_fields trim_parsed_date [OF sample_dates(2)]
    by (auto simp: sample_schedule_fields new_schedule_def)
qed

text \<open>
  A range of dates resolves day by day: one result for each date, in order, and no date in a
  valid range fails.
\<close>

theorem expected_time_range:
  assumes "parse_date (trim_space s) = Some a" "parse_date (trim_space e) = Some b" "a \<le> b"
  shows "\<exists>xs. ExpectedTimeForRange s e d = Inr xs \<and> map et_date xs = map format_date [a..b] \<and>
     list_all2 (\<lambda>day x. ExpectedTimeForDate (format_date day) d = Inr x) [a..b] xs"
  by (rule expected_range [OF assms])

theorem expected_time_range_witness:
  "\<exists>xs. ExpectedTimeForRange ''2024-03-04'' '' 2024-03-17'' empty_db = Inr xs \<and>
     map et_date xs = map format_date [19786..19799] \<and>
     list_all2 (\<lambda>day x. ExpectedTimeForDate (format_date day) empty_db = Inr x) [19786..19799] xs"
  by (rule expected_time_range, code_simp, code_simp, simp)

section \<open>Periods\<close>

text \<open>
  C7. Asking for the current period always gives one: it contains the day, it is stored, it has a
  zone, and asking again from the state it left gives the same period and changes nothing.
\<close>

theorem current_period:
  assumes "parse_date today = Some n" "- 719498 \<le> n" "n \<le> 2932866"
    and "periodCadence (ListPeriods d) d \<in> {''weekly'', ''bi-weekly'', ''semi-monthly'', ''monthly''}"
  shows "\<exists>p d'. EnsureCurrentPeriod today iana d = (Inr p, d') \<and> periodContains p today \<and>
     p \<in> set (tbl_rows (db_periods d')) \<and> ListTzSegments (pd_id p) d' \<noteq> [] \<and>
     EnsureCurrentPeriod today iana' d' = (Inr p, d')"
  by (rule ensure_period [OF assms])

theorem current_period_witness:
  "\<exists>p d'. EnsureCurrentPeriod ''2024-03-05'' ''EST'' empty_db = (Inr p, d') \<and> periodContains p ''2024-03-05'' \<and>
     p \<in> set (tbl_rows (db_periods d')) \<and> ListTzSegments (pd_id p) d' \<noteq> [] \<and>
     EnsureCurrentPeriod ''2024-03-05'' '''' d' = (Inr p, d')"
proof -
  have "periodCadence (ListPeriods empty_db) empty_db = ''bi-weekly''"
    by (simp add: periodCadence_def ListPeriods_def q_ListPeriods_def sort_desc_def q_GetSetting_def
        empty_db_def empty_table_def)
  then show ?thesis
    using current_period [OF sample_dates(2), of empty_db "''EST''" "''''"] by simp
qed

text \<open>
  C8. The periods of one anchor and cadence tile the calendar. The range computed for a day runs
  from a day \<open>s\<close> to a day \<open>e\<close> with the day among them; it is one or two whole weeks counted from
  the anchor, the days 1 to 15 or 16 to the last of a calendar month, or a calendar month, by the
  cadence; every day from \<open>s\<close> to \<open>e\<close> has that same range; the range of the day after \<open>e\<close> starts on
  that day, and the range of the day before \<open>s\<close> ends on it. The day lies within 106600 days of the
  anchor, the reach of a \<open>time.Duration\<close>.
\<close>

theorem period_ranges_tile:
  assumes "parse_date anchor = Some a" "\<bar>today - a\<bar> < 106600"
  shows "\<exists>s e. currentPeriodRange today anchor cadence = (format_date s, format_date e) \<and>
     s \<le> today \<and> today \<le> e \<and>
     (if cadence = ''weekly'' then e = s + 6 \<and> 7 dvd s - a
      else if cadence = ''semi-monthly'' then
        (case civil_of_day s of (y, m, dm) \<Rightarrow>
           dm = 1 \<and> civil_of_day e = (y, m, 15) \<or>
           dm = 16 \<and> civil_of_day e = (y, m, days_in_month y m))
      else if cadence = ''monthly'' then
        (case civil_of_day s of (y, m, dm) \<Rightarrow> dm = 1 \<and> civil_of_day e = (y, m, days_in_month y m))
      else e = s + 13 \<and> 14 dvd s - a) \<and>
     (\<forall>j. s \<le> j \<and> j \<le> e \<longrightarrow> currentPeriodRange j anchor cadence = (format_date s, format_date e)) \<and>
     fst (currentPeriodRange (e + 1) anchor cadence) = format_date (e + 1) \<and>
     snd (currentPeriodRange (s - 1) anchor cadence) = format_date (s - 1)"
proof -
  obtain s e where r: "range_days today anchor cadence = (s, e)"
    by (cases "range_days today anchor cadence") auto
  have close: "\<bar>today - a\<bar> < 106720" using assms(2) by simp
  show ?thesis
    using range_days_contains [of today anchor cadence] range_days_next [OF assms r]
      range_days_shape [OF assms(1) close r] range_days_same [OF assms(1) close, of cadence]
    by (intro exI [of _ s] exI [of _ e]) (simp add: current_range r range_shape_def)
qed

theorem period_ranges_tile_witness:
  "\<exists>s e. currentPeriodRange 19787 ''2024-03-04'' ''semi-monthly'' = (format_date s, format_date e) \<and>
     s \<le> 19787 \<and> 19787 \<le> e \<and>
     (case civil_of_day s of (y, m, dm) \<Rightarrow>
        dm = 1 \<and> civil_of_day e = (y, m, 15) \<or> dm = 16 \<and> civil_of_day e = (y, m, days_in_month y m)) \<and>
     fst (currentPeriodRange (e + 1) ''2024-03-04'' ''semi-monthly'') = format_date (e + 1)"
proof -
  have names: "(''semi-monthly'' = ''weekly'') = False" "(''semi-monthly'' = ''semi-monthly'') = True"
    by simp_all
  have close: "\<bar>19787 - 19786\<bar> < (106600 :: int)" by simp
  show ?thesis
    using period_ranges_tile [OF sample_dates(1) close, of "''semi-monthly''"]
    unfolding names if_True if_False by (elim exE conjE) (intro exI conjI)
qed

section \<open>Timelines\<close>

text \<open>
  C9. The union of spans is a canonical form: it covers the same instants, its spans are disjoint
  and do not touch, and it does not depend on the order of the input.
\<close>

theorem union_canonical:
  assumes "list_all nonempty xs" "list_all nonempty ys" "cover xs = cover ys"
  shows "union_ivs xs = union_ivs ys \<and> separated (union_ivs xs) \<and> cover (union_ivs xs) = cover xs"
  using union_ivs_cong [OF assms] assms(3) separated_union_ivs [of xs] cover_union_ivs [of xs] by simp

theorem union_canonical_witness:
  "union_ivs [mk_iv 1 4, mk_iv 0 2] = union_ivs [mk_iv 0 3, mk_iv 2 4]"
proof -
  have "cover [mk_iv 1 4, mk_iv 0 2] = cover [mk_iv 0 3, mk_iv 2 4]"
    by (auto simp: covered_def)
  then show ?thesis
    using union_canonical [of "[mk_iv 1 4, mk_iv 0 2]" "[mk_iv 0 3, mk_iv 2 4]"] by (simp add: nonempty_def)
qed

text \<open>
  C10. The gaps of a day are its working time without the time of its events and entries, and what
  is shown as events and entries is their part of the working time: nothing is lost or counted
  that is not there. The covered and the uncovered duration add up to the working time.
\<close>

theorem gaps_partition:
  assumes "ComputeGaps tz p d = Inr ts" "i < length ts"
  shows "\<exists>et working. workingWindowsUTC tz et = Inr working \<and> dt_date (ts ! i) = et_date et \<and>
     (\<exists>day. ExpectedTimeForDate day d = Inr et) \<and>
     cover (dt_gaps (ts ! i)) = cover working -
       (cover (List.map_filter event_span (q_ListEventsForPeriod p d)) \<union>
        cover (map entry_span (q_ListTimeEntriesForPeriod p d))) \<and>
     cover (dt_events (ts ! i)) = cover (List.map_filter event_span (q_ListEventsForPeriod p d)) \<inter> cover working \<and>
     cover (dt_filled (ts ! i)) = cover (map entry_span (q_ListTimeEntriesForPeriod p d)) \<inter> cover working \<and>
     (list_all nonempty working \<and> (\<forall>x \<in> set working. \<forall>y \<in> set working. iv_end y - iv_start x < 2 ^ 63) \<longrightarrow>
        dt_covered (ts ! i) + dt_gap (ts ! i) = total_duration working)"
proof -
  let ?es = "List.map_filter event_span (q_ListEventsForPeriod p d)"
  let ?fs = "map entry_span (q_ListTimeEntriesForPeriod p d)"
  obtain period expected where "q_GetPeriod p d = Some period" "ListTzSegments p d \<noteq> []"
    and "ExpectedTimeForRange (pd_start period) (pd_end period) d = Inr expected"
    and each: "list_all2 (\<lambda>et t. \<exists>working. workingWindowsUTC tz et = Inr working \<and>
       t = day_timeline_of (et_date et) (sg_tz (activeSegment (ListTzSegments p d) (et_date et))) working ?es ?fs)
       expected ts"
    by (rule compute_gaps_Inr [OF assms(1)])
  then have "\<exists>day. ExpectedTimeForDate day d = Inr (expected ! i)"
    using expected_range_each [OF _ nth_mem] assms(2) list_all2_lengthD [OF each] by simp
  moreover obtain working where working: "workingWindowsUTC tz (expected ! i) = Inr working"
    "ts ! i = day_timeline_of (et_date (expected ! i))
       (sg_tz (activeSegment (ListTzSegments p d) (et_date (expected ! i)))) working ?es ?fs"
    using list_all2_nthD2 [OF each assms(2)] by blast
  moreover have "dt_date (ts ! i) = et_date (expected ! i)"
    by (simp add: working(2) day_timeline_of_def Let_def)
  moreover have "cover (dt_gaps (ts ! i)) = cover working - (cover ?es \<union> cover ?fs)"
    "cover (dt_events (ts ! i)) = cover ?es \<inter> cover working"
    "cover (dt_filled (ts ! i)) = cover ?fs \<inter> cover working"
    by (simp_all only: working(2) timeline_partition)
  moreover have "dt_covered (ts ! i) + dt_gap (ts ! i) = total_duration working"
    if "list_all nonempty working" "\<forall>x \<in> set working. \<forall>y \<in> set working. iv_end y - iv_start x < 2 ^ 63"
    unfolding working(2) by (rule timeline_durations [OF working_windows_separated [OF working(1)] that])
  ultimately show ?thesis by blast
qed

theorem gaps_partition_witness:
  "\<exists>t et working. ComputeGaps sample_tz 1 (replaced sample_schedule one_day_db) = Inr [t] \<and>
     workingWindowsUTC sample_tz et = Inr working \<and> dt_date t = et_date et \<and>
     cover (dt_filled t) = cover (map entry_span
       (q_ListTimeEntriesForPeriod 1 (replaced sample_schedule one_day_db))) \<inter> cover working"
proof -
  obtain ts where ts: "ComputeGaps sample_tz 1 (replaced sample_schedule one_day_db) = Inr ts" "length ts = 1"
    using worked_gaps by blast
  then obtain t where "ts = [t]" by (auto simp: length_Suc_conv)
  with gaps_partition [OF ts(1), of 0] ts show ?thesis by auto
qed


section \<open>The ledger\<close>

text \<open>
  C11. In a zone of fixed offset the loop that splits a span at local midnights returns, and its
  segments follow one another from the start of the span to its end, each within one local day.
\<close>

theorem split_at_midnights:
  assumes "s \<le> e"
  shows "\<exists>ivs. splitAtLocalMidnights (fixed_location c) s e = Some ivs \<and> contiguous s ivs e \<and>
    (\<forall>iv \<in> set ivs. \<forall>t \<in> covered iv.
       local_day (fixed_location c) t = local_day (fixed_location c) (iv_start iv))"
  by (rule split_fixed [OF assms, of c]) blast

theorem split_at_midnights_witness:
  "\<exists>ivs. splitAtLocalMidnights est (at_minute 0) (at_minute 900) = Some ivs \<and> contiguous (at_minute 0) ivs (at_minute 900) \<and>
    (\<forall>iv \<in> set ivs. \<forall>t \<in> covered iv. local_day est t = local_day est (iv_start iv))"
  unfolding est_def by (rule split_at_midnights) (simp add: at_minute_def)

text \<open>
  Where a zone behind UTC skips local midnight, the loop never returns: in Havana on 10 March 2024
  it comes back to 23:00 of the evening before again and again.
\<close>

theorem split_never_returns:
  "splitAtLocalMidnights havana (19792 * (24 * hour) + 3 * hour) (19792 * (24 * hour) + 7 * hour) = None"
  unfolding splitAtLocalMidnights_def
  by (rule split_stuck_later [OF havana_midnight]) (simp_all add: hour_def minute_def second_def)

text \<open>
  C13. Whatever is done to a draft leaves the rest alone: confirming it (without keep_mine),
  rejecting, adjusting and splitting it change only the ledger, never remove or change a row of
  another id, and so keep every confirmed entry.
\<close>

theorem draft_handlers_keep_others:
  assumes "cf_overlap input \<noteq> OverlapKeepMine" "ids_ok te_id (db_entries d)"
    and "q_GetTimeEntry (cf_id input) (cf_period input) d = Some row" "te_attestation row = ''draft''"
    and "d' \<in> {snd (ConfirmTimeEntry tz input d), snd (RejectTimeEntry (cf_id input) (cf_period input) d),
               snd (AdjustDraftTimeEntry tz (cf_id input) change d),
               snd (SplitTimeEntry tz (cf_id input) (cf_period input) cuts d)}"
    and "r \<in> set (tbl_rows (db_entries d))" "te_id r \<noteq> cf_id input \<or> te_attestation r = ''confirmed''"
  shows "r \<in> set (tbl_rows (db_entries d')) \<and> d' = d\<lparr>db_entries := db_entries d'\<rparr>"
proof -
  have kept: "kept {cf_id input} d d'"
    using assms(5) movesD [OF kept_confirm [OF assms(1), of tz], of d] movesD [OF kept_reject [of "cf_id input" "cf_period input"], of d]
      movesD [OF kept_adjust [of "cf_id input" tz change], of d]
      movesD [OF kept_user_split [of "cf_id input" tz "cf_period input" cuts], of d] by auto
  moreover have "te_attestation r = ''confirmed'' \<Longrightarrow> r \<in> set (tbl_rows (db_entries d'))"
    using confirmed_kept [OF kept assms(2,3) _ assms(6)] assms(4) by simp
  ultimately show ?thesis using assms(6,7) by (auto simp: kept_def)
qed

theorem draft_handlers_keep_others_witness:
  "night_entry \<in> set (tbl_rows (db_entries
     (snd (ConfirmTimeEntry sample_tz (confirm_with '''' OverlapAllowParallel) (night_db [night_entry])))))"
  using draft_handlers_keep_others [of "confirm_with '''' OverlapAllowParallel" "night_db [night_entry]" night_draft
      "snd (ConfirmTimeEntry sample_tz (confirm_with '''' OverlapAllowParallel) (night_db [night_entry]))" sample_tz
      "sample_input ''2024-03-05'' 60 90" "[]" night_entry] night_ids(2) night_get [of "[night_entry]"]
  by simp

text \<open>
  A handler of the ledger that reports an error has changed nothing; confirming with keep_mine
  is the exception.
\<close>

theorem failed_handlers_change_nothing:
  "(cf_overlap input \<noteq> OverlapKeepMine \<longrightarrow> atomic (ConfirmTimeEntry tz input)) \<and>
   atomic (RejectTimeEntry i p) \<and> atomic (AdjustDraftTimeEntry tz i change) \<and>
   atomic (SplitTimeEntry tz i p cuts) \<and> atomic (CreateTimeEntry tz change) \<and>
   atomic (CreateGapTimeEntry tz change) \<and> atomic (UpdateTimeEntry tz i change)"
  by (simp add: atomic_confirm atomic_reject atomic_adjust atomic_split atomic_user_update
      CreateTimeEntry_def CreateGapTimeEntry_def atomic_create)

theorem failed_handlers_change_nothing_witness:
  "atomic (ConfirmTimeEntry sample_tz (confirm_with OvernightSplitAtMidnight ''''))"
  using failed_handlers_change_nothing [of "confirm_with OvernightSplitAtMidnight ''''" sample_tz] by simp





text \<open>
  Splitting a draft at cut points replaces it by one draft more than there are cuts, which
  follow one another from its start to its end; the original is dismissed.
\<close>

theorem split_draft:
  assumes "SplitTimeEntry tz i p raws d = (Inr out, d')" "ids_ok te_id (db_entries d)"
    and "list_all (te_ok d) (tbl_rows (db_entries d))"
  shows "\<exists>row s e loc ivs. q_GetTimeEntry i p d = Some row \<and> te_attestation row = ''draft'' \<and>
    parse_rfc3339 (te_start row) = Some s \<and> parse_rfc3339 (te_end row) = Some e \<and>
    contiguous s ivs e \<and> length ivs = length raws + 1 \<and>
    out = piece_rows (tbl_seq (db_entries d)) row ''draft'' loc ivs \<and>
    d' = replace_with_pieces row ''draft'' loc ivs d"
  by (rule split_entry_Inr [OF assms]) blast

theorem split_draft_witness:
  "\<exists>out d'. SplitTimeEntry sample_tz 1 1 [format_rfc3339 (at_minute 1700)] (night_db []) = (Inr out, d') \<and> length out = 2"
proof -
  have "parse_cuts (at_minute 1680) (at_minute 1800) [format_rfc3339 (at_minute 1700)] = Inr [at_minute 1700]"
    by (simp add: at_minute_text)
  then have "\<exists>out. SplitTimeEntry sample_tz 1 1 [format_rfc3339 (at_minute 1700)] (night_db []) =
      (Inr out, replace_with_pieces night_draft ''draft'' est
        (segments_between (at_minute 1680 # [at_minute 1700] @ [at_minute 1800])) (night_db []))"
    by (intro split_entry_run [where s = "at_minute 1680" and e = "at_minute 1800"] night_get night_ids(1) sample_span sample_te_ok)
      (simp_all add: attestations_def)
  then obtain out where run: "SplitTimeEntry sample_tz 1 1 [format_rfc3339 (at_minute 1700)] (night_db []) =
      (Inr out, replace_with_pieces night_draft ''draft'' est
        (segments_between (at_minute 1680 # [at_minute 1700] @ [at_minute 1800])) (night_db []))" by blast
  from split_draft [OF run night_ids(1)] have "length out = 2"
    by (auto simp: sample_te_ok attestations_def)
  then show ?thesis using run by blast
qed

text \<open>
  What creating an entry stores, in a zone of fixed offset: the instants of the given minutes
  on the given day, as texts that read back as those instants, with as many minutes as lie between
  them, confirmed, and, when it fills a gap, marked so.
\<close>

theorem created_entry:
  assumes "createTimeEntry tz input gap d = (Inr r, d')" "parse_date (ti_day input) = Some day"
    and "- 719498 \<le> day" "day \<le> 2932866" "- 86400 \<le> c" "c \<le> 86400"
    and "tz (sg_tz (activeSegment (ListTzSegments (ti_period input) d) (ti_day input))) = Some (fixed_location c)"
  shows "tbl_rows (db_entries d') = tbl_rows (db_entries d) @ [r] \<and>
    parse_rfc3339 (te_start r) = Some (date_in (fixed_location c) day (ti_start input)) \<and>
    parse_rfc3339 (te_end r) = Some (date_in (fixed_location c) day (ti_end input)) \<and>
    te_duration r = ti_end input - ti_start input \<and> 0 < te_duration r \<and> te_day r = ti_day input \<and>
    te_attestation r = ''confirmed'' \<and> te_method r = (if gap then Some ''gap_fill'' else None) \<and>
    te_description r = trim_space (ti_description input)"
proof -
  obtain s e wt bs where span: "timeEntrySpan tz input d = Inr (s, e)"
    and r: "r = (input_row input s e wt bs)\<lparr>te_id := tbl_seq (db_entries d) + 1,
            te_method := (if gap then Some ''gap_fill'' else None)\<rparr>"
    and d': "d' = d\<lparr>db_entries := add_rows [r] (db_entries d)\<rparr>"
    by (rule create_entry_run [OF assms(1)])
  from timeEntrySpan_Inr [OF span] assms(2,7) have s: "s = date_in (fixed_location c) day (ti_start input)"
    "e = date_in (fixed_location c) day (ti_end input)" and m: "0 \<le> ti_start input" "ti_start input < ti_end input" "ti_end input \<le> 1440"
    by (metis option.inject)+
  have print: "printable (date_in (fixed_location c) day m)" if "0 \<le> m" "m \<le> 1440" for m
  proof -
    let ?u = "day * 86400 + m * 60 - c"
    have "(- 719500 * 86400) div 86400 \<le> ?u div 86400" "?u div 86400 \<le> (2932868 * 86400) div 86400"
      using assms(3-6) that by (intro zdiv_mono1; simp)+
    then show ?thesis by (simp add: date_in_fixed printable_def printable_day_def)
  qed
  show ?thesis
    using m fixed_duration [of "ti_start input" "ti_end input" c day] print parse_format_date_in
    by (simp add: r d' input_row_def s)
qed

theorem created_entry_witness:
  "\<exists>r d'. createTimeEntry sample_tz (sample_input (format_date 19787) 540 600) True (sample_db (''EST'') []) = (Inr r, d') \<and>
     te_duration r = 60"
proof -
  let ?in = "sample_input (format_date 19787) 540 600" and ?d = "sample_db ''EST'' []"
  have date: "parse_date (format_date 19787) = Some 19787" by (simp add: printable_day_def)
  have span: "timeEntrySpan sample_tz ?in ?d = Inr (date_in est 19787 540, date_in est 19787 600)"
    by (rule sample_timeEntrySpan) (simp_all add: sample_tz_def date)
  have "normalizeTimeEntryAllocation (ti_work_type ?in) (ti_billable ?in) = Inr (''worked'', ''unset'')"
    by (simp add: sample_input_def normalizeTimeEntryAllocation_def trim_space_def Let_def work_types_def billable_statuses_def)
  moreover have "te_ok ?d ((input_row ?in s e ''worked'' ''unset'')\<lparr>te_method := m, te_id := 1\<rparr>)" for s e m
    by (simp add: te_ok_def input_row_def sample_input_def sample_db_def has_id_def sample_period_def ref_ok_def
        work_types_def billable_statuses_def attestations_def)
  ultimately obtain r d' where run: "createTimeEntry sample_tz ?in True ?d = (Inr r, d')"
    using span by (simp add: createTimeEntry_def act_bind_def q_CreateTimeEntry_def insert_into_def mapErr_def Let_def)
  have "te_duration r = ti_end ?in - ti_start ?in"
    using created_entry [OF run, of 19787 "- 18000"] date
    by (simp add: sample_input_def sample_db_def ListTzSegments_def q_ListTzSegments_def select_rows_def
        activeSegment_def sample_tz_def est_def)
  then show ?thesis using run by (simp add: sample_input_def)
qed

text \<open>
  keep_mine deletes the confirmed entries in the way before the rest of the confirmation is
  checked, and outside a transaction: a draft that runs past midnight and comes without an
  overnight choice is refused, and the entries are gone.
\<close>

theorem keep_mine_loses_entries:
  assumes "0 < cf_id input" "0 < cf_period input"
    and "q_GetTimeEntry (cf_id input) (cf_period input) d = Some row" "te_attestation row = ''draft''"
    and "timeEntryLocalSpan tz row d = Inr (s, e, loc)"
    and "overlappingConfirmed (te_period row) (te_id row) s e d \<noteq> []" "cf_overlap input = OverlapKeepMine"
    and "crossesLocalMidnight loc s e" "cf_overnight input = ''''"
    and "r \<in> set (overlappingConfirmed (te_period row) (te_id row) s e d)"
  shows "fst (ConfirmTimeEntry tz input d) = Inl ErrInvalidInput \<and>
    r \<in> set (tbl_rows (db_entries d)) \<and>
    r \<notin> set (tbl_rows (db_entries (snd (ConfirmTimeEntry tz input d))))"
  using assms(10) overlapping_member
  by (auto simp: keep_mine_deletes [OF assms(1-7)] confirm_resolved_def assms(8,9) without_def)

theorem keep_mine_loses_entries_witness:
  "night_entry \<notin> set (tbl_rows (db_entries
     (snd (ConfirmTimeEntry sample_tz (confirm_with [] OverlapKeepMine) (night_db [night_entry])))))"
proof -
  have "crossesLocalMidnight est (at_minute 1680) (at_minute 1800)"
    using night_days by (simp add: crossesLocalMidnight_def local_day_def wall_seconds_def est_def fixed_location_def
        unix_seconds_def at_minute_whole second_def)
  then show ?thesis
    using keep_mine_loses_entries [of "confirm_with [] OverlapKeepMine" "night_db [night_entry]" night_draft
        sample_tz "at_minute 1680" "at_minute 1800" est night_entry]
      night_get [of "[night_entry]"] night_overlaps(2) sample_span
    by simp
qed

text \<open>
  On a day whose clocks go forward an entry of 30 minutes can end before it starts: 1:45 to
  2:15 in New York on 10 March 2024 is stored with the duration -30.
\<close>

theorem spring_forward_entry:
  "\<exists>s e. timeEntrySpan sample_tz (sample_input ''2024-03-10'' 105 135) (sample_db ''America/New_York'' []) = Inr (s, e) \<and>
     e < s \<and> durationMinutes s e = - 30"
proof -
  have "timeEntrySpan sample_tz (sample_input ''2024-03-10'' 105 135) (sample_db ''America/New_York'' []) =
      Inr (date_in new_york 19792 105, date_in new_york 19792 135)"
    by (rule sample_timeEntrySpan) (simp_all add: sample_tz_def sample_dates)
  moreover have "date_in new_york 19792 105 = 1710053100 * second" "date_in new_york 19792 135 = 1710051300 * second"
    by (simp_all add: date_in_def new_york_def)
  ultimately show ?thesis
    by (simp add: durationMinutes_def time_sub_def second_def go_div_def minute_def)
qed

text \<open>
  A draft that ends exactly at local midnight lies within one day, yet it counts as one that
  runs past midnight: it cannot be confirmed without an overnight choice, and split_at_midnight is
  refused too, because there is only one segment.
\<close>

theorem midnight_end_refused:
  assumes "0 < cf_id input" "0 < cf_period input"
    and "q_GetTimeEntry (cf_id input) (cf_period input) d = Some row" "te_attestation row = ''draft''"
    and "timeEntryLocalSpan tz row d = Inr (s, e, fixed_location c)" "s < e"
    and "e = nextMidnight (fixed_location c) s"
    and "overlappingConfirmed (te_period row) (te_id row) s e d = []" "cf_overlap input = ''''"
    and "cf_overnight input \<noteq> OvernightAttributeToStart"
  shows "\<exists>err. ConfirmTimeEntry tz input d = (Inl err, d)"
proof -
  have day: "local_day (fixed_location c) e = local_day (fixed_location c) s + 1"
    unfolding assms(7) nextMidnight_def by (rule local_day_date_in_fixed) simp_all
  have "splitAtLocalMidnights (fixed_location c) s e = Some [mk_iv s e]"
    unfolding splitAtLocalMidnights_def
    using assms(6) by (subst split_from.simps, subst split_from.simps) (simp add: assms(7) [symmetric] Let_def)
  then show ?thesis
    using confirm_guards(1) [OF assms(1-5,8,9)] day assms(10)
    by (auto simp: confirm_resolved_def confirmSplitAtMidnight_def crossesLocalMidnight_def)
qed

theorem midnight_end_refused_witness:
  "\<exists>err. ConfirmTimeEntry sample_tz (confirm_with OvernightSplitAtMidnight [])
     (sample_db ''EST'' [sample_entry 1 (at_minute 1680) (at_minute 1740) ''draft'']) =
     (Inl err, sample_db ''EST'' [sample_entry 1 (at_minute 1680) (at_minute 1740) ''draft''])"
proof (rule midnight_end_refused)
  let ?d = "sample_db ''EST'' [sample_entry 1 (at_minute 1680) (at_minute 1740) ''draft'']"
  show "timeEntryLocalSpan sample_tz (sample_entry 1 (at_minute 1680) (at_minute 1740) ''draft'') ?d =
      Inr (at_minute 1680, at_minute 1740, fixed_location (- 18000))"
    by (rule sample_span [unfolded est_def]) simp_all
  show "at_minute 1740 = nextMidnight (fixed_location (- 18000)) (at_minute 1680)"
    by (simp add: next_midnight_fixed at_minute_whole)
  show "q_GetTimeEntry (cf_id (confirm_with OvernightSplitAtMidnight [])) (cf_period (confirm_with OvernightSplitAtMidnight [])) ?d =
      Some (sample_entry 1 (at_minute 1680) (at_minute 1740) ''draft'')"
    by (simp add: q_GetTimeEntry_def find_row_def)
qed (simp_all add: overlappingConfirmed_def q_ListTimeEntriesForPeriod_def select_rows_def)

text \<open>
  Dates and instants survive storage: a date that parses prints back as the same text, a
  printable day and a printable whole-second instant are read back as themselves, and comparing
  date texts is comparing days.
\<close>

theorem stored_times_round_trip:
  "(parse_date text = Some n \<longrightarrow> format_date n = text) \<and>
   (printable_day n \<longrightarrow> parse_date (format_date n) = Some n) \<and>
   (printable (k * second) \<longrightarrow> parse_rfc3339 (format_rfc3339 (k * second)) = Some (k * second)) \<and>
   (printable_day n \<longrightarrow> printable_day m \<longrightarrow> (format_date n \<le> format_date m \<longleftrightarrow> n \<le> m))"
  using format_parse_date(1) by (auto simp del: parse_format_rfc3339 simp: parse_format_whole)

theorem stored_times_round_trip_witness:
  "format_date 19787 = ''2024-03-05'' \<and> parse_date (format_date 19787) = Some 19787 \<and>
   parse_rfc3339 (format_rfc3339 (1709600000 * second)) = Some (1709600000 * second)"
  using stored_times_round_trip [of "''2024-03-05''" 19787 1709600000 19799] sample_dates(2)
  by (simp add: printable_def printable_day_def)

end
