(* ===== verification/Categories.thy ===== *)
theory Categories
  imports Queries
begin

text \<open>
  Categories and projects: internal/service/category.go, category_colors.go, project.go and their
  reads in service.go. The current time is an argument.
\<close>

record category_input =
  ci_name :: string
  ci_description :: string
  ci_key :: string
  ci_color :: string
  ci_gap :: bool

record project_input =
  pi_name :: string
  pi_key :: string
  pi_color :: string


section \<open>Colors\<close>

definition CategoryPalette :: "string list" where
  "CategoryPalette = [''#0EA5E9'', ''#10B981'', ''#14B8A6'', ''#8B5CF6'', ''#EC4899'', ''#F59E0B'', ''#EF4444'', ''#64748B'']"

definition DefaultCategoryColor :: string where
  "DefaultCategoryColor = ''#64748B''"

definition ValidateCategoryColor :: "string \<Rightarrow> bool" where
  "ValidateCategoryColor c = list_ex (\<lambda>a. to_upper (trim_space c) = to_upper a) CategoryPalette"

definition NormalizeCategoryColor :: "string \<Rightarrow> string" where
  "NormalizeCategoryColor c = to_upper (trim_space c)"

text \<open>The color a category is stored with.\<close>

definition stored_color :: "string \<Rightarrow> go_error + string" where
  "stored_color c =
     (let color = trim_space c in
      if color = '''' then Inr DefaultCategoryColor
      else if \<not> ValidateCategoryColor color then Inl ErrOther
      else Inr (NormalizeCategoryColor color))"


section \<open>Categories\<close>

definition normalizeCategoryKey :: "string \<Rightarrow> string \<Rightarrow> string" where
  "normalizeCategoryKey name key = (let k = trim_space key in if k = '''' then trim_space name else k)"

definition CreateCategory :: "category_input \<Rightarrow> (db, category) act" where
  "CreateCategory input =
     (let name = trim_space (ci_name input); key = normalizeCategoryKey name (ci_key input) in
      if name = '''' then act_throw ErrOther
      else if key = '''' then act_throw ErrOther
      else in_tx
        (act_seq (if ci_gap input then mapErr q_ClearDefaultGap else act_ret ())
           (act_bind (act_lift (stored_color (ci_color input))) (\<lambda>color.
              mapErr (q_CreateCategory name (trim_space (ci_description input)) key (ci_gap input) color)))))"

definition UpdateCategory :: "int \<Rightarrow> category_input \<Rightarrow> (db, category) act" where
  "UpdateCategory i input =
     (let name = trim_space (ci_name input); key = normalizeCategoryKey name (ci_key input) in
      if name = '''' then act_throw ErrOther
      else if key = '''' then act_throw ErrOther
      else act_seq
        (in_tx (act_bind (mapErr (get_one (q_GetCategory i))) (\<lambda>current.
           act_seq
             (if ci_gap input then act_seq (mapErr q_ClearDefaultGap) (mapErr (q_SetDefaultGap i))
              else if ct_default_gap current then act_throw ErrFailedPrecondition
              else act_ret ())
             (act_bind (act_lift (stored_color (ci_color input))) (\<lambda>color.
                mapErr (q_UpdateCategory name (trim_space (ci_description input)) key color i))))))
        (mapErr (get_one (q_GetCategory i))))"

definition categoryInUse :: "int \<Rightarrow> db \<Rightarrow> bool" where
  "categoryInUse i d =
     (if 0 < q_CountOverlayReferencesToCategory i d then True
      else if 0 < q_CountMemoryReferencesToCategory i d then True
      else if 0 < q_CountCalendarReferencesToCategory i d then True
      else 0 < q_CountTimeEntryReferencesToCategory i d)"

definition DeleteCategory :: "int \<Rightarrow> (db, unit) act" where
  "DeleteCategory i = act_bind (mapErr (get_one (q_GetCategory i))) (\<lambda>current.
     if ct_default_gap current then act_throw ErrFailedPrecondition
     else act_bind (act_gets (categoryInUse i)) (\<lambda>inUse.
       if inUse then act_throw ErrCategoryInUse else mapErr (q_DeleteCategory i)))"

definition ArchiveCategory :: "instant \<Rightarrow> int \<Rightarrow> (db, category) act" where
  "ArchiveCategory now i = act_bind (mapErr (get_one (q_GetCategory i))) (\<lambda>current.
     if ct_default_gap current then act_throw ErrFailedPrecondition
     else if ct_archived current \<noteq> None then act_ret current
     else mapErr (q_ArchiveCategory (Some (format_rfc3339 now)) i))"

definition ListCategories :: "db \<Rightarrow> category list" where
  "ListCategories d = q_ListCategories d"

definition ListAllCategories :: "db \<Rightarrow> (category \<times> bool) list" where
  "ListAllCategories d = map (\<lambda>c. (c, categoryInUse (ct_id c) d)) (q_ListAllCategories d)"

definition ListEventCategoryOverlays :: "int \<Rightarrow> db \<Rightarrow> overlay list" where
  "ListEventCategoryOverlays p d =
     filter (\<lambda>ov. ov_kind ov = ''category'' \<and> ov_category ov \<noteq> None) (q_ListOverlaysForPeriod p d)"

text \<open>\<open>strings.EqualFold\<close> on ASCII texts.\<close>

definition equal_fold :: "string \<Rightarrow> string \<Rightarrow> bool" where
  "equal_fold s t \<longleftrightarrow> to_lower s = to_lower t"

definition resolveCategoryKey :: "category list \<Rightarrow> string \<Rightarrow> category option" where
  "resolveCategoryKey cs key =
     (case find (\<lambda>c. equal_fold key (ct_key c)) cs of
        Some c \<Rightarrow> Some c
      | None \<Rightarrow> find (\<lambda>c. equal_fold key (ct_name c)) cs)"


section \<open>Projects\<close>

definition normalizeProjectKey :: "string \<Rightarrow> string \<Rightarrow> string" where
  "normalizeProjectKey name key = (let k = trim_space key in if k = '''' then trim_space name else k)"

definition projectColorParam :: "string \<Rightarrow> go_error + string option" where
  "projectColorParam c =
     (let color = trim_space c in
      if color = '''' then Inr None
      else if \<not> ValidateCategoryColor color then Inl ErrOther
      else Inr (Some (NormalizeCategoryColor color)))"

definition CreateProject :: "project_input \<Rightarrow> (db, project) act" where
  "CreateProject input =
     (let name = trim_space (pi_name input); key = normalizeProjectKey name (pi_key input) in
      if name = '''' then act_throw ErrOther
      else if key = '''' then act_throw ErrOther
      else act_bind (act_lift (projectColorParam (pi_color input))) (\<lambda>color.
        mapErr (q_CreateProject name key color)))"

definition UpdateProject :: "int \<Rightarrow> project_input \<Rightarrow> (db, project) act" where
  "UpdateProject i input =
     (let name = trim_space (pi_name input); key = normalizeProjectKey name (pi_key input) in
      if name = '''' then act_throw ErrOther
      else if key = '''' then act_throw ErrOther
      else act_bind (mapErr (get_one (q_GetProject i))) (\<lambda>_.
        act_bind (act_lift (projectColorParam (pi_color input))) (\<lambda>color.
          mapErr (q_UpdateProject name key color i))))"

definition projectInUse :: "int \<Rightarrow> db \<Rightarrow> bool" where
  "projectInUse i d \<longleftrightarrow> 0 < q_CountTimeEntryReferencesToProject i d"

definition DeleteProject :: "int \<Rightarrow> (db, unit) act" where
  "DeleteProject i = act_bind (mapErr (get_one (q_GetProject i))) (\<lambda>_.
     act_bind (act_gets (projectInUse i)) (\<lambda>inUse.
       if inUse then act_throw ErrProjectInUse else mapErr (q_DeleteProject i)))"

definition ArchiveProject :: "instant \<Rightarrow> int \<Rightarrow> (db, project) act" where
  "ArchiveProject now i = act_bind (mapErr (get_one (q_GetProject i))) (\<lambda>current.
     if pj_archived current \<noteq> None then act_ret current
     else mapErr (q_ArchiveProject (Some (format_rfc3339 now)) i))"

definition ListAllProjects :: "db \<Rightarrow> (project \<times> bool) list" where
  "ListAllProjects d = map (\<lambda>p. (p, projectInUse (pj_id p) d)) (q_ListAllProjects d)"

end
