(* ===== verification/Category_Laws.thy ===== *)
theory Category_Laws
  imports Categories
begin

text \<open>
  Correctness of the category operations: the invariant \<open>categories_wf\<close> of the table and that
  deleting a category that nothing refers to changes nothing else.
\<close>


section \<open>The category table\<close>

text \<open>
  What holds of the category table: ids, names and keys identify a row, exactly one category is the
  default for gaps, and every category has a name, a key and a color of the palette.
\<close>

definition category_ok :: "category \<Rightarrow> bool" where
  "category_ok c \<longleftrightarrow> ct_name c \<noteq> '''' \<and> ct_key c \<noteq> '''' \<and> ct_color c \<in> set CategoryPalette"

definition unique_in :: "('r \<Rightarrow> 'k) \<Rightarrow> 'r table \<Rightarrow> bool" where
  "unique_in uk t \<longleftrightarrow> inj_on uk (set (tbl_rows t))"

definition categories_wf :: "category table \<Rightarrow> bool" where
  "categories_wf t \<longleftrightarrow> ids_ok ct_id t \<and> unique_in ct_name t \<and> unique_in ct_key t \<and>
     length (filter ct_default_gap (tbl_rows t)) = 1 \<and> (\<forall>c \<in> set (tbl_rows t). category_ok c)"

lemma stored_color_ok: "stored_color c = Inr color \<Longrightarrow> color \<in> set CategoryPalette"
  by (auto simp: stored_color_def Let_def ValidateCategoryColor_def NormalizeCategoryColor_def CategoryPalette_def
      DefaultCategoryColor_def to_upper_def upper_char_def split: if_splits)

lemma normalized_key: "trim_space n \<noteq> '''' \<Longrightarrow> normalizeCategoryKey n k \<noteq> ''''"
  by (simp add: normalizeCategoryKey_def Let_def)

text \<open>UNIQUE columns stay unique when one row is added or one is changed.\<close>

lemma unique_add: "unique_in uk t \<Longrightarrow> alone key uk t r \<Longrightarrow> (\<And>x. x \<in> set (tbl_rows t) \<Longrightarrow> key x \<noteq> key r) \<Longrightarrow>
    unique_in uk (t\<lparr>tbl_rows := tbl_rows t @ [r], tbl_seq := n\<rparr>)"
  by (auto simp: unique_in_def alone_def list_all_iff)

lemma unique_same:
  assumes "unique_in uk t" "tbl_rows t' = map f (tbl_rows t)" "\<And>r. uk (f r) = uk r"
  shows "unique_in uk t'"
  using assms unfolding unique_in_def inj_on_def by auto

lemma unique_change:
  assumes "unique_in uk t" "ids_ok key t" "\<And>r. key (f r) = key r"
    and "tbl_rows t' = map (\<lambda>r. if key r = i then f r else r) (tbl_rows t)"
    and "\<forall>r \<in> set (tbl_rows t). key r = i \<longrightarrow> alone key uk t' (f r)"
  shows "unique_in uk t'"
  unfolding unique_in_def
proof (rule inj_onI)
  fix x y assume x: "x \<in> set (tbl_rows t')" and y: "y \<in> set (tbl_rows t')" and eq: "uk x = uk y"
  then obtain a b where a: "a \<in> set (tbl_rows t)" "x = (if key a = i then f a else a)"
    and b: "b \<in> set (tbl_rows t)" "y = (if key b = i then f b else b)" using assms(4) by auto
  have inj: "key a = key b \<Longrightarrow> a = b" using assms(2) a(1) b(1) by (auto simp: ids_ok_def distinct_map inj_on_def)
  show "x = y"
  proof (rule ccontr)
    assume "x \<noteq> y"
    then have k: "key a \<noteq> key b" using inj a b by auto
    have keys: "key x = key a" "key y = key b" using a b assms(3) by auto
    consider "key a = i" | "key b = i" | "key a \<noteq> i" "key b \<noteq> i" by blast
    then show False
    proof cases
      case 1
      then have "alone key uk t' x" using a assms(5) by auto
      then show False using y eq k keys by (auto simp: alone_def list_all_iff)
    next
      case 2
      then have "alone key uk t' y" using b assms(5) by auto
      then show False using x eq k keys by (auto simp: alone_def list_all_iff)
    next
      case 3
      then have "x = a" "y = b" using a b by auto
      then show False using assms(1) a(1) b(1) eq k by (auto simp: unique_in_def inj_on_def)
    qed
  qed
qed

lemma update_category_Inr:
  assumes "update_category P f d = (Inr rs, d')" "\<And>c. ct_id (f c) = ct_id c" "ids_ok ct_id (db_categories d)"
  shows "tbl_rows (db_categories d') = map (\<lambda>c. if P c then f c else c) (tbl_rows (db_categories d)) \<and>
    ids_ok ct_id (db_categories d') \<and> (\<forall>c \<in> set (tbl_rows (db_categories d)). P c \<longrightarrow> ct_ok d' (f c)) \<and>
    d' = d\<lparr>db_categories := db_categories d'\<rparr>"
proof -
  note up = assms(1) [unfolded update_category_def]
  have "ids_ok ct_id (db_categories d')" by (rule categories.update_keeps_ids [OF up assms(3)]) (simp add: assms(2))
  moreover have "\<forall>c \<in> set (tbl_rows (db_categories d)). P c \<longrightarrow> ct_ok d' (f c)"
    using up by (auto simp: update_where_def Let_def list_all_iff split: if_splits)
  moreover have "d' = d\<lparr>db_categories := db_categories d'\<rparr>"
    using up by (auto simp: update_where_def Let_def split: if_splits)
  ultimately show ?thesis using categories.update_rows [OF up] by blast
qed

lemma ct_ok_alone: "ct_ok d c \<Longrightarrow> alone ct_id ct_name (db_categories d) c \<and> alone ct_id ct_key (db_categories d) c"
  by (simp add: ct_ok_def)

text \<open>The flag of a gap default, row by row.\<close>

lemma clear_default_Inr:
  assumes "q_ClearDefaultGap d = (Inr u, d')" "ids_ok ct_id (db_categories d)"
    and "unique_in ct_name (db_categories d)" "unique_in ct_key (db_categories d)"
    and "\<forall>c \<in> set (tbl_rows (db_categories d)). category_ok c"
  shows "map ct_id (tbl_rows (db_categories d')) = map ct_id (tbl_rows (db_categories d)) \<and>
    ids_ok ct_id (db_categories d') \<and> unique_in ct_name (db_categories d') \<and> unique_in ct_key (db_categories d') \<and>
    (\<forall>c \<in> set (tbl_rows (db_categories d')). category_ok c \<and> \<not> ct_default_gap c)"
proof -
  obtain rs where up: "update_category ct_default_gap (\<lambda>c. c\<lparr>ct_default_gap := False\<rparr>) d = (Inr rs, d')"
    using assms(1) by (auto simp: q_ClearDefaultGap_def act_seq_eq_Inr_iff)
  note * = update_category_Inr [OF up _ assms(2)]
  have rows: "tbl_rows (db_categories d') = map (\<lambda>c. c\<lparr>ct_default_gap := False\<rparr>) (tbl_rows (db_categories d))"
    using * by (auto intro!: map_cong)
  have "unique_in ct_name (db_categories d')" "unique_in ct_key (db_categories d')"
    by (rule unique_same [OF assms(3) rows], simp, rule unique_same [OF assms(4) rows], simp)
  then show ?thesis using * rows assms(5) by (auto simp: category_ok_def comp_def)
qed


lemma one_marked:
  "distinct (map key rs) \<Longrightarrow> i \<in> key ` set rs \<Longrightarrow> (\<forall>r \<in> set rs. Q r \<longleftrightarrow> key r = i) \<Longrightarrow> length (filter Q rs) = 1"
proof -
  assume d: "distinct (map key rs)" and i: "i \<in> key ` set rs" and q: "\<forall>r \<in> set rs. Q r \<longleftrightarrow> key r = i"
  have "filter Q rs = filter (\<lambda>r. key r = i) rs" using q by (intro filter_cong) auto
  also have "\<dots> = (case find (\<lambda>x. key x = i) rs of None \<Rightarrow> [] | Some r \<Rightarrow> [r])" by (rule filter_key_find [OF d])
  also have "find (\<lambda>x. key x = i) rs \<noteq> None" using i by (auto simp: find_None_iff)
  then have "length (case find (\<lambda>x. key x = i) rs of None \<Rightarrow> [] | Some r \<Rightarrow> [r]) = 1" by (auto split: option.splits)
  finally show ?thesis .
qed

lemma create_category_wf:
  assumes "CreateCategory input d = (result, d')" "categories_wf (db_categories d)"
  shows "categories_wf (db_categories d')"
proof (cases result)
  case (Inl e)
  then have "d' = d" using assms(1) by (auto simp: CreateCategory_def Let_def in_tx_Inl split: if_splits)
  then show ?thesis using assms(2) by simp
next
  case (Inr c)
  let ?name = "trim_space (ci_name input)"
  let ?key = "normalizeCategoryKey ?name (ci_key input)"
  obtain d1 color where name: "?name \<noteq> ''''" "?key \<noteq> ''''" and color: "stored_color (ci_color input) = Inr color"
    and clear: "(if ci_gap input then mapErr q_ClearDefaultGap else act_ret ()) d = (Inr (), d1)"
    and create: "q_CreateCategory ?name (trim_space (ci_description input)) ?key (ci_gap input) color d1 = (Inr c, d')"
    using assms(1) Inr by (auto simp: CreateCategory_def Let_def act_seq_eq_Inr_iff act_bind_eq_Inr_iff split: if_splits)
  note wf = assms(2) [unfolded categories_wf_def]
  have d1: "ids_ok ct_id (db_categories d1)" "unique_in ct_name (db_categories d1)" "unique_in ct_key (db_categories d1)"
    "\<forall>c \<in> set (tbl_rows (db_categories d1)). category_ok c"
    "length (filter ct_default_gap (tbl_rows (db_categories d1))) = (if ci_gap input then 0 else 1)"
    using clear clear_default_Inr [of d "()" d1] wf by (auto split: if_splits simp: filter_empty_conv)
  note ins = create [unfolded q_CreateCategory_def categories.insert_Inr]
  let ?t = "db_categories d1"
  have fresh: "ct_id x \<noteq> ct_id c" if "x \<in> set (tbl_rows ?t)" for x
    using that d1(1) ins by (fastforce simp: ids_ok_def)
  have t': "db_categories d' = ?t\<lparr>tbl_rows := tbl_rows ?t @ [c], tbl_seq := tbl_seq ?t + 1\<rparr>" using ins by simp
  have ok: "alone ct_id ct_name ?t c" "alone ct_id ct_key ?t c" using ins ct_ok_alone by auto
  have "ids_ok ct_id (db_categories d')"
    using categories.insert_keeps_ids [OF create [unfolded q_CreateCategory_def] d1(1)] by simp
  moreover have "unique_in ct_name (db_categories d')" "unique_in ct_key (db_categories d')"
    unfolding t' by (rule unique_add [OF d1(2) ok(1) fresh], assumption, rule unique_add [OF d1(3) ok(2) fresh], assumption)
  moreover have "length (filter ct_default_gap (tbl_rows (db_categories d'))) = 1" using d1(5) ins by simp
  moreover have "category_ok c" using ins name stored_color_ok [OF color] by (simp add: category_ok_def)
  then have "\<forall>x \<in> set (tbl_rows (db_categories d')). category_ok x" using d1(4) t' by auto
  ultimately show ?thesis by (simp add: categories_wf_def)
qed

lemma set_default_Inr:
  assumes "q_SetDefaultGap i d = (Inr u, d')" "ids_ok ct_id (db_categories d)"
    and "unique_in ct_name (db_categories d)" "unique_in ct_key (db_categories d)"
    and "\<forall>c \<in> set (tbl_rows (db_categories d)). category_ok c \<and> \<not> ct_default_gap c" "i \<in> ct_id ` set (tbl_rows (db_categories d))"
  shows "categories_wf (db_categories d')"
proof -
  let ?f = "\<lambda>c. c\<lparr>ct_default_gap := True\<rparr>"
  obtain rs where up: "update_category (\<lambda>c. ct_id c = i) ?f d = (Inr rs, d')"
    using assms(1) by (auto simp: q_SetDefaultGap_def act_seq_eq_Inr_iff)
  note * = update_category_Inr [OF up _ assms(2)]
  have rows: "tbl_rows (db_categories d') = map (\<lambda>c. if ct_id c = i then ?f c else c) (tbl_rows (db_categories d))"
    and ids: "ids_ok ct_id (db_categories d')" using * by auto
  have "map ct_id (tbl_rows (db_categories d')) = map ct_id (tbl_rows (db_categories d))" using rows by simp
  then have i: "i \<in> ct_id ` set (tbl_rows (db_categories d'))" using assms(6) by (metis list.set_map)
  have one: "length (filter ct_default_gap (tbl_rows (db_categories d'))) = 1"
  proof (rule one_marked [OF _ i])
    show "distinct (map ct_id (tbl_rows (db_categories d')))" using ids by (simp add: ids_ok_def)
    have "ct_default_gap (if ct_id c = i then ?f c else c) \<longleftrightarrow> ct_id (if ct_id c = i then ?f c else c) = i"
      if "c \<in> set (tbl_rows (db_categories d))" for c
      using assms(5) that by simp
    then show "\<forall>r \<in> set (tbl_rows (db_categories d')). ct_default_gap r \<longleftrightarrow> ct_id r = i"
      unfolding rows set_map ball_simps by (rule ballI)
  qed
  have "unique_in ct_name (db_categories d')" "unique_in ct_key (db_categories d')"
    by (rule unique_same [OF assms(3) rows], simp, rule unique_same [OF assms(4) rows], simp)
  moreover have "category_ok (if ct_id c = i then ?f c else c)" if "c \<in> set (tbl_rows (db_categories d))" for c
    using assms(5) that by (simp add: category_ok_def)
  then have "\<forall>c \<in> set (tbl_rows (db_categories d')). category_ok c" unfolding rows set_map ball_simps by (rule ballI)
  ultimately show ?thesis using ids one by (simp add: categories_wf_def)
qed

lemma update_fields_Inr:
  assumes "q_UpdateCategory name desc key color i d = (Inr u, d')" "categories_wf (db_categories d)"
    and "name \<noteq> ''''" "key \<noteq> ''''" "color \<in> set CategoryPalette"
  shows "categories_wf (db_categories d')"
proof -
  let ?f = "\<lambda>c. c\<lparr>ct_name := name, ct_description := desc, ct_key := key, ct_color := color\<rparr>"
  note wf = assms(2) [unfolded categories_wf_def]
  obtain rs where up: "update_category (\<lambda>c. ct_id c = i) ?f d = (Inr rs, d')"
    using assms(1) by (auto simp: q_UpdateCategory_def act_seq_eq_Inr_iff)
  have old: "ids_ok ct_id (db_categories d)" using wf by simp
  note * = update_category_Inr [OF up _ old]
  have rows: "tbl_rows (db_categories d') = map (\<lambda>c. if ct_id c = i then ?f c else c) (tbl_rows (db_categories d))"
    and ids: "ids_ok ct_id (db_categories d')" using * by auto
  have gap: "ct_default_gap (?f c) = ct_default_gap c" for c by simp
  have "filter ct_default_gap (tbl_rows (db_categories d')) =
      map (\<lambda>c. if ct_id c = i then ?f c else c) (filter ct_default_gap (tbl_rows (db_categories d)))"
    unfolding rows filter_map comp_def by (rule arg_cong [where f = "map _"], rule filter_cong) auto
  then have "length (filter ct_default_gap (tbl_rows (db_categories d'))) = 1" using wf by simp
  moreover have "unique_in ct_name (db_categories d')" "unique_in ct_key (db_categories d')"
    using wf * ct_ok_alone by (auto intro!: unique_change [OF _ old _ rows])
  moreover have "\<forall>c \<in> set (tbl_rows (db_categories d')). category_ok c"
    using wf assms(3-5) rows by (auto simp: category_ok_def)
  ultimately show ?thesis using ids by (simp add: categories_wf_def)
qed

lemma got_category: "q_GetCategory i d = Some c \<Longrightarrow> c \<in> set (tbl_rows (db_categories d)) \<and> ct_id c = i"
  by (auto simp: q_GetCategory_def find_row_def dest: find_SomeD)

lemma update_category_wf:
  assumes "UpdateCategory i input d = (result, d')" "categories_wf (db_categories d)"
  shows "categories_wf (db_categories d')"
proof -
  let ?name = "trim_space (ci_name input)"
  let ?key = "normalizeCategoryKey ?name (ci_key input)"
  let ?tx = "act_bind (mapErr (get_one (q_GetCategory i))) (\<lambda>current.
           act_seq
             (if ci_gap input then act_seq (mapErr q_ClearDefaultGap) (mapErr (q_SetDefaultGap i))
              else if ct_default_gap current then act_throw ErrFailedPrecondition
              else act_ret ())
             (act_bind (act_lift (stored_color (ci_color input))) (\<lambda>color.
                mapErr (q_UpdateCategory ?name (trim_space (ci_description input)) ?key color i))))"
  have tx: "categories_wf (db_categories d1)" if run: "?tx d = (Inr u, d1)" and name: "?name \<noteq> ''''" "?key \<noteq> ''''" for d1 u
  proof -
    obtain current color d2 where cur: "q_GetCategory i d = Some current" and color: "stored_color (ci_color input) = Inr color"
      and first: "(if ci_gap input then act_seq (mapErr q_ClearDefaultGap) (mapErr (q_SetDefaultGap i))
              else if ct_default_gap current then act_throw ErrFailedPrecondition else act_ret ()) d = (Inr (), d2)"
      and up: "q_UpdateCategory ?name (trim_space (ci_description input)) ?key color i d2 = (Inr (), d1)"
      using run by (auto simp: act_bind_eq_Inr_iff act_seq_eq_Inr_iff)
    have "categories_wf (db_categories d2)"
    proof (cases "ci_gap input")
      case True
      then obtain e where e: "q_ClearDefaultGap d = (Inr (), e)" "q_SetDefaultGap i e = (Inr (), d2)"
        using first by (auto simp: act_seq_eq_Inr_iff)
      note * = clear_default_Inr [OF e(1)]
      have "i \<in> ct_id ` set (tbl_rows (db_categories e))"
        using * assms(2) got_category [OF cur] unfolding categories_wf_def by (metis image_eqI list.set_map)
      then show ?thesis using * assms(2) by (intro set_default_Inr [OF e(2)]) (auto simp: categories_wf_def)
    next
      case False
      then show ?thesis using first assms(2) by (auto split: if_splits)
    qed
    then show ?thesis by (rule update_fields_Inr [OF up _ name stored_color_ok [OF color]])
  qed
  show ?thesis
  proof (cases "?name = '''' \<or> ?key = ''''")
    case True
    then have "d' = d" using assms(1) by (cases "?name = ''''") (simp_all add: UpdateCategory_def Let_def)
    then show ?thesis using assms(2) by simp
  next
    case False
    then have "UpdateCategory i input = act_seq (in_tx ?tx) (mapErr (get_one (q_GetCategory i)))"
      by (simp add: UpdateCategory_def Let_def)
    then have run: "act_seq (in_tx ?tx) (mapErr (get_one (q_GetCategory i))) d = (result, d')" using assms(1) by simp
    have "d' = snd (in_tx ?tx d)"
      using run by (cases "in_tx ?tx d") (auto simp: act_seq_def act_bind_def mapErr_get_one split: sum.splits option.splits)
    then show ?thesis using tx False assms(2)
      by (cases "?tx d") (auto simp: in_tx_def split: sum.splits)
  qed
qed

text \<open>Deleting and archiving.\<close>

lemma unused_category:
  assumes "\<not> categoryInUse i d"
  shows "\<forall>r \<in> set (tbl_rows (db_overlays d)). ov_category r \<noteq> Some i" "\<forall>m \<in> set (db_memory d). me_category m \<noteq> i"
    "\<forall>c \<in> set (tbl_rows (db_calendars d)). cl_category c \<noteq> Some i" "\<forall>r \<in> set (tbl_rows (db_entries d)). te_category r \<noteq> Some i"
  using assms
  by (auto simp: categoryInUse_def q_CountOverlayReferencesToCategory_def q_CountMemoryReferencesToCategory_def
      q_CountCalendarReferencesToCategory_def q_CountTimeEntryReferencesToCategory_def count_rows_def
      filter_empty_conv split: if_splits)

lemma no_references:
  assumes "\<not> categoryInUse i d"
  shows "map_table (\<lambda>r. r\<lparr>ov_category := clear_ref i (ov_category r)\<rparr>) (db_overlays d) = db_overlays d"
    "map_table (\<lambda>r. r\<lparr>te_category := clear_ref i (te_category r)\<rparr>) (db_entries d) = db_entries d"
    "map_table (\<lambda>r. r\<lparr>cl_category := clear_ref i (cl_category r)\<rparr>) (db_calendars d) = db_calendars d"
    "filter (\<lambda>m. me_category m \<noteq> i) (db_memory d) = db_memory d"
  using unused_category [OF assms] by (simp_all add: map_table_def clear_ref_def map_idI filter_id_conv cong: map_cong)

lemma delete_category_run:
  assumes "DeleteCategory i d = (Inr u, d')"
  shows "\<exists>c. q_GetCategory i d = Some c \<and> \<not> ct_default_gap c \<and> \<not> categoryInUse i d \<and>
    d' = d\<lparr>db_categories := (db_categories d)\<lparr>tbl_rows := filter (\<lambda>c. ct_id c \<noteq> i) (tbl_rows (db_categories d))\<rparr>\<rparr>"
proof -
  obtain c where c: "q_GetCategory i d = Some c" "\<not> ct_default_gap c" "\<not> categoryInUse i d" "q_DeleteCategory i d = (Inr u, d')"
    using assms by (auto simp: DeleteCategory_def act_bind_eq_Inr_iff split: if_splits)
  note * = no_references [OF c(3)]
  have "d' = d\<lparr>db_categories := (db_categories d)\<lparr>tbl_rows := filter (\<lambda>c. ct_id c \<noteq> i) (tbl_rows (db_categories d))\<rparr>\<rparr>"
    using c(4) * by (simp add: q_DeleteCategory_def act_seq_def act_bind_def delete_where_def Let_def)
  with c show ?thesis by blast
qed

lemma delete_category_wf:
  assumes "DeleteCategory i d = (result, d')" "categories_wf (db_categories d)"
  shows "categories_wf (db_categories d')"
proof (cases result)
  case (Inl e)
  then have "d' = d" using assms(1)
    by (auto simp: DeleteCategory_def act_bind_def get_one_def mapErr_def q_DeleteCategory_def act_seq_def delete_where_def
        Let_def split: option.splits if_splits)
  then show ?thesis using assms(2) by simp
next
  case (Inr u)
  obtain c where c: "q_GetCategory i d = Some c" "\<not> ct_default_gap c"
    and d': "d' = d\<lparr>db_categories := (db_categories d)\<lparr>tbl_rows := filter (\<lambda>c. ct_id c \<noteq> i) (tbl_rows (db_categories d))\<rparr>\<rparr>"
    using delete_category_run [of i d u d'] assms(1) Inr by auto
  have only: "x = c" if "x \<in> set (tbl_rows (db_categories d))" "ct_id x = i" for x
    using that got_category [OF c(1)] assms(2) by (auto simp: categories_wf_def ids_ok_def distinct_map inj_on_def)
  have "filter ct_default_gap (filter (\<lambda>c. ct_id c \<noteq> i) (tbl_rows (db_categories d))) =
      filter ct_default_gap (tbl_rows (db_categories d))"
    using only c(2) by (auto simp: intro!: filter_cong)
  then show ?thesis using assms(2) d'
    by (auto simp: categories_wf_def unique_in_def ids_ok_def distinct_map_filter intro: inj_on_subset)
qed

lemma archive_category_wf:
  assumes "ArchiveCategory now i d = (result, d')" "categories_wf (db_categories d)"
  shows "categories_wf (db_categories d')"
proof (cases "\<exists>c. q_GetCategory i d = Some c \<and> \<not> ct_default_gap c \<and> ct_archived c = None")
  case False
  then have "d' = d" using assms(1)
    by (auto simp: ArchiveCategory_def act_bind_def mapErr_get_one split: option.splits if_splits)
  then show ?thesis using assms(2) by simp
next
  case True
  then obtain c where c: "q_GetCategory i d = Some c" "\<not> ct_default_gap c" "ct_archived c = None" by blast
  let ?f = "\<lambda>c. c\<lparr>ct_archived := Some (format_rfc3339 now), ct_default_gap := False\<rparr>"
  have run: "mapErr (scan_one (update_category (\<lambda>c. ct_id c = i) ?f)) d = (result, d')"
    using assms(1) c by (simp add: ArchiveCategory_def act_bind_def mapErr_get_one q_ArchiveCategory_def)
  show ?thesis
  proof (cases result)
    case (Inl e)
    have "atomic (mapErr (scan_one (update_category (\<lambda>c. ct_id c = i) ?f)))"
      unfolding update_category_def by (intro atomic_mapErr categories.atomic_scan_update)
    then have "d' = d" using run Inl by (auto dest: atomicD)
    then show ?thesis using assms(2) by simp
  next
    case (Inr x)
    then obtain rs where up: "update_category (\<lambda>c. ct_id c = i) ?f d = (Inr rs, d')"
      using run by (auto simp: scan_one_Inr)
    have old: "ids_ok ct_id (db_categories d)" using assms(2) by (simp add: categories_wf_def)
    note * = update_category_Inr [OF up _ old]
    have rows: "tbl_rows (db_categories d') = map (\<lambda>c. if ct_id c = i then ?f c else c) (tbl_rows (db_categories d))"
      and ids: "ids_ok ct_id (db_categories d')" using * by auto
    have only: "x = c" if "x \<in> set (tbl_rows (db_categories d))" "ct_id x = i" for x
      using that got_category [OF c(1)] old by (auto simp: ids_ok_def distinct_map inj_on_def)
    have "filter ct_default_gap (tbl_rows (db_categories d')) =
        map (\<lambda>c. if ct_id c = i then ?f c else c) (filter ct_default_gap (tbl_rows (db_categories d)))"
      unfolding rows filter_map comp_def using only c(2)
      by (intro arg_cong [where f = "map _"] filter_cong) auto
    then have "length (filter ct_default_gap (tbl_rows (db_categories d'))) = 1"
      using assms(2) by (simp add: categories_wf_def)
    moreover have "unique_in ct_name (db_categories d)" "unique_in ct_key (db_categories d)"
      using assms(2) by (simp_all add: categories_wf_def)
    then have "unique_in ct_name (db_categories d')" "unique_in ct_key (db_categories d')"
      by (auto intro: unique_same [OF _ rows])
    ultimately show ?thesis
      using ids assms(2) rows by (auto simp: categories_wf_def category_ok_def)
  qed
qed


section \<open>Runs\<close>

text \<open>One operation on the categories, whatever its outcome.\<close>

inductive category_step :: "db \<Rightarrow> db \<Rightarrow> bool" where
  create: "CreateCategory input d = (r, d') \<Longrightarrow> category_step d d'"
| update: "UpdateCategory i input d = (r, d') \<Longrightarrow> category_step d d'"
| delete: "DeleteCategory i d = (u, d') \<Longrightarrow> category_step d d'"
| archive: "ArchiveCategory now i d = (r, d') \<Longrightarrow> category_step d d'"

lemma category_step_wf: "category_step d d' \<Longrightarrow> categories_wf (db_categories d) \<Longrightarrow> categories_wf (db_categories d')"
  by (induction rule: category_step.induct)
    (auto intro: create_category_wf update_category_wf delete_category_wf archive_category_wf)

end
