(* ===== verification/Imported.thy ===== *)
theory Imported
  imports Ledger_Laws
begin

text \<open>
  Imported calendar events: the incoming record and helpers of internal/service/sync.go and
  sync_materialize.go, the identities and local days of review_policy.go. The digest of
  \<open>sourceHash\<close> is a parameter, \<open>sha\<close>: the hexadecimal SHA-256 of a text.
\<close>

text \<open>\<open>Attendee\<close> of types.go.\<close>

record attendee =
  at_email :: string
  at_name :: string
  at_response :: string
  at_organizer :: bool
  at_self :: bool

text \<open>\<open>IncomingEvent\<close>.\<close>

record incoming =
  ie_calendar :: int
  ie_provider :: string
  ie_external :: string
  ie_instance :: string
  ie_recurring :: string
  ie_ical :: string
  ie_title :: string
  ie_description :: string
  ie_location :: string
  ie_organizer :: string
  ie_attendees :: "attendee list"
  ie_status :: string
  ie_all_day :: bool
  ie_start :: "instant option"
  ie_end :: "instant option"
  ie_start_date :: string
  ie_end_date :: string
  ie_tz :: string


section \<open>Constants\<close>

abbreviation SourceKindCalendarEvent :: string where "SourceKindCalendarEvent \<equiv> ''calendar_event''"
abbreviation MethodCalendarImport :: string where "MethodCalendarImport \<equiv> ''calendar_import''"
abbreviation MethodCalendarConvert :: string where "MethodCalendarConvert \<equiv> ''calendar_convert''"
abbreviation overlayKindCategory :: string where "overlayKindCategory \<equiv> ''category''"
abbreviation overlayKindStatus :: string where "overlayKindStatus \<equiv> ''status''"
abbreviation overlayStatusExclude :: string where "overlayStatusExclude \<equiv> ''excluded''"


section \<open>JSON texts\<close>

text \<open>
  \<open>json.Marshal\<close> of a string: quotes, backslashes and control characters are escaped, and so are
  the three characters that are special in HTML.
\<close>

definition hex_digit :: "nat \<Rightarrow> char" where
  "hex_digit n = (if n < 10 then char_of (48 + n) else char_of (87 + n))"

definition json_char :: "char \<Rightarrow> string" where
  "json_char c = (let n = (of_char c :: nat) in
     if c = CHR 0x22 then [CHR 0x5C, CHR 0x22]
     else if c = CHR 0x5C then [CHR 0x5C, CHR 0x5C]
     else if n = 8 then [CHR 0x5C, CHR ''b'']
     else if n = 12 then [CHR 0x5C, CHR ''f'']
     else if n = 10 then [CHR 0x5C, CHR ''n'']
     else if n = 13 then [CHR 0x5C, CHR ''r'']
     else if n = 9 then [CHR 0x5C, CHR ''t'']
     else if n < 32 \<or> c \<in> {CHR ''<'', CHR ''>'', CHR ''&''}
     then [CHR 0x5C, CHR ''u'', CHR ''0'', CHR ''0'', hex_digit (n div 16), hex_digit (n mod 16)]
     else [c])"

definition json_string :: "string \<Rightarrow> string" where
  "json_string s = [CHR 0x22] @ concat (map json_char s) @ [CHR 0x22]"

definition json_field :: "string \<Rightarrow> string \<Rightarrow> string" where
  "json_field k v = json_string k @ '':'' @ v"

definition attendee_json :: "attendee \<Rightarrow> string" where
  "attendee_json a = ''{'' @ join_with '',''
     ([json_field ''email'' (json_string (at_email a))]
      @ (if at_name a = '''' then [] else [json_field ''displayName'' (json_string (at_name a))])
      @ (if at_response a = '''' then [] else [json_field ''responseStatus'' (json_string (at_response a))])
      @ (if at_organizer a then [json_field ''organizer'' ''true''] else [])
      @ (if at_self a then [json_field ''self'' ''true''] else [])) @ ''}''"

definition marshalAttendees :: "attendee list \<Rightarrow> string" where
  "marshalAttendees as =
     (if as = [] then ''[]'' else ''['' @ join_with '','' (map attendee_json as) @ '']'')"


section \<open>Keys and hashes\<close>

definition eventKey :: "int \<Rightarrow> string \<Rightarrow> string \<Rightarrow> string" where
  "eventKey c ext inst = show_int c @ ''|'' @ ext @ ''|'' @ inst"

definition eventIdentityFromIncoming :: "incoming \<Rightarrow> string" where
  "eventIdentityFromIncoming inc =
     join_with ''|'' [ie_provider inc, show_int (ie_calendar inc), ie_external inc, ie_instance inc]"

definition eventIdentityFromRow :: "event \<Rightarrow> string" where
  "eventIdentityFromRow ev =
     join_with ''|'' [ev_provider ev, show_int (ev_calendar ev), ev_external ev, ev_instance ev]"

definition normalizeTitle :: "string \<Rightarrow> string" where
  "normalizeTitle s = to_lower (join_with '' '' (fields_of s))"

definition matchKey :: "incoming \<Rightarrow> string" where
  "matchKey inc =
     (if ie_recurring inc \<noteq> '''' then ''rid:'' @ ie_recurring inc
      else ''title:'' @ normalizeTitle (ie_title inc) @ ''|'' @ to_lower (trim_space (ie_organizer inc)))"

definition nullStr :: "string \<Rightarrow> string option" where
  "nullStr s = (if s = '''' then None else Some s)"

definition nullTime :: "instant option \<Rightarrow> string option" where
  "nullTime t = map_option format_rfc3339 t"

text \<open>The text of a nullable column, empty for NULL (\<open>NullString.String\<close>).\<close>

definition text_of :: "string option \<Rightarrow> string" where
  "text_of s = (case s of None \<Rightarrow> '''' | Some t \<Rightarrow> t)"

definition sourceHash :: "(string \<Rightarrow> string) \<Rightarrow> event \<Rightarrow> string" where
  "sourceHash sha p = sha (join_with [CHR 0x00]
     [ev_provider p, ev_external p, ev_instance p, ev_recurring p, ev_ical p, ev_title p, ev_description p,
      ev_location p, ev_organizer p, ev_attendees p, show_int (of_bool (ev_all_day p)),
      text_of (ev_start_utc p), text_of (ev_end_utc p), text_of (ev_start_date p), text_of (ev_end_date p),
      ev_tz p])"

definition upsertParams :: "(string \<Rightarrow> string) \<Rightarrow> int \<Rightarrow> incoming \<Rightarrow> event" where
  "upsertParams sha p inc =
     (let row = \<lparr>ev_id = 0, ev_period = p, ev_calendar = ie_calendar inc, ev_provider = ie_provider inc,
            ev_external = ie_external inc, ev_instance = ie_instance inc, ev_recurring = ie_recurring inc,
            ev_ical = ie_ical inc, ev_title = ie_title inc, ev_description = ie_description inc,
            ev_location = ie_location inc, ev_organizer = ie_organizer inc,
            ev_attendees = marshalAttendees (ie_attendees inc), ev_status = ie_status inc,
            ev_all_day = ie_all_day inc, ev_start_utc = nullTime (ie_start inc), ev_end_utc = nullTime (ie_end inc),
            ev_start_date = nullStr (ie_start_date inc), ev_end_date = nullStr (ie_end_date inc),
            ev_tz = ie_tz inc, ev_active = True, ev_hash = ''''\<rparr>
      in row\<lparr>ev_hash := sourceHash sha row\<rparr>)"


section \<open>Overlays\<close>

definition category_overlay :: "int \<Rightarrow> string \<Rightarrow> string \<Rightarrow> string \<Rightarrow> db \<Rightarrow> overlay option" where
  "category_overlay p prov ext inst d = q_GetOverlay p prov ext inst overlayKindCategory d"

definition hasCategory :: "int \<Rightarrow> string \<Rightarrow> string \<Rightarrow> string \<Rightarrow> db \<Rightarrow> bool" where
  "hasCategory p prov ext inst d =
     (case category_overlay p prov ext inst d of None \<Rightarrow> False | Some ov \<Rightarrow> ov_category ov \<noteq> None)"

definition effectiveCategory :: "int \<Rightarrow> string \<Rightarrow> string \<Rightarrow> string \<Rightarrow> db \<Rightarrow> int option" where
  "effectiveCategory p prov ext inst d =
     (case category_overlay p prov ext inst d of None \<Rightarrow> None | Some ov \<Rightarrow> ov_category ov)"

definition HasStatusExcluded :: "event \<Rightarrow> db \<Rightarrow> bool" where
  "HasStatusExcluded ev d =
     (case q_GetOverlay (ev_period ev) (ev_provider ev) (ev_external ev) (ev_instance ev) overlayKindStatus d of
        None \<Rightarrow> False | Some ov \<Rightarrow> ov_note ov = overlayStatusExclude)"

definition new_overlay :: "int \<Rightarrow> string \<Rightarrow> string \<Rightarrow> string \<Rightarrow> int option \<Rightarrow> string \<Rightarrow> string \<Rightarrow> overlay" where
  "new_overlay p prov ext inst c note kind = \<lparr>ov_id = 0, ov_period = p, ov_provider = prov, ov_external = ext,
     ov_instance = inst, ov_category = c, ov_resolved_overlap = None, ov_note = note, ov_kind = kind\<rparr>"

definition MarkExcluded :: "event \<Rightarrow> (db, unit) act" where
  "MarkExcluded ev = act_seq
     (mapErr (q_UpsertOverlay (new_overlay (ev_period ev) (ev_provider ev) (ev_external ev) (ev_instance ev) None
        overlayStatusExclude overlayKindStatus)))
     (act_ret ())"

definition DeleteCategoryOverlay :: "event \<Rightarrow> (db, unit) act" where
  "DeleteCategoryOverlay ev =
     act_bind (act_gets (category_overlay (ev_period ev) (ev_provider ev) (ev_external ev) (ev_instance ev))) (\<lambda>ov.
       case ov of None \<Rightarrow> act_ret () | Some ov \<Rightarrow> mapErr (q_DeleteOverlay (ov_id ov)))"


section \<open>Entries that come from an event\<close>

definition linkedCalendarEntries :: "time_entry list \<Rightarrow> string \<Rightarrow> time_entry list" where
  "linkedCalendarEntries entries identity =
     filter (\<lambda>te. te_source_kind te = Some SourceKindCalendarEvent \<and> te_source_id te = Some identity) entries"

text \<open>\<open>partitionLinked\<close>: the drafts, whether there is a confirmed entry, whether all are dismissed.\<close>

definition partitionLinked :: "time_entry list \<Rightarrow> time_entry list \<times> bool \<times> bool" where
  "partitionLinked linked =
     (filter (\<lambda>te. te_attestation te = ''draft'') linked,
      list_ex (\<lambda>te. te_attestation te = ''confirmed'') linked,
      linked \<noteq> [] \<and> list_all (\<lambda>te. te_attestation te = ''dismissed'') linked)"

definition dismissLinkedDrafts :: "time_entry list \<Rightarrow> (db, unit) act" where
  "dismissLinkedDrafts linked = act_seq
     (for_each (\<lambda>te. if te_attestation te \<noteq> ''draft'' then act_ret ()
        else act_seq (q_UpdateTimeEntryAttestation ''dismissed'' (te_id te) (te_period te)) (act_ret ())) linked)
     (act_ret ())"

definition dismissCalendarDraftsForEvent :: "event \<Rightarrow> (db, unit) act" where
  "dismissCalendarDraftsForEvent ev =
     act_bind (act_gets (q_ListTimeEntriesForPeriod (ev_period ev))) (\<lambda>entries.
       dismissLinkedDrafts (linkedCalendarEntries entries (eventIdentityFromRow ev)))"


section \<open>The local day of an event\<close>

definition activeSQLCTzSegment :: "tz_segment list \<Rightarrow> string \<Rightarrow> tz_segment" where
  "activeSQLCTzSegment segs date = active_after (hd segs) segs date"

primrec settle_day :: "tzdb \<Rightarrow> tz_segment list \<Rightarrow> instant \<Rightarrow> nat \<Rightarrow> string \<Rightarrow> go_error + string" where
  "settle_day tz segs t 0 date = Inr date"
| "settle_day tz segs t (Suc n) date =
     res_bind (res_the ErrOther (tz (sg_tz (activeSQLCTzSegment segs date)))) (\<lambda>loc.
       if format_date (local_day loc t) = date then Inr date
       else settle_day tz segs t n (format_date (local_day loc t)))"

definition eventLocalDay :: "tzdb \<Rightarrow> event \<Rightarrow> db \<Rightarrow> go_error + string" where
  "eventLocalDay tz ev d =
     (let start = parseTime (text_of (ev_start_utc ev)) in
      if start = zero_time then Inl ErrOther
      else let segs = q_ListTzSegments (ev_period ev) d in
        if segs = [] then Inl ErrOther
        else settle_day tz segs start 2 (format_date (unix_seconds start div 86400)))"

end
