(* ===== verification/Suggest.thy ===== *)
theory Suggest
  imports Imported Categories
begin

text \<open>
  Category suggestions: internal/ai/categories.go and categorize.go, and the settings and event
  contexts of internal/service/ai.go. The language model is a parameter: the reply (or a failure)
  to a prompt, which is a function of the endpoint, the model, the token budget, the category
  definitions and the event context. So is \<open>ClassifyEndpoint\<close>, whether a URL is on the device.
\<close>

record category_definition =
  cd_key :: string
  cd_name :: string
  cd_description :: string

record event_context =
  ec_title :: string
  ec_description :: string
  ec_location :: string
  ec_organizer :: string
  ec_domains :: "string list"
  ec_duration :: string

record privacy_fields =
  pf_title :: bool
  pf_attendees :: bool
  pf_description :: bool
  pf_location :: bool

text \<open>Everything that is not in the repository: zones, digests and the model behind an endpoint.\<close>

record externals =
  ex_tz :: tzdb
  ex_sha :: "string \<Rightarrow> string"
  ex_local :: "string \<Rightarrow> bool"
  ex_ask :: "string \<Rightarrow> string \<Rightarrow> int \<Rightarrow> category_definition list \<Rightarrow> event_context \<Rightarrow> string option"


section \<open>Matching a reply\<close>

definition trim_quotes :: "string \<Rightarrow> string" where
  "trim_quotes s = (let cut = dropWhile (\<lambda>c. c \<in> {CHR 0x22, CHR 0x27, CHR '' ''}) in rev (cut (rev (cut s))))"

definition MatchCategoryKey :: "string \<Rightarrow> category_definition list \<Rightarrow> string option" where
  "MatchCategoryKey reply cs =
     (let r = trim_quotes reply in
      if r = '''' then None
      else map_option cd_key
        (case find (\<lambda>c. equal_fold r (cd_key c)) cs of Some c \<Rightarrow> Some c | None \<Rightarrow>
         (case find (\<lambda>c. contains (to_lower (cd_key c)) (to_lower r)) cs of Some c \<Rightarrow> Some c | None \<Rightarrow>
          (case find (\<lambda>c. equal_fold r (cd_name c)) cs of Some c \<Rightarrow> Some c | None \<Rightarrow>
           find (\<lambda>c. contains (to_lower (cd_name c)) (to_lower r)) cs))))"

definition minimizeEvent :: "event_context \<Rightarrow> privacy_fields \<Rightarrow> event_context" where
  "minimizeEvent e p =
     \<lparr>ec_title = (if pf_title p then ec_title e else ''''),
      ec_description = (if pf_description p then ec_description e else ''''),
      ec_location = (if pf_location p then ec_location e else ''''),
      ec_organizer = '''',
      ec_domains = (if pf_attendees p then ec_domains e else []),
      ec_duration = ec_duration e\<rparr>"

text \<open>\<open>ask\<close> is the model's answer to the prompt for these definitions and this context.\<close>

definition SuggestCategory ::
    "(category_definition list \<Rightarrow> event_context \<Rightarrow> string option) \<Rightarrow> category_definition list \<Rightarrow> event_context \<Rightarrow>
       bool \<Rightarrow> privacy_fields \<Rightarrow> string option" where
  "SuggestCategory ask cs event onDevice privacy =
     (if cs = [] then None
      else case ask cs (if onDevice then event else minimizeEvent event privacy) of
        None \<Rightarrow> None
      | Some reply \<Rightarrow> MatchCategoryKey reply cs)"

definition categoryDefinitionsForAI :: "category list \<Rightarrow> category_definition list" where
  "categoryDefinitionsForAI cs =
     map (\<lambda>c. \<lparr>cd_key = ct_key c, cd_name = ct_name c, cd_description = ct_description c\<rparr>) cs"


section \<open>Settings\<close>

definition readStringSetting :: "string \<Rightarrow> db \<Rightarrow> string option" where
  "readStringSetting k d =
     (case q_GetSetting k d of Some (JStr s) \<Rightarrow> Some (trim_space s) | Some JNull \<Rightarrow> Some '''' | _ \<Rightarrow> None)"

definition loadAIConfig :: "db \<Rightarrow> (string \<times> string) option" where
  "loadAIConfig d =
     (case readStringSetting ''ai.base_url'' d of
        None \<Rightarrow> None
      | Some url \<Rightarrow> if url = '''' then None
          else case readStringSetting ''ai.model'' d of
            None \<Rightarrow> None
          | Some m \<Rightarrow> if m = '''' then None else Some (url, m))"

definition loadAIMaxTokens :: "db \<Rightarrow> int" where
  "loadAIMaxTokens d = (case q_GetSetting ''ai.max_tokens'' d of Some (JInt n) \<Rightarrow> if n \<le> 0 then 512 else n | _ \<Rightarrow> 512)"

text \<open>A missing member of the object is false, one that is no boolean is an error.\<close>

definition bool_member :: "string \<Rightarrow> (string \<times> json) list \<Rightarrow> go_error + bool" where
  "bool_member k kvs = (case map_of kvs k of
     None \<Rightarrow> Inr False | Some (JBool b) \<Rightarrow> Inr b | Some JNull \<Rightarrow> Inr False | Some _ \<Rightarrow> Inl ErrOther)"

definition loadPrivacyFields :: "db \<Rightarrow> go_error + privacy_fields" where
  "loadPrivacyFields d =
     (case q_GetSetting ''privacy.fields'' d of
        None \<Rightarrow> Inl ErrNotFound
      | Some (JObj kvs) \<Rightarrow>
          res_bind (bool_member ''title'' kvs) (\<lambda>t.
          res_bind (bool_member ''attendees'' kvs) (\<lambda>a.
          res_bind (bool_member ''description'' kvs) (\<lambda>e.
          res_bind (bool_member ''location'' kvs) (\<lambda>l.
            Inr \<lparr>pf_title = t, pf_attendees = a, pf_description = e, pf_location = l\<rparr>))))
      | Some JNull \<Rightarrow> Inr \<lparr>pf_title = False, pf_attendees = False, pf_description = False, pf_location = False\<rparr>
      | Some _ \<Rightarrow> Inl ErrOther)"


section \<open>Event contexts\<close>

text \<open>\<open>Duration.Round(time.Minute)\<close>: halves are rounded away from zero, and an overflow saturates.\<close>

definition round_minute :: "int \<Rightarrow> int" where
  "round_minute n =
     (let r = (abs n) mod minute; up = (if r + r < minute then abs n - r else abs n - r + minute) in
      if n < 0 then max (- up) (- (2 ^ 63)) else min up (2 ^ 63 - 1))"

text \<open>\<open>Duration.String\<close> of a duration that is zero or at least a second long.\<close>

definition frac_digits :: "nat \<Rightarrow> string" where
  "frac_digits n = (let ds = replicate (9 - length (show_nat n)) (CHR ''0'') @ show_nat n in
     rev (dropWhile (\<lambda>c. c = CHR ''0'') (rev ds)))"

definition duration_string :: "int \<Rightarrow> string" where
  "duration_string n =
     (let u = nat (abs n); s = u div nat second; f = u mod nat second;
          h = s div 3600; m = (s div 60) mod 60;
          sec = show_nat (s mod 60) @ (if f = 0 then '''' else ''.'' @ frac_digits f) @ ''s''
      in if n = 0 then ''0s''
         else (if n < 0 then ''-'' else '''') @ (if 0 < h then show_nat h @ ''h'' else '''') @
           (if 0 < h \<or> 0 < m then show_nat m @ ''m'' else '''') @ sec)"

definition email_domain :: "string \<Rightarrow> string option" where
  "email_domain address =
     (let email = to_lower (trim_space address) in
      if email = '''' \<or> CHR ''@'' \<notin> set email then None
      else let domain = rev (takeWhile (\<lambda>c. c \<noteq> CHR ''@'') (rev email)) in
        if domain = '''' then None else Some domain)"

definition buildEventContext :: "incoming \<Rightarrow> event_context" where
  "buildEventContext inc =
     \<lparr>ec_title = ie_title inc, ec_description = ie_description inc, ec_location = ie_location inc,
      ec_organizer = ie_organizer inc,
      ec_domains = rev (remdups (rev (List.map_filter email_domain (map at_email (ie_attendees inc))))),
      ec_duration = (case (ie_start inc, ie_end inc) of
         (Some s, Some e) \<Rightarrow> duration_string (round_minute (time_sub e s)) | _ \<Rightarrow> '''')\<rparr>"


section \<open>A suggestion names a category\<close>

lemma match_key_member: "MatchCategoryKey reply cs = Some k \<Longrightarrow> k \<in> cd_key ` set cs"
  by (auto simp: MatchCategoryKey_def Let_def split: if_splits option.splits dest!: find_SomeD)

lemma suggestion_member: "SuggestCategory ask cs ev onDevice privacy = Some k \<Longrightarrow> k \<in> cd_key ` set cs"
  by (auto simp: SuggestCategory_def dest: match_key_member split: if_splits option.splits)

lemma resolve_suggestion:
  assumes "SuggestCategory ask (categoryDefinitionsForAI cs) ev onDevice privacy = Some k"
  shows "\<exists>c \<in> set cs. resolveCategoryKey cs k = Some c"
proof -
  obtain x where "x \<in> set cs" "ct_key x = k"
    using suggestion_member [OF assms] by (auto simp: categoryDefinitionsForAI_def)
  then have "find (\<lambda>c. equal_fold k (ct_key c)) cs \<noteq> None" by (auto simp: find_None_iff equal_fold_def)
  then show ?thesis by (auto simp: resolveCategoryKey_def dest: find_SomeD)
qed

text \<open>An endpoint in the cloud sees the permitted fields, the domains if permitted, and the duration only.\<close>

lemma cloud_sees_minimum:
  assumes "ec_duration e = ec_duration e'" "pf_title p \<longrightarrow> ec_title e = ec_title e'"
    and "pf_description p \<longrightarrow> ec_description e = ec_description e'"
    and "pf_location p \<longrightarrow> ec_location e = ec_location e'" "pf_attendees p \<longrightarrow> ec_domains e = ec_domains e'"
  shows "SuggestCategory ask cs e False p = SuggestCategory ask cs e' False p"
  using assms by (simp add: SuggestCategory_def minimizeEvent_def)

end
