(* ===== verification/Gapfill.thy ===== *)
theory Gapfill
  imports Suggest Json
begin

text \<open>
  Gap-fill suggestions: internal/service/gap_fill_ai.go, evidence.go, evidence_aggregate.go and
  internal/ai/gapfill.go. The providers of evidence are functions of a window that may fail; the
  chat with the model is a parameter, its reply to the endpoint, model, budget, categories, gap and
  evidence of a prompt; \<open>parse\<close> decodes the JSON of a reply.
\<close>

section \<open>Evidence\<close>

record time_window =
  tw_start :: instant
  tw_end :: instant

record evidence =
  ae_provider :: string
  ae_kind :: string
  ae_start :: instant
  ae_end :: instant
  ae_summary :: string
  ae_source :: string
  ae_detail :: string
  ae_url :: string

type_synonym evidence_provider = "time_window \<Rightarrow> evidence list option"

text \<open>
  Sorted by start and then by end; items with the same span, whose order Go leaves open, stay in the
  order in which they came.
\<close>

definition AggregateEvidence :: "evidence_provider list \<Rightarrow> time_window \<Rightarrow> evidence list" where
  "AggregateEvidence providers window =
     sort_key ae_start (sort_key ae_end (concat (List.map_filter (\<lambda>p. p window) providers)))"

definition ListGapEvidence :: "evidence_provider list \<Rightarrow> time_window \<Rightarrow> go_error + evidence list" where
  "ListGapEvidence providers window =
     (if tw_end window \<le> tw_start window then Inl ErrInvalidInput else Inr (AggregateEvidence providers window))"

record evidence_payload =
  ep_provider :: string
  ep_kind :: string
  ep_summary :: string
  ep_source :: string
  ep_detail :: string
  ep_url :: string
  ep_start :: string
  ep_end :: string

record gap_context =
  gx_start :: instant
  gx_end :: instant
  gx_duration :: string

definition constToGapContext :: "time_window \<Rightarrow> gap_context" where
  "constToGapContext window = \<lparr>gx_start = tw_start window, gx_end = tw_end window,
     gx_duration = duration_string (round_minute (time_sub (tw_end window) (tw_start window)))\<rparr>"

definition buildEvidencePayload :: "evidence list \<Rightarrow> bool \<Rightarrow> evidence_payload list" where
  "buildEvidencePayload es onDevice = map (\<lambda>e.
     \<lparr>ep_provider = ae_provider e, ep_kind = ae_kind e, ep_summary = ae_summary e, ep_source = ae_source e,
      ep_detail = (if onDevice then ae_detail e else ''''), ep_url = (if onDevice then ae_url e else ''''),
      ep_start = (if onDevice then format_rfc3339 (ae_start e) else ''''), ep_end = (if onDevice then format_rfc3339 (ae_end e) else '''')\<rparr>) es"

definition minimizeEvidence :: "evidence_payload list \<Rightarrow> evidence_payload list" where
  "minimizeEvidence items = map (\<lambda>e.
     \<lparr>ep_provider = ep_provider e, ep_kind = ep_kind e, ep_summary = ep_summary e, ep_source = ep_source e,
      ep_detail = '''', ep_url = '''', ep_start = '''', ep_end = ''''\<rparr>) items"


section \<open>The reply of the model\<close>

definition trim_prefix :: "string \<Rightarrow> string \<Rightarrow> string" where
  "trim_prefix p s = (if take (length p) s = p then drop (length p) s else s)"

definition trim_suffix :: "string \<Rightarrow> string \<Rightarrow> string" where
  "trim_suffix p s = rev (trim_prefix (rev p) (rev s))"

text \<open>\<open>strings.Index\<close> and \<open>strings.LastIndex\<close> of a character.\<close>

definition index_of :: "char \<Rightarrow> string \<Rightarrow> nat option" where
  "index_of c s = (let n = length (takeWhile (\<lambda>d. d \<noteq> c) s) in if n < length s then Some n else None)"

definition last_index_of :: "char \<Rightarrow> string \<Rightarrow> nat option" where
  "last_index_of c s = map_option (\<lambda>n. length s - 1 - n) (index_of c (rev s))"

definition extractJSONObject :: "string \<Rightarrow> string" where
  "extractJSONObject reply =
     (let fence = replicate 3 (CHR 0x60); r = trim_space reply;
          r = (if take 3 r = fence then trim_space (trim_suffix fence (trim_prefix fence (trim_prefix (fence @ ''json'') r))) else r)
      in case (index_of (CHR ''{'') r, last_index_of (CHR ''}'') r) of
           (Some a, Some b) \<Rightarrow> if a < b then take (b + 1 - a) (drop a r) else r
         | _ \<Rightarrow> r)"

record gap_reply =
  gr_key :: string
  gr_category :: string
  gr_description :: string

definition read_reply_member :: "string \<times> json \<Rightarrow> gap_reply \<Rightarrow> gap_reply option" where
  "read_reply_member kv r =
     (let k = to_lower (fst kv); v = snd kv in
      if k = ''key'' then map_option (\<lambda>x. r\<lparr>gr_key := x\<rparr>) (read_text v (gr_key r))
      else if k = ''category'' then map_option (\<lambda>x. r\<lparr>gr_category := x\<rparr>) (read_text v (gr_category r))
      else if k = ''description'' then map_option (\<lambda>x. r\<lparr>gr_description := x\<rparr>) (read_text v (gr_description r))
      else Some r)"

definition parse_reply :: "(string \<Rightarrow> json option) \<Rightarrow> string \<Rightarrow> gap_reply option" where
  "parse_reply parse s = (case parse s of
      Some (JObj kvs) \<Rightarrow> read_each read_reply_member kvs \<lparr>gr_key = '''', gr_category = '''', gr_description = ''''\<rparr>
    | Some JNull \<Rightarrow> Some \<lparr>gr_key = '''', gr_category = '''', gr_description = ''''\<rparr>
    | _ \<Rightarrow> None)"

text \<open>\<open>ask\<close> is the reply of the model to a prompt made of the categories, the gap and the evidence.\<close>

type_synonym gap_model = "category_definition list \<Rightarrow> gap_context \<Rightarrow> evidence_payload list \<Rightarrow> string option"

definition ai_SuggestGapFill ::
    "gap_model \<Rightarrow> (string \<Rightarrow> json option) \<Rightarrow> category_definition list \<Rightarrow> gap_context \<Rightarrow> evidence_payload list \<Rightarrow> bool \<Rightarrow>
       (string \<times> string) option" where
  "ai_SuggestGapFill ask parse cs gap evidence onDevice =
     (if cs = [] then None
      else case ask cs gap (if onDevice then evidence else minimizeEvidence evidence) of
        None \<Rightarrow> None
      | Some reply \<Rightarrow> (case parse_reply parse (extractJSONObject reply) of
          None \<Rightarrow> None
        | Some r \<Rightarrow>
            (let candidate = trim_quotes (gr_key r);
                 candidate = (if candidate = '''' then trim_quotes (gr_category r) else candidate)
             in if candidate = '''' then None
                else map_option (\<lambda>k. (k, trim_space (gr_description r))) (MatchCategoryKey candidate cs))))"


section \<open>The service\<close>

record gap_suggestion =
  gs_category :: string
  gs_description :: string
  gs_count :: nat

definition SuggestGapFill ::
    "(string \<Rightarrow> bool) \<Rightarrow> (string \<Rightarrow> string \<Rightarrow> int \<Rightarrow> gap_model) \<Rightarrow> (string \<Rightarrow> json option) \<Rightarrow> evidence_provider list \<Rightarrow>
       time_window \<Rightarrow> db \<Rightarrow> go_error + gap_suggestion" where
  "SuggestGapFill onDevice chat parse providers window d =
     (if tw_end window \<le> tw_start window then Inl ErrInvalidInput
      else case loadAIConfig d of
        None \<Rightarrow> Inl ErrFailedPrecondition
      | Some (url, model) \<Rightarrow>
          (let evidence = AggregateEvidence providers window; cats = ListCategories d in
           case ai_SuggestGapFill (chat url model (loadAIMaxTokens d)) parse (categoryDefinitionsForAI cats) (constToGapContext window)
                  (buildEvidencePayload evidence (onDevice url)) (onDevice url) of
             None \<Rightarrow> Inl ErrOther
           | Some (key, description) \<Rightarrow> (case resolveCategoryKey cats key of
               None \<Rightarrow> Inl ErrOther
             | Some c \<Rightarrow> Inr \<lparr>gs_category = ct_name c, gs_description = description, gs_count = length evidence\<rparr>)))"


section \<open>Laws\<close>

text \<open>The evidence is complete and in order.\<close>

lemma aggregate_complete:
  "set (AggregateEvidence providers window) = (\<Union>p \<in> set providers. case p window of None \<Rightarrow> {} | Some es \<Rightarrow> set es)"
  "length (AggregateEvidence providers window) = sum_list (map (\<lambda>p. case p window of None \<Rightarrow> 0 | Some es \<Rightarrow> length es) providers)"
  by (induction providers) (auto simp: AggregateEvidence_def List.map_filter_def split: option.splits)

lemma insort_key_keeps_order:
  assumes "sorted_wrt Q ys" "sorted (map f ys)" "\<And>y. y \<in> set ys \<Longrightarrow> f x = f y \<Longrightarrow> Q x y" "\<And>x y. f x < f y \<Longrightarrow> Q x y"
  shows "sorted_wrt Q (insort_key f x ys)"
  using assms(1-3)
proof (induction ys)
  case (Cons y ys)
  show ?case
  proof (cases "f x \<le> f y")
    case True
    have "Q x z" if "z \<in> set (y # ys)" for z
    proof (cases "f x = f z")
      case True then show ?thesis using Cons.prems(3) that by blast
    next
      case False
      have "f x \<le> f z" using that True Cons.prems(2) by auto
      then show ?thesis using False assms(4) by simp
    qed
    then show ?thesis using True Cons.prems(1) by simp
  next
    case False
    then have "f y < f x" by simp
    moreover have "sorted_wrt Q (insort_key f x ys)" using Cons.IH Cons.prems by simp
    ultimately show ?thesis using False Cons.prems(1) assms(4) by (simp add: set_insort_key)
  qed
qed simp

lemma sort_key_keeps_order:
  assumes "sorted_wrt R xs" "\<And>x y. R x y \<Longrightarrow> f x = f y \<Longrightarrow> Q x y" "\<And>x y. f x < f y \<Longrightarrow> Q x y"
  shows "sorted_wrt Q (sort_key f xs)"
  using assms(1)
proof (induction xs)
  case (Cons x xs)
  then have "sorted_wrt Q (sort_key f xs)" by simp
  then show ?case using Cons.prems
    by (simp, intro insort_key_keeps_order) (auto intro: assms)
qed simp

lemma aggregate_sorted:
  "sorted_wrt (\<lambda>x y. ae_start x < ae_start y \<or> ae_start x = ae_start y \<and> ae_end x \<le> ae_end y) (AggregateEvidence providers window)"
proof -
  have "sorted_wrt (\<lambda>x y. ae_end x \<le> ae_end y) (sort_key ae_end es)" for es :: "evidence list"
    using sorted_sort_key [of ae_end es] by (simp add: sorted_map)
  then show ?thesis
    unfolding AggregateEvidence_def by (rule sort_key_keeps_order) auto
qed

text \<open>The object of a reply is found in prose without braces, in a code fence or not.\<close>

lemma index_of_found: "c \<notin> set xs \<Longrightarrow> index_of c (xs @ c # ys) = Some (length xs)"
proof -
  assume "c \<notin> set xs"
  then have "takeWhile (\<lambda>d. d \<noteq> c) (xs @ c # ys) = xs" by (induction xs) auto
  then show ?thesis by (simp add: index_of_def)
qed

lemma last_index_of_found: "c \<notin> set ys \<Longrightarrow> last_index_of c (xs @ c # ys) = Some (length xs)"
  using index_of_found [of c "rev ys" "rev xs"] by (simp add: last_index_of_def)

text \<open>Trimming and taking off a code fence cut only the prose around the object.\<close>

definition holds_object :: "string \<Rightarrow> string \<Rightarrow> bool" where
  "holds_object body r \<longleftrightarrow> (\<exists>pre post. r = pre @ CHR ''{'' # body @ CHR ''}'' # post \<and>
     CHR ''{'' \<notin> set pre \<and> CHR ''}'' \<notin> set post)"

lemma drop_while_before: "\<not> P c \<Longrightarrow> dropWhile P (xs @ c # ys) = dropWhile P xs @ c # ys"
  by (induction xs) auto

lemma holds_trim_space: "holds_object body r \<Longrightarrow> holds_object body (trim_space r)"
proof -
  assume "holds_object body r"
  then obtain pre post where r: "r = pre @ CHR ''{'' # body @ CHR ''}'' # post"
    and free: "CHR ''{'' \<notin> set pre" "CHR ''}'' \<notin> set post" by (auto simp: holds_object_def)
  have braces: "\<not> is_space (CHR ''{'')" "\<not> is_space (CHR ''}'')" by (simp_all add: is_space_def)
  let ?pre = "dropWhile is_space pre" and ?post = "rev (dropWhile is_space (rev post))"
  have "trim_space r = ?pre @ CHR ''{'' # body @ CHR ''}'' # ?post"
    using drop_while_before [of is_space, OF braces(1), of pre "body @ CHR ''}'' # post"]
      drop_while_before [of is_space, OF braces(2), of "rev post" "rev body @ CHR ''{'' # rev ?pre"]
    by (simp add: trim_space_def r)
  moreover have "CHR ''{'' \<notin> set ?pre" "CHR ''}'' \<notin> set ?post" using free by (auto dest: set_dropWhileD)
  ultimately show ?thesis unfolding holds_object_def by blast
qed

lemma take_before:
  assumes "c \<notin> set p" "take (length p) (xs @ c # ys) = p"
  shows "length p \<le> length xs"
proof (rule ccontr)
  assume "\<not> length p \<le> length xs"
  then have "p = xs @ take (length p - length xs) (c # ys)" "0 < length p - length xs" using assms(2) by auto
  then have "c \<in> set p" by (metis gr0_conv_Suc list.set_intros(1) set_append take_Suc_Cons UnI2)
  then show False using assms(1) by simp
qed

lemma trim_prefix_before:
  assumes "c \<notin> set p"
  shows "\<exists>zs. trim_prefix p (xs @ c # ys) = zs @ c # ys \<and> set zs \<subseteq> set xs"
proof (cases "take (length p) (xs @ c # ys) = p")
  case True
  then have "drop (length p) (xs @ c # ys) = drop (length p) xs @ c # ys"
    using take_before [OF assms True] by simp
  then show ?thesis using True set_drop_subset [of "length p" xs] by (auto simp: trim_prefix_def)
next
  case False
  then show ?thesis by (intro exI [of _ xs]) (simp add: trim_prefix_def)
qed

lemma holds_trim_prefix:
  assumes "holds_object body r" "CHR ''{'' \<notin> set p"
  shows "holds_object body (trim_prefix p r)"
proof -
  obtain pre post where r: "r = pre @ CHR ''{'' # body @ CHR ''}'' # post"
    and free: "CHR ''{'' \<notin> set pre" "CHR ''}'' \<notin> set post" using assms(1) by (auto simp: holds_object_def)
  obtain zs where "trim_prefix p r = zs @ CHR ''{'' # body @ CHR ''}'' # post" "set zs \<subseteq> set pre"
    using trim_prefix_before [OF assms(2), of pre "body @ CHR ''}'' # post"] by (auto simp: r)
  then show ?thesis using free unfolding holds_object_def by blast
qed

lemma holds_trim_suffix:
  assumes "holds_object body r" "CHR ''}'' \<notin> set p"
  shows "holds_object body (trim_suffix p r)"
proof -
  obtain pre post where r: "r = pre @ CHR ''{'' # body @ CHR ''}'' # post"
    and free: "CHR ''{'' \<notin> set pre" "CHR ''}'' \<notin> set post" using assms(1) by (auto simp: holds_object_def)
  have p: "CHR ''}'' \<notin> set (rev p)" using assms(2) by simp
  obtain zs where "trim_prefix (rev p) (rev r) = zs @ CHR ''}'' # rev body @ CHR ''{'' # rev pre" "set zs \<subseteq> set post"
    using trim_prefix_before [OF p, of "rev post" "rev body @ CHR ''{'' # rev pre"] by (auto simp: r)
  then have "trim_suffix p r = pre @ CHR ''{'' # body @ CHR ''}'' # rev zs" "CHR ''}'' \<notin> set (rev zs)"
    using free(2) by (auto simp: trim_suffix_def)
  then show ?thesis using free(1) unfolding holds_object_def by blast
qed

lemma extracts_object:
  assumes "CHR ''{'' \<notin> set pre" "CHR ''}'' \<notin> set post"
  shows "extractJSONObject (pre @ CHR ''{'' # body @ CHR ''}'' # post) = CHR ''{'' # body @ ''}''"
proof -
  let ?fence = "replicate 3 (CHR 0x60)"
  define r where "r = trim_space (pre @ CHR ''{'' # body @ CHR ''}'' # post)"
  define t where "t = (if take 3 r = ?fence
    then trim_space (trim_suffix ?fence (trim_prefix ?fence (trim_prefix (?fence @ ''json'') r))) else r)"
  have "holds_object body (pre @ CHR ''{'' # body @ CHR ''}'' # post)"
    using assms unfolding holds_object_def by blast
  then have "holds_object body r" unfolding r_def by (rule holds_trim_space)
  then have "holds_object body t"
    unfolding t_def by (auto intro!: holds_trim_space holds_trim_suffix holds_trim_prefix simp: eval_nat_numeral)
  then obtain pre' post' where t: "t = pre' @ CHR ''{'' # body @ CHR ''}'' # post'"
    and free: "CHR ''{'' \<notin> set pre'" "CHR ''}'' \<notin> set post'" by (auto simp: holds_object_def)
  have first: "index_of (CHR ''{'') t = Some (length pre')" using index_of_found free(1) by (simp add: t)
  have last: "last_index_of (CHR ''}'') t = Some (length pre' + 1 + length body)"
    using last_index_of_found [of "CHR ''}''" post' "pre' @ CHR ''{'' # body"] free(2) by (simp add: t)
  show ?thesis
    unfolding extractJSONObject_def Let_def r_def [symmetric] t_def [symmetric] first last by (simp add: t)
qed

text \<open>
  The members of the object: the last member of a name, in any case of letters, counts; others are
  passed over.
\<close>

definition last_text :: "string \<Rightarrow> (string \<times> json) list \<Rightarrow> string \<Rightarrow> string" where
  "last_text n kvs old = last (old # List.map_filter
     (\<lambda>(k, v). case v of JStr s \<Rightarrow> if to_lower k = n then Some s else None | _ \<Rightarrow> None) kvs)"

lemma read_members:
  assumes "\<forall>(k, v) \<in> set kvs. to_lower k \<in> {''key'', ''category'', ''description''} \<longrightarrow> (\<exists>s. v = JStr s)"
  shows "read_each read_reply_member kvs r = Some \<lparr>gr_key = last_text ''key'' kvs (gr_key r),
    gr_category = last_text ''category'' kvs (gr_category r), gr_description = last_text ''description'' kvs (gr_description r)\<rparr>"
  using assms
proof (induction kvs arbitrary: r)
  case Nil
  then show ?case by (simp add: last_text_def List.map_filter_simps)
next
  case (Cons kv kvs)
  obtain k v where kv: "kv = (k, v)" by (cases kv)
  show ?case
  proof (cases "to_lower k \<in> {''key'', ''category'', ''description''}")
    case True
    then obtain s where "v = JStr s" using Cons.prems kv by auto
    then show ?thesis
      using Cons True by (auto simp: kv read_reply_member_def read_text_def last_text_def Let_def List.map_filter_simps)
  next
    case False
    then show ?thesis
      using Cons by (auto simp: kv read_reply_member_def last_text_def Let_def List.map_filter_simps split: json.splits)
  qed
qed

text \<open>What a suggestion says is a category of the user, and nothing private reaches a remote model.\<close>

lemma resolve_known:
  assumes "k \<in> cd_key ` set (categoryDefinitionsForAI cs)"
  obtains c where "c \<in> set cs" "resolveCategoryKey cs k = Some c"
proof -
  obtain x where "x \<in> set cs" "ct_key x = k" using assms by (auto simp: categoryDefinitionsForAI_def)
  then have "find (\<lambda>c. equal_fold k (ct_key c)) cs \<noteq> None" by (auto simp: find_None_iff equal_fold_def)
  then obtain c where c: "find (\<lambda>c. equal_fold k (ct_key c)) cs = Some c" by blast
  have "resolveCategoryKey cs k = Some c" using c by (simp add: resolveCategoryKey_def)
  then show thesis using that find_SomeD [OF c] by blast
qed

lemma gap_key_member:
  "ai_SuggestGapFill ask parse cs gap ev b = Some (k, t) \<Longrightarrow> k \<in> cd_key ` set cs"
  by (auto simp: ai_SuggestGapFill_def Let_def dest: match_key_member split: if_splits option.splits)

lemma gap_suggestion_runs:
  assumes "tw_start window < tw_end window" "loadAIConfig d = Some (url, model)"
    and "ai_SuggestGapFill (chat url model (loadAIMaxTokens d)) parse (categoryDefinitionsForAI (ListCategories d)) (constToGapContext window)
      (buildEvidencePayload (AggregateEvidence providers window) (onDevice url)) (onDevice url) = Some (k, t)"
  obtains c where "c \<in> set (ListCategories d)" "resolveCategoryKey (ListCategories d) k = Some c"
    "SuggestGapFill onDevice chat parse providers window d =
       Inr \<lparr>gs_category = ct_name c, gs_description = t, gs_count = length (AggregateEvidence providers window)\<rparr>"
proof -
  obtain c where c: "c \<in> set (ListCategories d)" "resolveCategoryKey (ListCategories d) k = Some c"
    using resolve_known [OF gap_key_member [OF assms(3)]] by blast
  have "SuggestGapFill onDevice chat parse providers window d =
       Inr \<lparr>gs_category = ct_name c, gs_description = t, gs_count = length (AggregateEvidence providers window)\<rparr>"
    using assms c(2) by (simp add: SuggestGapFill_def Let_def)
  then show thesis using that c by blast
qed

lemma gap_suggestion_Inr:
  assumes "SuggestGapFill onDevice chat parse providers window d = Inr s"
  obtains url model k c where "tw_start window < tw_end window" "loadAIConfig d = Some (url, model)"
    "c \<in> set (ListCategories d)" "gs_category s = ct_name c" "resolveCategoryKey (ListCategories d) k = Some c"
    "ai_SuggestGapFill (chat url model (loadAIMaxTokens d)) parse (categoryDefinitionsForAI (ListCategories d)) (constToGapContext window)
      (buildEvidencePayload (AggregateEvidence providers window) (onDevice url)) (onDevice url) = Some (k, gs_description s)"
    "gs_count s = length (AggregateEvidence providers window)"
proof -
  from assms obtain url model k t where *: "tw_start window < tw_end window" "loadAIConfig d = Some (url, model)"
    "ai_SuggestGapFill (chat url model (loadAIMaxTokens d)) parse (categoryDefinitionsForAI (ListCategories d)) (constToGapContext window)
      (buildEvidencePayload (AggregateEvidence providers window) (onDevice url)) (onDevice url) = Some (k, t)"
    by (auto simp: SuggestGapFill_def Let_def split: if_splits option.splits)
  from gap_suggestion_runs [where onDevice = onDevice and chat = chat and window = window and providers = providers and parse = parse, OF *] obtain c where "c \<in> set (ListCategories d)" "resolveCategoryKey (ListCategories d) k = Some c"
    "s = \<lparr>gs_category = ct_name c, gs_description = t, gs_count = length (AggregateEvidence providers window)\<rparr>"
    using assms by (metis sum.inject(2))
  then show thesis using that * by simp
qed

lemma minimal_payload: "minimizeEvidence (buildEvidencePayload es False) = buildEvidencePayload es False"
  by (simp add: minimizeEvidence_def buildEvidencePayload_def)

text \<open>What a remote model may see of an item.\<close>

definition public_part :: "evidence \<Rightarrow> string \<times> string \<times> string \<times> string" where
  "public_part e = (ae_provider e, ae_kind e, ae_summary e, ae_source e)"

lemma remote_sees_public_part:
  assumes "map public_part (AggregateEvidence ps window) = map public_part (AggregateEvidence qs window)" "\<not> onDevice (fst (the (loadAIConfig d)))"
  shows "SuggestGapFill onDevice chat parse ps window d = SuggestGapFill onDevice chat parse qs window d"
proof -
  have "map (\<lambda>(a, b, c, e). \<lparr>ep_provider = a, ep_kind = b, ep_summary = c, ep_source = e, ep_detail = '''', ep_url = '''', ep_start = '''', ep_end = ''''\<rparr>)
      (map public_part es) = buildEvidencePayload es False" for es
    by (simp add: buildEvidencePayload_def public_part_def)
  then have payload: "buildEvidencePayload (AggregateEvidence ps window) False = buildEvidencePayload (AggregateEvidence qs window) False"
    using assms(1) by metis
  have count: "length (AggregateEvidence ps window) = length (AggregateEvidence qs window)"
    using assms(1) by (metis length_map)
  show ?thesis
  proof (cases "loadAIConfig d")
    case (Some um)
    then show ?thesis using assms(2) payload count by (cases um) (auto simp: SuggestGapFill_def Let_def split: option.splits)
  qed (simp add: SuggestGapFill_def)
qed

text \<open>A reply that is the key of a category, in quotes or in another case, names that category.\<close>

lemma trim_quotes_idem [simp]: "trim_quotes (trim_quotes s) = trim_quotes s"
  using cut_id [OF cut_shape(1) [OF refl], of "\<lambda>c. c \<in> {CHR 0x22, CHR 0x27, CHR '' ''}" s] by (simp only: trim_quotes_def Let_def)

lemma match_own_key:
  assumes "c \<in> set cs" "equal_fold (trim_quotes r) (cd_key c)" "trim_quotes r \<noteq> ''''"
    and "\<And>x. x \<in> set cs \<Longrightarrow> equal_fold (cd_key x) (cd_key c) \<Longrightarrow> x = c"
  shows "MatchCategoryKey (trim_quotes r) cs = Some (cd_key c)"
proof -
  have "find (\<lambda>c. equal_fold (trim_quotes r) (cd_key c)) cs \<noteq> None" using assms(1,2) by (auto simp: find_None_iff)
  then obtain x where x: "find (\<lambda>c. equal_fold (trim_quotes r) (cd_key c)) cs = Some x" by blast
  have "x = c" using find_SomeD [OF x] assms(2,4) by (simp add: equal_fold_def)
  then show ?thesis using x assms(3) by (simp add: MatchCategoryKey_def Let_def)
qed

lemma resolve_own_key:
  assumes "c \<in> set cs" "\<And>x. x \<in> set cs \<Longrightarrow> equal_fold (ct_key x) (ct_key c) \<Longrightarrow> x = c"
  shows "resolveCategoryKey cs (ct_key c) = Some c"
proof -
  have "find (\<lambda>x. equal_fold (ct_key c) (ct_key x)) cs \<noteq> None" using assms(1) by (auto simp: find_None_iff equal_fold_def)
  then obtain x where x: "find (\<lambda>x. equal_fold (ct_key c) (ct_key x)) cs = Some x" by blast
  have "x = c" using find_SomeD [OF x] assms(2) by (simp add: equal_fold_def)
  then show ?thesis using x by (simp add: resolveCategoryKey_def)
qed

end
