(* ===== verification/Review.thy ===== *)
theory Review
  imports Imported
begin

text \<open>
  The review queue: internal/service/review_policy.go (what raises an item, what a decision does),
  review.go (\<open>ResolveReviewDecision\<close>), exclude_event.go and all_day_convert.go. Payloads are
  JSON values; the texts of review_decision.go are left to \<open>Decisions\<close>.
\<close>


section \<open>Vocabulary\<close>

abbreviation ReviewActionKeepEntry :: string where "ReviewActionKeepEntry \<equiv> ''keep_entry''"
abbreviation ReviewActionDropEntry :: string where "ReviewActionDropEntry \<equiv> ''drop_entry''"
abbreviation ReviewActionAccept :: string where "ReviewActionAccept \<equiv> ''accept''"
abbreviation ReviewActionDismiss :: string where "ReviewActionDismiss \<equiv> ''dismiss''"
abbreviation ReviewActionKeepGap :: string where "ReviewActionKeepGap \<equiv> ''keep_gap''"
abbreviation ReviewActionUseEvent :: string where "ReviewActionUseEvent \<equiv> ''use_event''"
abbreviation ReviewActionInclude :: string where "ReviewActionInclude \<equiv> ''include''"
abbreviation ReviewActionExclude :: string where "ReviewActionExclude \<equiv> ''exclude''"
abbreviation ReviewActionSpawnDraft :: string where "ReviewActionSpawnDraft \<equiv> ''spawn_draft''"
abbreviation ReviewActionReplace :: string where "ReviewActionReplace \<equiv> ''replace''"

abbreviation reviewNewInGap :: string where "reviewNewInGap \<equiv> ''new_in_gap''"
abbreviation reviewTitleChanged :: string where "reviewTitleChanged \<equiv> ''title_changed''"
abbreviation reviewDeletedCategoriz :: string where "reviewDeletedCategoriz \<equiv> ''deleted_categorized''"
abbreviation reviewTentative :: string where "reviewTentative \<equiv> ''tentative''"
abbreviation reviewAllDay :: string where "reviewAllDay \<equiv> ''all_day''"
abbreviation reviewSourceDrift :: string where "reviewSourceDrift \<equiv> ''source_drift''"

definition ConflictKey :: "string \<Rightarrow> string list \<Rightarrow> string" where
  "ConflictKey identity parts = join_with ''|'' (identity # parts)"

text \<open>The fields that \<open>json.Unmarshal\<close> reads from a payload; what is missing is left empty.\<close>

definition payload_string :: "string \<Rightarrow> json \<Rightarrow> string" where
  "payload_string k j = (case j of JObj kvs \<Rightarrow> (case map_of kvs k of Some (JStr s) \<Rightarrow> s | _ \<Rightarrow> '''') | _ \<Rightarrow> '''')"

definition payload_ids :: "string \<Rightarrow> json \<Rightarrow> int list" where
  "payload_ids k j = (case j of
     JObj kvs \<Rightarrow> (case map_of kvs k of Some (JList xs) \<Rightarrow> map (\<lambda>x. case x of JInt i \<Rightarrow> i | _ \<Rightarrow> 0) xs | _ \<Rightarrow> [])
   | _ \<Rightarrow> [])"


section \<open>Shrinking gap fills\<close>

definition set_span :: "int \<Rightarrow> time_entry \<Rightarrow> interval \<Rightarrow> (db, time_entry) act" where
  "set_span p fill iv = mapErr (q_UpdateTimeEntrySpan (format_rfc3339 (iv_start iv)) (format_rfc3339 (iv_end iv))
     (durationMinutes (iv_start iv) (iv_end iv)) (te_day fill) (te_id fill) p)"

definition shrink_fill :: "int \<Rightarrow> interval \<Rightarrow> time_entry \<Rightarrow> (db, unit) act" where
  "shrink_fill p event fill =
     (let gap = mk_iv (parseTime (te_start fill)) (parseTime (te_end fill)) in
      if iv_start gap = zero_time \<or> iv_end gap = zero_time then act_ret ()
      else case splitAround gap event of
        (_, None, _) \<Rightarrow> act_ret ()
      | (None, Some _, None) \<Rightarrow> act_seq (mapErr (q_DeleteTimeEntry (te_id fill) p)) (act_ret ())
      | (None, Some _, Some after) \<Rightarrow> act_seq (set_span p fill after) (act_ret ())
      | (Some before, Some _, None) \<Rightarrow> act_seq (set_span p fill before) (act_ret ())
      | (Some before, Some _, Some after) \<Rightarrow>
          act_seq (set_span p fill before)
          (act_seq (mapErr (q_CreateTimeEntry (fill\<lparr>te_period := p,
               te_start := format_rfc3339 (iv_start after), te_end := format_rfc3339 (iv_end after),
               te_duration := durationMinutes (iv_start after) (iv_end after)\<rparr>)))
             (act_ret ())))"

definition shrinkGapFillsForEvent :: "int \<Rightarrow> interval \<Rightarrow> time_entry list \<Rightarrow> (db, unit) act" where
  "shrinkGapFillsForEvent p event fills = act_seq (for_each (shrink_fill p event) fills) (act_ret ())"


section \<open>Side effects of a decision\<close>

definition need_event :: "review_item \<Rightarrow> (event \<Rightarrow> (db, 'a) act) \<Rightarrow> (db, 'a) act" where
  "need_event item k = (case rv_event item of None \<Rightarrow> act_throw ErrOther
     | Some i \<Rightarrow> act_bind (mapErr (get_one (q_GetEvent i))) k)"

definition timed :: "event \<Rightarrow> bool" where
  "timed ev \<longleftrightarrow> \<not> ev_all_day ev \<and> ev_start_utc ev \<noteq> None \<and> ev_end_utc ev \<noteq> None"

definition convertEventToManualFill :: "tzdb \<Rightarrow> event \<Rightarrow> (db, unit) act" where
  "convertEventToManualFill tz ev =
     (if \<not> timed ev then act_throw ErrOther
      else act_bind (act_gets (effectiveCategory (ev_period ev) (ev_provider ev) (ev_external ev) (ev_instance ev))) (\<lambda>cat.
           act_bind (act_reads (eventLocalDay tz ev)) (\<lambda>day.
             let s = parseTime (text_of (ev_start_utc ev)); e = parseTime (text_of (ev_end_utc ev)) in
             act_seq (mapErr (q_CreateTimeEntry
               \<lparr>te_id = 0, te_period = ev_period ev, te_start = format_rfc3339 s, te_end = format_rfc3339 e,
                te_duration = durationMinutes s e, te_day = day, te_category = cat, te_description = ev_title ev,
                te_attestation = ''confirmed'', te_source_kind = None, te_source_id = None, te_source_revision = None,
                te_method = None, te_work_type = ''worked'', te_project = None, te_billable = ''unset''\<rparr>))
             (DeleteCategoryOverlay ev))))"

definition applyDeletedCategorized :: "tzdb \<Rightarrow> review_item \<Rightarrow> string \<Rightarrow> (db, unit) act" where
  "applyDeletedCategorized tz item action = need_event item (\<lambda>ev.
     if action = ReviewActionKeepEntry then
       act_seq (dismissCalendarDraftsForEvent ev) (act_seq (convertEventToManualFill tz ev) (MarkExcluded ev))
     else if action = ReviewActionDropEntry then
       act_seq (dismissCalendarDraftsForEvent ev) (act_seq (DeleteCategoryOverlay ev) (MarkExcluded ev))
     else act_throw ErrInvalidInput)"

definition applyNewInGap :: "review_item \<Rightarrow> string \<Rightarrow> (db, unit) act" where
  "applyNewInGap item action = need_event item (\<lambda>ev.
     if action = ReviewActionKeepGap then MarkExcluded ev
     else if action = ReviewActionUseEvent then
       (if \<not> timed ev then act_throw ErrOther
        else act_bind (act_gets (q_ListTimeEntriesForPeriod (rv_period item))) (\<lambda>fills.
          shrinkGapFillsForEvent (rv_period item)
            (mk_iv (parseTime (text_of (ev_start_utc ev))) (parseTime (text_of (ev_end_utc ev)))) fills))
     else act_throw ErrInvalidInput)"

definition clearAllDayReviewExclusion :: "int \<Rightarrow> (db, unit) act" where
  "clearAllDayReviewExclusion i = act_bind (mapErr (get_one (q_GetEvent i))) (\<lambda>ev.
     if \<not> ev_all_day ev then act_ret ()
     else act_bind (act_gets (q_GetOverlay (ev_period ev) (ev_provider ev) (ev_external ev) (ev_instance ev)
            overlayKindStatus)) (\<lambda>ov.
       case ov of None \<Rightarrow> act_ret ()
       | Some ov \<Rightarrow> if ov_note ov \<noteq> overlayStatusExclude then act_ret ()
                    else mapErr (q_DeleteOverlay (ov_id ov))))"

definition applyIncludeExclude :: "review_item \<Rightarrow> string \<Rightarrow> (db, unit) act" where
  "applyIncludeExclude item action = (case rv_event item of None \<Rightarrow> act_throw ErrOther | Some i \<Rightarrow>
     if action = ReviewActionInclude then
       (if rv_kind item = reviewAllDay then clearAllDayReviewExclusion i else act_ret ())
     else if action = ReviewActionExclude then
       act_bind (mapErr (get_one (q_GetEvent i))) (\<lambda>ev.
         act_seq (DeleteCategoryOverlay ev)
           (if rv_kind item = reviewAllDay then clearAllDayReviewExclusion (ev_id ev) else MarkExcluded ev))
     else act_throw ErrInvalidInput)"

text \<open>The first confirmed entry of the payload lends the new draft its allocation.\<close>

definition drift_source :: "json \<Rightarrow> int \<Rightarrow> db \<Rightarrow> time_entry option" where
  "drift_source payload p d = find (\<lambda>r. te_attestation r = ''confirmed'')
     (List.map_filter (\<lambda>i. q_GetTimeEntry i p d) (payload_ids ''time_entry_ids'' payload))"

definition spawnSourceDriftDraft :: "tzdb \<Rightarrow> review_item \<Rightarrow> bool \<Rightarrow> (db, unit) act" where
  "spawnSourceDriftDraft tz item replace = need_event item (\<lambda>ev.
     if \<not> timed ev then act_throw ErrOther
     else
       let identity = payload_string ''event_identity'' (rv_payload item);
           identity = (if identity = '''' then eventIdentityFromRow ev else identity);
           revision = payload_string ''source_revision'' (rv_payload item);
           revision = (if revision = '''' then ev_hash ev else revision)
       in act_bind (act_gets (drift_source (rv_payload item) (rv_period item))) (\<lambda>src.
          act_bind (act_reads (eventLocalDay tz ev)) (\<lambda>day.
            let s = parseTime (text_of (ev_start_utc ev)); e = parseTime (text_of (ev_end_utc ev)) in
            act_seq (mapErr (q_CreateTimeEntry
              \<lparr>te_id = 0, te_period = rv_period item, te_start = format_rfc3339 s, te_end = format_rfc3339 e,
               te_duration = durationMinutes s e, te_day = day,
               te_category = (case src of None \<Rightarrow> None | Some r \<Rightarrow> te_category r),
               te_description = (case src of None \<Rightarrow> ev_title ev
                 | Some r \<Rightarrow> if \<not> replace \<and> te_description r \<noteq> '''' then te_description r else ev_title ev),
               te_attestation = ''draft'', te_source_kind = Some SourceKindCalendarEvent,
               te_source_id = Some identity, te_source_revision = Some revision,
               te_method = Some MethodCalendarImport,
               te_work_type = (case src of None \<Rightarrow> ''worked'' | Some r \<Rightarrow> te_work_type r),
               te_project = (case src of None \<Rightarrow> None | Some r \<Rightarrow> te_project r),
               te_billable = (case src of None \<Rightarrow> ''unset'' | Some r \<Rightarrow> te_billable r)\<rparr>))
            (act_ret ()))))"

definition applySourceDrift :: "tzdb \<Rightarrow> review_item \<Rightarrow> string \<Rightarrow> (db, unit) act" where
  "applySourceDrift tz item action =
     (if action = ReviewActionDismiss then act_ret ()
      else if action = ReviewActionSpawnDraft \<or> action = ReviewActionReplace then
        spawnSourceDriftDraft tz item (action = ReviewActionReplace)
      else act_throw ErrInvalidInput)"

text \<open>\<open>Apply\<close>: the side effects, and the status the item gets.\<close>

definition Apply :: "tzdb \<Rightarrow> review_item \<Rightarrow> string \<Rightarrow> (db, string) act" where
  "Apply tz item action =
     (let kind = rv_kind item in
      if kind = reviewDeletedCategoriz then
        act_seq (applyDeletedCategorized tz item action) (act_ret ''resolved'')
      else if kind = reviewTitleChanged then
        (if action = ReviewActionAccept then act_ret ''resolved''
         else if action = ReviewActionDismiss then act_ret ''dismissed''
         else act_throw ErrInvalidInput)
      else if kind = reviewNewInGap then act_seq (applyNewInGap item action) (act_ret ''resolved'')
      else if kind = reviewTentative \<or> kind = reviewAllDay then
        act_seq (applyIncludeExclude item action) (act_ret ''resolved'')
      else if kind = reviewSourceDrift then
        act_seq (applySourceDrift tz item action)
          (act_ret (if action = ReviewActionDismiss then ''dismissed'' else ''resolved''))
      else if kind = ''overlap'' \<or> kind = ''dedup_ambiguous'' then act_throw ErrFailedPrecondition
      else act_throw ErrOther)"

definition ResolveReviewDecision :: "tzdb \<Rightarrow> int \<Rightarrow> string \<Rightarrow> (db, int) act" where
  "ResolveReviewDecision tz i action = in_tx
     (act_bind (mapErr (get_one (q_GetReviewItem i))) (\<lambda>item.
        if rv_status item \<noteq> ''open'' then act_throw ErrOther
        else act_bind (Apply tz item action) (\<lambda>status.
          act_seq (mapErr (q_ResolveReviewItem status action (JObj []) (rv_id item)))
            (act_ret (rv_period item)))))"


section \<open>Raising items\<close>

text \<open>\<open>EnqueueOrReplay\<close>: the action of an earlier decision, and whether an item was created.\<close>

definition EnqueueOrReplay :: "int \<Rightarrow> string \<Rightarrow> int \<Rightarrow> string \<Rightarrow> json \<Rightarrow> (db, string \<times> bool) act" where
  "EnqueueOrReplay p kind e key payload =
     act_bind (act_gets (q_GetReviewItemByConflictKey p kind key)) (\<lambda>existing.
       case existing of
         Some r \<Rightarrow> act_ret (if rv_status r = ''open'' then '''' else rv_action r, False)
       | None \<Rightarrow> act_seq (q_CreateReviewItem p kind (Some e) payload key) (act_ret ('''', True)))"

text \<open>The item that a replayed decision is applied to.\<close>

definition replay_item :: "int \<Rightarrow> string \<Rightarrow> int \<Rightarrow> review_item" where
  "replay_item p kind e = \<lparr>rv_id = 0, rv_period = p, rv_kind = kind, rv_event = Some e, rv_payload = JText '''',
     rv_status = '''', rv_conflict_key = '''', rv_action = '''', rv_decision = JText ''''\<rparr>"

definition OnVanishedCategorized :: "tzdb \<Rightarrow> int \<Rightarrow> event \<Rightarrow> (db, bool \<times> bool) act" where
  "OnVanishedCategorized tz p e =
     act_bind (EnqueueOrReplay p reviewDeletedCategoriz (ev_id e)
        (ConflictKey (eventIdentityFromRow e) [''deleted''])
        (JObj [(''reason'', JStr ''deleted''), (''title'', JStr (ev_title e))])) (\<lambda>(action, created).
       if action = ReviewActionDropEntry \<or> action = ReviewActionKeepEntry then
         act_seq (Apply tz (replay_item p reviewDeletedCategoriz (ev_id e)) action)
           (act_ret (created, action = ReviewActionDropEntry))
       else act_ret (created, False))"

definition overlappingGapFingerprint :: "incoming \<Rightarrow> time_entry list \<Rightarrow> string option" where
  "overlappingGapFingerprint inc gaps =
     (case (ie_start inc, ie_end inc) of
        (Some s, Some e) \<Rightarrow>
          (let parts = map (\<lambda>g. join_with ''~'' [te_start g, te_end g,
                   (case te_category g of None \<Rightarrow> ''none'' | Some c \<Rightarrow> show_int c), text_of (te_method g)])
                 (filter (\<lambda>g. parseTime (te_start g) \<noteq> zero_time \<and> parseTime (te_end g) \<noteq> zero_time \<and>
                    s < parseTime (te_end g) \<and> parseTime (te_start g) < e) gaps)
           in if parts = [] then None else Some (join_with ''^'' parts))
      | _ \<Rightarrow> None)"

text \<open>\<open>OnNewEvent\<close>: how many items were raised, and whether later layers are skipped.\<close>

definition OnNewEvent :: "tzdb \<Rightarrow> int \<Rightarrow> incoming \<Rightarrow> int \<Rightarrow> time_entry list \<Rightarrow> (db, int \<times> bool) act" where
  "OnNewEvent tz p inc e gaps =
     (let identity = eventIdentityFromIncoming inc in
      case overlappingGapFingerprint inc gaps of
        Some fingerprint \<Rightarrow>
          act_bind (EnqueueOrReplay p reviewNewInGap e (ConflictKey identity [fingerprint])
             (JObj [(''title'', JStr (ie_title inc))])) (\<lambda>(action, created).
            if action = ReviewActionKeepGap \<or> action = ReviewActionUseEvent then
              act_seq (Apply tz (replay_item p reviewNewInGap e) action)
                (act_ret (of_bool created, action = ReviewActionKeepGap))
            else act_ret (of_bool created, False))
      | None \<Rightarrow>
          if ie_all_day inc then
            act_bind (EnqueueOrReplay p reviewAllDay e (ConflictKey identity [ie_start_date inc, ie_end_date inc])
               (JObj [(''title'', JStr (ie_title inc))])) (\<lambda>(_, created). act_ret (of_bool created, False))
          else if ie_status inc = ''tentative'' \<or> ie_status inc = ''needsAction'' then
            act_bind (EnqueueOrReplay p reviewTentative e (ConflictKey identity [ie_status inc])
               (JObj [(''status'', JStr (ie_status inc)), (''title'', JStr (ie_title inc))])) (\<lambda>(action, created).
              if action = ReviewActionExclude then
                act_seq (Apply tz (replay_item p reviewTentative e) action) (act_ret (of_bool created, True))
              else act_ret (of_bool created, False))
          else act_ret (0, False))"

definition OnChangedCategorized :: "tzdb \<Rightarrow> int \<Rightarrow> int \<Rightarrow> event \<Rightarrow> incoming \<Rightarrow> (db, int) act" where
  "OnChangedCategorized tz p e ex inc =
     act_bind
       (if normalizeTitle (ev_title ex) \<noteq> normalizeTitle (ie_title inc) then
          act_bind (EnqueueOrReplay p reviewTitleChanged e
             (ConflictKey (eventIdentityFromIncoming inc)
                [normalizeTitle (ev_title ex), normalizeTitle (ie_title inc)])
             (JObj [(''from'', JStr (ev_title ex)), (''to'', JStr (ie_title inc))]))
            (\<lambda>(_, created). act_ret (of_bool created))
        else act_ret 0) (\<lambda>flagged.
       if ie_status inc = ''declined'' then
         act_bind (EnqueueOrReplay p reviewDeletedCategoriz e
            (ConflictKey (eventIdentityFromIncoming inc) [''declined''])
            (JObj [(''reason'', JStr ''declined''), (''title'', JStr (ie_title inc))])) (\<lambda>(action, created).
           if action = ReviewActionDropEntry then
             act_seq (Apply tz (replay_item p reviewDeletedCategoriz e) action)
               (act_ret (flagged + of_bool created))
           else act_ret (flagged + of_bool created))
       else act_ret flagged)"

definition enqueueSourceDrift :: "int \<Rightarrow> int \<Rightarrow> string \<Rightarrow> json \<Rightarrow> (db, bool) act" where
  "enqueueSourceDrift p e identity payload =
     (let key = join_with ''|'' [identity, ''source_drift''];
          create = act_seq (q_CreateReviewItem p reviewSourceDrift (Some e) payload key) (act_ret True)
      in act_bind (act_gets (q_GetReviewItemByConflictKey p reviewSourceDrift key)) (\<lambda>existing.
        case existing of
          None \<Rightarrow> create
        | Some r \<Rightarrow>
            if rv_status r = ''open'' then
              act_seq (mapErr (q_UpdateOpenReviewItemPayload payload (rv_id r))) (act_ret False)
            else if rv_status r = ''resolved'' \<or> rv_status r = ''dismissed'' then
              act_bind (mapErr (q_ReopenReviewItem payload (Some e) (rv_id r))) (\<lambda>n. act_ret (0 < n))
            else create))"

definition confirmed_from :: "string \<Rightarrow> time_entry list \<Rightarrow> time_entry list" where
  "confirmed_from identity entries =
     filter (\<lambda>te. te_attestation te = ''confirmed'' \<and> te_source_kind te = Some SourceKindCalendarEvent \<and>
       te_source_id te = Some identity) entries"

definition OnConfirmedSourceDrift ::
    "int \<Rightarrow> int \<Rightarrow> incoming \<Rightarrow> time_entry list \<Rightarrow> string \<Rightarrow> (db, int) act" where
  "OnConfirmedSourceDrift p e inc entries newHash =
     (let identity = eventIdentityFromIncoming inc;
          drifted = map te_id (filter (\<lambda>te. text_of (te_source_revision te) \<noteq> newHash) (confirmed_from identity entries))
      in if drifted = [] then act_ret 0
         else act_bind (enqueueSourceDrift p e identity (JObj
                [(''event_identity'', JStr identity), (''source_revision'', JStr newHash),
                 (''time_entry_ids'', JList (map JInt drifted)), (''title'', JStr (ie_title inc))]))
              (\<lambda>created. act_ret (of_bool created)))"

definition OnVanishedConfirmedSource :: "int \<Rightarrow> event \<Rightarrow> time_entry list \<Rightarrow> (db, int \<times> bool) act" where
  "OnVanishedConfirmedSource p ev entries =
     (let identity = eventIdentityFromRow ev;
          drifted = map te_id (confirmed_from identity entries)
      in if drifted = [] then act_ret (0, False)
         else act_bind (enqueueSourceDrift p (ev_id ev) identity (JObj
                [(''event_identity'', JStr identity), (''reason'', JStr ''deleted''),
                 (''source_revision'', JStr ''deleted''), (''time_entry_ids'', JList (map JInt drifted)),
                 (''title'', JStr (ev_title ev))]))
              (\<lambda>created. act_ret (of_bool created, True)))"


section \<open>Excluding and converting an event\<close>

definition ExcludeEvent :: "int \<Rightarrow> int \<Rightarrow> (db, int \<times> int) act" where
  "ExcludeEvent e p =
     (if e \<le> 0 then act_throw ErrOther
      else if p \<le> 0 then act_throw ErrOther
      else in_tx
        (act_bind (mapErr (get_one (q_GetEvent e))) (\<lambda>ev.
           if ev_period ev \<noteq> p then act_throw ErrNotFound
           else act_seq (DeleteCategoryOverlay ev)
               (act_seq (dismissCalendarDraftsForEvent ev)
               (act_seq (MarkExcluded ev)
               (act_bind (act_gets (q_ListOpenReviewItems p)) (\<lambda>items.
                 act_seq (for_each (\<lambda>it. if rv_event it \<noteq> Some (ev_id ev) then act_ret ()
                      else mapErr (q_ResolveReviewItem ''dismissed'' ReviewActionExclude (JObj []) (rv_id it))) items)
                   (act_ret (ev_period ev, ev_id ev))))))))) "

definition ConvertAllDayEvent :: "tzdb \<Rightarrow> int \<Rightarrow> entry_input \<Rightarrow> (db, time_entry) act" where
  "ConvertAllDayEvent tz e input =
     (if e \<le> 0 then act_throw ErrInvalidInput
      else act_bind (act_reads (timeEntrySpan tz input)) (\<lambda>(s, t).
           act_bind (act_lift (normalizeTimeEntryAllocation (ti_work_type input) (ti_billable input))) (\<lambda>(wt, bs).
           act_bind (mapErr (get_one (q_GetEvent e))) (\<lambda>ev.
             if ev_period ev \<noteq> ti_period input then act_throw ErrNotFound
             else if \<not> ev_all_day ev then act_throw ErrFailedPrecondition
             else if \<not> ev_active ev then act_throw ErrFailedPrecondition
             else act_bind (act_gets (HasStatusExcluded ev)) (\<lambda>excluded.
               if excluded then act_throw ErrFailedPrecondition
               else let identity = eventIdentityFromRow ev in
                 act_bind (act_gets (q_ListTimeEntriesForPeriod (ti_period input))) (\<lambda>entries.
                   case partitionLinked (linkedCalendarEntries entries identity) of (drafts, confirmed, _) \<Rightarrow>
                   if confirmed \<or> drafts \<noteq> [] then act_throw ErrFailedPrecondition
                   else act_bind (act_gets (effectiveCategory (ti_period input) (ev_provider ev) (ev_external ev)
                          (ev_instance ev))) (\<lambda>overlay.
                     let description = trim_space (ti_description input) in
                     mapErr (q_CreateTimeEntry
                       ((input_row input s t wt bs)\<lparr>
                          te_category := (case ti_category input of None \<Rightarrow> overlay | Some c \<Rightarrow> Some c),
                          te_description := (if description = '''' then ev_title ev else description),
                          te_attestation := ''draft'', te_source_kind := Some SourceKindCalendarEvent,
                          te_source_id := Some identity, te_source_revision := Some (ev_hash ev),
                          te_method := Some MethodCalendarConvert\<rparr>)))))))))"

end
