(* ===== verification/Sync.thy ===== *)
theory Sync
  imports Review Suggest
begin

text \<open>
  Re-sync of calendar events: internal/service/sync.go, sync_materialize.go, ai_sync.go and the
  selection of calendars of calendar_sync.go. \<open>SyncEvents\<close> merges a pull into the events of a period inside one transaction;
  \<open>entries\<close> is the ledger of the period as it was listed at the start, with the drafts that the
  merge created appended, and it is not refreshed in between. Reads of ai_sync.go that go through
  the service's own connection see settings and categories, which the merge does not write.
\<close>

record sync_result =
  sr_added :: int
  sr_updated :: int
  sr_unchanged :: int
  sr_removed :: int
  sr_flagged :: int

definition no_changes :: sync_result where
  "no_changes = \<lparr>sr_added = 0, sr_updated = 0, sr_unchanged = 0, sr_removed = 0, sr_flagged = 0\<rparr>"


section \<open>Drafts of an event\<close>

definition draftEligible :: "incoming \<Rightarrow> bool" where
  "draftEligible inc \<longleftrightarrow> \<not> ie_all_day inc \<and> ie_start inc \<noteq> None \<and> ie_end inc \<noteq> None"

definition hasOpenTentativeReview :: "int \<Rightarrow> int \<Rightarrow> db \<Rightarrow> bool" where
  "hasOpenTentativeReview p e d =
     list_ex (\<lambda>it. rv_kind it = reviewTentative \<and> rv_event it = Some e) (q_ListOpenReviewItems p d)"

definition titleMaterialChange :: "event \<Rightarrow> incoming \<Rightarrow> bool" where
  "titleMaterialChange ex inc \<longleftrightarrow> normalizeTitle (ev_title ex) \<noteq> normalizeTitle (ie_title inc)"

definition scheduleIncludeDropped :: "event \<Rightarrow> incoming \<Rightarrow> bool" where
  "scheduleIncludeDropped ex inc \<longleftrightarrow>
     (ev_status ex = ''accepted'' \<or> ev_status ex = '''') \<and>
     (ie_status inc = ''declined'' \<or> ie_status inc = ''tentative'' \<or> ie_status inc = ''needsAction'')"

definition incoming_category :: "int \<Rightarrow> incoming \<Rightarrow> db \<Rightarrow> int option" where
  "incoming_category p inc d = effectiveCategory p (ie_provider inc) (ie_external inc) (ie_instance inc) d"

definition createDraftFromEvent ::
    "tzdb \<Rightarrow> int \<Rightarrow> incoming \<Rightarrow> event \<Rightarrow> string \<Rightarrow> time_entry list \<Rightarrow> (db, time_entry list) act" where
  "createDraftFromEvent tz p inc ev identity entries =
     act_bind (act_reads (eventLocalDay tz ev)) (\<lambda>day.
     act_bind (act_gets (incoming_category p inc)) (\<lambda>cat.
       let s = the (ie_start inc); e = the (ie_end inc) in
       act_bind (q_CreateTimeEntry
         \<lparr>te_id = 0, te_period = p, te_start = format_rfc3339 s, te_end = format_rfc3339 e,
          te_duration = durationMinutes s e, te_day = day, te_category = cat, te_description = ie_title inc,
          te_attestation = ''draft'', te_source_kind = Some SourceKindCalendarEvent,
          te_source_id = Some identity, te_source_revision = Some (ev_hash ev),
          te_method = Some MethodCalendarImport, te_work_type = ''worked'', te_project = None,
          te_billable = ''unset''\<rparr>)
         (\<lambda>row. act_ret (entries @ [row]))))"

definition refreshDraftFromEvent ::
    "tzdb \<Rightarrow> time_entry \<Rightarrow> event \<Rightarrow> incoming \<Rightarrow> int \<Rightarrow> (db, unit) act" where
  "refreshDraftFromEvent tz draft ev inc p =
     (if te_source_revision draft = Some (ev_hash ev) then act_ret ()
      else act_bind (act_reads (eventLocalDay tz ev)) (\<lambda>day.
        act_bind (act_gets (incoming_category p inc)) (\<lambda>cat.
          let s = the (ie_start inc); e = the (ie_end inc) in
          act_seq (q_UpdateTimeEntryCalendarDraft
            (draft\<lparr>te_start := format_rfc3339 s, te_end := format_rfc3339 e, te_duration := durationMinutes s e,
               te_day := day, te_description := ie_title inc, te_source_revision := Some (ev_hash ev),
               te_category := (if cat = None then te_category draft else cat)\<rparr>))
            (act_ret ()))))"

definition materializeDraftForEvent ::
    "tzdb \<Rightarrow> int \<Rightarrow> incoming \<Rightarrow> event \<Rightarrow> time_entry list \<Rightarrow> bool \<Rightarrow> (db, time_entry list) act" where
  "materializeDraftForEvent tz p inc ev entries material =
     (if \<not> draftEligible inc then act_ret entries
      else act_bind (act_gets (HasStatusExcluded ev)) (\<lambda>excluded.
        let identity = eventIdentityFromIncoming inc; linked = linkedCalendarEntries entries identity in
        if excluded then act_seq (dismissLinkedDrafts linked) (act_ret entries)
        else act_bind (act_gets (hasOpenTentativeReview p (ev_id ev))) (\<lambda>pending.
          if (ie_status inc = ''tentative'' \<or> ie_status inc = ''needsAction'') \<and> pending then act_ret entries
          else case partitionLinked linked of (drafts, confirmed, dismissed) \<Rightarrow>
            if confirmed \<or> drafts \<noteq> [] then
              act_seq (for_each (\<lambda>te. refreshDraftFromEvent tz te ev inc p) drafts) (act_ret entries)
            else if dismissed \<and> \<not> material then
              act_seq (for_each (\<lambda>te. q_UpdateTimeEntrySourceRevision (Some (ev_hash ev)) (te_id te) (te_period te)) linked)
                (act_ret entries)
            else createDraftFromEvent tz p inc ev identity entries)))"


section \<open>Categorizing a new event\<close>

definition category_of_incoming :: "int \<Rightarrow> incoming \<Rightarrow> int \<Rightarrow> overlay" where
  "category_of_incoming p inc c =
     new_overlay p (ie_provider inc) (ie_external inc) (ie_instance inc) (Some c) '''' overlayKindCategory"

definition applyMemory :: "int \<Rightarrow> incoming \<Rightarrow> (db, unit) act" where
  "applyMemory p inc = act_bind (act_gets (q_GetMemory (matchKey inc))) (\<lambda>m. case m of
     None \<Rightarrow> act_ret ()
   | Some m \<Rightarrow> act_seq (q_UpsertOverlay (category_of_incoming p inc (me_category m))) (act_ret ()))"

definition incoming_has_category :: "int \<Rightarrow> incoming \<Rightarrow> db \<Rightarrow> bool" where
  "incoming_has_category p inc d = hasCategory p (ie_provider inc) (ie_external inc) (ie_instance inc) d"

definition applyCalendarDefault :: "int \<Rightarrow> incoming \<Rightarrow> (db, unit) act" where
  "applyCalendarDefault p inc = act_bind (act_gets (incoming_has_category p inc)) (\<lambda>has.
     if has then act_ret ()
     else act_bind (act_gets (q_GetCalendar (ie_calendar inc))) (\<lambda>cal. case cal of
         None \<Rightarrow> act_ret ()
       | Some cal \<Rightarrow> (case cl_category cal of
           None \<Rightarrow> act_ret ()
         | Some c \<Rightarrow> act_seq (q_UpsertOverlay (category_of_incoming p inc c)) (act_ret ()))))"

definition applyAISuggestion :: "externals \<Rightarrow> int \<Rightarrow> incoming \<Rightarrow> (db, unit) act" where
  "applyAISuggestion ex p inc = act_bind (act_gets (incoming_has_category p inc)) (\<lambda>has.
     if has then act_ret ()
     else act_bind (act_gets loadAIConfig) (\<lambda>cfg. case cfg of
         None \<Rightarrow> act_ret ()
       | Some (url, model) \<Rightarrow>
           act_bind (act_gets ListCategories) (\<lambda>cats.
           act_bind (act_reads loadPrivacyFields) (\<lambda>privacy.
           act_bind (act_gets loadAIMaxTokens) (\<lambda>tokens.
             case SuggestCategory (ex_ask ex url model tokens) (categoryDefinitionsForAI cats) (buildEventContext inc)
                    (ex_local ex url) privacy of
               None \<Rightarrow> act_ret ()
             | Some key \<Rightarrow> (case resolveCategoryKey cats key of
                 None \<Rightarrow> act_ret ()
               | Some c \<Rightarrow> act_seq (q_UpsertOverlay (category_of_incoming p inc (ct_id c))) (act_ret ())))))))"

definition handleNewEvent :: "externals \<Rightarrow> int \<Rightarrow> incoming \<Rightarrow> int \<Rightarrow> time_entry list \<Rightarrow> (db, int) act" where
  "handleNewEvent ex p inc e gaps = act_bind (OnNewEvent (ex_tz ex) p inc e gaps) (\<lambda>(flagged, skip).
     if skip then act_ret flagged
     else act_seq (applyMemory p inc)
       (act_seq (applyCalendarDefault p inc)
       (act_seq (applyAISuggestion ex p inc) (act_ret flagged))))"

definition handleChangedEvent ::
    "externals \<Rightarrow> int \<Rightarrow> int \<Rightarrow> event \<Rightarrow> incoming \<Rightarrow> time_entry list \<Rightarrow> string \<Rightarrow> (db, int) act" where
  "handleChangedEvent ex p e old inc entries newHash =
     act_bind (OnConfirmedSourceDrift p e inc entries newHash) (\<lambda>flagged.
     act_bind (act_gets (incoming_has_category p inc)) (\<lambda>categorized.
       if \<not> categorized then act_ret flagged
       else case partitionLinked (linkedCalendarEntries entries (eventIdentityFromIncoming inc)) of
         (drafts, confirmed, _) \<Rightarrow>
           if drafts \<noteq> [] \<and> \<not> confirmed \<and> titleMaterialChange old inc \<and> ie_status inc \<noteq> ''declined'' then act_ret flagged
           else act_bind (OnChangedCategorized (ex_tz ex) p e old inc) (\<lambda>n. act_ret (flagged + n))))"


section \<open>The merge\<close>

text \<open>The base event with a key: a later row with the same key shadows an earlier one.\<close>

definition base_by_key :: "event list \<Rightarrow> string \<Rightarrow> event option" where
  "base_by_key base key = find (\<lambda>e. eventKey (ev_calendar e) (ev_external e) (ev_instance e) = key) (rev base)"

definition incoming_key :: "incoming \<Rightarrow> string" where
  "incoming_key inc = eventKey (ie_calendar inc) (ie_external inc) (ie_instance inc)"

definition merge_event ::
    "externals \<Rightarrow> int \<Rightarrow> event list \<Rightarrow> incoming \<Rightarrow> time_entry list \<times> sync_result \<Rightarrow>
       (db, time_entry list \<times> sync_result) act" where
  "merge_event ex p base inc acc =
     (case acc of (entries, res) \<Rightarrow>
      let params = upsertParams (ex_sha ex) p inc in
      case base_by_key base (incoming_key inc) of
        None \<Rightarrow>
          act_bind (q_UpsertEvent params) (\<lambda>ev.
          act_bind (handleNewEvent ex p inc (ev_id ev) entries) (\<lambda>flagged.
          act_bind (materializeDraftForEvent (ex_tz ex) p inc ev entries False) (\<lambda>entries'.
            act_ret (entries', res\<lparr>sr_added := sr_added res + 1, sr_flagged := sr_flagged res + flagged\<rparr>))))
      | Some old \<Rightarrow>
          if ev_hash old = ev_hash params then
            act_bind (materializeDraftForEvent (ex_tz ex) p inc old entries False) (\<lambda>entries'.
              act_ret (entries', res\<lparr>sr_unchanged := sr_unchanged res + 1\<rparr>))
          else
            act_bind (q_UpsertEvent params) (\<lambda>ev.
            act_bind (handleChangedEvent ex p (ev_id ev) old inc entries (ev_hash params)) (\<lambda>flagged.
            act_bind (materializeDraftForEvent (ex_tz ex) p inc ev entries
                        (titleMaterialChange old inc \<or> scheduleIncludeDropped old inc)) (\<lambda>entries'.
              act_ret (entries', res\<lparr>sr_updated := sr_updated res + 1, sr_flagged := sr_flagged res + flagged\<rparr>)))))"

definition vanish_event ::
    "externals \<Rightarrow> int \<Rightarrow> time_entry list \<Rightarrow> string set \<Rightarrow> event \<Rightarrow> sync_result \<Rightarrow> (db, sync_result) act" where
  "vanish_event ex p entries seen e res =
     (if eventKey (ev_calendar e) (ev_external e) (ev_instance e) \<in> seen then act_ret res
      else act_bind (act_gets (HasStatusExcluded e)) (\<lambda>excluded.
        if excluded then act_ret res
        else act_bind (act_gets (hasCategory p (ev_provider e) (ev_external e) (ev_instance e))) (\<lambda>categorized.
          if categorized then
            act_bind (OnVanishedCategorized (ex_tz ex) p e) (\<lambda>(flagged, removed).
              act_ret (res\<lparr>sr_flagged := sr_flagged res + of_bool flagged,
                 sr_removed := sr_removed res + of_bool removed\<rparr>))
          else act_bind (OnVanishedConfirmedSource p e entries) (\<lambda>(flagged, kept).
            if kept then act_ret (res\<lparr>sr_flagged := sr_flagged res + flagged\<rparr>)
            else act_seq (q_DeleteEvent (ev_id e)) (act_ret (res\<lparr>sr_removed := sr_removed res + 1\<rparr>))))))"

definition SyncEvents :: "externals \<Rightarrow> int \<Rightarrow> incoming list \<Rightarrow> (db, sync_result) act" where
  "SyncEvents ex p incoming = in_tx
     (act_bind (act_gets (q_ListAllEventsForPeriod p)) (\<lambda>base.
      act_bind (act_gets (q_ListTimeEntriesForPeriod p)) (\<lambda>entries.
      act_bind (fold_each (merge_event ex p base) incoming (entries, no_changes)) (\<lambda>(entries', res).
        fold_each (vanish_event ex p entries' (set (map incoming_key incoming))) base res))))"


section \<open>Pulling a period\<close>

record account =
  ac_id :: string
  ac_status :: string

definition filterGoogleCalendars :: "calendar list \<Rightarrow> calendar list" where
  "filterGoogleCalendars cs = filter (\<lambda>c. cl_provider c = ''google'') cs"

definition filterUsableAccounts :: "account list \<Rightarrow> account list" where
  "filterUsableAccounts as = filter (\<lambda>a. ac_status a = ''connected'') as"

definition hasNeedsReauth :: "account list \<Rightarrow> bool" where
  "hasNeedsReauth as = list_ex (\<lambda>a. ac_status a = ''needs_reauth'') as"

definition touchPeriodSynced :: "instant \<Rightarrow> int \<Rightarrow> (db, unit) act" where
  "touchPeriodSynced now p = mapErr (q_TouchPeriodSynced (Some (format_rfc3339 now)) p)"

definition SetCalendarSelected :: "int \<Rightarrow> bool \<Rightarrow> (db, unit) act" where
  "SetCalendarSelected c selected =
     act_seq (mapErr (q_SetCalendarSelected selected c)) (mapErr (q_SetEventActiveByCalendar selected c))"

definition SetCalendarDefaultCategory :: "int \<Rightarrow> int option \<Rightarrow> (db, unit) act" where
  "SetCalendarDefaultCategory c cat = mapErr (q_SetCalendarDefaultCategory cat c)"

end
