(* ===== verification/Decisions.thy ===== *)
theory Decisions
  imports Review
begin

text \<open>
  What the user is asked: internal/service/review_decision.go and \<open>ListReviewDecisions\<close> of
  service.go. The lemmas relate the actions that are offered to the actions that \<open>Apply\<close> takes.
\<close>

record review_action =
  ra_key :: string
  ra_label :: string
  ra_role :: string
  ra_variant :: string

record decision =
  dc_id :: int
  dc_kind :: string
  dc_event :: "int option"
  dc_tag :: string
  dc_title :: string
  dc_description :: string
  dc_actions :: "review_action list"

definition decisionEventTitle :: "event option \<Rightarrow> json \<Rightarrow> string" where
  "decisionEventTitle ev payload =
     (case ev of
        Some e \<Rightarrow> if ev_title e \<noteq> '''' then ev_title e
                  else if payload_string ''title'' payload \<noteq> '''' then payload_string ''title'' payload
                  else ''Untitled event''
      | None \<Rightarrow> if payload_string ''title'' payload \<noteq> '''' then payload_string ''title'' payload
                else ''Untitled event'')"

definition decisionEventMinutes :: "event option \<Rightarrow> int option" where
  "decisionEventMinutes ev =
     (case ev of None \<Rightarrow> None
      | Some e \<Rightarrow> (case (parseTimePtr (ev_start_utc e), parseTimePtr (ev_end_utc e)) of
          (Some s, Some t) \<Rightarrow> if s < t then Some (durationMinutes s t) else None
        | _ \<Rightarrow> None))"

definition formatReviewDuration :: "int \<Rightarrow> string" where
  "formatReviewDuration mins =
     (let hours = go_div mins 60; minutes = go_mod mins 60 in
      if hours = 0 then show_int minutes @ ''m''
      else if minutes = 0 then show_int hours @ ''h''
      else show_int hours @ ''h '' @ show_int minutes @ ''m'')"

definition primaryReviewAction :: "string \<Rightarrow> string \<Rightarrow> review_action" where
  "primaryReviewAction key label =
     \<lparr>ra_key = key, ra_label = label, ra_role = ''primary'', ra_variant = ''default''\<rparr>"

definition secondaryReviewAction :: "string \<Rightarrow> string \<Rightarrow> review_action" where
  "secondaryReviewAction key label =
     \<lparr>ra_key = key, ra_label = label, ra_role = ''secondary'', ra_variant = ''outline''\<rparr>"

definition quoted :: "string \<Rightarrow> string" where
  "quoted s = [CHR 0x22] @ s @ [CHR 0x22]"

definition ToDecision :: "review_item \<Rightarrow> event option \<Rightarrow> decision option" where
  "ToDecision item ev =
     (let payload = rv_payload item;
          title = decisionEventTitle ev payload;
          minutes = decisionEventMinutes ev;
          mk = (\<lambda>tag desc actions. Some \<lparr>dc_id = rv_id item, dc_kind = rv_kind item, dc_event = rv_event item,
                  dc_tag = tag, dc_title = title, dc_description = desc, dc_actions = actions\<rparr>)
      in if rv_kind item = reviewDeletedCategoriz then
           mk ''Removed''
             ((if payload_string ''reason'' payload = ''declined'' then ''declined on your calendar''
               else ''deleted from your calendar'') @ '' but already categorized'' @
              (case minutes of None \<Rightarrow> '''' | Some m \<Rightarrow> '' ('' @ formatReviewDuration m @ '')'') @
              ''. Suggest dropping the entry.'')
             [primaryReviewAction ReviewActionDropEntry
                (case minutes of None \<Rightarrow> ''Drop entry'' | Some m \<Rightarrow> ''Drop '' @ formatReviewDuration m),
              secondaryReviewAction ReviewActionKeepEntry ''Keep entry'']
         else if rv_kind item = reviewTitleChanged then
           (let from = payload_string ''from'' payload; to = payload_string ''to'' payload in
            mk ''Title changed''
              (''Title changed from '' @ quoted (if from = '''' then ''previous'' else from) @ '' to '' @
               quoted (if to = '''' then title else to) @ ''. Confirm the existing category still applies.'')
              [primaryReviewAction ReviewActionAccept ''Accept new title'',
               secondaryReviewAction ReviewActionDismiss ''Remind me later''])
         else if rv_kind item = reviewNewInGap then
           mk ''Gap conflict''
             (quoted title @ '' landed inside a gap you already filled. Keeping both would double-count time.'')
             [primaryReviewAction ReviewActionUseEvent ''Use event, shrink fill'',
              secondaryReviewAction ReviewActionKeepGap ''Keep gap fill'']
         else if rv_kind item = reviewTentative then
           mk ''Tentative''
             (''Marked '' @ (if payload_string ''status'' payload = ''needsAction'' then ''not responded'' else ''tentative'')
              @ ''. Include it in your schedule or exclude it.'')
             [primaryReviewAction ReviewActionInclude ''Include'',
              secondaryReviewAction ReviewActionExclude ''Exclude'']
         else if rv_kind item = reviewAllDay then
           mk ''All day''
             ''All-day markers do not affect gap totals. Include to confirm, or dismiss the prompt.''
             [primaryReviewAction ReviewActionInclude ''Include'',
              secondaryReviewAction ReviewActionExclude ''Dismiss'']
         else if rv_kind item = reviewSourceDrift then
           mk ''Source changed''
             (''Calendar event changed after you confirmed time. Confirmed entry stays as-is; '' @
              ''spawn a draft proposal, replace with a new draft from the event, or dismiss.'')
             [primaryReviewAction ReviewActionSpawnDraft ''Spawn draft'',
              secondaryReviewAction ReviewActionReplace ''Replace with draft'',
              secondaryReviewAction ReviewActionDismiss ''Dismiss'']
         else None)"

text \<open>The event of an item, when the period shows it.\<close>

definition decision_event :: "int \<Rightarrow> review_item \<Rightarrow> db \<Rightarrow> event option" where
  "decision_event p item d = (case rv_event item of None \<Rightarrow> None
     | Some i \<Rightarrow> find (\<lambda>e. ev_id e = i) (q_ListEventsForPeriod p d))"

definition ListReviewDecisions :: "int \<Rightarrow> db \<Rightarrow> decision list" where
  "ListReviewDecisions p d =
     List.map_filter (\<lambda>item. ToDecision item (decision_event p item d)) (q_ListOpenReviewItems p d)"


section \<open>The actions that are offered are the actions that are taken\<close>

text \<open>The actions \<open>Apply\<close> knows for a kind.\<close>

definition supported :: "string \<Rightarrow> string set" where
  "supported kind =
     (if kind = reviewDeletedCategoriz then {ReviewActionKeepEntry, ReviewActionDropEntry}
      else if kind = reviewTitleChanged then {ReviewActionAccept, ReviewActionDismiss}
      else if kind = reviewNewInGap then {ReviewActionKeepGap, ReviewActionUseEvent}
      else if kind \<in> {reviewTentative, reviewAllDay} then {ReviewActionInclude, ReviewActionExclude}
      else if kind = reviewSourceDrift then {ReviewActionSpawnDraft, ReviewActionReplace, ReviewActionDismiss}
      else {})"

lemma offered_supported: "ToDecision item ev = Some dc \<Longrightarrow> ra_key ` set (dc_actions dc) = supported (rv_kind item)"
  by (auto simp: ToDecision_def supported_def Let_def primaryReviewAction_def secondaryReviewAction_def
      split: if_splits)

end
