(* ===== verification/Review_Laws.thy ===== *)
theory Review_Laws
  imports Decisions
begin

text \<open>
  Correctness of the review queue: what resolving a decision leaves alone (\<open>unchanged\<close> parts of
  the database, the entries \<open>spares\<close> keeps), what closing an item stores, how the spans of gap
  fills shrink around an event (\<open>booked\<close>, the time that entries of one booking cover), what
  excluding an event does, and that a conflict has one item.
\<close>


section \<open>Frames\<close>

text \<open>A part \<open>f\<close> of the database that a computation does not change.\<close>

abbreviation unchanged :: "(db \<Rightarrow> 'a) \<Rightarrow> db \<Rightarrow> db \<Rightarrow> bool" where
  "unchanged f \<equiv> \<lambda>d d'. f d' = f d"

interpretation unchanged: frame_relation "unchanged f" for f :: "db \<Rightarrow> 'a"
  by unfold_locales simp_all

text \<open>The entries with the property \<open>K\<close> stay as they are, and ids stay distinct.\<close>

definition spares :: "(time_entry \<Rightarrow> bool) \<Rightarrow> db \<Rightarrow> db \<Rightarrow> bool" where
  "spares K d d' \<longleftrightarrow> (ids_ok te_id (db_entries d) \<longrightarrow> ids_ok te_id (db_entries d') \<and>
     (\<forall>r \<in> set (tbl_rows (db_entries d)). K r \<longrightarrow> r \<in> set (tbl_rows (db_entries d'))))"

interpretation spares: frame_relation "spares K" for K
  by unfold_locales (auto simp: spares_def)

lemma spares_unchanged: "moves (unchanged db_entries) m \<Longrightarrow> moves (spares K) m"
  by (simp add: moves_def spares_def)

lemma unchanged_upsert_overlay [frame_intros]:
  "(\<And>d t. f (put_overlays t d) = f d) \<Longrightarrow> moves (unchanged f) (q_UpsertOverlay ov)"
  unfolding q_UpsertOverlay_def
  by (intro overlays.moves_upsert overlays.moves_insert overlays.moves_update) auto

lemma unchanged_delete_overlay [frame_intros]:
  "(\<And>d t. f (put_overlays t d) = f d) \<Longrightarrow> moves (unchanged f) (q_DeleteOverlay i)"
  unfolding q_DeleteOverlay_def
  by (intro unchanged.moves_seq overlays.moves_delete unchanged.moves_ret) auto

lemma unchanged_create_review [frame_intros]:
  "(\<And>d t. f (put_reviews t d) = f d) \<Longrightarrow> moves (unchanged f) (q_CreateReviewItem p kind e payload k)"
  unfolding q_CreateReviewItem_def by (rule reviews.moves_insert) auto

lemma unchanged_update_review [frame_intros]:
  "(\<And>d t. f (put_reviews t d) = f d) \<Longrightarrow> moves (unchanged f) (update_review i Q g)"
  unfolding update_review_def by (rule reviews.moves_update) auto

lemma unchanged_resolve_review [frame_intros]:
  "(\<And>d t. f (put_reviews t d) = f d) \<Longrightarrow> moves (unchanged f) (q_ResolveReviewItem st a payload i)"
  unfolding q_ResolveReviewItem_def by (intro unchanged.frame_rules unchanged_update_review) auto

lemma unchanged_create_entry [frame_intros]:
  "(\<And>d t. f (put_entries t d) = f d) \<Longrightarrow> moves (unchanged f) (q_CreateTimeEntry r)"
  unfolding q_CreateTimeEntry_def by (rule entries.moves_insert) auto

lemma unchanged_update_entry [frame_intros]:
  "(\<And>d t. f (put_entries t d) = f d) \<Longrightarrow> moves (unchanged f) (update_entry i p Q g)"
  unfolding update_entry_def by (rule entries.moves_update) auto

lemma unchanged_attest [frame_intros]:
  "(\<And>d t. f (put_entries t d) = f d) \<Longrightarrow> moves (unchanged f) (q_UpdateTimeEntryAttestation a i p)"
  unfolding q_UpdateTimeEntryAttestation_def by (intro moves_scan_one unchanged_update_entry)

lemma unchanged_delete_entry [frame_intros]:
  "(\<And>d t. f (put_entries t d) = f d) \<Longrightarrow> moves (unchanged f) (q_DeleteTimeEntry i p)"
  unfolding q_DeleteTimeEntry_def by (rule entries.moves_delete) auto

lemma unchanged_set_span [frame_intros]:
  "(\<And>d t. f (put_entries t d) = f d) \<Longrightarrow> moves (unchanged f) (set_span p fill iv)"
  unfolding set_span_def q_UpdateTimeEntrySpan_def by (intro moves_mapErr moves_scan_one unchanged_update_entry)

lemma unchanged_need_event:
  "(\<And>ev. moves (unchanged f) (k ev)) \<Longrightarrow> moves (unchanged f) (need_event item k)"
  unfolding need_event_def
  by (intro unchanged.frame_rules moves_bind_one unchanged.frame_relation_axioms)

lemma spares_need_event:
  "(\<And>ev. moves (spares K) (k ev)) \<Longrightarrow> moves (spares K) (need_event item k)"
  unfolding need_event_def
  by (intro spares.frame_rules moves_bind_one spares.frame_relation_axioms)

lemma unchanged_delete_category [frame_intros]:
  "(\<And>d t. f (put_overlays t d) = f d) \<Longrightarrow> moves (unchanged f) (DeleteCategoryOverlay ev)"
  unfolding DeleteCategoryOverlay_def
  by (intro unchanged.frame_rules moves_mapErr unchanged_delete_overlay) auto

lemma unchanged_exclude [frame_intros]:
  "(\<And>d t. f (put_overlays t d) = f d) \<Longrightarrow> moves (unchanged f) (MarkExcluded ev)"
  unfolding MarkExcluded_def
  by (intro unchanged.frame_rules moves_mapErr unchanged_upsert_overlay) auto

lemma unchanged_dismiss_linked [frame_intros]:
  "(\<And>d t. f (put_entries t d) = f d) \<Longrightarrow> moves (unchanged f) (dismissLinkedDrafts linked)"
  unfolding dismissLinkedDrafts_def
  by (intro unchanged.frame_rules unchanged_attest) auto

lemma unchanged_dismiss_event [frame_intros]:
  "(\<And>d t. f (put_entries t d) = f d) \<Longrightarrow> moves (unchanged f) (dismissCalendarDraftsForEvent ev)"
  unfolding dismissCalendarDraftsForEvent_def
  by (intro unchanged.frame_rules unchanged_dismiss_linked) auto

lemma unchanged_clear_all_day [frame_intros]:
  "(\<And>d t. f (put_overlays t d) = f d) \<Longrightarrow> moves (unchanged f) (clearAllDayReviewExclusion i)"
  unfolding clearAllDayReviewExclusion_def
  by (intro unchanged.frame_rules moves_bind_one unchanged.frame_relation_axioms moves_mapErr unchanged_delete_overlay) auto

lemma unchanged_include_exclude [frame_intros]:
  "(\<And>d t. f (put_overlays t d) = f d) \<Longrightarrow> moves (unchanged f) (applyIncludeExclude item action)"
  unfolding applyIncludeExclude_def
  by (intro unchanged.frame_rules moves_bind_one unchanged.frame_relation_axioms unchanged_clear_all_day
      unchanged_delete_category unchanged_exclude) auto

lemma unchanged_convert_fill [frame_intros]:
  "(\<And>d t. f (put_overlays t d) = f d) \<Longrightarrow> (\<And>d t. f (put_entries t d) = f d) \<Longrightarrow>
     moves (unchanged f) (convertEventToManualFill tz ev)"
  unfolding convertEventToManualFill_def Let_def
  by (intro unchanged.frame_rules moves_mapErr unchanged_create_entry unchanged_delete_category) auto

lemma unchanged_deleted_categorized [frame_intros]:
  "(\<And>d t. f (put_overlays t d) = f d) \<Longrightarrow> (\<And>d t. f (put_entries t d) = f d) \<Longrightarrow>
     moves (unchanged f) (applyDeletedCategorized tz item action)"
  unfolding applyDeletedCategorized_def
  by (intro unchanged_need_event unchanged.frame_rules unchanged_dismiss_event unchanged_convert_fill
      unchanged_exclude unchanged_delete_category) auto

lemma unchanged_shrink [frame_intros]:
  "(\<And>d t. f (put_entries t d) = f d) \<Longrightarrow> moves (unchanged f) (shrink_fill p event fill)"
  unfolding shrink_fill_def Let_def
  by (intro unchanged.frame_rules moves_mapErr unchanged_delete_entry unchanged_create_entry unchanged_set_span) auto

lemma unchanged_new_in_gap [frame_intros]:
  "(\<And>d t. f (put_overlays t d) = f d) \<Longrightarrow> (\<And>d t. f (put_entries t d) = f d) \<Longrightarrow>
     moves (unchanged f) (applyNewInGap item action)"
  unfolding applyNewInGap_def shrinkGapFillsForEvent_def
  by (intro unchanged_need_event unchanged.frame_rules unchanged_exclude unchanged_shrink) auto

lemma unchanged_spawn [frame_intros]:
  "(\<And>d t. f (put_entries t d) = f d) \<Longrightarrow> moves (unchanged f) (spawnSourceDriftDraft tz item replace)"
  unfolding spawnSourceDriftDraft_def Let_def
  by (intro unchanged_need_event unchanged.frame_rules moves_mapErr unchanged_create_entry) auto

lemma unchanged_drift [frame_intros]:
  "(\<And>d t. f (put_entries t d) = f d) \<Longrightarrow> moves (unchanged f) (applySourceDrift tz item action)"
  unfolding applySourceDrift_def
  by (intro unchanged.frame_rules unchanged_spawn) auto

lemma unchanged_Apply [frame_intros]:
  "(\<And>d t. f (put_overlays t d) = f d) \<Longrightarrow> (\<And>d t. f (put_entries t d) = f d) \<Longrightarrow>
     moves (unchanged f) (Apply tz item action)"
  unfolding Apply_def Let_def
  by (intro unchanged.frame_rules unchanged_deleted_categorized unchanged_new_in_gap unchanged_include_exclude
      unchanged_drift) auto


section \<open>What a decision does to the ledger\<close>

lemma spares_create [frame_intros]: "moves (spares K) (q_CreateTimeEntry r)"
proof -
  have "spares K d (put_entries ((db_entries d)\<lparr>tbl_rows := tbl_rows (db_entries d) @ [r'],
          tbl_seq := tbl_seq (db_entries d) + 1\<rparr>) d)"
    if "r' = r\<lparr>te_id := tbl_seq (db_entries d) + 1\<rparr>" for d r'
    using that by (fastforce simp: spares_def ids_ok_def)
  then show ?thesis
    unfolding q_CreateTimeEntry_def by (intro entries.moves_insert) (auto simp: spares.frame_refl)
qed

lemma spares_update:
  assumes "\<And>r. te_id r = i \<Longrightarrow> te_period r = p \<Longrightarrow> Q r \<Longrightarrow> \<not> K r \<and> te_id (f r) = i"
  shows "moves (spares K) (update_entry i p Q f)"
proof -
  have "spares K d (put_entries ((db_entries d)\<lparr>tbl_rows :=
          map (\<lambda>r. if te_id r = i \<and> te_period r = p \<and> Q r then f r else r) (tbl_rows (db_entries d))\<rparr>) d)" for d
  proof -
    have ids: "te_id (if te_id r = i \<and> te_period r = p \<and> Q r then f r else r) = te_id r" for r
      using assms by auto
    then have "map te_id (map (\<lambda>r. if te_id r = i \<and> te_period r = p \<and> Q r then f r else r) (tbl_rows (db_entries d)))
       = map te_id (tbl_rows (db_entries d))" by simp
    with ids show ?thesis
      using assms unfolding spares_def ids_ok_def by (auto simp: image_iff comp_def)
  qed
  then show ?thesis
    unfolding update_entry_def by (intro entries.moves_update) (auto simp: spares.frame_refl)
qed

lemma spares_attest: "(\<And>r. te_id r = i \<Longrightarrow> te_period r = p \<Longrightarrow> \<not> K r) \<Longrightarrow>
    moves (spares K) (q_UpdateTimeEntryAttestation a i p)"
  unfolding q_UpdateTimeEntryAttestation_def by (intro moves_scan_one spares_update) auto

text \<open>Dismissing the live drafts of an event: only rows that were drafts when they were listed.\<close>

lemma spares_dismiss_linked:
  "(\<And>te. te \<in> set linked \<Longrightarrow> te_attestation te = ''draft'' \<Longrightarrow> te_id te \<in> I) \<Longrightarrow>
     moves (spares (\<lambda>r. te_id r \<notin> I)) (dismissLinkedDrafts linked)"
  unfolding dismissLinkedDrafts_def
  by (intro spares.frame_rules spares_attest) auto

lemma linked_in:
  "te \<in> set (linkedCalendarEntries (q_ListTimeEntriesForPeriod p d) identity) \<Longrightarrow>
     te \<in> set (tbl_rows (db_entries d)) \<and> te_period te = p \<and>
     te_source_kind te = Some SourceKindCalendarEvent \<and> te_source_id te = Some identity"
  by (simp add: linkedCalendarEntries_def q_ListTimeEntriesForPeriod_def select_rows_def)

lemma same_id: "ids_ok te_id t \<Longrightarrow> r \<in> set (tbl_rows t) \<Longrightarrow> r' \<in> set (tbl_rows t) \<Longrightarrow> te_id r = te_id r' \<Longrightarrow> r = r'"
  by (auto simp: ids_ok_def distinct_map inj_on_def)

lemma spares_dismiss_event [frame_intros]:
  assumes "\<And>r. K r \<Longrightarrow> te_attestation r \<noteq> ''draft''"
  shows "moves (spares K) (dismissCalendarDraftsForEvent ev)"
  unfolding moves_def
proof
  fix d
  let ?linked = "linkedCalendarEntries (q_ListTimeEntriesForPeriod (ev_period ev) d) (eventIdentityFromRow ev)"
  let ?I = "{te_id te | te. te \<in> set ?linked \<and> te_attestation te = ''draft''}"
  have "spares (\<lambda>r. te_id r \<notin> ?I) d (snd (dismissLinkedDrafts ?linked d))"
    by (rule movesD [OF spares_dismiss_linked]) auto
  moreover have "te_id r \<notin> ?I" if "r \<in> set (tbl_rows (db_entries d))" "K r" "ids_ok te_id (db_entries d)" for r
    using that assms [OF that(2)] same_id [OF that(3,1)] by (auto dest: linked_in)
  ultimately show "spares K d (snd (dismissCalendarDraftsForEvent ev d))"
    by (auto simp: spares_def dismissCalendarDraftsForEvent_def)
qed

lemma spares_overlay_writes [frame_intros]:
  "moves (spares K) (DeleteCategoryOverlay ev)" "moves (spares K) (MarkExcluded ev)"
  "moves (spares K) (clearAllDayReviewExclusion i)" "moves (spares K) (applyIncludeExclude item action)"
  by (intro spares_unchanged frame_intros; simp)+

lemma spares_convert_fill [frame_intros]: "moves (spares K) (convertEventToManualFill tz ev)"
  unfolding convertEventToManualFill_def Let_def
  by (intro spares.frame_rules moves_mapErr spares_create spares_overlay_writes)

lemma spares_deleted_categorized [frame_intros]:
  "(\<And>r. K r \<Longrightarrow> te_attestation r \<noteq> ''draft'') \<Longrightarrow> moves (spares K) (applyDeletedCategorized tz item action)"
  unfolding applyDeletedCategorized_def
  by (intro spares_need_event spares.frame_rules spares_dismiss_event spares_convert_fill spares_overlay_writes) auto

lemma spares_drift [frame_intros]: "moves (spares K) (applySourceDrift tz item action)"
  unfolding applySourceDrift_def spawnSourceDriftDraft_def Let_def
  by (intro spares_need_event spares.frame_rules moves_mapErr spares_create)

lemma spares_keep_gap: "moves (spares K) (applyNewInGap item ReviewActionKeepGap)"
  unfolding applyNewInGap_def by (simp add: spares_need_event spares_overlay_writes)

lemma spares_Apply:
  assumes "\<And>r. K r \<Longrightarrow> te_attestation r \<noteq> ''draft''" "rv_kind item = reviewNewInGap \<longrightarrow> action \<noteq> ReviewActionUseEvent"
  shows "moves (spares K) (Apply tz item action)"
proof -
  have "moves (spares K) (applyNewInGap item action)" if "action \<noteq> ReviewActionUseEvent"
    using that unfolding applyNewInGap_def
    by (intro spares_need_event spares.frame_rules spares_overlay_writes) auto
  then show ?thesis
    unfolding Apply_def Let_def
    by (intro spares.frame_rules spares_deleted_categorized spares_overlay_writes spares_drift) (use assms in auto)
qed

lemma unchanged_result: "moves (unchanged f) m \<Longrightarrow> m d = (r, d') \<Longrightarrow> f d' = f d"
  by (drule (1) moves_result)


section \<open>Closing an item\<close>

definition closed_item :: "string \<Rightarrow> string \<Rightarrow> review_item \<Rightarrow> review_item" where
  "closed_item status action r = r\<lparr>rv_status := status, rv_action := action, rv_decision := JObj []\<rparr>"

lemma resolve_Inr:
  "q_ResolveReviewItem status action (JObj []) i d = (Inr u, d') \<Longrightarrow>
     tbl_rows (db_reviews d') = map (\<lambda>r. if rv_id r = i then closed_item status action r else r) (tbl_rows (db_reviews d))
     \<and> db_entries d' = db_entries d \<and> db_overlays d' = db_overlays d \<and> db_events d' = db_events d"
  by (auto simp: q_ResolveReviewItem_def act_seq_eq_Inr_iff update_review_def closed_item_def update_where_def Let_def
      split: if_splits)

lemma need_event_Inr: "need_event item k d = (Inr x, d') \<Longrightarrow> \<exists>ev. k ev d = (Inr x, d')"
  by (auto simp: need_event_def act_bind_eq_Inr_iff split: option.splits)

lemma apply_actions:
  "applyDeletedCategorized tz item action d = (Inr x, d') \<Longrightarrow> action \<in> {ReviewActionKeepEntry, ReviewActionDropEntry}"
  "applyNewInGap item action d = (Inr x, d') \<Longrightarrow> action \<in> {ReviewActionKeepGap, ReviewActionUseEvent}"
  "applyIncludeExclude item action d = (Inr x, d') \<Longrightarrow> action \<in> {ReviewActionInclude, ReviewActionExclude}"
  "applySourceDrift tz item action d = (Inr x, d') \<Longrightarrow>
     action \<in> {ReviewActionSpawnDraft, ReviewActionReplace, ReviewActionDismiss}"
  unfolding applyDeletedCategorized_def applyNewInGap_def applyIncludeExclude_def applySourceDrift_def
  by (auto dest!: need_event_Inr split: if_splits option.splits)

lemma Apply_status:
  assumes "Apply tz item action d = (Inr status, d')"
  shows "status \<in> {''resolved'', ''dismissed''} \<and> action \<in> supported (rv_kind item)"
  using assms unfolding Apply_def supported_def Let_def
  by (simp add: act_seq_eq_Inr_iff split: if_splits) (auto dest: apply_actions)

lemma resolve_decision_Inr:
  assumes "ResolveReviewDecision tz i action d = (Inr p, d')"
  obtains item status e where "q_GetReviewItem i d = Some item" "rv_status item = ''open''" "rv_period item = p"
    "Apply tz item action d = (Inr status, e)" "rv_id item = i"
    "q_ResolveReviewItem status action (JObj []) i e = (Inr (), d')"
proof -
  obtain item status e where *: "q_GetReviewItem i d = Some item" "rv_status item = ''open''" "rv_period item = p"
    "Apply tz item action d = (Inr status, e)"
    "q_ResolveReviewItem status action (JObj []) (rv_id item) e = (Inr (), d')"
    using assms unfolding ResolveReviewDecision_def
    by (auto simp: act_bind_eq_Inr_iff act_seq_eq_Inr_iff split: if_splits)
  moreover have "rv_id item = i" using *(1) by (auto simp: q_GetReviewItem_def find_row_def dest: find_SomeD)
  ultimately show ?thesis using that by blast
qed

lemma resolve_run:
  assumes "q_GetReviewItem i d = Some item" "rv_status item = ''open''" "rv_id item = i" "rv_period item = p"
    and "Apply tz item action d = (Inr status, e)" "q_ResolveReviewItem status action (JObj []) i e = (Inr (), d')"
  shows "ResolveReviewDecision tz i action d = (Inr p, d')"
  unfolding ResolveReviewDecision_def in_tx_Inr act_bind_eq_Inr_iff
  using assms by (intro exI [of _ item] exI [of _ d]) (auto simp: act_bind_eq_Inr_iff act_seq_eq_Inr_iff)

lemma find_map_if:
  "(\<And>r. key (g r) = key r) \<Longrightarrow> find (\<lambda>r. key r = i) (map (\<lambda>r. if key r = j then g r else r) rs) =
     map_option (\<lambda>r. if i = j then g r else r) (find (\<lambda>r. key r = i) rs)"
  by (induction rs) auto

lemma get_closed:
  "tbl_rows (db_reviews d') = map (\<lambda>r. if rv_id r = i then closed_item status action r else r) (tbl_rows (db_reviews d)) \<Longrightarrow>
     q_GetReviewItem j d' = map_option (\<lambda>r. if j = i then closed_item status action r else r) (q_GetReviewItem j d)"
  by (simp add: q_GetReviewItem_def find_row_def find_map_if closed_item_def)

lemma closed_refuses:
  "q_GetReviewItem i d = Some item \<Longrightarrow> rv_status item \<noteq> ''open'' \<Longrightarrow> ResolveReviewDecision tz i action d = (Inl ErrOther, d)"
  by (simp add: ResolveReviewDecision_def in_tx_Inl act_bind_def mapErr_get_one)


section \<open>Shrinking gap fills\<close>

text \<open>An instant that its stored text reads back as.\<close>

definition storable :: "instant \<Rightarrow> bool" where
  "storable t \<longleftrightarrow> parse_rfc3339 (format_rfc3339 t) = Some t \<and> t \<noteq> zero_time"

text \<open>What an entry books, besides its time, and the time that rows of one booking cover.\<close>

definition booking :: "time_entry \<Rightarrow> time_entry" where
  "booking r = r\<lparr>te_id := 0, te_start := '''', te_end := '''', te_duration := 0\<rparr>"

definition booked :: "time_entry \<Rightarrow> time_entry set \<Rightarrow> instant set" where
  "booked b R = (\<Union>r \<in> {r \<in> R. booking r = b}. case stored_span r of None \<Rightarrow> {} | Some iv \<Rightarrow> covered iv)"

lemma booked_union: "booked b (R \<union> S) = booked b R \<union> booked b S"
  by (auto simp: booked_def)

lemma booked_pair: "booked b {r, s} = booked b {r} \<union> booked b {s}"
  by (auto simp: booked_def)

lemma booked_empty [simp]: "booked b {} = {}"
  by (simp add: booked_def)

lemma booked_single: "booked b {r} = (if booking r = b then case stored_span r of None \<Rightarrow> {} | Some iv \<Rightarrow> covered iv else {})"
proof -
  have "{x \<in> {r}. booking x = b} = (if booking r = b then {r} else {})" by auto
  then show ?thesis by (simp add: booked_def)
qed

definition respan :: "interval \<Rightarrow> time_entry \<Rightarrow> time_entry" where
  "respan iv r = r\<lparr>te_start := format_rfc3339 (iv_start iv), te_end := format_rfc3339 (iv_end iv),
     te_duration := durationMinutes (iv_start iv) (iv_end iv)\<rparr>"

lemma respan_simps [simp]:
  "te_id (respan iv r) = te_id r" "te_period (respan iv r) = te_period r" "booking (respan iv r) = booking r"
  "booking (r\<lparr>te_id := i\<rparr>) = booking r" "stored_span (r\<lparr>te_id := i\<rparr>) = stored_span r"
  by (simp_all add: respan_def booking_def stored_span_def)

lemma respan_span:
  "storable (iv_start iv) \<Longrightarrow> storable (iv_end iv) \<Longrightarrow> stored_span (respan iv r) = Some (mk_iv (iv_start iv) (iv_end iv))"
  by (simp add: stored_span_def respan_def storable_def)

lemma booking_period: "booking r = booking r' \<Longrightarrow> te_period r = te_period r'"
  by (auto simp: booking_def dest: arg_cong [where f = te_period])

text \<open>The writes that shrinking is made of, by the set of rows they leave.\<close>

definition ledger :: "db \<Rightarrow> time_entry set" where
  "ledger d = set (tbl_rows (db_entries d))"

lemma span_write:
  assumes "set_span p fill iv d = (Inr x, d')" "ids_ok te_id (db_entries d)" "fill \<in> ledger d" "te_period fill = p"
  shows "ledger d' = ledger d - {fill} \<union> {respan iv fill} \<and> ids_ok te_id (db_entries d') \<and>
    tbl_seq (db_entries d') = tbl_seq (db_entries d)"
proof -
  let ?g = "\<lambda>r :: time_entry. r\<lparr>te_start := format_rfc3339 (iv_start iv), te_end := format_rfc3339 (iv_end iv),
     te_duration := durationMinutes (iv_start iv) (iv_end iv), te_day := te_day fill\<rparr>"
  let ?P = "\<lambda>r. te_id r = te_id fill \<and> te_period r = p \<and> True"
  obtain rs where up: "update_where db_entries put_entries te_ok ?P ?g d = (Inr rs, d')"
    using assms(1) by (auto simp: set_span_def q_UpdateTimeEntrySpan_def scan_one_Inr update_entry_def)
  have ids: "ids_ok te_id (db_entries d')"
    by (rule entries.update_keeps_ids [OF up assms(2)]) simp
  have only: "?P r \<longleftrightarrow> r = fill" if "r \<in> ledger d" for r
    using that assms(3,4) same_id [OF assms(2)] by (auto simp: ledger_def)
  have "ledger d' = (\<lambda>r. if ?P r then ?g r else r) ` ledger d"
    using entries.update_rows [OF up] by (simp add: ledger_def)
  also have "\<dots> = (\<lambda>r. if r = fill then respan iv fill else r) ` ledger d"
    using only by (intro image_cong) (auto simp: respan_def)
  also have "\<dots> = ledger d - {fill} \<union> {respan iv fill}"
    using assms(3) by auto
  finally show ?thesis using ids entries.update_rows [OF up] by simp
qed

lemma delete_write:
  assumes "q_DeleteTimeEntry (te_id fill) p d = (Inr x, d')" "ids_ok te_id (db_entries d)" "fill \<in> ledger d" "te_period fill = p"
  shows "ledger d' = ledger d - {fill} \<and> ids_ok te_id (db_entries d') \<and>
    tbl_seq (db_entries d') = tbl_seq (db_entries d)"
proof -
  note del = assms(1) [unfolded q_DeleteTimeEntry_def]
  have "te_id r = te_id fill \<and> te_period r = p \<longleftrightarrow> r = fill" if "r \<in> ledger d" for r
    using that assms(3,4) same_id [OF assms(2)] by (auto simp: ledger_def)
  then show ?thesis
    using entries.delete_rows [OF del] entries.delete_keeps_ids [OF del assms(2)] by (auto simp: ledger_def)
qed

lemma create_write:
  assumes "q_CreateTimeEntry r d = (Inr x, d')" "ids_ok te_id (db_entries d)"
  shows "ledger d' = ledger d \<union> {r\<lparr>te_id := tbl_seq (db_entries d) + 1\<rparr>} \<and> ids_ok te_id (db_entries d') \<and>
    tbl_seq (db_entries d') = tbl_seq (db_entries d) + 1"
  using assms entries.insert_keeps_ids [OF assms(1) [unfolded q_CreateTimeEntry_def] assms(2)]
  by (auto simp: q_CreateTimeEntry_def entries.insert_Inr ledger_def)

text \<open>
  One fill: its row gives way to rows of the same booking that cover what lies outside the event.
\<close>

lemma split_ends:
  assumes "splitAround g e = (b, x, a)" "S (iv_start g)" "S (iv_end g)" "S (iv_start e)" "S (iv_end e)"
  shows "b = Some y \<Longrightarrow> S (iv_start y) \<and> S (iv_end y)" "a = Some y \<Longrightarrow> S (iv_start y) \<and> S (iv_end y)"
  using assms by (auto simp: splitAround_def split: if_splits)

lemma shrink_one:
  assumes run: "shrink_fill p E fill d = (Inr u, d')" and ids: "ids_ok te_id (db_entries d)"
    and fill: "fill \<in> ledger d" "te_period fill = p"
    and gap: "stored_span fill = Some gap" "storable (iv_start gap)" "storable (iv_end gap)"
    and E: "storable (iv_start E)" "storable (iv_end E)" "iv_start E \<le> iv_end E"
  shows "\<exists>N. ledger d' = ledger d - {fill} \<union> N \<and> ids_ok te_id (db_entries d') \<and>
    (\<forall>b. booked b N = booked b {fill} - covered E) \<and>
    (\<forall>r \<in> N. te_id r = te_id fill \<or> tbl_seq (db_entries d) < te_id r) \<and>
    tbl_seq (db_entries d) \<le> tbl_seq (db_entries d')"
proof -
  have times: "parseTime (te_start fill) = iv_start gap" "parseTime (te_end fill) = iv_end gap"
    using gap(1) by (auto simp: stored_span_def parseTime_def split: option.splits)
  have zero: "iv_start gap \<noteq> zero_time" "iv_end gap \<noteq> zero_time" using gap by (simp_all add: storable_def)
  obtain b x a where sp: "splitAround gap E = (b, x, a)" by (cases "splitAround gap E")
  have sp': "splitAround (mk_iv (iv_start gap) (iv_end gap)) E = (b, x, a)"
    using sp by (cases gap) simp
  have pieces: "cover (around_pieces gap E) = covered gap - covered E"
    by (rule around.cut_cover [OF E(3)])
  note ends = split_ends [OF sp, of storable, OF gap(2,3) E(1,2)]
  have b_fill: "booked k {fill} = (if booking fill = k then covered gap else {})" for k
    using gap(1) by (simp add: booked_single)
  consider "x = None" | o' where "x = Some o'" "b = None" "a = None" | o' y where "x = Some o'" "b = None" "a = Some y"
    | o' y where "x = Some o'" "b = Some y" "a = None" | o' y z where "x = Some o'" "b = Some y" "a = Some z"
    by (cases x; cases b; cases a) auto
  then show ?thesis
  proof cases
    case 1
    then have "d' = d" using run by (simp add: shrink_fill_def Let_def times zero sp' split: option.splits)
    moreover have "covered gap \<inter> covered E = {}" using splitAround_overlap [OF E(3) sp] 1 by simp
    ultimately show ?thesis
      using ids fill by (intro exI [of _ "{fill}"]) (auto simp: b_fill insert_absorb)
  next
    case 2
    then obtain n where "q_DeleteTimeEntry (te_id fill) p d = (Inr n, d')"
      using run by (auto simp: shrink_fill_def Let_def times zero sp' act_seq_eq_Inr_iff)
    then show ?thesis
      using delete_write [OF _ ids fill] pieces 2 sp
      by (intro exI [of _ "{}"]) (auto simp: around_pieces_def b_fill)
  next
    case (3 o' y)
    then obtain r where "set_span p fill y d = (Inr r, d')"
      using run by (auto simp: shrink_fill_def Let_def times zero sp' act_seq_eq_Inr_iff)
    moreover have "covered y = covered gap - covered E" using pieces 3 sp by (simp add: around_pieces_def)
    moreover have "stored_span (respan y fill) = Some y" using ends 3 by (simp add: respan_span)
    ultimately show ?thesis
      using span_write [OF _ ids fill] by (intro exI [of _ "{respan y fill}"]) (auto simp: gap(1) booked_single)
  next
    case (4 o' y)
    then obtain r where "set_span p fill y d = (Inr r, d')"
      using run by (auto simp: shrink_fill_def Let_def times zero sp' act_seq_eq_Inr_iff)
    moreover have "covered y = covered gap - covered E" using pieces 4 sp by (simp add: around_pieces_def)
    moreover have "stored_span (respan y fill) = Some y" using ends 4 by (simp add: respan_span)
    ultimately show ?thesis
      using span_write [OF _ ids fill] by (intro exI [of _ "{respan y fill}"]) (auto simp: gap(1) booked_single)
  next
    case (5 o' y z)
    let ?new = "(respan z fill)\<lparr>te_id := tbl_seq (db_entries d) + 1\<rparr>"
    have p: "fill\<lparr>te_period := p\<rparr> = fill" using fill(2) by simp
    obtain r e r' where w: "set_span p fill y d = (Inr r, e)"
      "q_CreateTimeEntry (respan z (fill\<lparr>te_period := p\<rparr>)) e = (Inr r', d')"
      using run 5 by (auto simp: shrink_fill_def Let_def times zero sp' act_seq_eq_Inr_iff respan_def)
    have "covered y \<union> covered z = covered gap - covered E" using pieces 5 sp by (simp add: around_pieces_def)
    moreover have "stored_span (respan y fill) = Some y" "stored_span ?new = Some z"
      using ends 5 by (simp_all add: respan_span)
    ultimately have new: "booked k {respan y fill, ?new} = booked k {fill} - covered E" for k
      by (simp add: booked_pair gap(1) booked_single)
    have step: "ledger d' = ledger d - {fill} \<union> {respan y fill, ?new}" "ids_ok te_id (db_entries d')"
      "tbl_seq (db_entries d) \<le> tbl_seq (db_entries d')"
      using span_write [OF w(1) ids fill] create_write [OF w(2) [unfolded p]] by auto
    have "te_id r = te_id fill \<or> tbl_seq (db_entries d) < te_id r" if "r \<in> {respan y fill, ?new}" for r
      using that by auto
    then show ?thesis
      using step by (intro exI [of _ "{respan y fill, ?new}"] conjI allI ballI new)
  qed
qed

lemma shrink_all:
  assumes "for_each (shrink_fill p E) fills d = (Inr us, d')" "ids_ok te_id (db_entries d)"
    and "set fills \<subseteq> ledger d" "distinct fills" "\<forall>f \<in> set fills. te_period f = p \<and>
      (\<exists>gap. stored_span f = Some gap \<and> storable (iv_start gap) \<and> storable (iv_end gap))"
    and E: "storable (iv_start E)" "storable (iv_end E)" "iv_start E \<le> iv_end E"
  shows "\<exists>N. ledger d' = ledger d - set fills \<union> N \<and> ids_ok te_id (db_entries d') \<and>
    (\<forall>b. booked b N = booked b (set fills) - covered E)"
  using assms(1-5)
proof (induction fills arbitrary: d us)
  case Nil
  then show ?case by (intro exI [of _ "{}"]) simp
next
  case (Cons f fs)
  then obtain u e vs where run: "shrink_fill p E f d = (Inr u, e)" "for_each (shrink_fill p E) fs e = (Inr vs, d')"
    by (auto simp: act_bind_eq_Inr_iff)
  obtain gap where gap: "stored_span f = Some gap" "storable (iv_start gap)" "storable (iv_end gap)"
    using Cons.prems(5) by auto
  have f: "f \<in> ledger d" "te_period f = p" using Cons.prems by auto
  from shrink_one [OF run(1) Cons.prems(2) f gap E] obtain N where N:
    "ledger e = ledger d - {f} \<union> N" "ids_ok te_id (db_entries e)" "\<And>b. booked b N = booked b {f} - covered E"
    "\<And>r. r \<in> N \<Longrightarrow> te_id r = te_id f \<or> tbl_seq (db_entries d) < te_id r" by blast
  have sub: "set fs \<subseteq> ledger e" using Cons.prems N(1) by auto
  from Cons.IH [OF run(2) N(2) sub] Cons.prems obtain M where M:
    "ledger d' = ledger e - set fs \<union> M" "ids_ok te_id (db_entries d')" "\<And>b. booked b M = booked b (set fs) - covered E"
    by auto
  have "r \<notin> set fs" if "r \<in> N" for r
  proof
    assume r: "r \<in> set fs"
    then have "r \<in> ledger d" "r \<noteq> f" using Cons.prems by auto
    moreover from this have "te_id r \<le> tbl_seq (db_entries d)" using Cons.prems(2) by (auto simp: ids_ok_def ledger_def)
    ultimately show False using N(4) [OF that] same_id [OF Cons.prems(2)] f(1) by (auto simp: ledger_def)
  qed
  then have "ledger d' = ledger d - set (f # fs) \<union> (N \<union> M)" using M(1) N(1) by auto
  moreover have "booked b (N \<union> M) = booked b (set (f # fs)) - covered E" for b
    using booked_union [of b "{f}" "set fs"] by (auto simp: booked_union N(3) M(3))
  ultimately show ?case using M(2) by blast
qed


section \<open>Loops that mark rows\<close>

lemma for_each_marks:
  assumes "\<And>x s y t. x \<in> set xs \<Longrightarrow> f x s = (Inr y, t) \<Longrightarrow> rows t = map (\<lambda>r. if C x r then g r else r) (rows s)"
    and "\<And>x r. C x (g r) = C x r" "\<And>r. g (g r) = g r" "for_each f xs s = (Inr ys, t)"
  shows "rows t = map (\<lambda>r. if \<exists>x \<in> set xs. C x r then g r else r) (rows s)"
  using assms(1,4)
proof (induction xs arbitrary: s ys)
  case (Cons x xs)
  then obtain y u zs where "f x s = (Inr y, u)" "for_each f xs u = (Inr zs, t)"
    by (auto simp: act_bind_eq_Inr_iff)
  then have "rows t = map (\<lambda>r. if \<exists>x \<in> set xs. C x r then g r else r) (map (\<lambda>r. if C x r then g r else r) (rows s))"
    using Cons by fastforce
  also have "\<dots> = map (\<lambda>r. if \<exists>x \<in> set (x # xs). C x r then g r else r) (rows s)"
    using assms(2,3) by (auto simp: comp_def)
  finally show ?case .
qed (simp add: map_idI)


section \<open>Dismissing the drafts of an event\<close>

definition linked_draft :: "int \<Rightarrow> string \<Rightarrow> time_entry \<Rightarrow> bool" where
  "linked_draft p identity r \<longleftrightarrow> te_period r = p \<and> te_source_kind r = Some SourceKindCalendarEvent \<and>
     te_source_id r = Some identity \<and> te_attestation r = ''draft''"

definition dismiss_drafts :: "int \<Rightarrow> string \<Rightarrow> time_entry list \<Rightarrow> time_entry list" where
  "dismiss_drafts p identity rows =
     map (\<lambda>r. if linked_draft p identity r then r\<lparr>te_attestation := ''dismissed''\<rparr> else r) rows"

lemma attest_Inr:
  assumes "q_UpdateTimeEntryAttestation a i p d = (Inr x, d')"
  shows "tbl_rows (db_entries d') =
    map (\<lambda>r. if te_id r = i \<and> te_period r = p then r\<lparr>te_attestation := a\<rparr> else r) (tbl_rows (db_entries d))"
proof -
  obtain rs where "update_where db_entries put_entries te_ok (\<lambda>r. te_id r = i \<and> te_period r = p \<and> True)
      (\<lambda>r. r\<lparr>te_attestation := a\<rparr>) d = (Inr rs, d')"
    using assms by (auto simp: q_UpdateTimeEntryAttestation_def update_entry_def scan_one_Inr)
  from entries.update_rows [OF this] show ?thesis by simp
qed

lemma dismiss_linked_Inr:
  assumes "dismissLinkedDrafts linked d = (Inr u, d')"
  shows "tbl_rows (db_entries d') =
     map (\<lambda>r. if \<exists>te \<in> set linked. te_attestation te = ''draft'' \<and> te_id r = te_id te \<and> te_period r = te_period te
        then r\<lparr>te_attestation := ''dismissed''\<rparr> else r) (tbl_rows (db_entries d))"
proof -
  let ?f = "\<lambda>te. if te_attestation te \<noteq> ''draft'' then act_ret ()
     else act_seq (q_UpdateTimeEntryAttestation ''dismissed'' (te_id te) (te_period te)) (act_ret ())"
  let ?C = "\<lambda>te r. te_attestation te = ''draft'' \<and> te_id r = te_id te \<and> te_period r = te_period te"
  obtain ys where run: "for_each ?f linked d = (Inr ys, d')"
    using assms unfolding dismissLinkedDrafts_def by (auto simp: act_seq_eq_Inr_iff)
  have step: "tbl_rows (db_entries t) =
      map (\<lambda>r. if ?C te r then r\<lparr>te_attestation := ''dismissed''\<rparr> else r) (tbl_rows (db_entries s))"
    if "?f te s = (Inr y, t)" for te s y t
    using that by (auto simp: act_seq_eq_Inr_iff map_idI dest: attest_Inr split: if_splits)
  show ?thesis
    by (rule for_each_marks [where rows = "\<lambda>d. tbl_rows (db_entries d)" and C = ?C, OF step _ _ run]) simp_all
qed

lemma dismiss_event_Inr:
  assumes "dismissCalendarDraftsForEvent ev d = (Inr u, d')" "ids_ok te_id (db_entries d)"
  shows "tbl_rows (db_entries d') =
    dismiss_drafts (ev_period ev) (eventIdentityFromRow ev) (tbl_rows (db_entries d))"
proof -
  let ?linked = "linkedCalendarEntries (q_ListTimeEntriesForPeriod (ev_period ev) d) (eventIdentityFromRow ev)"
  have run: "dismissLinkedDrafts ?linked d = (Inr u, d')"
    using assms(1) by (simp add: dismissCalendarDraftsForEvent_def)
  have "(\<exists>te \<in> set ?linked. te_attestation te = ''draft'' \<and> te_id r = te_id te \<and> te_period r = te_period te)
      \<longleftrightarrow> linked_draft (ev_period ev) (eventIdentityFromRow ev) r" (is "?L \<longleftrightarrow> ?R")
    if "r \<in> set (tbl_rows (db_entries d))" for r
  proof
    assume ?L
    then show ?R using that same_id [OF assms(2)] by (auto simp: linked_draft_def dest: linked_in)
  next
    assume ?R
    then show ?L
      using that by (intro bexI [of _ r])
        (simp_all add: linked_draft_def linkedCalendarEntries_def q_ListTimeEntriesForPeriod_def select_rows_def)
  qed
  then show ?thesis
    unfolding dismiss_linked_Inr [OF run] dismiss_drafts_def by (intro map_cong) auto
qed

lemma dismissed_no_draft:
  assumes "r \<in> set (dismiss_drafts p identity rows)"
  shows "\<not> linked_draft p identity r"
proof -
  obtain q where "r = (if linked_draft p identity q then q\<lparr>te_attestation := ''dismissed''\<rparr> else q)"
    using assms unfolding dismiss_drafts_def set_map by blast
  then show ?thesis by (cases "linked_draft p identity q") (simp_all add: linked_draft_def)
qed


section \<open>Overlays of an event\<close>

definition overlay_key :: "overlay \<Rightarrow> int \<times> string \<times> string \<times> string \<times> string" where
  "overlay_key ov = (ov_period ov, ov_provider ov, ov_external ov, ov_instance ov, ov_kind ov)"

text \<open>The UNIQUE constraint of the overlay table.\<close>

definition overlays_wf :: "db \<Rightarrow> bool" where
  "overlays_wf d \<longleftrightarrow> ids_ok ov_id (db_overlays d) \<and> distinct (map overlay_key (tbl_rows (db_overlays d)))"

lemma same_overlay_key: "same_overlay p a b c k = (\<lambda>ov. overlay_key ov = (p, a, b, c, k))"
  by (auto simp: same_overlay_def overlay_key_def fun_eq_iff)

lemma get_overlay_unique:
  assumes "overlays_wf d" "ov \<in> set (tbl_rows (db_overlays d))" "overlay_key ov = (p, a, b, c, k)"
  shows "q_GetOverlay p a b c k d = Some ov"
  using find_key [of overlay_key "tbl_rows (db_overlays d)" ov] assms
  by (simp add: overlays_wf_def q_GetOverlay_def find_row_def same_overlay_key)

lemma delete_category_Inr:
  assumes "DeleteCategoryOverlay ev d = (Inr u, d')" "overlays_wf d"
  shows "overlays_wf d' \<and> category_overlay (ev_period ev) (ev_provider ev) (ev_external ev) (ev_instance ev) d' = None \<and>
    set (tbl_rows (db_overlays d')) \<subseteq> set (tbl_rows (db_overlays d)) \<and>
    (\<forall>ov. overlay_key ov \<noteq> (ev_period ev, ev_provider ev, ev_external ev, ev_instance ev, overlayKindCategory) \<longrightarrow>
       (ov \<in> set (tbl_rows (db_overlays d')) \<longleftrightarrow> ov \<in> set (tbl_rows (db_overlays d))))"
proof (cases "category_overlay (ev_period ev) (ev_provider ev) (ev_external ev) (ev_instance ev) d")
  case None
  then show ?thesis using assms by (simp add: DeleteCategoryOverlay_def)
next
  case (Some ov)
  then obtain n where del: "delete_where db_overlays put_overlays (\<lambda>x. ov_id x = ov_id ov) d = (Inr n, d')"
    using assms(1) by (auto simp: DeleteCategoryOverlay_def q_DeleteOverlay_def act_seq_eq_Inr_iff)
  have ov: "ov \<in> set (tbl_rows (db_overlays d))"
    "overlay_key ov = (ev_period ev, ev_provider ev, ev_external ev, ev_instance ev, overlayKindCategory)"
    using Some by (auto simp: category_overlay_def q_GetOverlay_def find_row_def same_overlay_key dest!: find_SomeD)
  note rows = overlays.delete_rows [OF del]
  have "overlays_wf d'"
    using assms(2) rows overlays.delete_keeps_ids [OF del] by (auto simp: overlays_wf_def distinct_map_filter)
  moreover have "overlay_key x \<noteq> overlay_key ov" if "x \<in> set (tbl_rows (db_overlays d'))" for x
    using that rows ov(1) assms(2) by (auto simp: overlays_wf_def distinct_map inj_on_def)
  then have "category_overlay (ev_period ev) (ev_provider ev) (ev_external ev) (ev_instance ev) d' = None"
    using ov(2) by (auto simp: category_overlay_def q_GetOverlay_def find_row_def find_None_iff same_overlay_key)
  moreover have "x \<in> set (tbl_rows (db_overlays d'))"
    if "x \<in> set (tbl_rows (db_overlays d))" "overlay_key x \<noteq> overlay_key ov" for x
    using that rows ov(1) assms(2) by (auto simp: overlays_wf_def ids_ok_def distinct_map inj_on_def)
  ultimately show ?thesis using rows ov(2) by auto
qed


lemma upsert_overlay_Inr:
  assumes "q_UpsertOverlay arg d = (Inr x, d')" "overlays_wf d"
  shows "overlays_wf d' \<and> (\<exists>ov \<in> set (tbl_rows (db_overlays d')). overlay_key ov = overlay_key arg \<and>
      ov_category ov = ov_category arg \<and> ov_note ov = ov_note arg) \<and>
    (\<forall>ov. overlay_key ov \<noteq> overlay_key arg \<longrightarrow>
       (ov \<in> set (tbl_rows (db_overlays d')) \<longleftrightarrow> ov \<in> set (tbl_rows (db_overlays d))))"
proof -
  let ?rows = "tbl_rows (db_overlays d)"
  let ?same = "\<lambda>ov. overlay_key ov = overlay_key arg"
  let ?upd = "\<lambda>r. r\<lparr>ov_category := ov_category arg, ov_resolved_overlap := ov_resolved_overlap arg, ov_note := ov_note arg\<rparr>"
  have same: "same_overlay (ov_period arg) (ov_provider arg) (ov_external arg) (ov_instance arg) (ov_kind arg) = ?same"
    by (simp add: same_overlay_key overlay_key_def)
  have keys: "overlay_key (?upd r) = overlay_key r" "overlay_key (arg\<lparr>ov_id := i\<rparr>) = overlay_key arg" for r i
    by (simp_all add: overlay_key_def)
  show ?thesis
  proof (cases "list_ex ?same ?rows")
    case True
    then obtain rs where up: "update_where db_overlays put_overlays ov_ok ?same ?upd d = (Inr rs, d')"
      using assms(1) by (auto simp: q_UpsertOverlay_def upsert_into_def same scan_one_Inr)
    note rows = overlays.update_rows [OF up]
    have "overlays_wf d'"
      using assms(2) rows overlays.update_keeps_ids [OF up] by (auto simp: overlays_wf_def comp_def if_distrib keys cong: if_cong)
    moreover from True obtain r where "r \<in> set ?rows" "?same r" by (auto simp: list_ex_iff)
    then have "?upd r \<in> set (tbl_rows (db_overlays d'))" "?same (?upd r)" using rows by (force simp: keys)+
    then have "\<exists>ov \<in> set (tbl_rows (db_overlays d')). ?same ov \<and> ov_category ov = ov_category arg \<and> ov_note ov = ov_note arg"
      by (intro bexI [of _ "?upd r"]) simp_all
    moreover have "ov \<in> set (tbl_rows (db_overlays d')) \<longleftrightarrow> ov \<in> set ?rows" if "\<not> ?same ov" for ov
      using rows that keys(1) by (auto simp: image_iff split: if_splits)
    ultimately show ?thesis by blast
  next
    case False
    then have ins: "insert_into db_overlays put_overlays ov_ok (\<lambda>i. arg\<lparr>ov_id := i\<rparr>) d = (Inr x, d')"
      using assms(1) by (simp add: q_UpsertOverlay_def upsert_into_def same)
    note rows = overlays.insert_rows [OF ins]
    have x: "x = arg\<lparr>ov_id := tbl_seq (db_overlays d) + 1\<rparr>" using ins by (simp add: overlays.insert_Inr)
    have "overlays_wf d'"
      using assms(2) rows overlays.insert_keeps_ids [OF ins] False
      by (auto simp: overlays_wf_def x keys list_ex_iff)
    then show ?thesis using rows x keys(2) by (auto intro!: bexI [of _ x])
  qed
qed

text \<open>Excluding an event hides it and leaves its category as it was.\<close>

lemma exclude_Inr:
  assumes "MarkExcluded ev d = (Inr u, d')" "overlays_wf d"
  shows "overlays_wf d' \<and> HasStatusExcluded ev d' \<and> excluded_by_status d' ev \<and>
    (category_overlay (ev_period ev) (ev_provider ev) (ev_external ev) (ev_instance ev) d = None \<longrightarrow>
     category_overlay (ev_period ev) (ev_provider ev) (ev_external ev) (ev_instance ev) d' = None) \<and>
    (\<forall>ov. overlay_key ov \<noteq> (ev_period ev, ev_provider ev, ev_external ev, ev_instance ev, overlayKindStatus) \<longrightarrow>
       (ov \<in> set (tbl_rows (db_overlays d')) \<longleftrightarrow> ov \<in> set (tbl_rows (db_overlays d))))"
proof -
  let ?arg = "new_overlay (ev_period ev) (ev_provider ev) (ev_external ev) (ev_instance ev) None overlayStatusExclude overlayKindStatus"
  obtain x where "q_UpsertOverlay ?arg d = (Inr x, d')"
    using assms(1) by (auto simp: MarkExcluded_def act_seq_eq_Inr_iff)
  note up = upsert_overlay_Inr [OF this assms(2)]
  from up obtain ov where ov: "ov \<in> set (tbl_rows (db_overlays d'))" "overlay_key ov = overlay_key ?arg" "ov_note ov = overlayStatusExclude"
    by (auto simp: new_overlay_def)
  have "q_GetOverlay (ev_period ev) (ev_provider ev) (ev_external ev) (ev_instance ev) overlayKindStatus d' = Some ov"
    using up ov by (intro get_overlay_unique) (simp_all add: overlay_key_def new_overlay_def)
  then have "HasStatusExcluded ev d'" using ov(3) by (simp add: HasStatusExcluded_def)
  moreover have "excluded_by_status d' ev"
    using ov by (auto simp: excluded_by_status_def list_ex_iff overlay_key_def new_overlay_def)
  moreover have "category_overlay (ev_period ev) (ev_provider ev) (ev_external ev) (ev_instance ev) d' = None"
    if "category_overlay (ev_period ev) (ev_provider ev) (ev_external ev) (ev_instance ev) d = None"
  proof -
    have "overlay_key ov \<noteq> (ev_period ev, ev_provider ev, ev_external ev, ev_instance ev, overlayKindCategory)"
      if "ov \<in> set (tbl_rows (db_overlays d'))" for ov
    proof
      assume k: "overlay_key ov = (ev_period ev, ev_provider ev, ev_external ev, ev_instance ev, overlayKindCategory)"
      then have "overlay_key ov \<noteq> overlay_key ?arg" by (simp add: overlay_key_def new_overlay_def)
      with up that have "ov \<in> set (tbl_rows (db_overlays d))" by blast
      with k \<open>category_overlay _ _ _ _ d = None\<close> show False
        by (auto simp: category_overlay_def q_GetOverlay_def find_row_def find_None_iff same_overlay_key)
    qed
    then show ?thesis
      by (auto simp: category_overlay_def q_GetOverlay_def find_row_def find_None_iff same_overlay_key)
  qed
  moreover have "overlay_key ?arg = (ev_period ev, ev_provider ev, ev_external ev, ev_instance ev, overlayKindStatus)"
    by (simp add: overlay_key_def new_overlay_def)
  ultimately show ?thesis using up by simp
qed


section \<open>Excluding an event\<close>

definition dismiss_items :: "int \<Rightarrow> int \<Rightarrow> review_item list \<Rightarrow> review_item list" where
  "dismiss_items p e rows = map (\<lambda>r. if rv_period r = p \<and> rv_status r = ''open'' \<and> rv_event r = Some e
     then closed_item ''dismissed'' ReviewActionExclude r else r) rows"

lemma dismiss_items_Inr:
  assumes "for_each (\<lambda>it. if rv_event it \<noteq> Some e then act_ret ()
      else mapErr (q_ResolveReviewItem ''dismissed'' ReviewActionExclude (JObj []) (rv_id it))) (q_ListOpenReviewItems p d) d
    = (Inr us, d')" "ids_ok rv_id (db_reviews d)"
  shows "tbl_rows (db_reviews d') = dismiss_items p e (tbl_rows (db_reviews d))"
proof -
  let ?items = "q_ListOpenReviewItems p d"
  let ?C = "\<lambda>it r. rv_event it = Some e \<and> rv_id r = rv_id it"
  let ?f = "\<lambda>it. if rv_event it \<noteq> Some e then act_ret ()
      else mapErr (q_ResolveReviewItem ''dismissed'' ReviewActionExclude (JObj []) (rv_id it))"
  have step: "tbl_rows (db_reviews t) =
      map (\<lambda>r. if ?C it r then closed_item ''dismissed'' ReviewActionExclude r else r) (tbl_rows (db_reviews s))"
    if "?f it s = (Inr y, t)" for it s y t
    using that by (auto simp: map_idI dest: resolve_Inr split: if_splits)
  have "tbl_rows (db_reviews d') = map (\<lambda>r. if \<exists>it \<in> set ?items. ?C it r
      then closed_item ''dismissed'' ReviewActionExclude r else r) (tbl_rows (db_reviews d))"
    by (rule for_each_marks [where rows = "\<lambda>d. tbl_rows (db_reviews d)" and C = ?C, OF step _ _ assms(1)])
      (simp_all add: closed_item_def)
  also have "(\<exists>it \<in> set ?items. ?C it r) \<longleftrightarrow> rv_period r = p \<and> rv_status r = ''open'' \<and> rv_event r = Some e"
    if "r \<in> set (tbl_rows (db_reviews d))" for r
    using that assms(2)
    by (auto simp: q_ListOpenReviewItems_def select_rows_def ids_ok_def distinct_map inj_on_def)
  then have "map (\<lambda>r. if \<exists>it \<in> set ?items. ?C it r then closed_item ''dismissed'' ReviewActionExclude r else r)
      (tbl_rows (db_reviews d)) = dismiss_items p e (tbl_rows (db_reviews d))"
    unfolding dismiss_items_def by (intro map_cong) auto
  finally show ?thesis .
qed

lemma got_event: "q_GetEvent i d = Some ev \<Longrightarrow> ev \<in> set (tbl_rows (db_events d)) \<and> ev_id ev = i"
  by (auto simp: q_GetEvent_def find_row_def dest: find_SomeD)

lemma exclude_event_Inr:
  assumes "ExcludeEvent e p d = (Inr res, d')"
    and "ids_ok te_id (db_entries d)" "ids_ok rv_id (db_reviews d)" "overlays_wf d"
  shows "\<exists>ev. q_GetEvent e d = Some ev \<and> ev_period ev = p \<and> res = (p, e) \<and>
    HasStatusExcluded ev d' \<and> ev \<notin> set (q_ListEventsForPeriod p d') \<and>
    \<not> hasCategory p (ev_provider ev) (ev_external ev) (ev_instance ev) d' \<and>
    tbl_rows (db_entries d') = dismiss_drafts p (eventIdentityFromRow ev) (tbl_rows (db_entries d)) \<and>
    tbl_rows (db_reviews d') = dismiss_items p e (tbl_rows (db_reviews d)) \<and>
    d' = d\<lparr>db_entries := db_entries d', db_overlays := db_overlays d', db_reviews := db_reviews d'\<rparr> \<and>
    (\<forall>ov. overlay_key ov \<notin> {p} \<times> {ev_provider ev} \<times> {ev_external ev} \<times> {ev_instance ev} \<times>
        {overlayKindCategory, overlayKindStatus} \<longrightarrow>
       (ov \<in> set (tbl_rows (db_overlays d')) \<longleftrightarrow> ov \<in> set (tbl_rows (db_overlays d))))"
proof -
  obtain ev d1 d2 d3 us where ev: "q_GetEvent e d = Some ev" "ev_period ev = p"
    and s1: "DeleteCategoryOverlay ev d = (Inr (), d1)"
    and s2: "dismissCalendarDraftsForEvent ev d1 = (Inr (), d2)" and s3: "MarkExcluded ev d2 = (Inr (), d3)"
    and s4: "for_each (\<lambda>it. if rv_event it \<noteq> Some (ev_id ev) then act_ret ()
      else mapErr (q_ResolveReviewItem ''dismissed'' ReviewActionExclude (JObj []) (rv_id it))) (q_ListOpenReviewItems p d3) d3
      = (Inr us, d')" and res: "res = (p, ev_id ev)"
    using assms(1) unfolding ExcludeEvent_def
    by (auto simp: act_bind_eq_Inr_iff act_seq_eq_Inr_iff split: if_splits)
  have e: "ev_id ev = e" using got_event [OF ev(1)] by simp
  have loop: "moves (unchanged f) (for_each (\<lambda>it. if rv_event it \<noteq> Some (ev_id ev) then act_ret ()
      else mapErr (q_ResolveReviewItem ''dismissed'' ReviewActionExclude (JObj []) (rv_id it))) its)"
    if "\<And>d t. f (put_reviews t d) = f d" for f :: "db \<Rightarrow> 'x" and its
    using that by (intro unchanged.frame_rules moves_mapErr unchanged_resolve_review)
  have ents: "db_entries d1 = db_entries d" "db_entries d3 = db_entries d2" "db_entries d' = db_entries d3"
    using unchanged_result [OF unchanged_delete_category s1, of db_entries]
      unchanged_result [OF unchanged_exclude s3, of db_entries] unchanged_result [OF loop s4, of db_entries] by simp_all
  have revs: "db_reviews d3 = db_reviews d"
    using unchanged_result [OF unchanged_delete_category s1, of db_reviews]
      unchanged_result [OF unchanged_dismiss_event s2, of db_reviews]
      unchanged_result [OF unchanged_exclude s3, of db_reviews] by simp
  let ?rest = "\<lambda>d. d\<lparr>db_entries := empty_table, db_overlays := empty_table, db_reviews := empty_table\<rparr>"
  have "?rest d' = ?rest d"
    using unchanged_result [OF unchanged_delete_category s1, of ?rest]
      unchanged_result [OF unchanged_dismiss_event s2, of ?rest]
      unchanged_result [OF unchanged_exclude s3, of ?rest] unchanged_result [OF loop s4, of ?rest] by simp
  then have rest: "d' = d\<lparr>db_entries := db_entries d', db_overlays := db_overlays d', db_reviews := db_reviews d'\<rparr>"
    by (cases d; cases d') simp
  have ovs: "db_overlays d2 = db_overlays d1" "db_overlays d' = db_overlays d3"
    using unchanged_result [OF unchanged_dismiss_event s2, of db_overlays] unchanged_result [OF loop s4, of db_overlays] by simp_all
  note del = delete_category_Inr [OF s1 assms(4)]
  have "overlays_wf d2" using del ovs by (simp add: overlays_wf_def)
  note exc = exclude_Inr [OF s3 this]
  have cat: "category_overlay p (ev_provider ev) (ev_external ev) (ev_instance ev) d' = None"
    using del exc ovs ev(2) by (simp add: category_overlay_def q_GetOverlay_def)
  have "HasStatusExcluded ev d'" "excluded_by_status d' ev"
    using exc ovs(2) by (simp_all add: HasStatusExcluded_def q_GetOverlay_def excluded_by_status_def)
  moreover from this have "ev \<notin> set (q_ListEventsForPeriod p d')"
    by (simp add: q_ListEventsForPeriod_def select_rows_def)
  moreover have "\<not> hasCategory p (ev_provider ev) (ev_external ev) (ev_instance ev) d'"
    using cat by (simp add: hasCategory_def)
  moreover have "tbl_rows (db_entries d') = dismiss_drafts p (eventIdentityFromRow ev) (tbl_rows (db_entries d))"
    using dismiss_event_Inr [OF s2] assms(2) ents ev(2) by simp
  moreover have "tbl_rows (db_reviews d') = dismiss_items p e (tbl_rows (db_reviews d))"
    using dismiss_items_Inr [OF s4] assms(3) revs e by simp
  moreover have "ov \<in> set (tbl_rows (db_overlays d')) \<longleftrightarrow> ov \<in> set (tbl_rows (db_overlays d))"
    if "overlay_key ov \<notin> {p} \<times> {ev_provider ev} \<times> {ev_external ev} \<times> {ev_instance ev} \<times>
        {overlayKindCategory, overlayKindStatus}" for ov
  proof -
    have "overlay_key ov \<noteq> (p, ev_provider ev, ev_external ev, ev_instance ev, overlayKindCategory)"
      "overlay_key ov \<noteq> (p, ev_provider ev, ev_external ev, ev_instance ev, overlayKindStatus)"
      using that by auto
    then show ?thesis using del exc ovs ev(2) by simp
  qed
  ultimately show ?thesis using ev res e rest by blast
qed


section \<open>One item for a conflict\<close>

lemma head_sorted:
  "(case sort_key f xs of [] \<Rightarrow> None | r # _ \<Rightarrow> Some r) = Some r \<Longrightarrow> r \<in> set xs"
  "(case sort_key f xs of [] \<Rightarrow> None | r # _ \<Rightarrow> Some r) = None \<longleftrightarrow> xs = []"
proof -
  have s: "set (sort_key f xs) = set xs" "length (sort_key f xs) = length xs" by simp_all
  show "(case sort_key f xs of [] \<Rightarrow> None | r # _ \<Rightarrow> Some r) = Some r \<Longrightarrow> r \<in> set xs"
    using s(1) by (cases "sort_key f xs") auto
  show "(case sort_key f xs of [] \<Rightarrow> None | r # _ \<Rightarrow> Some r) = None \<longleftrightarrow> xs = []"
    using s(2) by (cases "sort_key f xs") auto
qed

lemma by_conflict_key:
  "q_GetReviewItemByConflictKey p kind k d = Some r \<Longrightarrow>
     r \<in> set (tbl_rows (db_reviews d)) \<and> rv_period r = p \<and> rv_kind r = kind \<and> rv_conflict_key r = k"
  "q_GetReviewItemByConflictKey p kind k d = None \<longleftrightarrow>
     (\<forall>r \<in> set (tbl_rows (db_reviews d)). \<not> (rv_period r = p \<and> rv_kind r = kind \<and> rv_conflict_key r = k))"
  unfolding q_GetReviewItemByConflictKey_def
  by (auto dest!: head_sorted(1) simp: head_sorted(2) select_rows_def filter_empty_conv)

lemma enqueue_Inr:
  assumes "EnqueueOrReplay p kind e key payload d = (Inr (action, created), d')"
  shows "(case q_GetReviewItemByConflictKey p kind key d of
       None \<Rightarrow> created \<and> action = '''' \<and> (\<exists>r. tbl_rows (db_reviews d') = tbl_rows (db_reviews d) @ [r] \<and>
          rv_period r = p \<and> rv_kind r = kind \<and> rv_conflict_key r = key \<and> rv_status r = ''open'' \<and>
          rv_event r = Some e \<and> rv_payload r = payload)
     | Some r \<Rightarrow> \<not> created \<and> d' = d \<and> action = (if rv_status r = ''open'' then '''' else rv_action r))"
  using assms
  by (auto simp: EnqueueOrReplay_def act_seq_eq_Inr_iff q_CreateReviewItem_def reviews.insert_Inr split: option.splits)

lemma enqueue_frame:
  "EnqueueOrReplay p kind e key payload d = (Inr (action, created), d') \<Longrightarrow> d' = d\<lparr>db_reviews := db_reviews d'\<rparr>"
  by (auto simp: EnqueueOrReplay_def act_seq_eq_Inr_iff q_CreateReviewItem_def reviews.insert_Inr split: option.splits)

lemma enqueue_again:
  assumes "EnqueueOrReplay p kind e key payload d = (Inr (action, created), d')"
  shows "EnqueueOrReplay p kind e' key payload' d' = (Inr (action, False), d')"
proof (cases "q_GetReviewItemByConflictKey p kind key d")
  case (Some r)
  then show ?thesis using enqueue_Inr [OF assms] by (simp add: EnqueueOrReplay_def)
next
  case None
  then obtain r where r: "tbl_rows (db_reviews d') = tbl_rows (db_reviews d) @ [r]"
    "rv_period r = p" "rv_kind r = kind" "rv_conflict_key r = key" "rv_status r = ''open''" and act: "action = ''''"
    using enqueue_Inr [OF assms] by auto
  obtain x where x: "q_GetReviewItemByConflictKey p kind key d' = Some x"
    using by_conflict_key(2) [of p kind key d'] r by (cases "q_GetReviewItemByConflictKey p kind key d'") auto
  have "x = r"
    using by_conflict_key(1) [OF x] by_conflict_key(2) [of p kind key d] None r(1) by auto
  then show ?thesis using x r(5) act by (simp add: EnqueueOrReplay_def)
qed

text \<open>
  At most one item is stored for a conflict: raising it keeps that, and closing the item makes its
  action the answer of the next time.
\<close>

definition of_conflict :: "int \<Rightarrow> string \<Rightarrow> string \<Rightarrow> review_item \<Rightarrow> bool" where
  "of_conflict p kind key r \<longleftrightarrow> rv_period r = p \<and> rv_kind r = kind \<and> rv_conflict_key r = key"

definition single_item :: "int \<Rightarrow> string \<Rightarrow> string \<Rightarrow> db \<Rightarrow> bool" where
  "single_item p kind key d \<longleftrightarrow>
     length (filter (of_conflict p kind key) (tbl_rows (db_reviews d))) \<le> 1"

lemma single_lookup:
  assumes "filter (of_conflict p kind key) (tbl_rows (db_reviews d)) = [r]"
  shows "q_GetReviewItemByConflictKey p kind key d = Some r"
  using assms by (simp add: q_GetReviewItemByConflictKey_def select_rows_def of_conflict_def [abs_def])

lemma enqueue_single:
  assumes "EnqueueOrReplay p kind e key payload d = (Inr (action, created), d')" "single_item p kind key d"
  obtains r where "filter (of_conflict p kind key) (tbl_rows (db_reviews d')) = [r]"
proof (cases "q_GetReviewItemByConflictKey p kind key d")
  case None
  then have "filter (of_conflict p kind key) (tbl_rows (db_reviews d)) = []"
    using by_conflict_key(2) [of p kind key d] by (auto simp: of_conflict_def filter_empty_conv)
  then show ?thesis
    using that enqueue_Inr [OF assms(1)] None by (auto simp: of_conflict_def)
next
  case (Some r)
  then have "r \<in> set (filter (of_conflict p kind key) (tbl_rows (db_reviews d)))"
    using by_conflict_key(1) [OF Some] by (simp add: of_conflict_def)
  then show ?thesis
    using that enqueue_Inr [OF assms(1)] Some assms(2)
    by (cases "filter (of_conflict p kind key) (tbl_rows (db_reviews d))") (auto simp: single_item_def)
qed

lemma decided_replays:
  assumes "filter (of_conflict p kind key) (tbl_rows (db_reviews d)) = [r]"
    and "ResolveReviewDecision tz (rv_id r) a d = (Inr q, d')"
  shows "EnqueueOrReplay p kind e key payload d' = (Inr (a, False), d')"
proof -
  obtain item status t where run: "Apply tz item a d = (Inr status, t)"
    and close: "q_ResolveReviewItem status a (JObj []) (rv_id r) t = (Inr (), d')"
    by (rule resolve_decision_Inr [OF assms(2)])
  have "db_reviews t = db_reviews d" by (rule unchanged_result [OF unchanged_Apply run]) simp_all
  then have rows: "tbl_rows (db_reviews d') =
      map (\<lambda>x. if rv_id x = rv_id r then closed_item status a x else x) (tbl_rows (db_reviews d))"
    using resolve_Inr [OF close] by simp
  have "filter (of_conflict p kind key) (tbl_rows (db_reviews d')) =
      map (\<lambda>x. if rv_id x = rv_id r then closed_item status a x else x)
        (filter (of_conflict p kind key) (tbl_rows (db_reviews d)))"
    unfolding rows filter_map by (intro arg_cong [of _ _ "map _"] filter_cong) (auto simp: of_conflict_def closed_item_def)
  then have "q_GetReviewItemByConflictKey p kind key d' = Some (closed_item status a r)"
    using single_lookup [of p kind key d'] assms(1) by simp
  moreover have "status \<noteq> ''open''" using Apply_status [OF run] by auto
  ultimately show ?thesis by (simp add: EnqueueOrReplay_def closed_item_def)
qed

end
