(* ===== verification/Sync_Laws.thy ===== *)
theory Sync_Laws
  imports Sync Review_Laws
begin

text \<open>
  Laws of the re-sync (Sync): outcomes of the merge as triples \<open>ensures P m Q\<close>, the parts of the
  database each step leaves alone, the confirmed entries it keeps, and the state of the event table
  while the pull is merged and the vanished events are dropped.
\<close>

section \<open>Outcomes of a computation that succeeds\<close>

text \<open>\<open>ensures P m Q\<close>: from a state with \<open>P\<close>, if \<open>m\<close> returns \<open>x\<close>, the state it leaves has \<open>Q x\<close>.\<close>

definition ensures :: "('s \<Rightarrow> bool) \<Rightarrow> ('s, 'a) act \<Rightarrow> ('a \<Rightarrow> 's \<Rightarrow> bool) \<Rightarrow> bool" where
  "ensures P m Q \<longleftrightarrow> (\<forall>s x t. P s \<longrightarrow> m s = (Inr x, t) \<longrightarrow> Q x t)"

lemma ensuresD: "ensures P m Q \<Longrightarrow> P s \<Longrightarrow> m s = (Inr x, t) \<Longrightarrow> Q x t"
  by (simp add: ensures_def)

lemma ensures_ret: "(\<And>s. P s \<Longrightarrow> Q x s) \<Longrightarrow> ensures P (act_ret x) Q"
  by (simp add: ensures_def)

lemma ensures_throw: "ensures P (act_throw e) Q"
  by (simp add: ensures_def)

lemma ensures_bind: "ensures P m Q \<Longrightarrow> (\<And>x. ensures (Q x) (k x) R) \<Longrightarrow> ensures P (act_bind m k) R"
  by (auto simp: ensures_def act_bind_eq_Inr_iff)

lemma ensures_seq: "ensures P m (\<lambda>_. Q) \<Longrightarrow> ensures Q n R \<Longrightarrow> ensures P (act_seq m n) R"
  unfolding act_seq_def by (rule ensures_bind)

lemma ensures_bind_gets: "(\<And>x. ensures P (k x) R) \<Longrightarrow> ensures P (act_bind (act_gets f) k) R"
  by (auto simp: ensures_def)

lemma ensures_bind_reads: "(\<And>x. ensures P (k x) R) \<Longrightarrow> ensures P (act_bind (act_reads f) k) R"
  by (auto simp: ensures_def act_bind_reads split: sum.splits)

lemma ensures_if: "(b \<Longrightarrow> ensures P m Q) \<Longrightarrow> (\<not> b \<Longrightarrow> ensures P n Q) \<Longrightarrow> ensures P (if b then m else n) Q"
  by simp

lemma ensures_option: "(x = None \<Longrightarrow> ensures P m Q) \<Longrightarrow> (\<And>y. x = Some y \<Longrightarrow> ensures P (k y) Q) \<Longrightarrow>
    ensures P (case x of None \<Rightarrow> m | Some y \<Rightarrow> k y) Q"
  by (cases x) simp_all

lemma ensures_prod: "(\<And>a b. x = (a, b) \<Longrightarrow> ensures P (k a b) Q) \<Longrightarrow> ensures P (case x of (a, b) \<Rightarrow> k a b) Q"
  by (cases x) simp

lemma ensures_weaken: "ensures P m Q \<Longrightarrow> (\<And>s. P' s \<Longrightarrow> P s) \<Longrightarrow> (\<And>x s. Q x s \<Longrightarrow> Q' x s) \<Longrightarrow> ensures P' m Q'"
  unfolding ensures_def by blast

lemma ensures_fold_each:
  "(\<And>x acc. x \<in> set xs \<Longrightarrow> ensures (I acc) (f x acc) I) \<Longrightarrow> ensures (I acc) (fold_each f xs acc) I"
proof (induction xs arbitrary: acc)
  case Nil
  show ?case unfolding fold_each.simps by (rule ensures_ret)
next
  case (Cons x xs)
  show ?case
    unfolding fold_each.simps by (rule ensures_bind [where Q = I]) (use Cons in auto)
qed

lemma ensures_for_each:
  "(\<And>x. x \<in> set xs \<Longrightarrow> ensures P (f x) (\<lambda>_. P)) \<Longrightarrow> ensures P (for_each f xs) (\<lambda>_. P)"
proof (induction xs)
  case Nil
  show ?case unfolding for_each.simps by (rule ensures_ret)
next
  case (Cons x xs)
  have "ensures P (for_each f xs) (\<lambda>_. P)" by (rule Cons.IH) (simp add: Cons.prems)
  then show ?case
    unfolding for_each.simps
    by (intro ensures_bind [where Q = "\<lambda>_. P"] ensures_ret Cons.prems) auto
qed

lemma ensures_moves: "moves R m \<Longrightarrow> (\<And>s t. P s \<Longrightarrow> R s t \<Longrightarrow> Q t) \<Longrightarrow> ensures P m (\<lambda>_. Q)"
  unfolding ensures_def by (auto dest: moves_result)

lemma ensures_conj: "ensures P m Q \<Longrightarrow> ensures P' m Q' \<Longrightarrow> ensures (\<lambda>s. P s \<and> P' s) m (\<lambda>x s. Q x s \<and> Q' x s)"
  by (auto simp: ensures_def)


section \<open>Frames of the merge\<close>

text \<open>A part of the database that does not lie in the overlay, entry and review tables.\<close>

definition aside :: "(db \<Rightarrow> 'a) \<Rightarrow> bool" where
  "aside f \<longleftrightarrow> (\<forall>d t. f (put_overlays t d) = f d) \<and> (\<forall>d t. f (put_entries t d) = f d) \<and>
     (\<forall>d t. f (put_reviews t d) = f d)"

lemma aside_events [simp]: "aside db_events"
  by (simp add: aside_def)

lemma aside_put: "aside f \<Longrightarrow> f (put_overlays t d) = f d" "aside f \<Longrightarrow> f (put_entries u d) = f d"
  "aside f \<Longrightarrow> f (put_reviews v d) = f d"
  by (simp_all add: aside_def)

lemma aside_reopen: "aside f \<Longrightarrow> moves (unchanged f) (q_ReopenReviewItem payload e i)"
  unfolding q_ReopenReviewItem_def by (intro unchanged.frame_rules unchanged_update_review aside_put)

lemma aside_payload: "aside f \<Longrightarrow> moves (unchanged f) (q_UpdateOpenReviewItemPayload payload i)"
  unfolding q_UpdateOpenReviewItemPayload_def by (intro unchanged.frame_rules unchanged_update_review aside_put)

lemma aside_enqueue: "aside f \<Longrightarrow> moves (unchanged f) (EnqueueOrReplay p kind e key payload)"
  unfolding EnqueueOrReplay_def by (intro unchanged.frame_rules unchanged_create_review aside_put)

lemma aside_drift: "aside f \<Longrightarrow> moves (unchanged f) (enqueueSourceDrift p e identity payload)"
  unfolding enqueueSourceDrift_def Let_def
  by (intro unchanged.frame_rules unchanged_create_review moves_mapErr aside_reopen aside_payload aside_put)

lemma aside_apply: "aside f \<Longrightarrow> moves (unchanged f) (Apply tz item action)"
  by (intro unchanged_Apply aside_put)

lemma aside_new: "aside f \<Longrightarrow> moves (unchanged f) (OnNewEvent tz p inc e gaps)"
  unfolding OnNewEvent_def Let_def by (intro unchanged.frame_rules aside_enqueue aside_apply)

lemma aside_vanished: "aside f \<Longrightarrow> moves (unchanged f) (OnVanishedCategorized tz p e)"
  unfolding OnVanishedCategorized_def by (intro unchanged.frame_rules aside_enqueue aside_apply)

lemma aside_changed: "aside f \<Longrightarrow> moves (unchanged f) (OnChangedCategorized tz p e old inc)"
  unfolding OnChangedCategorized_def by (intro unchanged.frame_rules aside_enqueue aside_apply)

lemma aside_confirmed_drift: "aside f \<Longrightarrow> moves (unchanged f) (OnConfirmedSourceDrift p e inc entries h)"
  unfolding OnConfirmedSourceDrift_def Let_def by (intro unchanged.frame_rules aside_drift)

lemma aside_vanished_source: "aside f \<Longrightarrow> moves (unchanged f) (OnVanishedConfirmedSource p ev entries)"
  unfolding OnVanishedConfirmedSource_def Let_def by (intro unchanged.frame_rules aside_drift)

lemma aside_categorize: "aside f \<Longrightarrow> moves (unchanged f) (applyMemory p inc)"
  "aside f \<Longrightarrow> moves (unchanged f) (applyCalendarDefault p inc)"
  "aside f \<Longrightarrow> moves (unchanged f) (applyAISuggestion ex p inc)"
  unfolding applyMemory_def applyCalendarDefault_def applyAISuggestion_def
  by (intro unchanged.frame_rules unchanged_upsert_overlay aside_put; assumption)+

lemma aside_handle_new: "aside f \<Longrightarrow> moves (unchanged f) (handleNewEvent ex p inc e gaps)"
  unfolding handleNewEvent_def by (intro unchanged.frame_rules aside_new aside_categorize)

lemma aside_handle_changed: "aside f \<Longrightarrow> moves (unchanged f) (handleChangedEvent ex p e old inc entries h)"
  unfolding handleChangedEvent_def by (intro unchanged.frame_rules aside_confirmed_drift aside_changed)

lemma aside_materialize: "aside f \<Longrightarrow> moves (unchanged f) (materializeDraftForEvent tz p inc ev entries material)"
  unfolding materializeDraftForEvent_def Let_def createDraftFromEvent_def refreshDraftFromEvent_def
    q_UpdateTimeEntryCalendarDraft_def q_UpdateTimeEntrySourceRevision_def
  by (intro unchanged.frame_rules unchanged_dismiss_linked unchanged_create_entry moves_scan_one unchanged_update_entry aside_put)


section \<open>Confirmed entries survive a merge\<close>

text \<open>
  The rows \<open>C\<close> are kept: ids are distinct, the rows are in the ledger, and no review item has a
  decision to use an event in place of gap fills.
\<close>

definition no_use_event :: "db \<Rightarrow> bool" where
  "no_use_event d \<longleftrightarrow>
     (\<forall>r \<in> set (tbl_rows (db_reviews d)). rv_kind r = reviewNewInGap \<longrightarrow> rv_action r \<noteq> ReviewActionUseEvent)"

definition holds_rows :: "time_entry set \<Rightarrow> db \<Rightarrow> bool" where
  "holds_rows C d \<longleftrightarrow> ids_ok te_id (db_entries d) \<and> C \<subseteq> ledger d \<and> no_use_event d"

text \<open>The frame: the rows are spared and no such decision comes up.\<close>

definition merges :: "time_entry set \<Rightarrow> db \<Rightarrow> db \<Rightarrow> bool" where
  "merges C d d' \<longleftrightarrow> spares (\<lambda>r. r \<in> C) d d' \<and> (no_use_event d \<longrightarrow> no_use_event d')"

interpretation merges: frame_relation "merges C" for C
  by unfold_locales (auto simp: merges_def intro: spares.frame_refl spares.frame_trans)

lemma merges_holds: "holds_rows C d \<Longrightarrow> merges C d d' \<Longrightarrow> holds_rows C d'"
  by (auto simp: holds_rows_def merges_def spares_def ledger_def)

lemma ensures_merges: "moves (merges C) m \<Longrightarrow> ensures (holds_rows C) m (\<lambda>_. holds_rows C)"
  by (erule ensures_moves) (rule merges_holds)

lemma merges_reviews_same: "moves (spares (\<lambda>r. r \<in> C)) m \<Longrightarrow> moves (unchanged db_reviews) m \<Longrightarrow> moves (merges C) m"
  unfolding moves_def merges_def no_use_event_def by simp

lemma merges_reviews:
  "moves (unchanged db_entries) m \<Longrightarrow> (\<And>d. no_use_event d \<Longrightarrow> no_use_event (snd (m d))) \<Longrightarrow> moves (merges C) m"
  unfolding moves_def merges_def spares_def by simp

lemma no_use_create: "moves (merges C) (q_CreateReviewItem p kind e payload k)"
proof (rule merges_reviews)
  show "moves (unchanged db_entries) (q_CreateReviewItem p kind e payload k)" by (rule unchanged_create_review) simp
  show "no_use_event (snd (q_CreateReviewItem p kind e payload k d))" if "no_use_event d" for d
    using that by (auto simp: q_CreateReviewItem_def insert_into_def Let_def no_use_event_def)
qed

lemma no_use_update:
  assumes "\<And>r. rv_kind (f r) = rv_kind r" "\<And>r. rv_action (f r) = rv_action r \<or> rv_action (f r) \<noteq> ReviewActionUseEvent"
  shows "moves (merges C) (update_review i Q f)"
proof (rule merges_reviews)
  show "moves (unchanged db_entries) (update_review i Q f)" by (rule unchanged_update_review) simp
  show "no_use_event (snd (update_review i Q f d))" if "no_use_event d" for d
  proof -
    have "rv_kind (f r) = reviewNewInGap \<Longrightarrow> rv_action (f r) = ReviewActionUseEvent \<Longrightarrow> r \<in> set (tbl_rows (db_reviews d)) \<Longrightarrow> False" for r
      using that assms [of r] by (auto simp: no_use_event_def)
    then show ?thesis using that by (auto simp: no_use_event_def update_review_def update_where_def Let_def)
  qed
qed

lemma merges_queue:
  "moves (merges C) (q_UpdateOpenReviewItemPayload payload i)" "moves (merges C) (q_ReopenReviewItem payload e i)"
  unfolding q_UpdateOpenReviewItemPayload_def q_ReopenReviewItem_def
  by (intro merges.frame_rules no_use_update; simp)+

lemma merges_enqueue: "moves (merges C) (EnqueueOrReplay p kind e key payload)"
  unfolding EnqueueOrReplay_def by (intro merges.frame_rules no_use_create)

lemma merges_drift: "moves (merges C) (enqueueSourceDrift p e identity payload)"
  unfolding enqueueSourceDrift_def Let_def by (intro merges.frame_rules moves_mapErr merges_queue no_use_create)

lemma merges_apply:
  assumes "\<forall>r \<in> C. te_attestation r = ''confirmed''" "rv_kind item = reviewNewInGap \<longrightarrow> action \<noteq> ReviewActionUseEvent"
  shows "moves (merges C) (Apply tz item action)"
  by (rule merges_reviews_same, rule spares_Apply) (use assms in \<open>auto intro: unchanged_Apply\<close>)

text \<open>A replayed decision on gap fills is the one that the item stores.\<close>

lemma enqueue_action:
  "ensures (\<lambda>d. holds_rows C d) (EnqueueOrReplay p reviewNewInGap e key payload)
     (\<lambda>(action, created) d. holds_rows C d \<and> action \<noteq> ReviewActionUseEvent)"
  unfolding ensures_def
proof (intro allI impI)
  fix d x t assume C: "holds_rows C d" and run: "EnqueueOrReplay p reviewNewInGap e key payload d = (Inr x, t)"
  obtain action created where x: "x = (action, created)" by (cases x)
  have "holds_rows C t" using ensures_merges [OF merges_enqueue] C run by (rule ensuresD)
  moreover have "action \<noteq> ReviewActionUseEvent"
  proof (cases "q_GetReviewItemByConflictKey p reviewNewInGap key d")
    case None
    then show ?thesis using enqueue_Inr [OF run [unfolded x]] by simp
  next
    case (Some r)
    then have "rv_action r \<noteq> ReviewActionUseEvent"
      using by_conflict_key(1) [OF Some] C by (auto simp: holds_rows_def no_use_event_def)
    then show ?thesis using enqueue_Inr [OF run [unfolded x]] Some by auto
  qed
  ultimately show "(\<lambda>(action, created) d. holds_rows C d \<and> action \<noteq> ReviewActionUseEvent) x t" by (simp add: x)
qed

lemma keeps_new_event:
  assumes C: "\<forall>r \<in> C. te_attestation r = ''confirmed''"
  shows "ensures (holds_rows C) (OnNewEvent tz p inc e gaps) (\<lambda>_. holds_rows C)"
proof -
  have apply_ok: "ensures (holds_rows C) (Apply tz item action) (\<lambda>_. holds_rows C)"
    if "rv_kind item = reviewNewInGap \<longrightarrow> action \<noteq> ReviewActionUseEvent" for item action
    by (rule ensures_merges, rule merges_apply [OF C that])
  have gap: "ensures (holds_rows C)
      (act_bind (EnqueueOrReplay p reviewNewInGap e key payload) (\<lambda>(action, created).
         if action = ReviewActionKeepGap \<or> action = ReviewActionUseEvent then
           act_seq (Apply tz (replay_item p reviewNewInGap e) action)
             (act_ret (of_bool created, action = ReviewActionKeepGap))
         else act_ret (of_bool created, False))) (\<lambda>_. holds_rows C)" for key payload
  proof (rule ensures_bind [OF enqueue_action])
    fix x :: "string \<times> bool"
    obtain action created where x: "x = (action, created)" by (cases x)
    show "ensures ((\<lambda>(action, created) d. holds_rows C d \<and> action \<noteq> ReviewActionUseEvent) x)
      ((\<lambda>(action, created).
         if action = ReviewActionKeepGap \<or> action = ReviewActionUseEvent then
           act_seq (Apply tz (replay_item p reviewNewInGap e) action)
             (act_ret (of_bool created, action = ReviewActionKeepGap))
         else act_ret (of_bool created, False)) x) (\<lambda>_. holds_rows C)"
    proof (cases "action = ReviewActionUseEvent")
      case True
      then show ?thesis by (simp add: x ensures_def)
    next
      case False
      then show ?thesis unfolding x prod.case
        by (intro ensures_if ensures_seq [where Q = "holds_rows C"] ensures_ret ensures_weaken [OF apply_ok]) auto
    qed
  qed
  have rest: "moves (merges C) (act_bind (EnqueueOrReplay p reviewAllDay e k pl) (\<lambda>(_, created). act_ret (of_bool created, False)))"
    "moves (merges C) (act_bind (EnqueueOrReplay p reviewTentative e k pl) (\<lambda>(action, created).
        if action = ReviewActionExclude then
          act_seq (Apply tz (replay_item p reviewTentative e) action) (act_ret (of_bool created, True))
        else act_ret (of_bool created, False)))" for k pl
    by (intro merges.frame_rules merges_enqueue merges_apply C; simp add: replay_item_def)+
  show ?thesis
    unfolding OnNewEvent_def Let_def
    by (intro ensures_option ensures_if gap ensures_merges rest merges.moves_ret)
qed

lemma keeps_categorize:
  "moves (merges C) (applyMemory p inc)" "moves (merges C) (applyCalendarDefault p inc)"
  "moves (merges C) (applyAISuggestion ex p inc)"
  unfolding applyMemory_def applyCalendarDefault_def applyAISuggestion_def
  by (intro merges.frame_rules merges_reviews_same spares_unchanged unchanged_upsert_overlay; simp)+

lemma keeps_handle_new:
  assumes "\<forall>r \<in> C. te_attestation r = ''confirmed''"
  shows "ensures (holds_rows C) (handleNewEvent ex p inc e gaps) (\<lambda>_. holds_rows C)"
  unfolding handleNewEvent_def
  by (intro ensures_bind [OF keeps_new_event [OF assms]] ensures_prod ensures_if ensures_merges merges.frame_rules keeps_categorize)

lemma keeps_changed:
  assumes "\<forall>r \<in> C. te_attestation r = ''confirmed''"
  shows "moves (merges C) (OnChangedCategorized tz p e old inc)"
  unfolding OnChangedCategorized_def
  by (intro merges.frame_rules merges_enqueue merges_apply assms) (simp add: replay_item_def)

lemma keeps_confirmed_drift: "moves (merges C) (OnConfirmedSourceDrift p e inc entries h)"
  unfolding OnConfirmedSourceDrift_def Let_def by (intro merges.frame_rules merges_drift)

lemma keeps_vanished_source: "moves (merges C) (OnVanishedConfirmedSource p ev entries)"
  unfolding OnVanishedConfirmedSource_def Let_def by (intro merges.frame_rules merges_drift)

lemma keeps_vanished:
  assumes "\<forall>r \<in> C. te_attestation r = ''confirmed''"
  shows "moves (merges C) (OnVanishedCategorized tz p e)"
  unfolding OnVanishedCategorized_def
  by (intro merges.frame_rules merges_enqueue merges_apply assms) (simp add: replay_item_def)

lemma keeps_handle_changed:
  assumes "\<forall>r \<in> C. te_attestation r = ''confirmed''"
  shows "moves (merges C) (handleChangedEvent ex p e old inc entries h)"
  unfolding handleChangedEvent_def
  by (intro merges.frame_rules keeps_confirmed_drift keeps_changed assms)

lemma keeps_events: "moves (unchanged db_entries) m \<Longrightarrow> moves (unchanged db_reviews) m \<Longrightarrow> moves (merges C) m"
  by (rule merges_reviews_same [OF spares_unchanged])

lemma keeps_upsert_event: "moves (merges C) (q_UpsertEvent ev)"
  unfolding q_UpsertEvent_def
  by (intro keeps_events events.moves_upsert events.moves_insert events.moves_update) auto

lemma keeps_delete_event: "moves (merges C) (q_DeleteEvent i)"
proof (rule merges_reviews)
  show "moves (unchanged db_entries) (q_DeleteEvent i)"
    unfolding q_DeleteEvent_def
    by (intro unchanged.frame_rules reviews.moves_delete events.moves_delete) auto
  show "no_use_event (snd (q_DeleteEvent i d))" if "no_use_event d" for d
    using that by (auto simp: q_DeleteEvent_def no_use_event_def act_seq_def act_bind_def delete_where_def Let_def)
qed

text \<open>The listed entries: none that is not confirmed has the id of a kept row.\<close>

definition clear_of :: "time_entry set \<Rightarrow> time_entry list \<Rightarrow> bool" where
  "clear_of C entries \<longleftrightarrow> (\<forall>te \<in> set entries. te_attestation te \<noteq> ''confirmed'' \<longrightarrow> te_id te \<notin> te_id ` C)"

lemma keeps_entry_update:
  "i \<notin> te_id ` C \<Longrightarrow> (\<And>r. te_id (f r) = te_id r) \<Longrightarrow> moves (merges C) (update_entry i p Q f)"
  by (intro merges_reviews_same spares_update unchanged_update_entry) auto

lemma keeps_dismiss_linked:
  "(\<And>te. te \<in> set linked \<Longrightarrow> te_attestation te = ''draft'' \<Longrightarrow> te_id te \<notin> te_id ` C) \<Longrightarrow>
     moves (merges C) (dismissLinkedDrafts linked)"
  unfolding dismissLinkedDrafts_def q_UpdateTimeEntryAttestation_def
  by (intro merges.frame_rules moves_scan_one keeps_entry_update) auto

lemma keeps_refresh:
  "te_id draft \<notin> te_id ` C \<Longrightarrow> moves (merges C) (refreshDraftFromEvent tz draft ev inc p)"
  unfolding refreshDraftFromEvent_def Let_def q_UpdateTimeEntryCalendarDraft_def
  by (intro merges.frame_rules moves_scan_one keeps_entry_update) auto

lemma keeps_revision:
  "i \<notin> te_id ` C \<Longrightarrow> moves (merges C) (q_UpdateTimeEntrySourceRevision v i p)"
  unfolding q_UpdateTimeEntrySourceRevision_def
  by (intro merges.frame_rules keeps_entry_update) auto

lemma linked_of: "te \<in> set (linkedCalendarEntries entries identity) \<Longrightarrow> te \<in> set entries"
  by (simp add: linkedCalendarEntries_def)

lemma partition_linked:
  assumes "partitionLinked linked = (ds, c, x)"
  shows "set ds = {te \<in> set linked. te_attestation te = ''draft''}" "x \<Longrightarrow> te \<in> set linked \<Longrightarrow> te_attestation te = ''dismissed''"
    "c \<longleftrightarrow> (\<exists>te \<in> set linked. te_attestation te = ''confirmed'')"
  using assms by (auto simp: partitionLinked_def list_all_iff list_ex_iff)

lemma keeps_create_draft:
  assumes "clear_of C entries"
  shows "ensures (holds_rows C) (createDraftFromEvent tz p inc ev identity entries)
    (\<lambda>entries' d. holds_rows C d \<and> clear_of C entries')"
  unfolding createDraftFromEvent_def Let_def
proof (intro ensures_bind_reads ensures_bind_gets)
  fix day cat
  let ?row = "\<lparr>te_id = 0, te_period = p, te_start = format_rfc3339 (the (ie_start inc)), te_end = format_rfc3339 (the (ie_end inc)),
          te_duration = durationMinutes (the (ie_start inc)) (the (ie_end inc)), te_day = day, te_category = cat,
          te_description = ie_title inc, te_attestation = ''draft'', te_source_kind = Some SourceKindCalendarEvent,
          te_source_id = Some identity, te_source_revision = Some (ev_hash ev), te_method = Some MethodCalendarImport,
          te_work_type = ''worked'', te_project = None, te_billable = ''unset''\<rparr>"
  have "holds_rows C t \<and> clear_of C (entries @ [row])"
    if d: "holds_rows C d" and run: "q_CreateTimeEntry ?row d = (Inr row, t)" for d row t
  proof
    have "moves (merges C) (q_CreateTimeEntry ?row)"
      by (intro merges_reviews_same spares_create unchanged_create_entry) simp
    then show "holds_rows C t" using d run by (rule ensuresD [OF ensures_merges])
    have "te_id row \<notin> te_id ` C"
      using d run by (fastforce simp: q_CreateTimeEntry_def entries.insert_Inr holds_rows_def ids_ok_def ledger_def)
    then show "clear_of C (entries @ [row])" using assms by (auto simp: clear_of_def)
  qed
  then show "ensures (holds_rows C)
      (act_bind (q_CreateTimeEntry ?row) (\<lambda>row. act_ret (entries @ [row]))) (\<lambda>entries' d. holds_rows C d \<and> clear_of C entries')"
    by (auto simp: ensures_def act_bind_eq_Inr_iff)
qed

lemma keeps_materialize:
  assumes "clear_of C entries"
  shows "ensures (holds_rows C) (materializeDraftForEvent tz p inc ev entries material)
    (\<lambda>entries' d. holds_rows C d \<and> clear_of C entries')"
proof -
  let ?linked = "linkedCalendarEntries entries (eventIdentityFromIncoming inc)"
  have clear: "te_id te \<notin> te_id ` C" if "te \<in> set ?linked" "te_attestation te \<noteq> ''confirmed''" for te
    using assms linked_of [OF that(1)] that(2) by (auto simp: clear_of_def)
  have same: "ensures (holds_rows C) (act_seq m (act_ret entries)) (\<lambda>entries' d. holds_rows C d \<and> clear_of C entries')"
    if "moves (merges C) m" for m :: "(db, 'b) act"
    by (rule ensures_seq [OF ensures_merges [OF that]], rule ensures_ret) (simp add: assms)
  have drafts: "moves (merges C) (dismissLinkedDrafts ?linked)"
    by (rule keeps_dismiss_linked) (use clear in auto)
  have refresh: "moves (merges C) (for_each (\<lambda>te. refreshDraftFromEvent tz te ev inc p) ds)"
    if "partitionLinked ?linked = (ds, c, x)" for ds c x
    using clear partition_linked [OF that] by (intro merges.moves_for_each keeps_refresh) auto
  have bump: "moves (merges C) (for_each (\<lambda>te. q_UpdateTimeEntrySourceRevision (Some (ev_hash ev)) (te_id te) (te_period te)) ?linked)"
    if "partitionLinked ?linked = (ds, c, x)" "x \<and> \<not> material" for ds c x
    using clear partition_linked [OF that(1)] that(2) by (intro merges.moves_for_each keeps_revision) auto
  have ret: "ensures (holds_rows C) (act_ret entries) (\<lambda>entries' d. holds_rows C d \<and> clear_of C entries')"
    by (rule ensures_ret) (simp add: assms)
  show ?thesis
    unfolding materializeDraftForEvent_def Let_def
    by (intro ensures_if ret ensures_bind_gets same drafts ensures_prod keeps_create_draft [OF assms])
      (blast intro: refresh bump)+
qed


lemma keeps_merge_event:
  assumes C: "\<forall>r \<in> C. te_attestation r = ''confirmed''"
  shows "ensures (\<lambda>d. holds_rows C d \<and> clear_of C (fst acc)) (merge_event ex p base inc acc)
    (\<lambda>acc' d. holds_rows C d \<and> clear_of C (fst acc'))"
proof (cases "clear_of C (fst acc)")
  case False
  then show ?thesis by (simp add: ensures_def)
next
  case True
  obtain entries res where acc: "acc = (entries, res)" by (cases acc)
  have mat: "ensures (holds_rows C) (act_bind (materializeDraftForEvent (ex_tz ex) p inc ev entries m) (\<lambda>entries'. act_ret (entries', g)))
    (\<lambda>acc' d. holds_rows C d \<and> clear_of C (fst acc'))" for ev m and g :: sync_result
    using True by (intro ensures_bind [OF keeps_materialize] ensures_ret) (simp_all add: acc)
  have "ensures (holds_rows C) (merge_event ex p base inc acc) (\<lambda>acc' d. holds_rows C d \<and> clear_of C (fst acc'))"
    unfolding merge_event_def acc prod.case Let_def
    by (intro ensures_option ensures_if mat ensures_bind [OF ensures_merges [OF keeps_upsert_event]]
        ensures_bind [OF keeps_handle_new [OF C]] ensures_bind [OF ensures_merges [OF keeps_handle_changed [OF C]]])
  then show ?thesis by (rule ensures_weaken) simp_all
qed

lemma keeps_vanish_event:
  assumes "\<forall>r \<in> C. te_attestation r = ''confirmed''"
  shows "moves (merges C) (vanish_event ex p entries seen e res)"
  unfolding vanish_event_def
  by (intro merges.frame_rules keeps_vanished assms keeps_vanished_source keeps_delete_event)

lemma sync_keeps:
  assumes run: "SyncEvents ex p incoming d = (Inr res, d')" and ids: "ids_ok te_id (db_entries d)" and none: "no_use_event d"
    and r: "r \<in> ledger d" "te_attestation r = ''confirmed''"
  shows "r \<in> ledger d'"
proof -
  let ?C = "{r \<in> ledger d. te_attestation r = ''confirmed''}"
  let ?base = "q_ListAllEventsForPeriod p d" and ?entries = "q_ListTimeEntriesForPeriod p d"
  have C: "\<forall>r \<in> ?C. te_attestation r = ''confirmed''" by simp
  have start: "holds_rows ?C d" using ids none by (auto simp: holds_rows_def)
  have clear: "clear_of ?C ?entries"
    using same_id [OF ids]
    by (auto simp: clear_of_def q_ListTimeEntriesForPeriod_def select_rows_def ledger_def)
  obtain entries' res1 d1 where merge: "fold_each (merge_event ex p ?base) incoming (?entries, no_changes) d = (Inr (entries', res1), d1)"
    and vanish: "fold_each (vanish_event ex p entries' (set (map incoming_key incoming))) ?base res1 d1 = (Inr res, d')"
    using run by (auto simp: SyncEvents_def act_bind_eq_Inr_iff)
  have "ensures (\<lambda>d. holds_rows ?C d \<and> clear_of ?C (fst (?entries, no_changes)))
      (fold_each (merge_event ex p ?base) incoming (?entries, no_changes)) (\<lambda>acc' d. holds_rows ?C d \<and> clear_of ?C (fst acc'))"
    by (rule ensures_fold_each [where I = "\<lambda>acc d. holds_rows ?C d \<and> clear_of ?C (fst acc)"]) (rule keeps_merge_event [OF C])
  then have "holds_rows ?C d1" using start clear merge by (auto dest: ensuresD)
  moreover have "merges ?C d1 d'"
    using vanish by (rule moves_result [OF merges.moves_fold_each [OF keeps_vanish_event [OF C]]])
  ultimately have "holds_rows ?C d'" by (rule merges_holds)
  then show ?thesis using r by (auto simp: holds_rows_def)
qed


section \<open>The events of a merge\<close>

definition event_key :: "event \<Rightarrow> int \<times> int \<times> string \<times> string" where
  "event_key e = (ev_period e, ev_calendar e, ev_external e, ev_instance e)"

definition pulled_key :: "int \<Rightarrow> incoming \<Rightarrow> int \<times> int \<times> string \<times> string" where
  "pulled_key p inc = (p, ie_calendar inc, ie_external inc, ie_instance inc)"

text \<open>The UNIQUE constraint of the event table.\<close>

definition events_wf :: "db \<Rightarrow> bool" where
  "events_wf d \<longleftrightarrow> ids_ok ev_id (db_events d) \<and> distinct (map event_key (tbl_rows (db_events d)))"

abbreviation event_rows :: "db \<Rightarrow> event set" where
  "event_rows d \<equiv> set (tbl_rows (db_events d))"

lemma upsert_params [simp]:
  "event_key (upsertParams sha p inc) = pulled_key p inc" "ev_active (upsertParams sha p inc)"
  by (simp_all add: upsertParams_def event_key_def pulled_key_def Let_def)

lemma distinct_map_change:
  "distinct (map k xs) \<Longrightarrow> (\<And>x. k (f x) = k x) \<Longrightarrow> distinct (map k (map f xs))"
  by (simp add: comp_def)

lemma upsert_event_Inr:
  assumes run: "q_UpsertEvent arg d = (Inr ev, d')" and wf: "events_wf d"
  shows "events_wf d' \<and> tbl_seq (db_events d) \<le> tbl_seq (db_events d') \<and> ev \<in> event_rows d' \<and>
    event_key ev = event_key arg \<and> ev_hash ev = ev_hash arg \<and>
    (\<forall>r. event_key r \<noteq> event_key arg \<longrightarrow> (r \<in> event_rows d' \<longleftrightarrow> r \<in> event_rows d)) \<and>
    ((\<exists>r \<in> event_rows d. ev_id r = ev_id ev \<and> event_key r = event_key arg) \<or> tbl_seq (db_events d) < ev_id ev)"
proof -
  let ?rows = "tbl_rows (db_events d)"
  let ?same = "\<lambda>r. event_key r = event_key arg"
  let ?upd = "\<lambda>r. arg\<lparr>ev_id := ev_id r, ev_active := ev_active r\<rparr>"
  have same: "(\<lambda>r. ev_period r = ev_period arg \<and> ev_calendar r = ev_calendar arg \<and>
        ev_external r = ev_external arg \<and> ev_instance r = ev_instance arg) = ?same"
    by (simp add: event_key_def fun_eq_iff)
  have keys: "event_key (?upd r) = event_key arg" "event_key (arg\<lparr>ev_id := i, ev_active := b\<rparr>) = event_key arg"
    "ev_hash (?upd r) = ev_hash arg" for r i b
    by (simp_all add: event_key_def)
  show ?thesis
  proof (cases "list_ex ?same ?rows")
    case True
    then obtain rs where up: "update_where db_events put_events ev_ok ?same ?upd d = (Inr (ev # rs), d')"
      using run by (auto simp: q_UpsertEvent_def upsert_into_def same scan_one_Inr)
    note rows = events.update_rows [OF up]
    have ids: "ids_ok ev_id (db_events d')"
      using wf by (intro events.update_keeps_ids [OF up]) (simp_all add: events_wf_def)
    have "map event_key (tbl_rows (db_events d')) = map event_key ?rows"
      using rows by (simp add: keys(1))
    then have wf': "events_wf d'" using wf ids by (simp add: events_wf_def)
    have "ev \<in> set (map ?upd (filter ?same ?rows))" using rows by (metis list.set_intros(1))
    then obtain r where r: "r \<in> set ?rows" "?same r" "ev = ?upd r" by auto
    then have "ev \<in> event_rows d'" using rows by (auto simp: image_iff intro!: bexI [of _ r])
    moreover have "x \<in> event_rows d' \<longleftrightarrow> x \<in> set ?rows" if "\<not> ?same x" for x
      using rows that keys(1) by (auto simp: image_iff)
    ultimately show ?thesis using wf' rows r keys by auto
  next
    case False
    then have ins: "insert_into db_events put_events ev_ok (\<lambda>i. arg\<lparr>ev_id := i, ev_active := True\<rparr>) d = (Inr ev, d')"
      using run by (simp add: q_UpsertEvent_def upsert_into_def same)
    note rows = events.insert_rows [OF ins]
    have ev: "ev = arg\<lparr>ev_id := tbl_seq (db_events d) + 1, ev_active := True\<rparr>" using ins by (simp add: events.insert_Inr)
    have ids: "ids_ok ev_id (db_events d')"
      using wf by (intro events.insert_keeps_ids [OF ins]) (simp_all add: events_wf_def)
    have "event_key r \<noteq> event_key ev" if "r \<in> set ?rows" for r
      using False that by (auto simp: ev keys list_ex_iff)
    then have "event_key ev \<notin> event_key ` set ?rows" by (metis imageE)
    then have "events_wf d'" using wf ids rows by (simp add: events_wf_def)
    moreover have "tbl_seq (db_events d') = tbl_seq (db_events d) + 1" using ins by (simp add: events.insert_Inr)
    ultimately show ?thesis using rows ev keys(2) by auto
  qed
qed

text \<open>
  The merge so far: \<open>base\<close> are the events at its start, \<open>done\<close> the part of the pull that was merged.
\<close>

definition merged :: "(string \<Rightarrow> string) \<Rightarrow> int \<Rightarrow> event set \<Rightarrow> int \<Rightarrow> incoming list \<Rightarrow> db \<Rightarrow> bool" where
  "merged sha p old n pulled d \<longleftrightarrow> events_wf d \<and> n \<le> tbl_seq (db_events d) \<and> (\<forall>e \<in> old. ev_id e \<le> n) \<and>
     (\<forall>r \<in> event_rows d. \<forall>e \<in> old. ev_id r = ev_id e \<longrightarrow> event_key r = event_key e) \<and>
     (\<forall>r. event_key r \<notin> pulled_key p ` set pulled \<longrightarrow> (r \<in> event_rows d \<longleftrightarrow> r \<in> old)) \<and>
     (\<forall>inc \<in> set pulled. \<exists>r \<in> event_rows d. event_key r = pulled_key p inc \<and> ev_hash r = ev_hash (upsertParams sha p inc))"

lemma mergedD:
  assumes "merged sha p old n pulled d"
  shows "events_wf d" "n \<le> tbl_seq (db_events d)" "e \<in> old \<Longrightarrow> ev_id e \<le> n"
    "r \<in> event_rows d \<Longrightarrow> e \<in> old \<Longrightarrow> ev_id r = ev_id e \<Longrightarrow> event_key r = event_key e"
    "event_key r \<notin> pulled_key p ` set pulled \<Longrightarrow> r \<in> event_rows d \<longleftrightarrow> r \<in> old"
    "inc \<in> set pulled \<Longrightarrow> \<exists>r \<in> event_rows d. event_key r = pulled_key p inc \<and> ev_hash r = ev_hash (upsertParams sha p inc)"
  using assms unfolding merged_def by blast+

lemma merged_start: "events_wf d \<Longrightarrow> merged sha p (event_rows d) (tbl_seq (db_events d)) [] d"
  by (auto simp: merged_def events_wf_def ids_ok_def distinct_map inj_on_def)

lemma merged_upsert:
  assumes m: "merged sha p old n pulled d" and run: "q_UpsertEvent (upsertParams sha p inc) d = (Inr ev, d')"
    and fresh: "pulled_key p inc \<notin> pulled_key p ` set pulled"
  shows "merged sha p old n (pulled @ [inc]) d'"
proof -
  note up = upsert_event_Inr [OF run mergedD(1) [OF m], simplified]
  have other: "r \<in> event_rows d' \<longleftrightarrow> r \<in> event_rows d" if "event_key r \<noteq> pulled_key p inc" for r
    using up that by simp
  have unique: "r = ev" if "r \<in> event_rows d'" "event_key r = pulled_key p inc" for r
    using that up by (auto simp: events_wf_def distinct_map inj_on_def)
  have ids: "event_key r = event_key e" if r: "r \<in> event_rows d'" "e \<in> old" "ev_id r = ev_id e" for r e
  proof (cases "event_key r = pulled_key p inc")
    case False
    then show ?thesis using r mergedD(4) [OF m] other by simp
  next
    case True
    then have ev: "r = ev" by (rule unique [OF r(1)])
    have "ev_id e \<le> tbl_seq (db_events d)" using mergedD(2,3) [OF m] r(2) by force
    then have "\<exists>x \<in> event_rows d. ev_id x = ev_id ev \<and> event_key x = pulled_key p inc" using up r(3) ev by auto
    then obtain x where "x \<in> event_rows d" "ev_id x = ev_id e" "event_key x = pulled_key p inc" using r(3) ev by auto
    then show ?thesis using mergedD(4) [OF m, of x e] r(2) True by simp
  qed
  have new: "\<exists>r \<in> event_rows d'. event_key r = pulled_key p x \<and> ev_hash r = ev_hash (upsertParams sha p x)"
    if x: "x \<in> set (pulled @ [inc])" for x
  proof (cases "x \<in> set pulled")
    case True
    then obtain r where "r \<in> event_rows d" "event_key r = pulled_key p x" "ev_hash r = ev_hash (upsertParams sha p x)"
      using mergedD(6) [OF m] by blast
    moreover have "pulled_key p x \<noteq> pulled_key p inc" using fresh True by (metis image_eqI)
    ultimately show ?thesis using other [of r] by (intro bexI [of _ r]) simp_all
  next
    case False
    then show ?thesis using x up by (intro bexI [of _ ev]) simp_all
  qed
  have rest: "r \<in> event_rows d' \<longleftrightarrow> r \<in> old" if "event_key r \<notin> pulled_key p ` set (pulled @ [inc])" for r
    using that other [of r] mergedD(5) [OF m, of r] by simp
  have "n \<le> tbl_seq (db_events d')" using up mergedD(2) [OF m] by simp
  then show ?thesis
    unfolding merged_def using up mergedD(3) [OF m] ids new rest by blast
qed

lemma merged_same:
  assumes m: "merged sha p old n pulled d" and e: "e \<in> old" "event_key e = pulled_key p inc"
    and "ev_hash e = ev_hash (upsertParams sha p inc)" "pulled_key p inc \<notin> pulled_key p ` set pulled"
  shows "merged sha p old n (pulled @ [inc]) d"
proof -
  have "e \<in> event_rows d" using mergedD(5) [OF m, of e] assms by simp
  then have "\<exists>r \<in> event_rows d. event_key r = pulled_key p x \<and> ev_hash r = ev_hash (upsertParams sha p x)"
    if "x \<in> set (pulled @ [inc])" for x
    using that mergedD(6) [OF m] assms by auto
  moreover have "r \<in> event_rows d \<longleftrightarrow> r \<in> old" if "event_key r \<notin> pulled_key p ` set (pulled @ [inc])" for r
    using that mergedD(5) [OF m, of r] by simp
  ultimately show ?thesis
    unfolding merged_def using mergedD(1-4) [OF m] by blast
qed

lemma merged_events:
  assumes "merged sha p old n pulled d" and "db_events d' = db_events d"
  shows "merged sha p old n pulled d'"
  using assms(1) unfolding merged_def events_wf_def assms(2) .


section \<open>Keys as texts\<close>

lemma bar_split: "c \<notin> set a \<Longrightarrow> c \<notin> set a' \<Longrightarrow> a @ c # b = a' @ c # b' \<Longrightarrow> a = a' \<and> b = b'"
proof (induction a arbitrary: a')
  case Nil
  then show ?case by (cases a') auto
next
  case (Cons x a)
  then show ?case by (cases a') auto
qed

lemma show_nat_digit: "c \<in> set (show_nat n) \<Longrightarrow> is_digit c"
  using show_nat_all_digits [of n] by (auto simp: list_all_iff)

lemma show_int_no_bar: "CHR ''|'' \<notin> set (show_int i)"
  by (auto simp: show_int_def is_digit_def dest: show_nat_digit)

text \<open>Where external ids have no bar, an event key names a calendar, an event and an instance.\<close>

lemma event_key_inject:
  "CHR ''|'' \<notin> set x \<Longrightarrow> CHR ''|'' \<notin> set x' \<Longrightarrow> eventKey c x i = eventKey c' x' i' \<Longrightarrow> c = c' \<and> x = x' \<and> i = i'"
proof -
  assume x: "CHR ''|'' \<notin> set x" "CHR ''|'' \<notin> set x'" and "eventKey c x i = eventKey c' x' i'"
  then have "show_int c @ CHR ''|'' # (x @ CHR ''|'' # i) = show_int c' @ CHR ''|'' # (x' @ CHR ''|'' # i')"
    by (simp add: eventKey_def)
  then have "show_int c = show_int c' \<and> x @ CHR ''|'' # i = x' @ CHR ''|'' # i'"
    by (rule bar_split [OF show_int_no_bar show_int_no_bar])
  moreover from this have "x = x' \<and> i = i'" by (intro bar_split [OF x]) (rule conjunct2)
  ultimately show "c = c' \<and> x = x' \<and> i = i'" using show_int_inject by blast
qed


section \<open>Merging the pull\<close>

lemma ensures_fold_prefix:
  assumes "\<And>pre x acc. x \<in> set xs \<Longrightarrow> x \<notin> set pre \<Longrightarrow> \<exists>suf. xs = pre @ x # suf \<Longrightarrow> ensures (I pre acc) (f x acc) (I (pre @ [x]))"
    and "distinct xs"
  shows "ensures (I [] acc) (fold_each f xs acc) (I xs)"
proof -
  have all: "ensures (I pre acc) (fold_each f suf acc) (I xs)" if "xs = pre @ suf" for pre suf acc
    using that
  proof (induction suf arbitrary: pre acc)
    case Nil
    then show ?case unfolding fold_each.simps by (intro ensures_ret) simp
  next
    case (Cons x suf)
    have "ensures (I pre acc) (f x acc) (I (pre @ [x]))"
      using Cons.prems assms(2) by (intro assms(1)) auto
    moreover have "ensures (I (pre @ [x]) acc') (fold_each f suf acc') (I xs)" for acc'
      using Cons.prems by (intro Cons.IH) simp
    ultimately show ?case unfolding fold_each.simps by (rule ensures_bind)
  qed
  show ?thesis by (rule all) simp
qed

lemma base_listed: "set (q_ListAllEventsForPeriod p d) = {e \<in> event_rows d. ev_period e = p}"
  by (auto simp: q_ListAllEventsForPeriod_def select_rows_def)

lemma base_found:
  assumes "base_by_key base k = Some old"
  shows "old \<in> set base" "eventKey (ev_calendar old) (ev_external old) (ev_instance old) = k"
  using assms by (auto simp: base_by_key_def dest!: find_SomeD)

text \<open>External ids that the keys of a period can tell apart.\<close>

definition plain_ids :: "event set \<Rightarrow> incoming list \<Rightarrow> bool" where
  "plain_ids old incoming \<longleftrightarrow> (\<forall>e \<in> old. CHR ''|'' \<notin> set (ev_external e)) \<and>
     (\<forall>inc \<in> set incoming. CHR ''|'' \<notin> set (ie_external inc))"

lemma found_key:
  assumes "base_by_key (q_ListAllEventsForPeriod p d) (incoming_key inc) = Some old"
    and "plain_ids (event_rows d) incoming" "inc \<in> set incoming"
  shows "old \<in> event_rows d \<and> event_key old = pulled_key p inc"
proof -
  have old: "old \<in> event_rows d" "ev_period old = p" using base_found(1) [OF assms(1)] by (auto simp: base_listed)
  have "ev_calendar old = ie_calendar inc \<and> ev_external old = ie_external inc \<and> ev_instance old = ie_instance inc"
    using base_found(2) [OF assms(1)] assms(2,3) old
    by (intro event_key_inject) (auto simp: plain_ids_def incoming_key_def)
  then show ?thesis using old by (simp add: event_key_def pulled_key_def)
qed

definition merged_count :: "sync_result \<Rightarrow> int" where
  "merged_count r = sr_added r + sr_updated r + sr_unchanged r"

definition merge_state ::
    "(string \<Rightarrow> string) \<Rightarrow> int \<Rightarrow> event set \<Rightarrow> int \<Rightarrow> time_entry list \<Rightarrow> incoming list \<Rightarrow>
       time_entry list \<times> sync_result \<Rightarrow> db \<Rightarrow> bool" where
  "merge_state sha p old n listed pulled acc d \<longleftrightarrow>
     merged sha p old n pulled d \<and> set listed \<subseteq> set (fst acc) \<and> merged_count (snd acc) = int (length pulled)"

lemma ensures_any: "ensures P m (\<lambda>_ _. True)"
  by (simp add: ensures_def)

lemma create_lists:
  "ensures P (createDraftFromEvent tz p inc ev identity entries) (\<lambda>entries' _. set entries \<subseteq> set entries')"
  unfolding createDraftFromEvent_def Let_def
  by (intro ensures_bind_gets ensures_bind_reads ensures_bind [OF ensures_any] ensures_ret) auto

lemma materialize_lists:
  "ensures P (materializeDraftForEvent tz p inc ev entries material) (\<lambda>entries' _. set entries \<subseteq> set entries')"
  unfolding materializeDraftForEvent_def Let_def
  by (intro ensures_if ensures_bind_gets ensures_prod create_lists ensures_seq [OF ensures_any] ensures_ret subset_refl)

lemma ensures_both: "ensures P m Q \<Longrightarrow> ensures P m Q' \<Longrightarrow> ensures P m (\<lambda>x s. Q x s \<and> Q' x s)"
  by (auto simp: ensures_def)

lemma materialize_state:
  assumes "set listed \<subseteq> set entries"
  shows "ensures (merged sha p old n pulled) (materializeDraftForEvent tz p inc ev entries material)
    (\<lambda>entries' d. merged sha p old n pulled d \<and> set listed \<subseteq> set entries')"
proof (rule ensures_weaken [where P = "merged sha p old n pulled" and Q = "\<lambda>entries' d. merged sha p old n pulled d \<and> set entries \<subseteq> set entries'"])
  have "ensures (merged sha p old n pulled) (materializeDraftForEvent tz p inc ev entries material)
      (\<lambda>_. merged sha p old n pulled)"
    by (rule ensures_moves [OF aside_materialize [OF aside_events]]) (rule merged_events)
  then show "ensures (merged sha p old n pulled) (materializeDraftForEvent tz p inc ev entries material)
      (\<lambda>entries' d. merged sha p old n pulled d \<and> set entries \<subseteq> set entries')"
    by (rule ensures_both [OF _ materialize_lists])
  show "merged sha p old n pulled d \<and> set listed \<subseteq> set es" if "merged sha p old n pulled d \<and> set entries \<subseteq> set es" for es d
    using that assms by blast
qed

lemma merge_event_state:
  assumes base: "base = q_ListAllEventsForPeriod p d0" "old = event_rows d0"
    and plain: "plain_ids old incoming" "inc \<in> set incoming"
    and fresh: "pulled_key p inc \<notin> pulled_key p ` set pulled"
  shows "ensures (merge_state (ex_sha ex) p old n listed pulled acc) (merge_event ex p base inc acc)
    (merge_state (ex_sha ex) p old n listed (pulled @ [inc]))"
proof (cases "set listed \<subseteq> set (fst acc) \<and> merged_count (snd acc) = int (length pulled)")
  case False
  then show ?thesis by (auto simp: ensures_def merge_state_def)
next
  case True
  obtain entries res where acc: "acc = (entries, res)" by (cases acc)
  let ?M = "merged (ex_sha ex) p old n"
  have listed: "set listed \<subseteq> set entries" and count: "merged_count res = int (length pulled)" using True by (simp_all add: acc)
  have mat: "ensures (?M (pulled @ [inc])) (act_bind (materializeDraftForEvent (ex_tz ex) p inc ev entries m)
      (\<lambda>entries'. act_ret (entries', g))) (merge_state (ex_sha ex) p old n listed (pulled @ [inc]))"
    if "merged_count g = merged_count res + 1" for ev m and g :: sync_result
    using that count
    by (intro ensures_bind [OF materialize_state [OF listed]] ensures_ret) (simp add: merge_state_def)
  have upsert: "ensures (?M pulled) (q_UpsertEvent (upsertParams (ex_sha ex) p inc)) (\<lambda>_. ?M (pulled @ [inc]))"
    using merged_upsert [OF _ _ fresh] by (auto simp: ensures_def)
  have new: "ensures (?M (pulled @ [inc])) (handleNewEvent ex p inc e entries) (\<lambda>_. ?M (pulled @ [inc]))" for e
    by (rule ensures_moves [OF aside_handle_new [OF aside_events]]) (rule merged_events)
  have changed: "ensures (?M (pulled @ [inc])) (handleChangedEvent ex p e o' inc entries h) (\<lambda>_. ?M (pulled @ [inc]))" for e o' h
    by (rule ensures_moves [OF aside_handle_changed [OF aside_events]]) (rule merged_events)
  have same: "?M pulled d \<Longrightarrow> ?M (pulled @ [inc]) d"
    if "base_by_key base (incoming_key inc) = Some e" "ev_hash e = ev_hash (upsertParams (ex_sha ex) p inc)" for e d
    using found_key [OF that(1) [unfolded base(1)] plain [unfolded base(2)]] base(2) that(2) fresh
    by (intro merged_same [where e = e]) simp_all
  have "ensures (?M pulled) (merge_event ex p base inc acc) (merge_state (ex_sha ex) p old n listed (pulled @ [inc]))"
  proof (cases "base_by_key base (incoming_key inc)")
    case None
    then show ?thesis
      unfolding merge_event_def acc prod.case Let_def option.case None
      by (intro ensures_bind [OF upsert] ensures_bind [OF new] mat) (simp add: merged_count_def)
  next
    case (Some e)
    show ?thesis
    proof (cases "ev_hash e = ev_hash (upsertParams (ex_sha ex) p inc)")
      case True
      show ?thesis
        unfolding merge_event_def acc prod.case Let_def option.case Some if_P [OF True]
        by (rule ensures_weaken [OF mat same [OF Some True]]) (simp_all add: merged_count_def)
    next
      case False
      show ?thesis
        unfolding merge_event_def acc prod.case Let_def option.case Some if_not_P [OF False]
        by (intro ensures_bind [OF upsert] ensures_bind [OF changed] mat) (simp add: merged_count_def)
    qed
  qed
  then show ?thesis by (rule ensures_weaken) (simp_all add: merge_state_def)
qed


section \<open>Events that vanished\<close>

text \<open>Only events with ids in \<open>D\<close> are deleted, and nothing else happens to the events.\<close>

definition drops :: "int set \<Rightarrow> db \<Rightarrow> db \<Rightarrow> bool" where
  "drops D d d' \<longleftrightarrow> (\<exists>I \<subseteq> D. tbl_rows (db_events d') = filter (\<lambda>e. ev_id e \<notin> I) (tbl_rows (db_events d))) \<and>
     tbl_seq (db_events d') = tbl_seq (db_events d)"

lemma drops_trans: "drops D d e \<Longrightarrow> drops D e f \<Longrightarrow> drops D d f"
  unfolding drops_def
proof (elim conjE exE, intro conjI)
  fix I J
  assume "I \<subseteq> D" "J \<subseteq> D" "tbl_rows (db_events e) = filter (\<lambda>x. ev_id x \<notin> I) (tbl_rows (db_events d))"
    "tbl_rows (db_events f) = filter (\<lambda>x. ev_id x \<notin> J) (tbl_rows (db_events e))"
  then show "\<exists>I \<subseteq> D. tbl_rows (db_events f) = filter (\<lambda>e. ev_id e \<notin> I) (tbl_rows (db_events d))"
    by (intro exI [of _ "I \<union> J"]) (auto intro!: filter_cong)
qed auto

interpretation drops: frame_relation "drops D" for D
proof unfold_locales
  show "drops D d d" for d unfolding drops_def by (auto intro!: exI [of _ "{}"])
qed (rule drops_trans)

lemma drops_same: "moves (unchanged db_events) m \<Longrightarrow> moves (drops D) m"
  unfolding moves_def drops_def by (auto intro!: exI [of _ "{}"])

lemma drops_delete: "i \<in> D \<Longrightarrow> moves (drops D) (q_DeleteEvent i)"
  unfolding moves_def drops_def
  by (auto simp: q_DeleteEvent_def act_seq_def act_bind_def delete_where_def Let_def intro!: exI [of _ "{i}"])

lemma drops_bind:
  assumes "moves (drops D) m" "\<And>s x t. m s = (Inr x, t) \<Longrightarrow> moves (drops D) (k x)"
  shows "moves (drops D) (act_bind m k)"
  unfolding moves_def
proof
  fix s
  obtain r t where m: "m s = (r, t)" by (cases "m s")
  have "drops D s t" by (rule moves_result [OF assms(1) m])
  then show "drops D s (snd (act_bind m k s))"
    using m assms(2) [of s _ t] by (cases r) (auto simp: act_bind_def dest: movesD intro: drops_trans)
qed

lemma vanish_drops:
  assumes "eventKey (ev_calendar e) (ev_external e) (ev_instance e) \<notin> seen \<Longrightarrow>
    confirmed_from (eventIdentityFromRow e) entries = [] \<Longrightarrow> ev_id e \<in> D"
  shows "moves (drops D) (vanish_event ex p entries seen e res)"
proof (cases "confirmed_from (eventIdentityFromRow e) entries = []")
  case True
  then show ?thesis
    unfolding vanish_event_def
    by (intro drops.frame_rules drops_same [OF aside_vanished] drops_same [OF aside_vanished_source] drops_delete assms aside_events)
next
  case False
  let ?k = "\<lambda>(flagged, kept). if kept then act_ret (res\<lparr>sr_flagged := sr_flagged res + flagged\<rparr>)
      else act_seq (q_DeleteEvent (ev_id e)) (act_ret (res\<lparr>sr_removed := sr_removed res + 1\<rparr>))"
  have "moves (drops D) (?k x)" if run: "OnVanishedConfirmedSource p e entries s = (Inr x, t)" for s x t
  proof -
    have "snd x" using run False
      by (auto simp: OnVanishedConfirmedSource_def Let_def act_bind_eq_Inr_iff)
    then show ?thesis by (cases x) (auto intro: drops.moves_ret)
  qed
  then have "moves (drops D) (act_bind (OnVanishedConfirmedSource p e entries) ?k)"
    by (rule drops_bind [OF drops_same [OF aside_vanished_source [OF aside_events]]])
  then have kept: "moves (drops D) (act_bind (OnVanishedConfirmedSource p e entries) (\<lambda>(flagged, kept).
      if kept then act_ret (res\<lparr>sr_flagged := sr_flagged res + flagged\<rparr>)
      else act_seq (q_DeleteEvent (ev_id e)) (act_ret (res\<lparr>sr_removed := sr_removed res + 1\<rparr>))))" .
  have "moves (drops D) (act_bind (OnVanishedCategorized (ex_tz ex) p e) (\<lambda>(flagged, removed).
      act_ret (res\<lparr>sr_flagged := sr_flagged res + of_bool flagged, sr_removed := sr_removed res + of_bool removed\<rparr>)))"
    by (intro drops.frame_rules drops_same [OF aside_vanished] aside_events)
  then show ?thesis
    unfolding vanish_event_def
    using kept by (intro drops.moves_if drops.moves_ret drops.moves_bind [OF drops.moves_gets] allI)
qed


section \<open>A whole sync\<close>

definition merged_parts :: "sync_result \<Rightarrow> int \<times> int \<times> int" where
  "merged_parts r = (sr_added r, sr_updated r, sr_unchanged r)"

lemma merged_count_parts: "merged_parts r = merged_parts r' \<Longrightarrow> merged_count r = merged_count r'"
  by (simp add: merged_parts_def merged_count_def)

lemma vanish_parts:
  "ensures (\<lambda>_. merged_parts res = n) (vanish_event ex p entries seen e res) (\<lambda>res' _. merged_parts res' = n)"
proof (cases "merged_parts res = n")
  case False
  then show ?thesis by (simp add: ensures_def)
next
  case True
  then have parts: "n = (sr_added res, sr_updated res, sr_unchanged res)" by (simp add: merged_parts_def)
  show ?thesis
    unfolding vanish_event_def
    by (intro ensures_if ensures_bind_gets ensures_bind [OF ensures_any] ensures_seq [OF ensures_any] ensures_prod ensures_ret)
      (simp_all add: merged_parts_def parts)
qed

lemma pulled_keys:
  "plain_ids old incoming \<Longrightarrow> e \<in> old \<Longrightarrow> ev_period e = p \<Longrightarrow>
    eventKey (ev_calendar e) (ev_external e) (ev_instance e) \<in> set (map incoming_key incoming) \<longleftrightarrow>
    event_key e \<in> pulled_key p ` set incoming"
  by (auto simp: plain_ids_def incoming_key_def event_key_def pulled_key_def image_iff dest: event_key_inject)

lemma sync_phases:
  assumes "SyncEvents ex p incoming d = (Inr res, d')"
  obtains entries' res1 d1 where
    "fold_each (merge_event ex p (q_ListAllEventsForPeriod p d)) incoming (q_ListTimeEntriesForPeriod p d, no_changes) d
      = (Inr (entries', res1), d1)"
    "fold_each (vanish_event ex p entries' (set (map incoming_key incoming))) (q_ListAllEventsForPeriod p d) res1 d1 = (Inr res, d')"
  using assms by (auto simp: SyncEvents_def act_bind_eq_Inr_iff)

lemma merge_phase:
  assumes run: "fold_each (merge_event ex p (q_ListAllEventsForPeriod p d)) incoming (q_ListTimeEntriesForPeriod p d, no_changes) d
      = (Inr (entries', res1), d1)"
    and "events_wf d" "plain_ids (event_rows d) incoming" "distinct (map (pulled_key p) incoming)"
  shows "merge_state (ex_sha ex) p (event_rows d) (tbl_seq (db_events d)) (q_ListTimeEntriesForPeriod p d) incoming
    (entries', res1) d1"
proof -
  let ?I = "merge_state (ex_sha ex) p (event_rows d) (tbl_seq (db_events d)) (q_ListTimeEntriesForPeriod p d)"
  have "ensures (?I [] (q_ListTimeEntriesForPeriod p d, no_changes))
    (fold_each (merge_event ex p (q_ListAllEventsForPeriod p d)) incoming (q_ListTimeEntriesForPeriod p d, no_changes))
    (?I incoming)"
  proof (rule ensures_fold_prefix)
    fix pre inc acc
    assume inc: "inc \<in> set incoming" and "\<exists>suf. incoming = pre @ inc # suf"
    then have "pulled_key p inc \<notin> pulled_key p ` set pre" using assms(4) by auto
    then show "ensures (?I pre acc) (merge_event ex p (q_ListAllEventsForPeriod p d) inc acc) (?I (pre @ [inc]))"
      by (rule merge_event_state [OF refl refl assms(3) inc])
  qed (use assms(4) in \<open>simp add: distinct_map\<close>)
  moreover have "?I [] (q_ListTimeEntriesForPeriod p d, no_changes) d"
    using merged_start [OF assms(2)] by (simp add: merge_state_def merged_count_def no_changes_def)
  ultimately show ?thesis using run by (rule ensuresD)
qed

definition vanishing :: "int \<Rightarrow> incoming list \<Rightarrow> db \<Rightarrow> event set" where
  "vanishing p incoming d = {e \<in> event_rows d. ev_period e = p \<and> event_key e \<notin> pulled_key p ` set incoming \<and>
     confirmed_from (eventIdentityFromRow e) (q_ListTimeEntriesForPeriod p d) = []}"

lemma confirmed_from_subset: "confirmed_from i es' = [] \<Longrightarrow> set es \<subseteq> set es' \<Longrightarrow> confirmed_from i es = []"
  by (auto simp: confirmed_from_def linkedCalendarEntries_def filter_empty_conv)

lemma vanish_phase:
  assumes run: "fold_each (vanish_event ex p entries' (set (map incoming_key incoming))) (q_ListAllEventsForPeriod p d) res1 d1
      = (Inr res, d')"
    and plain: "plain_ids (event_rows d) incoming" and listed: "set (q_ListTimeEntriesForPeriod p d) \<subseteq> set entries'"
  shows "drops (ev_id ` vanishing p incoming d) d1 d' \<and> merged_parts res = merged_parts res1"
proof
  show "drops (ev_id ` vanishing p incoming d) d1 d'"
  proof (rule moves_result [OF drops.moves_fold_each run])
    fix e acc
    assume "e \<in> set (q_ListAllEventsForPeriod p d)"
    then have e: "e \<in> event_rows d" "ev_period e = p" by (auto simp: base_listed)
    show "moves (drops (ev_id ` vanishing p incoming d)) (vanish_event ex p entries' (set (map incoming_key incoming)) e acc)"
      using pulled_keys [OF plain e] e confirmed_from_subset [OF _ listed]
      by (intro vanish_drops imageI) (auto simp: vanishing_def)
  qed
  have "ensures (\<lambda>_. merged_parts res1 = merged_parts res1)
     (fold_each (vanish_event ex p entries' (set (map incoming_key incoming))) (q_ListAllEventsForPeriod p d) res1)
     (\<lambda>acc _. merged_parts acc = merged_parts res1)"
    by (rule ensures_fold_each [where I = "\<lambda>acc _. merged_parts acc = merged_parts res1"]) (rule vanish_parts)
  then show "merged_parts res = merged_parts res1" using run by (auto dest: ensuresD)
qed

lemma sync_outcome:
  assumes run: "SyncEvents ex p incoming d = (Inr res, d')"
    and wf: "events_wf d" and plain: "plain_ids (event_rows d) incoming" and once: "distinct (map (pulled_key p) incoming)"
  shows "events_wf d'" "merged_count res = int (length incoming)"
    "inc \<in> set incoming \<Longrightarrow> \<exists>r \<in> event_rows d'. event_key r = pulled_key p inc \<and> ev_hash r = ev_hash (upsertParams (ex_sha ex) p inc)"
    "event_key e \<notin> pulled_key p ` set incoming \<Longrightarrow> e \<in> event_rows d' \<Longrightarrow> e \<in> event_rows d"
    "event_key e \<notin> pulled_key p ` set incoming \<Longrightarrow> e \<in> event_rows d \<Longrightarrow> e \<notin> vanishing p incoming d \<Longrightarrow> e \<in> event_rows d'"
proof -
  obtain entries' res1 d1 where phases:
    "fold_each (merge_event ex p (q_ListAllEventsForPeriod p d)) incoming (q_ListTimeEntriesForPeriod p d, no_changes) d
      = (Inr (entries', res1), d1)"
    "fold_each (vanish_event ex p entries' (set (map incoming_key incoming))) (q_ListAllEventsForPeriod p d) res1 d1 = (Inr res, d')"
    by (rule sync_phases [OF run])
  note state = merge_phase [OF phases(1) wf plain once]
  have m: "merged (ex_sha ex) p (event_rows d) (tbl_seq (db_events d)) incoming d1" using state by (simp add: merge_state_def)
  have "set (q_ListTimeEntriesForPeriod p d) \<subseteq> set entries'" using state by (simp add: merge_state_def)
  note vanish = vanish_phase [OF phases(2) plain this]
  show "merged_count res = int (length incoming)"
    using vanish state merged_count_parts [of res res1] by (simp add: merge_state_def)
  obtain I where I: "I \<subseteq> ev_id ` vanishing p incoming d"
      "tbl_rows (db_events d') = filter (\<lambda>e. ev_id e \<notin> I) (tbl_rows (db_events d1))"
      "tbl_seq (db_events d') = tbl_seq (db_events d1)"
    using vanish by (auto simp: drops_def)
  show "events_wf d'"
    using mergedD(1) [OF m] I by (auto simp: events_wf_def ids_ok_def distinct_map_filter)
  have dropped: "\<exists>v \<in> vanishing p incoming d. event_key r = event_key v" if r: "r \<in> event_rows d1" "ev_id r \<in> I" for r
  proof -
    obtain v where v: "v \<in> vanishing p incoming d" "ev_id r = ev_id v" using I(1) r(2) by auto
    then have "v \<in> event_rows d" by (simp add: vanishing_def)
    then show ?thesis using mergedD(4) [OF m r(1) _ v(2)] v(1) by blast
  qed
  show "\<exists>r \<in> event_rows d'. event_key r = pulled_key p inc \<and> ev_hash r = ev_hash (upsertParams (ex_sha ex) p inc)"
    if inc: "inc \<in> set incoming"
  proof -
    obtain r where r: "r \<in> event_rows d1" "event_key r = pulled_key p inc" "ev_hash r = ev_hash (upsertParams (ex_sha ex) p inc)"
      using mergedD(6) [OF m inc] by blast
    moreover have "event_key r \<noteq> event_key v" if "v \<in> vanishing p incoming d" for v
      using that r(2) imageI [OF inc, of "pulled_key p"] by (auto simp: vanishing_def)
    ultimately have "ev_id r \<notin> I" using dropped by blast
    then show ?thesis using r I by (intro bexI [of _ r]) simp_all
  qed
  show "e \<in> event_rows d" if "event_key e \<notin> pulled_key p ` set incoming" "e \<in> event_rows d'" for e
    using that I mergedD(5) [OF m that(1)] by simp
  show "e \<in> event_rows d'"
    if e: "event_key e \<notin> pulled_key p ` set incoming" "e \<in> event_rows d" "e \<notin> vanishing p incoming d" for e
  proof -
    have "e \<in> event_rows d1" using mergedD(5) [OF m e(1)] e(2) by simp
    moreover have "ev_id e \<notin> I"
    proof
      assume "ev_id e \<in> I"
      then obtain v where "v \<in> vanishing p incoming d" "ev_id v = ev_id e" using I(1) by auto
      moreover have "inj_on ev_id (event_rows d)" using wf by (simp add: events_wf_def ids_ok_def distinct_map)
      ultimately show False using e(2,3) by (auto simp: vanishing_def inj_on_def)
    qed
    ultimately show ?thesis using I(2) by simp
  qed
qed


section \<open>Syncing again\<close>

lemma merge_unchanged:
  assumes found: "base_by_key base (incoming_key inc) = Some r" "ev_hash r = ev_hash (upsertParams (ex_sha ex) p inc)"
  shows "ensures (\<lambda>_. snd acc = no_changes\<lparr>sr_unchanged := n\<rparr>) (merge_event ex p base inc acc)
    (\<lambda>acc' _. snd acc' = no_changes\<lparr>sr_unchanged := n + 1\<rparr>)"
proof (cases "snd acc = no_changes\<lparr>sr_unchanged := n\<rparr>")
  case False
  then show ?thesis by (simp add: ensures_def)
next
  case True
  obtain entries where acc: "acc = (entries, no_changes\<lparr>sr_unchanged := n\<rparr>)" using True by (cases acc) simp
  show ?thesis
    unfolding merge_event_def acc prod.case Let_def option.case found(1) if_P [OF found(2)]
    by (intro ensures_bind [OF ensures_any] ensures_ret) simp
qed

lemma base_found_unique:
  assumes "events_wf d" "plain_ids (event_rows d) incoming" "inc \<in> set incoming"
    and r: "r \<in> event_rows d" "event_key r = pulled_key p inc"
  shows "base_by_key (q_ListAllEventsForPeriod p d) (incoming_key inc) = Some r"
proof (cases "base_by_key (q_ListAllEventsForPeriod p d) (incoming_key inc)")
  case None
  moreover have "r \<in> set (q_ListAllEventsForPeriod p d)" using r by (auto simp: base_listed event_key_def pulled_key_def)
  ultimately show ?thesis
    using r by (auto simp: base_by_key_def find_None_iff incoming_key_def event_key_def pulled_key_def)
next
  case (Some x)
  then have "x \<in> event_rows d \<and> event_key x = pulled_key p inc" by (rule found_key [OF _ assms(2,3)])
  then have "x = r" using assms(1) r by (auto simp: events_wf_def distinct_map inj_on_def)
  then show ?thesis using Some by simp
qed

lemma plain_after:
  assumes "SyncEvents ex p incoming d = (Inr res, d')" "events_wf d" "plain_ids (event_rows d) incoming"
    "distinct (map (pulled_key p) incoming)"
  shows "plain_ids (event_rows d') incoming"
proof -
  have "CHR ''|'' \<notin> set (ev_external e)" if e: "e \<in> event_rows d'" for e
  proof (cases "event_key e \<in> pulled_key p ` set incoming")
    case True
    then show ?thesis using assms(3) by (auto simp: plain_ids_def event_key_def pulled_key_def)
  next
    case False
    then have "e \<in> event_rows d" using e by (rule sync_outcome(4) [OF assms])
    then show ?thesis using assms(3) by (simp add: plain_ids_def)
  qed
  then show ?thesis using assms(3) by (simp add: plain_ids_def)
qed

lemma resync_outcome:
  assumes first: "SyncEvents ex p incoming d = (Inr res, d')"
    and wf: "events_wf d" and plain: "plain_ids (event_rows d) incoming" and once: "distinct (map (pulled_key p) incoming)"
    and again: "SyncEvents ex p incoming d' = (Inr res', d'')"
  shows "merged_parts res' = (0, 0, int (length incoming))"
proof -
  note outcome = sync_outcome [OF first wf plain once] and plain' = plain_after [OF first wf plain once]
  let ?base = "q_ListAllEventsForPeriod p d'" and ?entries = "q_ListTimeEntriesForPeriod p d'"
  obtain entries' res1 d1 where phases:
    "fold_each (merge_event ex p ?base) incoming (?entries, no_changes) d' = (Inr (entries', res1), d1)"
    "fold_each (vanish_event ex p entries' (set (map incoming_key incoming))) ?base res1 d1 = (Inr res', d'')"
    by (rule sync_phases [OF again])
  define I where "I pre acc (s :: db) \<longleftrightarrow> snd acc = no_changes\<lparr>sr_unchanged := int (length pre)\<rparr>"
    for pre :: "incoming list" and acc :: "time_entry list \<times> sync_result" and s
  have "ensures (I [] (?entries, no_changes)) (fold_each (merge_event ex p ?base) incoming (?entries, no_changes)) (I incoming)"
  proof (rule ensures_fold_prefix)
    fix pre inc acc
    assume inc: "inc \<in> set incoming"
    obtain r where r: "r \<in> event_rows d'" "event_key r = pulled_key p inc" "ev_hash r = ev_hash (upsertParams (ex_sha ex) p inc)"
      using outcome(3) [OF inc] by blast
    show "ensures (I pre acc) (merge_event ex p ?base inc acc) (I (pre @ [inc]))"
      using merge_unchanged [OF base_found_unique [OF outcome(1) plain' inc r(1,2)] r(3), of acc "int (length pre)"]
      unfolding I_def by (simp add: add.commute)
  qed (use once in \<open>simp add: distinct_map\<close>)
  moreover have "I [] (?entries, no_changes) d'" by (simp add: I_def no_changes_def)
  ultimately have "I incoming (entries', res1) d1" using phases(1) by (rule ensuresD)
  then have res1: "merged_parts res1 = (0, 0, int (length incoming))" by (simp add: I_def merged_parts_def no_changes_def)
  have "ensures (\<lambda>_. merged_parts res1 = merged_parts res1)
     (fold_each (vanish_event ex p entries' (set (map incoming_key incoming))) ?base res1)
     (\<lambda>acc _. merged_parts acc = merged_parts res1)"
    by (rule ensures_fold_each [where I = "\<lambda>acc _. merged_parts acc = merged_parts res1"]) (rule vanish_parts)
  then show ?thesis using phases(2) res1 by (auto dest: ensuresD)
qed

end
