(* ===== verification/Review_Properties.thy ===== *)
theory Review_Properties
  imports Review_Laws Samples
begin

text \<open>
  The properties of the review queue, with the inputs their witnesses use.
\<close>


section \<open>Inputs\<close>

text \<open>A meeting from 10:00 to 10:30 UTC on 5 March 2024, and a database with it and these review items.\<close>

definition sample_event :: event where
  "sample_event = \<lparr>ev_id = 1, ev_period = 1, ev_calendar = 1, ev_provider = ''google'', ev_external = ''e1'',
     ev_instance = '''', ev_recurring = '''', ev_ical = '''', ev_title = ''Standup'', ev_description = '''',
     ev_location = '''', ev_organizer = '''', ev_attendees = ''[]'', ev_status = ''accepted'', ev_all_day = False,
     ev_start_utc = Some (format_rfc3339 (at_minute 600)), ev_end_utc = Some (format_rfc3339 (at_minute 630)),
     ev_start_date = None, ev_end_date = None, ev_tz = ''UTC'', ev_active = True, ev_hash = ''h''\<rparr>"

definition sample_item :: "string \<Rightarrow> review_item" where
  "sample_item kind = \<lparr>rv_id = 1, rv_period = 1, rv_kind = kind, rv_event = Some 1, rv_payload = JObj [],
     rv_status = ''open'', rv_conflict_key = ''k'', rv_action = '''', rv_decision = JObj []\<rparr>"

definition event_db :: "time_entry list \<Rightarrow> review_item list \<Rightarrow> db" where
  "event_db rows items = (sample_db ''EST'' rows)\<lparr>
     db_events := \<lparr>tbl_rows = [sample_event], tbl_seq = 1\<rparr>,
     db_reviews := \<lparr>tbl_rows = items, tbl_seq = int (length items)\<rparr>\<rparr>"

lemma event_db_simps [simp]:
  "db_entries (event_db rows items) = \<lparr>tbl_rows = rows, tbl_seq = int (length rows)\<rparr>"
  "db_reviews (event_db rows items) = \<lparr>tbl_rows = items, tbl_seq = int (length items)\<rparr>"
  "db_overlays (event_db rows items) = empty_table"
  "db_periods (event_db rows items) = \<lparr>tbl_rows = [sample_period], tbl_seq = 1\<rparr>"
  "db_events (event_db rows items) = \<lparr>tbl_rows = [sample_event], tbl_seq = 1\<rparr>"
  "db_categories (event_db rows items) = empty_table" "db_projects (event_db rows items) = empty_table"
  "q_GetEvent 1 (event_db rows items) = Some sample_event"
  by (simp_all add: event_db_def sample_db_def q_GetEvent_def find_row_def sample_event_def empty_db_def)

lemma event_db_item [simp]: "q_GetReviewItem 1 (event_db rows [sample_item kind]) = Some (sample_item kind)"
  by (simp add: q_GetReviewItem_def find_row_def sample_item_def)

lemma sample_item_simps [simp]:
  "rv_kind (sample_item kind) = kind" "rv_status (sample_item kind) = ''open''" "rv_id (sample_item kind) = 1"
  "rv_period (sample_item kind) = 1" "rv_event (sample_item kind) = Some 1"
  by (simp_all add: sample_item_def)

lemma close_sample:
  assumes "kind \<in> set review_kinds" "status \<in> {''open'', ''resolved'', ''dismissed''}"
    and "db_reviews d = \<lparr>tbl_rows = [sample_item kind], tbl_seq = 1\<rparr>" "db_periods d = \<lparr>tbl_rows = [sample_period], tbl_seq = 1\<rparr>"
    and "db_events d = \<lparr>tbl_rows = [sample_event], tbl_seq = 1\<rparr>"
  shows "q_ResolveReviewItem status action (JObj []) 1 d =
    (Inr (), d\<lparr>db_reviews := \<lparr>tbl_rows = [closed_item status action (sample_item kind)], tbl_seq = 1\<rparr>\<rparr>)"
  using assms
  by (simp add: q_ResolveReviewItem_def act_seq_def act_bind_def update_review_def update_where_def rv_ok_def
      has_id_def ref_ok_def alone_def sample_item_def sample_period_def sample_event_def closed_item_def)


section \<open>Properties\<close>

text \<open>
  C23. Resolving a review decision succeeds only for an open item and one of the actions that
  its kind offers. It closes that item, with the action taken, and no other; deciding it again
  is refused and changes nothing.
\<close>

theorem resolving_closes:
  assumes "ResolveReviewDecision tz i action d = (Inr p, d')"
  shows "\<exists>item status. q_GetReviewItem i d = Some item \<and> rv_status item = ''open'' \<and> rv_period item = p \<and>
    (\<forall>ev dc. ToDecision item ev = Some dc \<longrightarrow> action \<in> ra_key ` set (dc_actions dc)) \<and>
    status \<in> {''resolved'', ''dismissed''} \<and> q_GetReviewItem i d' = Some (closed_item status action item) \<and>
    (\<forall>j. j \<noteq> i \<longrightarrow> q_GetReviewItem j d' = q_GetReviewItem j d) \<and>
    (\<forall>again. ResolveReviewDecision tz i again d' = (Inl ErrOther, d'))"
proof -
  obtain item status e where item: "q_GetReviewItem i d = Some item" "rv_status item = ''open''" "rv_period item = p"
    and run: "Apply tz item action d = (Inr status, e)" and id: "rv_id item = i"
    and close: "q_ResolveReviewItem status action (JObj []) i e = (Inr (), d')"
    by (rule resolve_decision_Inr [OF assms])
  have reviews: "db_reviews e = db_reviews d"
    by (rule unchanged_result [OF unchanged_Apply run]) simp_all
  have get: "q_GetReviewItem j d' = map_option (\<lambda>r. if j = i then closed_item status action r else r) (q_GetReviewItem j d)" for j
    using resolve_Inr [OF close] reviews by (intro get_closed) simp
  note st = Apply_status [OF run]
  have closed: "q_GetReviewItem i d' = Some (closed_item status action item)" using get [of i] item by simp
  have "ResolveReviewDecision tz i again d' = (Inl ErrOther, d')" for again
    using st by (intro closed_refuses [OF closed]) (auto simp: closed_item_def)
  moreover have "q_GetReviewItem j d' = q_GetReviewItem j d" if "j \<noteq> i" for j
    using get [of j] that by (simp add: option.map_ident)
  moreover have "action \<in> ra_key ` set (dc_actions dc)" if "ToDecision item ev = Some dc" for ev dc
    using offered_supported [OF that] st by simp
  ultimately show ?thesis
    using item st closed by (intro exI [of _ item] exI [of _ status]) simp
qed

lemma resolving_title:
  "\<exists>d'. ResolveReviewDecision sample_tz 1 ReviewActionAccept (event_db [] [sample_item reviewTitleChanged]) = (Inr 1, d')"
proof -
  let ?d = "event_db [] [sample_item reviewTitleChanged]"
  have close: "q_ResolveReviewItem ''resolved'' ReviewActionAccept (JObj []) 1 ?d =
      (Inr (), ?d\<lparr>db_reviews := \<lparr>tbl_rows = [closed_item ''resolved'' ReviewActionAccept (sample_item reviewTitleChanged)], tbl_seq = 1\<rparr>\<rparr>)"
    by (rule close_sample) (simp_all add: review_kinds_def)
  show ?thesis
    by (rule exI, rule resolve_run [OF event_db_item _ _ _ _ close]) (simp_all add: Apply_def)
qed

theorem resolving_closes_witness:
  "\<exists>d' item'. ResolveReviewDecision sample_tz 1 ReviewActionAccept (event_db [] [sample_item reviewTitleChanged]) = (Inr 1, d') \<and>
     q_GetReviewItem 1 d' = Some item' \<and> rv_action item' = ReviewActionAccept \<and> rv_status item' \<noteq> ''open''"
proof -
  obtain d' where run: "ResolveReviewDecision sample_tz 1 ReviewActionAccept
      (event_db [] [sample_item reviewTitleChanged]) = (Inr 1, d')" using resolving_title ..
  from resolving_closes [OF run] show ?thesis using run by (auto simp: closed_item_def)
qed

text \<open>
  C24. No decision of the review queue except using an event in place of gap fills touches an
  entry that is not a draft: confirmed and dismissed entries stay as they are. A decision that
  fails changes nothing at all.
\<close>

theorem decisions_keep_confirmed:
  assumes "\<forall>item. q_GetReviewItem i d = Some item \<longrightarrow> rv_kind item = reviewNewInGap \<longrightarrow> action \<noteq> ReviewActionUseEvent"
    and "ids_ok te_id (db_entries d)" "ResolveReviewDecision tz i action d = (result, d')"
  shows "(\<forall>r \<in> set (tbl_rows (db_entries d)). te_attestation r \<noteq> ''draft'' \<longrightarrow> r \<in> set (tbl_rows (db_entries d'))) \<and>
    ids_ok te_id (db_entries d') \<and> (\<forall>e. result = Inl e \<longrightarrow> d' = d)"
proof (cases result)
  case (Inl e)
  then have "d' = d" using assms(3) by (simp add: ResolveReviewDecision_def in_tx_Inl)
  then show ?thesis using assms(2) by simp
next
  case (Inr p)
  obtain item status e where item: "q_GetReviewItem i d = Some item" and run: "Apply tz item action d = (Inr status, e)"
    and close: "q_ResolveReviewItem status action (JObj []) i e = (Inr (), d')"
    using assms(3) Inr by (metis resolve_decision_Inr)
  have "moves (spares (\<lambda>r. te_attestation r \<noteq> ''draft'')) (Apply tz item action)"
    using assms(1) item by (intro spares_Apply) auto
  then have "spares (\<lambda>r. te_attestation r \<noteq> ''draft'') d e" using run by (rule moves_result)
  then show ?thesis using resolve_Inr [OF close] assms(2) Inr by (auto simp: spares_def)
qed

theorem decisions_keep_confirmed_witness:
  "sample_entry 1 (at_minute 600) (at_minute 630) ''confirmed'' \<in> set (tbl_rows (db_entries
     (state_of (ResolveReviewDecision sample_tz 1 ReviewActionDropEntry
       (event_db [sample_entry 1 (at_minute 600) (at_minute 630) ''confirmed''] [sample_item reviewDeletedCategoriz])))))"
proof -
  let ?d = "event_db [sample_entry 1 (at_minute 600) (at_minute 630) ''confirmed''] [sample_item reviewDeletedCategoriz]"
  obtain result d' where run: "ResolveReviewDecision sample_tz 1 ReviewActionDropEntry ?d = (result, d')"
    by (cases "ResolveReviewDecision sample_tz 1 ReviewActionDropEntry ?d")
  have "ids_ok te_id (db_entries ?d)" by (simp add: ids_ok_def)
  from decisions_keep_confirmed [OF _ this run] run show ?thesis by simp
qed

text \<open>
  C25. Using an event in place of gap fills takes its time out of the ledger of the period: for
  every booking (category, attestation, description, day and so on) the entries of the period
  cover afterwards what they covered before, without the event. Entries of other periods stay.
\<close>

theorem use_event_shrinks:
  assumes "ResolveReviewDecision tz i ReviewActionUseEvent d = (Inr p, d')" "ids_ok te_id (db_entries d)"
    and "q_GetReviewItem i d = Some item" "rv_kind item = reviewNewInGap" "rv_event item = Some e" "q_GetEvent e d = Some ev"
    and "s = parseTime (text_of (ev_start_utc ev))" "t = parseTime (text_of (ev_end_utc ev))"
    and "storable s" "storable t" "s \<le> t"
    and "\<forall>r \<in> ledger d. te_period r = p \<longrightarrow>
      (\<exists>gap. stored_span r = Some gap \<and> storable (iv_start gap) \<and> storable (iv_end gap))"
  shows "\<exists>rest. ledger d' = {r \<in> ledger d. te_period r \<noteq> p} \<union> rest \<and>
    (\<forall>b. booked b rest = booked b {r \<in> ledger d. te_period r = p} - {s..<t})"
proof -
  obtain item' status d1 where item: "q_GetReviewItem i d = Some item'" "rv_period item' = p"
    and run: "Apply tz item' ReviewActionUseEvent d = (Inr status, d1)"
    and close: "q_ResolveReviewItem status ReviewActionUseEvent (JObj []) i d1 = (Inr (), d')"
    by (rule resolve_decision_Inr [OF assms(1)])
  let ?fills = "q_ListTimeEntriesForPeriod p d"
  have fills: "set ?fills = {r \<in> ledger d. te_period r = p}"
    by (auto simp: q_ListTimeEntriesForPeriod_def select_rows_def ledger_def)
  have "distinct (map te_id (filter Q (tbl_rows (db_entries d))))" for Q
    using assms(2) by (simp add: ids_ok_def distinct_map_filter)
  then have dist: "distinct ?fills"
    unfolding q_ListTimeEntriesForPeriod_def select_rows_def by (simp add: distinct_map)
  obtain us where loop: "for_each (shrink_fill p (mk_iv s t)) ?fills d = (Inr us, d1)"
    using run item assms(3-8)
    by (auto simp: Apply_def applyNewInGap_def need_event_def act_seq_eq_Inr_iff act_bind_eq_Inr_iff
        shrinkGapFillsForEvent_def split: if_splits)
  have "\<exists>N. ledger d1 = ledger d - set ?fills \<union> N \<and> ids_ok te_id (db_entries d1) \<and>
      (\<forall>b. booked b N = booked b (set ?fills) - covered (mk_iv s t))"
    by (rule shrink_all [OF loop assms(2) _ dist]) (use fills assms(9-12) in auto)
  moreover have "ledger d' = ledger d1" using resolve_Inr [OF close] by (simp add: ledger_def)
  moreover have "ledger d - set ?fills = {r \<in> ledger d. te_period r \<noteq> p}" using fills by auto
  ultimately show ?thesis using fills by auto
qed

text \<open>
  C26. Excluding an event hides it from its period for good: it has a status overlay that keeps
  it off the schedule and no category any more, none of its drafts is live, and every open item about
  it is dismissed. Nothing else is changed: only the tables of entries, items and overlays differ, the
  first two in just these rows, and every overlay that is not the category or the status overlay of
  the event is there as before.
\<close>

theorem excluding_an_event:
  assumes "ExcludeEvent e p d = (Inr res, d')"
    and "ids_ok te_id (db_entries d)" "ids_ok rv_id (db_reviews d)" "overlays_wf d"
  shows "\<exists>ev. q_GetEvent e d = Some ev \<and> ev_period ev = p \<and> res = (p, e) \<and>
    HasStatusExcluded ev d' \<and> ev \<notin> set (q_ListEventsForPeriod p d') \<and>
    \<not> hasCategory p (ev_provider ev) (ev_external ev) (ev_instance ev) d' \<and>
    tbl_rows (db_entries d') = dismiss_drafts p (eventIdentityFromRow ev) (tbl_rows (db_entries d)) \<and>
    tbl_rows (db_reviews d') = dismiss_items p e (tbl_rows (db_reviews d)) \<and>
    d' = d\<lparr>db_entries := db_entries d', db_overlays := db_overlays d', db_reviews := db_reviews d'\<rparr> \<and>
    (\<forall>ov. overlay_key ov \<notin> {p} \<times> {ev_provider ev} \<times> {ev_external ev} \<times> {ev_instance ev} \<times>
        {overlayKindCategory, overlayKindStatus} \<longrightarrow>
       (ov \<in> set (tbl_rows (db_overlays d')) \<longleftrightarrow> ov \<in> set (tbl_rows (db_overlays d))))"
  by (rule exclude_event_Inr [OF assms])

text \<open>
  C27. A conflict is raised once and decided once. Where no item of the conflict is stored, raising
  it creates one open item with its key and nothing else, and no decision is replayed; where one is stored, open or
  closed, nothing is created and nothing changes, and the action the stored item was closed with is
  replayed, none while it is open. Either way one item of the conflict is stored afterwards; raising it
  again, whatever the event and the payload, changes nothing; and once that item is resolved with an
  action, raising the conflict replays exactly this action. At most one item of the conflict is stored at
  the beginning.
\<close>

theorem conflicts_raised_once:
  assumes "EnqueueOrReplay p kind e key payload d = (Inr (action, created), d')"
    and "length (filter (\<lambda>r. rv_period r = p \<and> rv_kind r = kind \<and> rv_conflict_key r = key) (tbl_rows (db_reviews d))) \<le> 1"
  shows "(case q_GetReviewItemByConflictKey p kind key d of
       None \<Rightarrow> created \<and> action = '''' \<and> (\<exists>r. tbl_rows (db_reviews d') = tbl_rows (db_reviews d) @ [r] \<and>
          rv_period r = p \<and> rv_kind r = kind \<and> rv_conflict_key r = key \<and> rv_status r = ''open'' \<and>
          rv_event r = Some e \<and> rv_payload r = payload)
     | Some r \<Rightarrow> \<not> created \<and> d' = d \<and> action = (if rv_status r = ''open'' then '''' else rv_action r)) \<and>
    d' = d\<lparr>db_reviews := db_reviews d'\<rparr> \<and>
    EnqueueOrReplay p kind e' key payload' d' = (Inr (action, False), d') \<and>
    (\<exists>r. filter (\<lambda>r. rv_period r = p \<and> rv_kind r = kind \<and> rv_conflict_key r = key) (tbl_rows (db_reviews d')) = [r] \<and>
       (\<forall>tz a q d''. ResolveReviewDecision tz (rv_id r) a d' = (Inr q, d'') \<longrightarrow>
          EnqueueOrReplay p kind e' key payload' d'' = (Inr (a, False), d'')))"
proof -
  obtain r where r: "filter (of_conflict p kind key) (tbl_rows (db_reviews d')) = [r]"
    using enqueue_single [OF assms(1)] assms(2) unfolding single_item_def of_conflict_def [abs_def] by blast
  show ?thesis
    by (intro conjI enqueue_Inr [OF assms(1)] enqueue_frame [OF assms(1)] enqueue_again [OF assms(1)] exI [of _ r]
        r [unfolded of_conflict_def [abs_def]] allI impI decided_replays [OF r])
qed


section \<open>Witnesses with longer runs\<close>

lemma mark_sample:
  "MarkExcluded sample_event (event_db rows items) = (Inr (), (event_db rows items)\<lparr>db_overlays := \<lparr>tbl_rows =
     [(new_overlay 1 ''google'' ''e1'' '''' None overlayStatusExclude overlayKindStatus)\<lparr>ov_id := 1\<rparr>], tbl_seq = 1\<rparr>\<rparr>)"
  by (simp add: MarkExcluded_def q_UpsertOverlay_def upsert_into_def insert_into_def Let_def empty_table_def ov_ok_def
      has_id_def ref_ok_def alone_def new_overlay_def sample_event_def sample_period_def mapErr_def act_seq_def act_bind_def)

theorem excluding_an_event_witness:
  "\<exists>d'. ExcludeEvent 1 1 (event_db [] [sample_item reviewTentative]) = (Inr (1, 1), d') \<and> HasStatusExcluded sample_event d' \<and>
     tbl_rows (db_reviews d') = [closed_item ''dismissed'' ReviewActionExclude (sample_item reviewTentative)]"
proof -
  let ?d = "event_db [] [sample_item reviewTentative]"
  have ev: "ev_period sample_event = 1" "ev_id sample_event = 1" by (simp_all add: sample_event_def)
  have close: "mapErr (q_ResolveReviewItem ''dismissed'' ReviewActionExclude (JObj []) 1) (snd (MarkExcluded sample_event ?d)) =
      (Inr (), (snd (MarkExcluded sample_event ?d))\<lparr>db_reviews :=
         \<lparr>tbl_rows = [closed_item ''dismissed'' ReviewActionExclude (sample_item reviewTentative)], tbl_seq = 1\<rparr>\<rparr>)"
    unfolding mapErr_Inr by (rule close_sample) (simp_all add: mark_sample review_kinds_def)
  have "DeleteCategoryOverlay sample_event ?d = (Inr (), ?d)"
    by (simp add: DeleteCategoryOverlay_def category_overlay_def q_GetOverlay_def find_row_def empty_table_def)
  moreover have "dismissCalendarDraftsForEvent sample_event ?d = (Inr (), ?d)"
    by (simp add: dismissCalendarDraftsForEvent_def q_ListTimeEntriesForPeriod_def select_rows_def linkedCalendarEntries_def
        dismissLinkedDrafts_def act_seq_def)
  moreover have "q_ListOpenReviewItems 1 (snd (MarkExcluded sample_event ?d)) = [sample_item reviewTentative]"
    by (simp add: mark_sample q_ListOpenReviewItems_def select_rows_def)
  ultimately have "\<exists>d'. ExcludeEvent 1 1 ?d = (Inr (1, 1), d')"
    using close mark_sample [of "[]" "[sample_item reviewTentative]"]
    by (simp add: ExcludeEvent_def act_bind_def act_seq_def mapErr_def get_one_def ev in_tx_def)
  then obtain d' where run: "ExcludeEvent 1 1 ?d = (Inr (1, 1), d')" ..
  have "ids_ok te_id (db_entries ?d)" "ids_ok rv_id (db_reviews ?d)" "overlays_wf ?d"
    by (simp_all add: ids_ok_def overlays_wf_def empty_table_def)
  from excluding_an_event [OF run this] show ?thesis using run by (auto simp: dismiss_items_def)
qed

theorem conflicts_raised_once_witness:
  "EnqueueOrReplay 1 reviewTitleChanged 1 ''k'' (JObj []) (event_db [] [sample_item reviewTitleChanged]) =
     (Inr ('''', False), event_db [] [sample_item reviewTitleChanged]) \<and>
   (\<exists>d'. ResolveReviewDecision sample_tz 1 ReviewActionAccept (event_db [] [sample_item reviewTitleChanged]) = (Inr 1, d') \<and>
     EnqueueOrReplay 1 reviewTitleChanged 2 ''k'' JNull d' = (Inr (ReviewActionAccept, False), d'))"
proof -
  let ?d = "event_db [] [sample_item reviewTitleChanged]"
  have raise: "EnqueueOrReplay 1 reviewTitleChanged 1 ''k'' (JObj []) ?d = (Inr ('''', False), ?d)"
    by (simp add: EnqueueOrReplay_def q_GetReviewItemByConflictKey_def select_rows_def sample_item_def)
  have one: "length (filter (\<lambda>r. rv_period r = 1 \<and> rv_kind r = reviewTitleChanged \<and> rv_conflict_key r = ''k'') (tbl_rows (db_reviews ?d))) \<le> 1"
    by (simp add: sample_item_def)
  obtain d' where run: "ResolveReviewDecision sample_tz 1 ReviewActionAccept ?d = (Inr 1, d')"
    using resolving_title by blast
  have "EnqueueOrReplay 1 reviewTitleChanged 2 ''k'' JNull d' = (Inr (ReviewActionAccept, False), d')"
    using conflicts_raised_once [OF raise one, of 2 JNull] run by (auto simp: sample_item_def)
  then show ?thesis using raise run by blast
qed

abbreviation morning_fill :: time_entry where
  "morning_fill \<equiv> sample_entry 1 (at_minute 540) (at_minute 720) ''confirmed''"

lemma storable_minute: "0 \<le> m \<Longrightarrow> m < 10000 \<Longrightarrow> storable (at_minute m)"
  unfolding storable_def by (rule conjI, rule at_minute_text) (simp_all add: at_minute_whole zero_time_def second_def)

lemma sample_te_ok_event: "att \<in> set attestations \<Longrightarrow> te_ok (event_db rows items) (sample_entry i s e att)"
  using sample_te_ok by (simp add: event_db_def te_ok_def sample_db_def)

theorem use_event_shrinks_witness:
  "\<exists>d'. ResolveReviewDecision sample_tz 1 ReviewActionUseEvent (event_db [morning_fill] [sample_item reviewNewInGap]) = (Inr 1, d') \<and>
     booked (booking morning_fill) (ledger d') = {at_minute 540..<at_minute 720} - {at_minute 600..<at_minute 630}"
proof -
  let ?d = "event_db [morning_fill] [sample_item reviewNewInGap]"
  let ?b = "mk_iv (at_minute 540) (at_minute 600)" and ?a = "mk_iv (at_minute 630) (at_minute 720)"
  let ?e = "mk_iv (at_minute 600) (at_minute 630)"
  let ?d1 = "?d\<lparr>db_entries := \<lparr>tbl_rows = [respan ?b morning_fill], tbl_seq = 1\<rparr>\<rparr>"
  let ?d2 = "?d\<lparr>db_entries := \<lparr>tbl_rows = [respan ?b morning_fill, (respan ?a morning_fill)\<lparr>te_id := 2\<rparr>], tbl_seq = 2\<rparr>\<rparr>"
  have times: "parseTime (text_of (ev_start_utc sample_event)) = at_minute 600"
    "parseTime (text_of (ev_end_utc sample_event)) = at_minute 630" "timed sample_event"
    by (simp_all add: sample_event_def text_of_def parseTime_def at_minute_text timed_def)
  have ok: "te_ok ?d1 (respan ?b morning_fill)" "te_ok ?d1 ((respan ?a morning_fill)\<lparr>te_id := 2\<rparr>)"
    using sample_te_ok_event [of "''confirmed''" "[morning_fill]" "[sample_item reviewNewInGap]" 1]
    by (simp_all add: te_ok_def respan_def attestations_def)
  have s1: "set_span 1 morning_fill ?b ?d = (Inr (respan ?b morning_fill), ?d1)"
    using ok(1) by (simp add: set_span_def q_UpdateTimeEntrySpan_def update_entry_def update_where_def scan_one_def act_bind_def
        respan_def Let_def sample_entry_def)
  have s2: "q_CreateTimeEntry (respan ?a morning_fill) ?d1 = (Inr ((respan ?a morning_fill)\<lparr>te_id := 2\<rparr>), ?d2)"
    using ok(2) by (simp add: q_CreateTimeEntry_def insert_into_def Let_def)
  have same: "morning_fill\<lparr>te_period := 1, te_start := format_rfc3339 (at_minute 630), te_end := format_rfc3339 (at_minute 720),
      te_duration := durationMinutes (at_minute 630) (at_minute 720)\<rparr> = respan ?a morning_fill"
    by (simp add: respan_def sample_entry_def)
  have "parseTime (te_start morning_fill) = at_minute 540" "parseTime (te_end morning_fill) = at_minute 720"
    by (simp_all add: sample_entry_def parseTime_def at_minute_text)
  moreover have "splitAround (mk_iv (at_minute 540) (at_minute 720)) ?e = (Some ?b, Some ?e, Some ?a)"
    by (simp add: splitAround_def)
  moreover have "at_minute 540 \<noteq> zero_time" "at_minute 720 \<noteq> zero_time"
    using storable_minute [of 540] storable_minute [of 720] by (simp_all add: storable_def)
  ultimately have "shrink_fill 1 ?e morning_fill ?d = (Inr (), ?d2)"
    using s1 s2 by (simp add: shrink_fill_def act_seq_def act_bind_def mapErr_def same)
  then have "shrinkGapFillsForEvent 1 ?e [morning_fill] ?d = (Inr (), ?d2)"
    by (simp add: shrinkGapFillsForEvent_def act_seq_def act_bind_def)
  moreover have "q_ListTimeEntriesForPeriod 1 ?d = [morning_fill]"
    by (simp add: q_ListTimeEntriesForPeriod_def select_rows_def)
  ultimately have app: "Apply sample_tz (sample_item reviewNewInGap) ReviewActionUseEvent ?d = (Inr ''resolved'', ?d2)"
    using times by (simp add: Let_def Apply_def applyNewInGap_def need_event_def act_seq_def act_bind_def mapErr_get_one)
  have close: "q_ResolveReviewItem ''resolved'' ReviewActionUseEvent (JObj []) 1 ?d2 = (Inr (), ?d2\<lparr>db_reviews :=
      \<lparr>tbl_rows = [closed_item ''resolved'' ReviewActionUseEvent (sample_item reviewNewInGap)], tbl_seq = 1\<rparr>\<rparr>)"
    by (rule close_sample) (simp_all add: review_kinds_def)
  obtain d' where run: "ResolveReviewDecision sample_tz 1 ReviewActionUseEvent ?d = (Inr 1, d')"
    using resolve_run [OF event_db_item _ _ _ app close] by simp
  have span: "stored_span morning_fill = Some (mk_iv (at_minute 540) (at_minute 720))" by (simp add: sample_stored)
  have rows: "{r \<in> ledger ?d. te_period r = 1} = {morning_fill}" "{r \<in> ledger ?d. te_period r \<noteq> 1} = {}"
    by (auto simp: ledger_def)
  have fills: "\<forall>r \<in> ledger ?d. te_period r = 1 \<longrightarrow>
      (\<exists>gap. stored_span r = Some gap \<and> storable (iv_start gap) \<and> storable (iv_end gap))"
    using span storable_minute by (simp add: ledger_def)
  have "\<exists>rest. ledger d' = {r \<in> ledger ?d. te_period r \<noteq> 1} \<union> rest \<and>
    (\<forall>b. booked b rest = booked b {r \<in> ledger ?d. te_period r = 1} - {at_minute 600..<at_minute 630})"
    by (rule use_event_shrinks [OF run _ event_db_item, where e = 1 and ev = sample_event])
      (use times storable_minute fills in \<open>simp_all add: ids_ok_def\<close>)
  then obtain rest where "ledger d' = rest" "booked (booking morning_fill) rest =
      booked (booking morning_fill) {morning_fill} - {at_minute 600..<at_minute 630}"
    unfolding rows by auto
  then show ?thesis using run span by (auto simp: booked_single)
qed

end
