(* ===== verification/Sync_Properties.thy ===== *)
theory Sync_Properties
  imports Sync_Laws Review_Properties
begin

text \<open>
  The properties of the re-sync, with a pull of one meeting that their witnesses run on.
\<close>


section \<open>Inputs\<close>

definition sample_calendar :: calendar where
  "sample_calendar = \<lparr>cl_id = 1, cl_provider = ''google'', cl_external = ''c1'', cl_name = ''Work'',
     cl_primary = True, cl_selected = True, cl_category = None\<rparr>"

text \<open>A review meeting from 14:00 to 15:00 UTC on 5 March 2024, pulled from that calendar.\<close>

definition sample_pull :: incoming where
  "sample_pull = \<lparr>ie_calendar = 1, ie_provider = ''google'', ie_external = ''e2'', ie_instance = '''',
     ie_recurring = '''', ie_ical = '''', ie_title = ''Review'', ie_description = '''', ie_location = '''',
     ie_organizer = '''', ie_attendees = [], ie_status = ''accepted'', ie_all_day = False,
     ie_start = Some (at_minute 840), ie_end = Some (at_minute 900), ie_start_date = '''', ie_end_date = '''',
     ie_tz = ''UTC''\<rparr>"

definition sample_externals :: externals where
  "sample_externals = \<lparr>ex_tz = sample_tz, ex_sha = (\<lambda>s. s), ex_local = (\<lambda>_. True), ex_ask = (\<lambda>_ _ _ _ _. None)\<rparr>"

definition sync_db :: db where
  "sync_db = (event_db [sample_entry 1 (at_minute 540) (at_minute 600) ''confirmed''] [])
     \<lparr>db_calendars := \<lparr>tbl_rows = [sample_calendar], tbl_seq = 1\<rparr>\<rparr>"

lemma sync_db_simps [simp]:
  "db_entries sync_db = \<lparr>tbl_rows = [sample_entry 1 (at_minute 540) (at_minute 600) ''confirmed''], tbl_seq = 1\<rparr>"
  "db_reviews sync_db = \<lparr>tbl_rows = [], tbl_seq = 0\<rparr>" "db_overlays sync_db = empty_table"
  "db_periods sync_db = \<lparr>tbl_rows = [sample_period], tbl_seq = 1\<rparr>"
  "db_events sync_db = \<lparr>tbl_rows = [sample_event], tbl_seq = 1\<rparr>"
  "db_calendars sync_db = \<lparr>tbl_rows = [sample_calendar], tbl_seq = 1\<rparr>"
  by (simp_all add: sync_db_def)

definition sample_pulled :: event where
  "sample_pulled = (upsertParams (\<lambda>s. s) 1 sample_pull)\<lparr>ev_id := 2\<rparr>"

lemma sample_pulled_simps [simp]:
  "ev_id sample_pulled = 2" "ev_period sample_pulled = 1" "ev_calendar sample_pulled = 1"
  "ev_external sample_pulled = ''e2''" "ev_instance sample_pulled = ''''" "ev_provider sample_pulled = ''google''"
  "ev_start_utc sample_pulled = Some (format_rfc3339 (at_minute 840))" "ev_all_day sample_pulled = False"
  by (simp_all add: sample_pulled_def upsertParams_def sample_pull_def Let_def nullTime_def)

lemma sample_upsert:
  "q_UpsertEvent (upsertParams (\<lambda>s. s) 1 sample_pull) sync_db =
     (Inr sample_pulled, sync_db\<lparr>db_events := \<lparr>tbl_rows = [sample_event, sample_pulled], tbl_seq = 2\<rparr>\<rparr>)"
  by (simp add: q_UpsertEvent_def upsert_into_def insert_into_def Let_def ev_ok_def has_id_def alone_def
      sample_pulled_def upsertParams_def sample_pull_def sample_event_def sample_period_def sample_calendar_def)


lemma sample_day:
  assumes "q_ListTzSegments 1 d = [\<lparr>sg_id = 1, sg_period = 1, sg_from = ''2024-03-04'', sg_tz = ''EST''\<rparr>]"
  shows "eventLocalDay sample_tz sample_pulled d = Inr ''2024-03-05''"
proof -
  let ?seg = "\<lparr>sg_id = 1, sg_period = 1, sg_from = ''2024-03-04'', sg_tz = ''EST''\<rparr>"
  have day: "unix_seconds (at_minute 840) div 86400 = 19787" "local_day est (at_minute 840) = 19787"
    by (simp_all add: at_minute_whole unix_seconds_def local_day_def wall_seconds_def est_def fixed_location_def second_def)
  have "at_minute 840 \<noteq> zero_time" by (simp add: at_minute_whole zero_time_def second_def)
  moreover have "format_date 19787 = ''2024-03-05''" by code_simp
  moreover have "activeSQLCTzSegment [?seg] x = ?seg" for x by (simp add: activeSQLCTzSegment_def)
  ultimately show ?thesis
    using assms day by (simp add: eventLocalDay_def text_of_def parseTime_def at_minute_text sample_tz_def numeral_2_eq_2)
qed

lemma sample_hash [simp]: "ev_hash sample_pulled = ev_hash (upsertParams (\<lambda>s. s) 1 sample_pull)"
  by (simp add: sample_pulled_def)

abbreviation merged_db :: db where
  "merged_db \<equiv> sync_db\<lparr>db_events := \<lparr>tbl_rows = [sample_event, sample_pulled], tbl_seq = 2\<rparr>\<rparr>"

definition sample_draft :: time_entry where
  "sample_draft = \<lparr>te_id = 2, te_period = 1, te_start = format_rfc3339 (at_minute 840), te_end = format_rfc3339 (at_minute 900),
     te_duration = 60, te_day = ''2024-03-05'', te_category = None, te_description = ''Review'',
     te_attestation = ''draft'', te_source_kind = Some SourceKindCalendarEvent, te_source_id = Some (eventIdentityFromRow sample_pulled),
     te_source_revision = Some (ev_hash sample_pulled), te_method = Some MethodCalendarImport, te_work_type = ''worked'',
     te_project = None, te_billable = ''unset''\<rparr>"

abbreviation drafted_db :: db where
  "drafted_db \<equiv> merged_db\<lparr>db_entries := \<lparr>tbl_rows = [sample_entry 1 (at_minute 540) (at_minute 600) ''confirmed'', sample_draft], tbl_seq = 2\<rparr>\<rparr>"

lemma sample_gap: "overlappingGapFingerprint sample_pull [sample_entry 1 (at_minute 540) (at_minute 600) ''confirmed''] = None"
  by (simp add: overlappingGapFingerprint_def sample_pull_def sample_entry_def parseTime_def at_minute_text)

lemma sample_new:
  "handleNewEvent sample_externals 1 sample_pull 2 [sample_entry 1 (at_minute 540) (at_minute 600) ''confirmed''] merged_db = (Inr 0, merged_db)"
proof -
  have "ie_status sample_pull = ''accepted''" "\<not> ie_all_day sample_pull" "ie_calendar sample_pull = 1" by (simp_all add: sample_pull_def)
  moreover have "q_GetMemory (matchKey sample_pull) merged_db = None" "loadAIConfig merged_db = None"
    "q_GetCalendar 1 merged_db = Some sample_calendar" "\<not> incoming_has_category 1 sample_pull merged_db"
    by (simp_all add: q_GetMemory_def find_row_def sync_db_def event_db_def sample_db_def empty_db_def empty_table_def
        loadAIConfig_def readStringSetting_def q_GetSetting_def q_GetCalendar_def sample_calendar_def
        incoming_has_category_def hasCategory_def category_overlay_def q_GetOverlay_def)
  ultimately show ?thesis
    by (simp add: handleNewEvent_def OnNewEvent_def Let_def sample_gap applyMemory_def applyCalendarDefault_def
        applyAISuggestion_def act_seq_def act_bind_def sample_calendar_def)
qed


lemma sample_start: "ie_start sample_pull = Some (at_minute 840)" "ie_end sample_pull = Some (at_minute 900)"
  "ie_title sample_pull = ''Review''" "ie_status sample_pull = ''accepted''" "draftEligible sample_pull"
  "eventIdentityFromIncoming sample_pull = eventIdentityFromRow sample_pulled"
  "ie_provider sample_pull = ''google''" "ie_external sample_pull = ''e2''" "ie_instance sample_pull = []"
  "ie_calendar sample_pull = 1"
  by (simp_all add: sample_pull_def draftEligible_def eventIdentityFromIncoming_def eventIdentityFromRow_def)

lemma sample_keys: "incoming_key sample_pull = ''1|e2|''" "eventKey 1 ''e1'' [] = ''1|e1|''"
    "eventKey 1 ''e2'' [] = ''1|e2|''"
  by code_simp+

lemma sample_materialize:
  "materializeDraftForEvent sample_tz 1 sample_pull sample_pulled [sample_entry 1 (at_minute 540) (at_minute 600) ''confirmed''] False merged_db
    = (Inr [sample_entry 1 (at_minute 540) (at_minute 600) ''confirmed'', sample_draft], drafted_db)"
proof -
  have "\<not> HasStatusExcluded sample_pulled merged_db" "\<not> hasOpenTentativeReview 1 2 merged_db" "incoming_category 1 sample_pull merged_db = None"
    by (simp_all add: HasStatusExcluded_def q_GetOverlay_def find_row_def empty_table_def hasOpenTentativeReview_def
        q_ListOpenReviewItems_def select_rows_def incoming_category_def effectiveCategory_def category_overlay_def)
  moreover have "linkedCalendarEntries [sample_entry 1 (at_minute 540) (at_minute 600) ''confirmed''] i = []" for i
    by (simp add: linkedCalendarEntries_def sample_entry_def)
  moreover have "eventLocalDay sample_tz sample_pulled merged_db = Inr ''2024-03-05''"
    by (rule sample_day) (simp add: q_ListTzSegments_def select_rows_def sync_db_def event_db_def sample_db_def)
  moreover have "durationMinutes (at_minute 840) (at_minute 900) = 60"
    by code_simp
  moreover have "q_CreateTimeEntry (sample_draft\<lparr>te_id := 0\<rparr>) merged_db = (Inr sample_draft, drafted_db)"
    by (simp add: q_CreateTimeEntry_def insert_into_def Let_def te_ok_def sample_draft_def has_id_def ref_ok_def
        sample_period_def attestations_def work_types_def billable_statuses_def)
  ultimately show ?thesis
    by (simp add: materializeDraftForEvent_def Let_def partitionLinked_def createDraftFromEvent_def act_bind_def sample_start
        sample_draft_def)
qed


lemma sample_vanish:
  "vanish_event sample_externals 1 [sample_entry 1 (at_minute 540) (at_minute 600) ''confirmed'', sample_draft] {''1|e2|''}
     sample_event res drafted_db
    = (Inr (res\<lparr>sr_removed := sr_removed res + 1\<rparr>), drafted_db\<lparr>db_events := \<lparr>tbl_rows = [sample_pulled], tbl_seq = 2\<rparr>\<rparr>)"
proof -
  have "\<not> HasStatusExcluded sample_event drafted_db" "\<not> hasCategory 1 ''google'' ''e1'' [] drafted_db"
    by (simp_all add: HasStatusExcluded_def q_GetOverlay_def find_row_def empty_table_def hasCategory_def category_overlay_def)
  moreover have "eventIdentityFromRow sample_pulled \<noteq> eventIdentityFromRow sample_event"
    by (simp add: eventIdentityFromRow_def sample_event_def)
  then have "confirmed_from (eventIdentityFromRow sample_event)
      [sample_entry 1 (at_minute 540) (at_minute 600) ''confirmed'', sample_draft] = []"
    by (simp add: confirmed_from_def linkedCalendarEntries_def sample_entry_def sample_draft_def)
  moreover have "ev_calendar sample_event = 1" "ev_external sample_event = ''e1''" "ev_instance sample_event = []"
    "ev_provider sample_event = ''google''" "ev_id sample_event = 1"
    by (simp_all add: sample_event_def)
  ultimately show ?thesis
    by (simp add: vanish_event_def sample_keys act_bind_def act_seq_def OnVanishedConfirmedSource_def q_DeleteEvent_def
        delete_where_def Let_def)
qed

lemma sample_sync:
  "SyncEvents sample_externals 1 [sample_pull] sync_db =
    (Inr (no_changes\<lparr>sr_added := 1, sr_removed := 1\<rparr>), drafted_db\<lparr>db_events := \<lparr>tbl_rows = [sample_pulled], tbl_seq = 2\<rparr>\<rparr>)"
proof -
  have "q_ListAllEventsForPeriod 1 sync_db = [sample_event]"
    by (simp add: q_ListAllEventsForPeriod_def select_rows_def sample_event_def)
  moreover have "q_ListTimeEntriesForPeriod 1 sync_db = [sample_entry 1 (at_minute 540) (at_minute 600) ''confirmed'']"
    by (simp add: q_ListTimeEntriesForPeriod_def select_rows_def)
  moreover have "base_by_key [sample_event] (incoming_key sample_pull) = None"
    by (simp add: base_by_key_def sample_keys sample_event_def)
  moreover have "ex_tz sample_externals = sample_tz" "ex_sha sample_externals = (\<lambda>s. s)" by (simp_all add: sample_externals_def)
  ultimately show ?thesis
    using sample_upsert sample_new sample_materialize sample_vanish
    by (simp add: SyncEvents_def in_tx_def merge_event_def act_bind_def Let_def sample_keys no_changes_def)
qed


abbreviation synced_db :: db where
  "synced_db \<equiv> drafted_db\<lparr>db_events := \<lparr>tbl_rows = [sample_pulled], tbl_seq = 2\<rparr>\<rparr>"

lemma sample_resync:
  "SyncEvents sample_externals 1 [sample_pull] synced_db = (Inr (no_changes\<lparr>sr_unchanged := 1\<rparr>), synced_db)"
proof -
  let ?entries = "[sample_entry 1 (at_minute 540) (at_minute 600) ''confirmed'', sample_draft]"
  have "q_ListAllEventsForPeriod 1 synced_db = [sample_pulled]"
    by (simp add: q_ListAllEventsForPeriod_def select_rows_def)
  moreover have "q_ListTimeEntriesForPeriod 1 synced_db = ?entries"
  proof -
    have "format_rfc3339 (at_minute 540) \<le> format_rfc3339 (at_minute 840)" by code_simp
    then have "te_start (sample_entry 1 (at_minute 540) (at_minute 600) ''confirmed'') \<le> te_start sample_draft"
      by (simp add: sample_entry_def sample_draft_def)
    moreover have "te_day (sample_entry 1 (at_minute 540) (at_minute 600) ''confirmed'') = te_day sample_draft" "te_period sample_draft = 1"
      by (simp_all add: sample_entry_def sample_draft_def)
    ultimately show ?thesis by (simp add: q_ListTimeEntriesForPeriod_def select_rows_def)
  qed
  moreover have "base_by_key [sample_pulled] (incoming_key sample_pull) = Some sample_pulled"
    by (simp add: base_by_key_def sample_keys)
  moreover have "ex_tz sample_externals = sample_tz" "ex_sha sample_externals = (\<lambda>s. s)" by (simp_all add: sample_externals_def)
  moreover have "materializeDraftForEvent sample_tz 1 sample_pull sample_pulled ?entries False synced_db = (Inr ?entries, synced_db)"
  proof -
    have "\<not> HasStatusExcluded sample_pulled synced_db" "\<not> hasOpenTentativeReview 1 2 synced_db"
      by (simp_all add: HasStatusExcluded_def q_GetOverlay_def find_row_def empty_table_def hasOpenTentativeReview_def
          q_ListOpenReviewItems_def select_rows_def)
    moreover have "linkedCalendarEntries ?entries (eventIdentityFromRow sample_pulled) = [sample_draft]"
      by (simp add: linkedCalendarEntries_def sample_entry_def sample_draft_def)
    moreover have "partitionLinked [sample_draft] = ([sample_draft], False, False)"
      by (simp add: partitionLinked_def sample_draft_def)
    moreover have "te_source_revision sample_draft = Some (ev_hash sample_pulled)" by (simp add: sample_draft_def)
    ultimately show ?thesis
      by (simp add: materializeDraftForEvent_def Let_def refreshDraftFromEvent_def act_bind_def act_seq_def sample_start)
  qed
  ultimately show ?thesis
    by (simp add: SyncEvents_def in_tx_def merge_event_def act_bind_def Let_def sample_keys no_changes_def vanish_event_def)
qed


section \<open>Properties\<close>

text \<open>
  C28. A re-sync never loses a confirmed entry. Whatever a pull brings, each confirmed row of the
  ledger is there afterwards, unaltered, whether the sync succeeds or fails, as long as no earlier
  decision asked for a new event to be used in place of the entries it overlaps; and a sync that
  fails leaves the whole database as it was.
\<close>

theorem sync_keeps_confirmed:
  assumes "SyncEvents ex p incoming d = (result, d')" "ids_ok te_id (db_entries d)"
    and "\<forall>item \<in> set (tbl_rows (db_reviews d)). rv_kind item = reviewNewInGap \<longrightarrow> rv_action item \<noteq> ReviewActionUseEvent"
  shows "(\<forall>r \<in> ledger d. te_attestation r = ''confirmed'' \<longrightarrow> r \<in> ledger d') \<and> (\<forall>e. result = Inl e \<longrightarrow> d' = d)"
proof (cases result)
  case (Inl e)
  then show ?thesis using assms(1) by (simp add: SyncEvents_def in_tx_Inl)
next
  case (Inr res)
  then show ?thesis
    using sync_keeps [of ex p incoming d res d'] assms by (auto simp: no_use_event_def)
qed

theorem sync_keeps_confirmed_witness:
  "sample_entry 1 (at_minute 540) (at_minute 600) ''confirmed'' \<in>
     ledger (state_of (SyncEvents sample_externals 1 [sample_pull] sync_db))"
  using sync_keeps_confirmed [OF sample_sync] by (simp add: sample_sync ids_ok_def ledger_def)

text \<open>
  C29. A sync makes the events of the period agree with the pull. Where the pull names each event once,
  and no external id has a bar in it, every pulled event has a row with its key and its hash
  afterwards and was counted once, as added, updated or unchanged. No other event appears, none of
  another period is touched, and an event of the period that was not pulled is either as it was or,
  if no confirmed entry came from it, deleted.
\<close>

theorem sync_stores_the_pull:
  assumes "SyncEvents ex p incoming d = (Inr res, d')" "events_wf d" "plain_ids (event_rows d) incoming"
    and "distinct (map (pulled_key p) incoming)"
  shows "(\<forall>inc \<in> set incoming. \<exists>e \<in> event_rows d'. event_key e = pulled_key p inc \<and>
        ev_hash e = ev_hash (upsertParams (ex_sha ex) p inc)) \<and>
    sr_added res + sr_updated res + sr_unchanged res = int (length incoming) \<and> events_wf d' \<and>
    (\<forall>e. event_key e \<notin> pulled_key p ` set incoming \<longrightarrow> e \<in> event_rows d' \<longrightarrow> e \<in> event_rows d) \<and>
    (\<forall>e \<in> event_rows d. event_key e \<notin> pulled_key p ` set incoming \<longrightarrow> e \<notin> event_rows d' \<longrightarrow>
       ev_period e = p \<and> confirmed_from (eventIdentityFromRow e) (q_ListTimeEntriesForPeriod p d) = [])"
proof -
  note outcome = sync_outcome [OF assms]
  have "ev_period e = p \<and> confirmed_from (eventIdentityFromRow e) (q_ListTimeEntriesForPeriod p d) = []"
    if "e \<in> event_rows d" "event_key e \<notin> pulled_key p ` set incoming" "e \<notin> event_rows d'" for e
    using outcome(5) [OF that(2,1)] that(3) by (auto simp: vanishing_def)
  then show ?thesis using outcome(1-4) by (simp add: merged_count_def)
qed

theorem sync_stores_the_pull_witness:
  "\<exists>e \<in> event_rows (state_of (SyncEvents sample_externals 1 [sample_pull] sync_db)).
     event_key e = (1, 1, ''e2'', '''') \<and> ev_hash e = ev_hash (upsertParams (\<lambda>s. s) 1 sample_pull)"
proof -
  have "events_wf sync_db" "plain_ids (event_rows sync_db) [sample_pull]"
    by (simp_all add: events_wf_def ids_ok_def plain_ids_def sample_pull_def sample_event_def)
  from sync_stores_the_pull [OF sample_sync this]
  have "\<exists>e \<in> event_rows synced_db. event_key e = pulled_key 1 sample_pull \<and>
      ev_hash e = ev_hash (upsertParams (ex_sha sample_externals) 1 sample_pull)" by simp
  moreover have "ex_sha sample_externals = (\<lambda>s. s)" "pulled_key 1 sample_pull = (1, 1, ''e2'', [])"
    by (simp_all add: sample_externals_def pulled_key_def sample_start)
  ultimately show ?thesis by (simp add: sample_sync)
qed

text \<open>
  C30. Syncing the same pull again finds nothing to do: after a sync that succeeded, a second one that
  succeeds counts every pulled event as unchanged, and none as added or updated.
\<close>

theorem syncing_again_changes_nothing:
  assumes "SyncEvents ex p incoming d = (Inr res, d')" "events_wf d" "plain_ids (event_rows d) incoming"
    and "distinct (map (pulled_key p) incoming)" "SyncEvents ex p incoming d' = (Inr res', d'')"
  shows "sr_added res' = 0 \<and> sr_updated res' = 0 \<and> sr_unchanged res' = int (length incoming)"
  using resync_outcome [OF assms] by (simp add: merged_parts_def)

theorem syncing_again_changes_nothing_witness:
  "\<exists>res d'. SyncEvents sample_externals 1 [sample_pull] (state_of (SyncEvents sample_externals 1 [sample_pull] sync_db)) =
     (Inr res, d') \<and> sr_added res = 0 \<and> sr_unchanged res = 1"
proof -
  have "events_wf sync_db" "plain_ids (event_rows sync_db) [sample_pull]"
    by (simp_all add: events_wf_def ids_ok_def plain_ids_def sample_pull_def sample_event_def)
  from syncing_again_changes_nothing [OF sample_sync this _ sample_resync]
  have "sr_added (no_changes\<lparr>sr_unchanged := 1\<rparr>) = 0" by simp
  then show ?thesis
    using sample_resync
    by (intro exI [of _ "no_changes\<lparr>sr_unchanged := 1\<rparr>"] exI [of _ synced_db]) (simp add: sample_sync)
qed

end
