(* ===== verification/Catalog_Properties.thy ===== *)
theory Catalog_Properties
  imports Category_Laws Gapfill Sync_Properties
begin

text \<open>
  The properties of the categories, of their suggestion by a language model, and of gap-fill suggestions.
\<close>


section \<open>Inputs\<close>

definition general_category :: category where
  "general_category = \<lparr>ct_id = 1, ct_name = ''General'', ct_default_gap = True, ct_description = '''',
     ct_key = ''GEN'', ct_color = ''#64748B'', ct_archived = None\<rparr>"

definition catalog_db :: "category list \<Rightarrow> db" where
  "catalog_db cs = empty_db\<lparr>db_categories := \<lparr>tbl_rows = general_category # cs, tbl_seq = 1 + int (length cs)\<rparr>\<rparr>"

definition client_input :: category_input where
  "client_input = \<lparr>ci_name = '' Client '', ci_description = '''', ci_key = '''', ci_color = '''', ci_gap = True\<rparr>"

lemma catalog_wf: "categories_wf (db_categories (catalog_db []))"
  by (simp add: catalog_db_def categories_wf_def ids_ok_def unique_in_def category_ok_def general_category_def CategoryPalette_def)

lemma client_run: "\<exists>d'. CreateCategory client_input (catalog_db []) = (Inr \<lparr>ct_id = 2, ct_name = ''Client'', ct_default_gap = True,
    ct_description = '''', ct_key = ''Client'', ct_color = ''#64748B'', ct_archived = None\<rparr>, d')"
proof -
  have "trim_space '' Client '' = ''Client''" "trim_space [] = []" "stored_color [] = Inr ''#64748B''" by code_simp+
  moreover have "normalizeCategoryKey ''Client'' [] = ''Client''" by code_simp
  ultimately show ?thesis
    by (simp add: CreateCategory_def client_input_def act_seq_def act_bind_def in_tx_def mapErr_def q_ClearDefaultGap_def update_category_def
        update_where_def q_CreateCategory_def insert_into_def Let_def ct_ok_def alone_def catalog_db_def general_category_def)
qed


section \<open>Properties\<close>

text \<open>
  C31. However categories are created, updated, deleted and archived, one after the other and whether the
  operations succeed or fail, they stay well-formed: exactly one is the default for gaps, names
  and keys are unique and not empty, and every color is one of the palette.
\<close>

theorem categories_stay_well_formed:
  assumes "category_step\<^sup>*\<^sup>* d d'" "categories_wf (db_categories d)"
  shows "categories_wf (db_categories d') \<and> (\<exists>!c. c \<in> set (tbl_rows (db_categories d')) \<and> ct_default_gap c)"
proof
  show wf: "categories_wf (db_categories d')"
    using assms by (induction rule: rtranclp_induct) (auto intro: category_step_wf)
  then obtain c where c: "filter ct_default_gap (tbl_rows (db_categories d')) = [c]"
    by (auto simp: categories_wf_def length_Suc_conv)
  have "x \<in> set (filter ct_default_gap (tbl_rows (db_categories d'))) \<longleftrightarrow> x = c" for x unfolding c by simp
  then show "\<exists>!c. c \<in> set (tbl_rows (db_categories d')) \<and> ct_default_gap c"
    by (intro ex1I [of _ c]) simp_all
qed

theorem categories_stay_well_formed_witness:
  "\<exists>!c. c \<in> set (tbl_rows (db_categories (state_of (CreateCategory client_input (catalog_db []))))) \<and> ct_default_gap c"
proof -
  have "category_step\<^sup>*\<^sup>* (catalog_db []) (state_of (CreateCategory client_input (catalog_db [])))"
    by (rule r_into_rtranclp, rule category_step.create, rule surjective_pairing)
  from categories_stay_well_formed [OF this catalog_wf] show ?thesis by simp
qed

text \<open>
  C32. A category is deleted only if it is not the default for gaps and no overlay, memory,
  calendar or time entry refers to it. Then exactly its row goes: no reference is cleared and no other part of
  the database changes.
\<close>

theorem deleting_a_category:
  assumes "DeleteCategory i d = (Inr u, d')"
  shows "(\<exists>c. q_GetCategory i d = Some c \<and> \<not> ct_default_gap c) \<and>
    (\<forall>e \<in> ledger d. te_category e \<noteq> Some i) \<and> (\<forall>o' \<in> set (tbl_rows (db_overlays d)). ov_category o' \<noteq> Some i) \<and>
    (\<forall>c \<in> set (tbl_rows (db_calendars d)). cl_category c \<noteq> Some i) \<and> (\<forall>m \<in> set (db_memory d). me_category m \<noteq> i) \<and>
    d' = d\<lparr>db_categories := (db_categories d)\<lparr>tbl_rows := filter (\<lambda>c. ct_id c \<noteq> i) (tbl_rows (db_categories d))\<rparr>\<rparr>"
  using delete_category_run [OF assms] unused_category [of i d] by (auto simp: ledger_def)

theorem deleting_a_category_witness:
  "db_categories (state_of (DeleteCategory 2 (catalog_db [general_category\<lparr>ct_id := 2, ct_default_gap := False\<rparr>]))) =
     \<lparr>tbl_rows = [general_category], tbl_seq = 2\<rparr>"
proof -
  let ?d = "catalog_db [general_category\<lparr>ct_id := 2, ct_default_gap := False\<rparr>]"
  have "\<not> categoryInUse 2 ?d"
    by (simp add: categoryInUse_def q_CountOverlayReferencesToCategory_def q_CountMemoryReferencesToCategory_def
        q_CountCalendarReferencesToCategory_def q_CountTimeEntryReferencesToCategory_def count_rows_def catalog_db_def
        empty_db_def empty_table_def)
  moreover have "q_GetCategory 2 ?d = Some (general_category\<lparr>ct_id := 2, ct_default_gap := False\<rparr>)"
    by (simp add: q_GetCategory_def find_row_def catalog_db_def general_category_def)
  ultimately have run: "DeleteCategory 2 ?d = (Inr (), state_of (DeleteCategory 2 ?d))"
    by (simp add: DeleteCategory_def act_bind_def act_seq_def q_DeleteCategory_def delete_where_def Let_def mapErr_def get_one_def)
  from deleting_a_category [OF run] have "state_of (DeleteCategory 2 ?d) = ?d\<lparr>db_categories := (db_categories ?d)
      \<lparr>tbl_rows := filter (\<lambda>c. ct_id c \<noteq> 2) (tbl_rows (db_categories ?d))\<rparr>\<rparr>" by blast
  then show ?thesis by (simp add: catalog_db_def general_category_def)
qed

text \<open>
  C33. What a cloud model is not permitted to see has no effect: where the endpoint is not on the
  device, two events with the same identity that agree on their duration and on the fields the
  privacy settings permit are categorized alike, whatever else is in them.
\<close>

theorem suggestions_are_private:
  assumes "loadAIConfig d = Some (url, model)" "\<not> ex_local ex url" "loadPrivacyFields d = Inr allowed"
    and "ie_provider inc = ie_provider inc'" "ie_external inc = ie_external inc'" "ie_instance inc = ie_instance inc'"
    and "ec_duration (buildEventContext inc) = ec_duration (buildEventContext inc')"
    and "pf_title allowed \<longrightarrow> ie_title inc = ie_title inc'" "pf_description allowed \<longrightarrow> ie_description inc = ie_description inc'"
    and "pf_location allowed \<longrightarrow> ie_location inc = ie_location inc'"
    and "pf_attendees allowed \<longrightarrow> ie_attendees inc = ie_attendees inc'"
  shows "applyAISuggestion ex p inc d = applyAISuggestion ex p inc' d"
proof -
  have "SuggestCategory ask cs (buildEventContext inc) False allowed = SuggestCategory ask cs (buildEventContext inc') False allowed"
    for ask cs
    using assms(7-11) by (intro cloud_sees_minimum) (auto simp: buildEventContext_def)
  moreover have "incoming_has_category p inc d = incoming_has_category p inc' d"
    "category_of_incoming p inc c = category_of_incoming p inc' c" for c
    using assms(4-6) by (simp_all add: incoming_has_category_def category_of_incoming_def)
  ultimately show ?thesis
    using assms(1-3) by (simp add: applyAISuggestion_def act_bind_def split: option.splits)
qed

definition cloud_db :: db where
  "cloud_db = empty_db\<lparr>db_settings := [(''ai.base_url'', JStr ''https://x''), (''ai.model'', JStr ''m''),
     (''privacy.fields'', JObj [(''title'', JBool True)])]\<rparr>"

theorem suggestions_are_private_witness:
  "applyAISuggestion (sample_externals\<lparr>ex_local := (\<lambda>_. False)\<rparr>) 1 sample_pull cloud_db =
   applyAISuggestion (sample_externals\<lparr>ex_local := (\<lambda>_. False)\<rparr>) 1 (sample_pull\<lparr>ie_description := ''secret''\<rparr>) cloud_db"
proof -
  have "trim_space ''https://x'' = ''https://x''" "trim_space ''m'' = ''m''" by code_simp+
  then have "loadAIConfig cloud_db = Some (''https://x'', ''m'')"
    "loadPrivacyFields cloud_db = Inr \<lparr>pf_title = True, pf_attendees = False, pf_description = False, pf_location = False\<rparr>"
    by (simp_all add: loadAIConfig_def readStringSetting_def q_GetSetting_def cloud_db_def loadPrivacyFields_def bool_member_def)
  then show ?thesis
    by (intro suggestions_are_private [where url = "''https://x''" and model = "''m''" and
        allowed = "\<lparr>pf_title = True, pf_attendees = False, pf_description = False, pf_location = False\<rparr>"])
      (simp_all add: buildEventContext_def)
qed

text \<open>
  C21. Filling a gap: let the model's reply hold a JSON object, in prose that has no opening brace
  before it and no closing brace after it, in a code fence or not and with any space around, and let the
  members key, category and description of the object, in any order and case and among others, be
  texts, the last of a name counting. When key, or category where key is blank, names a category of the
  user, however quoted and in whatever case, and no other category has that key, then that category is suggested
  with the trimmed description and the number of items of evidence. And where the endpoint is not on
  the device, nothing else of the evidence than provider, kind, summary and source has a part in the
  outcome.
\<close>

theorem gap_fill_suggestion:
  assumes "tw_start window < tw_end window" "loadAIConfig d = Some (url, model)"
    and reply: "chat url model (loadAIMaxTokens d) (categoryDefinitionsForAI (ListCategories d)) (constToGapContext window)
      (buildEvidencePayload (AggregateEvidence providers window) (onDevice url)) = Some (pre @ CHR ''{'' # body @ CHR ''}'' # post)"
    and prose: "CHR ''{'' \<notin> set pre" "CHR ''}'' \<notin> set post"
    and object: "parse (CHR ''{'' # body @ ''}'') = Some (JObj kvs)"
      "\<forall>(k, v) \<in> set kvs. to_lower k \<in> {''key'', ''category'', ''description''} \<longrightarrow> (\<exists>s. v = JStr s)"
    and named: "k = (if trim_quotes (last_text ''key'' kvs '''') = '''' then trim_quotes (last_text ''category'' kvs '''') else trim_quotes (last_text ''key'' kvs ''''))"
      "c \<in> set (ListCategories d)" "equal_fold k (ct_key c)" "k \<noteq> ''''"
      "\<forall>x \<in> set (ListCategories d). equal_fold (ct_key x) (ct_key c) \<longrightarrow> x = c"
  shows "SuggestGapFill onDevice chat parse providers window d = Inr \<lparr>gs_category = ct_name c,
        gs_description = trim_space (last_text ''description'' kvs ''''), gs_count = length (AggregateEvidence providers window)\<rparr> \<and>
    (\<not> onDevice url \<and> map public_part (AggregateEvidence qs window) = map public_part (AggregateEvidence providers window) \<longrightarrow>
       SuggestGapFill onDevice chat parse qs window d = SuggestGapFill onDevice chat parse providers window d)"
proof
  let ?cs = "ListCategories d" and ?r = "pre @ CHR ''{'' # body @ CHR ''}'' # post"
  let ?def = "\<lparr>cd_key = ct_key c, cd_name = ct_name c, cd_description = ct_description c\<rparr>"
  have object': "parse_reply parse (extractJSONObject ?r) = Some \<lparr>gr_key = last_text ''key'' kvs '''',
      gr_category = last_text ''category'' kvs '''', gr_description = last_text ''description'' kvs ''''\<rparr>"
    by (simp add: extracts_object [OF prose] parse_reply_def object(1) read_members [OF object(2)])
  have trimmed: "trim_quotes k = k" by (simp add: named(1))
  have "MatchCategoryKey (trim_quotes k) (categoryDefinitionsForAI ?cs) = Some (cd_key ?def)"
    using named(2-5) by (intro match_own_key) (auto simp: categoryDefinitionsForAI_def trimmed)
  then have "MatchCategoryKey k (categoryDefinitionsForAI ?cs) = Some (cd_key ?def)" unfolding trimmed .
  then have "ai_SuggestGapFill (chat url model (loadAIMaxTokens d)) parse (categoryDefinitionsForAI ?cs) (constToGapContext window)
      (buildEvidencePayload (AggregateEvidence providers window) (onDevice url)) (onDevice url) =
      Some (ct_key c, trim_space (last_text ''description'' kvs ''''))"
    using reply object' named(2,4) unfolding named(1)
    by (auto simp: ai_SuggestGapFill_def minimal_payload Let_def categoryDefinitionsForAI_def)
  moreover have "resolveCategoryKey ?cs (ct_key c) = Some c" using named by (intro resolve_own_key) auto
  ultimately show "SuggestGapFill onDevice chat parse providers window d = Inr \<lparr>gs_category = ct_name c,
        gs_description = trim_space (last_text ''description'' kvs ''''), gs_count = length (AggregateEvidence providers window)\<rparr>"
    using assms(1,2) by (simp add: SuggestGapFill_def Let_def)
  show "\<not> onDevice url \<and> map public_part (AggregateEvidence qs window) = map public_part (AggregateEvidence providers window) \<longrightarrow>
       SuggestGapFill onDevice chat parse qs window d = SuggestGapFill onDevice chat parse providers window d"
    using remote_sees_public_part [of qs window providers onDevice d] assms(2) by simp
qed

definition gap_db :: db where
  "gap_db = (catalog_db [])\<lparr>db_settings := db_settings cloud_db\<rparr>"

theorem gap_fill_suggestion_witness:
  "SuggestGapFill (\<lambda>_. False) (\<lambda>_ _ _ _ _ _. Some (replicate 3 (CHR 0x60) @ ''json {x} '' @ replicate 3 (CHR 0x60)))
     (\<lambda>_. Some (JObj [(''Description'', JStr ''notes ''), (''why'', JNull), (''key'', JStr '' gen'')])) []
     \<lparr>tw_start = 0, tw_end = 1\<rparr> gap_db =
   Inr \<lparr>gs_category = ''General'', gs_description = ''notes'', gs_count = 0\<rparr>"
proof -
  let ?reply = "replicate 3 (CHR 0x60) @ ''json {x} '' @ replicate 3 (CHR 0x60)"
  let ?kvs = "[(''Description'', JStr ''notes ''), (''why'', JNull), (''key'', JStr '' gen'')]"
  have texts: "trim_space ''https://x'' = ''https://x''" "trim_space ''m'' = ''m''" "trim_space ''notes '' = ''notes''"
    "trim_quotes '' gen'' = ''gen''" "equal_fold ''gen'' ''GEN''" by code_simp+
  have settings: "loadAIConfig gap_db = Some (''https://x'', ''m'')"
    using texts by (simp add: loadAIConfig_def readStringSetting_def q_GetSetting_def gap_db_def cloud_db_def)
  have cats: "ListCategories gap_db = [general_category]"
    by (simp add: ListCategories_def q_ListCategories_def select_rows_def gap_db_def catalog_db_def general_category_def)
  have lower: "to_lower ''why'' = ''why''" by code_simp
  have members: "last_text ''key'' ?kvs '''' = '' gen''" "last_text ''description'' ?kvs '''' = ''notes ''"
    by (simp_all add: last_text_def List.map_filter_simps) code_simp+
  show ?thesis
    using gap_fill_suggestion [where onDevice = "\<lambda>_. False" and chat = "\<lambda>_ _ _ _ _ _. Some ?reply"
        and parse = "\<lambda>_. Some (JObj ?kvs)" and providers = "[]" and kvs = ?kvs
        and window = "\<lparr>tw_start = 0, tw_end = 1\<rparr>" and pre = "replicate 3 (CHR 0x60) @ ''json ''" and body = "''x''"
        and post = "'' '' @ replicate 3 (CHR 0x60)"
        and c = general_category and k = "''gen''", OF _ settings] texts cats members lower
    by (simp add: AggregateEvidence_def general_category_def List.map_filter_simps)
qed

end
