(* ===== verification/Export.thy ===== *)
theory Export
  imports Gaps Categories
begin

text \<open>
  The period export: internal/service/export.go and export_plain_data.go. Only confirmed entries
  are exported, with their minutes of the local day. The maps of minutes by category are
  association lists in the order of insertion; Go sorts their values by name, and values with one
  name, whose order Go leaves open, stay in that order here. Go's \<open>int\<close> is unbounded here.
\<close>

section \<open>The export model\<close>

abbreviation ExportTemplateMatrixCSV :: string where "ExportTemplateMatrixCSV \<equiv> ''matrix_csv''"
abbreviation ExportTemplateFlatDailyCSV :: string where "ExportTemplateFlatDailyCSV \<equiv> ''flat_daily_csv''"
abbreviation ExportTemplateDetailEntriesCSV :: string where "ExportTemplateDetailEntriesCSV \<equiv> ''detail_entries_csv''"
abbreviation ExportTemplateTextSummary :: string where "ExportTemplateTextSummary \<equiv> ''text_summary''"
abbreviation unassignedCategoryName :: string where "unassignedCategoryName \<equiv> ''Unassigned''"
abbreviation scheduleEndMinutes :: int where "scheduleEndMinutes \<equiv> 24 * 60"
abbreviation minBlockMinutes :: int where "minBlockMinutes \<equiv> 15"

record export_category =
  xc_id :: "int option"
  xc_name :: string
  xc_key :: string
  xc_color :: string

record export_entry =
  xe_source :: string
  xe_source_id :: int
  xe_day :: string
  xe_start :: int
  xe_end :: int
  xe_minutes :: int
  xe_title :: string
  xe_description :: string
  xe_category :: export_category
  xe_work_type :: string
  xe_project_name :: string
  xe_project_key :: string
  xe_billable :: string

record category_minutes =
  cm_category :: export_category
  cm_minutes :: int

record day_totals =
  dy_date :: string
  dy_categories :: "category_minutes list"
  dy_actual :: int
  dy_target :: int

record period_export =
  px_period :: int
  px_label :: string
  px_start :: string
  px_end :: string
  px_target :: int
  px_actual :: int
  px_days :: "string list"
  px_entries :: "export_entry list"
  px_daily :: "day_totals list"
  px_totals :: "category_minutes list"

record export_render =
  xr_filename :: string
  xr_content :: string
  xr_format :: string

definition ListExportTemplates :: "db \<Rightarrow> export_template list" where
  "ListExportTemplates d = q_ListExportTemplates d"

definition GetExportTemplate :: "string \<Rightarrow> db \<Rightarrow> go_error + export_template" where
  "GetExportTemplate key d = res_the ErrNotFound (q_GetExportTemplateByKey key d)"


section \<open>Exporting an entry\<close>

text \<open>A Go map built from a list by id: the last row with an id wins.\<close>

definition by_id :: "('r \<Rightarrow> int) \<Rightarrow> 'r list \<Rightarrow> int \<Rightarrow> 'r option" where
  "by_id key rows i = map_of (rev (map (\<lambda>r. (key r, r)) rows)) i"

definition unassigned :: export_category where
  "unassigned = \<lparr>xc_id = None, xc_name = unassignedCategoryName, xc_key = unassignedCategoryName, xc_color = ''''\<rparr>"

definition resolveExportCategory :: "int option \<Rightarrow> category list \<Rightarrow> export_category" where
  "resolveExportCategory i cats =
     (case i of None \<Rightarrow> unassigned | Some i \<Rightarrow>
        (case by_id ct_id cats i of
           None \<Rightarrow> unassigned
         | Some c \<Rightarrow> \<lparr>xc_id = Some (ct_id c), xc_name = ct_name c, xc_key = ct_key c, xc_color = ct_color c\<rparr>))"

definition resolveExportProject :: "int option \<Rightarrow> project list \<Rightarrow> string \<times> string" where
  "resolveExportProject i ps =
     (case i of None \<Rightarrow> ('''', '''') | Some i \<Rightarrow>
        (case by_id pj_id ps i of None \<Rightarrow> ('''', '''') | Some p \<Rightarrow> (pj_name p, pj_key p)))"

definition zonedDateTimeParts :: "instant \<Rightarrow> location \<Rightarrow> string \<times> int" where
  "zonedDateTimeParts t loc = (format_date (local_day loc t), local_minutes loc t)"

text \<open>The day an entry is exported on before its own start decides, and the zone of that day.\<close>

definition entry_day_zone ::
    "tzdb \<Rightarrow> tz_segment list \<Rightarrow> time_entry \<Rightarrow> instant \<Rightarrow> go_error + string \<times> string" where
  "entry_day_zone tz segs te start =
     (if segs = [] then Inr (te_day te, ''UTC'')
      else res_bind
        (if te_day te \<noteq> '''' then Inr (te_day te)
         else res_bind (loadLoc tz (sg_tz (hd segs))) (\<lambda>loc. Inr (fst (zonedDateTimeParts start loc))))
        (\<lambda>day. Inr (day, sg_tz (activeSegment segs day))))"

definition timeEntryToExportEntry ::
    "tzdb \<Rightarrow> time_entry \<Rightarrow> tz_segment list \<Rightarrow> category list \<Rightarrow> project list \<Rightarrow> go_error + export_entry option" where
  "timeEntryToExportEntry tz te segs cats ps =
     (let start = parseTime (te_start te); stop = parseTime (te_end te) in
      if start = zero_time \<or> stop = zero_time then Inr None
      else res_bind (entry_day_zone tz segs te start) (\<lambda>(day, zone).
        res_bind (loadLoc tz zone) (\<lambda>loc.
          let (startDay, startMinutes) = zonedDateTimeParts start loc;
              (endDay, endMinutes) = zonedDateTimeParts stop loc;
              day = (if day = '''' then startDay else day);
              endMinutes = (if endDay \<noteq> startDay then scheduleEndMinutes else endMinutes);
              endMinutes = max (startMinutes + minBlockMinutes) endMinutes;
              cat = resolveExportCategory (te_category te) cats;
              title = (if te_description te = '''' then xc_name cat else te_description te);
              (pname, pkey) = resolveExportProject (te_project te) ps
          in Inr (Some \<lparr>xe_source = ''time_entry'', xe_source_id = te_id te, xe_day = day,
               xe_start = startMinutes, xe_end = endMinutes, xe_minutes = endMinutes - startMinutes,
               xe_title = title, xe_description = te_description te, xe_category = cat,
               xe_work_type = te_work_type te, xe_project_name = pname, xe_project_key = pkey,
               xe_billable = te_billable te\<rparr>))))"

definition periodDateRange :: "string \<Rightarrow> string \<Rightarrow> go_error + string list" where
  "periodDateRange s e =
     res_bind (res_the ErrOther (parse_date s)) (\<lambda>a.
     res_bind (res_the ErrOther (parse_date e)) (\<lambda>b.
       if b < a then Inl ErrOther else Inr (map format_date [a..b])))"


section \<open>Totals\<close>

definition categoryIdentity :: "export_category \<Rightarrow> string" where
  "categoryIdentity c = (if xc_key c \<noteq> '''' then xc_key c else xc_name c)"

fun addCategoryMinutes ::
    "string \<Rightarrow> export_category \<Rightarrow> int \<Rightarrow> (string \<times> category_minutes) list \<Rightarrow> (string \<times> category_minutes) list" where
  "addCategoryMinutes i c n [] = [(i, \<lparr>cm_category = c, cm_minutes = n\<rparr>)]"
| "addCategoryMinutes i c n ((j, cur) # rest) =
     (if j = i then (j, cur\<lparr>cm_minutes := cm_minutes cur + n\<rparr>) # rest
      else (j, cur) # addCategoryMinutes i c n rest)"

definition add_entry :: "export_entry \<Rightarrow> (string \<times> category_minutes) list \<Rightarrow> (string \<times> category_minutes) list" where
  "add_entry e = addCategoryMinutes (categoryIdentity (xe_category e)) (xe_category e) (xe_minutes e)"

definition category_totals :: "export_entry list \<Rightarrow> (string \<times> category_minutes) list" where
  "category_totals es = fold add_entry es []"

definition sortedCategoryMinutes :: "(string \<times> category_minutes) list \<Rightarrow> category_minutes list" where
  "sortedCategoryMinutes src = sort_key (\<lambda>c. xc_name (cm_category c)) (map snd src)"

definition month_names :: "string list" where
  "month_names = [''Jan'', ''Feb'', ''Mar'', ''Apr'', ''May'', ''Jun'', ''Jul'', ''Aug'', ''Sep'', ''Oct'', ''Nov'', ''Dec'']"

definition formatShortDate :: "string \<Rightarrow> string" where
  "formatShortDate s = (case parse_date s of None \<Rightarrow> s | Some n \<Rightarrow>
     (case civil_of_day n of (y, m, d) \<Rightarrow> month_names ! nat (m - 1) @ '' '' @ show_int d))"

definition formatPeriodLabel :: "string \<Rightarrow> string \<Rightarrow> string" where
  "formatPeriodLabel s e = formatShortDate s @ ''-'' @ formatShortDate e"

text \<open>One day: its entries in the order they are exported.\<close>

definition day_total :: "expected_time list \<Rightarrow> export_entry list \<Rightarrow> string \<Rightarrow> day_totals" where
  "day_total expected es day =
     (let cats = sortedCategoryMinutes (category_totals (filter (\<lambda>e. xe_day e = day) es))
      in \<lparr>dy_date = day, dy_categories = cats, dy_actual = sum_list (map cm_minutes cats),
          dy_target = (case map_of (rev (map (\<lambda>et. (et_date et, et_minutes et)) expected)) day of
             None \<Rightarrow> 0 | Some n \<Rightarrow> n)\<rparr>)"

definition BuildPeriodExport :: "tzdb \<Rightarrow> int \<Rightarrow> db \<Rightarrow> go_error + period_export" where
  "BuildPeriodExport tz p d =
     res_bind (res_the ErrNotFound (q_GetPeriod p d)) (\<lambda>pd.
       let segs = ListTzSegments p d;
           cats = map fst (ListAllCategories d); ps = map fst (ListAllProjects d);
           confirmed = filter (\<lambda>te. te_attestation te = ''confirmed'') (q_ListTimeEntriesForPeriod p d)
       in res_bind (res_each (\<lambda>te. timeEntryToExportEntry tz te segs cats ps) confirmed) (\<lambda>exported.
          res_bind (periodDateRange (pd_start pd) (pd_end pd)) (\<lambda>days.
          res_bind (ExpectedTimeForRange (pd_start pd) (pd_end pd) d) (\<lambda>expected.
            let es = List.map_filter (\<lambda>x. x) exported
            in Inr \<lparr>px_period = pd_id pd, px_label = formatPeriodLabel (pd_start pd) (pd_end pd),
                 px_start = pd_start pd, px_end = pd_end pd,
                 px_target = sum_list (map et_minutes expected), px_actual = sum_list (map xe_minutes es),
                 px_days = days, px_entries = es, px_daily = map (day_total expected es) days,
                 px_totals = sortedCategoryMinutes (category_totals es)\<rparr>))))"


section \<open>Texts\<close>

definition formatExportDuration :: "int \<Rightarrow> string" where
  "formatExportDuration n =
     (let hours = go_div n 60; minutes = go_mod n 60 in
      if hours = 0 then show_int minutes @ ''m''
      else if minutes = 0 then show_int hours @ ''h''
      else show_int hours @ ''h '' @ show_int minutes @ ''m'')"

definition formatSignedExportDuration :: "int \<Rightarrow> string" where
  "formatSignedExportDuration n = (if n < 0 then ''-'' else ''+'') @ formatExportDuration \<bar>n\<bar>"

text \<open>\<open>%02d\<close> and \<open>%.2f\<close> of minutes over sixty, rounded to the nearest hundredth (never a tie).\<close>

definition pad_two :: "int \<Rightarrow> string" where
  "pad_two n = (if n < 0 then show_int n else if n < 10 then ''0'' @ show_int n else show_int n)"

definition exportEntryDateTime :: "string \<Rightarrow> int \<Rightarrow> string" where
  "exportEntryDateTime day n = day @ ''T'' @ pad_two (go_div n 60) @ '':'' @ pad_two (go_mod n 60)"

definition hundredths :: "int \<Rightarrow> int" where
  "hundredths n = (10 * \<bar>n\<bar> + 3) div 6"

definition minutesToDecimalHours :: "int \<Rightarrow> string" where
  "minutesToDecimalHours n = (if n < 0 then ''-'' else '''') @
     show_int (hundredths n div 100) @ ''.'' @ pad_two (hundredths n mod 100)"

definition defaultExportFilename :: "period_export \<Rightarrow> string" where
  "defaultExportFilename m = ''shiet-'' @ px_start m @ ''-to-'' @ px_end m @ ''.csv''"

definition defaultExportTextFilename :: "period_export \<Rightarrow> string" where
  "defaultExportTextFilename m = ''shiet-'' @ px_start m @ ''-to-'' @ px_end m @ ''.txt''"



section \<open>export_plain_data.go\<close>

text \<open>The values a text template sees: maps, slices and scalars.\<close>

datatype plain =
    PNil
  | PInt int
  | PText string
  | PList "plain list"
  | PMap "(string \<times> plain) list"

definition plainExportCategory :: "export_category \<Rightarrow> plain" where
  "plainExportCategory c = PMap
     [(''ID'', case xc_id c of None \<Rightarrow> PNil | Some i \<Rightarrow> PInt i), (''Name'', PText (xc_name c)),
      (''Key'', PText (xc_key c)), (''Color'', PText (xc_color c))]"

definition plainExportCategoryMinutes :: "category_minutes list \<Rightarrow> plain" where
  "plainExportCategoryMinutes cs = PList (map (\<lambda>c. PMap
     [(''Category'', plainExportCategory (cm_category c)), (''Minutes'', PInt (cm_minutes c))]) cs)"

definition plainExportDayTotals :: "day_totals list \<Rightarrow> plain" where
  "plainExportDayTotals ds = PList (map (\<lambda>d. PMap
     [(''Date'', PText (dy_date d)), (''Categories'', plainExportCategoryMinutes (dy_categories d)),
      (''ActualMinutes'', PInt (dy_actual d)), (''TargetMinutes'', PInt (dy_target d))]) ds)"

definition plainExportEntries :: "export_entry list \<Rightarrow> plain" where
  "plainExportEntries es = PList (map (\<lambda>e. PMap
     [(''Source'', PText (xe_source e)), (''SourceID'', PInt (xe_source_id e)), (''Day'', PText (xe_day e)),
      (''StartMinutes'', PInt (xe_start e)), (''EndMinutes'', PInt (xe_end e)), (''Minutes'', PInt (xe_minutes e)),
      (''Title'', PText (xe_title e)), (''Description'', PText (xe_description e)),
      (''Category'', plainExportCategory (xe_category e)), (''WorkType'', PText (xe_work_type e)),
      (''ProjectName'', PText (xe_project_name e)), (''ProjectKey'', PText (xe_project_key e)),
      (''BillableStatus'', PText (xe_billable e))]) es)"

definition PlainPeriodExportData :: "period_export \<Rightarrow> plain" where
  "PlainPeriodExportData m = PMap
     [(''PeriodID'', PInt (px_period m)), (''PeriodLabel'', PText (px_label m)),
      (''StartDate'', PText (px_start m)), (''EndDate'', PText (px_end m)),
      (''TargetMinutes'', PInt (px_target m)), (''ActualMinutes'', PInt (px_actual m)),
      (''VarianceMinutes'', PInt (px_actual m - px_target m)), (''Days'', PList (map PText (px_days m))),
      (''Entries'', plainExportEntries (px_entries m)), (''DailyTotals'', plainExportDayTotals (px_daily m)),
      (''PeriodTotals'', plainExportCategoryMinutes (px_totals m))]"

end
