(* ===== verification/Export_Laws.thy ===== *)
theory Export_Laws
  imports Export Review_Laws
begin

text \<open>
  Laws of the period export (Export): the totals by category and by day against the entries, and
  the minutes an entry is exported with.
\<close>

section \<open>Totals\<close>

lemma sorted_minutes:
  "sum_list (map cm_minutes (sortedCategoryMinutes src)) = sum_list (map (cm_minutes \<circ> snd) src)"
proof -
  have "mset (map cm_minutes (sortedCategoryMinutes src)) = mset (map (cm_minutes \<circ> snd) src)"
    by (simp add: sortedCategoryMinutes_def image_mset.compositionality)
  then show ?thesis by (metis sum_mset_sum_list)
qed

lemma add_minutes_sum:
  "sum_list (map (cm_minutes \<circ> snd) (addCategoryMinutes i c n src)) = sum_list (map (cm_minutes \<circ> snd) src) + n"
  by (induction i c n src rule: addCategoryMinutes.induct) auto

lemma add_minutes_keys: "fst ` set (addCategoryMinutes i c n src) = insert i (fst ` set src)"
  by (induction i c n src rule: addCategoryMinutes.induct) auto

lemma add_minutes_distinct: "distinct (map fst src) \<Longrightarrow> distinct (map fst (addCategoryMinutes i c n src))"
  using add_minutes_keys by (induction i c n src rule: addCategoryMinutes.induct) (force simp: image_iff)+

definition minutes_of :: "string \<Rightarrow> (string \<times> category_minutes) list \<Rightarrow> int" where
  "minutes_of i src = sum_list (map (cm_minutes \<circ> snd) (filter (\<lambda>kv. fst kv = i) src))"

lemma add_minutes_of: "distinct (map fst src) \<Longrightarrow> minutes_of j (addCategoryMinutes i c n src) = minutes_of j src + (if j = i then n else 0)"
  by (induction i c n src rule: addCategoryMinutes.induct) (auto simp: minutes_of_def)

lemma add_minutes_identity:
  "\<forall>(k, v) \<in> set src. categoryIdentity (cm_category v) = k \<Longrightarrow> categoryIdentity c = i \<Longrightarrow>
    \<forall>(k, v) \<in> set (addCategoryMinutes i c n src). categoryIdentity (cm_category v) = k"
  by (induction i c n src rule: addCategoryMinutes.induct) auto

lemma category_totals_fold:
  "distinct (map fst src) \<Longrightarrow> \<forall>(k, v) \<in> set src. categoryIdentity (cm_category v) = k \<Longrightarrow>
   distinct (map fst (fold add_entry es src)) \<and>
   (\<forall>(k, v) \<in> set (fold add_entry es src). categoryIdentity (cm_category v) = k) \<and>
   fst ` set (fold add_entry es src) = fst ` set src \<union> (\<lambda>e. categoryIdentity (xe_category e)) ` set es \<and>
   sum_list (map (cm_minutes \<circ> snd) (fold add_entry es src)) = sum_list (map (cm_minutes \<circ> snd) src) + sum_list (map xe_minutes es) \<and>
   minutes_of j (fold add_entry es src) = minutes_of j src +
     sum_list (map xe_minutes (filter (\<lambda>e. categoryIdentity (xe_category e) = j) es))"
proof (induction es arbitrary: src)
  case (Cons e es)
  let ?src = "add_entry e src"
  have "distinct (map fst ?src)" "\<forall>(k, v) \<in> set ?src. categoryIdentity (cm_category v) = k"
    using Cons.prems by (auto simp: add_entry_def add_minutes_distinct dest: add_minutes_identity)
  note ih = Cons.IH [OF this]
  have src: "fst ` set ?src = insert (categoryIdentity (xe_category e)) (fst ` set src)"
    "sum_list (map (cm_minutes \<circ> snd) ?src) = sum_list (map (cm_minutes \<circ> snd) src) + xe_minutes e"
    "minutes_of j ?src = minutes_of j src + (if j = categoryIdentity (xe_category e) then xe_minutes e else 0)"
    using Cons.prems(1) by (simp_all add: add_entry_def add_minutes_keys add_minutes_sum add_minutes_of)
  have fold: "fold add_entry (e # es) src = fold add_entry es ?src" by simp
  show ?case unfolding fold using ih unfolding src by (auto simp: comp_def)
qed simp

lemma category_totals_laws:
  "distinct (map fst (category_totals es))" "(k, v) \<in> set (category_totals es) \<Longrightarrow> categoryIdentity (cm_category v) = k"
  "fst ` set (category_totals es) = (\<lambda>e. categoryIdentity (xe_category e)) ` set es"
  "sum_list (map (cm_minutes \<circ> snd) (category_totals es)) = sum_list (map xe_minutes es)"
  "minutes_of j (category_totals es) = sum_list (map xe_minutes (filter (\<lambda>e. categoryIdentity (xe_category e) = j) es))"
  using category_totals_fold [of "[]" es j] unfolding category_totals_def by (auto simp: minutes_of_def)

lemma minutes_of_member: "distinct (map fst src) \<Longrightarrow> (k, v) \<in> set src \<Longrightarrow> minutes_of k src = cm_minutes v"
proof (induction src)
  case (Cons kv src)
  then show ?case
  proof (cases "kv = (k, v)")
    case True
    then have "filter (\<lambda>kv. fst kv = k) src = []" using Cons.prems by (auto simp: filter_empty_conv image_iff)
    then show ?thesis using True by (simp add: minutes_of_def)
  next
    case False
    then have "fst kv \<noteq> k" using Cons.prems by (auto simp: image_iff)
    then show ?thesis using Cons False by (auto simp: minutes_of_def)
  qed
qed simp

text \<open>Each total is the minutes of the entries of its category, and together they are all the minutes.\<close>

lemma totals_of_entries:
  "sum_list (map cm_minutes (sortedCategoryMinutes (category_totals es))) = sum_list (map xe_minutes es)"
  "c \<in> set (sortedCategoryMinutes (category_totals es)) \<Longrightarrow>
     cm_minutes c = sum_list (map xe_minutes (filter (\<lambda>e. categoryIdentity (xe_category e) = categoryIdentity (cm_category c)) es))"
proof -
  show "sum_list (map cm_minutes (sortedCategoryMinutes (category_totals es))) = sum_list (map xe_minutes es)"
    by (simp add: sorted_minutes category_totals_laws)
  assume "c \<in> set (sortedCategoryMinutes (category_totals es))"
  then obtain k where k: "(k, c) \<in> set (category_totals es)" by (auto simp: sortedCategoryMinutes_def)
  then show "cm_minutes c = sum_list (map xe_minutes (filter (\<lambda>e. categoryIdentity (xe_category e) = categoryIdentity (cm_category c)) es))"
    using minutes_of_member [OF category_totals_laws(1) k] category_totals_laws(2) [OF k] category_totals_laws(5) [of k es] by simp
qed

text \<open>Over distinct days that contain the day of every entry, nothing is counted twice or lost.\<close>

lemma sum_by_day:
  assumes "distinct days" "\<forall>e \<in> set es. xe_day e \<in> set days"
  shows "sum_list (map (\<lambda>day. sum_list (map xe_minutes (filter (\<lambda>e. xe_day e = day) es))) days) = sum_list (map xe_minutes es)"
  using assms(2)
proof (induction es)
  case (Cons e es)
  have "sum_list (map (\<lambda>day. if xe_day e = day then xe_minutes e else 0) days) = xe_minutes e"
    using assms(1) Cons.prems by (simp add: sum_list_distinct_conv_sum_set)
  moreover have "sum_list (map xe_minutes (filter (\<lambda>x. xe_day x = day) (e # es))) =
      (if xe_day e = day then xe_minutes e else 0) + sum_list (map xe_minutes (filter (\<lambda>x. xe_day x = day) es))" for day
    by simp
  ultimately show ?case using Cons by (simp add: sum_list_addf del: filter.simps)
qed simp


section \<open>Exported entries\<close>

lemma exported_Inr:
  assumes "timeEntryToExportEntry tz te segs cats ps = Inr (Some x)"
  obtains loc day zone stop where "entry_day_zone tz segs te (parseTime (te_start te)) = Inr (day, zone)" "loadLoc tz zone = Inr loc"
    "xe_source_id x = te_id te" "xe_category x = resolveExportCategory (te_category te) cats"
    "xe_day x = (if day = '''' then format_date (local_day loc (parseTime (te_start te))) else day)"
    "xe_start x = local_minutes loc (parseTime (te_start te))" "xe_end x = max (xe_start x + 15) stop"
    "xe_minutes x = xe_end x - xe_start x"
    "stop = (if format_date (local_day loc (parseTime (te_end te))) \<noteq> format_date (local_day loc (parseTime (te_start te)))
       then 1440 else local_minutes loc (parseTime (te_end te)))"
  using assms
  by (auto simp: timeEntryToExportEntry_def Let_def zonedDateTimeParts_def split: if_splits prod.splits)

lemma local_minutes_bounds: "0 \<le> local_minutes loc t" "local_minutes loc t < 1440"
  by (simp_all add: local_minutes_def)

lemma exported_bounds:
  assumes "timeEntryToExportEntry tz te segs cats ps = Inr (Some x)"
  shows "0 \<le> xe_start x" "xe_start x < 1440" "15 \<le> xe_minutes x" "xe_end x = xe_start x + xe_minutes x" "xe_end x \<le> 1454"
proof -
  obtain loc stop where x: "xe_start x = local_minutes loc (parseTime (te_start te))" "xe_minutes x = xe_end x - xe_start x"
    "xe_end x = max (xe_start x + 15) stop"
    and stop: "stop = (if format_date (local_day loc (parseTime (te_end te))) \<noteq> format_date (local_day loc (parseTime (te_start te)))
       then 1440 else local_minutes loc (parseTime (te_end te)))"
    by (rule exported_Inr [OF assms]) blast
  have "stop \<le> 1440" using stop local_minutes_bounds(2) [of loc "parseTime (te_end te)"] by auto
  then show "0 \<le> xe_start x" "xe_start x < 1440" "15 \<le> xe_minutes x" "xe_end x = xe_start x + xe_minutes x" "xe_end x \<le> 1454"
    using x(1-3) local_minutes_bounds [of loc "parseTime (te_start te)"] by (simp_all add: max_def split: if_splits)
qed

lemma same_day_minutes:
  assumes "loc (unix_seconds (s + k * minute)) = loc (unix_seconds s)" "local_day loc (s + k * minute) = local_day loc s"
  shows "local_minutes loc (s + k * minute) = local_minutes loc s + k"
proof -
  let ?w = "wall_seconds loc s"
  have shift: "wall_seconds loc (s + k * minute) = ?w + 60 * k"
    using assms(1) by (simp add: wall_seconds_def unix_seconds_def minute_def second_def)
  have "(?w + 60 * k) div 86400 = ?w div 86400" using assms(2) by (simp add: local_day_def shift)
  then have "(?w + 60 * k) mod 86400 = ?w mod 86400 + 60 * k" by (simp add: minus_div_mult_eq_mod [symmetric])
  then show ?thesis by (simp add: local_minutes_def shift)
qed

text \<open>
  The minutes are the difference of the wall clocks of the zone of the day, the end at most
  midnight; where the zone has the same offset at both ends they are the minutes that lie between.
\<close>

lemma exported_minutes:
  assumes "timeEntryToExportEntry tz te segs cats ps = Inr (Some x)"
    and "entry_day_zone tz segs te (parseTime (te_start te)) = Inr (day, zone)" "tz zone = Some loc"
  shows "xe_start x = local_minutes loc (parseTime (te_start te))"
    and "xe_minutes x = max 15
      ((if format_date (local_day loc (parseTime (te_end te))) \<noteq> format_date (local_day loc (parseTime (te_start te)))
        then 1440 else local_minutes loc (parseTime (te_end te))) - local_minutes loc (parseTime (te_start te)))"
proof -
  let ?s = "parseTime (te_start te)" and ?e = "parseTime (te_end te)"
  have x: "xe_start x = local_minutes loc ?s" "xe_minutes x = xe_end x - xe_start x"
    "xe_end x = max (xe_start x + 15) (if format_date (local_day loc ?e) \<noteq> format_date (local_day loc ?s)
       then 1440 else local_minutes loc ?e)"
    by (rule exported_Inr [OF assms(1)]; use assms(2,3) in \<open>simp add: loadLoc_def\<close>)+
  then show "xe_start x = local_minutes loc ?s"
    "xe_minutes x = max 15 ((if format_date (local_day loc ?e) \<noteq> format_date (local_day loc ?s)
        then 1440 else local_minutes loc ?e) - local_minutes loc ?s)"
    by (simp_all add: max_def)
qed


section \<open>Building an export\<close>

lemma build_Inr:
  assumes "BuildPeriodExport tz p d = Inr m"
  obtains pd exported a b expected where "q_GetPeriod p d = Some pd"
    "list_all2 (\<lambda>te x. timeEntryToExportEntry tz te (ListTzSegments p d) (map fst (ListAllCategories d)) (map fst (ListAllProjects d)) = Inr x)
       (filter (\<lambda>te. te_attestation te = ''confirmed'') (q_ListTimeEntriesForPeriod p d)) exported"
    "parse_date (pd_start pd) = Some a" "parse_date (pd_end pd) = Some b" "a \<le> b"
    "ExpectedTimeForRange (pd_start pd) (pd_end pd) d = Inr expected"
    "px_days m = map format_date [a..b]" "px_entries m = List.map_filter (\<lambda>x. x) exported"
    "px_daily m = map (day_total expected (px_entries m)) (px_days m)"
    "px_totals m = sortedCategoryMinutes (category_totals (px_entries m))"
    "px_actual m = sum_list (map xe_minutes (px_entries m))" "px_target m = sum_list (map et_minutes expected)"
  using assms
  by (auto simp: BuildPeriodExport_def Let_def res_each_Inr res_the_def periodDateRange_def split: option.splits if_splits)

lemma list_all2_member: "list_all2 R xs ys \<Longrightarrow> y \<in> set ys \<Longrightarrow> \<exists>x \<in> set xs. R x y"
  by (induction rule: list_all2_induct) auto

text \<open>
  The exported entries are, one for one, the confirmed entries of the period whose times can be
  read.
\<close>

definition exportable :: "int \<Rightarrow> time_entry \<Rightarrow> bool" where
  "exportable p te \<longleftrightarrow> te_period te = p \<and> te_attestation te = ''confirmed'' \<and>
     parseTime (te_start te) \<noteq> zero_time \<and> parseTime (te_end te) \<noteq> zero_time"

definition copied :: "category list \<Rightarrow> time_entry \<Rightarrow> export_entry \<Rightarrow> bool" where
  "copied cats te x \<longleftrightarrow> xe_source_id x = te_id te \<and> xe_description x = te_description te \<and>
     xe_category x = resolveExportCategory (te_category te) cats \<and>
     xe_work_type x = te_work_type te \<and> xe_billable x = te_billable te \<and>
     (te_day te \<noteq> '''' \<longrightarrow> xe_day x = te_day te)"

lemma exported_copied:
  assumes "timeEntryToExportEntry tz te segs cats ps = Inr y"
  shows "(y = None) = (parseTime (te_start te) = zero_time \<or> parseTime (te_end te) = zero_time)"
    and "y = Some x \<Longrightarrow> copied cats te x"
  using assms
  by (auto simp: timeEntryToExportEntry_def Let_def zonedDateTimeParts_def copied_def entry_day_zone_def
      split: if_splits prod.splits)

lemma exported_list:
  assumes "list_all2 (\<lambda>te y. timeEntryToExportEntry tz te segs cats ps = Inr y) tes ys"
  shows "list_all2 (copied cats)
    (filter (\<lambda>te. parseTime (te_start te) \<noteq> zero_time \<and> parseTime (te_end te) \<noteq> zero_time) tes)
    (List.map_filter (\<lambda>x. x) ys)"
  using assms
proof (induction rule: list_all2_induct)
  case (Cons te tes y ys)
  then show ?case
    using exported_copied [OF Cons.hyps(1)] by (cases y) (auto simp: List.map_filter_simps)
qed (simp add: List.map_filter_simps)

lemma build_confirmed:
  assumes "BuildPeriodExport tz p d = Inr m"
  shows "\<exists>tes. mset tes = filter_mset (exportable p) (mset (tbl_rows (db_entries d))) \<and>
    list_all2 (copied (map fst (ListAllCategories d))) tes (px_entries m)"
proof -
  let ?rows = "filter (\<lambda>te. te_attestation te = ''confirmed'') (q_ListTimeEntriesForPeriod p d)"
  obtain exported where "list_all2 (\<lambda>te x. timeEntryToExportEntry tz te (ListTzSegments p d)
       (map fst (ListAllCategories d)) (map fst (ListAllProjects d)) = Inr x) ?rows exported"
    and m: "px_entries m = List.map_filter (\<lambda>x. x) exported"
    by (rule build_Inr [OF assms])
  from exported_list [OF this(1)] have "list_all2 (copied (map fst (ListAllCategories d)))
    (filter (\<lambda>te. parseTime (te_start te) \<noteq> zero_time \<and> parseTime (te_end te) \<noteq> zero_time) ?rows) (px_entries m)"
    by (simp add: m)
  moreover have "mset (filter (\<lambda>te. parseTime (te_start te) \<noteq> zero_time \<and> parseTime (te_end te) \<noteq> zero_time) ?rows) =
      filter_mset (exportable p) (mset (tbl_rows (db_entries d)))"
    by (simp add: q_ListTimeEntriesForPeriod_def select_rows_def filter_filter_mset)
      (rule filter_mset_cong, auto simp: exportable_def)
  ultimately show ?thesis by blast
qed

lemma build_entries:
  assumes "BuildPeriodExport tz p d = Inr m" "x \<in> set (px_entries m)"
  shows "\<exists>te \<in> ledger d. te_period te = p \<and> te_attestation te = ''confirmed'' \<and>
    timeEntryToExportEntry tz te (ListTzSegments p d) (map fst (ListAllCategories d)) (map fst (ListAllProjects d)) = Inr (Some x)"
proof (rule build_Inr [OF assms(1)])
  fix exported
  assume all: "list_all2 (\<lambda>te x. timeEntryToExportEntry tz te (ListTzSegments p d) (map fst (ListAllCategories d)) (map fst (ListAllProjects d)) = Inr x)
       (filter (\<lambda>te. te_attestation te = ''confirmed'') (q_ListTimeEntriesForPeriod p d)) exported"
    and "px_entries m = List.map_filter (\<lambda>x. x) exported"
  then have "Some x \<in> set exported" using assms(2) by (auto simp: List.map_filter_def)
  then obtain te where "te \<in> set (filter (\<lambda>te. te_attestation te = ''confirmed'') (q_ListTimeEntriesForPeriod p d))"
    "timeEntryToExportEntry tz te (ListTzSegments p d) (map fst (ListAllCategories d)) (map fst (ListAllProjects d)) = Inr (Some x)"
    using list_all2_member [OF all] by blast
  then show ?thesis by (auto simp: q_ListTimeEntriesForPeriod_def select_rows_def ledger_def)
qed

lemma build_days:
  assumes "BuildPeriodExport tz p d = Inr m"
  shows "distinct (px_days m)" "length (px_daily m) = length (px_days m)" "px_target m = sum_list (map dy_target (px_daily m))"
proof -
  obtain pd :: period and a b expected where ends: "parse_date (pd_start pd) = Some a" "parse_date (pd_end pd) = Some b" "a \<le> b"
    and expected: "ExpectedTimeForRange (pd_start pd) (pd_end pd) d = Inr expected" and days: "px_days m = map format_date [a..b]"
    and daily: "px_daily m = map (day_total expected (px_entries m)) (px_days m)"
    and target: "px_target m = sum_list (map et_minutes expected)"
    by (rule build_Inr [OF assms]) blast
  have ok: "printable_day n" if "n \<in> set [a..b]" for n
    using that format_parse_date(2) [OF ends(1)] format_parse_date(2) [OF ends(2)] by (simp add: printable_day_def)
  then have "inj_on format_date (set [a..b])" by (simp add: inj_on_def format_date_inject)
  then show dist: "distinct (px_days m)" by (simp add: days distinct_map)
  show "length (px_daily m) = length (px_days m)" by (simp add: daily)
  have trimmed: "trim_space (pd_start pd) = pd_start pd" "trim_space (pd_end pd) = pd_end pd"
    using format_parse_date [OF ends(1)] format_parse_date [OF ends(2)] by (metis trim_format_date)+
  have dates: "map et_date expected = px_days m"
    using expected_range [of "pd_start pd" a "pd_end pd" b d] ends trimmed expected by (auto simp: days)
  then have "distinct (map fst (rev (map (\<lambda>et. (et_date et, et_minutes et)) expected)))"
    using dist by (simp add: rev_map [symmetric] comp_def)
  then have "map_of (rev (map (\<lambda>et. (et_date et, et_minutes et)) expected)) (et_date et) = Some (et_minutes et)"
    if "et \<in> set expected" for et
    using that by (intro map_of_is_SomeI) auto
  then have "map (\<lambda>et. dy_target (day_total expected (px_entries m) (et_date et))) expected = map et_minutes expected"
    by (intro map_cong refl) (simp add: day_total_def Let_def)
  then show "px_target m = sum_list (map dy_target (px_daily m))"
    by (simp only: target daily dates [symmetric] map_map comp_def)
qed

lemma build_totals:
  assumes "BuildPeriodExport tz p d = Inr m"
  shows "sum_list (map cm_minutes (px_totals m)) = px_actual m"
    "c \<in> set (px_totals m) \<Longrightarrow> cm_minutes c =
       sum_list (map xe_minutes (filter (\<lambda>e. categoryIdentity (xe_category e) = categoryIdentity (cm_category c)) (px_entries m)))"
    "map dy_date (px_daily m) = px_days m"
    "dy \<in> set (px_daily m) \<Longrightarrow> dy_actual dy = sum_list (map xe_minutes (filter (\<lambda>e. xe_day e = dy_date dy) (px_entries m)))"
    "\<forall>e \<in> set (px_entries m). xe_day e \<in> set (px_days m) \<Longrightarrow> sum_list (map dy_actual (px_daily m)) = px_actual m"
proof -
  obtain expected where m: "px_daily m = map (day_total expected (px_entries m)) (px_days m)"
    "px_totals m = sortedCategoryMinutes (category_totals (px_entries m))" "px_actual m = sum_list (map xe_minutes (px_entries m))"
    by (rule build_Inr [OF assms]) blast
  show "sum_list (map cm_minutes (px_totals m)) = px_actual m" by (simp add: m totals_of_entries)
  show "cm_minutes c = sum_list (map xe_minutes (filter (\<lambda>e. categoryIdentity (xe_category e) = categoryIdentity (cm_category c)) (px_entries m)))"
    if "c \<in> set (px_totals m)"
    using that unfolding m by (rule totals_of_entries)
  have day: "dy_actual (day_total expected (px_entries m) day) = sum_list (map xe_minutes (filter (\<lambda>e. xe_day e = day) (px_entries m)))"
    "dy_date (day_total expected (px_entries m) day) = day" for day
    by (simp_all add: day_total_def Let_def totals_of_entries)
  show "map dy_date (px_daily m) = px_days m" by (simp add: m day comp_def)
  show "dy_actual dy = sum_list (map xe_minutes (filter (\<lambda>e. xe_day e = dy_date dy) (px_entries m)))" if "dy \<in> set (px_daily m)"
    using that by (auto simp: m day)
  show "sum_list (map dy_actual (px_daily m)) = px_actual m" if "\<forall>e \<in> set (px_entries m). xe_day e \<in> set (px_days m)"
    using sum_by_day [OF build_days(1) [OF assms] that] by (simp add: m day comp_def)
qed

text \<open>What is enough for an entry and for a period to be exported.\<close>

lemma exported_total:
  assumes "entry_day_zone tz segs te (parseTime (te_start te)) = Inr (day, zone)" "tz zone \<noteq> None"
  shows "\<exists>x. timeEntryToExportEntry tz te segs cats ps = Inr x"
    "parseTime (te_start te) \<noteq> zero_time \<Longrightarrow> parseTime (te_end te) \<noteq> zero_time \<Longrightarrow>
      \<exists>x. timeEntryToExportEntry tz te segs cats ps = Inr (Some x)"
proof -
  obtain loc where "tz zone = Some loc" using assms(2) by blast
  then show "\<exists>x. timeEntryToExportEntry tz te segs cats ps = Inr x"
    "parseTime (te_start te) \<noteq> zero_time \<Longrightarrow> parseTime (te_end te) \<noteq> zero_time \<Longrightarrow>
      \<exists>x. timeEntryToExportEntry tz te segs cats ps = Inr (Some x)"
    using assms(1) by (simp_all add: timeEntryToExportEntry_def Let_def loadLoc_def res_bind_def zonedDateTimeParts_def
        del: res_bind_eq_Inr split: prod.split)
qed

lemma build_total:
  assumes "q_GetPeriod p d = Some pd" "parse_date (pd_start pd) = Some a" "parse_date (pd_end pd) = Some b" "a \<le> b"
    and each: "\<forall>te \<in> set (q_ListTimeEntriesForPeriod p d). te_attestation te = ''confirmed'' \<longrightarrow>
      (\<exists>x. timeEntryToExportEntry tz te (ListTzSegments p d) (map fst (ListAllCategories d)) (map fst (ListAllProjects d)) = Inr x)"
  shows "\<exists>m. BuildPeriodExport tz p d = Inr m"
proof -
  let ?f = "\<lambda>te. timeEntryToExportEntry tz te (ListTzSegments p d) (map fst (ListAllCategories d)) (map fst (ListAllProjects d))"
  have "\<exists>ys. res_each ?f xs = Inr ys" if "\<forall>te \<in> set xs. \<exists>x. ?f te = Inr x" for xs
    using that by (induction xs) auto
  then obtain ys where "res_each ?f (filter (\<lambda>te. te_attestation te = ''confirmed'') (q_ListTimeEntriesForPeriod p d)) = Inr ys"
    using each by fastforce
  moreover obtain xs where "ExpectedTimeForRange (pd_start pd) (pd_end pd) d = Inr xs"
    using expected_range [of "pd_start pd" a "pd_end pd" b d] assms(2-4) by auto
  ultimately show ?thesis using assms(1-4) by (simp add: BuildPeriodExport_def periodDateRange_def Let_def)
qed

end
