(* ===== verification/Tabular.thy ===== *)
theory Tabular
  imports Export Imported
begin

text \<open>
  Declarative CSV and TSV templates: internal/service/export_tabular.go. A template body is the
  JSON text of a \<open>TabularTemplateSpec\<close>.
\<close>

section \<open>Fields\<close>

abbreviation ExportGrainRollup :: string where "ExportGrainRollup \<equiv> ''rollup''"
abbreviation ExportGrainDetail :: string where "ExportGrainDetail \<equiv> ''detail''"
abbreviation ExportLayoutMatrix :: string where "ExportLayoutMatrix \<equiv> ''matrix''"
abbreviation ExportLayoutFlat :: string where "ExportLayoutFlat \<equiv> ''flat''"

abbreviation ExportFieldDate :: string where "ExportFieldDate \<equiv> ''date''"
abbreviation ExportFieldCategoryName :: string where "ExportFieldCategoryName \<equiv> ''category_name''"
abbreviation ExportFieldCategoryKey :: string where "ExportFieldCategoryKey \<equiv> ''category_key''"
abbreviation ExportFieldHours :: string where "ExportFieldHours \<equiv> ''hours''"
abbreviation ExportFieldMinutes :: string where "ExportFieldMinutes \<equiv> ''minutes''"
abbreviation ExportFieldStart :: string where "ExportFieldStart \<equiv> ''start''"
abbreviation ExportFieldEnd :: string where "ExportFieldEnd \<equiv> ''end''"
abbreviation ExportFieldTitle :: string where "ExportFieldTitle \<equiv> ''title''"
abbreviation ExportFieldDescription :: string where "ExportFieldDescription \<equiv> ''description''"
abbreviation ExportFieldSource :: string where "ExportFieldSource \<equiv> ''source''"
abbreviation ExportFieldWorkType :: string where "ExportFieldWorkType \<equiv> ''work_type''"
abbreviation ExportFieldProjectName :: string where "ExportFieldProjectName \<equiv> ''project_name''"
abbreviation ExportFieldProjectKey :: string where "ExportFieldProjectKey \<equiv> ''project_key''"
abbreviation ExportFieldBillableStatus :: string where "ExportFieldBillableStatus \<equiv> ''billable_status''"
abbreviation ExportFieldDayActual :: string where "ExportFieldDayActual \<equiv> ''day_actual_hours''"
abbreviation ExportFieldDayTarget :: string where "ExportFieldDayTarget \<equiv> ''day_target_hours''"
abbreviation ExportFieldTotal :: string where "ExportFieldTotal \<equiv> ''total''"

abbreviation comma :: string where "comma \<equiv> '',''"
abbreviation tab :: string where "tab \<equiv> [CHR 0x09]"
abbreviation quote :: char where "quote \<equiv> CHR 0x22"
abbreviation newline :: char where "newline \<equiv> CHR 0x0A"

record column_spec =
  tc_field :: string
  tc_header :: string

record tabular_spec =
  ts_version :: int
  ts_grain :: string
  ts_layout :: string
  ts_delimiter :: string
  ts_columns :: "column_spec list"

record field_info =
  fi_field :: string
  fi_label :: string
  fi_description :: string

definition column :: "string \<times> string \<Rightarrow> column_spec" where
  "column p = \<lparr>tc_field = fst p, tc_header = snd p\<rparr>"

definition DefaultTabularSpec :: "string \<Rightarrow> string \<Rightarrow> tabular_spec" where
  "DefaultTabularSpec grain layout =
     (let grain = trim_space grain; layout = trim_space layout;
          grain = (if grain = '''' then ExportGrainRollup else grain);
          layout = (if layout = '''' then ExportLayoutFlat else layout);
          layout = (if grain = ExportGrainDetail then ExportLayoutFlat else layout)
      in \<lparr>ts_version = 1, ts_grain = grain, ts_layout = layout, ts_delimiter = comma,
           ts_columns = map column
             (if grain = ExportGrainDetail then
                [(ExportFieldStart, ''Start''), (ExportFieldEnd, ''End''), (ExportFieldCategoryName, ''Category''),
                 (ExportFieldCategoryKey, ''Key''), (ExportFieldHours, ''Hours''), (ExportFieldTitle, ''Title''),
                 (ExportFieldDescription, ''Description''), (ExportFieldWorkType, ''Work type''),
                 (ExportFieldProjectName, ''Project''), (ExportFieldProjectKey, ''Project key''),
                 (ExportFieldBillableStatus, ''Billable'')]
              else if layout = ExportLayoutMatrix then
                [(ExportFieldCategoryName, ''Category''), (ExportFieldTotal, ''Total'')]
              else
                [(ExportFieldDate, ''Date''), (ExportFieldCategoryName, ''Category''),
                 (ExportFieldCategoryKey, ''Key''), (ExportFieldHours, ''Hours'')])\<rparr>)"

definition field :: "string \<times> string \<times> string \<Rightarrow> field_info" where
  "field p = \<lparr>fi_field = fst p, fi_label = fst (snd p), fi_description = snd (snd p)\<rparr>"

definition fieldCatalog :: "string \<Rightarrow> string \<Rightarrow> field_info list" where
  "fieldCatalog grain layout = map field
     (if grain = ExportGrainDetail then
        [(ExportFieldDate, ''Date'', ''Entry day (YYYY-MM-DD)''),
         (ExportFieldStart, ''Start'', ''Start datetime''),
         (ExportFieldEnd, ''End'', ''End datetime''),
         (ExportFieldCategoryName, ''Category name'', ''Category display name''),
         (ExportFieldCategoryKey, ''Category key'', ''Category key (falls back to name)''),
         (ExportFieldHours, ''Hours'', ''Duration as decimal hours''),
         (ExportFieldMinutes, ''Minutes'', ''Duration as whole minutes''),
         (ExportFieldTitle, ''Title'', ''Event title or time-entry note''),
         (ExportFieldDescription, ''Description'', ''Event or time-entry work notes''),
         (ExportFieldSource, ''Source'', ''event or time_entry''),
         (ExportFieldWorkType, ''Work type'', ''Time-entry work type (empty for calendar events)''),
         (ExportFieldProjectName, ''Project name'', ''Time-entry project name (empty for calendar events)''),
         (ExportFieldProjectKey, ''Project key'', ''Time-entry project key (empty for calendar events)''),
         (ExportFieldBillableStatus, ''Billable status'', ''Time-entry billable status (empty for calendar events)'')]
      else if layout = ExportLayoutMatrix then
        [(ExportFieldCategoryName, ''Category name'', ''Row label (category name)''),
         (ExportFieldCategoryKey, ''Category key'', ''Row label (category key)''),
         (ExportFieldTotal, ''Total'', ''Row total across days'')]
      else
        [(ExportFieldDate, ''Date'', ''Day (YYYY-MM-DD)''),
         (ExportFieldCategoryName, ''Category name'', ''Category display name''),
         (ExportFieldCategoryKey, ''Category key'', ''Category key (falls back to name)''),
         (ExportFieldHours, ''Hours'', ''Category minutes as decimal hours''),
         (ExportFieldMinutes, ''Minutes'', ''Category minutes''),
         (ExportFieldDayActual, ''Day actual hours'', ''Total tracked hours that day''),
         (ExportFieldDayTarget, ''Day target hours'', ''Target hours that day'')])"

definition validateGrainLayout :: "string \<Rightarrow> string \<Rightarrow> bool" where
  "validateGrainLayout grain layout \<longleftrightarrow> grain \<in> {ExportGrainRollup, ExportGrainDetail} \<and>
     layout \<in> {ExportLayoutMatrix, ExportLayoutFlat} \<and>
     \<not> (grain = ExportGrainDetail \<and> layout \<noteq> ExportLayoutFlat)"

definition ListExportFieldCatalog :: "string \<Rightarrow> string \<Rightarrow> go_error + field_info list" where
  "ListExportFieldCatalog grain layout =
     (let grain = trim_space grain; layout = trim_space layout;
          grain = (if grain = '''' then ExportGrainRollup else grain);
          layout = (if layout = '''' then ExportLayoutFlat else layout)
      in if validateGrainLayout grain layout then Inr (fieldCatalog grain layout) else Inl ErrInvalidInput)"


section \<open>Specifications\<close>

definition columns_valid :: "string list \<Rightarrow> string list \<Rightarrow> bool" where
  "columns_valid allowed names \<longleftrightarrow> '''' \<notin> set names \<and> set names \<subseteq> set allowed \<and> distinct names"

text \<open>The check of the row label reads the names untrimmed.\<close>

definition validateTabularSpec :: "tabular_spec \<Rightarrow> bool" where
  "validateTabularSpec spec \<longleftrightarrow>
     (ts_version spec = 0 \<or> ts_version spec = 1) \<and> validateGrainLayout (ts_grain spec) (ts_layout spec) \<and>
     ts_columns spec \<noteq> [] \<and>
     columns_valid (map fi_field (fieldCatalog (ts_grain spec) (ts_layout spec)))
       (map (\<lambda>c. trim_space (tc_field c)) (ts_columns spec)) \<and>
     (ts_layout spec = ExportLayoutMatrix \<longrightarrow>
        list_ex (\<lambda>c. tc_field c = ExportFieldCategoryName \<or> tc_field c = ExportFieldCategoryKey) (ts_columns spec)) \<and>
     (ts_delimiter spec = '''' \<or> ts_delimiter spec = comma \<or> ts_delimiter spec = tab)"

definition default_headers :: "(string \<times> string) list" where
  "default_headers =
     [(ExportFieldDate, ''Date''), (ExportFieldCategoryName, ''Category''), (ExportFieldCategoryKey, ''Key''),
      (ExportFieldHours, ''Hours''), (ExportFieldMinutes, ''Minutes''), (ExportFieldStart, ''Start''),
      (ExportFieldEnd, ''End''), (ExportFieldTitle, ''Title''), (ExportFieldDescription, ''Description''),
      (ExportFieldSource, ''Source''), (ExportFieldWorkType, ''Work type''), (ExportFieldProjectName, ''Project''),
      (ExportFieldProjectKey, ''Project key''), (ExportFieldBillableStatus, ''Billable''),
      (ExportFieldDayActual, ''Day actual''), (ExportFieldDayTarget, ''Day target''), (ExportFieldTotal, ''Total'')]"

definition defaultFieldHeader :: "string \<Rightarrow> string" where
  "defaultFieldHeader f = (case map_of default_headers f of Some h \<Rightarrow> h | None \<Rightarrow> f)"

definition normalize_column :: "column_spec \<Rightarrow> column_spec" where
  "normalize_column c = (let h = trim_space (tc_header c) in
     \<lparr>tc_field = trim_space (tc_field c), tc_header = (if h = '''' then defaultFieldHeader (tc_field c) else h)\<rparr>)"

definition normalizeTabularSpec :: "tabular_spec \<Rightarrow> tabular_spec" where
  "normalizeTabularSpec spec =
     spec\<lparr>ts_version := (if ts_version spec = 0 then 1 else ts_version spec),
          ts_delimiter := (if ts_delimiter spec = '''' then comma else ts_delimiter spec),
          ts_columns := map normalize_column (ts_columns spec)\<rparr>"

text \<open>Reading a specification.\<close>

definition read_column_member :: "string \<times> json \<Rightarrow> column_spec \<Rightarrow> column_spec option" where
  "read_column_member kv c =
     (let k = to_lower (fst kv); v = snd kv in
      if k = ''field'' then map_option (\<lambda>t. c\<lparr>tc_field := t\<rparr>) (read_text v (tc_field c))
      else if k = ''header'' then map_option (\<lambda>t. c\<lparr>tc_header := t\<rparr>) (read_text v (tc_header c))
      else Some c)"

definition read_column :: "json \<Rightarrow> column_spec option" where
  "read_column j =
     (let zero = \<lparr>tc_field = '''', tc_header = ''''\<rparr> in
      case j of JObj kvs \<Rightarrow> read_each read_column_member kvs zero | JNull \<Rightarrow> Some zero | _ \<Rightarrow> None)"

definition read_columns :: "json \<Rightarrow> column_spec list option" where
  "read_columns j =
     (case j of JNull \<Rightarrow> Some [] | JList js \<Rightarrow> those (map read_column js) | _ \<Rightarrow> None)"

definition read_spec_member :: "string \<times> json \<Rightarrow> tabular_spec \<Rightarrow> tabular_spec option" where
  "read_spec_member kv s =
     (let k = to_lower (fst kv); v = snd kv in
      if k = ''version'' then map_option (\<lambda>n. s\<lparr>ts_version := n\<rparr>) (read_int64 v (ts_version s))
      else if k = ''grain'' then map_option (\<lambda>t. s\<lparr>ts_grain := t\<rparr>) (read_text v (ts_grain s))
      else if k = ''layout'' then map_option (\<lambda>t. s\<lparr>ts_layout := t\<rparr>) (read_text v (ts_layout s))
      else if k = ''delimiter'' then map_option (\<lambda>t. s\<lparr>ts_delimiter := t\<rparr>) (read_text v (ts_delimiter s))
      else if k = ''columns'' then map_option (\<lambda>cs. s\<lparr>ts_columns := cs\<rparr>) (read_columns v)
      else Some s)"

definition read_spec :: "json \<Rightarrow> tabular_spec option" where
  "read_spec j =
     (let zero = \<lparr>ts_version = 0, ts_grain = '''', ts_layout = '''', ts_delimiter = '''', ts_columns = []\<rparr> in
      case j of JObj kvs \<Rightarrow> read_each read_spec_member kvs zero | JNull \<Rightarrow> Some zero | _ \<Rightarrow> None)"

definition parseTabularSpec :: "template_body \<Rightarrow> go_error + tabular_spec" where
  "parseTabularSpec body =
     (if trim_space (bd_raw body) = '''' then Inl ErrOther
      else case Option.bind (bd_json body) read_spec of
        None \<Rightarrow> Inl ErrOther
      | Some spec \<Rightarrow> if validateTabularSpec spec then Inr (normalizeTabularSpec spec) else Inl ErrOther)"

text \<open>\<open>json.Marshal\<close> of a specification, and the text it gives.\<close>

definition column_json :: "column_spec \<Rightarrow> json" where
  "column_json c = JObj [(''field'', JStr (tc_field c)), (''header'', JStr (tc_header c))]"

definition spec_json :: "tabular_spec \<Rightarrow> json" where
  "spec_json s = JObj [(''version'', JInt (ts_version s)), (''grain'', JStr (ts_grain s)), (''layout'', JStr (ts_layout s)),
     (''delimiter'', JStr (ts_delimiter s)), (''columns'', JList (map column_json (ts_columns s)))]"

definition column_text :: "column_spec \<Rightarrow> string" where
  "column_text c = ''{'' @ join_with '','' [json_field ''field'' (json_string (tc_field c)),
     json_field ''header'' (json_string (tc_header c))] @ ''}''"

definition spec_text :: "tabular_spec \<Rightarrow> string" where
  "spec_text s = ''{'' @ join_with '','' [json_field ''version'' (show_int (ts_version s)),
     json_field ''grain'' (json_string (ts_grain s)), json_field ''layout'' (json_string (ts_layout s)),
     json_field ''delimiter'' (json_string (ts_delimiter s)),
     json_field ''columns'' (''['' @ join_with '','' (map column_text (ts_columns s)) @ '']'')] @ ''}''"

definition encodeTabularSpec :: "tabular_spec \<Rightarrow> go_error + template_body" where
  "encodeTabularSpec spec = (let s = normalizeTabularSpec spec in
     if validateTabularSpec s then Inr \<lparr>bd_raw = spec_text s, bd_json = Some (spec_json s)\<rparr> else Inl ErrOther)"

definition formatFromDelimiter :: "string \<Rightarrow> string" where
  "formatFromDelimiter d = (if d = tab then ''tsv'' else ''csv'')"

definition delimiterFromFormat :: "string \<Rightarrow> string" where
  "delimiterFromFormat f = (if f = ''tsv'' then tab else comma)"


section \<open>Rendering\<close>

text \<open>\<open>strings.ReplaceAll\<close> of a quote by two, and a cell in quotes where it needs them.\<close>

fun double_quotes :: "string \<Rightarrow> string" where
  "double_quotes [] = []"
| "double_quotes (c # cs) = (if c = quote then [quote, quote] else [c]) @ double_quotes cs"

definition escapeDelimitedCell :: "string \<Rightarrow> string \<Rightarrow> string" where
  "escapeDelimitedCell value delimiter =
     (if \<not> (contains [quote] value \<or> contains [newline] value \<or> contains delimiter value) then value
      else [quote] @ double_quotes value @ [quote])"

definition joinDelimited :: "string list \<Rightarrow> string \<Rightarrow> string" where
  "joinDelimited cells delimiter = join_with delimiter (map (\<lambda>c. escapeDelimitedCell c delimiter) cells)"

definition matrixRowField :: "string \<Rightarrow> export_category \<Rightarrow> string" where
  "matrixRowField f c =
     (if f = ExportFieldCategoryName then xc_name c
      else if f = ExportFieldCategoryKey then (if xc_key c \<noteq> '''' then xc_key c else xc_name c)
      else '''')"

text \<open>The minutes of a category on a day: a later category with the same identity wins.\<close>

definition day_minutes :: "day_totals \<Rightarrow> string \<Rightarrow> int" where
  "day_minutes day i =
     (case map_of (rev (map (\<lambda>c. (categoryIdentity (cm_category c), cm_minutes c)) (dy_categories day))) i of
        None \<Rightarrow> 0 | Some n \<Rightarrow> n)"

definition matrix_rows :: "period_export \<Rightarrow> tabular_spec \<Rightarrow> string list list" where
  "matrix_rows m spec =
     (let leading = filter (\<lambda>c. tc_field c \<noteq> ExportFieldTotal) (ts_columns spec);
          trailing = filter (\<lambda>c. tc_field c = ExportFieldTotal) (ts_columns spec)
      in (map tc_header leading @ px_days m @ map tc_header trailing) #
         map (\<lambda>t. let ns = map (\<lambda>day. day_minutes day (categoryIdentity (cm_category t))) (px_daily m) in
           map (\<lambda>c. matrixRowField (tc_field c) (cm_category t)) leading @ map minutesToDecimalHours ns @
           map (\<lambda>_. minutesToDecimalHours (sum_list ns)) trailing) (px_totals m))"

definition renderMatrixTabular :: "period_export \<Rightarrow> tabular_spec \<Rightarrow> string" where
  "renderMatrixTabular m spec =
     join_with [newline] (map (\<lambda>row. joinDelimited row (ts_delimiter spec)) (matrix_rows m spec))"

definition flatRollupField :: "string \<Rightarrow> day_totals \<Rightarrow> category_minutes \<Rightarrow> string" where
  "flatRollupField f day c =
     (if f = ExportFieldDate then dy_date day
      else if f = ExportFieldCategoryName then xc_name (cm_category c)
      else if f = ExportFieldCategoryKey then
        (if xc_key (cm_category c) \<noteq> '''' then xc_key (cm_category c) else xc_name (cm_category c))
      else if f = ExportFieldHours then minutesToDecimalHours (cm_minutes c)
      else if f = ExportFieldMinutes then show_int (cm_minutes c)
      else if f = ExportFieldDayActual then minutesToDecimalHours (dy_actual day)
      else if f = ExportFieldDayTarget then minutesToDecimalHours (dy_target day)
      else '''')"

definition flat_rows :: "period_export \<Rightarrow> tabular_spec \<Rightarrow> string list list" where
  "flat_rows m spec = map tc_header (ts_columns spec) #
     concat (map (\<lambda>day. map (\<lambda>c. map (\<lambda>col. flatRollupField (tc_field col) day c) (ts_columns spec))
       (dy_categories day)) (px_daily m))"

definition renderFlatRollupTabular :: "period_export \<Rightarrow> tabular_spec \<Rightarrow> string" where
  "renderFlatRollupTabular m spec =
     join_with [newline] (map (\<lambda>row. joinDelimited row (ts_delimiter spec)) (flat_rows m spec))"

definition detailField :: "string \<Rightarrow> export_entry \<Rightarrow> string" where
  "detailField f e =
     (if f = ExportFieldDate then xe_day e
      else if f = ExportFieldStart then exportEntryDateTime (xe_day e) (xe_start e)
      else if f = ExportFieldEnd then exportEntryDateTime (xe_day e) (xe_end e)
      else if f = ExportFieldCategoryName then xc_name (xe_category e)
      else if f = ExportFieldCategoryKey then
        (if xc_key (xe_category e) \<noteq> '''' then xc_key (xe_category e) else xc_name (xe_category e))
      else if f = ExportFieldHours then minutesToDecimalHours (xe_minutes e)
      else if f = ExportFieldMinutes then show_int (xe_minutes e)
      else if f = ExportFieldTitle then xe_title e
      else if f = ExportFieldDescription then xe_description e
      else if f = ExportFieldSource then xe_source e
      else if f = ExportFieldWorkType then xe_work_type e
      else if f = ExportFieldProjectName then xe_project_name e
      else if f = ExportFieldProjectKey then xe_project_key e
      else if f = ExportFieldBillableStatus then xe_billable e
      else '''')"

definition detail_rows :: "period_export \<Rightarrow> tabular_spec \<Rightarrow> string list list" where
  "detail_rows m spec = map tc_header (ts_columns spec) #
     map (\<lambda>e. map (\<lambda>col. detailField (tc_field col) e) (ts_columns spec))
       (sort_key (\<lambda>e. (xe_day e, xe_start e, xe_source e, xe_source_id e)) (px_entries m))"

definition renderDetailTabular :: "period_export \<Rightarrow> tabular_spec \<Rightarrow> string" where
  "renderDetailTabular m spec =
     join_with [newline] (map (\<lambda>row. joinDelimited row (ts_delimiter spec)) (detail_rows m spec))"

definition renderTabular :: "period_export \<Rightarrow> tabular_spec \<Rightarrow> string" where
  "renderTabular m spec = (let spec = normalizeTabularSpec spec in
     if ts_grain spec = ExportGrainDetail then renderDetailTabular m spec
     else if ts_layout spec = ExportLayoutMatrix then renderMatrixTabular m spec
     else renderFlatRollupTabular m spec)"

definition builtinTabularSpec :: "string \<Rightarrow> tabular_spec option" where
  "builtinTabularSpec key =
     (if key = ExportTemplateMatrixCSV then Some (DefaultTabularSpec ExportGrainRollup ExportLayoutMatrix)
      else if key = ExportTemplateFlatDailyCSV then Some (DefaultTabularSpec ExportGrainRollup ExportLayoutFlat)
      else if key = ExportTemplateDetailEntriesCSV then Some (DefaultTabularSpec ExportGrainDetail ExportLayoutFlat)
      else None)"

end
