(* ===== verification/Templates.thy ===== *)
theory Templates
  imports Tabular
begin

text \<open>
  Export templates: internal/service/export_template_crud.go, and the rendering of a period of
  export.go. The template language of text templates (text/template) is a parameter: whether a
  body parses, and what it renders the data of a period to, if it does.
\<close>

type_synonym template_engine = "string \<Rightarrow> (plain \<Rightarrow> string option) option"

record template_input =
  tp_key :: string
  tp_name :: string
  tp_description :: string
  tp_format :: string
  tp_body :: template_body

record preview_input =
  pv_period :: int
  pv_key :: string
  pv_format :: string
  pv_body :: template_body


section \<open>Normalizing\<close>

definition normalizeExportFormat :: "string \<Rightarrow> string option" where
  "normalizeExportFormat f = (let f = to_lower (trim_space f) in
     if f = '''' \<or> f = ''csv'' then Some ''csv'' else if f = ''tsv'' then Some ''tsv''
     else if f = ''text'' then Some ''text'' else None)"

definition trim_newlines :: "string \<Rightarrow> string" where
  "trim_newlines s = rev (dropWhile (\<lambda>c. c = newline) (rev s))"

definition normalizeTextBody :: "template_engine \<Rightarrow> template_body \<Rightarrow> go_error + template_body" where
  "normalizeTextBody engine body = (let t = trim_newlines (bd_raw body) in
     if trim_space t = '''' then Inl ErrOther
     else if engine t = None then Inl ErrOther
     else Inr (body\<lparr>bd_raw := t\<rparr>))"

definition normalizeTabularBody :: "template_body \<Rightarrow> string \<Rightarrow> go_error + template_body" where
  "normalizeTabularBody body format =
     res_bind (parseTabularSpec body) (\<lambda>spec. encodeTabularSpec
       (if format = ''tsv'' then spec\<lparr>ts_delimiter := tab\<rparr>
        else if ts_delimiter spec = '''' then spec\<lparr>ts_delimiter := delimiterFromFormat format\<rparr>
        else if format = ''csv'' \<and> ts_delimiter spec = tab then spec\<lparr>ts_delimiter := comma\<rparr>
        else spec))"

definition normalizeExportBody :: "template_engine \<Rightarrow> template_body \<Rightarrow> string \<Rightarrow> go_error + template_body" where
  "normalizeExportBody engine body format =
     (if format = ''csv'' \<or> format = ''tsv'' then normalizeTabularBody body format
      else if format = ''text'' then normalizeTextBody engine body
      else Inl ErrOther)"

text \<open>\<open>invalidInputf\<close> wraps any failure of the input.\<close>

definition invalid :: "go_error + 'a \<Rightarrow> go_error + 'a" where
  "invalid r = (case r of Inl _ \<Rightarrow> Inl ErrInvalidInput | Inr x \<Rightarrow> Inr x)"


section \<open>Keys\<close>

definition is_key_char :: "char \<Rightarrow> bool" where
  "is_key_char c \<longleftrightarrow> is_digit c \<or> (97 \<le> (of_char c :: nat) \<and> (of_char c :: nat) \<le> 122)"

text \<open>\<open>strings.Trim(s, "_")\<close>.\<close>

definition trim_underscores :: "string \<Rightarrow> string" where
  "trim_underscores s = (let cut = dropWhile (\<lambda>c. c = CHR ''_'') in rev (cut (rev (cut s))))"

text \<open>
  The loop over the runes: a letter or digit is kept, a run of others becomes one underscore
  unless nothing was written yet. Runes outside ASCII are not distinguished from separators: the
  pattern applied after the loop turns them into underscores too.
\<close>

fun slug_loop :: "bool \<Rightarrow> string \<Rightarrow> string \<Rightarrow> string" where
  "slug_loop lastUnderscore b [] = b"
| "slug_loop lastUnderscore b (c # cs) =
     (if is_key_char c then slug_loop False (b @ [c]) cs
      else if \<not> lastUnderscore \<and> b \<noteq> [] then slug_loop True (b @ ''_'') cs
      else slug_loop lastUnderscore b cs)"

text \<open>\<open>[^a-z0-9]+\<close> replaced by an underscore.\<close>

fun collapse_runs :: "bool \<Rightarrow> string \<Rightarrow> string" where
  "collapse_runs inside [] = []"
| "collapse_runs inside (c # cs) =
     (if is_key_char c then c # collapse_runs False cs
      else (if inside then [] else ''_'') @ collapse_runs True cs)"

definition slugifyExportTemplateKey :: "string \<Rightarrow> string" where
  "slugifyExportTemplateKey raw =
     (let key = trim_underscores (slug_loop False [] (to_lower (trim_space raw)));
          key = trim_underscores (collapse_runs False key)
      in if 64 < length key then trim_underscores (take 64 key) else key)"

definition key_candidates :: "string \<Rightarrow> string list" where
  "key_candidates base = base # map (\<lambda>i. base @ ''_'' @ show_nat i) [2..<51]"

definition uniqueExportTemplateKey :: "string \<Rightarrow> db \<Rightarrow> go_error + string" where
  "uniqueExportTemplateKey base d =
     res_the ErrOther (find (\<lambda>k. q_ExportTemplateKeyExists k d = 0) (key_candidates base))"


section \<open>Templates of the user\<close>

definition CreateExportTemplate :: "template_engine \<Rightarrow> template_input \<Rightarrow> (db, export_template) act" where
  "CreateExportTemplate engine input =
     (let name = trim_space (tp_name input) in
      if name = '''' then act_throw ErrInvalidInput
      else act_bind (act_lift (res_the ErrInvalidInput (normalizeExportFormat (tp_format input)))) (\<lambda>format.
        act_bind (act_lift (invalid (normalizeExportBody engine (tp_body input) format))) (\<lambda>body.
          let key = trim_space (tp_key input);
              key = slugifyExportTemplateKey (if key = '''' then name else key)
          in if key = '''' then act_throw ErrInvalidInput
             else act_bind (act_reads (uniqueExportTemplateKey key)) (\<lambda>key.
               mapErr (q_CreateExportTemplate key name (trim_space (tp_description input)) format False body)))))"

text \<open>The key of the input is not read by an update.\<close>

definition UpdateExportTemplate :: "template_engine \<Rightarrow> int \<Rightarrow> template_input \<Rightarrow> (db, export_template) act" where
  "UpdateExportTemplate engine i input =
     act_bind (mapErr (get_one (q_GetExportTemplate i))) (\<lambda>current.
       let name = trim_space (tp_name input) in
       if xt_builtin current then act_throw ErrExportTemplateBuiltin
       else if name = '''' then act_throw ErrInvalidInput
       else act_bind (act_lift (res_the ErrInvalidInput (normalizeExportFormat (tp_format input)))) (\<lambda>format.
         act_bind (act_lift (invalid (normalizeExportBody engine (tp_body input) format))) (\<lambda>body.
           mapErr (q_UpdateExportTemplate name (trim_space (tp_description input)) format body i))))"

definition DeleteExportTemplate :: "int \<Rightarrow> (db, unit) act" where
  "DeleteExportTemplate i =
     act_bind (mapErr (get_one (q_GetExportTemplate i))) (\<lambda>current.
       if xt_builtin current then act_throw ErrExportTemplateBuiltin
       else act_bind (mapErr (q_DeleteExportTemplate i)) (\<lambda>n.
         if n = 0 then act_throw ErrNotFound else act_ret ()))"

text \<open>The builtin text summary; the dash is a character of three bytes.\<close>

definition builtinTextSummaryTemplate :: string where
  "builtinTextSummaryTemplate = join_with [newline]
     [''Period: {{.PeriodLabel}}'',
      ''{{.StartDate}} to {{.EndDate}}'',
      '''',
      ''Target: {{duration .TargetMinutes}}'',
      ''Actual: {{duration .ActualMinutes}}'',
      ''Variance: {{signedDuration .VarianceMinutes}}'',
      '''',
      ''Totals by category:'',
      ''{{range .PeriodTotals}}  {{.Category.Name}}: {{duration .Minutes}}'',
      ''{{end}}'',
      ''Daily breakdown:'',
      ''{{range .DailyTotals}}{{.Date}} '' @ [CHR 0xE2, CHR 0x80, CHR 0x94] @
        '' {{duration .ActualMinutes}} / {{duration .TargetMinutes}} target'',
      ''{{if .Categories}}{{range .Categories}}  {{.Category.Name}}: {{duration .Minutes}}'',
      ''{{end}}{{else}}  (no tracked time)'',
      ''{{end}}'',
      ''{{end}}'']"

definition duplicated_body :: "template_engine \<Rightarrow> export_template \<Rightarrow> go_error + template_body" where
  "duplicated_body engine src =
     (if xt_format src = ''csv'' \<or> xt_format src = ''tsv'' then
        res_bind
          (if trim_space (bd_raw (xt_body src)) = ''''
           then (case builtinTabularSpec (xt_key src) of None \<Rightarrow> Inr (xt_body src) | Some spec \<Rightarrow> encodeTabularSpec spec)
           else Inr (xt_body src))
          (\<lambda>body. normalizeTabularBody body (xt_format src))
      else if xt_format src = ''text'' then
        normalizeTextBody engine
          (if trim_space (bd_raw (xt_body src)) = '''' then \<lparr>bd_raw = builtinTextSummaryTemplate, bd_json = None\<rparr>
           else xt_body src)
      else Inr (xt_body src))"

definition DuplicateExportTemplate :: "template_engine \<Rightarrow> string \<Rightarrow> (db, export_template) act" where
  "DuplicateExportTemplate engine key =
     act_bind (act_reads (GetExportTemplate key)) (\<lambda>src.
     act_bind (act_lift (duplicated_body engine src)) (\<lambda>body.
       let base = slugifyExportTemplateKey (xt_key src @ ''_copy'');
           base = (if base = '''' then ''export_copy'' else base)
       in act_bind (act_reads (uniqueExportTemplateKey base)) (\<lambda>key.
            mapErr (q_CreateExportTemplate key (xt_name src @ '' (copy)'') (xt_description src) (xt_format src) False body))))"


section \<open>Rendering a period\<close>

definition renderTextSummary :: "template_engine \<Rightarrow> period_export \<Rightarrow> string \<Rightarrow> string \<Rightarrow> go_error + string" where
  "renderTextSummary engine m body key =
     res_bind
       (if trim_space body = '''' then
          (if key = ExportTemplateTextSummary then Inr builtinTextSummaryTemplate else Inl ErrOther)
        else Inr body)
       (\<lambda>body. res_bind (res_the ErrOther (engine body)) (\<lambda>run.
          res_bind (res_the ErrOther (run (PlainPeriodExportData m))) (\<lambda>out. Inr (trim_newlines out))))"

definition trim_suffix :: "string \<Rightarrow> string \<Rightarrow> string" where
  "trim_suffix s t = (if length t \<le> length s \<and> drop (length s - length t) s = t then take (length s - length t) s else s)"

definition renderExportTemplate ::
    "template_engine \<Rightarrow> period_export \<Rightarrow> export_template \<Rightarrow> go_error + export_render" where
  "renderExportTemplate engine m t =
     (if xt_format t = ''csv'' \<or> xt_format t = ''tsv'' then
        res_bind
          (case parseTabularSpec (xt_body t) of
             Inr spec \<Rightarrow> Inr spec
           | Inl e \<Rightarrow> (case builtinTabularSpec (xt_key t) of
               None \<Rightarrow> Inl e
             | Some spec \<Rightarrow> Inr (if xt_format t = ''tsv'' then spec\<lparr>ts_delimiter := tab\<rparr> else spec)))
          (\<lambda>spec. Inr \<lparr>xr_filename =
               (if ts_delimiter spec = tab \<or> xt_format t = ''tsv''
                then trim_suffix (defaultExportFilename m) ''.csv'' @ ''.tsv'' else defaultExportFilename m),
             xr_content = renderTabular m spec, xr_format = xt_format t\<rparr>)
      else if xt_format t = ''text'' then
        res_bind (renderTextSummary engine m (bd_raw (xt_body t)) (xt_key t))
          (\<lambda>content. Inr \<lparr>xr_filename = defaultExportTextFilename m, xr_content = content, xr_format = xt_format t\<rparr>)
      else Inl ErrOther)"

definition RenderPeriodExport :: "tzdb \<Rightarrow> template_engine \<Rightarrow> int \<Rightarrow> string \<Rightarrow> db \<Rightarrow> go_error + export_render" where
  "RenderPeriodExport tz engine p key d =
     res_bind (GetExportTemplate (if key = '''' then ExportTemplateMatrixCSV else key) d) (\<lambda>t.
     res_bind (BuildPeriodExport tz p d) (\<lambda>m. renderExportTemplate engine m t))"

definition PreviewExport :: "tzdb \<Rightarrow> template_engine \<Rightarrow> preview_input \<Rightarrow> db \<Rightarrow> go_error + export_render" where
  "PreviewExport tz engine input d =
     res_bind (BuildPeriodExport tz (pv_period input) d) (\<lambda>m.
       if trim_space (bd_raw (pv_body input)) \<noteq> '''' then
         res_bind (res_the ErrInvalidInput (normalizeExportFormat (pv_format input))) (\<lambda>format.
         res_bind (invalid (normalizeExportBody engine (pv_body input) format)) (\<lambda>body.
           renderExportTemplate engine m \<lparr>xt_id = 0, xt_key = ''preview'', xt_name = ''Preview'', xt_description = '''',
             xt_format = format, xt_builtin = False, xt_body = body\<rparr>))
       else let key = trim_space (pv_key input) in
         res_bind (GetExportTemplate (if key = '''' then ExportTemplateMatrixCSV else key) d)
           (renderExportTemplate engine m))"

end
