(* ===== verification/Tabular_Laws.thy ===== *)
theory Tabular_Laws
  imports Tabular
begin

text \<open>
  Laws of the tabular templates (Tabular): a reader of delimited text that gives back the cells
  that were joined, and the shape of the rendered tables.
\<close>

section \<open>Reading a delimited text\<close>

text \<open>
  A reader of delimited text in the manner of RFC 4180: a cell that starts with a quote runs to
  the next quote that is not doubled, any other cell to the next delimiter or end of line.
\<close>

fun read_quoted :: "string \<Rightarrow> (string \<times> string) option" where
  "read_quoted [] = None"
| "read_quoted (c # cs) =
     (if c \<noteq> quote then map_option (\<lambda>(v, rest). (c # v, rest)) (read_quoted cs)
      else case cs of
        [] \<Rightarrow> Some ([], [])
      | q # cs' \<Rightarrow> if q = quote then map_option (\<lambda>(v, rest). (quote # v, rest)) (read_quoted cs') else Some ([], cs))"

definition read_cell :: "char \<Rightarrow> string \<Rightarrow> (string \<times> string) option" where
  "read_cell d s =
     (case s of c # cs \<Rightarrow> if c = quote then read_quoted cs
        else Some (takeWhile (\<lambda>c. c \<noteq> d \<and> c \<noteq> newline) s, dropWhile (\<lambda>c. c \<noteq> d \<and> c \<noteq> newline) s)
      | [] \<Rightarrow> Some ([], []))"

lemma read_quoted_shorter: "read_quoted s = Some (v, rest) \<Longrightarrow> length rest \<le> length s"
  by (induction s arbitrary: v rest rule: read_quoted.induct) (force split: if_splits list.splits)+

lemma read_cell_shorter: "read_cell d s = Some (v, rest) \<Longrightarrow> length rest \<le> length s"
proof (cases s)
  case (Cons c cs)
  assume "read_cell d s = Some (v, rest)"
  then show ?thesis
    using Cons read_quoted_shorter [of cs v rest] length_dropWhile_le [of "\<lambda>c. c \<noteq> d \<and> c \<noteq> newline" s]
    by (auto simp: read_cell_def split: if_splits)
qed (simp add: read_cell_def)

function read_rows :: "char \<Rightarrow> string \<Rightarrow> string list list option" where
  "read_rows d s =
     (case read_cell d s of
        None \<Rightarrow> None
      | Some (cell, []) \<Rightarrow> Some [[cell]]
      | Some (cell, c # rest) \<Rightarrow>
          if c = d then (case read_rows d rest of Some (row # rows) \<Rightarrow> Some ((cell # row) # rows) | _ \<Rightarrow> None)
          else if c = newline then map_option (\<lambda>rows. [cell] # rows) (read_rows d rest)
          else None)"
  by auto
termination
  by (relation "measure (\<lambda>(d, s). length s)") (auto dest!: read_cell_shorter)

declare read_rows.simps [simp del]

lemma contains_single [simp]: "contains [c] s \<longleftrightarrow> c \<in> set s"
  by (induction s) auto

lemma read_quoted_doubled:
  assumes "rest = [] \<or> hd rest \<noteq> quote"
  shows "read_quoted (double_quotes v @ quote # rest) = Some (v, rest)"
proof (induction v)
  case Nil
  then show ?case using assms by (cases rest) auto
next
  case (Cons c v)
  then show ?case by simp
qed

lemma read_escaped:
  assumes "d \<noteq> quote" "rest = [] \<or> hd rest = d \<or> hd rest = newline"
  shows "read_cell d (escapeDelimitedCell v [d] @ rest) = Some (v, rest)"
proof (cases "quote \<in> set v \<or> newline \<in> set v \<or> d \<in> set v")
  case True
  then have "escapeDelimitedCell v [d] @ rest = quote # double_quotes v @ quote # rest"
    by (simp add: escapeDelimitedCell_def)
  moreover have "rest = [] \<or> hd rest \<noteq> quote" using assms by auto
  ultimately show ?thesis using read_quoted_doubled by (simp add: read_cell_def)
next
  case False
  then have plain: "escapeDelimitedCell v [d] = v" and keep: "\<forall>c \<in> set v. c \<noteq> d \<and> c \<noteq> newline"
    by (auto simp: escapeDelimitedCell_def)
  have "takeWhile (\<lambda>c. c \<noteq> d \<and> c \<noteq> newline) (v @ rest) = v" "dropWhile (\<lambda>c. c \<noteq> d \<and> c \<noteq> newline) (v @ rest) = rest"
    using keep assms(2) by (induction v) (cases rest; auto)+
  moreover have "v @ rest = [] \<or> hd (v @ rest) \<noteq> quote" using False assms by (cases v) auto
  ultimately show ?thesis unfolding plain by (cases "v @ rest") (auto simp: read_cell_def)
qed

lemma read_rows_cell:
  assumes "d \<noteq> quote" "d \<noteq> newline"
  shows "read_rows d (escapeDelimitedCell v [d]) = Some [[v]]"
    "read_rows d (escapeDelimitedCell v [d] @ d # rest) =
      (case read_rows d rest of Some (row # rows) \<Rightarrow> Some ((v # row) # rows) | _ \<Rightarrow> None)"
    "read_rows d (escapeDelimitedCell v [d] @ newline # rest) = map_option (\<lambda>rows. [v] # rows) (read_rows d rest)"
  using read_escaped [OF assms(1), of "[]" v] read_escaped [OF assms(1), of "d # rest" v]
    read_escaped [OF assms(1), of "newline # rest" v] assms
  by (subst read_rows.simps; simp)+

lemma read_rows_row:
  assumes "d \<noteq> quote" "d \<noteq> newline" "row \<noteq> []"
  shows "read_rows d (joinDelimited row [d]) = Some [row]"
    "read_rows d (joinDelimited row [d] @ newline # rest) = map_option (\<lambda>rows. row # rows) (read_rows d rest)"
  using assms(3)
proof (induction row rule: induct_list012)
  case (2 x)
  case 1 show ?case using read_rows_cell(1) [OF assms(1,2)] by (simp add: joinDelimited_def)
  case 2 show ?case using read_rows_cell(3) [OF assms(1,2)] by (simp add: joinDelimited_def)
next
  case (3 x y zs)
  have join: "joinDelimited (x # y # zs) [d] = escapeDelimitedCell x [d] @ d # joinDelimited (y # zs) [d]"
    by (simp add: joinDelimited_def)
  case 1 show ?case using 3 read_rows_cell(2) [OF assms(1,2)] by (simp add: join)
  case 2 show ?case using 3 read_rows_cell(2) [OF assms(1,2)] by (simp add: join split: option.splits list.splits)
qed simp_all

theorem read_joined:
  assumes "d \<noteq> quote" "d \<noteq> newline" "rows \<noteq> []" "\<forall>row \<in> set rows. row \<noteq> []"
  shows "read_rows d (join_with [newline] (map (\<lambda>row. joinDelimited row [d]) rows)) = Some rows"
  using assms(3,4)
proof (induction rows rule: induct_list012)
  case (2 row)
  then show ?case using read_rows_row(1) [OF assms(1,2)] by simp
next
  case (3 row next' rows)
  then show ?case using read_rows_row(2) [OF assms(1,2), of row] by simp
qed simp


section \<open>Rendered tables\<close>

lemma cd_delims: "validateTabularSpec spec \<Longrightarrow> ts_delimiter (normalizeTabularSpec spec) = comma \<or> ts_delimiter (normalizeTabularSpec spec) = tab"
  by (auto simp: validateTabularSpec_def normalizeTabularSpec_def)

text \<open>The table that a specification renders.\<close>

definition table_rows :: "period_export \<Rightarrow> tabular_spec \<Rightarrow> string list list" where
  "table_rows m spec =
     (if ts_grain spec = ExportGrainDetail then detail_rows m spec
      else if ts_layout spec = ExportLayoutMatrix then matrix_rows m spec else flat_rows m spec)"

lemma render_table: "renderTabular m spec =
    join_with [newline] (map (\<lambda>row. joinDelimited row (ts_delimiter (normalizeTabularSpec spec))) (table_rows m (normalizeTabularSpec spec)))"
  by (simp add: renderTabular_def table_rows_def Let_def renderDetailTabular_def renderMatrixTabular_def renderFlatRollupTabular_def)

lemma table_rectangular:
  assumes "row \<in> set (table_rows m spec)" "length (px_daily m) = length (px_days m)"
  shows "length row = length (hd (table_rows m spec)) \<and> length (hd (table_rows m spec)) =
    length (ts_columns spec) + (if ts_grain spec \<noteq> ExportGrainDetail \<and> ts_layout spec = ExportLayoutMatrix then length (px_days m) else 0)"
proof -
  have "length (filter (\<lambda>c. tc_field c \<noteq> ExportFieldTotal) cs) + length (filter (\<lambda>c. tc_field c = ExportFieldTotal) cs) = length cs" for cs
    using sum_length_filter_compl [of "\<lambda>c. tc_field c = ExportFieldTotal" cs] by simp
  then show ?thesis
    using assms by (auto simp: table_rows_def detail_rows_def flat_rows_def matrix_rows_def Let_def)
qed

lemma table_nonempty: "table_rows m spec \<noteq> []"
  by (simp add: table_rows_def detail_rows_def flat_rows_def matrix_rows_def Let_def)

lemma rendered_reads_back:
  assumes "validateTabularSpec spec" "length (px_daily m) = length (px_days m)"
    and d: "ts_delimiter (normalizeTabularSpec spec) = [d]"
  shows "read_rows d (renderTabular m spec) = Some (table_rows m (normalizeTabularSpec spec))"
proof -
  have "d \<noteq> quote" "d \<noteq> newline" using cd_delims [OF assms(1)] d by auto
  moreover have "row \<noteq> []" if "row \<in> set (table_rows m (normalizeTabularSpec spec))" for row
  proof -
    have "length row \<ge> length (ts_columns spec)"
      using table_rectangular [OF that assms(2)] by (simp add: normalizeTabularSpec_def)
    moreover have "ts_columns spec \<noteq> []" using assms(1) by (simp add: validateTabularSpec_def)
    ultimately show ?thesis by auto
  qed
  ultimately show ?thesis using table_nonempty by (simp add: render_table d read_joined)
qed

end
