(* ===== verification/Template_Laws.thy ===== *)
theory Template_Laws
  imports Templates Tabular_Laws
begin

text \<open>
  Laws of the export templates (Templates): the round trip of a specification, the keys, and what
  the operations keep of the template table.
\<close>

section \<open>Round trip of a specification\<close>

lemma lowered_names [simp]:
  "to_lower ''field'' = ''field''" "to_lower ''header'' = ''header''" "to_lower ''version'' = ''version''"
  "to_lower ''grain'' = ''grain''" "to_lower ''layout'' = ''layout''" "to_lower ''delimiter'' = ''delimiter''"
  "to_lower ''columns'' = ''columns''"
  by code_simp+

lemma read_column_json [simp]: "read_column (column_json c) = Some c"
  by (simp add: read_column_def column_json_def read_column_member_def read_text_def)

lemma those_read [simp]: "those (map (\<lambda>c. read_column (column_json c)) cs) = Some cs"
  by (induction cs) auto

lemma those_some [simp]: "those (map Some xs) = Some xs"
  by (induction xs) auto

lemma read_spec_json: "ts_version s = 0 \<or> ts_version s = 1 \<Longrightarrow> read_spec (spec_json s) = Some s"
  by (auto simp: read_spec_def spec_json_def read_spec_member_def read_int64_def read_text_def read_columns_def comp_def)

lemma trim_nonblank: "\<not> is_space c \<Longrightarrow> trim_space (c # cs) \<noteq> []"
  by (simp add: trim_space_def)

lemma spec_text_nonblank: "trim_space (spec_text s) \<noteq> []"
proof -
  have "\<not> is_space (CHR ''{'')" by code_simp
  then show ?thesis by (simp add: spec_text_def trim_nonblank)
qed

lemma encoded_parses:
  assumes "encodeTabularSpec spec = Inr body"
  shows "parseTabularSpec body = Inr (normalizeTabularSpec (normalizeTabularSpec spec))"
proof -
  let ?s = "normalizeTabularSpec spec"
  have valid: "validateTabularSpec ?s" and body: "body = \<lparr>bd_raw = spec_text ?s, bd_json = Some (spec_json ?s)\<rparr>"
    using assms by (auto simp: encodeTabularSpec_def Let_def split: if_splits)
  then have "read_spec (spec_json ?s) = Some ?s" by (intro read_spec_json) (simp add: validateTabularSpec_def)
  then show ?thesis using valid spec_text_nonblank by (simp add: parseTabularSpec_def body)
qed

lemma default_header_trimmed: "trim_space f = f \<Longrightarrow> trim_space (defaultFieldHeader f) = defaultFieldHeader f"
proof -
  assume f: "trim_space f = f"
  have "list_all (\<lambda>(k, h). trim_space h = h) default_headers" by code_simp
  then have "trim_space h = h" if "map_of default_headers f = Some h" for h
    using map_of_SomeD [OF that] by (auto simp: list_all_iff)
  then show ?thesis using f by (auto simp: defaultFieldHeader_def split: option.splits)
qed

lemma normalize_column_idem:
  "trim_space (tc_field c) = tc_field c \<Longrightarrow> normalize_column (normalize_column c) = normalize_column c"
  using default_header_trimmed [of "tc_field c"] by (auto simp: normalize_column_def Let_def)

lemma normalize_idem:
  "\<forall>c \<in> set (ts_columns spec). trim_space (tc_field c) = tc_field c \<Longrightarrow>
    normalizeTabularSpec (normalizeTabularSpec spec) = normalizeTabularSpec spec"
  by (auto simp: normalizeTabularSpec_def normalize_column_idem)

lemma normalized_valid: "validateTabularSpec spec \<Longrightarrow> validateTabularSpec (normalizeTabularSpec spec)"
proof -
  assume valid: "validateTabularSpec spec"
  let ?n = "normalizeTabularSpec spec"
  have f: "tc_field (normalize_column c) = trim_space (tc_field c)" for c by (simp add: normalize_column_def Let_def)
  have names: "trim_space ExportFieldCategoryName = ExportFieldCategoryName" "trim_space ExportFieldCategoryKey = ExportFieldCategoryKey"
    by code_simp+
  have "map (\<lambda>c. trim_space (tc_field c)) (ts_columns ?n) = map (\<lambda>c. trim_space (tc_field c)) (ts_columns spec)"
    by (simp add: normalizeTabularSpec_def f)
  moreover have "list_ex (\<lambda>c. tc_field c = ExportFieldCategoryName \<or> tc_field c = ExportFieldCategoryKey) (ts_columns ?n)"
    if label: "list_ex (\<lambda>c. tc_field c = ExportFieldCategoryName \<or> tc_field c = ExportFieldCategoryKey) (ts_columns spec)"
  proof -
    obtain c where c: "c \<in> set (ts_columns spec)" "tc_field c = ExportFieldCategoryName \<or> tc_field c = ExportFieldCategoryKey"
      using label unfolding list_ex_iff by blast
    then have "normalize_column c \<in> set (ts_columns ?n)" by (simp add: normalizeTabularSpec_def)
    moreover have "tc_field (normalize_column c) = tc_field c" using c(2) names by (metis f)
    ultimately show ?thesis using c(2) unfolding list_ex_iff by metis
  qed
  moreover have "ts_columns ?n \<noteq> [] \<longleftrightarrow> ts_columns spec \<noteq> []" "ts_grain ?n = ts_grain spec" "ts_layout ?n = ts_layout spec"
    "ts_version ?n = (if ts_version spec = 0 then 1 else ts_version spec)"
    "ts_delimiter ?n = (if ts_delimiter spec = '''' then comma else ts_delimiter spec)"
    by (simp_all add: normalizeTabularSpec_def)
  ultimately show ?thesis using valid unfolding validateTabularSpec_def by presburger
qed

lemma parsed_valid:
  assumes "parseTabularSpec body = Inr spec"
  shows "validateTabularSpec spec" "\<forall>c \<in> set (ts_columns spec). trim_space (tc_field c) = tc_field c"
    "ts_delimiter spec = comma \<or> ts_delimiter spec = tab"
proof -
  obtain raw where raw: "validateTabularSpec raw" "spec = normalizeTabularSpec raw"
    using assms by (auto simp: parseTabularSpec_def split: if_splits option.splits)
  show "validateTabularSpec spec" unfolding raw(2) by (rule normalized_valid [OF raw(1)])
  show "\<forall>c \<in> set (ts_columns spec). trim_space (tc_field c) = tc_field c"
    by (simp add: raw(2) normalizeTabularSpec_def normalize_column_def Let_def)
  show "ts_delimiter spec = comma \<or> ts_delimiter spec = tab" unfolding raw(2) by (rule cd_delims [OF raw(1)])
qed

text \<open>A body that was normalized for a tabular format parses.\<close>

lemma normalized_body_parses:
  assumes "normalizeTabularBody body format = Inr body'"
  shows "\<exists>spec. parseTabularSpec body' = Inr spec"
  using assms encoded_parses by (auto simp: normalizeTabularBody_def)

lemma normalized_body_total:
  assumes "parseTabularSpec body = Inr spec"
  shows "\<exists>body'. normalizeTabularBody body format = Inr body'"
proof -
  have "validateTabularSpec (spec\<lparr>ts_delimiter := d\<rparr>)" if "d = comma \<or> d = tab" for d
    using parsed_valid(1) [OF assms] that by (auto simp: validateTabularSpec_def)
  then have "\<exists>body'. encodeTabularSpec (spec\<lparr>ts_delimiter := d\<rparr>) = Inr body'" if "d = comma \<or> d = tab" for d
    using that normalized_valid [of "spec\<lparr>ts_delimiter := d\<rparr>"] by (auto simp: encodeTabularSpec_def Let_def)
  from this [of comma] this [of tab] this [of "ts_delimiter spec"] parsed_valid(3) [OF assms]
  show ?thesis using assms by (auto simp: normalizeTabularBody_def delimiterFromFormat_def)
qed


section \<open>Keys\<close>

definition slug :: "string \<Rightarrow> bool" where
  "slug k \<longleftrightarrow> (\<forall>c \<in> set k. is_key_char c \<or> c = CHR ''_'') \<and> (k = [] \<or> hd k \<noteq> CHR ''_'' \<and> last k \<noteq> CHR ''_'')"

lemma collapse_chars: "c \<in> set (collapse_runs b s) \<Longrightarrow> is_key_char c \<or> c = CHR ''_''"
  by (induction b s rule: collapse_runs.induct) (auto split: if_splits)

lemma trim_underscores_length: "length (trim_underscores s) \<le> length s"
  by (rule cut_shape(3)) (simp add: trim_underscores_def Let_def)

lemma trim_slug: "\<forall>c \<in> set s. is_key_char c \<or> c = CHR ''_'' \<Longrightarrow> slug (trim_underscores s)"
  using cut_shape [of "trim_underscores s" "\<lambda>c. c = CHR ''_''" s] by (auto simp: trim_underscores_def Let_def slug_def)

lemma slugify_slug: "slug (slugifyExportTemplateKey raw)" "length (slugifyExportTemplateKey raw) \<le> 64"
proof -
  let ?k = "trim_underscores (collapse_runs False (trim_underscores (slug_loop False [] (to_lower (trim_space raw)))))"
  have k: "slug ?k" by (rule trim_slug) (auto dest: collapse_chars)
  then have "slug (trim_underscores (take 64 ?k))" by (intro trim_slug) (auto simp: slug_def dest: in_set_takeD)
  then show "slug (slugifyExportTemplateKey raw)" using k by (simp add: slugifyExportTemplateKey_def Let_def)
  have "length (trim_underscores (take 64 ?k)) \<le> 64" using trim_underscores_length [of "take 64 ?k"] by simp
  then show "length (slugifyExportTemplateKey raw) \<le> 64" unfolding slugifyExportTemplateKey_def Let_def by simp
qed

lemma unique_key_free:
  assumes "uniqueExportTemplateKey base d = Inr k"
  shows "k \<notin> xt_key ` set (tbl_rows (db_templates d))" "k \<in> set (key_candidates base)"
proof -
  have "find (\<lambda>k. q_ExportTemplateKeyExists k d = 0) (key_candidates base) = Some k"
    using assms by (auto simp: uniqueExportTemplateKey_def res_the_def split: option.splits)
  then show "k \<notin> xt_key ` set (tbl_rows (db_templates d))" "k \<in> set (key_candidates base)"
    by (auto dest!: find_SomeD simp: q_ExportTemplateKeyExists_def count_rows_def filter_empty_conv)
qed

lemma candidates_distinct: "distinct (key_candidates base)" "length (key_candidates base) = 50"
proof -
  have "inj show_nat" by (rule injI) simp
  then show "distinct (key_candidates base)" by (auto simp: key_candidates_def distinct_map inj_on_def inj_def)
qed (simp add: key_candidates_def)

text \<open>Fewer than fifty taken keys always leave one.\<close>

lemma unique_key_total:
  assumes "length (tbl_rows (db_templates d)) < 50"
  shows "\<exists>k. uniqueExportTemplateKey base d = Inr k"
proof (rule ccontr)
  assume "\<not> ?thesis"
  then have "find (\<lambda>k. q_ExportTemplateKeyExists k d = 0) (key_candidates base) = None"
    by (auto simp: uniqueExportTemplateKey_def res_the_def split: option.splits)
  then have "set (key_candidates base) \<subseteq> xt_key ` set (tbl_rows (db_templates d))"
    by (auto simp: find_None_iff q_ExportTemplateKeyExists_def count_rows_def filter_empty_conv)
  then have "card (set (key_candidates base)) \<le> card (xt_key ` set (tbl_rows (db_templates d)))"
    by (intro card_mono) auto
  also have "\<dots> \<le> card (set (tbl_rows (db_templates d)))" by (rule card_image_le) simp
  also have "\<dots> \<le> length (tbl_rows (db_templates d))" by (rule card_length)
  finally show False using assms candidates_distinct by (simp add: distinct_card)
qed


section \<open>What the operations keep of the template table\<close>

text \<open>A template that renders: a specification that parses, or a text the engine accepts.\<close>

definition usable :: "template_engine \<Rightarrow> string \<Rightarrow> template_body \<Rightarrow> bool" where
  "usable engine format body \<longleftrightarrow>
     (if format = ''text'' then trim_space (bd_raw body) \<noteq> '''' \<and> engine (bd_raw body) \<noteq> None
      else \<not> isl (parseTabularSpec body))"

definition templates_wf :: "template_engine \<Rightarrow> export_template table \<Rightarrow> bool" where
  "templates_wf engine t \<longleftrightarrow> ids_ok xt_id t \<and> distinct (map xt_key (tbl_rows t)) \<and>
     (\<forall>x \<in> set (tbl_rows t). xt_format x \<in> {''csv'', ''tsv'', ''text''} \<and>
        (xt_builtin x \<or> usable engine (xt_format x) (xt_body x)))"

definition builtins :: "export_template table \<Rightarrow> export_template list" where
  "builtins t = filter xt_builtin (tbl_rows t)"

definition keeps_templates :: "template_engine \<Rightarrow> db \<Rightarrow> db \<Rightarrow> bool" where
  "keeps_templates engine d d' \<longleftrightarrow> d' = d\<lparr>db_templates := db_templates d'\<rparr> \<and>
     (templates_wf engine (db_templates d) \<longrightarrow>
        templates_wf engine (db_templates d') \<and> builtins (db_templates d') = builtins (db_templates d))"

lemma keeps_templates_frame: "keeps_templates engine d d"
  "keeps_templates engine d e \<Longrightarrow> keeps_templates engine e f \<Longrightarrow> keeps_templates engine d f"
proof -
  show "keeps_templates engine d d" by (simp add: keeps_templates_def)
  assume a: "keeps_templates engine d e" "keeps_templates engine e f"
  then have "f = d\<lparr>db_templates := db_templates f\<rparr>" unfolding keeps_templates_def by (metis templates.put_put)
  moreover have "templates_wf engine (db_templates d) \<longrightarrow> templates_wf engine (db_templates f) \<and> builtins (db_templates f) = builtins (db_templates d)"
    using a unfolding keeps_templates_def by presburger
  ultimately show "keeps_templates engine d f" unfolding keeps_templates_def by (rule conjI)
qed

interpretation kt: frame_relation "keeps_templates engine" for engine
  by unfold_locales (rule keeps_templates_frame, rule keeps_templates_frame)

text \<open>What the normalizing steps accept is usable.\<close>

lemma normalized_usable:
  "normalizeTextBody engine body = Inr body' \<Longrightarrow> usable engine ''text'' body'"
  "normalizeTabularBody body format = Inr body' \<Longrightarrow> format \<noteq> ''text'' \<Longrightarrow> usable engine format body'"
  "normalizeExportBody engine body format = Inr body' \<Longrightarrow> usable engine format body'"
proof -
  show texts: "usable engine ''text'' body'" if "normalizeTextBody engine body = Inr body'"
    using that by (auto simp: normalizeTextBody_def usable_def Let_def split: if_splits)
  show table: "usable engine format body'" if "normalizeTabularBody body format = Inr body'" "format \<noteq> ''text''"
    using normalized_body_parses [OF that(1)] that(2) by (auto simp: usable_def)
  show "usable engine format body'" if "normalizeExportBody engine body format = Inr body'"
    using that texts table by (auto simp: normalizeExportBody_def split: if_splits)
qed

lemma duplicated_usable:
  "duplicated_body engine src = Inr body \<Longrightarrow> xt_format src \<in> {''csv'', ''tsv'', ''text''} \<Longrightarrow> usable engine (xt_format src) body"
  using normalized_usable(1) [of engine _ body] normalized_usable(2) [of _ "xt_format src" body engine]
  by (auto simp: duplicated_body_def split: if_splits)

lemma invalid_Inr [simp]: "invalid r = Inr x \<longleftrightarrow> r = Inr x"
  by (cases r) (simp_all add: invalid_def)

text \<open>The statements.\<close>

lemma create_keeps:
  assumes "format \<in> {''csv'', ''tsv'', ''text''} \<Longrightarrow> usable engine format body"
  shows "moves (keeps_templates engine) (q_CreateExportTemplate k name desc format False body)"
  unfolding moves_def
proof
  fix d
  let ?m = "q_CreateExportTemplate k name desc format False body"
  show "keeps_templates engine d (snd (?m d))"
  proof (cases "?m d")
    case (Pair r d')
    show ?thesis
    proof (cases r)
      case (Inl e)
      then show ?thesis using Pair keeps_templates_frame(1) by (auto simp: q_CreateExportTemplate_def dest!: templates.insert_Inl)
    next
      case (Inr x)
      have ins: "x = \<lparr>xt_id = tbl_seq (db_templates d) + 1, xt_key = k, xt_name = name, xt_description = desc, xt_format = format,
          xt_builtin = False, xt_body = body\<rparr>" "xt_ok d x"
        "d' = put_templates ((db_templates d)\<lparr>tbl_rows := tbl_rows (db_templates d) @ [x], tbl_seq := tbl_seq (db_templates d) + 1\<rparr>) d"
        using Pair Inr by (auto simp: q_CreateExportTemplate_def templates.insert_Inr)
      have "templates_wf engine (db_templates d')" if wf: "templates_wf engine (db_templates d)"
      proof -
        have ids: "ids_ok xt_id (db_templates d')"
          by (rule templates.insert_keeps_ids) (use Pair Inr wf in \<open>auto simp: q_CreateExportTemplate_def templates_wf_def\<close>)
        have "xt_id y \<noteq> xt_id x" if "y \<in> set (tbl_rows (db_templates d))" for y
          using wf that ins(1) by (force simp: templates_wf_def ids_ok_def)
        then have "distinct (map xt_key (tbl_rows (db_templates d) @ [x]))"
          using wf ins(2) by (fastforce simp: templates_wf_def xt_ok_def alone_def list_all_iff)
        then show ?thesis using ids wf ins assms by (auto simp: templates_wf_def xt_ok_def)
      qed
      then show ?thesis using Pair ins by (simp add: keeps_templates_def builtins_def)
    qed
  qed
qed

lemma delete_keeps: "moves (keeps_templates engine) (q_DeleteExportTemplate i)"
proof -
  have "keeps_templates engine d (put_templates ((db_templates d)\<lparr>tbl_rows := filter (\<lambda>x. \<not> (xt_id x = i \<and> \<not> xt_builtin x)) (tbl_rows (db_templates d))\<rparr>) d)" for d
    by (auto simp: keeps_templates_def templates_wf_def builtins_def ids_ok_def distinct_map_filter intro!: filter_cong)
  then show ?thesis unfolding q_DeleteExportTemplate_def by (rule templates.moves_delete)
qed

lemma update_keeps:
  assumes "usable engine format body"
  shows "moves (keeps_templates engine) (q_UpdateExportTemplate name desc format body i)"
proof -
  let ?P = "\<lambda>x. xt_id x = i \<and> \<not> xt_builtin x"
  let ?f = "\<lambda>x. x\<lparr>xt_name := name, xt_description := desc, xt_format := format, xt_body := body\<rparr>"
  have "moves (keeps_templates engine) (update_where db_templates put_templates xt_ok ?P ?f)"
    unfolding moves_def
  proof
    fix d
    show "keeps_templates engine d (snd (update_where db_templates put_templates xt_ok ?P ?f d))"
    proof (cases "update_where db_templates put_templates xt_ok ?P ?f d")
      case (Pair r d')
      show ?thesis
      proof (cases r)
        case (Inl e)
        then show ?thesis using Pair keeps_templates_frame(1) by (auto dest!: templates.update_Inl)
      next
        case (Inr rs)
        have rows: "tbl_rows (db_templates d') = map (\<lambda>x. if ?P x then ?f x else x) (tbl_rows (db_templates d))"
          and put: "d' = put_templates (db_templates d') d"
          using Pair Inr by (auto simp: update_where_def Let_def split: if_splits)
        have fmt: "format \<in> {''csv'', ''tsv'', ''text''}" if "x \<in> set (tbl_rows (db_templates d))" "?P x" for x
          using Pair Inr that by (auto simp: update_where_def Let_def xt_ok_def list_all_iff split: if_splits)
        have keys: "map xt_key (tbl_rows (db_templates d')) = map xt_key (tbl_rows (db_templates d))" by (simp add: rows)
        have "templates_wf engine (db_templates d')" if wf: "templates_wf engine (db_templates d)"
        proof -
          have "ids_ok xt_id (db_templates d')"
            by (rule templates.update_keeps_ids [of xt_ok ?P ?f d rs]) (use Pair Inr wf in \<open>auto simp: templates_wf_def\<close>)
          moreover have "distinct (map xt_key (tbl_rows (db_templates d')))" using wf unfolding keys templates_wf_def by blast
          ultimately show ?thesis using wf fmt assms unfolding templates_wf_def by (auto simp: rows)
        qed
        moreover have "filter xt_builtin (map (\<lambda>x. if ?P x then ?f x else x) ys) = filter xt_builtin ys" for ys
          by (induction ys) auto
        ultimately have "keeps_templates engine d d'" unfolding keeps_templates_def builtins_def rows using put by blast
        then show ?thesis using Pair by simp
      qed
    qed
  qed
  then show ?thesis unfolding q_UpdateExportTemplate_def by (rule moves_scan_one)
qed

text \<open>The operations.\<close>

lemma create_template_keeps: "moves (keeps_templates engine) (CreateExportTemplate engine input)"
  unfolding CreateExportTemplate_def Let_def
  by (intro kt.moves_if kt.moves_throw kt.moves_bind_lift kt.moves_bind kt.moves_reads moves_mapErr create_keeps)
     (auto dest: normalized_usable(3))

lemma update_template_keeps: "moves (keeps_templates engine) (UpdateExportTemplate engine i input)"
  unfolding UpdateExportTemplate_def Let_def
  by (intro kt.moves_bind moves_mapErr kt.moves_if kt.moves_throw kt.moves_bind_lift update_keeps)
     (auto simp: moves_def keeps_templates_frame dest: normalized_usable(3))

lemma delete_template_keeps: "moves (keeps_templates engine) (DeleteExportTemplate i)"
  unfolding DeleteExportTemplate_def
  by (intro kt.moves_bind moves_mapErr kt.moves_if kt.moves_throw kt.moves_ret delete_keeps)
     (auto simp: moves_def keeps_templates_frame)

lemma duplicate_template_keeps: "moves (keeps_templates engine) (DuplicateExportTemplate engine key)"
  unfolding DuplicateExportTemplate_def Let_def
  by (intro kt.moves_bind kt.moves_reads kt.moves_bind_lift moves_mapErr create_keeps duplicated_usable)

inductive template_step :: "template_engine \<Rightarrow> db \<Rightarrow> db \<Rightarrow> bool" for engine where
  create: "CreateExportTemplate engine input d = (r, d') \<Longrightarrow> template_step engine d d'"
| update: "UpdateExportTemplate engine i input d = (r, d') \<Longrightarrow> template_step engine d d'"
| delete: "DeleteExportTemplate i d = (u, d') \<Longrightarrow> template_step engine d d'"
| duplicate: "DuplicateExportTemplate engine key d = (r, d') \<Longrightarrow> template_step engine d d'"

lemma template_step_keeps: "template_step engine d d' \<Longrightarrow> keeps_templates engine d d'"
  by (induction rule: template_step.induct)
     (blast intro: moves_result create_template_keeps update_template_keeps delete_template_keeps duplicate_template_keeps)+

lemma template_steps_keep: "(template_step engine)\<^sup>*\<^sup>* d d' \<Longrightarrow> keeps_templates engine d d'"
  by (induction rule: rtranclp_induct) (blast intro: keeps_templates_frame template_step_keeps)+

text \<open>A usable tabular template renders; a usable text template renders if its run succeeds.\<close>

lemma usable_renders:
  assumes "usable engine (xt_format t) (xt_body t)" "xt_format t \<in> {''csv'', ''tsv'', ''text''}"
    and "\<forall>run. xt_format t = ''text'' \<and> engine (bd_raw (xt_body t)) = Some run \<longrightarrow> run (PlainPeriodExportData m) \<noteq> None"
  shows "\<exists>out. renderExportTemplate engine m t = Inr out \<and> xr_format out = xt_format t"
proof (cases "xt_format t = ''text''")
  case True
  then show ?thesis using assms by (auto simp: usable_def renderExportTemplate_def renderTextSummary_def)
next
  case False
  then obtain spec where "parseTabularSpec (xt_body t) = Inr spec"
    using assms(1) by (cases "parseTabularSpec (xt_body t)") (auto simp: usable_def)
  then show ?thesis using False assms(2) by (auto simp: renderExportTemplate_def)
qed

text \<open>A tabular template that parses is duplicated while fewer than fifty templates are stored.\<close>

lemma duplicate_runs:
  assumes "GetExportTemplate key d = Inr src" "parseTabularSpec (xt_body src) = Inr spec"
    and "xt_format src = ''csv'' \<or> xt_format src = ''tsv''" "length (tbl_rows (db_templates d)) < 50"
  shows "\<exists>x d'. DuplicateExportTemplate engine key d = (Inr x, d') \<and> tbl_rows (db_templates d') = tbl_rows (db_templates d) @ [x]"
proof -
  have "trim_space (bd_raw (xt_body src)) \<noteq> ''''" using assms(2) by (auto simp: parseTabularSpec_def)
  then obtain body where body: "duplicated_body engine src = Inr body"
    using normalized_body_total [OF assms(2), of "xt_format src"] assms(3) by (auto simp: duplicated_body_def)
  let ?base = "let b = slugifyExportTemplateKey (xt_key src @ ''_copy'') in if b = '''' then ''export_copy'' else b"
  obtain k where k: "uniqueExportTemplateKey ?base d = Inr k" using unique_key_total [OF assms(4)] by blast
  let ?mk = "\<lambda>i. \<lparr>xt_id = i, xt_key = k, xt_name = xt_name src @ '' (copy)'', xt_description = xt_description src,
    xt_format = xt_format src, xt_builtin = False, xt_body = body\<rparr>"
  have "xt_ok d (?mk i)" for i
    using unique_key_free(1) [OF k] assms(3) by (auto simp: xt_ok_def alone_def list_all_iff)
  then have "q_CreateExportTemplate k (xt_name src @ '' (copy)'') (xt_description src) (xt_format src) False body d =
      (Inr (?mk (tbl_seq (db_templates d) + 1)), put_templates ((db_templates d)\<lparr>tbl_rows := tbl_rows (db_templates d) @
         [?mk (tbl_seq (db_templates d) + 1)], tbl_seq := tbl_seq (db_templates d) + 1\<rparr>) d)"
    by (simp add: q_CreateExportTemplate_def templates.insert_Inr)
  then show ?thesis using assms(1) body k
    by (simp add: DuplicateExportTemplate_def act_bind_def Let_def mapErr_def)
qed

end
