(* ===== verification/Export_Properties.thy ===== *)
theory Export_Properties
  imports Export_Laws Template_Laws Samples
begin

text \<open>
  The properties of the period export: what a table says and how it reads back, the totals against
  the ledger, the minutes of an exported entry, and the templates that stay usable.
\<close>

section \<open>A template and its period\<close>

definition weekly_spec :: tabular_spec where
  "weekly_spec = \<lparr>ts_version = 0, ts_grain = ExportGrainRollup, ts_layout = ExportLayoutMatrix, ts_delimiter = '''',
     ts_columns = [\<lparr>tc_field = ExportFieldCategoryName, tc_header = ''''\<rparr>, \<lparr>tc_field = ExportFieldTotal, tc_header = ''Sum''\<rparr>]\<rparr>"

definition weekly_template :: export_template where
  "weekly_template = \<lparr>xt_id = 1, xt_key = ''weekly'', xt_name = ''Weekly'', xt_description = '''', xt_format = ''csv'',
     xt_builtin = False, xt_body = \<lparr>bd_raw = ''{}'', bd_json = Some (spec_json weekly_spec)\<rparr>\<rparr>"

definition export_db :: db where
  "export_db = one_day_db\<lparr>db_templates := \<lparr>tbl_rows = [weekly_template], tbl_seq = 1\<rparr>\<rparr>"

lemma weekly_parses: "parseTabularSpec (xt_body weekly_template) = Inr (normalizeTabularSpec weekly_spec)"
  by code_simp

lemma export_runs: "\<exists>m. BuildPeriodExport sample_tz 1 export_db = Inr m"
proof (rule build_total [where a = 19787 and b = 19787])
  show "q_GetPeriod 1 export_db = Some (sample_period\<lparr>pd_start := ''2024-03-05'', pd_end := ''2024-03-05''\<rparr>)"
    by (simp add: q_GetPeriod_def find_row_def export_db_def one_day_db_def sample_period_def)
  have segs: "ListTzSegments 1 export_db = [\<lparr>sg_id = 1, sg_period = 1, sg_from = ''2024-03-04'', sg_tz = ''EST''\<rparr>]"
    by (simp add: ListTzSegments_def q_ListTzSegments_def select_rows_def export_db_def one_day_db_def sample_db_def)
  have "\<exists>x. timeEntryToExportEntry sample_tz te (ListTzSegments 1 export_db) cats ps = Inr x" if "te_day te \<noteq> ''''" for te cats ps
    by (rule exported_total(1) [of _ _ _ "te_day te" "''EST''"])
      (use that in \<open>simp_all add: segs entry_day_zone_def activeSegment_def sample_tz_def\<close>)
  then show "\<forall>te \<in> set (q_ListTimeEntriesForPeriod 1 export_db). te_attestation te = ''confirmed'' \<longrightarrow>
      (\<exists>x. timeEntryToExportEntry sample_tz te (ListTzSegments 1 export_db) (map fst (ListAllCategories export_db))
         (map fst (ListAllProjects export_db)) = Inr x)"
    by (simp add: q_ListTimeEntriesForPeriod_def select_rows_def export_db_def one_day_db_def sample_db_def sample_entry_def)
qed (simp_all add: sample_dates)

text \<open>
  C34. A csv or tsv template that is stored with a specification renders every period that can be
  built, and a reader of delimited text gets the table back from the output cell by cell, whatever
  delimiters, quotes and line feeds the texts of the period hold. Every row of the table is as wide
  as its header.
\<close>

theorem exported_table_reads_back:
  assumes "GetExportTemplate key d = Inr t" "key \<noteq> ''''" "xt_format t = ''csv'' \<or> xt_format t = ''tsv''"
    and "parseTabularSpec (xt_body t) = Inr spec" "BuildPeriodExport tz p d = Inr m"
  shows "\<exists>out. RenderPeriodExport tz engine p key d = Inr out \<and>
    read_rows (hd (ts_delimiter spec)) (xr_content out) = Some (table_rows m (normalizeTabularSpec spec)) \<and>
    (\<forall>row \<in> set (table_rows m (normalizeTabularSpec spec)). length row = length (hd (table_rows m (normalizeTabularSpec spec))))"
proof -
  note spec = parsed_valid [OF assms(4)]
  have "ts_delimiter (normalizeTabularSpec spec) = ts_delimiter spec" "ts_delimiter spec = [hd (ts_delimiter spec)]"
    using spec(3) by (auto simp: normalizeTabularSpec_def)
  then have "read_rows (hd (ts_delimiter spec)) (renderTabular m spec) = Some (table_rows m (normalizeTabularSpec spec))"
    using rendered_reads_back [OF spec(1) build_days(2) [OF assms(5)]] by metis
  moreover have "\<forall>row \<in> set (table_rows m (normalizeTabularSpec spec)). length row = length (hd (table_rows m (normalizeTabularSpec spec)))"
    using table_rectangular [OF _ build_days(2) [OF assms(5)]] by blast
  ultimately show ?thesis using assms by (auto simp: RenderPeriodExport_def renderExportTemplate_def)
qed

theorem exported_table_reads_back_witness:
  "\<exists>m out. BuildPeriodExport sample_tz 1 export_db = Inr m \<and>
     RenderPeriodExport sample_tz (\<lambda>_. None) 1 ''weekly'' export_db = Inr out \<and>
     read_rows (CHR '','') (xr_content out) = Some (table_rows m (normalizeTabularSpec (normalizeTabularSpec weekly_spec)))"
proof -
  obtain m where m: "BuildPeriodExport sample_tz 1 export_db = Inr m" using export_runs by blast
  have t: "GetExportTemplate ''weekly'' export_db = Inr weekly_template"
    by (simp add: GetExportTemplate_def q_GetExportTemplateByKey_def find_row_def export_db_def weekly_template_def)
  have "hd (ts_delimiter (normalizeTabularSpec weekly_spec)) = CHR '',''"
    by (simp add: normalizeTabularSpec_def weekly_spec_def)
  then show ?thesis
    using exported_table_reads_back [OF t _ _ weekly_parses m, of "\<lambda>_. None"] m by (auto simp: weekly_template_def)
qed

text \<open>
  C35. The totals of an export agree with the ledger. Its entries are, one for one, the confirmed
  entries of the period whose start and end can be read (an entry is skipped only when a time of it
  cannot), each with the id, the description, the category, the work type, the billable status and,
  where it has one, the day of its entry. The actual minutes are the sum of the entries, which is the
  sum over the categories, where each category counts its own entries once; the target is the sum of
  the targets of the days, each day counts the entries of its date, and when every entry lies on a day
  of the period the days add up to the whole.
\<close>

theorem export_totals:
  assumes "BuildPeriodExport tz p d = Inr m"
  shows "(\<exists>tes. mset tes = {#te \<in># mset (tbl_rows (db_entries d)). te_period te = p \<and> te_attestation te = ''confirmed'' \<and>
          parseTime (te_start te) \<noteq> zero_time \<and> parseTime (te_end te) \<noteq> zero_time#} \<and>
       list_all2 (\<lambda>te x. xe_source_id x = te_id te \<and> xe_description x = te_description te \<and>
          xe_category x = resolveExportCategory (te_category te) (map fst (ListAllCategories d)) \<and>
          xe_work_type x = te_work_type te \<and> xe_billable x = te_billable te \<and>
          (te_day te \<noteq> '''' \<longrightarrow> xe_day x = te_day te)) tes (px_entries m)) \<and>
    (px_actual m = sum_list (map xe_minutes (px_entries m))) \<and>
    (sum_list (map cm_minutes (px_totals m)) = px_actual m) \<and>
    (\<forall>c \<in> set (px_totals m). cm_minutes c =
       sum_list (map xe_minutes (filter (\<lambda>e. categoryIdentity (xe_category e) = categoryIdentity (cm_category c)) (px_entries m)))) \<and>
    (px_target m = sum_list (map dy_target (px_daily m))) \<and>
    (map dy_date (px_daily m) = px_days m) \<and>
    (distinct (px_days m)) \<and>
    (\<forall>dy \<in> set (px_daily m). dy_actual dy = sum_list (map xe_minutes (filter (\<lambda>e. xe_day e = dy_date dy) (px_entries m)))) \<and>
    ((\<forall>e \<in> set (px_entries m). xe_day e \<in> set (px_days m)) \<longrightarrow> sum_list (map dy_actual (px_daily m)) = px_actual m)"
proof (intro conjI)
  show "px_actual m = sum_list (map xe_minutes (px_entries m))" by (rule build_Inr [OF assms]) blast
qed (use build_totals [OF assms] build_days [OF assms] build_confirmed [OF assms, unfolded exportable_def copied_def] in blast)+

theorem export_totals_witness:
  "\<exists>m. BuildPeriodExport sample_tz 1 export_db = Inr m \<and> sum_list (map cm_minutes (px_totals m)) = px_actual m"
proof -
  obtain m where "BuildPeriodExport sample_tz 1 export_db = Inr m" using export_runs by blast
  then show ?thesis using export_totals by blast
qed

text \<open>
  C36. The minutes of an exported entry: the start lies in the day, an entry has at least a quarter
  of an hour, and its end can pass midnight by fourteen minutes at most. Its start is the wall clock of
  its start in the zone of its day, its minutes run to the wall clock of its end, or to midnight when
  that is on another date, and are raised to the quarter of an hour. So an entry inside one day that
  takes \<open>k\<close> whole minutes is exported with these (and at least 15), provided the zone has the same
  offset at its start and its end: on a day whose clocks change it can be an hour off.
\<close>

theorem exported_entry_minutes:
  assumes "timeEntryToExportEntry tz te segs cats ps = Inr (Some x)"
    and "entry_day_zone tz segs te (parseTime (te_start te)) = Inr (day, zone)" "tz zone = Some loc"
  shows "(0 \<le> xe_start x) \<and>
    (xe_start x < 1440) \<and>
    (15 \<le> xe_minutes x) \<and>
    (xe_end x = xe_start x + xe_minutes x) \<and>
    (xe_end x \<le> 1454) \<and>
    (xe_start x = local_minutes loc (parseTime (te_start te))) \<and>
    (xe_minutes x = max 15
       ((if format_date (local_day loc (parseTime (te_end te))) \<noteq> format_date (local_day loc (parseTime (te_start te)))
         then 1440 else local_minutes loc (parseTime (te_end te))) - xe_start x)) \<and>
    (\<forall>k. parseTime (te_end te) = parseTime (te_start te) + k * minute \<and>
       loc (unix_seconds (parseTime (te_end te))) = loc (unix_seconds (parseTime (te_start te))) \<and>
       local_day loc (parseTime (te_end te)) = local_day loc (parseTime (te_start te)) \<longrightarrow> xe_minutes x = max 15 k)"
proof -
  note minutes = exported_minutes [OF assms]
  have kept: "xe_minutes x = max 15 k" if k: "parseTime (te_end te) = parseTime (te_start te) + k * minute"
    "loc (unix_seconds (parseTime (te_end te))) = loc (unix_seconds (parseTime (te_start te)))"
    "local_day loc (parseTime (te_end te)) = local_day loc (parseTime (te_start te))" for k
    using minutes(2) k(3) same_day_minutes [OF k(2,3) [unfolded k(1)]] by (simp add: k(1))
  show ?thesis
    by (intro conjI exported_bounds [OF assms(1)] minutes(1) allI impI kept minutes(2) [folded minutes(1)]) auto
qed

text \<open>An entry of five hours that starts at 22:00 UTC is exported with two.\<close>

definition late_entry :: time_entry where
  "late_entry = sample_entry 1 (at_minute 1320) (at_minute 1620) ''confirmed''"

lemma late_days:
  "local_day (fixed_location 0) (at_minute 1320) = 19787" "local_day (fixed_location 0) (at_minute 1320 + 300 * minute) = 19788"
  by (simp_all add: local_day_def wall_seconds_def unix_seconds_def at_minute_def hour_def minute_def second_def fixed_location_def)

theorem exported_entry_minutes_witness:
  "\<exists>x. timeEntryToExportEntry (\<lambda>_. Some (fixed_location 0)) late_entry [] [] [] = Inr (Some x) \<and>
     durationMinutes (at_minute 1320) (at_minute 1620) = 300 \<and> xe_minutes x = 120"
proof -
  have zone: "entry_day_zone (\<lambda>_. Some (fixed_location 0)) [] late_entry (at_minute 1320) = Inr (''2024-03-05'', ''UTC'')"
    by (simp add: entry_day_zone_def late_entry_def sample_entry_def)
  have minutes: "at_minute 1320 + 300 * minute = at_minute 1620" by (simp add: at_minute_def)
  have times: "parseTime (te_start late_entry) = at_minute 1320" "parseTime (te_end late_entry) = at_minute 1320 + 300 * minute"
    unfolding minutes by (simp_all add: parseTime_def late_entry_def sample_entry_def at_minute_text)
  have days: "format_date (local_day (fixed_location 0) (at_minute 1320 + 300 * minute)) \<noteq> format_date (local_day (fixed_location 0) (at_minute 1320))"
    "local_minutes (fixed_location 0) (at_minute 1320) = 1320" "durationMinutes (at_minute 1320) (at_minute 1620) = 300"
    "at_minute 1320 \<noteq> zero_time" "at_minute 1320 + 300 * minute \<noteq> zero_time"
    using late_days
    by (simp_all add: late_days local_minutes_def wall_seconds_def unix_seconds_def at_minute_def hour_def minute_def second_def fixed_location_def
        durationMinutes_def time_sub_def go_div_def zero_time_def format_date_inject printable_day_def)
  obtain x where x: "timeEntryToExportEntry (\<lambda>_. Some (fixed_location 0)) late_entry [] [] [] = Inr (Some x)"
    using exported_total(2) [of "\<lambda>_. Some (fixed_location 0)" "[]" late_entry "''2024-03-05''" "''UTC''"] zone times days by auto
  show ?thesis using exported_entry_minutes [OF x, of "''2024-03-05''" "''UTC''" "fixed_location 0"] x zone times days
    by (intro exI [of _ x]) simp
qed

text \<open>
  C37. The template table keeps its type: through every sequence of creating, changing, deleting
  and duplicating templates, ids and keys stay distinct, formats stay known, the builtin rows stay
  as they are, no other table is touched, and every template of a user stays usable, so that it
  renders the export of a period: always as a table, and as a text when the template runs on it.
\<close>

theorem templates_stay_usable:
  assumes "(template_step engine)\<^sup>*\<^sup>* d d'" "templates_wf engine (db_templates d)"
  shows "(templates_wf engine (db_templates d')) \<and>
    (builtins (db_templates d') = builtins (db_templates d)) \<and>
    (d' = d\<lparr>db_templates := db_templates d'\<rparr>) \<and>
    (\<forall>t \<in> set (tbl_rows (db_templates d')). \<not> xt_builtin t \<and>
       (\<forall>run. xt_format t = ''text'' \<and> engine (bd_raw (xt_body t)) = Some run \<longrightarrow> run (PlainPeriodExportData m) \<noteq> None) \<longrightarrow>
       (\<exists>out. renderExportTemplate engine m t = Inr out \<and> xr_format out = xt_format t))"
proof (intro conjI)
  show wf: "templates_wf engine (db_templates d')" and "builtins (db_templates d') = builtins (db_templates d)"
    and "d' = d\<lparr>db_templates := db_templates d'\<rparr>"
    using template_steps_keep [OF assms(1)] assms(2) by (simp_all add: keeps_templates_def)
  show "\<forall>t \<in> set (tbl_rows (db_templates d')). \<not> xt_builtin t \<and>
       (\<forall>run. xt_format t = ''text'' \<and> engine (bd_raw (xt_body t)) = Some run \<longrightarrow> run (PlainPeriodExportData m) \<noteq> None) \<longrightarrow>
       (\<exists>out. renderExportTemplate engine m t = Inr out \<and> xr_format out = xt_format t)"
    using wf usable_renders unfolding templates_wf_def by blast
qed

theorem templates_stay_usable_witness:
  "\<exists>x d'. DuplicateExportTemplate (\<lambda>_. None) ''weekly'' export_db = (Inr x, d') \<and>
     tbl_rows (db_templates d') = [weekly_template, x] \<and> templates_wf (\<lambda>_. None) (db_templates d')"
proof -
  have get: "GetExportTemplate ''weekly'' export_db = Inr weekly_template"
    by (simp add: GetExportTemplate_def q_GetExportTemplateByKey_def find_row_def export_db_def weekly_template_def)
  have weekly_format: "xt_format weekly_template = ''csv''" by (simp add: weekly_template_def)
  have rows: "tbl_rows (db_templates export_db) = [weekly_template]" by (simp add: export_db_def)
  obtain x d' where run: "DuplicateExportTemplate (\<lambda>_. None) ''weekly'' export_db = (Inr x, d')"
    "tbl_rows (db_templates d') = [weekly_template, x]"
    using duplicate_runs [OF get weekly_parses, of "\<lambda>_. None"] rows by (auto simp: weekly_format)
  then have "(template_step (\<lambda>_. None))\<^sup>*\<^sup>* export_db d'" by (blast intro: template_step.duplicate)
  moreover have "templates_wf (\<lambda>_. None) (db_templates export_db)"
    by (simp add: templates_wf_def export_db_def ids_ok_def usable_def weekly_parses) (simp add: weekly_template_def)
  ultimately show ?thesis using run templates_stay_usable by blast
qed

end
