(* ===== verification/Oauth.thy ===== *)
theory Oauth
  imports Json GoTime
begin

text \<open>
  The OAuth protocol code that the desktop program and the broker share: internal/integration/oauth
  (provider.go, providers.go, authorize.go, protocol.go). The HTTP client, the parser and printer of
  URLs and the URL builder of golang.org/x/oauth2 are parameters.
\<close>

section \<open>The web\<close>

text \<open>
  A request: how it is authorized, its other headers and its body. An answer: its status and its
  body, as text, as JSON if it is JSON, and as the values of a form if it is one. No answer stands
  for any failure of the transport, of reading the body and of forming the request.
\<close>

datatype authorization = NoAuth | Bearer string | Basic string string

datatype request_body = NoBody | FormBody "(string \<times> string) list" | JsonBody json

record http_request =
  hq_method :: string
  hq_url :: string
  hq_auth :: authorization
  hq_headers :: "(string \<times> string) list"
  hq_body :: request_body

record http_response =
  hr_status :: int
  hr_text :: string
  hr_json :: "json option"
  hr_form :: "(string \<times> string) list option"

type_synonym http = "http_request \<Rightarrow> http_response option"

record url =
  ul_scheme :: string
  ul_user :: bool
  ul_host :: string
  ul_hostname :: string
  ul_path :: string
  ul_query :: string
  ul_fragment :: string

type_synonym url_parser = "string \<Rightarrow> url option"

definition ok_status :: "int \<Rightarrow> bool" where
  "ok_status n \<longleftrightarrow> 200 \<le> n \<and> n < 300"

text \<open>\<open>url.Values.Get\<close>: the first value of a key, or nothing.\<close>

definition form_get :: "string \<Rightarrow> (string \<times> string) list \<Rightarrow> string" where
  "form_get k vals = (case map_of vals k of None \<Rightarrow> '''' | Some v \<Rightarrow> v)"

text \<open>\<open>fmt.Sscan\<close> into an int64, for decimal texts: blanks, a sign, digits. Anything else leaves zero.\<close>

definition scan_int :: "string \<Rightarrow> int" where
  "scan_int s = (let s = dropWhile is_space s;
       negative = (s \<noteq> [] \<and> hd s = CHR ''-'');
       s = (if s \<noteq> [] \<and> (hd s = CHR ''-'' \<or> hd s = CHR ''+'') then tl s else s);
       n = int (digits_val (takeWhile is_digit s))
     in if n < 2 ^ 63 then (if negative then - n else n) else 0)"

text \<open>\<open>strings.FieldsFunc\<close>.\<close>

fun fields_func :: "(char \<Rightarrow> bool) \<Rightarrow> string \<Rightarrow> string \<Rightarrow> string list" where
  "fields_func P cur [] = (if cur = [] then [] else [cur])"
| "fields_func P cur (c # cs) =
     (if P c then (if cur = [] then [] else [cur]) @ fields_func P [] cs else fields_func P (cur @ [c]) cs)"


section \<open>Providers\<close>

record credentials =
  cr_id :: string
  cr_secret :: string

record provider =
  pr_id :: string
  pr_name :: string
  pr_auth_url :: string
  pr_token_url :: string
  pr_revoke_url :: string
  pr_header_auth :: bool
  pr_scopes :: "string list"
  pr_auth_host :: string
  pr_auth_paths :: "string list"
  pr_auth_params :: "(string \<times> string) list"
  pr_accept_json :: bool
  pr_split_comma :: bool
  pr_scope_param :: string
  pr_refresh :: bool
  pr_revoke :: bool

abbreviation (input) ProviderGoogle :: string where "ProviderGoogle \<equiv> ''google''"
abbreviation (input) ProviderGitHub :: string where "ProviderGitHub \<equiv> ''github''"
abbreviation (input) ProviderSlack :: string where "ProviderSlack \<equiv> ''slack''"
abbreviation (input) ProviderBitbucket :: string where "ProviderBitbucket \<equiv> ''bitbucket''"
abbreviation (input) googleCalendarReadScope :: string where
  "googleCalendarReadScope \<equiv> ''https://www.googleapis.com/auth/calendar.readonly''"

text \<open>No provider asks for its credentials in a header.\<close>

definition google_provider :: provider where
  "google_provider = \<lparr>pr_id = ProviderGoogle, pr_name = ''Google'',
     pr_auth_url = ''https://accounts.google.com/o/oauth2/v2/auth'', pr_token_url = ''https://oauth2.googleapis.com/token'',
     pr_revoke_url = ''https://oauth2.googleapis.com/revoke'', pr_header_auth = False, pr_scopes = [googleCalendarReadScope],
     pr_auth_host = ''accounts.google.com'', pr_auth_paths = [''/o/oauth2/v2/auth'', ''/o/oauth2/auth''],
     pr_auth_params = [(''access_type'', ''offline''), (''prompt'', ''consent'')], pr_accept_json = False,
     pr_split_comma = False, pr_scope_param = '''', pr_refresh = True, pr_revoke = True\<rparr>"

definition github_provider :: provider where
  "github_provider = \<lparr>pr_id = ProviderGitHub, pr_name = ''GitHub'',
     pr_auth_url = ''https://github.com/login/oauth/authorize'', pr_token_url = ''https://github.com/login/oauth/access_token'',
     pr_revoke_url = ''https://api.github.com'', pr_header_auth = False, pr_scopes = [''repo''],
     pr_auth_host = ''github.com'', pr_auth_paths = [''/login/oauth/authorize''], pr_auth_params = [],
     pr_accept_json = True, pr_split_comma = True, pr_scope_param = '''', pr_refresh = False, pr_revoke = True\<rparr>"

definition slack_provider :: provider where
  "slack_provider = \<lparr>pr_id = ProviderSlack, pr_name = ''Slack'',
     pr_auth_url = ''https://slack.com/oauth/v2/authorize'', pr_token_url = ''https://slack.com/api/oauth.v2.user.access'',
     pr_revoke_url = ''https://slack.com/api/auth.revoke'', pr_header_auth = False,
     pr_scopes = [''channels:history'', ''groups:history'', ''channels:read'', ''groups:read''],
     pr_auth_host = ''slack.com'', pr_auth_paths = [''/oauth/v2/authorize''], pr_auth_params = [],
     pr_accept_json = True, pr_split_comma = True, pr_scope_param = ''user_scope'', pr_refresh = False, pr_revoke = True\<rparr>"

definition bitbucket_provider :: provider where
  "bitbucket_provider = \<lparr>pr_id = ProviderBitbucket, pr_name = ''Bitbucket'',
     pr_auth_url = ''https://bitbucket.org/site/oauth2/authorize'', pr_token_url = ''https://bitbucket.org/site/oauth2/access_token'',
     pr_revoke_url = '''', pr_header_auth = False, pr_scopes = [''account'', ''repository''],
     pr_auth_host = ''bitbucket.org'', pr_auth_paths = [''/site/oauth2/authorize''], pr_auth_params = [],
     pr_accept_json = True, pr_split_comma = True, pr_scope_param = '''', pr_refresh = True, pr_revoke = False\<rparr>"

text \<open>The registry, in the order of registration.\<close>

definition All :: "provider list" where
  "All = [google_provider, github_provider, slack_provider, bitbucket_provider]"

definition Lookup :: "string \<Rightarrow> provider option" where
  "Lookup i = find (\<lambda>p. pr_id p = to_lower (trim_space i)) All"

definition SplitScopes :: "provider \<Rightarrow> string \<Rightarrow> string list" where
  "SplitScopes p raw = (let raw = trim_space raw in
     if raw = '''' then []
     else if pr_split_comma p then fields_func (\<lambda>c. c = CHR '','' \<or> c = CHR '' '') [] raw
     else fields_of raw)"

definition ValidateAuthorizationURL :: "url_parser \<Rightarrow> provider \<Rightarrow> string \<Rightarrow> bool" where
  "ValidateAuthorizationURL parse p raw \<longleftrightarrow> (case parse raw of
      None \<Rightarrow> False
    | Some u \<Rightarrow> ul_scheme u = ''https'' \<and> ul_host u = pr_auth_host p \<and> list_ex (\<lambda>path. ul_path u = path) (pr_auth_paths p))"


section \<open>Authorization\<close>

text \<open>What \<open>oauth2.Config.AuthCodeURL\<close> is given.\<close>

record auth_request =
  aq_client :: string
  aq_redirect :: string
  aq_auth_url :: string
  aq_state :: string
  aq_params :: "(string \<times> string) list"

type_synonym auth_url_builder = "auth_request \<Rightarrow> string"

definition BuildAuthorizationURL ::
    "auth_url_builder \<Rightarrow> provider \<Rightarrow> credentials \<Rightarrow> string \<Rightarrow> string \<Rightarrow> string \<Rightarrow> string list \<Rightarrow> string option" where
  "BuildAuthorizationURL build p creds redirect state challenge scopes =
     (if trim_space (cr_id creds) = '''' \<or> trim_space redirect = '''' \<or> trim_space state = '''' \<or> trim_space challenge = '''' then None
      else let scopes = (if scopes = [] then pr_scopes p else scopes);
               param = trim_space (pr_scope_param p);
               param = (if param = '''' then ''scope'' else param);
               sep = (if pr_split_comma p then '','' else '' '')
        in Some (build \<lparr>aq_client = cr_id creds, aq_redirect = redirect, aq_auth_url = pr_auth_url p, aq_state = state,
             aq_params = [(''code_challenge'', challenge), (''code_challenge_method'', ''S256''), (param, join_with sep scopes)]
               @ pr_auth_params p\<rparr>))"

record token_response =
  tr_access :: string
  tr_refresh :: string
  tr_type :: string
  tr_expires_in :: int
  tr_expiry :: instant
  tr_scope :: string

datatype exchange_error =
    ExchangeError string string int
  | ExchangeFailed

text \<open>A token response as it is read, and \<open>json.Unmarshal\<close> into it.\<close>

record raw_token =
  rt_ok :: bool
  rt_access :: string
  rt_refresh :: string
  rt_type :: string
  rt_expires_in :: int
  rt_scope :: string
  rt_error :: string
  rt_description :: string

definition no_token :: raw_token where
  "no_token = \<lparr>rt_ok = False, rt_access = '''', rt_refresh = '''', rt_type = '''', rt_expires_in = 0, rt_scope = '''',
     rt_error = '''', rt_description = ''''\<rparr>"

definition read_token_member :: "string \<times> json \<Rightarrow> raw_token \<Rightarrow> raw_token option" where
  "read_token_member kv t =
     (let k = to_lower (fst kv); v = snd kv in
      if k = ''access_token'' then map_option (\<lambda>x. t\<lparr>rt_access := x\<rparr>) (read_text v (rt_access t))
      else if k = ''refresh_token'' then map_option (\<lambda>x. t\<lparr>rt_refresh := x\<rparr>) (read_text v (rt_refresh t))
      else if k = ''token_type'' then map_option (\<lambda>x. t\<lparr>rt_type := x\<rparr>) (read_text v (rt_type t))
      else if k = ''expires_in'' then map_option (\<lambda>x. t\<lparr>rt_expires_in := x\<rparr>) (read_int64 v (rt_expires_in t))
      else if k = ''scope'' then map_option (\<lambda>x. t\<lparr>rt_scope := x\<rparr>) (read_text v (rt_scope t))
      else if k = ''error'' then map_option (\<lambda>x. t\<lparr>rt_error := x\<rparr>) (read_text v (rt_error t))
      else if k = ''error_description'' then map_option (\<lambda>x. t\<lparr>rt_description := x\<rparr>) (read_text v (rt_description t))
      else Some t)"

definition read_raw_member :: "string \<times> json \<Rightarrow> raw_token \<Rightarrow> raw_token option" where
  "read_raw_member kv t =
     (if to_lower (fst kv) = ''ok'' then map_option (\<lambda>x. t\<lparr>rt_ok := x\<rparr>) (read_flag (snd kv) (rt_ok t))
      else read_token_member kv t)"

definition read_struct :: "(string \<times> json \<Rightarrow> 'r \<Rightarrow> 'r option) \<Rightarrow> 'r \<Rightarrow> json \<Rightarrow> 'r option" where
  "read_struct member zero j = (case j of JObj kvs \<Rightarrow> read_each member kvs zero | JNull \<Rightarrow> Some zero | _ \<Rightarrow> None)"

definition errorCode :: "raw_token \<Rightarrow> string" where
  "errorCode t =
     (if trim_space (rt_error t) \<noteq> '''' then trim_space (rt_error t)
      else if \<not> rt_ok t \<and> rt_access t = '''' then ''token_request_failed'' else '''')"

definition text_member :: "string \<Rightarrow> json \<Rightarrow> string option" where
  "text_member k j = (case obj_get k j of Some (JStr s) \<Rightarrow> Some s | _ \<Rightarrow> None)"

text \<open>Slack puts the token of the user under \<open>authed_user\<close>.\<close>

definition from_authed_user :: "json \<Rightarrow> raw_token \<Rightarrow> raw_token" where
  "from_authed_user j t = (case obj_get ''authed_user'' j of
      Some (JObj kvs) \<Rightarrow>
        (let t = (case text_member ''access_token'' (JObj kvs) of
                Some s \<Rightarrow> if rt_access t = '''' then t\<lparr>rt_access := s\<rparr> else t | None \<Rightarrow> t)
         in case text_member ''scope'' (JObj kvs) of Some s \<Rightarrow> if rt_scope t = '''' then t\<lparr>rt_scope := s\<rparr> else t | None \<Rightarrow> t)
    | _ \<Rightarrow> t)"

definition form_token :: "(string \<times> string) list \<Rightarrow> raw_token" where
  "form_token vals = no_token\<lparr>rt_access := form_get ''access_token'' vals, rt_refresh := form_get ''refresh_token'' vals,
     rt_type := form_get ''token_type'' vals, rt_scope := form_get ''scope'' vals, rt_error := form_get ''error'' vals,
     rt_description := form_get ''error_description'' vals,
     rt_expires_in := (let v = form_get ''expires_in'' vals in if v = '''' then 0 else scan_int v)\<rparr>"

definition decodeTokenResponse :: "http_response \<Rightarrow> raw_token option" where
  "decodeTokenResponse r =
     (let form = map_option form_token (hr_form r) in
      case hr_json r of
        None \<Rightarrow> form
      | Some j \<Rightarrow> (case read_struct read_raw_member no_token j of
            None \<Rightarrow> form
          | Some t \<Rightarrow>
              let t = from_authed_user j t in
              if rt_access t \<noteq> '''' \<or> rt_error t \<noteq> '''' \<or> rt_ok t \<or>
                 (obj_get ''authed_user'' j \<noteq> None \<and> obj_get ''authed_user'' j \<noteq> Some JNull)
              then Some t else form))"

fun firstNonEmpty :: "string list \<Rightarrow> string" where
  "firstNonEmpty [] = ''''"
| "firstNonEmpty (v # vs) = (if trim_space v \<noteq> '''' then v else firstNonEmpty vs)"

text \<open>\<open>time.Duration(n) * time.Second\<close>, which wraps around at 64 bits.\<close>

definition seconds_of :: "int \<Rightarrow> int" where
  "seconds_of n = (n * second + 2 ^ 63) mod 2 ^ 64 - 2 ^ 63"

definition form_headers :: "provider \<Rightarrow> (string \<times> string) list" where
  "form_headers p = (''Content-Type'', ''application/x-www-form-urlencoded'') #
     (if pr_accept_json p then [(''Accept'', ''application/json'')] else [])"

text \<open>Basic authorization carries the id and the secret as they are before \<open>url.QueryEscape\<close>.\<close>

definition exchange_request ::
    "provider \<Rightarrow> credentials \<Rightarrow> string \<Rightarrow> string \<Rightarrow> string \<Rightarrow> string \<Rightarrow> http_request" where
  "exchange_request p creds redirect code verifier token_url =
     (let token_url = trim_space token_url in
      \<lparr>hq_method = ''POST'', hq_url = (if token_url = '''' then pr_token_url p else token_url),
       hq_auth = (if pr_header_auth p then Basic (cr_id creds) (cr_secret creds) else NoAuth),
       hq_headers = form_headers p,
       hq_body = FormBody ([(''grant_type'', ''authorization_code''), (''code'', code), (''redirect_uri'', redirect),
           (''code_verifier'', verifier)] @
         (if pr_header_auth p then []
          else (''client_id'', cr_id creds) #
            (if trim_space (cr_secret creds) \<noteq> '''' then [(''client_secret'', cr_secret creds)] else [])))\<rparr>)"

definition ExchangeAuthorizationCode ::
    "http \<Rightarrow> instant \<Rightarrow> provider \<Rightarrow> credentials \<Rightarrow> string \<Rightarrow> string \<Rightarrow> string \<Rightarrow> string \<Rightarrow> exchange_error + token_response" where
  "ExchangeAuthorizationCode http now p creds redirect code verifier token_url =
     (if trim_space (cr_id creds) = '''' \<or> trim_space redirect = '''' \<or> trim_space code = '''' \<or> trim_space verifier = ''''
      then Inl ExchangeFailed
      else case http (exchange_request p creds redirect code verifier token_url) of
        None \<Rightarrow> Inl ExchangeFailed
      | Some r \<Rightarrow> (case decodeTokenResponse r of
            None \<Rightarrow> Inl ExchangeFailed
          | Some t \<Rightarrow>
              if \<not> ok_status (hr_status r) \<or> rt_access t = '''' \<or> errorCode t \<noteq> ''''
              then Inl (ExchangeError (firstNonEmpty [errorCode t, ''token_request_failed'']) (rt_description t) (hr_status r))
              else Inr \<lparr>tr_access = rt_access t, tr_refresh = rt_refresh t,
                tr_type = (if rt_type t = '''' then ''Bearer'' else rt_type t), tr_expires_in = rt_expires_in t,
                tr_expiry = (if 0 < rt_expires_in t then now + seconds_of (rt_expires_in t) else zero_time),
                tr_scope = rt_scope t\<rparr>))"

end
