(* ===== verification/Limiter.thy ===== *)
theory Limiter
  imports GoTime
begin

text \<open>
  The fixed-window rate limiter of the OAuth broker: internal/broker/ratelimit/limiter.go. The
  buckets are a map from keys; the reading of the clock is an argument of a call. The mutex makes a
  call atomic.
\<close>

record bucket =
  bk_start :: instant
  bk_count :: int

record limiter =
  lm_window :: int
  lm_buckets :: "string \<Rightarrow> bucket option"

definition New :: "int \<Rightarrow> limiter" where
  "New window = \<lparr>lm_window = (if window \<le> 0 then minute else window), lm_buckets = (\<lambda>_. None)\<rparr>"

definition evictExpired :: "instant \<Rightarrow> limiter \<Rightarrow> limiter" where
  "evictExpired now l = l\<lparr>lm_buckets := (\<lambda>k. case lm_buckets l k of
      None \<Rightarrow> None
    | Some b \<Rightarrow> if time_sub now (bk_start b) \<ge> lm_window l then None else Some b)\<rparr>"

definition Allow :: "string \<Rightarrow> int \<Rightarrow> instant \<Rightarrow> limiter \<Rightarrow> bool \<times> limiter" where
  "Allow key limit now l =
     (if limit \<le> 0 then (True, l)
      else let l = evictExpired now l;
               fresh = (True, l\<lparr>lm_buckets := (lm_buckets l)(key \<mapsto> \<lparr>bk_start = now, bk_count = 1\<rparr>)\<rparr>)
        in case lm_buckets l key of
          None \<Rightarrow> fresh
        | Some b \<Rightarrow>
            if time_sub now (bk_start b) \<ge> lm_window l then fresh
            else if limit \<le> bk_count b then (False, l)
            else (True, l\<lparr>lm_buckets := (lm_buckets l)(key \<mapsto> b\<lparr>bk_count := bk_count b + 1\<rparr>)\<rparr>))"

definition Key :: "string \<Rightarrow> string \<Rightarrow> string" where
  "Key surface dimension = surface @ ''|'' @ dimension"


section \<open>Admitted events\<close>

text \<open>The events of a sequence of calls (time, key, limit) that are let through.\<close>

fun admitted :: "limiter \<Rightarrow> (instant \<times> string \<times> int) list \<Rightarrow> (instant \<times> string) list" where
  "admitted l [] = []"
| "admitted l ((now, key, limit) # calls) =
     (case Allow key limit now l of (ok, l') \<Rightarrow> (if ok then [(now, key)] else []) @ admitted l' calls)"

text \<open>The saturating difference of two instants is as good as the exact one for a 64-bit window.\<close>

definition limiter_ok :: "limiter \<Rightarrow> bool" where
  "limiter_ok l \<longleftrightarrow> 0 < lm_window l \<and> lm_window l < 2 ^ 63"

lemma time_sub_ge: "limiter_ok l \<Longrightarrow> time_sub now s \<ge> lm_window l \<longleftrightarrow> s + lm_window l \<le> now"
  by (auto simp: limiter_ok_def time_sub_def)

lemma evict_window [simp]: "lm_window (evictExpired now l) = lm_window l"
  by (simp add: evictExpired_def)

lemma allow_window [simp]: "lm_window (snd (Allow key limit now l)) = lm_window l"
  by (simp add: Allow_def Let_def split: option.splits)

text \<open>One call, seen from one key.\<close>

definition live :: "instant \<Rightarrow> limiter \<Rightarrow> string \<Rightarrow> bucket option" where
  "live now l k = (case lm_buckets l k of None \<Rightarrow> None | Some b \<Rightarrow> if bk_start b + lm_window l \<le> now then None else Some b)"

lemma evict_live: "limiter_ok l \<Longrightarrow> lm_buckets (evictExpired now l) k = live now l k"
  by (auto simp: evictExpired_def live_def time_sub_ge split: option.splits)

lemma allow_other: "limiter_ok l \<Longrightarrow> j \<noteq> k \<Longrightarrow> 0 < limit \<Longrightarrow> lm_buckets (snd (Allow j limit now l)) k = live now l k"
  by (auto simp: Allow_def Let_def evict_live split: option.splits)

lemma allow_unlimited: "limit \<le> 0 \<Longrightarrow> Allow j limit now l = (True, l)"
  by (simp add: Allow_def)

lemma allow_fresh:
  "limiter_ok l \<Longrightarrow> 0 < limit \<Longrightarrow> live now l k = None \<Longrightarrow>
     fst (Allow k limit now l) \<and> lm_buckets (snd (Allow k limit now l)) k = Some \<lparr>bk_start = now, bk_count = 1\<rparr>"
  by (simp add: Allow_def Let_def evict_live)

lemma allow_live:
  assumes "limiter_ok l" "0 < limit" "live now l k = Some b"
  shows "fst (Allow k limit now l) \<longleftrightarrow> bk_count b < limit"
    "lm_buckets (snd (Allow k limit now l)) k = Some (if bk_count b < limit then b\<lparr>bk_count := bk_count b + 1\<rparr> else b)"
proof -
  have "\<not> time_sub now (bk_start b) \<ge> lm_window l"
    using assms(3) by (auto simp: live_def time_sub_ge [OF assms(1)] split: option.splits if_splits)
  then show "fst (Allow k limit now l) \<longleftrightarrow> bk_count b < limit"
    "lm_buckets (snd (Allow k limit now l)) k = Some (if bk_count b < limit then b\<lparr>bk_count := bk_count b + 1\<rparr> else b)"
    using assms by (simp_all add: Allow_def Let_def evict_live)
qed


section \<open>Bounds\<close>

text \<open>How many events of a key are admitted from an instant on and before another.\<close>

definition hits :: "string \<Rightarrow> instant \<Rightarrow> instant \<Rightarrow> (instant \<times> string) list \<Rightarrow> int" where
  "hits k a b evs = int (length (filter (\<lambda>(t, j). j = k \<and> a \<le> t \<and> t < b) evs))"

lemma hits_simps [simp]: "hits k a b [] = 0"
  "hits k a b (e # evs) = (if snd e = k \<and> a \<le> fst e \<and> fst e < b then 1 else 0) + hits k a b evs"
  by (auto simp: hits_def split: prod.splits)

lemma hits_append [simp]: "hits k a b (xs @ ys) = hits k a b xs + hits k a b ys"
  by (simp add: hits_def)

definition calls_ok :: "string \<Rightarrow> int \<Rightarrow> (instant \<times> string \<times> int) list \<Rightarrow> bool" where
  "calls_ok k limit calls \<longleftrightarrow> sorted (map fst calls) \<and> (\<forall>(t, j, n) \<in> set calls. j = k \<longrightarrow> n = limit)"

lemma calls_ok_Cons: "calls_ok k limit ((t, j, n) # calls) \<longleftrightarrow>
    calls_ok k limit calls \<and> (j = k \<longrightarrow> n = limit) \<and> (\<forall>c \<in> set calls. t \<le> fst c)"
  by (auto simp: calls_ok_def)

lemma admitted_from: "\<forall>c \<in> set calls. t \<le> fst c \<Longrightarrow> b \<le> t \<Longrightarrow> hits k a b (admitted l calls) = 0"
  by (induction l calls rule: admitted.induct) (auto split: prod.splits)

text \<open>
  What a key can still admit from \<open>a\<close> on and before \<open>b\<close>, where the window is not longer than that
  interval's length: the rest of its bucket and, if the bucket was opened before \<open>a\<close>, one more.
\<close>

definition room :: "instant \<Rightarrow> int \<Rightarrow> bucket option \<Rightarrow> int" where
  "room a limit b = (case b of None \<Rightarrow> limit
     | Some b \<Rightarrow> limit - bk_count b + (if bk_start b < a then limit else 0))"

lemma admitted_room:
  assumes "calls_ok k limit calls" "limiter_ok l" "0 < limit" "\<forall>c \<in> set calls. a \<le> fst c"
    and "\<forall>b. lm_buckets l k = Some b \<longrightarrow> 0 \<le> bk_count b \<and> bk_count b \<le> limit"
  shows "hits k a (a + lm_window l) (admitted l calls) \<le> room a limit (lm_buckets l k)"
  using assms
proof (induction l calls rule: admitted.induct)
  case (1 l)
  then show ?case by (auto simp: room_def split: option.splits)
next
  case (2 l now j n calls)
  let ?l' = "snd (Allow j n now l)" and ?e = "a + lm_window l"
  have a: "a \<le> now" using "2.prems"(4) by simp
  have later: "\<forall>c \<in> set calls. now \<le> fst c" using "2.prems"(1) by (simp add: calls_ok_Cons)
  have w: "limiter_ok ?l'" using "2.prems"(2) by (simp add: limiter_ok_def)
  have rest: "hits k a ?e (admitted ?l' calls) \<le> room a limit (lm_buckets ?l' k)"
    if "\<forall>b. lm_buckets ?l' k = Some b \<longrightarrow> 0 \<le> bk_count b \<and> bk_count b \<le> limit"
    using "2.IH" [OF prod.collapse _ w "2.prems"(3) _ that] "2.prems"(1,4) by (simp add: calls_ok_Cons)
  have split: "hits k a ?e (admitted l ((now, j, n) # calls)) =
      (if fst (Allow j n now l) \<and> j = k \<and> now < ?e then 1 else 0) + hits k a ?e (admitted ?l' calls)"
    using a by (simp split: prod.splits)
  have over: "hits k a ?e (admitted ?l' calls) = 0" if "?e \<le> now" by (rule admitted_from [OF later that])
  have count: "0 \<le> bk_count b \<and> bk_count b \<le> limit" if "live now l k = Some b" for b
    using that "2.prems"(5) by (auto simp: live_def split: option.splits if_splits)
  have nonneg: "0 \<le> room a limit (lm_buckets l k)"
    using "2.prems"(3,5) by (auto simp: room_def split: option.splits)
  have live_room: "room a limit (live now l k) \<le> room a limit (lm_buckets l k)" if "now < ?e"
    using that "2.prems"(5) by (auto simp: room_def live_def split: option.splits)
  show ?case
  proof (cases "?e \<le> now")
    case True
    then show ?thesis using split over nonneg by simp
  next
    case False
    then have early: "now < ?e" by simp
    show ?thesis
    proof (cases "j = k")
      case True
      then have n: "n = limit" using "2.prems"(1) by (simp add: calls_ok_Cons)
      show ?thesis
      proof (cases "live now l k")
        case None
        then have new: "fst (Allow j n now l)" "lm_buckets ?l' k = Some \<lparr>bk_start = now, bk_count = 1\<rparr>"
          using allow_fresh [OF "2.prems"(2,3) None] True n by simp_all
        then show ?thesis using rest split early live_room [OF early] True a "2.prems"(3) None by (simp add: room_def)
      next
        case (Some b)
        note step = allow_live [OF "2.prems"(2,3) Some]
        show ?thesis
          using rest split early live_room [OF early] True n step count [OF Some] Some by (auto simp: room_def split: if_splits)
      qed
    next
      case False
      then show ?thesis
      proof (cases "0 < n")
        case True
        then have "lm_buckets ?l' k = live now l k" using allow_other "2.prems"(2) \<open>j \<noteq> k\<close> by blast
        then show ?thesis using rest split False live_room [OF early] count by simp
      next
        case unlimited: False
        then show ?thesis using rest split False "2.prems"(5) allow_unlimited [of n j now l] by simp
      qed
    qed
  qed
qed

text \<open>Counts stay within the limit, whatever the times.\<close>

lemma allow_count:
  assumes "limiter_ok l" "0 < limit" "j = k \<longrightarrow> n = limit" "\<forall>b. lm_buckets l k = Some b \<longrightarrow> 1 \<le> bk_count b \<and> bk_count b \<le> limit"
  shows "\<forall>b. lm_buckets (snd (Allow j n now l)) k = Some b \<longrightarrow> 1 \<le> bk_count b \<and> bk_count b \<le> limit"
proof -
  have live: "1 \<le> bk_count b \<and> bk_count b \<le> limit" if "live now l k = Some b" for b
    using that assms(4) by (auto simp: live_def split: option.splits if_splits)
  show ?thesis
  proof (cases "j = k")
    case True
    then show ?thesis using live allow_fresh [OF assms(1,2)] allow_live(2) [OF assms(1,2)] assms(2,3)
      by (cases "live now l k") fastforce+
  next
    case False
    then show ?thesis using live allow_other [OF assms(1) False] allow_unlimited [of n j now l] assms(4)
      by (cases "0 < n") simp_all
  qed
qed

text \<open>
  In any interval as long as the window a key is admitted less than twice its limit: by the bucket
  that is open when the interval begins, which has admitted one before it, and by the one that follows.
\<close>

lemma admitted_bound:
  assumes "calls_ok k limit calls" "limiter_ok l" "0 < limit"
    and "\<forall>b. lm_buckets l k = Some b \<longrightarrow> 1 \<le> bk_count b \<and> bk_count b \<le> limit"
  shows "hits k a (a + lm_window l) (admitted l calls) \<le> 2 * limit - 1"
  using assms
proof (induction l calls rule: admitted.induct)
  case (2 l now j n calls)
  let ?l' = "snd (Allow j n now l)"
  show ?case
  proof (cases "a \<le> now")
    case True
    then have "\<forall>c \<in> set ((now, j, n) # calls). a \<le> fst c" using "2.prems"(1) by (force simp: calls_ok_Cons)
    moreover have "\<forall>b. lm_buckets l k = Some b \<longrightarrow> 0 \<le> bk_count b \<and> bk_count b \<le> limit" using "2.prems"(4) by auto
    ultimately
    have "hits k a (a + lm_window l) (admitted l ((now, j, n) # calls)) \<le> room a limit (lm_buckets l k)"
      by (rule admitted_room [OF "2.prems"(1,2,3)])
    also have "\<dots> \<le> 2 * limit - 1" using "2.prems"(3,4) by (auto simp: room_def split: option.splits)
    finally show ?thesis .
  next
    case False
    have "limiter_ok ?l'" using "2.prems"(2) by (simp add: limiter_ok_def)
    have call: "j = k \<longrightarrow> n = limit" "calls_ok k limit calls" using "2.prems"(1) by (simp_all add: calls_ok_Cons)
    have "hits k a (a + lm_window ?l') (admitted ?l' calls) \<le> 2 * limit - 1"
      by (rule "2.IH" [OF prod.collapse call(2) \<open>limiter_ok ?l'\<close> "2.prems"(3)])
        (rule allow_count [OF "2.prems"(2,3) call(1) "2.prems"(4)])
    then show ?thesis using False allow_window [of j n now l] by (cases "Allow j n now l") simp
  qed
qed simp

end
