(* ===== verification/Broker_Store.thy ===== *)
theory Broker_Store
  imports GoTime
begin

text \<open>
  The coordination records of the OAuth broker: internal/broker/store/store.go. A row keeps its
  times as RFC 3339 texts with nanoseconds, as the SQLite file does; a record that was read holds
  instants. A call is a transaction of its own. Whether SQLite enforces foreign keys depends on the
  data source name the store was opened with and is a field of the store.
\<close>

section \<open>Times as texts\<close>

primrec pad_digits :: "nat \<Rightarrow> nat \<Rightarrow> string" where
  "pad_digits 0 n = []"
| "pad_digits (Suc k) n = pad_digits k (n div 10) @ [digit_char (n mod 10)]"

definition drop_zeros :: "string \<Rightarrow> string" where
  "drop_zeros s = rev (dropWhile (\<lambda>c. c = CHR ''0'') (rev s))"

text \<open>\<open>t.UTC().Format(time.RFC3339Nano)\<close>: the fraction loses its trailing zeros, and its dot with the last digit.\<close>

definition formatTime :: "instant \<Rightarrow> string" where
  "formatTime t = butlast (format_rfc3339 t) @
     (if t mod second = 0 then '''' else ''.'' @ drop_zeros (pad_digits 9 (nat (t mod second)))) @ ''Z''"

definition readTime :: "string \<Rightarrow> instant" where
  "readTime raw = (case parse_rfc3339 raw of None \<Rightarrow> zero_time | Some t \<Rightarrow> t)"

lemma pad_digits_length [simp]: "length (pad_digits k n) = k"
  by (induction k arbitrary: n) simp_all

lemma pad_digits_digits: "list_all is_digit (pad_digits k n)"
  by (induction k arbitrary: n) simp_all

lemma pad_digits_val: "digits_val (pad_digits k n) = n mod 10 ^ k"
proof (induction k arbitrary: n)
  case (Suc k)
  have "n mod 10 ^ Suc k = 10 * (n div 10 mod 10 ^ k) + n mod 10"
    by (simp add: mod_mult2_eq add.commute)
  then show ?case using Suc by simp
qed simp

lemma drop_zeros_shape: "s = drop_zeros s @ replicate (length s - length (drop_zeros s)) (CHR ''0'')"
proof -
  let ?z = "takeWhile (\<lambda>c. c = CHR ''0'') (rev s)"
  have z: "?z = replicate (length ?z) (CHR ''0'')" by (rule replicate_eqI) (auto dest: set_takeWhileD)
  have "s = rev (?z @ dropWhile (\<lambda>c. c = CHR ''0'') (rev s))" by simp
  then have s: "s = drop_zeros s @ rev ?z" unfolding rev_append drop_zeros_def .
  then have "length ?z = length s - length (drop_zeros s)" by (metis add_diff_cancel_left' length_append length_rev)
  moreover have "rev ?z = replicate (length ?z) (CHR ''0'')" by (metis z rev_replicate)
  ultimately show ?thesis using s by simp
qed

lemma digits_val_zeros: "digits_val (s @ replicate m (CHR ''0'')) = digits_val s * 10 ^ m"
proof -
  have "digit_val (CHR ''0'') = 0" by (simp add: digit_val_def)
  moreover have "replicate (Suc k) (CHR ''0'') = replicate k (CHR ''0'') @ ''0''" for k by (simp add: replicate_append_same)
  ultimately have "digits_val (replicate m (CHR ''0'')) = 0" by (induction m) (simp_all del: replicate_Suc)
  then show ?thesis by (simp add: digits_val_append)
qed

lemma parse_fraction_drop_zeros:
  assumes "0 < n" "n < 10 ^ 9"
  shows "parse_fraction (''.'' @ drop_zeros (pad_digits 9 n) @ ''Z'') = (int n, ''Z'')"
proof -
  let ?s = "pad_digits 9 n" let ?d = "drop_zeros ?s"
  define m where "m = 9 - length ?d"
  have s: "?s = ?d @ replicate m (CHR ''0'')" using drop_zeros_shape [of ?s] by (simp add: m_def)
  then have digits: "list_all is_digit ?d" using pad_digits_digits [of 9 n] by (metis list_all_append)
  have len: "length ?d \<le> 9" using arg_cong [OF s, of length] by simp
  have val: "digits_val ?d * 10 ^ m = n"
    using pad_digits_val [of 9 n] digits_val_zeros [of ?d m] assms(2) s by simp
  then have "?d \<noteq> []" using assms(1) by auto
  then obtain c ds where d: "?d = c # ds" by (cases ?d) auto
  have "takeWhile is_digit (?d @ ''Z'') = ?d"
    using digits by (simp add: takeWhile_append2 list_all_iff) (simp add: is_digit_def)
  moreover have "int (digits_val ?d) * 10 ^ (9 - length ?d) = int n" unfolding m_def [symmetric] using arg_cong [OF val, of int] by simp
  ultimately show ?thesis using digits d len by (simp add: parse_fraction_def Let_def)
qed

lemma parse_formatTime [simp]:
  assumes "printable t"
  shows "parse_rfc3339 (formatTime t) = Some t"
proof -
  have whole: "parse_rfc3339 (format_rfc3339 t) = Some (unix_seconds t * second)" using assms by simp
  have len: "length (format_rfc3339 t) = 20" "last (format_rfc3339 t) = CHR ''Z''"
    using assms by (simp_all add: format_rfc3339_def Let_def printable_def nat_less_iff)
  define w where "w = butlast (format_rfc3339 t)"
  have w: "format_rfc3339 t = w @ ''Z''" "length w = 19"
    using len append_butlast_last_id [of "format_rfc3339 t"] by (metis list.size(3) w_def zero_neq_numeral) (simp add: w_def len)
  have split: "unix_seconds t * second + t mod second = t" by (simp add: unix_seconds_def)
  define f where "f = (if t mod second = 0 then '''' else ''.'' @ drop_zeros (pad_digits 9 (nat (t mod second)))) @ ''Z''"
  have "parse_fraction f = (t mod second, ''Z'')"
  proof (cases "t mod second = 0")
    case False
    have "0 \<le> t mod second" "t mod second < 10 ^ 9" by (simp_all add: second_def)
    then obtain n where n: "t mod second = int n" using zero_le_imp_eq_int by blast
    then have "0 < n" "n < 10 ^ 9" using False \<open>t mod second < 10 ^ 9\<close> by simp_all
    then show ?thesis using parse_fraction_drop_zeros [of n] by (simp add: f_def n)
  qed (simp add: f_def parse_fraction_def)
  moreover have "parse_fraction ''Z'' = (0, ''Z'')" by (simp add: parse_fraction_def)
  moreover have "parse_zone ''Z'' = Some 0" by (simp add: parse_zone_def)
  moreover have "formatTime t = w @ f" by (simp add: formatTime_def w_def f_def)
  ultimately show ?thesis
    using whole w split by (auto simp: parse_rfc3339_def split: option.splits)
qed

lemma readTime_formatTime [simp]: "printable t \<Longrightarrow> readTime (formatTime t) = t"
  by (simp add: readTime_def)


section \<open>Records and rows\<close>

text \<open>The time type is \<open>instant\<close> in a record of the program and \<open>string\<close> in a row of the table.\<close>

record 't oauth_state =
  os_id :: string
  os_provider :: string
  os_session :: string
  os_verifier :: string
  os_challenge :: string
  os_handoff_challenge :: string
  os_redirect :: string
  os_scopes :: "string list"
  os_version :: string
  os_platform :: string
  os_bucket :: string
  os_expires :: 't
  os_used :: "'t option"

record 't handoff_record =
  ho_hash :: string
  ho_provider :: string
  ho_state :: string
  ho_session :: string
  ho_challenge :: string
  ho_payload :: string
  ho_account :: string
  ho_scopes :: "string list"
  ho_expires :: 't
  ho_used :: "'t option"

record broker_db =
  sd_states :: "string oauth_state list"
  sd_handoffs :: "string handoff_record list"
  sd_foreign_keys :: bool

datatype store_error =
    StoreNotFound
  | StoreExpired
  | StoreAlreadyUsed
  | StoreMismatch
  | StoreFailure

type_synonym 'a store_op = "broker_db \<Rightarrow> (store_error + 'a) \<times> broker_db"

definition providerOrGoogle :: "string \<Rightarrow> string" where
  "providerOrGoogle p = (let p = trim_space p in if p = '''' then ''google'' else p)"

text \<open>An insert leaves \<open>used_at\<close> NULL; an empty payload is NULL.\<close>

definition state_row :: "instant oauth_state \<Rightarrow> string oauth_state" where
  "state_row r = \<lparr>os_id = os_id r, os_provider = providerOrGoogle (os_provider r), os_session = os_session r,
     os_verifier = os_verifier r, os_challenge = os_challenge r, os_handoff_challenge = os_handoff_challenge r,
     os_redirect = os_redirect r, os_scopes = os_scopes r, os_version = os_version r, os_platform = os_platform r,
     os_bucket = os_bucket r, os_expires = formatTime (os_expires r), os_used = None\<rparr>"

definition handoff_row :: "instant handoff_record \<Rightarrow> string handoff_record" where
  "handoff_row r = \<lparr>ho_hash = ho_hash r, ho_provider = providerOrGoogle (ho_provider r), ho_state = ho_state r,
     ho_session = ho_session r, ho_challenge = ho_challenge r, ho_payload = ho_payload r, ho_account = ho_account r,
     ho_scopes = ho_scopes r, ho_expires = formatTime (ho_expires r), ho_used = None\<rparr>"

definition selectOAuthState :: "string \<Rightarrow> broker_db \<Rightarrow> instant oauth_state option" where
  "selectOAuthState i d = map_option
     (\<lambda>r. \<lparr>os_id = os_id r, os_provider = os_provider r, os_session = os_session r,
        os_verifier = os_verifier r, os_challenge = os_challenge r, os_handoff_challenge = os_handoff_challenge r,
        os_redirect = os_redirect r, os_scopes = os_scopes r, os_version = os_version r, os_platform = os_platform r,
        os_bucket = os_bucket r, os_expires = readTime (os_expires r), os_used = map_option readTime (os_used r)\<rparr>)
     (find (\<lambda>r. os_id r = i) (sd_states d))"

definition selectHandoff :: "string \<Rightarrow> broker_db \<Rightarrow> instant handoff_record option" where
  "selectHandoff h d = map_option
     (\<lambda>r. \<lparr>ho_hash = ho_hash r, ho_provider = ho_provider r, ho_state = ho_state r,
        ho_session = ho_session r, ho_challenge = ho_challenge r, ho_payload = ho_payload r, ho_account = ho_account r,
        ho_scopes = ho_scopes r, ho_expires = readTime (ho_expires r), ho_used = map_option readTime (ho_used r)\<rparr>)
     (find (\<lambda>r. ho_hash r = h) (sd_handoffs d))"


section \<open>Operations\<close>

definition SaveOAuthState :: "instant oauth_state \<Rightarrow> unit store_op" where
  "SaveOAuthState r d =
     (if list_ex (\<lambda>x. os_id x = os_id r) (sd_states d) then (Inl StoreFailure, d)
      else (Inr (), d\<lparr>sd_states := sd_states d @ [state_row r]\<rparr>))"

definition ConsumeOAuthState :: "string \<Rightarrow> string \<Rightarrow> instant \<Rightarrow> instant oauth_state store_op" where
  "ConsumeOAuthState i provider now d =
     (case selectOAuthState i d of
        None \<Rightarrow> (Inl StoreNotFound, d)
      | Some r \<Rightarrow>
          if os_used r \<noteq> None then (Inl StoreAlreadyUsed, d)
          else if providerOrGoogle (os_provider r) \<noteq> providerOrGoogle provider then (Inl StoreMismatch, d)
          else if \<not> now < os_expires r then (Inl StoreExpired, d)
          else let hit = (\<lambda>x. os_id x = i \<and> os_used x = None) in
            if length (filter hit (sd_states d)) \<noteq> 1 then (Inl StoreAlreadyUsed, d)
            else (Inr (r\<lparr>os_used := Some now\<rparr>),
                  d\<lparr>sd_states := map (\<lambda>x. if hit x then x\<lparr>os_used := Some (formatTime now)\<rparr> else x) (sd_states d)\<rparr>))"

definition SaveHandoff :: "instant handoff_record \<Rightarrow> unit store_op" where
  "SaveHandoff r d =
     (if list_ex (\<lambda>x. ho_hash x = ho_hash r) (sd_handoffs d) \<or>
         (sd_foreign_keys d \<and> \<not> list_ex (\<lambda>x. os_id x = ho_state r) (sd_states d)) then (Inl StoreFailure, d)
      else (Inr (), d\<lparr>sd_handoffs := sd_handoffs d @ [handoff_row r]\<rparr>))"

definition ConsumeHandoff ::
    "string \<Rightarrow> string \<Rightarrow> string \<Rightarrow> string \<Rightarrow> string \<Rightarrow> instant \<Rightarrow> instant handoff_record store_op" where
  "ConsumeHandoff h provider session state challenge now d =
     (case selectHandoff h d of
        None \<Rightarrow> (Inl StoreNotFound, d)
      | Some r \<Rightarrow>
          if ho_used r \<noteq> None then (Inl StoreAlreadyUsed, d)
          else if \<not> now < ho_expires r then (Inl StoreExpired, d)
          else if providerOrGoogle (ho_provider r) \<noteq> providerOrGoogle provider then (Inl StoreMismatch, d)
          else if ho_session r \<noteq> session \<or> ho_state r \<noteq> state \<or> ho_challenge r \<noteq> challenge then (Inl StoreMismatch, d)
          else let hit = (\<lambda>x. ho_hash x = h \<and> ho_used x = None) in
            if length (filter hit (sd_handoffs d)) \<noteq> 1 then (Inl StoreAlreadyUsed, d)
            else (Inr (r\<lparr>ho_used := Some now\<rparr>),
                  d\<lparr>sd_handoffs := map (\<lambda>x. if hit x then x\<lparr>ho_used := Some (formatTime now), ho_payload := ''''\<rparr> else x)
                     (sd_handoffs d)\<rparr>))"

text \<open>
  The texts are compared, not the times. With foreign keys a state that a handoff refers to cannot
  be deleted; the two statements are not one transaction.
\<close>

definition PurgeExpired :: "instant \<Rightarrow> unit store_op" where
  "PurgeExpired now d =
     (let cutoff = formatTime now;
          gone = filter (\<lambda>r. os_expires r \<le> cutoff) (sd_states d)
      in if sd_foreign_keys d \<and> list_ex (\<lambda>s. list_ex (\<lambda>h. ho_state h = os_id s) (sd_handoffs d)) gone
         then (Inl StoreFailure, d)
         else (Inr (), d\<lparr>sd_states := filter (\<lambda>r. \<not> os_expires r \<le> cutoff) (sd_states d),
                         sd_handoffs := filter (\<lambda>r. \<not> ho_expires r \<le> cutoff) (sd_handoffs d)\<rparr>))"

end
