(* ===== verification/Broker.thy ===== *)
theory Broker
  imports Oauth Limiter Broker_Store
begin

text \<open>
  What the operations of the OAuth broker share: the codes of internal/broker/codes, the counters
  of internal/broker/observe, the configuration of internal/broker/config, and computations on the
  broker's store, limiter and counters. A call reads the clock once, and the limiter's clock once;
  log events are not modelled.
\<close>

section \<open>Calls\<close>

text \<open>What a call of the broker is given from outside: clocks and random bytes (\<open>None\<close> if reading them fails).\<close>

record env =
  en_now :: instant
  en_limit_now :: instant
  en_rand :: "nat \<Rightarrow> string option"

text \<open>
  The foreign code: HTTP, URLs, SHA-256, AES-GCM on a JSON text, and address parsing. \<open>wd_set_query\<close>
  sets values in the query of a URL; \<open>wd_host\<close> is the host of \<open>net.SplitHostPort\<close> and \<open>wd_ip\<close> the
  sixteen bytes of \<open>net.ParseIP\<close>.
\<close>

record world =
  wd_http :: http
  wd_parse :: url_parser
  wd_print :: "url \<Rightarrow> string"
  wd_set_query :: "url \<Rightarrow> (string \<times> string) list \<Rightarrow> url"
  wd_auth_url :: auth_url_builder
  wd_path_escape :: "string \<Rightarrow> string"
  wd_sha256 :: "string \<Rightarrow> string"
  wd_seal :: "string \<Rightarrow> string \<Rightarrow> json \<Rightarrow> string \<Rightarrow> string"
  wd_open :: "string \<Rightarrow> string \<Rightarrow> string \<Rightarrow> string \<Rightarrow> json option"
  wd_host :: "string \<Rightarrow> string option"
  wd_ip :: "string \<Rightarrow> nat list option"


section \<open>codes.go\<close>

abbreviation (input) InvalidJSON :: string where "InvalidJSON \<equiv> ''invalid_json''"
abbreviation (input) ProviderNotConfigured :: string where "ProviderNotConfigured \<equiv> ''provider_not_configured''"
abbreviation (input) DatastoreUnavailable :: string where "DatastoreUnavailable \<equiv> ''datastore_unavailable''"
abbreviation (input) DesktopSessionAndHandoffChallengeRequired :: string where
  "DesktopSessionAndHandoffChallengeRequired \<equiv> ''desktop_session_id_and_handoff_challenge_required''"
abbreviation (input) InvalidDesktopHandoffRedirect :: string where "InvalidDesktopHandoffRedirect \<equiv> ''invalid_desktop_handoff_redirect''"
abbreviation (input) RandomStateFailed :: string where "RandomStateFailed \<equiv> ''random_state_failed''"
abbreviation (input) RandomVerifierFailed :: string where "RandomVerifierFailed \<equiv> ''random_verifier_failed''"
abbreviation (input) StatePersistFailed :: string where "StatePersistFailed \<equiv> ''state_persist_failed''"
abbreviation (input) AuthURLFailed :: string where "AuthURLFailed \<equiv> ''auth_url_failed''"
abbreviation (input) HandoffFieldsRequired :: string where "HandoffFieldsRequired \<equiv> ''handoff_fields_required''"
abbreviation (input) HandoffAlreadyUsed :: string where "HandoffAlreadyUsed \<equiv> ''handoff_already_used''"
abbreviation (input) HandoffExpired :: string where "HandoffExpired \<equiv> ''handoff_expired''"
abbreviation (input) HandoffNotFound :: string where "HandoffNotFound \<equiv> ''handoff_not_found''"
abbreviation (input) HandoffStateMismatch :: string where "HandoffStateMismatch \<equiv> ''handoff_state_mismatch''"
abbreviation (input) HandoffVerifierMismatch :: string where "HandoffVerifierMismatch \<equiv> ''handoff_verifier_mismatch''"
abbreviation (input) HandoffConsumeFailed :: string where "HandoffConsumeFailed \<equiv> ''handoff_consume_failed''"
abbreviation (input) HandoffPayloadInvalid :: string where "HandoffPayloadInvalid \<equiv> ''handoff_payload_invalid''"
abbreviation (input) RefreshTokenRequired :: string where "RefreshTokenRequired \<equiv> ''refresh_token_required''"
abbreviation (input) AccessTokenRequired :: string where "AccessTokenRequired \<equiv> ''access_token_required''"
abbreviation (input) InvalidRefreshToken :: string where "InvalidRefreshToken \<equiv> ''invalid_refresh_token''"
abbreviation (input) GoogleTokenRefreshFailed :: string where "GoogleTokenRefreshFailed \<equiv> ''google_token_refresh_failed''"
abbreviation (input) GoogleRevokeFailed :: string where "GoogleRevokeFailed \<equiv> ''google_revoke_failed''"
abbreviation (input) GitHubRevokeFailed :: string where "GitHubRevokeFailed \<equiv> ''github_revoke_failed''"
abbreviation (input) SlackRevokeFailed :: string where "SlackRevokeFailed \<equiv> ''slack_revoke_failed''"
abbreviation (input) RateLimited :: string where "RateLimited \<equiv> ''rate_limited''"
abbreviation (input) AuthDisabled :: string where "AuthDisabled \<equiv> ''auth_disabled''"
abbreviation (input) RefreshDisabled :: string where "RefreshDisabled \<equiv> ''refresh_disabled''"
abbreviation (input) AppVersionDisabled :: string where "AppVersionDisabled \<equiv> ''app_version_disabled''"
abbreviation (input) OperationNotSupported :: string where "OperationNotSupported \<equiv> ''operation_not_supported''"

abbreviation (input) SurfaceStart :: string where "SurfaceStart \<equiv> ''start''"
abbreviation (input) SurfaceCallback :: string where "SurfaceCallback \<equiv> ''callback''"
abbreviation (input) SurfaceHandoff :: string where "SurfaceHandoff \<equiv> ''handoff''"
abbreviation (input) SurfaceHandoffFailure :: string where "SurfaceHandoffFailure \<equiv> ''handoff_failure''"
abbreviation (input) SurfaceRefresh :: string where "SurfaceRefresh \<equiv> ''refresh''"
abbreviation (input) SurfaceRefreshFailure :: string where "SurfaceRefreshFailure \<equiv> ''refresh_failure''"
abbreviation (input) SurfaceRevoke :: string where "SurfaceRevoke \<equiv> ''revoke''"
abbreviation (input) LimitKeyStart :: string where "LimitKeyStart \<equiv> ''start''"
abbreviation (input) LimitKeyCallback :: string where "LimitKeyCallback \<equiv> ''callback''"
abbreviation (input) LimitKeyHandoff :: string where "LimitKeyHandoff \<equiv> ''handoff''"
abbreviation (input) LimitKeyHandoffFail :: string where "LimitKeyHandoffFail \<equiv> ''handoff_fail''"
abbreviation (input) LimitKeyRefresh :: string where "LimitKeyRefresh \<equiv> ''refresh''"
abbreviation (input) LimitKeyRefreshFail :: string where "LimitKeyRefreshFail \<equiv> ''refresh_fail''"
abbreviation (input) LimitKeyRevoke :: string where "LimitKeyRevoke \<equiv> ''revoke''"
abbreviation (input) KillSwitchVersionSuffix :: string where "KillSwitchVersionSuffix \<equiv> ''_version''"
abbreviation (input) GoogleInvalidGrant :: string where "GoogleInvalidGrant \<equiv> ''invalid_grant''"

abbreviation (input) OutcomeOK :: string where "OutcomeOK \<equiv> ''ok''"
abbreviation (input) OutcomeGoogleError :: string where "OutcomeGoogleError \<equiv> ''google_error''"
abbreviation (input) OutcomeProviderError :: string where "OutcomeProviderError \<equiv> ''provider_error''"
abbreviation (input) OutcomeMissingParams :: string where "OutcomeMissingParams \<equiv> ''missing_params''"
abbreviation (input) OutcomeStateAlreadyUsed :: string where "OutcomeStateAlreadyUsed \<equiv> ''state_already_used''"
abbreviation (input) OutcomeStateExpired :: string where "OutcomeStateExpired \<equiv> ''state_expired''"
abbreviation (input) OutcomeStateNotFound :: string where "OutcomeStateNotFound \<equiv> ''state_not_found''"
abbreviation (input) OutcomeStateError :: string where "OutcomeStateError \<equiv> ''state_error''"
abbreviation (input) OutcomeTokenExchangeFail :: string where "OutcomeTokenExchangeFail \<equiv> ''token_exchange_failed''"
abbreviation (input) OutcomeHandoffMintFailed :: string where "OutcomeHandoffMintFailed \<equiv> ''handoff_mint_failed''"
abbreviation (input) OutcomeSealFailed :: string where "OutcomeSealFailed \<equiv> ''seal_failed''"
abbreviation (input) OutcomeHandoffPersistFail :: string where "OutcomeHandoffPersistFail \<equiv> ''handoff_persist_failed''"
abbreviation (input) OutcomeHandoffURLFailed :: string where "OutcomeHandoffURLFailed \<equiv> ''handoff_url_failed''"
abbreviation (input) OutcomeAlreadyUsed :: string where "OutcomeAlreadyUsed \<equiv> ''already_used''"
abbreviation (input) OutcomeExpired :: string where "OutcomeExpired \<equiv> ''expired''"
abbreviation (input) OutcomeNotFound :: string where "OutcomeNotFound \<equiv> ''not_found''"
abbreviation (input) OutcomeStateMismatch :: string where "OutcomeStateMismatch \<equiv> ''state_mismatch''"
abbreviation (input) OutcomeConsumeFailed :: string where "OutcomeConsumeFailed \<equiv> ''consume_failed''"
abbreviation (input) OutcomePayloadInvalid :: string where "OutcomePayloadInvalid \<equiv> ''payload_invalid''"
abbreviation (input) OutcomeInvalidGrant :: string where "OutcomeInvalidGrant \<equiv> ''invalid_grant''"
abbreviation (input) OutcomeGoogleFailed :: string where "OutcomeGoogleFailed \<equiv> ''google_failed''"
abbreviation (input) OutcomeGitHubFailed :: string where "OutcomeGitHubFailed \<equiv> ''github_failed''"
abbreviation (input) OutcomeSlackFailed :: string where "OutcomeSlackFailed \<equiv> ''slack_failed''"
abbreviation (input) OutcomeAlreadyRevoked :: string where "OutcomeAlreadyRevoked \<equiv> ''already_revoked''"
abbreviation (input) QuotaStateReplay :: string where "QuotaStateReplay \<equiv> ''state_replay''"
abbreviation (input) QuotaHandoffReplay :: string where "QuotaHandoffReplay \<equiv> ''handoff_replay''"
abbreviation (input) QuotaHandoffMismatch :: string where "QuotaHandoffMismatch \<equiv> ''handoff_mismatch''"
abbreviation (input) QuotaInvalidGrant :: string where "QuotaInvalidGrant \<equiv> ''invalid_grant''"

abbreviation (input) limitStart :: int where "limitStart \<equiv> 10"
abbreviation (input) limitCallback :: int where "limitCallback \<equiv> 30"
abbreviation (input) limitHandoff :: int where "limitHandoff \<equiv> 20"
abbreviation (input) limitHandoffFailure :: int where "limitHandoffFailure \<equiv> 5"
abbreviation (input) limitRefresh :: int where "limitRefresh \<equiv> 60"
abbreviation (input) limitRefreshFailure :: int where "limitRefreshFailure \<equiv> 10"
abbreviation (input) limitRevoke :: int where "limitRevoke \<equiv> 20"


section \<open>Counters (observe.go)\<close>

text \<open>The counters by name and label; a counter without labels has the empty one.\<close>

type_synonym metrics = "((string \<times> string) \<times> int) list"

fun bump :: "string \<times> string \<Rightarrow> metrics \<Rightarrow> metrics" where
  "bump c [] = [(c, 1)]"
| "bump c ((d, n) # m) = (if d = c then (d, n + 1) # m else (d, n) # bump c m)"

definition counted :: "string \<times> string \<Rightarrow> metrics \<Rightarrow> int" where
  "counted c m = (case map_of m c of None \<Rightarrow> 0 | Some n \<Rightarrow> n)"

definition label_char :: "char \<Rightarrow> char" where
  "label_char c = (if is_digit c \<or> (97 \<le> (of_char c :: nat) \<and> (of_char c :: nat) \<le> 122) \<or>
     (65 \<le> (of_char c :: nat) \<and> (of_char c :: nat) \<le> 90) \<or> c = CHR ''_'' \<or> c = CHR ''-'' then c else CHR ''_'')"

definition sanitizeLabel :: "string \<Rightarrow> string" where
  "sanitizeLabel label = (let label = trim_space label in if label = '''' then ''unknown'' else map label_char label)"

definition labeled_lines :: "string \<Rightarrow> string \<Rightarrow> metrics \<Rightarrow> string list" where
  "labeled_lines name key m =
     map (\<lambda>((_, label), n). name @ ''{'' @ key @ ''='' @ [CHR 0x22] @ label @ [CHR 0x22] @ ''} '' @ show_int n @ [CHR 0x0A])
       (sort_key (snd \<circ> fst) (filter (\<lambda>c. fst (fst c) = name) m))"

definition total_line :: "string \<Rightarrow> metrics \<Rightarrow> string" where
  "total_line name m = name @ '' '' @ show_int (counted (name, '''') m) @ [CHR 0x0A]"

definition WritePrometheus :: "metrics \<Rightarrow> string" where
  "WritePrometheus m = concat
     ([total_line ''broker_auth_starts_total'' m, total_line ''broker_auth_start_failures_total'' m,
       total_line ''broker_handoff_success_total'' m, total_line ''broker_refresh_success_total'' m,
       total_line ''broker_revoke_success_total'' m] @
      labeled_lines ''broker_callback_outcomes_total'' ''reason'' m @ labeled_lines ''broker_handoff_failures_total'' ''reason'' m @
      labeled_lines ''broker_refresh_failures_total'' ''reason'' m @ labeled_lines ''broker_revoke_outcomes_total'' ''reason'' m @
      labeled_lines ''broker_rate_limited_total'' ''surface'' m @ labeled_lines ''broker_kill_switch_total'' ''surface'' m @
      labeled_lines ''broker_quota_risk_total'' ''signal'' m)"


section \<open>State and computations\<close>

text \<open>The store, the limiter and the counters; each may be absent.\<close>

record broker =
  br_store :: "broker_db option"
  br_limiter :: "limiter option"
  br_metrics :: "metrics option"

type_synonym ('e, 'a) op = "broker \<Rightarrow> ('e + 'a) \<times> broker"

definition op_ret :: "'a \<Rightarrow> ('e, 'a) op" where "op_ret x s = (Inr x, s)"
definition op_fail :: "'e \<Rightarrow> ('e, 'a) op" where "op_fail e s = (Inl e, s)"

definition op_bind :: "('e, 'a) op \<Rightarrow> ('a \<Rightarrow> ('e, 'b) op) \<Rightarrow> ('e, 'b) op" where
  "op_bind m k s = (case m s of (Inl e, t) \<Rightarrow> (Inl e, t) | (Inr x, t) \<Rightarrow> k x t)"

definition op_then :: "('e, unit) op \<Rightarrow> ('e, 'a) op \<Rightarrow> ('e, 'a) op" where
  "op_then m n = op_bind m (\<lambda>_. n)"

definition inc :: "string \<Rightarrow> string \<Rightarrow> ('e, unit) op" where
  "inc name label s = (Inr (), s\<lparr>br_metrics := map_option (bump (name, label)) (br_metrics s)\<rparr>)"

definition incLabeled :: "string \<Rightarrow> string \<Rightarrow> ('e, unit) op" where "incLabeled name label = inc name (sanitizeLabel label)"

definition IncAuthStart :: "('e, unit) op" where "IncAuthStart = inc ''broker_auth_starts_total'' ''''"
definition IncAuthStartFail :: "('e, unit) op" where "IncAuthStartFail = inc ''broker_auth_start_failures_total'' ''''"
definition IncHandoffOK :: "('e, unit) op" where "IncHandoffOK = inc ''broker_handoff_success_total'' ''''"
definition IncRefreshOK :: "('e, unit) op" where "IncRefreshOK = inc ''broker_refresh_success_total'' ''''"
definition IncRevokeOK :: "('e, unit) op" where "IncRevokeOK = inc ''broker_revoke_success_total'' ''''"
definition IncCallback :: "string \<Rightarrow> ('e, unit) op" where
  "IncCallback reason = incLabeled ''broker_callback_outcomes_total'' reason"
definition IncHandoffFailure :: "string \<Rightarrow> ('e, unit) op" where
  "IncHandoffFailure reason = incLabeled ''broker_handoff_failures_total'' reason"
definition IncRefreshFailure :: "string \<Rightarrow> ('e, unit) op" where
  "IncRefreshFailure reason = incLabeled ''broker_refresh_failures_total'' reason"
definition IncRevokeOutcome :: "string \<Rightarrow> ('e, unit) op" where
  "IncRevokeOutcome reason = incLabeled ''broker_revoke_outcomes_total'' reason"
definition IncRateLimited :: "string \<Rightarrow> ('e, unit) op" where
  "IncRateLimited surface = incLabeled ''broker_rate_limited_total'' surface"
definition IncKillSwitch :: "string \<Rightarrow> ('e, unit) op" where
  "IncKillSwitch surface = incLabeled ''broker_kill_switch_total'' surface"
definition IncQuotaRisk :: "string \<Rightarrow> ('e, unit) op" where
  "IncQuotaRisk signal = incLabeled ''broker_quota_risk_total'' signal"

definition allow :: "env \<Rightarrow> string \<Rightarrow> int \<Rightarrow> ('e, bool) op" where
  "allow en key limit s = (case br_limiter s of
      None \<Rightarrow> (Inr True, s)
    | Some l \<Rightarrow> (case Allow key limit (en_limit_now en) l of (ok, l') \<Rightarrow> (Inr ok, s\<lparr>br_limiter := Some l'\<rparr>)))"

text \<open>A call of the store, whose error is a value; without a store the call would panic.\<close>

definition store_call :: "'a store_op \<Rightarrow> ('e, store_error + 'a) op" where
  "store_call f s = (case br_store s of
      None \<Rightarrow> (Inr (Inl StoreFailure), s)
    | Some d \<Rightarrow> (case f d of (r, d') \<Rightarrow> (Inr r, s\<lparr>br_store := Some d'\<rparr>)))"

definition has_store :: "('e, bool) op" where
  "has_store s = (Inr (br_store s \<noteq> None), s)"

text \<open>Count and fail.\<close>

definition fail_after :: "('e, unit) op \<Rightarrow> 'e \<Rightarrow> ('e, 'a) op" where
  "fail_after m e = op_then m (op_fail e)"


section \<open>Configuration (config.go)\<close>

record broker_config =
  bc_listen :: string
  bc_origin :: string
  bc_google_id :: string
  bc_google_secret :: string
  bc_google_handoff :: string
  bc_github_id :: string
  bc_github_secret :: string
  bc_github_handoff :: string
  bc_slack_id :: string
  bc_slack_secret :: string
  bc_slack_handoff :: string
  bc_bitbucket_id :: string
  bc_bitbucket_secret :: string
  bc_bitbucket_handoff :: string
  bc_dsn :: string
  bc_state_ttl :: int
  bc_handoff_ttl :: int
  bc_google_scopes :: "string list"
  bc_github_scopes :: "string list"
  bc_slack_scopes :: "string list"
  bc_bitbucket_scopes :: "string list"
  bc_auth_disabled :: bool
  bc_refresh_disabled :: bool
  bc_disabled_versions :: "string list"
  bc_metrics_token :: string

definition publicOriginURL :: "url_parser \<Rightarrow> broker_config \<Rightarrow> url option" where
  "publicOriginURL parse c =
     (let raw = trim_space (bc_origin c) in
      if raw = '''' then None
      else case parse raw of
        None \<Rightarrow> None
      | Some u \<Rightarrow>
          if ul_scheme u \<noteq> ''https'' \<or> ul_host u = '''' then None
          else if ul_query u \<noteq> '''' \<or> ul_fragment u \<noteq> '''' \<or> (ul_path u \<noteq> '''' \<and> ul_path u \<noteq> ''/'') then None
          else Some u)"

definition parseDesktopHandoffURL :: "url_parser \<Rightarrow> string \<Rightarrow> url option" where
  "parseDesktopHandoffURL parse value =
     (let raw = trim_space value in
      if raw = '''' then None
      else case parse raw of
        None \<Rightarrow> None
      | Some u \<Rightarrow> if ul_scheme u = '''' \<or> ul_scheme u = ''http'' \<or> ul_scheme u = ''https'' then None else Some u)"

text \<open>The settings that are reported for a provider that may be left out.\<close>

definition provider_problems :: "string \<Rightarrow> string \<Rightarrow> string \<Rightarrow> string list \<Rightarrow> string list" where
  "provider_problems prefix i secret scopes =
     (let i = trim_space i; secret = trim_space secret in
      (if (i = '''') \<noteq> (secret = '''') then [if i = '''' then prefix @ ''_CLIENT_ID'' else prefix @ ''_CLIENT_SECRET''] else []) @
      (if i \<noteq> '''' \<and> scopes = [] then [prefix @ ''_SCOPES''] else []))"

definition handoff_problems :: "url_parser \<Rightarrow> string \<Rightarrow> string \<Rightarrow> string \<Rightarrow> string list" where
  "handoff_problems parse setting i url =
     (if trim_space i \<noteq> '''' \<and> parseDesktopHandoffURL parse url = None then [setting] else [])"

text \<open>The settings at fault, in the order they are reported; a configuration is valid if there are none.\<close>

definition Validate :: "url_parser \<Rightarrow> broker_config \<Rightarrow> string list" where
  "Validate parse c =
     (if trim_space (bc_listen c) = '''' then [''SHIET_BROKER_LISTEN_ADDR''] else []) @
     (if trim_space (bc_google_id c) = '''' then [''SHIET_BROKER_GOOGLE_CLIENT_ID''] else []) @
     (if trim_space (bc_google_secret c) = '''' then [''SHIET_BROKER_GOOGLE_CLIENT_SECRET''] else []) @
     (if trim_space (bc_dsn c) = '''' then [''SHIET_BROKER_DATASTORE_DSN''] else []) @
     (if bc_google_scopes c = [] then [''SHIET_BROKER_GOOGLE_SCOPES''] else []) @
     provider_problems ''SHIET_BROKER_GITHUB'' (bc_github_id c) (bc_github_secret c) (bc_github_scopes c) @
     provider_problems ''SHIET_BROKER_SLACK'' (bc_slack_id c) (bc_slack_secret c) (bc_slack_scopes c) @
     provider_problems ''SHIET_BROKER_BITBUCKET'' (bc_bitbucket_id c) (bc_bitbucket_secret c) (bc_bitbucket_scopes c) @
     (if bc_state_ttl c \<le> 0 \<or> 10 * minute < bc_state_ttl c then [''SHIET_BROKER_STATE_TTL''] else []) @
     (if bc_handoff_ttl c \<le> 0 \<or> 5 * minute < bc_handoff_ttl c then [''SHIET_BROKER_HANDOFF_TTL''] else []) @
     (if publicOriginURL parse c = None then [''SHIET_BROKER_PUBLIC_ORIGIN''] else []) @
     (if parseDesktopHandoffURL parse (bc_google_handoff c) = None then [''SHIET_BROKER_DESKTOP_HANDOFF_URL''] else []) @
     handoff_problems parse ''SHIET_BROKER_GITHUB_DESKTOP_HANDOFF_URL'' (bc_github_id c) (bc_github_handoff c) @
     handoff_problems parse ''SHIET_BROKER_SLACK_DESKTOP_HANDOFF_URL'' (bc_slack_id c) (bc_slack_handoff c) @
     handoff_problems parse ''SHIET_BROKER_BITBUCKET_DESKTOP_HANDOFF_URL'' (bc_bitbucket_id c) (bc_bitbucket_handoff c)"

definition app_version_disabled :: "broker_config \<Rightarrow> string \<Rightarrow> bool" where
  "app_version_disabled c v = (let v = trim_space v in v \<noteq> '''' \<and> list_ex (\<lambda>b. v = b) (bc_disabled_versions c))"

definition ProviderRedirectURI :: "world \<Rightarrow> broker_config \<Rightarrow> string \<Rightarrow> string" where
  "ProviderRedirectURI w c provider = (case publicOriginURL (wd_parse w) c of
      None \<Rightarrow> ''''
    | Some u \<Rightarrow> wd_print w (u\<lparr>ul_path := ''/v1/'' @ trim_space provider @ ''/oauth/callback''\<rparr>))"

text \<open>Reading the environment.\<close>

type_synonym environment = "string \<Rightarrow> string"

definition getenv :: "environment \<Rightarrow> string \<Rightarrow> string \<Rightarrow> string" where
  "getenv e key fallback = (if e key \<noteq> '''' then e key else fallback)"

definition listenAddrFromEnv :: "environment \<Rightarrow> string" where
  "listenAddrFromEnv e =
     (if e ''SHIET_BROKER_LISTEN_ADDR'' \<noteq> '''' then e ''SHIET_BROKER_LISTEN_ADDR''
      else if e ''PORT'' \<noteq> '''' then '':'' @ e ''PORT'' else '':8080'')"

definition splitScopes :: "string \<Rightarrow> string list" where
  "splitScopes raw = filter (\<lambda>f. f \<noteq> '''') (map trim_space
     (fields_func (\<lambda>c. c = CHR '','' \<or> c = CHR '' '' \<or> c = CHR 0x0A \<or> c = CHR 0x09) [] raw))"

text \<open>\<open>strings.Split\<close> at a character.\<close>

fun split_at_char :: "char \<Rightarrow> string \<Rightarrow> string list" where
  "split_at_char d [] = [[]]"
| "split_at_char d (c # cs) =
     (if c = d then [] # split_at_char d cs
      else (case split_at_char d cs of [] \<Rightarrow> [[c]] | p # ps \<Rightarrow> (c # p) # ps))"

definition splitCSV :: "string \<Rightarrow> string list" where
  "splitCSV raw = (if trim_space raw = '''' then []
     else filter (\<lambda>p. p \<noteq> '''') (map trim_space (split_at_char (CHR '','') raw)))"

definition envTruthy :: "environment \<Rightarrow> string \<Rightarrow> bool" where
  "envTruthy e key = (trim_space (to_lower (e key)) \<in> set [''1'', ''true'', ''yes'', ''on''])"

text \<open>\<open>time.ParseDuration\<close> is a parameter; a failure is a missing configuration.\<close>

definition LoadFromEnv :: "url_parser \<Rightarrow> (string \<Rightarrow> int option) \<Rightarrow> environment \<Rightarrow> broker_config option" where
  "LoadFromEnv parse parse_duration e =
     (let ttl = (\<lambda>key fallback. if e key = '''' then Some fallback else parse_duration (e key)) in
      case (ttl ''SHIET_BROKER_STATE_TTL'' (5 * minute), ttl ''SHIET_BROKER_HANDOFF_TTL'' (2 * minute)) of
        (Some state_ttl, Some handoff_ttl) \<Rightarrow>
          (let c = \<lparr>bc_listen = listenAddrFromEnv e, bc_origin = e ''SHIET_BROKER_PUBLIC_ORIGIN'',
             bc_google_id = e ''SHIET_BROKER_GOOGLE_CLIENT_ID'', bc_google_secret = e ''SHIET_BROKER_GOOGLE_CLIENT_SECRET'',
             bc_google_handoff = getenv e ''SHIET_BROKER_DESKTOP_HANDOFF_URL'' ''shiet://oauth/google/handoff'',
             bc_github_id = e ''SHIET_BROKER_GITHUB_CLIENT_ID'', bc_github_secret = e ''SHIET_BROKER_GITHUB_CLIENT_SECRET'',
             bc_github_handoff = getenv e ''SHIET_BROKER_GITHUB_DESKTOP_HANDOFF_URL'' ''shiet://oauth/github/handoff'',
             bc_slack_id = e ''SHIET_BROKER_SLACK_CLIENT_ID'', bc_slack_secret = e ''SHIET_BROKER_SLACK_CLIENT_SECRET'',
             bc_slack_handoff = getenv e ''SHIET_BROKER_SLACK_DESKTOP_HANDOFF_URL'' ''shiet://oauth/slack/handoff'',
             bc_bitbucket_id = e ''SHIET_BROKER_BITBUCKET_CLIENT_ID'', bc_bitbucket_secret = e ''SHIET_BROKER_BITBUCKET_CLIENT_SECRET'',
             bc_bitbucket_handoff = getenv e ''SHIET_BROKER_BITBUCKET_DESKTOP_HANDOFF_URL'' ''shiet://oauth/bitbucket/handoff'',
             bc_dsn = e ''SHIET_BROKER_DATASTORE_DSN'', bc_state_ttl = state_ttl, bc_handoff_ttl = handoff_ttl,
             bc_google_scopes = splitScopes (getenv e ''SHIET_BROKER_GOOGLE_SCOPES'' googleCalendarReadScope),
             bc_github_scopes = splitScopes (getenv e ''SHIET_BROKER_GITHUB_SCOPES'' ''repo''),
             bc_slack_scopes = splitScopes (getenv e ''SHIET_BROKER_SLACK_SCOPES'' ''channels:history groups:history channels:read groups:read''),
             bc_bitbucket_scopes = splitScopes (getenv e ''SHIET_BROKER_BITBUCKET_SCOPES'' ''account repository''),
             bc_auth_disabled = envTruthy e ''SHIET_BROKER_AUTH_DISABLED'', bc_refresh_disabled = envTruthy e ''SHIET_BROKER_REFRESH_DISABLED'',
             bc_disabled_versions = splitCSV (e ''SHIET_BROKER_DISABLED_APP_VERSIONS''),
             bc_metrics_token = e ''SHIET_BROKER_METRICS_TOKEN''\<rparr>
           in if Validate parse c = [] then Some c else None)
      | _ \<Rightarrow> None)"

end
