(* ===== verification/Broker_Service.thy ===== *)
theory Broker_Service
  imports Broker
begin

text \<open>
  What the broker's operations are built from: internal/broker/httpapi/crypto.go (sealed tokens) and
  the helpers of server.go (encodings, the settings of a provider, the calls of its endpoints).
\<close>

section \<open>Encodings\<close>

definition base64_alphabet :: string where
  "base64_alphabet = ''ABCDEFGHIJKLMNOPQRSTUVWXYZabcdefghijklmnopqrstuvwxyz0123456789-_''"

text \<open>\<open>base64.RawURLEncoding\<close>.\<close>

fun base64url :: "nat list \<Rightarrow> string" where
  "base64url [] = []"
| "base64url [a] = map ((!) base64_alphabet) [a div 4, a mod 4 * 16]"
| "base64url [a, b] = map ((!) base64_alphabet) [a div 4, a mod 4 * 16 + b div 16, b mod 16 * 4]"
| "base64url (a # b # c # rest) =
     map ((!) base64_alphabet) [a div 4, a mod 4 * 16 + b div 16, b mod 16 * 4 + c div 64, c mod 64] @ base64url rest"

definition bytes_of :: "string \<Rightarrow> nat list" where
  "bytes_of s = map of_char s"

definition randomString :: "env \<Rightarrow> nat \<Rightarrow> string option" where
  "randomString en n = map_option (\<lambda>b. base64url (bytes_of b)) (en_rand en n)"

definition pkceS256 :: "world \<Rightarrow> string \<Rightarrow> string" where
  "pkceS256 w verifier = base64url (bytes_of (wd_sha256 w verifier))"

definition hashHandoffCode :: "world \<Rightarrow> string \<Rightarrow> string" where
  "hashHandoffCode w code = base64url (bytes_of (wd_sha256 w code))"

fun show_hex :: "nat \<Rightarrow> string" where
  "show_hex n = (if n < 16 then [''0123456789abcdef'' ! n] else show_hex (n div 16) @ [''0123456789abcdef'' ! (n mod 16)])"

declare show_hex.simps [simp del]

text \<open>The network of an address: 24 bits of an IPv4 address, 64 of an IPv6 one.\<close>

definition sourceIPBucket :: "world \<Rightarrow> string \<Rightarrow> string" where
  "sourceIPBucket w addr =
     (let host = (case wd_host w addr of None \<Rightarrow> addr | Some h \<Rightarrow> h) in
      case wd_ip w host of
        None \<Rightarrow> ''''
      | Some b \<Rightarrow>
          if take 12 b = replicate 10 0 @ [255, 255] then
            show_nat (b ! 12) @ ''.'' @ show_nat (b ! 13) @ ''.'' @ show_nat (b ! 14) @ ''.0/24''
          else join_with '':'' (map (\<lambda>i. show_hex (b ! i * 256 + b ! (i + 1))) [0, 2, 4, 6]) @ ''::/64'')"


section \<open>Sealed tokens (crypto.go)\<close>

record token_payload =
  tk_access :: string
  tk_refresh :: string
  tk_type :: string
  tk_expiry :: instant

definition handoffAAD :: "string \<Rightarrow> string \<Rightarrow> string \<Rightarrow> string" where
  "handoffAAD state session challenge = state @ ''|'' @ session @ ''|'' @ challenge"

text \<open>\<open>json.Marshal\<close> leaves out empty texts marked so, and fails on a year that has not four digits.\<close>

definition payload_json :: "token_payload \<Rightarrow> json" where
  "payload_json p = JObj ([(''access_token'', JStr (tk_access p))] @
     (if tk_refresh p = '''' then [] else [(''refresh_token'', JStr (tk_refresh p))]) @
     (if tk_type p = '''' then [] else [(''token_type'', JStr (tk_type p))]) @
     [(''expiry'', JStr (formatTime (tk_expiry p)))])"

definition read_payload_member :: "string \<times> json \<Rightarrow> token_payload \<Rightarrow> token_payload option" where
  "read_payload_member kv p =
     (let k = to_lower (fst kv); v = snd kv in
      if k = ''access_token'' then map_option (\<lambda>x. p\<lparr>tk_access := x\<rparr>) (read_text v (tk_access p))
      else if k = ''refresh_token'' then map_option (\<lambda>x. p\<lparr>tk_refresh := x\<rparr>) (read_text v (tk_refresh p))
      else if k = ''token_type'' then map_option (\<lambda>x. p\<lparr>tk_type := x\<rparr>) (read_text v (tk_type p))
      else if k = ''expiry'' then
        (case v of JStr s \<Rightarrow> map_option (\<lambda>t. p\<lparr>tk_expiry := t\<rparr>) (parse_rfc3339 s) | JNull \<Rightarrow> Some p | _ \<Rightarrow> None)
      else Some p)"

definition encryptTokenPayload :: "world \<Rightarrow> env \<Rightarrow> string \<Rightarrow> string \<Rightarrow> token_payload \<Rightarrow> string option" where
  "encryptTokenPayload w en secret aad p =
     (if \<not> printable (tk_expiry p) then None
      else case en_rand en 12 of
        None \<Rightarrow> None
      | Some nonce \<Rightarrow> Some (nonce @ wd_seal w (wd_sha256 w secret) nonce (payload_json p) aad))"

definition decryptTokenPayload :: "world \<Rightarrow> string \<Rightarrow> string \<Rightarrow> string \<Rightarrow> token_payload option" where
  "decryptTokenPayload w secret aad ciphertext =
     (if ciphertext = '''' \<or> length ciphertext < 12 then None
      else case wd_open w (wd_sha256 w secret) (take 12 ciphertext) (drop 12 ciphertext) aad of
        None \<Rightarrow> None
      | Some j \<Rightarrow> read_struct read_payload_member \<lparr>tk_access = '''', tk_refresh = '''', tk_type = '''', tk_expiry = zero_time\<rparr> j)"


section \<open>The server's settings\<close>

record server =
  sv_config :: broker_config
  sv_google_token_url :: string
  sv_google_revoke_url :: string
  sv_github_token_url :: string
  sv_github_revoke_url :: string

definition MustLookup :: "string \<Rightarrow> provider" where
  "MustLookup i = the (Lookup i)"

definition configured_pair :: "string \<Rightarrow> string \<Rightarrow> credentials option" where
  "configured_pair i secret = (let i = trim_space i; secret = trim_space secret in
     if i = '''' \<or> secret = '''' then None else Some \<lparr>cr_id = i, cr_secret = secret\<rparr>)"

definition providerCredentials :: "server \<Rightarrow> string \<Rightarrow> credentials option" where
  "providerCredentials sv p = (let c = sv_config sv in
     if p = ProviderGitHub then configured_pair (bc_github_id c) (bc_github_secret c)
     else if p = ProviderSlack then configured_pair (bc_slack_id c) (bc_slack_secret c)
     else if p = ProviderBitbucket then configured_pair (bc_bitbucket_id c) (bc_bitbucket_secret c)
     else if p = ProviderGoogle then configured_pair (bc_google_id c) (bc_google_secret c)
     else None)"

definition providerConfigured :: "server \<Rightarrow> string \<Rightarrow> bool" where
  "providerConfigured sv p \<longleftrightarrow> providerCredentials sv p \<noteq> None"

definition providerClientSecret :: "server \<Rightarrow> string \<Rightarrow> string" where
  "providerClientSecret sv p = (case providerCredentials sv p of None \<Rightarrow> '''' | Some c \<Rightarrow> cr_secret c)"

definition providerScopes :: "server \<Rightarrow> string \<Rightarrow> string list" where
  "providerScopes sv p = (let c = sv_config sv;
       own = (if p = ProviderGitHub then bc_github_scopes c else if p = ProviderSlack then bc_slack_scopes c
              else if p = ProviderBitbucket then bc_bitbucket_scopes c else if p = ProviderGoogle then bc_google_scopes c else [])
     in if own \<noteq> [] then own else (case Lookup p of None \<Rightarrow> [] | Some d \<Rightarrow> pr_scopes d))"

definition providerTokenURL :: "server \<Rightarrow> provider \<Rightarrow> string" where
  "providerTokenURL sv d =
     (if pr_id d = ProviderGoogle \<and> trim_space (sv_google_token_url sv) \<noteq> '''' then sv_google_token_url sv
      else if pr_id d = ProviderGitHub \<and> trim_space (sv_github_token_url sv) \<noteq> '''' then sv_github_token_url sv
      else pr_token_url d)"

definition desktopHandoffURLForProvider :: "server \<Rightarrow> string \<Rightarrow> string" where
  "desktopHandoffURLForProvider sv p = (let p = providerOrGoogle p; c = sv_config sv in
     trim_space (if p = ProviderGitHub then bc_github_handoff c else if p = ProviderSlack then bc_slack_handoff c
       else if p = ProviderBitbucket then bc_bitbucket_handoff c else bc_google_handoff c))"

definition splitProviderScopes :: "string \<Rightarrow> string \<Rightarrow> string list" where
  "splitProviderScopes p raw = (case Lookup p of None \<Rightarrow> fields_of raw | Some d \<Rightarrow> SplitScopes d raw)"

definition tokenExpiry :: "instant \<Rightarrow> int \<Rightarrow> instant" where
  "tokenExpiry now n = (if n \<le> 0 then zero_time else now + seconds_of n)"

text \<open>A redirect of the desktop program must be a path on the loopback address over plain HTTP.\<close>

definition validateDesktopHandoffRedirect :: "world \<Rightarrow> string \<Rightarrow> bool" where
  "validateDesktopHandoffRedirect w raw \<longleftrightarrow> (case wd_parse w raw of
      None \<Rightarrow> False
    | Some u \<Rightarrow> ul_scheme u = ''http'' \<and> \<not> ul_user u \<and> ul_hostname u = ''127.0.0.1'' \<and>
        ul_path u \<noteq> '''' \<and> ul_query u = '''' \<and> ul_fragment u = '''')"

definition authURL :: "world \<Rightarrow> server \<Rightarrow> string \<Rightarrow> string \<Rightarrow> string \<Rightarrow> string option" where
  "authURL w sv p state challenge = (case (Lookup p, providerCredentials sv p) of
      (Some d, Some creds) \<Rightarrow>
        BuildAuthorizationURL (wd_auth_url w) d creds (ProviderRedirectURI w (sv_config sv) p) state challenge (providerScopes sv p)
    | _ \<Rightarrow> None)"

definition buildHandoffURL :: "world \<Rightarrow> server \<Rightarrow> instant oauth_state \<Rightarrow> string \<Rightarrow> string option" where
  "buildHandoffURL w sv st code =
     (let base = trim_space (os_redirect st);
          base = (if base = '''' then desktopHandoffURLForProvider sv (os_provider st) else base)
      in map_option (\<lambda>u. wd_print w (wd_set_query w u [(''broker_state'', os_id st), (''handoff_code'', code)])) (wd_parse w base))"


section \<open>Calls of a provider\<close>

datatype token_error =
    TokenError string string
  | TokenFailed

definition exchangeProviderCode ::
    "world \<Rightarrow> server \<Rightarrow> instant \<Rightarrow> string \<Rightarrow> string \<Rightarrow> string \<Rightarrow> token_error + token_response" where
  "exchangeProviderCode w sv now p code verifier = (case (Lookup p, providerCredentials sv p) of
      (Some d, Some creds) \<Rightarrow>
        (case ExchangeAuthorizationCode (wd_http w) now d creds (ProviderRedirectURI w (sv_config sv) p) code verifier
            (providerTokenURL sv d) of
          Inl (ExchangeError c desc _) \<Rightarrow> Inl (TokenError c desc)
        | Inl ExchangeFailed \<Rightarrow> Inl TokenFailed
        | Inr t \<Rightarrow> Inr (if tr_expires_in t \<le> 0 \<and> p = ProviderGoogle then t\<lparr>tr_expires_in := 3600\<rparr> else t))
    | _ \<Rightarrow> Inl TokenFailed)"

definition read_token_answer :: "http_response \<Rightarrow> token_error + raw_token" where
  "read_token_answer r = (case Option.bind (hr_json r) (read_struct read_token_member no_token) of
      None \<Rightarrow> Inl TokenFailed
    | Some t \<Rightarrow>
        if \<not> ok_status (hr_status r) \<or> rt_access t = '''' \<or> rt_error t \<noteq> ''''
        then Inl (TokenError (if rt_error t = '''' then ''token_request_failed'' else rt_error t) (rt_description t))
        else Inr (if rt_type t = '''' then t\<lparr>rt_type := ''Bearer''\<rparr> else t))"

definition postGoogleToken :: "world \<Rightarrow> server \<Rightarrow> (string \<times> string) list \<Rightarrow> token_error + raw_token" where
  "postGoogleToken w sv form =
     (case wd_http w \<lparr>hq_method = ''POST'',
          hq_url = (if sv_google_token_url sv = '''' then pr_token_url (MustLookup ProviderGoogle) else sv_google_token_url sv),
          hq_auth = NoAuth, hq_headers = [(''Content-Type'', ''application/x-www-form-urlencoded'')], hq_body = FormBody form\<rparr> of
        None \<Rightarrow> Inl TokenFailed
      | Some r \<Rightarrow> (case read_token_answer r of
            Inl e \<Rightarrow> Inl e
          | Inr t \<Rightarrow> Inr (if rt_expires_in t \<le> 0 then t\<lparr>rt_expires_in := 3600\<rparr> else t)))"

definition postProviderToken :: "world \<Rightarrow> server \<Rightarrow> string \<Rightarrow> (string \<times> string) list \<Rightarrow> token_error + raw_token" where
  "postProviderToken w sv p form = (case Lookup p of
      None \<Rightarrow> Inl TokenFailed
    | Some d \<Rightarrow>
        (case wd_http w \<lparr>hq_method = ''POST'', hq_url = providerTokenURL sv d, hq_auth = NoAuth,
            hq_headers = form_headers d, hq_body = FormBody form\<rparr> of
          None \<Rightarrow> Inl TokenFailed
        | Some r \<Rightarrow> read_token_answer r))"

datatype revocation = Revoked | AlreadyRevoked | RevokeFailed

text \<open>\<open>strings.TrimRight(s, "/")\<close>.\<close>

definition trim_slashes :: "string \<Rightarrow> string" where
  "trim_slashes s = rev (dropWhile (\<lambda>c. c = CHR ''/'') (rev s))"

record revoke_answer =
  ra_ok :: bool
  ra_revoked :: bool
  ra_error :: string

definition read_revoke_member :: "string \<times> json \<Rightarrow> revoke_answer \<Rightarrow> revoke_answer option" where
  "read_revoke_member kv a =
     (let k = to_lower (fst kv); v = snd kv in
      if k = ''ok'' then map_option (\<lambda>x. a\<lparr>ra_ok := x\<rparr>) (read_flag v (ra_ok a))
      else if k = ''revoked'' then map_option (\<lambda>x. a\<lparr>ra_revoked := x\<rparr>) (read_flag v (ra_revoked a))
      else if k = ''error'' then map_option (\<lambda>x. a\<lparr>ra_error := x\<rparr>) (read_text v (ra_error a))
      else Some a)"

definition slack_revoke_request :: "string \<Rightarrow> http_request" where
  "slack_revoke_request token = \<lparr>hq_method = ''POST'', hq_url = trim_slashes (pr_revoke_url (MustLookup ProviderSlack)),
     hq_auth = Bearer token, hq_headers = [(''Accept'', ''application/json'')], hq_body = NoBody\<rparr>"

definition revokeSlackToken :: "world \<Rightarrow> string \<Rightarrow> revocation" where
  "revokeSlackToken w token = (case wd_http w (slack_revoke_request token) of
      None \<Rightarrow> RevokeFailed
    | Some r \<Rightarrow> (case Option.bind (hr_json r) (read_struct read_revoke_member \<lparr>ra_ok = False, ra_revoked = False, ra_error = ''''\<rparr>) of
          None \<Rightarrow> RevokeFailed
        | Some a \<Rightarrow> if ok_status (hr_status r) \<and> ra_ok a \<and> ra_revoked a then Revoked else RevokeFailed))"

definition revokeGitHubToken :: "world \<Rightarrow> server \<Rightarrow> string \<Rightarrow> revocation" where
  "revokeGitHubToken w sv token =
     (let base = trim_slashes (trim_space (sv_github_revoke_url sv));
          base = (if base = '''' then trim_slashes (pr_revoke_url (MustLookup ProviderGitHub)) else base)
      in case providerCredentials sv ProviderGitHub of
        None \<Rightarrow> RevokeFailed
      | Some creds \<Rightarrow>
          (case wd_http w \<lparr>hq_method = ''DELETE'',
              hq_url = base @ ''/applications/'' @ wd_path_escape w (cr_id creds) @ ''/token'',
              hq_auth = Basic (cr_id creds) (cr_secret creds),
              hq_headers = [(''Accept'', ''application/vnd.github+json''), (''Content-Type'', ''application/json''),
                (''X-GitHub-Api-Version'', ''2022-11-28'')],
              hq_body = JsonBody (JObj [(''access_token'', JStr token)])\<rparr> of
            None \<Rightarrow> RevokeFailed
          | Some r \<Rightarrow> if hr_status r = 204 then Revoked else RevokeFailed))"

definition isGoogleInvalidToken :: "http_response \<Rightarrow> bool" where
  "isGoogleInvalidToken r \<longleftrightarrow> hr_status r = 400 \<and>
     ((case Option.bind (hr_json r) (read_struct (\<lambda>kv e. if to_lower (fst kv) = ''error'' then read_text (snd kv) e else Some e) '''') of
         Some e \<Rightarrow> to_lower (trim_space e) = ''invalid_token'' | None \<Rightarrow> False) \<or>
      contains ''invalid_token'' (to_lower (hr_text r)))"

definition revokeGoogleToken :: "world \<Rightarrow> server \<Rightarrow> string \<Rightarrow> revocation" where
  "revokeGoogleToken w sv token =
     (case wd_http w \<lparr>hq_method = ''POST'',
          hq_url = (if sv_google_revoke_url sv = '''' then pr_revoke_url (MustLookup ProviderGoogle) else sv_google_revoke_url sv),
          hq_auth = NoAuth, hq_headers = [(''Content-Type'', ''application/x-www-form-urlencoded'')],
          hq_body = FormBody [(''token'', token)]\<rparr> of
        None \<Rightarrow> RevokeFailed
      | Some r \<Rightarrow> if ok_status (hr_status r) then Revoked
          else if isGoogleInvalidToken r then AlreadyRevoked else RevokeFailed)"

end
