(* ===== verification/Broker_Operations.thy ===== *)
theory Broker_Operations
  imports Broker_Service
begin

text \<open>
  The broker's operations: the Connect service (internal/broker/httpapi/operations.go, errors.go)
  and the provider callback (server.go). An operation fails with a code, the callback with a status
  and a message. What was written before a failure stays: no call is undone.
\<close>

section \<open>Requests and answers\<close>

datatype provider_enum = ProviderUnspecified | Google | GitHub | Slack | Bitbucket

definition providerName :: "provider_enum \<Rightarrow> string option" where
  "providerName p = (case p of Google \<Rightarrow> Some ProviderGoogle | GitHub \<Rightarrow> Some ProviderGitHub
     | Slack \<Rightarrow> Some ProviderSlack | Bitbucket \<Rightarrow> Some ProviderBitbucket | ProviderUnspecified \<Rightarrow> None)"

text \<open>Version and platform of the desktop program.\<close>

type_synonym application = "(string \<times> string) option"

definition app_version :: "application \<Rightarrow> string" where
  "app_version a = (case a of None \<Rightarrow> '''' | Some (v, _) \<Rightarrow> trim_space v)"

definition app_platform :: "application \<Rightarrow> string" where
  "app_platform a = (case a of None \<Rightarrow> '''' | Some (_, p) \<Rightarrow> trim_space p)"

record start_request =
  sq_provider :: provider_enum
  sq_session :: string
  sq_challenge :: string
  sq_redirect :: string
  sq_app :: application

record start_response =
  sp_auth_url :: string
  sp_state :: string
  sp_expires :: instant

record handoff_request =
  xq_provider :: provider_enum
  xq_session :: string
  xq_state :: string
  xq_code :: string
  xq_verifier :: string
  xq_app :: application

record token_material =
  tm_access :: string
  tm_refresh :: string
  tm_type :: string
  tm_expiry :: instant

record handoff_response =
  hp_provider :: provider_enum
  hp_account :: string
  hp_scopes :: "string list"
  hp_token :: token_material

record refresh_request =
  fq_provider :: provider_enum
  fq_token :: string
  fq_scopes :: "string list"
  fq_app :: application

record revoke_request =
  vq_provider :: provider_enum
  vq_refresh :: string
  vq_access :: string
  vq_reason :: string


section \<open>Starting an authorization\<close>

definition limited :: "env \<Rightarrow> string \<Rightarrow> int \<Rightarrow> ('e, unit) op \<Rightarrow> 'e \<Rightarrow> ('e, 'a) op \<Rightarrow> ('e, 'a) op" where
  "limited en key limit count e m =
     op_bind (allow en key limit) (\<lambda>ok. if ok then m else fail_after count e)"

text \<open>The record of an authorization under way, and the answer.\<close>

type_synonym secret = string
type_synonym bucket_key = string

definition new_state ::
    "world \<Rightarrow> server \<Rightarrow> env \<Rightarrow> string \<Rightarrow> secret \<Rightarrow> secret \<Rightarrow> string \<Rightarrow> secret \<Rightarrow> string \<Rightarrow> string \<Rightarrow> string \<Rightarrow> bucket_key \<Rightarrow>
       instant oauth_state" where
  "new_state w sv en p state verifier session challenge redirect version platform bucket =
     \<lparr>os_id = state, os_provider = p, os_session = session, os_verifier = verifier, os_challenge = pkceS256 w verifier,
      os_handoff_challenge = challenge, os_redirect = redirect, os_scopes = providerScopes sv p, os_version = version,
      os_platform = platform, os_bucket = bucket, os_expires = en_now en + bc_state_ttl (sv_config sv), os_used = None\<rparr>"

definition begin_authorization ::
    "world \<Rightarrow> server \<Rightarrow> env \<Rightarrow> string \<Rightarrow> string \<Rightarrow> secret \<Rightarrow> string \<Rightarrow> string \<Rightarrow> string \<Rightarrow> bucket_key \<Rightarrow> (string, start_response) op" where
  "begin_authorization w sv en p session challenge redirect version platform bucket =
     (case randomString en 32 of
        None \<Rightarrow> fail_after IncAuthStartFail RandomStateFailed
      | Some state \<Rightarrow> (case randomString en 64 of
          None \<Rightarrow> fail_after IncAuthStartFail RandomVerifierFailed
        | Some verifier \<Rightarrow>
            let st = new_state w sv en p state verifier session challenge redirect version platform bucket in
            op_bind (store_call (SaveOAuthState st)) (\<lambda>r. case r of
              Inl _ \<Rightarrow> fail_after IncAuthStartFail StatePersistFailed
            | Inr _ \<Rightarrow> (case authURL w sv p state (os_challenge st) of
                None \<Rightarrow> fail_after IncAuthStartFail AuthURLFailed
              | Some u \<Rightarrow> op_then IncAuthStart
                  (op_ret \<lparr>sp_auth_url = u, sp_state = state, sp_expires = os_expires st\<rparr>)))))"

definition startAuthorization ::
    "world \<Rightarrow> server \<Rightarrow> env \<Rightarrow> string \<Rightarrow> start_request \<Rightarrow> (string, start_response) op" where
  "startAuthorization w sv en bucket req = (case providerName (sq_provider req) of
      None \<Rightarrow> op_fail ProviderNotConfigured
    | Some p \<Rightarrow> op_bind has_store (\<lambda>store.
        if \<not> store then op_fail DatastoreUnavailable
        else if \<not> providerConfigured sv p then op_fail ProviderNotConfigured
        else if bc_auth_disabled (sv_config sv) then fail_after (IncKillSwitch SurfaceStart) AuthDisabled
        else limited en (Key LimitKeyStart bucket) limitStart (IncRateLimited SurfaceStart) RateLimited
          (let session = trim_space (sq_session req); challenge = trim_space (sq_challenge req);
               redirect = trim_space (sq_redirect req); version = app_version (sq_app req)
           in if session = '''' \<or> challenge = '''' then fail_after IncAuthStartFail DesktopSessionAndHandoffChallengeRequired
              else if app_version_disabled (sv_config sv) version
              then fail_after (IncKillSwitch (SurfaceStart @ KillSwitchVersionSuffix)) AppVersionDisabled
              else if redirect \<noteq> '''' \<and> \<not> validateDesktopHandoffRedirect w redirect
              then fail_after IncAuthStartFail InvalidDesktopHandoffRedirect
              else begin_authorization w sv en p session challenge redirect version (app_platform (sq_app req)) bucket)))"


section \<open>The callback of a provider\<close>

record callback_query =
  cq_error :: string
  cq_description :: string
  cq_code :: string
  cq_state :: string

type_synonym page_error = "int \<times> string"

definition state_refusal :: "string \<Rightarrow> store_error \<Rightarrow> string \<times> page_error" where
  "state_refusal name e = (case e of
      StoreAlreadyUsed \<Rightarrow> (OutcomeStateAlreadyUsed,
        (400, ''This '' @ name @ '' authorization was already used. Return to shiet and start a new connect.''))
    | StoreExpired \<Rightarrow> (OutcomeStateExpired,
        (400, ''This '' @ name @ '' authorization expired. Return to shiet and start a new connect.''))
    | StoreNotFound \<Rightarrow> (OutcomeStateNotFound,
        (400, ''Unknown '' @ name @ '' authorization state. Return to shiet and start a new connect.''))
    | StoreMismatch \<Rightarrow> (OutcomeStateMismatch, (400, ''OAuth provider mismatch. Return to shiet and start a new connect.''))
    | StoreFailure \<Rightarrow> (OutcomeStateError, (500, ''Broker could not validate authorization state. Return to shiet and retry.'')))"

definition refused_state :: "string \<Rightarrow> store_error \<Rightarrow> (page_error, 'a) op" where
  "refused_state name e = (case state_refusal name e of (reason, answer) \<Rightarrow>
     op_then (if e = StoreAlreadyUsed then IncQuotaRisk QuotaStateReplay else op_ret ())
       (fail_after (IncCallback reason) answer))"

definition payload_of :: "env \<Rightarrow> token_response \<Rightarrow> token_payload" where
  "payload_of en tok = \<lparr>tk_access = tr_access tok, tk_refresh = tr_refresh tok, tk_type = tr_type tok,
     tk_expiry = tokenExpiry (en_now en) (tr_expires_in tok)\<rparr>"

definition new_handoff ::
    "world \<Rightarrow> server \<Rightarrow> env \<Rightarrow> string \<Rightarrow> instant oauth_state \<Rightarrow> token_response \<Rightarrow> string \<Rightarrow> string \<Rightarrow> instant handoff_record" where
  "new_handoff w sv en p st tok code payload =
     \<lparr>ho_hash = hashHandoffCode w code, ho_provider = p, ho_state = os_id st, ho_session = os_session st,
      ho_challenge = os_handoff_challenge st, ho_payload = payload, ho_account = '''',
      ho_scopes = (if tr_scope tok \<noteq> '''' then splitProviderScopes p (tr_scope tok) else os_scopes st),
      ho_expires = en_now en + bc_handoff_ttl (sv_config sv), ho_used = None\<rparr>"

text \<open>From the tokens of the provider to a handoff code: seal, store and build the link back.\<close>

definition mint_handoff ::
    "world \<Rightarrow> server \<Rightarrow> env \<Rightarrow> string \<Rightarrow> instant oauth_state \<Rightarrow> token_response \<Rightarrow> (page_error, string) op" where
  "mint_handoff w sv en p st tok = (case randomString en 32 of
      None \<Rightarrow> fail_after (IncCallback OutcomeHandoffMintFailed)
        (500, ''Broker could not create a handoff code. Return to shiet and retry.'')
    | Some code \<Rightarrow>
      (case encryptTokenPayload w en (providerClientSecret sv p) (handoffAAD (os_id st) (os_session st) (os_handoff_challenge st))
          (payload_of en tok) of
        None \<Rightarrow> fail_after (IncCallback OutcomeSealFailed)
          (500, ''Broker could not seal token material. Return to shiet and retry.'')
      | Some payload \<Rightarrow>
          op_bind (store_call (SaveHandoff (new_handoff w sv en p st tok code payload))) (\<lambda>r. case r of
            Inl _ \<Rightarrow> fail_after (IncCallback OutcomeHandoffPersistFail)
              (500, ''Broker could not persist the handoff. Return to shiet and retry.'')
          | Inr _ \<Rightarrow> (case buildHandoffURL w sv st code of
                None \<Rightarrow> fail_after (IncCallback OutcomeHandoffURLFailed)
                  (500, ''Broker could not build the desktop return link. Return to shiet and retry.'')
              | Some u \<Rightarrow> op_then (IncCallback OutcomeOK) (op_ret u)))))"

text \<open>The answer of a success is the link that the page sends the browser to.\<close>

definition oauthCallback ::
    "world \<Rightarrow> server \<Rightarrow> env \<Rightarrow> string \<Rightarrow> string \<Rightarrow> callback_query \<Rightarrow> (page_error, string) op" where
  "oauthCallback w sv en p bucket q =
     (let name = (case Lookup p of None \<Rightarrow> p | Some d \<Rightarrow> pr_name d) in
      op_bind has_store (\<lambda>store.
        if \<not> store then op_fail (503, ''Broker datastore unavailable. Return to shiet and retry.'')
        else if \<not> providerConfigured sv p then op_fail (503, name @ '' OAuth is not configured on this broker.'')
        else if bc_auth_disabled (sv_config sv)
        then fail_after (IncKillSwitch SurfaceCallback)
          (403, name @ '' connect is temporarily disabled. Return to shiet and try again later.'')
        else limited en (Key LimitKeyCallback bucket) limitCallback (IncRateLimited SurfaceCallback)
            (429, ''Too many authorization attempts. Return to shiet and try again later.'')
          (if trim_space (cq_error q) \<noteq> '''' then
             (let desc = trim_space (cq_description q);
                  msg = (if desc = '''' then name @ '' authorization failed.'' else name @ '' authorization failed: '' @ desc)
              in fail_after (IncCallback (if p = ProviderGoogle then OutcomeGoogleError else OutcomeProviderError))
                   (400, msg @ '' Return to shiet and retry.''))
           else
             let code = trim_space (cq_code q); state = trim_space (cq_state q) in
             if code = '''' \<or> state = '''' then
               fail_after (IncCallback OutcomeMissingParams) (400, ''Missing OAuth code or state. Return to shiet and retry.'')
             else op_bind (store_call (ConsumeOAuthState state p (en_now en))) (\<lambda>r. case r of
               Inl e \<Rightarrow> refused_state name e
             | Inr st \<Rightarrow> (case exchangeProviderCode w sv (en_now en) p code (os_verifier st) of
                 Inl _ \<Rightarrow> fail_after (IncCallback OutcomeTokenExchangeFail)
                   (502, ''Broker could not exchange the '' @ name @ '' authorization code. Return to shiet and retry.'')
               | Inr tok \<Rightarrow> mint_handoff w sv en p st tok)))))"


section \<open>Redeeming a handoff code\<close>

definition handoff_refusal :: "store_error \<Rightarrow> string \<times> string" where
  "handoff_refusal e = (case e of
      StoreAlreadyUsed \<Rightarrow> (OutcomeAlreadyUsed, HandoffAlreadyUsed)
    | StoreExpired \<Rightarrow> (OutcomeExpired, HandoffExpired)
    | StoreNotFound \<Rightarrow> (OutcomeNotFound, HandoffNotFound)
    | StoreMismatch \<Rightarrow> (OutcomeStateMismatch, HandoffStateMismatch)
    | StoreFailure \<Rightarrow> (OutcomeConsumeFailed, HandoffConsumeFailed))"

definition refusal_risk :: "store_error \<Rightarrow> (string, unit) op" where
  "refusal_risk e = (case e of StoreAlreadyUsed \<Rightarrow> IncQuotaRisk QuotaHandoffReplay
     | StoreMismatch \<Rightarrow> IncQuotaRisk QuotaHandoffMismatch | _ \<Rightarrow> op_ret ())"

definition bearer_type :: "string \<Rightarrow> string" where
  "bearer_type t = (if t = '''' then ''Bearer'' else t)"

definition opened_handoff ::
    "world \<Rightarrow> server \<Rightarrow> string \<Rightarrow> instant handoff_record \<Rightarrow> token_material option" where
  "opened_handoff w sv p r = map_option
     (\<lambda>t. \<lparr>tm_access = tk_access t, tm_refresh = tk_refresh t, tm_type = bearer_type (tk_type t), tm_expiry = tk_expiry t\<rparr>)
     (decryptTokenPayload w (providerClientSecret sv p) (handoffAAD (ho_state r) (ho_session r) (ho_challenge r)) (ho_payload r))"

text \<open>Attempts that fail are limited by address, session and code, and by version where one is named.\<close>

definition refused_handoff :: "env \<Rightarrow> string \<Rightarrow> string \<Rightarrow> store_error \<Rightarrow> (string, 'a) op" where
  "refused_handoff en dimension version e = (case handoff_refusal e of (reason, code) \<Rightarrow>
     op_then (refusal_risk e) (op_then (IncHandoffFailure reason)
       (op_bind (allow en (Key LimitKeyHandoffFail dimension) limitHandoffFailure) (\<lambda>ok.
        op_bind (if version = '''' then op_ret ok
            else op_bind (allow en (Key LimitKeyHandoffFail (dimension @ ''|'' @ version)) limitHandoffFailure) (\<lambda>v. op_ret (v \<and> ok)))
          (\<lambda>ok. if ok then op_fail code else fail_after (IncRateLimited SurfaceHandoffFailure) RateLimited)))))"

definition redeemed_handoff ::
    "world \<Rightarrow> server \<Rightarrow> handoff_request \<Rightarrow> string \<Rightarrow> instant handoff_record \<Rightarrow> (string, handoff_response) op" where
  "redeemed_handoff w sv req p rec = (case opened_handoff w sv p rec of
       None \<Rightarrow> fail_after (IncHandoffFailure OutcomePayloadInvalid) HandoffPayloadInvalid
     | Some t \<Rightarrow> op_then IncHandoffOK (op_ret
         \<lparr>hp_provider = xq_provider req, hp_account = ho_account rec, hp_scopes = ho_scopes rec, hp_token = t\<rparr>))"

definition exchangeHandoff ::
    "world \<Rightarrow> server \<Rightarrow> env \<Rightarrow> string \<Rightarrow> handoff_request \<Rightarrow> (string, handoff_response) op" where
  "exchangeHandoff w sv en bucket req = (case providerName (xq_provider req) of
      None \<Rightarrow> op_fail ProviderNotConfigured
    | Some p \<Rightarrow>
      if \<not> providerConfigured sv p then op_fail ProviderNotConfigured
      else op_bind has_store (\<lambda>store.
        if \<not> store then op_fail DatastoreUnavailable
        else if bc_auth_disabled (sv_config sv) then fail_after (IncKillSwitch SurfaceHandoff) AuthDisabled
        else limited en (Key LimitKeyHandoff bucket) limitHandoff (IncRateLimited SurfaceHandoff) RateLimited
          (let session = trim_space (xq_session req); state = trim_space (xq_state req);
               code = trim_space (xq_code req); verifier = trim_space (xq_verifier req); version = app_version (xq_app req);
               h = hashHandoffCode w code; dimension = bucket @ ''|'' @ session @ ''|'' @ h
           in if session = '''' \<or> state = '''' \<or> code = '''' \<or> verifier = '''' then op_fail HandoffFieldsRequired
              else op_bind (store_call (ConsumeHandoff h p session state (pkceS256 w verifier) (en_now en))) (\<lambda>r. case r of
                Inl e \<Rightarrow> refused_handoff en dimension version e
              | Inr rec \<Rightarrow> redeemed_handoff w sv req p rec))))"


section \<open>Refreshing and revoking\<close>

definition refresh_form :: "server \<Rightarrow> provider_enum \<Rightarrow> string \<Rightarrow> string list \<Rightarrow> credentials \<Rightarrow> (string \<times> string) list" where
  "refresh_form sv p token scopes creds =
     [(''grant_type'', ''refresh_token''), (''refresh_token'', token)] @
     (if p = Google then
        [(''client_id'', bc_google_id (sv_config sv)), (''client_secret'', bc_google_secret (sv_config sv))] @
        (if scopes \<noteq> [] then [(''scope'', join_with '' '' scopes)] else [])
      else [(''client_id'', cr_id creds), (''client_secret'', cr_secret creds)])"

definition invalid_grant :: "token_error \<Rightarrow> bool" where
  "invalid_grant e \<longleftrightarrow> (case e of TokenError code _ \<Rightarrow> code = GoogleInvalidGrant | TokenFailed \<Rightarrow> False)"

definition refreshToken ::
    "world \<Rightarrow> server \<Rightarrow> env \<Rightarrow> string \<Rightarrow> refresh_request \<Rightarrow> (string, token_material) op" where
  "refreshToken w sv en bucket req =
     (if fq_provider req = GitHub \<or> fq_provider req = Slack then op_fail OperationNotSupported
      else case Option.bind (providerName (fq_provider req)) (\<lambda>p. map_option (Pair p) (providerCredentials sv p)) of
        None \<Rightarrow> op_fail ProviderNotConfigured
      | Some (p, creds) \<Rightarrow>
          if bc_refresh_disabled (sv_config sv) then fail_after (IncKillSwitch SurfaceRefresh) RefreshDisabled
          else limited en (Key LimitKeyRefresh bucket) limitRefresh (IncRateLimited SurfaceRefresh) RateLimited
            (let token = trim_space (fq_token req); version = app_version (fq_app req) in
             if token = '''' then op_fail RefreshTokenRequired
             else if app_version_disabled (sv_config sv) version
             then fail_after (IncKillSwitch (SurfaceRefresh @ KillSwitchVersionSuffix)) AppVersionDisabled
             else let form = refresh_form sv (fq_provider req) token (fq_scopes req) creds in
               case (if fq_provider req = Google then postGoogleToken w sv form else postProviderToken w sv p form) of
                 Inl e \<Rightarrow> limited en (Key LimitKeyRefreshFail bucket) limitRefreshFailure (IncRateLimited SurfaceRefreshFailure) RateLimited
                   (if invalid_grant e then
                      op_then (IncRefreshFailure OutcomeInvalidGrant) (fail_after (IncQuotaRisk QuotaInvalidGrant) InvalidRefreshToken)
                    else fail_after (IncRefreshFailure OutcomeGoogleFailed)
                      (if fq_provider req = Bitbucket then InvalidRefreshToken else GoogleTokenRefreshFailed))
               | Inr t \<Rightarrow> op_then IncRefreshOK (op_ret \<lparr>tm_access = rt_access t, tm_refresh = rt_refresh t,
                   tm_type = bearer_type (rt_type t), tm_expiry = en_now en + seconds_of (rt_expires_in t)\<rparr>)))"

text \<open>A token that is not Google's and not GitHub's is revoked at Slack.\<close>

definition revokeToken :: "world \<Rightarrow> server \<Rightarrow> env \<Rightarrow> string \<Rightarrow> revoke_request \<Rightarrow> (string, unit) op" where
  "revokeToken w sv en bucket req = (case providerName (vq_provider req) of
      None \<Rightarrow> op_fail ProviderNotConfigured
    | Some p \<Rightarrow>
      if \<not> providerConfigured sv p then op_fail ProviderNotConfigured
      else let dimension = (if p = ProviderGoogle then bucket else p @ ''|'' @ bucket);
               done = op_then IncRevokeOK (IncRevokeOutcome OutcomeOK)
        in limited en (Key LimitKeyRevoke dimension) limitRevoke (IncRateLimited SurfaceRevoke) RateLimited
          (if p = ProviderGoogle then
             (let token = trim_space (vq_refresh req) in
              if token = '''' \<or> vq_access req \<noteq> '''' then op_fail RefreshTokenRequired
              else case revokeGoogleToken w sv token of
                Revoked \<Rightarrow> done
              | AlreadyRevoked \<Rightarrow> op_then IncRevokeOK (IncRevokeOutcome OutcomeAlreadyRevoked)
              | RevokeFailed \<Rightarrow> fail_after (IncRevokeOutcome OutcomeGoogleFailed) GoogleRevokeFailed)
           else
             (let token = trim_space (vq_access req) in
              if token = '''' \<or> vq_refresh req \<noteq> '''' then op_fail AccessTokenRequired
              else if p = ProviderGitHub then
                (if revokeGitHubToken w sv token = Revoked then done
                 else fail_after (IncRevokeOutcome OutcomeGitHubFailed) GitHubRevokeFailed)
              else if revokeSlackToken w token = Revoked then done
              else fail_after (IncRevokeOutcome OutcomeSlackFailed) SlackRevokeFailed)))"


section \<open>errors.go\<close>

datatype connect_code = AlreadyExists | DeadlineExceeded | PermissionDenied | CodeNotFound | ResourceExhausted
  | FailedPrecondition | Unavailable | Unimplemented | InvalidArgument | Internal

definition connectCode :: "string \<Rightarrow> connect_code" where
  "connectCode c =
     (if c = HandoffAlreadyUsed then AlreadyExists
      else if c = HandoffExpired then DeadlineExceeded
      else if c \<in> set [HandoffStateMismatch, HandoffVerifierMismatch] then PermissionDenied
      else if c = HandoffNotFound then CodeNotFound
      else if c = RateLimited then ResourceExhausted
      else if c \<in> set [AuthDisabled, RefreshDisabled, AppVersionDisabled] then FailedPrecondition
      else if c \<in> set [ProviderNotConfigured, DatastoreUnavailable, StatePersistFailed, HandoffConsumeFailed,
          GoogleTokenRefreshFailed, GoogleRevokeFailed, GitHubRevokeFailed, SlackRevokeFailed] then Unavailable
      else if c = OperationNotSupported then Unimplemented
      else if c \<in> set [DesktopSessionAndHandoffChallengeRequired, InvalidDesktopHandoffRedirect, HandoffFieldsRequired,
          RefreshTokenRequired, AccessTokenRequired, InvalidRefreshToken] then InvalidArgument
      else Internal)"

end
