(* ===== verification/Broker_Store_Laws.thy ===== *)
theory Broker_Store_Laws
  imports Broker_Store
begin

text \<open>
  Laws of the broker's records (Broker_Store): the handoff table refines a vault of one-time codes,
  both tables follow the contract of one-time codes, and what purging deletes.
\<close>

section \<open>A vault of one-time codes\<close>

text \<open>
  What the handoff table promises: a code is bound to who may redeem it, until when, and what it is
  worth; it can be redeemed once, and a refused attempt changes nothing.
\<close>

datatype ('b, 'c) cell = Fresh 'b instant 'c | Spent

type_synonym ('b, 'c) vault = "string \<Rightarrow> ('b, 'c) cell option"

definition vault_put :: "string \<Rightarrow> 'b \<Rightarrow> instant \<Rightarrow> 'c \<Rightarrow> ('b, 'c) vault \<Rightarrow> (store_error + unit) \<times> ('b, 'c) vault" where
  "vault_put k b e c v = (if v k \<noteq> None then (Inl StoreFailure, v) else (Inr (), v(k \<mapsto> Fresh b e c)))"

definition vault_take :: "string \<Rightarrow> 'b \<Rightarrow> instant \<Rightarrow> ('b, 'c) vault \<Rightarrow> (store_error + 'c) \<times> ('b, 'c) vault" where
  "vault_take k b now v = (case v k of
      None \<Rightarrow> (Inl StoreNotFound, v)
    | Some Spent \<Rightarrow> (Inl StoreAlreadyUsed, v)
    | Some (Fresh b' e c) \<Rightarrow>
        if e \<le> now then (Inl StoreExpired, v)
        else if b' \<noteq> b then (Inl StoreMismatch, v)
        else (Inr c, v(k \<mapsto> Spent)))"

text \<open>The laws of one-time codes, as a client of a store sees them.\<close>

locale one_time_codes =
  fixes take :: "string \<Rightarrow> 'q \<Rightarrow> 's \<Rightarrow> (store_error + 'c) \<times> 's" and spent :: "string \<Rightarrow> 's \<Rightarrow> bool"
    and other :: "'s \<Rightarrow> 's \<Rightarrow> bool"
  assumes take_spends: "take k q s = (Inr c, t) \<Longrightarrow> \<not> spent k s \<and> spent k t"
    and take_refuses: "take k q s = (Inl e, t) \<Longrightarrow> t = s"
    and take_keeps: "take k q s = (r, t) \<Longrightarrow> spent j s \<Longrightarrow> spent j t"
    and other_keeps: "other s t \<Longrightarrow> spent j s \<Longrightarrow> spent j t"
begin

text \<open>Any sequence of redemptions and other calls of the store.\<close>

inductive calls :: "'s \<Rightarrow> (string \<times> (store_error + 'c)) list \<Rightarrow> 's \<Rightarrow> bool" where
  none: "calls s [] s"
| take: "calls s log t \<Longrightarrow> take k q t = (r, u) \<Longrightarrow> calls s (log @ [(k, r)]) u"
| other: "calls s log t \<Longrightarrow> other t u \<Longrightarrow> calls s log u"

lemma calls_keep_spent: "calls s log t \<Longrightarrow> spent k s \<Longrightarrow> spent k t"
  by (induction rule: calls.induct) (blast intro: take_keeps other_keeps)+

lemma redeemed_spent: "calls s log t \<Longrightarrow> (k, Inr c) \<in> set log \<Longrightarrow> spent k t"
  by (induction rule: calls.induct) (auto dest: take_spends take_keeps other_keeps)

lemma spent_refused: "spent k s \<Longrightarrow> take k q s = (r, t) \<Longrightarrow> \<exists>e. r = Inl e"
  using take_spends [of k q s _ t] by (cases r) auto

text \<open>However often a code is tried, and whatever else happens, it is redeemed at most once.\<close>

lemma redeemed_once: "calls s log t \<Longrightarrow> length (filter (\<lambda>(j, r). j = k \<and> \<not> isl r) log) \<le> 1"
proof (induction rule: calls.induct)
  case (take s log t j q r u)
  show ?case
  proof (cases "j = k \<and> \<not> isl r")
    case True
    then obtain c where "r = Inr c" by (cases r) auto
    then have "\<not> spent k t" using take_spends [of j q t c u] take.hyps(2) True by simp
    then have "\<not> (\<exists>c. (k, Inr c) \<in> set log)" using redeemed_spent [OF take.hyps(1)] by blast
    then have none: "\<not> (i = k \<and> \<not> isl x)" if "(i, x) \<in> set log" for i x using that by (cases x) auto
    have "filter (\<lambda>(i, r). i = k \<and> \<not> isl r) log = []" unfolding filter_empty_conv using none by blast
    then show ?thesis by simp
  next
    case False
    then show ?thesis using take.IH by auto
  qed
qed simp_all

end


section \<open>The handoff table as a vault\<close>

definition store_wf :: "broker_db \<Rightarrow> bool" where
  "store_wf d \<longleftrightarrow> distinct (map os_id (sd_states d)) \<and> distinct (map ho_hash (sd_handoffs d)) \<and>
     (\<forall>r \<in> set (sd_handoffs d). ho_used r \<noteq> None \<longrightarrow> ho_payload r = '''')"

type_synonym binding = "string \<times> string \<times> string \<times> string"
type_synonym sealed = "string \<times> string \<times> string list"

definition handoff_cell :: "string handoff_record \<Rightarrow> (binding, sealed) cell" where
  "handoff_cell r = (if ho_used r \<noteq> None then Spent
     else Fresh (providerOrGoogle (ho_provider r), ho_session r, ho_state r, ho_challenge r) (readTime (ho_expires r))
       (ho_payload r, ho_account r, ho_scopes r))"

definition vault_of :: "broker_db \<Rightarrow> (binding, sealed) vault" where
  "vault_of d h = map_option handoff_cell (find (\<lambda>r. ho_hash r = h) (sd_handoffs d))"

definition sealed_of :: "instant handoff_record \<Rightarrow> sealed" where
  "sealed_of r = (ho_payload r, ho_account r, ho_scopes r)"

definition state_spent :: "string \<Rightarrow> broker_db \<Rightarrow> bool" where
  "state_spent i d \<longleftrightarrow> (\<exists>r. find (\<lambda>r. os_id r = i) (sd_states d) = Some r \<and> os_used r \<noteq> None)"

definition handoff_spent :: "string \<Rightarrow> broker_db \<Rightarrow> bool" where
  "handoff_spent h d \<longleftrightarrow> (\<exists>r. find (\<lambda>r. ho_hash r = h) (sd_handoffs d) = Some r \<and> ho_used r \<noteq> None)"

lemma provider_google_idem [simp]: "providerOrGoogle (providerOrGoogle p) = providerOrGoogle p"
proof -
  have "trim_space ''google'' = ''google''" by code_simp
  then show ?thesis by (simp add: providerOrGoogle_def Let_def)
qed

text \<open>With distinct keys, the row that was read is the one row an update hits.\<close>

lemma filter_one:
  "distinct (map key xs) \<Longrightarrow> find (\<lambda>r. key r = k) xs = Some r \<Longrightarrow> P r \<Longrightarrow> length (filter (\<lambda>x. key x = k \<and> P x) xs) = 1"
proof (induction xs)
  case (Cons x xs)
  show ?case
  proof (cases "key x = k")
    case True
    then have "key y \<noteq> k" if "y \<in> set xs" for y using Cons.prems(1) imageI [OF that, of key] by auto
    then have "filter (\<lambda>x. key x = k \<and> P x) xs = []" by (auto simp: filter_empty_conv)
    then show ?thesis using Cons.prems True by simp
  qed (use Cons in simp)
qed simp

lemma find_snoc_row: "find P (xs @ [x]) = (case find P xs of None \<Rightarrow> if P x then Some x else None | Some y \<Rightarrow> Some y)"
  by (induction xs) auto

lemma find_none_iff: "find P xs = None \<longleftrightarrow> \<not> list_ex P xs"
  by (induction xs) auto

lemma find_update:
  "find (\<lambda>r. key r = j) (map (\<lambda>x. if key x = k \<and> P x then f x else x) xs) =
     map_option (\<lambda>x. if key x = k \<and> P x then f x else x) (find (\<lambda>r. key r = j) xs)"
  if "\<And>x. key (f x) = key x"
  using that by (induction xs) auto

lemma take_handoff:
  assumes "store_wf d"
  shows "vault_take h (providerOrGoogle p, session, state, challenge) now (vault_of d) =
    (map_sum id sealed_of (fst (ConsumeHandoff h p session state challenge now d)),
     vault_of (snd (ConsumeHandoff h p session state challenge now d)))"
proof (cases "find (\<lambda>r. ho_hash r = h) (sd_handoffs d)")
  case None
  then show ?thesis by (simp add: vault_take_def vault_of_def ConsumeHandoff_def selectHandoff_def)
next
  case (Some r)
  let ?hit = "\<lambda>x. ho_hash x = h \<and> ho_used x = None"
  let ?mark = "\<lambda>x. x\<lparr>ho_used := Some (formatTime now), ho_payload := ''''\<rparr> :: string handoff_record"
  have one: "length (filter ?hit (sd_handoffs d)) = 1" if "ho_used r = None"
    by (rule filter_one [OF _ Some]) (use assms that in \<open>simp_all add: store_wf_def\<close>)
  have mark: "vault_of (d\<lparr>sd_handoffs := map (\<lambda>x. if ?hit x then ?mark x else x) (sd_handoffs d)\<rparr>) = (vault_of d)(h \<mapsto> Spent)"
    if "ho_used r = None"
  proof
    fix j
    have upd: "find (\<lambda>r. ho_hash r = j) (map (\<lambda>x. if ?hit x then ?mark x else x) (sd_handoffs d)) =
        map_option (\<lambda>x. if ?hit x then ?mark x else x) (find (\<lambda>r. ho_hash r = j) (sd_handoffs d))"
      by (rule find_update) simp
    show "vault_of (d\<lparr>sd_handoffs := map (\<lambda>x. if ?hit x then ?mark x else x) (sd_handoffs d)\<rparr>) j = ((vault_of d)(h \<mapsto> Spent)) j"
    proof (cases "j = h")
      case True
      have "ho_hash r = h" using Some by (auto simp: find_Some_iff)
      then show ?thesis using upd Some that True by (simp add: vault_of_def handoff_cell_def)
    next
      case False
      have "ho_hash x = j" if "find (\<lambda>r. ho_hash r = j) (sd_handoffs d) = Some x" for x
        using that by (auto simp: find_Some_iff)
      then have "map_option (\<lambda>x. if ?hit x then ?mark x else x) (find (\<lambda>r. ho_hash r = j) (sd_handoffs d)) =
          find (\<lambda>r. ho_hash r = j) (sd_handoffs d)"
        using False by (cases "find (\<lambda>r. ho_hash r = j) (sd_handoffs d)") auto
      then show ?thesis using upd False by (simp add: vault_of_def)
    qed
  qed
  have v: "vault_of d h = Some (handoff_cell r)" using Some by (simp add: vault_of_def)
  define d' where "d' = d\<lparr>sd_handoffs := map (\<lambda>x. if ?hit x then ?mark x else x) (sd_handoffs d)\<rparr>"
  show ?thesis
  proof (cases "ho_used r")
    case None
    have m: "vault_of d' = (vault_of d)(h \<mapsto> Spent)" unfolding d'_def by (rule mark [OF None])
    have sel: "selectHandoff h d = Some \<lparr>ho_hash = ho_hash r, ho_provider = ho_provider r, ho_state = ho_state r,
        ho_session = ho_session r, ho_challenge = ho_challenge r, ho_payload = ho_payload r, ho_account = ho_account r,
        ho_scopes = ho_scopes r, ho_expires = readTime (ho_expires r), ho_used = None\<rparr>"
      by (simp add: selectHandoff_def Some None)
    have c: "ConsumeHandoff h p session state challenge now d =
      (if readTime (ho_expires r) \<le> now then (Inl StoreExpired, d)
       else if (providerOrGoogle (ho_provider r), ho_session r, ho_state r, ho_challenge r) \<noteq>
           (providerOrGoogle p, session, state, challenge) then (Inl StoreMismatch, d)
       else (Inr \<lparr>ho_hash = ho_hash r, ho_provider = ho_provider r, ho_state = ho_state r,
        ho_session = ho_session r, ho_challenge = ho_challenge r, ho_payload = ho_payload r, ho_account = ho_account r,
        ho_scopes = ho_scopes r, ho_expires = readTime (ho_expires r), ho_used = Some now\<rparr>, d'))"
      unfolding ConsumeHandoff_def sel d'_def Let_def option.case one [OF None] by (simp add: not_less)
    show ?thesis unfolding c vault_take_def v handoff_cell_def option.case
      using None by (simp add: m sealed_of_def)
  qed (use v in \<open>simp add: vault_take_def handoff_cell_def ConsumeHandoff_def selectHandoff_def Some\<close>)
qed

lemma put_handoff:
  assumes "printable (ho_expires r)" "sd_foreign_keys d \<longrightarrow> list_ex (\<lambda>x. os_id x = ho_state r) (sd_states d)"
  shows "vault_put (ho_hash r) (providerOrGoogle (ho_provider r), ho_session r, ho_state r, ho_challenge r) (ho_expires r)
      (sealed_of r) (vault_of d) = (fst (SaveHandoff r d), vault_of (snd (SaveHandoff r d)))"
proof -
  have "vault_of (d\<lparr>sd_handoffs := sd_handoffs d @ [handoff_row r]\<rparr>) = (vault_of d)(ho_hash r \<mapsto> handoff_cell (handoff_row r))"
    if "\<not> list_ex (\<lambda>x. ho_hash x = ho_hash r) (sd_handoffs d)"
  proof
    fix j
    have "find (\<lambda>x. ho_hash x = ho_hash r) (sd_handoffs d) = None" using that by (simp add: find_none_iff)
    then show "vault_of (d\<lparr>sd_handoffs := sd_handoffs d @ [handoff_row r]\<rparr>) j = ((vault_of d)(ho_hash r \<mapsto> handoff_cell (handoff_row r))) j"
      by (cases "j = ho_hash r") (auto simp: vault_of_def find_snoc_row handoff_row_def split: option.splits)
  qed
  moreover have "handoff_cell (handoff_row r) =
      Fresh (providerOrGoogle (ho_provider r), ho_session r, ho_state r, ho_challenge r) (ho_expires r) (sealed_of r)"
    using assms(1) by (simp add: handoff_cell_def handoff_row_def sealed_of_def)
  ultimately show ?thesis using assms(2)
    by (auto simp: vault_put_def SaveHandoff_def vault_of_def find_none_iff)
qed

lemma handoff_spent_vault: "handoff_spent h d \<longleftrightarrow> vault_of d h = Some Spent"
  by (auto simp: handoff_spent_def vault_of_def handoff_cell_def)


section \<open>Both tables hold one-time codes\<close>

text \<open>The calls of the store's interface.\<close>

inductive store_step :: "broker_db \<Rightarrow> broker_db \<Rightarrow> bool" where
  save_state: "SaveOAuthState r d = (x, d') \<Longrightarrow> store_step d d'"
| consume_state: "ConsumeOAuthState i p now d = (y, d') \<Longrightarrow> store_step d d'"
| save_handoff: "SaveHandoff h d = (x, d') \<Longrightarrow> store_step d d'"
| consume_handoff: "ConsumeHandoff k p session state challenge now d = (z, d') \<Longrightarrow> store_step d d'"

lemma consume_state_Inr:
  assumes "ConsumeOAuthState i p now d = (Inr r, d')"
  shows "\<exists>row. find (\<lambda>r. os_id r = i) (sd_states d) = Some row \<and> os_used row = None \<and> now < readTime (os_expires row) \<and>
      providerOrGoogle (os_provider row) = providerOrGoogle p \<and> os_id r = i \<and> os_provider r = os_provider row \<and>
      os_session r = os_session row \<and> os_verifier r = os_verifier row \<and> os_handoff_challenge r = os_handoff_challenge row \<and>
      os_redirect r = os_redirect row \<and> os_scopes r = os_scopes row"
    "d' = d\<lparr>sd_states := map (\<lambda>x. if os_id x = i \<and> os_used x = None then x\<lparr>os_used := Some (formatTime now)\<rparr> else x) (sd_states d)\<rparr>"
proof -
  obtain rec where sel: "selectOAuthState i d = Some rec" "os_used rec = None" "now < os_expires rec"
      "providerOrGoogle (os_provider rec) = providerOrGoogle p" and r: "r = rec\<lparr>os_used := Some now\<rparr>"
    and d': "d' = d\<lparr>sd_states := map (\<lambda>x. if os_id x = i \<and> os_used x = None then x\<lparr>os_used := Some (formatTime now)\<rparr> else x) (sd_states d)\<rparr>"
    using assms by (auto simp: ConsumeOAuthState_def Let_def split: option.splits if_splits)
  show "d' = d\<lparr>sd_states := map (\<lambda>x. if os_id x = i \<and> os_used x = None then x\<lparr>os_used := Some (formatTime now)\<rparr> else x) (sd_states d)\<rparr>"
    by (rule d')
  obtain row where row: "find (\<lambda>r. os_id r = i) (sd_states d) = Some row" using sel(1) by (auto simp: selectOAuthState_def)
  then have "os_id row = i" by (auto simp: find_Some_iff)
  then show "\<exists>row. find (\<lambda>r. os_id r = i) (sd_states d) = Some row \<and> os_used row = None \<and> now < readTime (os_expires row) \<and>
      providerOrGoogle (os_provider row) = providerOrGoogle p \<and> os_id r = i \<and> os_provider r = os_provider row \<and>
      os_session r = os_session row \<and> os_verifier r = os_verifier row \<and> os_handoff_challenge r = os_handoff_challenge row \<and>
      os_redirect r = os_redirect row \<and> os_scopes r = os_scopes row"
    using sel row r by (auto simp: selectOAuthState_def)
qed

lemma consume_handoff_Inr:
  assumes "ConsumeHandoff h p session state challenge now d = (Inr r, d')"
  shows "\<exists>row. find (\<lambda>r. ho_hash r = h) (sd_handoffs d) = Some row \<and> ho_used row = None \<and> now < readTime (ho_expires row) \<and>
      providerOrGoogle (ho_provider row) = providerOrGoogle p \<and> ho_session row = session \<and> ho_state row = state \<and>
      ho_challenge row = challenge \<and> ho_state r = state \<and> ho_session r = session \<and> ho_challenge r = challenge \<and>
      ho_payload r = ho_payload row \<and> ho_account r = ho_account row \<and> ho_scopes r = ho_scopes row"
    "d' = d\<lparr>sd_handoffs := map (\<lambda>x. if ho_hash x = h \<and> ho_used x = None
       then x\<lparr>ho_used := Some (formatTime now), ho_payload := ''''\<rparr> else x) (sd_handoffs d)\<rparr>"
proof -
  obtain rec where sel: "selectHandoff h d = Some rec" "ho_used rec = None" "now < ho_expires rec"
      "providerOrGoogle (ho_provider rec) = providerOrGoogle p" "ho_session rec = session" "ho_state rec = state" "ho_challenge rec = challenge"
    and r: "r = rec\<lparr>ho_used := Some now\<rparr>"
    and d': "d' = d\<lparr>sd_handoffs := map (\<lambda>x. if ho_hash x = h \<and> ho_used x = None
       then x\<lparr>ho_used := Some (formatTime now), ho_payload := ''''\<rparr> else x) (sd_handoffs d)\<rparr>"
    using assms by (auto simp: ConsumeHandoff_def Let_def split: option.splits if_splits)
  show "d' = d\<lparr>sd_handoffs := map (\<lambda>x. if ho_hash x = h \<and> ho_used x = None
       then x\<lparr>ho_used := Some (formatTime now), ho_payload := ''''\<rparr> else x) (sd_handoffs d)\<rparr>"
    by (rule d')
  show "\<exists>row. find (\<lambda>r. ho_hash r = h) (sd_handoffs d) = Some row \<and> ho_used row = None \<and> now < readTime (ho_expires row) \<and>
      providerOrGoogle (ho_provider row) = providerOrGoogle p \<and> ho_session row = session \<and> ho_state row = state \<and>
      ho_challenge row = challenge \<and> ho_state r = state \<and> ho_session r = session \<and> ho_challenge r = challenge \<and>
      ho_payload r = ho_payload row \<and> ho_account r = ho_account row \<and> ho_scopes r = ho_scopes row"
    using sel r by (auto simp: selectHandoff_def)
qed

lemma consume_Inl:
  "ConsumeOAuthState i p now d = (Inl e, d') \<Longrightarrow> d' = d"
  "ConsumeHandoff h p session state challenge now d = (Inl e, d') \<Longrightarrow> d' = d"
  by (auto simp: ConsumeOAuthState_def ConsumeHandoff_def Let_def split: option.splits if_splits)

lemma spent_state_marked:
  "state_spent j (d\<lparr>sd_states := map (\<lambda>x. if os_id x = i \<and> os_used x = None then x\<lparr>os_used := Some t\<rparr> else x) (sd_states d)\<rparr>) \<longleftrightarrow>
     state_spent j d \<or> (j = i \<and> find (\<lambda>r. os_id r = i) (sd_states d) \<noteq> None)"
proof -
  have "find (\<lambda>r. os_id r = j) (map (\<lambda>x. if os_id x = i \<and> os_used x = None then x\<lparr>os_used := Some t\<rparr> else x) xs) =
      map_option (\<lambda>x. if os_id x = i \<and> os_used x = None then x\<lparr>os_used := Some t\<rparr> else x) (find (\<lambda>r. os_id r = j) xs)"
    for xs :: "string oauth_state list"
    by (rule find_update) simp
  note upd = this [of "sd_states d"]
  show ?thesis
  proof (cases "find (\<lambda>r. os_id r = j) (sd_states d)")
    case (Some x)
    then have "os_id x = j" by (auto simp: find_Some_iff)
    then show ?thesis using Some by (auto simp: state_spent_def upd)
  qed (auto simp: state_spent_def upd)
qed

lemma spent_handoff_marked:
  "handoff_spent j (d\<lparr>sd_handoffs := map (\<lambda>x. if ho_hash x = h \<and> ho_used x = None
      then x\<lparr>ho_used := Some t, ho_payload := ''''\<rparr> else x) (sd_handoffs d)\<rparr>) \<longleftrightarrow>
     handoff_spent j d \<or> (j = h \<and> find (\<lambda>r. ho_hash r = h) (sd_handoffs d) \<noteq> None)"
proof -
  have "find (\<lambda>r. ho_hash r = j) (map (\<lambda>x. if ho_hash x = h \<and> ho_used x = None then x\<lparr>ho_used := Some t, ho_payload := ''''\<rparr> else x) xs) =
      map_option (\<lambda>x. if ho_hash x = h \<and> ho_used x = None then x\<lparr>ho_used := Some t, ho_payload := ''''\<rparr> else x) (find (\<lambda>r. ho_hash r = j) xs)"
    for xs :: "string handoff_record list"
    by (rule find_update) simp
  note upd = this [of "sd_handoffs d"]
  show ?thesis
  proof (cases "find (\<lambda>r. ho_hash r = j) (sd_handoffs d)")
    case (Some x)
    then have "ho_hash x = j" by (auto simp: find_Some_iff)
    then show ?thesis using Some by (auto simp: handoff_spent_def upd)
  qed (auto simp: handoff_spent_def upd)
qed

lemma store_step_keeps:
  assumes "store_step d d'"
  shows "state_spent j d \<Longrightarrow> state_spent j d'" "handoff_spent j d \<Longrightarrow> handoff_spent j d'"
    "store_wf d \<Longrightarrow> store_wf d'" "sd_foreign_keys d' = sd_foreign_keys d"
proof -
  have "(state_spent j d \<longrightarrow> state_spent j d') \<and> (handoff_spent j d \<longrightarrow> handoff_spent j d') \<and> (store_wf d \<longrightarrow> store_wf d') \<and>
      sd_foreign_keys d' = sd_foreign_keys d"
    using assms
  proof (cases rule: store_step.cases)
    case (save_state r x)
    then show ?thesis
      by (auto simp: SaveOAuthState_def state_spent_def handoff_spent_def store_wf_def find_snoc_row list_ex_iff state_row_def
          split: if_splits option.splits) blast
  next
    case (consume_state i p now y)
    show ?thesis
    proof (cases y)
      case (Inr r)
      have "state_spent j d'" if "state_spent j d" unfolding consume_state_Inr(2) [OF consume_state [unfolded Inr]] spent_state_marked using that by simp
      moreover have "store_wf d'" if "store_wf d"
      proof -
        have "map os_id (map (\<lambda>x. if os_id x = i \<and> os_used x = None then x\<lparr>os_used := Some (formatTime now)\<rparr> else x) xs) = map os_id xs" for xs :: "string oauth_state list"
          by (induction xs) auto
        then show ?thesis using that unfolding consume_state_Inr(2) [OF consume_state [unfolded Inr]] store_wf_def by (simp del: map_map)
      qed
      moreover have "sd_handoffs d' = sd_handoffs d" "sd_foreign_keys d' = sd_foreign_keys d"
        by (simp_all add: consume_state_Inr(2) [OF consume_state [unfolded Inr]])
      ultimately show ?thesis by (simp add: handoff_spent_def)
    qed (use consume_state consume_Inl(1) in blast)
  next
    case (save_handoff h x)
    then show ?thesis
      by (auto simp: SaveHandoff_def state_spent_def handoff_spent_def store_wf_def find_snoc_row list_ex_iff handoff_row_def
          split: if_splits option.splits) blast+
  next
    case (consume_handoff k p session state challenge now z)
    show ?thesis
    proof (cases z)
      case (Inr r)
      note d' = consume_handoff_Inr(2) [OF consume_handoff [unfolded Inr]]
      have "handoff_spent j d'" if "handoff_spent j d" unfolding d' spent_handoff_marked using that by simp
      moreover have "store_wf d'" if "store_wf d"
      proof -
        have "map ho_hash (map (\<lambda>x. if ho_hash x = k \<and> ho_used x = None
            then x\<lparr>ho_used := Some (formatTime now), ho_payload := ''''\<rparr> else x) xs) = map ho_hash xs" for xs :: "string handoff_record list"
          by (induction xs) auto
        then show ?thesis using that unfolding d' store_wf_def by (auto simp del: map_map)
      qed
      moreover have "sd_states d' = sd_states d" "sd_foreign_keys d' = sd_foreign_keys d" by (simp_all add: d')
      ultimately show ?thesis by (simp add: state_spent_def)
    qed (use consume_handoff consume_Inl(2) in blast)
  qed
  then show "state_spent j d \<Longrightarrow> state_spent j d'" "handoff_spent j d \<Longrightarrow> handoff_spent j d'"
    "store_wf d \<Longrightarrow> store_wf d'" "sd_foreign_keys d' = sd_foreign_keys d" by blast+
qed

interpretation state_codes: one_time_codes "\<lambda>i (p, now). ConsumeOAuthState i p now" state_spent store_step
proof
  show "\<not> state_spent i d \<and> state_spent i d'" if "(case q of (p, now) \<Rightarrow> ConsumeOAuthState i p now) d = (Inr r, d')" for i q d r d'
  proof -
    obtain p now where c: "ConsumeOAuthState i p now d = (Inr r, d')" using \<open>_ = (Inr r, d')\<close> by (cases q) simp
    obtain row where row: "find (\<lambda>r. os_id r = i) (sd_states d) = Some row" "os_used row = None" using consume_state_Inr(1) [OF c] by blast
    then show ?thesis unfolding consume_state_Inr(2) [OF c] spent_state_marked by (simp add: state_spent_def)
  qed
qed (auto dest: consume_Inl(1) store_step_keeps(1) intro: store_step_keeps(1) store_step.consume_state)

interpretation handoff_codes: one_time_codes
  "\<lambda>h (p, session, state, challenge, now). ConsumeHandoff h p session state challenge now" handoff_spent store_step
proof
  show "\<not> handoff_spent h d \<and> handoff_spent h d'"
    if "(case q of (p, session, state, challenge, now) \<Rightarrow> ConsumeHandoff h p session state challenge now) d = (Inr r, d')" for h q d r d'
  proof -
    obtain p session state challenge now where c: "ConsumeHandoff h p session state challenge now d = (Inr r, d')"
      using \<open>_ = (Inr r, d')\<close> by (cases q) simp
    obtain row where row: "find (\<lambda>r. ho_hash r = h) (sd_handoffs d) = Some row" "ho_used row = None"
      using consume_handoff_Inr(1) [OF c] by blast
    then show ?thesis unfolding consume_handoff_Inr(2) [OF c] spent_handoff_marked by (simp add: handoff_spent_def)
  qed
qed (auto dest: consume_Inl(2) store_step_keeps(2) intro: store_step_keeps(2) store_step.consume_handoff)


section \<open>Purging\<close>

text \<open>
  A text with a fraction sorts before the text of its whole second, because the dot sorts before Z.
\<close>

lemma append_le_iff: "w @ x \<le> w @ y \<longleftrightarrow> x \<le> (y :: string)"
  by (induction w) auto

lemma text_order:
  assumes "0 < ns" "ns < second"
  shows "formatTime (k * second + ns) \<le> formatTime (k * second)"
proof -
  have whole: "unix_seconds (k * second + ns) = k" "(k * second + ns) mod second = ns" "k * second mod second = 0"
    using assms by (simp_all add: unix_seconds_def)
  then have "format_rfc3339 (k * second + ns) = format_rfc3339 (k * second)" by (simp add: format_rfc3339_def)
  then show ?thesis using assms by (simp add: formatTime_def whole append_le_iff)
qed

text \<open>So a state that expires within the second is purged before it has expired.\<close>

lemma purged_early:
  assumes "os_expires r = formatTime (k * second + ns)" "0 < ns" "ns < second" "\<not> sd_foreign_keys d" "r \<in> set (sd_states d)"
  shows "r \<notin> set (sd_states (snd (PurgeExpired (k * second) d)))"
  using text_order [OF assms(2,3)] assms by (simp add: PurgeExpired_def Let_def)

end
