(* ===== verification/Broker_Laws.thy ===== *)
theory Broker_Laws
  imports Broker_Operations Broker_Store_Laws
begin

text \<open>
  Laws of the broker's operations (Broker_Operations): every operation leaves the store as a
  sequence of calls of the store does, what a successful callback and a successful redemption did,
  and the way of a token from the provider through the handoff table to the desktop program.
\<close>


section \<open>Operations act on the store by its calls\<close>

definition store_ext :: "broker \<Rightarrow> broker \<Rightarrow> bool" where
  "store_ext s t \<longleftrightarrow> rel_option store_step\<^sup>*\<^sup>* (br_store s) (br_store t)"

definition keeps_store :: "('e, 'a) op \<Rightarrow> bool" where
  "keeps_store m \<longleftrightarrow> (\<forall>s. store_ext s (snd (m s)))"

named_theorems keeps

lemma store_ext_refl [simp]: "store_ext s s" "br_store t = br_store s \<Longrightarrow> store_ext s t"
  by (simp_all add: store_ext_def option.rel_refl_strong)

lemma store_ext_trans: "store_ext s t \<Longrightarrow> store_ext t u \<Longrightarrow> store_ext s u"
  by (auto simp: store_ext_def elim!: option.rel_cases)

lemma keeps_basic [keeps]: "keeps_store (op_ret x)" "keeps_store (op_fail e)" "keeps_store has_store"
  "keeps_store (inc name label)" "keeps_store (allow en key limit)"
  by (auto simp: keeps_store_def op_ret_def op_fail_def has_store_def inc_def allow_def split: option.splits prod.splits)

lemma keeps_bind [keeps]: "keeps_store m \<Longrightarrow> (\<And>x. keeps_store (k x)) \<Longrightarrow> keeps_store (op_bind m k)"
  unfolding keeps_store_def op_bind_def
  by (auto split: prod.splits sum.splits intro: store_ext_trans)

lemma keeps_store_call [keeps]: "(\<And>d. store_step\<^sup>*\<^sup>* d (snd (f d))) \<Longrightarrow> keeps_store (store_call f)"
  by (auto simp: keeps_store_def store_call_def store_ext_def split: option.splits prod.splits) (metis snd_conv)

lemma keeps_then [keeps]: "keeps_store m \<Longrightarrow> keeps_store n \<Longrightarrow> keeps_store (op_then m n)"
  "keeps_store m' \<Longrightarrow> keeps_store (fail_after m' e)"
  unfolding op_then_def fail_after_def by (intro keeps; assumption)+

lemma keeps_limited [keeps]: "keeps_store m \<Longrightarrow> keeps_store n \<Longrightarrow> keeps_store (limited en key limit m e n)"
  unfolding limited_def by (intro keeps) (simp_all add: keeps)

lemma keeps_inc [keeps]: "keeps_store IncAuthStart" "keeps_store IncAuthStartFail" "keeps_store IncHandoffOK"
  "keeps_store IncRefreshOK" "keeps_store IncRevokeOK" "keeps_store (IncCallback r)" "keeps_store (IncHandoffFailure r)"
  "keeps_store (IncRefreshFailure r)" "keeps_store (IncRevokeOutcome r)" "keeps_store (IncRateLimited r)"
  "keeps_store (IncKillSwitch r)" "keeps_store (IncQuotaRisk r)"
  by (simp_all add: IncAuthStart_def IncAuthStartFail_def IncHandoffOK_def IncRefreshOK_def IncRevokeOK_def IncCallback_def
      IncHandoffFailure_def IncRefreshFailure_def IncRevokeOutcome_def IncRateLimited_def IncKillSwitch_def IncQuotaRisk_def incLabeled_def keeps)

lemma keeps_case [keeps]:
  "keeps_store m \<Longrightarrow> (\<And>x. keeps_store (k x)) \<Longrightarrow> keeps_store (case v of None \<Rightarrow> m | Some x \<Rightarrow> k x)"
  "(\<And>x. keeps_store (f x)) \<Longrightarrow> (\<And>y. keeps_store (g y)) \<Longrightarrow> keeps_store (case r of Inl x \<Rightarrow> f x | Inr y \<Rightarrow> g y)"
  "(\<And>x y. keeps_store (h x y)) \<Longrightarrow> keeps_store (case q of (x, y) \<Rightarrow> h x y)"
  "keeps_store m \<Longrightarrow> keeps_store n \<Longrightarrow> keeps_store (if b then m else n)"
  "keeps_store m \<Longrightarrow> keeps_store n \<Longrightarrow> keeps_store n' \<Longrightarrow>
     keeps_store (case v' of Revoked \<Rightarrow> m | AlreadyRevoked \<Rightarrow> n | RevokeFailed \<Rightarrow> n')"
  by (auto split: option.splits sum.splits prod.splits revocation.splits)

lemma store_calls [keeps]: "store_step\<^sup>*\<^sup>* d (snd (SaveOAuthState r d))" "store_step\<^sup>*\<^sup>* d (snd (ConsumeOAuthState i p now d))"
  "store_step\<^sup>*\<^sup>* d (snd (SaveHandoff h d))" "store_step\<^sup>*\<^sup>* d (snd (ConsumeHandoff k p session state challenge now d))"
  by (rule r_into_rtranclp, rule store_step.intros, rule prod.collapse [symmetric])+

lemma operations_keep:
  "keeps_store (startAuthorization w sv en bucket sreq)" "keeps_store (oauthCallback w sv en p bucket q)"
  "keeps_store (exchangeHandoff w sv en bucket req)" "keeps_store (refreshToken w sv en bucket freq)"
  "keeps_store (revokeToken w sv en bucket vreq)"
proof -
  show "keeps_store (startAuthorization w sv en bucket sreq)"
    unfolding startAuthorization_def begin_authorization_def Let_def by (intro keeps)
  have mint: "keeps_store (mint_handoff w sv en p st tok)" for st tok
    unfolding mint_handoff_def by (intro keeps)
  have "keeps_store (refused_state name e)" for name e
    unfolding refused_state_def by (intro keeps)
  then show "keeps_store (oauthCallback w sv en p bucket q)"
    unfolding oauthCallback_def Let_def by (intro keeps mint)
  have risk: "keeps_store (refusal_risk e)" for e
    unfolding refusal_risk_def by (cases e) (simp_all add: keeps)
  have "keeps_store (refused_handoff en dimension version e)" for dimension version e
    unfolding refused_handoff_def by (intro keeps risk)
  moreover have "keeps_store (redeemed_handoff w sv req p rec)" for p rec
    unfolding redeemed_handoff_def by (intro keeps)
  ultimately show "keeps_store (exchangeHandoff w sv en bucket req)"
    unfolding exchangeHandoff_def Let_def by (intro keeps)
  show "keeps_store (refreshToken w sv en bucket freq)"
    unfolding refreshToken_def Let_def by (intro keeps)
  show "keeps_store (revokeToken w sv en bucket vreq)"
    unfolding revokeToken_def Let_def by (intro keeps)
qed

text \<open>The broker at work: any sequence of requests, each with its clock, random bytes and address.\<close>

inductive broker_step :: "world \<Rightarrow> server \<Rightarrow> broker \<Rightarrow> broker \<Rightarrow> bool" for w sv where
  start: "startAuthorization w sv en bucket sreq s = (a, t) \<Longrightarrow> broker_step w sv s t"
| callback: "oauthCallback w sv en p bucket q s = (b, t) \<Longrightarrow> broker_step w sv s t"
| exchange: "exchangeHandoff w sv en bucket req s = (c, t) \<Longrightarrow> broker_step w sv s t"
| refresh: "refreshToken w sv en bucket freq s = (d, t) \<Longrightarrow> broker_step w sv s t"
| revoke: "revokeToken w sv en bucket vreq s = (e, t) \<Longrightarrow> broker_step w sv s t"

lemma keeps_storeD: "keeps_store m \<Longrightarrow> m s = (r, t) \<Longrightarrow> store_ext s t"
  by (metis keeps_store_def snd_conv)

lemma broker_step_ext: "broker_step w sv s t \<Longrightarrow> store_ext s t"
  by (induction rule: broker_step.induct) (erule keeps_storeD [rotated], rule operations_keep)+

lemma broker_steps_ext: "(broker_step w sv)\<^sup>*\<^sup>* s t \<Longrightarrow> store_ext s t"
  by (induction rule: rtranclp_induct) (auto dest: broker_step_ext intro: store_ext_trans)

lemma store_steps_keep:
  assumes "store_step\<^sup>*\<^sup>* d d'"
  shows "state_spent j d \<Longrightarrow> state_spent j d'" "handoff_spent j d \<Longrightarrow> handoff_spent j d'"
    "store_wf d \<Longrightarrow> store_wf d'" "sd_foreign_keys d' = sd_foreign_keys d"
  using assms by (induction rule: rtranclp_induct) (simp_all add: store_step_keeps)

text \<open>No call deletes a handoff: it stays as it is until it is spent.\<close>

lemma handoff_stays:
  assumes "store_step\<^sup>*\<^sup>* d d'" "find (\<lambda>r. ho_hash r = h) (sd_handoffs d) = Some r"
  shows "find (\<lambda>r. ho_hash r = h) (sd_handoffs d') = Some r \<or> handoff_spent h d'"
  using assms(1)
proof (induction rule: rtranclp_induct)
  case base
  then show ?case using assms(2) by simp
next
  case (step e f)
  have "find (\<lambda>r. ho_hash r = h) (sd_handoffs f) = Some r \<or> handoff_spent h f"
    if row: "find (\<lambda>r. ho_hash r = h) (sd_handoffs e) = Some r"
    using step.hyps(2)
  proof (cases rule: store_step.cases)
    case (consume_handoff k p session state challenge now z)
    show ?thesis
    proof (cases z)
      case (Inr x)
      note f = consume_handoff_Inr(2) [OF consume_handoff [unfolded Inr]]
      show ?thesis
      proof (cases "k = h")
        case True
        then show ?thesis unfolding f spent_handoff_marked using row by simp
      next
        case False
        have "find (\<lambda>r. ho_hash r = h) (map (\<lambda>x. if ho_hash x = k \<and> ho_used x = None
            then x\<lparr>ho_used := Some (formatTime now), ho_payload := ''''\<rparr> else x) xs) =
          map_option (\<lambda>x. if ho_hash x = k \<and> ho_used x = None
            then x\<lparr>ho_used := Some (formatTime now), ho_payload := ''''\<rparr> else x) (find (\<lambda>r. ho_hash r = h) xs)"
          for xs :: "string handoff_record list"
          by (rule find_update) simp
        moreover have "ho_hash r = h" using row by (auto simp: find_Some_iff)
        ultimately show ?thesis using False row by (simp add: f)
      qed
    qed (use consume_handoff consume_Inl(2) row in blast)
  next
    case (save_handoff x y)
    then show ?thesis using row by (auto simp: SaveHandoff_def find_snoc_row split: if_splits)
  next
    case (save_state x y)
    then show ?thesis using row by (auto simp: SaveOAuthState_def split: if_splits)
  next
    case (consume_state i p now y)
    then show ?thesis using row by (auto simp: ConsumeOAuthState_def Let_def split: if_splits option.splits)
  qed
  then show ?case using step.IH store_step_keeps(2) [OF step.hyps(2)] by blast
qed


section \<open>What a success did\<close>

named_theorems succeeds

lemma op_succeeds [succeeds]:
  "op_bind m k s = (Inr y, t) \<longleftrightarrow> (\<exists>x u. m s = (Inr x, u) \<and> k x u = (Inr y, t))"
  "op_then m' n s = (Inr y, t) \<longleftrightarrow> (\<exists>u. m' s = (Inr (), u) \<and> n u = (Inr y, t))"
  "op_ret z s = (Inr y, t) \<longleftrightarrow> y = z \<and> t = s" "\<not> op_fail e s = (Inr y, t)" "\<not> fail_after m'' e s = (Inr y, t)"
  "has_store s = (Inr ok, t) \<longleftrightarrow> ok = (br_store s \<noteq> None) \<and> t = s"
  by (auto simp: op_bind_def op_then_def op_ret_def op_fail_def fail_after_def has_store_def split: prod.splits sum.splits)

lemma limited_succeeds [succeeds]:
  "limited en key limit (c :: ('e, unit) op) e n s = (Inr y, t) \<longleftrightarrow> (\<exists>u. (allow en key limit :: ('e, bool) op) s = (Inr True, u) \<and> n u = (Inr y, t))"
  by (simp add: limited_def op_succeeds ex_bool_eq)

lemma store_call_succeeds:
  "store_call f s = (Inr r, t) \<longleftrightarrow> (case br_store s of None \<Rightarrow> r = Inl StoreFailure \<and> t = s
     | Some d \<Rightarrow> \<exists>d'. f d = (r, d') \<and> t = s\<lparr>br_store := Some d'\<rparr>)"
  by (auto simp: store_call_def split: option.splits prod.splits)

lemma counting_keeps: "inc name label s = (x, t) \<Longrightarrow> br_store t = br_store s"
  "allow en key limit s = (y, t) \<Longrightarrow> br_store t = br_store s"
  "IncHandoffOK s = (z, t) \<Longrightarrow> br_store t = br_store s" "IncCallback reason s = (z, t) \<Longrightarrow> br_store t = br_store s"
  by (auto simp: inc_def allow_def IncHandoffOK_def IncCallback_def incLabeled_def split: option.splits prod.splits)

lemma refused_fails [succeeds]: "\<not> refused_handoff en dimension version e s = (Inr y, t)" "\<not> refused_state name e s = (Inr z, t)"
  by (auto simp: refused_handoff_def refused_state_def op_succeeds split: prod.splits if_splits)

lemma redeemed_succeeds [succeeds]:
  "redeemed_handoff w sv req p rec s = (Inr resp, t) \<longleftrightarrow> (\<exists>tok. opened_handoff w sv p rec = Some tok \<and>
     (IncHandoffOK :: (string, unit) op) s = (Inr (), t) \<and>
     resp = \<lparr>hp_provider = xq_provider req, hp_account = ho_account rec, hp_scopes = ho_scopes rec, hp_token = tok\<rparr>)"
  by (auto simp: redeemed_handoff_def op_succeeds split: option.splits)

text \<open>A redemption that succeeds consumed the handoff of the code and opened its payload.\<close>

lemma exchange_Inr:
  assumes "exchangeHandoff w sv en bucket req s = (Inr resp, t)"
  shows "\<exists>p d d' rec tok. providerName (xq_provider req) = Some p \<and> br_store s = Some d \<and> br_store t = Some d' \<and>
    ConsumeHandoff (hashHandoffCode w (trim_space (xq_code req))) p (trim_space (xq_session req)) (trim_space (xq_state req))
      (pkceS256 w (trim_space (xq_verifier req))) (en_now en) d = (Inr rec, d') \<and>
    opened_handoff w sv p rec = Some tok \<and>
    resp = \<lparr>hp_provider = xq_provider req, hp_account = ho_account rec, hp_scopes = ho_scopes rec, hp_token = tok\<rparr>"
proof -
  obtain p where p: "providerName (xq_provider req) = Some p" using assms by (auto simp: exchangeHandoff_def op_succeeds split: option.splits)
  let ?take = "ConsumeHandoff (hashHandoffCode w (trim_space (xq_code req))) p (trim_space (xq_session req)) (trim_space (xq_state req))
      (pkceS256 w (trim_space (xq_verifier req))) (en_now en)"
  obtain u v rec where s: "br_store s \<noteq> None" and u: "(allow en (Key LimitKeyHandoff bucket) limitHandoff :: (string, bool) op) s = (Inr True, u)"
    and take: "(store_call ?take :: (string, store_error + instant handoff_record) op) u = (Inr (Inr rec), v)"
    and red: "redeemed_handoff w sv req p rec v = (Inr resp, t)"
    using assms unfolding exchangeHandoff_def Let_def
    by (simp add: p op_succeeds limited_succeeds refused_fails split: if_splits sum.splits) (metis refused_fails(1) sum.exhaust)
  from red obtain tok where tok: "opened_handoff w sv p rec = Some tok" "(IncHandoffOK :: (string, unit) op) v = (Inr (), t)"
    "resp = \<lparr>hp_provider = xq_provider req, hp_account = ho_account rec, hp_scopes = ho_scopes rec, hp_token = tok\<rparr>"
    by (auto simp: redeemed_succeeds)
  obtain d d' where "br_store s = Some d" "?take d = (Inr rec, d')" "br_store t = Some d'"
    using take s counting_keeps(2) [OF u] counting_keeps(3) [OF tok(2)] by (auto simp: store_call_succeeds)
  then show ?thesis using p tok by blast
qed

text \<open>A request that names an unspent handoff and its verifier in time is answered with the tokens.\<close>

lemma exchange_runs:
  assumes "providerName (xq_provider req) = Some p" "providerConfigured sv p" "br_store s = Some d" "\<not> bc_auth_disabled (sv_config sv)"
    and "fst ((allow en (Key LimitKeyHandoff bucket) limitHandoff :: (string, bool) op) s) = Inr True"
    and "trim_space (xq_session req) \<noteq> ''''" "trim_space (xq_state req) \<noteq> ''''" "trim_space (xq_code req) \<noteq> ''''"
      "trim_space (xq_verifier req) \<noteq> ''''"
    and "ConsumeHandoff (hashHandoffCode w (trim_space (xq_code req))) p (trim_space (xq_session req)) (trim_space (xq_state req))
      (pkceS256 w (trim_space (xq_verifier req))) (en_now en) d = (Inr rec, d')"
    and "opened_handoff w sv p rec = Some tok"
  shows "fst (exchangeHandoff w sv en bucket req s) =
    Inr \<lparr>hp_provider = xq_provider req, hp_account = ho_account rec, hp_scopes = ho_scopes rec, hp_token = tok\<rparr>"
proof -
  obtain u where u: "(allow en (Key LimitKeyHandoff bucket) limitHandoff :: (string, bool) op) s = (Inr True, u)"
    using assms(5) by (metis prod.collapse)
  then have "br_store u = Some d" using counting_keeps(2) [OF u] assms(3) by simp
  then show ?thesis
    using assms u by (simp add: exchangeHandoff_def Let_def op_bind_def has_store_def limited_def store_call_def redeemed_handoff_def
        op_then_def op_ret_def IncHandoffOK_def inc_def)
qed

text \<open>A callback that succeeds spent its state, got tokens for the code and stored them sealed.\<close>

lemma mint_Inr:
  assumes "mint_handoff w sv en p st tok s = (Inr link, t)" "br_store s = Some d"
  shows "\<exists>bytes payload d'. en_rand en 32 = Some bytes \<and>
    encryptTokenPayload w en (providerClientSecret sv p) (handoffAAD (os_id st) (os_session st) (os_handoff_challenge st)) (payload_of en tok)
      = Some payload \<and>
    SaveHandoff (new_handoff w sv en p st tok (base64url (bytes_of bytes)) payload) d = (Inr (), d') \<and>
    buildHandoffURL w sv st (base64url (bytes_of bytes)) = Some link \<and> br_store t = Some d'"
proof -
  obtain bytes payload where b: "en_rand en 32 = Some bytes" "encryptTokenPayload w en (providerClientSecret sv p)
      (handoffAAD (os_id st) (os_session st) (os_handoff_challenge st)) (payload_of en tok) = Some payload"
    using assms by (auto simp: mint_handoff_def randomString_def op_succeeds split: option.splits)
  obtain u r where save: "(store_call (SaveHandoff (new_handoff w sv en p st tok (base64url (bytes_of bytes)) payload)) ::
        (page_error, store_error + unit) op) s = (Inr r, u)" and
      go: "(case r of Inl _ \<Rightarrow> fail_after (IncCallback OutcomeHandoffPersistFail)
              (500 :: int, ''Broker could not persist the handoff. Return to shiet and retry.'')
          | Inr _ \<Rightarrow> (case buildHandoffURL w sv st (base64url (bytes_of bytes)) of
                None \<Rightarrow> fail_after (IncCallback OutcomeHandoffURLFailed)
                  (500, ''Broker could not build the desktop return link. Return to shiet and retry.'')
              | Some u \<Rightarrow> op_then (IncCallback OutcomeOK) (op_ret u))) u = (Inr link, t)"
    using assms(1) b by (simp add: mint_handoff_def randomString_def op_succeeds) blast
  then have "r = Inr ()" "buildHandoffURL w sv st (base64url (bytes_of bytes)) = Some link"
      "(IncCallback OutcomeOK :: (page_error, unit) op) u = (Inr (), t)"
    by (auto simp: op_succeeds split: sum.splits option.splits)
  then show ?thesis using save assms(2) b by (auto simp: store_call_succeeds dest!: counting_keeps(4))
qed

lemma callback_Inr:
  assumes "oauthCallback w sv en p bucket q s = (Inr link, t)"
  shows "\<exists>d d1 st tok u. br_store s = Some d \<and> providerConfigured sv p \<and>
    ConsumeOAuthState (trim_space (cq_state q)) p (en_now en) d = (Inr st, d1) \<and>
    exchangeProviderCode w sv (en_now en) p (trim_space (cq_code q)) (os_verifier st) = Inr tok \<and>
    br_store u = Some d1 \<and> mint_handoff w sv en p st tok u = (Inr link, t)"
proof -
  let ?take = "ConsumeOAuthState (trim_space (cq_state q)) p (en_now en)"
  obtain u v r where s: "br_store s \<noteq> None" and conf: "providerConfigured sv p"
    and u: "(allow en (Key LimitKeyCallback bucket) limitCallback :: (page_error, bool) op) s = (Inr True, u)"
    and take: "(store_call ?take :: (page_error, store_error + instant oauth_state) op) u = (Inr r, v)"
    and go: "(case r of Inl e \<Rightarrow> refused_state (case Lookup p of None \<Rightarrow> p | Some d \<Rightarrow> pr_name d) e
             | Inr st \<Rightarrow> (case exchangeProviderCode w sv (en_now en) p (trim_space (cq_code q)) (os_verifier st) of
                 Inl _ \<Rightarrow> fail_after (IncCallback OutcomeTokenExchangeFail)
                   (502, ''Broker could not exchange the '' @ (case Lookup p of None \<Rightarrow> p | Some d \<Rightarrow> pr_name d) @ '' authorization code. Return to shiet and retry.'')
               | Inr tok \<Rightarrow> mint_handoff w sv en p st tok)) v = (Inr link, t)"
    using assms unfolding oauthCallback_def Let_def
    by (simp add: op_succeeds limited_succeeds split: if_splits) blast
  obtain st where st: "r = Inr st" using go by (cases r) (auto simp: refused_fails)
  then obtain tok where "exchangeProviderCode w sv (en_now en) p (trim_space (cq_code q)) (os_verifier st) = Inr tok"
      "mint_handoff w sv en p st tok v = (Inr link, t)"
    using go by (auto simp: op_succeeds split: sum.splits)
  moreover obtain d d1 where "br_store s = Some d" "?take d = (Inr st, d1)" "br_store v = Some d1"
    using take s counting_keeps(2) [OF u] st by (auto simp: store_call_succeeds)
  ultimately show ?thesis using conf by blast
qed


section \<open>From the callback to the desktop program\<close>

lemma payload_reads_back:
  assumes "printable (tk_expiry p)"
  shows "read_struct read_payload_member \<lparr>tk_access = '''', tk_refresh = '''', tk_type = '''', tk_expiry = zero_time\<rparr> (payload_json p) = Some p"
proof -
  have lower: "to_lower ''access_token'' = ''access_token''" "to_lower ''refresh_token'' = ''refresh_token''"
    "to_lower ''token_type'' = ''token_type''" "to_lower ''expiry'' = ''expiry''" by code_simp+
  show ?thesis using assms
    by (cases p) (simp add: read_struct_def payload_json_def read_payload_member_def lower read_text_def)
qed

text \<open>The law of authenticated encryption that the broker relies on: what was sealed opens again.\<close>

definition opens_what_it_seals :: "world \<Rightarrow> bool" where
  "opens_what_it_seals w \<longleftrightarrow> (\<forall>key nonce j aad. wd_open w key nonce (wd_seal w key nonce j aad) aad = Some j)"

lemma sealed_opens:
  assumes "encryptTokenPayload w en secret aad p = Some payload" "opens_what_it_seals w"
    and "\<forall>n s. en_rand en n = Some s \<longrightarrow> length s = n"
  shows "decryptTokenPayload w secret aad payload = Some p"
proof -
  obtain nonce where n: "en_rand en 12 = Some nonce" "payload = nonce @ wd_seal w (wd_sha256 w secret) nonce (payload_json p) aad"
      "printable (tk_expiry p)"
    using assms(1) by (auto simp: encryptTokenPayload_def split: option.splits if_splits)
  then have "length nonce = 12" using assms(3) by blast
  then show ?thesis using n assms(2) payload_reads_back by (auto simp: decryptTokenPayload_def opens_what_it_seals_def)
qed

text \<open>An unspent handoff is consumed by the binding it was stored with, before it expires.\<close>

lemma consume_runs:
  assumes "store_wf d" "find (\<lambda>r. ho_hash r = h) (sd_handoffs d) = Some row" "ho_used row = None" "now < readTime (ho_expires row)"
    and "providerOrGoogle (ho_provider row) = providerOrGoogle p"
  shows "\<exists>rec d'. ConsumeHandoff h p (ho_session row) (ho_state row) (ho_challenge row) now d = (Inr rec, d') \<and>
    ho_state rec = ho_state row \<and> ho_session rec = ho_session row \<and> ho_challenge rec = ho_challenge row \<and>
    ho_payload rec = ho_payload row \<and> ho_account rec = ho_account row \<and> ho_scopes rec = ho_scopes row"
proof -
  have "length (filter (\<lambda>x. ho_hash x = h \<and> ho_used x = None) (sd_handoffs d)) = 1"
    by (rule filter_one [OF _ assms(2)]) (use assms in \<open>simp_all add: store_wf_def\<close>)
  then show ?thesis using assms by (auto simp: ConsumeHandoff_def selectHandoff_def Let_def)
qed

lemma saved_handoff:
  "SaveHandoff r d = (Inr (), d') \<Longrightarrow> find (\<lambda>x. ho_hash x = ho_hash r) (sd_handoffs d') = Some (handoff_row r)"
  by (auto simp: SaveHandoff_def find_snoc_row handoff_row_def list_ex_iff find_none_iff split: if_splits option.splits)
    (auto simp: find_Some_iff list_ex_iff)

text \<open>
  The request that redeems what a callback stored: from the program that started the
  authorization, in time, and let through by the limiter.
\<close>

definition may_redeem ::
    "world \<Rightarrow> string \<Rightarrow> instant oauth_state \<Rightarrow> string \<Rightarrow> instant \<Rightarrow> env \<Rightarrow> string \<Rightarrow> handoff_request \<Rightarrow> broker \<Rightarrow> bool" where
  "may_redeem w p st code expires en bucket req s \<longleftrightarrow>
     providerName (xq_provider req) = Some p \<and> trim_space (xq_session req) = os_session st \<and> trim_space (xq_state req) = os_id st \<and>
     trim_space (xq_code req) = code \<and> pkceS256 w (trim_space (xq_verifier req)) = os_handoff_challenge st \<and>
     os_session st \<noteq> '''' \<and> os_id st \<noteq> '''' \<and> code \<noteq> '''' \<and> trim_space (xq_verifier req) \<noteq> '''' \<and>
     en_now en < expires \<and> fst ((allow en (Key LimitKeyHandoff bucket) limitHandoff :: (string, bool) op) s) = Inr True"

lemma redeems_what_was_stored:
  assumes "oauthCallback w sv en p bucket q s = (Inr link, t)" "br_store s = Some d" "store_wf d"
    and "opens_what_it_seals w" "\<forall>n s. en_rand en n = Some s \<longrightarrow> length s = n" "printable (en_now en + bc_handoff_ttl (sv_config sv))"
    and "\<not> bc_auth_disabled (sv_config sv)"
  shows "\<exists>st d1 tok code. ConsumeOAuthState (trim_space (cq_state q)) p (en_now en) d = (Inr st, d1) \<and>
    exchangeProviderCode w sv (en_now en) p (trim_space (cq_code q)) (os_verifier st) = Inr tok \<and>
    randomString en 32 = Some code \<and> buildHandoffURL w sv st code = Some link \<and>
    (\<forall>u en' bucket' req d2. (broker_step w sv)\<^sup>*\<^sup>* t u \<and> br_store u = Some d2 \<and> \<not> handoff_spent (hashHandoffCode w code) d2 \<and>
       may_redeem w p st code (en_now en + bc_handoff_ttl (sv_config sv)) en' bucket' req u \<longrightarrow>
       (\<exists>resp. fst (exchangeHandoff w sv en' bucket' req u) = Inr resp \<and>
          hp_token resp = \<lparr>tm_access = tr_access tok, tm_refresh = tr_refresh tok, tm_type = bearer_type (tr_type tok),
            tm_expiry = tokenExpiry (en_now en) (tr_expires_in tok)\<rparr>))"
proof -
  obtain d1 st tok v where cb: "providerConfigured sv p" "ConsumeOAuthState (trim_space (cq_state q)) p (en_now en) d = (Inr st, d1)"
      "exchangeProviderCode w sv (en_now en) p (trim_space (cq_code q)) (os_verifier st) = Inr tok" "br_store v = Some d1"
      "mint_handoff w sv en p st tok v = (Inr link, t)"
    using callback_Inr [OF assms(1)] assms(2) by auto
  define code where "code = base64url (bytes_of (the (en_rand en 32)))"
  obtain payload d' where mint: "encryptTokenPayload w en (providerClientSecret sv p)
        (handoffAAD (os_id st) (os_session st) (os_handoff_challenge st)) (payload_of en tok) = Some payload" "randomString en 32 = Some code"
      "SaveHandoff (new_handoff w sv en p st tok code payload) d1 = (Inr (), d')"
      "buildHandoffURL w sv st code = Some link" "br_store t = Some d'"
    using mint_Inr [OF cb(5,4)] unfolding code_def randomString_def by auto
  define r where "r = new_handoff w sv en p st tok code payload"
  have wf: "store_wf d'"
    using assms(3) store_step_keeps(3) store_step.consume_state [OF cb(2)] store_step.save_handoff [OF mint(3)] by blast
  have redeemed: "\<exists>resp. fst (exchangeHandoff w sv en' bucket' req u) = Inr resp \<and>
          hp_token resp = \<lparr>tm_access = tr_access tok, tm_refresh = tr_refresh tok, tm_type = bearer_type (tr_type tok),
            tm_expiry = tokenExpiry (en_now en) (tr_expires_in tok)\<rparr>"
    if u: "(broker_step w sv)\<^sup>*\<^sup>* t u" "br_store u = Some d2" "\<not> handoff_spent (hashHandoffCode w code) d2"
      "may_redeem w p st code (en_now en + bc_handoff_ttl (sv_config sv)) en' bucket' req u" for u en' bucket' req d2
  proof -
    have ext: "store_step\<^sup>*\<^sup>* d' d2" using broker_steps_ext [OF u(1)] mint(5) u(2) by (simp add: store_ext_def)
    have hash: "ho_hash r = hashHandoffCode w code" by (simp add: r_def new_handoff_def)
    have "find (\<lambda>x. ho_hash x = ho_hash r) (sd_handoffs d') = Some (handoff_row r)" using saved_handoff mint(3) unfolding r_def by blast
    then have row: "find (\<lambda>x. ho_hash x = hashHandoffCode w code) (sd_handoffs d2) = Some (handoff_row r)"
      using handoff_stays [OF ext] u(3) hash by metis
    have wf2: "store_wf d2" using store_steps_keep(3) [OF ext wf] .
    have fields: "ho_used (handoff_row r) = None" "readTime (ho_expires (handoff_row r)) = en_now en + bc_handoff_ttl (sv_config sv)"
      "providerOrGoogle (ho_provider (handoff_row r)) = providerOrGoogle p" "ho_session (handoff_row r) = os_session st"
      "ho_state (handoff_row r) = os_id st" "ho_challenge (handoff_row r) = os_handoff_challenge st" "ho_payload (handoff_row r) = payload"
      using assms(6) by (simp_all add: r_def new_handoff_def handoff_row_def)
    note may = u(4) [unfolded may_redeem_def]
    obtain rec d3 where take: "ConsumeHandoff (hashHandoffCode w code) p (os_session st) (os_id st) (os_handoff_challenge st) (en_now en') d2
        = (Inr rec, d3)" and rec: "ho_state rec = os_id st" "ho_session rec = os_session st" "ho_challenge rec = os_handoff_challenge st"
        "ho_payload rec = payload"
      using consume_runs [OF wf2 row fields(1) _ fields(3), of "en_now en'"] fields may by auto
    have "opened_handoff w sv p rec = Some \<lparr>tm_access = tr_access tok, tm_refresh = tr_refresh tok, tm_type = bearer_type (tr_type tok),
            tm_expiry = tokenExpiry (en_now en) (tr_expires_in tok)\<rparr>"
      using sealed_opens [OF mint(1) assms(4,5)] by (simp add: opened_handoff_def rec payload_of_def)
    then show ?thesis
      using exchange_runs [of req p sv u d2 en' bucket' w rec d3] may cb(1) u(2) assms(7) take by simp
  qed
  show ?thesis using cb mint(2,4) redeemed by (intro exI [of _ st] exI [of _ d1] exI [of _ tok] exI [of _ code]) blast
qed

text \<open>What is enough for a callback to succeed.\<close>

lemma callback_runs:
  assumes "br_store s = Some d" "providerConfigured sv p" "\<not> bc_auth_disabled (sv_config sv)"
    and "fst ((allow en (Key LimitKeyCallback bucket) limitCallback :: (page_error, bool) op) s) = Inr True"
    and "trim_space (cq_error q) = ''''" "trim_space (cq_code q) \<noteq> ''''" "trim_space (cq_state q) \<noteq> ''''"
    and "ConsumeOAuthState (trim_space (cq_state q)) p (en_now en) d = (Inr st, d1)"
    and "exchangeProviderCode w sv (en_now en) p (trim_space (cq_code q)) (os_verifier st) = Inr tok" "en_rand en 32 = Some bytes"
    and "encryptTokenPayload w en (providerClientSecret sv p) (handoffAAD (os_id st) (os_session st) (os_handoff_challenge st))
      (payload_of en tok) = Some payload"
    and "SaveHandoff (new_handoff w sv en p st tok (base64url (bytes_of bytes)) payload) d1 = (Inr (), d2)"
    and "buildHandoffURL w sv st (base64url (bytes_of bytes)) = Some link"
  shows "\<exists>t. oauthCallback w sv en p bucket q s = (Inr link, t) \<and> br_store t = Some d2 \<and> (br_limiter s = None \<longrightarrow> br_limiter t = None)"
proof -
  obtain u where u: "(allow en (Key LimitKeyCallback bucket) limitCallback :: (page_error, bool) op) s = (Inr True, u)"
    using assms(4) by (metis prod.collapse)
  then have "br_store u = Some d" "br_limiter s = None \<longrightarrow> u = s" using counting_keeps(2) [OF u] assms(1) u by (auto simp: allow_def)
  then show ?thesis
    using assms u by (simp add: oauthCallback_def Let_def op_bind_def has_store_def limited_def store_call_def mint_handoff_def
        randomString_def op_then_def op_ret_def IncCallback_def incLabeled_def inc_def)
qed

text \<open>Each state and each code succeeds once.\<close>

lemma callback_once:
  assumes "oauthCallback w sv en p bucket q s = (Inr link, t)" "(broker_step w sv)\<^sup>*\<^sup>* t u"
    and "trim_space (cq_state q') = trim_space (cq_state q)"
  shows "fst (oauthCallback w sv en' p' bucket' q' u) \<noteq> Inr link'"
proof
  assume "fst (oauthCallback w sv en' p' bucket' q' u) = Inr link'"
  then obtain u' where again: "oauthCallback w sv en' p' bucket' q' u = (Inr link', u')" by (metis prod.collapse)
  obtain d d1 st tok v where 1: "ConsumeOAuthState (trim_space (cq_state q)) p (en_now en) d = (Inr st, d1)"
      "br_store v = Some d1" "mint_handoff w sv en p st tok v = (Inr link, t)"
    using callback_Inr [OF assms(1)] by blast
  obtain payload code d2 where 2: "SaveHandoff (new_handoff w sv en p st tok code payload) d1 = (Inr (), d2)" "br_store t = Some d2"
    using mint_Inr [OF 1(3,2)] by blast
  obtain e e1 st' where 3: "br_store u = Some e" "ConsumeOAuthState (trim_space (cq_state q)) p' (en_now en') e = (Inr st', e1)"
    using callback_Inr [OF again] assms(3) by auto
  have "store_step\<^sup>*\<^sup>* d2 e" using broker_steps_ext [OF assms(2)] 2(2) 3(1) by (simp add: store_ext_def)
  moreover have "store_step d1 d2" by (rule store_step.save_handoff [OF 2(1)])
  ultimately have "store_step\<^sup>*\<^sup>* d1 e" by (rule converse_rtranclp_into_rtranclp [rotated])
  moreover have "state_spent (trim_space (cq_state q)) d1" using state_codes.take_spends [of _ "(p, en_now en)"] 1(1) by auto
  ultimately have "state_spent (trim_space (cq_state q)) e" by (rule store_steps_keep(1))
  then show False using state_codes.spent_refused [of _ e "(p', en_now en')"] 3(2) by auto
qed

lemma exchange_spends:
  assumes "exchangeHandoff w sv en bucket req s = (Inr resp, t)" "br_store t = Some d'"
  shows "handoff_spent (hashHandoffCode w (trim_space (xq_code req))) d'"
  using exchange_Inr [OF assms(1)] assms(2)
    handoff_codes.take_spends [of _ "(_, trim_space (xq_session req), trim_space (xq_state req), pkceS256 w (trim_space (xq_verifier req)), en_now en)"]
  by auto

lemma exchange_once:
  assumes "exchangeHandoff w sv en bucket req s = (Inr resp, t)" "(broker_step w sv)\<^sup>*\<^sup>* t u"
    and "hashHandoffCode w (trim_space (xq_code req')) = hashHandoffCode w (trim_space (xq_code req))"
  shows "fst (exchangeHandoff w sv en' bucket' req' u) \<noteq> Inr resp'"
proof
  assume "fst (exchangeHandoff w sv en' bucket' req' u) = Inr resp'"
  then obtain u' where again: "exchangeHandoff w sv en' bucket' req' u = (Inr resp', u')" by (metis prod.collapse)
  obtain e e' p rec where take: "br_store u = Some e" "ConsumeHandoff (hashHandoffCode w (trim_space (xq_code req'))) p
      (trim_space (xq_session req')) (trim_space (xq_state req')) (pkceS256 w (trim_space (xq_verifier req'))) (en_now en') e = (Inr rec, e')"
    using exchange_Inr [OF again] by blast
  obtain d' where t: "br_store t = Some d'" using exchange_Inr [OF assms(1)] by blast
  have "store_step\<^sup>*\<^sup>* d' e" using broker_steps_ext [OF assms(2)] t take(1) by (simp add: store_ext_def)
  from store_steps_keep(2) [OF this exchange_spends [OF assms(1) t]]
  have "handoff_spent (hashHandoffCode w (trim_space (xq_code req'))) e" using assms(3) by simp
  then show False using take(2) handoff_codes.spent_refused
      [of _ e "(p, trim_space (xq_session req'), trim_space (xq_state req'), pkceS256 w (trim_space (xq_verifier req')), en_now en')"]
    by auto
qed

text \<open>A spent handoff keeps no payload.\<close>

lemma spent_empty:
  "store_wf d \<Longrightarrow> handoff_spent h d \<Longrightarrow> r \<in> set (sd_handoffs d) \<Longrightarrow> ho_hash r = h \<Longrightarrow> ho_payload r = ''''"
proof -
  assume wf: "store_wf d" and spent: "handoff_spent h d" and r: "r \<in> set (sd_handoffs d)" "ho_hash r = h"
  obtain x where x: "find (\<lambda>r. ho_hash r = h) (sd_handoffs d) = Some x" "ho_used x \<noteq> None" using spent by (auto simp: handoff_spent_def)
  then have "x \<in> set (sd_handoffs d)" "ho_hash x = h" by (auto simp: find_Some_iff)
  then have "x = r" using wf r inj_onD [of ho_hash "set (sd_handoffs d)"] by (auto simp: store_wf_def distinct_map)
  then show "ho_payload r = ''''" using wf r x by (auto simp: store_wf_def)
qed


section \<open>Bitbucket\<close>

text \<open>A Bitbucket token is sent to Slack's endpoint for revocation, and its answer decides.\<close>

lemma bitbucket_revoked_at_slack:
  assumes "vq_provider req = Bitbucket" "providerConfigured sv ''bitbucket''" "br_limiter s = None"
    and "trim_space (vq_access req) = token" "token \<noteq> ''''" "vq_refresh req = ''''"
  shows "fst (revokeToken w sv en bucket req s) = (if revokeSlackToken w token = Revoked then Inr () else Inl SlackRevokeFailed)"
    "hq_url (slack_revoke_request token) = ''https://slack.com/api/auth.revoke''" "hq_auth (slack_revoke_request token) = Bearer token"
proof -
  have "ProviderBitbucket \<noteq> ProviderGoogle" "ProviderBitbucket \<noteq> ProviderGitHub" by simp_all
  then show "fst (revokeToken w sv en bucket req s) = (if revokeSlackToken w token = Revoked then Inr () else Inl SlackRevokeFailed)"
    using assms by (simp add: revokeToken_def providerName_def limited_def op_bind_def allow_def op_then_def fail_after_def op_fail_def
        IncRevokeOK_def IncRevokeOutcome_def incLabeled_def inc_def Let_def)
  show "hq_url (slack_revoke_request token) = ''https://slack.com/api/auth.revoke''" by code_simp
qed (simp add: slack_revoke_request_def)

text \<open>A refreshed Bitbucket token whose answer has no lifetime expires at once.\<close>

lemma refreshed_already_expired:
  assumes "refreshToken w sv en bucket req s = (Inr t, u)" "fq_provider req = Bitbucket"
    and "\<And>form tok. postProviderToken w sv ''bitbucket'' form = Inr tok \<Longrightarrow> rt_expires_in tok = 0"
  shows "tm_expiry t = en_now en"
proof -
  obtain p creds where pc: "Option.bind (providerName Bitbucket) (\<lambda>p. map_option (Pair p) (providerCredentials sv p)) = Some (p, creds)"
    using assms(1,2) by (auto simp: refreshToken_def op_succeeds split: option.splits)
  then have p: "p = ''bitbucket''" by (auto simp: providerName_def)
  have "seconds_of 0 = 0" by (simp add: seconds_of_def)
  then show ?thesis using assms p pc
    by (auto simp: refreshToken_def Let_def op_succeeds limited_succeeds split: if_splits sum.splits)
qed

end
