(* ===== verification/Broker_Http.thy ===== *)
theory Broker_Http
  imports Broker_Laws
begin

text \<open>
  The routes of the broker: the Connect adapter of internal/broker/httpapi/connect.go, health,
  readiness and metrics, and the JSON routes of server.go, which do what the Connect operations do.
  A body is its JSON value, or nothing where it is not JSON; what is answered is a status and a value.
\<close>

section \<open>The Connect adapter (connect.go)\<close>

definition toConnectError :: "string \<Rightarrow> connect_code \<times> string" where
  "toConnectError c = (connectCode c, c)"

definition adapted :: "(string, 'a) op \<Rightarrow> (connect_code \<times> string, 'a) op" where
  "adapted m s = (case m s of (r, t) \<Rightarrow> (map_sum toConnectError id r, t))"

definition StartAuthorization :: "world \<Rightarrow> server \<Rightarrow> env \<Rightarrow> string \<Rightarrow> start_request \<Rightarrow> (connect_code \<times> string, start_response) op" where
  "StartAuthorization w sv en peer req = adapted (startAuthorization w sv en (sourceIPBucket w peer) req)"

definition ExchangeHandoff :: "world \<Rightarrow> server \<Rightarrow> env \<Rightarrow> string \<Rightarrow> handoff_request \<Rightarrow> (connect_code \<times> string, handoff_response) op" where
  "ExchangeHandoff w sv en peer req = adapted (exchangeHandoff w sv en (sourceIPBucket w peer) req)"

definition RefreshToken :: "world \<Rightarrow> server \<Rightarrow> env \<Rightarrow> string \<Rightarrow> refresh_request \<Rightarrow> (connect_code \<times> string, token_material) op" where
  "RefreshToken w sv en peer req = adapted (refreshToken w sv en (sourceIPBucket w peer) req)"

definition RevokeToken :: "world \<Rightarrow> server \<Rightarrow> env \<Rightarrow> string \<Rightarrow> revoke_request \<Rightarrow> (connect_code \<times> string, unit) op" where
  "RevokeToken w sv en peer req = adapted (revokeToken w sv en (sourceIPBucket w peer) req)"


section \<open>Health, readiness and metrics\<close>

definition health :: "int \<times> string" where
  "health = (200, ''ok'')"

text \<open>\<open>ping\<close>: whether the store answers within a second.\<close>

definition ready :: "world \<Rightarrow> server \<Rightarrow> bool \<Rightarrow> broker \<Rightarrow> (int \<times> string) + (int \<times> string)" where
  "ready w sv ping s =
     (if Validate (wd_parse w) (sv_config sv) \<noteq> [] then Inl (503, ''invalid_config'')
      else if br_store s = None \<or> \<not> ping then Inl (503, DatastoreUnavailable)
      else Inr (200, ''ready''))"

definition metricsAuthorized :: "string \<Rightarrow> string \<Rightarrow> bool" where
  "metricsAuthorized auth token \<longleftrightarrow> token \<noteq> '''' \<and> take 7 auth = ''Bearer '' \<and> drop 7 auth = token"

definition metrics_page :: "server \<Rightarrow> string \<Rightarrow> broker \<Rightarrow> int \<times> string" where
  "metrics_page sv auth s =
     (if \<not> metricsAuthorized auth (bc_metrics_token (sv_config sv)) then (404, '''')
      else (200, case br_metrics s of None \<Rightarrow> '''' | Some m \<Rightarrow> WritePrometheus m))"


section \<open>JSON routes\<close>

type_synonym failure = "int \<times> string"

text \<open>Guards: each answers and ends the request, or lets it pass.\<close>

definition rejectRateLimited :: "env \<Rightarrow> string \<Rightarrow> string \<Rightarrow> int \<Rightarrow> (failure, 'a) op \<Rightarrow> (failure, 'a) op" where
  "rejectRateLimited en surface key limit m =
     op_bind (allow en key limit) (\<lambda>ok. if ok then m else fail_after (IncRateLimited surface) (429, RateLimited))"

definition rejectAuthDisabled :: "server \<Rightarrow> string \<Rightarrow> (failure, 'a) op \<Rightarrow> (failure, 'a) op" where
  "rejectAuthDisabled sv surface m =
     (if bc_auth_disabled (sv_config sv) then fail_after (IncKillSwitch surface) (403, AuthDisabled) else m)"

definition rejectAppVersionDisabled :: "server \<Rightarrow> string \<Rightarrow> string \<Rightarrow> (failure, 'a) op \<Rightarrow> (failure, 'a) op" where
  "rejectAppVersionDisabled sv surface version m =
     (if app_version_disabled (sv_config sv) version
      then fail_after (IncKillSwitch (surface @ KillSwitchVersionSuffix)) (403, AppVersionDisabled) else m)"

text \<open>The requests of internal/integration/oauth/protocol.go; a member none of them has is refused.\<close>

record json_start =
  js_session :: string
  js_challenge :: string
  js_version :: string
  js_platform :: string
  js_redirect :: string

definition read_start_member :: "string \<times> json \<Rightarrow> json_start \<Rightarrow> json_start option" where
  "read_start_member kv r =
     (let k = to_lower (fst kv); v = snd kv in
      if k = ''desktop_session_id'' then map_option (\<lambda>x. r\<lparr>js_session := x\<rparr>) (read_text v (js_session r))
      else if k = ''handoff_challenge'' then map_option (\<lambda>x. r\<lparr>js_challenge := x\<rparr>) (read_text v (js_challenge r))
      else if k = ''app_version'' then map_option (\<lambda>x. r\<lparr>js_version := x\<rparr>) (read_text v (js_version r))
      else if k = ''platform'' then map_option (\<lambda>x. r\<lparr>js_platform := x\<rparr>) (read_text v (js_platform r))
      else if k = ''desktop_handoff_redirect'' then map_option (\<lambda>x. r\<lparr>js_redirect := x\<rparr>) (read_text v (js_redirect r))
      else None)"

record json_handoff =
  jh_session :: string
  jh_state :: string
  jh_code :: string
  jh_verifier :: string

definition read_handoff_member :: "string \<times> json \<Rightarrow> json_handoff \<Rightarrow> json_handoff option" where
  "read_handoff_member kv r =
     (let k = to_lower (fst kv); v = snd kv in
      if k = ''desktop_session_id'' then map_option (\<lambda>x. r\<lparr>jh_session := x\<rparr>) (read_text v (jh_session r))
      else if k = ''broker_state'' then map_option (\<lambda>x. r\<lparr>jh_state := x\<rparr>) (read_text v (jh_state r))
      else if k = ''handoff_code'' then map_option (\<lambda>x. r\<lparr>jh_code := x\<rparr>) (read_text v (jh_code r))
      else if k = ''handoff_verifier'' then map_option (\<lambda>x. r\<lparr>jh_verifier := x\<rparr>) (read_text v (jh_verifier r))
      else None)"

record json_refresh =
  jr_token :: string
  jr_scope :: "string list"
  jr_version :: string
  jr_platform :: string

text \<open>A list of texts, whose nulls are empty texts.\<close>

definition read_texts :: "json \<Rightarrow> string list \<Rightarrow> string list option" where
  "read_texts j old = (case j of
      JNull \<Rightarrow> Some []
    | JList js \<Rightarrow> read_each (\<lambda>e out. map_option (\<lambda>x. out @ [x]) (read_text e '''')) js []
    | _ \<Rightarrow> None)"

definition read_refresh_member :: "string \<times> json \<Rightarrow> json_refresh \<Rightarrow> json_refresh option" where
  "read_refresh_member kv r =
     (let k = to_lower (fst kv); v = snd kv in
      if k = ''refresh_token'' then map_option (\<lambda>x. r\<lparr>jr_token := x\<rparr>) (read_text v (jr_token r))
      else if k = ''scope'' then map_option (\<lambda>x. r\<lparr>jr_scope := x\<rparr>) (read_texts v (jr_scope r))
      else if k = ''app_version'' then map_option (\<lambda>x. r\<lparr>jr_version := x\<rparr>) (read_text v (jr_version r))
      else if k = ''platform'' then map_option (\<lambda>x. r\<lparr>jr_platform := x\<rparr>) (read_text v (jr_platform r))
      else None)"

record json_revoke =
  jv_refresh :: string
  jv_access :: string
  jv_reason :: string

definition read_revoke_request :: "string \<times> json \<Rightarrow> json_revoke \<Rightarrow> json_revoke option" where
  "read_revoke_request kv r =
     (let k = to_lower (fst kv); v = snd kv in
      if k = ''refresh_token'' then map_option (\<lambda>x. r\<lparr>jv_refresh := x\<rparr>) (read_text v (jv_refresh r))
      else if k = ''access_token'' then map_option (\<lambda>x. r\<lparr>jv_access := x\<rparr>) (read_text v (jv_access r))
      else if k = ''reason'' then map_option (\<lambda>x. r\<lparr>jv_reason := x\<rparr>) (read_text v (jv_reason r))
      else None)"

text \<open>\<open>decodeJSON\<close> refuses members that the request does not have.\<close>

definition decodeJSON :: "(string \<times> json \<Rightarrow> 'r \<Rightarrow> 'r option) \<Rightarrow> 'r \<Rightarrow> json option \<Rightarrow> 'r option" where
  "decodeJSON member zero body = Option.bind body (read_struct member zero)"

definition start_body :: "json option \<Rightarrow> json_start option" where
  "start_body = decodeJSON read_start_member \<lparr>js_session = '''', js_challenge = '''', js_version = '''', js_platform = '''', js_redirect = ''''\<rparr>"

definition handoff_body :: "json option \<Rightarrow> json_handoff option" where
  "handoff_body = decodeJSON read_handoff_member \<lparr>jh_session = '''', jh_state = '''', jh_code = '''', jh_verifier = ''''\<rparr>"

definition refresh_body :: "json option \<Rightarrow> json_refresh option" where
  "refresh_body = decodeJSON read_refresh_member \<lparr>jr_token = '''', jr_scope = [], jr_version = '''', jr_platform = ''''\<rparr>"

definition revoke_body :: "json option \<Rightarrow> json_revoke option" where
  "revoke_body = decodeJSON read_revoke_request \<lparr>jv_refresh = '''', jv_access = '''', jv_reason = ''''\<rparr>"

record json_started =
  jt_url :: string
  jt_state :: string
  jt_expires :: instant

definition startOAuth :: "world \<Rightarrow> server \<Rightarrow> env \<Rightarrow> string \<Rightarrow> string \<Rightarrow> json option \<Rightarrow> (failure, json_started) op" where
  "startOAuth w sv en p peer body = op_bind has_store (\<lambda>store.
     if \<not> store then op_fail (503, DatastoreUnavailable)
     else if \<not> providerConfigured sv p then op_fail (503, ProviderNotConfigured)
     else rejectAuthDisabled sv SurfaceStart
       (let bucket = sourceIPBucket w peer in
        rejectRateLimited en SurfaceStart (Key LimitKeyStart bucket) limitStart (case start_body body of
          None \<Rightarrow> fail_after IncAuthStartFail (400, InvalidJSON)
        | Some r \<Rightarrow>
           (let session = trim_space (js_session r); challenge = trim_space (js_challenge r);
                redirect = trim_space (js_redirect r); version = trim_space (js_version r)
            in if session = '''' \<or> challenge = '''' then fail_after IncAuthStartFail (400, DesktopSessionAndHandoffChallengeRequired)
               else rejectAppVersionDisabled sv SurfaceStart version
                 (if redirect \<noteq> '''' \<and> \<not> validateDesktopHandoffRedirect w redirect
                  then fail_after IncAuthStartFail (400, InvalidDesktopHandoffRedirect)
                  else case randomString en 32 of
                    None \<Rightarrow> fail_after IncAuthStartFail (500, RandomStateFailed)
                  | Some state \<Rightarrow> (case randomString en 64 of
                      None \<Rightarrow> fail_after IncAuthStartFail (500, RandomVerifierFailed)
                    | Some verifier \<Rightarrow>
                        let pkce = pkceS256 w verifier; expires = en_now en + bc_state_ttl (sv_config sv);
                            rec = \<lparr>os_id = state, os_provider = p, os_session = session, os_verifier = verifier, os_challenge = pkce,
                              os_handoff_challenge = challenge, os_redirect = redirect, os_scopes = providerScopes sv p, os_version = version,
                              os_platform = trim_space (js_platform r), os_bucket = bucket, os_expires = expires, os_used = None\<rparr>
                        in op_bind (store_call (SaveOAuthState rec)) (\<lambda>x. case x of
                             Inl _ \<Rightarrow> fail_after IncAuthStartFail (500, StatePersistFailed)
                           | Inr _ \<Rightarrow> (case authURL w sv p state pkce of
                               None \<Rightarrow> fail_after IncAuthStartFail (500, AuthURLFailed)
                             | Some u \<Rightarrow> op_then IncAuthStart
                                 (op_ret \<lparr>jt_url = u, jt_state = state, jt_expires = expires\<rparr>)))))))))"

record json_token =
  jk_access :: string
  jk_refresh :: string
  jk_type :: string
  jk_expiry :: instant

record handoff_answer =
  ha_provider :: string
  ha_account :: string
  ha_scopes :: "string list"
  ha_token :: json_token

text \<open>The switch over the error of the store: the outcome counted, the status and the code.\<close>

definition handoff_failure :: "store_error \<Rightarrow> string \<times> failure" where
  "handoff_failure e = (case e of
      StoreAlreadyUsed \<Rightarrow> (OutcomeAlreadyUsed, 400, HandoffAlreadyUsed)
    | StoreExpired \<Rightarrow> (OutcomeExpired, 400, HandoffExpired)
    | StoreNotFound \<Rightarrow> (OutcomeNotFound, 400, HandoffNotFound)
    | StoreMismatch \<Rightarrow> (OutcomeStateMismatch, 400, HandoffStateMismatch)
    | StoreFailure \<Rightarrow> (OutcomeConsumeFailed, 500, HandoffConsumeFailed))"

definition failure_risk :: "store_error \<Rightarrow> (failure, unit) op" where
  "failure_risk e = (if e = StoreAlreadyUsed then IncQuotaRisk QuotaHandoffReplay
     else if e = StoreMismatch then IncQuotaRisk QuotaHandoffMismatch else op_ret ())"

definition handoff_payload :: "world \<Rightarrow> server \<Rightarrow> string \<Rightarrow> instant handoff_record \<Rightarrow> json_token option" where
  "handoff_payload w sv p rec = map_option
     (\<lambda>t. \<lparr>jk_access = tk_access t, jk_refresh = tk_refresh t,
       jk_type = (if tk_type t = '''' then ''Bearer'' else tk_type t), jk_expiry = tk_expiry t\<rparr>)
     (decryptTokenPayload w (providerClientSecret sv p) (handoffAAD (ho_state rec) (ho_session rec) (ho_challenge rec)) (ho_payload rec))"

definition exchangeProviderHandoff :: "world \<Rightarrow> server \<Rightarrow> env \<Rightarrow> string \<Rightarrow> string \<Rightarrow> json option \<Rightarrow> (failure, handoff_answer) op" where
  "exchangeProviderHandoff w sv en p peer body = op_bind has_store (\<lambda>store.
     if \<not> store then op_fail (503, DatastoreUnavailable)
     else if \<not> providerConfigured sv p then op_fail (503, ProviderNotConfigured)
     else rejectAuthDisabled sv SurfaceHandoff
       (let bucket = sourceIPBucket w peer in
        rejectRateLimited en SurfaceHandoff (Key LimitKeyHandoff bucket) limitHandoff (case handoff_body body of
          None \<Rightarrow> op_fail (400, InvalidJSON)
        | Some r \<Rightarrow>
           (let session = trim_space (jh_session r); state = trim_space (jh_state r); code = trim_space (jh_code r);
                verifier = trim_space (jh_verifier r); h = hashHandoffCode w code
            in if session = '''' \<or> state = '''' \<or> code = '''' \<or> verifier = '''' then op_fail (400, HandoffFieldsRequired)
               else op_bind (store_call (ConsumeHandoff h p session state (pkceS256 w verifier) (en_now en))) (\<lambda>x. case x of
                 Inl e \<Rightarrow> op_then (failure_risk e) (op_then (IncHandoffFailure (fst (handoff_failure e)))
                   (op_bind (allow en (Key LimitKeyHandoffFail (bucket @ ''|'' @ session @ ''|'' @ h)) limitHandoffFailure) (\<lambda>ok.
                      if ok then op_fail (snd (handoff_failure e))
                      else fail_after (IncRateLimited SurfaceHandoffFailure) (429, RateLimited))))
               | Inr rec \<Rightarrow> (case handoff_payload w sv p rec of
                   None \<Rightarrow> fail_after (IncHandoffFailure OutcomePayloadInvalid) (500, HandoffPayloadInvalid)
                 | Some t \<Rightarrow> op_then IncHandoffOK (op_ret
                     \<lparr>ha_provider = p, ha_account = ho_account rec, ha_scopes = ho_scopes rec, ha_token = t\<rparr>)))))))"

definition refreshGoogleOAuth :: "world \<Rightarrow> server \<Rightarrow> env \<Rightarrow> string \<Rightarrow> json option \<Rightarrow> (failure, json_token) op" where
  "refreshGoogleOAuth w sv en peer body =
     (if bc_refresh_disabled (sv_config sv) then fail_after (IncKillSwitch SurfaceRefresh) (403, RefreshDisabled)
      else let bucket = sourceIPBucket w peer in
        rejectRateLimited en SurfaceRefresh (Key LimitKeyRefresh bucket) limitRefresh (case refresh_body body of
          None \<Rightarrow> op_fail (400, InvalidJSON)
        | Some r \<Rightarrow>
           (let token = trim_space (jr_token r); version = trim_space (jr_version r) in
            if token = '''' then op_fail (400, RefreshTokenRequired)
            else rejectAppVersionDisabled sv SurfaceRefresh version
              (case postGoogleToken w sv
                  ([(''grant_type'', ''refresh_token''), (''refresh_token'', token),
                    (''client_id'', bc_google_id (sv_config sv)), (''client_secret'', bc_google_secret (sv_config sv))] @
                   (if jr_scope r \<noteq> [] then [(''scope'', join_with '' '' (jr_scope r))] else [])) of
                 Inl e \<Rightarrow> op_bind (allow en (Key LimitKeyRefreshFail bucket) limitRefreshFailure) (\<lambda>ok.
                   if ok then
                     (if invalid_grant e then
                        op_then (IncRefreshFailure OutcomeInvalidGrant) (fail_after (IncQuotaRisk QuotaInvalidGrant) (400, InvalidRefreshToken))
                      else fail_after (IncRefreshFailure OutcomeGoogleFailed) (502, GoogleTokenRefreshFailed))
                   else fail_after (IncRateLimited SurfaceRefreshFailure) (429, RateLimited))
               | Inr t \<Rightarrow> op_then IncRefreshOK (op_ret \<lparr>jk_access = rt_access t, jk_refresh = rt_refresh t, jk_type = rt_type t,
                   jk_expiry = en_now en + seconds_of (rt_expires_in t)\<rparr>)))))"

definition revokeGoogleOAuth :: "world \<Rightarrow> server \<Rightarrow> env \<Rightarrow> string \<Rightarrow> json option \<Rightarrow> (failure, unit) op" where
  "revokeGoogleOAuth w sv en peer body =
     rejectRateLimited en SurfaceRevoke (Key LimitKeyRevoke (sourceIPBucket w peer)) limitRevoke (case revoke_body body of
       None \<Rightarrow> op_fail (400, InvalidJSON)
     | Some r \<Rightarrow>
        (let token = trim_space (jv_refresh r) in
         if token = '''' then op_fail (400, RefreshTokenRequired)
         else case revokeGoogleToken w sv token of
           Revoked \<Rightarrow> op_then IncRevokeOK (IncRevokeOutcome OutcomeOK)
         | AlreadyRevoked \<Rightarrow> op_then IncRevokeOK (IncRevokeOutcome OutcomeAlreadyRevoked)
         | RevokeFailed \<Rightarrow> fail_after (IncRevokeOutcome OutcomeGoogleFailed) (502, GoogleRevokeFailed)))"

definition revokeGitHubOAuth :: "world \<Rightarrow> server \<Rightarrow> env \<Rightarrow> string \<Rightarrow> json option \<Rightarrow> (failure, unit) op" where
  "revokeGitHubOAuth w sv en peer body =
     (if \<not> providerConfigured sv ProviderGitHub then op_fail (503, ProviderNotConfigured)
      else rejectRateLimited en SurfaceRevoke (Key LimitKeyRevoke (ProviderGitHub @ ''|'' @ sourceIPBucket w peer)) limitRevoke
        (case revoke_body body of
          None \<Rightarrow> op_fail (400, InvalidJSON)
        | Some r \<Rightarrow>
           (let token = trim_space (jv_access r) in
            if token = '''' then op_fail (400, AccessTokenRequired)
            else if revokeGitHubToken w sv token = Revoked then op_then IncRevokeOK (IncRevokeOutcome OutcomeOK)
            else fail_after (IncRevokeOutcome OutcomeGitHubFailed) (502, GitHubRevokeFailed))))"

definition revokeSlackOAuth :: "world \<Rightarrow> server \<Rightarrow> env \<Rightarrow> string \<Rightarrow> json option \<Rightarrow> (failure, unit) op" where
  "revokeSlackOAuth w sv en peer body =
     (if \<not> providerConfigured sv ProviderSlack then op_fail (503, ProviderNotConfigured)
      else rejectRateLimited en SurfaceRevoke (Key LimitKeyRevoke (ProviderSlack @ ''|'' @ sourceIPBucket w peer)) limitRevoke
        (case revoke_body body of
          None \<Rightarrow> op_fail (400, InvalidJSON)
        | Some r \<Rightarrow>
           (let token = trim_space (jv_access r) in
            if token = '''' then op_fail (400, AccessTokenRequired)
            else if revokeSlackToken w token = Revoked then op_then IncRevokeOK (IncRevokeOutcome OutcomeOK)
            else fail_after (IncRevokeOutcome OutcomeSlackFailed) (502, SlackRevokeFailed))))"


section \<open>The JSON routes do what the Connect operations do\<close>

definition answered :: "('e \<Rightarrow> 'f) \<Rightarrow> ('a \<Rightarrow> 'b) \<Rightarrow> ('e, 'a) op \<Rightarrow> ('f, 'b) op" where
  "answered f g m s = (case m s of (r, t) \<Rightarrow> (map_sum f g r, t))"

lemma answered_basic [simp]:
  "answered f g (op_ret x) = op_ret (g x)" "answered f g (op_fail e) = op_fail (f e)" "answered f id has_store = has_store"
  "answered f id (inc name label) = inc name label" "answered f id (allow en key limit) = allow en key limit"
  "answered f id (store_call c) = store_call c"
  by (auto simp: fun_eq_iff answered_def op_ret_def op_fail_def has_store_def inc_def allow_def store_call_def split: option.splits prod.splits)

lemma answered_bind: "answered f g (op_bind m k) = op_bind (answered f id m) (\<lambda>x. answered f g (k x))"
  by (auto simp: fun_eq_iff answered_def op_bind_def split: prod.splits sum.splits)

lemma answered_then [simp]: "answered f g (op_then m n) = op_then (answered f id m) (answered f g n)"
  "answered f g (fail_after m e) = fail_after (answered f id m) (f e)"
  by (simp_all add: op_then_def fail_after_def answered_bind)

lemma answered_inc [simp]:
  "answered f id IncAuthStart = IncAuthStart" "answered f id IncAuthStartFail = IncAuthStartFail" "answered f id IncHandoffOK = IncHandoffOK"
  "answered f id IncRefreshOK = IncRefreshOK" "answered f id IncRevokeOK = IncRevokeOK" "answered f id (IncCallback r) = IncCallback r"
  "answered f id (IncHandoffFailure r) = IncHandoffFailure r" "answered f id (IncRefreshFailure r) = IncRefreshFailure r"
  "answered f id (IncRevokeOutcome r) = IncRevokeOutcome r" "answered f id (IncRateLimited r) = IncRateLimited r"
  "answered f id (IncKillSwitch r) = IncKillSwitch r" "answered f id (IncQuotaRisk r) = IncQuotaRisk r"
  by (simp_all add: IncAuthStart_def IncAuthStartFail_def IncHandoffOK_def IncRefreshOK_def IncRevokeOK_def IncCallback_def
      IncHandoffFailure_def IncRefreshFailure_def IncRevokeOutcome_def IncRateLimited_def IncKillSwitch_def IncQuotaRisk_def incLabeled_def)

lemma answered_if: "answered f g (if b then m else n) = (if b then answered f g m else answered f g n)"
  "answered f g (case v of None \<Rightarrow> m | Some x \<Rightarrow> k x) = (case v of None \<Rightarrow> answered f g m | Some x \<Rightarrow> answered f g (k x))"
  "answered f g (case r of Inl e \<Rightarrow> h e | Inr x \<Rightarrow> k x) = (case r of Inl e \<Rightarrow> answered f g (h e) | Inr x \<Rightarrow> answered f g (k x))"
  by (auto split: option.splits sum.splits)

text \<open>The status that goes with a code.\<close>

definition route_status :: "string \<Rightarrow> int" where
  "route_status c =
     (if c = RateLimited then 429
      else if c \<in> set [AuthDisabled, RefreshDisabled, AppVersionDisabled] then 403
      else if c \<in> set [DatastoreUnavailable, ProviderNotConfigured] then 503
      else if c \<in> set [RandomStateFailed, RandomVerifierFailed, StatePersistFailed, AuthURLFailed, HandoffPayloadInvalid, HandoffConsumeFailed] then 500
      else if c \<in> set [GoogleTokenRefreshFailed, GoogleRevokeFailed, GitHubRevokeFailed, SlackRevokeFailed] then 502
      else 400)"

abbreviation (input) route_answer :: "string \<Rightarrow> failure" where "route_answer c \<equiv> (route_status c, c)"

lemma statuses:
  "route_status RateLimited = 429" "route_status AuthDisabled = 403" "route_status RefreshDisabled = 403" "route_status AppVersionDisabled = 403"
  "route_status DatastoreUnavailable = 503" "route_status ProviderNotConfigured = 503" "route_status RandomStateFailed = 500"
  "route_status RandomVerifierFailed = 500" "route_status StatePersistFailed = 500" "route_status AuthURLFailed = 500"
  "route_status HandoffPayloadInvalid = 500" "route_status HandoffConsumeFailed = 500" "route_status GoogleTokenRefreshFailed = 502"
  "route_status GoogleRevokeFailed = 502" "route_status GitHubRevokeFailed = 502" "route_status SlackRevokeFailed = 502"
  "route_status DesktopSessionAndHandoffChallengeRequired = 400" "route_status InvalidDesktopHandoffRedirect = 400"
  "route_status HandoffFieldsRequired = 400" "route_status HandoffAlreadyUsed = 400" "route_status HandoffExpired = 400"
  "route_status HandoffNotFound = 400" "route_status HandoffStateMismatch = 400" "route_status RefreshTokenRequired = 400"
  "route_status AccessTokenRequired = 400" "route_status InvalidRefreshToken = 400"
  by (simp_all add: route_status_def)

lemmas routes = Let_def answered_bind answered_if answered_then answered_basic answered_inc statuses id_apply

text \<open>The answers of the operations, as the routes write them.\<close>

definition started_answer :: "start_response \<Rightarrow> json_started" where
  "started_answer x = \<lparr>jt_url = sp_auth_url x, jt_state = sp_state x, jt_expires = sp_expires x\<rparr>"

definition token_written :: "token_material \<Rightarrow> json_token" where
  "token_written t = \<lparr>jk_access = tm_access t, jk_refresh = tm_refresh t, jk_type = tm_type t, jk_expiry = tm_expiry t\<rparr>"

definition handoff_written :: "string \<Rightarrow> handoff_response \<Rightarrow> handoff_answer" where
  "handoff_written p x = \<lparr>ha_provider = p, ha_account = hp_account x, ha_scopes = hp_scopes x, ha_token = token_written (hp_token x)\<rparr>"

lemma start_agrees:
  assumes "providerName pe = Some p" "start_body body = Some r"
  shows "startOAuth w sv en p peer body = answered route_answer started_answer (startAuthorization w sv en (sourceIPBucket w peer)
    \<lparr>sq_provider = pe, sq_session = js_session r, sq_challenge = js_challenge r, sq_redirect = js_redirect r,
     sq_app = Some (js_version r, js_platform r)\<rparr>)"
  unfolding startOAuth_def startAuthorization_def rejectAuthDisabled_def rejectRateLimited_def rejectAppVersionDisabled_def limited_def
      app_version_def app_platform_def begin_authorization_def new_state_def oauth_state.select_convs start_request.select_convs assms option.case
      prod.case routes started_answer_def start_response.select_convs
  by (rule refl)

lemma ret_bind: "op_bind (op_ret x) k = k x"
  by (simp add: fun_eq_iff op_bind_def op_ret_def)

lemma refused_answered: "answered route_answer g (refused_handoff en dimension '''' e) =
   op_then (failure_risk e) (op_then (IncHandoffFailure (fst (handoff_failure e)))
     (op_bind (allow en (Key LimitKeyHandoffFail dimension) limitHandoffFailure) (\<lambda>ok.
        if ok then op_fail (snd (handoff_failure e))
        else fail_after (IncRateLimited SurfaceHandoffFailure) (429, RateLimited))))"
  unfolding refused_handoff_def handoff_refusal_def refusal_risk_def handoff_failure_def failure_risk_def
  by (cases e) (simp_all add: ret_bind answered_bind answered_if statuses cong: if_cong)

lemma redeemed_answered: "answered route_answer (handoff_written p) (redeemed_handoff w sv req p rec) =
   (case handoff_payload w sv p rec of
      None \<Rightarrow> fail_after (IncHandoffFailure OutcomePayloadInvalid) (500, HandoffPayloadInvalid)
    | Some t \<Rightarrow> op_then IncHandoffOK (op_ret
        \<lparr>ha_provider = p, ha_account = ho_account rec, ha_scopes = ho_scopes rec, ha_token = t\<rparr>))"
  by (simp add: redeemed_handoff_def opened_handoff_def handoff_payload_def handoff_written_def token_written_def bearer_type_def
      answered_if statuses split: option.split)

lemma handoff_agrees:
  assumes "providerName pe = Some p" "handoff_body body = Some r" "br_store s \<noteq> None \<or> providerConfigured sv p"
  shows "exchangeProviderHandoff w sv en p peer body s =
    answered route_answer (handoff_written p)
      (exchangeHandoff w sv en (sourceIPBucket w peer) \<lparr>xq_provider = pe, xq_session = jh_session r, xq_state = jh_state r,
        xq_code = jh_code r, xq_verifier = jh_verifier r, xq_app = None\<rparr>) s"
proof (cases "providerConfigured sv p")
  case True
  have version: "app_version None = ''''" by (simp add: app_version_def)
  show ?thesis
    unfolding exchangeProviderHandoff_def exchangeHandoff_def rejectAuthDisabled_def rejectRateLimited_def limited_def
      handoff_request.select_convs assms(1,2) option.case routes refused_answered redeemed_answered version append_assoc
    using True by simp
next
  case False
  then show ?thesis using assms
    by (simp add: exchangeProviderHandoff_def exchangeHandoff_def op_bind_def has_store_def op_fail_def answered_def statuses)
qed

lemma refresh_agrees:
  assumes "refresh_body body = Some r" "providerConfigured sv ProviderGoogle"
  shows "refreshGoogleOAuth w sv en peer body = answered route_answer token_written (refreshToken w sv en (sourceIPBucket w peer)
    \<lparr>fq_provider = Google, fq_token = jr_token r, fq_scopes = jr_scope r, fq_app = Some (jr_version r, jr_platform r)\<rparr>)"
proof -
  have typed: "bearer_type (rt_type t) = rt_type t" if "postGoogleToken w sv form = Inr t" for form t
    using that by (auto simp: postGoogleToken_def read_token_answer_def bearer_type_def split: option.splits sum.splits if_splits)
  obtain creds where creds: "providerCredentials sv ProviderGoogle = Some creds" using assms(2) by (auto simp: providerConfigured_def)
  have p: "Option.bind (providerName Google) (\<lambda>p. map_option (Pair p) (providerCredentials sv p)) = Some (ProviderGoogle, creds)"
    by (simp add: providerName_def creds)
  have other: "(Google = GitHub \<or> Google = Slack) = False" "(Google = Bitbucket) = False" "(Google = Google) = True" by simp_all
  note defs = refreshGoogleOAuth_def refreshToken_def rejectRateLimited_def rejectAppVersionDisabled_def limited_def refresh_form_def
      refresh_request.select_convs app_version_def assms(1) p other if_False if_True option.case prod.case routes token_written_def token_material.select_convs append_assoc append_Cons append_Nil
  show ?thesis
  proof (cases "postGoogleToken w sv ([(''grant_type'', ''refresh_token''), (''refresh_token'', trim_space (jr_token r)),
                    (''client_id'', bc_google_id (sv_config sv)), (''client_secret'', bc_google_secret (sv_config sv))] @
                   (if jr_scope r \<noteq> [] then [(''scope'', join_with '' '' (jr_scope r))] else []))")
    case (Inl e)
    show ?thesis unfolding defs Inl [unfolded append_Cons append_Nil] sum.case routes by (rule refl)
  next
    case (Inr t)
    show ?thesis unfolding defs Inr [unfolded append_Cons append_Nil] sum.case routes typed [OF Inr] by (rule refl)
  qed
qed

lemma revoke_agrees:
  assumes "revoke_body body = Some r"
  shows "jv_access r = '''' \<Longrightarrow> providerConfigured sv ProviderGoogle \<Longrightarrow>
      revokeGoogleOAuth w sv en peer body = answered route_answer id (revokeToken w sv en (sourceIPBucket w peer)
        \<lparr>vq_provider = Google, vq_refresh = jv_refresh r, vq_access = '''', vq_reason = jv_reason r\<rparr>)"
    "jv_refresh r = '''' \<Longrightarrow>
      revokeGitHubOAuth w sv en peer body = answered route_answer id (revokeToken w sv en (sourceIPBucket w peer)
        \<lparr>vq_provider = GitHub, vq_refresh = '''', vq_access = jv_access r, vq_reason = jv_reason r\<rparr>)"
    "jv_refresh r = '''' \<Longrightarrow>
      revokeSlackOAuth w sv en peer body = answered route_answer id (revokeToken w sv en (sourceIPBucket w peer)
        \<lparr>vq_provider = Slack, vq_refresh = '''', vq_access = jv_access r, vq_reason = jv_reason r\<rparr>)"
proof -
  have google: "ProviderGitHub \<noteq> ProviderGoogle" "ProviderSlack \<noteq> ProviderGoogle" "ProviderSlack \<noteq> ProviderGitHub" by simp_all
  have split: "answered f id (case v of Revoked \<Rightarrow> m | AlreadyRevoked \<Rightarrow> n | RevokeFailed \<Rightarrow> o') =
      (case v of Revoked \<Rightarrow> answered f id m | AlreadyRevoked \<Rightarrow> answered f id n | RevokeFailed \<Rightarrow> answered f id o')" for f :: "string \<Rightarrow> failure"
      and v and m n o' :: "(string, unit) op"
    by (cases v) simp_all
  note defs = revokeToken_def rejectRateLimited_def limited_def revoke_request.select_convs providerName_def provider_enum.case assms option.case
    routes split
  show "revokeGoogleOAuth w sv en peer body = answered route_answer id (revokeToken w sv en (sourceIPBucket w peer)
        \<lparr>vq_provider = Google, vq_refresh = jv_refresh r, vq_access = '''', vq_reason = jv_reason r\<rparr>)"
    if "jv_access r = ''''" "providerConfigured sv ProviderGoogle"
    unfolding revokeGoogleOAuth_def defs using that by (simp add: statuses cong: if_cong)
  show "revokeGitHubOAuth w sv en peer body = answered route_answer id (revokeToken w sv en (sourceIPBucket w peer)
        \<lparr>vq_provider = GitHub, vq_refresh = '''', vq_access = jv_access r, vq_reason = jv_reason r\<rparr>)"
    if "jv_refresh r = ''''"
    unfolding revokeGitHubOAuth_def defs by (simp add: google statuses cong: if_cong)
  show "revokeSlackOAuth w sv en peer body = answered route_answer id (revokeToken w sv en (sourceIPBucket w peer)
        \<lparr>vq_provider = Slack, vq_refresh = '''', vq_access = jv_access r, vq_reason = jv_reason r\<rparr>)"
    if "jv_refresh r = ''''"
    unfolding revokeSlackOAuth_def defs by (simp add: google statuses cong: if_cong)
qed

end
