(* ===== verification/Broker_Properties.thy ===== *)
theory Broker_Properties
  imports Broker_Http "HOL-Library.Countable" Samples
begin

text \<open>
  The properties of the OAuth broker: its handoff table refines a vault of one-time codes, codes
  are redeemed once and by whom they were made for, tokens arrive, and the limiter's bounds.
\<close>

section \<open>A broker and its surroundings\<close>

text \<open>Sealing by an injection of JSON values into texts.\<close>

instance json :: countable by countable_datatype

definition sample_url :: url where
  "sample_url = \<lparr>ul_scheme = ''https'', ul_user = False, ul_host = ''b'', ul_hostname = ''b'', ul_path = '''', ul_query = '''', ul_fragment = ''''\<rparr>"

definition sample_world :: world where
  "sample_world = \<lparr>wd_http = (\<lambda>_. Some \<lparr>hr_status = 200, hr_text = '''', hr_json = Some (JObj [(''access_token'', JStr ''at'')]), hr_form = None\<rparr>),
     wd_parse = (\<lambda>_. Some sample_url), wd_print = ul_scheme, wd_set_query = (\<lambda>u _. u), wd_auth_url = aq_state, wd_path_escape = id,
     wd_sha256 = id, wd_seal = (\<lambda>_ _ j _. replicate (to_nat j) (CHR ''x'')), wd_open = (\<lambda>_ _ c _. Some (from_nat (length c))),
     wd_host = (\<lambda>_. None), wd_ip = (\<lambda>_. None)\<rparr>"

definition sample_config :: broker_config where
  "sample_config = \<lparr>bc_listen = '':1'', bc_origin = ''b'', bc_google_id = '''', bc_google_secret = '''', bc_google_handoff = ''s:'',
     bc_github_id = ''i'', bc_github_secret = ''k'', bc_github_handoff = ''s:'', bc_slack_id = '''', bc_slack_secret = '''', bc_slack_handoff = '''',
     bc_bitbucket_id = '''', bc_bitbucket_secret = '''', bc_bitbucket_handoff = '''', bc_dsn = ''d'', bc_state_ttl = 5 * minute,
     bc_handoff_ttl = 2 * minute, bc_google_scopes = [], bc_github_scopes = [''repo''], bc_slack_scopes = [], bc_bitbucket_scopes = [],
     bc_auth_disabled = False, bc_refresh_disabled = False, bc_disabled_versions = [], bc_metrics_token = ''''\<rparr>"

definition sample_server :: server where
  "sample_server = \<lparr>sv_config = sample_config, sv_google_token_url = '''', sv_google_revoke_url = '''', sv_github_token_url = '''', sv_github_revoke_url = ''''\<rparr>"

definition sample_env :: "int \<Rightarrow> env" where
  "sample_env m = \<lparr>en_now = at_minute m, en_limit_now = at_minute m, en_rand = (\<lambda>n. Some (replicate n (CHR ''r'')))\<rparr>"

definition sample_state :: "instant oauth_state" where
  "sample_state = \<lparr>os_id = ''st'', os_provider = ProviderGitHub, os_session = ''se'', os_verifier = ''v'', os_challenge = ''c'',
     os_handoff_challenge = pkceS256 sample_world ''ve'', os_redirect = '''', os_scopes = [''repo''], os_version = '''', os_platform = '''',
     os_bucket = '''', os_expires = at_minute 5, os_used = None\<rparr>"

definition sample_store :: broker_db where
  "sample_store = \<lparr>sd_states = [state_row sample_state], sd_handoffs = [], sd_foreign_keys = True\<rparr>"

definition sample_broker :: broker where
  "sample_broker = \<lparr>br_store = Some sample_store, br_limiter = None, br_metrics = None\<rparr>"

definition sample_query :: callback_query where
  "sample_query = \<lparr>cq_error = '''', cq_description = '''', cq_code = ''co'', cq_state = ''st''\<rparr>"

definition sample_code :: string where
  "sample_code = base64url (bytes_of (replicate 32 (CHR ''r'')))"

definition sample_request :: handoff_request where
  "sample_request = \<lparr>xq_provider = GitHub, xq_session = ''se'', xq_state = ''st'', xq_code = sample_code, xq_verifier = ''ve'', xq_app = None\<rparr>"

lemma sample_texts: "providerOrGoogle ''github'' = ''github''" "trim_space ''st'' = ''st''" "trim_space ''se'' = ''se''" "trim_space ''co'' = ''co''"
  "trim_space ''ve'' = ''ve''" "trim_space sample_code = sample_code" "sample_code \<noteq> ''''" "trim_space '''' = ''''"
  by code_simp+

lemma sample_printable: "printable (at_minute 5)" "printable (at_minute 2)"
  by (simp_all add: printable_def printable_day_def unix_seconds_def at_minute_def hour_def minute_def second_def)

lemma sample_seals: "opens_what_it_seals sample_world"
  by (simp add: opens_what_it_seals_def sample_world_def)

lemma sample_credentials: "providerCredentials sample_server ''github'' = Some \<lparr>cr_id = ''i'', cr_secret = ''k''\<rparr>"
  by code_simp

lemma sample_exchange: "exchangeProviderCode sample_world sample_server (at_minute 0) ''github'' ''co'' ''v'' =
    Inr \<lparr>tr_access = ''at'', tr_refresh = '''', tr_type = ''Bearer'', tr_expires_in = 0, tr_expiry = zero_time, tr_scope = ''''\<rparr>"
  by code_simp

lemma sample_consume: "\<exists>d1. ConsumeOAuthState ''st'' ''github'' (at_minute 0) sample_store = (Inr (sample_state\<lparr>os_used := Some (at_minute 0)\<rparr>), d1) \<and>
    sd_handoffs d1 = [] \<and> sd_states d1 = [(state_row sample_state)\<lparr>os_used := Some (formatTime (at_minute 0))\<rparr>] \<and> store_wf d1"
proof -
  have "at_minute 0 < at_minute 5" by (simp add: at_minute_def hour_def minute_def second_def)
  then show ?thesis
    by (simp add: ConsumeOAuthState_def selectOAuthState_def sample_store_def state_row_def sample_state_def sample_texts sample_printable
        Let_def store_wf_def)
qed

lemma sample_callback: "\<exists>t d. oauthCallback sample_world sample_server (sample_env 0) ''github'' '''' sample_query sample_broker = (Inr ''https'', t) \<and>
    br_store t = Some d \<and> br_limiter t = None \<and> \<not> handoff_spent (hashHandoffCode sample_world sample_code) d"
proof -
  let ?st = "sample_state\<lparr>os_used := Some (at_minute 0)\<rparr>"
  let ?tok = "\<lparr>tr_access = ''at'', tr_refresh = '''', tr_type = ''Bearer'', tr_expires_in = 0, tr_expiry = zero_time, tr_scope = ''''\<rparr>"
  obtain d1 where d1: "ConsumeOAuthState ''st'' ''github'' (at_minute 0) sample_store = (Inr ?st, d1)" "sd_handoffs d1 = []"
      "sd_states d1 = [(state_row sample_state)\<lparr>os_used := Some (formatTime (at_minute 0))\<rparr>]"
    using sample_consume by blast
  obtain payload where payload: "encryptTokenPayload sample_world (sample_env 0) (providerClientSecret sample_server ''github'')
      (handoffAAD (os_id ?st) (os_session ?st) (os_handoff_challenge ?st)) (payload_of (sample_env 0) ?tok) = Some payload"
    by (simp add: encryptTokenPayload_def payload_of_def tokenExpiry_def sample_env_def zero_time_def printable_def printable_day_def
        unix_seconds_def second_def)
  let ?r = "new_handoff sample_world sample_server (sample_env 0) ''github'' ?st ?tok sample_code payload"
  let ?d2 = "d1\<lparr>sd_handoffs := [handoff_row ?r]\<rparr>"
  have save: "SaveHandoff ?r d1 = (Inr (), ?d2)"
    by (simp add: SaveHandoff_def d1 new_handoff_def state_row_def sample_state_def)
  have "\<exists>t. oauthCallback sample_world sample_server (sample_env 0) ''github'' '''' sample_query sample_broker = (Inr ''https'', t) \<and> br_store t = Some ?d2 \<and>
      (br_limiter sample_broker = None \<longrightarrow> br_limiter t = None)"
    by (rule callback_runs [where d = sample_store and ?d2.0 = ?d2 and st = ?st and ?d1.0 = d1 and tok = ?tok and bytes = "replicate 32 (CHR ''r'')" and payload = payload])
      (use d1(1) payload save in \<open>simp_all add: sample_broker_def providerConfigured_def sample_credentials sample_query_def sample_texts allow_def
        sample_env_def sample_exchange buildHandoffURL_def sample_state_def sample_code_def\<close>,
       simp_all add: sample_server_def sample_config_def sample_world_def sample_url_def)
  moreover have "\<not> handoff_spent (hashHandoffCode sample_world sample_code) ?d2"
    by (simp add: handoff_spent_def new_handoff_def handoff_row_def)
  moreover have "br_limiter sample_broker = None" by (simp add: sample_broker_def)
  ultimately show ?thesis by blast
qed

text \<open>The request of the sample redeems what the callback of the sample stored.\<close>

lemma sample_settings: "br_store sample_broker = Some sample_store" "store_wf sample_store"
  "\<forall>n x. en_rand (sample_env 0) n = Some x \<longrightarrow> length x = n" "en_now (sample_env 0) + bc_handoff_ttl (sv_config sample_server) = at_minute 2"
  "printable (en_now (sample_env 0) + bc_handoff_ttl (sv_config sample_server))" "\<not> bc_auth_disabled (sv_config sample_server)"
  "en_now (sample_env 1) < at_minute 2" "en_now (sample_env 0) = at_minute 0"
proof -
  show ttl: "en_now (sample_env 0) + bc_handoff_ttl (sv_config sample_server) = at_minute 2"
    by (simp add: sample_env_def sample_server_def sample_config_def at_minute_def)
  then show "printable (en_now (sample_env 0) + bc_handoff_ttl (sv_config sample_server))" using sample_printable by simp
qed (auto simp: sample_broker_def sample_store_def store_wf_def sample_env_def sample_server_def sample_config_def
    at_minute_def hour_def minute_def second_def)

lemma sample_accepted:
  assumes "ConsumeOAuthState (trim_space (cq_state sample_query)) ''github'' (en_now (sample_env 0)) sample_store = (Inr st, d1)"
    and "exchangeProviderCode sample_world sample_server (en_now (sample_env 0)) ''github'' (trim_space (cq_code sample_query)) (os_verifier st) = Inr tok"
    and "randomString (sample_env 0) 32 = Some code" "br_limiter t = None"
  shows "code = sample_code" "tr_access tok = ''at''"
    "may_redeem sample_world ''github'' st code (en_now (sample_env 0) + bc_handoff_ttl (sv_config sample_server)) (sample_env 1) '''' sample_request t"
proof -
  have st: "st = sample_state\<lparr>os_used := Some (at_minute 0)\<rparr>"
    using sample_consume assms(1) unfolding sample_settings by (auto simp: sample_query_def sample_texts)
  show code: "code = sample_code" using assms(3) by (simp add: randomString_def sample_env_def sample_code_def)
  show "tr_access tok = ''at''" using assms(2) unfolding st sample_settings
    by (simp add: sample_query_def sample_texts sample_state_def sample_exchange) (metis token_response.select_convs(1))
  show "may_redeem sample_world ''github'' st code (en_now (sample_env 0) + bc_handoff_ttl (sv_config sample_server)) (sample_env 1) '''' sample_request t"
    unfolding sample_settings(4) using sample_settings(7)
    by (simp add: may_redeem_def sample_request_def providerName_def st code sample_state_def sample_texts allow_def assms(4))
qed


lemma sample_redeemed:
  "\<exists>t u resp. exchangeHandoff sample_world sample_server (sample_env 1) '''' sample_request t = (Inr resp, u) \<and>
     br_store t \<noteq> None \<and> tm_access (hp_token resp) = ''at''"
proof -
  obtain t d where t: "oauthCallback sample_world sample_server (sample_env 0) ''github'' '''' sample_query sample_broker = (Inr ''https'', t)"
      "br_store t = Some d" "br_limiter t = None" "\<not> handoff_spent (hashHandoffCode sample_world sample_code) d"
    using sample_callback by blast
  from redeems_what_was_stored [OF t(1) sample_settings(1,2) sample_seals sample_settings(3,5,6)]
  obtain st d1 tok code where run: "ConsumeOAuthState (trim_space (cq_state sample_query)) ''github'' (en_now (sample_env 0)) sample_store = (Inr st, d1)"
      "exchangeProviderCode sample_world sample_server (en_now (sample_env 0)) ''github'' (trim_space (cq_code sample_query)) (os_verifier st) = Inr tok"
      "randomString (sample_env 0) 32 = Some code" and
      later: "\<And>en' bucket' req. \<not> handoff_spent (hashHandoffCode sample_world code) d \<Longrightarrow>
        may_redeem sample_world ''github'' st code (en_now (sample_env 0) + bc_handoff_ttl (sv_config sample_server)) en' bucket' req t \<Longrightarrow>
        \<exists>resp. fst (exchangeHandoff sample_world sample_server en' bucket' req t) = Inr resp \<and> tm_access (hp_token resp) = tr_access tok"
    using t(2) by fastforce
  note ok = sample_accepted [OF run t(3)]
  obtain resp u where "exchangeHandoff sample_world sample_server (sample_env 1) '''' sample_request t = (Inr resp, u)"
      "tm_access (hp_token resp) = ''at''"
    using later [OF _ ok(3)] t(4) ok(1,2) by (metis prod.collapse)
  then show ?thesis using t(2) by blast
qed


section \<open>Properties\<close>

text \<open>
  Tokens arrive: when a callback succeeds it took the state out of the table, got tokens from
  the provider for the code of the callback with the verifier of that state, and sent the browser
  to the link of that state with a new handoff code. From then on, whatever requests the broker
  serves, as long as nobody has redeemed the code, the program that started the authorization gets
  exactly these tokens for it: it names the session, state and code, shows the verifier whose
  challenge it gave, and asks before the code expires and within the limit. What was sealed is
  assumed to open again, and random texts to have the length asked for.
\<close>

theorem connect_hands_over_tokens:
  assumes "oauthCallback w sv en p bucket q s = (Inr link, t)" "br_store s = Some d" "store_wf d"
    and "opens_what_it_seals w" "\<forall>n x. en_rand en n = Some x \<longrightarrow> length x = n" "printable (en_now en + bc_handoff_ttl (sv_config sv))"
    and "\<not> bc_auth_disabled (sv_config sv)"
  shows "\<exists>st d1 tok code. ConsumeOAuthState (trim_space (cq_state q)) p (en_now en) d = (Inr st, d1) \<and>
    exchangeProviderCode w sv (en_now en) p (trim_space (cq_code q)) (os_verifier st) = Inr tok \<and>
    randomString en 32 = Some code \<and> buildHandoffURL w sv st code = Some link \<and>
    (\<forall>u en' bucket' req d2. (broker_step w sv)\<^sup>*\<^sup>* t u \<and> br_store u = Some d2 \<and> \<not> handoff_spent (hashHandoffCode w code) d2 \<and>
       may_redeem w p st code (en_now en + bc_handoff_ttl (sv_config sv)) en' bucket' req u \<longrightarrow>
       (\<exists>resp. fst (exchangeHandoff w sv en' bucket' req u) = Inr resp \<and>
          hp_token resp = \<lparr>tm_access = tr_access tok, tm_refresh = tr_refresh tok, tm_type = bearer_type (tr_type tok),
            tm_expiry = tokenExpiry (en_now en) (tr_expires_in tok)\<rparr>))"
  by (rule redeems_what_was_stored [OF assms])

theorem connect_hands_over_tokens_witness:
  "\<exists>t resp. oauthCallback sample_world sample_server (sample_env 0) ''github'' '''' sample_query sample_broker = (Inr ''https'', t) \<and>
     fst (exchangeHandoff sample_world sample_server (sample_env 1) '''' sample_request t) = Inr resp \<and> tm_access (hp_token resp) = ''at''"
proof -
  obtain t d where t: "oauthCallback sample_world sample_server (sample_env 0) ''github'' '''' sample_query sample_broker = (Inr ''https'', t)"
      "br_store t = Some d" "br_limiter t = None" "\<not> handoff_spent (hashHandoffCode sample_world sample_code) d"
    using sample_callback by blast
  from connect_hands_over_tokens [OF t(1) sample_settings(1,2) sample_seals sample_settings(3,5,6)]
  obtain st d1 tok code where run: "ConsumeOAuthState (trim_space (cq_state sample_query)) ''github'' (en_now (sample_env 0)) sample_store = (Inr st, d1)"
      "exchangeProviderCode sample_world sample_server (en_now (sample_env 0)) ''github'' (trim_space (cq_code sample_query)) (os_verifier st) = Inr tok"
      "randomString (sample_env 0) 32 = Some code" and
      later: "\<And>en' bucket' req. \<not> handoff_spent (hashHandoffCode sample_world code) d \<Longrightarrow>
        may_redeem sample_world ''github'' st code (en_now (sample_env 0) + bc_handoff_ttl (sv_config sample_server)) en' bucket' req t \<Longrightarrow>
        \<exists>resp. fst (exchangeHandoff sample_world sample_server en' bucket' req t) = Inr resp \<and> tm_access (hp_token resp) = tr_access tok"
    using t(2) by fastforce
  note ok = sample_accepted [OF run t(3)]
  show ?thesis using later [OF _ ok(3)] t(1,4) ok(1,2) by fastforce
qed

text \<open>
  C20. The handlers of the JSON routes, which repeat the code of the Connect operations, do what
  these do: on a body that can be read they run the same computation on the store, the limiter and
  the counters and answer with the same code and values, a failure with the status of its code.
  Redeeming is compared with an operation that names no app version, and with a store or a
  configured provider, since the two report them in another order; refreshing and revoking at
  Google with Google configured, and revoking when only the one token is named, as the operations
  refuse requests that name both.
\<close>

theorem json_routes_agree:
  assumes "providerName pe = Some p"
  shows "(start_body body = Some r \<longrightarrow> startOAuth w sv en p peer body = answered route_answer started_answer
      (startAuthorization w sv en (sourceIPBucket w peer) \<lparr>sq_provider = pe, sq_session = js_session r, sq_challenge = js_challenge r,
        sq_redirect = js_redirect r, sq_app = Some (js_version r, js_platform r)\<rparr>)) \<and>
    (handoff_body body = Some h \<and> (br_store s \<noteq> None \<or> providerConfigured sv p) \<longrightarrow> exchangeProviderHandoff w sv en p peer body s =
      answered route_answer (handoff_written p)
        (exchangeHandoff w sv en (sourceIPBucket w peer) \<lparr>xq_provider = pe, xq_session = jh_session h, xq_state = jh_state h,
          xq_code = jh_code h, xq_verifier = jh_verifier h, xq_app = None\<rparr>) s) \<and>
    (refresh_body body = Some f \<and> providerConfigured sv ProviderGoogle \<longrightarrow> refreshGoogleOAuth w sv en peer body = answered route_answer token_written
      (refreshToken w sv en (sourceIPBucket w peer)
        \<lparr>fq_provider = Google, fq_token = jr_token f, fq_scopes = jr_scope f, fq_app = Some (jr_version f, jr_platform f)\<rparr>)) \<and>
    (revoke_body body = Some v \<and> jv_access v = '''' \<and> providerConfigured sv ProviderGoogle \<longrightarrow>
      revokeGoogleOAuth w sv en peer body = answered route_answer id (revokeToken w sv en (sourceIPBucket w peer)
        \<lparr>vq_provider = Google, vq_refresh = jv_refresh v, vq_access = '''', vq_reason = jv_reason v\<rparr>)) \<and>
    (revoke_body body = Some v \<and> jv_refresh v = '''' \<longrightarrow>
      revokeGitHubOAuth w sv en peer body = answered route_answer id (revokeToken w sv en (sourceIPBucket w peer)
        \<lparr>vq_provider = GitHub, vq_refresh = '''', vq_access = jv_access v, vq_reason = jv_reason v\<rparr>) \<and>
      revokeSlackOAuth w sv en peer body = answered route_answer id (revokeToken w sv en (sourceIPBucket w peer)
        \<lparr>vq_provider = Slack, vq_refresh = '''', vq_access = jv_access v, vq_reason = jv_reason v\<rparr>))"
  by (intro impI conjI; (elim conjE)?; (rule start_agrees handoff_agrees refresh_agrees revoke_agrees); (rule assms | assumption))+

theorem json_routes_agree_witness:
  "\<exists>t a. fst (exchangeProviderHandoff sample_world sample_server (sample_env 1) ''github'' '''' (Some (JObj
      [(''Desktop_Session_Id'', JStr ''se''), (''broker_state'', JStr '' st''), (''handoff_code'', JStr sample_code),
       (''handoff_verifier'', JStr ''ve'')])) t) = Inr a \<and> jk_access (ha_token a) = ''at''"
proof -
  let ?body = "Some (JObj [(''Desktop_Session_Id'', JStr ''se''), (''broker_state'', JStr '' st''), (''handoff_code'', JStr sample_code),
       (''handoff_verifier'', JStr ''ve'')])"
  let ?h = "\<lparr>jh_session = ''se'', jh_state = '' st'', jh_code = sample_code, jh_verifier = ''ve''\<rparr>"
  have body: "handoff_body ?body = Some ?h" by code_simp
  obtain t u resp where run: "exchangeHandoff sample_world sample_server (sample_env 1) '''' sample_request t = (Inr resp, u)"
      "br_store t \<noteq> None" "tm_access (hp_token resp) = ''at''"
    using sample_redeemed by blast
  have trim: "trim_space '' st'' = ''st''" by code_simp
  have same: "exchangeHandoff sample_world sample_server (sample_env 1) '''' \<lparr>xq_provider = GitHub, xq_session = ''se'', xq_state = '' st'',
      xq_code = sample_code, xq_verifier = ''ve'', xq_app = None\<rparr> = exchangeHandoff sample_world sample_server (sample_env 1) '''' sample_request"
    unfolding exchangeHandoff_def redeemed_handoff_def sample_request_def handoff_request.select_convs sample_texts trim by (rule refl)
  have bucket: "sourceIPBucket sample_world '''' = ''''" by (simp add: sourceIPBucket_def sample_world_def)
  have "providerName GitHub = Some ''github''" by code_simp
  from json_routes_agree [OF this, THEN conjunct2, THEN conjunct1, rule_format, of ?body ?h t, OF conjI, OF body]
  have "fst (exchangeProviderHandoff sample_world sample_server (sample_env 1) ''github'' '''' ?body t) = Inr (handoff_written ''github'' resp)"
    using run(2) by (simp add: bucket same run(1) answered_def)
  then show ?thesis using run(3) by (simp add: handoff_written_def token_written_def exI [of _ t])
qed

text \<open>
  C38. The handoff table refines a vault of one-time codes: redeeming a code and storing one act on
  the rows as they act on the vault, with the answers the vault gives, the calls on states leave
  the vault alone, and every call keeps the tables well formed.
\<close>

theorem handoffs_refine_vault:
  assumes "store_wf d"
  shows "(vault_take h (providerOrGoogle p, session, state, challenge) now (vault_of d) =
      (map_sum id sealed_of (fst (ConsumeHandoff h p session state challenge now d)),
       vault_of (snd (ConsumeHandoff h p session state challenge now d)))) \<and>
    (printable (ho_expires r) \<and> (sd_foreign_keys d \<longrightarrow> list_ex (\<lambda>x. os_id x = ho_state r) (sd_states d)) \<longrightarrow>
      vault_put (ho_hash r) (providerOrGoogle (ho_provider r), ho_session r, ho_state r, ho_challenge r) (ho_expires r)
        (sealed_of r) (vault_of d) = (fst (SaveHandoff r d), vault_of (snd (SaveHandoff r d)))) \<and>
    (vault_of (snd (SaveOAuthState st d)) = vault_of d) \<and>
    (vault_of (snd (ConsumeOAuthState i p now d)) = vault_of d) \<and>
    (store_step d d' \<longrightarrow> store_wf d')"
  using take_handoff [OF assms] put_handoff assms
  by (simp_all add: store_step_keeps SaveOAuthState_def ConsumeOAuthState_def vault_of_def Let_def fun_eq_iff split: option.splits)

theorem handoffs_refine_vault_witness:
  "fst (vault_take ''h'' (''github'', '''', '''', '''') 0 (vault_of sample_store)) = Inl StoreNotFound"
proof -
  have "fst (vault_take ''h'' (providerOrGoogle ''github'', '''', '''', '''') 0 (vault_of sample_store)) = Inl StoreNotFound"
    unfolding handoffs_refine_vault [OF sample_settings(2), THEN conjunct1] by (simp add: ConsumeHandoff_def selectHandoff_def sample_store_def)
  then show ?thesis by (simp add: sample_texts)
qed

text \<open>
  C39. Codes are redeemed once: an answer with tokens comes from a handoff that was unspent and not
  expired, made for the provider, session, state and verifier of the request; after it no request
  with this code is ever answered with tokens again and the table no longer holds its payload. In
  the same way the state of a successful callback never lets another callback succeed.
\<close>

theorem codes_redeemed_once:
  assumes "(broker_step w sv)\<^sup>*\<^sup>* t u"
  shows "(exchangeHandoff w sv en bucket req s = (Inr resp, t) \<longrightarrow>
      (\<exists>d p row. br_store s = Some d \<and> providerName (xq_provider req) = Some p \<and>
         find (\<lambda>r. ho_hash r = hashHandoffCode w (trim_space (xq_code req))) (sd_handoffs d) = Some row \<and> ho_used row = None \<and>
         en_now en < readTime (ho_expires row) \<and> providerOrGoogle (ho_provider row) = providerOrGoogle p \<and>
         ho_session row = trim_space (xq_session req) \<and> ho_state row = trim_space (xq_state req) \<and>
         ho_challenge row = pkceS256 w (trim_space (xq_verifier req)))) \<and>
    (exchangeHandoff w sv en bucket req s = (Inr resp, t) \<and>
       hashHandoffCode w (trim_space (xq_code req')) = hashHandoffCode w (trim_space (xq_code req)) \<longrightarrow>
       fst (exchangeHandoff w sv en' bucket' req' u) \<noteq> Inr resp') \<and>
    (exchangeHandoff w sv en bucket req s = (Inr resp, t) \<and> (\<forall>d. br_store s = Some d \<longrightarrow> store_wf d) \<longrightarrow>
       (\<forall>d r. br_store u = Some d \<and> r \<in> set (sd_handoffs d) \<and> ho_hash r = hashHandoffCode w (trim_space (xq_code req)) \<longrightarrow>
          ho_payload r = '''')) \<and>
    (oauthCallback w sv en p bucket q s = (Inr link, t) \<and> trim_space (cq_state q') = trim_space (cq_state q) \<longrightarrow>
       fst (oauthCallback w sv en' p' bucket' q' u) \<noteq> Inr link')"
proof (intro conjI)
  show "exchangeHandoff w sv en bucket req s = (Inr resp, t) \<longrightarrow>
      (\<exists>d p row. br_store s = Some d \<and> providerName (xq_provider req) = Some p \<and>
         find (\<lambda>r. ho_hash r = hashHandoffCode w (trim_space (xq_code req))) (sd_handoffs d) = Some row \<and> ho_used row = None \<and>
         en_now en < readTime (ho_expires row) \<and> providerOrGoogle (ho_provider row) = providerOrGoogle p \<and>
         ho_session row = trim_space (xq_session req) \<and> ho_state row = trim_space (xq_state req) \<and>
         ho_challenge row = pkceS256 w (trim_space (xq_verifier req)))"
  proof
    assume "exchangeHandoff w sv en bucket req s = (Inr resp, t)"
    from exchange_Inr [OF this] obtain d d' p rec where "br_store s = Some d" "providerName (xq_provider req) = Some p" and
      "ConsumeHandoff (hashHandoffCode w (trim_space (xq_code req))) p (trim_space (xq_session req)) (trim_space (xq_state req))
        (pkceS256 w (trim_space (xq_verifier req))) (en_now en) d = (Inr rec, d')"
      by blast
    then show "\<exists>d p row. br_store s = Some d \<and> providerName (xq_provider req) = Some p \<and>
         find (\<lambda>r. ho_hash r = hashHandoffCode w (trim_space (xq_code req))) (sd_handoffs d) = Some row \<and> ho_used row = None \<and>
         en_now en < readTime (ho_expires row) \<and> providerOrGoogle (ho_provider row) = providerOrGoogle p \<and>
         ho_session row = trim_space (xq_session req) \<and> ho_state row = trim_space (xq_state req) \<and>
         ho_challenge row = pkceS256 w (trim_space (xq_verifier req))"
      using consume_handoff_Inr(1) by blast
  qed
  show "exchangeHandoff w sv en bucket req s = (Inr resp, t) \<and> (\<forall>d. br_store s = Some d \<longrightarrow> store_wf d) \<longrightarrow>
       (\<forall>d r. br_store u = Some d \<and> r \<in> set (sd_handoffs d) \<and> ho_hash r = hashHandoffCode w (trim_space (xq_code req)) \<longrightarrow>
          ho_payload r = '''')"
  proof (intro impI allI)
    fix d r
    assume run: "exchangeHandoff w sv en bucket req s = (Inr resp, t) \<and> (\<forall>d. br_store s = Some d \<longrightarrow> store_wf d)"
      and r: "br_store u = Some d \<and> r \<in> set (sd_handoffs d) \<and> ho_hash r = hashHandoffCode w (trim_space (xq_code req))"
    obtain d0 d1 where d: "br_store s = Some d0" "br_store t = Some d1" using exchange_Inr run by blast
    have "store_ext s t" by (rule keeps_storeD [OF operations_keep(3)]) (use run in blast)
    then have "store_wf d1" using d run store_steps_keep(3) by (auto simp: store_ext_def)
    moreover have "store_step\<^sup>*\<^sup>* d1 d" using broker_steps_ext [OF assms] d r by (simp add: store_ext_def)
    moreover have "handoff_spent (hashHandoffCode w (trim_space (xq_code req))) d1" using exchange_spends d(2) run by blast
    ultimately show "ho_payload r = ''''" using spent_empty [of d _ r] store_steps_keep(2,3) r by blast
  qed
qed (use callback_once [OF _ assms] exchange_once [OF _ assms] in blast)+

theorem codes_redeemed_once_witness:
  "\<exists>t u resp. exchangeHandoff sample_world sample_server (sample_env 1) '''' sample_request t = (Inr resp, u) \<and>
     (\<forall>resp'. fst (exchangeHandoff sample_world sample_server (sample_env 1) '''' sample_request u) \<noteq> Inr resp')"
proof -
  obtain t u resp where "exchangeHandoff sample_world sample_server (sample_env 1) '''' sample_request t = (Inr resp, u)"
    using sample_redeemed by blast
  then show ?thesis using codes_redeemed_once [OF rtranclp.rtrancl_refl, THEN conjunct2, THEN conjunct1] by blast
qed

text \<open>
  C40. The limiter: a request is let through exactly when its key has no bucket that is open or the
  open one is not full, and in any interval as long as the window a key is admitted less than twice
  its limit, when calls come in the order of the clock.
\<close>

theorem admissions_bounded:
  assumes "calls_ok k limit calls" "0 < limit" "window < 2 ^ 63"
  shows "(hits k a (a + lm_window (New window)) (admitted (New window) calls) \<le> 2 * limit - 1) \<and>
    (limiter_ok l \<longrightarrow> fst (Allow k limit now l) = (case live now l k of None \<Rightarrow> True | Some b \<Rightarrow> bk_count b < limit))"
proof (intro conjI)
  have "limiter_ok (New window)" using assms(3) by (simp add: limiter_ok_def New_def minute_def second_def)
  then show "hits k a (a + lm_window (New window)) (admitted (New window) calls) \<le> 2 * limit - 1"
    by (rule admitted_bound [OF assms(1) _ assms(2)]) (simp add: New_def)
  show "limiter_ok l \<longrightarrow> fst (Allow k limit now l) = (case live now l k of None \<Rightarrow> True | Some b \<Rightarrow> bk_count b < limit)"
    using allow_fresh [OF _ assms(2)] allow_live(1) [OF _ assms(2)] by (auto split: option.splits)
qed

text \<open>The bound is met: with a limit of two, three calls come through within a second of each other.\<close>

theorem admissions_bounded_witness:
  "hits ''k'' (59 * second) (59 * second + lm_window (New 0)) (admitted (New 0)
     (map (\<lambda>s. (s * second, ''k'', 2)) [0, 59, 60, 60])) = 2 * 2 - 1"
proof (rule antisym)
  show "hits ''k'' (59 * second) (59 * second + lm_window (New 0)) (admitted (New 0) (map (\<lambda>s. (s * second, ''k'', 2)) [0, 59, 60, 60])) \<le> 2 * 2 - 1"
    by (rule admissions_bounded [THEN conjunct1]) (simp_all add: calls_ok_def second_def)
qed (simp add: New_def Allow_def evictExpired_def time_sub_def second_def minute_def)

end
