(* ===== verification/Paging.thy ===== *)
theory Paging
  imports Json
begin

text \<open>
  What the clients of the provider APIs share: encoding/json on nested values, and the loops that
  ask for page after page until there is none.
\<close>


section \<open>Nested values\<close>

text \<open>
  A struct, a pointer to one, and a slice, whose elements start from the zero value. \<open>field\<close> reads
  the member with this name, in lower case, into the struct.
\<close>

definition read_object :: "(string \<Rightarrow> json \<Rightarrow> 'r \<Rightarrow> 'r option) \<Rightarrow> json \<Rightarrow> 'r \<Rightarrow> 'r option" where
  "read_object field j old = (case j of
      JObj kvs \<Rightarrow> read_each (\<lambda>kv. field (to_lower (fst kv)) (snd kv)) kvs old
    | JNull \<Rightarrow> Some old | _ \<Rightarrow> None)"

definition read_pointer :: "(json \<Rightarrow> 'a \<Rightarrow> 'a option) \<Rightarrow> 'a \<Rightarrow> json \<Rightarrow> 'a option \<Rightarrow> 'a option option" where
  "read_pointer elem zero j old = (if j = JNull then Some None
     else map_option Some (elem j (case old of None \<Rightarrow> zero | Some x \<Rightarrow> x)))"

primrec read_all :: "('a \<Rightarrow> 'b option) \<Rightarrow> 'a list \<Rightarrow> 'b list option" where
  "read_all f [] = Some []"
| "read_all f (x # xs) = (case f x of None \<Rightarrow> None | Some y \<Rightarrow> map_option (Cons y) (read_all f xs))"

definition read_slice :: "(json \<Rightarrow> 'a \<Rightarrow> 'a option) \<Rightarrow> 'a \<Rightarrow> json \<Rightarrow> 'a list \<Rightarrow> 'a list option" where
  "read_slice elem zero j old = (case j of
      JList js \<Rightarrow> read_all (\<lambda>x. elem x zero) js | JNull \<Rightarrow> Some [] | _ \<Rightarrow> None)"

lemma read_all_Some: "read_all f xs = Some ys \<longleftrightarrow> list_all2 (\<lambda>x y. f x = Some y) xs ys"
  by (induction xs arbitrary: ys) (auto simp: list_all2_Cons1 split: option.splits)


section \<open>Pages\<close>

text \<open>
  \<open>get\<close> asks for the page with this key and gives its items with the key of the next page;
  \<open>use\<close> is the body of the loop over the items; \<open>enough\<close> is the condition on the accumulator that
  ends the loop. The other side decides when there is no next page: \<open>None\<close> is a loop that does not
  return.
\<close>

partial_function (option) fetch_pages ::
    "('k \<Rightarrow> ('s, 'i list \<times> 'k option) act) \<Rightarrow> ('i list \<Rightarrow> 'b \<Rightarrow> ('s, 'b) act) \<Rightarrow> ('b \<Rightarrow> bool) \<Rightarrow> 'k \<Rightarrow> 'b \<Rightarrow> 's \<Rightarrow>
       ((go_error + 'b) \<times> 's) option" where
  "fetch_pages get use enough k acc s =
     (case get k s of
        (Inl e, t) \<Rightarrow> Some (Inl e, t)
      | (Inr page, t) \<Rightarrow> (case use (fst page) acc t of
          (Inl e, u) \<Rightarrow> Some (Inl e, u)
        | (Inr acc', u) \<Rightarrow> if enough acc' then Some (Inr acc', u)
            else (case snd page of None \<Rightarrow> Some (Inr acc', u) | Some k' \<Rightarrow> fetch_pages get use enough k' acc' u)))"

declare fetch_pages.simps [code]

definition each_page ::
    "('k \<Rightarrow> ('s, 'i list \<times> 'k option) act) \<Rightarrow> ('i list \<Rightarrow> 'b \<Rightarrow> ('s, 'b) act) \<Rightarrow> ('b \<Rightarrow> bool) \<Rightarrow> 'k \<Rightarrow> 'b \<Rightarrow> ('s, 'b) act" where
  "each_page get use enough k acc s = (case fetch_pages get use enough k acc s of None \<Rightarrow> (Inl Diverges, s) | Some r \<Rightarrow> r)"

text \<open>
  A finite chain of pages: they are asked for in turn, each answer leaves the state alone and names
  the key of the next one, and the last page names none.
\<close>

inductive pages_from :: "('k \<Rightarrow> ('s, 'i list \<times> 'k option) act) \<Rightarrow> 'k \<Rightarrow> 'i list list \<Rightarrow> bool" for get where
  last_page: "(\<And>s. get k s = (Inr (is, None), s)) \<Longrightarrow> pages_from get k [is]"
| next_page: "(\<And>s. get k s = (Inr (is, Some k'), s)) \<Longrightarrow> pages_from get k' iss \<Longrightarrow> pages_from get k (is # iss)"

lemma each_page_chain:
  assumes "pages_from get k iss" "\<And>acc. \<not> enough acc"
  shows "each_page get use enough k acc s = fold_each use iss acc s"
proof -
  have "fetch_pages get use enough k acc s = Some (fold_each use iss acc s)"
    using assms(1)
    by (induction arbitrary: acc s)
      (subst fetch_pages.simps, simp add: act_bind_def assms(2) split: prod.split sum.split)+
  then show ?thesis by (simp add: each_page_def)
qed

text \<open>An invariant of the steps is one of the loop, whether or not there is an end of the pages.\<close>

lemma fetch_pages_invar:
  assumes step: "\<And>k s. I s \<Longrightarrow> I (state_of (get k s))" "\<And>is acc s. I s \<Longrightarrow> I (state_of (use is acc s))"
    and run: "fetch_pages get use enough k acc s = Some r" and start: "I s"
  shows "I (state_of r)"
proof -
  have "get = get \<longrightarrow> use = use \<longrightarrow> I s \<longrightarrow> I (state_of r)"
  proof (rule fetch_pages.raw_induct [of "\<lambda>g u en k acc s r. g = get \<longrightarrow> u = use \<longrightarrow> I s \<longrightarrow> I (state_of r)", OF _ run], intro impI)
    fix fetch g u en k acc s r
    assume IH: "\<And>g u en k acc s r. fetch g u en k acc s = Some r \<Longrightarrow> g = get \<longrightarrow> u = use \<longrightarrow> I s \<longrightarrow> I (state_of r)"
      and body: "(case g k s of (Inl e, t) \<Rightarrow> Some (Inl e, t) | (Inr page, t) \<Rightarrow> (case u (fst page) acc t of
          (Inl e, v) \<Rightarrow> Some (Inl e, v)
        | (Inr acc', v) \<Rightarrow> if en acc' then Some (Inr acc', v)
            else (case snd page of None \<Rightarrow> Some (Inr acc', v) | Some k' \<Rightarrow> fetch g u en k' acc' v))) = Some r"
      and "g = get" "u = use" "I s"
    obtain x t where got: "get k s = (x, t)" by fastforce
    then have t: "I t" using step(1) \<open>I s\<close> by (metis snd_conv)
    show "I (state_of r)"
    proof (cases x)
      case (Inr page)
      obtain y v where used: "use (fst page) acc t = (y, v)" by fastforce
      then have "I v" using step(2) t by (metis snd_conv)
      then show ?thesis using body IH got used Inr \<open>g = get\<close> \<open>u = use\<close>
        by (cases y; cases "snd page"; cases "en (projr y)") auto
    qed (use body got t \<open>g = get\<close> in auto)
  qed
  then show ?thesis using start by blast
qed

lemma each_page_invar:
  assumes "\<And>k s. I s \<Longrightarrow> I (state_of (get k s))" "\<And>is acc s. I s \<Longrightarrow> I (state_of (use is acc s))" "I s"
  shows "I (state_of (each_page get use enough k acc s))"
  using fetch_pages_invar [of I get use, OF assms(1,2) _ assms(3)] assms(3) by (auto simp: each_page_def split: option.splits)

text \<open>What the loop body keeps of the accumulator and of the state when it succeeds, the loop keeps.\<close>

lemma fetch_pages_result:
  assumes step: "\<And>acc k s x t. P acc s \<Longrightarrow> get k s = (Inr x, t) \<Longrightarrow> P acc t"
    and body: "\<And>is acc s acc' t. P acc s \<Longrightarrow> use is acc s = (Inr acc', t) \<Longrightarrow> P acc' t"
    and run: "fetch_pages get use enough k acc s = Some res" and start: "P acc s" and "res = (Inr r, u)"
  shows "P r u"
proof -
  have "get = get \<longrightarrow> use = use \<longrightarrow> P acc s \<longrightarrow> (\<forall>r u. res = (Inr r, u) \<longrightarrow> P r u)"
  proof (rule fetch_pages.raw_induct [of "\<lambda>g v en k acc s res. g = get \<longrightarrow> v = use \<longrightarrow> P acc s \<longrightarrow> (\<forall>r u. res = (Inr r, u) \<longrightarrow> P r u)", OF _ run],
      intro impI allI)
    fix fetch g v en k acc s res r u
    assume IH: "\<And>g v en k acc s res. fetch g v en k acc s = Some res \<Longrightarrow> g = get \<longrightarrow> v = use \<longrightarrow> P acc s \<longrightarrow> (\<forall>r u. res = (Inr r, u) \<longrightarrow> P r u)"
      and body': "(case g k s of (Inl e, t) \<Rightarrow> Some (Inl e, t) | (Inr page, t) \<Rightarrow> (case v (fst page) acc t of
          (Inl e, w) \<Rightarrow> Some (Inl e, w)
        | (Inr acc', w) \<Rightarrow> if en acc' then Some (Inr acc', w)
            else (case snd page of None \<Rightarrow> Some (Inr acc', w) | Some k' \<Rightarrow> fetch g v en k' acc' w))) = Some res"
      and "g = get" "v = use" "P acc s" "res = (Inr r, u)"
    obtain x t where got: "get k s = (x, t)" by fastforce
    show "P r u"
    proof (cases x)
      case (Inr page)
      then have t: "P acc t" using step \<open>P acc s\<close> got by blast
      obtain y w where used: "use (fst page) acc t = (y, w)" by fastforce
      show ?thesis
      proof (cases y)
        case (Inr acc')
        then have "P acc' w" using body t used by blast
        have cont: "fetch get use en k' acc' w = Some (Inr r, u) \<Longrightarrow> P r u" for k'
          using IH \<open>P acc' w\<close> by blast
        show ?thesis using body' cont got used \<open>P acc' w\<close> unfolding \<open>x = Inr page\<close> Inr \<open>g = get\<close> \<open>v = use\<close> \<open>res = (Inr r, u)\<close>
          by (cases "snd page"; cases "en acc'") simp_all
      qed (use body' got used \<open>x = Inr page\<close> \<open>g = get\<close> \<open>v = use\<close> \<open>res = (Inr r, u)\<close> in auto)
    qed (use body' got \<open>g = get\<close> \<open>res = (Inr r, u)\<close> in auto)
  qed
  then show ?thesis using start \<open>res = (Inr r, u)\<close> by blast
qed

lemma each_page_result:
  assumes "each_page get use enough k acc s = (Inr r, u)" "P acc s"
    and "\<And>acc k s x t. P acc s \<Longrightarrow> get k s = (Inr x, t) \<Longrightarrow> P acc t"
    and "\<And>is acc s acc' t. P acc s \<Longrightarrow> use is acc s = (Inr acc', t) \<Longrightarrow> P acc' t"
  shows "P r u"
  using fetch_pages_result [of P get use enough k acc s "(Inr r, u)", OF assms(3,4) _ assms(2)] assms(1)
  by (auto simp: each_page_def split: option.splits)

end
