(* ===== verification/Google.thy ===== *)
theory Google
  imports Paging Sync
begin

text \<open>
  The Google Calendar client: internal/integration/google/types.go, map.go and the pulls of
  provider.go. \<open>api\<close> answers a GET of a path with a query; signing the request and refreshing the
  token is the business of the client it goes through.
\<close>


section \<open>types.go\<close>

record event_time =
  et_date :: string
  et_date_time :: string
  et_time_zone :: string

record person =
  pe_email :: string
  pe_name :: string

record google_attendee =
  ga_email :: string
  ga_name :: string
  ga_response :: string
  ga_organizer :: bool
  ga_self :: bool

record google_event =
  ge_id :: string
  ge_recurring :: string
  ge_ical :: string
  ge_summary :: string
  ge_description :: string
  ge_location :: string
  ge_status :: string
  ge_start :: event_time
  ge_end :: event_time
  ge_original :: "event_time option"
  ge_organizer :: "person option"
  ge_attendees :: "google_attendee list"

record calendar_entry =
  ce_id :: string
  ce_summary :: string
  ce_primary :: bool

definition no_time :: event_time where
  "no_time = \<lparr>et_date = '''', et_date_time = '''', et_time_zone = ''''\<rparr>"

definition no_person :: person where
  "no_person = \<lparr>pe_email = '''', pe_name = ''''\<rparr>"

definition no_attendee :: google_attendee where
  "no_attendee = \<lparr>ga_email = '''', ga_name = '''', ga_response = '''', ga_organizer = False, ga_self = False\<rparr>"

definition no_event :: google_event where
  "no_event = \<lparr>ge_id = '''', ge_recurring = '''', ge_ical = '''', ge_summary = '''', ge_description = '''', ge_location = '''',
     ge_status = '''', ge_start = no_time, ge_end = no_time, ge_original = None, ge_organizer = None, ge_attendees = []\<rparr>"

definition no_calendar :: calendar_entry where
  "no_calendar = \<lparr>ce_id = '''', ce_summary = '''', ce_primary = False\<rparr>"

definition read_event_time :: "json \<Rightarrow> event_time \<Rightarrow> event_time option" where
  "read_event_time = read_object (\<lambda>k v r.
     if k = ''date'' then map_option (\<lambda>x. r\<lparr>et_date := x\<rparr>) (read_text v (et_date r))
     else if k = ''datetime'' then map_option (\<lambda>x. r\<lparr>et_date_time := x\<rparr>) (read_text v (et_date_time r))
     else if k = ''timezone'' then map_option (\<lambda>x. r\<lparr>et_time_zone := x\<rparr>) (read_text v (et_time_zone r))
     else Some r)"

definition read_person :: "json \<Rightarrow> person \<Rightarrow> person option" where
  "read_person = read_object (\<lambda>k v r.
     if k = ''email'' then map_option (\<lambda>x. r\<lparr>pe_email := x\<rparr>) (read_text v (pe_email r))
     else if k = ''displayname'' then map_option (\<lambda>x. r\<lparr>pe_name := x\<rparr>) (read_text v (pe_name r))
     else Some r)"

definition read_attendee :: "json \<Rightarrow> google_attendee \<Rightarrow> google_attendee option" where
  "read_attendee = read_object (\<lambda>k v r.
     if k = ''email'' then map_option (\<lambda>x. r\<lparr>ga_email := x\<rparr>) (read_text v (ga_email r))
     else if k = ''displayname'' then map_option (\<lambda>x. r\<lparr>ga_name := x\<rparr>) (read_text v (ga_name r))
     else if k = ''responsestatus'' then map_option (\<lambda>x. r\<lparr>ga_response := x\<rparr>) (read_text v (ga_response r))
     else if k = ''organizer'' then map_option (\<lambda>x. r\<lparr>ga_organizer := x\<rparr>) (read_flag v (ga_organizer r))
     else if k = ''self'' then map_option (\<lambda>x. r\<lparr>ga_self := x\<rparr>) (read_flag v (ga_self r))
     else Some r)"

definition read_event :: "json \<Rightarrow> google_event \<Rightarrow> google_event option" where
  "read_event = read_object (\<lambda>k v r.
     if k = ''id'' then map_option (\<lambda>x. r\<lparr>ge_id := x\<rparr>) (read_text v (ge_id r))
     else if k = ''recurringeventid'' then map_option (\<lambda>x. r\<lparr>ge_recurring := x\<rparr>) (read_text v (ge_recurring r))
     else if k = ''icaluid'' then map_option (\<lambda>x. r\<lparr>ge_ical := x\<rparr>) (read_text v (ge_ical r))
     else if k = ''summary'' then map_option (\<lambda>x. r\<lparr>ge_summary := x\<rparr>) (read_text v (ge_summary r))
     else if k = ''description'' then map_option (\<lambda>x. r\<lparr>ge_description := x\<rparr>) (read_text v (ge_description r))
     else if k = ''location'' then map_option (\<lambda>x. r\<lparr>ge_location := x\<rparr>) (read_text v (ge_location r))
     else if k = ''status'' then map_option (\<lambda>x. r\<lparr>ge_status := x\<rparr>) (read_text v (ge_status r))
     else if k = ''start'' then map_option (\<lambda>x. r\<lparr>ge_start := x\<rparr>) (read_event_time v (ge_start r))
     else if k = ''end'' then map_option (\<lambda>x. r\<lparr>ge_end := x\<rparr>) (read_event_time v (ge_end r))
     else if k = ''originalstarttime'' then map_option (\<lambda>x. r\<lparr>ge_original := x\<rparr>) (read_pointer read_event_time no_time v (ge_original r))
     else if k = ''organizer'' then map_option (\<lambda>x. r\<lparr>ge_organizer := x\<rparr>) (read_pointer read_person no_person v (ge_organizer r))
     else if k = ''attendees'' then map_option (\<lambda>x. r\<lparr>ge_attendees := x\<rparr>) (read_slice read_attendee no_attendee v (ge_attendees r))
     else Some r)"

definition read_calendar :: "json \<Rightarrow> calendar_entry \<Rightarrow> calendar_entry option" where
  "read_calendar = read_object (\<lambda>k v r.
     if k = ''id'' then map_option (\<lambda>x. r\<lparr>ce_id := x\<rparr>) (read_text v (ce_id r))
     else if k = ''summary'' then map_option (\<lambda>x. r\<lparr>ce_summary := x\<rparr>) (read_text v (ce_summary r))
     else if k = ''primary'' then map_option (\<lambda>x. r\<lparr>ce_primary := x\<rparr>) (read_flag v (ce_primary r))
     else Some r)"

text \<open>\<open>calendarListResponse\<close> and \<open>eventsListResponse\<close>: the items and the token of the next page.\<close>

definition read_listing :: "(json \<Rightarrow> 'i \<Rightarrow> 'i option) \<Rightarrow> 'i \<Rightarrow> json \<Rightarrow> ('i list \<times> string) option" where
  "read_listing elem zero j = read_object (\<lambda>k v r.
     if k = ''items'' then map_option (\<lambda>x. (x, snd r)) (read_slice elem zero v (fst r))
     else if k = ''nextpagetoken'' then map_option (\<lambda>x. (fst r, x)) (read_text v (snd r))
     else Some r) j ([], '''')"


section \<open>map.go\<close>

definition parseDateTime :: "string \<Rightarrow> instant option" where
  "parseDateTime raw = parse_rfc3339 raw"

text \<open>The key of an occurrence: its original start, or its start; an instant is written in UTC.\<close>

definition time_key :: "event_time \<Rightarrow> string" where
  "time_key t = (if et_date t \<noteq> '''' then et_date t
     else case parseDateTime (et_date_time t) of Some i \<Rightarrow> format_rfc3339 i | None \<Rightarrow> et_date_time t)"

definition instanceID :: "google_event \<Rightarrow> string" where
  "instanceID ev = (case ge_original ev of
      Some t \<Rightarrow> if et_date t \<noteq> '''' \<or> et_date_time t \<noteq> '''' then time_key t else time_key (ge_start ev)
    | None \<Rightarrow> time_key (ge_start ev))"

definition mapAttendees :: "google_attendee list \<Rightarrow> attendee list" where
  "mapAttendees = map (\<lambda>a. \<lparr>at_email = ga_email a, at_name = ga_name a, at_response = ga_response a,
     at_organizer = ga_organizer a, at_self = ga_self a\<rparr>)"

definition selfResponseStatus :: "google_attendee list \<Rightarrow> string" where
  "selfResponseStatus as = (case find ga_self as of Some a \<Rightarrow> ga_response a | None \<Rightarrow> '''')"

definition organizerLabel :: "person option \<Rightarrow> string" where
  "organizerLabel p = (case p of None \<Rightarrow> ''''
    | Some x \<Rightarrow> if trim_space (pe_name x) \<noteq> '''' then trim_space (pe_name x) else trim_space (pe_email x))"

text \<open>\<open>Inr None\<close> is an event that was cancelled.\<close>

definition mapEvent :: "int \<Rightarrow> google_event \<Rightarrow> go_error + incoming option" where
  "mapEvent c ev =
     (if ge_status ev = ''cancelled'' then Inr None
      else let inc = \<lparr>ie_calendar = c, ie_provider = ''google'', ie_external = ge_id ev,
             ie_instance = (if ge_recurring ev \<noteq> '''' then instanceID ev else ''''),
             ie_recurring = ge_recurring ev, ie_ical = ge_ical ev, ie_title = ge_summary ev, ie_description = ge_description ev,
             ie_location = ge_location ev, ie_organizer = organizerLabel (ge_organizer ev), ie_attendees = mapAttendees (ge_attendees ev),
             ie_status = selfResponseStatus (ge_attendees ev), ie_all_day = False, ie_start = None, ie_end = None,
             ie_start_date = '''', ie_end_date = '''', ie_tz = ''''\<rparr>;
           start_tz = trim_space (et_time_zone (ge_start ev))
       in if et_date (ge_start ev) \<noteq> '''' then
            Inr (Some (inc\<lparr>ie_all_day := True, ie_start_date := et_date (ge_start ev), ie_end_date := et_date (ge_end ev), ie_tz := start_tz\<rparr>))
          else case (parseDateTime (et_date_time (ge_start ev)), parseDateTime (et_date_time (ge_end ev))) of
            (Some s, Some e) \<Rightarrow> Inr (Some (inc\<lparr>ie_start := Some s, ie_end := Some e,
               ie_tz := (if start_tz \<noteq> '''' then start_tz else trim_space (et_time_zone (ge_end ev)))\<rparr>))
          | _ \<Rightarrow> Inl ErrOther)"


section \<open>provider.go\<close>

text \<open>
  Both bounds are midnights of UTC, whatever the time zone of the period.
\<close>

definition periodBounds :: "string \<Rightarrow> string \<Rightarrow> (string \<times> string) option" where
  "periodBounds start_date end_date =
     (case (parse_date start_date, parse_date end_date) of
        (Some s, Some e) \<Rightarrow> if e < s then None
          else Some (format_rfc3339 (s * 86400 * second), format_rfc3339 ((e + 1) * 86400 * second))
      | _ \<Rightarrow> None)"

type_synonym query = "(string \<times> string) list"
type_synonym 's api = "string \<Rightarrow> query \<Rightarrow> ('s, json) act"

text \<open>A page of a listing; an empty token means that it was the last one.\<close>

definition listing_page ::
    "'s api \<Rightarrow> string \<Rightarrow> query \<Rightarrow> (json \<Rightarrow> 'i \<Rightarrow> 'i option) \<Rightarrow> 'i \<Rightarrow> string \<Rightarrow> ('s, 'i list \<times> string option) act" where
  "listing_page api path q elem zero tok =
     act_bind (api path (q @ (if tok = '''' then [] else [(''pageToken'', tok)]))) (\<lambda>j.
       case read_listing elem zero j of None \<Rightarrow> act_throw ErrOther
       | Some (items, tok') \<Rightarrow> act_ret (items, if tok' = '''' then None else Some tok'))"

definition map_items :: "int \<Rightarrow> google_event list \<Rightarrow> go_error + incoming list" where
  "map_items c items = (case res_each (mapEvent c) items of Inl e \<Rightarrow> Inl e | Inr is \<Rightarrow> Inr (List.map_filter id is))"

text \<open>\<open>escape\<close> is \<open>url.PathEscape\<close>.\<close>

definition events_path :: "(string \<Rightarrow> string) \<Rightarrow> calendar \<Rightarrow> string" where
  "events_path escape cal = ''/calendars/'' @ escape (cl_external cal) @ ''/events''"

definition FetchEvents ::
    "(string \<Rightarrow> string) \<Rightarrow> 's api \<Rightarrow> string \<Rightarrow> string \<Rightarrow> calendar list \<Rightarrow> ('s, incoming list) act" where
  "FetchEvents escape api period_start period_end cals =
     (if cals = [] then act_ret []
      else case periodBounds period_start period_end of None \<Rightarrow> act_throw ErrOther
      | Some (time_min, time_max) \<Rightarrow>
          fold_each (\<lambda>cal. each_page
            (listing_page api (events_path escape cal) [(''singleEvents'', ''true''), (''orderBy'', ''startTime''), (''timeMin'', time_min), (''timeMax'', time_max)]
              read_event no_event)
            (\<lambda>items out. act_bind (act_lift (map_items (cl_id cal) items)) (\<lambda>is. act_ret (out @ is))) (\<lambda>_. False) '''') cals [])"

text \<open>\<open>upsert\<close> is the statement UpsertCalendar on the database of the state.\<close>

definition SyncCalendars ::
    "(string \<Rightarrow> string \<Rightarrow> string \<Rightarrow> bool \<Rightarrow> ('s, calendar) act) \<Rightarrow> 's api \<Rightarrow> ('s, calendar list) act" where
  "SyncCalendars upsert api = each_page (listing_page api ''/users/me/calendarList'' [] read_calendar no_calendar)
     (\<lambda>items out. act_bind (for_each (\<lambda>item.
         upsert ''google'' (ce_id item) (if trim_space (ce_summary item) = '''' then ce_id item else trim_space (ce_summary item)) (ce_primary item)) items)
       (\<lambda>cals. act_ret (out @ cals))) (\<lambda>_. False) '''' []"


section \<open>What a pull brings\<close>

text \<open>An occurrence keeps its key when the API writes its start with another offset.\<close>

lemma instance_of_instant:
  assumes "ge_original ev = Some t" "et_date t = ''''" "parseDateTime (et_date_time t) = Some i" "et_date_time t \<noteq> ''''"
  shows "instanceID ev = format_rfc3339 i"
  using assms by (simp add: instanceID_def time_key_def)

lemma fold_append: "(\<And>x acc s. x \<in> set xs \<Longrightarrow> f x acc s = (Inr (acc @ g x), s)) \<Longrightarrow> fold_each f xs acc s = (Inr (acc @ concat (map g xs)), s)"
  by (induction xs arbitrary: acc) (simp_all add: act_bind_def)

text \<open>Where the listings come to an end and their events can be read, every event that is not cancelled is brought, in order.\<close>

abbreviation events_page :: "(string \<Rightarrow> string) \<Rightarrow> 's api \<Rightarrow> string \<Rightarrow> string \<Rightarrow> calendar \<Rightarrow> string \<Rightarrow> ('s, google_event list \<times> string option) act" where
  "events_page escape api time_min time_max cal \<equiv> listing_page api (events_path escape cal)
     [(''singleEvents'', ''true''), (''orderBy'', ''startTime''), (''timeMin'', time_min), (''timeMax'', time_max)] read_event no_event"

lemma fetch_brings_all:
  fixes api :: "'s api"
  assumes bounds: "periodBounds period_start period_end = Some (time_min, time_max)"
    and pages: "\<And>cal. cal \<in> set cals \<Longrightarrow> pages_from (events_page escape api time_min time_max cal) '''' (pages cal)"
    and events: "\<And>cal ev. cal \<in> set cals \<Longrightarrow> ev \<in> set (concat (pages cal)) \<Longrightarrow> mapEvent (cl_id cal) ev = Inr (m cal ev)"
  shows "FetchEvents escape api period_start period_end cals s =
    (Inr (concat (map (\<lambda>cal. List.map_filter (m cal) (concat (pages cal))) cals)), s)"
proof -
  let ?use = "\<lambda>cal items out. act_bind (act_lift (map_items (cl_id cal) items)) (\<lambda>is. act_ret (out @ is)) :: ('s, incoming list) act"
  have use: "?use cal items out s = (Inr (out @ List.map_filter (m cal) items), s)" if "cal \<in> set cals" "items \<in> set (pages cal)" for cal items out and s :: 's
  proof -
    have "res_each (mapEvent (cl_id cal)) items = Inr (map (m cal) items)"
      using events that by (intro res_each_total) auto
    moreover have "List.map_filter id (map (m cal) items) = List.map_filter (m cal) items"
      by (simp add: List.map_filter_def filter_map o_def)
    ultimately show ?thesis by (simp add: map_items_def act_bind_def)
  qed
  have cal: "each_page (events_page escape api time_min time_max cal) (?use cal) (\<lambda>_. False) '''' out s =
      (Inr (out @ List.map_filter (m cal) (concat (pages cal))), s)" if "cal \<in> set cals" for cal out and s :: 's
  proof -
    have "fold_each (?use cal) (pages cal) out s = (Inr (out @ concat (map (List.map_filter (m cal)) (pages cal))), s)"
      using use [OF that] by (intro fold_append) auto
    moreover have "concat (map (List.map_filter (m cal)) iss) = List.map_filter (m cal) (concat iss)" for iss
      by (induction iss) (simp_all add: List.map_filter_def)
    ultimately show ?thesis by (simp add: each_page_chain [OF pages [OF that]])
  qed
  show ?thesis
    unfolding FetchEvents_def using bounds by (simp add: fold_append [OF cal])
qed

text \<open>What is asked for is a span of UTC days: on the last day of a period in a zone behind UTC the evening is left out.\<close>

lemma bounds_are_utc:
  assumes "parse_date a = Some s" "parse_date b = Some e" "s \<le> e" "printable (s * 86400 * second)" "printable ((e + 1) * 86400 * second)"
  shows "\<exists>tmin tmax. periodBounds a b = Some (tmin, tmax) \<and> parse_rfc3339 tmin = Some (s * 86400 * second) \<and>
    parse_rfc3339 tmax = Some ((e + 1) * 86400 * second)"
  using assms by (simp add: periodBounds_def)

lemma evening_left_out:
  assumes "parse_date b = Some e" "printable ((e + 1) * 86400 * second)" "- 86400 \<le> c" "c < 0"
    and "periodBounds a b = Some (tmin, tmax)"
  shows "\<exists>i tmax'. local_day (fixed_location c) i = e \<and> parse_rfc3339 tmax = Some tmax' \<and> tmax' \<le> i"
proof -
  have "local_day (fixed_location c) ((e + 1) * 86400 * second) = e"
    using assms(3,4) by (simp add: local_day_def wall_seconds_def unix_seconds_def fixed_location_def second_def)
  moreover have "parse_rfc3339 tmax = Some ((e + 1) * 86400 * second)"
    using assms(1,2,5) by (auto simp: periodBounds_def split: option.splits if_splits)
  ultimately show ?thesis by (intro exI [of _ "(e + 1) * 86400 * second"]) simp
qed

end
