(* ===== verification/Connections.thy ===== *)
theory Connections
  imports Oauth Google
begin

text \<open>
  The desktop's side of an integration: the rows of internal/db/sqlc about accounts, repositories,
  channels and workspaces, the registry of connections (internal/integration/connection), the token
  store (internal/integration/secrets) and the client that signs requests
  (internal/integration/httpclient).
\<close>


section \<open>State\<close>

record connection =
  cn_id :: int
  cn_provider :: string
  cn_label :: string
  cn_account :: string
  cn_scopes :: json
  cn_status :: string

record github_repo =
  hr_id :: int
  hr_account :: string
  hr_external :: string
  hr_name :: string
  hr_full :: string
  hr_private :: bool
  hr_selected :: bool

record slack_channel =
  sc_id :: int
  sc_account :: string
  sc_external :: string
  sc_name :: string
  sc_private :: bool
  sc_selected :: bool

record bitbucket_workspace =
  bw_id :: int
  bw_account :: string
  bw_external :: string
  bw_slug :: string
  bw_name :: string
  bw_selected :: bool

record bitbucket_repo =
  bp_id :: int
  bp_account :: string
  bp_workspace :: string
  bp_external :: string
  bp_name :: string
  bp_full :: string
  bp_private :: bool
  bp_selected :: bool

text \<open>\<open>Token\<close>; the zero time is a token without expiry. The source is empty for a token of unknown origin.\<close>

record token =
  tk_access :: string
  tk_type :: string
  tk_refresh :: string
  tk_expiry :: instant
  tk_source :: string

abbreviation (input) SourceBroker :: string where "SourceBroker \<equiv> ''broker''"
abbreviation (input) SourceLocalOAuth :: string where "SourceLocalOAuth \<equiv> ''local_oauth''"
abbreviation (input) SourcePAT :: string where "SourcePAT \<equiv> ''pat''"

text \<open>
  The database with the tables of the integrations, the keychain by the key of its entries, the
  requests sent so far and the delays waited, the last one last.
\<close>

record desk =
  dk_db :: db
  dk_connections :: "connection table"
  dk_repos :: "github_repo table"
  dk_channels :: "slack_channel table"
  dk_workspaces :: "bitbucket_workspace table"
  dk_bitbucket :: "bitbucket_repo table"
  dk_tokens :: "string \<Rightarrow> token option"
  dk_sent :: "http_request list"
  dk_waits :: "int list"

abbreviation put_connections :: "connection table \<Rightarrow> desk \<Rightarrow> desk" where "put_connections t d \<equiv> d\<lparr>dk_connections := t\<rparr>"
abbreviation put_repos :: "github_repo table \<Rightarrow> desk \<Rightarrow> desk" where "put_repos t d \<equiv> d\<lparr>dk_repos := t\<rparr>"
abbreviation put_channels :: "slack_channel table \<Rightarrow> desk \<Rightarrow> desk" where "put_channels t d \<equiv> d\<lparr>dk_channels := t\<rparr>"
abbreviation put_workspaces :: "bitbucket_workspace table \<Rightarrow> desk \<Rightarrow> desk" where "put_workspaces t d \<equiv> d\<lparr>dk_workspaces := t\<rparr>"
abbreviation put_bitbucket :: "bitbucket_repo table \<Rightarrow> desk \<Rightarrow> desk" where "put_bitbucket t d \<equiv> d\<lparr>dk_bitbucket := t\<rparr>"

text \<open>
  What lies outside: the answer of a server to a request, given those that went before; the query
  and path encodings of net/url; the keychain, which may refuse a call on a key; the date format of
  Retry-After, and the clock.
\<close>

datatype keychain_call = KeychainGet | KeychainSet | KeychainDelete

record api_response = http_response +
  ar_retry_after :: string

record remote =
  rm_http :: "http_request list \<Rightarrow> http_request \<Rightarrow> api_response option"
  rm_encode :: "(string \<times> string) list \<Rightarrow> string"
  rm_escape :: "string \<Rightarrow> string"
  rm_refuses :: "keychain_call \<Rightarrow> string \<Rightarrow> bool"
  rm_parse_time :: "string \<Rightarrow> instant option"
  rm_clock :: "http_request list \<Rightarrow> instant"

text \<open>
  A step that fails is followed by another one, whose own failure is not the one reported. After a
  step that never returns there is no other one.
\<close>

definition on_error :: "('s, 'a) act \<Rightarrow> ('s, 'b) act \<Rightarrow> ('s, 'a) act" where
  "on_error m h = (\<lambda>s. case m s of
      (Inl e, t) \<Rightarrow> (Inl e, if e = Diverges then t else state_of (h t))
    | (Inr x, t) \<Rightarrow> (Inr x, t))"

text \<open>A step whose failure is ignored.\<close>

definition best_effort :: "('s, 'a) act \<Rightarrow> ('s, unit) act" where
  "best_effort m = (\<lambda>s. (Inr (), state_of (m s)))"


section \<open>Statements\<close>

text \<open>integration_connection.sql.go; UNIQUE (provider, account_id) and a CHECK of the status.\<close>

definition cn_ok :: "desk \<Rightarrow> connection \<Rightarrow> bool" where
  "cn_ok d r \<longleftrightarrow> cn_status r \<in> {''connected'', ''needs_reauth'', ''disconnected''} \<and>
     list_all (\<lambda>x. cn_id x = cn_id r \<or> (cn_provider x, cn_account x) \<noteq> (cn_provider r, cn_account r)) (tbl_rows (dk_connections d))"

definition q_ListIntegrationConnections :: "desk \<Rightarrow> connection list" where
  "q_ListIntegrationConnections d = sort_key (\<lambda>r. (cn_provider r, cn_label r)) (tbl_rows (dk_connections d))"

definition q_ListIntegrationConnectionsByProvider :: "string \<Rightarrow> desk \<Rightarrow> connection list" where
  "q_ListIntegrationConnectionsByProvider p d = sort_key cn_label (select_rows (\<lambda>r. cn_provider r = p) (dk_connections d))"

definition q_GetIntegrationConnection :: "string \<Rightarrow> string \<Rightarrow> desk \<Rightarrow> connection option" where
  "q_GetIntegrationConnection p a d = find_row (\<lambda>r. cn_provider r = p \<and> cn_account r = a) (dk_connections d)"

definition q_UpsertIntegrationConnection :: "string \<Rightarrow> string \<Rightarrow> string \<Rightarrow> json \<Rightarrow> string \<Rightarrow> (desk, connection) act" where
  "q_UpsertIntegrationConnection p label a scopes status = upsert_into dk_connections put_connections cn_ok
     (\<lambda>r. cn_provider r = p \<and> cn_account r = a)
     (\<lambda>r. r\<lparr>cn_label := label, cn_scopes := scopes, cn_status := status\<rparr>)
     (\<lambda>i. \<lparr>cn_id = i, cn_provider = p, cn_label = label, cn_account = a, cn_scopes = scopes, cn_status = status\<rparr>)"

definition q_UpdateIntegrationConnectionStatus :: "string \<Rightarrow> string \<Rightarrow> string \<Rightarrow> (desk, unit) act" where
  "q_UpdateIntegrationConnectionStatus status p a = act_seq
     (update_where dk_connections put_connections cn_ok (\<lambda>r. cn_provider r = p \<and> cn_account r = a) (\<lambda>r. r\<lparr>cn_status := status\<rparr>))
     (act_ret ())"

definition q_DeleteIntegrationConnection :: "string \<Rightarrow> string \<Rightarrow> (desk, unit) act" where
  "q_DeleteIntegrationConnection p a = act_seq
     (delete_where dk_connections put_connections (\<lambda>r. cn_provider r = p \<and> cn_account r = a)) (act_ret ())"

text \<open>github_repo.sql.go, slack_channel.sql.go, bitbucket_resources.sql.go; all UNIQUE (account_id, external_id).\<close>

definition hr_ok :: "desk \<Rightarrow> github_repo \<Rightarrow> bool" where
  "hr_ok d r \<longleftrightarrow> list_all (\<lambda>x. hr_id x = hr_id r \<or> (hr_account x, hr_external x) \<noteq> (hr_account r, hr_external r)) (tbl_rows (dk_repos d))"

definition q_ListGitHubRepos :: "desk \<Rightarrow> github_repo list" where
  "q_ListGitHubRepos d = sort_key hr_full (tbl_rows (dk_repos d))"

definition q_ListSelectedGitHubRepos :: "desk \<Rightarrow> github_repo list" where
  "q_ListSelectedGitHubRepos d = sort_key hr_full (select_rows hr_selected (dk_repos d))"

definition q_UpsertGitHubRepo :: "string \<Rightarrow> string \<Rightarrow> string \<Rightarrow> string \<Rightarrow> bool \<Rightarrow> bool \<Rightarrow> (desk, github_repo) act" where
  "q_UpsertGitHubRepo a ext name full private selected = upsert_into dk_repos put_repos hr_ok
     (\<lambda>r. hr_account r = a \<and> hr_external r = ext)
     (\<lambda>r. r\<lparr>hr_name := name, hr_full := full, hr_private := private\<rparr>)
     (\<lambda>i. \<lparr>hr_id = i, hr_account = a, hr_external = ext, hr_name = name, hr_full = full, hr_private = private, hr_selected = selected\<rparr>)"

definition q_SetGitHubRepoSelected :: "bool \<Rightarrow> int \<Rightarrow> (desk, unit) act" where
  "q_SetGitHubRepoSelected b i = act_seq (update_where dk_repos put_repos hr_ok (\<lambda>r. hr_id r = i) (\<lambda>r. r\<lparr>hr_selected := b\<rparr>)) (act_ret ())"

definition q_DeleteGitHubReposByAccount :: "string \<Rightarrow> (desk, unit) act" where
  "q_DeleteGitHubReposByAccount a = act_seq (delete_where dk_repos put_repos (\<lambda>r. hr_account r = a)) (act_ret ())"

definition sc_ok :: "desk \<Rightarrow> slack_channel \<Rightarrow> bool" where
  "sc_ok d r \<longleftrightarrow> list_all (\<lambda>x. sc_id x = sc_id r \<or> (sc_account x, sc_external x) \<noteq> (sc_account r, sc_external r)) (tbl_rows (dk_channels d))"

definition q_ListSlackChannels :: "desk \<Rightarrow> slack_channel list" where
  "q_ListSlackChannels d = sort_key sc_name (tbl_rows (dk_channels d))"

definition q_ListSelectedSlackChannels :: "desk \<Rightarrow> slack_channel list" where
  "q_ListSelectedSlackChannels d = sort_key sc_name (select_rows sc_selected (dk_channels d))"

definition q_UpsertSlackChannel :: "string \<Rightarrow> string \<Rightarrow> string \<Rightarrow> bool \<Rightarrow> bool \<Rightarrow> (desk, slack_channel) act" where
  "q_UpsertSlackChannel a ext name private selected = upsert_into dk_channels put_channels sc_ok
     (\<lambda>r. sc_account r = a \<and> sc_external r = ext)
     (\<lambda>r. r\<lparr>sc_name := name, sc_private := private\<rparr>)
     (\<lambda>i. \<lparr>sc_id = i, sc_account = a, sc_external = ext, sc_name = name, sc_private = private, sc_selected = selected\<rparr>)"

definition q_SetSlackChannelSelected :: "bool \<Rightarrow> int \<Rightarrow> (desk, unit) act" where
  "q_SetSlackChannelSelected b i = act_seq (update_where dk_channels put_channels sc_ok (\<lambda>r. sc_id r = i) (\<lambda>r. r\<lparr>sc_selected := b\<rparr>)) (act_ret ())"

definition q_DeleteSlackChannelsByAccount :: "string \<Rightarrow> (desk, unit) act" where
  "q_DeleteSlackChannelsByAccount a = act_seq (delete_where dk_channels put_channels (\<lambda>r. sc_account r = a)) (act_ret ())"

definition bw_ok :: "desk \<Rightarrow> bitbucket_workspace \<Rightarrow> bool" where
  "bw_ok d r \<longleftrightarrow> list_all (\<lambda>x. bw_id x = bw_id r \<or> (bw_account x, bw_external x) \<noteq> (bw_account r, bw_external r)) (tbl_rows (dk_workspaces d))"

definition q_ListBitbucketWorkspaces :: "desk \<Rightarrow> bitbucket_workspace list" where
  "q_ListBitbucketWorkspaces d = sort_key bw_name (tbl_rows (dk_workspaces d))"

definition q_UpsertBitbucketWorkspace :: "string \<Rightarrow> string \<Rightarrow> string \<Rightarrow> string \<Rightarrow> bool \<Rightarrow> (desk, bitbucket_workspace) act" where
  "q_UpsertBitbucketWorkspace a ext slug name selected = upsert_into dk_workspaces put_workspaces bw_ok
     (\<lambda>r. bw_account r = a \<and> bw_external r = ext)
     (\<lambda>r. r\<lparr>bw_slug := slug, bw_name := name\<rparr>)
     (\<lambda>i. \<lparr>bw_id = i, bw_account = a, bw_external = ext, bw_slug = slug, bw_name = name, bw_selected = selected\<rparr>)"

definition q_SetBitbucketWorkspaceSelected :: "bool \<Rightarrow> int \<Rightarrow> (desk, unit) act" where
  "q_SetBitbucketWorkspaceSelected b i = act_seq
     (update_where dk_workspaces put_workspaces bw_ok (\<lambda>r. bw_id r = i) (\<lambda>r. r\<lparr>bw_selected := b\<rparr>)) (act_ret ())"

definition q_DeleteBitbucketWorkspacesByAccount :: "string \<Rightarrow> (desk, unit) act" where
  "q_DeleteBitbucketWorkspacesByAccount a = act_seq (delete_where dk_workspaces put_workspaces (\<lambda>r. bw_account r = a)) (act_ret ())"

definition bp_ok :: "desk \<Rightarrow> bitbucket_repo \<Rightarrow> bool" where
  "bp_ok d r \<longleftrightarrow> list_all (\<lambda>x. bp_id x = bp_id r \<or> (bp_account x, bp_external x) \<noteq> (bp_account r, bp_external r)) (tbl_rows (dk_bitbucket d))"

definition q_ListBitbucketRepos :: "desk \<Rightarrow> bitbucket_repo list" where
  "q_ListBitbucketRepos d = sort_key bp_full (tbl_rows (dk_bitbucket d))"

definition q_ListSelectedBitbucketRepos :: "desk \<Rightarrow> bitbucket_repo list" where
  "q_ListSelectedBitbucketRepos d = sort_key bp_full (select_rows bp_selected (dk_bitbucket d))"

definition q_UpsertBitbucketRepo ::
    "string \<Rightarrow> string \<Rightarrow> string \<Rightarrow> string \<Rightarrow> string \<Rightarrow> bool \<Rightarrow> bool \<Rightarrow> (desk, bitbucket_repo) act" where
  "q_UpsertBitbucketRepo a workspace ext name full private selected = upsert_into dk_bitbucket put_bitbucket bp_ok
     (\<lambda>r. bp_account r = a \<and> bp_external r = ext)
     (\<lambda>r. r\<lparr>bp_workspace := workspace, bp_name := name, bp_full := full, bp_private := private\<rparr>)
     (\<lambda>i. \<lparr>bp_id = i, bp_account = a, bp_workspace = workspace, bp_external = ext, bp_name = name, bp_full = full,
        bp_private = private, bp_selected = selected\<rparr>)"

definition q_SetBitbucketRepoSelected :: "bool \<Rightarrow> int \<Rightarrow> (desk, unit) act" where
  "q_SetBitbucketRepoSelected b i = act_seq
     (update_where dk_bitbucket put_bitbucket bp_ok (\<lambda>r. bp_id r = i) (\<lambda>r. r\<lparr>bp_selected := b\<rparr>)) (act_ret ())"

definition q_DeleteBitbucketReposByAccount :: "string \<Rightarrow> (desk, unit) act" where
  "q_DeleteBitbucketReposByAccount a = act_seq (delete_where dk_bitbucket put_bitbucket (\<lambda>r. bp_account r = a)) (act_ret ())"

text \<open>calendar.sql.go, on the database inside the state.\<close>

definition in_db :: "(db, 'a) act \<Rightarrow> (desk, 'a) act" where
  "in_db m = (\<lambda>s. case m (dk_db s) of (r, d) \<Rightarrow> (r, s\<lparr>dk_db := d\<rparr>))"

definition q_UpsertCalendar :: "string \<Rightarrow> string \<Rightarrow> string \<Rightarrow> bool \<Rightarrow> (db, calendar) act" where
  "q_UpsertCalendar p ext name primary = upsert_into db_calendars put_calendars cl_ok
     (\<lambda>r. cl_provider r = p \<and> cl_external r = ext)
     (\<lambda>r. r\<lparr>cl_name := name, cl_primary := primary\<rparr>)
     (\<lambda>i. \<lparr>cl_id = i, cl_provider = p, cl_external = ext, cl_name = name, cl_primary = primary, cl_selected = primary, cl_category = None\<rparr>)"

end
