(* ===== verification/Http_Client.thy ===== *)
theory Http_Client
  imports Connections
begin

text \<open>
  The registry of connections (internal/integration/connection/registry.go), the token store
  (internal/integration/secrets) and the client that signs requests, refreshes tokens and waits
  (internal/integration/httpclient/client.go). The context of a call is not modelled: nothing is
  cancelled.
\<close>


section \<open>registry.go\<close>

abbreviation (input) StatusConnected :: string where "StatusConnected \<equiv> ''connected''"
abbreviation (input) StatusNeedsReauth :: string where "StatusNeedsReauth \<equiv> ''needs_reauth''"

text \<open>\<open>Connection\<close>: a row with its scopes decoded.\<close>

record connection_info =
  co_row :: connection
  co_scopes :: "string list"

definition encodeScopes :: "string list \<Rightarrow> json" where
  "encodeScopes scopes = JList (map JStr scopes)"

definition decodeScopes :: "json \<Rightarrow> string list option" where
  "decodeScopes raw = (if raw = JText '''' then Some [] else read_slice read_text '''' raw [])"

definition toConnection :: "connection \<Rightarrow> go_error + connection_info" where
  "toConnection r = (case decodeScopes (cn_scopes r) of None \<Rightarrow> Inl ErrOther | Some scopes \<Rightarrow> Inr \<lparr>co_row = r, co_scopes = scopes\<rparr>)"

definition reg_List :: "desk \<Rightarrow> go_error + connection_info list" where
  "reg_List d = res_each toConnection (q_ListIntegrationConnections d)"

definition reg_ListByProvider :: "string \<Rightarrow> desk \<Rightarrow> go_error + connection_info list" where
  "reg_ListByProvider p d = res_each toConnection (q_ListIntegrationConnectionsByProvider p d)"

definition reg_Get :: "string \<Rightarrow> string \<Rightarrow> desk \<Rightarrow> go_error + connection_info" where
  "reg_Get p a d = (case q_GetIntegrationConnection p a d of None \<Rightarrow> Inl ErrConnectionNotFound | Some r \<Rightarrow> toConnection r)"

definition reg_Upsert :: "string \<Rightarrow> string \<Rightarrow> string \<Rightarrow> string list \<Rightarrow> string \<Rightarrow> (desk, connection_info) act" where
  "reg_Upsert p label a scopes status =
     act_bind (q_UpsertIntegrationConnection (trim_space p) (trim_space label) (trim_space a) (encodeScopes scopes)
         (if status = '''' then StatusConnected else status))
       (\<lambda>r. act_lift (toConnection r))"

definition reg_SetStatus :: "string \<Rightarrow> string \<Rightarrow> string \<Rightarrow> (desk, unit) act" where
  "reg_SetStatus p a status = q_UpdateIntegrationConnectionStatus status p a"

definition reg_Disconnect :: "string \<Rightarrow> string \<Rightarrow> (desk, unit) act" where
  "reg_Disconnect p a = q_DeleteIntegrationConnection p a"


section \<open>store.go, keyring.go\<close>

definition storageKey :: "string \<Rightarrow> string \<Rightarrow> string option" where
  "storageKey p a = (if trim_space p = '''' \<or> trim_space a = '''' then None else Some (trim_space p @ '':'' @ trim_space a))"

definition store_Get :: "remote \<Rightarrow> string \<Rightarrow> string \<Rightarrow> (desk, token) act" where
  "store_Get rm p a = (\<lambda>s. case storageKey p a of
      None \<Rightarrow> (Inl ErrOther, s)
    | Some k \<Rightarrow> if rm_refuses rm KeychainGet k then (Inl ErrOther, s)
        else (case dk_tokens s k of None \<Rightarrow> (Inl ErrTokenNotFound, s) | Some t \<Rightarrow> (Inr t, s)))"

definition store_Set :: "remote \<Rightarrow> string \<Rightarrow> string \<Rightarrow> token \<Rightarrow> (desk, unit) act" where
  "store_Set rm p a t = (\<lambda>s. case storageKey p a of
      None \<Rightarrow> (Inl ErrOther, s)
    | Some k \<Rightarrow> if rm_refuses rm KeychainSet k then (Inl ErrOther, s) else (Inr (), s\<lparr>dk_tokens := (dk_tokens s)(k \<mapsto> t)\<rparr>))"

text \<open>Deleting a token that is not there succeeds.\<close>

definition store_Delete :: "remote \<Rightarrow> string \<Rightarrow> string \<Rightarrow> (desk, unit) act" where
  "store_Delete rm p a = (\<lambda>s. case storageKey p a of
      None \<Rightarrow> (Inl ErrOther, s)
    | Some k \<Rightarrow> if rm_refuses rm KeychainDelete k then (Inl ErrOther, s) else (Inr (), s\<lparr>dk_tokens := (dk_tokens s)(k := None)\<rparr>))"


section \<open>client.go\<close>

text \<open>
  Whose token a client uses, and how it gets a new one: from the broker, or from the token source of
  golang.org/x/oauth2.
\<close>

record client =
  hc_provider :: string
  hc_account :: string
  hc_refresh :: "token \<Rightarrow> (desk, token) act"

definition formatBearer :: "token \<Rightarrow> string" where
  "formatBearer t = (if trim_space (tk_type t) = '''' then ''Bearer'' else trim_space (tk_type t)) @ '' '' @ tk_access t"

definition signed :: "http_request \<Rightarrow> token \<Rightarrow> http_request" where
  "signed req t = req\<lparr>hq_headers := hq_headers req @ [(''Authorization'', formatBearer t)]\<rparr>"

text \<open>A request that is sent is recorded; no answer is a failure of the transport.\<close>

definition send :: "remote \<Rightarrow> http_request \<Rightarrow> (desk, api_response) act" where
  "send rm req = (\<lambda>s. let t = s\<lparr>dk_sent := dk_sent s @ [req]\<rparr> in
     case rm_http rm (dk_sent s) req of None \<Rightarrow> (Inl ErrOther, t) | Some resp \<Rightarrow> (Inr resp, t))"

text \<open>\<open>strconv.Atoi\<close>; a delay of seconds is a 64-bit count of nanoseconds, which wraps around.\<close>

definition atoi :: "string \<Rightarrow> int option" where
  "atoi s = (let negative = (s \<noteq> [] \<and> hd s = CHR ''-''); ds = (if s \<noteq> [] \<and> hd s \<in> {CHR ''-'', CHR ''+''} then tl s else s);
       n = (if negative then - int (digits_val ds) else int (digits_val ds))
     in if ds \<noteq> [] \<and> list_all is_digit ds \<and> - (2 ^ 63) \<le> n \<and> n < 2 ^ 63 then Some n else None)"

definition wrap_int64 :: "int \<Rightarrow> int" where
  "wrap_int64 n = (n + 2 ^ 63) mod 2 ^ 64 - 2 ^ 63"

definition retryAfter :: "remote \<Rightarrow> instant \<Rightarrow> string \<Rightarrow> int" where
  "retryAfter rm now raw =
     (let raw = trim_space raw in
      if raw = '''' then second
      else case atoi raw of
        Some n \<Rightarrow> wrap_int64 (n * second)
      | None \<Rightarrow> (case rm_parse_time rm raw of
          Some t \<Rightarrow> if 0 < time_sub t now then time_sub t now else second
        | None \<Rightarrow> second))"

definition wait :: "int \<Rightarrow> (desk, unit) act" where
  "wait n = (if n \<le> 0 then act_ret () else act_modify (\<lambda>s. s\<lparr>dk_waits := dk_waits s @ [n]\<rparr>))"

definition markNeedsReauth :: "client \<Rightarrow> (desk, unit) act" where
  "markNeedsReauth c = reg_SetStatus (hc_provider c) (hc_account c) StatusNeedsReauth"

definition refresh_token :: "remote \<Rightarrow> client \<Rightarrow> token \<Rightarrow> (desk, token) act" where
  "refresh_token rm c current =
     act_bind (hc_refresh c current) (\<lambda>next.
       let next = (if tk_source next = '''' then next\<lparr>tk_source := tk_source current\<rparr> else next)
       in act_seq (store_Set rm (hc_provider c) (hc_account c) next) (act_ret next))"

text \<open>The attempts left are those of the loop from \<open>attempt\<close> to \<open>maxRateRetries\<close>.\<close>

fun attempts :: "remote \<Rightarrow> client \<Rightarrow> http_request \<Rightarrow> nat \<Rightarrow> bool \<Rightarrow> token \<Rightarrow> (desk, api_response) act" where
  "attempts rm c req 0 refreshed t = act_throw ErrOther"
| "attempts rm c req (Suc n) refreshed t =
     act_bind (send rm (signed req t)) (\<lambda>resp.
       if hr_status resp = 401 then
         (if refreshed then on_error (act_throw ErrOther) (markNeedsReauth c)
          else act_bind (on_error (refresh_token rm c t) (markNeedsReauth c)) (attempts rm c req n True))
       else if hr_status resp = 429 \<and> 0 < n then
         act_bind (act_gets (\<lambda>s. rm_clock rm (dk_sent s))) (\<lambda>now.
           act_seq (wait (retryAfter rm now (ar_retry_after resp))) (attempts rm c req n refreshed t))
       else act_ret resp)"

abbreviation maxRateRetries :: nat where "maxRateRetries \<equiv> 3"

definition client_Do :: "remote \<Rightarrow> client \<Rightarrow> http_request \<Rightarrow> (desk, api_response) act" where
  "client_Do rm c req =
     act_bind (on_error (store_Get rm (hc_provider c) (hc_account c)) (markNeedsReauth c))
       (attempts rm c req (Suc maxRateRetries) False)"

end
