(* ===== verification/Activity.thy ===== *)
theory Activity
  imports Http_Client Gapfill
begin

text \<open>
  What the providers of activity evidence have in common (internal/integration/github, slack and
  bitbucket carry the same code): the settings, the choice of an authorizer, storing an account and
  removing it, calls of the API, and the texts of evidence.
\<close>


section \<open>Settings and adapters\<close>

text \<open>\<open>Result\<close> of an authorization.\<close>

record auth_result =
  au_token :: token
  au_scopes :: "string list"

text \<open>
  \<open>Provider\<close>: the address of the API if overridden, the mode and the address of the broker, the
  client and its secret, the scopes.
\<close>

record settings =
  pv_base :: string
  pv_mode :: string
  pv_broker :: string
  pv_client :: string
  pv_secret :: string

text \<open>
  The flows a provider can be given or makes itself: an injected authorizer and revoker, the broker
  flow with its address, and the local flow.
\<close>

record adapters =
  ad_authorizer :: "(string \<Rightarrow> (desk, auth_result) act) option"
  ad_revoker :: "(string \<Rightarrow> (desk, unit) act) option"
  ad_broker :: "string \<Rightarrow> string \<Rightarrow> (desk, auth_result) act"
  ad_broker_revoke :: "string \<Rightarrow> string \<Rightarrow> (desk, unit) act"
  ad_broker_refresh :: "string \<Rightarrow> token \<Rightarrow> (desk, token) act"
  ad_local :: "string \<Rightarrow> (desk, auth_result) act"
  ad_local_refresh :: "token \<Rightarrow> (desk, token) act"

definition usesBrokerAuth :: "settings \<Rightarrow> bool" where
  "usesBrokerAuth pv = (let mode = trim_space (pv_mode pv) in mode = '''' \<or> equal_fold mode ''broker'')"

definition OAuthAvailable :: "settings \<Rightarrow> bool" where
  "OAuthAvailable pv =
     (if usesBrokerAuth pv then trim_space (pv_broker pv) \<noteq> ''''
      else trim_space (pv_client pv) \<noteq> '''' \<and> trim_space (pv_secret pv) \<noteq> '''')"

definition trim_right :: "char \<Rightarrow> string \<Rightarrow> string" where
  "trim_right c s = rev (dropWhile (\<lambda>d. d = c) (rev s))"

definition baseURL :: "string \<Rightarrow> settings \<Rightarrow> string" where
  "baseURL standard pv = (if trim_space (pv_base pv) \<noteq> '''' then trim_right (CHR ''/'') (pv_base pv) else standard)"

text \<open>In broker mode there is no falling back to the local flow.\<close>

definition authorize :: "adapters \<Rightarrow> settings \<Rightarrow> string \<Rightarrow> (desk, auth_result) act" where
  "authorize ad pv hint =
     (case ad_authorizer ad of Some run \<Rightarrow> run hint
      | None \<Rightarrow> if usesBrokerAuth pv then
            (if trim_space (pv_broker pv) = '''' then act_throw ErrBrokerConfig else ad_broker ad (trim_space (pv_broker pv)) hint)
          else if trim_space (pv_client pv) \<noteq> '''' then ad_local ad hint
          else act_throw ErrOther)"

definition authorized_token :: "adapters \<Rightarrow> settings \<Rightarrow> string \<Rightarrow> (desk, auth_result) act" where
  "authorized_token ad pv hint =
     act_bind (authorize ad pv hint) (\<lambda>r.
       if trim_space (tk_access (au_token r)) = '''' then act_throw ErrOther
       else act_ret (r\<lparr>au_token := (au_token r)\<lparr>tk_source := (if usesBrokerAuth pv then SourceBroker else SourceLocalOAuth)\<rparr>\<rparr>))"

text \<open>
  Storing an account whose identity is known: the token, the row, then the first sync of its sources.
  A row that is refused takes the token with it, a sync that fails the whole account.
\<close>

definition store_account ::
    "remote \<Rightarrow> string \<Rightarrow> string \<Rightarrow> string \<Rightarrow> token \<Rightarrow> string list \<Rightarrow> (desk, 'a) act \<Rightarrow> (desk, unit) act \<Rightarrow> (desk, connection_info) act" where
  "store_account rm p account label t scopes sync disconnect =
     (let t = (if trim_space (tk_type t) = '''' then t\<lparr>tk_type := ''Bearer''\<rparr> else t) in
      act_seq (store_Set rm p account t)
        (act_bind (on_error (reg_Upsert p label account scopes StatusConnected) (store_Delete rm p account)) (\<lambda>conn.
           act_seq (on_error sync disconnect) (act_ret conn))))"

text \<open>
  Removing one: its sources, the token of a broker account at the provider, the token in the
  keychain, the row. What the provider answers does not matter.
\<close>

definition revoke_issued :: "remote \<Rightarrow> adapters \<Rightarrow> settings \<Rightarrow> string \<Rightarrow> string \<Rightarrow> (desk, unit) act" where
  "revoke_issued rm ad pv p account = (\<lambda>s.
     case store_Get rm p account s of
       (Inl _, t) \<Rightarrow> (Inr (), t)
     | (Inr tok, t) \<Rightarrow>
         if tk_source tok = SourceBroker \<and> trim_space (tk_access tok) \<noteq> '''' then
           (case ad_revoker ad of
              Some run \<Rightarrow> best_effort (run (trim_space (tk_access tok))) t
            | None \<Rightarrow> if trim_space (pv_broker pv) \<noteq> '''' then best_effort (ad_broker_revoke ad (pv_broker pv) (trim_space (tk_access tok))) t
                else (Inr (), t))
         else (Inr (), t))"

definition remove_account :: "remote \<Rightarrow> string \<Rightarrow> string \<Rightarrow> (desk, unit) act" where
  "remove_account rm p account = act_seq (store_Delete rm p account) (reg_Disconnect p account)"


section \<open>Calls\<close>

definition get_request :: "string \<Rightarrow> (string \<times> string) list \<Rightarrow> http_request" where
  "get_request url headers = \<lparr>hq_method = ''GET'', hq_url = url, hq_auth = NoAuth, hq_headers = headers, hq_body = NoBody\<rparr>"

definition with_query :: "remote \<Rightarrow> string \<Rightarrow> query \<Rightarrow> string" where
  "with_query rm url q = (if q = [] then url else url @ ''?'' @ rm_encode rm q)"

text \<open>A signed GET: anything but success with a JSON body is an error.\<close>

definition api_get :: "remote \<Rightarrow> client \<Rightarrow> (string \<times> string) list \<Rightarrow> string \<Rightarrow> (desk, json) act" where
  "api_get rm c headers url =
     act_bind (client_Do rm c (get_request url headers)) (\<lambda>resp.
       if \<not> ok_status (hr_status resp) then act_throw ErrOther
       else act_the ErrOther (hr_json resp))"

definition decode :: "(json \<Rightarrow> 'r \<Rightarrow> 'r option) \<Rightarrow> 'r \<Rightarrow> json \<Rightarrow> (desk, 'r) act" where
  "decode elem zero j = act_the ErrOther (elem j zero)"

text \<open>The token types of GitHub and Slack cannot be refreshed.\<close>

definition no_refresh :: "token \<Rightarrow> (desk, token) act" where
  "no_refresh t = act_throw ErrOther"

text \<open>
  The token source of golang.org/x/oauth2, which a client without a refresher asks: it is given the
  whole token, and says nothing of where the new one comes from.
\<close>

definition token_source :: "adapters \<Rightarrow> token \<Rightarrow> (desk, token) act" where
  "token_source ad current = act_bind (ad_local_refresh ad (current\<lparr>tk_source := ''''\<rparr>)) (\<lambda>t. act_ret (t\<lparr>tk_source := ''''\<rparr>))"


section \<open>Texts and windows of evidence\<close>

definition inWindow :: "instant \<Rightarrow> instant \<Rightarrow> instant \<Rightarrow> bool" where
  "inWindow ts s e \<longleftrightarrow> s \<le> ts \<and> ts < e"

definition firstLine :: "string \<Rightarrow> string" where
  "firstLine message = trim_space (takeWhile (\<lambda>c. c \<noteq> CHR 0x0A) (trim_space message))"

definition prefixEvidenceSummary :: "string \<Rightarrow> string \<Rightarrow> string" where
  "prefixEvidenceSummary source summary =
     (let source = trim_space source; summary = trim_space summary in
      if source = '''' then summary else if summary = '''' then source
      else source @ [CHR 0x20, CHR 0xC2, CHR 0xB7, CHR 0x20] @ summary)"

text \<open>The short hash before the first line of a commit message.\<close>

definition commit_summary :: "string \<Rightarrow> string \<Rightarrow> string" where
  "commit_summary sha message =
     (let short = take 7 (trim_space sha); line = firstLine message in
      if short = '''' then line else if line = '''' then short else short @ '': '' @ line)"

text \<open>A part of the evidence that cannot be had is left out.\<close>

definition or_nothing :: "('s, 'a list) act \<Rightarrow> ('s, 'a list) act" where
  "or_nothing m = (\<lambda>s. case m s of
      (Inl e, t) \<Rightarrow> (if e = Diverges then Inl e else Inr [], t)
    | (Inr xs, t) \<Rightarrow> (Inr xs, t))"

text \<open>Evidence of a window from the selected sources, one after the other.\<close>

definition fetch_evidence :: "(desk \<Rightarrow> 'r list) \<Rightarrow> ('r \<Rightarrow> instant \<Rightarrow> instant \<Rightarrow> (desk, evidence list) act) \<Rightarrow> time_window \<Rightarrow> (desk, evidence list) act" where
  "fetch_evidence selected one window =
     (if tw_end window \<le> tw_start window then act_ret []
      else act_bind (act_gets selected) (\<lambda>sources.
        act_bind (for_each (\<lambda>r. one r (tw_start window) (tw_end window)) sources) (\<lambda>ess. act_ret (concat ess))))"

text \<open>At most \<open>limit\<close> items of a listing, those that can be read and lie in the window.\<close>

definition take_items :: "nat \<Rightarrow> ('i \<Rightarrow> evidence option) \<Rightarrow> 'i list \<Rightarrow> evidence list \<Rightarrow> evidence list" where
  "take_items limit item items out = take limit (out @ List.map_filter item items)"

end
