(* ===== verification/Github.thy ===== *)
theory Github
  imports Activity
begin

text \<open>
  GitHub: internal/integration/github/provider.go and evidence.go. Accounts by personal access token
  or by OAuth, the repositories they see, and the commits and merged pull requests of the selected
  ones as evidence.
\<close>


section \<open>Answers\<close>

record github_user =
  gu_login :: string
  gu_name :: string

record repo_item =
  gi_name :: string
  gi_full :: string
  gi_private :: bool

record commit_item =
  gc_sha :: string
  gc_url :: string
  gc_message :: string
  gc_author_date :: string
  gc_committer_date :: string

record issue_item =
  gq_number :: int
  gq_title :: string
  gq_body :: string
  gq_url :: string
  gq_closed :: string
  gq_merged :: "string option"

definition no_user :: github_user where "no_user = \<lparr>gu_login = '''', gu_name = ''''\<rparr>"
definition no_repo :: repo_item where "no_repo = \<lparr>gi_name = '''', gi_full = '''', gi_private = False\<rparr>"
definition no_commit :: commit_item where
  "no_commit = \<lparr>gc_sha = '''', gc_url = '''', gc_message = '''', gc_author_date = '''', gc_committer_date = ''''\<rparr>"
definition no_issue :: issue_item where
  "no_issue = \<lparr>gq_number = 0, gq_title = '''', gq_body = '''', gq_url = '''', gq_closed = '''', gq_merged = None\<rparr>"

definition read_user :: "json \<Rightarrow> github_user \<Rightarrow> github_user option" where
  "read_user = read_object (\<lambda>k v r.
     if k = ''login'' then map_option (\<lambda>x. r\<lparr>gu_login := x\<rparr>) (read_text v (gu_login r))
     else if k = ''name'' then map_option (\<lambda>x. r\<lparr>gu_name := x\<rparr>) (read_text v (gu_name r))
     else Some r)"

definition read_repo :: "json \<Rightarrow> repo_item \<Rightarrow> repo_item option" where
  "read_repo = read_object (\<lambda>k v r.
     if k = ''name'' then map_option (\<lambda>x. r\<lparr>gi_name := x\<rparr>) (read_text v (gi_name r))
     else if k = ''full_name'' then map_option (\<lambda>x. r\<lparr>gi_full := x\<rparr>) (read_text v (gi_full r))
     else if k = ''private'' then map_option (\<lambda>x. r\<lparr>gi_private := x\<rparr>) (read_flag v (gi_private r))
     else Some r)"

definition read_date :: "json \<Rightarrow> string \<Rightarrow> string option" where
  "read_date = read_object (\<lambda>k v r. if k = ''date'' then read_text v r else Some r)"

definition read_commit_part :: "json \<Rightarrow> commit_item \<Rightarrow> commit_item option" where
  "read_commit_part = read_object (\<lambda>k v r.
     if k = ''message'' then map_option (\<lambda>x. r\<lparr>gc_message := x\<rparr>) (read_text v (gc_message r))
     else if k = ''author'' then map_option (\<lambda>x. r\<lparr>gc_author_date := x\<rparr>) (read_date v (gc_author_date r))
     else if k = ''committer'' then map_option (\<lambda>x. r\<lparr>gc_committer_date := x\<rparr>) (read_date v (gc_committer_date r))
     else Some r)"

definition read_commit :: "json \<Rightarrow> commit_item \<Rightarrow> commit_item option" where
  "read_commit = read_object (\<lambda>k v r.
     if k = ''sha'' then map_option (\<lambda>x. r\<lparr>gc_sha := x\<rparr>) (read_text v (gc_sha r))
     else if k = ''html_url'' then map_option (\<lambda>x. r\<lparr>gc_url := x\<rparr>) (read_text v (gc_url r))
     else if k = ''commit'' then read_commit_part v r
     else Some r)"

definition read_merged :: "json \<Rightarrow> string \<Rightarrow> string option" where
  "read_merged = read_object (\<lambda>k v r. if k = ''merged_at'' then read_text v r else Some r)"

definition read_issue :: "json \<Rightarrow> issue_item \<Rightarrow> issue_item option" where
  "read_issue = read_object (\<lambda>k v r.
     if k = ''number'' then map_option (\<lambda>x. r\<lparr>gq_number := x\<rparr>) (read_int64 v (gq_number r))
     else if k = ''title'' then map_option (\<lambda>x. r\<lparr>gq_title := x\<rparr>) (read_text v (gq_title r))
     else if k = ''body'' then map_option (\<lambda>x. r\<lparr>gq_body := x\<rparr>) (read_text v (gq_body r))
     else if k = ''html_url'' then map_option (\<lambda>x. r\<lparr>gq_url := x\<rparr>) (read_text v (gq_url r))
     else if k = ''closed_at'' then map_option (\<lambda>x. r\<lparr>gq_closed := x\<rparr>) (read_text v (gq_closed r))
     else if k = ''pull_request'' then map_option (\<lambda>x. r\<lparr>gq_merged := x\<rparr>) (read_pointer read_merged '''' v (gq_merged r))
     else Some r)"

definition read_issues :: "json \<Rightarrow> issue_item list \<Rightarrow> issue_item list option" where
  "read_issues = read_object (\<lambda>k v r. if k = ''items'' then read_slice read_issue no_issue v r else Some r)"


section \<open>Requests\<close>

abbreviation (input) providerGitHub :: string where "providerGitHub \<equiv> ''github''"

definition github_base :: "settings \<Rightarrow> string" where
  "github_base pv = baseURL ''https://api.github.com'' pv"

definition github_headers :: "(string \<times> string) list" where
  "github_headers = [(''Accept'', ''application/vnd.github+json''), (''X-GitHub-Api-Version'', ''2022-11-28'')]"

definition github_client :: "string \<Rightarrow> client" where
  "github_client account = \<lparr>hc_provider = providerGitHub, hc_account = account, hc_refresh = no_refresh\<rparr>"

definition github_getJSON :: "remote \<Rightarrow> settings \<Rightarrow> string \<Rightarrow> string \<Rightarrow> query \<Rightarrow> (desk, json) act" where
  "github_getJSON rm pv account path q = api_get rm (github_client account) github_headers (with_query rm (github_base pv @ path) q)"

definition github_fetchUser :: "remote \<Rightarrow> settings \<Rightarrow> string \<Rightarrow> (desk, github_user) act" where
  "github_fetchUser rm pv access =
     act_bind (send rm (get_request (github_base pv @ ''/user'') ((''Authorization'', ''Bearer '' @ access) # github_headers))) (\<lambda>resp.
       if \<not> ok_status (hr_status resp) then act_throw ErrOther
       else act_bind (act_the ErrOther (hr_json resp)) (decode read_user no_user))"


section \<open>Accounts\<close>

definition github_store_repo :: "string \<Rightarrow> repo_item \<Rightarrow> (desk, github_repo option) act" where
  "github_store_repo account item =
     (let full = trim_space (gi_full item); name = trim_space (gi_name item) in
      if full = '''' then act_ret None
      else act_bind (q_UpsertGitHubRepo account full (if name = '''' then full else name) full (gi_private item) False)
        (\<lambda>r. act_ret (Some r)))"

text \<open>A page that is not full is the last one.\<close>

definition repos_page :: "remote \<Rightarrow> settings \<Rightarrow> string \<Rightarrow> nat \<Rightarrow> (desk, repo_item list \<times> nat option) act" where
  "repos_page rm pv account page =
     act_bind (github_getJSON rm pv account ''/user/repos''
         [(''per_page'', ''100''), (''page'', show_nat page), (''affiliation'', ''owner,collaborator,organization_member''), (''sort'', ''full_name'')])
       (\<lambda>j. act_bind (act_the ErrOther (read_slice read_repo no_repo j [])) (\<lambda>items.
          act_ret (items, if length items < 100 then None else Some (page + 1))))"

definition SyncRepos :: "remote \<Rightarrow> settings \<Rightarrow> string \<Rightarrow> (desk, github_repo list) act" where
  "SyncRepos rm pv account =
     (let account = trim_space account in
      if account = '''' then act_throw ErrOther
      else each_page (repos_page rm pv account)
        (\<lambda>items out. act_bind (for_each (github_store_repo account) items) (\<lambda>rs. act_ret (out @ List.map_filter id rs)))
        (\<lambda>_. False) 1 [])"

definition ListRepos :: "desk \<Rightarrow> github_repo list" where
  "ListRepos d = q_ListGitHubRepos d"

definition SetRepoSelected :: "int \<Rightarrow> bool \<Rightarrow> (desk, unit) act" where
  "SetRepoSelected i selected = q_SetGitHubRepoSelected selected i"

definition github_Disconnect :: "remote \<Rightarrow> adapters \<Rightarrow> settings \<Rightarrow> string \<Rightarrow> (desk, unit) act" where
  "github_Disconnect rm ad pv account =
     (let account = trim_space account in
      if account = '''' then act_throw ErrOther
      else act_seq (q_DeleteGitHubReposByAccount account)
        (act_seq (revoke_issued rm ad pv providerGitHub account)
           (remove_account rm providerGitHub account)))"

definition github_connectWithToken :: "remote \<Rightarrow> adapters \<Rightarrow> settings \<Rightarrow> token \<Rightarrow> string list \<Rightarrow> (desk, connection_info) act" where
  "github_connectWithToken rm ad pv t scopes =
     act_bind (github_fetchUser rm pv (tk_access t)) (\<lambda>user.
       let login = trim_space (gu_login user); name = trim_space (gu_name user) in
       if login = '''' then act_throw ErrOther
       else store_account rm providerGitHub login (if name = '''' then login else name) t scopes
         (SyncRepos rm pv login) (github_Disconnect rm ad pv login))"

definition github_Connect :: "remote \<Rightarrow> adapters \<Rightarrow> settings \<Rightarrow> string \<Rightarrow> (desk, connection_info) act" where
  "github_Connect rm ad pv pat =
     (let pat = trim_space pat in
      if pat \<noteq> '''' then
        github_connectWithToken rm ad pv \<lparr>tk_access = pat, tk_type = ''Bearer'', tk_refresh = '''', tk_expiry = zero_time, tk_source = SourcePAT\<rparr> []
      else act_bind (authorized_token ad pv ''github'') (\<lambda>r. github_connectWithToken rm ad pv (au_token r) (au_scopes r)))"


section \<open>Evidence\<close>

definition commit_time :: "commit_item \<Rightarrow> instant option" where
  "commit_time item =
     (let author = trim_space (gc_author_date item); raw = (if author = '''' then trim_space (gc_committer_date item) else author)
      in if raw = '''' then None else parse_rfc3339 raw)"

definition issue_time :: "issue_item \<Rightarrow> instant option" where
  "issue_time item =
     (let closed = trim_space (gq_closed item);
          raw = (if closed = '''' then (case gq_merged item of None \<Rightarrow> '''' | Some m \<Rightarrow> trim_space m) else closed)
      in if raw = '''' then None else parse_rfc3339 raw)"

definition mapCommit :: "string \<Rightarrow> instant \<Rightarrow> instant \<Rightarrow> commit_item \<Rightarrow> evidence option" where
  "mapCommit full s e item = (case commit_time item of None \<Rightarrow> None
    | Some ts \<Rightarrow> if \<not> inWindow ts s e then None
        else Some \<lparr>ae_provider = providerGitHub, ae_kind = ''commit'', ae_start = ts, ae_end = ts + second,
          ae_summary = prefixEvidenceSummary full (commit_summary (gc_sha item) (gc_message item)), ae_source = full,
          ae_detail = trim_space (gc_message item), ae_url = trim_space (gc_url item)\<rparr>)"

definition mapMergedPR :: "string \<Rightarrow> instant \<Rightarrow> instant \<Rightarrow> issue_item \<Rightarrow> evidence option" where
  "mapMergedPR full s e item = (case issue_time item of None \<Rightarrow> None
    | Some ts \<Rightarrow> if \<not> inWindow ts s e then None
        else (let title = trim_space (gq_title item); body = trim_space (gq_body item) in
          Some \<lparr>ae_provider = providerGitHub, ae_kind = ''pr'', ae_start = ts, ae_end = ts + second,
            ae_summary = prefixEvidenceSummary full (''Merged PR #'' @ show_int (gq_number item) @ '': '' @ title), ae_source = full,
            ae_detail = (if body = '''' then title else title @ [CHR 0x0A, CHR 0x0A] @ body), ae_url = trim_space (gq_url item)\<rparr>))"

definition commits_page ::
    "remote \<Rightarrow> settings \<Rightarrow> string \<Rightarrow> string \<Rightarrow> instant \<Rightarrow> instant \<Rightarrow> nat \<Rightarrow> (desk, commit_item list \<times> nat option) act" where
  "commits_page rm pv account full s e page =
     act_bind (github_getJSON rm pv account (''/repos/'' @ full @ ''/commits'')
         [(''author'', account), (''since'', format_rfc3339 s), (''until'', format_rfc3339 e), (''per_page'', ''100''), (''page'', show_nat page)])
       (\<lambda>j. act_bind (act_the ErrOther (read_slice read_commit no_commit j [])) (\<lambda>items.
          act_ret (items, if length items < 100 then None else Some (page + 1))))"

abbreviation maxCommitsPerRepo :: nat where "maxCommitsPerRepo \<equiv> 50"
abbreviation maxPRsPerRepo :: nat where "maxPRsPerRepo \<equiv> 20"

definition github_fetchCommits :: "remote \<Rightarrow> settings \<Rightarrow> string \<Rightarrow> string \<Rightarrow> instant \<Rightarrow> instant \<Rightarrow> (desk, evidence list) act" where
  "github_fetchCommits rm pv account full s e =
     each_page (commits_page rm pv account full s e)
       (\<lambda>items out. act_ret (take_items maxCommitsPerRepo (mapCommit full s e) items out)) (\<lambda>out. maxCommitsPerRepo \<le> length out) 1 []"

definition fetchMergedPRs :: "remote \<Rightarrow> settings \<Rightarrow> string \<Rightarrow> string \<Rightarrow> instant \<Rightarrow> instant \<Rightarrow> (desk, evidence list) act" where
  "fetchMergedPRs rm pv account full s e =
     act_bind (github_getJSON rm pv account ''/search/issues''
         [(''q'', ''repo:'' @ full @ '' is:pr is:merged author:'' @ account @ '' merged:'' @ format_date (local_day (fixed_location 0) s) @ ''..'' @ format_date (local_day (fixed_location 0) e)),
          (''per_page'', ''20''), (''sort'', ''updated''), (''order'', ''desc'')])
       (\<lambda>j. act_bind (decode read_issues [] j) (\<lambda>items. act_ret (take_items maxPRsPerRepo (mapMergedPR full s e) items [])))"

definition fetchRepoEvidence :: "remote \<Rightarrow> settings \<Rightarrow> github_repo \<Rightarrow> instant \<Rightarrow> instant \<Rightarrow> (desk, evidence list) act" where
  "fetchRepoEvidence rm pv repo s e =
     (let account = trim_space (hr_account repo); full = trim_space (hr_full repo) in
      if account = '''' \<or> full = '''' then act_ret []
      else act_bind (or_nothing (github_fetchCommits rm pv account full s e)) (\<lambda>commits.
        act_bind (or_nothing (fetchMergedPRs rm pv account full s e)) (\<lambda>prs. act_ret (commits @ prs))))"

definition github_FetchEvidence :: "remote \<Rightarrow> settings \<Rightarrow> time_window \<Rightarrow> (desk, evidence list) act" where
  "github_FetchEvidence rm pv window = fetch_evidence q_ListSelectedGitHubRepos (fetchRepoEvidence rm pv) window"

end
