(* ===== verification/Slack.thy ===== *)
theory Slack
  imports Activity
begin

text \<open>
  Slack: internal/integration/slack/provider.go and evidence.go. A workspace by OAuth, its channels,
  and the messages of the selected ones as evidence. Texts are valid UTF-8.
\<close>


section \<open>Answers\<close>

record team_answer =
  st_ok :: bool
  st_team :: string
  st_team_id :: string

record channel_item =
  si_id :: string
  si_name :: string
  si_private :: bool

record message =
  sm_type :: string
  sm_subtype :: string
  sm_bot :: string
  sm_text :: string
  sm_ts :: string

text \<open>\<open>conversationsResponse\<close> and \<open>historyResponse\<close>: whether the call succeeded, the items, and the cursor.\<close>

record 'i listing =
  sl_ok :: bool
  sl_items :: "'i list"
  sl_cursor :: string

definition no_team :: team_answer where "no_team = \<lparr>st_ok = False, st_team = '''', st_team_id = ''''\<rparr>"
definition no_channel :: channel_item where "no_channel = \<lparr>si_id = '''', si_name = '''', si_private = False\<rparr>"
definition no_message :: message where "no_message = \<lparr>sm_type = '''', sm_subtype = '''', sm_bot = '''', sm_text = '''', sm_ts = ''''\<rparr>"

definition read_team :: "json \<Rightarrow> team_answer \<Rightarrow> team_answer option" where
  "read_team = read_object (\<lambda>k v r.
     if k = ''ok'' then map_option (\<lambda>x. r\<lparr>st_ok := x\<rparr>) (read_flag v (st_ok r))
     else if k = ''error'' then map_option (\<lambda>_. r) (read_text v '''')
     else if k = ''team'' then map_option (\<lambda>x. r\<lparr>st_team := x\<rparr>) (read_text v (st_team r))
     else if k = ''team_id'' then map_option (\<lambda>x. r\<lparr>st_team_id := x\<rparr>) (read_text v (st_team_id r))
     else Some r)"

definition read_channel :: "json \<Rightarrow> channel_item \<Rightarrow> channel_item option" where
  "read_channel = read_object (\<lambda>k v r.
     if k = ''id'' then map_option (\<lambda>x. r\<lparr>si_id := x\<rparr>) (read_text v (si_id r))
     else if k = ''name'' then map_option (\<lambda>x. r\<lparr>si_name := x\<rparr>) (read_text v (si_name r))
     else if k = ''is_private'' then map_option (\<lambda>x. r\<lparr>si_private := x\<rparr>) (read_flag v (si_private r))
     else Some r)"

definition read_message :: "json \<Rightarrow> message \<Rightarrow> message option" where
  "read_message = read_object (\<lambda>k v r.
     if k = ''type'' then map_option (\<lambda>x. r\<lparr>sm_type := x\<rparr>) (read_text v (sm_type r))
     else if k = ''subtype'' then map_option (\<lambda>x. r\<lparr>sm_subtype := x\<rparr>) (read_text v (sm_subtype r))
     else if k = ''bot_id'' then map_option (\<lambda>x. r\<lparr>sm_bot := x\<rparr>) (read_text v (sm_bot r))
     else if k = ''user'' then map_option (\<lambda>_. r) (read_text v '''')
     else if k = ''text'' then map_option (\<lambda>x. r\<lparr>sm_text := x\<rparr>) (read_text v (sm_text r))
     else if k = ''ts'' then map_option (\<lambda>x. r\<lparr>sm_ts := x\<rparr>) (read_text v (sm_ts r))
     else Some r)"

definition read_metadata :: "json \<Rightarrow> string \<Rightarrow> string option" where
  "read_metadata = read_object (\<lambda>k v r. if k = ''next_cursor'' then read_text v r else Some r)"

definition read_slack_listing :: "string \<Rightarrow> (json \<Rightarrow> 'i \<Rightarrow> 'i option) \<Rightarrow> 'i \<Rightarrow> json \<Rightarrow> 'i listing option" where
  "read_slack_listing items elem zero j = read_object (\<lambda>k v r.
     if k = ''ok'' then map_option (\<lambda>x. r\<lparr>sl_ok := x\<rparr>) (read_flag v (sl_ok r))
     else if k = ''error'' then map_option (\<lambda>_. r) (read_text v '''')
     else if k = items then map_option (\<lambda>x. r\<lparr>sl_items := x\<rparr>) (read_slice elem zero v (sl_items r))
     else if k = ''response_metadata'' then map_option (\<lambda>x. r\<lparr>sl_cursor := x\<rparr>) (read_metadata v (sl_cursor r))
     else Some r) j \<lparr>sl_ok = False, sl_items = [], sl_cursor = ''''\<rparr>"


section \<open>Requests\<close>

abbreviation (input) providerSlack :: string where "providerSlack \<equiv> ''slack''"

definition slack_base :: "settings \<Rightarrow> string" where
  "slack_base pv = baseURL ''https://slack.com/api'' pv"

definition slack_client :: "string \<Rightarrow> client" where
  "slack_client account = \<lparr>hc_provider = providerSlack, hc_account = account, hc_refresh = no_refresh\<rparr>"

definition slack_getJSON :: "remote \<Rightarrow> settings \<Rightarrow> string \<Rightarrow> string \<Rightarrow> query \<Rightarrow> (desk, json) act" where
  "slack_getJSON rm pv account path q =
     api_get rm (slack_client account) [(''Accept'', ''application/json'')] (with_query rm (slack_base pv @ path) q)"

text \<open>The status of the answer is not looked at, only its \<open>ok\<close>.\<close>

definition fetchAuthTest :: "remote \<Rightarrow> settings \<Rightarrow> string \<Rightarrow> (desk, team_answer) act" where
  "fetchAuthTest rm pv access =
     act_bind (send rm \<lparr>hq_method = ''POST'', hq_url = slack_base pv @ ''/auth.test'', hq_auth = NoAuth,
         hq_headers = [(''Authorization'', ''Bearer '' @ access), (''Accept'', ''application/json'')], hq_body = NoBody\<rparr>) (\<lambda>resp.
       act_bind (act_bind (act_the ErrOther (hr_json resp)) (decode read_team no_team)) (\<lambda>team.
         if st_ok team then act_ret team else act_throw ErrOther))"

text \<open>A page of a listing under a cursor.\<close>

definition slack_page ::
    "remote \<Rightarrow> settings \<Rightarrow> string \<Rightarrow> string \<Rightarrow> query \<Rightarrow> (json \<Rightarrow> 'i listing option) \<Rightarrow> string \<Rightarrow> (desk, 'i list \<times> string option) act" where
  "slack_page rm pv account path q listing cursor =
     act_bind (slack_getJSON rm pv account path (q @ (if cursor = '''' then [] else [(''cursor'', cursor)]))) (\<lambda>j.
       act_bind (act_the ErrOther (listing j)) (\<lambda>l.
         if \<not> sl_ok l then act_throw ErrOther
         else (let cursor' = trim_space (sl_cursor l) in act_ret (sl_items l, if cursor' = '''' then None else Some cursor'))))"


section \<open>Accounts\<close>

definition slack_store_channel :: "string \<Rightarrow> channel_item \<Rightarrow> (desk, slack_channel option) act" where
  "slack_store_channel account item =
     (let i = trim_space (si_id item); name = trim_space (si_name item) in
      if i = '''' \<or> name = '''' then act_ret None
      else act_bind (q_UpsertSlackChannel account i name (si_private item) False) (\<lambda>r. act_ret (Some r)))"

definition SyncChannels :: "remote \<Rightarrow> settings \<Rightarrow> string \<Rightarrow> (desk, slack_channel list) act" where
  "SyncChannels rm pv account =
     (let account = trim_space account in
      if account = '''' then act_throw ErrOther
      else each_page (slack_page rm pv account ''/users.conversations''
          [(''types'', ''public_channel,private_channel''), (''exclude_archived'', ''true''), (''limit'', ''200'')]
          (read_slack_listing ''channels'' read_channel no_channel))
        (\<lambda>items out. act_bind (for_each (slack_store_channel account) items) (\<lambda>rs. act_ret (out @ List.map_filter id rs)))
        (\<lambda>_. False) '''' [])"

definition ListChannels :: "desk \<Rightarrow> slack_channel list" where
  "ListChannels d = q_ListSlackChannels d"

definition SetChannelSelected :: "int \<Rightarrow> bool \<Rightarrow> (desk, unit) act" where
  "SetChannelSelected i selected = q_SetSlackChannelSelected selected i"

definition slack_Disconnect :: "remote \<Rightarrow> adapters \<Rightarrow> settings \<Rightarrow> string \<Rightarrow> (desk, unit) act" where
  "slack_Disconnect rm ad pv account =
     (let account = trim_space account in
      if account = '''' then act_throw ErrOther
      else act_seq (q_DeleteSlackChannelsByAccount account)
        (act_seq (revoke_issued rm ad pv providerSlack account)
           (remove_account rm providerSlack account)))"

definition slack_connectWithToken :: "remote \<Rightarrow> adapters \<Rightarrow> settings \<Rightarrow> token \<Rightarrow> string list \<Rightarrow> (desk, connection_info) act" where
  "slack_connectWithToken rm ad pv t scopes =
     act_bind (fetchAuthTest rm pv (tk_access t)) (\<lambda>team.
       let i = trim_space (st_team_id team); name = trim_space (st_team team) in
       if i = '''' then act_throw ErrOther
       else store_account rm providerSlack i (if name = '''' then i else name) t scopes
         (SyncChannels rm pv i) (slack_Disconnect rm ad pv i))"

definition slack_Connect :: "remote \<Rightarrow> adapters \<Rightarrow> settings \<Rightarrow> (desk, connection_info) act" where
  "slack_Connect rm ad pv =
     act_bind (authorized_token ad pv ''slack'') (\<lambda>r. slack_connectWithToken rm ad pv (au_token r) (au_scopes r))"


section \<open>Evidence\<close>

text \<open>\<open>t.Unix()\<close> and the microseconds within the second.\<close>

definition formatSlackTS :: "instant \<Rightarrow> string" where
  "formatSlackTS t =
     (let micros = nat (t mod second) div 1000 in
      show_int (unix_seconds t) @ ''.'' @ replicate (6 - length (show_nat micros)) (CHR ''0'') @ show_nat micros)"

definition parseSlackTS :: "string \<Rightarrow> instant option" where
  "parseSlackTS raw =
     (let raw = trim_space raw; whole = takeWhile (\<lambda>c. c \<noteq> CHR ''.'') raw; frac = drop 1 (dropWhile (\<lambda>c. c \<noteq> CHR ''.'') raw);
          digits = take 9 frac
      in if raw = '''' then None
         else case atoi whole of None \<Rightarrow> None
           | Some s \<Rightarrow> if frac = '''' then Some (s * second)
               else (case atoi (digits @ replicate (9 - length digits) (CHR ''0'')) of None \<Rightarrow> None | Some n \<Rightarrow> Some (s * second + n)))"

text \<open>A character is a byte that does not continue the one before.\<close>

function split_runes :: "string \<Rightarrow> string list" where
  "split_runes [] = []"
| "split_runes (c # cs) =
     (let rest = dropWhile (\<lambda>d. (of_char d :: nat) div 64 = 2) cs in
      (c # takeWhile (\<lambda>d. (of_char d :: nat) div 64 = 2) cs) # split_runes rest)"
  by pat_completeness auto

termination split_runes
  by (relation "measure length") (simp_all add: le_imp_less_Suc length_dropWhile_le)

definition truncateRunes :: "string \<Rightarrow> nat \<Rightarrow> string" where
  "truncateRunes s limit = concat (take limit (split_runes s))"

definition messagePermalink :: "string \<Rightarrow> string \<Rightarrow> string" where
  "messagePermalink channel ts =
     (let channel = trim_space channel; ts = trim_space ts in
      if channel = '''' \<or> ts = '''' then ''''
      else ''https://slack.com/archives/'' @ channel @ ''/p'' @ filter (\<lambda>c. c \<noteq> CHR ''.'') ts)"

definition mapMessage :: "string \<Rightarrow> string \<Rightarrow> instant \<Rightarrow> instant \<Rightarrow> message \<Rightarrow> evidence option" where
  "mapMessage channel name s e m =
     (if (trim_space (sm_type m) \<noteq> '''' \<and> sm_type m \<noteq> ''message'') \<or> trim_space (sm_subtype m) \<noteq> '''' \<or> trim_space (sm_bot m) \<noteq> '''' then None
      else case parseSlackTS (sm_ts m) of None \<Rightarrow> None
        | Some ts \<Rightarrow> if \<not> inWindow ts s e \<or> trim_space (sm_text m) = '''' then None
            else Some \<lparr>ae_provider = providerSlack, ae_kind = ''message'', ae_start = ts, ae_end = ts + second,
              ae_summary = prefixEvidenceSummary name (truncateRunes (firstLine (trim_space (sm_text m))) 120), ae_source = name,
              ae_detail = trim_space (sm_text m), ae_url = messagePermalink channel (sm_ts m)\<rparr>)"

abbreviation maxMessagesPerChannel :: nat where "maxMessagesPerChannel \<equiv> 50"

text \<open>A page without messages ends the loop whatever its cursor.\<close>

definition messages_page ::
    "remote \<Rightarrow> settings \<Rightarrow> string \<Rightarrow> string \<Rightarrow> instant \<Rightarrow> instant \<Rightarrow> string \<Rightarrow> (desk, message list \<times> string option) act" where
  "messages_page rm pv account channel s e cursor =
     act_bind (slack_page rm pv account ''/conversations.history''
         [(''channel'', channel), (''oldest'', formatSlackTS s), (''latest'', formatSlackTS e), (''inclusive'', ''true''), (''limit'', ''200'')]
         (read_slack_listing ''messages'' read_message no_message) cursor)
       (\<lambda>page. act_ret (fst page, if fst page = [] then None else snd page))"

definition fetchChannelMessages ::
    "remote \<Rightarrow> settings \<Rightarrow> string \<Rightarrow> string \<Rightarrow> string \<Rightarrow> instant \<Rightarrow> instant \<Rightarrow> (desk, evidence list) act" where
  "fetchChannelMessages rm pv account channel name s e =
     each_page (messages_page rm pv account channel s e)
       (\<lambda>items out. act_ret (take_items maxMessagesPerChannel (mapMessage channel name s e) items out))
       (\<lambda>out. maxMessagesPerChannel \<le> length out) '''' []"

definition fetchChannelEvidence :: "remote \<Rightarrow> settings \<Rightarrow> slack_channel \<Rightarrow> instant \<Rightarrow> instant \<Rightarrow> (desk, evidence list) act" where
  "fetchChannelEvidence rm pv c s e =
     (let account = trim_space (sc_account c); channel = trim_space (sc_external c); name = trim_space (sc_name c) in
      if account = '''' \<or> channel = '''' \<or> name = '''' then act_ret []
      else or_nothing (fetchChannelMessages rm pv account channel name s e))"

definition slack_FetchEvidence :: "remote \<Rightarrow> settings \<Rightarrow> time_window \<Rightarrow> (desk, evidence list) act" where
  "slack_FetchEvidence rm pv window = fetch_evidence q_ListSelectedSlackChannels (fetchChannelEvidence rm pv) window"

end
