(* ===== verification/Bitbucket.thy ===== *)
theory Bitbucket
  imports Activity
begin

text \<open>
  Bitbucket: internal/integration/bitbucket/provider.go and evidence.go. An account by OAuth, its
  workspaces and repositories, and the commits of the account in the selected ones as evidence. The
  answers name the address of the next page, which is followed as it is.
\<close>


section \<open>Answers\<close>

record bitbucket_user =
  bu_uuid :: string
  bu_display :: string
  bu_username :: string

record workspace_item =
  wi_uuid :: string
  wi_slug :: string
  wi_name :: string

record bitbucket_item =
  bi_uuid :: string
  bi_name :: string
  bi_full :: string
  bi_private :: bool
  bi_workspace :: string

record bitbucket_commit =
  bm_hash :: string
  bm_date :: string
  bm_message :: string
  bm_author :: string
  bm_url :: string

definition no_bitbucket_user :: bitbucket_user where "no_bitbucket_user = \<lparr>bu_uuid = '''', bu_display = '''', bu_username = ''''\<rparr>"
definition no_workspace :: workspace_item where "no_workspace = \<lparr>wi_uuid = '''', wi_slug = '''', wi_name = ''''\<rparr>"
definition no_bitbucket_item :: bitbucket_item where
  "no_bitbucket_item = \<lparr>bi_uuid = '''', bi_name = '''', bi_full = '''', bi_private = False, bi_workspace = ''''\<rparr>"
definition no_bitbucket_commit :: bitbucket_commit where
  "no_bitbucket_commit = \<lparr>bm_hash = '''', bm_date = '''', bm_message = '''', bm_author = '''', bm_url = ''''\<rparr>"

text \<open>A struct of which one member is of interest, and the others are read only for their type.\<close>

definition read_member :: "string \<Rightarrow> (json \<Rightarrow> 'a \<Rightarrow> 'a option) \<Rightarrow> json \<Rightarrow> 'a \<Rightarrow> 'a option" where
  "read_member name elem = read_object (\<lambda>k v r. if k = name then elem v r else Some r)"

definition read_bitbucket_user :: "json \<Rightarrow> bitbucket_user \<Rightarrow> bitbucket_user option" where
  "read_bitbucket_user = read_object (\<lambda>k v r.
     if k = ''uuid'' then map_option (\<lambda>x. r\<lparr>bu_uuid := x\<rparr>) (read_text v (bu_uuid r))
     else if k = ''display_name'' then map_option (\<lambda>x. r\<lparr>bu_display := x\<rparr>) (read_text v (bu_display r))
     else if k = ''username'' then map_option (\<lambda>x. r\<lparr>bu_username := x\<rparr>) (read_text v (bu_username r))
     else Some r)"

definition read_workspace :: "json \<Rightarrow> workspace_item \<Rightarrow> workspace_item option" where
  "read_workspace = read_object (\<lambda>k v r.
     if k = ''uuid'' then map_option (\<lambda>x. r\<lparr>wi_uuid := x\<rparr>) (read_text v (wi_uuid r))
     else if k = ''slug'' then map_option (\<lambda>x. r\<lparr>wi_slug := x\<rparr>) (read_text v (wi_slug r))
     else if k = ''name'' then map_option (\<lambda>x. r\<lparr>wi_name := x\<rparr>) (read_text v (wi_name r))
     else Some r)"

definition read_repo_workspace :: "json \<Rightarrow> string \<Rightarrow> string option" where
  "read_repo_workspace = read_object (\<lambda>k v r.
     if k = ''uuid'' then read_text v r else if k = ''slug'' then map_option (\<lambda>_. r) (read_text v '''') else Some r)"

definition read_bitbucket_item :: "json \<Rightarrow> bitbucket_item \<Rightarrow> bitbucket_item option" where
  "read_bitbucket_item = read_object (\<lambda>k v r.
     if k = ''uuid'' then map_option (\<lambda>x. r\<lparr>bi_uuid := x\<rparr>) (read_text v (bi_uuid r))
     else if k = ''name'' then map_option (\<lambda>x. r\<lparr>bi_name := x\<rparr>) (read_text v (bi_name r))
     else if k = ''full_name'' then map_option (\<lambda>x. r\<lparr>bi_full := x\<rparr>) (read_text v (bi_full r))
     else if k = ''is_private'' then map_option (\<lambda>x. r\<lparr>bi_private := x\<rparr>) (read_flag v (bi_private r))
     else if k = ''workspace'' then map_option (\<lambda>x. r\<lparr>bi_workspace := x\<rparr>) (read_repo_workspace v (bi_workspace r))
     else Some r)"

definition read_bitbucket_commit :: "json \<Rightarrow> bitbucket_commit \<Rightarrow> bitbucket_commit option" where
  "read_bitbucket_commit = read_object (\<lambda>k v r.
     if k = ''hash'' then map_option (\<lambda>x. r\<lparr>bm_hash := x\<rparr>) (read_text v (bm_hash r))
     else if k = ''date'' then map_option (\<lambda>x. r\<lparr>bm_date := x\<rparr>) (read_text v (bm_date r))
     else if k = ''message'' then map_option (\<lambda>x. r\<lparr>bm_message := x\<rparr>) (read_text v (bm_message r))
     else if k = ''author'' then map_option (\<lambda>x. r\<lparr>bm_author := x\<rparr>) (read_member ''user'' (read_member ''uuid'' read_text) v (bm_author r))
     else if k = ''links'' then map_option (\<lambda>x. r\<lparr>bm_url := x\<rparr>)
       (read_member ''html'' (\<lambda>j u. if j = JNull then Some '''' else read_member ''href'' read_text j u) v (bm_url r))
     else Some r)"

text \<open>\<open>paginatedResponse\<close>: the items and the address of the next page.\<close>

definition read_paginated :: "(json \<Rightarrow> 'i \<Rightarrow> 'i option) \<Rightarrow> 'i \<Rightarrow> json \<Rightarrow> ('i list \<times> string) option" where
  "read_paginated elem zero j = read_object (\<lambda>k v r.
     if k = ''values'' then map_option (\<lambda>x. (x, snd r)) (read_slice elem zero v (fst r))
     else if k = ''next'' then map_option (\<lambda>x. (fst r, x)) (read_text v (snd r))
     else Some r) j ([], '''')"


section \<open>Requests\<close>

abbreviation (input) providerBitbucket :: string where "providerBitbucket \<equiv> ''bitbucket''"

definition bitbucket_base :: "settings \<Rightarrow> string" where
  "bitbucket_base pv = baseURL ''https://api.bitbucket.org/2.0'' pv"

definition bitbucket_headers :: "(string \<times> string) list" where
  "bitbucket_headers = [(''Accept'', ''application/json'')]"

text \<open>
  The broker refreshes in broker mode; otherwise the client itself does if it has credentials, and
  without them the token source of the HTTP client is asked.
\<close>

definition localRefresh :: "adapters \<Rightarrow> token \<Rightarrow> (desk, token) act" where
  "localRefresh ad current =
     act_bind (ad_local_refresh ad \<lparr>tk_access = '''', tk_type = '''', tk_refresh = tk_refresh current, tk_expiry = zero_time, tk_source = ''''\<rparr>) (\<lambda>t.
       act_ret \<lparr>tk_access = tk_access t, tk_type = (if trim_space (tk_type t) = '''' then ''Bearer'' else trim_space (tk_type t)),
         tk_refresh = (if trim_space (tk_refresh t) = '''' then tk_refresh current else trim_space (tk_refresh t)),
         tk_expiry = tk_expiry t, tk_source = ''''\<rparr>)"

definition bitbucket_client :: "adapters \<Rightarrow> settings \<Rightarrow> string \<Rightarrow> client" where
  "bitbucket_client ad pv account = \<lparr>hc_provider = providerBitbucket, hc_account = account,
     hc_refresh = (if usesBrokerAuth pv then ad_broker_refresh ad (trim_space (pv_broker pv))
       else if trim_space (pv_client pv) \<noteq> '''' \<and> trim_space (pv_secret pv) \<noteq> '''' then localRefresh ad
       else token_source ad)\<rparr>"

definition getAbsoluteJSON :: "remote \<Rightarrow> adapters \<Rightarrow> settings \<Rightarrow> string \<Rightarrow> string \<Rightarrow> (desk, json) act" where
  "getAbsoluteJSON rm ad pv account url = api_get rm (bitbucket_client ad pv account) bitbucket_headers url"

definition bitbucket_fetchUser :: "remote \<Rightarrow> settings \<Rightarrow> string \<Rightarrow> (desk, bitbucket_user) act" where
  "bitbucket_fetchUser rm pv access =
     act_bind (send rm (get_request (bitbucket_base pv @ ''/user'') ((''Authorization'', ''Bearer '' @ access) # bitbucket_headers))) (\<lambda>resp.
       if \<not> ok_status (hr_status resp) then act_throw ErrOther
       else act_bind (act_the ErrOther (hr_json resp)) (decode read_bitbucket_user no_bitbucket_user))"

definition bitbucket_page ::
    "remote \<Rightarrow> adapters \<Rightarrow> settings \<Rightarrow> string \<Rightarrow> (json \<Rightarrow> 'i \<Rightarrow> 'i option) \<Rightarrow> 'i \<Rightarrow> string \<Rightarrow> (desk, 'i list \<times> string option) act" where
  "bitbucket_page rm ad pv account elem zero url =
     act_bind (getAbsoluteJSON rm ad pv account url) (\<lambda>j.
       act_bind (act_the ErrOther (read_paginated elem zero j)) (\<lambda>(items, next).
         act_ret (items, if trim_space next = '''' then None else Some (trim_space next))))"


section \<open>Accounts\<close>

definition store_workspace :: "string \<Rightarrow> workspace_item \<Rightarrow> (desk, bitbucket_workspace option) act" where
  "store_workspace account item =
     (let i = trim_space (wi_uuid item); slug = trim_space (wi_slug item); name = trim_space (wi_name item) in
      if i = '''' \<or> slug = '''' then act_ret None
      else act_bind (q_UpsertBitbucketWorkspace account i slug (if name = '''' then slug else name) False) (\<lambda>r. act_ret (Some r)))"

definition store_bitbucket_repo :: "string \<Rightarrow> bitbucket_item \<Rightarrow> (desk, bitbucket_repo option) act" where
  "store_bitbucket_repo account item =
     (let i = trim_space (bi_uuid item); full = trim_space (bi_full item); name = trim_space (bi_name item);
          workspace = trim_space (bi_workspace item) in
      if i = '''' \<or> full = '''' \<or> workspace = '''' then act_ret None
      else act_bind (q_UpsertBitbucketRepo account workspace i (if name = '''' then full else name) full (bi_private item) False)
        (\<lambda>r. act_ret (Some r)))"

definition syncWorkspaces :: "remote \<Rightarrow> adapters \<Rightarrow> settings \<Rightarrow> string \<Rightarrow> (desk, bitbucket_workspace list) act" where
  "syncWorkspaces rm ad pv account = each_page (bitbucket_page rm ad pv account read_workspace no_workspace)
     (\<lambda>items out. act_bind (for_each (store_workspace account) items) (\<lambda>rs. act_ret (out @ List.map_filter id rs)))
     (\<lambda>_. False) (bitbucket_base pv @ ''/workspaces?role=member&pagelen=100'') []"

definition syncRepos :: "remote \<Rightarrow> adapters \<Rightarrow> settings \<Rightarrow> string \<Rightarrow> (desk, bitbucket_repo list) act" where
  "syncRepos rm ad pv account = each_page (bitbucket_page rm ad pv account read_bitbucket_item no_bitbucket_item)
     (\<lambda>items out. act_bind (for_each (store_bitbucket_repo account) items) (\<lambda>rs. act_ret (out @ List.map_filter id rs)))
     (\<lambda>_. False) (bitbucket_base pv @ ''/repositories?role=member&pagelen=100'') []"

definition SyncWorkspacesRepos ::
    "remote \<Rightarrow> adapters \<Rightarrow> settings \<Rightarrow> string \<Rightarrow> (desk, bitbucket_workspace list \<times> bitbucket_repo list) act" where
  "SyncWorkspacesRepos rm ad pv account =
     (let account = trim_space account in
      if account = '''' then act_throw ErrOther
      else act_bind (syncWorkspaces rm ad pv account) (\<lambda>ws. act_bind (syncRepos rm ad pv account) (\<lambda>rs. act_ret (ws, rs))))"

definition ListWorkspaces :: "desk \<Rightarrow> bitbucket_workspace list" where
  "ListWorkspaces d = q_ListBitbucketWorkspaces d"

definition bitbucket_ListRepos :: "desk \<Rightarrow> bitbucket_repo list" where
  "bitbucket_ListRepos d = q_ListBitbucketRepos d"

definition SetWorkspaceSelected :: "int \<Rightarrow> bool \<Rightarrow> (desk, unit) act" where
  "SetWorkspaceSelected i selected = q_SetBitbucketWorkspaceSelected selected i"

definition bitbucket_SetRepoSelected :: "int \<Rightarrow> bool \<Rightarrow> (desk, unit) act" where
  "bitbucket_SetRepoSelected i selected = q_SetBitbucketRepoSelected selected i"

text \<open>The token is not revoked.\<close>

definition bitbucket_Disconnect :: "remote \<Rightarrow> string \<Rightarrow> (desk, unit) act" where
  "bitbucket_Disconnect rm account =
     (let account = trim_space account in
      if account = '''' then act_throw ErrOther
      else act_seq (q_DeleteBitbucketReposByAccount account)
        (act_seq (q_DeleteBitbucketWorkspacesByAccount account) (remove_account rm providerBitbucket account)))"

definition bitbucket_connectWithToken :: "remote \<Rightarrow> adapters \<Rightarrow> settings \<Rightarrow> token \<Rightarrow> string list \<Rightarrow> (desk, connection_info) act" where
  "bitbucket_connectWithToken rm ad pv t scopes =
     act_bind (bitbucket_fetchUser rm pv (tk_access t)) (\<lambda>user.
       let i = trim_space (bu_uuid user); display = trim_space (bu_display user); username = trim_space (bu_username user) in
       if i = '''' then act_throw ErrOther
       else store_account rm providerBitbucket i (if display \<noteq> '''' then display else if username \<noteq> '''' then username else i) t scopes
         (SyncWorkspacesRepos rm ad pv i) (bitbucket_Disconnect rm i))"

definition bitbucket_Connect :: "remote \<Rightarrow> adapters \<Rightarrow> settings \<Rightarrow> (desk, connection_info) act" where
  "bitbucket_Connect rm ad pv =
     act_bind (authorized_token ad pv ''bitbucket'') (\<lambda>r. bitbucket_connectWithToken rm ad pv (au_token r) (au_scopes r))"


section \<open>Evidence\<close>

definition splitRepoFullName :: "string \<Rightarrow> (string \<times> string) option" where
  "splitRepoFullName full =
     (let full = trim_space full; workspace = trim_space (takeWhile (\<lambda>c. c \<noteq> CHR ''/'') full);
          rest = dropWhile (\<lambda>c. c \<noteq> CHR ''/'') full; slug = trim_space (drop 1 rest)
      in if rest = '''' \<or> CHR ''/'' \<in> set (drop 1 rest) \<or> workspace = '''' \<or> slug = '''' then None else Some (workspace, slug))"

definition commitAuthorMatches :: "string \<Rightarrow> bitbucket_commit \<Rightarrow> bool" where
  "commitAuthorMatches account item =
     (let author = trim_space (bm_author item) in author \<noteq> '''' \<and> equal_fold author (trim_space account))"

definition bitbucket_mapCommit :: "string \<Rightarrow> bitbucket_commit \<Rightarrow> instant \<Rightarrow> evidence" where
  "bitbucket_mapCommit full item ts =
     \<lparr>ae_provider = providerBitbucket, ae_kind = ''commit'', ae_start = ts, ae_end = ts + second,
      ae_summary = prefixEvidenceSummary full (commit_summary (bm_hash item) (bm_message item)), ae_source = full,
      ae_detail = trim_space (bm_message item), ae_url = trim_space (bm_url item)\<rparr>"

definition bitbucket_time :: "bitbucket_commit \<Rightarrow> instant option" where
  "bitbucket_time item = (let raw = trim_space (bm_date item) in if raw = '''' then None else parse_rfc3339 raw)"

abbreviation maxBitbucketCommits :: nat where "maxBitbucketCommits \<equiv> 50"
abbreviation maxCommitPages :: nat where "maxCommitPages \<equiv> 10"

text \<open>The commits of a page, until one is older than the window; whether there was one is the second result.\<close>

fun collect_commits ::
    "string \<Rightarrow> string \<Rightarrow> instant \<Rightarrow> instant \<Rightarrow> bitbucket_commit list \<Rightarrow> evidence list \<Rightarrow> evidence list \<times> bool" where
  "collect_commits account full s e [] out = (out, False)"
| "collect_commits account full s e (item # items) out =
     (if maxBitbucketCommits \<le> length out then (out, False)
      else case bitbucket_time item of
        None \<Rightarrow> collect_commits account full s e items out
      | Some ts \<Rightarrow> if ts < s then (out, True)
          else if \<not> ts < e \<or> \<not> commitAuthorMatches account item then collect_commits account full s e items out
          else collect_commits account full s e items (out @ [bitbucket_mapCommit full item ts]))"

text \<open>A page by its number and address; a page without commits ends the loop, and so does the last of ten.\<close>

definition bitbucket_commits_page ::
    "remote \<Rightarrow> adapters \<Rightarrow> settings \<Rightarrow> string \<Rightarrow> nat \<times> string \<Rightarrow> (desk, bitbucket_commit list \<times> (nat \<times> string) option) act" where
  "bitbucket_commits_page rm ad pv account key =
     act_bind (bitbucket_page rm ad pv account read_bitbucket_commit no_bitbucket_commit (snd key)) (\<lambda>page.
       act_ret (fst page, if fst page = [] \<or> maxCommitPages \<le> fst key + 1 then None else map_option (Pair (fst key + 1)) (snd page)))"

definition bitbucket_fetchCommits ::
    "remote \<Rightarrow> adapters \<Rightarrow> settings \<Rightarrow> string \<Rightarrow> string \<Rightarrow> instant \<Rightarrow> instant \<Rightarrow> (desk, evidence list) act" where
  "bitbucket_fetchCommits rm ad pv account full s e =
     (case splitRepoFullName full of None \<Rightarrow> act_throw ErrOther
      | Some (workspace, slug) \<Rightarrow>
          act_bind (each_page (bitbucket_commits_page rm ad pv account)
            (\<lambda>items acc. act_ret (collect_commits account full s e items (fst acc)))
            (\<lambda>acc. snd acc \<or> maxBitbucketCommits \<le> length (fst acc))
            (0, bitbucket_base pv @ ''/repositories/'' @ workspace @ ''/'' @ slug @ ''/commits?pagelen=100'') ([], False))
          (\<lambda>acc. act_ret (fst acc)))"

definition bitbucket_fetchRepoEvidence :: "remote \<Rightarrow> adapters \<Rightarrow> settings \<Rightarrow> bitbucket_repo \<Rightarrow> instant \<Rightarrow> instant \<Rightarrow> (desk, evidence list) act" where
  "bitbucket_fetchRepoEvidence rm ad pv repo s e =
     (let account = trim_space (bp_account repo); full = trim_space (bp_full repo) in
      if account = '''' \<or> full = '''' then act_ret []
      else or_nothing (bitbucket_fetchCommits rm ad pv account full s e))"

definition bitbucket_FetchEvidence :: "remote \<Rightarrow> adapters \<Rightarrow> settings \<Rightarrow> time_window \<Rightarrow> (desk, evidence list) act" where
  "bitbucket_FetchEvidence rm ad pv window = fetch_evidence q_ListSelectedBitbucketRepos (bitbucket_fetchRepoEvidence rm ad pv) window"

end
