(* ===== verification/Google_Account.thy ===== *)
theory Google_Account
  imports Activity
begin

text \<open>
  Google accounts: Connect, Disconnect and the calls of internal/integration/google/provider.go,
  with config.go.
\<close>

abbreviation (input) providerGoogle :: string where "providerGoogle \<equiv> ''google''"

definition google_base :: "settings \<Rightarrow> string" where
  "google_base pv = baseURL ''https://www.googleapis.com/calendar/v3'' pv"

definition google_client :: "adapters \<Rightarrow> settings \<Rightarrow> string \<Rightarrow> client" where
  "google_client ad pv account = \<lparr>hc_provider = providerGoogle, hc_account = account,
     hc_refresh = (if usesBrokerAuth pv then ad_broker_refresh ad (trim_space (pv_broker pv)) else token_source ad)\<rparr>"

definition google_getJSON :: "remote \<Rightarrow> adapters \<Rightarrow> settings \<Rightarrow> string \<Rightarrow> desk api" where
  "google_getJSON rm ad pv account path q = api_get rm (google_client ad pv account) [] (with_query rm (google_base pv @ path) q)"

definition google_SyncCalendars :: "remote \<Rightarrow> adapters \<Rightarrow> settings \<Rightarrow> string \<Rightarrow> (desk, calendar list) act" where
  "google_SyncCalendars rm ad pv account =
     SyncCalendars (\<lambda>p ext name primary. in_db (q_UpsertCalendar p ext name primary)) (google_getJSON rm ad pv account)"

definition google_FetchEvents ::
    "remote \<Rightarrow> adapters \<Rightarrow> settings \<Rightarrow> string \<Rightarrow> string \<Rightarrow> string \<Rightarrow> calendar list \<Rightarrow> (desk, incoming list) act" where
  "google_FetchEvents rm ad pv account period_start period_end cals =
     FetchEvents (rm_escape rm) (google_getJSON rm ad pv account) period_start period_end cals"

text \<open>Unlike the other providers', a failing first sync leaves the account connected.\<close>

definition google_authorize :: "adapters \<Rightarrow> settings \<Rightarrow> string \<Rightarrow> (desk, auth_result) act" where
  "google_authorize ad pv account =
     (case ad_authorizer ad of Some run \<Rightarrow> run account
      | None \<Rightarrow> if usesBrokerAuth pv then
            (if trim_space (pv_broker pv) = '''' then act_throw ErrBrokerConfig else ad_broker ad (trim_space (pv_broker pv)) account)
          else if trim_space (pv_client pv) = '''' then act_throw ErrLocalCredentials
          else ad_local ad account)"

definition google_Connect :: "remote \<Rightarrow> adapters \<Rightarrow> settings \<Rightarrow> string \<Rightarrow> string \<Rightarrow> (desk, connection_info) act" where
  "google_Connect rm ad pv account label =
     (let account = trim_space account; label = trim_space label in
      if account = '''' then act_throw ErrOther
      else act_bind (google_authorize ad pv account) (\<lambda>r.
        act_seq (store_Set rm providerGoogle account (au_token r))
          (act_bind (reg_Upsert providerGoogle (if label = '''' then account else label) account (au_scopes r) StatusConnected) (\<lambda>conn.
             act_seq (google_SyncCalendars rm ad pv account) (act_ret conn)))))"

text \<open>The broker is asked to revoke a refresh token in broker mode, wherever the token came from.\<close>

definition google_revoke :: "remote \<Rightarrow> adapters \<Rightarrow> settings \<Rightarrow> string \<Rightarrow> (desk, unit) act" where
  "google_revoke rm ad pv account = (\<lambda>s.
     case store_Get rm providerGoogle account s of
       (Inl _, t) \<Rightarrow> (Inr (), t)
     | (Inr tok, t) \<Rightarrow>
         if usesBrokerAuth pv \<and> trim_space (tk_refresh tok) \<noteq> '''' then
           (case ad_revoker ad of
              Some run \<Rightarrow> best_effort (run (trim_space (tk_refresh tok))) t
            | None \<Rightarrow> if trim_space (pv_broker pv) = '''' then (Inr (), t)
                else best_effort (ad_broker_revoke ad (trim_space (pv_broker pv)) (trim_space (tk_refresh tok))) t)
         else (Inr (), t))"

definition google_Disconnect :: "remote \<Rightarrow> adapters \<Rightarrow> settings \<Rightarrow> string \<Rightarrow> (desk, unit) act" where
  "google_Disconnect rm ad pv account =
     (let account = trim_space account in
      if account = '''' then act_throw ErrOther
      else act_seq (google_revoke rm ad pv account) (remove_account rm providerGoogle account))"

text \<open>\<open>Status\<close>: the mode for display, and the address of the broker in broker mode.\<close>

definition google_Status :: "settings option \<Rightarrow> string \<times> string" where
  "google_Status p = (case p of None \<Rightarrow> (''broker'', '''')
    | Some pv \<Rightarrow> (let mode = to_lower (trim_space (pv_mode pv)); mode = (if mode = '''' then ''broker'' else mode) in
        (mode, if equal_fold mode ''broker'' then trim_space (pv_broker pv) else '''')))"

definition google_OAuthAvailable :: "settings option \<Rightarrow> bool" where
  "google_OAuthAvailable p = (case p of None \<Rightarrow> False
    | Some pv \<Rightarrow> if usesBrokerAuth pv then trim_space (pv_broker pv) \<noteq> '''' else trim_space (pv_client pv) \<noteq> '''')"

end
