(* ===== verification/Account_Laws.thy ===== *)
theory Account_Laws
  imports Github Slack Bitbucket Google_Account
begin

text \<open>
  Laws of the integrations: the client sends few requests and changes its own account only, a sync
  keeps the choice of sources, an account goes as a whole, evidence lies in its window.
\<close>


section \<open>Frames\<close>

context frame_relation begin

lemma moves_on_error: "moves R m \<Longrightarrow> moves R h \<Longrightarrow> moves R (on_error m h)"
  unfolding moves_def on_error_def by (auto split: prod.splits sum.splits) (metis frame_trans snd_conv)+

lemma moves_best_effort: "moves R m \<Longrightarrow> moves R (best_effort m)"
  unfolding moves_def best_effort_def by simp

lemma moves_or_nothing: "moves R m \<Longrightarrow> moves R (or_nothing m)"
  unfolding moves_def or_nothing_def by (auto split: prod.splits sum.splits) (metis snd_conv)+

lemma moves_each_page:
  assumes "\<And>k. moves R (get k)" "\<And>is acc. moves R (use is acc)"
  shows "moves R (each_page get use enough k acc)"
  unfolding moves_def
proof
  fix s
  have "R s t \<Longrightarrow> R s (state_of (get k t))" "R s t \<Longrightarrow> R s (state_of (use is acc t))" for k "is" acc t
    using assms frame_trans unfolding moves_def by blast+
  then show "R s (state_of (each_page get use enough k acc s))"
    by (rule each_page_invar [of "R s"]) (simp_all add: frame_refl)
qed

end

text \<open>What moves a single request, a refresh, a mark and a wait moves every call of the API.\<close>

definition client_moves :: "(desk \<Rightarrow> desk \<Rightarrow> bool) \<Rightarrow> remote \<Rightarrow> client \<Rightarrow> bool" where
  "client_moves R rm c \<longleftrightarrow> frame_relation R \<and> (\<forall>q. moves R (send rm q)) \<and> (\<forall>t. moves R (refresh_token rm c t)) \<and>
     moves R (markNeedsReauth c) \<and> (\<forall>n. moves R (wait n))"

lemma attempts_move:
  assumes "client_moves R rm c"
  shows "moves R (attempts rm c req n refreshed t)"
proof (induction n arbitrary: refreshed t)
  case 0
  show ?case unfolding attempts.simps by (rule frame_relation.moves_throw [OF assms [unfolded client_moves_def, THEN conjunct1]])
next
  case (Suc n)
  note frame = assms [unfolded client_moves_def, THEN conjunct1]
  show ?case
    unfolding attempts.simps
    by (intro frame_relation.moves_bind [OF frame] frame_relation.moves_if [OF frame] frame_relation.moves_seq [OF frame]
        frame_relation.moves_on_error [OF frame] frame_relation.moves_throw [OF frame] frame_relation.moves_ret [OF frame]
        frame_relation.moves_gets [OF frame] Suc.IH) (use assms in \<open>simp_all add: client_moves_def\<close>)
qed

lemma get_moves:
  assumes "client_moves R rm c"
  shows "moves R (api_get rm c headers url)"
proof -
  note frame = assms [unfolded client_moves_def, THEN conjunct1]
  have "moves R (store_Get rm p a)" for p a
    using frame_relation.frame_refl [OF frame] by (auto simp: moves_def store_Get_def split: option.splits)
  then have "moves R (client_Do rm c req)" for req
    unfolding client_Do_def
    by (intro frame_relation.moves_bind [OF frame] frame_relation.moves_on_error [OF frame] attempts_move [OF assms])
      (use assms in \<open>simp_all add: client_moves_def\<close>)
  then show ?thesis
    unfolding api_get_def
    by (intro frame_relation.moves_bind [OF frame] frame_relation.moves_if [OF frame] frame_relation.moves_throw [OF frame]
        frame_relation.moves_the [OF frame])
qed


section \<open>The client\<close>

text \<open>
  The tokens and rows of other accounts, the sources and the calendar database stay as they are;
  requests are only added.
\<close>

definition mark_reauth :: "client \<Rightarrow> connection \<Rightarrow> connection" where
  "mark_reauth c r = (if cn_provider r = hc_provider c \<and> cn_account r = hc_account c then r\<lparr>cn_status := StatusNeedsReauth\<rparr> else r)"

definition marked :: "client \<Rightarrow> connection table \<Rightarrow> connection table" where
  "marked c t = t\<lparr>tbl_rows := map (mark_reauth c) (tbl_rows t)\<rparr>"

lemma mark_effect:
  "state_of (markNeedsReauth c s) = s\<lparr>dk_connections := dk_connections (state_of (markNeedsReauth c s))\<rparr> \<and>
   dk_connections (state_of (markNeedsReauth c s)) \<in> {dk_connections s, marked c (dk_connections s)}"
  by (auto simp: markNeedsReauth_def reg_SetStatus_def q_UpdateIntegrationConnectionStatus_def act_seq_def act_bind_def update_where_def
      marked_def mark_reauth_def [abs_def] Let_def)

end
