(* ===== verification/Source_Laws.thy ===== *)
theory Source_Laws
  imports Account_Laws
begin

text \<open>
  Laws of the accounts and their sources: what a call leaves of other accounts, the choice of sources
  through a sync, accounts that go as a whole, and the windows of evidence.
\<close>


section \<open>Statements\<close>

text \<open>An upsert changes the rows it recognises, or adds one, or changes nothing.\<close>

lemma upsert_rows:
  assumes "\<And>t d. get (put t d) = t"
  shows "tbl_rows (get (state_of (upsert_into get put ok same upd mk s))) \<in>
    {tbl_rows (get s), map (\<lambda>r. if same r then upd r else r) (tbl_rows (get s)), tbl_rows (get s) @ [mk (tbl_seq (get s) + 1)]}"
  using assms
  by (auto simp: upsert_into_def scan_one_def act_bind_def update_where_def insert_into_def Let_def split: list.split)

lemma upsert_state:
  assumes "\<And>d. put (get d) d = d" "\<And>t d. get (put t d) = t" "\<And>t u d. put t (put u d) = put t d"
  shows "state_of (upsert_into get put ok same upd mk s) = put (get (state_of (upsert_into get put ok same upd mk s))) s"
  using assms
  by (auto simp: upsert_into_def scan_one_def act_bind_def update_where_def insert_into_def Let_def split: list.split)

lemma delete_state: "delete_where get put P s = (Inr (int (length (filter P (tbl_rows (get s))))), put ((get s)\<lparr>tbl_rows := filter (\<lambda>r. \<not> P r) (tbl_rows (get s))\<rparr>) s)"
  by (simp add: delete_where_def Let_def)

text \<open>The rows that are not an account's own.\<close>

definition not_of :: "('r \<Rightarrow> bool) \<Rightarrow> 'r table \<Rightarrow> 'r list" where
  "not_of own t = filter (\<lambda>r. \<not> own r) (tbl_rows t)"

lemma upsert_not_of:
  assumes "\<And>t d. get (put t d) = t" "\<And>r. same r \<Longrightarrow> own r \<and> own (upd r)" "\<And>n. own (mk n)"
  shows "not_of own (get (state_of (upsert_into get put ok same upd mk s))) = not_of own (get s)"
proof -
  have "filter (\<lambda>r. \<not> own r) (map (\<lambda>r. if same r then upd r else r) rs) = filter (\<lambda>r. \<not> own r) rs" for rs
    using assms(2) by (induction rs) auto
  then show ?thesis
    using upsert_rows [where get = get and put = put and ok = ok and same = same and upd = upd and mk = mk and s = s, OF assms(1)] assms(3)
    by (auto simp: not_of_def)
qed

lemma upsert_map:
  assumes "\<And>t d. get (put t d) = t" "\<And>r. f (upd r) = f r" "\<And>n. g (f (mk n))"
  shows "\<exists>new. map f (tbl_rows (get (state_of (upsert_into get put ok same upd mk s)))) = map f (tbl_rows (get s)) @ new \<and> list_all g new"
proof -
  have *: "map f (map (\<lambda>r. if same r then upd r else r) rs) = map f rs" for rs
    using assms(2) by (induction rs) auto
  consider "tbl_rows (get (state_of (upsert_into get put ok same upd mk s))) = tbl_rows (get s)"
    | "tbl_rows (get (state_of (upsert_into get put ok same upd mk s))) = map (\<lambda>r. if same r then upd r else r) (tbl_rows (get s))"
    | "tbl_rows (get (state_of (upsert_into get put ok same upd mk s))) = tbl_rows (get s) @ [mk (tbl_seq (get s) + 1)]"
    using upsert_rows [where get = get and put = put and ok = ok and same = same and upd = upd and mk = mk and s = s, OF assms(1)] by blast
  then show ?thesis
  proof cases
    case 3
    then show ?thesis using assms(3) by (intro exI [of _ "[f (mk (tbl_seq (get s) + 1))]"]) simp
  qed (simp_all add: * del: map_map exI [of _ "[]"])
qed

text \<open>What the rows are moved by, the statement is moved by.\<close>

lemma upsert_moves:
  assumes "\<And>d. put (get d) d = d" "\<And>t d. get (put t d) = t" "\<And>t u d. put t (put u d) = put t d"
    "\<And>s. R s (put (get (state_of (upsert_into get put ok same upd mk s))) s)"
  shows "moves R (upsert_into get put ok same upd mk)"
  unfolding moves_def
proof
  fix s
  have "state_of (upsert_into get put ok same upd mk s) = put (get (state_of (upsert_into get put ok same upd mk s))) s"
    using assms(1-3) by (rule upsert_state)
  then show "R s (state_of (upsert_into get put ok same upd mk s))" using assms(4) [of s] by simp
qed


section \<open>Other accounts\<close>

text \<open>
  Everything that does not belong to account \<open>a\<close> of provider \<open>p\<close> stays: the calendar database, the
  tokens, the rows of connections and of sources.
\<close>

definition conn_of :: "string \<Rightarrow> string \<Rightarrow> connection \<Rightarrow> bool" where
  "conn_of p a r \<longleftrightarrow> cn_provider r = p \<and> cn_account r = a"

definition repo_of :: "string \<Rightarrow> string \<Rightarrow> github_repo \<Rightarrow> bool" where
  "repo_of p a r \<longleftrightarrow> p = providerGitHub \<and> hr_account r = a"

definition channel_of :: "string \<Rightarrow> string \<Rightarrow> slack_channel \<Rightarrow> bool" where
  "channel_of p a r \<longleftrightarrow> p = providerSlack \<and> sc_account r = a"

definition workspace_of :: "string \<Rightarrow> string \<Rightarrow> bitbucket_workspace \<Rightarrow> bool" where
  "workspace_of p a r \<longleftrightarrow> p = providerBitbucket \<and> bw_account r = a"

definition bitbucket_of :: "string \<Rightarrow> string \<Rightarrow> bitbucket_repo \<Rightarrow> bool" where
  "bitbucket_of p a r \<longleftrightarrow> p = providerBitbucket \<and> bp_account r = a"

definition others_kept :: "string \<Rightarrow> string \<Rightarrow> desk \<Rightarrow> desk \<Rightarrow> bool" where
  "others_kept p a s s' \<longleftrightarrow> dk_db s' = dk_db s \<and>
     (\<forall>k. storageKey p a \<noteq> Some k \<longrightarrow> dk_tokens s' k = dk_tokens s k) \<and>
     not_of (conn_of p a) (dk_connections s') = not_of (conn_of p a) (dk_connections s) \<and>
     not_of (repo_of p a) (dk_repos s') = not_of (repo_of p a) (dk_repos s) \<and>
     not_of (channel_of p a) (dk_channels s') = not_of (channel_of p a) (dk_channels s) \<and>
     not_of (workspace_of p a) (dk_workspaces s') = not_of (workspace_of p a) (dk_workspaces s) \<and>
     not_of (bitbucket_of p a) (dk_bitbucket s') = not_of (bitbucket_of p a) (dk_bitbucket s)"

lemma others_put:
  "not_of (conn_of p a) t = not_of (conn_of p a) (dk_connections s) \<Longrightarrow> others_kept p a s (s\<lparr>dk_connections := t\<rparr>)"
  "not_of (repo_of p a) u = not_of (repo_of p a) (dk_repos s) \<Longrightarrow> others_kept p a s (s\<lparr>dk_repos := u\<rparr>)"
  "not_of (channel_of p a) v = not_of (channel_of p a) (dk_channels s) \<Longrightarrow> others_kept p a s (s\<lparr>dk_channels := v\<rparr>)"
  "not_of (workspace_of p a) w = not_of (workspace_of p a) (dk_workspaces s) \<Longrightarrow> others_kept p a s (s\<lparr>dk_workspaces := w\<rparr>)"
  "not_of (bitbucket_of p a) x = not_of (bitbucket_of p a) (dk_bitbucket s) \<Longrightarrow> others_kept p a s (s\<lparr>dk_bitbucket := x\<rparr>)"
  by (simp_all add: others_kept_def)

interpretation others: frame_relation "others_kept p a" for p a
  by unfold_locales (auto simp: others_kept_def)

lemma others_send: "moves (others_kept p a) (send rm q)"
  unfolding moves_def by (auto simp: send_def Let_def others_kept_def split: option.split)

lemma others_wait: "moves (others_kept p a) (wait n)"
  unfolding moves_def by (simp add: wait_def others_kept_def)

lemma others_store:
  "moves (others_kept p a) (store_Get rm p a)" "moves (others_kept p a) (store_Set rm p a t)" "moves (others_kept p a) (store_Delete rm p a)"
  unfolding moves_def by (auto simp: store_Get_def store_Set_def store_Delete_def others_kept_def split: option.split)

lemma others_status: "moves (others_kept p a) (reg_SetStatus p a st)"
proof -
  have "filter (\<lambda>r. \<not> conn_of p a r) (map (\<lambda>r. if conn_of p a r then r\<lparr>cn_status := st\<rparr> else r) rs) = filter (\<lambda>r. \<not> conn_of p a r) rs" for rs
    by (induction rs) (auto simp: conn_of_def)
  then show ?thesis
    unfolding moves_def reg_SetStatus_def q_UpdateIntegrationConnectionStatus_def conn_of_def [symmetric]
    by (auto simp: act_seq_def act_bind_def update_where_def Let_def not_of_def intro!: others_put(1) others.frame_refl)
qed

lemma others_disconnect: "moves (others_kept p a) (reg_Disconnect p a)"
  unfolding moves_def reg_Disconnect_def q_DeleteIntegrationConnection_def conn_of_def [symmetric]
  by (auto simp: act_seq_def act_bind_def delete_state not_of_def intro!: others_put)

lemma others_upserts:
  "moves (others_kept p a) (q_UpsertIntegrationConnection p label a scopes st)"
  "moves (others_kept providerGitHub a) (q_UpsertGitHubRepo a full name fname private sel)"
  "moves (others_kept providerSlack a) (q_UpsertSlackChannel a ch name private sel)"
  "moves (others_kept providerBitbucket a) (q_UpsertBitbucketWorkspace a wu wslug wname sel)"
  "moves (others_kept providerBitbucket a) (q_UpsertBitbucketRepo a wu ru rn rf private sel)"
  unfolding q_UpsertIntegrationConnection_def q_UpsertGitHubRepo_def q_UpsertSlackChannel_def q_UpsertBitbucketWorkspace_def q_UpsertBitbucketRepo_def
  by (rule upsert_moves; (auto intro!: others_put upsert_not_of simp: conn_of_def repo_of_def channel_of_def workspace_of_def bitbucket_of_def))+


section \<open>Choice of sources\<close>

text \<open>
  The sources that are listed stay, under their id, account and name at the provider, as selected as
  before; new ones are not selected.
\<close>

definition unselected :: "int \<times> string \<times> string \<times> bool \<Rightarrow> bool" where
  "unselected c \<longleftrightarrow> \<not> snd (snd (snd c))"

definition extended :: "(int \<times> string \<times> string \<times> bool) list \<Rightarrow> (int \<times> string \<times> string \<times> bool) list \<Rightarrow> bool" where
  "extended cs cs' \<longleftrightarrow> (\<exists>new. cs' = cs @ new \<and> list_all unselected new)"

definition repo_choices :: "desk \<Rightarrow> (int \<times> string \<times> string \<times> bool) list" where
  "repo_choices s = map (\<lambda>r. (hr_id r, hr_account r, hr_external r, hr_selected r)) (tbl_rows (dk_repos s))"

definition channel_choices :: "desk \<Rightarrow> (int \<times> string \<times> string \<times> bool) list" where
  "channel_choices s = map (\<lambda>r. (sc_id r, sc_account r, sc_external r, sc_selected r)) (tbl_rows (dk_channels s))"

definition workspace_choices :: "desk \<Rightarrow> (int \<times> string \<times> string \<times> bool) list" where
  "workspace_choices s = map (\<lambda>r. (bw_id r, bw_account r, bw_external r, bw_selected r)) (tbl_rows (dk_workspaces s))"

definition bitbucket_choices :: "desk \<Rightarrow> (int \<times> string \<times> string \<times> bool) list" where
  "bitbucket_choices s = map (\<lambda>r. (bp_id r, bp_account r, bp_external r, bp_selected r)) (tbl_rows (dk_bitbucket s))"

definition choice_kept :: "desk \<Rightarrow> desk \<Rightarrow> bool" where
  "choice_kept s s' \<longleftrightarrow> extended (repo_choices s) (repo_choices s') \<and> extended (channel_choices s) (channel_choices s') \<and>
     extended (workspace_choices s) (workspace_choices s') \<and> extended (bitbucket_choices s) (bitbucket_choices s')"

lemma extended_refl: "extended cs cs"
  by (simp add: extended_def)

lemma extended_trans: "extended cs ds \<Longrightarrow> extended ds es \<Longrightarrow> extended cs es"
  unfolding extended_def by fastforce

interpretation choice: frame_relation choice_kept
  by unfold_locales (auto simp: choice_kept_def extended_refl intro: extended_trans)

lemmas choices_defs = repo_choices_def channel_choices_def workspace_choices_def bitbucket_choices_def

lemma choice_put:
  "choice_kept s (s\<lparr>dk_connections := t\<rparr>)"
  "extended (repo_choices s) (repo_choices (s\<lparr>dk_repos := u\<rparr>)) \<Longrightarrow> choice_kept s (s\<lparr>dk_repos := u\<rparr>)"
  "extended (channel_choices s) (channel_choices (s\<lparr>dk_channels := v\<rparr>)) \<Longrightarrow> choice_kept s (s\<lparr>dk_channels := v\<rparr>)"
  "extended (workspace_choices s) (workspace_choices (s\<lparr>dk_workspaces := w\<rparr>)) \<Longrightarrow> choice_kept s (s\<lparr>dk_workspaces := w\<rparr>)"
  "extended (bitbucket_choices s) (bitbucket_choices (s\<lparr>dk_bitbucket := x\<rparr>)) \<Longrightarrow> choice_kept s (s\<lparr>dk_bitbucket := x\<rparr>)"
  by (simp_all add: choice_kept_def choices_defs extended_refl)

lemma choice_upserts:
  "moves choice_kept (q_UpsertGitHubRepo a full name fname private False)"
  "moves choice_kept (q_UpsertSlackChannel a ch name private False)"
  "moves choice_kept (q_UpsertBitbucketWorkspace a wu wslug wname False)"
  "moves choice_kept (q_UpsertBitbucketRepo a wu ru rn rf private False)"
  unfolding q_UpsertGitHubRepo_def q_UpsertSlackChannel_def q_UpsertBitbucketWorkspace_def q_UpsertBitbucketRepo_def
  by (rule upsert_moves; (auto intro!: choice_put upsert_map simp: extended_def choices_defs unselected_def))+


section \<open>Flows\<close>

text \<open>
  The flows of a provider (authorization, refresh, revocation) send requests and wait; they read and
  write neither the database nor the keychain.
\<close>

definition flow_frame :: "desk \<Rightarrow> desk \<Rightarrow> bool" where
  "flow_frame s s' \<longleftrightarrow> s' = s\<lparr>dk_sent := dk_sent s', dk_waits := dk_waits s'\<rparr>"

interpretation flow: frame_relation flow_frame
proof
  show "flow_frame s s" for s by (simp add: flow_frame_def)
  show "flow_frame s t \<Longrightarrow> flow_frame t u \<Longrightarrow> flow_frame s u" for s t u
    by (cases s; cases t; cases u) (auto simp: flow_frame_def)
qed

definition quiet_flows :: "adapters \<Rightarrow> bool" where
  "quiet_flows ad \<longleftrightarrow>
     (\<forall>run h. ad_authorizer ad = Some run \<longrightarrow> moves flow_frame (run h)) \<and> (\<forall>run t. ad_revoker ad = Some run \<longrightarrow> moves flow_frame (run t)) \<and>
     (\<forall>b h. moves flow_frame (ad_broker ad b h)) \<and> (\<forall>b t. moves flow_frame (ad_broker_revoke ad b t)) \<and>
     (\<forall>b t. moves flow_frame (ad_broker_refresh ad b t)) \<and> (\<forall>h. moves flow_frame (ad_local ad h)) \<and>
     (\<forall>t. moves flow_frame (ad_local_refresh ad t))"

lemma flow_moves:
  assumes "moves flow_frame m" "\<And>s s'. flow_frame s s' \<Longrightarrow> R s s'"
  shows "moves R m"
  using assms unfolding moves_def by blast

lemma flow_others: "flow_frame s s' \<Longrightarrow> others_kept p a s s'"
  unfolding flow_frame_def others_kept_def by (cases s; cases s') simp

lemma flow_choice: "flow_frame s s' \<Longrightarrow> choice_kept s s'"
  unfolding flow_frame_def choice_kept_def choices_defs by (cases s; cases s') (simp add: extended_refl)

lemma flow_send: "moves flow_frame (send rm q)"
  unfolding moves_def by (auto simp: send_def Let_def flow_frame_def split: option.split)

lemma flow_wait: "moves flow_frame (wait n)"
  unfolding moves_def by (simp add: wait_def flow_frame_def)

lemma flow_no_refresh: "moves flow_frame (no_refresh t)"
  unfolding no_refresh_def by (rule flow.moves_throw)

lemma flow_refreshes:
  assumes "quiet_flows ad"
  shows "moves flow_frame (token_source ad t)" "moves flow_frame (localRefresh ad t)"
  using assms unfolding token_source_def localRefresh_def quiet_flows_def
  by (auto intro!: flow.moves_bind flow.moves_ret)

text \<open>The clients of the four providers refresh quietly.\<close>

definition quiet_client :: "client \<Rightarrow> bool" where
  "quiet_client c \<longleftrightarrow> (\<forall>t. moves flow_frame (hc_refresh c t))"

lemma quiet_clients:
  "quiet_client (github_client a)" "quiet_client (slack_client a)"
  "quiet_flows ad \<Longrightarrow> quiet_client (bitbucket_client ad pv a)" "quiet_flows ad \<Longrightarrow> quiet_client (google_client ad pv a)"
  by (simp_all add: quiet_client_def github_client_def slack_client_def bitbucket_client_def google_client_def
      flow_no_refresh flow_refreshes) (simp_all add: quiet_flows_def)

text \<open>A client stays within its account and keeps the choice of sources.\<close>

lemma moves_refresh:
  assumes "frame_relation R" "moves R (hc_refresh c t)" "\<And>u. moves R (store_Set rm (hc_provider c) (hc_account c) u)"
  shows "moves R (refresh_token rm c t)"
  unfolding refresh_token_def Let_def
  by (intro frame_relation.moves_bind [OF assms(1)] frame_relation.moves_seq [OF assms(1)] frame_relation.moves_ret [OF assms(1)] assms)

lemma client_movesI:
  assumes frame: "frame_relation R" and flows: "\<And>s s'. flow_frame s s' \<Longrightarrow> R s s'" and "quiet_client c"
    and "\<And>u. moves R (store_Set rm (hc_provider c) (hc_account c) u)" "\<And>st. moves R (reg_SetStatus (hc_provider c) (hc_account c) st)"
  shows "client_moves R rm c"
proof -
  have refresh: "moves R (refresh_token rm c t)" for t
    by (rule moves_refresh [OF frame flow_moves [OF _ flows] assms(4)]) (use \<open>quiet_client c\<close> in \<open>simp_all add: quiet_client_def\<close>)
  show ?thesis
    unfolding client_moves_def markNeedsReauth_def
    using frame refresh assms(5) flow_moves [where R = R, OF flow_send flows] flow_moves [where R = R, OF flow_wait flows] by blast
qed

lemma client_keeps_others:
  assumes "quiet_client c"
  shows "client_moves (others_kept (hc_provider c) (hc_account c)) rm c"
  by (rule client_movesI [OF others.frame_relation_axioms flow_others assms others_store(2) others_status])

lemma choice_store: "moves choice_kept (store_Set rm p a t)"
  unfolding moves_def by (auto simp: store_Set_def choice_kept_def choices_defs extended_refl split: option.split)

lemma choice_status: "moves choice_kept (reg_SetStatus p a st)"
  unfolding moves_def reg_SetStatus_def q_UpdateIntegrationConnectionStatus_def
  by (auto simp: act_seq_def act_bind_def update_where_def Let_def choice_put intro: choice.frame_refl)

lemma client_keeps_choice:
  assumes "quiet_client c"
  shows "client_moves choice_kept rm c"
  by (rule client_movesI [OF choice.frame_relation_axioms flow_choice assms choice_store choice_status])


section \<open>Syncs\<close>

text \<open>What moves the client and the storing of an item moves the sync of a listing.\<close>

lemma moves_page:
  assumes "client_moves R rm c"
  shows "moves R (act_bind (api_get rm c headers url) (\<lambda>j. act_bind (act_the e (f j)) (\<lambda>x. act_ret (g x))))"
  using get_moves [OF assms] assms
  by (auto simp: client_moves_def intro!: frame_relation.moves_bind frame_relation.moves_the frame_relation.moves_ret)

lemma moves_listing:
  assumes frame: "frame_relation R" and "\<And>k. moves R (get k)" "\<And>i. moves R (store i)"
  shows "moves R (each_page get (\<lambda>items out. act_bind (for_each store items) (\<lambda>rs. act_ret (out @ List.map_filter id rs))) enough k acc)"
  by (intro frame_relation.moves_each_page [OF frame] frame_relation.moves_bind [OF frame] frame_relation.moves_for_each [OF frame]
      frame_relation.moves_ret [OF frame] assms)

lemma repos_moves:
  assumes "client_moves R rm (github_client account)" "\<And>full name fname private. moves R (q_UpsertGitHubRepo account full name fname private False)"
    "trim_space account = account"
  shows "moves R (SyncRepos rm pv account)"
proof -
  note frame = assms(1) [unfolded client_moves_def, THEN conjunct1]
  have "moves R (repos_page rm pv account k)" for k
    unfolding repos_page_def github_getJSON_def by (rule moves_page [OF assms(1)])
  moreover have "moves R (github_store_repo account item)" for item
    unfolding github_store_repo_def Let_def
    by (intro frame_relation.moves_if [OF frame] frame_relation.moves_bind [OF frame] frame_relation.moves_ret [OF frame] assms(2))
  ultimately show ?thesis
    unfolding SyncRepos_def Let_def assms(3)
    by (intro frame_relation.moves_if [OF frame] frame_relation.moves_throw [OF frame] moves_listing [OF frame])
qed

lemma slack_page_moves:
  assumes "client_moves R rm (slack_client account)"
  shows "moves R (slack_page rm pv account path q listing cursor)"
proof -
  note frame = assms [unfolded client_moves_def, THEN conjunct1]
  show ?thesis
    unfolding slack_page_def slack_getJSON_def Let_def
    by (intro frame_relation.moves_bind [OF frame] get_moves [OF assms] frame_relation.moves_the [OF frame] frame_relation.moves_if [OF frame]
        frame_relation.moves_throw [OF frame] frame_relation.moves_ret [OF frame])
qed

lemma channels_moves:
  assumes "client_moves R rm (slack_client account)" "\<And>i name private. moves R (q_UpsertSlackChannel account i name private False)"
    "trim_space account = account"
  shows "moves R (SyncChannels rm pv account)"
proof -
  note frame = assms(1) [unfolded client_moves_def, THEN conjunct1]
  have "moves R (slack_store_channel account item)" for item
    unfolding slack_store_channel_def Let_def
    by (intro frame_relation.moves_if [OF frame] frame_relation.moves_bind [OF frame] frame_relation.moves_ret [OF frame] assms(2))
  then show ?thesis
    unfolding SyncChannels_def Let_def assms(3)
    by (intro frame_relation.moves_if [OF frame] frame_relation.moves_throw [OF frame] moves_listing [OF frame] slack_page_moves [OF assms(1)])
qed

lemma bitbucket_page_moves:
  assumes "client_moves R rm (bitbucket_client ad pv account)"
  shows "moves R (bitbucket_page rm ad pv account elem zero url)"
  unfolding bitbucket_page_def getAbsoluteJSON_def case_prod_unfold by (rule moves_page [OF assms])

lemma workspaces_moves:
  assumes "client_moves R rm (bitbucket_client ad pv account)"
    "\<And>i slug name. moves R (q_UpsertBitbucketWorkspace account i slug name False)"
    "\<And>w i name full private. moves R (q_UpsertBitbucketRepo account w i name full private False)" "trim_space account = account"
  shows "moves R (SyncWorkspacesRepos rm ad pv account)"
proof -
  note frame = assms(1) [unfolded client_moves_def, THEN conjunct1]
  have "moves R (store_workspace account item)" for item
    unfolding store_workspace_def Let_def
    by (intro frame_relation.moves_if [OF frame] frame_relation.moves_bind [OF frame] frame_relation.moves_ret [OF frame] assms(2))
  moreover have "moves R (store_bitbucket_repo account item)" for item
    unfolding store_bitbucket_repo_def Let_def
    by (intro frame_relation.moves_if [OF frame] frame_relation.moves_bind [OF frame] frame_relation.moves_ret [OF frame] assms(3))
  ultimately show ?thesis
    unfolding SyncWorkspacesRepos_def syncWorkspaces_def syncRepos_def Let_def assms(4)
    by (intro frame_relation.moves_if [OF frame] frame_relation.moves_throw [OF frame] frame_relation.moves_bind [OF frame]
        frame_relation.moves_ret [OF frame] moves_listing [OF frame] bitbucket_page_moves [OF assms(1)])
qed


section \<open>A call of the client\<close>

text \<open>
  What \<open>n\<close> attempts with token \<open>t\<close> send: at most \<open>n\<close> times the request signed with \<open>t\<close>; or some of
  these, then, after a refusal, whatever one refresh sends, and then the request signed with the token
  that the refresh gave and that the keychain now holds, at most \<open>n\<close> requests without those of the
  refresh.
\<close>

definition with_source :: "token \<Rightarrow> token \<Rightarrow> token" where
  "with_source t v = (if tk_source v = '''' then v\<lparr>tk_source := tk_source t\<rparr> else v)"

definition sent_plainly :: "http_request \<Rightarrow> nat \<Rightarrow> token \<Rightarrow> desk \<Rightarrow> desk \<Rightarrow> bool" where
  "sent_plainly req n t s s' \<longleftrightarrow> dk_tokens s' = dk_tokens s \<and>
     (\<exists>reqs. dk_sent s' = dk_sent s @ reqs \<and> length reqs \<le> n \<and> set reqs \<subseteq> {signed req t})"

definition refused_last :: "remote \<Rightarrow> http_request \<Rightarrow> desk \<Rightarrow> bool" where
  "refused_last rm q s \<longleftrightarrow> (\<exists>sent resp. dk_sent s = sent @ [q] \<and> rm_http rm sent q = Some resp \<and> hr_status resp = 401)"

definition sent_renewed :: "remote \<Rightarrow> client \<Rightarrow> string \<Rightarrow> http_request \<Rightarrow> nat \<Rightarrow> token \<Rightarrow> desk \<Rightarrow> desk \<Rightarrow> bool" where
  "sent_renewed rm c k req n t s s' \<longleftrightarrow> (\<exists>reqs1 s1 x s2 reqs2.
     flow_frame s s1 \<and> dk_sent s1 = dk_sent s @ reqs1 \<and> set reqs1 \<subseteq> {signed req t} \<and> refused_last rm (signed req t) s1 \<and>
     hc_refresh c t s1 = (x, s2) \<and> dk_sent s' = dk_sent s2 @ reqs2 \<and> length reqs1 + length reqs2 \<le> n \<and>
     (reqs2 = [] \<and> dk_tokens s' = dk_tokens s \<or>
      (\<exists>v. x = Inr v \<and> dk_tokens s' = (dk_tokens s)(k \<mapsto> with_source t v) \<and> set reqs2 \<subseteq> {signed req (with_source t v)})))"

text \<open>
  Besides, they wait and change the status of the row of the account. An answer is the reply to the
  last request, never a refusal of the token, and leaves the row alone.
\<close>

definition last_answer :: "remote \<Rightarrow> api_response \<Rightarrow> desk \<Rightarrow> bool" where
  "last_answer rm resp s \<longleftrightarrow> (\<exists>sent q. dk_sent s = sent @ [q] \<and> rm_http rm sent q = Some resp)"

definition call_effect :: "remote \<Rightarrow> client \<Rightarrow> string \<Rightarrow> http_request \<Rightarrow> nat \<Rightarrow> bool \<Rightarrow> token \<Rightarrow> desk \<Rightarrow> go_error + api_response \<Rightarrow> desk \<Rightarrow> bool" where
  "call_effect rm c k req n refreshed t s r s' \<longleftrightarrow>
     s' = s\<lparr>dk_connections := dk_connections s', dk_tokens := dk_tokens s', dk_sent := dk_sent s', dk_waits := dk_waits s'\<rparr> \<and>
     (sent_plainly req n t s s' \<or> \<not> refreshed \<and> sent_renewed rm c k req n t s s') \<and>
     dk_connections s' \<in> {dk_connections s, marked c (dk_connections s)} \<and>
     (\<forall>resp. r = Inr resp \<longrightarrow> hr_status resp \<noteq> 401 \<and> last_answer rm resp s' \<and> dk_connections s' = dk_connections s)"

lemma send_cases:
  obtains (lost) "send rm q s = (Inl ErrOther, s\<lparr>dk_sent := dk_sent s @ [q]\<rparr>)"
  | (answered) resp where "send rm q s = (Inr resp, s\<lparr>dk_sent := dk_sent s @ [q]\<rparr>)" "rm_http rm (dk_sent s) q = Some resp"
  by (cases "rm_http rm (dk_sent s) q") (auto simp: send_def Let_def)

lemma refresh_cases:
  assumes "quiet_client c" "storageKey (hc_provider c) (hc_account c) = Some k"
  obtains (failed) e x s2 where "hc_refresh c t s = (x, s2)" "flow_frame s s2" "refresh_token rm c t s = (Inl e, s2)"
  | (stored) v s2 where "hc_refresh c t s = (Inr v, s2)" "flow_frame s s2"
      "refresh_token rm c t s = (Inr (with_source t v), s2\<lparr>dk_tokens := (dk_tokens s2)(k \<mapsto> with_source t v)\<rparr>)"
proof -
  obtain x s2 where x: "hc_refresh c t s = (x, s2)" by fastforce
  then have calm: "flow_frame s s2" using assms(1) unfolding quiet_client_def moves_def by (metis snd_conv)
  show thesis
  proof (cases x)
    case (Inl e)
    then show thesis using x calm by (intro that(1)) (simp_all add: refresh_token_def act_bind_def)
  next
    case (Inr v)
    show thesis
    proof (cases "rm_refuses rm KeychainSet k")
      case True
      then show thesis using x calm Inr assms(2)
        by (intro that(1)) (simp_all add: refresh_token_def act_bind_def act_seq_def store_Set_def Let_def)
    next
      case False
      then show thesis using x calm Inr assms(2)
        by (intro that(2)) (simp_all add: refresh_token_def act_bind_def act_seq_def store_Set_def Let_def with_source_def)
    qed
  qed
qed

lemma effect_frame:
  assumes "flow_frame s s1" "dk_sent s1 = dk_sent s @ pre" "set pre \<subseteq> {signed req t}" "m + length pre \<le> n"
    and "call_effect rm c k req m refreshed t s1 r s'"
  shows "call_effect rm c k req n refreshed t s r s'"
proof -
  have same: "dk_tokens s1 = dk_tokens s" "dk_connections s1 = dk_connections s"
    using assms(1) by (cases s; cases s1; simp add: flow_frame_def)+
  have "sent_plainly req n t s s'" if "sent_plainly req m t s1 s'"
  proof -
    obtain reqs where "dk_tokens s' = dk_tokens s1" "dk_sent s' = dk_sent s1 @ reqs" "length reqs \<le> m" "set reqs \<subseteq> {signed req t}"
      using \<open>sent_plainly req m t s1 s'\<close> by (auto simp: sent_plainly_def)
    then show ?thesis
      unfolding sent_plainly_def using assms(2-4) same by (intro conjI exI [of _ "pre @ reqs"]) auto
  qed
  moreover have "sent_renewed rm c k req n t s s'" if "sent_renewed rm c k req m t s1 s'"
  proof -
    obtain reqs1 u x s2 reqs2 where r: "flow_frame s1 u" "dk_sent u = dk_sent s1 @ reqs1" "set reqs1 \<subseteq> {signed req t}"
      "refused_last rm (signed req t) u"
      "hc_refresh c t u = (x, s2)" "dk_sent s' = dk_sent s2 @ reqs2" "length reqs1 + length reqs2 \<le> m"
      "reqs2 = [] \<and> dk_tokens s' = dk_tokens s1 \<or>
        (\<exists>v. x = Inr v \<and> dk_tokens s' = (dk_tokens s1)(k \<mapsto> with_source t v) \<and> set reqs2 \<subseteq> {signed req (with_source t v)})"
      using \<open>sent_renewed rm c k req m t s1 s'\<close> unfolding sent_renewed_def by blast
    have "flow_frame s u" using flow.frame_trans [OF assms(1) r(1)] .
    moreover have "dk_sent u = dk_sent s @ (pre @ reqs1)" "set (pre @ reqs1) \<subseteq> {signed req t}"
      "length (pre @ reqs1) + length reqs2 \<le> n"
      using assms(2-4) r by auto
    ultimately show ?thesis unfolding sent_renewed_def using r(4,5,6,8) same(1) by metis
  qed
  ultimately show ?thesis
    using assms(1,5) same unfolding call_effect_def by (cases s; cases s1; cases s') (auto simp: flow_frame_def)
qed

lemma effect_mark:
  assumes "sent_plainly req n t s s2 \<or> \<not> refreshed \<and> sent_renewed rm c k req n t s s2" "flow_frame s s2"
  shows "call_effect rm c k req n refreshed t s (Inl e) (state_of (markNeedsReauth c s2))"
    and "call_effect rm c k req n refreshed t s (Inl e) s2"
proof -
  let ?m = "state_of (markNeedsReauth c s2)"
  have m: "?m = s2\<lparr>dk_connections := dk_connections ?m\<rparr>" "dk_connections ?m \<in> {dk_connections s2, marked c (dk_connections s2)}"
    using mark_effect [of c s2] by simp_all
  have "dk_sent ?m = dk_sent s2" "dk_tokens ?m = dk_tokens s2"
    using m(1) by (metis desk.simps(4,11) desk.ext_inject desk.surjective desk.update_convs(2))+
  then have "sent_plainly req n t s ?m \<or> \<not> refreshed \<and> sent_renewed rm c k req n t s ?m"
    using assms(1) by (simp add: sent_plainly_def sent_renewed_def)
  then show "call_effect rm c k req n refreshed t s (Inl e) ?m"
    using m assms(2) unfolding call_effect_def by (cases s; cases s2; cases ?m) (auto simp: flow_frame_def)
  show "call_effect rm c k req n refreshed t s (Inl e) s2"
    using assms unfolding call_effect_def by (cases s; cases s2) (auto simp: flow_frame_def)
qed

lemma sent_none: "sent_plainly req n t s s"
  by (simp add: sent_plainly_def)

lemma effect_none: "(\<And>resp. r = Inr resp \<Longrightarrow> hr_status resp \<noteq> 401 \<and> last_answer rm resp s) \<Longrightarrow> call_effect rm c k req n refreshed t s r s"
  unfolding call_effect_def by (auto intro: sent_none)

lemma effect_refreshed:
  assumes "hc_refresh c t s = (Inr v, s2)" "flow_frame s s2" "refused_last rm (signed req t) s"
    and "call_effect rm c k req n True (with_source t v) (s2\<lparr>dk_tokens := (dk_tokens s2)(k \<mapsto> with_source t v)\<rparr>) r s'"
  shows "call_effect rm c k req n False t s r s'"
proof -
  have same: "dk_tokens s2 = dk_tokens s" "dk_connections s2 = dk_connections s"
    using assms(2) by (cases s; cases s2; simp add: flow_frame_def)+
  obtain reqs where "dk_tokens s' = (dk_tokens s)(k \<mapsto> with_source t v)" "dk_sent s' = dk_sent s2 @ reqs" "length reqs \<le> n"
    "set reqs \<subseteq> {signed req (with_source t v)}"
    using assms(4) same(1) by (auto simp: call_effect_def sent_plainly_def)
  then have "sent_renewed rm c k req n t s s'"
    unfolding sent_renewed_def using assms(1,3) flow.frame_refl [of s]
    by (intro exI [of _ "[]"] exI [of _ s] exI [of _ "Inr v"] exI [of _ s2] exI [of _ reqs]) auto
  then show ?thesis
    using assms(2,4) same unfolding call_effect_def by (cases s; cases s2; cases s') (auto simp: flow_frame_def)
qed

lemma attempts_step:
  assumes quiet: "quiet_client c" "storageKey (hc_provider c) (hc_account c) = Some k"
    and later: "\<And>refreshed t s. attempts rm c req n refreshed t s = (r, s') \<Longrightarrow> call_effect rm c k req n refreshed t s r s'"
    and run: "attempts rm c req (Suc n) refreshed t s = (r, s')"
  shows "call_effect rm c k req n refreshed t (s\<lparr>dk_sent := dk_sent s @ [signed req t]\<rparr>) r s'"
proof -
  let ?s = "s\<lparr>dk_sent := dk_sent s @ [signed req t]\<rparr>"
  show ?thesis
  proof (cases rule: send_cases [of rm "signed req t" s])
    case lost
    then show ?thesis using run by (auto simp: act_bind_def intro: effect_none)
  next
    case (answered resp)
    show ?thesis
    proof (cases "hr_status resp = 401")
      case refused: True
      then have last: "refused_last rm (signed req t) ?s" using answered(2) by (auto simp: refused_last_def)
      show ?thesis
      proof (cases refreshed)
        case True
        then have "r = Inl ErrOther" "s' = state_of (markNeedsReauth c ?s)"
          using run answered(1) refused by (auto simp: act_bind_def on_error_def)
        then show ?thesis using effect_mark(1) [where s = ?s, OF disjI1 [OF sent_none]] flow.frame_refl by simp
      next
        case False
        show ?thesis
        proof (cases rule: refresh_cases [OF quiet, where s = ?s and rm = rm and t = t])
          case (1 e x s2)
          then have r: "r = Inl e" "s' = state_of (markNeedsReauth c s2) \<or> s' = s2"
            using run answered(1) False refused by (auto simp: act_bind_def on_error_def)
          have "dk_tokens s2 = dk_tokens ?s" using 1(2) by (cases ?s; cases s2) (simp add: flow_frame_def)
          then have "sent_renewed rm c k req n t ?s s2"
            unfolding sent_renewed_def using 1(1) flow.frame_refl [of ?s] last
            by (intro exI [of _ "[]"] exI [of _ ?s] exI [of _ x] exI [of _ s2]) simp
          then show ?thesis using effect_mark [where s = ?s and refreshed = refreshed] 1(2) False r by blast
        next
          case (2 v s2)
          then have "attempts rm c req n True (with_source t v) (s2\<lparr>dk_tokens := (dk_tokens s2)(k \<mapsto> with_source t v)\<rparr>) = (r, s')"
            using run answered(1) False refused by (simp add: act_bind_def on_error_def)
          from effect_refreshed [OF 2(1,2) last later [OF this]] show ?thesis using False by simp
        qed
      qed
    next
      case accepted: False
      show ?thesis
      proof (cases "hr_status resp = 429 \<and> 0 < n")
        case True
        let ?d = "retryAfter rm (rm_clock rm (dk_sent ?s)) (ar_retry_after resp)"
        have "\<exists>ws. attempts rm c req n refreshed t (?s\<lparr>dk_waits := ws\<rparr>) = (r, s')"
        proof (cases "?d \<le> 0")
          case True
          then have "attempts rm c req n refreshed t (?s\<lparr>dk_waits := dk_waits ?s\<rparr>) = (r, s')"
            using run answered(1) \<open>hr_status resp = 429 \<and> 0 < n\<close> by (simp add: act_bind_def act_seq_def wait_def)
          then show ?thesis by blast
        next
          case False
          then show ?thesis
            using run answered(1) \<open>hr_status resp = 429 \<and> 0 < n\<close> by (auto simp: act_bind_def act_seq_def wait_def)
        qed
        then obtain ws where "attempts rm c req n refreshed t (?s\<lparr>dk_waits := ws\<rparr>) = (r, s')" by blast
        from later [OF this] show ?thesis
          by (intro effect_frame [of ?s "?s\<lparr>dk_waits := ws\<rparr>" "[]" req t n]) (simp_all add: flow_frame_def)
      next
        case False
        then have "r = Inr resp" "s' = ?s" using run answered(1) accepted by (auto simp: act_bind_def)
        moreover have "last_answer rm resp ?s" using answered(2) by (auto simp: last_answer_def)
        ultimately show ?thesis using accepted by (auto intro: effect_none)
      qed
    qed
  qed
qed

lemma attempts_effect:
  assumes quiet: "quiet_client c" "storageKey (hc_provider c) (hc_account c) = Some k"
  shows "attempts rm c req n refreshed t s = (r, s') \<Longrightarrow> call_effect rm c k req n refreshed t s r s'"
proof (induction n arbitrary: refreshed t s)
  case 0
  then show ?case by (auto intro: effect_none)
next
  case (Suc n)
  from attempts_step [OF quiet Suc.IH Suc.prems] show ?case
    by (intro effect_frame [of s "s\<lparr>dk_sent := dk_sent s @ [signed req t]\<rparr>" "[signed req t]" req t n]) (simp_all add: flow_frame_def)
qed

end
