(* ===== verification/Account_Properties.thy ===== *)
theory Account_Properties
  imports Source_Laws Samples
begin

text \<open>
  Properties of the integrations: an account is connected as a whole or not at all, the client is
  bounded and stays within its account, a sync keeps the choice of sources, and evidence lies in its
  window.
\<close>


section \<open>Success\<close>

text \<open>A computation that leaves the rows of the accounts alone whenever it succeeds.\<close>

definition calm :: "(desk, 'a) act \<Rightarrow> bool" where
  "calm m \<longleftrightarrow> (\<forall>s x t. m s = (Inr x, t) \<longrightarrow> dk_connections t = dk_connections s)"

lemma calm_bind: "calm m \<Longrightarrow> (\<And>x. calm (k x)) \<Longrightarrow> calm (act_bind m k)"
  unfolding calm_def act_bind_def by (fastforce split: prod.splits sum.splits)

lemma calm_basic: "calm (act_ret x)" "calm (act_throw e)" "calm (act_the e r)" "calm (act_gets f)"
  by (auto simp: calm_def act_ret_def act_throw_def act_the_def act_gets_def split: option.splits)

lemma calm_if: "calm m \<Longrightarrow> calm n \<Longrightarrow> calm (if b then m else n)"
  by simp

lemma calm_seq: "calm m \<Longrightarrow> calm n \<Longrightarrow> calm (act_seq m n)"
  by (simp add: act_seq_def calm_bind)

lemma calm_for_each: "(\<And>x. calm (f x)) \<Longrightarrow> calm (for_each f xs)"
  by (induction xs) (auto intro!: calm_bind calm_basic)

lemma calm_on_error: "calm m \<Longrightarrow> calm (on_error m h)"
  unfolding calm_def on_error_def by (auto split: prod.splits sum.splits)

lemma calm_each_page:
  assumes "\<And>k. calm (get k)" "\<And>is acc. calm (use is acc)"
  shows "calm (each_page get use enough k acc)"
  unfolding calm_def
proof (intro allI impI)
  fix s x t
  assume "each_page get use enough k acc s = (Inr x, t)"
  then show "dk_connections t = dk_connections s"
    by (rule each_page_result [where P = "\<lambda>_ t. dk_connections t = dk_connections s"]) (use assms in \<open>auto simp: calm_def\<close>)
qed

lemma calm_flow: "moves flow_frame m \<Longrightarrow> calm m"
  unfolding moves_def calm_def flow_frame_def by (metis desk.select_convs(2) desk.surjective desk.update_convs(8,9) snd_conv)

lemma calm_store: "calm (store_Get rm p a)" "calm (store_Set rm p a u)"
  by (auto simp: calm_def store_Get_def store_Set_def split: option.splits if_splits)

lemma calm_attempts: "quiet_client c \<Longrightarrow> calm (attempts rm c req n refreshed t)"
proof (induction n arbitrary: refreshed t)
  case (Suc n)
  then have "calm (refresh_token rm c t)"
    unfolding refresh_token_def Let_def by (intro calm_bind calm_seq calm_store calm_basic calm_flow) (simp add: quiet_client_def)
  with Suc show ?case
    unfolding attempts.simps by (intro calm_bind calm_if calm_on_error calm_seq calm_basic calm_flow [OF flow_send] calm_flow [OF flow_wait]) simp_all
qed (simp add: calm_basic)

lemma calm_get: "quiet_client c \<Longrightarrow> calm (api_get rm c headers url)"
  unfolding api_get_def client_Do_def by (intro calm_bind calm_if calm_on_error calm_store calm_attempts calm_basic)

lemma calm_listing:
  assumes "\<And>k. calm (get k)" "\<And>i. calm (store i)"
  shows "calm (each_page get (\<lambda>items out. act_bind (for_each store items) (\<lambda>rs. act_ret (out @ List.map_filter id rs))) enough k acc)"
  by (intro calm_each_page calm_bind calm_for_each calm_basic assms)

lemma calm_upsert:
  assumes "\<And>d. put (get d) d = d" "\<And>t d. get (put t d) = t" "\<And>t u d. put t (put u d) = put t d"
    "\<And>t d. dk_connections (put t d) = dk_connections d"
  shows "calm (upsert_into get put ok same upd mk)"
  unfolding calm_def using upsert_state [where get = get and put = put, OF assms(1-3)] assms(4) by (metis snd_conv)

lemma calm_upserts:
  "calm (q_UpsertGitHubRepo a full name fname private sel)" "calm (q_UpsertSlackChannel a ch name private sel)"
  "calm (q_UpsertBitbucketWorkspace a wu wslug wname sel)" "calm (q_UpsertBitbucketRepo a wu ru rn rf private sel)"
  unfolding q_UpsertGitHubRepo_def q_UpsertSlackChannel_def q_UpsertBitbucketWorkspace_def q_UpsertBitbucketRepo_def
  by (rule calm_upsert; simp)+

lemma calm_repos: "calm (SyncRepos rm pv account)"
  unfolding SyncRepos_def repos_page_def github_getJSON_def github_store_repo_def Let_def
  by (intro calm_if calm_basic calm_listing calm_bind calm_get quiet_clients calm_upserts)




section \<open>Accounts\<close>

text \<open>No call takes a token away from an account but the ones that remove it.\<close>

definition signed_in :: "desk \<Rightarrow> desk \<Rightarrow> bool" where
  "signed_in s s' \<longleftrightarrow> (\<forall>k. dk_tokens s k \<noteq> None \<longrightarrow> dk_tokens s' k \<noteq> None)"

interpretation signed: frame_relation signed_in
  by unfold_locales (auto simp: signed_in_def)

lemma signed_put:
  "signed_in s (s\<lparr>dk_connections := t\<rparr>)" "signed_in s (s\<lparr>dk_repos := u\<rparr>)" "signed_in s (s\<lparr>dk_channels := v\<rparr>)"
  "signed_in s (s\<lparr>dk_workspaces := w\<rparr>)" "signed_in s (s\<lparr>dk_bitbucket := x\<rparr>)"
  by (simp_all add: signed_in_def)

lemma client_signed: "quiet_client c \<Longrightarrow> client_moves signed_in rm c"
proof (rule client_movesI [OF signed.frame_relation_axioms])
  show "flow_frame s s' \<Longrightarrow> signed_in s s'" for s s'
    unfolding flow_frame_def signed_in_def by (cases s; cases s') simp
  show "moves signed_in (store_Set rm p a u)" for p a u
    unfolding moves_def by (auto simp: store_Set_def signed_in_def split: option.split)
  show "moves signed_in (reg_SetStatus p a st)" for p a st
    unfolding moves_def reg_SetStatus_def q_UpdateIntegrationConnectionStatus_def
    by (auto simp: act_seq_def act_bind_def update_where_def Let_def signed_put intro: signed.frame_refl)
qed

lemma signed_upserts:
  "moves signed_in (q_UpsertGitHubRepo a full name fname private sel)" "moves signed_in (q_UpsertSlackChannel a ch name private sel)"
  "moves signed_in (q_UpsertBitbucketWorkspace a wu wslug wname sel)" "moves signed_in (q_UpsertBitbucketRepo a wu ru rn rf private sel)"
  unfolding q_UpsertGitHubRepo_def q_UpsertSlackChannel_def q_UpsertBitbucketWorkspace_def q_UpsertBitbucketRepo_def
  by (rule upsert_moves; simp add: signed_put)+

text \<open>An upsert fails without a trace, or gives a row that is now in the table.\<close>

lemma upsert_result:
  assumes "\<And>t d. get (put t d) = t" and run: "upsert_into get put ok same upd mk s = (x, t)"
  shows "case x of Inl e \<Rightarrow> t = s \<and> e \<noteq> Diverges
    | Inr r \<Rightarrow> r \<in> set (tbl_rows (get t)) \<and> ((\<exists>old. same old \<and> r = upd old) \<or> r = mk (tbl_seq (get s) + 1))"
proof (cases "list_ex same (tbl_rows (get s))")
  case True
  then obtain old rest where "filter same (tbl_rows (get s)) = old # rest" by (cases "filter same (tbl_rows (get s))") (auto simp: filter_empty_conv list_ex_iff)
  moreover from this have "old \<in> set (tbl_rows (get s))" "same old" by (auto simp: filter_eq_Cons_iff)
  ultimately show ?thesis
    using run True assms(1)
    by (auto simp: upsert_into_def scan_one_def act_bind_def update_where_def act_ret_def Let_def image_iff split: if_splits)
next
  case False
  then show ?thesis using run assms(1) by (auto simp: upsert_into_def insert_into_def Let_def split: if_splits)
qed

text \<open>
  An account is connected when it has a row that says so and a token, and gone when it has neither
  row nor token nor sources.
\<close>

definition connected :: "string \<Rightarrow> string \<Rightarrow> connection_info \<Rightarrow> desk \<Rightarrow> bool" where
  "connected p a c s \<longleftrightarrow> conn_of p a (co_row c) \<and> cn_status (co_row c) = StatusConnected \<and> co_row c \<in> set (tbl_rows (dk_connections s)) \<and>
     (case storageKey p a of None \<Rightarrow> False | Some k \<Rightarrow> dk_tokens s k \<noteq> None)"

definition sourceless :: "string \<Rightarrow> string \<Rightarrow> desk \<Rightarrow> bool" where
  "sourceless p a s \<longleftrightarrow>
     list_all (\<lambda>r. \<not> repo_of p a r) (tbl_rows (dk_repos s)) \<and> list_all (\<lambda>r. \<not> channel_of p a r) (tbl_rows (dk_channels s)) \<and>
     list_all (\<lambda>r. \<not> workspace_of p a r) (tbl_rows (dk_workspaces s)) \<and> list_all (\<lambda>r. \<not> bitbucket_of p a r) (tbl_rows (dk_bitbucket s))"

definition gone :: "string \<Rightarrow> string \<Rightarrow> desk \<Rightarrow> bool" where
  "gone p a s \<longleftrightarrow> list_all (\<lambda>r. \<not> conn_of p a r) (tbl_rows (dk_connections s)) \<and>
     (case storageKey p a of None \<Rightarrow> True | Some k \<Rightarrow> dk_tokens s k = None) \<and> sourceless p a s"

text \<open>The database is as it was, and at most the token of an account is lost.\<close>

definition same_tables :: "desk \<Rightarrow> desk \<Rightarrow> bool" where
  "same_tables s s' \<longleftrightarrow> s' = s\<lparr>dk_tokens := dk_tokens s', dk_sent := dk_sent s', dk_waits := dk_waits s'\<rparr>"

definition nothing_stored :: "desk \<Rightarrow> desk \<Rightarrow> bool" where
  "nothing_stored s s' \<longleftrightarrow> same_tables s s' \<and> (\<forall>k. dk_tokens s' k \<noteq> None \<longrightarrow> dk_tokens s' k = dk_tokens s k)"

text \<open>
  The keychain does not let the token of the account go: it is left there, and the database is as
  it was or has no source of the account any more.
\<close>

definition token_left :: "remote \<Rightarrow> string \<Rightarrow> string \<Rightarrow> desk \<Rightarrow> desk \<Rightarrow> bool" where
  "token_left rm p a s s' \<longleftrightarrow> (\<exists>k. storageKey p a = Some k \<and> rm_refuses rm KeychainDelete k \<and> dk_tokens s' k \<noteq> None \<and>
     (same_tables s s' \<or> sourceless p a s'))"

lemma read_scopes: "decodeScopes (encodeScopes scopes) = Some scopes"
proof -
  have "read_all (\<lambda>x. read_text x z) (map JStr scopes) = Some scopes" for z
    by (induction scopes) (simp_all add: read_text_def)
  then show ?thesis by (simp add: decodeScopes_def encodeScopes_def read_slice_def)
qed

text \<open>What a provider with accounts gives: a first sync of the sources of an account, and its removal.\<close>

locale account_provider =
  fixes p :: string and rm :: remote and ad :: adapters
    and sync :: "string \<Rightarrow> (desk, 'a) act" and disconnect :: "string \<Rightarrow> (desk, unit) act"
  assumes named: "trim_space p = p" "p \<noteq> ''''"
    and sync_stays: "quiet_flows ad \<Longrightarrow> trim_space a = a \<Longrightarrow> moves (others_kept p a) (sync a)"
    and sync_signed: "quiet_flows ad \<Longrightarrow> trim_space a = a \<Longrightarrow> moves signed_in (sync a)"
    and sync_calm: "quiet_flows ad \<Longrightarrow> calm (sync a)"
    and disconnect_stays: "quiet_flows ad \<Longrightarrow> trim_space a = a \<Longrightarrow> moves (others_kept p a) (disconnect a)"
    and disconnect_gone: "quiet_flows ad \<Longrightarrow> trim_space a = a \<Longrightarrow> storageKey p a = Some k \<Longrightarrow>
      disconnect a s = (r, t) \<Longrightarrow>
      if rm_refuses rm KeychainDelete k then sourceless p a t \<and> dk_tokens t = dk_tokens s else gone p a t"
begin

lemma upsert_account:
  assumes "trim_space a = a" and run: "reg_Upsert p label a scopes StatusConnected s = (r, t)"
  obtains (stored) c where "r = Inr c" "others_kept p a s t" "dk_tokens t = dk_tokens s"
    "conn_of p a (co_row c)" "cn_status (co_row c) = StatusConnected" "co_row c \<in> set (tbl_rows (dk_connections t))"
  | (refused) e where "r = Inl e" "t = s" "e \<noteq> Diverges"
proof -
  obtain x u where up: "q_UpsertIntegrationConnection p (trim_space label) a (encodeScopes scopes) StatusConnected s = (x, u)" by fastforce
  note row = upsert_result [OF _ up [unfolded q_UpsertIntegrationConnection_def], simplified]
  have state: "u = s\<lparr>dk_connections := dk_connections u\<rparr>"
    using upsert_state [where get = dk_connections and put = put_connections] up unfolding q_UpsertIntegrationConnection_def
    by (metis (no_types, lifting) desk.select_convs(2) desk.surjective desk.update_convs(2) snd_conv)
  have kept: "others_kept p a s u" using moves_result [OF others_upserts(1) up] .
  show thesis
  proof (cases x)
    case (Inl e)
    then show thesis using run up row named(1) assms(1) by (intro that(2)) (auto simp: reg_Upsert_def act_bind_def)
  next
    case (Inr c)
    then have c: "c \<in> set (tbl_rows (dk_connections u))" "conn_of p a c" "cn_status c = StatusConnected" "cn_scopes c = encodeScopes scopes"
      using row by (auto simp: conn_of_def)
    then have "toConnection c \<noteq> Inl e" for e
      using read_scopes by (simp add: toConnection_def)
    then obtain i where "toConnection c = Inr i" by (cases "toConnection c") auto
    moreover from this have "co_row i = c" by (auto simp: toConnection_def split: option.splits)
    ultimately have "r = Inr i" "t = u" "co_row i = c" using run up Inr named(1) assms(1) by (auto simp: reg_Upsert_def act_bind_def act_lift_def)
    moreover have "dk_tokens u = dk_tokens s" using state by (metis desk.select_convs(7) desk.surjective desk.update_convs(2))
    ultimately show thesis using that(1) kept c by auto
  qed
qed

lemma store_outcome:
  assumes quiet: "quiet_flows ad" and a: "trim_space a = a" "a \<noteq> []"
    and run: "store_account rm p a label t scopes (sync a) (disconnect a) s = (r, s')"
  shows "others_kept p a s s' \<and> (case r of Inr c \<Rightarrow> connected p a c s' | Inl e \<Rightarrow> e = Diverges \<or> gone p a s' \<or> nothing_stored s s' \<or> token_left rm p a s s')"
proof -
  obtain k where key: "storageKey p a = Some k" using named a by (auto simp: storageKey_def)
  obtain u where start: "store_account rm p a label t scopes (sync a) (disconnect a) s =
      act_seq (store_Set rm p a u) (act_bind (on_error (reg_Upsert p label a scopes StatusConnected) (store_Delete rm p a))
        (\<lambda>conn. act_seq (on_error (sync a) (disconnect a)) (act_ret conn))) s"
    by (auto simp: store_account_def Let_def)
  show ?thesis
  proof (cases "rm_refuses rm KeychainSet k")
    case True
    then have "s' = s" "\<exists>e. r = Inl e" using run start key by (auto simp: act_seq_def act_bind_def store_Set_def)
    then show ?thesis by (auto simp: others.frame_refl nothing_stored_def same_tables_def)
  next
    case False
    let ?s = "s\<lparr>dk_tokens := (dk_tokens s)(k \<mapsto> u)\<rparr>"
    have set: "store_Set rm p a u s = (Inr (), ?s)" using False key by (simp add: store_Set_def)
    then have kept: "others_kept p a s ?s" using moves_result [OF others_store(2)] by blast
    obtain x v where up: "reg_Upsert p label a scopes StatusConnected ?s = (x, v)" by fastforce
    show ?thesis
    proof (cases rule: upsert_account [OF a(1) up])
      case (1 c)
      obtain y w where sync: "sync a v = (y, w)" by fastforce
      have w: "others_kept p a s w" using kept 1 moves_result [OF sync_stays [OF quiet a(1)] sync] others.frame_trans by blast
      show ?thesis
      proof (cases y)
        case (Inl e)
        obtain z w' where out: "disconnect a w = (z, w')" by fastforce
        have "r = Inl e" "s' = (if e = Diverges then w else w')"
          using run start set up 1 sync Inl out by (auto simp: act_seq_def act_bind_def on_error_def)
        moreover have "dk_tokens w k \<noteq> None" using moves_result [OF sync_signed [OF quiet a(1)] sync] 1 by (auto simp: signed_in_def)
        ultimately show ?thesis
          using disconnect_gone [OF quiet a(1) key out] w moves_result [OF disconnect_stays [OF quiet a(1)] out] others.frame_trans key
          by (auto simp: token_left_def split: if_splits)
      next
        case (Inr i)
        then have "r = Inr c" "s' = w" using run start set up 1 sync by (auto simp: act_seq_def act_bind_def on_error_def act_ret_def)
        moreover have "dk_connections w = dk_connections v" using sync_calm [OF quiet] sync Inr by (auto simp: calm_def)
        moreover have "dk_tokens w k \<noteq> None" using moves_result [OF sync_signed [OF quiet a(1)] sync] 1 by (auto simp: signed_in_def)
        ultimately show ?thesis using w 1 key by (auto simp: connected_def)
      qed
    next
      case (2 e)
      have "r = Inl e" "s' = (if rm_refuses rm KeychainDelete k then ?s else s\<lparr>dk_tokens := (dk_tokens s)(k := None)\<rparr>)"
        using run start set up 2 key by (auto simp: act_seq_def act_bind_def on_error_def store_Delete_def)
      then show ?thesis using key kept by (auto simp: nothing_stored_def same_tables_def others_kept_def token_left_def)
    qed
  qed
qed

end

text \<open>
  How a connection ends: other accounts are as they were; with success the account is connected, with
  an error it is gone, or the database is as it was, or its token could not be deleted, unless the
  pages of the first sync never end.
\<close>

definition settled :: "remote \<Rightarrow> string \<Rightarrow> desk \<Rightarrow> (go_error + connection_info) \<times> desk \<Rightarrow> bool" where
  "settled rm p s x \<longleftrightarrow> (\<exists>a. others_kept p a s (snd x) \<and>
     (case fst x of Inr c \<Rightarrow> connected p a c (snd x) | Inl e \<Rightarrow> e = Diverges \<or> gone p a (snd x) \<or>
       nothing_stored s (snd x) \<or> token_left rm p a s (snd x)))"




context account_provider begin

lemma settled_store:
  assumes "quiet_flows ad" "trim_space a = a" "a \<noteq> []"
  shows "settled rm p s (store_account rm p a label t scopes (sync a) (disconnect a) s)"
  using store_outcome [OF assms, of label t scopes s] unfolding settled_def by (metis prod.collapse)

end

lemma revoke_flow:
  assumes "quiet_flows ad"
  obtains t where "revoke_issued rm ad pv p a s = (Inr (), t)" "flow_frame s t"
proof -
  have quiet: "flow_frame s (state_of (run s))" if "moves flow_frame run" for run :: "(desk, unit) act" and s
    using that by (simp add: moves_def)
  have same: "t = s" if "store_Get rm p a s = (x, t)" for x t
    using that by (auto simp: store_Get_def split: option.splits if_splits)
  have "\<exists>t. revoke_issued rm ad pv p a s = (Inr (), t) \<and> flow_frame s t"
    unfolding revoke_issued_def best_effort_def
    using same quiet assms flow.frame_refl by (auto simp: quiet_flows_def split: prod.splits sum.splits option.splits)
  then show thesis using that by blast
qed

text \<open>Token and row go together, when the keychain lets the token go; else both stay.\<close>

lemma remove_result:
  assumes "storageKey p a = Some k"
  shows "state_of (remove_account rm p a s) = (if rm_refuses rm KeychainDelete k then s else s\<lparr>dk_tokens := (dk_tokens s)(k := None),
    dk_connections := (dk_connections s)\<lparr>tbl_rows := filter (\<lambda>r. \<not> conn_of p a r) (tbl_rows (dk_connections s))\<rparr>\<rparr>)"
  using assms by (simp add: remove_account_def act_seq_def act_bind_def store_Delete_def reg_Disconnect_def
      q_DeleteIntegrationConnection_def delete_state act_ret_def conn_of_def)

lemma remove_stays: "moves (others_kept p a) (remove_account rm p a)"
  unfolding remove_account_def by (intro others.moves_seq others_store others_disconnect)

lemma revoke_stays: "quiet_flows ad \<Longrightarrow> moves (others_kept p b) (revoke_issued rm ad pv p a)"
  unfolding moves_def by (metis flow_others revoke_flow snd_conv)

lemma deletes_stay:
  "moves (others_kept providerGitHub a) (q_DeleteGitHubReposByAccount a)" "moves (others_kept providerSlack a) (q_DeleteSlackChannelsByAccount a)"
  "moves (others_kept providerBitbucket a) (q_DeleteBitbucketReposByAccount a)"
  "moves (others_kept providerBitbucket a) (q_DeleteBitbucketWorkspacesByAccount a)"
  unfolding moves_def q_DeleteGitHubReposByAccount_def q_DeleteSlackChannelsByAccount_def q_DeleteBitbucketReposByAccount_def
    q_DeleteBitbucketWorkspacesByAccount_def
  by (auto simp: act_seq_def act_bind_def delete_state act_ret_def not_of_def repo_of_def channel_of_def workspace_of_def bitbucket_of_def
      intro!: others_put)

lemma provider_names: "trim_space providerGitHub = providerGitHub" "trim_space providerSlack = providerSlack"
  "trim_space providerBitbucket = providerBitbucket"
  by (rule trim_space_id, simp add: is_space_def)+

lemma account_key: "trim_space p = p \<Longrightarrow> p \<noteq> [] \<Longrightarrow> trim_space a = a \<Longrightarrow> a \<noteq> [] \<Longrightarrow> storageKey p a = Some (p @ '':'' @ a)"
  by (simp add: storageKey_def)

lemma gone_github:
  assumes "quiet_flows ad" "trim_space a = a" "storageKey providerGitHub a = Some k" and run: "github_Disconnect rm ad pv a s = (r, t)"
  shows "if rm_refuses rm KeychainDelete k then sourceless providerGitHub a t \<and> dk_tokens t = dk_tokens s else gone providerGitHub a t"
proof -
  let ?s = "s\<lparr>dk_repos := (dk_repos s)\<lparr>tbl_rows := filter (\<lambda>r. hr_account r \<noteq> a) (tbl_rows (dk_repos s))\<rparr>\<rparr>"
  have a: "a \<noteq> []" using assms(2,3) by (auto simp: storageKey_def)
  obtain u where u: "revoke_issued rm ad pv providerGitHub a ?s = (Inr (), u)" "flow_frame ?s u" using revoke_flow [OF assms(1)] .
  have "t = state_of (remove_account rm providerGitHub a u)"
    using run u(1) assms(2) a by (simp add: github_Disconnect_def act_seq_def act_bind_def q_DeleteGitHubReposByAccount_def delete_state act_ret_def)
  then show ?thesis
    using u(2) remove_result [OF assms(3), of rm u] assms(3)
    by (cases s; cases u) (auto simp: flow_frame_def gone_def sourceless_def list_all_iff repo_of_def channel_of_def workspace_of_def bitbucket_of_def)
qed



interpretation github: account_provider providerGitHub rm ad "SyncRepos rm pv" "github_Disconnect rm ad pv" for rm ad pv
proof
  show "trim_space providerGitHub = providerGitHub" by (rule provider_names)
  fix a :: string
  assume a: "trim_space a = a"
  show "moves (others_kept providerGitHub a) (SyncRepos rm pv a)"
    by (rule repos_moves [OF _ others_upserts(2) a]) (use client_keeps_others [OF quiet_clients(1)] in \<open>simp add: github_client_def\<close>)
  show "moves signed_in (SyncRepos rm pv a)"
    by (rule repos_moves [OF client_signed [OF quiet_clients(1)] signed_upserts(1) a])
  show "quiet_flows ad \<Longrightarrow> moves (others_kept providerGitHub a) (github_Disconnect rm ad pv a)"
    unfolding github_Disconnect_def Let_def a
    by (intro others.moves_if others.moves_throw others.moves_seq deletes_stay revoke_stays remove_stays)
  show "quiet_flows ad \<Longrightarrow> storageKey providerGitHub a = Some k \<Longrightarrow> github_Disconnect rm ad pv a s = (r, t) \<Longrightarrow>
      if rm_refuses rm KeychainDelete k then sourceless providerGitHub a t \<and> dk_tokens t = dk_tokens s else gone providerGitHub a t" for s r t k
    using gone_github [OF _ a] .
qed (simp_all add: calm_repos)





section \<open>Properties\<close>

text \<open>An account of GitHub with two repositories, the first of which is known and selected.\<close>

definition octo_server :: "http_request list \<Rightarrow> http_request \<Rightarrow> api_response option" where
  "octo_server sent q = Some \<lparr>hr_status = 200, hr_text = '''',
     hr_json = Some (if hq_url q = ''https://api.github.com/user'' then JObj [(''login'', JStr ''octo'')]
       else JList [JObj [(''full_name'', JStr ''octo/a'')], JObj [(''full_name'', JStr ''octo/b'')]]),
     hr_form = None, ar_retry_after = ''''\<rparr>"

definition octo_remote :: remote where
  "octo_remote = \<lparr>rm_http = octo_server, rm_encode = (\<lambda>q. ''q''), rm_escape = (\<lambda>p. p), rm_refuses = (\<lambda>c k. False),
     rm_parse_time = (\<lambda>t. None), rm_clock = (\<lambda>sent. 0)\<rparr>"

definition octo_adapters :: adapters where
  "octo_adapters = \<lparr>ad_authorizer = None, ad_revoker = None, ad_broker = (\<lambda>b h. act_throw ErrBrokerUnavailable),
     ad_broker_revoke = (\<lambda>b t. act_ret ()), ad_broker_refresh = (\<lambda>b t. act_throw ErrInvalidRefreshToken),
     ad_local = (\<lambda>h. act_throw ErrOther), ad_local_refresh = (\<lambda>t. act_throw ErrOther)\<rparr>"

definition octo_settings :: settings where
  "octo_settings = \<lparr>pv_base = '''', pv_mode = ''broker'', pv_broker = ''https://broker.example'', pv_client = '''', pv_secret = ''''\<rparr>"

definition octo_token :: token where
  "octo_token = \<lparr>tk_access = ''t'', tk_type = ''Bearer'', tk_refresh = '''', tk_expiry = zero_time, tk_source = SourcePAT\<rparr>"

definition octo_desk :: desk where
  "octo_desk = \<lparr>dk_db = empty_db, dk_connections = \<lparr>tbl_rows = [], tbl_seq = 0\<rparr>,
     dk_repos = \<lparr>tbl_rows = [\<lparr>hr_id = 1, hr_account = ''octo'', hr_external = ''octo/a'', hr_name = ''a'', hr_full = ''octo/a'',
       hr_private = False, hr_selected = True\<rparr>], tbl_seq = 1\<rparr>,
     dk_channels = \<lparr>tbl_rows = [], tbl_seq = 0\<rparr>, dk_workspaces = \<lparr>tbl_rows = [], tbl_seq = 0\<rparr>, dk_bitbucket = \<lparr>tbl_rows = [], tbl_seq = 0\<rparr>,
     dk_tokens = (\<lambda>k. if k = ''github:octo'' then Some octo_token else None), dk_sent = [], dk_waits = []\<rparr>"

lemma octo_quiet: "quiet_flows octo_adapters"
  unfolding quiet_flows_def octo_adapters_def by (auto intro: flow.moves_throw flow.moves_ret)

lemma octo_sync: "map (\<lambda>r. (hr_external r, hr_selected r)) (tbl_rows (dk_repos (state_of (SyncRepos octo_remote octo_settings ''octo'' octo_desk)))) =
  [(''octo/a'', True), (''octo/b'', False)]"
  by code_simp






section \<open>Evidence\<close>

text \<open>What a computation gives when it succeeds.\<close>

definition yields :: "('a \<Rightarrow> bool) \<Rightarrow> ('s, 'a) act \<Rightarrow> bool" where
  "yields Q m \<longleftrightarrow> (\<forall>s x t. m s = (Inr x, t) \<longrightarrow> Q x)"

lemma yields_ret: "Q x \<Longrightarrow> yields Q (act_ret x)"
  by (simp add: yields_def act_ret_def)

lemma yields_throw: "yields Q (act_throw e)"
  by (simp add: yields_def act_throw_def)

lemma yields_bind: "yields P m \<Longrightarrow> (\<And>x. P x \<Longrightarrow> yields Q (k x)) \<Longrightarrow> yields Q (act_bind m k)"
  unfolding yields_def act_bind_def by (fastforce split: prod.splits sum.splits)

lemma yields_any: "yields (\<lambda>_. True) m"
  by (simp add: yields_def)

lemma yields_if: "yields Q m \<Longrightarrow> yields Q n \<Longrightarrow> yields Q (if b then m else n)"
  by simp

lemma yields_or_nothing: "Q [] \<Longrightarrow> yields Q m \<Longrightarrow> yields Q (or_nothing m)"
  unfolding yields_def or_nothing_def by (auto split: prod.splits sum.splits if_splits)

lemma yields_for_each: "(\<And>x. yields Q (f x)) \<Longrightarrow> yields (\<lambda>ys. list_all Q ys \<and> length ys = length xs) (for_each f xs)"
proof (induction xs)
  case (Cons x xs)
  then show ?case
    by (auto intro!: yields_ret yields_bind [where P = Q] yields_bind [where P = "\<lambda>ys. list_all Q ys \<and> length ys = length xs"])
qed (simp add: yields_ret)

lemma yields_each_page:
  assumes "Q acc" "\<And>is acc. Q acc \<Longrightarrow> yields Q (use is acc)"
  shows "yields Q (each_page get use enough k acc)"
  unfolding yields_def
proof (intro allI impI)
  fix s x t
  assume "each_page get use enough k acc s = (Inr x, t)"
  then show "Q x"
    by (rule each_page_result [where P = "\<lambda>acc _. Q acc"]) (use assms in \<open>fastforce simp: yields_def\<close>)+
qed

text \<open>At most \<open>n\<close> pieces of evidence, all of them in the window, and none longer than a second.\<close>

definition evidence_in :: "instant \<Rightarrow> instant \<Rightarrow> evidence \<Rightarrow> bool" where
  "evidence_in s e x \<longleftrightarrow> s \<le> ae_start x \<and> ae_start x < e \<and> ae_end x = ae_start x + second"

definition evidence_ok :: "instant \<Rightarrow> instant \<Rightarrow> nat \<Rightarrow> evidence list \<Rightarrow> bool" where
  "evidence_ok s e n xs \<longleftrightarrow> list_all (evidence_in s e) xs \<and> length xs \<le> n"

lemma evidence_none: "evidence_ok s e n []"
  by (simp add: evidence_ok_def)

lemma take_items_ok:
  assumes "\<And>i x. item i = Some x \<Longrightarrow> evidence_in s e x" "evidence_ok s e n out"
  shows "evidence_ok s e n (take_items n item items out)"
proof -
  have "list_all (evidence_in s e) (List.map_filter item items)"
    using assms(1) by (auto simp: List.map_filter_def list_all_iff)
  then show ?thesis using assms(2) by (auto simp: evidence_ok_def take_items_def list_all_iff dest: in_set_takeD)
qed

lemma concat_ok: "list_all (evidence_ok s e n) ess \<Longrightarrow> evidence_ok s e (n * length ess) (concat ess)"
  by (induction ess) (auto simp: evidence_ok_def)

lemma append_ok: "evidence_ok s e m xs \<Longrightarrow> evidence_ok s e n ys \<Longrightarrow> evidence_ok s e (m + n) (xs @ ys)"
  by (simp add: evidence_ok_def)

lemma fetch_ok:
  assumes "\<And>r. yields (evidence_ok (tw_start w) (tw_end w) n) (one r (tw_start w) (tw_end w))"
    and run: "fetch_evidence selected one w s = (Inr xs, t)"
  shows "evidence_ok (tw_start w) (tw_end w) (n * length (selected s)) xs"
proof (cases "tw_end w \<le> tw_start w")
  case True
  then show ?thesis using run by (simp add: fetch_evidence_def act_ret_def evidence_none)
next
  case False
  then obtain ess where ess: "for_each (\<lambda>r. one r (tw_start w) (tw_end w)) (selected s) s = (Inr ess, t)" "xs = concat ess"
    using run by (auto simp: fetch_evidence_def act_bind_def act_gets_def act_ret_def split: prod.splits sum.splits)
  then show ?thesis
    using yields_for_each [of "evidence_ok (tw_start w) (tw_end w) n" "\<lambda>r. one r (tw_start w) (tw_end w)" "selected s"] assms(1) concat_ok
    by (auto simp: yields_def) metis
qed

text \<open>The items of the three providers.\<close>

lemma mapped_in:
  "mapCommit full s e i = Some x \<Longrightarrow> evidence_in s e x" "mapMergedPR full s e q = Some x \<Longrightarrow> evidence_in s e x"
  "mapMessage channel name s e m = Some x \<Longrightarrow> evidence_in s e x"
  by (auto simp: mapCommit_def mapMergedPR_def mapMessage_def inWindow_def evidence_in_def Let_def split: option.splits if_splits)

lemma collect_ok:
  "evidence_ok s e maxBitbucketCommits out \<Longrightarrow> evidence_ok s e maxBitbucketCommits (fst (collect_commits account full s e items out))"
  by (induction items arbitrary: out)
    (auto simp: evidence_ok_def evidence_in_def bitbucket_mapCommit_def split: option.split)

lemma github_evidence: "yields (evidence_ok s e 70) (fetchRepoEvidence rm pv repo s e)"
proof -
  have commits: "yields (evidence_ok s e 50) (github_fetchCommits rm pv account full s e)" for account full
    unfolding github_fetchCommits_def
    by (intro yields_each_page yields_ret evidence_none take_items_ok) (auto intro: mapped_in)
  have prs: "yields (evidence_ok s e 20) (fetchMergedPRs rm pv account full s e)" for account full
    unfolding fetchMergedPRs_def
    by (intro yields_bind [OF yields_any] yields_ret evidence_none take_items_ok) (auto intro: mapped_in)
  show ?thesis
    unfolding fetchRepoEvidence_def Let_def
    by (intro yields_if yields_ret evidence_none yields_bind [OF yields_or_nothing [OF evidence_none commits]]
        yields_bind [OF yields_or_nothing [OF evidence_none prs]]) (use append_ok [of s e 50 _ 20] in simp)
qed

lemma slack_evidence: "yields (evidence_ok s e 50) (fetchChannelEvidence rm pv c s e)"
  unfolding fetchChannelEvidence_def fetchChannelMessages_def Let_def
  by (intro yields_if yields_ret yields_or_nothing yields_each_page evidence_none take_items_ok) (auto intro: mapped_in)

lemma bitbucket_evidence: "yields (evidence_ok s e 50) (bitbucket_fetchRepoEvidence rm ad pv repo s e)"
proof -
  have "yields (evidence_ok s e 50) (bitbucket_fetchCommits rm ad pv account full s e)" for account full
    unfolding bitbucket_fetchCommits_def
    by (auto split: option.split intro!: yields_throw yields_ret collect_ok evidence_none
        yields_bind [OF yields_each_page [where Q = "\<lambda>acc. evidence_ok s e 50 (fst acc)"]])
  then show ?thesis
    unfolding bitbucket_fetchRepoEvidence_def Let_def by (intro yields_if yields_ret yields_or_nothing evidence_none)
qed

text \<open>A computation that fails, if at all, by never returning.\<close>

definition lenient :: "('s, 'a) act \<Rightarrow> bool" where
  "lenient m \<longleftrightarrow> (\<forall>s e t. m s = (Inl e, t) \<longrightarrow> e = Diverges)"

lemma lenient_ret: "lenient (act_ret x)" "lenient (act_gets f)"
  by (simp_all add: lenient_def act_ret_def act_gets_def)

lemma lenient_bind: "lenient m \<Longrightarrow> (\<And>x. lenient (k x)) \<Longrightarrow> lenient (act_bind m k)"
  unfolding lenient_def act_bind_def by (fastforce split: prod.splits sum.splits)

lemma lenient_if: "lenient m \<Longrightarrow> lenient n \<Longrightarrow> lenient (if b then m else n)"
  by simp

lemma lenient_or_nothing: "lenient (or_nothing m)"
  unfolding lenient_def or_nothing_def by (auto split: prod.splits sum.splits if_splits)

lemma lenient_for_each: "(\<And>x. lenient (f x)) \<Longrightarrow> lenient (for_each f xs)"
  by (induction xs) (auto intro!: lenient_bind lenient_ret)

lemma lenient_fetch: "(\<And>r s e. lenient (one r s e)) \<Longrightarrow> lenient (fetch_evidence selected one w)"
  unfolding fetch_evidence_def by (intro lenient_if lenient_ret lenient_bind lenient_for_each)

definition bounded_evidence :: "time_window \<Rightarrow> nat \<Rightarrow> (go_error + evidence list) \<times> desk \<Rightarrow> bool" where
  "bounded_evidence w n x \<longleftrightarrow> (case fst x of Inl e \<Rightarrow> e = Diverges | Inr xs \<Rightarrow> evidence_ok (tw_start w) (tw_end w) n xs)"

lemma bounded_fetch:
  assumes "\<And>r. yields (evidence_ok (tw_start w) (tw_end w) n) (one r (tw_start w) (tw_end w))" "\<And>r s e. lenient (one r s e)"
  shows "bounded_evidence w (n * length (selected s)) (fetch_evidence selected one w s)"
proof -
  obtain x t where run: "fetch_evidence selected one w s = (x, t)" by fastforce
  show ?thesis
  proof (cases x)
    case (Inl e)
    then have "e = Diverges" using run lenient_fetch [where one = one, OF assms(2), of selected w] unfolding lenient_def by blast
    then show ?thesis using run Inl by (simp add: bounded_evidence_def)
  next
    case (Inr xs)
    then show ?thesis using run fetch_ok [where one = one and w = w and n = n, OF assms(1)] by (simp add: bounded_evidence_def)
  qed
qed

text \<open>
  C18. Evidence is bounded and lies in its window. Whatever GitHub, Slack and Bitbucket answer, the
  evidence fetched for a window starts in it, each piece lasts a second, and there are at most 70
  pieces for every selected repository of GitHub (50 commits and 20 pull requests), 50 for every
  selected channel and 50 for every selected repository of Bitbucket. A source that cannot be read
  is left out: the only way to fail is not to return, on pages that go on for ever.
\<close>

theorem evidence_is_bounded:
  "bounded_evidence w (70 * length (q_ListSelectedGitHubRepos s)) (github_FetchEvidence rm pv w s) \<and>
   bounded_evidence w (50 * length (q_ListSelectedSlackChannels s)) (slack_FetchEvidence rm pv w s) \<and>
   bounded_evidence w (50 * length (q_ListSelectedBitbucketRepos s)) (bitbucket_FetchEvidence rm ad pv w s)"
proof -
  have "lenient (fetchRepoEvidence rm pv r b e)" for r b e
    unfolding fetchRepoEvidence_def Let_def by (intro lenient_if lenient_ret lenient_bind lenient_or_nothing)
  moreover have "lenient (fetchChannelEvidence rm pv c b e)" for c b e
    unfolding fetchChannelEvidence_def Let_def by (intro lenient_if lenient_ret lenient_or_nothing)
  moreover have "lenient (bitbucket_fetchRepoEvidence rm ad pv r b e)" for r b e
    unfolding bitbucket_fetchRepoEvidence_def Let_def by (intro lenient_if lenient_ret lenient_or_nothing)
  ultimately show ?thesis
    unfolding github_FetchEvidence_def slack_FetchEvidence_def bitbucket_FetchEvidence_def
    by (intro conjI bounded_fetch github_evidence slack_evidence bitbucket_evidence)
qed

text \<open>
  C6. A sync keeps the choice of sources. Listing the repositories, channels and workspaces of an
  account anew, with whatever answers and up to whatever error, leaves every stored source in its
  place, under its id, its account and its name at the provider, selected exactly if it was; sources
  that are new come after them and are not selected.
\<close>

theorem sync_keeps_choice:
  assumes "quiet_flows ad"
  shows "choice_kept s (state_of (SyncRepos rm pv account s)) \<and> choice_kept s (state_of (SyncChannels rm pv account s)) \<and>
    choice_kept s (state_of (SyncWorkspacesRepos rm ad pv account s))"
proof -
  have trimmed: "SyncRepos rm pv account = SyncRepos rm pv (trim_space account)" "SyncChannels rm pv account = SyncChannels rm pv (trim_space account)"
      "SyncWorkspacesRepos rm ad pv account = SyncWorkspacesRepos rm ad pv (trim_space account)"
    by (simp_all add: SyncRepos_def SyncChannels_def SyncWorkspacesRepos_def)
  note keeps = client_keeps_choice [OF quiet_clients(1)] client_keeps_choice [OF quiet_clients(2)]
    client_keeps_choice [OF quiet_clients(3) [OF assms]]
  have "moves choice_kept (SyncRepos rm pv account)" "moves choice_kept (SyncChannels rm pv account)"
      "moves choice_kept (SyncWorkspacesRepos rm ad pv account)"
    unfolding trimmed
    by (rule repos_moves [OF keeps(1)] channels_moves [OF keeps(2)] workspaces_moves [OF keeps(3)]; simp add: choice_upserts)+
  then show ?thesis by (simp add: moves_def)
qed

theorem sync_keeps_choice_witness:
  "choice_kept octo_desk (state_of (SyncRepos octo_remote octo_settings ''octo'' octo_desk)) \<and>
   map (\<lambda>r. (hr_external r, hr_selected r)) (tbl_rows (dk_repos (state_of (SyncRepos octo_remote octo_settings ''octo'' octo_desk)))) =
     [(''octo/a'', True), (''octo/b'', False)]"
  using sync_keeps_choice [OF octo_quiet, of octo_desk octo_remote octo_settings "''octo''"] octo_sync by blast









end
