(* ===== verification/Desktop.thy ===== *)
theory Desktop
  imports Broker_Operations Activity
begin

text \<open>
  The desktop half of an authorization: internal/integration/oauth/broker_flow.go and flow.go, with
  broker_flow.go of the four providers. The state is that of whatever answers the calls of the
  broker and the browser.
\<close>


section \<open>Surroundings\<close>

text \<open>An error of a call: the code of Connect if it is one of those the broker uses, the details, the message.\<close>

datatype rpc_error = ConnectError "connect_code option" "string option list" string | NoConnectError

text \<open>Answers as they are read from the wire.\<close>

record token_answer =
  ta_access :: string
  ta_refresh :: string
  ta_type :: string
  ta_expiry :: "instant option"

record handed_tokens =
  hn_provider :: provider_enum
  hn_scopes :: "string list"
  hn_token :: "token_answer option"

record loopback_request =
  lr_path :: string
  lr_query :: "(string \<times> string) list"

text \<open>
  What the program runs in: the port of the loopback listener if there is one, random bytes, SHA-256
  and the URL parser, the name of the platform; the calls of the broker at an address; and what
  becomes of opening the browser. Requests can reach the listener before the broker has answered
  (\<open>sr_before\<close>); opening the browser fails or leads to requests that arrive before the program waits
  and requests that arrive while it waits, until its time is up. If an error and a code are both there
  when it starts to wait, which of them is taken is chance.
\<close>

record 's surroundings =
  sr_port :: "string option"
  sr_rand :: "nat \<Rightarrow> string option"
  sr_sha256 :: "string \<Rightarrow> string"
  sr_parse :: url_parser
  sr_platform :: string
  sr_start :: "string \<Rightarrow> start_request \<Rightarrow> 's \<Rightarrow> (rpc_error + start_response) \<times> 's"
  sr_exchange :: "string \<Rightarrow> handoff_request \<Rightarrow> 's \<Rightarrow> (rpc_error + handed_tokens) \<times> 's"
  sr_refresh :: "string \<Rightarrow> refresh_request \<Rightarrow> 's \<Rightarrow> (rpc_error + token_answer option) \<times> 's"
  sr_revoke :: "string \<Rightarrow> revoke_request \<Rightarrow> 's \<Rightarrow> (rpc_error + bool) \<times> 's"
  sr_before :: "loopback_request list"
  sr_visit :: "string \<Rightarrow> 's \<Rightarrow> (loopback_request list \<times> loopback_request list) option \<times> 's"
  sr_error_first :: bool

text \<open>\<open>BrokerFlow\<close>.\<close>

record broker_flow =
  bf_provider :: string
  bf_base :: string
  bf_scopes :: "string list"
  bf_version :: string
  bf_platform :: string


section \<open>Errors\<close>

definition BrokerErrorCode :: "rpc_error \<Rightarrow> string" where
  "BrokerErrorCode e = (case e of
      NoConnectError \<Rightarrow> ''''
    | ConnectError _ details message \<Rightarrow> (case List.map_filter (\<lambda>d. d) details of [] \<Rightarrow> trim_space message | d # _ \<Rightarrow> trim_space d))"

definition code_of :: "rpc_error \<Rightarrow> connect_code option" where
  "code_of e = (case e of NoConnectError \<Rightarrow> None | ConnectError c _ _ \<Rightarrow> c)"

definition broker_down :: "rpc_error \<Rightarrow> bool" where
  "broker_down e \<longleftrightarrow> code_of e = Some Unavailable \<or> code_of e = Some Internal"

definition mapBrokerRPCError :: "rpc_error \<Rightarrow> go_error" where
  "mapBrokerRPCError e = (let code = BrokerErrorCode e in
     if code = HandoffAlreadyUsed then ErrHandoffReplay
     else if code = HandoffExpired then ErrHandoffExpired
     else if code = HandoffStateMismatch then ErrHandoffStateMismatch
     else if code = HandoffVerifierMismatch then ErrHandoffVerifier
     else if code = RateLimited \<or> code = AuthDisabled \<or> code = AppVersionDisabled then ErrBrokerRejected
     else if broker_down e then ErrBrokerUnavailable else ErrBrokerRejected)"

definition google_mapBrokerRPCError :: "rpc_error \<Rightarrow> go_error" where
  "google_mapBrokerRPCError e = (let code = BrokerErrorCode e in
     if code = HandoffAlreadyUsed then ErrHandoffReplay
     else if code = HandoffExpired then ErrHandoffExpired
     else if code = HandoffStateMismatch then ErrHandoffStateMismatch
     else if code = HandoffVerifierMismatch then ErrHandoffVerifier
     else if code = HandoffNotFound then ErrBrokerRejected
     else if code = InvalidRefreshToken then ErrInvalidRefreshToken
     else if code = RateLimited \<or> code = AuthDisabled \<or> code = RefreshDisabled \<or> code = AppVersionDisabled then ErrBrokerRejected
     else if broker_down e then ErrBrokerUnavailable else ErrBrokerRejected)"

definition bitbucket_mapBrokerRPCError :: "rpc_error \<Rightarrow> go_error" where
  "bitbucket_mapBrokerRPCError e = (let code = BrokerErrorCode e in
     if code = InvalidRefreshToken then ErrInvalidRefreshToken
     else if code = RateLimited \<or> code = AuthDisabled \<or> code = RefreshDisabled \<or> code = AppVersionDisabled then ErrBrokerRejected
     else if broker_down e then ErrBrokerUnavailable else ErrBrokerRejected)"

text \<open>A call, its error mapped.\<close>

definition rpc :: "(rpc_error \<Rightarrow> go_error) \<Rightarrow> ('s \<Rightarrow> (rpc_error + 'a) \<times> 's) \<Rightarrow> ('s, 'a) act" where
  "rpc f m = (\<lambda>s. case m s of (Inl e, t) \<Rightarrow> (Inl (f e), t) | (Inr x, t) \<Rightarrow> (Inr x, t))"


section \<open>The loopback listener\<close>

abbreviation (input) brokerHandoffPath :: string where "brokerHandoffPath \<equiv> ''/oauth/handoff''"

text \<open>What a request tells the waiting program.\<close>

datatype handed = Ignored | Refused go_error | Handed string string

text \<open>The status of the answer, and the event. Until the broker has answered any state is taken.\<close>

definition handle_handoff :: "string \<Rightarrow> loopback_request \<Rightarrow> int \<times> handed" where
  "handle_handoff want r =
     (if lr_path r \<noteq> brokerHandoffPath then (404, Ignored)
      else let state = trim_space (form_get ''broker_state'' (lr_query r)); code = trim_space (form_get ''handoff_code'' (lr_query r)) in
        if state = '''' \<or> code = '''' then (400, Refused ErrOther)
        else if want \<noteq> '''' \<and> state \<noteq> want then (400, Refused ErrHandoffStateMismatch)
        else (200, Handed state code))"

fun refusal :: "handed \<Rightarrow> go_error option" where
  "refusal (Refused e) = Some e" | "refusal _ = None"

fun handed_pair :: "handed \<Rightarrow> (string \<times> string) option" where
  "handed_pair (Handed state code) = Some (state, code)" | "handed_pair _ = None"

text \<open>Channels that hold one value each, the first; the select over them and the time limit.\<close>

fun await :: "go_error \<Rightarrow> handed list \<Rightarrow> go_error + (string \<times> string)" where
  "await late [] = Inl late"
| "await late (Refused e # es) = Inl e"
| "await late (Handed state code # es) = Inr (state, code)"
| "await late (Ignored # es) = await late es"

definition select_handed :: "go_error \<Rightarrow> bool \<Rightarrow> handed list \<Rightarrow> handed list \<Rightarrow> go_error + (string \<times> string)" where
  "select_handed late error_first ready later =
     (case (List.map_filter refusal ready, List.map_filter handed_pair ready) of
        ([], []) \<Rightarrow> await late later
      | (e # _, []) \<Rightarrow> Inl e
      | ([], c # _) \<Rightarrow> Inr c
      | (e # _, c # _) \<Rightarrow> if error_first then Inl e else Inr c)"


section \<open>BrokerFlow\<close>

definition randomBrokerString :: "'s surroundings \<Rightarrow> nat \<Rightarrow> string option" where
  "randomBrokerString sr n = map_option (\<lambda>b. base64url (bytes_of b)) (sr_rand sr n)"

definition brokerPKCES256 :: "'s surroundings \<Rightarrow> string \<Rightarrow> string" where
  "brokerPKCES256 sr verifier = base64url (bytes_of (sr_sha256 sr verifier))"

definition brokerProvider :: "string \<Rightarrow> provider_enum" where
  "brokerProvider p = (let p = to_lower (trim_space p) in
     if p = ProviderGitHub then GitHub else if p = ProviderSlack then Slack
     else if p = ProviderBitbucket then Bitbucket else Google)"

definition appVersion :: "string \<Rightarrow> string" where
  "appVersion v = (if trim_space v \<noteq> '''' then trim_space v else ''dev'')"

definition platform :: "string \<Rightarrow> string \<Rightarrow> string" where
  "platform standard p = (if trim_space p \<noteq> '''' then trim_space p else standard)"

definition metadata :: "'s surroundings \<Rightarrow> broker_flow \<Rightarrow> application" where
  "metadata sr f = Some (appVersion (bf_version f), platform (sr_platform sr) (bf_platform f))"

definition timestampTime :: "instant option \<Rightarrow> instant" where
  "timestampTime t = (case t of None \<Rightarrow> zero_time | Some i \<Rightarrow> i)"

definition startAuth :: "'s surroundings \<Rightarrow> broker_flow \<Rightarrow> string \<Rightarrow> secret \<Rightarrow> secret \<Rightarrow> string \<Rightarrow> ('s, start_response) act" where
  "startAuth sr f base session challenge redirect =
     act_bind (rpc mapBrokerRPCError (sr_start sr base \<lparr>sq_provider = brokerProvider (bf_provider f), sq_session = session,
         sq_challenge = challenge, sq_redirect = redirect, sq_app = metadata sr f\<rparr>)) (\<lambda>r.
       if sp_auth_url r = '''' \<or> sp_state r = '''' then act_throw ErrBrokerUnavailable else act_ret r)"

definition exchange_handoff ::
    "'s surroundings \<Rightarrow> broker_flow \<Rightarrow> string \<Rightarrow> secret \<Rightarrow> secret \<Rightarrow> secret \<Rightarrow> secret \<Rightarrow> ('s, handed_tokens \<times> token_answer) act" where
  "exchange_handoff sr f base session state code verifier =
     act_bind (rpc mapBrokerRPCError (sr_exchange sr base \<lparr>xq_provider = brokerProvider (bf_provider f), xq_session = session,
         xq_state = state, xq_code = code, xq_verifier = verifier, xq_app = metadata sr f\<rparr>)) (\<lambda>r.
       case hn_token r of None \<Rightarrow> act_throw ErrBrokerUnavailable
       | Some t \<Rightarrow> if trim_space (ta_access t) = '''' then act_throw ErrBrokerUnavailable else act_ret (r, t))"

definition flow_scopes :: "broker_flow \<Rightarrow> provider \<Rightarrow> string list \<Rightarrow> string list" where
  "flow_scopes f desc scopes = (if scopes \<noteq> [] then scopes else if bf_scopes f \<noteq> [] then bf_scopes f else pr_scopes desc)"

text \<open>The code and the state that arrive are exchanged with the session and the verifier of this run.\<close>

definition flow_result ::
    "'s surroundings \<Rightarrow> broker_flow \<Rightarrow> provider \<Rightarrow> string \<Rightarrow> secret \<Rightarrow> secret \<Rightarrow> string \<times> string \<Rightarrow> ('s, auth_result) act" where
  "flow_result sr f desc base session verifier cb =
     act_bind (exchange_handoff sr f base session (fst cb) (snd cb) verifier) (\<lambda>(r, t).
       if hn_provider r \<noteq> ProviderUnspecified \<and> hn_provider r \<noteq> brokerProvider (trim_space (bf_provider f)) then act_throw ErrBrokerRejected
       else act_ret \<lparr>au_token = \<lparr>tk_access = ta_access t, tk_type = ta_type t, tk_refresh = ta_refresh t,
           tk_expiry = timestampTime (ta_expiry t), tk_source = ''''\<rparr>, au_scopes = flow_scopes f desc (hn_scopes r)\<rparr>)"

definition visited :: "go_error \<Rightarrow> 's surroundings \<Rightarrow> string \<Rightarrow> ('s, loopback_request list \<times> loopback_request list) act" where
  "visited e sr url = (\<lambda>s. case sr_visit sr url s of (None, t) \<Rightarrow> (Inl e, t) | (Some rs, t) \<Rightarrow> (Inr rs, t))"

definition BrokerFlow_Authorize :: "'s surroundings \<Rightarrow> broker_flow \<Rightarrow> ('s, auth_result) act" where
  "BrokerFlow_Authorize sr f =
     (let provider = trim_space (bf_provider f); base = trim_right (CHR ''/'') (trim_space (bf_base f)) in
      if provider = '''' then act_throw ErrOther
      else case Lookup provider of None \<Rightarrow> act_throw ErrOther
      | Some desc \<Rightarrow> if base = '''' then act_throw ErrOther
        else case (sr_port sr, randomBrokerString sr 32, randomBrokerString sr 64) of
          (Some port, Some session, Some verifier) \<Rightarrow>
            act_bind (startAuth sr f base session (brokerPKCES256 sr verifier) (''http://127.0.0.1:'' @ port @ brokerHandoffPath)) (\<lambda>start.
              if \<not> ValidateAuthorizationURL (sr_parse sr) desc (sp_auth_url start) then act_throw ErrBrokerRejected
              else act_bind (visited ErrBrokerUnavailable sr (sp_auth_url start)) (\<lambda>(soon, later).
                act_bind (act_lift (select_handed ErrBrokerUnavailable (sr_error_first sr)
                    (map (\<lambda>r. snd (handle_handoff '''' r)) (sr_before sr) @ map (\<lambda>r. snd (handle_handoff (sp_state start) r)) soon)
                    (map (\<lambda>r. snd (handle_handoff (sp_state start) r)) later))) (\<lambda>cb.
                  flow_result sr f desc base session verifier cb)))
        | _ \<Rightarrow> act_throw ErrOther)"


section \<open>The four providers\<close>

definition google_BrokerAuthorize :: "'s surroundings \<Rightarrow> broker_flow \<Rightarrow> string \<Rightarrow> ('s, auth_result) act" where
  "google_BrokerAuthorize sr f account =
     (let base = trim_space (bf_base f) in
      if trim_space account = '''' then act_throw ErrOther
      else if base = '''' then act_throw ErrBrokerConfig
      else BrokerFlow_Authorize sr (f\<lparr>bf_provider := ProviderGoogle, bf_base := base, bf_scopes := pr_scopes google_provider\<rparr>))"

definition github_BrokerAuthorize :: "'s surroundings \<Rightarrow> broker_flow \<Rightarrow> ('s, auth_result) act" where
  "github_BrokerAuthorize sr f =
     (let base = trim_space (bf_base f) in
      if base = '''' then act_throw ErrBrokerConfig
      else BrokerFlow_Authorize sr (f\<lparr>bf_provider := ProviderGitHub, bf_base := base, bf_scopes := [''repo'']\<rparr>))"

definition slack_BrokerAuthorize :: "'s surroundings \<Rightarrow> broker_flow \<Rightarrow> ('s, auth_result) act" where
  "slack_BrokerAuthorize sr f =
     (let base = trim_space (bf_base f) in
      if base = '''' then act_throw ErrBrokerConfig
      else BrokerFlow_Authorize sr (f\<lparr>bf_provider := ProviderSlack, bf_base := base, bf_scopes := pr_scopes slack_provider\<rparr>))"

definition bitbucket_BrokerAuthorize :: "'s surroundings \<Rightarrow> broker_flow \<Rightarrow> ('s, auth_result) act" where
  "bitbucket_BrokerAuthorize sr f =
     (let base = trim_space (bf_base f) in
      if base = '''' then act_throw ErrBrokerConfig
      else BrokerFlow_Authorize sr (f\<lparr>bf_provider := ProviderBitbucket, bf_base := base, bf_scopes := pr_scopes bitbucket_provider\<rparr>))"

text \<open>
  Refreshing at the broker. An answer without an expiry counts as expiring at the Unix epoch, unlike
  that of a handoff (\<open>timestampTime\<close>).
\<close>

definition refreshed_token :: "string \<Rightarrow> token_answer option \<Rightarrow> ('s, token) act" where
  "refreshed_token current answer = (case answer of
      None \<Rightarrow> act_throw ErrBrokerUnavailable
    | Some t \<Rightarrow> if trim_space (ta_access t) = '''' then act_throw ErrBrokerUnavailable
        else act_ret \<lparr>tk_access = ta_access t, tk_type = (if trim_space (ta_type t) = '''' then ''Bearer'' else trim_space (ta_type t)),
          tk_refresh = (if trim_space (ta_refresh t) = '''' then current else trim_space (ta_refresh t)),
          tk_expiry = (case ta_expiry t of None \<Rightarrow> 0 | Some i \<Rightarrow> i), tk_source = ''''\<rparr>)"

definition google_RefreshToken :: "'s surroundings \<Rightarrow> broker_flow \<Rightarrow> string list \<Rightarrow> string \<Rightarrow> ('s, token) act" where
  "google_RefreshToken sr f scopes token =
     (let base = trim_right (CHR ''/'') (trim_space (bf_base f)); token = trim_space token in
      if base = '''' then act_throw ErrBrokerConfig
      else if token = '''' then act_throw ErrInvalidRefreshToken
      else act_bind (rpc google_mapBrokerRPCError (sr_refresh sr base
          \<lparr>fq_provider = Google, fq_token = token, fq_scopes = scopes, fq_app = metadata sr f\<rparr>)) (refreshed_token token))"

definition bitbucket_RefreshToken :: "'s surroundings \<Rightarrow> broker_flow \<Rightarrow> string list \<Rightarrow> string \<Rightarrow> ('s, token) act" where
  "bitbucket_RefreshToken sr f scopes token =
     (let base = trim_right (CHR ''/'') (trim_space (bf_base f)); token = trim_space token in
      if base = '''' then act_throw ErrBrokerConfig
      else if token = '''' then act_throw ErrInvalidRefreshToken
      else act_bind (rpc bitbucket_mapBrokerRPCError (sr_refresh sr base
          \<lparr>fq_provider = Bitbucket, fq_token = token, fq_scopes = scopes,
           fq_app = Some (appVersion (bf_version f), platform ''desktop'' (bf_platform f))\<rparr>)) (refreshed_token token))"

text \<open>Revoking at the broker.\<close>

definition mapRevokeError :: "rpc_error \<Rightarrow> go_error" where
  "mapRevokeError e = (if broker_down e then ErrBrokerUnavailable else ErrBrokerRejected)"

definition confirmed_revoke :: "bool \<Rightarrow> ('s, unit) act" where
  "confirmed_revoke revoked = (if revoked then act_ret () else act_throw ErrBrokerRejected)"

definition google_Revoke :: "'s surroundings \<Rightarrow> broker_flow \<Rightarrow> string \<Rightarrow> ('s, unit) act" where
  "google_Revoke sr f token =
     (let base = trim_right (CHR ''/'') (trim_space (bf_base f)); token = trim_space token in
      if token = '''' then act_throw ErrOther
      else if base = '''' then act_throw ErrBrokerConfig
      else act_bind (rpc google_mapBrokerRPCError (sr_revoke sr base
          \<lparr>vq_provider = Google, vq_refresh = token, vq_access = '''', vq_reason = ''user_disconnect''\<rparr>)) confirmed_revoke)"

definition github_Revoke :: "'s surroundings \<Rightarrow> broker_flow \<Rightarrow> string \<Rightarrow> ('s, unit) act" where
  "github_Revoke sr f token =
     (let base = trim_right (CHR ''/'') (trim_space (bf_base f)); token = trim_space token in
      if token = '''' then act_throw ErrOther
      else if base = '''' then act_throw ErrBrokerConfig
      else act_bind (rpc mapRevokeError (sr_revoke sr base
          \<lparr>vq_provider = GitHub, vq_refresh = '''', vq_access = token, vq_reason = ''user_disconnect''\<rparr>)) confirmed_revoke)"

definition slack_Revoke :: "'s surroundings \<Rightarrow> broker_flow \<Rightarrow> string \<Rightarrow> ('s, unit) act" where
  "slack_Revoke sr f token =
     (let base = trim_right (CHR ''/'') (trim_space (bf_base f)); token = trim_space token in
      if token = '''' then act_throw ErrOther
      else if base = '''' then act_throw ErrBrokerConfig
      else act_bind (rpc mapRevokeError (sr_revoke sr base
          \<lparr>vq_provider = Slack, vq_refresh = '''', vq_access = token, vq_reason = ''user_disconnect''\<rparr>)) confirmed_revoke)"


section \<open>The local flow\<close>

text \<open>\<open>ProviderConfig\<close>, and the provider it makes of the registered one if there is one.\<close>

record provider_config =
  pc_provider :: string
  pc_client :: string
  pc_secret :: string
  pc_auth_url :: string
  pc_token_url :: string
  pc_header_auth :: bool
  pc_scopes :: "string list"

definition configured_provider :: "provider_config \<Rightarrow> provider" where
  "configured_provider c = (case Lookup (pc_provider c) of
      None \<Rightarrow> \<lparr>pr_id = pc_provider c, pr_name = '''', pr_auth_url = pc_auth_url c, pr_token_url = pc_token_url c, pr_revoke_url = '''',
        pr_header_auth = pc_header_auth c, pr_scopes = pc_scopes c, pr_auth_host = '''', pr_auth_paths = [], pr_auth_params = [],
        pr_accept_json = False, pr_split_comma = False, pr_scope_param = '''', pr_refresh = False, pr_revoke = False\<rparr>
    | Some p \<Rightarrow> p\<lparr>pr_token_url := (if trim_space (pc_token_url c) \<noteq> '''' then pc_token_url c else pr_token_url p),
        pr_auth_url := (if trim_space (pc_auth_url c) \<noteq> '''' then pc_auth_url c else pr_auth_url p)\<rparr>)"

abbreviation (input) callbackPath :: string where "callbackPath \<equiv> ''/oauth/callback''"

definition handle_callback :: "string \<Rightarrow> loopback_request \<Rightarrow> handed" where
  "handle_callback state r =
     (if lr_path r \<noteq> callbackPath then Ignored
      else if form_get ''state'' (lr_query r) \<noteq> state then Refused ErrOther
      else if form_get ''error'' (lr_query r) \<noteq> '''' then Refused ErrOther
      else let code = form_get ''code'' (lr_query r) in
        if code = '''' then Refused ErrOther else Handed state code)"

text \<open>The code is exchanged with the verifier of this run, and the token is kept in the store the flow is given.\<close>

definition local_result ::
    "http \<Rightarrow> instant \<Rightarrow> provider_config \<Rightarrow> (string \<Rightarrow> string \<Rightarrow> token \<Rightarrow> ('s, unit) act) \<Rightarrow> string \<Rightarrow> string \<Rightarrow> secret \<Rightarrow> secret \<Rightarrow>
       ('s, auth_result) act" where
  "local_result http now c store account redirect verifier code =
     (case ExchangeAuthorizationCode http now (configured_provider c) \<lparr>cr_id = pc_client c, cr_secret = pc_secret c\<rparr> redirect code
          verifier (pc_token_url c) of
        Inl _ \<Rightarrow> act_throw ErrOther
      | Inr t \<Rightarrow>
          (let token = \<lparr>tk_access = tr_access t, tk_type = tr_type t, tk_refresh = tr_refresh t, tk_expiry = tr_expiry t, tk_source = ''''\<rparr>
           in act_seq (store (pc_provider c) account token) (act_ret \<lparr>au_token = token, au_scopes = pc_scopes c\<rparr>)))"

definition Flow_Authorize ::
    "'s surroundings \<Rightarrow> auth_url_builder \<Rightarrow> http \<Rightarrow> instant \<Rightarrow> provider_config \<Rightarrow>
       (string \<Rightarrow> string \<Rightarrow> token \<Rightarrow> ('s, unit) act) \<Rightarrow> string \<Rightarrow> ('s, auth_result) act" where
  "Flow_Authorize sr build http now c store account =
     (let account = trim_space account in
      if account = '''' then act_throw ErrOther
      else case (sr_port sr, randomBrokerString sr 32, randomBrokerString sr 64) of
        (Some port, Some state, Some verifier) \<Rightarrow>
          (let redirect = ''http://127.0.0.1:'' @ port @ callbackPath in
           act_bind (act_the ErrOther (BuildAuthorizationURL build (configured_provider c) \<lparr>cr_id = pc_client c, cr_secret = pc_secret c\<rparr>
               redirect state (brokerPKCES256 sr verifier) (pc_scopes c))) (\<lambda>url.
           act_bind (visited ErrOther sr url) (\<lambda>(soon, later).
           act_bind (act_lift (select_handed ErrOther (sr_error_first sr) (map (handle_callback state) soon) (map (handle_callback state) later)))
             (\<lambda>cb. local_result http now c store account redirect verifier (snd cb)))))
      | _ \<Rightarrow> act_throw ErrOther)"

text \<open>The store of the providers whose account is not known before the first call.\<close>

definition transient_store :: "string \<Rightarrow> string \<Rightarrow> token \<Rightarrow> ('s, unit) act" where
  "transient_store p a t = act_ret ()"

end
