(* ===== verification/Desktop_Laws.thy ===== *)
theory Desktop_Laws
  imports Desktop Broker_Laws
begin

text \<open>
  Laws of the desktop half of an authorization, and of both halves together: the calls of the desktop
  answered by the broker of Broker_Operations.
\<close>


section \<open>Texts\<close>

lemma base64_chars: "list_all (\<lambda>c. c \<in> set base64_alphabet) (base64url (bytes_of s))"
proof -
  have bytes: "list_all (\<lambda>b. b < 256) (bytes_of s)" by (simp add: bytes_of_def list_all_iff)
  have len: "length base64_alphabet = 64" by (simp add: base64_alphabet_def)
  have digits: "x mod 4 < 4" "x mod 16 < 16" "x mod 64 < 64" "x < 256 \<Longrightarrow> x div 4 < 64" "x < 256 \<Longrightarrow> x div 16 < 16" "x < 256 \<Longrightarrow> x div 64 < 4"
    for x :: nat by (simp_all add: less_mult_imp_div_less)
  have "list_all (\<lambda>b. b < 256) bs \<Longrightarrow> list_all (\<lambda>c. c \<in> set base64_alphabet) (base64url bs)" for bs
  proof (induction bs rule: base64url.induct)
    case (2 a)
    then have "a < 256" by simp
    then have "a div 4 < 64 \<and> a mod 4 * 16 < 64" using digits(1) [of a] digits(4) [of a] by linarith
    then show ?case using len by (simp add: nth_mem)
  next
    case (3 a b)
    then have "a < 256 \<and> b < 256" by simp
    then have "a div 4 < 64 \<and> a mod 4 * 16 + b div 16 < 64 \<and> b mod 16 * 4 < 64"
      using digits(1,4) [of a] digits(2,5) [of b] by linarith
    then show ?case using len by (simp add: nth_mem)
  next
    case (4 a b c rest)
    then have "a < 256 \<and> b < 256 \<and> c < 256" by simp
    then have "a div 4 < 64 \<and> a mod 4 * 16 + b div 16 < 64 \<and> b mod 16 * 4 + c div 64 < 64 \<and> c mod 64 < 64"
      using digits(1,4) [of a] digits(2,5) [of b] digits(3,6) [of c] by linarith
    then show ?case using 4 len by (simp add: nth_mem)
  qed simp
  then show ?thesis using bytes by blast
qed

lemma trim_base64 [simp]: "trim_space (base64url (bytes_of s)) = base64url (bytes_of s)"
proof (rule trim_space_id)
  have "list_all (\<lambda>c. \<not> is_space c) base64_alphabet" by code_simp
  then show "list_all (\<lambda>c. \<not> is_space c) (base64url (bytes_of s))"
    using base64_chars [of s] by (auto simp: list_all_iff)
qed

lemma base64_empty [simp]: "base64url (bytes_of s) = [] \<longleftrightarrow> s = []"
proof -
  have "base64url bs = [] \<longleftrightarrow> bs = []" for bs by (induction bs rule: base64url.induct) simp_all
  then show ?thesis by (simp add: bytes_of_def)
qed

text \<open>A registered provider is the one its number stands for.\<close>

lemma provider_named: "Lookup p = Some desc \<Longrightarrow> providerName (brokerProvider p) = Some (pr_id desc) \<and> pr_id desc = to_lower (trim_space p)"
  by (auto simp: Lookup_def All_def google_provider_def github_provider_def slack_provider_def bitbucket_provider_def brokerProvider_def
      providerName_def Let_def split: if_splits)


section \<open>The store between the calls\<close>

lemma saved_state:
  "SaveOAuthState r d = (Inr (), d') \<Longrightarrow> find (\<lambda>x. os_id x = os_id r) (sd_states d') = Some (state_row r)"
  by (auto simp: SaveOAuthState_def find_snoc_row state_row_def list_ex_iff find_none_iff split: if_splits option.splits)
    (auto simp: find_Some_iff list_ex_iff)

definition same_authorization :: "string oauth_state \<Rightarrow> string oauth_state \<Rightarrow> bool" where
  "same_authorization x y \<longleftrightarrow> os_session y = os_session x \<and> os_handoff_challenge y = os_handoff_challenge x \<and>
     os_verifier y = os_verifier x \<and> os_provider y = os_provider x"

lemma state_step:
  assumes "store_step d d'" "find (\<lambda>r. os_id r = i) (sd_states d) = Some row"
  shows "\<exists>row'. find (\<lambda>r. os_id r = i) (sd_states d') = Some row' \<and> same_authorization row row'"
  using assms
proof cases
  case (save_state r x)
  then show ?thesis using assms(2) by (auto simp: SaveOAuthState_def find_snoc_row same_authorization_def split: if_splits)
next
  case (consume_state j p now y)
  show ?thesis
  proof (cases y)
    case (Inl e)
    then have "d' = d" using consume_state consume_Inl(1) by blast
    then show ?thesis using assms(2) by (auto simp: same_authorization_def)
  next
    case (Inr r)
    let ?f = "\<lambda>x :: string oauth_state. if os_id x = j \<and> os_used x = None then x\<lparr>os_used := Some (formatTime now)\<rparr> else x"
    have "sd_states d' = map ?f (sd_states d)" using consume_state_Inr(2) consume_state Inr by fastforce
    moreover have "find (\<lambda>r. os_id r = i) (map ?f xs) = map_option ?f (find (\<lambda>r. os_id r = i) xs)" for xs :: "string oauth_state list"
      by (induction xs) auto
    ultimately have "find (\<lambda>r. os_id r = i) (sd_states d') = Some (?f row)" using assms(2) by simp
    then show ?thesis by (auto simp: same_authorization_def)
  qed
next
  case (save_handoff h x)
  then show ?thesis using assms(2) by (auto simp: SaveHandoff_def same_authorization_def split: if_splits)
next
  case (consume_handoff k p session state challenge now z)
  then have "sd_states d' = sd_states d"
    by (cases z) (auto dest: consume_Inl(2) consume_handoff_Inr(2))
  then show ?thesis using assms(2) by (auto simp: same_authorization_def)
qed

lemma state_stays:
  assumes "store_step\<^sup>*\<^sup>* d d'" "find (\<lambda>r. os_id r = i) (sd_states d) = Some row"
  shows "\<exists>row'. find (\<lambda>r. os_id r = i) (sd_states d') = Some row' \<and> same_authorization row row'"
  using assms
proof induction
  case base
  then show ?case by (auto simp: same_authorization_def)
next
  case (step y z)
  then show ?case using state_step [OF step.hyps(2)] by (fastforce simp: same_authorization_def)
qed

text \<open>A start that succeeds stored a new state for the session and the challenge it was given.\<close>

lemma start_Inr:
  assumes "startAuthorization w sv en bucket req s = (Inr start, t)"
  shows "\<exists>p d d' verifier st. providerName (sq_provider req) = Some p \<and> br_store s = Some d \<and> br_store t = Some d' \<and>
    SaveOAuthState st d = (Inr (), d') \<and> os_id st = sp_state start \<and> os_session st = trim_space (sq_session req) \<and>
    os_handoff_challenge st = trim_space (sq_challenge req) \<and> os_verifier st = verifier \<and> randomString en 32 = Some (sp_state start)"
proof -
  obtain p where p: "providerName (sq_provider req) = Some p" using assms by (auto simp: startAuthorization_def op_succeeds split: option.splits)
  obtain u where store: "br_store s \<noteq> None" and u: "(allow en (Key LimitKeyStart bucket) limitStart :: (string, bool) op) s = (Inr True, u)"
    and go: "begin_authorization w sv en p (trim_space (sq_session req)) (trim_space (sq_challenge req)) (trim_space (sq_redirect req))
      (app_version (sq_app req)) (app_platform (sq_app req)) bucket u = (Inr start, t)"
    using assms unfolding startAuthorization_def Let_def
    by (auto simp: p op_succeeds limited_succeeds split: if_splits)
  obtain state verifier where rnd: "randomString en 32 = Some state" "randomString en 64 = Some verifier"
    using go by (auto simp: begin_authorization_def op_succeeds split: option.splits)
  let ?st = "new_state w sv en p state verifier (trim_space (sq_session req)) (trim_space (sq_challenge req)) (trim_space (sq_redirect req))
      (app_version (sq_app req)) (app_platform (sq_app req)) bucket"
  obtain r v where save: "(store_call (SaveOAuthState ?st) :: (string, store_error + unit) op) u = (Inr r, v)"
    and rest: "(case r of Inl _ \<Rightarrow> fail_after IncAuthStartFail StatePersistFailed
        | Inr _ \<Rightarrow> (case authURL w sv p state (os_challenge ?st) of None \<Rightarrow> fail_after IncAuthStartFail AuthURLFailed
            | Some x \<Rightarrow> op_then IncAuthStart (op_ret \<lparr>sp_auth_url = x, sp_state = state, sp_expires = os_expires ?st\<rparr>))) v = (Inr start, t)"
    using go rnd by (simp add: begin_authorization_def Let_def op_succeeds) blast
  have "r = Inr ()" "sp_state start = state" "(IncAuthStart :: (string, unit) op) v = (Inr (), t)"
    using rest by (auto simp: op_succeeds split: sum.splits option.splits)
  moreover have "br_store t = br_store v" using calculation(3) counting_keeps(1) unfolding IncAuthStart_def by blast
  ultimately show ?thesis
    using p rnd save store counting_keeps(2) [OF u] by (auto simp: store_call_succeeds new_state_def intro!: exI [of _ ?st])
qed

end
