(* ===== verification/Desktop_Properties.thy ===== *)
theory Desktop_Properties
  imports Desktop_Laws Broker_Properties
begin

text \<open>
  Properties of both halves of an authorization together: the desktop program against the broker of
  Broker_Operations.
\<close>


section \<open>The desktop against the broker\<close>

text \<open>errors.go, connect.go: a failing operation as its client sees it, and the answers on the wire.\<close>

definition wire_error :: "string \<Rightarrow> rpc_error" where
  "wire_error code = ConnectError (Some (connectCode code)) [Some code] code"

definition wire_token :: "token_material \<Rightarrow> token_answer" where
  "wire_token t = \<lparr>ta_access = tm_access t, ta_refresh = tm_refresh t, ta_type = tm_type t, ta_expiry = Some (tm_expiry t)\<rparr>"

definition wire_handoff :: "handoff_response \<Rightarrow> handed_tokens" where
  "wire_handoff r = \<lparr>hn_provider = hp_provider r, hn_scopes = hp_scopes r, hn_token = Some (wire_token (hp_token r))\<rparr>"

definition wired :: "('a \<Rightarrow> 'b) \<Rightarrow> (string, 'a) op \<Rightarrow> broker \<Rightarrow> (rpc_error + 'b) \<times> broker" where
  "wired f m = (\<lambda>s. case m s of (Inl c, t) \<Rightarrow> (Inl (wire_error c), t) | (Inr x, t) \<Rightarrow> (Inr (f x), t))"

text \<open>Surroundings whose broker is the model: environments of the calls, and the bucket of the desktop's address.\<close>

definition at_broker :: "world \<Rightarrow> server \<Rightarrow> (string \<Rightarrow> env) \<Rightarrow> string \<Rightarrow> broker surroundings \<Rightarrow> broker surroundings" where
  "at_broker w sv en bucket sr = sr\<lparr>
     sr_start := (\<lambda>_ req. wired (\<lambda>x. x) (startAuthorization w sv (en ''start'') bucket req)),
     sr_exchange := (\<lambda>_ req. wired wire_handoff (exchangeHandoff w sv (en ''handoff'') bucket req)),
     sr_refresh := (\<lambda>_ req. wired (\<lambda>t. Some (wire_token t)) (refreshToken w sv (en ''refresh'') bucket req)),
     sr_revoke := (\<lambda>_ req. wired (\<lambda>_. True) (revokeToken w sv (en ''revoke'') bucket req))\<rparr>"

lemma at_broker_simps [simp]:
  "sr_port (at_broker w sv en bucket sr) = sr_port sr" "sr_rand (at_broker w sv en bucket sr) = sr_rand sr"
  "sr_sha256 (at_broker w sv en bucket sr) = sr_sha256 sr" "sr_parse (at_broker w sv en bucket sr) = sr_parse sr"
  "sr_before (at_broker w sv en bucket sr) = sr_before sr" "sr_visit (at_broker w sv en bucket sr) = sr_visit sr"
  "sr_error_first (at_broker w sv en bucket sr) = sr_error_first sr" "sr_platform (at_broker w sv en bucket sr) = sr_platform sr"
  "randomBrokerString (at_broker w sv en bucket sr) n = randomBrokerString sr n"
  "brokerPKCES256 (at_broker w sv en bucket sr) v = brokerPKCES256 sr v"
  "sr_start (at_broker w sv en bucket sr) = (\<lambda>_ req. wired (\<lambda>x. x) (startAuthorization w sv (en ''start'') bucket req))"
  "sr_exchange (at_broker w sv en bucket sr) = (\<lambda>_ req. wired wire_handoff (exchangeHandoff w sv (en ''handoff'') bucket req))"
  by (simp_all add: at_broker_def randomBrokerString_def brokerPKCES256_def)

text \<open>What a successful authorization did.\<close>

lemma act_bind_gives: "act_bind m k s = (Inr y, t) \<longleftrightarrow> (\<exists>x u. m s = (Inr x, u) \<and> k x u = (Inr y, t))"
  by (auto simp: act_bind_def split: prod.splits sum.splits)

lemma rpc_Inr: "rpc f m s = (Inr x, t) \<longleftrightarrow> m s = (Inr x, t)"
  by (auto simp: rpc_def split: prod.splits sum.splits)

lemma wired_Inr: "wired f m s = (Inr y, t) \<longleftrightarrow> (\<exists>x. m s = (Inr x, t) \<and> y = f x)"
  by (auto simp: wired_def split: prod.splits sum.splits)

text \<open>The request that opens an authorization, and the one that the browser brings back.\<close>

definition start_of :: "'s surroundings \<Rightarrow> broker_flow \<Rightarrow> string \<Rightarrow> secret \<Rightarrow> secret \<Rightarrow> start_request" where
  "start_of sr f port session verifier = \<lparr>sq_provider = brokerProvider (bf_provider f), sq_session = session,
     sq_challenge = brokerPKCES256 sr verifier, sq_redirect = ''http://127.0.0.1:'' @ port @ brokerHandoffPath, sq_app = metadata sr f\<rparr>"

definition brought_back :: "secret \<Rightarrow> secret \<Rightarrow> loopback_request" where
  "brought_back state code = \<lparr>lr_path = brokerHandoffPath, lr_query = [(''broker_state'', state), (''handoff_code'', code)]\<rparr>"

text \<open>What the waiting program is told comes from a request that reached the listener.\<close>

lemma told_Inr:
  assumes "select_handed late first soon later = Inr c"
  shows "Handed (fst c) (snd c) \<in> set (soon @ later)"
proof -
  have await: "await late hs = Inr c \<Longrightarrow> Handed (fst c) (snd c) \<in> set hs" for hs
    by (induction late hs rule: await.induct) auto
  have pairs: "List.map_filter handed_pair hs = c # cs \<Longrightarrow> Handed (fst c) (snd c) \<in> set hs" for hs cs
  proof (induction hs)
    case (Cons h hs)
    then show ?case by (cases h) (auto simp: List.map_filter_simps)
  qed (simp add: List.map_filter_simps)
  show ?thesis
    using assms await [of later] pairs [of soon] by (auto simp: select_handed_def split: list.splits if_splits)
qed

lemma handed_request:
  assumes "Handed state code = snd (handle_handoff want r)"
  shows "lr_path r = ''/oauth/handoff'' \<and> state = trim_space (form_get ''broker_state'' (lr_query r)) \<and>
    code = trim_space (form_get ''handoff_code'' (lr_query r)) \<and> (want \<noteq> '''' \<longrightarrow> state = want)"
  using assms by (auto simp: handle_handoff_def Let_def split: if_splits)

text \<open>The requests that reach the listener of a run, with the state each has to show.\<close>

definition reached :: "'s surroundings \<Rightarrow> start_response \<Rightarrow> loopback_request list \<Rightarrow> loopback_request list \<Rightarrow> (string \<times> loopback_request) set" where
  "reached sr start soon later = (\<lambda>r. ('''', r)) ` set (sr_before sr) \<union> (\<lambda>r. (sp_state start, r)) ` set (soon @ later)"

lemma authorize_Inr:
  assumes "BrokerFlow_Authorize sr f s = (Inr r, t)"
  shows "\<exists>desc base port session verifier start s1 soon later u want q cb. Lookup (trim_space (bf_provider f)) = Some desc \<and>
    sr_port sr = Some port \<and> randomBrokerString sr 32 = Some session \<and> randomBrokerString sr 64 = Some verifier \<and>
    sr_start sr base (start_of sr f port session verifier) s = (Inr start, s1) \<and> sp_state start \<noteq> [] \<and>
    sr_visit sr (sp_auth_url start) s1 = (Some (soon, later), u) \<and>
    (want, q) \<in> reached sr start soon later \<and> Handed (fst cb) (snd cb) = snd (handle_handoff want q) \<and>
    flow_result sr f desc base session verifier cb u = (Inr r, t)"
proof -
  obtain desc base port session verifier where known: "Lookup (trim_space (bf_provider f)) = Some desc"
      "sr_port sr = Some port" "randomBrokerString sr 32 = Some session" "randomBrokerString sr 64 = Some verifier"
    and run: "act_bind (startAuth sr f base session (brokerPKCES256 sr verifier) (''http://127.0.0.1:'' @ port @ ''/oauth/handoff'')) (\<lambda>start.
              if \<not> ValidateAuthorizationURL (sr_parse sr) desc (sp_auth_url start) then act_throw ErrBrokerRejected
              else act_bind (visited ErrBrokerUnavailable sr (sp_auth_url start)) (\<lambda>(soon, later).
                act_bind (act_lift (select_handed ErrBrokerUnavailable (sr_error_first sr)
                    (map (\<lambda>r. snd (handle_handoff '''' r)) (sr_before sr) @ map (\<lambda>r. snd (handle_handoff (sp_state start) r)) soon)
                    (map (\<lambda>r. snd (handle_handoff (sp_state start) r)) later))) (\<lambda>cb.
                  flow_result sr f desc base session verifier cb))) s = (Inr r, t)"
    using assms by (auto simp: BrokerFlow_Authorize_def Let_def act_throw_def split: if_splits option.splits)
  obtain start s1 soon later u cb where start: "startAuth sr f base session (brokerPKCES256 sr verifier) (''http://127.0.0.1:'' @ port @ ''/oauth/handoff'') s = (Inr start, s1)"
    and visit: "visited ErrBrokerUnavailable sr (sp_auth_url start) s1 = (Inr (soon, later), u)"
    and told: "select_handed ErrBrokerUnavailable (sr_error_first sr)
        (map (\<lambda>r. snd (handle_handoff '''' r)) (sr_before sr) @ map (\<lambda>r. snd (handle_handoff (sp_state start) r)) soon)
        (map (\<lambda>r. snd (handle_handoff (sp_state start) r)) later) = Inr cb"
    and result: "flow_result sr f desc base session verifier cb u = (Inr r, t)"
    using run by (auto simp: act_bind_gives act_throw_def act_lift_def split: if_splits sum.splits)
  have "sr_start sr base (start_of sr f port session verifier) s = (Inr start, s1) \<and> sp_state start \<noteq> []"
    using start by (auto simp: startAuth_def start_of_def act_bind_gives rpc_Inr act_throw_def act_ret_def split: if_splits)
  moreover have "sr_visit sr (sp_auth_url start) s1 = (Some (soon, later), u)"
    using visit by (auto simp: visited_def split: prod.splits option.splits)
  moreover have "\<exists>want q. (want, q) \<in> reached sr start soon later \<and> Handed (fst cb) (snd cb) = snd (handle_handoff want q)"
    using told_Inr [OF told] unfolding reached_def by auto
  ultimately show ?thesis using known result by blast
qed

lemma flow_result_Inr:
  assumes "flow_result sr f desc base session verifier cb s = (Inr r, t)"
  shows "\<exists>x tok. sr_exchange sr base \<lparr>xq_provider = brokerProvider (bf_provider f), xq_session = session, xq_state = fst cb,
      xq_code = snd cb, xq_verifier = verifier, xq_app = metadata sr f\<rparr> s = (Inr x, t) \<and> hn_token x = Some tok \<and>
    au_token r = \<lparr>tk_access = ta_access tok, tk_type = ta_type tok, tk_refresh = ta_refresh tok, tk_expiry = timestampTime (ta_expiry tok), tk_source = []\<rparr>"
  using assms
  by (auto simp: flow_result_def exchange_handoff_def act_bind_gives rpc_Inr act_throw_def act_ret_def split: option.splits if_splits)

lemma find_map_same: "(\<And>x. P (g x) = P x) \<Longrightarrow> find P (map g xs) = map_option g (find P xs)"
  by (induction xs) auto

text \<open>
  C5. Tokens are bound to the run that asked for them. Whatever the browser does with the address
  that the broker gave this run, whatever other programs send to the loopback listener and whoever
  else uses the broker meanwhile: when an authorization succeeds, one of the requests that reached
  the listener carried a code whose handoff was in the broker's store at that moment, unredeemed and
  unexpired, made by this provider for the session of this run and for the challenge of its secret
  verifier; if the request came after the broker's answer, the handoff has the state of that answer.
  The tokens are exactly what the sealed payload of this handoff opens to under its state, this
  session and this challenge, and at the end the handoff is marked as redeemed and its payload gone.
  A code that was made for another run is of no use.
\<close>

theorem tokens_bound_to_the_run:
  assumes "sr_sha256 sr = wd_sha256 w" "BrokerFlow_Authorize (at_broker w sv en bucket sr) f s = (Inr r, t)"
  shows "\<exists>session verifier port desc start s1 soon later u want q d d' row row' (tok :: token_payload).
    randomBrokerString sr 32 = Some session \<and> randomBrokerString sr 64 = Some verifier \<and> sr_port sr = Some port \<and> Lookup (bf_provider f) = Some desc \<and>
    startAuthorization w sv (en ''start'') bucket (start_of sr f port session verifier) s = (Inr start, s1) \<and>
    sr_visit sr (sp_auth_url start) s1 = (Some (soon, later), u) \<and>
    (want, q) \<in> reached sr start soon later \<and> lr_path q = ''/oauth/handoff'' \<and>
    br_store u = Some d \<and> br_store t = Some d' \<and>
    (let h = hashHandoffCode w (trim_space (form_get ''handoff_code'' (lr_query q))) in
      find (\<lambda>x. ho_hash x = h) (sd_handoffs d) = Some row \<and> find (\<lambda>x. ho_hash x = h) (sd_handoffs d') = Some row') \<and>
    ho_used row = None \<and> en_now (en ''handoff'') < readTime (ho_expires row) \<and> ho_used row' \<noteq> None \<and> ho_payload row' = '''' \<and>
    providerOrGoogle (ho_provider row) = providerOrGoogle (pr_id desc) \<and>
    ho_session row = session \<and> ho_challenge row = pkceS256 w verifier \<and>
    ho_state row = trim_space (form_get ''broker_state'' (lr_query q)) \<and> (want \<noteq> '''' \<longrightarrow> ho_state row = sp_state start) \<and>
    decryptTokenPayload w (providerClientSecret sv (pr_id desc)) (handoffAAD (ho_state row) session (pkceS256 w verifier)) (ho_payload row) = Some tok \<and>
    au_token r = \<lparr>tk_access = Broker_Service.tk_access tok, tk_type = bearer_type (Broker_Service.tk_type tok),
      tk_refresh = Broker_Service.tk_refresh tok, tk_expiry = Broker_Service.tk_expiry tok, tk_source = []\<rparr>"
proof -
  let ?sr = "at_broker w sv en bucket sr"
  obtain desc base port session verifier start s1 soon later u want q cb where run: "Lookup (trim_space (bf_provider f)) = Some desc"
      "sr_port sr = Some port" "randomBrokerString sr 32 = Some session" "randomBrokerString sr 64 = Some verifier"
      "sr_start ?sr base (start_of ?sr f port session verifier) s = (Inr start, s1)"
      "sr_visit sr (sp_auth_url start) s1 = (Some (soon, later), u)"
      "(want, q) \<in> reached ?sr start soon later" "Handed (fst cb) (snd cb) = snd (handle_handoff want q)"
      "flow_result ?sr f desc base session verifier cb u = (Inr r, t)"
    using authorize_Inr [OF assms(2)] by (simp only: at_broker_simps) blast
  have same: "start_of ?sr f port session verifier = start_of sr f port session verifier" "reached ?sr start soon later = reached sr start soon later"
    by (simp_all add: start_of_def reached_def metadata_def)
  have started: "startAuthorization w sv (en ''start'') bucket (start_of sr f port session verifier) s = (Inr start, s1)"
    using run(5) unfolding same by (simp add: wired_Inr)
  note q = handed_request [OF run(8)]
  have want: "want \<noteq> '''' \<longrightarrow> want = sp_state start" using run(7) by (auto simp: reached_def)
  let ?h = "hashHandoffCode w (snd cb)"
  let ?req = "\<lparr>xq_provider = brokerProvider (bf_provider f), xq_session = session, xq_state = fst cb,
      xq_code = snd cb, xq_verifier = verifier, xq_app = metadata ?sr f\<rparr>"
  obtain x where x: "exchangeHandoff w sv (en ''handoff'') bucket ?req u = (Inr x, t)"
      "au_token r = \<lparr>tk_access = tm_access (hp_token x), tk_type = tm_type (hp_token x), tk_refresh = tm_refresh (hp_token x),
        tk_expiry = tm_expiry (hp_token x), tk_source = []\<rparr>"
    using flow_result_Inr [OF run(9)] by (auto simp: wired_Inr wire_handoff_def wire_token_def timestampTime_def)
  have known: "Lookup (bf_provider f) = Some desc" using run(1) by (simp add: Lookup_def)
  have trimmed: "trim_space session = session" "trim_space verifier = verifier" "trim_space (fst cb) = fst cb" "trim_space (snd cb) = snd cb"
    using run(3,4) q by (auto simp: randomBrokerString_def)
  obtain d d' rec tok where d: "br_store u = Some d" "br_store t = Some d'" and
      take: "ConsumeHandoff ?h (pr_id desc) session (fst cb) (pkceS256 w verifier) (en_now (en ''handoff'')) d = (Inr rec, d')" and
      opened: "opened_handoff w sv (pr_id desc) rec = Some tok" "hp_token x = tok"
    using exchange_Inr [OF x(1)] provider_named [OF known] trimmed by auto
  obtain row where row: "find (\<lambda>r. ho_hash r = ?h) (sd_handoffs d) = Some row" "ho_used row = None"
      "en_now (en ''handoff'') < readTime (ho_expires row)" "providerOrGoogle (ho_provider row) = providerOrGoogle (pr_id desc)"
      "ho_session row = session" "ho_challenge row = pkceS256 w verifier" "ho_state row = fst cb" "ho_state rec = fst cb" "ho_session rec = session"
      "ho_challenge rec = pkceS256 w verifier" "ho_payload rec = ho_payload row"
    using consume_handoff_Inr(1) [OF take] by auto
  have gone: "find (\<lambda>x. ho_hash x = ?h) (sd_handoffs d') = Some (row\<lparr>ho_used := Some (formatTime (en_now (en ''handoff''))), ho_payload := ''''\<rparr>)"
    unfolding consume_handoff_Inr(2) [OF take] using row(1,2) by (auto simp: find_map_same find_Some_iff)
  obtain k where k: "decryptTokenPayload w (providerClientSecret sv (pr_id desc)) (handoffAAD (ho_state row) session (pkceS256 w verifier))
      (ho_payload row) = Some k" "tok = \<lparr>tm_access = Broker_Service.tk_access k, tm_refresh = Broker_Service.tk_refresh k,
        tm_type = bearer_type (Broker_Service.tk_type k), tm_expiry = Broker_Service.tk_expiry k\<rparr>"
    using opened(1) row by (auto simp: opened_handoff_def)
  have tokens: "au_token r = \<lparr>tk_access = Broker_Service.tk_access k, tk_type = bearer_type (Broker_Service.tk_type k),
      tk_refresh = Broker_Service.tk_refresh k, tk_expiry = Broker_Service.tk_expiry k, tk_source = []\<rparr>"
    using x(2) opened(2) k(2) by simp
  let ?code = "trim_space (form_get ''handoff_code'' (lr_query q))"
  let ?spent = "row\<lparr>ho_used := Some (formatTime (en_now (en ''handoff''))), ho_payload := ''''\<rparr>"
  have code: "?code = snd cb" using q by simp
  have found: "find (\<lambda>x. ho_hash x = hashHandoffCode w ?code) (sd_handoffs d) = Some row"
    "find (\<lambda>x. ho_hash x = hashHandoffCode w ?code) (sd_handoffs d') = Some ?spent"
    unfolding code by (rule row(1), rule gone)
  have spent: "ho_used ?spent \<noteq> None" "ho_payload ?spent = ''''" by simp_all
  have state: "ho_state row = trim_space (form_get ''broker_state'' (lr_query q))" "want \<noteq> '''' \<longrightarrow> ho_state row = sp_state start"
    using row(7) q want by auto
  have reach: "(want, q) \<in> reached sr start soon later" "lr_path q = ''/oauth/handoff''" using run(7) q unfolding same by auto
  show ?thesis
    unfolding Let_def
    by (intro exI [of _ session] exI [of _ verifier] exI [of _ port] exI [of _ desc] exI [of _ start] exI [of _ s1] exI [of _ soon]
        exI [of _ later] exI [of _ u] exI [of _ want] exI [of _ q] exI [of _ d] exI [of _ d'] exI [of _ row] exI [of _ ?spent] exI [of _ k]
        conjI run(2-4,6) known started reach d found row(2-6) spent state k(1) tokens)
qed

lemma brought_back_handed:
  assumes "trim_space state = state" "state \<noteq> []" "trim_space code = code" "code \<noteq> []"
  shows "snd (handle_handoff state (brought_back state code)) = Handed state code"
  using assms by (simp add: handle_handoff_def brought_back_def form_get_def)

text \<open>How an undisturbed authorization runs.\<close>

lemma authorize_runs:
  assumes known: "Lookup (bf_provider f) = Some desc" "trim_right (CHR ''/'') (trim_space (bf_base f)) \<noteq> []"
    and here: "sr_port sr = Some port" "randomBrokerString sr 32 = Some session" "randomBrokerString sr 64 = Some verifier" "sr_before sr = []"
    and start: "startAuthorization w sv (en ''start'') bucket (start_of sr f port session verifier) s = (Inr start, s1)"
      "sp_auth_url start \<noteq> []" "ValidateAuthorizationURL (sr_parse sr) desc (sp_auth_url start)"
    and state: "trim_space (sp_state start) = sp_state start" "sp_state start \<noteq> []" "trim_space code = code" "code \<noteq> []"
    and browser: "sr_visit sr (sp_auth_url start) s1 = (Some ([], [brought_back (sp_state start) code]), s2)"
  shows "BrokerFlow_Authorize (at_broker w sv en bucket sr) f s =
    flow_result (at_broker w sv en bucket sr) f desc (trim_right (CHR ''/'') (trim_space (bf_base f))) session verifier (sp_state start, code) s2"
proof -
  have "trim_space (bf_provider f) \<noteq> []" "Lookup (trim_space (bf_provider f)) = Some desc"
    using known(1) by (auto simp: Lookup_def All_def google_provider_def github_provider_def slack_provider_def bitbucket_provider_def to_lower_def)
  moreover have "metadata (at_broker w sv en bucket sr) f = metadata sr f" by (simp add: metadata_def)
  ultimately show ?thesis
    using assms(2) here start(2,3) state(2) browser brought_back_handed [OF state] start(1) [unfolded start_of_def]
    by (simp add: BrokerFlow_Authorize_def Let_def startAuth_def act_bind_def rpc_def wired_def visited_def select_handed_def act_lift_def act_ret_def
        List.map_filter_def)
qed

lemma trim_random: "randomString e n = Some x \<Longrightarrow> trim_space x = x"
  by (auto simp: randomString_def)

text \<open>From the request that opens an authorization to its tokens.\<close>

lemma end_to_end:
  assumes known: "Lookup (bf_provider f) = Some desc" "trim_right (CHR ''/'') (trim_space (bf_base f)) \<noteq> []"
    and here: "sr_port sr = Some port" "randomBrokerString sr 32 = Some session" "randomBrokerString sr 64 = Some verifier"
      "session \<noteq> []" "verifier \<noteq> []" "sr_before sr = []" "sr_sha256 sr = wd_sha256 w"
    and start: "startAuthorization w sv (en ''start'') bucket (start_of sr f port session verifier) s = (Inr start, s1)"
      "sp_auth_url start \<noteq> []" "sp_state start \<noteq> []" "ValidateAuthorizationURL (sr_parse sr) desc (sp_auth_url start)"
    and callback: "(broker_step w sv)\<^sup>*\<^sup>* s1 s2" "oauthCallback w sv en' (pr_id desc) bucket' q s2 = (Inr link, s3)" "trim_space (cq_state q) = sp_state start"
    and browser: "(broker_step w sv)\<^sup>*\<^sup>* s3 s4" "randomString en' 32 = Some code" "code \<noteq> []"
      "sr_visit sr (sp_auth_url start) s1 = (Some ([], [brought_back (sp_state start) code]), s4)"
    and exchange: "br_store s4 = Some d4" "\<not> handoff_spent (hashHandoffCode w code) d4" "en_now (en ''handoff'') < en_now en' + bc_handoff_ttl (sv_config sv)"
      "fst ((allow (en ''handoff'') (Key LimitKeyHandoff bucket) limitHandoff :: (string, bool) op) s4) = Inr True"
    and world: "br_store s2 = Some d2" "store_wf d2" "opens_what_it_seals w" "\<forall>n x. en_rand en' n = Some x \<longrightarrow> length x = n"
      "printable (en_now en' + bc_handoff_ttl (sv_config sv))" "\<not> bc_auth_disabled (sv_config sv)"
      "\<And>v tok. exchangeProviderCode w sv (en_now en') (pr_id desc) (trim_space (cq_code q)) v = Inr tok \<Longrightarrow> trim_space (tr_access tok) \<noteq> []"
  shows "\<exists>v tok r. exchangeProviderCode w sv (en_now en') (pr_id desc) (trim_space (cq_code q)) v = Inr tok \<and>
    fst (BrokerFlow_Authorize (at_broker w sv en bucket sr) f s) = Inr r \<and>
    au_token r = \<lparr>tk_access = tr_access tok, tk_type = bearer_type (tr_type tok), tk_refresh = tr_refresh tok,
      tk_expiry = tokenExpiry (en_now en') (tr_expires_in tok), tk_source = []\<rparr>"
proof -
  have trimmed: "trim_space session = session" "trim_space verifier = verifier" "trim_space code = code"
      "trim_space (brokerPKCES256 sr verifier) = brokerPKCES256 sr verifier" "pkceS256 w verifier = brokerPKCES256 sr verifier"
    using here browser(2) by (auto simp: randomBrokerString_def brokerPKCES256_def pkceS256_def randomString_def)
  obtain p d d1 v0 st where opened: "br_store s1 = Some d1" "SaveOAuthState st d = (Inr (), d1)" "os_id st = sp_state start"
      "os_session st = session" "os_handoff_challenge st = brokerPKCES256 sr verifier" "randomString (en ''start'') 32 = Some (sp_state start)"
    using start_Inr [OF start(1)] trimmed by (auto simp: start_of_def)
  have state: "trim_space (sp_state start) = sp_state start" using opened(6) by (rule trim_random)
  have "store_step\<^sup>*\<^sup>* d1 d2" using broker_steps_ext [OF callback(1)] opened(1) world(1) by (simp add: store_ext_def)
  then obtain row where row: "find (\<lambda>r. os_id r = sp_state start) (sd_states d2) = Some row" "same_authorization (state_row st) row"
    using state_stays [OF _ saved_state [OF opened(2)]] opened(3) by auto
  obtain st' d3 tok code' where taken: "ConsumeOAuthState (sp_state start) (pr_id desc) (en_now en') d2 = (Inr st', d3)"
      "exchangeProviderCode w sv (en_now en') (pr_id desc) (trim_space (cq_code q)) (os_verifier st') = Inr tok" "randomString en' 32 = Some code'"
    and redeem: "\<And>u en'' bucket'' req du. (broker_step w sv)\<^sup>*\<^sup>* s3 u \<Longrightarrow> br_store u = Some du \<Longrightarrow> \<not> handoff_spent (hashHandoffCode w code') du \<Longrightarrow>
        may_redeem w (pr_id desc) st' code' (en_now en' + bc_handoff_ttl (sv_config sv)) en'' bucket'' req u \<Longrightarrow>
        \<exists>resp. fst (exchangeHandoff w sv en'' bucket'' req u) = Inr resp \<and>
          hp_token resp = \<lparr>tm_access = tr_access tok, tm_refresh = tr_refresh tok, tm_type = bearer_type (tr_type tok),
            tm_expiry = tokenExpiry (en_now en') (tr_expires_in tok)\<rparr>"
    using redeems_what_was_stored [OF callback(2) world(1-6)] callback(3) by metis
  have "code' = code" using taken(3) browser(2) by simp
  have st': "os_id st' = sp_state start" "os_session st' = session" "os_handoff_challenge st' = brokerPKCES256 sr verifier"
    using consume_state_Inr(1) [OF taken(1)] row opened(3-5) by (auto simp: same_authorization_def state_row_def)
  let ?req = "\<lparr>xq_provider = brokerProvider (bf_provider f), xq_session = session, xq_state = sp_state start, xq_code = code, xq_verifier = verifier,
      xq_app = metadata (at_broker w sv en bucket sr) f\<rparr>"
  have "may_redeem w (pr_id desc) st' code (en_now en' + bc_handoff_ttl (sv_config sv)) (en ''handoff'') bucket ?req s4"
    using provider_named [OF known(1)] st' trimmed state start(3) here(4,5) browser(3) exchange(3,4) by (simp add: may_redeem_def)
  then obtain resp where resp: "fst (exchangeHandoff w sv (en ''handoff'') bucket ?req s4) = Inr resp"
      "hp_token resp = \<lparr>tm_access = tr_access tok, tm_refresh = tr_refresh tok, tm_type = bearer_type (tr_type tok),
        tm_expiry = tokenExpiry (en_now en') (tr_expires_in tok)\<rparr>"
    using redeem [OF browser(1) exchange(1)] exchange(2) unfolding \<open>code' = code\<close> by blast
  then obtain s5 where s5: "exchangeHandoff w sv (en ''handoff'') bucket ?req s4 = (Inr resp, s5)" by (metis prod.collapse)
  then have "hp_provider resp = brokerProvider (bf_provider f)" using exchange_Inr by fastforce
  moreover have "brokerProvider (trim_space (bf_provider f)) = brokerProvider (bf_provider f)" by (simp add: brokerProvider_def)
  moreover have "trim_space (tr_access tok) \<noteq> []" using world(7) taken(2) by blast
  ultimately have "\<exists>r. flow_result (at_broker w sv en bucket sr) f desc (trim_right (CHR ''/'') (trim_space (bf_base f))) session verifier (sp_state start, code) s4 = (Inr r, s5) \<and>
      au_token r = \<lparr>tk_access = tr_access tok, tk_type = bearer_type (tr_type tok), tk_refresh = tr_refresh tok,
        tk_expiry = tokenExpiry (en_now en') (tr_expires_in tok), tk_source = []\<rparr>"
    using s5 resp(2) by (simp add: flow_result_def exchange_handoff_def act_bind_def rpc_def wired_def wire_handoff_def wire_token_def act_ret_def timestampTime_def)
  then show ?thesis
    using taken(2) authorize_runs [where en = en, OF known here(1-3,6) start(1,2,4) state start(3) trimmed(3) browser(3,4)] by (metis fst_conv)
qed

text \<open>
  C22. An authorization end to end. The desktop program opens an authorization at the broker, sends
  the browser to the provider, and waits; the provider calls the broker back with the state of the
  answer, and the browser brings the new handoff code to the loopback listener; meanwhile and
  afterwards others use the broker as they like. If nobody else redeems the code and it is redeemed
  in time and within the limit, the program ends up with exactly the tokens that the provider gave
  for the code of the callback.
\<close>

theorem authorization_end_to_end:
  assumes known: "Lookup (bf_provider f) = Some desc" "trim_right (CHR ''/'') (trim_space (bf_base f)) \<noteq> []"
    and here: "sr_port sr = Some port" "randomBrokerString sr 32 = Some session" "randomBrokerString sr 64 = Some verifier"
      "session \<noteq> []" "verifier \<noteq> []" "sr_before sr = []" "sr_sha256 sr = wd_sha256 w"
    and start: "startAuthorization w sv (en ''start'') bucket (start_of sr f port session verifier) s = (Inr start, s1)"
      "sp_auth_url start \<noteq> []" "sp_state start \<noteq> []" "ValidateAuthorizationURL (sr_parse sr) desc (sp_auth_url start)"
    and callback: "(broker_step w sv)\<^sup>*\<^sup>* s1 s2" "oauthCallback w sv en' (pr_id desc) bucket' q s2 = (Inr link, s3)" "trim_space (cq_state q) = sp_state start"
    and browser: "(broker_step w sv)\<^sup>*\<^sup>* s3 s4" "randomString en' 32 = Some code" "code \<noteq> []"
      "sr_visit sr (sp_auth_url start) s1 = (Some ([], [brought_back (sp_state start) code]), s4)"
    and exchange: "br_store s4 = Some d4" "\<not> handoff_spent (hashHandoffCode w code) d4" "en_now (en ''handoff'') < en_now en' + bc_handoff_ttl (sv_config sv)"
      "fst ((allow (en ''handoff'') (Key LimitKeyHandoff bucket) limitHandoff :: (string, bool) op) s4) = Inr True"
    and world: "br_store s2 = Some d2" "store_wf d2" "opens_what_it_seals w" "\<forall>n x. en_rand en' n = Some x \<longrightarrow> length x = n"
      "printable (en_now en' + bc_handoff_ttl (sv_config sv))" "\<not> bc_auth_disabled (sv_config sv)"
      "\<And>v tok. exchangeProviderCode w sv (en_now en') (pr_id desc) (trim_space (cq_code q)) v = Inr tok \<Longrightarrow> trim_space (tr_access tok) \<noteq> []"
  shows "\<exists>v tok r. exchangeProviderCode w sv (en_now en') (pr_id desc) (trim_space (cq_code q)) v = Inr tok \<and>
    fst (BrokerFlow_Authorize (at_broker w sv en bucket sr) f s) = Inr r \<and>
    au_token r = \<lparr>tk_access = tr_access tok, tk_type = bearer_type (tr_type tok), tk_refresh = tr_refresh tok,
      tk_expiry = tokenExpiry (en_now en') (tr_expires_in tok), tk_source = []\<rparr>"
  by (rule end_to_end [OF assms])

text \<open>A run of the desktop program: an empty store, and a browser that follows the links at once.\<close>

definition run_world :: world where
  "run_world = sample_world\<lparr>wd_parse := (\<lambda>raw. Some (if take 7 raw = ''http://''
     then \<lparr>ul_scheme = ''http'', ul_user = False, ul_host = ''127.0.0.1:7'', ul_hostname = ''127.0.0.1'', ul_path = ''/oauth/handoff'', ul_query = '''', ul_fragment = ''''\<rparr>
     else sample_url))\<rparr>"

definition run_verifier :: string where
  "run_verifier = base64url (bytes_of (replicate 64 (CHR ''r'')))"

definition run_broker :: broker where
  "run_broker = \<lparr>br_store = Some \<lparr>sd_states = [], sd_handoffs = [], sd_foreign_keys = True\<rparr>, br_limiter = None, br_metrics = None\<rparr>"

definition run_state :: "instant oauth_state" where
  "run_state = \<lparr>os_id = sample_code, os_provider = ProviderGitHub, os_session = sample_code, os_verifier = run_verifier,
     os_challenge = pkceS256 run_world run_verifier, os_handoff_challenge = pkceS256 run_world run_verifier,
     os_redirect = ''http://127.0.0.1:7/oauth/handoff'', os_scopes = [''repo''], os_version = ''dev'', os_platform = ''p'',
     os_bucket = '''', os_expires = at_minute 5, os_used = None\<rparr>"

definition run_store :: broker_db where
  "run_store = \<lparr>sd_states = [state_row run_state], sd_handoffs = [], sd_foreign_keys = True\<rparr>"

definition run_opened :: broker where
  "run_opened = \<lparr>br_store = Some run_store, br_limiter = None, br_metrics = None\<rparr>"

definition run_query :: callback_query where
  "run_query = \<lparr>cq_error = '''', cq_description = '''', cq_code = ''co'', cq_state = sample_code\<rparr>"

definition run_envs :: "string \<Rightarrow> env" where
  "run_envs call = sample_env (if call = ''handoff'' then 1 else 0)"

definition run_flow :: broker_flow where
  "run_flow = \<lparr>bf_provider = ''github'', bf_base = ''https://b'', bf_scopes = [], bf_version = '''', bf_platform = ''''\<rparr>"

definition run_start :: start_response where
  "run_start = \<lparr>sp_auth_url = sample_code, sp_state = sample_code, sp_expires = at_minute 5\<rparr>"

definition run_surroundings :: "broker surroundings" where
  "run_surroundings = \<lparr>sr_port = Some ''7'', sr_rand = (\<lambda>n. Some (replicate n (CHR ''r''))), sr_sha256 = wd_sha256 run_world,
     sr_parse = (\<lambda>_. Some \<lparr>ul_scheme = ''https'', ul_user = False, ul_host = ''github.com'', ul_hostname = ''github.com'',
       ul_path = ''/login/oauth/authorize'', ul_query = '''', ul_fragment = ''''\<rparr>),
     sr_platform = ''p'', sr_start = (\<lambda>_ _ s. (Inl NoConnectError, s)), sr_exchange = (\<lambda>_ _ s. (Inl NoConnectError, s)),
     sr_refresh = (\<lambda>_ _ s. (Inl NoConnectError, s)), sr_revoke = (\<lambda>_ _ s. (Inl NoConnectError, s)), sr_before = [],
     sr_visit = (\<lambda>_ s. (Some ([], [brought_back sample_code sample_code]),
       snd (oauthCallback run_world sample_server (sample_env 0) ''github'' '''' run_query s))), sr_error_first = True\<rparr>"

lemma run_opening: "start_of run_surroundings run_flow ''7'' sample_code run_verifier = \<lparr>sq_provider = GitHub, sq_session = sample_code,
    sq_challenge = pkceS256 run_world run_verifier, sq_redirect = ''http://127.0.0.1:7/oauth/handoff'', sq_app = Some (''dev'', ''p'')\<rparr>"
proof -
  have "brokerProvider ''github'' = GitHub" "appVersion '''' = ''dev''" "platform ''p'' '''' = ''p''" by code_simp+
  then show ?thesis by (simp add: start_of_def run_surroundings_def run_flow_def brokerPKCES256_def pkceS256_def metadata_def)
qed

lemma run_texts [simp]: "trim_space sample_code = sample_code" "sample_code \<noteq> []" "trim_space run_verifier = run_verifier" "run_verifier \<noteq> []"
  "trim_space (pkceS256 run_world run_verifier) = pkceS256 run_world run_verifier" "pkceS256 run_world run_verifier \<noteq> []"
proof -
  have "pkceS256 run_world run_verifier = base64url (bytes_of run_verifier)" by (simp add: pkceS256_def run_world_def sample_world_def)
  then show "trim_space sample_code = sample_code" "sample_code \<noteq> []" "trim_space run_verifier = run_verifier" "run_verifier \<noteq> []"
    "trim_space (pkceS256 run_world run_verifier) = pkceS256 run_world run_verifier" "pkceS256 run_world run_verifier \<noteq> []"
    by (simp_all add: sample_code_def run_verifier_def)
qed

lemma run_settings [simp]: "providerName GitHub = Some ''github''" "providerConfigured sample_server ''github''"
  "\<not> bc_auth_disabled (sv_config sample_server)" "app_version (Some (''dev'', ''p'')) = ''dev''" "app_platform (Some (''dev'', ''p'')) = ''p''"
  "\<not> app_version_disabled (sv_config sample_server) ''dev''" "trim_space ''http://127.0.0.1:7/oauth/handoff'' = ''http://127.0.0.1:7/oauth/handoff''"
  "providerScopes sample_server ''github'' = [''repo'']" "ProviderRedirectURI run_world (sv_config sample_server) ''github'' \<noteq> []"
  "trim_space (ProviderRedirectURI run_world (sv_config sample_server) ''github'') \<noteq> []"
  by code_simp+

lemma run_world_simps [simp]: "wd_parse run_world ''http://127.0.0.1:7/oauth/handoff'' = Some \<lparr>ul_scheme = ''http'', ul_user = False,
    ul_host = ''127.0.0.1:7'', ul_hostname = ''127.0.0.1'', ul_path = ''/oauth/handoff'', ul_query = '''', ul_fragment = ''''\<rparr>"
  "wd_auth_url run_world = aq_state"
  by (simp_all add: run_world_def sample_world_def)

lemma run_auth_url: "authURL run_world sample_server ''github'' sample_code (pkceS256 run_world run_verifier) = Some sample_code"
proof -
  have "Lookup ''github'' = Some github_provider" by code_simp
  then show ?thesis
    by (simp add: authURL_def sample_credentials BuildAuthorizationURL_def Let_def) (simp add: trim_space_def is_space_def)
qed

lemma run_starts: "startAuthorization run_world sample_server (sample_env 0) '''' (start_of run_surroundings run_flow ''7'' sample_code run_verifier) run_broker =
    (Inr run_start, run_opened)"
proof -
  have "randomString (sample_env 0) 32 = Some sample_code" "randomString (sample_env 0) 64 = Some run_verifier"
    by (simp_all add: randomString_def sample_env_def sample_code_def run_verifier_def)
  moreover have "en_now (sample_env 0) + bc_state_ttl (sv_config sample_server) = at_minute 5"
    by (simp add: sample_env_def sample_server_def sample_config_def at_minute_def)
  ultimately show ?thesis
    unfolding run_opening
    by (simp add: startAuthorization_def Let_def op_bind_def has_store_def run_broker_def limited_def allow_def op_ret_def
        validateDesktopHandoffRedirect_def begin_authorization_def new_state_def store_call_def SaveOAuthState_def op_then_def
        IncAuthStart_def inc_def run_auth_url run_start_def run_opened_def run_store_def run_state_def state_row_def)
qed

lemma run_exchange: "exchangeProviderCode run_world sample_server (at_minute 0) ''github'' ''co'' ''v'' =
    Inr \<lparr>tr_access = ''at'', tr_refresh = '''', tr_type = ''Bearer'', tr_expires_in = 0, tr_expiry = zero_time, tr_scope = ''''\<rparr>"
  by code_simp

lemma run_exchange_any:
  assumes "trim_space v \<noteq> []"
  shows "exchangeProviderCode run_world sample_server (at_minute 0) ''github'' ''co'' v =
    Inr \<lparr>tr_access = ''at'', tr_refresh = '''', tr_type = ''Bearer'', tr_expires_in = 0, tr_expiry = zero_time, tr_scope = ''''\<rparr>"
proof -
  have "trim_space ''v'' \<noteq> []" by code_simp
  then have "ExchangeAuthorizationCode (wd_http run_world) now d c r ''co'' v u = ExchangeAuthorizationCode (wd_http run_world) now d c r ''co'' ''v'' u" for now d c r u
    using assms by (simp add: ExchangeAuthorizationCode_def run_world_def sample_world_def)
  moreover have "Lookup ''github'' = Some github_provider" by code_simp
  ultimately show ?thesis using run_exchange by (simp add: exchangeProviderCode_def sample_credentials)
qed

lemma run_seals: "opens_what_it_seals run_world"
  using sample_seals by (simp add: opens_what_it_seals_def run_world_def)

lemma run_callback: "\<exists>d. oauthCallback run_world sample_server (sample_env 0) ''github'' '''' run_query run_opened =
    (Inr ''http'', snd (oauthCallback run_world sample_server (sample_env 0) ''github'' '''' run_query run_opened)) \<and>
  br_store (snd (oauthCallback run_world sample_server (sample_env 0) ''github'' '''' run_query run_opened)) = Some d \<and>
  br_limiter (snd (oauthCallback run_world sample_server (sample_env 0) ''github'' '''' run_query run_opened)) = None \<and>
  \<not> handoff_spent (hashHandoffCode run_world sample_code) d"
proof -
  let ?st = "run_state\<lparr>os_used := Some (at_minute 0)\<rparr>"
  let ?tok = "\<lparr>tr_access = ''at'', tr_refresh = '''', tr_type = ''Bearer'', tr_expires_in = 0, tr_expiry = zero_time, tr_scope = ''''\<rparr>"
  let ?d1 = "run_store\<lparr>sd_states := [(state_row run_state)\<lparr>os_used := Some (formatTime (at_minute 0))\<rparr>]\<rparr>"
  have "at_minute 0 < at_minute 5" by (simp add: at_minute_def hour_def minute_def second_def)
  then have consume: "ConsumeOAuthState sample_code ''github'' (at_minute 0) run_store = (Inr ?st, ?d1)"
    by (simp add: ConsumeOAuthState_def selectOAuthState_def run_store_def state_row_def run_state_def sample_texts sample_printable Let_def)
  obtain payload where payload: "encryptTokenPayload run_world (sample_env 0) (providerClientSecret sample_server ''github'')
      (handoffAAD (os_id ?st) (os_session ?st) (os_handoff_challenge ?st)) (payload_of (sample_env 0) ?tok) = Some payload"
    by (simp add: encryptTokenPayload_def payload_of_def tokenExpiry_def sample_env_def zero_time_def printable_def printable_day_def
        unix_seconds_def second_def)
  let ?r = "new_handoff run_world sample_server (sample_env 0) ''github'' ?st ?tok sample_code payload"
  let ?d2 = "?d1\<lparr>sd_handoffs := [handoff_row ?r]\<rparr>"
  have save: "SaveHandoff ?r ?d1 = (Inr (), ?d2)"
    by (simp add: SaveHandoff_def new_handoff_def run_store_def state_row_def run_state_def)
  have now: "en_now (sample_env 0) = at_minute 0" "en_rand (sample_env 0) 32 = Some (replicate 32 (CHR ''r''))" by (simp_all add: sample_env_def)
  have link: "buildHandoffURL run_world sample_server ?st sample_code = Some ''http''"
    by (simp add: buildHandoffURL_def run_state_def Let_def) (simp add: run_world_def sample_world_def)
  have query: "trim_space (cq_error run_query) = []" "trim_space (cq_code run_query) = ''co''" "trim_space (cq_state run_query) = sample_code"
    by (simp_all add: run_query_def sample_texts)
  have code: "base64url (bytes_of (replicate 32 (CHR ''r''))) = sample_code" by (simp add: sample_code_def)
  have "\<exists>t. oauthCallback run_world sample_server (sample_env 0) ''github'' '''' run_query run_opened = (Inr ''http'', t) \<and> br_store t = Some ?d2 \<and>
      (br_limiter run_opened = None \<longrightarrow> br_limiter t = None)"
    by (rule callback_runs [where d = run_store and ?d2.0 = ?d2 and st = ?st and ?d1.0 = ?d1 and tok = ?tok and bytes = "replicate 32 (CHR ''r'')" and payload = payload])
      (use consume payload save link query now code in \<open>simp_all add: run_opened_def allow_def run_exchange_any run_state_def\<close>)
  then obtain t where t: "oauthCallback run_world sample_server (sample_env 0) ''github'' '''' run_query run_opened = (Inr ''http'', t)"
      "br_store t = Some ?d2" "br_limiter t = None"
    by (auto simp: run_opened_def)
  moreover have "\<not> handoff_spent (hashHandoffCode run_world sample_code) ?d2"
    by (simp add: handoff_spent_def new_handoff_def handoff_row_def)
  ultimately show ?thesis by auto
qed

text \<open>The run satisfies what the end-to-end theorem asks for.\<close>

lemma run_facts: "Lookup (bf_provider run_flow) = Some github_provider" "trim_right (CHR ''/'') (trim_space (bf_base run_flow)) \<noteq> []"
  "sr_port run_surroundings = Some ''7''" "randomBrokerString run_surroundings 32 = Some sample_code"
  "randomBrokerString run_surroundings 64 = Some run_verifier" "sr_before run_surroundings = []" "sr_sha256 run_surroundings = wd_sha256 run_world"
  "sp_auth_url run_start \<noteq> []" "sp_state run_start \<noteq> []" "ValidateAuthorizationURL (sr_parse run_surroundings) github_provider (sp_auth_url run_start)"
  "trim_space (cq_state run_query) = sp_state run_start" "randomString (sample_env 0) 32 = Some sample_code" "pr_id github_provider = ''github''"
  "en_now (run_envs ''handoff'') < en_now (sample_env 0) + bc_handoff_ttl (sv_config sample_server)" "run_envs ''start'' = sample_env 0"
  "br_store run_opened = Some run_store" "store_wf run_store" "trim_space (cq_code run_query) = ''co''" "en_now (sample_env 0) = at_minute 0"
proof -
  show "Lookup (bf_provider run_flow) = Some github_provider" "trim_right (CHR ''/'') (trim_space (bf_base run_flow)) \<noteq> []"
    "pr_id github_provider = ''github''" by code_simp+
  have limit: "en_now (run_envs ''handoff'') = at_minute 1" "en_now (sample_env 0) + bc_handoff_ttl (sv_config sample_server) = at_minute 2"
    by (simp_all add: run_envs_def sample_env_def sample_server_def sample_config_def at_minute_def)
  show "en_now (run_envs ''handoff'') < en_now (sample_env 0) + bc_handoff_ttl (sv_config sample_server)"
    unfolding limit by (simp add: at_minute_def hour_def minute_def second_def)
  show "ValidateAuthorizationURL (sr_parse run_surroundings) github_provider (sp_auth_url run_start)"
    by (simp add: ValidateAuthorizationURL_def run_surroundings_def github_provider_def)
qed (simp_all add: run_surroundings_def randomBrokerString_def sample_code_def run_verifier_def run_start_def run_query_def randomString_def sample_env_def
    run_envs_def run_opened_def run_store_def store_wf_def sample_texts)

lemma run_provider_token: "exchangeProviderCode run_world sample_server (en_now (sample_env 0)) (pr_id github_provider) (trim_space (cq_code run_query)) v = Inr tok \<Longrightarrow>
    tr_access tok = ''at''"
proof -
  assume got: "exchangeProviderCode run_world sample_server (en_now (sample_env 0)) (pr_id github_provider) (trim_space (cq_code run_query)) v = Inr tok"
  have "Lookup ''github'' = Some github_provider" by code_simp
  with got have "trim_space v \<noteq> []"
    by (auto simp: exchangeProviderCode_def sample_credentials ExchangeAuthorizationCode_def run_facts(13) split: if_splits)
  then show "tr_access tok = ''at''" using got run_exchange_any by (simp add: run_facts(13,18,19)) (metis token_response.select_convs(1))
qed

definition run_after :: broker where
  "run_after = snd (oauthCallback run_world sample_server (sample_env 0) ''github'' '''' run_query run_opened)"

definition run_left :: broker_db where
  "run_left = the (br_store run_after)"

lemma run_done: "oauthCallback run_world sample_server (sample_env 0) (pr_id github_provider) '''' run_query run_opened = (Inr ''http'', run_after)"
  "sr_visit run_surroundings (sp_auth_url run_start) run_opened = (Some ([], [brought_back (sp_state run_start) sample_code]), run_after)"
  "br_store run_after = Some run_left" "\<not> handoff_spent (hashHandoffCode run_world sample_code) run_left"
  "fst ((allow (run_envs ''handoff'') (Key LimitKeyHandoff '''') limitHandoff :: (string, bool) op) run_after) = Inr True"
proof -
  obtain d where cb: "oauthCallback run_world sample_server (sample_env 0) ''github'' '''' run_query run_opened = (Inr ''http'', run_after)"
      "br_store run_after = Some d" "br_limiter run_after = None" "\<not> handoff_spent (hashHandoffCode run_world sample_code) d"
    using run_callback unfolding run_after_def by blast
  show "oauthCallback run_world sample_server (sample_env 0) (pr_id github_provider) '''' run_query run_opened = (Inr ''http'', run_after)"
    using cb(1) by (simp only: run_facts(13))
  show "sr_visit run_surroundings (sp_auth_url run_start) run_opened = (Some ([], [brought_back (sp_state run_start) sample_code]), run_after)"
    by (simp add: run_surroundings_def run_start_def run_after_def)
  show "br_store run_after = Some run_left" "\<not> handoff_spent (hashHandoffCode run_world sample_code) run_left"
    using cb(2,4) by (simp_all add: run_left_def)
  show "fst ((allow (run_envs ''handoff'') (Key LimitKeyHandoff '''') limitHandoff :: (string, bool) op) run_after) = Inr True"
    using cb(3) by (simp add: allow_def)
qed

lemma run_start_here: "startAuthorization run_world sample_server (run_envs ''start'') '''' (start_of run_surroundings run_flow ''7'' sample_code run_verifier) run_broker =
    (Inr run_start, run_opened)"
  using run_starts by (simp only: run_facts(15))

lemma run_tokens: "exchangeProviderCode run_world sample_server (en_now (sample_env 0)) (pr_id github_provider) (trim_space (cq_code run_query)) v = Inr tok \<Longrightarrow>
    trim_space (tr_access tok) \<noteq> []"
  using run_provider_token by (simp add: trim_space_def is_space_def)

lemmas run_premises = run_facts(1-5) run_texts(2,4) run_facts(6,7) run_start_here run_facts(8-10) rtranclp.rtrancl_refl run_done(1) run_facts(11)
  rtranclp.rtrancl_refl run_facts(12) run_texts(2) run_done(2-4) run_facts(14) run_done(5) run_facts(16,17) run_seals sample_settings(3,5,6) run_tokens

lemma run_succeeds: "\<exists>r t. BrokerFlow_Authorize (at_broker run_world sample_server run_envs '''' run_surroundings) run_flow run_broker = (Inr r, t) \<and>
  token.tk_access (au_token r) = ''at''"
  using end_to_end [where en = run_envs, OF run_premises] run_provider_token by (fastforce simp: prod_eq_iff)

theorem authorization_end_to_end_witness:
  "\<exists>r. fst (BrokerFlow_Authorize (at_broker run_world sample_server run_envs '''' run_surroundings) run_flow run_broker) = Inr r \<and>
     token.tk_access (au_token r) = ''at''"
  using authorization_end_to_end [where en = run_envs, OF run_premises] run_provider_token by fastforce

theorem tokens_bound_to_the_run_witness:
  "\<exists>r desc row. fst (BrokerFlow_Authorize (at_broker run_world sample_server run_envs '''' run_surroundings) run_flow run_broker) = Inr r \<and>
     token.tk_access (au_token r) = ''at'' \<and> Lookup ''github'' = Some desc \<and> ho_session (row :: string handoff_record) = sample_code \<and>
     ho_challenge row = pkceS256 run_world run_verifier"
proof -
  obtain r t where run: "BrokerFlow_Authorize (at_broker run_world sample_server run_envs '''' run_surroundings) run_flow run_broker = (Inr r, t)"
      "token.tk_access (au_token r) = ''at''"
    using run_succeeds by blast
  obtain session verifier desc and row :: "string handoff_record" where "randomBrokerString run_surroundings 32 = Some session"
    "randomBrokerString run_surroundings 64 = Some verifier" "Lookup (bf_provider run_flow) = Some desc" "ho_session row = session"
    "ho_challenge row = pkceS256 run_world verifier"
    using tokens_bound_to_the_run [OF run_facts(7) run(1)] by (elim exE conjE) (rule that)
  then show ?thesis using run by (auto simp: run_facts(4,5) run_flow_def)
qed

end
