(* ===== verification/Configuration.thy ===== *)
theory Configuration
  imports Broker Google_Account
begin

text \<open>
  The configuration of the desktop program: internal/config/config.go and what the config.go of the
  four integrations take from it. The library that merges the layers (koanf) and the YAML reader are
  parameters, as is the URL parser; paths are those of Unix. The errors of the four brokers are one
  constructor (\<open>ErrBrokerConfig\<close>), those of the credentials another (\<open>ErrLocalCredentials\<close>).
\<close>


section \<open>Config\<close>

abbreviation (input) AuthModeBroker :: string where "AuthModeBroker \<equiv> ''broker''"
abbreviation (input) AuthModeLocal :: string where "AuthModeLocal \<equiv> ''local''"
abbreviation (input) defaultBrokerBaseURL :: string where "defaultBrokerBaseURL \<equiv> ''https://auth.shiet.app''"

record auth_section =
  as_mode :: string
  as_base :: string
  as_client :: string
  as_secret :: string

record app_config =
  cf_db :: string
  cf_log :: string
  cf_level :: string
  cf_google :: auth_section
  cf_github :: auth_section
  cf_slack :: auth_section
  cf_bitbucket :: auth_section

text \<open>The keys of the environment, and the settings they override.\<close>

definition envKeyMap :: "(string \<times> string) list" where
  "envKeyMap = [
     (''SHIET_DB'', ''db.path''),
     (''SHIET_LOG_PATH'', ''log.path''),
     (''SHIET_LOG_LEVEL'', ''log.level''),
     (''SHIET_GOOGLE_AUTH_MODE'', ''google.auth_mode''),
     (''SHIET_GOOGLE_BROKER_BASE_URL'', ''google.broker_base_url''),
     (''SHIET_GOOGLE_CLIENT_ID'', ''google.client_id''),
     (''SHIET_GOOGLE_CLIENT_SECRET'', ''google.client_secret''),
     (''SHIET_GITHUB_AUTH_MODE'', ''github.auth_mode''),
     (''SHIET_GITHUB_BROKER_BASE_URL'', ''github.broker_base_url''),
     (''SHIET_GITHUB_CLIENT_ID'', ''github.client_id''),
     (''SHIET_GITHUB_CLIENT_SECRET'', ''github.client_secret''),
     (''SHIET_SLACK_AUTH_MODE'', ''slack.auth_mode''),
     (''SHIET_SLACK_BROKER_BASE_URL'', ''slack.broker_base_url''),
     (''SHIET_SLACK_CLIENT_ID'', ''slack.client_id''),
     (''SHIET_SLACK_CLIENT_SECRET'', ''slack.client_secret''),
     (''SHIET_BITBUCKET_AUTH_MODE'', ''bitbucket.auth_mode''),
     (''SHIET_BITBUCKET_BROKER_BASE_URL'', ''bitbucket.broker_base_url''),
     (''SHIET_BITBUCKET_CLIENT_ID'', ''bitbucket.client_id''),
     (''SHIET_BITBUCKET_CLIENT_SECRET'', ''bitbucket.client_secret'')]"


section \<open>Surroundings\<close>

text \<open>The machine: the environment, the directories if they are known, and the files that are there.\<close>

record machine =
  mc_env :: environment
  mc_config_dir :: "string option"
  mc_home :: "string option"
  mc_cwd :: "string option"
  mc_exists :: "string \<Rightarrow> bool"

text \<open>
  The layered settings: empty, loaded from values given in the program or from a file (which fail
  with None), one value set, and read into the structure (None when a value does not fit).
\<close>

record 'k koanf =
  ko_new :: 'k
  ko_load :: "(string \<times> string) list \<Rightarrow> 'k \<Rightarrow> 'k option"
  ko_file :: "string \<Rightarrow> 'k \<Rightarrow> 'k option"
  ko_set :: "string \<Rightarrow> string \<Rightarrow> 'k \<Rightarrow> 'k"
  ko_config :: "'k \<Rightarrow> app_config option"

text \<open>\<open>filepath.Clean\<close> and \<open>filepath.Join\<close> on Unix.\<close>

fun clean_parts :: "bool \<Rightarrow> string list \<Rightarrow> string list \<Rightarrow> string list" where
  "clean_parts rooted out [] = out"
| "clean_parts rooted out (c # cs) =
     (if c = '''' \<or> c = ''.'' then clean_parts rooted out cs
      else if c = ''..'' then
        (if out \<noteq> [] \<and> last out \<noteq> ''..'' then clean_parts rooted (butlast out) cs
         else if rooted then clean_parts rooted out cs else clean_parts rooted (out @ [c]) cs)
      else clean_parts rooted (out @ [c]) cs)"

definition path_clean :: "string \<Rightarrow> string" where
  "path_clean p = (let rooted = (p \<noteq> [] \<and> hd p = CHR ''/'');
       s = (if rooted then ''/'' else '''') @ join_with ''/'' (clean_parts rooted [] (split_at_char (CHR ''/'') p))
     in if s = '''' then ''.'' else s)"

definition path_join :: "string list \<Rightarrow> string" where
  "path_join ps = (let ps = filter (\<lambda>p. p \<noteq> '''') ps in if ps = [] then '''' else path_clean (join_with ''/'' ps))"


section \<open>Loading\<close>

definition add_config_file :: "machine \<Rightarrow> string option \<Rightarrow> string list \<Rightarrow> string list" where
  "add_config_file m p paths = (case p of None \<Rightarrow> paths
     | Some p \<Rightarrow> if p = '''' \<or> p \<in> set paths \<or> \<not> mc_exists m p then paths else paths @ [p])"

definition discoverConfigFiles :: "machine \<Rightarrow> string list" where
  "discoverConfigFiles m =
     add_config_file m (map_option (\<lambda>d. path_join [d, ''shiet.yaml'']) (mc_cwd m))
      (add_config_file m (map_option (\<lambda>d. path_join [d, ''shiet'', ''config.yaml'']) (mc_config_dir m))
       (add_config_file m (map_option (\<lambda>d. path_join [d, ''.config'', ''shiet'', ''config.yaml'']) (mc_home m))
        (add_config_file m (if mc_env m ''XDG_CONFIG_HOME'' \<noteq> ''''
           then Some (path_join [mc_env m ''XDG_CONFIG_HOME'', ''shiet'', ''config.yaml'']) else None) [])))"

definition defaultDBPath :: "machine \<Rightarrow> string option" where
  "defaultDBPath m = map_option (\<lambda>d. path_join [d, ''shiet'', ''shiet.db'']) (mc_config_dir m)"

definition defaultLogPath :: "machine \<Rightarrow> string option" where
  "defaultLogPath m = map_option (\<lambda>d. path_join [d, ''shiet'', ''shiet.log'']) (mc_config_dir m)"

text \<open>The map is gone through in any order; its settings are all different.\<close>

definition applyEnv :: "machine \<Rightarrow> 'k koanf \<Rightarrow> 'k \<Rightarrow> 'k" where
  "applyEnv m ko k = fold (\<lambda>(env, key) k. if mc_env m env \<noteq> '''' then ko_set ko key (mc_env m env) k else k) envKeyMap k"

definition expandHome :: "machine \<Rightarrow> string \<Rightarrow> string option" where
  "expandHome m path =
     (if path = '''' \<or> take 1 path \<noteq> ''~'' then Some path
      else case mc_home m of None \<Rightarrow> None
      | Some home \<Rightarrow> if path = ''~'' then Some home
          else if take 2 path = ''~/'' then Some (path_join [home, drop 2 path]) else Some path)"

definition resolveAuthMode :: "string \<Rightarrow> string \<Rightarrow> string" where
  "resolveAuthMode mode client =
     (if trim_space mode \<noteq> '''' then to_lower (trim_space mode)
      else if trim_space client \<noteq> '''' then AuthModeLocal else AuthModeBroker)"

definition uses_broker :: "auth_section \<Rightarrow> bool" where
  "uses_broker s \<longleftrightarrow> equal_fold (trim_space (as_mode s)) AuthModeBroker"

text \<open>What becomes of each of the four sections: trimmed, the mode resolved, no credentials in broker mode.\<close>

definition trimmed_section :: "auth_section \<Rightarrow> auth_section" where
  "trimmed_section s = \<lparr>as_mode = to_lower (trim_space (as_mode s)), as_base = trim_space (as_base s),
     as_client = trim_space (as_client s), as_secret = trim_space (as_secret s)\<rparr>"

definition resolved_section :: "auth_section \<Rightarrow> auth_section" where
  "resolved_section s = s\<lparr>as_mode := resolveAuthMode (as_mode s) (as_client s)\<rparr>"

definition without_credentials :: "auth_section \<Rightarrow> auth_section" where
  "without_credentials s = (if uses_broker s then s\<lparr>as_client := '''', as_secret := ''''\<rparr> else s)"

definition settled_section :: "auth_section \<Rightarrow> auth_section" where
  "settled_section s = without_credentials (resolved_section (trimmed_section s))"


section \<open>Checking\<close>

definition validateBrokerURL :: "url_parser \<Rightarrow> string \<Rightarrow> bool" where
  "validateBrokerURL parse raw = (let raw = trim_space raw in
     raw \<noteq> '''' \<and> (case parse raw of None \<Rightarrow> False
       | Some u \<Rightarrow> ul_scheme u = ''https'' \<and> ul_host u \<noteq> '''' \<and> ul_query u = '''' \<and> ul_fragment u = ''''))"

definition validateLog :: "app_config \<Rightarrow> go_error option" where
  "validateLog c =
     (if trim_space (cf_log c) = '''' then Some ErrOther
      else if to_lower (trim_space (cf_level c)) \<in> set [''trace'', ''debug'', ''info'', ''warn'', ''error'', ''fatal'', ''panic'', ''disabled'']
        then None else Some ErrOther)"

definition validate_google :: "url_parser \<Rightarrow> auth_section \<Rightarrow> go_error option" where
  "validate_google parse s = (let mode = to_lower (trim_space (as_mode s)) in
     if mode = AuthModeBroker then (if validateBrokerURL parse (as_base s) then None else Some ErrBrokerConfig)
     else if mode = AuthModeLocal then (if trim_space (as_client s) = '''' then Some ErrLocalCredentials else None)
     else Some ErrOther)"

definition validateGitHubAuth :: "url_parser \<Rightarrow> auth_section \<Rightarrow> go_error option" where
  "validateGitHubAuth parse s = (let mode = to_lower (trim_space (as_mode s)) in
     if mode = AuthModeBroker then (if validateBrokerURL parse (as_base s) then None else Some ErrBrokerConfig)
     else if mode = AuthModeLocal then
       (let client = trim_space (as_client s); secret = trim_space (as_secret s) in
        if client = '''' \<and> secret = '''' then None
        else if client = '''' \<or> secret = '''' then Some ErrLocalCredentials else None)
     else if mode = '''' then None else Some ErrOther)"

definition validateSlackAuth :: "url_parser \<Rightarrow> auth_section \<Rightarrow> go_error option" where
  "validateSlackAuth parse s = (let mode = to_lower (trim_space (as_mode s)) in
     if mode = AuthModeBroker then (if validateBrokerURL parse (as_base s) then None else Some ErrBrokerConfig)
     else if mode = AuthModeLocal then
       (if trim_space (as_client s) = '''' \<or> trim_space (as_secret s) = '''' then Some ErrLocalCredentials else None)
     else if mode = '''' then None else Some ErrOther)"

text \<open>The code of Bitbucket is that of Slack.\<close>

definition validateBitbucketAuth :: "url_parser \<Rightarrow> auth_section \<Rightarrow> go_error option" where
  "validateBitbucketAuth parse s = (let mode = to_lower (trim_space (as_mode s)) in
     if mode = AuthModeBroker then (if validateBrokerURL parse (as_base s) then None else Some ErrBrokerConfig)
     else if mode = AuthModeLocal then
       (if trim_space (as_client s) = '''' \<or> trim_space (as_secret s) = '''' then Some ErrLocalCredentials else None)
     else if mode = '''' then None else Some ErrOther)"

definition config_Validate :: "url_parser \<Rightarrow> app_config \<Rightarrow> go_error option" where
  "config_Validate parse c =
     (case validateLog c of Some e \<Rightarrow> Some e | None \<Rightarrow>
     (case validate_google parse (cf_google c) of Some e \<Rightarrow> Some e | None \<Rightarrow>
     (case validateGitHubAuth parse (cf_github c) of Some e \<Rightarrow> Some e | None \<Rightarrow>
     (case validateSlackAuth parse (cf_slack c) of Some e \<Rightarrow> Some e | None \<Rightarrow> validateBitbucketAuth parse (cf_bitbucket c)))))"

text \<open>The defaults, the files and the environment, one over the other.\<close>

definition layers :: "machine \<Rightarrow> 'k koanf \<Rightarrow> string \<Rightarrow> string \<Rightarrow> string list \<Rightarrow> app_config option" where
  "layers m ko db log files =
     Option.bind (ko_load ko [(''db.path'', db), (''log.path'', log), (''log.level'', ''info''),
        (''google.broker_base_url'', defaultBrokerBaseURL), (''github.broker_base_url'', defaultBrokerBaseURL),
        (''slack.broker_base_url'', defaultBrokerBaseURL), (''bitbucket.broker_base_url'', defaultBrokerBaseURL)] (ko_new ko))
     (\<lambda>k. Option.bind (read_each (ko_file ko) files k) (\<lambda>k. ko_config ko (applyEnv m ko k)))"

definition config_load :: "machine \<Rightarrow> 'k koanf \<Rightarrow> url_parser \<Rightarrow> string list \<Rightarrow> go_error + app_config" where
  "config_load m ko parse files =
     (case (defaultDBPath m, defaultLogPath m) of (Some db, Some log) \<Rightarrow>
        (case layers m ko db log files of None \<Rightarrow> Inl ErrOther
         | Some c \<Rightarrow>
           (case (expandHome m (cf_db c), expandHome m (cf_log c)) of (Some db, Some log) \<Rightarrow>
              (let c = \<lparr>cf_db = db, cf_log = log, cf_level = to_lower (trim_space (cf_level c)), cf_google = settled_section (cf_google c),
                  cf_github = settled_section (cf_github c), cf_slack = settled_section (cf_slack c),
                  cf_bitbucket = settled_section (cf_bitbucket c)\<rparr>
               in case config_Validate parse c of None \<Rightarrow> Inr c | Some e \<Rightarrow> Inl e)
            | _ \<Rightarrow> Inl ErrOther))
      | _ \<Rightarrow> Inl ErrOther)"

definition config_Load :: "machine \<Rightarrow> 'k koanf \<Rightarrow> url_parser \<Rightarrow> go_error + app_config" where
  "config_Load m ko parse = config_load m ko parse (discoverConfigFiles m)"


section \<open>The settings of the integrations\<close>

text \<open>\<open>AuthSettingsFromConfig\<close> of the four, and the providers made of them; the API addresses are the standard ones.\<close>

definition google_settings :: "app_config \<Rightarrow> settings" where
  "google_settings c = (let s = cf_google c in \<lparr>pv_base = '''', pv_mode = as_mode s, pv_broker = as_base s, pv_client = as_client s,
     pv_secret = (if uses_broker s then '''' else as_secret s)\<rparr>)"

definition account_settings :: "auth_section \<Rightarrow> settings" where
  "account_settings s = \<lparr>pv_base = '''', pv_mode = as_mode s, pv_broker = as_base s,
     pv_client = (if uses_broker s then '''' else as_client s), pv_secret = (if uses_broker s then '''' else as_secret s)\<rparr>"

end
