(* ===== verification/Configuration_Properties.thy ===== *)
theory Configuration_Properties
  imports Configuration
begin

text \<open>
  Properties of the configuration: what a configuration that loads is like, what it makes of the
  integrations, and that the environment has the last word.
\<close>


section \<open>The layers\<close>

text \<open>A setting by its key.\<close>

definition set_member :: "string \<Rightarrow> string \<Rightarrow> auth_section \<Rightarrow> auth_section" where
  "set_member member v s =
     (if member = ''auth_mode'' then s\<lparr>as_mode := v\<rparr> else if member = ''broker_base_url'' then s\<lparr>as_base := v\<rparr>
      else if member = ''client_id'' then s\<lparr>as_client := v\<rparr> else if member = ''client_secret'' then s\<lparr>as_secret := v\<rparr> else s)"

definition set_setting :: "string \<Rightarrow> string \<Rightarrow> app_config \<Rightarrow> app_config" where
  "set_setting key v c =
     (case split_at_char (CHR ''.'') key of
        [part, member] \<Rightarrow>
          if part = ''db'' then c\<lparr>cf_db := v\<rparr>
          else if part = ''log'' then (if member = ''path'' then c\<lparr>cf_log := v\<rparr> else c\<lparr>cf_level := v\<rparr>)
          else if part = ''google'' then c\<lparr>cf_google := set_member member v (cf_google c)\<rparr>
          else if part = ''github'' then c\<lparr>cf_github := set_member member v (cf_github c)\<rparr>
          else if part = ''slack'' then c\<lparr>cf_slack := set_member member v (cf_slack c)\<rparr>
          else c\<lparr>cf_bitbucket := set_member member v (cf_bitbucket c)\<rparr>
      | _ \<Rightarrow> c)"

text \<open>What \<open>Set\<close> and \<open>Unmarshal\<close> promise: the structure read has the value that was set, and else what it had.\<close>

definition sets_settings :: "'k koanf \<Rightarrow> bool" where
  "sets_settings ko \<longleftrightarrow> (\<forall>k. \<forall>key \<in> snd ` set envKeyMap. \<forall>v. ko_config ko (ko_set ko key v k) = map_option (set_setting key v) (ko_config ko k))"

definition override :: "string \<Rightarrow> string \<Rightarrow> app_config \<Rightarrow> app_config" where
  "override key v c = (if v \<noteq> '''' then set_setting key v c else c)"

definition overrides :: "machine \<Rightarrow> app_config \<Rightarrow> app_config" where
  "overrides m c = fold (\<lambda>(env, key). override key (mc_env m env)) envKeyMap c"

lemma env_overrides:
  assumes "sets_settings ko"
  shows "ko_config ko (applyEnv m ko k) = map_option (overrides m) (ko_config ko k)"
proof -
  have "set es \<subseteq> set envKeyMap \<Longrightarrow>
      ko_config ko (fold (\<lambda>(env, key) k. if mc_env m env \<noteq> '''' then ko_set ko key (mc_env m env) k else k) es k) =
      map_option (fold (\<lambda>(env, key). override key (mc_env m env)) es) (ko_config ko k)" for es k
  proof (induction es arbitrary: k)
    case Nil
    show ?case by (simp add: option.map_ident)
  next
    case (Cons e es)
    obtain env key where e: "e = (env, key)" by (cases e)
    then have "key \<in> snd ` set envKeyMap" using Cons.prems by force
    then have "\<forall>v. ko_config ko (ko_set ko key v k) = map_option (set_setting key v) (ko_config ko k)" for k
      using assms by (auto simp: sets_settings_def)
    then show ?case using Cons e by (simp add: option.map_comp comp_def override_def)
  qed
  then show ?thesis by (simp add: applyEnv_def overrides_def [abs_def])
qed

text \<open>A value of the environment stands over what was there, another setting keeps its own.\<close>

definition over :: "string \<Rightarrow> string \<Rightarrow> string" where
  "over v old = (if v \<noteq> '''' then v else old)"

lemma override_keys:
  "override ''db.path'' v c = c\<lparr>cf_db := over v (cf_db c)\<rparr>" "override ''log.path'' v c = c\<lparr>cf_log := over v (cf_log c)\<rparr>"
  "override ''log.level'' v c = c\<lparr>cf_level := over v (cf_level c)\<rparr>"
  "override ''google.auth_mode'' v c = c\<lparr>cf_google := (cf_google c)\<lparr>as_mode := over v (as_mode (cf_google c))\<rparr>\<rparr>"
  "override ''google.broker_base_url'' v c = c\<lparr>cf_google := (cf_google c)\<lparr>as_base := over v (as_base (cf_google c))\<rparr>\<rparr>"
  "override ''google.client_id'' v c = c\<lparr>cf_google := (cf_google c)\<lparr>as_client := over v (as_client (cf_google c))\<rparr>\<rparr>"
  "override ''google.client_secret'' v c = c\<lparr>cf_google := (cf_google c)\<lparr>as_secret := over v (as_secret (cf_google c))\<rparr>\<rparr>"
  "override ''github.auth_mode'' v c = c\<lparr>cf_github := (cf_github c)\<lparr>as_mode := over v (as_mode (cf_github c))\<rparr>\<rparr>"
  "override ''github.broker_base_url'' v c = c\<lparr>cf_github := (cf_github c)\<lparr>as_base := over v (as_base (cf_github c))\<rparr>\<rparr>"
  "override ''github.client_id'' v c = c\<lparr>cf_github := (cf_github c)\<lparr>as_client := over v (as_client (cf_github c))\<rparr>\<rparr>"
  "override ''github.client_secret'' v c = c\<lparr>cf_github := (cf_github c)\<lparr>as_secret := over v (as_secret (cf_github c))\<rparr>\<rparr>"
  "override ''slack.auth_mode'' v c = c\<lparr>cf_slack := (cf_slack c)\<lparr>as_mode := over v (as_mode (cf_slack c))\<rparr>\<rparr>"
  "override ''slack.broker_base_url'' v c = c\<lparr>cf_slack := (cf_slack c)\<lparr>as_base := over v (as_base (cf_slack c))\<rparr>\<rparr>"
  "override ''slack.client_id'' v c = c\<lparr>cf_slack := (cf_slack c)\<lparr>as_client := over v (as_client (cf_slack c))\<rparr>\<rparr>"
  "override ''slack.client_secret'' v c = c\<lparr>cf_slack := (cf_slack c)\<lparr>as_secret := over v (as_secret (cf_slack c))\<rparr>\<rparr>"
  "override ''bitbucket.auth_mode'' v c = c\<lparr>cf_bitbucket := (cf_bitbucket c)\<lparr>as_mode := over v (as_mode (cf_bitbucket c))\<rparr>\<rparr>"
  "override ''bitbucket.broker_base_url'' v c = c\<lparr>cf_bitbucket := (cf_bitbucket c)\<lparr>as_base := over v (as_base (cf_bitbucket c))\<rparr>\<rparr>"
  "override ''bitbucket.client_id'' v c = c\<lparr>cf_bitbucket := (cf_bitbucket c)\<lparr>as_client := over v (as_client (cf_bitbucket c))\<rparr>\<rparr>"
  "override ''bitbucket.client_secret'' v c = c\<lparr>cf_bitbucket := (cf_bitbucket c)\<lparr>as_secret := over v (as_secret (cf_bitbucket c))\<rparr>\<rparr>"
  by (simp_all add: override_def over_def set_setting_def set_member_def)

definition section_over :: "machine \<Rightarrow> string \<Rightarrow> auth_section \<Rightarrow> auth_section" where
  "section_over m p s = (let env = (\<lambda>member. mc_env m (''SHIET_'' @ p @ member)) in
     \<lparr>as_mode = over (env ''_AUTH_MODE'') (as_mode s), as_base = over (env ''_BROKER_BASE_URL'') (as_base s),
      as_client = over (env ''_CLIENT_ID'') (as_client s), as_secret = over (env ''_CLIENT_SECRET'') (as_secret s)\<rparr>)"

lemma overrides_sections:
  "overrides m c = \<lparr>cf_db = over (mc_env m ''SHIET_DB'') (cf_db c), cf_log = over (mc_env m ''SHIET_LOG_PATH'') (cf_log c),
     cf_level = over (mc_env m ''SHIET_LOG_LEVEL'') (cf_level c), cf_google = section_over m ''GOOGLE'' (cf_google c),
     cf_github = section_over m ''GITHUB'' (cf_github c), cf_slack = section_over m ''SLACK'' (cf_slack c),
     cf_bitbucket = section_over m ''BITBUCKET'' (cf_bitbucket c)\<rparr>"
  by (simp add: overrides_def envKeyMap_def section_over_def override_keys)

section \<open>Sections that were settled\<close>

lemma lower_code: "(of_char (lower_char c) :: nat) = (let n = of_char c in if 65 \<le> n \<and> n \<le> 90 then n + 32 else n)"
  by (auto simp: lower_char_def Let_def of_char_of)

lemma lower_lower [simp]: "to_lower (to_lower s) = to_lower s"
proof -
  have "(of_char (lower_char (lower_char c)) :: nat) = of_char (lower_char c)" for c
    by (simp add: lower_code Let_def)
  then have "lower_char (lower_char c) = lower_char c" for c by (simp only: of_char_eq_iff)
  then show ?thesis by (simp add: to_lower_def)
qed

lemma space_code: "is_space c \<longleftrightarrow> (of_char c :: nat) \<in> {9, 10, 11, 12, 13, 32}"
proof -
  have "c = d \<longleftrightarrow> (of_char c :: nat) = of_char d" for d by (simp add: of_char_eq_iff)
  from this [of "CHR 0x09"] this [of "CHR 0x0A"] this [of "CHR 0x0B"] this [of "CHR 0x0C"] this [of "CHR 0x0D"] this [of "CHR 0x20"]
  show ?thesis by (simp add: is_space_def)
qed

lemma space_lower: "is_space (lower_char c) = is_space c"
  by (auto simp: space_code lower_code Let_def)

lemma trim_lower: "trim_space (to_lower s) = to_lower (trim_space s)"
proof -
  have "dropWhile is_space (to_lower s) = to_lower (dropWhile is_space s)" for s
    by (induction s) (auto simp: to_lower_def space_lower)
  then show ?thesis by (simp add: trim_space_def) (simp add: to_lower_def rev_map)
qed

lemma lower_empty [simp]: "to_lower s = [] \<longleftrightarrow> s = []"
  by (simp add: to_lower_def)

lemma broker_words [simp]: "to_lower ''broker'' = ''broker''" "to_lower ''local'' = ''local''" "trim_space ''broker'' = ''broker''" "trim_space ''local'' = ''local''"
  "trim_space [] = []"
  by code_simp+

lemma settled_members:
  "as_mode (settled_section s) = resolveAuthMode (to_lower (trim_space (as_mode s))) (trim_space (as_client s))"
  "as_base (settled_section s) = trim_space (as_base s)"
  "trim_space (as_mode (settled_section s)) = as_mode (settled_section s)" "to_lower (as_mode (settled_section s)) = as_mode (settled_section s)"
  "as_mode (settled_section s) \<noteq> []" "trim_space (as_client (settled_section s)) = as_client (settled_section s)"
  "trim_space (as_secret (settled_section s)) = as_secret (settled_section s)"
  "as_mode (settled_section s) = ''broker'' \<Longrightarrow> as_client (settled_section s) = [] \<and> as_secret (settled_section s) = []"
  by (auto simp: settled_section_def without_credentials_def resolved_section_def trimmed_section_def resolveAuthMode_def trim_lower
      uses_broker_def equal_fold_def split: if_splits)

lemma uses_broker_settled: "uses_broker (settled_section s) \<longleftrightarrow> as_mode (settled_section s) = ''broker''"
  using settled_members(3,4) [of s] by (simp add: uses_broker_def equal_fold_def)

text \<open>What validation leaves: a broker that is reached over https and no credentials, or credentials.\<close>

definition reaches_broker :: "url_parser \<Rightarrow> settings \<Rightarrow> bool" where
  "reaches_broker parse pv \<longleftrightarrow> usesBrokerAuth pv \<and> pv_client pv = '''' \<and> pv_secret pv = '''' \<and>
     (\<exists>u. parse (pv_broker pv) = Some u \<and> ul_scheme u = ''https'' \<and> ul_host u \<noteq> '''' \<and> ul_query u = '''' \<and> ul_fragment u = '''')"

lemma settings_of_section:
  "usesBrokerAuth (account_settings (settled_section s)) \<longleftrightarrow> as_mode (settled_section s) = ''broker''"
  "pv_broker (account_settings (settled_section s)) = as_base (settled_section s)"
  "trim_space (as_base (settled_section s)) = as_base (settled_section s)"
  "pv_client (account_settings (settled_section s)) = as_client (settled_section s)"
  "pv_secret (account_settings (settled_section s)) = as_secret (settled_section s)"
  "cf_google c = settled_section s \<Longrightarrow> google_settings c = account_settings (settled_section s)"
  using settled_members(3,4,5,8) [of s] uses_broker_settled [of s] settled_members(2) [of s]
  by (auto simp: usesBrokerAuth_def account_settings_def google_settings_def equal_fold_def Let_def)

lemma url_valid: "validateBrokerURL parse (as_base (settled_section s)) \<Longrightarrow> as_mode (settled_section s) = ''broker'' \<Longrightarrow>
    reaches_broker parse (account_settings (settled_section s)) \<and> as_base (settled_section s) \<noteq> []"
  using settled_members(8) [of s]
  by (auto simp: validateBrokerURL_def reaches_broker_def settings_of_section Let_def split: option.splits)

definition has_credentials :: "auth_section \<Rightarrow> bool" where
  "has_credentials s \<longleftrightarrow> as_mode s = ''local'' \<and> as_client s \<noteq> ''''"

lemma section_valid:
  "validate_google parse (settled_section s) = None \<Longrightarrow>
     reaches_broker parse (account_settings (settled_section s)) \<and> as_base (settled_section s) \<noteq> [] \<or> has_credentials (settled_section s)"
  "validateGitHubAuth parse (settled_section s) = None \<Longrightarrow>
     reaches_broker parse (account_settings (settled_section s)) \<and> as_base (settled_section s) \<noteq> [] \<or>
     as_mode (settled_section s) = ''local'' \<and> (as_client (settled_section s) = [] \<longleftrightarrow> as_secret (settled_section s) = [])"
  "validateSlackAuth parse (settled_section s) = None \<Longrightarrow>
     reaches_broker parse (account_settings (settled_section s)) \<and> as_base (settled_section s) \<noteq> [] \<or>
     has_credentials (settled_section s) \<and> as_secret (settled_section s) \<noteq> []"
  "validateBitbucketAuth parse (settled_section s) = None \<Longrightarrow>
     reaches_broker parse (account_settings (settled_section s)) \<and> as_base (settled_section s) \<noteq> [] \<or>
     has_credentials (settled_section s) \<and> as_secret (settled_section s) \<noteq> []"
  using settled_members(3-8) [of s] url_valid [of parse s]
  by (auto simp: validate_google_def validateGitHubAuth_def validateSlackAuth_def validateBitbucketAuth_def has_credentials_def Let_def split: if_splits)

lemma load_cases:
  assumes "config_load m ko parse files = Inr c"
  obtains db log c0 where "layers m ko db log files = Some c0" "validateLog c = None"
    "expandHome m (cf_db c0) = Some (cf_db c)" "expandHome m (cf_log c0) = Some (cf_log c)" "cf_level c = to_lower (trim_space (cf_level c0))"
    "cf_google c = settled_section (cf_google c0)" "cf_github c = settled_section (cf_github c0)"
    "cf_slack c = settled_section (cf_slack c0)" "cf_bitbucket c = settled_section (cf_bitbucket c0)"
    "validate_google parse (cf_google c) = None" "validateGitHubAuth parse (cf_github c) = None"
    "validateSlackAuth parse (cf_slack c) = None" "validateBitbucketAuth parse (cf_bitbucket c) = None"
  using assms by (force simp: config_load_def config_Validate_def Let_def split: option.splits)

lemma layered:
  assumes "layers m ko db log files = Some c0" "sets_settings ko"
  shows "\<exists>c1. c0 = overrides m c1"
  using assms by (auto simp: layers_def env_overrides split: bind_splits)

text \<open>The choice of the flow, when none is injected.\<close>

definition ready :: "url_parser \<Rightarrow> auth_section \<Rightarrow> bool" where
  "ready parse s \<longleftrightarrow> reaches_broker parse (account_settings s) \<and> as_base s \<noteq> '''' \<or> has_credentials s"

lemma ready_local: "has_credentials (settled_section s) \<Longrightarrow> \<not> usesBrokerAuth (account_settings (settled_section s))"
  by (simp add: has_credentials_def settings_of_section)

lemma flow_chosen:
  assumes "ready parse (settled_section s)" "ad_authorizer ad = None"
  shows "authorize ad (account_settings (settled_section s)) hint =
      (if usesBrokerAuth (account_settings (settled_section s)) then ad_broker ad (as_base (settled_section s)) hint else ad_local ad hint)"
    "google_authorize ad (account_settings (settled_section s)) hint =
      (if usesBrokerAuth (account_settings (settled_section s)) then ad_broker ad (as_base (settled_section s)) hint else ad_local ad hint)"
  using assms settled_members(6) [of s] ready_local [of s]
  by (auto simp: ready_def reaches_broker_def authorize_def google_authorize_def settings_of_section has_credentials_def)

lemma flow_available:
  assumes "ready parse (settled_section s)" "has_credentials (settled_section s) \<Longrightarrow> as_secret (settled_section s) \<noteq> []"
  shows "OAuthAvailable (account_settings (settled_section s))"
  using assms settled_members(6,7) [of s] ready_local [of s]
  by (auto simp: ready_def reaches_broker_def OAuthAvailable_def settings_of_section has_credentials_def)

lemma github_flow:
  assumes "reaches_broker parse (account_settings (settled_section s)) \<and> as_base (settled_section s) \<noteq> [] \<or> as_mode (settled_section s) = ''local''"
  shows "ad_authorizer ad = None \<Longrightarrow> authorize ad (account_settings (settled_section s)) hint =
      (if usesBrokerAuth (account_settings (settled_section s)) then ad_broker ad (as_base (settled_section s)) hint
       else if as_client (settled_section s) \<noteq> '''' then ad_local ad hint else act_throw ErrOther)"
  using assms settled_members(6) [of s]
  by (auto simp: reaches_broker_def authorize_def settings_of_section)

text \<open>A value that is given in the environment is the one used; credentials only in local mode.\<close>

definition environment_used :: "machine \<Rightarrow> string \<Rightarrow> auth_section \<Rightarrow> bool" where
  "environment_used m p s \<longleftrightarrow>
     (let mode = mc_env m (''SHIET_'' @ p @ ''_AUTH_MODE''); base = mc_env m (''SHIET_'' @ p @ ''_BROKER_BASE_URL'');
          client = mc_env m (''SHIET_'' @ p @ ''_CLIENT_ID''); secret = mc_env m (''SHIET_'' @ p @ ''_CLIENT_SECRET'') in
      (trim_space mode \<noteq> '''' \<longrightarrow> as_mode s = to_lower (trim_space mode)) \<and> (base \<noteq> '''' \<longrightarrow> as_base s = trim_space base) \<and>
      (as_mode s \<noteq> ''broker'' \<longrightarrow> (client \<noteq> '''' \<longrightarrow> as_client s = trim_space client) \<and> (secret \<noteq> '''' \<longrightarrow> as_secret s = trim_space secret)))"

lemma environment_section: "environment_used m p (settled_section (section_over m p s))"
  by (auto simp: environment_used_def settled_section_def without_credentials_def resolved_section_def trimmed_section_def section_over_def over_def
      resolveAuthMode_def uses_broker_def equal_fold_def trim_lower Let_def)

text \<open>
  C4. What a configuration is good for once it has loaded, whatever the files and the environment
  hold. Each of the four integrations either goes to its broker, at an https address with a host and
  neither query nor fragment, and then holds no client and no secret, or it is in local mode. Google,
  Slack and Bitbucket can authorize: without an injected authorizer they start the flow of their mode
  and never refuse for want of settings. GitHub may be configured for personal access tokens only, in
  local mode without client and secret, and then refuses to authorize; otherwise it starts the flow
  of its mode as well. The log has a file and one of the known levels. And the environment has the
  last word: provided that the configuration library reads back the value that was set under a key
  and keeps the others (\<open>sets_settings\<close>), the paths, the level, the modes, the broker addresses and,
  in local mode, the credentials that are given in the environment are the ones used.
\<close>

theorem loaded_configuration:
  assumes "config_Load m ko parse = Inr c"
  shows "(\<forall>pv \<in> {google_settings c, account_settings (cf_github c), account_settings (cf_slack c), account_settings (cf_bitbucket c)}.
      reaches_broker parse pv \<or> pv_mode pv = ''local'') \<and>
    (\<forall>ad hint. ad_authorizer ad = None \<longrightarrow>
      google_authorize ad (google_settings c) hint =
        (if usesBrokerAuth (google_settings c) then ad_broker ad (as_base (cf_google c)) hint else ad_local ad hint) \<and>
      (\<forall>s \<in> {cf_slack c, cf_bitbucket c}. authorize ad (account_settings s) hint =
        (if usesBrokerAuth (account_settings s) then ad_broker ad (as_base s) hint else ad_local ad hint)) \<and>
      authorize ad (account_settings (cf_github c)) hint =
        (if usesBrokerAuth (account_settings (cf_github c)) then ad_broker ad (as_base (cf_github c)) hint
         else if as_client (cf_github c) \<noteq> '''' then ad_local ad hint else act_throw ErrOther)) \<and>
    (\<forall>s \<in> {cf_slack c, cf_bitbucket c}. OAuthAvailable (account_settings s)) \<and>
    (as_mode (cf_github c) = ''local'' \<longrightarrow> (as_client (cf_github c) = '''' \<longleftrightarrow> as_secret (cf_github c) = '''')) \<and>
    (cf_log c \<noteq> '''' \<and> cf_level c \<in> set [''trace'', ''debug'', ''info'', ''warn'', ''error'', ''fatal'', ''panic'', ''disabled'']) \<and>
    (sets_settings ko \<longrightarrow>
      (\<forall>(p, s) \<in> {(''GOOGLE'', cf_google c), (''GITHUB'', cf_github c), (''SLACK'', cf_slack c), (''BITBUCKET'', cf_bitbucket c)}. environment_used m p s) \<and>
      (mc_env m ''SHIET_DB'' \<noteq> '''' \<longrightarrow> expandHome m (mc_env m ''SHIET_DB'') = Some (cf_db c)) \<and>
      (mc_env m ''SHIET_LOG_PATH'' \<noteq> '''' \<longrightarrow> expandHome m (mc_env m ''SHIET_LOG_PATH'') = Some (cf_log c)) \<and>
      (mc_env m ''SHIET_LOG_LEVEL'' \<noteq> '''' \<longrightarrow> cf_level c = to_lower (trim_space (mc_env m ''SHIET_LOG_LEVEL''))))"
proof -
  obtain db log c0 where c0: "layers m ko db log (discoverConfigFiles m) = Some c0" and lv: "validateLog c = None"
    and paths: "expandHome m (cf_db c0) = Some (cf_db c)" "expandHome m (cf_log c0) = Some (cf_log c)" "cf_level c = to_lower (trim_space (cf_level c0))"
    and s: "cf_google c = settled_section (cf_google c0)" "cf_github c = settled_section (cf_github c0)"
      "cf_slack c = settled_section (cf_slack c0)" "cf_bitbucket c = settled_section (cf_bitbucket c0)"
    and v: "validate_google parse (cf_google c) = None" "validateGitHubAuth parse (cf_github c) = None"
      "validateSlackAuth parse (cf_slack c) = None" "validateBitbucketAuth parse (cf_bitbucket c) = None"
    using assms load_cases unfolding config_Load_def by metis
  note valid = section_valid(1) [OF v(1) [unfolded s]] section_valid(2) [OF v(2) [unfolded s]]
    section_valid(3) [OF v(3) [unfolded s]] section_valid(4) [OF v(4) [unfolded s]]
  note mode = settings_of_section(6) [OF s(1)]
  have ok: "ready parse (settled_section (cf_google c0))" "ready parse (settled_section (cf_slack c0))" "ready parse (settled_section (cf_bitbucket c0))"
    using valid unfolding ready_def by blast+
  have modes: "reaches_broker parse pv \<or> pv_mode pv = ''local''"
    if "pv \<in> {google_settings c, account_settings (cf_github c), account_settings (cf_slack c), account_settings (cf_bitbucket c)}" for pv
    using that valid unfolding s mode by (auto simp: has_credentials_def account_settings_def)
  have github: "reaches_broker parse (account_settings (settled_section (cf_github c0))) \<and> as_base (settled_section (cf_github c0)) \<noteq> [] \<or>
      as_mode (settled_section (cf_github c0)) = ''local''" using valid(2) by blast
  have available: "OAuthAvailable (account_settings s)" if "s \<in> {cf_slack c, cf_bitbucket c}" for s
    using that flow_available [OF ok(2)] flow_available [OF ok(3)] valid(3,4) ready_local unfolding s by (auto simp: reaches_broker_def)
  have pair: "as_mode (cf_github c) = ''local'' \<longrightarrow> (as_client (cf_github c) = '''' \<longleftrightarrow> as_secret (cf_github c) = '''')"
    using valid(2) unfolding s by (auto simp: reaches_broker_def settings_of_section)
  have level: "cf_log c \<noteq> ''''" "cf_level c \<in> set [''trace'', ''debug'', ''info'', ''warn'', ''error'', ''fatal'', ''panic'', ''disabled'']"
    using lv paths(3) by (auto simp: validateLog_def trim_lower split: if_splits)
  show ?thesis
  proof (intro conjI allI impI)
    fix ad :: adapters and hint assume none: "ad_authorizer ad = None"
    show "google_authorize ad (google_settings c) hint =
        (if usesBrokerAuth (google_settings c) then ad_broker ad (as_base (cf_google c)) hint else ad_local ad hint)"
      using flow_chosen(2) [OF ok(1) none] unfolding s mode by blast
    show "\<forall>s \<in> {cf_slack c, cf_bitbucket c}. authorize ad (account_settings s) hint =
        (if usesBrokerAuth (account_settings s) then ad_broker ad (as_base s) hint else ad_local ad hint)"
      using flow_chosen(1) [OF ok(2) none] flow_chosen(1) [OF ok(3) none] unfolding s by blast
    show "authorize ad (account_settings (cf_github c)) hint =
        (if usesBrokerAuth (account_settings (cf_github c)) then ad_broker ad (as_base (cf_github c)) hint
         else if as_client (cf_github c) \<noteq> '''' then ad_local ad hint else act_throw ErrOther)"
      using github_flow [OF github none] unfolding s by blast
  next
    assume ko: "sets_settings ko"
    then obtain c1 where c1: "c0 = overrides m c1" using layered [OF c0] by blast
    show "\<forall>(p, s) \<in> {(''GOOGLE'', cf_google c), (''GITHUB'', cf_github c), (''SLACK'', cf_slack c), (''BITBUCKET'', cf_bitbucket c)}. environment_used m p s"
      unfolding s c1 overrides_sections by (simp add: environment_section)
    show "expandHome m (mc_env m ''SHIET_DB'') = Some (cf_db c)" if "mc_env m ''SHIET_DB'' \<noteq> ''''"
      using paths(1) that unfolding c1 overrides_sections by (simp add: over_def)
    show "expandHome m (mc_env m ''SHIET_LOG_PATH'') = Some (cf_log c)" if "mc_env m ''SHIET_LOG_PATH'' \<noteq> ''''"
      using paths(2) that unfolding c1 overrides_sections by (simp add: over_def)
    show "cf_level c = to_lower (trim_space (mc_env m ''SHIET_LOG_LEVEL''))" if "mc_env m ''SHIET_LOG_LEVEL'' \<noteq> ''''"
      using paths(3) that unfolding c1 overrides_sections by (simp add: over_def)
  qed (use modes available pair level in \<open>blast+\<close>)
qed

text \<open>A machine with Slack credentials in its environment, and settings kept as the structure itself.\<close>

definition blank_section :: auth_section where
  "blank_section = \<lparr>as_mode = '''', as_base = '''', as_client = '''', as_secret = ''''\<rparr>"

definition sample_koanf :: "app_config koanf" where
  "sample_koanf = \<lparr>ko_new = \<lparr>cf_db = '''', cf_log = '''', cf_level = '''', cf_google = blank_section, cf_github = blank_section,
       cf_slack = blank_section, cf_bitbucket = blank_section\<rparr>,
     ko_load = (\<lambda>vs c. Some (fold (\<lambda>(key, v). set_setting key v) vs c)), ko_file = (\<lambda>_. Some), ko_set = set_setting, ko_config = Some\<rparr>"

definition sample_machine :: machine where
  "sample_machine = \<lparr>mc_env = (\<lambda>k. if k = ''SHIET_SLACK_CLIENT_ID'' then '' id '' else if k = ''SHIET_SLACK_CLIENT_SECRET'' then ''secret''
       else if k = ''SHIET_GITHUB_AUTH_MODE'' then ''LOCAL'' else if k = ''SHIET_LOG_PATH'' then ''~/log'' else ''''),
     mc_config_dir = Some ''/c'', mc_home = Some ''/h/../home/'', mc_cwd = None, mc_exists = (\<lambda>_. False)\<rparr>"

definition secure_url :: url where
  "secure_url = \<lparr>ul_scheme = ''https'', ul_user = False, ul_host = ''auth.shiet.app'', ul_hostname = ''auth.shiet.app'', ul_path = '''', ul_query = '''', ul_fragment = ''''\<rparr>"

lemma sample_sets: "sets_settings sample_koanf"
  by (simp add: sets_settings_def sample_koanf_def)

lemma sample_loads: "\<exists>c. config_Load sample_machine sample_koanf (\<lambda>_. Some secure_url) = Inr c \<and>
    cf_db c = ''/c/shiet/shiet.db'' \<and> cf_log c = ''/home/log'' \<and> as_mode (cf_slack c) = ''local'' \<and> as_mode (cf_google c) = ''broker''"
proof -
  have "(case config_Load sample_machine sample_koanf (\<lambda>_. Some secure_url) of Inl _ \<Rightarrow> False | Inr c \<Rightarrow>
    cf_db c = ''/c/shiet/shiet.db'' \<and> cf_log c = ''/home/log'' \<and> as_mode (cf_slack c) = ''local'' \<and> as_mode (cf_google c) = ''broker'')"
    by code_simp
  then show ?thesis by (auto split: sum.splits)
qed

theorem loaded_configuration_witness:
  "\<exists>c. config_Load sample_machine sample_koanf (\<lambda>_. Some secure_url) = Inr c \<and> OAuthAvailable (account_settings (cf_slack c)) \<and>
     reaches_broker (\<lambda>_. Some secure_url) (google_settings c) \<and> as_mode (cf_github c) = ''local''"
proof -
  obtain c where c: "config_Load sample_machine sample_koanf (\<lambda>_. Some secure_url) = Inr c" "as_mode (cf_google c) = ''broker''"
    using sample_loads by blast
  have env: "mc_env sample_machine (''SHIET_'' @ ''GITHUB'' @ ''_AUTH_MODE'') = ''LOCAL''" "trim_space ''LOCAL'' = ''LOCAL''" "to_lower ''LOCAL'' = ''local''"
    by code_simp+
  note t = loaded_configuration [OF c(1)]
  have "environment_used sample_machine ''GITHUB'' (cf_github c)"
    using t [THEN conjunct2, THEN conjunct2, THEN conjunct2, THEN conjunct2, THEN conjunct2, rule_format, OF sample_sets, THEN conjunct1] by simp
  then have "as_mode (cf_github c) = ''local''" using env by (simp add: environment_used_def Let_def)
  moreover have "pv_mode (google_settings c) = ''broker''" using c(2) by (simp add: google_settings_def Let_def)
  then have "reaches_broker (\<lambda>_. Some secure_url) (google_settings c)" using t [THEN conjunct1] by force
  moreover have "OAuthAvailable (account_settings (cf_slack c))" using t [THEN conjunct2, THEN conjunct2, THEN conjunct1] by blast
  ultimately show ?thesis using c(1) by blast
qed

end
