(* ===== verification/Logging.thy ===== *)
theory Logging
  imports Json
begin

text \<open>
  The log (internal/log): the redaction of a line before it is written, and the fixed codes that
  stand for errors. A line is its JSON value, or none; files and levels are not modelled.
\<close>


section \<open>redact.go\<close>

abbreviation (input) Redacted :: string where "Redacted \<equiv> ''[redacted]''"

definition sensitiveAttrNames :: "string list" where
  "sensitiveAttrNames = [''access_token'', ''refresh_token'', ''client_secret'', ''handoff_code'', ''authorization'', ''authorization_code'',
     ''code'', ''token'', ''pkce_verifier'', ''handoff_verifier'', ''encrypted_token_payload'']"

definition SensitiveKey :: "string \<Rightarrow> bool" where
  "SensitiveKey key \<longleftrightarrow> (let key = to_lower (trim_space key) in
     key \<in> set sensitiveAttrNames \<or> has_suffix ''_token'' key \<or> has_suffix ''_secret'' key)"

definition LooksLikeSecret :: "string \<Rightarrow> bool" where
  "LooksLikeSecret v \<longleftrightarrow> (let v = trim_space v; lower = to_lower v in
     20 \<le> length v \<and> (has_prefix ''ya29.'' lower \<or> has_prefix ''1//'' lower))"

definition ShouldRedact :: "string \<Rightarrow> string \<Rightarrow> bool" where
  "ShouldRedact key v \<longleftrightarrow> SensitiveKey key \<or> LooksLikeSecret v"

text \<open>
  A member as a string; null reads as the empty one. The object is decoded into a map, so that of two
  members with one name the last one counts, and is encoded with its names in order. A line in which
  nothing is to be redacted is written as it came.
\<close>

definition redact_member :: "string \<times> json \<Rightarrow> string \<times> json" where
  "redact_member m = (case read_text (snd m) '''' of
      Some s \<Rightarrow> if ShouldRedact (fst m) s then (fst m, JStr Redacted) else m
    | None \<Rightarrow> m)"

definition to_redact :: "string \<times> json \<Rightarrow> bool" where
  "to_redact m \<longleftrightarrow> (case read_text (snd m) '''' of Some s \<Rightarrow> ShouldRedact (fst m) s | None \<Rightarrow> False)"

definition decoded_members :: "(string \<times> json) list \<Rightarrow> (string \<times> json) list" where
  "decoded_members kvs = map (\<lambda>k. (k, the (map_of (rev kvs) k))) (remdups (map fst kvs))"

definition RedactJSONLine :: "json option \<Rightarrow> json option" where
  "RedactJSONLine line = (case line of
      Some (JObj kvs) \<Rightarrow> if list_ex to_redact (decoded_members kvs)
        then Some (JObj (sort_key fst (map redact_member (decoded_members kvs)))) else line
    | _ \<Rightarrow> line)"

text \<open>\<open>redactingWriter.Write\<close>: the lines written so far, whether the writer below fails, and the length that is reported.\<close>

definition redacting_Write :: "(json option \<Rightarrow> bool) \<Rightarrow> json option \<Rightarrow> json option list \<Rightarrow> bool \<times> json option list" where
  "redacting_Write fails line out = (let r = RedactJSONLine line in if fails r then (False, out) else (True, out @ [r]))"


section \<open>reason.go\<close>

text \<open>What \<open>Reason\<close> looks at: the kinds of the error in its chain, and its text.\<close>

record failure_info =
  fi_network :: bool
  fi_deadline :: bool
  fi_canceled :: bool
  fi_text :: string

definition containsAny :: "string \<Rightarrow> string list \<Rightarrow> bool" where
  "containsAny msg needles \<longleftrightarrow> list_ex (\<lambda>n. contains n msg) needles"

abbreviation (input) ReasonUnauthorized :: string where "ReasonUnauthorized \<equiv> ''unauthorized''"
abbreviation (input) ReasonForbidden :: string where "ReasonForbidden \<equiv> ''forbidden''"
abbreviation (input) ReasonNotFound :: string where "ReasonNotFound \<equiv> ''not_found''"
abbreviation (input) ReasonRateLimited :: string where "ReasonRateLimited \<equiv> ''rate_limited''"
abbreviation (input) ReasonNetwork :: string where "ReasonNetwork \<equiv> ''network''"
abbreviation (input) ReasonInvalidConfig :: string where "ReasonInvalidConfig \<equiv> ''invalid_config''"
abbreviation (input) ReasonUnknown :: string where "ReasonUnknown \<equiv> ''unknown''"

definition reason_of_text :: "string \<Rightarrow> string" where
  "reason_of_text msg =
     (if containsAny msg [''rate_limited'', ''rate limit'', ''too many requests'', '' 429 '', ''429 '', '': 429''] then ReasonRateLimited
      else if containsAny msg [''unauthorized'', ''invalid_grant'', ''invalid personal access token'', ''invalid github oauth token'',
          ''invalid slack oauth token'', ''invalid bitbucket oauth token'', ''bad credentials'', ''needs re-authentication'', ''needs reauth'',
          '' 401 '', ''401 '', '': 401''] then ReasonUnauthorized
      else if containsAny msg [''forbidden'', '' 403 '', ''403 '', '': 403''] then ReasonForbidden
      else if containsAny msg [''not configured'', ''is required'', ''invalid_config'', ''missing required''] then ReasonInvalidConfig
      else if containsAny msg [''not found'', '' 404 '', ''404 '', '': 404''] then ReasonNotFound
      else if containsAny msg [''connection refused'', ''connection reset'', ''no such host'', ''i/o timeout'', ''tls handshake'', ''dial tcp'',
          ''network is unreachable'', ''temporary failure in name resolution''] then ReasonNetwork
      else ReasonUnknown)"

definition Reason :: "failure_info option \<Rightarrow> string" where
  "Reason err = (case err of None \<Rightarrow> ReasonUnknown
    | Some e \<Rightarrow> if fi_network e \<or> fi_deadline e then ReasonNetwork
        else if fi_canceled e then ReasonUnknown else reason_of_text (to_lower (fi_text e)))"

text \<open>\<open>App.logErr\<close>: the line of a failed operation names the operation and the code.\<close>

definition logErr :: "string \<Rightarrow> failure_info option \<Rightarrow> json option list \<Rightarrow> json option list" where
  "logErr operation err out = (case err of None \<Rightarrow> out
    | Some e \<Rightarrow> snd (redacting_Write (\<lambda>_. False) (Some (JObj [(''level'', JStr ''error''), (''op'', JStr operation),
        (''reason'', JStr (Reason (Some e))), (''message'', JStr ''operation failed'')])) out))"


section \<open>What is written\<close>

lemma decoded_distinct: "distinct (map fst (decoded_members kvs))"
  by (simp add: decoded_members_def comp_def)

lemma decoded_same:
  assumes "distinct (map fst kvs)"
  shows "set (decoded_members kvs) = set kvs"
proof -
  have "distinct (map fst (rev kvs))" using assms by (metis distinct_rev rev_map)
  then have found: "map_of (rev kvs) k = Some v \<longleftrightarrow> (k, v) \<in> set kvs" for k v by simp
  have "m \<in> set (decoded_members kvs) \<longleftrightarrow> fst m \<in> fst ` set kvs \<and> snd m = the (map_of (rev kvs) (fst m))" for m
    by (cases m) (auto simp: decoded_members_def)
  moreover have "fst m \<in> fst ` set kvs \<and> snd m = the (map_of (rev kvs) (fst m)) \<longleftrightarrow> m \<in> set kvs" for m
    using found by (cases m) (metis (no_types, lifting) fst_conv image_iff option.sel prod.collapse snd_conv)
  ultimately show ?thesis by blast
qed

lemma redacted_clean: "\<not> to_redact (redact_member m) \<or> redact_member m = (fst m, JStr Redacted)"
  by (auto simp: to_redact_def redact_member_def split: option.splits)

text \<open>
  In what is written of an object, no member that holds a text to be redacted is left with another
  text than the mark, as long as the names of the members are different.
\<close>

lemma written_is_clean:
  assumes "distinct (map fst kvs)" "RedactJSONLine (Some (JObj kvs)) = Some (JObj out)" "m \<in> set out" "to_redact m"
  shows "snd m = JStr Redacted"
proof (cases "list_ex to_redact (decoded_members kvs)")
  case True
  then obtain m0 where "m = redact_member m0" using assms(2,3) by (auto simp: RedactJSONLine_def)
  then show ?thesis using redacted_clean [of m0] assms(4) by auto
next
  case False
  then have "out = kvs" using assms(2) by (simp add: RedactJSONLine_def)
  then show ?thesis using False assms(1,3,4) decoded_same by (auto simp: list_ex_iff)
qed

text \<open>Two members with one name: the first one, a token, is written as it is.\<close>

lemma duplicate_leaks:
  "let token = ''ya29.abcdefghijklmnop''; line = Some (JObj [(''detail'', JStr token), (''detail'', JStr ''ok'')])
   in to_redact (''detail'', JStr token) \<and> RedactJSONLine line = line"
  by code_simp

end
