(* ===== verification/Chat.thy ===== *)
theory Chat
  imports Activity
begin

text \<open>
  The clients of chat models (internal/ai: chat.go, client.go, anthropic.go, classify.go, discover.go,
  and the prompt of categorize.go) and the settings of the service that use them
  (internal/service/ai.go and ai_secrets.go). The state is that of the integrations; the text of a
  JSON value, URLs and IP addresses are parameters. The texts of errors are not modelled.
\<close>


section \<open>Endpoints\<close>

text \<open>\<open>URL.Port\<close>: what follows the last colon of the host, outside the brackets of an address, if it is digits.\<close>

definition url_port :: "url \<Rightarrow> string" where
  "url_port u = (let h = ul_host u; tail = rev (takeWhile (\<lambda>c. c \<noteq> CHR '':'') (rev h)) in
     if CHR '':'' \<in> set h \<and> list_all is_digit tail then tail else '''')"

text \<open>Whether a host is an IP address, and if so whether it is a loopback, private or link-local one.\<close>

type_synonym ip_classes = "string \<Rightarrow> bool option"

definition isLoopback :: "string \<Rightarrow> bool" where
  "isLoopback host \<longleftrightarrow> host \<in> set [''localhost'', ''127.0.0.1'', ''::1'']"

definition ClassifyEndpoint :: "url_parser \<Rightarrow> ip_classes \<Rightarrow> string \<Rightarrow> bool" where
  "ClassifyEndpoint parse ip raw =
     (case parse (trim_space raw) of None \<Rightarrow> False
      | Some u \<Rightarrow> let host = to_lower (ul_hostname u) in
          if ul_host u = '''' \<or> host = '''' then False
          else if isLoopback host \<or> has_suffix ''.local'' host then True
          else case ip host of Some near \<Rightarrow> near | None \<Rightarrow> url_port u = ''11434'' \<or> url_port u = ''1234'')"

definition IsAnthropicEndpoint :: "url_parser \<Rightarrow> string \<Rightarrow> bool" where
  "IsAnthropicEndpoint parse base =
     (let base = trim_space base in
      if base = '''' then False
      else case parse base of None \<Rightarrow> contains ''anthropic.com'' (to_lower base)
      | Some u \<Rightarrow> (let host = to_lower (ul_hostname u) in host = ''api.anthropic.com'' \<or> has_suffix ''.anthropic.com'' host))"


section \<open>Clients\<close>

abbreviation (input) DefaultMaxTokens :: int where "DefaultMaxTokens \<equiv> 512"
abbreviation (input) anthropicVersion :: string where "anthropicVersion \<equiv> ''2023-06-01''"

text \<open>Both kinds of client have a base address and a key.\<close>

datatype chat_client = OpenAI string string | Anthropic string string

definition NewClient :: "string \<Rightarrow> string \<Rightarrow> chat_client" where
  "NewClient base key = OpenAI (trim_right (CHR ''/'') (trim_space base)) (trim_space key)"

definition NewAnthropicClient :: "string \<Rightarrow> string \<Rightarrow> chat_client" where
  "NewAnthropicClient base key =
     (let base = trim_right (CHR ''/'') (trim_space base) in
      Anthropic (if base = '''' then ''https://api.anthropic.com'' else base) (trim_space key))"

definition NewChatClient :: "url_parser \<Rightarrow> string \<Rightarrow> string \<Rightarrow> chat_client" where
  "NewChatClient parse base key = (if IsAnthropicEndpoint parse base then NewAnthropicClient base key else NewClient base key)"

text \<open>The request with the headers of the client; a request with a body says that it is JSON.\<close>

fun chat_request :: "chat_client \<Rightarrow> string \<Rightarrow> string \<Rightarrow> request_body \<Rightarrow> http_request" where
  "chat_request (OpenAI base key) method path body = \<lparr>hq_method = method, hq_url = base @ path,
     hq_auth = (if key \<noteq> '''' then Bearer key else NoAuth),
     hq_headers = (if body = NoBody then [] else [(''Content-Type'', ''application/json'')]), hq_body = body\<rparr>"
| "chat_request (Anthropic base key) method path body = \<lparr>hq_method = method, hq_url = base @ path, hq_auth = NoAuth,
     hq_headers = (if body = NoBody then [] else [(''Content-Type'', ''application/json'')]) @
       (if key \<noteq> '''' then [(''x-api-key'', key)] else []) @ [(''anthropic-version'', anthropicVersion)], hq_body = body\<rparr>"

text \<open>The first JSON value of the body of a successful answer.\<close>

definition chat_call :: "remote \<Rightarrow> http_request \<Rightarrow> (desk, json) act" where
  "chat_call rm req = act_bind (send rm req) (\<lambda>r.
     if \<not> ok_status (hr_status r) then act_throw ErrOther else act_the ErrOther (hr_json r))"

definition read_ids :: "json \<Rightarrow> string list option" where
  "read_ids j = read_object (\<lambda>k v ids. if k = ''data'' then read_slice (read_object (\<lambda>k v s. if k = ''id'' then read_text v s else Some s)) '''' v ids
     else Some ids) j []"

fun models_path :: "chat_client \<Rightarrow> string" where
  "models_path (OpenAI _ _) = ''/models''" | "models_path (Anthropic _ _) = ''/v1/models''"

definition ListModels :: "remote \<Rightarrow> chat_client \<Rightarrow> (desk, string list) act" where
  "ListModels rm c = act_bind (chat_call rm (chat_request c ''GET'' (models_path c) NoBody)) (\<lambda>j.
     act_bind (act_the ErrOther (read_ids j)) (\<lambda>ids. act_ret (filter (\<lambda>i. i \<noteq> '''') ids)))"

definition chat_message :: "string \<Rightarrow> string \<Rightarrow> json" where
  "chat_message role text = JObj [(''role'', JStr role), (''content'', JStr text)]"

text \<open>\<open>chatResponse\<close>: the contents of the choices; \<open>anthropicMessageResponse\<close>: the texts of the blocks.\<close>

definition read_choices :: "json \<Rightarrow> string list option" where
  "read_choices j = read_object (\<lambda>k v xs. if k = ''choices'' then
       read_slice (read_object (\<lambda>k v s. if k = ''message'' then
         read_object (\<lambda>k v s. if k = ''content'' then read_text v s else Some s) v s else Some s)) '''' v xs
     else Some xs) j []"

definition read_blocks :: "json \<Rightarrow> string list option" where
  "read_blocks j = map_option (map snd) (read_object (\<lambda>k v xs. if k = ''content'' then
       read_slice (read_object (\<lambda>k v p. if k = ''type'' then map_option (\<lambda>x. (x, snd p)) (read_text v (fst p))
         else if k = ''text'' then map_option (\<lambda>x. (fst p, x)) (read_text v (snd p)) else Some p)) ('''', '''') v xs
     else Some xs) j [])"

text \<open>The budget of tokens is left out when it is zero, which it never is; so is an empty system prompt.\<close>

definition openai_body :: "string \<Rightarrow> json list \<Rightarrow> int \<Rightarrow> json" where
  "openai_body model messages tokens = JObj ([(''model'', JStr model), (''messages'', JList messages)] @
     (if tokens = 0 then [] else [(''max_tokens'', JInt tokens)]))"

definition anthropic_body :: "string \<Rightarrow> string \<Rightarrow> string \<Rightarrow> int \<Rightarrow> json" where
  "anthropic_body model system user tokens = JObj ([(''model'', JStr model), (''max_tokens'', JInt tokens)] @
     (if system = '''' then [] else [(''system'', JStr system)]) @ [(''messages'', JList [chat_message ''user'' user])])"

definition first_choice :: "json \<Rightarrow> string option" where
  "first_choice j = Option.bind (read_choices j) (\<lambda>xs. case xs of [] \<Rightarrow> None | x # _ \<Rightarrow> Some x)"

definition token_budget :: "int \<Rightarrow> int" where
  "token_budget tokens = (if tokens \<le> 0 then DefaultMaxTokens else tokens)"

fun completion_request :: "chat_client \<Rightarrow> string \<Rightarrow> string \<Rightarrow> string \<Rightarrow> int \<Rightarrow> http_request" where
  "completion_request (OpenAI base key) model system user tokens = chat_request (OpenAI base key) ''POST'' ''/chat/completions''
     (JsonBody (openai_body model [chat_message ''system'' system, chat_message ''user'' user] (token_budget tokens)))"
| "completion_request (Anthropic base key) model system user tokens = chat_request (Anthropic base key) ''POST'' ''/v1/messages''
     (JsonBody (anthropic_body model system user (token_budget tokens)))"

text \<open>The first choice, or the first block that is not blank.\<close>

fun completion_reply :: "chat_client \<Rightarrow> json \<Rightarrow> string option" where
  "completion_reply (OpenAI _ _) j = map_option trim_space (first_choice j)"
| "completion_reply (Anthropic _ _) j = Option.bind (read_blocks j) (\<lambda>xs. map_option trim_space (find (\<lambda>x. trim_space x \<noteq> '''') xs))"

definition ChatCompletion :: "remote \<Rightarrow> chat_client \<Rightarrow> string \<Rightarrow> string \<Rightarrow> string \<Rightarrow> int \<Rightarrow> (desk, string) act" where
  "ChatCompletion rm c model system user tokens =
     act_bind (chat_call rm (completion_request c model system user tokens)) (\<lambda>j. act_the ErrOther (completion_reply c j))"

definition validationReplyOK :: "string \<Rightarrow> bool" where
  "validationReplyOK content =
     (let trimmed = trim_space content; cut = dropWhile (\<lambda>c. c \<in> {CHR 0x22, CHR 0x27}) in
      trimmed \<noteq> '''' \<and> trim_space (rev (cut (rev (cut trimmed)))) \<noteq> '''')"

fun ValidateModel :: "remote \<Rightarrow> chat_client \<Rightarrow> string \<Rightarrow> (desk, unit) act" where
  "ValidateModel rm (OpenAI base key) model =
     act_bind (chat_call rm (chat_request (OpenAI base key) ''POST'' ''/chat/completions''
         (JsonBody (openai_body model [chat_message ''user'' ''Hi''] 32)))) (\<lambda>j.
       act_bind (act_the ErrOther (first_choice j)) (\<lambda>x. if validationReplyOK x then act_ret () else act_throw ErrOther))"
| "ValidateModel rm (Anthropic base key) model = act_seq (ChatCompletion rm (Anthropic base key) model '''' ''Hi'' 32) (act_ret ())"


section \<open>Discovery\<close>

record ai_endpoint =
  ep_name :: string
  ep_base :: string
  ep_local :: bool
  ep_running :: bool
  ep_models :: "string list"

definition knownLocalEndpoints :: "(string \<times> string) list" where
  "knownLocalEndpoints = [(''Ollama'', ''http://127.0.0.1:11434/v1''), (''LM Studio'', ''http://127.0.0.1:1234/v1'')]"

text \<open>The probes run side by side in the code; here they run in the order of the list.\<close>

definition probe_endpoint :: "remote \<Rightarrow> url_parser \<Rightarrow> ip_classes \<Rightarrow> string \<times> string \<Rightarrow> (desk, ai_endpoint) act" where
  "probe_endpoint rm parse ip c = (\<lambda>s.
     let ep = \<lparr>ep_name = fst c, ep_base = snd c, ep_local = ClassifyEndpoint parse ip (snd c), ep_running = False, ep_models = []\<rparr>
     in case ListModels rm (NewClient (snd c) '''') s of
       (Inl _, t) \<Rightarrow> (Inr ep, t)
     | (Inr models, t) \<Rightarrow> (Inr (ep\<lparr>ep_running := True, ep_models := models\<rparr>), t))"

primrec probe_all :: "remote \<Rightarrow> url_parser \<Rightarrow> ip_classes \<Rightarrow> (string \<times> string) list \<Rightarrow> (desk, ai_endpoint list) act" where
  "probe_all rm parse ip [] = act_ret []"
| "probe_all rm parse ip (c # cs) = act_bind (probe_endpoint rm parse ip c) (\<lambda>e. act_bind (probe_all rm parse ip cs) (\<lambda>es. act_ret (e # es)))"

definition DiscoverLocalEndpoints :: "remote \<Rightarrow> url_parser \<Rightarrow> ip_classes \<Rightarrow> (desk, ai_endpoint list) act" where
  "DiscoverLocalEndpoints rm parse ip = probe_all rm parse ip knownLocalEndpoints"


section \<open>The key in the keychain\<close>

abbreviation (input) aiSecretProvider :: string where "aiSecretProvider \<equiv> ''ai''"
abbreviation (input) aiSecretAccountID :: string where "aiSecretAccountID \<equiv> ''default''"

text \<open>The keychain may not be there (\<open>None\<close>).\<close>

definition SaveAIAPIKey :: "remote option \<Rightarrow> string \<Rightarrow> (desk, unit) act" where
  "SaveAIAPIKey store key =
     (if trim_space key = '''' then act_throw ErrOther
      else case store of None \<Rightarrow> act_throw ErrOther
      | Some rm \<Rightarrow> store_Set rm aiSecretProvider aiSecretAccountID
          \<lparr>tk_access = trim_space key, tk_type = ''Bearer'', tk_refresh = '''', tk_expiry = zero_time, tk_source = ''''\<rparr>)"

definition ClearAIAPIKey :: "remote option \<Rightarrow> (desk, unit) act" where
  "ClearAIAPIKey store = (case store of None \<Rightarrow> act_ret () | Some rm \<Rightarrow> store_Delete rm aiSecretProvider aiSecretAccountID)"

definition loadAIAPIKey :: "remote option \<Rightarrow> desk \<Rightarrow> string" where
  "loadAIAPIKey store s = (case store of None \<Rightarrow> ''''
    | Some rm \<Rightarrow> (case store_Get rm aiSecretProvider aiSecretAccountID s of (Inl _, _) \<Rightarrow> '''' | (Inr t, _) \<Rightarrow> trim_space (tk_access t)))"

definition HasAIAPIKey :: "remote option \<Rightarrow> desk \<Rightarrow> bool" where
  "HasAIAPIKey store s \<longleftrightarrow> loadAIAPIKey store s \<noteq> ''''"

definition resolveAIAPIKey :: "remote option \<Rightarrow> string \<Rightarrow> desk \<Rightarrow> string" where
  "resolveAIAPIKey store provided s = (if trim_space provided \<noteq> '''' then trim_space provided else loadAIAPIKey store s)"

definition loadAIChatClient :: "remote option \<Rightarrow> url_parser \<Rightarrow> string \<Rightarrow> string \<Rightarrow> desk \<Rightarrow> chat_client" where
  "loadAIChatClient store parse base provided s = NewChatClient parse base (resolveAIAPIKey store provided s)"


section \<open>The service\<close>

definition ListAIModels :: "remote \<Rightarrow> remote option \<Rightarrow> url_parser \<Rightarrow> string \<Rightarrow> string \<Rightarrow> (desk, string list) act" where
  "ListAIModels rm store parse base key = act_bind (act_gets (loadAIChatClient store parse base key)) (\<lambda>c. ListModels rm c)"

text \<open>\<open>ValidationResult\<close> without its texts: whether it went well, and whether the endpoint is near.\<close>

definition ValidateAIConfig ::
    "remote \<Rightarrow> remote option \<Rightarrow> url_parser \<Rightarrow> ip_classes \<Rightarrow> string \<Rightarrow> string \<Rightarrow> string \<Rightarrow> (desk, bool \<times> bool) act" where
  "ValidateAIConfig rm store parse ip base key model =
     (let near = ClassifyEndpoint parse ip base in
      if trim_space base = '''' \<or> trim_space model = '''' then act_ret (False, near)
      else act_bind (act_gets (loadAIChatClient store parse base key)) (\<lambda>c.
        act_seq (ValidateModel rm c model) (act_ret (True, near))))"

definition SaveAIEndpoint :: "string \<Rightarrow> (db, unit) act" where
  "SaveAIEndpoint base = (if trim_space base = '''' then act_throw ErrOther else q_SetSetting ''ai.base_url'' (JStr (trim_space base)))"

definition SaveAIModel :: "string \<Rightarrow> (db, unit) act" where
  "SaveAIModel model = (if trim_space model = '''' then act_throw ErrOther else q_SetSetting ''ai.model'' (JStr (trim_space model)))"

definition SaveAIConfig :: "string \<Rightarrow> string \<Rightarrow> (db, unit) act" where
  "SaveAIConfig base model =
     (if trim_space base = '''' \<or> trim_space model = '''' then act_throw ErrOther
      else act_seq (SaveAIEndpoint (trim_space base)) (SaveAIModel (trim_space model)))"


section \<open>The prompt\<close>

definition definition_json :: "category_definition \<Rightarrow> json" where
  "definition_json c = JObj ([(''key'', JStr (cd_key c)), (''name'', JStr (cd_name c))] @
     (if cd_description c = '''' then [] else [(''description'', JStr (cd_description c))]))"

text \<open>Members that are empty are left out, but the title.\<close>

definition optional_text :: "string \<Rightarrow> string \<Rightarrow> (string \<times> json) list" where
  "optional_text k v = (if v = '''' then [] else [(k, JStr v)])"

definition context_json :: "event_context \<Rightarrow> json" where
  "context_json e = JObj ((''title'', JStr (ec_title e)) # optional_text ''description'' (ec_description e) @
     optional_text ''location'' (ec_location e) @ optional_text ''organizer'' (ec_organizer e) @
     (if ec_domains e = [] then [] else [(''attendeeDomains'', JList (map JStr (ec_domains e)))]) @ optional_text ''duration'' (ec_duration e))"

abbreviation (input) category_instructions :: string where
  "category_instructions \<equiv> ''You categorize calendar events for a timesheet app. Reply with exactly one category key from the provided list and nothing else.''"

definition category_prompt :: "(json \<Rightarrow> string) \<Rightarrow> category_definition list \<Rightarrow> event_context \<Rightarrow> string" where
  "category_prompt marshal cs e = ''Categories: '' @ marshal (JList (map definition_json cs)) @ [CHR 0x0A] @ ''Event: '' @
     marshal (context_json e) @ [CHR 0x0A] @ ''Category key:''"

text \<open>Asking the model for a category: the question of Suggest, put to the client of the settings.\<close>

definition ask_category ::
    "remote \<Rightarrow> remote option \<Rightarrow> url_parser \<Rightarrow> (json \<Rightarrow> string) \<Rightarrow> string \<Rightarrow> string \<Rightarrow> int \<Rightarrow> category_definition list \<Rightarrow> event_context \<Rightarrow>
       (desk, string) act" where
  "ask_category rm store parse marshal url model tokens cs e =
     act_bind (act_gets (loadAIChatClient store parse url '''')) (\<lambda>c.
       ChatCompletion rm c model category_instructions (category_prompt marshal cs e) tokens)"

end
