(* ===== verification/Chat_Properties.thy ===== *)
theory Chat_Properties
  imports Chat Samples
begin

text \<open>
  Properties of the chat clients: what is sent, where it goes and what comes of it, from the saved
  settings to the category that is suggested.
\<close>


section \<open>A call\<close>




section \<open>Settings read back\<close>






section \<open>From the settings to the suggestion\<close>










text \<open>A host anywhere counts as on the device when its port is one of those of the local runtimes.\<close>

lemma remote_port_is_near:
  "ClassifyEndpoint (\<lambda>_. Some \<lparr>ul_scheme = ''http'', ul_user = False, ul_host = ''models.example.com:1234'', ul_hostname = ''models.example.com'',
     ul_path = ''/v1'', ul_query = '''', ul_fragment = ''''\<rparr>) (\<lambda>_. None) ''http://models.example.com:1234/v1''"
  by code_simp











end
