(* ===== verification/Views.thy ===== *)
theory Views
  imports Decisions Export Gapfill Activity
begin

text \<open>
  What the service and the API show: the types and converters of internal/service/types.go, and the
  converters to messages of internal/api/appapi. A row whose columns are all shown as they are
  (segments, calendars, repositories, channels, workspaces, templates) is its own view. A message
  carries the whole numbers of a view in 32 bits.
\<close>

definition int32 :: "int \<Rightarrow> int" where
  "int32 n = (n + 2 ^ 31) mod 2 ^ 32 - 2 ^ 31"

lemma int32_small: "- (2 ^ 31) \<le> n \<Longrightarrow> n < 2 ^ 31 \<Longrightarrow> int32 n = n"
  by (simp add: int32_def)


section \<open>types.go\<close>

record category_view =
  vc_id :: int
  vc_name :: string
  vc_description :: string
  vc_key :: string
  vc_color :: string
  vc_gap :: bool
  vc_archived :: bool
  vc_in_use :: bool

definition toCategory :: "category \<Rightarrow> category_view" where
  "toCategory r = \<lparr>vc_id = ct_id r, vc_name = ct_name r, vc_description = ct_description r, vc_key = ct_key r, vc_color = ct_color r,
     vc_gap = ct_default_gap r, vc_archived = (ct_archived r \<noteq> None), vc_in_use = False\<rparr>"

record project_view =
  vp_id :: int
  vp_name :: string
  vp_key :: string
  vp_color :: string
  vp_archived :: bool
  vp_in_use :: bool

definition toProject :: "project \<Rightarrow> project_view" where
  "toProject r = \<lparr>vp_id = pj_id r, vp_name = pj_name r, vp_key = pj_key r, vp_color = (case pj_color r of None \<Rightarrow> '''' | Some c \<Rightarrow> c),
     vp_archived = (pj_archived r \<noteq> None), vp_in_use = False\<rparr>"

record period_view =
  vd_id :: int
  vd_start :: string
  vd_end :: string
  vd_cadence :: string
  vd_anchor :: string
  vd_synced :: "instant option"

definition toPeriod :: "period \<Rightarrow> period_view" where
  "toPeriod r = \<lparr>vd_id = pd_id r, vd_start = pd_start r, vd_end = pd_end r, vd_cadence = pd_cadence r, vd_anchor = pd_anchor r,
     vd_synced = parseTimePtr (pd_synced r)\<rparr>"

text \<open>
  \<open>parseAttendees\<close>; \<open>parse\<close> reads the JSON of a text. A member of another type is skipped and the rest
  is read, so that what can be read is shown.
\<close>

definition lenient_member :: "(json \<Rightarrow> 'a \<Rightarrow> 'a option) \<Rightarrow> json \<Rightarrow> 'a \<Rightarrow> 'a" where
  "lenient_member read j old = (case read j old of None \<Rightarrow> old | Some x \<Rightarrow> x)"

definition lenient_attendee :: "json \<Rightarrow> attendee" where
  "lenient_attendee j =
     (let zero = \<lparr>at_email = '''', at_name = '''', at_response = '''', at_organizer = False, at_self = False\<rparr> in
      case j of JObj kvs \<Rightarrow> fold (\<lambda>(k, v) r. let k = to_lower k in
          if k = ''email'' then r\<lparr>at_email := lenient_member read_text v (at_email r)\<rparr>
          else if k = ''displayname'' then r\<lparr>at_name := lenient_member read_text v (at_name r)\<rparr>
          else if k = ''responsestatus'' then r\<lparr>at_response := lenient_member read_text v (at_response r)\<rparr>
          else if k = ''organizer'' then r\<lparr>at_organizer := lenient_member read_flag v (at_organizer r)\<rparr>
          else if k = ''self'' then r\<lparr>at_self := lenient_member read_flag v (at_self r)\<rparr>
          else r) kvs zero
      | _ \<Rightarrow> zero)"

definition parseAttendees :: "(string \<Rightarrow> json option) \<Rightarrow> string \<Rightarrow> attendee list" where
  "parseAttendees parse s =
     (if s = '''' \<or> s = ''[]'' then []
      else case parse s of Some (JList js) \<Rightarrow> map lenient_attendee js | _ \<Rightarrow> [])"

record event_view =
  ve_id :: int
  ve_period :: int
  ve_calendar :: int
  ve_provider :: string
  ve_external :: string
  ve_instance :: string
  ve_recurring :: string
  ve_ical :: string
  ve_title :: string
  ve_description :: string
  ve_location :: string
  ve_organizer :: string
  ve_attendees :: "attendee list"
  ve_status :: string
  ve_all_day :: bool
  ve_start :: "instant option"
  ve_end :: "instant option"
  ve_start_date :: string
  ve_end_date :: string
  ve_tz :: string
  ve_active :: bool

definition toEvent :: "(string \<Rightarrow> json option) \<Rightarrow> event \<Rightarrow> event_view" where
  "toEvent parse r = \<lparr>ve_id = ev_id r, ve_period = ev_period r, ve_calendar = ev_calendar r, ve_provider = ev_provider r,
     ve_external = ev_external r, ve_instance = ev_instance r, ve_recurring = ev_recurring r, ve_ical = ev_ical r, ve_title = ev_title r,
     ve_description = ev_description r, ve_location = ev_location r, ve_organizer = ev_organizer r,
     ve_attendees = parseAttendees parse (ev_attendees r), ve_status = ev_status r, ve_all_day = ev_all_day r,
     ve_start = parseTimePtr (ev_start_utc r), ve_end = parseTimePtr (ev_end_utc r),
     ve_start_date = (case ev_start_date r of None \<Rightarrow> '''' | Some d \<Rightarrow> d), ve_end_date = (case ev_end_date r of None \<Rightarrow> '''' | Some d \<Rightarrow> d),
     ve_tz = ev_tz r, ve_active = ev_active r\<rparr>"

record time_entry_view =
  vt_id :: int
  vt_period :: int
  vt_day :: string
  vt_start :: string
  vt_end :: string
  vt_duration :: int
  vt_category :: "int option"
  vt_description :: string
  vt_attestation :: string
  vt_method :: string
  vt_work_type :: string
  vt_project :: "int option"
  vt_billable :: string

definition toTimeEntry :: "time_entry \<Rightarrow> time_entry_view" where
  "toTimeEntry r = \<lparr>vt_id = te_id r, vt_period = te_period r, vt_day = te_day r, vt_start = te_start r, vt_end = te_end r,
     vt_duration = te_duration r, vt_category = te_category r, vt_description = te_description r, vt_attestation = te_attestation r,
     vt_method = (case te_method r of None \<Rightarrow> '''' | Some m \<Rightarrow> m), vt_work_type = te_work_type r, vt_project = te_project r,
     vt_billable = te_billable r\<rparr>"


section \<open>The reads of service.go\<close>

text \<open>What the listing of all categories adds to one: whether it is in use.\<close>

definition category_shown :: "category \<times> bool \<Rightarrow> category_view" where
  "category_shown = (\<lambda>(c, used). (toCategory c)\<lparr>vc_in_use := used\<rparr>)"

definition project_shown :: "project \<times> bool \<Rightarrow> project_view" where
  "project_shown = (\<lambda>(p, used). (toProject p)\<lparr>vp_in_use := used\<rparr>)"

definition GetCategory :: "int \<Rightarrow> (db, category_view) act" where
  "GetCategory i = act_bind (mapErr (get_one (q_GetCategory i))) (\<lambda>r. act_ret (toCategory r))"

definition ListProjects :: "db \<Rightarrow> project_view list" where
  "ListProjects d = map toProject (q_ListProjects d)"

definition GetProject :: "int \<Rightarrow> (db, project_view) act" where
  "GetProject i = act_bind (mapErr (get_one (q_GetProject i))) (\<lambda>r. act_ret (toProject r))"

definition ListCalendars :: "db \<Rightarrow> calendar list" where
  "ListCalendars d = q_ListCalendars d"

definition ListSelectedCalendars :: "db \<Rightarrow> calendar list" where
  "ListSelectedCalendars d = q_ListSelectedCalendars d"

definition ListEvents :: "(string \<Rightarrow> json option) \<Rightarrow> int \<Rightarrow> db \<Rightarrow> event_view list" where
  "ListEvents parse p d = map (toEvent parse) (q_ListEventsForPeriod p d)"

definition GetEvent :: "(string \<Rightarrow> json option) \<Rightarrow> int \<Rightarrow> (db, event_view) act" where
  "GetEvent parse i = act_bind (mapErr (get_one (q_GetEvent i))) (\<lambda>r. act_ret (toEvent parse r))"

definition ListTimeEntries :: "int \<Rightarrow> db \<Rightarrow> time_entry_view list" where
  "ListTimeEntries p d = map toTimeEntry (q_ListTimeEntriesForPeriod p d)"

definition GetTimeEntry :: "int \<Rightarrow> int \<Rightarrow> (db, time_entry_view) act" where
  "GetTimeEntry i p = act_bind (mapErr (get_one (q_GetTimeEntry i p))) (\<lambda>r. act_ret (toTimeEntry r))"

text \<open>The value of a setting is the text of a JSON value.\<close>

definition GetSetting :: "string \<Rightarrow> (db, json) act" where
  "GetSetting k = mapErr (get_one (q_GetSetting k))"

definition SetSetting :: "string \<Rightarrow> json \<Rightarrow> (db, unit) act" where
  "SetSetting k v = mapErr (q_SetSetting k v)"


section \<open>Messages\<close>

definition toProtoTimeEntry :: "time_entry_view \<Rightarrow> time_entry_view" where
  "toProtoTimeEntry v = v\<lparr>vt_duration := int32 (vt_duration v)\<rparr>"

text \<open>The parts of a decision that the message enumerates.\<close>

datatype review_role = RoleUnspecified | RolePrimary | RoleSecondary
datatype review_variant = VariantUnspecified | VariantDefault | VariantOutline | VariantDestructive

definition toProtoReviewRole :: "string \<Rightarrow> review_role" where
  "toProtoReviewRole r = (if r = ''primary'' then RolePrimary else if r = ''secondary'' then RoleSecondary else RoleUnspecified)"

definition toProtoReviewVariant :: "string \<Rightarrow> review_variant" where
  "toProtoReviewVariant v = (if v = ''default'' then VariantDefault else if v = ''outline'' then VariantOutline
     else if v = ''destructive'' then VariantDestructive else VariantUnspecified)"

record action_message =
  ma_key :: string
  ma_label :: string
  ma_role :: review_role
  ma_variant :: review_variant

record decision_message =
  md_id :: int
  md_kind :: string
  md_event :: "int option"
  md_tag :: string
  md_title :: string
  md_description :: string
  md_actions :: "action_message list"

definition toProtoDecision :: "decision \<Rightarrow> decision_message" where
  "toProtoDecision d = \<lparr>md_id = dc_id d, md_kind = dc_kind d, md_event = dc_event d, md_tag = dc_tag d, md_title = dc_title d,
     md_description = dc_description d,
     md_actions = map (\<lambda>a. \<lparr>ma_key = ra_key a, ma_label = ra_label a, ma_role = toProtoReviewRole (ra_role a),
       ma_variant = toProtoReviewVariant (ra_variant a)\<rparr>) (dc_actions d)\<rparr>"

text \<open>Evidence is shown without its times, its details and its address.\<close>

record evidence_item =
  vi_provider :: string
  vi_kind :: string
  vi_summary :: string
  vi_source :: string

definition toProtoEvidence :: "evidence \<Rightarrow> evidence_item" where
  "toProtoEvidence e = \<lparr>vi_provider = ae_provider e, vi_kind = ae_kind e, vi_summary = ae_summary e, vi_source = ae_source e\<rparr>"

definition toProtoWindows :: "working_window list \<Rightarrow> working_window list" where
  "toProtoWindows ws = map (\<lambda>w. w\<lparr>wn_start := int32 (wn_start w), wn_end := int32 (wn_end w)\<rparr>) ws"

text \<open>A window that is missing in the message is skipped.\<close>

definition toServiceWindows :: "working_window option list \<Rightarrow> working_window list" where
  "toServiceWindows ws = List.map_filter (\<lambda>w. w) ws"

definition toProtoWorkSchedule :: "schedule_detail \<Rightarrow> schedule_detail" where
  "toProtoWorkSchedule s = s\<lparr>sv_days := map (\<lambda>d. d\<lparr>sd_expected := int32 (sd_expected d), sd_windows := toProtoWindows (sd_windows d)\<rparr>) (sv_days s)\<rparr>"

definition toProtoScheduleException :: "exception_detail \<Rightarrow> exception_detail" where
  "toProtoScheduleException x = x\<lparr>xd_expected := int32 (xd_expected x), xd_windows := toProtoWindows (xd_windows x)\<rparr>"

definition toProtoExpectedTime :: "expected_time \<Rightarrow> expected_time" where
  "toProtoExpectedTime e = e\<lparr>et_minutes := int32 (et_minutes e), et_windows := toProtoWindows (et_windows e)\<rparr>"

definition toProtoExportCategoryMinutes :: "category_minutes list \<Rightarrow> category_minutes list" where
  "toProtoExportCategoryMinutes cs = map (\<lambda>c. c\<lparr>cm_minutes := int32 (cm_minutes c)\<rparr>) cs"

text \<open>The message of an exported entry has no description.\<close>

definition toProtoPeriodExport :: "period_export \<Rightarrow> period_export" where
  "toProtoPeriodExport m = m\<lparr>px_target := int32 (px_target m), px_actual := int32 (px_actual m),
     px_entries := map (\<lambda>e. e\<lparr>xe_start := int32 (xe_start e), xe_end := int32 (xe_end e), xe_minutes := int32 (xe_minutes e),
       xe_description := ''''\<rparr>) (px_entries m),
     px_daily := map (\<lambda>d. d\<lparr>dy_categories := toProtoExportCategoryMinutes (dy_categories d), dy_actual := int32 (dy_actual d),
       dy_target := int32 (dy_target d)\<rparr>) (px_daily m),
     px_totals := toProtoExportCategoryMinutes (px_totals m)\<rparr>"


section \<open>The catalog of integrations\<close>

datatype integration_kind = CalendarSource | ActivityEvidence

record descriptor =
  ds_id :: string
  ds_name :: string
  ds_kind :: integration_kind
  ds_hint :: bool
  ds_pat :: bool

definition catalog_entries :: "descriptor list" where
  "catalog_entries = [
     \<lparr>ds_id = ''google'', ds_name = ''Google Calendar'', ds_kind = CalendarSource, ds_hint = True, ds_pat = False\<rparr>,
     \<lparr>ds_id = ''github'', ds_name = ''GitHub'', ds_kind = ActivityEvidence, ds_hint = False, ds_pat = True\<rparr>,
     \<lparr>ds_id = ''slack'', ds_name = ''Slack'', ds_kind = ActivityEvidence, ds_hint = False, ds_pat = False\<rparr>,
     \<lparr>ds_id = ''bitbucket'', ds_name = ''Bitbucket'', ds_kind = ActivityEvidence, ds_hint = False, ds_pat = False\<rparr>]"

definition catalog_All :: "descriptor list" where
  "catalog_All = sort_key ds_id catalog_entries"

definition catalog_Lookup :: "string \<Rightarrow> descriptor option" where
  "catalog_Lookup i = find (\<lambda>e. ds_id e = i) catalog_entries"

record auth_status =
  ms_provider :: string
  ms_mode :: string
  ms_broker :: string
  ms_oauth :: bool
  ms_pat :: bool

definition authStatusFromProvider :: "string \<Rightarrow> string \<Rightarrow> string \<Rightarrow> bool \<Rightarrow> auth_status" where
  "authStatusFromProvider p mode broker oauth =
     (let mode = to_lower (trim_space mode); mode = (if mode = '''' then ''broker'' else mode) in
      \<lparr>ms_provider = p, ms_mode = mode, ms_broker = (if mode = ''broker'' then trim_space broker else ''''), ms_oauth = oauth, ms_pat = False\<rparr>)"

end
