(* ===== verification/Wiring.thy ===== *)
theory Wiring
  imports Chat Github Slack Bitbucket Configuration
begin

text \<open>
  How the parts are put together: integrations.go, and the operations of the service that reach over
  the integrations, SyncPeriod of calendar_sync.go and the gap fill of evidence_aggregate.go and
  gap_fill_ai.go, on the state of the whole program.
\<close>


section \<open>Pulling a period\<close>

text \<open>
  The provider behind a pull: it lists the accounts, refreshes the calendar rows of an account and
  fetches the events of a period.
\<close>

record puller =
  pl_accounts :: "(desk, account list) act"
  pl_sync :: "string \<Rightarrow> (desk, calendar list) act"
  pl_fetch :: "string \<Rightarrow> string \<Rightarrow> string \<Rightarrow> calendar list \<Rightarrow> (desk, incoming list) act"

definition pull_account :: "puller \<Rightarrow> period \<Rightarrow> account \<Rightarrow> incoming list \<Rightarrow> (desk, incoming list) act" where
  "pull_account pl pd acct incoming =
     act_seq (pl_sync pl (ac_id acct))
       (act_bind (act_gets (\<lambda>s. filterGoogleCalendars (q_ListSelectedCalendars (dk_db s)))) (\<lambda>selected.
          if selected = [] then act_ret incoming
          else act_bind (pl_fetch pl (ac_id acct) (pd_start pd) (pd_end pd) selected) (\<lambda>events.
            act_ret (incoming @ events))))"

definition SyncPeriod :: "externals \<Rightarrow> puller option \<Rightarrow> instant \<Rightarrow> int \<Rightarrow> (desk, sync_result) act" where
  "SyncPeriod ex cfg now p =
     (case cfg of None \<Rightarrow> act_throw ErrCalendarSyncNotConfigured | Some pl \<Rightarrow>
      act_bind (in_db (GetPeriod p)) (\<lambda>pd.
      act_bind (pl_accounts pl) (\<lambda>accounts.
        let usable = filterUsableAccounts accounts in
        if usable = [] then
          (if hasNeedsReauth accounts then act_throw ErrNeedsReauth else act_throw ErrNoConnectedAccounts)
        else act_bind (act_gets (\<lambda>s. filterGoogleCalendars (q_ListSelectedCalendars (dk_db s)))) (\<lambda>selected.
          if selected = [] then act_seq (in_db (touchPeriodSynced now p)) (act_ret no_changes)
          else act_bind (fold_each (pull_account pl pd) usable []) (\<lambda>incoming.
            act_bind (in_db (SyncEvents ex p incoming)) (\<lambda>res.
              act_seq (in_db (touchPeriodSynced now p)) (act_ret res)))))))"


section \<open>Gap fill\<close>

text \<open>What the providers answer, one after the other; a provider that fails is skipped.\<close>

definition ask_provider :: "time_window \<Rightarrow> (time_window \<Rightarrow> (desk, evidence list) act) \<Rightarrow> (desk, evidence_provider) act" where
  "ask_provider window fetch = (\<lambda>s. case fetch window s of
      (Inr es, t) \<Rightarrow> (Inr (\<lambda>_. Some es), t)
    | (Inl e, t) \<Rightarrow> (if e = Diverges then Inl Diverges else Inr (\<lambda>_. None), t))"

definition fetchGapEvidence :: "(time_window \<Rightarrow> (desk, evidence list) act) list \<Rightarrow> time_window \<Rightarrow> (desk, evidence_provider list) act" where
  "fetchGapEvidence providers window = for_each (ask_provider window) providers"

definition gap_evidence :: "(time_window \<Rightarrow> (desk, evidence list) act) list \<Rightarrow> time_window \<Rightarrow> (desk, evidence list) act" where
  "gap_evidence providers window =
     (if tw_end window \<le> tw_start window then act_throw ErrInvalidInput
      else act_bind (fetchGapEvidence providers window) (\<lambda>answers. act_lift (ListGapEvidence answers window)))"

definition gap_json :: "gap_context \<Rightarrow> json" where
  "gap_json g = JObj [(''start'', JStr (formatTime (gx_start g))), (''end'', JStr (formatTime (gx_end g))),
     (''duration'', JStr (gx_duration g))]"

definition evidence_json :: "evidence_payload \<Rightarrow> json" where
  "evidence_json e = JObj (optional_text ''provider'' (ep_provider e) @ [(''kind'', JStr (ep_kind e)), (''summary'', JStr (ep_summary e))] @
     optional_text ''source'' (ep_source e) @ optional_text ''detail'' (ep_detail e) @ optional_text ''start'' (ep_start e) @
     optional_text ''end'' (ep_end e) @ optional_text ''url'' (ep_url e))"

definition gap_instructions :: string where
  "gap_instructions = ''You suggest timesheet entries for uncovered work intervals. When activity evidence is clearly tied to a project or repository, and a category in the list corresponds to that project (key, name, or description), prefer that category. Do not invent categories; pick from the provided list only. Reply with JSON only: {'' @ [CHR 0x22] @ ''key'' @ [CHR 0x22] @ '':'' @ [CHR 0x22] @ ''<one category key from the list>'' @ [CHR 0x22] @ '','' @ [CHR 0x22] @ ''description'' @ [CHR 0x22] @ '':'' @ [CHR 0x22] @ ''<short note>'' @ [CHR 0x22] @ ''}.''"

definition gap_prompt :: "(json \<Rightarrow> string) \<Rightarrow> category_definition list \<Rightarrow> gap_context \<Rightarrow> evidence_payload list \<Rightarrow> string" where
  "gap_prompt marshal cs g es = ''Categories: '' @ marshal (JList (map definition_json cs)) @ [CHR 0x0A] @ ''Gap: '' @
     marshal (gap_json g) @ [CHR 0x0A] @ ''Activity evidence: '' @ marshal (JList (map evidence_json es)) @ [CHR 0x0A] @ ''JSON:''"

definition ask_gap ::
    "remote \<Rightarrow> remote option \<Rightarrow> url_parser \<Rightarrow> (json \<Rightarrow> string) \<Rightarrow> string \<Rightarrow> string \<Rightarrow> int \<Rightarrow> category_definition list \<Rightarrow> gap_context \<Rightarrow>
       evidence_payload list \<Rightarrow> (desk, string) act" where
  "ask_gap rm store parse marshal url model tokens cs g es =
     act_bind (act_gets (loadAIChatClient store parse url '''')) (\<lambda>c.
       ChatCompletion rm c model gap_instructions (gap_prompt marshal cs g es) tokens)"

text \<open>The language model as the service reaches it, and the JSON of texts.\<close>

record model_access =
  mx_remote :: remote
  mx_store :: "remote option"
  mx_url :: url_parser
  mx_ip :: ip_classes
  mx_marshal :: "json \<Rightarrow> string"
  mx_parse :: "string \<Rightarrow> json option"

text \<open>The suggestion of Gapfill, made of the evidence that was fetched and of the reply to the one question put.\<close>

definition suggest_gap_fill ::
    "model_access \<Rightarrow> (time_window \<Rightarrow> (desk, evidence list) act) list \<Rightarrow> time_window \<Rightarrow> (desk, gap_suggestion) act" where
  "suggest_gap_fill mx providers window =
     (if tw_end window \<le> tw_start window then act_throw ErrInvalidInput
      else act_bind (act_bind (act_gets (\<lambda>s. loadAIConfig (dk_db s))) (act_the ErrFailedPrecondition)) (\<lambda>(url, model).
        act_bind (fetchGapEvidence providers window) (\<lambda>answers s.
          let d = dk_db s; near = ClassifyEndpoint (mx_url mx) (mx_ip mx) url;
              cs = categoryDefinitionsForAI (ListCategories d);
              payload = buildEvidencePayload (AggregateEvidence answers window) near;
              suggest = (\<lambda>reply. SuggestGapFill (\<lambda>_. near) (\<lambda>_ _ _ _ _ _. reply) (mx_parse mx) answers window d)
          in if cs = [] then (suggest None, s)
             else case ask_gap (mx_remote mx) (mx_store mx) (mx_url mx) (mx_marshal mx) url model (loadAIMaxTokens d) cs
                 (constToGapContext window) (if near then payload else minimizeEvidence payload) s of
               (Inl e, t) \<Rightarrow> (suggest None, t)
             | (Inr reply, t) \<Rightarrow> (suggest (Some reply), t))))"


section \<open>integrations.go\<close>

definition connection_accounts :: "string \<Rightarrow> (desk, account list) act" where
  "connection_accounts p = act_bind (act_reads (reg_ListByProvider p)) (\<lambda>rows.
     act_ret (map (\<lambda>r. \<lparr>ac_id = cn_account (co_row r), ac_status = cn_status (co_row r)\<rparr>) rows))"

record wiring =
  wi_google :: settings
  wi_github :: settings
  wi_slack :: settings
  wi_bitbucket :: settings
  wi_puller :: puller
  wi_evidence :: "(time_window \<Rightarrow> (desk, evidence list) act) list"

text \<open>\<open>flows p\<close>: the flows that the provider p makes itself.\<close>

definition wireIntegrations :: "remote \<Rightarrow> (string \<Rightarrow> adapters) \<Rightarrow> app_config \<Rightarrow> wiring" where
  "wireIntegrations rm flows c =
     (let google = google_settings c; github = account_settings (cf_github c); slack = account_settings (cf_slack c);
          bitbucket = account_settings (cf_bitbucket c) in
      \<lparr>wi_google = google, wi_github = github, wi_slack = slack, wi_bitbucket = bitbucket,
       wi_puller = \<lparr>pl_accounts = connection_accounts ''google'',
         pl_sync = google_SyncCalendars rm (flows ''google'') google,
         pl_fetch = google_FetchEvents rm (flows ''google'') google\<rparr>,
       wi_evidence = [github_FetchEvidence rm github, slack_FetchEvidence rm slack,
         bitbucket_FetchEvidence rm (flows ''bitbucket'') bitbucket]\<rparr>)"

end
