(* ===== verification/Api.thy ===== *)
theory Api
  imports Views Wiring Templates
begin

text \<open>
  The API of the desktop program: internal/api/appapi and its mounting in main.go. A handler checks
  its request, calls the service or an integration on the state of the program, and answers with a
  message or a code.
\<close>


section \<open>Codes\<close>

text \<open>Nothing is answered to a call that never returns.\<close>

datatype api_code = CodeInvalidArgument | CodeNotFound | CodeFailedPrecondition | CodeUnauthenticated | CodeUnimplemented | CodeInternal | NoAnswer

type_synonym 'a rpc = "desk \<Rightarrow> (api_code + 'a) \<times> desk"

fun mapServiceError :: "go_error \<Rightarrow> api_code" where
  "mapServiceError ErrNotFound = CodeNotFound"
| "mapServiceError ErrInvalidInput = CodeInvalidArgument"
| "mapServiceError ErrFailedPrecondition = CodeFailedPrecondition"
| "mapServiceError ErrCategoryInUse = CodeFailedPrecondition"
| "mapServiceError ErrProjectInUse = CodeFailedPrecondition"
| "mapServiceError ErrExportTemplateBuiltin = CodeFailedPrecondition"
| "mapServiceError ErrCalendarSyncNotConfigured = CodeFailedPrecondition"
| "mapServiceError ErrNoConnectedAccounts = CodeFailedPrecondition"
| "mapServiceError ErrNeedsReauth = CodeUnauthenticated"
| "mapServiceError Diverges = NoAnswer"
| "mapServiceError _ = CodeInternal"

definition requireID :: "int \<Rightarrow> bool" where
  "requireID i \<longleftrightarrow> 0 < i"

definition is_date :: "string \<Rightarrow> bool" where
  "is_date s \<longleftrightarrow> parse_date s \<noteq> None"

text \<open>A handler that calls the service: its checks come first, its value is shown by \<open>show\<close>.\<close>

definition refused :: "api_code \<Rightarrow> 'a rpc" where
  "refused c = (\<lambda>s. (Inl c, s))"

definition served :: "('a \<Rightarrow> 'b) \<Rightarrow> (desk, 'a) act \<Rightarrow> 'b rpc" where
  "served f m = (\<lambda>s. case m s of (Inl e, t) \<Rightarrow> (Inl (mapServiceError e), t) | (Inr x, t) \<Rightarrow> (Inr (f x), t))"

definition checked :: "bool \<Rightarrow> 'a rpc \<Rightarrow> 'a rpc" where
  "checked ok m = (if ok then m else refused CodeInvalidArgument)"

text \<open>A part of the program that may not be there.\<close>

definition available :: "'p option \<Rightarrow> ('p \<Rightarrow> 'a rpc) \<Rightarrow> 'a rpc" where
  "available p m = (case p of None \<Rightarrow> refused CodeUnimplemented | Some x \<Rightarrow> m x)"

definition shown :: "(db \<Rightarrow> 'a) \<Rightarrow> (desk, 'a) act" where
  "shown f = act_gets (\<lambda>s. f (dk_db s))"

definition computed :: "(db \<Rightarrow> go_error + 'a) \<Rightarrow> (desk, 'a) act" where
  "computed f = act_reads (\<lambda>s. f (dk_db s))"


section \<open>Dependencies\<close>

text \<open>
  The service with the time zones, the digest and the answers of the model it uses, the template
  engine and the JSON of texts; the functions handed over by main.go, each of which may be missing;
  the providers with their flows.
\<close>

record dependencies =
  dp_externals :: externals
  dp_engine :: template_engine
  dp_model :: model_access
  dp_remote :: remote
  dp_flows :: "string \<Rightarrow> adapters"
  dp_evidence :: "(time_window \<Rightarrow> (desk, evidence list) act) list"
  dp_sync :: "(instant \<Rightarrow> int \<Rightarrow> (desk, sync_result) act) option"
  dp_connections :: "(desk, connection_info list) act option"
  dp_refresh_github :: "(string \<Rightarrow> (desk, unit) act) option"
  dp_refresh_slack :: "(string \<Rightarrow> (desk, unit) act) option"
  dp_refresh_bitbucket :: "(string \<Rightarrow> (desk, unit) act) option"
  dp_google :: "settings option"
  dp_github :: "settings option"
  dp_slack :: "settings option"
  dp_bitbucket :: "settings option"

abbreviation dp_tz :: "dependencies \<Rightarrow> tzdb" where "dp_tz dp \<equiv> ex_tz (dp_externals dp)"
abbreviation dp_parse :: "dependencies \<Rightarrow> string \<Rightarrow> json option" where "dp_parse dp \<equiv> mx_parse (dp_model dp)"

text \<open>What main.go hands over; the logging around SyncPeriod does not change its result.\<close>

definition app_dependencies ::
    "externals \<Rightarrow> template_engine \<Rightarrow> model_access \<Rightarrow> remote \<Rightarrow> (string \<Rightarrow> adapters) \<Rightarrow> app_config \<Rightarrow> dependencies" where
  "app_dependencies ex engine mx rm flows c =
     (let w = wireIntegrations rm flows c in
      \<lparr>dp_externals = ex, dp_engine = engine, dp_model = mx, dp_remote = rm, dp_flows = flows, dp_evidence = wi_evidence w,
       dp_sync = Some (SyncPeriod ex (Some (wi_puller w))),
       dp_connections = Some (act_reads reg_List),
       dp_refresh_github = Some (\<lambda>a. act_seq (SyncRepos rm (wi_github w) a) (act_ret ())),
       dp_refresh_slack = Some (\<lambda>a. act_seq (SyncChannels rm (wi_slack w) a) (act_ret ())),
       dp_refresh_bitbucket = Some (\<lambda>a. act_seq (SyncWorkspacesRepos rm (flows ''bitbucket'') (wi_bitbucket w) a) (act_ret ())),
       dp_google = Some (wi_google w), dp_github = Some (wi_github w), dp_slack = Some (wi_slack w), dp_bitbucket = Some (wi_bitbucket w)\<rparr>)"


section \<open>period.go\<close>

definition rpc_ListPeriods :: "period_view list rpc" where
  "rpc_ListPeriods = served (map toPeriod) (shown ListPeriods)"

definition rpc_GetPeriod :: "int \<Rightarrow> period_view rpc" where
  "rpc_GetPeriod i = checked (requireID i) (served toPeriod (in_db (GetPeriod i)))"

definition rpc_GetPeriodByRange :: "string \<Rightarrow> string \<Rightarrow> period_view rpc" where
  "rpc_GetPeriodByRange a b = checked (is_date a \<and> is_date b) (served toPeriod (in_db (GetPeriodByRange a b)))"

definition rpc_EnsureCurrentPeriod :: "dependencies \<Rightarrow> string \<Rightarrow> string \<Rightarrow> period_view rpc" where
  "rpc_EnsureCurrentPeriod dp today iana =
     (let tz = (if iana = '''' then ''UTC'' else iana) in
      checked (is_date today \<and> dp_tz dp tz \<noteq> None) (served toPeriod (in_db (EnsureCurrentPeriod today tz))))"


section \<open>category_calendar.go\<close>

definition rpc_ListCategories :: "bool \<Rightarrow> category_view list rpc" where
  "rpc_ListCategories archived =
     (if archived then served (map category_shown) (shown ListAllCategories) else served (map toCategory) (shown ListCategories))"

definition rpc_GetCategory :: "int \<Rightarrow> category_view rpc" where
  "rpc_GetCategory i = checked (requireID i) (served id (in_db (GetCategory i)))"

definition good_color :: "string \<Rightarrow> bool" where
  "good_color c \<longleftrightarrow> c = '''' \<or> ValidateCategoryColor c"

definition rpc_CreateCategory :: "category_input \<Rightarrow> category_view rpc" where
  "rpc_CreateCategory input = checked (ci_name input \<noteq> '''' \<and> good_color (ci_color input)) (served toCategory (in_db (CreateCategory input)))"

definition rpc_UpdateCategory :: "int \<Rightarrow> category_input \<Rightarrow> category_view rpc" where
  "rpc_UpdateCategory i input =
     checked (requireID i \<and> ci_name input \<noteq> '''' \<and> good_color (ci_color input)) (served toCategory (in_db (UpdateCategory i input)))"

definition rpc_DeleteCategory :: "int \<Rightarrow> unit rpc" where
  "rpc_DeleteCategory i = checked (requireID i) (served id (in_db (DeleteCategory i)))"

definition rpc_ArchiveCategory :: "instant \<Rightarrow> int \<Rightarrow> category_view rpc" where
  "rpc_ArchiveCategory now i = checked (requireID i) (served toCategory (in_db (ArchiveCategory now i)))"

definition rpc_ListEventCategoryOverlays :: "int \<Rightarrow> overlay list rpc" where
  "rpc_ListEventCategoryOverlays p = checked (requireID p) (served id (shown (ListEventCategoryOverlays p)))"

definition rpc_ListCalendars :: "calendar list rpc" where
  "rpc_ListCalendars = served id (shown ListCalendars)"

definition rpc_ListSelectedCalendars :: "calendar list rpc" where
  "rpc_ListSelectedCalendars = served id (shown ListSelectedCalendars)"

definition rpc_SetCalendarSelected :: "int \<Rightarrow> bool \<Rightarrow> unit rpc" where
  "rpc_SetCalendarSelected c selected = checked (requireID c) (served id (in_db (SetCalendarSelected c selected)))"

definition rpc_SetCalendarDefaultCategory :: "int \<Rightarrow> int option \<Rightarrow> unit rpc" where
  "rpc_SetCalendarDefaultCategory c cat = checked (requireID c) (served id (in_db (SetCalendarDefaultCategory c cat)))"

definition toProtoSyncResult :: "sync_result \<Rightarrow> sync_result" where
  "toProtoSyncResult r = \<lparr>sr_added = int32 (sr_added r), sr_updated = int32 (sr_updated r), sr_unchanged = int32 (sr_unchanged r),
     sr_removed = int32 (sr_removed r), sr_flagged = int32 (sr_flagged r)\<rparr>"

definition rpc_SyncPeriod :: "dependencies \<Rightarrow> instant \<Rightarrow> int \<Rightarrow> sync_result rpc" where
  "rpc_SyncPeriod dp now p = checked (requireID p) (available (dp_sync dp) (\<lambda>run. served toProtoSyncResult (run now p)))"


section \<open>project.go\<close>

definition rpc_ListProjects :: "bool \<Rightarrow> project_view list rpc" where
  "rpc_ListProjects archived =
     (if archived then served (map project_shown) (shown ListAllProjects) else served id (shown ListProjects))"

definition rpc_GetProject :: "int \<Rightarrow> project_view rpc" where
  "rpc_GetProject i = checked (requireID i) (served id (in_db (GetProject i)))"

definition rpc_CreateProject :: "project_input \<Rightarrow> project_view rpc" where
  "rpc_CreateProject input = checked (pi_name input \<noteq> '''' \<and> good_color (pi_color input)) (served toProject (in_db (CreateProject input)))"

definition rpc_UpdateProject :: "int \<Rightarrow> project_input \<Rightarrow> project_view rpc" where
  "rpc_UpdateProject i input =
     checked (requireID i \<and> pi_name input \<noteq> '''' \<and> good_color (pi_color input)) (served toProject (in_db (UpdateProject i input)))"

definition rpc_DeleteProject :: "int \<Rightarrow> unit rpc" where
  "rpc_DeleteProject i = checked (requireID i) (served id (in_db (DeleteProject i)))"

definition rpc_ArchiveProject :: "instant \<Rightarrow> int \<Rightarrow> project_view rpc" where
  "rpc_ArchiveProject now i = checked (requireID i) (served toProject (in_db (ArchiveProject now i)))"


section \<open>work_schedule.go\<close>

definition rpc_ListWorkSchedules :: "schedule_detail list rpc" where
  "rpc_ListWorkSchedules = served (map toProtoWorkSchedule) (shown ListWorkSchedules)"

definition rpc_GetWorkSchedule :: "int \<Rightarrow> schedule_detail rpc" where
  "rpc_GetWorkSchedule i = checked (requireID i) (served toProtoWorkSchedule (in_db (GetWorkSchedule i)))"

text \<open>The days of a request, each with the windows of its message.\<close>

type_synonym day_message = "string \<times> int \<times> working_window option list"

definition rpc_ReplaceActiveWorkSchedule :: "dependencies \<Rightarrow> string \<Rightarrow> string \<Rightarrow> string \<Rightarrow> day_message list \<Rightarrow> schedule_detail rpc" where
  "rpc_ReplaceActiveWorkSchedule dp zone start from_date days =
     checked (zone \<noteq> '''' \<and> start \<noteq> '''' \<and> is_date from_date)
       (served toProtoWorkSchedule (in_db (ReplaceActiveWorkSchedule (dp_tz dp)
          \<lparr>si_timezone = zone, si_workweek_start = start, si_from = from_date,
           si_days = map (\<lambda>(w, m, ws). \<lparr>sd_weekday = w, sd_expected = m, sd_windows = toServiceWindows ws\<rparr>) days\<rparr>)))"

definition rpc_ListScheduleExceptions :: "exception_detail list rpc" where
  "rpc_ListScheduleExceptions = served (map toProtoScheduleException) (shown ListScheduleExceptions)"

definition rpc_UpsertScheduleException :: "string \<Rightarrow> string \<Rightarrow> int \<Rightarrow> working_window option list \<Rightarrow> exception_detail rpc" where
  "rpc_UpsertScheduleException date kind minutes ws =
     checked (is_date date \<and> kind \<noteq> '''') (served toProtoScheduleException (in_db (UpsertScheduleException
       \<lparr>xi_date = date, xi_kind = kind, xi_expected = minutes, xi_windows = toServiceWindows ws\<rparr>)))"

definition rpc_DeleteScheduleException :: "string \<Rightarrow> unit rpc" where
  "rpc_DeleteScheduleException date = checked (is_date date) (served id (in_db (DeleteScheduleException date)))"

definition rpc_ExpectedTimeForDate :: "string \<Rightarrow> expected_time rpc" where
  "rpc_ExpectedTimeForDate date = checked (is_date date) (served toProtoExpectedTime (computed (ExpectedTimeForDate date)))"

definition rpc_ExpectedTimeForRange :: "string \<Rightarrow> string \<Rightarrow> expected_time list rpc" where
  "rpc_ExpectedTimeForRange a b =
     checked (is_date a \<and> is_date b) (served (map toProtoExpectedTime) (computed (ExpectedTimeForRange a b)))"



section \<open>schedule.go\<close>

definition rpc_ListEvents :: "dependencies \<Rightarrow> int \<Rightarrow> event_view list rpc" where
  "rpc_ListEvents dp p = checked (requireID p) (served id (shown (ListEvents (dp_parse dp) p)))"

definition rpc_GetEvent :: "dependencies \<Rightarrow> int \<Rightarrow> event_view rpc" where
  "rpc_GetEvent dp i = checked (requireID i) (served id (in_db (GetEvent (dp_parse dp) i)))"

definition rpc_ListTimeEntries :: "int \<Rightarrow> time_entry_view list rpc" where
  "rpc_ListTimeEntries p = checked (requireID p) (served (map toProtoTimeEntry) (shown (ListTimeEntries p)))"

definition rpc_GetTimeEntry :: "int \<Rightarrow> int \<Rightarrow> time_entry_view rpc" where
  "rpc_GetTimeEntry i p = checked (requireID i \<and> requireID p) (served toProtoTimeEntry (in_db (GetTimeEntry i p)))"

text \<open>\<open>timeEntryInput\<close>: the checks of an entry that may be missing in the message.\<close>

definition timeEntryInput :: "entry_input option \<Rightarrow> entry_input option" where
  "timeEntryInput input = (case input of None \<Rightarrow> None
    | Some i \<Rightarrow> if \<not> requireID (ti_period i) then None
        else if ti_day i = '''' then None
        else if ti_start i < 0 \<or> 24 * 60 < ti_end i \<or> ti_end i \<le> ti_start i then None
        else Some i)"

definition with_entry :: "entry_input option \<Rightarrow> (entry_input \<Rightarrow> 'a rpc) \<Rightarrow> 'a rpc" where
  "with_entry input m = (case timeEntryInput input of None \<Rightarrow> refused CodeInvalidArgument | Some i \<Rightarrow> m i)"

definition entry_key :: "time_entry \<Rightarrow> int \<times> int" where
  "entry_key r = (te_period r, te_id r)"

abbreviation (input) shown_entry :: "time_entry \<Rightarrow> time_entry_view" where
  "shown_entry r \<equiv> toProtoTimeEntry (toTimeEntry r)"

definition rpc_CreateTimeEntry :: "dependencies \<Rightarrow> entry_input option \<Rightarrow> (int \<times> int) rpc" where
  "rpc_CreateTimeEntry dp input = with_entry input (\<lambda>i. served entry_key (in_db (CreateTimeEntry (dp_tz dp) i)))"

definition rpc_CreateGapTimeEntry :: "dependencies \<Rightarrow> entry_input option \<Rightarrow> (int \<times> int) rpc" where
  "rpc_CreateGapTimeEntry dp input = with_entry input (\<lambda>i. served entry_key (in_db (CreateGapTimeEntry (dp_tz dp) i)))"

definition rpc_UpdateTimeEntry :: "dependencies \<Rightarrow> int \<Rightarrow> entry_input option \<Rightarrow> (int \<times> int) rpc" where
  "rpc_UpdateTimeEntry dp k input =
     checked (requireID k) (with_entry input (\<lambda>i. served entry_key (in_db (UpdateTimeEntry (dp_tz dp) k i))))"

definition rpc_DeleteTimeEntry :: "int \<Rightarrow> int \<Rightarrow> (int \<times> int) rpc" where
  "rpc_DeleteTimeEntry i p = checked (requireID i \<and> requireID p) (served (\<lambda>_. (p, i)) (in_db (DeleteTimeEntry i p)))"

definition rpc_ConfirmTimeEntry :: "dependencies \<Rightarrow> confirm_input \<Rightarrow> time_entry_view list rpc" where
  "rpc_ConfirmTimeEntry dp input = checked (requireID (cf_id input) \<and> requireID (cf_period input))
     (served (map (\<lambda>r. shown_entry r)) (in_db (ConfirmTimeEntry (dp_tz dp) input)))"

definition rpc_RejectTimeEntry :: "int \<Rightarrow> int \<Rightarrow> time_entry_view rpc" where
  "rpc_RejectTimeEntry i p = checked (requireID i \<and> requireID p) (served (\<lambda>r. shown_entry r) (in_db (RejectTimeEntry i p)))"

definition rpc_AdjustDraftTimeEntry :: "dependencies \<Rightarrow> int \<Rightarrow> entry_input option \<Rightarrow> time_entry_view rpc" where
  "rpc_AdjustDraftTimeEntry dp k input =
     checked (requireID k) (with_entry input (\<lambda>i. served (\<lambda>r. shown_entry r) (in_db (AdjustDraftTimeEntry (dp_tz dp) k i))))"

definition rpc_SplitTimeEntry :: "dependencies \<Rightarrow> int \<Rightarrow> int \<Rightarrow> string list \<Rightarrow> time_entry_view list rpc" where
  "rpc_SplitTimeEntry dp i p cuts =
     checked (requireID i \<and> requireID p) (served (map (\<lambda>r. shown_entry r)) (in_db (SplitTimeEntry (dp_tz dp) i p cuts)))"

definition rpc_ConvertAllDayEvent :: "dependencies \<Rightarrow> int \<Rightarrow> entry_input option \<Rightarrow> time_entry_view rpc" where
  "rpc_ConvertAllDayEvent dp e input =
     checked (requireID e) (with_entry input (\<lambda>i. served (\<lambda>r. shown_entry r) (in_db (ConvertAllDayEvent (dp_tz dp) e i))))"

definition rpc_ListReviewDecisions :: "int \<Rightarrow> decision_message list rpc" where
  "rpc_ListReviewDecisions p = checked (requireID p) (served (map toProtoDecision) (shown (ListReviewDecisions p)))"

definition rpc_ResolveReviewDecision :: "dependencies \<Rightarrow> int \<Rightarrow> string \<Rightarrow> int rpc" where
  "rpc_ResolveReviewDecision dp i action = checked (requireID i) (served id (in_db (ResolveReviewDecision (dp_tz dp) i action)))"

definition rpc_ExcludeEvent :: "int \<Rightarrow> int \<Rightarrow> (int \<times> int) rpc" where
  "rpc_ExcludeEvent e p = checked (requireID e \<and> requireID p) (served id (in_db (ExcludeEvent e p)))"

definition rpc_ListTzSegments :: "int \<Rightarrow> tz_segment list rpc" where
  "rpc_ListTzSegments p = checked (requireID p) (served id (shown (ListTzSegments p)))"

definition rpc_ComputeGaps :: "dependencies \<Rightarrow> int \<Rightarrow> day_timeline list rpc" where
  "rpc_ComputeGaps dp p = checked (requireID p) (served id (computed (ComputeGaps (dp_tz dp) p)))"

text \<open>A timestamp of a message: seconds since 1970 and nanoseconds; \<open>CheckValid\<close> and \<open>AsTime\<close>.\<close>

type_synonym timestamp = "int \<times> int"

definition CheckValid :: "timestamp \<Rightarrow> bool" where
  "CheckValid t \<longleftrightarrow> - 62135596800 \<le> fst t \<and> fst t \<le> 253402300799 \<and> 0 \<le> snd t \<and> snd t < second"

definition AsTime :: "timestamp \<Rightarrow> instant" where
  "AsTime t = fst t * second + snd t"

definition with_window :: "timestamp option \<Rightarrow> timestamp option \<Rightarrow> (time_window \<Rightarrow> 'a rpc) \<Rightarrow> 'a rpc" where
  "with_window a b m = (case (a, b) of
      (Some x, Some y) \<Rightarrow> checked (CheckValid x \<and> CheckValid y) (m \<lparr>tw_start = AsTime x, tw_end = AsTime y\<rparr>)
    | _ \<Rightarrow> refused CodeInvalidArgument)"

definition rpc_ListGapEvidence :: "dependencies \<Rightarrow> timestamp option \<Rightarrow> timestamp option \<Rightarrow> evidence_item list rpc" where
  "rpc_ListGapEvidence dp a b = with_window a b (\<lambda>w. served (map toProtoEvidence) (gap_evidence (dp_evidence dp) w))"

definition rpc_SuggestGapFill :: "dependencies \<Rightarrow> timestamp option \<Rightarrow> timestamp option \<Rightarrow> (string \<times> string \<times> int) rpc" where
  "rpc_SuggestGapFill dp a b = with_window a b (\<lambda>w.
     served (\<lambda>g. (gs_category g, gs_description g, int32 (int (gs_count g)))) (suggest_gap_fill (dp_model dp) (dp_evidence dp) w))"


section \<open>settings_integration_export.go\<close>

definition rpc_GetSetting :: "string \<Rightarrow> json rpc" where
  "rpc_GetSetting k = checked (k \<noteq> '''') (served id (in_db (GetSetting k)))"

definition rpc_SetSetting :: "string \<Rightarrow> json \<Rightarrow> unit rpc" where
  "rpc_SetSetting k v = checked (k \<noteq> '''') (served id (in_db (SetSetting k v)))"

definition rpc_ListIntegrationConnections :: "dependencies \<Rightarrow> connection_info list rpc" where
  "rpc_ListIntegrationConnections dp = available (dp_connections dp) (served id)"

definition rpc_ListGitHubRepos :: "github_repo list rpc" where
  "rpc_ListGitHubRepos = served id (act_gets ListRepos)"

definition rpc_SetGitHubRepoSelected :: "int \<Rightarrow> bool \<Rightarrow> unit rpc" where
  "rpc_SetGitHubRepoSelected i selected = checked (requireID i) (served id (SetRepoSelected i selected))"

definition rpc_RefreshGitHubRepos :: "dependencies \<Rightarrow> string \<Rightarrow> unit rpc" where
  "rpc_RefreshGitHubRepos dp a = checked (a \<noteq> '''') (available (dp_refresh_github dp) (\<lambda>run. served id (run a)))"

definition rpc_ListSlackChannels :: "slack_channel list rpc" where
  "rpc_ListSlackChannels = served id (act_gets ListChannels)"

definition rpc_SetSlackChannelSelected :: "int \<Rightarrow> bool \<Rightarrow> unit rpc" where
  "rpc_SetSlackChannelSelected i selected = checked (requireID i) (served id (SetChannelSelected i selected))"

definition rpc_RefreshSlackChannels :: "dependencies \<Rightarrow> string \<Rightarrow> unit rpc" where
  "rpc_RefreshSlackChannels dp a = checked (a \<noteq> '''') (available (dp_refresh_slack dp) (\<lambda>run. served id (run a)))"

definition rpc_ListBitbucketWorkspaces :: "bitbucket_workspace list rpc" where
  "rpc_ListBitbucketWorkspaces = served id (act_gets ListWorkspaces)"

definition rpc_SetBitbucketWorkspaceSelected :: "int \<Rightarrow> bool \<Rightarrow> unit rpc" where
  "rpc_SetBitbucketWorkspaceSelected i selected = checked (requireID i) (served id (SetWorkspaceSelected i selected))"

definition rpc_ListBitbucketRepos :: "bitbucket_repo list rpc" where
  "rpc_ListBitbucketRepos = served id (act_gets bitbucket_ListRepos)"

definition rpc_SetBitbucketRepoSelected :: "int \<Rightarrow> bool \<Rightarrow> unit rpc" where
  "rpc_SetBitbucketRepoSelected i selected = checked (requireID i) (served id (bitbucket_SetRepoSelected i selected))"

definition rpc_RefreshBitbucketResources :: "dependencies \<Rightarrow> string \<Rightarrow> unit rpc" where
  "rpc_RefreshBitbucketResources dp a = checked (a \<noteq> '''') (available (dp_refresh_bitbucket dp) (\<lambda>run. served id (run a)))"

definition rpc_RenderPeriodExport :: "dependencies \<Rightarrow> int \<Rightarrow> string \<Rightarrow> export_render rpc" where
  "rpc_RenderPeriodExport dp p key =
     checked (requireID p) (served id (computed (RenderPeriodExport (dp_tz dp) (dp_engine dp) p key)))"

definition rpc_BuildPeriodExport :: "dependencies \<Rightarrow> int \<Rightarrow> period_export rpc" where
  "rpc_BuildPeriodExport dp p = checked (requireID p) (served toProtoPeriodExport (computed (BuildPeriodExport (dp_tz dp) p)))"

definition rpc_ListExportTemplates :: "export_template list rpc" where
  "rpc_ListExportTemplates = served id (shown ListExportTemplates)"

definition rpc_GetExportTemplate :: "string \<Rightarrow> export_template rpc" where
  "rpc_GetExportTemplate key = checked (key \<noteq> '''') (served id (computed (GetExportTemplate key)))"

definition rpc_CreateExportTemplate :: "dependencies \<Rightarrow> template_input \<Rightarrow> export_template rpc" where
  "rpc_CreateExportTemplate dp input =
     checked (tp_name input \<noteq> '''' \<and> tp_format input \<noteq> '''') (served id (in_db (CreateExportTemplate (dp_engine dp) input)))"

definition rpc_UpdateExportTemplate :: "dependencies \<Rightarrow> int \<Rightarrow> template_input \<Rightarrow> export_template rpc" where
  "rpc_UpdateExportTemplate dp i input = checked (requireID i \<and> tp_name input \<noteq> '''' \<and> tp_format input \<noteq> '''')
     (served id (in_db (UpdateExportTemplate (dp_engine dp) i input)))"

definition rpc_DeleteExportTemplate :: "int \<Rightarrow> unit rpc" where
  "rpc_DeleteExportTemplate i = checked (requireID i) (served id (in_db (DeleteExportTemplate i)))"

definition rpc_DuplicateExportTemplate :: "dependencies \<Rightarrow> string \<Rightarrow> export_template rpc" where
  "rpc_DuplicateExportTemplate dp key = served id (in_db (DuplicateExportTemplate (dp_engine dp) key))"

definition rpc_PreviewExport :: "dependencies \<Rightarrow> preview_input \<Rightarrow> export_render rpc" where
  "rpc_PreviewExport dp input =
     checked (requireID (pv_period input)) (served id (computed (PreviewExport (dp_tz dp) (dp_engine dp) input)))"

definition rpc_ListExportFieldCatalog :: "string \<Rightarrow> string \<Rightarrow> field_info list rpc" where
  "rpc_ListExportFieldCatalog grain layout = served id (act_lift (ListExportFieldCatalog grain layout))"


section \<open>integrations_connect.go\<close>

definition oauthAvailable :: "dependencies \<Rightarrow> string \<Rightarrow> bool" where
  "oauthAvailable dp p =
     (if p = ''google'' then google_OAuthAvailable (dp_google dp)
      else case (if p = ''github'' then dp_github dp else if p = ''slack'' then dp_slack dp
          else if p = ''bitbucket'' then dp_bitbucket dp else None) of None \<Rightarrow> False | Some pv \<Rightarrow> OAuthAvailable pv)"

definition rpc_ListIntegrationProviders :: "dependencies \<Rightarrow> (descriptor \<times> bool) list rpc" where
  "rpc_ListIntegrationProviders dp = (\<lambda>s. (Inr (map (\<lambda>e. (e, oauthAvailable dp (ds_id e))) catalog_All), s))"

definition integrationAuthStatus :: "dependencies \<Rightarrow> string \<Rightarrow> auth_status rpc" where
  "integrationAuthStatus dp p =
     (let status = (\<lambda>pv s. (Inr (authStatusFromProvider p (pv_mode pv) (pv_broker pv) (OAuthAvailable pv)), s)) in
      if p = ''google'' then available (dp_google dp) (\<lambda>pv s.
        (Inr (case google_Status (Some pv) of (mode, broker) \<Rightarrow> \<lparr>ms_provider = p, ms_mode = mode, ms_broker = broker,
           ms_oauth = google_OAuthAvailable (Some pv), ms_pat = False\<rparr>), s))
      else if p = ''github'' then available (dp_github dp) status
      else if p = ''slack'' then available (dp_slack dp) status
      else if p = ''bitbucket'' then available (dp_bitbucket dp) status
      else refused CodeInvalidArgument)"

definition rpc_GetIntegrationAuthStatus :: "dependencies \<Rightarrow> string \<Rightarrow> auth_status rpc" where
  "rpc_GetIntegrationAuthStatus dp name =
     (let p = trim_space name in
      checked (p \<noteq> '''') (case catalog_Lookup p of None \<Rightarrow> refused CodeInvalidArgument
        | Some e \<Rightarrow> (\<lambda>s. case integrationAuthStatus dp p s of
            (Inl c, t) \<Rightarrow> (Inl c, t) | (Inr st, t) \<Rightarrow> (Inr (st\<lparr>ms_pat := ds_pat e\<rparr>), t))))"

definition rpc_ConnectIntegration :: "dependencies \<Rightarrow> string \<Rightarrow> string \<Rightarrow> string \<Rightarrow> string \<Rightarrow> connection_info rpc" where
  "rpc_ConnectIntegration dp name account label pat =
     (let p = trim_space name; rm = dp_remote dp; ad = dp_flows dp p in
      checked (p \<noteq> '''' \<and> catalog_Lookup p \<noteq> None)
        (if p = ''google'' then available (dp_google dp) (\<lambda>pv. served id (google_Connect rm ad pv account label))
         else if p = ''github'' then available (dp_github dp) (\<lambda>pv. served id (github_Connect rm ad pv pat))
         else if p = ''slack'' then available (dp_slack dp) (\<lambda>pv. served id (slack_Connect rm ad pv))
         else if p = ''bitbucket'' then available (dp_bitbucket dp) (\<lambda>pv. served id (bitbucket_Connect rm ad pv))
         else refused CodeInvalidArgument))"

definition rpc_DisconnectIntegration :: "dependencies \<Rightarrow> string \<Rightarrow> string \<Rightarrow> unit rpc" where
  "rpc_DisconnectIntegration dp name account =
     (let p = trim_space name; rm = dp_remote dp; ad = dp_flows dp p in
      checked (p \<noteq> '''' \<and> trim_space account \<noteq> '''' \<and> catalog_Lookup p \<noteq> None)
        (if p = ''google'' then available (dp_google dp) (\<lambda>pv. served id (google_Disconnect rm ad pv account))
         else if p = ''github'' then available (dp_github dp) (\<lambda>pv. served id (github_Disconnect rm ad pv account))
         else if p = ''slack'' then available (dp_slack dp) (\<lambda>pv. served id (slack_Disconnect rm ad pv account))
         else if p = ''bitbucket'' then available (dp_bitbucket dp) (\<lambda>pv. served id (bitbucket_Disconnect rm account))
         else refused CodeInvalidArgument))"



section \<open>handler.go\<close>

text \<open>The requests of the nine services.\<close>

datatype period_request = PeriodList | PeriodGet int | PeriodByRange string string | PeriodEnsure string string

datatype category_request = CategoryList bool | CategoryGet int | CategoryCreate category_input | CategoryUpdate int category_input
  | CategoryDelete int | CategoryArchive int | CategoryOverlays int

datatype project_request = ProjectList bool | ProjectGet int | ProjectCreate project_input | ProjectUpdate int project_input
  | ProjectDelete int | ProjectArchive int

datatype work_request = WorkList | WorkGet int | WorkReplace string string string "day_message list" | ExceptionList
  | ExceptionUpsert string string int "working_window option list" | ExceptionDelete string | ExpectedDate string | ExpectedRange string string

datatype calendar_request = CalendarList | CalendarSelected | CalendarSelect int bool | CalendarCategory int "int option" | CalendarSync int

datatype entry_request = EventList int | EventGet int | EntryList int | EntryGet int int | EntryCreate "entry_input option"
  | EntryCreateGap "entry_input option" | EntryUpdate int "entry_input option" | EntryDelete int int | EntryConfirm confirm_input
  | EntryReject int int | EntryAdjust int "entry_input option" | EntrySplit int int "string list" | EventConvert int "entry_input option"
  | DecisionList int | DecisionResolve int string | EventExclude int int | SegmentList int | GapCompute int
  | GapEvidence "timestamp option" "timestamp option" | GapSuggest "timestamp option" "timestamp option"

datatype settings_request = SettingGet string | SettingSet string json

datatype integration_request = ConnectionList | RepoList | RepoSelect int bool | RepoRefresh string | ChannelList | ChannelSelect int bool
  | ChannelRefresh string | WorkspaceList | WorkspaceSelect int bool | BitbucketRepoList | BitbucketRepoSelect int bool | BitbucketRefresh string
  | ProviderList | AuthStatus string | Connect string string string string | Disconnect string string

datatype export_request = ExportRender int string | ExportBuild int | TemplateList | TemplateGet string | TemplateCreate template_input
  | TemplateUpdate int template_input | TemplateDelete int | TemplateDuplicate string | ExportPreview preview_input | FieldList string string

datatype api_request = Period period_request | Category category_request | Project project_request | Work work_request
  | Calendar calendar_request | Entry entry_request | Settings settings_request | Integration integration_request | Export export_request

text \<open>The answer without its message: the messages are those of the handlers.\<close>

definition coded :: "'a rpc \<Rightarrow> unit rpc" where
  "coded m = (\<lambda>s. case m s of (Inl c, t) \<Rightarrow> (Inl c, t) | (Inr x, t) \<Rightarrow> (Inr (), t))"

primrec serve_period :: "period_request \<Rightarrow> dependencies \<Rightarrow> unit rpc" where
  "serve_period PeriodList dp = coded rpc_ListPeriods"
| "serve_period (PeriodGet i) dp = coded (rpc_GetPeriod i)"
| "serve_period (PeriodByRange a b) dp = coded (rpc_GetPeriodByRange a b)"
| "serve_period (PeriodEnsure today tz) dp = coded (rpc_EnsureCurrentPeriod dp today tz)"

primrec serve_category :: "category_request \<Rightarrow> instant \<Rightarrow> unit rpc" where
  "serve_category (CategoryList archived) now = coded (rpc_ListCategories archived)"
| "serve_category (CategoryGet i) now = coded (rpc_GetCategory i)"
| "serve_category (CategoryCreate input) now = coded (rpc_CreateCategory input)"
| "serve_category (CategoryUpdate i input) now = coded (rpc_UpdateCategory i input)"
| "serve_category (CategoryDelete i) now = coded (rpc_DeleteCategory i)"
| "serve_category (CategoryArchive i) now = coded (rpc_ArchiveCategory now i)"
| "serve_category (CategoryOverlays p) now = coded (rpc_ListEventCategoryOverlays p)"

primrec serve_project :: "project_request \<Rightarrow> instant \<Rightarrow> unit rpc" where
  "serve_project (ProjectList archived) now = coded (rpc_ListProjects archived)"
| "serve_project (ProjectGet i) now = coded (rpc_GetProject i)"
| "serve_project (ProjectCreate input) now = coded (rpc_CreateProject input)"
| "serve_project (ProjectUpdate i input) now = coded (rpc_UpdateProject i input)"
| "serve_project (ProjectDelete i) now = coded (rpc_DeleteProject i)"
| "serve_project (ProjectArchive i) now = coded (rpc_ArchiveProject now i)"

primrec serve_work :: "work_request \<Rightarrow> dependencies \<Rightarrow> unit rpc" where
  "serve_work WorkList dp = coded rpc_ListWorkSchedules"
| "serve_work (WorkGet i) dp = coded (rpc_GetWorkSchedule i)"
| "serve_work (WorkReplace zone start from_date days) dp = coded (rpc_ReplaceActiveWorkSchedule dp zone start from_date days)"
| "serve_work ExceptionList dp = coded rpc_ListScheduleExceptions"
| "serve_work (ExceptionUpsert date kind minutes ws) dp = coded (rpc_UpsertScheduleException date kind minutes ws)"
| "serve_work (ExceptionDelete date) dp = coded (rpc_DeleteScheduleException date)"
| "serve_work (ExpectedDate date) dp = coded (rpc_ExpectedTimeForDate date)"
| "serve_work (ExpectedRange a b) dp = coded (rpc_ExpectedTimeForRange a b)"

primrec serve_calendar :: "calendar_request \<Rightarrow> dependencies \<Rightarrow> instant \<Rightarrow> unit rpc" where
  "serve_calendar CalendarList dp now = coded rpc_ListCalendars"
| "serve_calendar CalendarSelected dp now = coded rpc_ListSelectedCalendars"
| "serve_calendar (CalendarSelect c selected) dp now = coded (rpc_SetCalendarSelected c selected)"
| "serve_calendar (CalendarCategory c cat) dp now = coded (rpc_SetCalendarDefaultCategory c cat)"
| "serve_calendar (CalendarSync p) dp now = coded (rpc_SyncPeriod dp now p)"

primrec serve_entry :: "entry_request \<Rightarrow> dependencies \<Rightarrow> unit rpc" where
  "serve_entry (EventList p) dp = coded (rpc_ListEvents dp p)"
| "serve_entry (EventGet i) dp = coded (rpc_GetEvent dp i)"
| "serve_entry (EntryList p) dp = coded (rpc_ListTimeEntries p)"
| "serve_entry (EntryGet i p) dp = coded (rpc_GetTimeEntry i p)"
| "serve_entry (EntryCreate input) dp = coded (rpc_CreateTimeEntry dp input)"
| "serve_entry (EntryCreateGap input) dp = coded (rpc_CreateGapTimeEntry dp input)"
| "serve_entry (EntryUpdate i input) dp = coded (rpc_UpdateTimeEntry dp i input)"
| "serve_entry (EntryDelete i p) dp = coded (rpc_DeleteTimeEntry i p)"
| "serve_entry (EntryConfirm input) dp = coded (rpc_ConfirmTimeEntry dp input)"
| "serve_entry (EntryReject i p) dp = coded (rpc_RejectTimeEntry i p)"
| "serve_entry (EntryAdjust i input) dp = coded (rpc_AdjustDraftTimeEntry dp i input)"
| "serve_entry (EntrySplit i p cuts) dp = coded (rpc_SplitTimeEntry dp i p cuts)"
| "serve_entry (EventConvert e input) dp = coded (rpc_ConvertAllDayEvent dp e input)"
| "serve_entry (DecisionList p) dp = coded (rpc_ListReviewDecisions p)"
| "serve_entry (DecisionResolve i action) dp = coded (rpc_ResolveReviewDecision dp i action)"
| "serve_entry (EventExclude e p) dp = coded (rpc_ExcludeEvent e p)"
| "serve_entry (SegmentList p) dp = coded (rpc_ListTzSegments p)"
| "serve_entry (GapCompute p) dp = coded (rpc_ComputeGaps dp p)"
| "serve_entry (GapEvidence a b) dp = coded (rpc_ListGapEvidence dp a b)"
| "serve_entry (GapSuggest a b) dp = coded (rpc_SuggestGapFill dp a b)"

primrec serve_settings :: "settings_request \<Rightarrow> unit rpc" where
  "serve_settings (SettingGet k) = coded (rpc_GetSetting k)"
| "serve_settings (SettingSet k v) = coded (rpc_SetSetting k v)"

primrec serve_integration :: "integration_request \<Rightarrow> dependencies \<Rightarrow> unit rpc" where
  "serve_integration ConnectionList dp = coded (rpc_ListIntegrationConnections dp)"
| "serve_integration RepoList dp = coded rpc_ListGitHubRepos"
| "serve_integration (RepoSelect i selected) dp = coded (rpc_SetGitHubRepoSelected i selected)"
| "serve_integration (RepoRefresh a) dp = coded (rpc_RefreshGitHubRepos dp a)"
| "serve_integration ChannelList dp = coded rpc_ListSlackChannels"
| "serve_integration (ChannelSelect i selected) dp = coded (rpc_SetSlackChannelSelected i selected)"
| "serve_integration (ChannelRefresh a) dp = coded (rpc_RefreshSlackChannels dp a)"
| "serve_integration WorkspaceList dp = coded rpc_ListBitbucketWorkspaces"
| "serve_integration (WorkspaceSelect i selected) dp = coded (rpc_SetBitbucketWorkspaceSelected i selected)"
| "serve_integration BitbucketRepoList dp = coded rpc_ListBitbucketRepos"
| "serve_integration (BitbucketRepoSelect i selected) dp = coded (rpc_SetBitbucketRepoSelected i selected)"
| "serve_integration (BitbucketRefresh a) dp = coded (rpc_RefreshBitbucketResources dp a)"
| "serve_integration ProviderList dp = coded (rpc_ListIntegrationProviders dp)"
| "serve_integration (AuthStatus p) dp = coded (rpc_GetIntegrationAuthStatus dp p)"
| "serve_integration (Connect p account label pat) dp = coded (rpc_ConnectIntegration dp p account label pat)"
| "serve_integration (Disconnect p account) dp = coded (rpc_DisconnectIntegration dp p account)"

primrec serve_export :: "export_request \<Rightarrow> dependencies \<Rightarrow> unit rpc" where
  "serve_export (ExportRender p key) dp = coded (rpc_RenderPeriodExport dp p key)"
| "serve_export (ExportBuild p) dp = coded (rpc_BuildPeriodExport dp p)"
| "serve_export TemplateList dp = coded rpc_ListExportTemplates"
| "serve_export (TemplateGet key) dp = coded (rpc_GetExportTemplate key)"
| "serve_export (TemplateCreate input) dp = coded (rpc_CreateExportTemplate dp input)"
| "serve_export (TemplateUpdate i input) dp = coded (rpc_UpdateExportTemplate dp i input)"
| "serve_export (TemplateDelete i) dp = coded (rpc_DeleteExportTemplate i)"
| "serve_export (TemplateDuplicate key) dp = coded (rpc_DuplicateExportTemplate dp key)"
| "serve_export (ExportPreview input) dp = coded (rpc_PreviewExport dp input)"
| "serve_export (FieldList grain layout) dp = coded (rpc_ListExportFieldCatalog grain layout)"

primrec NewHandler :: "dependencies \<Rightarrow> instant \<Rightarrow> api_request \<Rightarrow> unit rpc" where
  "NewHandler dp now (Period r) = serve_period r dp"
| "NewHandler dp now (Category r) = serve_category r now"
| "NewHandler dp now (Project r) = serve_project r now"
| "NewHandler dp now (Work r) = serve_work r dp"
| "NewHandler dp now (Calendar r) = serve_calendar r dp now"
| "NewHandler dp now (Entry r) = serve_entry r dp"
| "NewHandler dp now (Settings r) = serve_settings r"
| "NewHandler dp now (Integration r) = serve_integration r dp"
| "NewHandler dp now (Export r) = serve_export r dp"

end
