(* ===== verification/Application.thy ===== *)
theory Application
  imports Api Logging
begin

text \<open>
  The program behind its window: app.go. The methods bound to the frontend run on the state of the
  program and write to the log; a failure is logged by its operation and a code. The window, the
  dialog for a file and the folder of the log are not part of the state.
\<close>


section \<open>State\<close>

text \<open>\<open>ap_info\<close>: the configured level lets lines of the level info through.\<close>

record application =
  ap_desk :: desk
  ap_log :: "json option list"
  ap_info :: bool

text \<open>What the methods use: the functions of the API, the file of the log, and the texts of errors.\<close>

record app_parts =
  pa_api :: dependencies
  pa_log_path :: string
  pa_text :: "go_error \<Rightarrow> failure_info"

type_synonym 'a bound = "application \<Rightarrow> (go_error + 'a) \<times> application"

definition log_info :: "string \<Rightarrow> (string \<times> json) list \<Rightarrow> string \<Rightarrow> application \<Rightarrow> application" where
  "log_info operation extra msg s =
     (if ap_info s then s\<lparr>ap_log := snd (redacting_Write (\<lambda>_. False)
        (Some (JObj ([(''level'', JStr ''info''), (''op'', JStr operation)] @ extra @ [(''message'', JStr msg)]))) (ap_log s))\<rparr>
      else s)"

text \<open>A call whose failure is logged; a call that never returns logs nothing.\<close>

definition with_log :: "app_parts \<Rightarrow> string \<Rightarrow> (desk, 'a) act \<Rightarrow> 'a bound" where
  "with_log pa operation m = (\<lambda>s. case m (ap_desk s) of
      (Inr x, t) \<Rightarrow> (Inr x, s\<lparr>ap_desk := t\<rparr>)
    | (Inl e, t) \<Rightarrow> (Inl e, s\<lparr>ap_desk := t,
        ap_log := logErr operation (if e = Diverges then None else Some (pa_text pa e)) (ap_log s)\<rparr>))"

text \<open>Connecting also logs the account that is connected.\<close>

definition connecting :: "app_parts \<Rightarrow> string \<Rightarrow> ('a \<Rightarrow> string) \<Rightarrow> (desk, 'a) act \<Rightarrow> 'a bound" where
  "connecting pa operation account m = (\<lambda>s. case with_log pa operation m s of
      (Inl e, t) \<Rightarrow> (Inl e, t)
    | (Inr x, t) \<Rightarrow> (Inr x, log_info operation [(''account_id'', JStr (account x))] ''connected'' t))"

definition asked_of :: "'p option \<Rightarrow> ('p \<Rightarrow> (desk, 'a) act) \<Rightarrow> (desk, 'a) act" where
  "asked_of p m = (case p of None \<Rightarrow> act_throw ErrOther | Some x \<Rightarrow> m x)"


section \<open>Bound methods\<close>

definition GetGoogleAuthStatus :: "app_parts option \<Rightarrow> string \<times> string" where
  "GetGoogleAuthStatus pa = google_Status (case pa of None \<Rightarrow> None | Some a \<Rightarrow> dp_google (pa_api a))"

definition LogPath :: "app_parts option \<Rightarrow> string" where
  "LogPath pa = (case pa of None \<Rightarrow> '''' | Some a \<Rightarrow> pa_log_path a)"

abbreviation bound_flows :: "app_parts \<Rightarrow> string \<Rightarrow> adapters" where "bound_flows pa \<equiv> dp_flows (pa_api pa)"
abbreviation bound_remote :: "app_parts \<Rightarrow> remote" where "bound_remote pa \<equiv> dp_remote (pa_api pa)"
abbreviation bound_model :: "app_parts \<Rightarrow> model_access" where "bound_model pa \<equiv> dp_model (pa_api pa)"

definition ConnectGoogle :: "app_parts \<Rightarrow> string \<Rightarrow> string \<Rightarrow> connection_info bound" where
  "ConnectGoogle pa account label = connecting pa ''google.connect'' (\<lambda>_. account)
     (asked_of (dp_google (pa_api pa)) (\<lambda>pv. google_Connect (bound_remote pa) (bound_flows pa ''google'') pv account label))"

definition DisconnectGoogle :: "app_parts \<Rightarrow> string \<Rightarrow> unit bound" where
  "DisconnectGoogle pa account = with_log pa ''google.disconnect''
     (asked_of (dp_google (pa_api pa)) (\<lambda>pv. google_Disconnect (bound_remote pa) (bound_flows pa ''google'') pv account))"

definition ConnectGitHub :: "app_parts \<Rightarrow> string \<Rightarrow> connection_info bound" where
  "ConnectGitHub pa pat = connecting pa ''github.connect'' (\<lambda>c. cn_account (co_row c))
     (asked_of (dp_github (pa_api pa)) (\<lambda>pv. github_Connect (bound_remote pa) (bound_flows pa ''github'') pv pat))"

definition GitHubAuthMode :: "app_parts \<Rightarrow> string" where
  "GitHubAuthMode pa = (case dp_github (pa_api pa) of None \<Rightarrow> '''' | Some pv \<Rightarrow> pv_mode pv)"

definition GitHubOAuthAvailable :: "app_parts \<Rightarrow> bool" where
  "GitHubOAuthAvailable pa = (case dp_github (pa_api pa) of None \<Rightarrow> False | Some pv \<Rightarrow> OAuthAvailable pv)"

definition DisconnectGitHub :: "app_parts \<Rightarrow> string \<Rightarrow> unit bound" where
  "DisconnectGitHub pa account = with_log pa ''github.disconnect''
     (asked_of (dp_github (pa_api pa)) (\<lambda>pv. github_Disconnect (bound_remote pa) (bound_flows pa ''github'') pv account))"

definition ConnectSlack :: "app_parts \<Rightarrow> connection_info bound" where
  "ConnectSlack pa = connecting pa ''slack.connect'' (\<lambda>c. cn_account (co_row c))
     (asked_of (dp_slack (pa_api pa)) (\<lambda>pv. slack_Connect (bound_remote pa) (bound_flows pa ''slack'') pv))"

definition SlackAuthMode :: "app_parts \<Rightarrow> string" where
  "SlackAuthMode pa = (case dp_slack (pa_api pa) of None \<Rightarrow> '''' | Some pv \<Rightarrow> pv_mode pv)"

definition SlackOAuthAvailable :: "app_parts \<Rightarrow> bool" where
  "SlackOAuthAvailable pa = (case dp_slack (pa_api pa) of None \<Rightarrow> False | Some pv \<Rightarrow> OAuthAvailable pv)"

definition DisconnectSlack :: "app_parts \<Rightarrow> string \<Rightarrow> unit bound" where
  "DisconnectSlack pa account = with_log pa ''slack.disconnect''
     (asked_of (dp_slack (pa_api pa)) (\<lambda>pv. slack_Disconnect (bound_remote pa) (bound_flows pa ''slack'') pv account))"

text \<open>The model; its keychain may be missing.\<close>

definition DiscoverLocalAIEndpoints :: "app_parts \<Rightarrow> ai_endpoint list bound" where
  "DiscoverLocalAIEndpoints pa = (let mx = bound_model pa in
     (\<lambda>s. case DiscoverLocalEndpoints (mx_remote mx) (mx_url mx) (mx_ip mx) (ap_desk s) of (r, t) \<Rightarrow> (r, s\<lparr>ap_desk := t\<rparr>)))"

definition ClassifyAIEndpoint :: "app_parts \<Rightarrow> string \<Rightarrow> bool" where
  "ClassifyAIEndpoint pa base = ClassifyEndpoint (mx_url (bound_model pa)) (mx_ip (bound_model pa)) base"

definition bound_ListAIModels :: "app_parts \<Rightarrow> string \<Rightarrow> string \<Rightarrow> string list bound" where
  "bound_ListAIModels pa base key = (let mx = bound_model pa in
     with_log pa ''ai.list_models'' (ListAIModels (mx_remote mx) (mx_store mx) (mx_url mx) base key))"

definition bound_ValidateAIConfig :: "app_parts \<Rightarrow> string \<Rightarrow> string \<Rightarrow> string \<Rightarrow> (bool \<times> bool) bound" where
  "bound_ValidateAIConfig pa base key model = (let mx = bound_model pa in
     with_log pa ''ai.validate_config'' (ValidateAIConfig (mx_remote mx) (mx_store mx) (mx_url mx) (mx_ip mx) base key model))"

definition bound_SaveAIEndpoint :: "app_parts \<Rightarrow> string \<Rightarrow> unit bound" where
  "bound_SaveAIEndpoint pa base = with_log pa ''ai.save_endpoint'' (in_db (SaveAIEndpoint base))"

definition bound_SaveAIModel :: "app_parts \<Rightarrow> string \<Rightarrow> unit bound" where
  "bound_SaveAIModel pa model = with_log pa ''ai.save_model'' (in_db (SaveAIModel model))"

definition bound_SaveAIConfig :: "app_parts \<Rightarrow> string \<Rightarrow> string \<Rightarrow> unit bound" where
  "bound_SaveAIConfig pa base model = with_log pa ''ai.save_config'' (in_db (SaveAIConfig base model))"

definition bound_SaveAIAPIKey :: "app_parts \<Rightarrow> string \<Rightarrow> unit bound" where
  "bound_SaveAIAPIKey pa key = with_log pa ''ai.save_api_key'' (SaveAIAPIKey (mx_store (bound_model pa)) key)"

definition bound_ClearAIAPIKey :: "app_parts \<Rightarrow> unit bound" where
  "bound_ClearAIAPIKey pa = with_log pa ''ai.clear_api_key'' (ClearAIAPIKey (mx_store (bound_model pa)))"

definition bound_HasAIAPIKey :: "app_parts \<Rightarrow> application \<Rightarrow> bool" where
  "bound_HasAIAPIKey pa s = HasAIAPIKey (mx_store (bound_model pa)) (ap_desk s)"

text \<open>\<open>wrapSyncPeriod\<close>: the sync of the API with its lines in the log.\<close>

definition wrapSyncPeriod :: "app_parts \<Rightarrow> (instant \<Rightarrow> int \<Rightarrow> (desk, sync_result) act) \<Rightarrow> instant \<Rightarrow> int \<Rightarrow> sync_result bound" where
  "wrapSyncPeriod pa sync now p = (\<lambda>s.
     let started = log_info ''calendar.sync_period'' [(''period_id'', JInt p)] ''sync started'' s in
     case sync now p (ap_desk started) of
       (Inr x, t) \<Rightarrow> (Inr x, started\<lparr>ap_desk := t\<rparr>)
     | (Inl e, t) \<Rightarrow> (Inl e, started\<lparr>ap_desk := t,
         ap_log := (if e = Diverges then ap_log started else snd (redacting_Write (\<lambda>_. False)
           (Some (JObj [(''level'', JStr ''error''), (''op'', JStr ''calendar.sync_period''), (''period_id'', JInt p),
             (''reason'', JStr (Reason (Some (pa_text pa e)))), (''message'', JStr ''operation failed'')])) (ap_log started)))\<rparr>))"


section \<open>Everything a user can do\<close>

text \<open>The bound methods that change something or log.\<close>

datatype bound_call = BoundConnectGoogle string string | BoundDisconnectGoogle string | BoundConnectGitHub string | BoundDisconnectGitHub string
  | BoundConnectSlack | BoundDisconnectSlack string | BoundDiscover | BoundListModels string string | BoundValidate string string string
  | BoundSaveEndpoint string | BoundSaveModel string | BoundSaveConfig string string | BoundSaveKey string | BoundClearKey

definition silent :: "'a bound \<Rightarrow> application \<Rightarrow> application" where
  "silent m s = snd (m s)"

primrec run_bound :: "app_parts \<Rightarrow> bound_call \<Rightarrow> application \<Rightarrow> application" where
  "run_bound pa (BoundConnectGoogle account label) = silent (ConnectGoogle pa account label)"
| "run_bound pa (BoundDisconnectGoogle account) = silent (DisconnectGoogle pa account)"
| "run_bound pa (BoundConnectGitHub pat) = silent (ConnectGitHub pa pat)"
| "run_bound pa (BoundDisconnectGitHub account) = silent (DisconnectGitHub pa account)"
| "run_bound pa BoundConnectSlack = silent (ConnectSlack pa)"
| "run_bound pa (BoundDisconnectSlack account) = silent (DisconnectSlack pa account)"
| "run_bound pa BoundDiscover = silent (DiscoverLocalAIEndpoints pa)"
| "run_bound pa (BoundListModels base key) = silent (bound_ListAIModels pa base key)"
| "run_bound pa (BoundValidate base key model) = silent (bound_ValidateAIConfig pa base key model)"
| "run_bound pa (BoundSaveEndpoint base) = silent (bound_SaveAIEndpoint pa base)"
| "run_bound pa (BoundSaveModel model) = silent (bound_SaveAIModel pa model)"
| "run_bound pa (BoundSaveConfig base model) = silent (bound_SaveAIConfig pa base model)"
| "run_bound pa (BoundSaveKey key) = silent (bound_SaveAIAPIKey pa key)"
| "run_bound pa BoundClearKey = silent (bound_ClearAIAPIKey pa)"

text \<open>A user either sends a request to the API or calls a bound method.\<close>

datatype user_step = Asked instant api_request | Called bound_call

text \<open>The sync among the requests is the one that logs; the other requests do not.\<close>

definition run_request :: "app_parts \<Rightarrow> instant \<Rightarrow> api_request \<Rightarrow> application \<Rightarrow> application" where
  "run_request pa now rq s = (let t = s\<lparr>ap_desk := snd (NewHandler (pa_api pa) now rq (ap_desk s))\<rparr> in
     case rq of Calendar r \<Rightarrow> (case r of
         CalendarSync p \<Rightarrow> (case dp_sync (pa_api pa) of
             Some sync \<Rightarrow> if requireID p then silent (wrapSyncPeriod pa sync now p) s else t
           | None \<Rightarrow> t)
       | _ \<Rightarrow> t)
     | _ \<Rightarrow> t)"

primrec run_step :: "app_parts \<Rightarrow> user_step \<Rightarrow> application \<Rightarrow> application" where
  "run_step pa (Asked now rq) = run_request pa now rq"
| "run_step pa (Called c) = run_bound pa c"

definition session :: "app_parts \<Rightarrow> user_step list \<Rightarrow> application \<Rightarrow> application" where
  "session pa steps s = fold (run_step pa) steps s"

end
