(* ===== verification/Integrity.thy ===== *)
theory Integrity
  imports Category_Laws Template_Laws Sync_Laws Connections
begin

text \<open>
  The integrity of the database: what the tables satisfy as long as it is only changed by the
  operations of the service. \<open>sound\<close> relates two states when every part that was well formed still is.
\<close>


section \<open>The invariant\<close>

definition database_wf :: "template_engine \<Rightarrow> db \<Rightarrow> bool" where
  "database_wf engine d \<longleftrightarrow> schedules_wf d \<and> exceptions_wf d \<and> categories_wf (db_categories d) \<and>
     templates_wf engine (db_templates d) \<and> events_wf d \<and> overlays_wf d \<and>
     ids_ok te_id (db_entries d) \<and> ids_ok rv_id (db_reviews d)"

definition sound :: "template_engine \<Rightarrow> db \<Rightarrow> db \<Rightarrow> bool" where
  "sound engine d d' \<longleftrightarrow> (schedules_wf d \<longrightarrow> schedules_wf d') \<and> (exceptions_wf d \<longrightarrow> exceptions_wf d') \<and>
     (categories_wf (db_categories d) \<longrightarrow> categories_wf (db_categories d')) \<and>
     (templates_wf engine (db_templates d) \<longrightarrow> templates_wf engine (db_templates d') \<and>
        builtins (db_templates d') = builtins (db_templates d)) \<and>
     (events_wf d \<longrightarrow> events_wf d') \<and> (overlays_wf d \<longrightarrow> overlays_wf d') \<and>
     (ids_ok te_id (db_entries d) \<longrightarrow> ids_ok te_id (db_entries d')) \<and> (ids_ok rv_id (db_reviews d) \<longrightarrow> ids_ok rv_id (db_reviews d'))"

interpretation sound: frame_relation "sound engine" for engine
  by unfold_locales (auto simp: sound_def)

lemma sound_wf: "sound engine d d' \<Longrightarrow> database_wf engine d \<Longrightarrow> database_wf engine d' \<and> builtins (db_templates d') = builtins (db_templates d)"
  unfolding sound_def database_wf_def by blast

named_theorems sound_stmts \<open>the statements that keep the database sound\<close>

text \<open>Writing one table.\<close>

lemma schedules_wf_put [simp]:
  "schedules_wf (d\<lparr>db_entries := x1\<rparr>) = schedules_wf d" "schedules_wf (d\<lparr>db_events := x2\<rparr>) = schedules_wf d" "schedules_wf (d\<lparr>db_overlays := x3\<rparr>) = schedules_wf d"
  "schedules_wf (d\<lparr>db_reviews := x4\<rparr>) = schedules_wf d" "schedules_wf (d\<lparr>db_periods := x5\<rparr>) = schedules_wf d" "schedules_wf (d\<lparr>db_segments := x6\<rparr>) = schedules_wf d"
  "schedules_wf (d\<lparr>db_categories := x7\<rparr>) = schedules_wf d" "schedules_wf (d\<lparr>db_projects := x8\<rparr>) = schedules_wf d" "schedules_wf (d\<lparr>db_calendars := x9\<rparr>) = schedules_wf d"
  "schedules_wf (d\<lparr>db_exceptions := x10\<rparr>) = schedules_wf d" "schedules_wf (d\<lparr>db_exception_windows := x11\<rparr>) = schedules_wf d" "schedules_wf (d\<lparr>db_templates := x12\<rparr>) = schedules_wf d"
  "schedules_wf (d\<lparr>db_settings := x13\<rparr>) = schedules_wf d" "schedules_wf (d\<lparr>db_memory := x14\<rparr>) = schedules_wf d"
  by (simp_all add: schedules_wf_def)

lemma exceptions_wf_put [simp]:
  "exceptions_wf (d\<lparr>db_entries := x15\<rparr>) = exceptions_wf d" "exceptions_wf (d\<lparr>db_events := x16\<rparr>) = exceptions_wf d" "exceptions_wf (d\<lparr>db_overlays := x17\<rparr>) = exceptions_wf d"
  "exceptions_wf (d\<lparr>db_reviews := x18\<rparr>) = exceptions_wf d" "exceptions_wf (d\<lparr>db_periods := x19\<rparr>) = exceptions_wf d" "exceptions_wf (d\<lparr>db_segments := x20\<rparr>) = exceptions_wf d"
  "exceptions_wf (d\<lparr>db_categories := x21\<rparr>) = exceptions_wf d" "exceptions_wf (d\<lparr>db_projects := x22\<rparr>) = exceptions_wf d" "exceptions_wf (d\<lparr>db_calendars := x23\<rparr>) = exceptions_wf d"
  "exceptions_wf (d\<lparr>db_schedules := x24\<rparr>) = exceptions_wf d" "exceptions_wf (d\<lparr>db_schedule_days := x25\<rparr>) = exceptions_wf d" "exceptions_wf (d\<lparr>db_schedule_windows := x26\<rparr>) = exceptions_wf d"
  "exceptions_wf (d\<lparr>db_templates := x27\<rparr>) = exceptions_wf d" "exceptions_wf (d\<lparr>db_settings := x28\<rparr>) = exceptions_wf d" "exceptions_wf (d\<lparr>db_memory := x29\<rparr>) = exceptions_wf d"
  by (simp_all add: exceptions_wf_def)

lemma events_wf_put [simp]:
  "events_wf (d\<lparr>db_entries := x30\<rparr>) = events_wf d" "events_wf (d\<lparr>db_overlays := x31\<rparr>) = events_wf d" "events_wf (d\<lparr>db_reviews := x32\<rparr>) = events_wf d"
  "events_wf (d\<lparr>db_periods := x33\<rparr>) = events_wf d" "events_wf (d\<lparr>db_segments := x34\<rparr>) = events_wf d" "events_wf (d\<lparr>db_categories := x35\<rparr>) = events_wf d"
  "events_wf (d\<lparr>db_projects := x36\<rparr>) = events_wf d" "events_wf (d\<lparr>db_calendars := x37\<rparr>) = events_wf d" "events_wf (d\<lparr>db_schedules := x38\<rparr>) = events_wf d"
  "events_wf (d\<lparr>db_schedule_days := x39\<rparr>) = events_wf d" "events_wf (d\<lparr>db_schedule_windows := x40\<rparr>) = events_wf d" "events_wf (d\<lparr>db_exceptions := x41\<rparr>) = events_wf d"
  "events_wf (d\<lparr>db_exception_windows := x42\<rparr>) = events_wf d" "events_wf (d\<lparr>db_templates := x43\<rparr>) = events_wf d" "events_wf (d\<lparr>db_settings := x44\<rparr>) = events_wf d"
  "events_wf (d\<lparr>db_memory := x45\<rparr>) = events_wf d"
  by (simp_all add: events_wf_def)

lemma overlays_wf_put [simp]:
  "overlays_wf (d\<lparr>db_entries := x46\<rparr>) = overlays_wf d" "overlays_wf (d\<lparr>db_events := x47\<rparr>) = overlays_wf d" "overlays_wf (d\<lparr>db_reviews := x48\<rparr>) = overlays_wf d"
  "overlays_wf (d\<lparr>db_periods := x49\<rparr>) = overlays_wf d" "overlays_wf (d\<lparr>db_segments := x50\<rparr>) = overlays_wf d" "overlays_wf (d\<lparr>db_categories := x51\<rparr>) = overlays_wf d"
  "overlays_wf (d\<lparr>db_projects := x52\<rparr>) = overlays_wf d" "overlays_wf (d\<lparr>db_calendars := x53\<rparr>) = overlays_wf d" "overlays_wf (d\<lparr>db_schedules := x54\<rparr>) = overlays_wf d"
  "overlays_wf (d\<lparr>db_schedule_days := x55\<rparr>) = overlays_wf d" "overlays_wf (d\<lparr>db_schedule_windows := x56\<rparr>) = overlays_wf d" "overlays_wf (d\<lparr>db_exceptions := x57\<rparr>) = overlays_wf d"
  "overlays_wf (d\<lparr>db_exception_windows := x58\<rparr>) = overlays_wf d" "overlays_wf (d\<lparr>db_templates := x59\<rparr>) = overlays_wf d" "overlays_wf (d\<lparr>db_settings := x60\<rparr>) = overlays_wf d"
  "overlays_wf (d\<lparr>db_memory := x61\<rparr>) = overlays_wf d"
  by (simp_all add: overlays_wf_def)

lemma sound_puts:
  "(ids_ok te_id (db_entries d) \<Longrightarrow> ids_ok te_id t1) \<Longrightarrow> sound engine d (put_entries t1 d)"
  "(ids_ok rv_id (db_reviews d) \<Longrightarrow> ids_ok rv_id t2) \<Longrightarrow> sound engine d (put_reviews t2 d)"
  "(events_wf d \<Longrightarrow> events_wf (put_events t3 d)) \<Longrightarrow> sound engine d (put_events t3 d)"
  "(overlays_wf d \<Longrightarrow> overlays_wf (put_overlays t4 d)) \<Longrightarrow> sound engine d (put_overlays t4 d)"
  "(schedules_wf d \<Longrightarrow> schedules_wf (put_schedules t5 d)) \<Longrightarrow> sound engine d (put_schedules t5 d)"
  "(schedules_wf d \<Longrightarrow> schedules_wf (put_schedule_days t6 d)) \<Longrightarrow> sound engine d (put_schedule_days t6 d)"
  "(schedules_wf d \<Longrightarrow> schedules_wf (put_schedule_windows t7 d)) \<Longrightarrow> sound engine d (put_schedule_windows t7 d)"
  "(exceptions_wf d \<Longrightarrow> exceptions_wf (put_exceptions t8 d)) \<Longrightarrow> sound engine d (put_exceptions t8 d)"
  "(exceptions_wf d \<Longrightarrow> exceptions_wf (put_exception_windows t9 d)) \<Longrightarrow> sound engine d (put_exception_windows t9 d)"
  "(categories_wf (db_categories d) \<Longrightarrow> categories_wf t10) \<Longrightarrow> sound engine d (put_categories t10 d)"
  "sound engine d (put_periods t11 d)" "sound engine d (put_segments t12 d)" "sound engine d (put_projects t13 d)"
  "sound engine d (put_calendars t14 d)" "sound engine d (d\<lparr>db_settings := t15\<rparr>)"
  by (simp_all add: sound_def)

lemma keeps_templates_sound: "keeps_templates engine d d' \<Longrightarrow> sound engine d d'"
proof -
  assume kept: "keeps_templates engine d d'"
  then have put: "d' = put_templates (db_templates d') d" unfolding keeps_templates_def by (rule conjunct1)
  have "sound engine d (put_templates t d)"
    if "templates_wf engine (db_templates d) \<longrightarrow> templates_wf engine t \<and> builtins t = builtins (db_templates d)" for t
    using that by (simp add: sound_def)
  moreover have "templates_wf engine (db_templates d) \<longrightarrow> templates_wf engine (db_templates d') \<and> builtins (db_templates d') = builtins (db_templates d)"
    using kept unfolding keeps_templates_def by (rule conjunct2)
  ultimately have "sound engine d (put_templates (db_templates d') d)" by blast
  then show ?thesis using put by argo
qed

lemma moves_get_one: "frame_relation R \<Longrightarrow> moves R (get_one f)"
  unfolding moves_def get_one_def by (auto simp: frame_relation.frame_refl split: option.split)

lemma moves_insert_ok:
  assumes "\<And>d. R d d" "\<And>d r. r = mk (tbl_seq (get d) + 1) \<Longrightarrow> ok d r \<Longrightarrow>
      R d (put ((get d)\<lparr>tbl_rows := tbl_rows (get d) @ [r], tbl_seq := tbl_seq (get d) + 1\<rparr>) d)"
  shows "moves R (insert_into get put ok mk)"
  using assms by (simp add: moves_def insert_into_def Let_def)

lemma moves_update_ok:
  assumes "\<And>d. R d d"
    "\<And>d. let d' = put ((get d)\<lparr>tbl_rows := map (\<lambda>r. if P r then f r else r) (tbl_rows (get d))\<rparr>) d in
       (\<forall>r \<in> set (tbl_rows (get d)). P r \<longrightarrow> ok d' (f r)) \<longrightarrow> R d d'"
  shows "moves R (update_where get put ok P f)"
  unfolding moves_def update_where_def
proof
  fix d
  show "R d (state_of (let t = get d; d' = put (t\<lparr>tbl_rows := map (\<lambda>r. if P r then f r else r) (tbl_rows t)\<rparr>) d in
      if list_all (\<lambda>r. ok d' (f r)) (filter P (tbl_rows t)) then (Inr (map f (filter P (tbl_rows t))), d') else (Inl ErrConstraint, d)))"
    using assms(1) [of d] assms(2) [of d] by (auto simp: Let_def list_all_iff)
qed

text \<open>Ids through the rows that a statement leaves.\<close>

lemma ids_append: "ids_ok key t \<Longrightarrow> key r = tbl_seq t + 1 \<Longrightarrow> ids_ok key (t\<lparr>tbl_rows := tbl_rows t @ [r], tbl_seq := tbl_seq t + 1\<rparr>)"
  by (fastforce simp: ids_ok_def)

lemma ids_map: "ids_ok key t \<Longrightarrow> (\<And>r. key (f r) = key r) \<Longrightarrow> ids_ok key (t\<lparr>tbl_rows := map f (tbl_rows t)\<rparr>)"
  by (auto simp: ids_ok_def o_def)

lemma ids_filter: "ids_ok key t \<Longrightarrow> ids_ok key (t\<lparr>tbl_rows := filter P (tbl_rows t)\<rparr>)"
  by (auto simp: ids_ok_def distinct_map_filter)

lemma ids_map_table: "ids_ok key t \<Longrightarrow> (\<And>r. key (f r) = key r) \<Longrightarrow> ids_ok key (map_table f t)"
  by (simp add: map_table_def ids_map)

lemmas ids_rules = ids_append ids_map ids_filter ids_map_table

lemma keyed_append:
  "ids_ok key t \<Longrightarrow> key r = tbl_seq t + 1 \<Longrightarrow> alone key uk t r \<Longrightarrow> distinct (map uk (tbl_rows t)) \<Longrightarrow> distinct (map uk (tbl_rows t @ [r]))"
  by (fastforce simp: ids_ok_def alone_def list_all_iff)


section \<open>Statements\<close>

lemma sound_entries [sound_stmts]:
  "moves (sound engine) (q_CreateTimeEntry e)" "(\<And>r. te_id (f r) = te_id r) \<Longrightarrow> moves (sound engine) (update_entry i p Q f)"
  "moves (sound engine) (q_DeleteTimeEntry i p)"
  unfolding q_CreateTimeEntry_def update_entry_def q_DeleteTimeEntry_def
  by (rule entries.moves_insert entries.moves_update entries.moves_delete; (rule sound.frame_refl | rule sound_puts; auto intro!: ids_rules))+

lemma sound_entry_updates [sound_stmts]:
  "moves (sound engine) (q_UpdateTimeEntry e)" "moves (sound engine) (q_UpdateTimeEntrySpan a b dur day i p)"
  "moves (sound engine) (q_UpdateTimeEntryAttestation att i p)" "moves (sound engine) (q_UpdateTimeEntryCalendarDraft e)"
  "moves (sound engine) (q_UpdateTimeEntrySourceRevision v i p)"
  unfolding q_UpdateTimeEntry_def q_UpdateTimeEntrySpan_def q_UpdateTimeEntryAttestation_def q_UpdateTimeEntryCalendarDraft_def
    q_UpdateTimeEntrySourceRevision_def
  by (intro moves_scan_one sound.moves_seq sound.moves_ret sound_entries; simp)+

lemma sound_events [sound_stmts]:
  "moves (sound engine) (q_UpsertEvent e)" "moves (sound engine) (q_SetEventActiveByCalendar b c)" "moves (sound engine) (q_DeleteEvent i)"
proof -
  have append: "events_wf (put_events ((db_events d)\<lparr>tbl_rows := tbl_rows (db_events d) @ [r], tbl_seq := tbl_seq (db_events d) + 1\<rparr>) d)"
    if "r = e\<lparr>ev_id := tbl_seq (db_events d) + 1, ev_active := True\<rparr>" "ev_ok d r" "events_wf d" for d r
    using that keyed_append [of ev_id "db_events d" r event_key]
    by (auto simp: events_wf_def ev_ok_def event_key_def [abs_def] intro!: ids_append)
  have keep: "events_wf (put_events ((db_events d)\<lparr>tbl_rows := map f (tbl_rows (db_events d))\<rparr>) d)"
    if "events_wf d" "\<And>r. ev_id (f r) = ev_id r" "\<And>r. event_key (f r) = event_key r" for d f
    using that by (auto simp: events_wf_def o_def intro!: ids_map)
  show "moves (sound engine) (q_UpsertEvent e)"
    unfolding q_UpsertEvent_def
    by (intro events.moves_upsert moves_insert_ok events.moves_update sound.frame_refl sound_puts(3) append keep)
      (auto simp: event_key_def)
  show "moves (sound engine) (q_SetEventActiveByCalendar b c)"
    unfolding q_SetEventActiveByCalendar_def
    by (intro sound.moves_seq sound.moves_ret events.moves_update sound.frame_refl sound_puts(3) keep) (auto simp: event_key_def)
  show "moves (sound engine) (q_DeleteEvent i)"
    unfolding q_DeleteEvent_def
    by (intro sound.moves_seq sound.moves_ret reviews.moves_delete events.moves_delete sound_puts)
      (auto simp: events_wf_def distinct_map_filter intro!: ids_filter)
qed

lemma sound_overlays [sound_stmts]:
  "moves (sound engine) (q_UpsertOverlay ov)" "moves (sound engine) (q_DeleteOverlay i)"
proof -
  have append: "overlays_wf (put_overlays ((db_overlays d)\<lparr>tbl_rows := tbl_rows (db_overlays d) @ [r], tbl_seq := tbl_seq (db_overlays d) + 1\<rparr>) d)"
    if "r = ov\<lparr>ov_id := tbl_seq (db_overlays d) + 1\<rparr>" "ov_ok d r" "overlays_wf d" for d r
    using that keyed_append [of ov_id "db_overlays d" r overlay_key]
    by (auto simp: overlays_wf_def ov_ok_def overlay_key_def [abs_def] intro!: ids_append)
  have keep: "overlays_wf (put_overlays ((db_overlays d)\<lparr>tbl_rows := map f (tbl_rows (db_overlays d))\<rparr>) d)"
    if "overlays_wf d" "\<And>r. ov_id (f r) = ov_id r" "\<And>r. overlay_key (f r) = overlay_key r" for d f
    using that by (auto simp: overlays_wf_def o_def intro!: ids_map)
  show "moves (sound engine) (q_UpsertOverlay ov)"
    unfolding q_UpsertOverlay_def
    by (intro overlays.moves_upsert moves_insert_ok overlays.moves_update sound.frame_refl sound_puts(4) append keep)
      (auto simp: overlay_key_def)
  show "moves (sound engine) (q_DeleteOverlay i)"
    unfolding q_DeleteOverlay_def
    by (intro sound.moves_seq sound.moves_ret overlays.moves_delete sound_puts)
      (auto simp: overlays_wf_def distinct_map_filter intro!: ids_filter)
qed

lemma sound_reviews [sound_stmts]:
  "moves (sound engine) (q_CreateReviewItem p kind e payload k)"
  "(\<And>r. rv_id (f r) = rv_id r) \<Longrightarrow> moves (sound engine) (update_review i Q f)"
  unfolding q_CreateReviewItem_def update_review_def
  by (rule reviews.moves_insert reviews.moves_update; (rule sound.frame_refl | rule sound_puts; auto intro!: ids_rules))+

lemma sound_review_updates [sound_stmts]:
  "moves (sound engine) (q_UpdateOpenReviewItemPayload payload i)" "moves (sound engine) (q_ReopenReviewItem payload e i)"
  "moves (sound engine) (q_ResolveReviewItem status action payload i)"
  unfolding q_UpdateOpenReviewItemPayload_def q_ReopenReviewItem_def q_ResolveReviewItem_def
  by (intro sound.moves_bind sound.moves_seq sound.moves_ret sound_reviews; simp)+

lemma sound_periods [sound_stmts]:
  "moves (sound engine) (q_CreatePeriod a b cadence anchor)" "moves (sound engine) (q_TouchPeriodSynced at i)"
  "moves (sound engine) (q_UpsertTzSegment p from tz)"
  unfolding q_CreatePeriod_def q_TouchPeriodSynced_def q_UpsertTzSegment_def
  by (intro sound.moves_seq sound.moves_ret periods.moves_insert periods.moves_update segments.moves_upsert segments.moves_insert
      segments.moves_update sound.frame_refl sound_puts)+

lemma sound_settings [sound_stmts]: "moves (sound engine) (q_SetSetting k v)"
  unfolding q_SetSetting_def moves_def by (simp add: act_modify_def sound_puts)

lemma sound_projects [sound_stmts]:
  "moves (sound engine) (q_CreateProject name key color)" "moves (sound engine) (q_UpdateProject name key color i)"
  "moves (sound engine) (q_ArchiveProject at i)" "moves (sound engine) (q_DeleteProject i)"
proof -
  have "moves (sound engine) (act_modify (\<lambda>d. d\<lparr>db_entries := map_table (\<lambda>r. r\<lparr>te_project := clear_ref i (te_project r)\<rparr>) (db_entries d)\<rparr>))"
    unfolding moves_def by (auto simp: act_modify_def intro!: sound_puts ids_map_table)
  then show "moves (sound engine) (q_DeleteProject i)"
    unfolding q_DeleteProject_def by (intro sound.moves_seq projects.moves_delete sound_puts)
  show "moves (sound engine) (q_CreateProject name key color)" "moves (sound engine) (q_UpdateProject name key color i)"
    "moves (sound engine) (q_ArchiveProject at i)"
    unfolding q_CreateProject_def q_UpdateProject_def q_ArchiveProject_def update_project_def
    by (intro moves_scan_one projects.moves_insert projects.moves_update sound.frame_refl sound_puts)+
qed

lemma sound_calendars [sound_stmts]:
  "moves (sound engine) (q_SetCalendarSelected b i)" "moves (sound engine) (q_SetCalendarDefaultCategory k i)"
  "moves (sound engine) (q_UpsertCalendar p ext name primary)"
  unfolding q_SetCalendarSelected_def q_SetCalendarDefaultCategory_def update_calendar_def q_UpsertCalendar_def
  by (intro sound.moves_seq sound.moves_ret calendars.moves_upsert calendars.moves_insert calendars.moves_update sound.frame_refl sound_puts)+

lemma overlap_sym: "ranges_overlap x y \<Longrightarrow> ranges_overlap y x"
  by (auto simp: ranges_overlap_def)

lemma sound_schedules [sound_stmts]:
  "moves (sound engine) (q_CreateWorkSchedule tz ww from to)" "moves (sound engine) (q_UpdateWorkScheduleEffectiveTo to i)"
  "moves (sound engine) (q_CreateWorkScheduleDay sched wd m)" "moves (sound engine) (q_CreateWorkScheduleWindow day a b)"
proof -
  show "moves (sound engine) (q_CreateWorkSchedule tz ww from to)"
    unfolding q_CreateWorkSchedule_def
  proof (intro moves_insert_ok sound.frame_refl sound_puts(5))
    fix d :: db and r
    let ?t = "(db_schedules d)\<lparr>tbl_rows := tbl_rows (db_schedules d) @ [r], tbl_seq := tbl_seq (db_schedules d) + 1\<rparr>"
    assume r: "r = \<lparr>ws_id = tbl_seq (db_schedules d) + 1, ws_timezone = tz, ws_workweek_start = ww, ws_from = from, ws_to = to\<rparr>"
      and ok: "ws_ok d r" and wf: "schedules_wf d"
    have "ids_ok ws_id ?t" using wf r by (intro ids_append) (simp_all add: schedules_wf_def)
    moreover have "\<not> ranges_overlap x r" "\<not> ranges_overlap r x" if "x \<in> set (tbl_rows (db_schedules d))" for x
    proof -
      have "ws_id x \<noteq> ws_id r" using that r wf by (force simp: schedules_wf_def ids_ok_def)
      then show "\<not> ranges_overlap x r" using that ok by (auto simp: ws_ok_def list_all_iff)
      then show "\<not> ranges_overlap r x" using overlap_sym by blast
    qed
    moreover have "\<forall>u. ws_to r = Some u \<longrightarrow> ws_from r < u" "ws_workweek_start r \<in> set weekdays"
      using ok by (auto simp: ws_ok_def)
    ultimately show "schedules_wf (put_schedules ?t d)"
      using wf unfolding schedules_wf_def by auto
  qed
  show "moves (sound engine) (q_UpdateWorkScheduleEffectiveTo to i)"
    unfolding q_UpdateWorkScheduleEffectiveTo_def
  proof (intro moves_scan_one moves_update_ok sound.frame_refl)
    fix d :: db
    let ?f = "\<lambda>r. if ws_id r = i then r\<lparr>ws_to := to\<rparr> else r"
    let ?t = "(db_schedules d)\<lparr>tbl_rows := map ?f (tbl_rows (db_schedules d))\<rparr>"
    have "schedules_wf (put_schedules ?t d)"
      if wf: "schedules_wf d" and ok: "\<forall>r \<in> set (tbl_rows (db_schedules d)). ws_id r = i \<longrightarrow> ws_ok (put_schedules ?t d) (r\<lparr>ws_to := to\<rparr>)"
    proof -
      have ids: "ids_ok ws_id ?t" using wf by (intro ids_map) (simp_all add: schedules_wf_def)
      have new: "ws_ok (put_schedules ?t d) x" if "x \<in> set (tbl_rows ?t)" "ws_id x = i" for x
        using that ok by auto
      have free: "\<not> ranges_overlap y x" if "x \<in> set (tbl_rows ?t)" "ws_id x = i" "y \<in> set (tbl_rows ?t)" "ws_id y \<noteq> ws_id x" for x y
        using new [OF that(1,2)] that(3,4) unfolding ws_ok_def list_all_iff by auto
      have apart: "\<not> ranges_overlap x y" if xy: "x \<in> set (tbl_rows ?t)" "y \<in> set (tbl_rows ?t)" "ws_id x \<noteq> ws_id y" for x y
      proof -
        consider "ws_id x = i" | "ws_id y = i" | "ws_id x \<noteq> i" "ws_id y \<noteq> i" by blast
        then show ?thesis
        proof cases
          case 1
          then have "\<not> ranges_overlap y x" using free [OF xy(1) _ xy(2)] xy(3) by simp
          then show ?thesis using overlap_sym by blast
        next
          case 2
          then show ?thesis using free [OF xy(2) _ xy(1)] xy(3) by simp
        next
          case 3
          then have "x \<in> set (tbl_rows (db_schedules d))" "y \<in> set (tbl_rows (db_schedules d))" using xy(1,2) by (auto split: if_splits)
          then show ?thesis using wf xy(3) unfolding schedules_wf_def by blast
        qed
      qed
      have range: "\<forall>x \<in> set (tbl_rows ?t). \<forall>u. ws_to x = Some u \<longrightarrow> ws_from x < u"
      proof (intro ballI allI impI)
        fix x u assume x: "x \<in> set (tbl_rows ?t)" "ws_to x = Some u"
        show "ws_from x < u"
          using new [OF x(1)] x wf by (cases "ws_id x = i") (auto simp: ws_ok_def schedules_wf_def split: if_splits)
      qed
      have "\<forall>x \<in> set (tbl_rows ?t). ws_workweek_start x \<in> set weekdays" using wf by (auto simp: schedules_wf_def)
      then show ?thesis using ids apart range wf unfolding schedules_wf_def by simp
    qed
    then show "let d' = put_schedules ((db_schedules d)\<lparr>tbl_rows := map (\<lambda>r. if ws_id r = i then r\<lparr>ws_to := to\<rparr> else r) (tbl_rows (db_schedules d))\<rparr>) d in
       (\<forall>r \<in> set (tbl_rows (db_schedules d)). ws_id r = i \<longrightarrow> ws_ok d' (r\<lparr>ws_to := to\<rparr>)) \<longrightarrow> sound engine d d'"
      unfolding Let_def by (intro impI sound_puts(5))
  qed
  show "moves (sound engine) (q_CreateWorkScheduleDay sched wd m)"
    unfolding q_CreateWorkScheduleDay_def
    by (intro moves_insert_ok sound.frame_refl sound_puts(6))
      (fastforce simp: schedules_wf_def wd_ok_def has_id_def ids_ok_def list_ex_iff intro!: ids_append)
  show "moves (sound engine) (q_CreateWorkScheduleWindow day a b)"
    unfolding q_CreateWorkScheduleWindow_def
    by (intro moves_insert_ok sound.frame_refl sound_puts(7))
      (fastforce simp: schedules_wf_def has_id_def ids_ok_def list_ex_iff)
qed

lemma sound_exceptions [sound_stmts]:
  "moves (sound engine) (q_CreateScheduleException date kind m)" "moves (sound engine) (q_UpdateScheduleException kind m i)"
  "moves (sound engine) (q_DeleteScheduleException i)" "moves (sound engine) (q_DeleteScheduleExceptionWindows i)"
  "moves (sound engine) (q_CreateScheduleExceptionWindow i a b)"
proof -
  show "moves (sound engine) (q_CreateScheduleException date kind m)"
    unfolding q_CreateScheduleException_def
  proof (intro moves_insert_ok sound.frame_refl sound_puts(8))
    fix d :: db and r
    let ?t = "(db_exceptions d)\<lparr>tbl_rows := tbl_rows (db_exceptions d) @ [r], tbl_seq := tbl_seq (db_exceptions d) + 1\<rparr>"
    assume r: "r = \<lparr>sx_id = tbl_seq (db_exceptions d) + 1, sx_date = date, sx_kind = kind, sx_expected = m\<rparr>"
      and ok: "sx_ok d r" and wf: "exceptions_wf d"
    have "ids_ok sx_id ?t" using wf r by (intro ids_append) (simp_all add: exceptions_wf_def)
    moreover have "distinct (map sx_date (tbl_rows ?t))"
      using keyed_append [of sx_id "db_exceptions d" r sx_date] wf ok r by (simp add: exceptions_wf_def sx_ok_def)
    ultimately show "exceptions_wf (put_exceptions ?t d)" using wf unfolding exceptions_wf_def by auto
  qed
  have map: "exceptions_wf (put_exceptions ((db_exceptions d)\<lparr>tbl_rows := map f (tbl_rows (db_exceptions d))\<rparr>) d)"
    if "exceptions_wf d" "\<And>r. sx_id (f r) = sx_id r" "\<And>r. sx_date (f r) = sx_date r" for d f
    using that by (auto simp: exceptions_wf_def o_def intro!: ids_map)
  show "moves (sound engine) (q_UpdateScheduleException kind m i)"
    unfolding q_UpdateScheduleException_def
    by (intro moves_scan_one exceptions.moves_update sound.frame_refl sound_puts(8) map) auto
  show "moves (sound engine) (q_DeleteScheduleException i)" "moves (sound engine) (q_DeleteScheduleExceptionWindows i)"
    unfolding q_DeleteScheduleException_def q_DeleteScheduleExceptionWindows_def
    by (intro sound.moves_seq sound.moves_ret exceptions.moves_delete exception_windows.moves_delete sound_puts(8,9);
        auto simp: exceptions_wf_def distinct_map_filter intro!: ids_filter)+
  show "moves (sound engine) (q_CreateScheduleExceptionWindow i a b)"
    unfolding q_CreateScheduleExceptionWindow_def
    by (intro moves_insert_ok sound.frame_refl sound_puts(9))
      (fastforce simp: exceptions_wf_def has_id_def ids_ok_def list_ex_iff)
qed


section \<open>Categories\<close>

text \<open>Between the statements of one operation the categories need not be well formed; the rest is.\<close>

definition sound_rest :: "template_engine \<Rightarrow> db \<Rightarrow> db \<Rightarrow> bool" where
  "sound_rest engine d d' \<longleftrightarrow> sound engine d (put_categories (db_categories d) d')"

interpretation rest: frame_relation "sound_rest engine" for engine
  by unfold_locales (auto simp: sound_rest_def sound_def)

lemma sound_with_categories:
  "sound_rest engine d d' \<Longrightarrow> (categories_wf (db_categories d) \<Longrightarrow> categories_wf (db_categories d')) \<Longrightarrow> sound engine d d'"
  unfolding sound_rest_def sound_def by simp

lemma rest_categories: "moves (sound_rest engine) (update_category P f)" "moves (sound_rest engine) (q_CreateCategory name desc key gap color)"
  unfolding update_category_def q_CreateCategory_def
  by (intro categories.moves_update categories.moves_insert rest.frame_refl; simp add: sound_rest_def sound.frame_refl)+

lemma rest_updates:
  "moves (sound_rest engine) (q_UpdateCategory name desc key color i)" "moves (sound_rest engine) q_ClearDefaultGap"
  "moves (sound_rest engine) (q_SetDefaultGap i)" "moves (sound_rest engine) (q_ArchiveCategory at i)" "moves (sound_rest engine) (q_DeleteCategory i)"
proof -
  show "moves (sound_rest engine) (q_UpdateCategory name desc key color i)" "moves (sound_rest engine) q_ClearDefaultGap"
    "moves (sound_rest engine) (q_SetDefaultGap i)" "moves (sound_rest engine) (q_ArchiveCategory at i)"
    unfolding q_UpdateCategory_def q_ClearDefaultGap_def q_SetDefaultGap_def q_ArchiveCategory_def
    by (intro rest.moves_seq rest.moves_ret moves_scan_one rest_categories)+
  have cleared: "sound_rest engine d (d\<lparr>db_overlays := map_table (\<lambda>r. r\<lparr>ov_category := clear_ref i (ov_category r)\<rparr>) (db_overlays d),
      db_entries := map_table (\<lambda>r. r\<lparr>te_category := clear_ref i (te_category r)\<rparr>) (db_entries d), db_calendars := c, db_memory := m\<rparr>)" for d :: db and c m
    by (auto simp: sound_rest_def sound_def overlays_wf_def map_table_def overlay_key_def [abs_def] o_def intro!: ids_map)
  then have "moves (sound_rest engine) (act_modify (\<lambda>d. d\<lparr>
        db_overlays := map_table (\<lambda>r. r\<lparr>ov_category := clear_ref i (ov_category r)\<rparr>) (db_overlays d),
        db_entries := map_table (\<lambda>r. r\<lparr>te_category := clear_ref i (te_category r)\<rparr>) (db_entries d),
        db_calendars := map_table (\<lambda>r. r\<lparr>cl_category := clear_ref i (cl_category r)\<rparr>) (db_calendars d),
        db_memory := filter (\<lambda>m. me_category m \<noteq> i) (db_memory d)\<rparr>))"
    unfolding moves_def by (simp add: act_modify_def)
  then show "moves (sound_rest engine) (q_DeleteCategory i)"
    unfolding q_DeleteCategory_def
    by (intro rest.moves_seq categories.moves_delete) (simp_all add: sound_rest_def sound.frame_refl)
qed

text \<open>The operations.\<close>

lemmas rest_rules = rest.frame_rules moves_mapErr moves_get_one [OF rest.frame_relation_axioms] rest_categories rest_updates

lemma moves_sound_categories:
  assumes "moves (sound_rest engine) m" "\<And>d r d'. m d = (r, d') \<Longrightarrow> categories_wf (db_categories d) \<Longrightarrow> categories_wf (db_categories d')"
  shows "moves (sound engine) m"
  unfolding moves_def
proof
  fix d
  show "sound engine d (state_of (m d))"
    using movesD [OF assms(1)] assms(2) [of d "result_of (m d)" "state_of (m d)"] by (intro sound_with_categories) simp_all
qed

lemma sound_category_operations:
  "moves (sound engine) (CreateCategory input)" "moves (sound engine) (UpdateCategory i input)"
  "moves (sound engine) (DeleteCategory i)" "moves (sound engine) (ArchiveCategory now i)"
proof -
  have rest: "moves (sound_rest engine) (CreateCategory input)" "moves (sound_rest engine) (UpdateCategory i input)"
    "moves (sound_rest engine) (DeleteCategory i)" "moves (sound_rest engine) (ArchiveCategory now i)"
    unfolding CreateCategory_def UpdateCategory_def DeleteCategory_def ArchiveCategory_def Let_def by (intro rest_rules)+
  show "moves (sound engine) (CreateCategory input)" by (rule moves_sound_categories [OF rest(1)]) (rule create_category_wf)
  show "moves (sound engine) (UpdateCategory i input)" by (rule moves_sound_categories [OF rest(2)]) (rule update_category_wf)
  show "moves (sound engine) (DeleteCategory i)" by (rule moves_sound_categories [OF rest(3)]) (rule delete_category_wf)
  show "moves (sound engine) (ArchiveCategory now i)" by (rule moves_sound_categories [OF rest(4)]) (rule archive_category_wf)
qed


section \<open>Operations\<close>

lemmas sound_rules = sound.frame_rules moves_mapErr moves_scan_one moves_get_one [OF sound.frame_relation_axioms] sound_stmts

lemma sound_template_operations:
  "moves (sound engine) (CreateExportTemplate engine input)" "moves (sound engine) (UpdateExportTemplate engine i input)"
  "moves (sound engine) (DeleteExportTemplate i)" "moves (sound engine) (DuplicateExportTemplate engine key)"
  using create_template_keeps update_template_keeps delete_template_keeps duplicate_template_keeps
  unfolding moves_def by (blast intro: keeps_templates_sound)+

lemma sound_project_operations:
  "moves (sound engine) (CreateProject pinput)" "moves (sound engine) (UpdateProject i pinput)"
  "moves (sound engine) (DeleteProject i)" "moves (sound engine) (ArchiveProject now i)"
  unfolding CreateProject_def UpdateProject_def DeleteProject_def ArchiveProject_def Let_def
  by (intro sound_rules)+

lemma sound_schedule_operations:
  "moves (sound engine) (ReplaceActiveWorkSchedule tz sinput)" "moves (sound engine) (UpsertScheduleException xinput)"
  "moves (sound engine) (DeleteScheduleException date)" "moves (sound engine) (GetWorkSchedule i)"
  unfolding ReplaceActiveWorkSchedule_def UpsertScheduleException_def DeleteScheduleException_def GetWorkSchedule_def
    GetScheduleExceptionByDate_def close_schedules_def insertScheduleDays_def Let_def
  by (intro sound_rules)+

lemma sound_period_operations:
  "moves (sound engine) (EnsureCurrentPeriod today zone)" "moves (sound engine) (GetPeriod i)" "moves (sound engine) (GetPeriodByRange a b)"
  unfolding EnsureCurrentPeriod_def GetPeriod_def GetPeriodByRange_def ensurePeriodTzSegment_def Let_def
  by (intro sound_rules)+

lemma sound_ledger_operations:
  "moves (sound engine) (CreateTimeEntry tz einput)" "moves (sound engine) (CreateGapTimeEntry tz einput)"
  "moves (sound engine) (UpdateTimeEntry tz i einput)" "moves (sound engine) (DeleteTimeEntry i p)"
  "moves (sound engine) (ConfirmTimeEntry tz cinput)" "moves (sound engine) (RejectTimeEntry i p)"
  "moves (sound engine) (AdjustDraftTimeEntry tz i einput)" "moves (sound engine) (SplitTimeEntry tz i p cuts)"
  unfolding CreateTimeEntry_def CreateGapTimeEntry_def createTimeEntry_def UpdateTimeEntry_def DeleteTimeEntry_def ConfirmTimeEntry_def
    confirm_resolved_def confirmInPlace_def confirmSplitAtMidnight_def confirmDraftAroundOverlaps_def create_pieces_def dismiss_def
    RejectTimeEntry_def AdjustDraftTimeEntry_def get_draft_def SplitTimeEntry_def Let_def
  by (intro sound_rules)+

lemma sound_shrink: "moves (sound engine) (shrink_fill p event fill)"
  unfolding shrink_fill_def set_span_def Let_def by (intro sound_rules)

lemma sound_overlay_operations:
  "moves (sound engine) (MarkExcluded ev)" "moves (sound engine) (DeleteCategoryOverlay ev)"
  "moves (sound engine) (dismissLinkedDrafts linked)" "moves (sound engine) (dismissCalendarDraftsForEvent ev)"
proof -
  show "moves (sound engine) (MarkExcluded ev)" "moves (sound engine) (DeleteCategoryOverlay ev)"
    unfolding MarkExcluded_def DeleteCategoryOverlay_def Let_def by (intro sound_rules)+
  show dismiss: "moves (sound engine) (dismissLinkedDrafts linked)" for linked
    unfolding dismissLinkedDrafts_def Let_def by (intro sound_rules)
  show "moves (sound engine) (dismissCalendarDraftsForEvent ev)"
    unfolding dismissCalendarDraftsForEvent_def Let_def by (intro sound_rules dismiss)
qed

lemma sound_Apply: "moves (sound engine) (Apply tz item action)"
proof -
  have need: "(\<And>ev. moves (sound engine) (k ev)) \<Longrightarrow> moves (sound engine) (need_event item k)" for k :: "event \<Rightarrow> (db, unit) act" and item
    unfolding need_event_def by (intro sound_rules)
  show ?thesis
    unfolding Apply_def applyDeletedCategorized_def applyNewInGap_def applyIncludeExclude_def applySourceDrift_def
      clearAllDayReviewExclusion_def convertEventToManualFill_def shrinkGapFillsForEvent_def spawnSourceDriftDraft_def Let_def
    by (intro sound_rules sound_overlay_operations sound_shrink need)
qed

lemma sound_review_operations:
  "moves (sound engine) (ResolveReviewDecision tz i action)" "moves (sound engine) (ExcludeEvent e p)"
  "moves (sound engine) (ConvertAllDayEvent tz e input)"
  unfolding ResolveReviewDecision_def ExcludeEvent_def ConvertAllDayEvent_def Let_def
  by (intro sound_rules sound_overlay_operations sound_Apply)+

lemma sound_conflicts:
  "moves (sound engine) (EnqueueOrReplay p kind e key payload)" "moves (sound engine) (enqueueSourceDrift p e identity payload)"
  unfolding EnqueueOrReplay_def enqueueSourceDrift_def Let_def by (intro sound_rules)+

lemma sound_policy:
  "moves (sound engine) (OnVanishedCategorized tz p ev)" "moves (sound engine) (OnNewEvent tz p inc e gaps)"
  "moves (sound engine) (OnChangedCategorized tz p e ev inc)" "moves (sound engine) (OnConfirmedSourceDrift p e inc entries h)"
  "moves (sound engine) (OnVanishedConfirmedSource p ev entries)"
  unfolding OnVanishedCategorized_def OnNewEvent_def OnChangedCategorized_def OnConfirmedSourceDrift_def OnVanishedConfirmedSource_def Let_def
  by (intro sound_rules sound_conflicts sound_Apply)+

lemma sound_sync: "moves (sound engine) (SyncEvents ex p incoming)"
proof -
  have categorize: "moves (sound engine) (applyMemory p inc)" "moves (sound engine) (applyCalendarDefault p inc)"
    "moves (sound engine) (applyAISuggestion ex p inc)" for inc
    unfolding applyMemory_def applyCalendarDefault_def applyAISuggestion_def Let_def by (intro sound_rules)+
  have materialize: "moves (sound engine) (materializeDraftForEvent tz p inc ev entries material)" for tz inc ev entries material
    unfolding materializeDraftForEvent_def createDraftFromEvent_def refreshDraftFromEvent_def Let_def
    by (intro sound_rules sound_overlay_operations)
  have merge: "moves (sound engine) (merge_event ex p base inc acc)" for base inc acc
    unfolding merge_event_def handleNewEvent_def handleChangedEvent_def Let_def
    by (intro sound_rules sound_policy categorize materialize)
  have vanish: "moves (sound engine) (vanish_event ex p entries seen ev res)" for entries seen ev res
    unfolding vanish_event_def Let_def by (intro sound_rules sound_policy sound_overlay_operations)
  show ?thesis unfolding SyncEvents_def by (intro sound_rules merge vanish)
qed

lemma sound_calendar_operations:
  "moves (sound engine) (SetCalendarSelected c b)" "moves (sound engine) (SetCalendarDefaultCategory c k)"
  "moves (sound engine) (touchPeriodSynced now p)"
  unfolding SetCalendarSelected_def SetCalendarDefaultCategory_def touchPeriodSynced_def by (intro sound_rules)+

end
