(* ===== verification/Api_Laws.thy ===== *)
theory Api_Laws
  imports Api Integrity Source_Laws
begin

text \<open>
  The database through the API: the integrations change it only by the calendars they sync, and every
  request keeps it sound.
\<close>


section \<open>Integrations and the database\<close>

definition apart :: "desk \<Rightarrow> desk \<Rightarrow> bool" where
  "apart s t \<longleftrightarrow> dk_db t = dk_db s"

interpretation apart: frame_relation apart
  by unfold_locales (auto simp: apart_def)

definition desk_sound :: "template_engine \<Rightarrow> desk \<Rightarrow> desk \<Rightarrow> bool" where
  "desk_sound engine s t \<longleftrightarrow> sound engine (dk_db s) (dk_db t)"

interpretation desk: frame_relation "desk_sound engine" for engine
  by unfold_locales (auto simp: desk_sound_def sound.frame_refl intro: sound.frame_trans)

lemma apart_sound: "moves apart m \<Longrightarrow> moves (desk_sound engine) m"
  unfolding moves_def apart_def desk_sound_def by (metis sound.frame_refl)

lemma desk_in_db: "moves (sound engine) m \<Longrightarrow> moves (desk_sound engine) (in_db m)"
  unfolding moves_def desk_sound_def in_db_def by (auto split: prod.splits) (metis snd_conv)

lemma apart_flow: "moves flow_frame m \<Longrightarrow> moves apart m"
  by (rule flow_moves) (simp_all add: flow_frame_def apart_def, metis desk.select_convs(1) desk.surjective desk.update_convs(8,9))

text \<open>The statements on the other tables of the desk, and the keychain.\<close>

lemma apart_upsert:
  assumes "\<And>d. put (get d) d = d" "\<And>t d. get (put t d) = t" "\<And>t u d. put t (put u d) = put t d" "\<And>t d. dk_db (put t d) = dk_db d"
  shows "moves apart (upsert_into get put ok same upd mk)"
  by (rule upsert_moves) (simp_all add: assms apart_def)

lemma apart_upserts:
  "moves apart (q_UpsertIntegrationConnection p label a scopes st)" "moves apart (q_UpsertGitHubRepo a full name fname private sel)"
  "moves apart (q_UpsertSlackChannel a ch name private sel)" "moves apart (q_UpsertBitbucketWorkspace a wu wslug wname sel)"
  "moves apart (q_UpsertBitbucketRepo a wu ru rn rf private sel)"
  unfolding q_UpsertIntegrationConnection_def q_UpsertGitHubRepo_def q_UpsertSlackChannel_def q_UpsertBitbucketWorkspace_def q_UpsertBitbucketRepo_def
  by (rule apart_upsert; simp)+

lemma apart_statements:
  "moves apart (q_UpdateIntegrationConnectionStatus status p a)" "moves apart (q_DeleteIntegrationConnection p a)"
  "moves apart (q_SetGitHubRepoSelected b i)" "moves apart (q_DeleteGitHubReposByAccount a)"
  "moves apart (q_SetSlackChannelSelected b i)" "moves apart (q_DeleteSlackChannelsByAccount a)"
  "moves apart (q_SetBitbucketWorkspaceSelected b i)" "moves apart (q_DeleteBitbucketWorkspacesByAccount a)"
  "moves apart (q_SetBitbucketRepoSelected b i)" "moves apart (q_DeleteBitbucketReposByAccount a)"
  unfolding moves_def apart_def q_UpdateIntegrationConnectionStatus_def q_DeleteIntegrationConnection_def q_SetGitHubRepoSelected_def
    q_DeleteGitHubReposByAccount_def q_SetSlackChannelSelected_def q_DeleteSlackChannelsByAccount_def q_SetBitbucketWorkspaceSelected_def
    q_DeleteBitbucketWorkspacesByAccount_def q_SetBitbucketRepoSelected_def q_DeleteBitbucketReposByAccount_def
  by (auto simp: act_seq_def act_bind_def update_where_def delete_where_def Let_def)

lemma apart_store: "moves apart (store_Get rm p a)" "moves apart (store_Set rm p a u)" "moves apart (store_Delete rm p a)"
  unfolding moves_def apart_def by (auto simp: store_Get_def store_Set_def store_Delete_def split: option.split)

lemma apart_client: "quiet_client c \<Longrightarrow> client_moves apart rm c"
  by (rule client_movesI [OF apart.frame_relation_axioms])
    (simp_all add: apart_store reg_SetStatus_def apart_statements, simp add: flow_frame_def apart_def,
      metis desk.select_convs(1) desk.surjective desk.update_convs(8,9))

lemma apart_get: "quiet_client c \<Longrightarrow> moves apart (api_get rm c headers url)"
  by (rule get_moves [OF apart_client])

lemma apart_send: "moves apart (send rm q)"
  by (rule apart_flow [OF flow_send])

lemmas apart_rules = apart.frame_rules apart.moves_on_error apart.moves_best_effort apart.moves_or_nothing apart.moves_each_page
  moves_mapErr apart_upserts apart_statements apart_store apart_get apart_send quiet_clients

text \<open>The calls of the providers.\<close>

lemma apart_syncs:
  assumes "quiet_flows ad"
  shows "moves apart (SyncRepos rm pv a)" "moves apart (SyncChannels rm pv a)" "moves apart (SyncWorkspacesRepos rm ad pv a)"
  unfolding SyncRepos_def repos_page_def github_getJSON_def github_store_repo_def SyncChannels_def slack_page_def slack_getJSON_def
    slack_store_channel_def SyncWorkspacesRepos_def syncWorkspaces_def syncRepos_def bitbucket_page_def getAbsoluteJSON_def store_workspace_def
    store_bitbucket_repo_def Let_def
  by (intro apart_rules assms)+

lemma apart_flows:
  assumes "quiet_flows ad"
  shows "moves apart (authorized_token ad pv hint)" "moves apart (google_authorize ad pv hint)"
    "moves apart (revoke_issued rm ad pv p a)" "moves apart (google_revoke rm ad pv a)"
proof -
  have runs: "moves apart (ad_broker ad b h)" "moves apart (ad_local ad h)" "moves apart (ad_broker_revoke ad b tok)"
    "ad_authorizer ad = Some run \<Longrightarrow> moves apart (run h)" "ad_revoker ad = Some stop \<Longrightarrow> moves apart (stop tok)" for b h tok run stop
    using assms unfolding quiet_flows_def by (simp_all add: apart_flow)
  show "moves apart (authorized_token ad pv hint)" "moves apart (google_authorize ad pv hint)"
    unfolding authorized_token_def authorize_def google_authorize_def Let_def by (intro apart_rules runs; assumption)+
  have best: "apart s (state_of (best_effort m s'))" if "moves apart m" "apart s s'" for m :: "(desk, unit) act" and s s'
    using that apart.moves_best_effort [OF that(1)] by (auto simp: moves_def intro: apart.frame_trans)
  have got: "store_Get rm p a s = (x, t) \<Longrightarrow> apart s t" for p a s x t
    using apart_store(1) by (rule moves_result)
  show "moves apart (revoke_issued rm ad pv p a)" "moves apart (google_revoke rm ad pv a)"
    unfolding moves_def revoke_issued_def google_revoke_def
    by (auto split: prod.splits sum.splits option.splits dest!: got intro!: best runs)
qed

lemma apart_disconnects:
  assumes "quiet_flows ad"
  shows "moves apart (google_Disconnect rm ad pv a)" "moves apart (github_Disconnect rm ad pv a)" "moves apart (slack_Disconnect rm ad pv a)"
    "moves apart (bitbucket_Disconnect rm a)"
  unfolding google_Disconnect_def github_Disconnect_def slack_Disconnect_def bitbucket_Disconnect_def remove_account_def reg_Disconnect_def Let_def
  by (intro apart_rules apart_flows [OF assms])+

lemma apart_connects:
  assumes "quiet_flows ad"
  shows "moves apart (github_Connect rm ad pv pat)" "moves apart (slack_Connect rm ad pv)" "moves apart (bitbucket_Connect rm ad pv)"
  unfolding github_Connect_def github_connectWithToken_def github_fetchUser_def slack_Connect_def slack_connectWithToken_def fetchAuthTest_def
    bitbucket_Connect_def bitbucket_connectWithToken_def bitbucket_fetchUser_def store_account_def reg_Upsert_def decode_def Let_def
  by (intro apart_rules apart_syncs [OF assms] apart_flows [OF assms] apart_disconnects [OF assms])+

lemma apart_evidence:
  assumes "quiet_flows ad"
  shows "moves apart (github_FetchEvidence rm pv w)" "moves apart (slack_FetchEvidence rm pv w)" "moves apart (bitbucket_FetchEvidence rm ad pv w)"
  unfolding github_FetchEvidence_def fetchRepoEvidence_def github_fetchCommits_def commits_page_def fetchMergedPRs_def github_getJSON_def
    slack_FetchEvidence_def fetchChannelEvidence_def fetchChannelMessages_def messages_page_def slack_page_def slack_getJSON_def
    bitbucket_FetchEvidence_def bitbucket_fetchRepoEvidence_def bitbucket_fetchCommits_def bitbucket_commits_page_def bitbucket_page_def
    getAbsoluteJSON_def fetch_evidence_def decode_def Let_def
  by (intro apart_rules assms)+

lemma apart_fetch_events:
  assumes "quiet_flows ad"
  shows "moves apart (google_FetchEvents rm ad pv a b e cals)"
  unfolding google_FetchEvents_def FetchEvents_def listing_page_def google_getJSON_def Let_def
  by (intro apart_rules assms)

text \<open>The calendars of an account are rows of the database.\<close>

lemmas desk_rules = desk.frame_rules desk.moves_on_error desk.moves_best_effort desk.moves_each_page moves_mapErr desk_in_db

lemma desk_sync_calendars:
  assumes "quiet_flows ad"
  shows "moves (desk_sound engine) (google_SyncCalendars rm ad pv a)"
proof -
  have page: "moves (desk_sound engine) (listing_page (google_getJSON rm ad pv a) path q elem zero k)" for path q k and elem :: "json \<Rightarrow> 'i \<Rightarrow> 'i option" and zero
    unfolding listing_page_def google_getJSON_def Let_def by (rule apart_sound) (intro apart_rules assms)
  show ?thesis
    unfolding google_SyncCalendars_def SyncCalendars_def by (intro desk_rules page sound_calendars)
qed

lemma desk_google_connect:
  assumes "quiet_flows ad"
  shows "moves (desk_sound engine) (google_Connect rm ad pv a label)"
  unfolding google_Connect_def reg_Upsert_def Let_def
  by (intro desk_rules apart_sound [OF apart_flows(2)] apart_sound [OF apart_store(2)] apart_sound [OF apart_upserts(1)] desk_sync_calendars assms)

lemma desk_sync_period:
  assumes accounts: "moves apart (pl_accounts pl)" and sync: "\<And>a. moves (desk_sound engine) (pl_sync pl a)"
    and fetch: "\<And>a b e cals. moves apart (pl_fetch pl a b e cals)"
  shows "moves (desk_sound engine) (SyncPeriod ex (Some pl) now p)"
  unfolding SyncPeriod_def pull_account_def Let_def option.case
  by (intro desk_rules apart_sound [OF accounts] apart_sound [OF fetch] sync sound_period_operations sound_sync sound_calendar_operations)

lemma apart_gap_evidence:
  assumes "\<And>f. f \<in> set providers \<Longrightarrow> moves apart (f w)"
  shows "moves apart (fetchGapEvidence providers w)" "moves apart (gap_evidence providers w)"
proof -
  have ask: "moves apart (ask_provider w f)" if "f \<in> set providers" for f
    using assms [OF that] unfolding moves_def ask_provider_def by (auto split: prod.splits sum.splits) (metis snd_conv)+
  show fetch: "moves apart (fetchGapEvidence providers w)"
    unfolding fetchGapEvidence_def by (intro apart.moves_for_each ask)
  show "moves apart (gap_evidence providers w)"
    unfolding gap_evidence_def by (intro apart_rules fetch)
qed

lemma apart_ask_gap: "moves apart (ask_gap rm store parse marshal url model tokens cs g es)"
proof -
  have "moves apart (chat_call rm q)" for q unfolding chat_call_def by (intro apart_rules)
  then have "moves apart (ChatCompletion rm c model a b n)" for c a b n
    unfolding ChatCompletion_def Let_def by (intro apart_rules)
  then show ?thesis unfolding ask_gap_def by (intro apart_rules)
qed

lemma apart_suggest:
  assumes "\<And>f. f \<in> set providers \<Longrightarrow> moves apart (f w)"
  shows "moves apart (suggest_gap_fill mx providers w)"
proof -
  have result: "ask_gap rm store parse marshal url model tokens cs g es s = (x, t) \<Longrightarrow> apart s t"
    for rm store parse marshal url model tokens cs g es s x t
    using apart_ask_gap by (rule moves_result)
  show ?thesis
    unfolding suggest_gap_fill_def
    by (intro apart_rules apart_gap_evidence assms) 
      (auto simp: moves_def Let_def apart.frame_refl split: prod.splits sum.splits dest: result)
qed



section \<open>Handlers\<close>

definition answers :: "(desk \<Rightarrow> desk \<Rightarrow> bool) \<Rightarrow> 'a rpc \<Rightarrow> bool" where
  "answers R m \<longleftrightarrow> (\<forall>s. R s (snd (m s)))"

lemma answers_rules:
  "frame_relation R \<Longrightarrow> answers R (refused c)"
  "frame_relation R \<Longrightarrow> answers R (\<lambda>s. (r, s))"
  "moves R m \<Longrightarrow> answers R (served f m)"
  "frame_relation R \<Longrightarrow> (ok \<Longrightarrow> answers R n) \<Longrightarrow> answers R (checked ok n)"
  "frame_relation R \<Longrightarrow> (\<And>x. p = Some x \<Longrightarrow> answers R (k x)) \<Longrightarrow> answers R (available p k)"
  "frame_relation R \<Longrightarrow> (\<And>i. timeEntryInput input = Some i \<Longrightarrow> answers R (h i)) \<Longrightarrow> answers R (with_entry input h)"
  "frame_relation R \<Longrightarrow> (\<And>w. answers R (l w)) \<Longrightarrow> answers R (with_window a b l)"
  "answers R n \<Longrightarrow> answers R (coded n)"
  by (auto simp: answers_def moves_def refused_def served_def checked_def available_def with_entry_def with_window_def coded_def
      dest: frame_relation.frame_refl split: prod.splits sum.splits option.splits) (metis snd_conv)+

lemma answers_if: "(b \<Longrightarrow> answers R m) \<Longrightarrow> (\<not> b \<Longrightarrow> answers R n) \<Longrightarrow> answers R (if b then m else n)"
  by simp

text \<open>The requests that only read leave the database alone, and so do the integrations, but for the calendars.\<close>

lemma apart_in_db: "readonly m \<Longrightarrow> moves apart (in_db m)"
  unfolding moves_def readonly_def in_db_def apart_def by (auto split: prod.splits) (metis snd_conv)

lemma apart_reads: "moves apart (shown f)" "moves apart (computed g)"
  by (simp_all add: moves_def shown_def computed_def apart_def)

fun reads :: "api_request \<Rightarrow> bool" where
  "reads (Period r) = (case r of PeriodEnsure _ _ \<Rightarrow> False | _ \<Rightarrow> True)"
| "reads (Category r) = (case r of CategoryCreate _ \<Rightarrow> False | CategoryUpdate _ _ \<Rightarrow> False | CategoryDelete _ \<Rightarrow> False | CategoryArchive _ \<Rightarrow> False | _ \<Rightarrow> True)"
| "reads (Project r) = (case r of ProjectList _ \<Rightarrow> True | ProjectGet _ \<Rightarrow> True | _ \<Rightarrow> False)"
| "reads (Work r) = (case r of WorkReplace _ _ _ _ \<Rightarrow> False | ExceptionUpsert _ _ _ _ \<Rightarrow> False | ExceptionDelete _ \<Rightarrow> False | _ \<Rightarrow> True)"
| "reads (Calendar r) = (case r of CalendarList \<Rightarrow> True | CalendarSelected \<Rightarrow> True | _ \<Rightarrow> False)"
| "reads (Entry r) = (case r of EventList _ \<Rightarrow> True | EventGet _ \<Rightarrow> True | EntryList _ \<Rightarrow> True | EntryGet _ _ \<Rightarrow> True | DecisionList _ \<Rightarrow> True
     | SegmentList _ \<Rightarrow> True | GapCompute _ \<Rightarrow> True | GapEvidence _ _ \<Rightarrow> True | GapSuggest _ _ \<Rightarrow> True | _ \<Rightarrow> False)"
| "reads (Settings r) = (case r of SettingGet _ \<Rightarrow> True | _ \<Rightarrow> False)"
| "reads (Integration r) = (case r of Connect p _ _ _ \<Rightarrow> trim_space p \<noteq> ''google'' | _ \<Rightarrow> True)"
| "reads (Export r) = (case r of TemplateCreate _ \<Rightarrow> False | TemplateUpdate _ _ \<Rightarrow> False | TemplateDelete _ \<Rightarrow> False | TemplateDuplicate _ \<Rightarrow> False | _ \<Rightarrow> True)"

text \<open>What the handlers rely on: the functions they are given change the database only through the calendars.\<close>

definition parts_sound :: "template_engine \<Rightarrow> dependencies \<Rightarrow> bool" where
  "parts_sound engine dp \<longleftrightarrow> dp_engine dp = engine \<and> (\<forall>p. quiet_flows (dp_flows dp p)) \<and>
     (\<forall>f \<in> set (dp_evidence dp). \<forall>w. moves apart (f w)) \<and>
     (\<forall>run. dp_connections dp = Some run \<longrightarrow> moves apart run) \<and>
     (\<forall>run a. dp_refresh_github dp = Some run \<or> dp_refresh_slack dp = Some run \<or> dp_refresh_bitbucket dp = Some run \<longrightarrow> moves apart (run a)) \<and>
     (\<forall>run now p. dp_sync dp = Some run \<longrightarrow> moves (desk_sound engine) (run now p))"

lemma parts_soundD:
  assumes "parts_sound engine dp"
  shows "dp_engine dp = engine" "quiet_flows (dp_flows dp p)" "f \<in> set (dp_evidence dp) \<Longrightarrow> moves apart (f w)"
    "dp_connections dp = Some run1 \<Longrightarrow> moves apart run1"
    "dp_refresh_github dp = Some run2 \<Longrightarrow> moves apart (run2 a)" "dp_refresh_slack dp = Some run2 \<Longrightarrow> moves apart (run2 a)"
    "dp_refresh_bitbucket dp = Some run2 \<Longrightarrow> moves apart (run2 a)"
    "dp_sync dp = Some run3 \<Longrightarrow> moves (desk_sound engine) (run3 now q)"
  using assms unfolding parts_sound_def by blast+

lemma app_parts_sound:
  assumes quiet: "\<And>p. quiet_flows (flows p)"
  shows "parts_sound engine (app_dependencies ex engine mx rm flows c)"
proof -
  let ?w = "wireIntegrations rm flows c"
  have accounts: "moves apart (connection_accounts ''google'')"
    unfolding connection_accounts_def by (intro apart_rules)
  have sync: "moves (desk_sound engine) (SyncPeriod ex (Some (wi_puller ?w)) now p)" for now p
    by (rule desk_sync_period) (auto simp: wireIntegrations_def Let_def intro!: accounts desk_sync_calendars apart_fetch_events quiet)
  have refresh: "moves apart (act_seq (SyncRepos rm pv a) (act_ret ()))" "moves apart (act_seq (SyncChannels rm pv a) (act_ret ()))"
    "moves apart (act_seq (SyncWorkspacesRepos rm (flows p) pv a) (act_ret ()))" for pv a p
    by (intro apart.moves_seq apart.moves_ret apart_syncs [OF quiet])+
  have evidence: "f \<in> set (wi_evidence ?w) \<Longrightarrow> moves apart (f w)" for f w
    using apart_evidence [OF quiet] by (auto simp: wireIntegrations_def Let_def)
  show ?thesis
    unfolding parts_sound_def app_dependencies_def Let_def
    by (auto intro: quiet evidence refresh sync apart.moves_reads)
qed

end
