(* ===== verification/Atomicity.thy ===== *)
theory Atomicity
  imports Integrity
begin

text \<open>
  The operations of the service that change nothing when they fail: those that write with one
  statement, those whose statements are in one transaction, and those that look up afterwards what
  they have stored, which succeeds. The operations of the ledger are in Ledger_Laws.
\<close>


section \<open>Statements and reading back\<close>

text \<open>A write that is followed by a lookup which finds what was written.\<close>

lemma atomic_then:
  assumes "atomic m" "\<And>s x t. m s = (Inr x, t) \<Longrightarrow> \<exists>y u. k x t = (Inr y, u)"
  shows "atomic (act_bind m k)"
  unfolding atomic_def act_bind_eq_Inl_iff using assms by (metis atomicD prod.inject sum.distinct(1))

lemma atomic_read_back:
  assumes "atomic m" "\<And>s x t. m s = (Inr x, t) \<Longrightarrow> f x t \<noteq> None"
  shows "atomic (act_bind m (\<lambda>x. mapErr (get_one (f x))))" "atomic (act_bind m (\<lambda>x. act_bind (mapErr (get_one (f x))) (\<lambda>r. act_gets (g r))))"
  by (rule atomic_then [OF assms(1)], drule assms(2), auto simp: act_bind_eq_Inr_iff)+

lemma atomic_seq_modify: "atomic m \<Longrightarrow> atomic (act_seq m (act_modify f))"
  unfolding act_seq_def by (rule atomic_bind_never_fails) (simp_all add: never_fails_def act_modify_def)

lemma never_deletes: "never_fails (delete_where get put P)"
  by (simp add: never_fails_def delete_where_def Let_def)

lemma never_seq: "never_fails m \<Longrightarrow> never_fails n \<Longrightarrow> never_fails (act_seq m n)"
  unfolding never_fails_def act_seq_def act_bind_def by (metis (no_types, lifting) case_prod_conv sum.simps(6))

lemma atomic_never: "never_fails m \<Longrightarrow> atomic m"
  unfolding never_fails_def atomic_def by (metis prod.inject sum.distinct(1))

lemma never_modify: "never_fails (act_modify f)"
  by (simp add: never_fails_def act_modify_def)

lemmas atomic_writes = atomic_rules atomic_mapErr atomic_never never_deletes never_seq never_modify never_fails_ret
  readonly_mapErr readonly_get_one

lemma counted_delete:
  assumes "\<And>d. put (get d) d = d"
  shows "atomic (act_bind (mapErr (delete_where get put P)) (\<lambda>n. if n = 0 then act_throw e else act_ret ()))"
proof -
  have "put (t\<lparr>tbl_rows := filter (\<lambda>r. \<not> P r) (tbl_rows t)\<rparr>) d = d" if "t = get d" "\<forall>x \<in> set (tbl_rows t). \<not> P x" for t d
  proof -
    have "filter (\<lambda>r. \<not> P r) (tbl_rows t) = tbl_rows t" using that(2) by simp
    then show ?thesis using assms [of d] that(1) by simp
  qed
  then show ?thesis
    by (auto simp: atomic_def act_bind_def mapErr_def delete_where_def Let_def filter_empty_conv split: prod.splits sum.splits if_splits)
qed

lemma atomic_category_statements:
  "atomic (q_CreateCategory name desc key gap color)" "atomic (q_DeleteCategory i)" "atomic (q_ArchiveCategory at i)"
  "atomic (q_CreateProject name key pcolor)" "atomic (q_UpdateProject name key pcolor i)" "atomic (q_DeleteProject i)" "atomic (q_ArchiveProject at i)"
  "atomic (q_SetCalendarDefaultCategory k c)"
  unfolding q_CreateCategory_def q_DeleteCategory_def q_ArchiveCategory_def q_CreateProject_def q_UpdateProject_def q_DeleteProject_def
    q_ArchiveProject_def q_SetCalendarDefaultCategory_def update_category_def update_project_def update_calendar_def
  by (intro atomic_writes categories.atomic_insert projects.atomic_insert categories.atomic_scan_update projects.atomic_scan_update
      calendars.atomic_update)+

lemma atomic_category_operations:
  "atomic (CreateCategory input)" "atomic (DeleteCategory i)" "atomic (ArchiveCategory now i)" "atomic (CreateProject pin)"
  "atomic (UpdateProject i pin)" "atomic (DeleteProject i)" "atomic (ArchiveProject now i)" "atomic (SetCalendarDefaultCategory c k)"
  unfolding CreateCategory_def DeleteCategory_def ArchiveCategory_def CreateProject_def UpdateProject_def DeleteProject_def
    ArchiveProject_def SetCalendarDefaultCategory_def Let_def
  by (intro atomic_writes atomic_category_statements)+

lemma atomic_template_operations:
  "atomic (CreateExportTemplate engine tin)" "atomic (UpdateExportTemplate engine i tin)" "atomic (DeleteExportTemplate i)"
  "atomic (DuplicateExportTemplate engine key)"
  unfolding CreateExportTemplate_def UpdateExportTemplate_def DeleteExportTemplate_def DuplicateExportTemplate_def
    q_CreateExportTemplate_def q_UpdateExportTemplate_def q_DeleteExportTemplate_def Let_def
  by (intro atomic_writes templates.atomic_insert templates.atomic_scan_update counted_delete | simp)+

lemma atomic_entry_operations:
  "atomic (DeleteTimeEntry i p)" "atomic (ResolveReviewDecision tz i action)" "atomic (ExcludeEvent e p)" "atomic (ConvertAllDayEvent tz e input)"
  "atomic (CreateTimeEntry tz input)" "atomic (CreateGapTimeEntry tz input)"
  unfolding DeleteTimeEntry_def q_DeleteTimeEntry_def ResolveReviewDecision_def ExcludeEvent_def ConvertAllDayEvent_def
    CreateTimeEntry_def CreateGapTimeEntry_def Let_def
  by (intro atomic_writes atomic_entries atomic_create counted_delete | simp)+

lemma atomic_delete_exception: "atomic (DeleteScheduleException date)"
  unfolding DeleteScheduleException_def q_DeleteScheduleException_def by (intro atomic_writes)



section \<open>Operations that read back\<close>

definition keeps_category :: "int \<Rightarrow> db \<Rightarrow> db \<Rightarrow> bool" where
  "keeps_category i d d' \<longleftrightarrow> (q_GetCategory i d \<noteq> None \<longrightarrow> q_GetCategory i d' \<noteq> None)"

interpretation category_kept: frame_relation "keeps_category i" for i
  by unfold_locales (auto simp: keeps_category_def)

lemma keeps_update_category: "(\<And>c. ct_id (f c) = ct_id c) \<Longrightarrow> moves (keeps_category i) (update_category P f)"
  unfolding update_category_def
  by (rule categories.moves_update)
    (auto simp: keeps_category_def q_GetCategory_def find_row_def find_None_iff split: if_splits)

lemma atomic_update_category: "atomic (UpdateCategory i input)"
proof -
  have step: "moves (keeps_category i) (act_seq
             (if ci_gap input then act_seq (mapErr q_ClearDefaultGap) (mapErr (q_SetDefaultGap i))
              else if ct_default_gap current then act_throw ErrFailedPrecondition
              else act_ret ())
             (act_bind (act_lift (stored_color (ci_color input))) (\<lambda>color.
                mapErr (q_UpdateCategory name (trim_space (ci_description input)) key color i))))" for current name key
    unfolding q_ClearDefaultGap_def q_SetDefaultGap_def q_UpdateCategory_def
    by (intro category_kept.frame_rules moves_mapErr keeps_update_category; simp)
  then have found: "q_GetCategory i d' \<noteq> None"
    if "in_tx (act_bind (mapErr (get_one (q_GetCategory i))) (\<lambda>current. act_seq
             (if ci_gap input then act_seq (mapErr q_ClearDefaultGap) (mapErr (q_SetDefaultGap i))
              else if ct_default_gap current then act_throw ErrFailedPrecondition
              else act_ret ())
             (act_bind (act_lift (stored_color (ci_color input))) (\<lambda>color.
                mapErr (q_UpdateCategory name (trim_space (ci_description input)) key color i))))) d = (Inr x, d')" for name key d x d'
  proof -
    from that obtain current where "q_GetCategory i d = Some current" and run: "act_seq
             (if ci_gap input then act_seq (mapErr q_ClearDefaultGap) (mapErr (q_SetDefaultGap i))
              else if ct_default_gap current then act_throw ErrFailedPrecondition
              else act_ret ())
             (act_bind (act_lift (stored_color (ci_color input))) (\<lambda>color.
                mapErr (q_UpdateCategory name (trim_space (ci_description input)) key color i))) d = (Inr x, d')"
      unfolding in_tx_Inr act_bind_eq_Inr_iff mapErr_Inr get_one_Inr by blast
    then show ?thesis using moves_result [OF step run] by (simp add: keeps_category_def)
  qed
  show ?thesis
    unfolding UpdateCategory_def Let_def act_seq_def [of "in_tx _"]
    by (intro atomic_if atomic_read_back(1) atomic_in_tx readonly_simps [THEN atomic_readonly]) (erule found)
qed

lemma atomic_replace: "atomic (ReplaceActiveWorkSchedule tz input)"
proof -
  have days: "moves (unchanged db_schedules) (insertScheduleDays sched days)" for sched days
    unfolding insertScheduleDays_def q_CreateWorkScheduleDay_def q_CreateWorkScheduleWindow_def
    by (intro unchanged.frame_rules moves_mapErr schedule_days.moves_insert schedule_windows.moves_insert; simp)
  have found: "q_GetWorkSchedule (ws_id w) d' \<noteq> None"
    if run: "in_tx (act_bind (act_gets q_ListWorkSchedules) (\<lambda>existing. act_seq (close_schedules from_date existing)
                (act_bind (mapErr (q_CreateWorkSchedule zone ww from_date None)) (\<lambda>created.
                 act_seq (insertScheduleDays (ws_id created) days) (act_ret created))))) d = (Inr w, d')" for from_date zone ww days d w d'
  proof -
    from run obtain d1 d2 u where "q_CreateWorkSchedule zone ww from_date None d1 = (Inr w, d2)" "insertScheduleDays (ws_id w) days d2 = (Inr u, d')"
      unfolding in_tx_Inr act_bind_eq_Inr_iff act_seq_def mapErr_Inr act_ret_def prod.inject sum.inject by metis
    then have "w \<in> set (tbl_rows (db_schedules d2))" "db_schedules d' = db_schedules d2"
      by (auto simp: q_CreateWorkSchedule_def insert_into_def Let_def split: if_splits dest!: moves_result [OF days])
    then show ?thesis by (auto simp: q_GetWorkSchedule_def find_row_def find_None_iff)
  qed
  show ?thesis
    unfolding ReplaceActiveWorkSchedule_def GetWorkSchedule_def Let_def
    by (intro atomic_if atomic_bind_readonly [OF readonly_simps(5)] atomic_read_back(2) atomic_in_tx readonly_simps [THEN atomic_readonly]) (erule found)
qed


definition keeps_exception :: "string \<Rightarrow> db \<Rightarrow> db \<Rightarrow> bool" where
  "keeps_exception date d d' \<longleftrightarrow> (q_GetScheduleExceptionByDate date d \<noteq> None \<longrightarrow> q_GetScheduleExceptionByDate date d' \<noteq> None)"

interpretation exception_kept: frame_relation "keeps_exception date" for date
  by unfold_locales (auto simp: keeps_exception_def)

lemma keeps_exception_moves:
  "moves (keeps_exception date) (q_UpdateScheduleException kind m i)" "moves (keeps_exception date) (q_DeleteScheduleExceptionWindows i)"
  "moves (keeps_exception date) (q_CreateScheduleExceptionWindow i a b)"
  unfolding q_UpdateScheduleException_def q_DeleteScheduleExceptionWindows_def q_CreateScheduleExceptionWindow_def
proof -
  have kept: "keeps_exception date d (put_exceptions ((db_exceptions d)\<lparr>tbl_rows := map (\<lambda>r. if P r then f r else r) (tbl_rows (db_exceptions d))\<rparr>) d)"
    if "\<And>r. sx_date (f r) = sx_date r" for d f P
  proof -
    have "sx_date (if P r then f r else r) = sx_date r" for r by (simp add: that)
    then have same: "sx_date ` set (map (\<lambda>r. if P r then f r else r) rows) = sx_date ` set rows" for rows
      unfolding set_map image_image by presburger
    have found: "find_row (\<lambda>x. sx_date x = date) t \<noteq> None \<longleftrightarrow> date \<in> sx_date ` set (tbl_rows t)" for t
      by (auto simp: find_row_def find_None_iff)
    show ?thesis
      unfolding keeps_exception_def q_GetScheduleExceptionByDate_def found using same [of "tbl_rows (db_exceptions d)"] by simp
  qed
  show "moves (keeps_exception date) (scan_one (update_where db_exceptions put_exceptions sx_ok (\<lambda>x. sx_id x = i)
     (\<lambda>x. x\<lparr>sx_kind := kind, sx_expected := m\<rparr>)))"
    by (intro moves_scan_one exceptions.moves_update exception_kept.frame_refl kept) simp
  show "moves (keeps_exception date) (act_seq (delete_where db_exception_windows put_exception_windows (\<lambda>w. ww_owner w = i)) (act_ret ()))"
    by (intro exception_kept.frame_rules exception_windows.moves_delete)
      (simp add: keeps_exception_def q_GetScheduleExceptionByDate_def)
  show "moves (keeps_exception date) (insert_into db_exception_windows put_exception_windows
        (\<lambda>d r. has_id sx_id (db_exceptions d) (ww_owner r) \<and> window_ok r)
        (\<lambda>ia. \<lparr>ww_id = ia, ww_owner = i, ww_start = a, ww_end = b\<rparr>))"
    by (intro exception_windows.moves_insert) (simp_all add: keeps_exception_def q_GetScheduleExceptionByDate_def)
qed

lemma atomic_upsert_exception: "atomic (UpsertScheduleException input)"
proof -
  have found: "q_GetScheduleExceptionByDate date d' \<noteq> None"
    if run: "in_tx
            (act_bind (act_gets (q_GetScheduleExceptionByDate date)) (\<lambda>existing.
              act_bind
                (case existing of
                   None \<Rightarrow> act_bind (mapErr (q_CreateScheduleException date kind m)) (\<lambda>row. act_ret (sx_id row))
                 | Some x \<Rightarrow>
                     act_seq (mapErr (q_UpdateScheduleException kind m (sx_id x)))
                       (act_seq (mapErr (q_DeleteScheduleExceptionWindows (sx_id x)))
                         (act_ret (sx_id x))))
                (\<lambda>i. for_each (\<lambda>w. mapErr (q_CreateScheduleExceptionWindow i (wn_start w) (wn_end w))) ws))) d = (Inr us, d')"
    for date kind m ws d us d'
  proof -
    have windows: "moves (keeps_exception date) (for_each (\<lambda>w. mapErr (q_CreateScheduleExceptionWindow i (wn_start w) (wn_end w))) ws)" for i
      by (intro exception_kept.frame_rules moves_mapErr keeps_exception_moves)
    have update: "moves (keeps_exception date) (act_seq (mapErr (q_UpdateScheduleException kind m i))
         (act_seq (mapErr (q_DeleteScheduleExceptionWindows i)) (act_ret i)))" for i
      by (intro exception_kept.frame_rules moves_mapErr keeps_exception_moves)
    obtain d1 i where last: "for_each (\<lambda>w. mapErr (q_CreateScheduleExceptionWindow i (wn_start w) (wn_end w))) ws d1 = (Inr us, d')"
      and there: "q_GetScheduleExceptionByDate date d1 \<noteq> None"
    proof (cases "q_GetScheduleExceptionByDate date d")
      case None
      then obtain d1 r where "q_CreateScheduleException date kind m d = (Inr r, d1)"
        "for_each (\<lambda>w. mapErr (q_CreateScheduleExceptionWindow (sx_id r) (wn_start w) (wn_end w))) ws d1 = (Inr us, d')"
        using run by (auto simp: in_tx_Inr act_bind_eq_Inr_iff)
      moreover from this(1) have "q_GetScheduleExceptionByDate date d1 \<noteq> None"
        by (auto simp: q_CreateScheduleException_def insert_into_def Let_def q_GetScheduleExceptionByDate_def find_row_def find_None_iff
            split: if_splits)
      ultimately show ?thesis by (intro that)
    next
      case (Some x)
      then obtain d1 where first: "act_seq (mapErr (q_UpdateScheduleException kind m (sx_id x)))
         (act_seq (mapErr (q_DeleteScheduleExceptionWindows (sx_id x))) (act_ret (sx_id x))) d = (Inr (sx_id x), d1)"
        "for_each (\<lambda>w. mapErr (q_CreateScheduleExceptionWindow (sx_id x) (wn_start w) (wn_end w))) ws d1 = (Inr us, d')"
        using run by (auto simp: in_tx_Inr act_bind_eq_Inr_iff act_seq_def)
      then have "q_GetScheduleExceptionByDate date d1 \<noteq> None"
        using moves_result [OF update first(1)] Some by (simp add: keeps_exception_def)
      with first(2) show ?thesis by (intro that)
    qed
    then show ?thesis using moves_result [OF windows last] by (simp add: keeps_exception_def)
  qed
  show ?thesis
    unfolding UpsertScheduleException_def GetScheduleExceptionByDate_def Let_def act_seq_def [of "in_tx _"] trim_trim
    by (intro atomic_if atomic_bind_readonly [OF readonly_simps(5)] atomic_read_back(2) atomic_in_tx readonly_simps [THEN atomic_readonly])
      (erule found)
qed

end
