(* ===== verification/Api_Requests.thy ===== *)
theory Api_Requests
  imports Api_Laws Atomicity
begin

text \<open>
  Every request of the API: what it may do to the database. A request keeps it sound; one that only
  reads, or that is refused, leaves it as it was.
\<close>


section \<open>Every request\<close>

lemma apart_answers: "answers apart m \<Longrightarrow> answers (desk_sound engine) m"
  unfolding answers_def apart_def desk_sound_def by (metis sound.frame_refl)

lemma readonly_gets:
  "readonly (GetPeriod i)" "readonly (GetPeriodByRange a b)" "readonly (GetCategory i)" "readonly (GetProject i)" "readonly (GetWorkSchedule i)"
  "readonly (GetEvent parse i)" "readonly (GetTimeEntry i p)" "readonly (GetSetting k)"
  unfolding GetPeriod_def GetPeriodByRange_def GetCategory_def GetProject_def GetWorkSchedule_def GetEvent_def GetTimeEntry_def GetSetting_def
  by (auto intro!: readonly_bind readonly_simps readonly_the readonly_mapErr simp: Let_def split: option.split)

lemma apart_selections:
  "moves apart (SetRepoSelected i b)" "moves apart (SetChannelSelected i b)" "moves apart (SetWorkspaceSelected i b)"
  "moves apart (bitbucket_SetRepoSelected i b)" "moves apart (act_gets f)" "moves apart (act_lift r)"
  unfolding SetRepoSelected_def SetChannelSelected_def SetWorkspaceSelected_def bitbucket_SetRepoSelected_def
  by (intro apart_rules)+

lemmas apart_answer_rules = answers_rules [where R = apart] answers_if apart.frame_relation_axioms apart_reads apart_in_db readonly_gets
  apart_selections

lemma period_reads:
  "answers apart rpc_ListPeriods" "answers apart (rpc_GetPeriod i)" "answers apart (rpc_GetPeriodByRange a b)"
  unfolding rpc_ListPeriods_def rpc_GetPeriod_def rpc_GetPeriodByRange_def by (intro apart_answer_rules)+

lemma category_reads:
  "answers apart (rpc_ListCategories archived)" "answers apart (rpc_GetCategory i)" "answers apart (rpc_ListEventCategoryOverlays p)"
  "answers apart rpc_ListCalendars" "answers apart rpc_ListSelectedCalendars"
  "answers apart (rpc_ListProjects archived)" "answers apart (rpc_GetProject i)"
  unfolding rpc_ListCategories_def rpc_GetCategory_def rpc_ListEventCategoryOverlays_def rpc_ListCalendars_def rpc_ListSelectedCalendars_def
    rpc_ListProjects_def rpc_GetProject_def
  by (intro apart_answer_rules)+

lemma work_reads:
  "answers apart rpc_ListWorkSchedules" "answers apart (rpc_GetWorkSchedule i)" "answers apart rpc_ListScheduleExceptions"
  "answers apart (rpc_ExpectedTimeForDate date)" "answers apart (rpc_ExpectedTimeForRange a b)"
  unfolding rpc_ListWorkSchedules_def rpc_GetWorkSchedule_def rpc_ListScheduleExceptions_def rpc_ExpectedTimeForDate_def
    rpc_ExpectedTimeForRange_def
  by (intro apart_answer_rules)+

lemma entry_reads:
  "answers apart (rpc_ListEvents dp p)" "answers apart (rpc_GetEvent dp i)" "answers apart (rpc_ListTimeEntries p)"
  "answers apart (rpc_GetTimeEntry i p)" "answers apart (rpc_ListReviewDecisions p)" "answers apart (rpc_ListTzSegments p)"
  "answers apart (rpc_ComputeGaps dp p)"
  unfolding rpc_ListEvents_def rpc_GetEvent_def rpc_ListTimeEntries_def rpc_GetTimeEntry_def rpc_ListReviewDecisions_def
    rpc_ListTzSegments_def rpc_ComputeGaps_def
  by (intro apart_answer_rules)+

lemma export_reads:
  "answers apart (rpc_RenderPeriodExport dp p key)" "answers apart (rpc_BuildPeriodExport dp p)" "answers apart rpc_ListExportTemplates"
  "answers apart (rpc_GetExportTemplate key)" "answers apart (rpc_PreviewExport dp preview)" "answers apart (rpc_ListExportFieldCatalog grain layout)"
  "answers apart (rpc_GetSetting k)"
  unfolding rpc_RenderPeriodExport_def rpc_BuildPeriodExport_def rpc_ListExportTemplates_def rpc_GetExportTemplate_def rpc_PreviewExport_def
    rpc_ListExportFieldCatalog_def rpc_GetSetting_def
  by (intro apart_answer_rules)+

lemma window_reads:
  assumes "parts_sound engine dp"
  shows "answers apart (rpc_ListGapEvidence dp a b)" "answers apart (rpc_SuggestGapFill dp a b)"
  unfolding rpc_ListGapEvidence_def rpc_SuggestGapFill_def
  by (intro apart_answer_rules apart_gap_evidence apart_suggest parts_soundD [OF assms]; assumption)+

lemma integration_reads:
  assumes "parts_sound engine dp"
  shows "answers apart (rpc_ListIntegrationConnections dp)" "answers apart (rpc_RefreshGitHubRepos dp a)"
    "answers apart (rpc_RefreshSlackChannels dp a)" "answers apart (rpc_RefreshBitbucketResources dp a)"
    "answers apart rpc_ListGitHubRepos" "answers apart (rpc_SetGitHubRepoSelected i b)" "answers apart rpc_ListSlackChannels"
    "answers apart (rpc_SetSlackChannelSelected i b)" "answers apart rpc_ListBitbucketWorkspaces"
    "answers apart (rpc_SetBitbucketWorkspaceSelected i b)" "answers apart rpc_ListBitbucketRepos"
    "answers apart (rpc_SetBitbucketRepoSelected i b)" "answers apart (rpc_ListIntegrationProviders dp)"
  unfolding rpc_ListIntegrationConnections_def rpc_RefreshGitHubRepos_def rpc_RefreshSlackChannels_def rpc_RefreshBitbucketResources_def
    rpc_ListGitHubRepos_def rpc_SetGitHubRepoSelected_def rpc_ListSlackChannels_def rpc_SetSlackChannelSelected_def
    rpc_ListBitbucketWorkspaces_def rpc_SetBitbucketWorkspaceSelected_def rpc_ListBitbucketRepos_def rpc_SetBitbucketRepoSelected_def
    rpc_ListIntegrationProviders_def
  by (intro apart_answer_rules parts_soundD [OF assms]; assumption)+

lemma status_reads: "answers apart (rpc_GetIntegrationAuthStatus dp p)"
proof -
  have "answers apart (integrationAuthStatus dp q)" for q
    unfolding integrationAuthStatus_def Let_def by (intro apart_answer_rules)
  then show ?thesis
    unfolding rpc_GetIntegrationAuthStatus_def Let_def
    by (auto simp: answers_def checked_def refused_def apart.frame_refl split: option.split prod.split sum.split) (metis snd_conv)+
qed

lemma connect_reads:
  assumes "parts_sound engine dp"
  shows "trim_space p \<noteq> ''google'' \<Longrightarrow> answers apart (rpc_ConnectIntegration dp p a label pat)" "answers apart (rpc_DisconnectIntegration dp p a)"
  using parts_soundD(2) [OF assms]
  unfolding rpc_ConnectIntegration_def rpc_DisconnectIntegration_def Let_def
  by (auto intro!: apart_answer_rules apart_connects apart_disconnects)


text \<open>The requests that write.\<close>

lemmas sound_answer_rules = answers_rules [where R = "desk_sound engine" for engine] answers_if desk.frame_relation_axioms desk_in_db

lemma category_writes:
  "answers (desk_sound engine) (rpc_CreateCategory ci)" "answers (desk_sound engine) (rpc_UpdateCategory i ci)"
  "answers (desk_sound engine) (rpc_DeleteCategory i)" "answers (desk_sound engine) (rpc_ArchiveCategory now i)"
  "answers (desk_sound engine) (rpc_CreateProject pj)" "answers (desk_sound engine) (rpc_UpdateProject i pj)"
  "answers (desk_sound engine) (rpc_DeleteProject i)" "answers (desk_sound engine) (rpc_ArchiveProject now i)"
  "answers (desk_sound engine) (rpc_SetCalendarSelected c b)" "answers (desk_sound engine) (rpc_SetCalendarDefaultCategory c k)"
  unfolding rpc_CreateCategory_def rpc_UpdateCategory_def rpc_DeleteCategory_def rpc_ArchiveCategory_def rpc_CreateProject_def
    rpc_UpdateProject_def rpc_DeleteProject_def rpc_ArchiveProject_def rpc_SetCalendarSelected_def rpc_SetCalendarDefaultCategory_def
  by (intro sound_answer_rules sound_category_operations sound_project_operations sound_calendar_operations)+

lemma work_writes:
  "answers (desk_sound engine) (rpc_EnsureCurrentPeriod dp today tz)" "answers (desk_sound engine) (rpc_ReplaceActiveWorkSchedule dp zone start from_date days)"
  "answers (desk_sound engine) (rpc_UpsertScheduleException date kind minutes ws)" "answers (desk_sound engine) (rpc_DeleteScheduleException date)"
  "answers (desk_sound engine) (rpc_SetSetting key v)"
  unfolding rpc_EnsureCurrentPeriod_def rpc_ReplaceActiveWorkSchedule_def rpc_UpsertScheduleException_def rpc_DeleteScheduleException_def
    rpc_SetSetting_def SetSetting_def Let_def
  by (intro sound_answer_rules sound_schedule_operations sound_period_operations sound_settings moves_mapErr)+

lemma entry_writes:
  "answers (desk_sound engine) (rpc_CreateTimeEntry dp input)" "answers (desk_sound engine) (rpc_CreateGapTimeEntry dp input)"
  "answers (desk_sound engine) (rpc_UpdateTimeEntry dp i input)" "answers (desk_sound engine) (rpc_DeleteTimeEntry i p)"
  "answers (desk_sound engine) (rpc_ConfirmTimeEntry dp cf)" "answers (desk_sound engine) (rpc_RejectTimeEntry i p)"
  "answers (desk_sound engine) (rpc_AdjustDraftTimeEntry dp i input)" "answers (desk_sound engine) (rpc_SplitTimeEntry dp i p cuts)"
  "answers (desk_sound engine) (rpc_ConvertAllDayEvent dp e input)" "answers (desk_sound engine) (rpc_ResolveReviewDecision dp i action)"
  "answers (desk_sound engine) (rpc_ExcludeEvent e p)"
  unfolding rpc_CreateTimeEntry_def rpc_CreateGapTimeEntry_def rpc_UpdateTimeEntry_def rpc_DeleteTimeEntry_def rpc_ConfirmTimeEntry_def
    rpc_RejectTimeEntry_def rpc_AdjustDraftTimeEntry_def rpc_SplitTimeEntry_def rpc_ConvertAllDayEvent_def rpc_ResolveReviewDecision_def
    rpc_ExcludeEvent_def
  by (intro sound_answer_rules sound_ledger_operations sound_review_operations)+

lemma template_writes:
  assumes "parts_sound engine dp"
  shows "answers (desk_sound engine) (rpc_CreateExportTemplate dp input)" "answers (desk_sound engine) (rpc_UpdateExportTemplate dp i input)"
    "answers (desk_sound engine) (rpc_DeleteExportTemplate i)" "answers (desk_sound engine) (rpc_DuplicateExportTemplate dp key)"
  unfolding rpc_CreateExportTemplate_def rpc_UpdateExportTemplate_def rpc_DeleteExportTemplate_def rpc_DuplicateExportTemplate_def
    parts_soundD(1) [OF assms]
  by (intro sound_answer_rules sound_template_operations)+

lemma calendar_writes:
  assumes "parts_sound engine dp"
  shows "answers (desk_sound engine) (rpc_SyncPeriod dp now p)" "answers (desk_sound engine) (rpc_ConnectIntegration dp name a label pat)"
proof -
  show "answers (desk_sound engine) (rpc_SyncPeriod dp now p)"
    unfolding rpc_SyncPeriod_def by (intro sound_answer_rules parts_soundD(8) [OF assms])
  show "answers (desk_sound engine) (rpc_ConnectIntegration dp name a label pat)"
  proof (cases "trim_space name = ''google''")
    case True
    then show ?thesis
      using parts_soundD(2) [OF assms] unfolding rpc_ConnectIntegration_def Let_def
      by (auto intro!: sound_answer_rules desk_google_connect)
  next
    case False
    then show ?thesis by (intro apart_answers connect_reads(1) [OF assms])
  qed
qed


section \<open>All of them\<close>

lemma reads_leave_database:
  assumes "parts_sound engine dp" "reads rq"
  shows "answers apart (NewHandler dp now rq)"
proof (cases rq)
  case (Period r)
  then show ?thesis using assms(2) by (cases r) (auto intro!: answers_rules(8) period_reads)
next
  case (Category r)
  then show ?thesis using assms(2) by (cases r) (auto intro!: answers_rules(8) category_reads)
next
  case (Project r)
  then show ?thesis using assms(2) by (cases r) (auto intro!: answers_rules(8) category_reads)
next
  case (Work r)
  then show ?thesis using assms(2) by (cases r) (auto intro!: answers_rules(8) work_reads)
next
  case (Calendar r)
  then show ?thesis using assms(2) by (cases r) (auto intro!: answers_rules(8) category_reads)
next
  case (Entry r)
  then show ?thesis using assms(2) by (cases r) (auto intro!: answers_rules(8) entry_reads window_reads [OF assms(1)])
next
  case (Settings r)
  then show ?thesis using assms(2) by (cases r) (auto intro!: answers_rules(8) export_reads)
next
  case (Integration r)
  then show ?thesis
    using assms(2) by (cases r) (auto intro!: answers_rules(8) integration_reads [OF assms(1)] status_reads connect_reads [OF assms(1)])
next
  case (Export r)
  then show ?thesis using assms(2) by (cases r) (auto intro!: answers_rules(8) export_reads)
qed

lemma request_sound:
  assumes parts: "parts_sound engine dp"
  shows "answers (desk_sound engine) (NewHandler dp now rq)"
proof (cases "reads rq")
  case True
  then show ?thesis by (intro apart_answers reads_leave_database [OF parts])
next
  case False
  then show ?thesis
  proof (cases rq)
    case (Period r)
    then show ?thesis using False by (cases r) (auto intro!: answers_rules(8) work_writes)
  next
    case (Category r)
    then show ?thesis using False by (cases r) (auto intro!: answers_rules(8) category_writes)
  next
    case (Project r)
    then show ?thesis using False by (cases r) (auto intro!: answers_rules(8) category_writes)
  next
    case (Work r)
    then show ?thesis using False by (cases r) (auto intro!: answers_rules(8) work_writes)
  next
    case (Calendar r)
    then show ?thesis using False by (cases r) (auto intro!: answers_rules(8) category_writes calendar_writes [OF parts])
  next
    case (Entry r)
    then show ?thesis using False by (cases r) (auto intro!: answers_rules(8) entry_writes)
  next
    case (Settings r)
    then show ?thesis using False by (cases r) (auto intro!: answers_rules(8) work_writes)
  next
    case (Integration r)
    then show ?thesis using False by (cases r) (auto intro!: answers_rules(8) calendar_writes [OF parts])
  next
    case (Export r)
    then show ?thesis using False by (cases r) (auto intro!: answers_rules(8) template_writes [OF parts])
  qed
qed


section \<open>Refused requests\<close>

text \<open>An answer with a code leaves the database as it was.\<close>

definition harmless :: "'a rpc \<Rightarrow> bool" where
  "harmless m \<longleftrightarrow> (\<forall>s c t. m s = (Inl c, t) \<longrightarrow> apart s t)"

lemma harmless_rules:
  "atomic m \<Longrightarrow> harmless (served f (in_db m))"
  "answers apart a \<Longrightarrow> harmless a"
  "(ok \<Longrightarrow> harmless n) \<Longrightarrow> harmless (checked ok n)"
  "(\<And>i. timeEntryInput input = Some i \<Longrightarrow> harmless (h i)) \<Longrightarrow> harmless (with_entry input h)"
  "harmless n \<Longrightarrow> harmless (coded n)"
proof -
  show "atomic m \<Longrightarrow> harmless (served f (in_db m))"
    unfolding harmless_def served_def in_db_def apart_def
    by (auto split: prod.splits sum.splits dest: atomicD)
  show "answers apart a \<Longrightarrow> harmless a"
    unfolding harmless_def answers_def by (metis snd_conv)
qed (auto simp: harmless_def checked_def with_entry_def coded_def refused_def apart.frame_refl split: option.splits prod.splits sum.splits)

text \<open>The requests that are done at once: all but those that write in several transactions.\<close>

fun at_once :: "api_request \<Rightarrow> bool" where
  "at_once (Period (PeriodEnsure _ _)) = False"
| "at_once (Calendar (CalendarSelect _ _)) = False"
| "at_once (Calendar (CalendarSync _)) = False"
| "at_once (Entry (EntryConfirm input)) = (cf_overlap input \<noteq> OverlapKeepMine)"
| "at_once (Integration (Connect p _ _ _)) = (trim_space p \<noteq> ''google'')"
| "at_once _ = True"

lemma atomic_set_setting: "atomic (SetSetting key v)"
  unfolding SetSetting_def q_SetSetting_def by (intro atomic_writes)

lemma harmless_handlers:
  "harmless (rpc_CreateCategory ci)" "harmless (rpc_UpdateCategory i ci)" "harmless (rpc_DeleteCategory i)" "harmless (rpc_ArchiveCategory now i)"
  "harmless (rpc_CreateProject pj)" "harmless (rpc_UpdateProject i pj)" "harmless (rpc_DeleteProject i)" "harmless (rpc_ArchiveProject now i)"
  "harmless (rpc_SetCalendarDefaultCategory c k)" "harmless (rpc_ReplaceActiveWorkSchedule dp zone start from_date days)"
  "harmless (rpc_UpsertScheduleException date kind minutes ws)" "harmless (rpc_DeleteScheduleException date)" "harmless (rpc_SetSetting key v)"
  "harmless (rpc_CreateExportTemplate dp tin)" "harmless (rpc_UpdateExportTemplate dp i tin)" "harmless (rpc_DeleteExportTemplate i)"
  "harmless (rpc_DuplicateExportTemplate dp key)"
  unfolding rpc_CreateCategory_def rpc_UpdateCategory_def rpc_DeleteCategory_def rpc_ArchiveCategory_def rpc_CreateProject_def
    rpc_UpdateProject_def rpc_DeleteProject_def rpc_ArchiveProject_def rpc_SetCalendarDefaultCategory_def rpc_ReplaceActiveWorkSchedule_def
    rpc_UpsertScheduleException_def rpc_DeleteScheduleException_def rpc_SetSetting_def rpc_CreateExportTemplate_def rpc_UpdateExportTemplate_def
    rpc_DeleteExportTemplate_def rpc_DuplicateExportTemplate_def
  by (intro harmless_rules atomic_category_operations atomic_update_category atomic_replace atomic_upsert_exception
      atomic_delete_exception atomic_set_setting atomic_template_operations)+

lemma harmless_entry_handlers:
  "harmless (rpc_CreateTimeEntry dp input)" "harmless (rpc_CreateGapTimeEntry dp input)" "harmless (rpc_UpdateTimeEntry dp i input)"
  "harmless (rpc_DeleteTimeEntry i p)" "cf_overlap cf \<noteq> OverlapKeepMine \<Longrightarrow> harmless (rpc_ConfirmTimeEntry dp cf)"
  "harmless (rpc_RejectTimeEntry i p)" "harmless (rpc_AdjustDraftTimeEntry dp i input)" "harmless (rpc_SplitTimeEntry dp i p cuts)"
  "harmless (rpc_ConvertAllDayEvent dp e input)" "harmless (rpc_ResolveReviewDecision dp i action)" "harmless (rpc_ExcludeEvent e p)"
  unfolding rpc_CreateTimeEntry_def rpc_CreateGapTimeEntry_def rpc_UpdateTimeEntry_def rpc_DeleteTimeEntry_def rpc_ConfirmTimeEntry_def
    rpc_RejectTimeEntry_def rpc_AdjustDraftTimeEntry_def rpc_SplitTimeEntry_def rpc_ConvertAllDayEvent_def rpc_ResolveReviewDecision_def
    rpc_ExcludeEvent_def
  by (intro harmless_rules atomic_entry_operations atomic_user_update atomic_confirm atomic_reject atomic_adjust atomic_split; assumption?)+

lemma request_harmless:
  assumes parts: "parts_sound engine dp" and "at_once rq"
  shows "harmless (NewHandler dp now rq)"
proof (cases "reads rq")
  case True
  then show ?thesis by (intro harmless_rules(2) reads_leave_database [OF parts])
next
  case False
  then show ?thesis
  proof (cases rq)
    case (Period r)
    then show ?thesis using False assms(2) by (cases r) auto
  next
    case (Category r)
    then show ?thesis using False by (cases r) (auto intro!: harmless_rules(5) harmless_handlers)
  next
    case (Project r)
    then show ?thesis using False by (cases r) (auto intro!: harmless_rules(5) harmless_handlers)
  next
    case (Work r)
    then show ?thesis using False by (cases r) (auto intro!: harmless_rules(5) harmless_handlers)
  next
    case (Calendar r)
    then show ?thesis using False assms(2) by (cases r) (auto intro!: harmless_rules(5) harmless_handlers)
  next
    case (Entry r)
    then show ?thesis using False assms(2) by (cases r) (auto intro!: harmless_rules(5) harmless_entry_handlers)
  next
    case (Settings r)
    then show ?thesis using False by (cases r) (auto intro!: harmless_rules(5) harmless_handlers)
  next
    case (Integration r)
    then show ?thesis using False assms(2) by (cases r) auto
  next
    case (Export r)
    then show ?thesis using False by (cases r) (auto intro!: harmless_rules(5) harmless_handlers)
  qed
qed

end
