(* ===== verification/Session_Laws.thy ===== *)
theory Session_Laws
  imports Application Api_Requests
begin

text \<open>
  What a user does, step by step: the bound methods of the program change the database only by the
  settings they save and the calendars of an account they connect, and the log changes nothing.
\<close>


section \<open>Bound methods and the database\<close>

definition stays :: "(desk \<Rightarrow> desk \<Rightarrow> bool) \<Rightarrow> 'a bound \<Rightarrow> bool" where
  "stays R m \<longleftrightarrow> (\<forall>s. R (ap_desk s) (ap_desk (snd (m s))))"

lemma log_info_desk [simp]: "ap_desk (log_info operation extra msg s) = ap_desk s"
  by (simp add: log_info_def)

lemma stays_rules:
  "moves R m \<Longrightarrow> stays R (with_log pa operation m)" "moves R m \<Longrightarrow> stays R (connecting pa operation f m)"
  by (auto simp: stays_def moves_def with_log_def connecting_def split: prod.splits sum.splits) (metis snd_conv)+

lemma silent_stays: "stays R m \<Longrightarrow> R (ap_desk s) (ap_desk (silent m s))"
  by (simp add: stays_def silent_def)

lemma asked_moves: "frame_relation R \<Longrightarrow> (\<And>x. p = Some x \<Longrightarrow> moves R (m x)) \<Longrightarrow> moves R (asked_of p m)"
  by (auto simp: asked_of_def moves_def frame_relation.frame_refl split: option.split)

lemma apart_chat:
  "moves apart (ListAIModels rm store parse base key)" "moves apart (ValidateAIConfig rm store parse ip base key model)"
  "moves apart (SaveAIAPIKey store key)" "moves apart (ClearAIAPIKey store)" "moves apart (DiscoverLocalEndpoints rm parse ip)"
proof -
  have call: "moves apart (chat_call rm q)" for rm q unfolding chat_call_def by (intro apart_rules)
  have models: "moves apart (ListModels rm c)" for rm c
    unfolding ListModels_def Let_def by (intro apart_rules call)
  have completion: "moves apart (ChatCompletion rm c model a b n)" for rm c model a b n
    unfolding ChatCompletion_def Let_def by (intro apart_rules call)
  have validate: "moves apart (ValidateModel rm c model)" for rm c model
    by (cases c; simp only: ValidateModel.simps; intro apart_rules completion call)
  have probe: "moves apart (probe_endpoint rm parse ip c)" for c
    using models [of rm] unfolding moves_def probe_endpoint_def by (auto simp: Let_def split: prod.splits sum.splits) (metis snd_conv)+
  have probes: "moves apart (probe_all rm parse ip cs)" for cs
    by (induction cs; simp only: probe_all.simps; intro apart_rules probe; assumption)
  show "moves apart (ListAIModels rm store parse base key)" "moves apart (ValidateAIConfig rm store parse ip base key model)"
    unfolding ListAIModels_def ValidateAIConfig_def Let_def by (intro apart_rules models completion validate)+
  show "moves apart (SaveAIAPIKey store key)" "moves apart (ClearAIAPIKey store)"
    unfolding SaveAIAPIKey_def ClearAIAPIKey_def by (intro apart_rules)+
  show "moves apart (DiscoverLocalEndpoints rm parse ip)"
    unfolding DiscoverLocalEndpoints_def by (rule probes)
qed

lemma app_stays:
  assumes parts: "parts_sound engine (pa_api pa)"
  shows "stays (desk_sound engine) (ConnectGoogle pa account label)" "stays apart (DisconnectGoogle pa account)"
    "stays apart (ConnectGitHub pa pat)" "stays apart (DisconnectGitHub pa account)" "stays apart (ConnectSlack pa)"
    "stays apart (DisconnectSlack pa account)"
  unfolding ConnectGoogle_def DisconnectGoogle_def ConnectGitHub_def DisconnectGitHub_def ConnectSlack_def DisconnectSlack_def
  by (intro stays_rules asked_moves desk.frame_relation_axioms apart.frame_relation_axioms desk_google_connect
      apart_connects apart_disconnects parts_soundD(2) [OF parts])+

lemma settings_sound: "moves (sound engine) (SaveAIEndpoint base)" "moves (sound engine) (SaveAIModel model)" "moves (sound engine) (SaveAIConfig base model)"
  unfolding SaveAIConfig_def SaveAIEndpoint_def SaveAIModel_def by (intro sound_rules)+

lemma model_stays:
  "stays apart (DiscoverLocalAIEndpoints pa)" "stays apart (bound_ListAIModels pa base key)" "stays apart (bound_ValidateAIConfig pa base key model)"
  "stays (desk_sound engine) (bound_SaveAIEndpoint pa base)" "stays (desk_sound engine) (bound_SaveAIModel pa model)"
  "stays (desk_sound engine) (bound_SaveAIConfig pa base model)" "stays apart (bound_SaveAIAPIKey pa key)" "stays apart (bound_ClearAIAPIKey pa)"
proof -
  show "stays apart (DiscoverLocalAIEndpoints pa)"
    using apart_chat(5) unfolding stays_def DiscoverLocalAIEndpoints_def moves_def by (auto simp: Let_def split: prod.splits) (metis snd_conv)
qed (use apart_chat settings_sound in \<open>auto simp: bound_ListAIModels_def bound_ValidateAIConfig_def bound_SaveAIEndpoint_def bound_SaveAIModel_def
    bound_SaveAIConfig_def bound_SaveAIAPIKey_def bound_ClearAIAPIKey_def Let_def intro!: stays_rules desk_in_db\<close>)

lemma apart_stays: "stays apart m \<Longrightarrow> stays (desk_sound engine) m"
  unfolding stays_def apart_def desk_sound_def by (metis sound.frame_refl)

lemma bound_sound:
  assumes parts: "parts_sound engine (pa_api pa)"
  shows "desk_sound engine (ap_desk s) (ap_desk (run_bound pa c s))"
  using app_stays(1) [OF parts] app_stays(2-6) [OF parts, THEN apart_stays] model_stays(1-3,7,8) [THEN apart_stays] model_stays(4-6)
  by (cases c) (simp_all add: silent_stays)

text \<open>The lines of a sync do not change what it does.\<close>

lemma wrapped_desk: "ap_desk (snd (wrapSyncPeriod pa sync now p s)) = snd (sync now p (ap_desk s))"
  by (simp add: wrapSyncPeriod_def Let_def split: prod.split sum.split)

lemma request_desk: "ap_desk (run_request pa now rq s) = snd (NewHandler (pa_api pa) now rq (ap_desk s))"
proof -
  have "ap_desk (silent (wrapSyncPeriod pa sync now p) s) = snd (coded (rpc_SyncPeriod (pa_api pa) now p) (ap_desk s))"
    if "dp_sync (pa_api pa) = Some sync" "requireID p" for sync p
    unfolding silent_def wrapped_desk rpc_SyncPeriod_def
    using that by (simp add: checked_def available_def coded_def served_def split: prod.split sum.split)
  then show ?thesis
    by (auto simp: run_request_def Let_def split: api_request.splits calendar_request.splits option.splits)
qed

lemma session_of_steps:
  assumes parts: "parts_sound engine (pa_api pa)"
  shows "desk_sound engine (ap_desk s) (ap_desk (session pa steps s))"
  unfolding session_def
proof (induction steps arbitrary: s)
  case Nil
  show ?case by (simp add: desk.frame_refl)
next
  case (Cons step steps)
  have "desk_sound engine (ap_desk s) (ap_desk (run_step pa step s))"
  proof (cases step)
    case (Asked now rq)
    then show ?thesis using request_sound [OF parts, of now rq] by (simp add: request_desk answers_def)
  next
    case (Called c)
    then show ?thesis using bound_sound [OF parts] by simp
  qed
  then show ?case using Cons.IH [of "run_step pa step s"] by (auto intro: desk.frame_trans)
qed

end
