(* ===== verification/Seed.thy ===== *)
theory Seed
  imports Integrity Periods
begin

text \<open>
  The starter data of a database: internal/seed/seed.go. Go leaves the order open in which the
  settings are written; here they come in the order of the source.
\<close>


section \<open>Core\<close>

definition defaultCategories :: "(string \<times> string \<times> string \<times> bool) list" where
  "defaultCategories = [
     (''Meetings'', ''Syncs, 1:1s, standups, and client calls'', ''#0EA5E9'', False),
     (''Deep Work'', ''Focused individual work without meetings'', ''#8B5CF6'', True),
     (''Admin'', ''Operations, planning, and internal admin tasks'', ''#F59E0B'', False),
     (''Email & Comms'', ''Email, Slack, and async communication'', ''#14B8A6'', False),
     (''Breaks'', ''Lunch, breaks, and personal time'', ''#64748B'', False)]"

definition defaultSettings :: "(string \<times> json) list" where
  "defaultSettings = [
     (''privacy.fields'', JObj [(''title'', JBool True), (''attendees'', JBool True), (''description'', JBool False), (''location'', JBool False)]),
     (''privacy.confirmed'', JBool False),
     (''events.declined'', JStr ''exclude''),
     (''events.accepted'', JStr ''include''),
     (''events.tentative'', JStr ''flag''),
     (''events.all_day'', JStr ''flag''),
     (''app.theme'', JStr ''system''),
     (''period.cadence'', JStr ''bi-weekly''),
     (''ai.base_url'', JStr ''''),
     (''ai.model'', JStr ''''),
     (''ai.max_tokens'', JInt 512)]"

definition q_CountWorkSchedules :: "db \<Rightarrow> int" where
  "q_CountWorkSchedules d = count_rows (\<lambda>_. True) (tbl_rows (db_schedules d))"

definition default_week :: "(string \<times> int \<times> bool) list" where
  "default_week = [(''monday'', 480, True), (''tuesday'', 480, True), (''wednesday'', 480, True), (''thursday'', 480, True),
     (''friday'', 480, True), (''saturday'', 0, False), (''sunday'', 0, False)]"

definition seed_day :: "int \<Rightarrow> string \<times> int \<times> bool \<Rightarrow> (db, unit) act" where
  "seed_day sched = (\<lambda>(name, minutes, window).
     act_bind (q_CreateWorkScheduleDay sched name minutes) (\<lambda>row.
       if window then act_seq (q_CreateWorkScheduleWindow (wd_id row) (9 * 60) (9 * 60 + 480)) (act_ret ()) else act_ret ()))"

definition seedDefaultWorkSchedule :: "(db, unit) act" where
  "seedDefaultWorkSchedule = act_bind (act_gets q_CountWorkSchedules) (\<lambda>n.
     if 0 < n then act_ret ()
     else act_bind (q_CreateWorkSchedule ''America/Toronto'' ''monday'' ''1970-01-01'' None) (\<lambda>sched.
       act_seq (for_each (seed_day (ws_id sched)) default_week) (act_ret ())))"

definition seed_category :: "string \<times> string \<times> string \<times> bool \<Rightarrow> (db, category) act" where
  "seed_category = (\<lambda>(name, desc, color, gap). q_CreateCategory name desc name gap color)"

definition seed_setting :: "string \<times> json \<Rightarrow> (db, unit) act" where
  "seed_setting = (\<lambda>(k, v). act_bind (act_gets (q_GetSetting k)) (\<lambda>old.
     if old = None then q_SetSetting k v else act_ret ()))"

definition Core :: "(db, unit) act" where
  "Core = act_bind (act_gets q_ListCategories) (\<lambda>existing.
     act_seq (if existing = [] then act_seq (for_each seed_category defaultCategories) (act_ret ()) else act_ret ())
       (act_seq (for_each seed_setting defaultSettings) seedDefaultWorkSchedule))"


section \<open>Dev\<close>

definition localMinute :: "string \<Rightarrow> int \<Rightarrow> location \<Rightarrow> instant" where
  "localMinute day minutes loc = (case parse_date day of None \<Rightarrow> zero_time | Some n \<Rightarrow> date_in loc n minutes)"

definition dev_events :: "(string \<times> string \<times> string \<times> int \<times> int) list" where
  "dev_events = [
     (''dev-sprint-planning'', ''Sprint planning'', ''2026-06-02'', 8 * 60 + 30, 10 * 60),
     (''dev-design-review'', ''Design review'', ''2026-06-02'', 9 * 60 + 15, 10 * 60 + 30),
     (''dev-vendor-call'', ''Vendor call'', ''2026-06-04'', 7 * 60, 8 * 60)]"

definition dev_event :: "int \<Rightarrow> int \<Rightarrow> location \<Rightarrow> string \<times> string \<times> string \<times> int \<times> int \<Rightarrow> event" where
  "dev_event p cal loc = (\<lambda>(ext, title, day, from, to).
     \<lparr>ev_id = 0, ev_period = p, ev_calendar = cal, ev_provider = ''google'', ev_external = ext, ev_instance = '''', ev_recurring = '''',
      ev_ical = ext @ ''@shiet.dev'', ev_title = title, ev_description = '''', ev_location = '''', ev_organizer = '''', ev_attendees = ''[]'',
      ev_status = ''accepted'', ev_all_day = False, ev_start_utc = Some (format_rfc3339 (localMinute day from loc)),
      ev_end_utc = Some (format_rfc3339 (localMinute day to loc)), ev_start_date = None, ev_end_date = None, ev_tz = ''America/Toronto'',
      ev_active = True, ev_hash = ''dev-seed-v1:'' @ ext\<rparr>)"

definition seedDevEvents :: "tzdb \<Rightarrow> int \<Rightarrow> int \<Rightarrow> (db, unit) act" where
  "seedDevEvents tz p cal = act_bind (act_the ErrOther (tz ''America/Toronto'')) (\<lambda>loc.
     act_seq (for_each (\<lambda>e. q_UpsertEvent (dev_event p cal loc e)) dev_events) (act_ret ()))"

definition Dev :: "tzdb \<Rightarrow> (db, unit) act" where
  "Dev tz = act_seq Core
     (act_bind (q_UpsertCalendar ''google'' ''primary'' ''Primary'' True) (\<lambda>cal.
        act_seq (q_SetCalendarSelected True (cl_id cal))
          (act_bind (act_gets (q_GetPeriodByRange ''2026-06-01'' ''2026-06-14'')) (\<lambda>found.
             act_bind (case found of
                 None \<Rightarrow> act_bind (q_CreatePeriod ''2026-06-01'' ''2026-06-14'' ''bi-weekly'' ''2026-06-01'') (\<lambda>p.
                   act_seq (q_UpsertTzSegment (pd_id p) ''2026-06-01'' ''America/Toronto'') (act_ret p))
               | Some p \<Rightarrow> act_ret p)
             (\<lambda>p. seedDevEvents tz (pd_id p) (cl_id cal))))))"


section \<open>What Core leaves behind\<close>

text \<open>The database as the migrations leave it: the built-in templates and nothing else.\<close>

definition migrated :: "export_template table \<Rightarrow> db" where
  "migrated ts = empty_db\<lparr>db_templates := ts\<rparr>"

definition seeded_categories :: "category table" where
  "seeded_categories = \<lparr>tbl_rows = map (\<lambda>(i, name, desc, color, gap). \<lparr>ct_id = i, ct_name = name, ct_default_gap = gap,
     ct_description = desc, ct_key = name, ct_color = color, ct_archived = None\<rparr>) (zip [1, 2, 3, 4, 5] defaultCategories), tbl_seq = 5\<rparr>"

lemma seed_categories_run:
  "db_categories d = empty_table \<Longrightarrow> \<exists>rs. for_each seed_category defaultCategories d = (Inr rs, d\<lparr>db_categories := seeded_categories\<rparr>)"
  by (simp add: defaultCategories_def seed_category_def q_CreateCategory_def insert_into_def Let_def ct_ok_def alone_def act_bind_def
      empty_table_def seeded_categories_def)

lemma seeded_categories_wf: "categories_wf seeded_categories"
  by (simp add: categories_wf_def seeded_categories_def defaultCategories_def ids_ok_def unique_in_def category_ok_def CategoryPalette_def)

lemma seed_settings_run: "\<exists>rs st. for_each seed_setting kvs d = (Inr rs, d\<lparr>db_settings := st\<rparr>)"
proof (induction kvs arbitrary: d)
  case Nil
  show ?case by (intro exI [of _ "[]"] exI [of _ "db_settings d"]) (simp add: act_ret_def)
next
  case (Cons kv kvs)
  obtain st where step: "seed_setting kv d = (Inr (), d\<lparr>db_settings := st\<rparr>)"
  proof (cases "q_GetSetting (fst kv) d = None")
    case True
    then show ?thesis by (intro that) (simp add: seed_setting_def case_prod_unfold q_SetSetting_def act_modify_def)
  next
    case False
    then show ?thesis by (intro that [of "db_settings d"]) (auto simp: seed_setting_def case_prod_unfold)
  qed
  from Cons.IH [of "d\<lparr>db_settings := st\<rparr>"] obtain rs st' where
    "for_each seed_setting kvs (d\<lparr>db_settings := st\<rparr>) = (Inr rs, d\<lparr>db_settings := st'\<rparr>)" by auto
  with step show ?case by (auto simp: act_bind_def)
qed

lemma seed_schedule_run:
  assumes "db_schedules d = empty_table" "db_schedule_days d = empty_table" "db_schedule_windows d = empty_table"
  shows "\<exists>d'. seedDefaultWorkSchedule d = (Inr (), d') \<and> db_categories d' = db_categories d \<and> db_settings d' = db_settings d"
  using assms
  by (simp add: seedDefaultWorkSchedule_def q_CountWorkSchedules_def count_rows_def q_CreateWorkSchedule_def seed_day_def default_week_def
      q_CreateWorkScheduleDay_def q_CreateWorkScheduleWindow_def insert_into_def Let_def ws_ok_def wd_ok_def window_ok_def has_id_def alone_def
      act_bind_def act_seq_def empty_table_def weekdays_def)

lemma rest_sound: "sound engine d d' \<Longrightarrow> categories_wf (db_categories d) \<Longrightarrow> sound_rest engine d d'"
  by (simp add: sound_rest_def sound_def)

lemma core_rest: "moves (sound engine) (act_seq (for_each seed_setting kvs) seedDefaultWorkSchedule)"
  unfolding seedDefaultWorkSchedule_def seed_setting_def seed_day_def case_prod_unfold
  by (intro sound_rules)

lemma core_seeds:
  assumes "templates_wf engine ts"
  shows "\<exists>d. Core (migrated ts) = (Inr (), d) \<and> database_wf engine d \<and> builtins (db_templates d) = builtins ts"
proof -
  let ?c = "(migrated ts)\<lparr>db_categories := seeded_categories\<rparr>"
  obtain rs where cats: "for_each seed_category defaultCategories (migrated ts) = (Inr rs, ?c)"
    using seed_categories_run [of "migrated ts"] by (auto simp: migrated_def empty_db_def)
  obtain rs' st where set: "for_each seed_setting defaultSettings ?c = (Inr rs', ?c\<lparr>db_settings := st\<rparr>)"
    using seed_settings_run by blast
  obtain d where sched: "seedDefaultWorkSchedule (?c\<lparr>db_settings := st\<rparr>) = (Inr (), d)"
    using seed_schedule_run [of "?c\<lparr>db_settings := st\<rparr>"] by (auto simp: migrated_def empty_db_def)
  have run: "act_seq (for_each seed_setting defaultSettings) seedDefaultWorkSchedule ?c = (Inr (), d)"
    using set sched by (simp add: act_seq_def act_bind_def)
  have "q_ListCategories (migrated ts) = []"
    by (simp add: q_ListCategories_def migrated_def empty_db_def empty_table_def select_rows_def)
  then have "Core (migrated ts) = (Inr (), d)"
    unfolding Core_def using cats run by (simp add: act_seq_def act_bind_def)
  moreover have "database_wf engine ?c"
    using seeded_categories_wf assms
    by (simp add: database_wf_def migrated_def schedules_wf_def exceptions_wf_def events_wf_def overlays_wf_def empty_db_def empty_table_def ids_ok_def)
  moreover have "sound engine ?c d" using core_rest run by (rule moves_result)
  moreover have "builtins (db_templates ?c) = builtins ts" by (simp add: migrated_def)
  ultimately show ?thesis using sound_wf by metis
qed

end
