(* ===== verification/Api_Properties.thy ===== *)
theory Api_Properties
  imports Session_Laws Seed Account_Properties
begin

text \<open>
  The program as a whole: a session that starts with the seeded database ends in a database of the
  same kind, and a request that only reads or that is refused leaves the database as it was.
\<close>


section \<open>Properties\<close>

text \<open>A program with one template, and without accounts.\<close>

definition plain_template :: export_template where
  "plain_template = \<lparr>xt_id = 1, xt_key = ''summary'', xt_name = ''Summary'', xt_description = '''', xt_format = ''text'',
     xt_builtin = True, xt_body = \<lparr>bd_raw = ''t'', bd_json = None\<rparr>\<rparr>"

definition plain_templates :: "export_template table" where
  "plain_templates = \<lparr>tbl_rows = [plain_template], tbl_seq = 1\<rparr>"

definition plain_config :: app_config where
  "plain_config = (let s = \<lparr>as_mode = ''broker'', as_base = ''https://broker.example'', as_client = '''', as_secret = ''''\<rparr>
     in \<lparr>cf_db = ''shiet.db'', cf_log = '''', cf_level = ''info'', cf_google = s, cf_github = s, cf_slack = s, cf_bitbucket = s\<rparr>)"

definition plain_access :: model_access where
  "plain_access = \<lparr>mx_remote = octo_remote, mx_store = None, mx_url = (\<lambda>_. None), mx_ip = (\<lambda>_. None), mx_marshal = (\<lambda>_. ''''), mx_parse = (\<lambda>_. None)\<rparr>"

definition plain_externals :: externals where
  "plain_externals = \<lparr>ex_tz = (\<lambda>_. None), ex_sha = (\<lambda>s. s), ex_local = (\<lambda>_. True), ex_ask = (\<lambda>_ _ _ _ _. None)\<rparr>"

abbreviation plain_program :: dependencies where
  "plain_program \<equiv> app_dependencies plain_externals (\<lambda>_. None) plain_access octo_remote (\<lambda>_. octo_adapters) plain_config"

definition plain_parts :: app_parts where
  "plain_parts = \<lparr>pa_api = plain_program, pa_log_path = '''',
     pa_text = (\<lambda>_. \<lparr>fi_network = False, fi_deadline = False, fi_canceled = False, fi_text = ''''\<rparr>)\<rparr>"

definition plain_start :: application where
  "plain_start = \<lparr>ap_desk = octo_desk\<lparr>dk_db := snd (Core (migrated plain_templates))\<rparr>, ap_log = [], ap_info = True\<rparr>"

text \<open>
  C3. The integrity of the database through whole sessions. Seeding a migrated database succeeds;
  and whatever a user then does, requests of all services and calls of the bound methods, refused or
  not, with accounts connected and calendars synced or not, the tables stay well formed: ids are
  distinct, exactly one category is the default for gaps, the built-in templates are the ones of the
  migrations, and at any date the lookup of the schedule finds the one in effect. The flows of the
  providers only send requests.
\<close>

theorem sessions_keep_the_database:
  assumes "templates_wf engine ts" "\<forall>p. quiet_flows (flows p)" "pa_api pa = app_dependencies ex engine mx rm flows c"
    and "seeded = Core (migrated ts)" "dk_db (ap_desk s) = snd seeded" "d = dk_db (ap_desk (session pa steps s))"
  shows "fst seeded = Inr () \<and> database_wf engine d \<and> builtins (db_templates d) = builtins ts \<and>
    (\<exists>!k. k \<in> set (tbl_rows (db_categories d)) \<and> ct_default_gap k) \<and>
    (\<forall>w \<in> set (tbl_rows (db_schedules d)). \<forall>date. in_effect date w \<longrightarrow> q_GetWorkScheduleForDate date d = Some w)"
proof -
  obtain d0 where seeds: "Core (migrated ts) = (Inr (), d0)" "database_wf engine d0" "builtins (db_templates d0) = builtins ts"
    using core_seeds [OF assms(1)] by blast
  have start: "dk_db (ap_desk s) = d0" using assms(4,5) seeds(1) by simp
  have "parts_sound engine (pa_api pa)" unfolding assms(3) using assms(2) by (intro app_parts_sound) blast
  then have "sound engine d0 d" using session_of_steps [of engine pa s steps] assms(6) start by (simp add: desk_sound_def)
  then have wf: "database_wf engine d" and same: "builtins (db_templates d) = builtins ts"
    using sound_wf seeds(2,3) by metis+
  have "length (filter ct_default_gap (tbl_rows (db_categories d))) = 1"
    using wf by (simp add: database_wf_def categories_wf_def)
  then obtain k where "filter ct_default_gap (tbl_rows (db_categories d)) = [k]" by (auto simp: length_Suc_conv)
  then have "set (filter ct_default_gap (tbl_rows (db_categories d))) = {k}" by simp
  then have "\<exists>!k. k \<in> set (tbl_rows (db_categories d)) \<and> ct_default_gap k" by (intro ex1I [of _ k]) auto
  moreover have "schedules_wf d" using wf by (simp add: database_wf_def)
  ultimately show ?thesis using wf same seeds(1) assms(4) schedule_for_date by auto
qed

text \<open>One category is deleted, the one for gaps cannot be, and a model is saved.\<close>

abbreviation plain_steps :: "user_step list" where
  "plain_steps \<equiv> [Asked 0 (Category (CategoryDelete 1)), Asked 1 (Category (CategoryDelete 2)), Called (BoundSaveModel ''m'')]"

lemma plain_run: "map ct_id (tbl_rows (db_categories (dk_db (ap_desk (session plain_parts plain_steps plain_start))))) = [2, 3, 4, 5]"
  by code_simp

theorem sessions_keep_the_database_witness:
  "let d = dk_db (ap_desk (session plain_parts plain_steps plain_start))
   in map ct_id (tbl_rows (db_categories d)) = [2, 3, 4, 5] \<and> database_wf (\<lambda>_. None) d"
proof -
  have templates: "templates_wf (\<lambda>_. None) plain_templates"
    by (simp add: templates_wf_def plain_templates_def plain_template_def ids_ok_def)
  have flows: "\<forall>p::string. quiet_flows octo_adapters" using octo_quiet by blast
  have parts: "pa_api plain_parts = plain_program" by (simp add: plain_parts_def)
  have "database_wf (\<lambda>_. None) (dk_db (ap_desk (session plain_parts plain_steps plain_start)))"
    by (rule sessions_keep_the_database [THEN conjunct2, THEN conjunct1, OF templates flows parts refl _ refl]) (simp add: plain_start_def)
  then show ?thesis unfolding Let_def using plain_run by blast
qed

text \<open>
  C14. Refused requests change nothing. A request that does not write to the tables of the service,
  and a request of any service that is answered with a code, leaves these tables as they were. The
  exceptions write in several transactions: ensuring the current period, selecting a calendar,
  syncing, confirming with keep_mine and connecting a Google account.
\<close>

theorem refused_requests_change_nothing:
  assumes "\<forall>p. quiet_flows (flows p)"
    and "NewHandler (app_dependencies ex engine mx rm flows c) now rq s = (answer, t)"
    and "reads rq \<or> at_once rq \<and> answer \<noteq> Inr ()"
  shows "dk_db t = dk_db s"
proof -
  have parts: "parts_sound engine (app_dependencies ex engine mx rm flows c)" using assms(1) by (intro app_parts_sound) blast
  from assms(3) show ?thesis
  proof (elim disjE conjE)
    assume "reads rq"
    then show ?thesis using reads_leave_database [OF parts, of rq now] assms(2) by (auto simp: answers_def apart_def dest: spec [of _ s])
  next
    assume "at_once rq" "answer \<noteq> Inr ()"
    then obtain code where "answer = Inl code" by (cases answer) auto
    then show ?thesis using request_harmless [OF parts \<open>at_once rq\<close>, of now] assms(2) by (auto simp: harmless_def apart_def)
  qed
qed

text \<open>The category for gaps, which cannot be deleted.\<close>

lemma default_delete:
  "fst (NewHandler plain_program 0 (Category (CategoryDelete 2)) (octo_desk\<lparr>dk_db := snd (Core (migrated plain_templates))\<rparr>)) = Inl CodeFailedPrecondition"
  by code_simp

theorem refused_requests_change_nothing_witness:
  "let s = octo_desk\<lparr>dk_db := snd (Core (migrated plain_templates))\<rparr>;
       (answer, t) = NewHandler plain_program 0 (Category (CategoryDelete 2)) s
   in answer = Inl CodeFailedPrecondition \<and> dk_db t = dk_db s"
proof -
  let ?s = "octo_desk\<lparr>dk_db := snd (Core (migrated plain_templates))\<rparr>"
  obtain t where run: "NewHandler plain_program 0 (Category (CategoryDelete 2)) ?s = (Inl CodeFailedPrecondition, t)"
    using default_delete by (metis prod.collapse)
  have "dk_db t = dk_db ?s"
    by (rule refused_requests_change_nothing [OF _ run]) (simp_all add: octo_quiet)
  then show ?thesis using run by simp
qed

end
