(* ===== verification/Spec2Isabelle.thy ===== *)
theory Spec2Isabelle
  imports Core_Properties Catalog_Properties Export_Properties Broker_Properties Account_Properties Desktop_Properties Configuration_Properties
    Logging Chat_Properties Api_Properties
begin

text \<open>
  A verification of clockr (shiet), a desktop timesheet: a Go service over SQLite that knows work
  schedules, pay periods, imported calendar events, a ledger of time entries, a review queue and
  exports, connects calendars and sources of evidence, and is used through an API by its window;
  and a separate OAuth broker that hands provider tokens to the desktop program. The
  theories follow the packages under src/internal and app.go, main.go and integrations.go; definitions keep the names of the Go code (\<open>q_<Name>\<close> is the statement
  \<open>Name\<close> of internal/db/sqlc).

  How the parts interact. A service call is a computation on the database (Prelude: state, an error
  or a result). An error keeps what was written before it, as statements outside a transaction do;
  \<open>in_tx\<close> rolls back. Schedules give the expected time of a date, periods and their time zone
  segments give the days, events and entries occupy them, and what remains are gaps. A re-sync
  merges a pull of events into a period, drafts entries, suggests categories and raises review
  items; decisions on items change events and entries; an export reads confirmed entries. The
  broker is a program of its own: it keeps states and handoffs in a store, counts requests in a
  limiter, and calls the providers. A request of the window reaches a handler of the API, which
  calls the service on the database, or an integration on the accounts, their sources and tokens.

  Foundations.
  Prelude: errors, computations and their frame rules, byte strings, sorting.
  GoTime: the calendar, dates and RFC 3339 texts as texts that parse and print, instants as
  nanoseconds, locations as offset functions, \<open>time.Date\<close>. The time zone database is a parameter.
  Json: decoded JSON values, and filling a struct from one.
  Intervals: the interval algebra, specified by the instants it covers.
  Store, Queries: the tables of models.go as records and the SQL statements on them, with unique
  keys, checks, foreign keys and cascades (locale \<open>table_in\<close>, interpreted for every table).

  Components and their laws.
  Schedule, Schedule_Laws: expected_time.go and work_schedule.go; the invariant of the schedule
  tables, what a date resolves to after a replacement or an exception. Periods: period.go.
  Gaps: gaps.go; the timeline of a day partitions its working time.
  Ledger, Ledger_Laws: time_entry.go and time_entry_confirm.go; frames of the handlers, splitting at
  midnight and around other entries.
  Imported, Review, Decisions, Review_Laws: review_policy.go, review.go, review_decision.go,
  exclude_event.go, all_day_convert.go; what a decision leaves alone, items raised once.
  Sync, Sync_Laws: sync.go, sync_materialize.go, ai_sync.go; the merge of a pull.
  Categories, Category_Laws, Suggest, Gapfill: category.go, category_colors.go, project.go,
  internal/ai, gap_fill_ai.go, evidence.go, evidence_aggregate.go; the invariant of the categories,
  what a language model is shown, and what is read from its reply.
  Export, Tabular, Templates and their laws: export.go, export_tabular.go,
  export_template_crud.go, export_plain_data.go; totals, tables that read back, templates that render.
  Limiter, Broker_Store, Oauth, Broker, Broker_Service, Broker_Operations, Broker_Http and their
  laws: internal/broker. Broker_Store_Laws states the handoff table as a vault of one-time codes, proves the
  refinement, and instantiates the locale \<open>one_time_codes\<close> for both tables; Broker_Laws proves that
  every operation acts on the store by its calls and follows a token from callback to redemption.

  The integrations (internal/integration). Their state is \<open>desk\<close> (Connections): the database, the
  tables of connections, repositories, channels and workspaces, the keychain, and the requests sent
  so far, on which the replies depend.
  Connections: connection/registry.go and secrets. Http_Client: httpclient, with its retries and the
  refresh of tokens. Paging: the loops over pages. Google, Google_Account: the calendar client and its
  account. Activity: what the providers of evidence share. Github, Slack, Bitbucket: those providers.
  Source_Laws, Account_Laws, Account_Properties: connecting as a whole, choices kept, bounded
  evidence; the locale \<open>account_provider\<close> is interpreted for the three of them.
  Desktop, Desktop_Laws, Desktop_Properties: the broker clients (broker_flow.go) and the loopback
  listener (oauth/flow.go) among the browser, other programs and the broker of the theories above;
  authorization end to end.
  Configuration, Configuration_Properties: internal/config and the settings of the providers.
  Chat, Chat_Properties: the clients of language models, the classification of endpoints, the key in
  the keychain and the settings of the model. Logging: internal/log; what is written of secrets.

  The program as a whole.
  Views: what the service shows of its rows (types.go, service.go), the messages of the API and the
  catalog of integrations. Wiring: pulling a period (calendar_sync.go), evidence and the
  suggestion for a gap as they are put together, integrations.go. Api: internal/api/appapi, every
  handler with its checks and codes, and the nine services (\<open>NewHandler\<close>) over what main.go hands to
  them. Application: the bound methods of app.go and their lines in the log; a \<open>session\<close> is a list of
  requests and bound calls. Seed: internal/seed.
  Integrity: the invariant of the database (\<open>database_wf\<close>) and that every operation of the service
  keeps it. Api_Laws, Atomicity, Api_Requests, Session_Laws, Api_Properties: the same for every
  request and every session, and that a refused request changes nothing.

  Samples: concrete inputs. The properties stand in the theories named \<open>_Properties\<close>, each with a
  witness that applies it to a concrete input.

  Parameters, with what is assumed of them where it matters: the time zone database, SHA-256,
  sealing (what was sealed opens again), HTTP (a reply is a function of the requests sent before),
  the encoding of queries and paths, the keychain and which tokens it refuses, the language model
  where only its answer matters, text/template, the parser and printer of URLs, the classes of IP
  addresses, the URL builder of golang.org/x/oauth2, the text of JSON values, koanf and YAML,
  \<open>time.ParseDuration\<close>, clocks, and the surroundings of the desktop flow (browser, other programs,
  random values). Where the accounts of the integrations are treated on their own, their flows are
  parameters (\<open>adapters\<close>) that are assumed to only send requests (\<open>quiet_flows\<close>).

  Representation. Rows are records in tables kept in the order of insertion, which is also the
  order of ties of ORDER BY; columns of times are texts. \<open>created_at\<close> and \<open>updated_at\<close> are not kept.
  Integers of Go are unbounded, except where a width matters (durations, \<open>Sub\<close>, seconds from JSON,
  the 32-bit fields of messages). Case and space are those of ASCII. JSON is structured. Errors carry
  no message, except on the broker's pages. The settings of a fresh database are written in the order
  of the source, where Go takes that of a map.
  Recursion is structural or has a measure, and no fuel is used; the two loops of the code that need
  not end (splitting at local midnights, and following pages that a server may send for ever) are
  partial functions whose \<open>None\<close> is not returning, and a call that runs into one \<open>Diverges\<close>. That
  the first returns in a zone of fixed offset is a property.

  Not modelled: opening the database and running its migrations (I/O; the constraints of the tables
  are part of the statements), the command line tool of cmd/db, the rotating file of the log and its
  levels, the shutdown of the loopback listener, the pages and error texts shown to users, the
  parsing of a callback query on its own, cancellation and deadlines and their codes, the window, its
  file dialog and the folder of the log (calls of the window library), the transport and the
  generated messages of the API, the JSON form of stored tokens, and of the broker its HTML pages,
  log events and the opening of its store.
\<close>

end
